(* ===== verification/Prelude.thy ===== *)
theory Prelude
  imports Complex_Main "HOL-Library.Char_ord" "HOL-Library.List_Lexorder"
begin

text \<open>
  What every component shares: the exceptions of the program as values, the two
  result types the models are written in (a pure result, and an action that also
  passes the state), and the Python string operations the source uses.

  A Python \<open>str\<close> is a \<open>string\<close> whose characters are the code points 0 to 255; the
  code points above are outside the model, and \<open>length\<close> counts code points as
  Python's \<open>len\<close> does.
\<close>

section \<open>Exceptions and results\<close>

text \<open>
  The exceptions the modelled code raises or catches, with their arguments.
  \<open>ReformImpactHandoffError\<close> is a subclass of \<open>CacheCoordinationError\<close> in the
  source; \<open>is_coordination_error\<close> is that \<open>isinstance\<close> test. \<open>HTTPStatusError\<close>
  carries the response's status code, its body and the error's own text;
  \<open>HTTPRequestError\<close> is any other httpx error, with whether it is a transport error, and
  \<open>EntrypointConnectionError\<close> is \<open>SimulationEntrypointConnectionError\<close>. \<open>InvalidIdErr\<close> is
  \<open>InvalidSimulationIdError\<close> or \<open>InvalidReportOutputIdError\<close>, \<open>IntegrityErr\<close> the database's refusal
  of a row.
\<close>

datatype exn =
    ValueError string
  | TypeErr string
  | KeyErr string
  | OverflowErr string
  | RuntimeErr string
  | CacheCoordinationError string
  | ReformImpactHandoffError string
  | SPMValidationError string string
  | PolicyNotFoundError "int list"
  | HTTPStatusError int string string
  | HTTPRequestError bool string
  | EntrypointConnectionError string
  | LookupErr string
  | InvalidIdErr string
  | IntegrityErr string
  | OtherError string

fun is_coordination_error :: "exn \<Rightarrow> bool" where
  "is_coordination_error (CacheCoordinationError m) = True"
| "is_coordination_error (ReformImpactHandoffError m) = True"
| "is_coordination_error e = False"

type_synonym 'a result = "exn + 'a"

fun res_bind :: "'a result \<Rightarrow> ('a \<Rightarrow> 'b result) \<Rightarrow> 'b result" where
  "res_bind (Inl e) f = Inl e"
| "res_bind (Inr x) f = f x"

lemma res_bind_Inr_iff: "res_bind m f = Inr y \<longleftrightarrow> (\<exists>x. m = Inr x \<and> f x = Inr y)"
  by (cases m) auto

lemma res_bind_Inl_iff:
  "res_bind m f = Inl e \<longleftrightarrow> m = Inl e \<or> (\<exists>x. m = Inr x \<and> f x = Inl e)"
  by (cases m) auto

text \<open>A loop that extends a list of findings and stops at the first exception.\<close>

fun res_concat_map :: "('a \<Rightarrow> 'b list result) \<Rightarrow> 'a list \<Rightarrow> 'b list result" where
  "res_concat_map f [] = Inr []"
| "res_concat_map f (x # xs) =
     res_bind (f x) (\<lambda>ys. res_bind (res_concat_map f xs) (\<lambda>zs. Inr (ys @ zs)))"

lemma res_concat_map_Inr:
  "(\<And>x. x \<in> set xs \<Longrightarrow> f x = Inr (g x)) \<Longrightarrow> res_concat_map f xs = Inr (concat (map g xs))"
  by (induction xs) auto

lemma res_concat_map_Nil_iff:
  "res_concat_map f xs = Inr [] \<longleftrightarrow> (\<forall>x\<in>set xs. f x = Inr [])"
  by (induction xs) (auto simp: res_bind_Inr_iff)

lemma res_concat_map_Inr_mem:
  "res_concat_map f xs = Inr zs \<Longrightarrow> z \<in> set zs \<Longrightarrow>
     \<exists>x\<in>set xs. \<exists>ys. f x = Inr ys \<and> z \<in> set ys"
  by (induction xs arbitrary: zs) (auto simp: res_bind_Inr_iff)

lemma res_concat_map_Inr_each:
  "res_concat_map f xs = Inr zs \<Longrightarrow> x \<in> set xs \<Longrightarrow> \<exists>ys. f x = Inr ys \<and> set ys \<subseteq> set zs"
  by (induction xs arbitrary: zs) (auto simp: res_bind_Inr_iff, blast)

section \<open>Actions: state passing with exceptions\<close>

text \<open>
  An action takes the state of the world and returns a result and the new state; an
  exception keeps the effects that happened before it was raised, as in Python.
\<close>

type_synonym ('w, 'a) act = "'w \<Rightarrow> 'a result \<times> 'w"

definition retA :: "'a \<Rightarrow> ('w, 'a) act" where
  "retA x w = (Inr x, w)"

definition raiseA :: "exn \<Rightarrow> ('w, 'a) act" where
  "raiseA e w = (Inl e, w)"

definition bindA :: "('w, 'a) act \<Rightarrow> ('a \<Rightarrow> ('w, 'b) act) \<Rightarrow> ('w, 'b) act" where
  "bindA m f w = (case m w of (Inl e, w') \<Rightarrow> (Inl e, w') | (Inr x, w') \<Rightarrow> f x w')"

text \<open>\<open>catchA m h\<close> is \<open>try: m except Exception as e: h(e)\<close>; the handler re-raises what it
  does not handle.\<close>

definition catchA :: "('w, 'a) act \<Rightarrow> (exn \<Rightarrow> ('w, 'a) act) \<Rightarrow> ('w, 'a) act" where
  "catchA m h w = (case m w of (Inl e, w') \<Rightarrow> h e w' | (Inr x, w') \<Rightarrow> (Inr x, w'))"

definition liftA :: "'a result \<Rightarrow> ('w, 'a) act" where
  "liftA r w = (r, w)"

named_theorems act_simps \<open>unfolding and evaluating actions\<close>

lemma retA_apply [act_simps]: "retA x w = (Inr x, w)"
  by (simp add: retA_def)

lemma raiseA_apply [act_simps]: "raiseA e w = (Inl e, w)"
  by (simp add: raiseA_def)

lemma liftA_apply [act_simps]: "liftA r w = (r, w)"
  by (simp add: liftA_def)

lemma bindA_Inr [act_simps]: "m w = (Inr x, w') \<Longrightarrow> bindA m f w = f x w'"
  by (simp add: bindA_def)

lemma bindA_Inl [act_simps]: "m w = (Inl e, w') \<Longrightarrow> bindA m f w = (Inl e, w')"
  by (simp add: bindA_def)

lemma catchA_Inr [act_simps]: "m w = (Inr x, w') \<Longrightarrow> catchA m h w = (Inr x, w')"
  by (simp add: catchA_def)

lemma catchA_Inl [act_simps]: "m w = (Inl e, w') \<Longrightarrow> catchA m h w = h e w'"
  by (simp add: catchA_def)

lemma bindA_eq_Inr_iff:
  "bindA m f w = (Inr y, w'') \<longleftrightarrow> (\<exists>x w'. m w = (Inr x, w') \<and> f x w' = (Inr y, w''))"
  by (auto simp: bindA_def split: prod.splits sum.splits)

text \<open>A loop that runs an action for each element and collects the results.\<close>

fun mapA :: "('a \<Rightarrow> ('w, 'b) act) \<Rightarrow> 'a list \<Rightarrow> ('w, 'b list) act" where
  "mapA f [] = retA []"
| "mapA f (x # xs) = bindA (f x) (\<lambda>y. bindA (mapA f xs) (\<lambda>ys. retA (y # ys)))"

section \<open>Python string operations\<close>

definition startswith :: "string \<Rightarrow> string \<Rightarrow> bool" where
  "startswith s p \<longleftrightarrow> take (length p) s = p"

definition endswith :: "string \<Rightarrow> string \<Rightarrow> bool" where
  "endswith s p \<longleftrightarrow> length p \<le> length s \<and> drop (length s - length p) s = p"

fun join :: "string \<Rightarrow> string list \<Rightarrow> string" where
  "join sep [] = []"
| "join sep [x] = x"
| "join sep (x # y # ys) = x @ sep @ join sep (y # ys)"

text \<open>\<open>str.split(sep)\<close> for a separator of one character: never the empty list.\<close>

fun split_on :: "char \<Rightarrow> string \<Rightarrow> string list" where
  "split_on c [] = [[]]"
| "split_on c (x # xs) =
     (if x = c then [] # split_on c xs
      else (case split_on c xs of [] \<Rightarrow> [[x]] | p # ps \<Rightarrow> (x # p) # ps))"

lemma split_on_not_Nil [simp]: "split_on c s \<noteq> []"
  by (induction s) (auto split: list.splits)

lemma join_split_on: "join [c] (split_on c s) = s"
proof (induction s)
  case (Cons x xs)
  then show ?case
    by (cases "split_on c xs"; cases "tl (split_on c xs)") auto
qed simp

lemma split_on_single: "c \<notin> set s \<Longrightarrow> split_on c s = [s]"
  by (induction s) auto

lemma split_on_append:
  "c \<notin> set s \<Longrightarrow> split_on c (s @ c # t) = s # split_on c t"
  by (induction s) auto

text \<open>
  \<open>str.lower\<close> and \<open>str.upper\<close> on the code points 0 to 255. The upper case of the micro sign
  and of \<open>y\<close> with diaeresis lies above 255 and is outside the model.
\<close>

definition lower_char :: "char \<Rightarrow> char" where
  "lower_char c =
     (let n = (of_char c :: nat)
      in if (65 \<le> n \<and> n \<le> 90) \<or> (192 \<le> n \<and> n \<le> 222 \<and> n \<noteq> 215) then char_of (n + 32) else c)"

definition upper_char :: "char \<Rightarrow> string" where
  "upper_char c =
     (let n = (of_char c :: nat)
      in if (97 \<le> n \<and> n \<le> 122) \<or> (224 \<le> n \<and> n \<le> 254 \<and> n \<noteq> 247) then [char_of (n - 32)]
         else if n = 223 then ''SS'' else [c])"

definition py_lower :: "string \<Rightarrow> string" where
  "py_lower s = map lower_char s"

definition py_upper :: "string \<Rightarrow> string" where
  "py_upper s = concat (map upper_char s)"

text \<open>\<open>str.casefold\<close>: lower case, with the sharp s as \<open>ss\<close>.\<close>

definition py_casefold :: "string \<Rightarrow> string" where
  "py_casefold s =
     concat (map (\<lambda>c. if (of_char c :: nat) = 223 then ''ss'' else [lower_char c]) s)"

text \<open>\<open>str.split(sep, maxsplit=1)\<close> and \<open>str.partition(sep)\<close>: the text before and after the first.\<close>

definition split_first :: "char \<Rightarrow> string \<Rightarrow> string \<times> string" where
  "split_first c s = (takeWhile (\<lambda>x. x \<noteq> c) s, drop 1 (dropWhile (\<lambda>x. x \<noteq> c) s))"

subsection \<open>Decimal numerals\<close>

definition is_digit :: "char \<Rightarrow> bool" where
  "is_digit c \<longleftrightarrow> 48 \<le> (of_char c :: nat) \<and> (of_char c :: nat) \<le> 57"

definition digit_val :: "char \<Rightarrow> nat" where
  "digit_val c = of_char c - 48"

definition digit_char :: "nat \<Rightarrow> char" where
  "digit_char d = char_of (48 + d)"

fun show_nat :: "nat \<Rightarrow> string" where
  "show_nat n = (if n < 10 then [digit_char n] else show_nat (n div 10) @ [digit_char (n mod 10)])"

declare show_nat.simps [simp del]

definition show_int :: "int \<Rightarrow> string" where
  "show_int i = (if i < 0 then CHR ''-'' # show_nat (nat (- i)) else show_nat (nat i))"

text \<open>The value of a string of digits, most significant first.\<close>

fun digits_val :: "nat \<Rightarrow> string \<Rightarrow> nat" where
  "digits_val acc [] = acc"
| "digits_val acc (c # cs) = digits_val (10 * acc + digit_val c) cs"

lemma digit_char_0: "digit_char 0 = CHR ''0''"
proof -
  have "(of_char (digit_char 0) :: nat) = of_char CHR ''0''"
    by (simp add: digit_char_def)
  then show ?thesis by (simp only: of_char_eq_iff)
qed

lemma show_nat_0: "show_nat 0 = ''0''"
  by (simp add: show_nat.simps [of 0] digit_char_0)

lemma of_char_digit_char: "d < 10 \<Longrightarrow> (of_char (digit_char d) :: nat) = 48 + d"
  by (simp add: digit_char_def)

lemma is_digit_digit_char [simp]: "d < 10 \<Longrightarrow> is_digit (digit_char d)"
  by (simp add: is_digit_def of_char_digit_char)

lemma digit_val_digit_char [simp]: "d < 10 \<Longrightarrow> digit_val (digit_char d) = d"
  by (simp add: digit_val_def of_char_digit_char)

lemma digit_char_digit_val: "is_digit c \<Longrightarrow> digit_char (digit_val c) = c"
  by (simp add: is_digit_def digit_val_def digit_char_def)

lemma digit_val_less: "is_digit c \<Longrightarrow> digit_val c < 10"
  by (auto simp: is_digit_def digit_val_def)

lemma digits_val_append: "digits_val acc (s @ t) = digits_val (digits_val acc s) t"
  by (induction s arbitrary: acc) auto

lemma digits_val_acc: "digits_val acc s = acc * 10 ^ length s + digits_val 0 s"
proof (induction s arbitrary: acc)
  case (Cons c cs)
  show ?case
    using Cons.IH [of "10 * acc + digit_val c"] Cons.IH [of "digit_val c"]
    by (simp add: algebra_simps)
qed simp

lemma show_nat_digits: "\<forall>c\<in>set (show_nat n). is_digit c"
proof (induction n rule: show_nat.induct)
  case (1 n)
  then show ?case
    by (cases "n < 10") (auto simp: show_nat.simps [of n])
qed

lemma show_nat_not_Nil [simp]: "show_nat n \<noteq> []"
  by (simp add: show_nat.simps [of n])

lemma digits_val_show_nat [simp]: "digits_val 0 (show_nat n) = n"
proof (induction n rule: show_nat.induct)
  case (1 n)
  then show ?case
    by (cases "n < 10") (auto simp: show_nat.simps [of n] digits_val_append)
qed

lemma show_nat_inj: "show_nat m = show_nat n \<Longrightarrow> m = n"
  by (metis digits_val_show_nat)

lemma hd_show_nat_zero: "hd (show_nat n) = CHR ''0'' \<Longrightarrow> n = 0"
proof (induction n rule: show_nat.induct)
  case (1 n)
  show ?case
  proof (cases "n < 10")
    case True
    with "1.prems" have "digit_char n = CHR ''0''"
      by (simp add: show_nat.simps [of n])
    then have "digit_val (digit_char n) = digit_val (CHR ''0'')" by simp
    with True show ?thesis by (simp add: digit_val_def of_char_digit_char)
  next
    case False
    with "1.prems" have "hd (show_nat (n div 10)) = CHR ''0''"
      by (simp add: show_nat.simps [of n])
    with False "1.IH" have "n div 10 = 0" by simp
    with False show ?thesis by simp
  qed
qed

lemma show_int_inj: "show_int i = show_int j \<Longrightarrow> i = j"
proof -
  have no: "show_nat n \<noteq> CHR ''-'' # s" for n s
    using show_nat_digits [of n] by (auto simp: is_digit_def)
  assume "show_int i = show_int j"
  then show "i = j"
    using no [symmetric] no by (auto simp: show_int_def dest: show_nat_inj split: if_splits)
qed

text \<open>
  \<open>str.isdigit()\<close>: at least one character, every one a digit. The superscript digits
  (code points 178, 179 and 185) count, although \<open>int()\<close> refuses them.
\<close>

definition py_isdigit :: "string \<Rightarrow> bool" where
  "py_isdigit s \<longleftrightarrow>
     s \<noteq> [] \<and> (\<forall>c\<in>set s. is_digit c \<or> (of_char c :: nat) \<in> {178, 179, 185})"

definition py_isspace :: "char \<Rightarrow> bool" where
  "py_isspace c \<longleftrightarrow>
     (of_char c :: nat) \<in> {9, 10, 11, 12, 13, 28, 29, 30, 31, 32, 133, 160}"

definition py_strip :: "string \<Rightarrow> string" where
  "py_strip s = rev (dropWhile py_isspace (rev (dropWhile py_isspace s)))"

text \<open>
  \<open>int(text)\<close>: surrounding white space, an optional sign, then digits in which single
  underscores may separate groups; anything else raises ValueError.
\<close>

fun digit_groups :: "string \<Rightarrow> nat option" where
  "digit_groups s =
     (let parts = split_on CHR ''_'' s
      in if \<forall>p\<in>set parts. p \<noteq> [] \<and> (\<forall>c\<in>set p. is_digit c)
         then Some (digits_val 0 (concat parts)) else None)"

definition py_int :: "string \<Rightarrow> int result" where
  "py_int text =
     (let s = py_strip text;
          negative = startswith s ''-'';
          body = (if negative \<or> startswith s ''+'' then drop 1 s else s)
      in case digit_groups body of
           None \<Rightarrow> Inl (ValueError ''invalid literal for int() with base 10'')
         | Some n \<Rightarrow> Inr (if negative then - int n else int n))"

lemma digits_no_space:
  assumes "\<forall>c\<in>set s. is_digit c"
  shows "py_strip s = s"
proof -
  have "dropWhile py_isspace t = t" if "\<forall>c\<in>set t. is_digit c" for t
    using that by (cases t) (auto simp: is_digit_def py_isspace_def)
  with assms show ?thesis by (simp add: py_strip_def)
qed

lemma digit_groups_digits:
  assumes "\<forall>c\<in>set s. is_digit c" and "s \<noteq> []"
  shows "digit_groups s = Some (digits_val 0 s)"
proof -
  have "CHR ''_'' \<notin> set s"
    using assms(1) by (auto simp: is_digit_def)
  then show ?thesis
    using assms by (simp add: split_on_single)
qed

lemma py_int_digits:
  assumes "\<forall>c\<in>set s. is_digit c" and "s \<noteq> []"
  shows "py_int s = Inr (int (digits_val 0 s))"
proof -
  obtain c cs where s: "s = c # cs" using assms(2) by (cases s) auto
  have "\<not> startswith s ''-''" and "\<not> startswith s ''+''"
    using assms(1) s by (auto simp: startswith_def is_digit_def)
  then show ?thesis
    using assms digit_groups_digits [OF assms]
    by (simp add: py_int_def digits_no_space del: digit_groups.simps)
qed

lemma py_int_show_int [simp]: "0 \<le> i \<Longrightarrow> py_int (show_int i) = Inr i"
  using py_int_digits [OF show_nat_digits, of "nat i"] by (simp add: show_int_def)

end
