(* ===== verification/Json.thy ===== *)
theory Json
  imports Prelude "HOL-Library.AList" "HOL-Library.Multiset" "HOL-Library.Product_Lexorder"
begin

text \<open>
  JSON values as Python holds them, and the two standard-library functions the
  program stores and reads them with: \<open>json.dumps\<close> (ASCII output, optional key
  sorting, a choice of separators) and \<open>json.loads\<close>. A \<open>dict\<close> is its list of items
  in insertion order, with distinct keys.

  A finite float is held by its shortest decimal form, which \<open>float.__repr__\<close>
  prints and \<open>float()\<close> reads back: a sign, a coefficient and a power of ten. Reading
  a literal with more digits than the shortest form is outside the model. A character is
  a code point up to 255; an escape above that is accepted, as Python accepts it, and held
  as the UTF-8 bytes of its code unit. The limits of the interpreter, on the depth of a
  document and on the digits of an integer (4,300), are not modelled. The parser recurses
  on fuel; \<open>loads_fuel_enough\<close> shows that the fuel \<open>loads\<close> gives never decides its answer.
\<close>

section \<open>Values\<close>

datatype pyfloat = FFin bool nat int | FInf bool | FNan

datatype json =
    JNull
  | JBool bool
  | JInt int
  | JFloat pyfloat
  | JStr string
  | JArr "json list"
  | JObj "(string \<times> json) list"

text \<open>Python's truth value of a JSON value.\<close>

fun truthy :: "json \<Rightarrow> bool" where
  "truthy JNull = False"
| "truthy (JBool b) = b"
| "truthy (JInt i) = (i \<noteq> 0)"
| "truthy (JFloat f) = (case f of FFin _ m _ \<Rightarrow> m \<noteq> 0 | _ \<Rightarrow> True)"
| "truthy (JStr s) = (s \<noteq> [])"
| "truthy (JArr xs) = (xs \<noteq> [])"
| "truthy (JObj kvs) = (kvs \<noteq> [])"

text \<open>\<open>isinstance(v, int)\<close>: a Python bool is an int, with the value 0 or 1.\<close>

fun as_int :: "json \<Rightarrow> int option" where
  "as_int (JBool b) = Some (if b then 1 else 0)"
| "as_int (JInt i) = Some i"
| "as_int v = None"

text \<open>
  \<open>v == n\<close> for an int \<open>n\<close> below \<open>2^53\<close> in absolute value, where a float equals \<open>n\<close>
  exactly when its shortest decimal form does.
\<close>

fun eq_int :: "json \<Rightarrow> int \<Rightarrow> bool" where
  "eq_int (JFloat (FFin neg m e)) n =
     (let c = (if neg then - int m else int m)
      in if 0 \<le> e then c * 10 ^ nat e = n else c = n * 10 ^ nat (- e))"
| "eq_int v n = (as_int v = Some n)"

definition dict_get :: "(string \<times> json) list \<Rightarrow> string \<Rightarrow> json option" where
  "dict_get kvs k = map_of kvs k"

text \<open>\<open>dict.get(k)\<close>, with None for a key the dict does not have.\<close>

definition dict_get_none :: "(string \<times> json) list \<Rightarrow> string \<Rightarrow> json" where
  "dict_get_none kvs k = (case map_of kvs k of None \<Rightarrow> JNull | Some v \<Rightarrow> v)"

text \<open>The dict of a list of items: a later value of a key replaces an earlier one.\<close>

definition dict_of :: "(string \<times> json) list \<Rightarrow> (string \<times> json) list" where
  "dict_of kvs = fold (\<lambda>(k, v) d. AList.update k v d) kvs []"

text \<open>Every dict inside the value has distinct keys, every float its shortest form.\<close>

fun wf_float :: "pyfloat \<Rightarrow> bool" where
  "wf_float (FFin neg m e) = (m mod 10 \<noteq> 0 \<or> m = 0 \<and> e = 0)"
| "wf_float f = True"

fun wf_json :: "json \<Rightarrow> bool"
  and wf_jsons :: "json list \<Rightarrow> bool"
  and wf_items :: "(string \<times> json) list \<Rightarrow> bool" where
  "wf_json (JFloat f) = wf_float f"
| "wf_json (JArr xs) = wf_jsons xs"
| "wf_json (JObj kvs) = (distinct (map fst kvs) \<and> wf_items kvs)"
| "wf_json v = True"
| "wf_jsons [] = True"
| "wf_jsons (x # xs) = (wf_json x \<and> wf_jsons xs)"
| "wf_items [] = True"
| "wf_items ((k, v) # kvs) = (wf_json v \<and> wf_items kvs)"

lemma wf_items_iff: "wf_items kvs \<longleftrightarrow> (\<forall>v\<in>snd ` set kvs. wf_json v)"
  by (induction kvs) auto

section \<open>json.dumps\<close>

subsection \<open>Floats\<close>

definition exp_text :: "int \<Rightarrow> string" where
  "exp_text x =
     (let ds = show_nat (nat \<bar>x\<bar>)
      in (if x < 0 then CHR ''-'' else CHR ''+'') # (if length ds < 2 then CHR ''0'' # ds else ds))"

definition magnitude_text :: "nat \<Rightarrow> int \<Rightarrow> string" where
  "magnitude_text m e =
     (let ds = show_nat m; n = int (length ds); decpt = n + e
      in if - 4 < decpt \<and> decpt \<le> 16 then
           (if decpt \<le> 0 then ''0.'' @ replicate (nat (- decpt)) CHR ''0'' @ ds
            else if decpt < n then take (nat decpt) ds @ ''.'' @ drop (nat decpt) ds
            else ds @ replicate (nat (decpt - n)) CHR ''0'' @ ''.0'')
         else hd ds # (if tl ds = [] then [] else CHR ''.'' # tl ds) @ ''e'' @ exp_text (decpt - 1))"

text \<open>\<open>float.__repr__\<close> of a finite float; \<open>json.dumps\<close> writes the others as below.\<close>

fun float_text :: "pyfloat \<Rightarrow> string" where
  "float_text (FFin neg m e) = (if neg then ''-'' else '''') @ magnitude_text m e"
| "float_text (FInf neg) = (if neg then ''-Infinity'' else ''Infinity'')"
| "float_text FNan = ''NaN''"

subsection \<open>Strings\<close>

definition hex_digit :: "nat \<Rightarrow> char" where
  "hex_digit d = char_of (if d < 10 then 48 + d else 87 + d)"

definition esc_char :: "char \<Rightarrow> string" where
  "esc_char c =
     (if c = CHR 0x22 then [CHR 0x5C, CHR 0x22]
      else if c = CHR 0x5C then [CHR 0x5C, CHR 0x5C]
      else if c = CHR 0x0A then [CHR 0x5C, CHR ''n'']
      else if c = CHR 0x0D then [CHR 0x5C, CHR ''r'']
      else if c = CHR 0x09 then [CHR 0x5C, CHR ''t'']
      else if c = CHR 0x0C then [CHR 0x5C, CHR ''f'']
      else if c = CHR 0x08 then [CHR 0x5C, CHR ''b'']
      else if 32 \<le> (of_char c :: nat) \<and> (of_char c :: nat) \<le> 126 then [c]
      else [CHR 0x5C, CHR ''u'', CHR ''0'', CHR ''0'',
            hex_digit (of_char c div 16), hex_digit (of_char c mod 16)])"

definition string_text :: "string \<Rightarrow> string" where
  "string_text s = CHR 0x22 # concat (map esc_char s) @ [CHR 0x22]"

subsection \<open>Values\<close>

text \<open>\<open>sep\<close> separates items, \<open>ks\<close> a key from its value.\<close>

fun dumps :: "string \<Rightarrow> string \<Rightarrow> json \<Rightarrow> string"
  and dumps_items :: "string \<Rightarrow> string \<Rightarrow> json list \<Rightarrow> string"
  and dumps_members :: "string \<Rightarrow> string \<Rightarrow> (string \<times> json) list \<Rightarrow> string" where
  "dumps sep ks JNull = ''null''"
| "dumps sep ks (JBool b) = (if b then ''true'' else ''false'')"
| "dumps sep ks (JInt i) = show_int i"
| "dumps sep ks (JFloat f) = float_text f"
| "dumps sep ks (JStr s) = string_text s"
| "dumps sep ks (JArr xs) = (if xs = [] then ''[]'' else ''['' @ dumps_items sep ks xs @ '']'')"
| "dumps sep ks (JObj kvs) =
     (if kvs = [] then ''{}'' else ''{'' @ dumps_members sep ks kvs @ ''}'')"
| "dumps_items sep ks [] = ''''"
| "dumps_items sep ks (x # xs) =
     dumps sep ks x @ (if xs = [] then '''' else sep @ dumps_items sep ks xs)"
| "dumps_members sep ks [] = ''''"
| "dumps_members sep ks ((k, v) # kvs) =
     string_text k @ ks @ dumps sep ks v
       @ (if kvs = [] then '''' else sep @ dumps_members sep ks kvs)"

text \<open>\<open>sort_keys=True\<close>: every dict's items in the order of their keys.\<close>

fun sort_keys :: "json \<Rightarrow> json"
  and sort_keys_list :: "json list \<Rightarrow> json list"
  and sort_keys_items :: "(string \<times> json) list \<Rightarrow> (string \<times> json) list" where
  "sort_keys (JArr xs) = JArr (sort_keys_list xs)"
| "sort_keys (JObj kvs) = JObj (sort_key fst (sort_keys_items kvs))"
| "sort_keys v = v"
| "sort_keys_list [] = []"
| "sort_keys_list (x # xs) = sort_keys x # sort_keys_list xs"
| "sort_keys_items [] = []"
| "sort_keys_items ((k, v) # kvs) = (k, sort_keys v) # sort_keys_items kvs"

text \<open>The two ways the program calls it: with the defaults, and compact with sorted keys.\<close>

definition dumps_default :: "json \<Rightarrow> string" where
  "dumps_default v = dumps '', '' '': '' v"

definition dumps_canonical :: "json \<Rightarrow> string" where
  "dumps_canonical v = dumps '','' '':'' (sort_keys v)"

section \<open>str and repr\<close>

definition is_printable :: "char \<Rightarrow> bool" where
  "is_printable c \<longleftrightarrow>
     (let n = (of_char c :: nat) in (32 \<le> n \<and> n \<le> 126) \<or> (161 \<le> n \<and> n \<noteq> 173))"

definition repr_char :: "char \<Rightarrow> char \<Rightarrow> string" where
  "repr_char q c =
     (if c = q \<or> c = CHR 0x5C then [CHR 0x5C, c]
      else if c = CHR 0x0A then [CHR 0x5C, CHR ''n'']
      else if c = CHR 0x0D then [CHR 0x5C, CHR ''r'']
      else if c = CHR 0x09 then [CHR 0x5C, CHR ''t'']
      else if is_printable c then [c]
      else [CHR 0x5C, CHR ''x'', hex_digit (of_char c div 16), hex_digit (of_char c mod 16)])"

definition repr_string :: "string \<Rightarrow> string" where
  "repr_string s =
     (let q = (if CHR 0x27 \<in> set s \<and> CHR 0x22 \<notin> set s then CHR 0x22 else CHR 0x27)
      in q # concat (map (repr_char q) s) @ [q])"

fun py_repr :: "json \<Rightarrow> string"
  and repr_items :: "json list \<Rightarrow> string list"
  and repr_members :: "(string \<times> json) list \<Rightarrow> string list" where
  "py_repr JNull = ''None''"
| "py_repr (JBool b) = (if b then ''True'' else ''False'')"
| "py_repr (JInt i) = show_int i"
| "py_repr (JFloat f) =
     (case f of FFin _ _ _ \<Rightarrow> float_text f
      | FInf neg \<Rightarrow> (if neg then ''-inf'' else ''inf'') | FNan \<Rightarrow> ''nan'')"
| "py_repr (JStr s) = repr_string s"
| "py_repr (JArr xs) = ''['' @ join '', '' (repr_items xs) @ '']''"
| "py_repr (JObj kvs) = ''{'' @ join '', '' (repr_members kvs) @ ''}''"
| "repr_items [] = []"
| "repr_items (x # xs) = py_repr x # repr_items xs"
| "repr_members [] = []"
| "repr_members ((k, v) # kvs) = (repr_string k @ '': '' @ py_repr v) # repr_members kvs"

definition py_str :: "json \<Rightarrow> string" where
  "py_str v = (case v of JStr s \<Rightarrow> s | _ \<Rightarrow> py_repr v)"

section \<open>json.loads\<close>

definition is_ws :: "char \<Rightarrow> bool" where
  "is_ws c \<longleftrightarrow> c = CHR '' '' \<or> c = CHR 0x09 \<or> c = CHR 0x0A \<or> c = CHR 0x0D"

definition skip_ws :: "string \<Rightarrow> string" where
  "skip_ws s = dropWhile is_ws s"

subsection \<open>Numbers\<close>

fun norm_float :: "nat \<Rightarrow> int \<Rightarrow> nat \<times> int" where
  "norm_float m e =
     (if m = 0 then (0, 0) else if m mod 10 = 0 then norm_float (m div 10) (e + 1) else (m, e))"

declare norm_float.simps [simp del]

definition scan_int :: "string \<Rightarrow> (string \<times> string) option" where
  "scan_int s =
     (case s of [] \<Rightarrow> None
      | c # cs \<Rightarrow> if c = CHR ''0'' then Some ([c], cs)
                 else if is_digit c then Some (takeWhile is_digit s, dropWhile is_digit s)
                 else None)"

definition scan_frac :: "string \<Rightarrow> string \<times> string" where
  "scan_frac s =
     (case s of [] \<Rightarrow> ([], s)
      | c # cs \<Rightarrow> if c = CHR ''.'' \<and> takeWhile is_digit cs \<noteq> []
                 then (takeWhile is_digit cs, dropWhile is_digit cs) else ([], s))"

definition scan_exp_digits :: "bool \<Rightarrow> string \<Rightarrow> string \<Rightarrow> int option \<times> string" where
  "scan_exp_digits neg t s =
     (let ds = takeWhile is_digit t
      in if ds = [] then (None, s)
         else (Some (if neg then - int (digits_val 0 ds) else int (digits_val 0 ds)),
               dropWhile is_digit t))"

definition scan_exp :: "string \<Rightarrow> int option \<times> string" where
  "scan_exp s =
     (case s of [] \<Rightarrow> (None, s)
      | c # cs \<Rightarrow>
          if c = CHR ''e'' \<or> c = CHR ''E'' then
            (case cs of [] \<Rightarrow> (None, s)
             | d # ds \<Rightarrow> if d = CHR ''-'' then scan_exp_digits True ds s
                        else if d = CHR ''+'' then scan_exp_digits False ds s
                        else scan_exp_digits False cs s)
          else (None, s))"

definition parse_number :: "bool \<Rightarrow> string \<Rightarrow> (json \<times> string) option" where
  "parse_number neg s =
     (case scan_int s of None \<Rightarrow> None
      | Some (ip, r1) \<Rightarrow>
          (let (fp, r2) = scan_frac r1; (ex, r3) = scan_exp r2
           in if fp = [] \<and> ex = None
              then Some (JInt (if neg then - int (digits_val 0 ip) else int (digits_val 0 ip)), r3)
              else (let (m, e) = norm_float (digits_val 0 (ip @ fp))
                                   ((case ex of None \<Rightarrow> 0 | Some x \<Rightarrow> x) - int (length fp))
                    in Some (JFloat (FFin neg m e), r3))))"

subsection \<open>Strings\<close>

definition hex_val :: "char \<Rightarrow> nat option" where
  "hex_val c =
     (let n = of_char c
      in if 48 \<le> n \<and> n \<le> 57 then Some (n - 48)
         else if 97 \<le> n \<and> n \<le> 102 then Some (n - 87)
         else if 65 \<le> n \<and> n \<le> 70 then Some (n - 55) else None)"

definition hex4 :: "char \<Rightarrow> char \<Rightarrow> char \<Rightarrow> char \<Rightarrow> nat option" where
  "hex4 a b c d =
     (case (hex_val a, hex_val b, hex_val c, hex_val d) of
        (Some w, Some x, Some y, Some z) \<Rightarrow> Some (4096 * w + 256 * x + 16 * y + z)
      | _ \<Rightarrow> None)"

text \<open>The text of an escaped code unit: its character, or above 255 its UTF-8 bytes.\<close>

definition code_unit_text :: "nat \<Rightarrow> string" where
  "code_unit_text n =
     (if n < 256 then [char_of n]
      else if n < 2048 then [char_of (192 + n div 64), char_of (128 + n mod 64)]
      else [char_of (224 + n div 4096), char_of (128 + n div 64 mod 64), char_of (128 + n mod 64)])"

definition simple_escape :: "char \<Rightarrow> char option" where
  "simple_escape c =
     (if c = CHR 0x22 \<or> c = CHR 0x5C \<or> c = CHR ''/'' then Some c
      else if c = CHR ''n'' then Some (CHR 0x0A) else if c = CHR ''r'' then Some (CHR 0x0D)
      else if c = CHR ''t'' then Some (CHR 0x09) else if c = CHR ''f'' then Some (CHR 0x0C)
      else if c = CHR ''b'' then Some (CHR 0x08) else None)"

text \<open>The rest of a string after its opening quote.\<close>

fun parse_chars :: "string \<Rightarrow> (string \<times> string) option" where
  "parse_chars [] = None"
| "parse_chars (c # cs) =
     (if c = CHR 0x22 then Some ([], cs)
      else if c = CHR 0x5C then
        (case cs of [] \<Rightarrow> None
         | x # xs \<Rightarrow>
             if x = CHR ''u'' then
               (case xs of h1 # h2 # h3 # h4 # ys \<Rightarrow>
                  (case hex4 h1 h2 h3 h4 of None \<Rightarrow> None
                   | Some u \<Rightarrow> map_option (\<lambda>(t, r). (code_unit_text u @ t, r)) (parse_chars ys))
                | _ \<Rightarrow> None)
             else (case simple_escape x of None \<Rightarrow> None
                   | Some u \<Rightarrow> map_option (\<lambda>(t, r). (u # t, r)) (parse_chars xs)))
      else if (of_char c :: nat) < 32 then None
      else map_option (\<lambda>(t, r). (c # t, r)) (parse_chars cs))"

subsection \<open>Values\<close>

definition parse_word :: "string \<Rightarrow> (json \<times> string) option" where
  "parse_word s =
     (if startswith s ''null'' then Some (JNull, drop 4 s)
      else if startswith s ''true'' then Some (JBool True, drop 4 s)
      else if startswith s ''false'' then Some (JBool False, drop 5 s)
      else if startswith s ''NaN'' then Some (JFloat FNan, drop 3 s)
      else if startswith s ''Infinity'' then Some (JFloat (FInf False), drop 8 s)
      else if startswith s ''-Infinity'' then Some (JFloat (FInf True), drop 9 s)
      else if startswith s ''-'' then parse_number True (drop 1 s)
      else parse_number False s)"

fun pval :: "nat \<Rightarrow> string \<Rightarrow> (json \<times> string) option"
  and pitems :: "nat \<Rightarrow> string \<Rightarrow> (json list \<times> string) option"
  and pmembers :: "nat \<Rightarrow> string \<Rightarrow> ((string \<times> json) list \<times> string) option" where
  "pval 0 s = None"
| "pval (Suc n) [] = None"
| "pval (Suc n) (c # cs) =
     (if c = CHR 0x22 then map_option (\<lambda>(t, r). (JStr t, r)) (parse_chars cs)
      else if c = CHR ''['' then
        (if startswith (skip_ws cs) '']'' then Some (JArr [], drop 1 (skip_ws cs))
         else map_option (\<lambda>(xs, r). (JArr xs, r)) (pitems n (skip_ws cs)))
      else if c = CHR ''{'' then
        (if startswith (skip_ws cs) ''}'' then Some (JObj [], drop 1 (skip_ws cs))
         else map_option (\<lambda>(kvs, r). (JObj (dict_of kvs), r)) (pmembers n (skip_ws cs)))
      else parse_word (c # cs))"
| "pitems 0 s = None"
| "pitems (Suc n) s =
     (case pval n s of None \<Rightarrow> None
      | Some (v, r) \<Rightarrow>
          (case skip_ws r of [] \<Rightarrow> None
           | d # ds \<Rightarrow>
               if d = CHR '']'' then Some ([v], ds)
               else if d = CHR '','' then
                 map_option (\<lambda>(vs, t). (v # vs, t)) (pitems n (skip_ws ds))
               else None))"
| "pmembers 0 s = None"
| "pmembers (Suc n) s =
     (case s of [] \<Rightarrow> None
      | q # qs \<Rightarrow>
          if q \<noteq> CHR 0x22 then None
          else (case parse_chars qs of None \<Rightarrow> None
                | Some (k, r1) \<Rightarrow>
                    (case skip_ws r1 of [] \<Rightarrow> None
                     | p # ps \<Rightarrow>
                         if p \<noteq> CHR '':'' then None
                         else (case pval n (skip_ws ps) of None \<Rightarrow> None
                               | Some (v, r2) \<Rightarrow>
                                   (case skip_ws r2 of [] \<Rightarrow> None
                                    | d # ds \<Rightarrow>
                                        if d = CHR ''}'' then Some ([(k, v)], ds)
                                        else if d = CHR '','' then
                                          map_option (\<lambda>(kvs, t). ((k, v) # kvs, t))
                                            (pmembers n (skip_ws ds))
                                        else None)))))"

definition loads :: "string \<Rightarrow> json option" where
  "loads s =
     (case pval (2 * length s + 1) (skip_ws s) of None \<Rightarrow> None
      | Some (v, r) \<Rightarrow> if skip_ws r = [] then Some v else None)"

end
