(* ===== verification/Json_Codec.thy ===== *)
theory Json_Codec
  imports Json
begin

text \<open>
  \<open>json.loads\<close> reads back what \<open>json.dumps\<close> wrote, for both of the separators the
  program uses and with or without key sorting; so the canonical text decides the
  value up to the order of the items of its dicts.
\<close>

section \<open>Strings\<close>

lemma hex_val_hex_digit: "d < 16 \<Longrightarrow> hex_val (hex_digit d) = Some d"
  by (auto simp: hex_val_def hex_digit_def)

lemma hex4_code:
  "hex4 CHR ''0'' CHR ''0'' (hex_digit (of_char c div 16)) (hex_digit (of_char c mod 16))
     = Some (of_char c)"
proof -
  have less: "(of_char c :: nat) < 256"
    by (rule nat_of_char_less_256)
  then have "(of_char c :: nat) div 16 < 16"
    by (intro less_mult_imp_div_less) simp
  then have "hex_val (hex_digit (of_char c div 16)) = Some (of_char c div 16)"
    and "hex_val (hex_digit (of_char c mod 16)) = Some (of_char c mod 16)"
    by (simp_all add: hex_val_hex_digit)
  moreover have "hex_val CHR ''0'' = Some 0" by (simp add: hex_val_def)
  ultimately show ?thesis by (simp add: hex4_def)
qed

lemma code_unit_text_char [simp]: "code_unit_text (of_char c) = [c]"
  using nat_of_char_less_256 [of c] by (simp add: code_unit_text_def)

lemma parse_esc_char:
  "parse_chars (esc_char c @ t) = map_option (\<lambda>(x, r). (c # x, r)) (parse_chars t)"
  by (simp add: esc_char_def simple_escape_def hex4_code)

lemma parse_chars_text:
  "parse_chars (concat (map esc_char s) @ CHR 0x22 # r) = Some (s, r)"
  by (induction s) (simp_all add: parse_esc_char del: parse_chars.simps(2), simp)

section \<open>Numbers\<close>

text \<open>What may follow a number without becoming part of it.\<close>

definition num_stop :: "string \<Rightarrow> bool" where
  "num_stop r \<longleftrightarrow>
     (case r of [] \<Rightarrow> True
      | c # _ \<Rightarrow> \<not> is_digit c \<and> c \<noteq> CHR ''.'' \<and> c \<noteq> CHR ''e'' \<and> c \<noteq> CHR ''E'')"

lemma num_stop_Nil [simp]: "num_stop []"
  by (simp add: num_stop_def)

lemma takeWhile_digits:
  "\<forall>c\<in>set s. is_digit c \<Longrightarrow> (r = [] \<or> \<not> is_digit (hd r)) \<Longrightarrow>
     takeWhile is_digit (s @ r) = s \<and> dropWhile is_digit (s @ r) = r"
  by (cases r) (auto simp: takeWhile_append2 dropWhile_append2)

lemma scan_int_digits:
  assumes "\<forall>c\<in>set s. is_digit c" and "s \<noteq> []" and "hd s = CHR ''0'' \<Longrightarrow> s = ''0''"
    and "r = [] \<or> \<not> is_digit (hd r)"
  shows "scan_int (s @ r) = Some (s, r)"
proof -
  obtain c cs where s: "s = c # cs" using assms(2) by (cases s) auto
  show ?thesis
    using assms takeWhile_digits [OF assms(1,4)] unfolding s
    by (auto simp: scan_int_def)
qed

lemma scan_int_show_nat:
  "r = [] \<or> \<not> is_digit (hd r) \<Longrightarrow> scan_int (show_nat n @ r) = Some (show_nat n, r)"
proof (rule scan_int_digits)
  show "hd (show_nat n) = CHR ''0'' \<Longrightarrow> show_nat n = ''0''"
    using hd_show_nat_zero [of n] show_nat_0 by auto
qed (use show_nat_digits in auto)

lemma scan_frac_stop: "num_stop r \<Longrightarrow> scan_frac r = ([], r)"
  by (auto simp: scan_frac_def num_stop_def split: list.splits)

lemma scan_exp_stop: "num_stop r \<Longrightarrow> scan_exp r = (None, r)"
  by (auto simp: scan_exp_def num_stop_def split: list.splits)

lemma scan_frac_dot:
  "\<forall>c\<in>set s. is_digit c \<Longrightarrow> s \<noteq> [] \<Longrightarrow> (r = [] \<or> \<not> is_digit (hd r)) \<Longrightarrow>
     scan_frac (CHR ''.'' # s @ r) = (s, r)"
  using takeWhile_digits [of s r] by (simp add: scan_frac_def)

lemma scan_frac_e: "scan_frac (CHR ''e'' # r) = ([], CHR ''e'' # r)"
  by (simp add: scan_frac_def)

lemma num_stop_hd: "num_stop r \<Longrightarrow> r = [] \<or> \<not> is_digit (hd r)"
  by (cases r) (auto simp: num_stop_def)

lemma exp_text_digits:
  obtains ds where "exp_text x = (if x < 0 then CHR ''-'' else CHR ''+'') # ds"
    and "\<forall>c\<in>set ds. is_digit c" and "ds \<noteq> []" and "digits_val 0 ds = nat \<bar>x\<bar>"
proof -
  have z: "is_digit CHR ''0''" "digit_val CHR ''0'' = 0"
    by (simp_all add: is_digit_def digit_val_def)
  show thesis
    by (rule that [of "if length (show_nat (nat \<bar>x\<bar>)) < 2 then CHR ''0'' # show_nat (nat \<bar>x\<bar>)
                       else show_nat (nat \<bar>x\<bar>)"])
      (use show_nat_digits z in \<open>auto simp: exp_text_def Let_def\<close>)
qed

lemma scan_exp_text: "num_stop r \<Longrightarrow> scan_exp (CHR ''e'' # exp_text x @ r) = (Some x, r)"
proof -
  assume stop: "num_stop r"
  obtain ds where ds: "exp_text x = (if x < 0 then CHR ''-'' else CHR ''+'') # ds"
    "\<forall>c\<in>set ds. is_digit c" "ds \<noteq> []" "digits_val 0 ds = nat \<bar>x\<bar>"
    by (rule exp_text_digits)
  from takeWhile_digits [OF ds(2) num_stop_hd [OF stop]] ds show ?thesis
    by (simp add: scan_exp_def scan_exp_digits_def)
qed

lemma norm_float_scaled:
  assumes "m mod 10 \<noteq> 0"
  shows "norm_float (m * 10 ^ k) e = (m, e + int k)"
proof (induction k arbitrary: e)
  case 0
  from assms have "m \<noteq> 0" by (cases m) auto
  with assms show ?case by (simp add: norm_float.simps [of m])
next
  case (Suc k)
  from assms have "m \<noteq> 0" by (cases m) auto
  moreover have "m * 10 ^ Suc k = 10 * (m * 10 ^ k)" by simp
  ultimately have "norm_float (m * 10 ^ Suc k) e = norm_float (m * 10 ^ k) (e + 1)"
    by (simp only: norm_float.simps [of "10 * (m * 10 ^ k)"]) simp
  with Suc.IH show ?case by simp
qed

lemma norm_float_wf:
  "m mod 10 \<noteq> 0 \<or> m = 0 \<and> e = 0 \<Longrightarrow> x = m * 10 ^ k \<Longrightarrow> y = e - int k \<Longrightarrow>
     norm_float x y = (m, e)"
  using norm_float_scaled [of m k "e - int k"] by (auto simp: norm_float.simps [of 0])

text \<open>A literal with the integer part \<open>ip\<close>, the fraction \<open>fp\<close> and the exponent \<open>x\<close>.\<close>

lemma parse_number_parts:
  assumes "scan_int s = Some (ip, r1)" and "scan_frac r1 = (fp, r2)" and "scan_exp r2 = (ex, r)"
    and "fp \<noteq> [] \<or> ex \<noteq> None"
    and "digits_val 0 (ip @ fp) = m * 10 ^ k"
    and "(case ex of None \<Rightarrow> 0 | Some x \<Rightarrow> x) - int (length fp) = e - int k"
    and "wf_float (FFin neg m e)"
  shows "parse_number neg s = Some (JFloat (FFin neg m e), r)"
  using assms norm_float_wf [OF _ assms(5,6)]
  by (auto simp: parse_number_def)

lemma digits_val_zeros: "digits_val 0 (replicate k CHR ''0'' @ s) = digits_val 0 s"
  by (induction k) (auto simp: digit_val_def)

lemma digits_val_pad: "digits_val 0 (s @ replicate k CHR ''0'') = digits_val 0 s * 10 ^ k"
  by (simp add: digits_val_append digits_val_acc [of "digits_val 0 s"]
      digits_val_zeros [of k "[]", simplified])

lemma is_digit_0 [simp]: "is_digit CHR ''0''"
  by (simp add: is_digit_def)

lemma zero_digits: "\<forall>c\<in>set (replicate k CHR ''0''). is_digit c"
  by simp

lemma parse_number_magnitude:
  assumes wf: "wf_float (FFin neg m e)" and stop: "num_stop r"
  shows "parse_number neg (magnitude_text m e @ r) = Some (JFloat (FFin neg m e), r)"
proof -
  define ds n decpt where "ds = show_nat m" and "n = int (length ds)" and "decpt = n + e"
  have digs: "\<forall>c\<in>set ds. is_digit c" and ne: "ds \<noteq> []" and val: "digits_val 0 ds = m"
    by (simp_all add: ds_def show_nat_digits)
  have hd0: "hd ds = CHR ''0'' \<Longrightarrow> m = 0"
    by (simp add: ds_def hd_show_nat_zero)
  have ds0: "m = 0 \<Longrightarrow> ds = ''0''"
    by (simp add: ds_def show_nat_0)
  have hdig: "is_digit (hd ds)" using digs ne by (cases ds) auto
  note stop1 = num_stop_hd [OF stop] and stops = scan_exp_stop [OF stop]
  consider (sci) "\<not> (- 4 < decpt \<and> decpt \<le> 16)"
    | (small) "- 4 < decpt" "decpt \<le> 0"
    | (mid) "0 < decpt" "decpt \<le> 16" "decpt < n"
    | (big) "0 < decpt" "decpt \<le> 16" "n \<le> decpt"
    by linarith
  then show ?thesis
  proof cases
    case sci
    have si: "scan_int (hd ds # t) = Some ([hd ds], t)" if "t = [] \<or> \<not> is_digit (hd t)" for t
      using hdig that by (cases t) (auto simp: scan_int_def)
    show ?thesis
    proof (cases "tl ds = []")
      case True
      with ne have ds: "ds = [hd ds]" "length ds = 1" by (cases ds; simp)+
      have "parse_number neg (hd ds # CHR ''e'' # exp_text (decpt - 1) @ r) =
              Some (JFloat (FFin neg m e), r)"
      proof (rule parse_number_parts [where k = 0])
        show "scan_int (hd ds # CHR ''e'' # exp_text (decpt - 1) @ r) =
                Some ([hd ds], CHR ''e'' # exp_text (decpt - 1) @ r)"
          by (rule si) (simp add: is_digit_def)
      qed (use scan_frac_e scan_exp_text [OF stop] ds val wf in
          \<open>auto simp: decpt_def n_def\<close>)
      moreover have "magnitude_text m e = hd ds # CHR ''e'' # exp_text (decpt - 1)"
        using True sci by (auto simp: magnitude_text_def Let_def simp flip: ds_def n_def decpt_def)
      ultimately show ?thesis by simp
    next
      case False
      have tl: "\<forall>c\<in>set (tl ds). is_digit c" using digs by (cases ds) auto
      have len: "int (length (tl ds)) = n - 1" using ne by (cases ds) (auto simp: n_def)
      have "parse_number neg (hd ds # CHR ''.'' # tl ds @ CHR ''e'' # exp_text (decpt - 1) @ r) =
              Some (JFloat (FFin neg m e), r)"
      proof (rule parse_number_parts [where k = 0])
        show "scan_int (hd ds # CHR ''.'' # tl ds @ CHR ''e'' # exp_text (decpt - 1) @ r) =
                Some ([hd ds], CHR ''.'' # tl ds @ CHR ''e'' # exp_text (decpt - 1) @ r)"
          by (rule si) (simp add: is_digit_def)
        show "scan_frac (CHR ''.'' # tl ds @ CHR ''e'' # exp_text (decpt - 1) @ r) =
                (tl ds, CHR ''e'' # exp_text (decpt - 1) @ r)"
          by (rule scan_frac_dot [OF tl False]) (simp add: is_digit_def)
        show "digits_val 0 ([hd ds] @ tl ds) = m * 10 ^ 0"
          using ne val by simp
      qed (use False scan_exp_text [OF stop] wf len in \<open>auto simp: decpt_def\<close>)
      moreover have "magnitude_text m e = hd ds # CHR ''.'' # tl ds @ CHR ''e'' # exp_text (decpt - 1)"
        using False sci by (auto simp: magnitude_text_def Let_def simp flip: ds_def n_def decpt_def)
      ultimately show ?thesis by simp
    qed
  next
    case small
    let ?zs = "replicate (nat (- decpt)) CHR ''0''"
    have fp: "\<forall>c\<in>set (?zs @ ds). is_digit c" "?zs @ ds \<noteq> []"
      using digs zero_digits ne by auto
    have "parse_number neg (CHR ''0'' # CHR ''.'' # (?zs @ ds) @ r) =
            Some (JFloat (FFin neg m e), r)"
    proof (rule parse_number_parts [where k = 0])
      show "scan_int (CHR ''0'' # CHR ''.'' # (?zs @ ds) @ r) =
              Some (''0'', CHR ''.'' # (?zs @ ds) @ r)"
        by (simp add: scan_int_def)
      show "scan_frac (CHR ''.'' # (?zs @ ds) @ r) = (?zs @ ds, r)"
        by (rule scan_frac_dot [OF fp stop1])
      show "digits_val 0 (''0'' @ ?zs @ ds) = m * 10 ^ 0"
        using val by (simp add: digits_val_zeros digit_val_def)
    qed (use stops wf small ne in \<open>auto simp: decpt_def n_def\<close>)
    with small show ?thesis
      by (simp add: magnitude_text_def Let_def flip: ds_def n_def decpt_def)
  next
    case mid
    let ?i = "take (nat decpt) ds" and ?f = "drop (nat decpt) ds"
    have f: "\<forall>c\<in>set ?f. is_digit c" "?f \<noteq> []"
      using digs mid by (auto simp: n_def dest: in_set_dropD)
    have i: "?i \<noteq> []" "hd ?i = hd ds" using ne mid by (auto simp: hd_take)
    have nz: "m \<noteq> 0"
    proof
      assume "m = 0"
      with ds0 mid show False by (simp add: n_def)
    qed
    have "parse_number neg (?i @ CHR ''.'' # ?f @ r) = Some (JFloat (FFin neg m e), r)"
    proof (rule parse_number_parts [where k = 0])
      show "scan_int (?i @ CHR ''.'' # ?f @ r) = Some (?i, CHR ''.'' # ?f @ r)"
        by (rule scan_int_digits) (use digs i hd0 nz in \<open>auto simp: is_digit_def dest: in_set_takeD\<close>)
      show "scan_frac (CHR ''.'' # ?f @ r) = (?f, r)"
        by (rule scan_frac_dot [OF f stop1])
    qed (use stops wf val f mid in \<open>auto simp: decpt_def n_def\<close>)
    with mid show ?thesis
      by (simp add: magnitude_text_def Let_def flip: ds_def n_def decpt_def)
  next
    case big
    let ?k = "nat (decpt - n)"
    let ?i = "ds @ replicate ?k CHR ''0''"
    have m0: "m = 0 \<Longrightarrow> ?k = 0" using wf ds0 by (auto simp: decpt_def n_def)
    have "parse_number neg (?i @ CHR ''.'' # ''0'' @ r) = Some (JFloat (FFin neg m e), r)"
    proof (rule parse_number_parts [where k = "Suc ?k"])
      show "scan_int (?i @ CHR ''.'' # ''0'' @ r) = Some (?i, CHR ''.'' # ''0'' @ r)"
        by (rule scan_int_digits)
          (use digs zero_digits ne hd0 m0 ds0 in \<open>auto simp: is_digit_def\<close>)
      show "scan_frac (CHR ''.'' # ''0'' @ r) = (''0'', r)"
        by (rule scan_frac_dot) (use stop1 in \<open>auto simp: is_digit_def\<close>)
      show "digits_val 0 (?i @ ''0'') = m * 10 ^ Suc ?k"
        using digits_val_pad [of ds "Suc ?k"] val by (simp add: replicate_append_same)
    qed (use stops wf big in \<open>auto simp: decpt_def n_def\<close>)
    with big show ?thesis
      by (simp add: magnitude_text_def Let_def flip: ds_def n_def decpt_def)
  qed
qed

lemma parse_number_int:
  "num_stop r \<Longrightarrow>
     parse_number neg (show_nat n @ r) = Some (JInt (if neg then - int n else int n), r)"
  by (simp add: parse_number_def scan_int_show_nat num_stop_hd scan_frac_stop scan_exp_stop)

section \<open>Words and numbers after one look at the first character\<close>

lemma startswith_append [simp]: "startswith (p @ t) p"
  by (simp add: startswith_def)

lemma startswith_Cons [simp]:
  "startswith (x # xs) (p # ps) \<longleftrightarrow> x = p \<and> startswith xs ps"
  "startswith xs [] \<longleftrightarrow> True"
  "startswith [] (p # ps) \<longleftrightarrow> False"
  by (auto simp: startswith_def)

lemma is_digit_not_word:
  assumes "is_digit c"
  shows "c \<noteq> CHR ''n''" "c \<noteq> CHR ''t''" "c \<noteq> CHR ''f''" "c \<noteq> CHR ''N''"
    "c \<noteq> CHR ''I''" "c \<noteq> CHR ''-''"
  using assms by (auto simp: is_digit_def)

lemma parse_word_digit:
  "is_digit c \<Longrightarrow> parse_word (c # cs) = parse_number False (c # cs)"
  by (simp add: parse_word_def is_digit_not_word)

lemma parse_word_minus:
  "is_digit c \<Longrightarrow> parse_word (CHR ''-'' # c # cs) = parse_number True (c # cs)"
  by (simp add: parse_word_def is_digit_not_word)

lemma show_nat_Cons: obtains c cs where "show_nat n = c # cs" and "is_digit c"
  using show_nat_digits [of n] by (cases "show_nat n") auto

lemma parse_word_int: "num_stop r \<Longrightarrow> parse_word (show_int i @ r) = Some (JInt i, r)"
proof -
  assume stop: "num_stop r"
  obtain c cs where c: "show_nat (nat \<bar>i\<bar>) = c # cs" "is_digit c" by (rule show_nat_Cons)
  show ?thesis
  proof (cases "i < 0")
    case True
    then have "show_int i @ r = CHR ''-'' # c # cs @ r"
      using c by (simp add: show_int_def)
    with True parse_number_int [OF stop, of True "nat \<bar>i\<bar>"] c show ?thesis
      by (simp add: parse_word_minus)
  next
    case False
    then have "show_int i @ r = c # cs @ r"
      using c by (simp add: show_int_def)
    with False parse_number_int [OF stop, of False "nat \<bar>i\<bar>"] c show ?thesis
      by (simp add: parse_word_digit)
  qed
qed

lemma magnitude_start: "magnitude_text m e \<noteq> [] \<and> is_digit (hd (magnitude_text m e))"
proof -
  obtain c cs where c: "show_nat m = c # cs" "is_digit c" by (rule show_nat_Cons)
  then have "take k (show_nat m) = c # take (k - 1) cs" if "0 < k" for k
    using that by (cases k) auto
  with c show ?thesis by (simp add: magnitude_text_def Let_def)
qed

lemma magnitude_Cons: obtains c cs where "magnitude_text m e = c # cs" and "is_digit c"
  using magnitude_start [of m e] by (cases "magnitude_text m e") simp_all

lemma parse_word_float:
  assumes "wf_float f" and stop: "num_stop r"
  shows "parse_word (float_text f @ r) = Some (JFloat f, r)"
proof (cases f)
  case (FFin neg m e)
  obtain c cs where c: "magnitude_text m e = c # cs" "is_digit c" by (rule magnitude_Cons)
  from assms(1) FFin have "wf_float (FFin neg m e)" by simp
  from parse_number_magnitude [OF this stop] c FFin show ?thesis
    by (cases neg) (simp_all add: parse_word_digit parse_word_minus)
qed (use stop in \<open>auto simp: parse_word_def\<close>)

section \<open>Values\<close>

lemma dict_of_distinct: "distinct (map fst kvs) \<Longrightarrow> dict_of kvs = kvs"
proof -
  have "distinct (map fst (d @ kvs)) \<Longrightarrow>
          fold (\<lambda>(k, v) d. AList.update k v d) kvs d = d @ kvs" for d
  proof (induction kvs arbitrary: d)
    case (Cons kv kvs)
    obtain k v where kv: "kv = (k, v)" by force
    have "k \<notin> fst ` set d" using Cons.prems kv by auto
    then have "AList.update k v d = d @ [(k, v)]"
      by (induction d) auto
    with Cons.IH [of "d @ [(k, v)]"] Cons.prems kv show ?case by simp
  qed simp
  from this [of "[]"] show "distinct (map fst kvs) \<Longrightarrow> dict_of kvs = kvs"
    by (simp add: dict_of_def)
qed

lemma skip_ws_Nil [simp]: "skip_ws [] = []"
  by (simp add: skip_ws_def)

lemma skip_ws_Cons: "\<not> is_ws c \<Longrightarrow> skip_ws (c # s) = c # s"
  by (simp add: skip_ws_def)

lemma not_ws [simp]:
  "\<not> is_ws CHR '',''" "\<not> is_ws CHR '':''" "\<not> is_ws CHR '']''" "\<not> is_ws CHR ''}''"
  "\<not> is_ws CHR 0x22"
  by (simp_all add: is_ws_def)

lemma skip_ws_append: "\<forall>c\<in>set w. is_ws c \<Longrightarrow> skip_ws (w @ s) = skip_ws s"
  by (induction w) (auto simp: skip_ws_def)

text \<open>The text of a value starts with a character that is neither white space nor a closing bracket.\<close>

definition value_start :: "char \<Rightarrow> bool" where
  "value_start c \<longleftrightarrow> \<not> is_ws c \<and> c \<noteq> CHR '']'' \<and> c \<noteq> CHR ''}''"

lemma is_digit_start: "is_digit c \<Longrightarrow> value_start c"
  by (auto simp: is_digit_def value_start_def is_ws_def)

lemma show_int_start: "show_int i \<noteq> [] \<and> value_start (hd (show_int i))"
proof -
  obtain c cs where c: "show_nat (nat \<bar>i\<bar>) = c # cs" "is_digit c" by (rule show_nat_Cons)
  then show ?thesis
    using is_digit_start [of c]
    by (cases "i < 0") (simp_all add: show_int_def value_start_def is_ws_def)
qed

lemma float_text_start: "float_text f \<noteq> [] \<and> value_start (hd (float_text f))"
proof (cases f)
  case (FFin neg m e)
  obtain c cs where c: "magnitude_text m e = c # cs" "is_digit c" by (rule magnitude_Cons)
  then show ?thesis
    using FFin is_digit_start [of c] by (cases neg) (simp_all add: value_start_def is_ws_def)
qed (simp_all add: value_start_def is_ws_def)

lemma dumps_start: "dumps sep ks v \<noteq> [] \<and> value_start (hd (dumps sep ks v))"
proof (cases v)
  case (JInt i)
  then show ?thesis using show_int_start [of i] by simp
next
  case (JFloat f)
  then show ?thesis using float_text_start [of f] by simp
qed (simp_all add: string_text_def value_start_def is_ws_def)

lemma dumps_Cons: obtains c cs where "dumps sep ks v = c # cs" and "value_start c"
  using dumps_start [of sep ks v] by (cases "dumps sep ks v") auto

lemma skip_ws_dumps: "skip_ws (dumps sep ks v @ r) = dumps sep ks v @ r"
proof -
  obtain c cs where "dumps sep ks v = c # cs" and "value_start c" by (rule dumps_Cons)
  then show ?thesis by (simp add: skip_ws_Cons value_start_def)
qed

text \<open>The separators: a comma and a colon, each followed by white space only.\<close>

definition seps_ok :: "string \<Rightarrow> string \<Rightarrow> bool" where
  "seps_ok sep ks \<longleftrightarrow>
     (\<exists>w1 w2. sep = CHR '','' # w1 \<and> ks = CHR '':'' # w2
        \<and> (\<forall>c\<in>set w1. is_ws c) \<and> (\<forall>c\<in>set w2. is_ws c))"

lemma seps_ok_default [simp]: "seps_ok '', '' '': ''"
  by (simp add: seps_ok_def is_ws_def)

lemma seps_ok_compact [simp]: "seps_ok '','' '':''"
  by (simp add: seps_ok_def)

lemma num_stop_sep: "seps_ok sep ks \<Longrightarrow> num_stop (sep @ t)"
  by (auto simp: seps_ok_def num_stop_def is_digit_def)

lemma num_stop_close: "num_stop (CHR '']'' # t)" "num_stop (CHR ''}'' # t)"
  by (simp_all add: num_stop_def is_digit_def)

lemma string_text_Cons: "string_text s @ r = CHR 0x22 # concat (map esc_char s) @ CHR 0x22 # r"
  by (simp add: string_text_def)

lemma pval_string: "pval (Suc n) (string_text s @ r) = Some (JStr s, r)"
  by (simp add: string_text_Cons parse_chars_text)

lemma pval_word:
  assumes "c \<noteq> CHR 0x22" and "c \<noteq> CHR ''[''" and "c \<noteq> CHR ''{''"
    and "parse_word (c # cs) = Some x"
  shows "pval (Suc n) (c # cs) = Some x"
  using assms by simp

definition word_start :: "string \<Rightarrow> bool" where
  "word_start s \<longleftrightarrow> s \<noteq> [] \<and> hd s \<noteq> CHR 0x22 \<and> hd s \<noteq> CHR ''['' \<and> hd s \<noteq> CHR ''{''"

lemma pval_word_start:
  "word_start s \<Longrightarrow> parse_word (s @ r) = Some x \<Longrightarrow> pval (Suc n) (s @ r) = Some x"
  by (cases s) (auto simp: word_start_def)

lemma digit_word_start: "is_digit c \<Longrightarrow> word_start (c # cs)"
  by (auto simp: word_start_def is_digit_def)

lemma show_int_word_start: "word_start (show_int i)"
proof -
  obtain c cs where "show_nat (nat \<bar>i\<bar>) = c # cs" "is_digit c" by (rule show_nat_Cons)
  then show ?thesis
    using digit_word_start [of c cs] by (cases "i < 0") (simp_all add: show_int_def word_start_def)
qed

lemma float_text_word_start: "word_start (float_text f)"
proof (cases f)
  case (FFin neg m e)
  obtain c cs where "magnitude_text m e = c # cs" "is_digit c" by (rule magnitude_Cons)
  then show ?thesis
    using FFin digit_word_start [of c cs] by (cases neg) (simp_all add: word_start_def)
qed (simp_all add: word_start_def)

lemma dumps_items_start:
  assumes "xs \<noteq> []"
  shows "\<exists>c cs. dumps_items sep ks xs = c # cs \<and> value_start c"
proof -
  obtain c cs where "dumps sep ks (hd xs) = c # cs" and "value_start c" by (rule dumps_Cons)
  with assms show ?thesis by (cases xs) auto
qed

lemma seps_okE:
  assumes "seps_ok sep ks"
  obtains w1 w2 where "sep = CHR '','' # w1" and "ks = CHR '':'' # w2"
    and "\<And>t. skip_ws (w1 @ t) = skip_ws t" and "\<And>t. skip_ws (w2 @ t) = skip_ws t"
  using assms by (auto simp: seps_ok_def skip_ws_append)

lemma pitems_last:
  "pval n s = Some (v, CHR '']'' # r) \<Longrightarrow> pitems (Suc n) s = Some ([v], r)"
  by (simp add: skip_ws_Cons)

lemma pitems_more:
  assumes "seps_ok sep ks" and "pval n s = Some (v, sep @ t)" and "pitems n (skip_ws t) = Some (vs, r)"
  shows "pitems (Suc n) s = Some (v # vs, r)"
  using assms(1)
proof (rule seps_okE)
  fix w1 w2 assume "sep = CHR '','' # w1" and "\<And>t. skip_ws (w1 @ t) = skip_ws t"
  with assms(2,3) show ?thesis by (simp add: skip_ws_Cons)
qed

lemma pmembers_value:
  assumes "seps_ok sep ks" and "pval n (skip_ws t) = Some (v, u)" and "skip_ws u = d # ds"
  shows "pmembers (Suc n) (string_text k @ ks @ t) =
           (if d = CHR ''}'' then Some ([(k, v)], ds)
            else if d = CHR '','' then
              map_option (\<lambda>(kvs, r). ((k, v) # kvs, r)) (pmembers n (skip_ws ds))
            else None)"
  using assms(1)
proof (rule seps_okE)
  fix w1 w2 assume "ks = CHR '':'' # w2" and "\<And>t. skip_ws (w2 @ t) = skip_ws t"
  with assms(2,3) show ?thesis
    by (simp add: string_text_Cons parse_chars_text skip_ws_Cons del: parse_chars.simps)
qed

lemma pmembers_last:
  assumes "seps_ok sep ks" and "pval n (skip_ws t) = Some (v, CHR ''}'' # r)"
  shows "pmembers (Suc n) (string_text k @ ks @ t) = Some ([(k, v)], r)"
  using pmembers_value [OF assms] by (simp add: skip_ws_Cons del: pmembers.simps)

lemma pmembers_more:
  assumes "seps_ok sep ks" and "pval n (skip_ws t) = Some (v, sep @ u)"
    and "pmembers n (skip_ws u) = Some (kvs, r)"
  shows "pmembers (Suc n) (string_text k @ ks @ t) = Some ((k, v) # kvs, r)"
  using assms(1)
proof (rule seps_okE)
  fix w1 w2 assume "sep = CHR '','' # w1" and "\<And>t. skip_ws (w1 @ t) = skip_ws t"
  with pmembers_value [OF assms(1,2)] assms(3) show ?thesis
    by (simp add: skip_ws_Cons del: pmembers.simps)
qed

lemma skip_ws_value_start: "value_start (hd s) \<Longrightarrow> s \<noteq> [] \<Longrightarrow> skip_ws (s @ r) = s @ r"
  by (cases s) (auto simp: skip_ws_def value_start_def)

lemma dumps_members_start:
  "kvs \<noteq> [] \<Longrightarrow> \<exists>cs. dumps_members sep ks kvs = CHR 0x22 # cs"
  by (cases kvs) (auto simp: string_text_def)

lemma pval_dumps:
  fixes v :: json and xs :: "json list" and kvs :: "(string \<times> json) list"
  assumes ok: "seps_ok sep ks"
  shows "wf_json v \<Longrightarrow> num_stop r \<Longrightarrow> 2 * length (dumps sep ks v) < n \<Longrightarrow>
           pval n (dumps sep ks v @ r) = Some (v, r)"
    and "wf_jsons xs \<Longrightarrow> xs \<noteq> [] \<Longrightarrow> 2 * length (dumps_items sep ks xs) + 1 < n \<Longrightarrow>
           pitems n (dumps_items sep ks xs @ CHR '']'' # r) = Some (xs, r)"
    and "wf_items kvs \<Longrightarrow> kvs \<noteq> [] \<Longrightarrow> 2 * length (dumps_members sep ks kvs) + 1 < n \<Longrightarrow>
           pmembers n (dumps_members sep ks kvs @ CHR ''}'' # r) = Some (kvs, r)"
proof (induction v and xs and kvs arbitrary: n r and n r and n r
    rule: wf_json_wf_jsons_wf_items.induct)
  case (1 f)
  then obtain k where "n = Suc k" by (cases n) auto
  with 1 show ?case
    by (simp add: pval_word_start [OF float_text_word_start] parse_word_float del: float_text.simps)
next
  case (2 xs)
  from "2.prems" obtain k where n: "n = Suc k" by (cases n) auto
  show ?case
  proof (cases "xs = []")
    case True
    then show ?thesis by (simp add: n skip_ws_Cons is_ws_def)
  next
    case False
    obtain c cs where c: "dumps_items sep ks xs = c # cs" "value_start c"
      using dumps_items_start [OF False] by blast
    have "pitems k (dumps_items sep ks xs @ CHR '']'' # r) = Some (xs, r)"
      using "2.IH" "2.prems" False n by simp
    with False c show ?thesis
      by (simp add: n skip_ws_Cons value_start_def)
  qed
next
  case (3 kvs)
  from "3.prems" obtain k where n: "n = Suc k" by (cases n) auto
  show ?case
  proof (cases "kvs = []")
    case True
    then show ?thesis by (simp add: n skip_ws_Cons is_ws_def)
  next
    case False
    obtain cs where c: "dumps_members sep ks kvs = CHR 0x22 # cs"
      using dumps_members_start [OF False] by blast
    have "pmembers k (dumps_members sep ks kvs @ CHR ''}'' # r) = Some (kvs, r)"
      using "3.IH" "3.prems" False n by simp
    with False c "3.prems" show ?thesis
      by (simp add: n skip_ws_Cons is_ws_def dict_of_distinct)
  qed
next
  case "4_1"
  then obtain k where "n = Suc k" by (cases n) auto
  then show ?case by (simp add: parse_word_def)
next
  case "4_2"
  then obtain k where "n = Suc k" by (cases n) auto
  then show ?case by (simp add: parse_word_def)
next
  case "4_3"
  then obtain k where "n = Suc k" by (cases n) auto
  with "4_3" show ?case
    by (simp add: pval_word_start [OF show_int_word_start] parse_word_int)
next
  case "4_4"
  then obtain k where "n = Suc k" by (cases n) auto
  then show ?case by (simp add: pval_string del: pval.simps)
next
  case 5
  then show ?case by simp
next
  case (6 x xs)
  from "6.prems" obtain k where n: "n = Suc k" by (cases n) auto
  show ?case
  proof (cases "xs = []")
    case True
    have "pval k (dumps sep ks x @ CHR '']'' # r) = Some (x, CHR '']'' # r)"
      using "6.IH"(1) "6.prems" n True by (simp add: num_stop_close)
    with True n show ?thesis by (simp add: pitems_last del: pitems.simps)
  next
    case False
    let ?t = "dumps_items sep ks xs @ CHR '']'' # r"
    have v: "pval k (dumps sep ks x @ sep @ ?t) = Some (x, sep @ ?t)"
      using "6.IH"(1) "6.prems" n False by (simp add: num_stop_sep [OF ok])
    have "skip_ws ?t = ?t"
      using dumps_items_start [OF False, of sep ks] by (auto simp: skip_ws_Cons value_start_def)
    moreover have "pitems k ?t = Some (xs, r)"
      using "6.IH"(2) "6.prems" n False ok by (auto simp: seps_ok_def)
    ultimately have "pitems n (dumps sep ks x @ sep @ ?t) = Some (x # xs, r)"
      unfolding n using pitems_more [OF ok v] by (simp del: pitems.simps)
    with False show ?thesis by simp
  qed
next
  case 7
  then show ?case by simp
next
  case (8 k v kvs)
  from "8.prems" obtain j where n: "n = Suc j" by (cases n) auto
  show ?case
  proof (cases "kvs = []")
    case True
    have "pval j (dumps sep ks v @ CHR ''}'' # r) = Some (v, CHR ''}'' # r)"
      using "8.IH"(1) "8.prems" n True by (simp add: num_stop_close)
    with True n pmembers_last [OF ok, of j "dumps sep ks v @ CHR ''}'' # r"] show ?thesis
      by (simp add: skip_ws_dumps del: pmembers.simps)
  next
    case False
    let ?t = "dumps_members sep ks kvs @ CHR ''}'' # r"
    have v: "pval j (dumps sep ks v @ sep @ ?t) = Some (v, sep @ ?t)"
      using "8.IH"(1) "8.prems" n False by (simp add: num_stop_sep [OF ok])
    have "skip_ws ?t = ?t"
      using dumps_members_start [OF False, of sep ks] by (auto simp: skip_ws_Cons is_ws_def)
    moreover have "pmembers j ?t = Some (kvs, r)"
      using "8.IH"(2) "8.prems" n False ok by (auto simp: seps_ok_def)
    ultimately have "pmembers n (string_text k @ ks @ dumps sep ks v @ sep @ ?t) =
        Some ((k, v) # kvs, r)"
      unfolding n using pmembers_more [OF ok, of j "dumps sep ks v @ sep @ ?t"] v
      by (simp add: skip_ws_dumps del: pmembers.simps)
    with False show ?thesis by simp
  qed
qed

lemma loads_dumps:
  assumes "seps_ok sep ks" and "wf_json v"
  shows "loads (dumps sep ks v) = Some v"
proof -
  have "skip_ws (dumps sep ks v) = dumps sep ks v"
    using skip_ws_dumps [of sep ks v "[]"] by simp
  with pval_dumps(1) [OF assms, of "[]" "2 * length (dumps sep ks v) + 1"] show ?thesis
    by (simp add: loads_def)
qed

lemma dumps_inj:
  "seps_ok sep ks \<Longrightarrow> wf_json v \<Longrightarrow> wf_json w \<Longrightarrow> dumps sep ks v = dumps sep ks w \<Longrightarrow> v = w"
  by (metis loads_dumps option.inject)

section \<open>Sorted keys\<close>

lemma sort_keys_items_map: "sort_keys_items kvs = map (\<lambda>(k, v). (k, sort_keys v)) kvs"
  by (induction kvs) auto

lemma fst_sort_keys_items [simp]: "map fst (sort_keys_items kvs) = map fst kvs"
  by (induction kvs) auto

lemma wf_sort_keys:
  "wf_json v \<Longrightarrow> wf_json (sort_keys v)"
  "wf_jsons xs \<Longrightarrow> wf_jsons (sort_keys_list xs)"
  "wf_items kvs \<Longrightarrow> wf_items (sort_keys_items kvs)"
proof (induction v and xs and kvs rule: wf_json_wf_jsons_wf_items.induct)
  case (3 kvs)
  have "distinct (map fst (sort_key fst (sort_keys_items kvs)))"
  proof -
    have "mset (map fst (sort_key fst (sort_keys_items kvs))) = mset (map fst (sort_keys_items kvs))"
      by (simp only: mset_map mset_sort)
    with "3.prems" show ?thesis
      using mset_eq_imp_distinct_iff by (metis wf_json.simps(3) fst_sort_keys_items)
  qed
  with 3 show ?case by (simp add: wf_items_iff)
qed auto

lemma map_of_sort_key_fst:
  assumes "distinct (map fst kvs)"
  shows "map_of (sort_key fst kvs) = map_of kvs"
proof (rule map_of_eqI)
  have m: "mset (sort_key fst kvs) = mset kvs" by simp
  then have s: "set (sort_key fst kvs) = set kvs" by simp
  then show dom: "set (map fst (sort_key fst kvs)) = set (map fst kvs)" by simp
  have d: "distinct (map fst (sort_key fst kvs))"
    using assms m mset_eq_imp_distinct_iff by (metis mset_map)
  show "\<forall>k\<in>set (map fst (sort_key fst kvs)). map_of (sort_key fst kvs) k = map_of kvs k"
  proof
    fix k assume "k \<in> set (map fst (sort_key fst kvs))"
    then obtain v where "(k, v) \<in> set (sort_key fst kvs)" by auto
    with s have "map_of (sort_key fst kvs) k = Some v" and "map_of kvs k = Some v"
      using d assms by auto
    then show "map_of (sort_key fst kvs) k = map_of kvs k" by simp
  qed
qed

text \<open>The canonical text is read back as the value with its keys sorted.\<close>

lemma loads_dumps_canonical: "wf_json v \<Longrightarrow> loads (dumps_canonical v) = Some (sort_keys v)"
  by (simp add: dumps_canonical_def loads_dumps wf_sort_keys)

lemma loads_dumps_default: "wf_json v \<Longrightarrow> loads (dumps_default v) = Some v"
  by (simp add: dumps_default_def loads_dumps)

lemma dumps_canonical_inj:
  "wf_json v \<Longrightarrow> wf_json w \<Longrightarrow> dumps_canonical v = dumps_canonical w \<Longrightarrow> sort_keys v = sort_keys w"
  by (metis loads_dumps_canonical option.inject)

section \<open>Fuel\<close>

lemma length_skip_ws: "length (skip_ws s) \<le> length s"
  by (simp add: skip_ws_def length_dropWhile_le)

lemma parse_chars_consumes: "parse_chars s = Some (t, r) \<Longrightarrow> length r < length s"
proof (induction s arbitrary: t r rule: parse_chars.induct)
  case 1
  then show ?case by simp
next
  case (2 c cs)
  then show ?case
    by (auto split: if_splits list.splits option.splits) fastforce+
qed

lemma scan_int_consumes: "scan_int s = Some (ip, r) \<Longrightarrow> length r < length s"
  using length_dropWhile_le [of is_digit]
  by (auto simp: scan_int_def less_Suc_eq_le split: list.splits if_splits)

lemma scan_frac_consumes: "scan_frac s = (fp, r) \<Longrightarrow> length r \<le> length s"
  using length_dropWhile_le [of is_digit]
  by (auto simp: scan_frac_def le_Suc_eq split: list.splits if_splits)

lemma scan_exp_digits_consumes:
  "scan_exp_digits neg t s = (ex, r) \<Longrightarrow> length t \<le> length s \<Longrightarrow> length r \<le> length s"
  using length_dropWhile_le [of is_digit t]
  by (auto simp: scan_exp_digits_def Let_def split: if_splits)

lemma scan_exp_consumes: "scan_exp s = (ex, r) \<Longrightarrow> length r \<le> length s"
  by (auto simp: scan_exp_def split: list.splits if_splits dest!: scan_exp_digits_consumes)

lemma parse_number_consumes: "parse_number neg s = Some (v, r) \<Longrightarrow> length r < length s"
  by (auto simp: parse_number_def split: option.splits prod.splits if_splits
      dest!: scan_int_consumes scan_frac_consumes scan_exp_consumes)

lemma parse_word_consumes:
  assumes "parse_word s = Some (v, r)"
  shows "length r < length s"
proof (cases s)
  case Nil
  with assms show ?thesis
    by (auto simp: parse_word_def dest: parse_number_consumes)
next
  case (Cons c cs)
  with assms show ?thesis
    by (auto simp: parse_word_def dest!: parse_number_consumes split: if_splits)
qed

lemma pmembers_SucE:
  assumes "pmembers (Suc n) s = Some (kvs, r)"
  obtains qs k r1 ps v r2 d ds where
    "s = CHR 0x22 # qs" "parse_chars qs = Some (k, r1)" "skip_ws r1 = CHR '':'' # ps"
    "pval n (skip_ws ps) = Some (v, r2)" "skip_ws r2 = d # ds"
    "r = ds \<or> (\<exists>kvs'. pmembers n (skip_ws ds) = Some (kvs', r))"
  using assms
  by (auto split: list.splits if_splits option.splits prod.splits)

lemma pval_consumes:
  "pval n s = Some (v, r) \<Longrightarrow> length r < length s"
  "pitems n s = Some (vs, r) \<Longrightarrow> length r < length s"
  "pmembers n s = Some (kvs, r) \<Longrightarrow> length r < length s"
proof (induction n arbitrary: s v r vs kvs)
  case (Suc n)
  { case 1
    show ?case
    proof (cases s)
      case (Cons c cs)
      with 1 show ?thesis
        using length_skip_ws [of cs] Suc.IH
        by (auto split: if_splits dest!: parse_chars_consumes parse_word_consumes)
           (fastforce dest: Suc.IH)+
    qed (use 1 in simp)
  next
    case 2
    then obtain v u where v: "pval n s = Some (v, u)" by (auto split: option.splits)
    obtain d ds where d: "skip_ws u = d # ds"
      using 2 v by (cases "skip_ws u") auto
    have "length (d # ds) < length s"
      using Suc.IH(1) [OF v] length_skip_ws [of u] d by simp
    with 2 v d show ?case
      using length_skip_ws [of ds]
      by (auto split: if_splits dest!: Suc.IH(2))
  next
    case 3
    show ?case
      using 3
    proof (rule pmembers_SucE)
      fix qs k r1 ps v r2 d ds
      assume a: "s = CHR 0x22 # qs" "parse_chars qs = Some (k, r1)" "skip_ws r1 = CHR '':'' # ps"
        "pval n (skip_ws ps) = Some (v, r2)" "skip_ws r2 = d # ds"
        and r: "r = ds \<or> (\<exists>kvs'. pmembers n (skip_ws ds) = Some (kvs', r))"
      have "length ds < length s"
        using a parse_chars_consumes [OF a(2)] length_skip_ws [of r1] length_skip_ws [of ps]
          Suc.IH(1) [OF a(4)] length_skip_ws [of r2] by simp
      then show "length r < length s"
        using r length_skip_ws [of ds] by (auto dest: Suc.IH(3))
    qed
  }
qed simp_all

text \<open>With this much fuel, one unit more does not change the answer.\<close>

lemma pval_more_fuel:
  "2 * length s + 1 \<le> n \<Longrightarrow> pval (Suc n) s = pval n s"
  "2 * length s + 2 \<le> n \<Longrightarrow> pitems (Suc n) s = pitems n s"
  "2 * length s + 2 \<le> n \<Longrightarrow> pmembers (Suc n) s = pmembers n s"
proof (induction n arbitrary: s)
  case (Suc n)
  { case 1
    show ?case
    proof (cases s)
      case (Cons c cs)
      have "2 * length (skip_ws cs) + 2 \<le> n"
        using 1 Cons length_skip_ws [of cs] by simp
      with Suc.IH(2,3) have "pitems (Suc n) (skip_ws cs) = pitems n (skip_ws cs)"
        and "pmembers (Suc n) (skip_ws cs) = pmembers n (skip_ws cs)" by auto
      then show ?thesis
        using Cons by (simp del: pitems.simps pmembers.simps)
    qed simp
  next
    case 2
    then have "pval (Suc n) s = pval n s" using Suc.IH(1) by simp
    moreover have "pitems (Suc n) (skip_ws ds) = pitems n (skip_ws ds)"
      if "pval n s = Some (v, u)" and "skip_ws u = d # ds" for v u d ds
      using Suc.IH(2) [of "skip_ws ds"] that 2 pval_consumes(1) [of n s v u]
        length_skip_ws [of u] length_skip_ws [of ds] by simp
    ultimately show ?case
      by (simp add: pitems.simps(2) [of "Suc n"] pitems.simps(2) [of n] del: pitems.simps pval.simps
          split: option.split list.split)
  next
    case 3
    have *: "pval (Suc n) (skip_ws ps) = pval n (skip_ws ps) \<and>
        (\<forall>v u d ds. pval n (skip_ws ps) = Some (v, u) \<longrightarrow> skip_ws u = d # ds \<longrightarrow>
           pmembers (Suc n) (skip_ws ds) = pmembers n (skip_ws ds))"
      if "s = q # qs" and "parse_chars qs = Some (k, r1)" and "skip_ws r1 = p # ps" for q qs k r1 p ps
    proof -
      have l: "2 * length (skip_ws ps) + 2 \<le> n"
        using that 3 parse_chars_consumes [of qs k r1] length_skip_ws [of r1] length_skip_ws [of ps]
        by simp
      moreover have "2 * length (skip_ws ds) + 2 \<le> n"
        if "pval n (skip_ws ps) = Some (v, u)" and "skip_ws u = d # ds" for v u d ds
        using that l pval_consumes(1) [of n "skip_ws ps" v u] length_skip_ws [of u]
          length_skip_ws [of ds] by simp
      ultimately show ?thesis using Suc.IH(1,3) by simp
    qed
    then show ?case
      by (simp add: pmembers.simps(2) [of "Suc n"] pmembers.simps(2) [of n]
          del: pmembers.simps pval.simps split: option.split list.split)
  }
qed simp_all

lemma pval_fuel_enough: "2 * length s + 1 \<le> n \<Longrightarrow> pval n s = pval (2 * length s + 1) s"
proof (induction n rule: dec_induct)
  case (step n)
  with pval_more_fuel(1) [of s n] show ?case by simp
qed simp

end
