(* ===== verification/Budget_Window.thy ===== *)
theory Budget_Window
  imports Json
begin

text \<open>
  \<open>policyengine_api/utils/budget_window.py\<close> and \<open>policyengine_api/economy_years.py\<close>:
  the years a budget-window request expands to, the period that names the window in
  cache keys, and the years for which society-wide results are offered
  (\<open>_validate_economy_year\<close> of \<open>services/economy_simulation_requests.py\<close>).
\<close>

section \<open>Budget windows\<close>

definition BUDGET_WINDOW_MAX_ACTIVE_YEARS :: int where
  "BUDGET_WINDOW_MAX_ACTIVE_YEARS = 20"

definition BUDGET_WINDOW_MAX_YEARS :: int where
  "BUDGET_WINDOW_MAX_YEARS = 75"

definition BUDGET_WINDOW_MAX_END_YEAR :: int where
  "BUDGET_WINDOW_MAX_END_YEAR = 2099"

record budget_window_setup =
  bw_start_year :: string
  bw_window_size :: int
  bw_years :: "string list"
  bw_time_period :: string

definition build_budget_window_years :: "string \<Rightarrow> int \<Rightarrow> string list result" where
  "build_budget_window_years start_year window_size =
     res_bind (py_int start_year)
       (\<lambda>start. Inr (map (\<lambda>i. show_int (start + int i)) [0..<nat window_size]))"

definition build_budget_window_time_period :: "string \<Rightarrow> int \<Rightarrow> string" where
  "build_budget_window_time_period start_year window_size =
     ''budget_window:'' @ start_year @ '':'' @ show_int window_size"

definition build_budget_window_request_setup ::
  "string \<Rightarrow> int \<Rightarrow> string \<Rightarrow> budget_window_setup result" where
  "build_budget_window_request_setup start_year window_size target =
     (if target \<noteq> ''general''
      then Inl (ValueError (''Budget-window calculations only support target='' @ repr_string ''general''))
      else res_bind (py_int start_year) (\<lambda>start_year_int.
        if \<not> (1 \<le> window_size \<and> window_size \<le> BUDGET_WINDOW_MAX_YEARS)
        then Inl (ValueError (''window_size must be between 1 and '' @ show_int BUDGET_WINDOW_MAX_YEARS))
        else if start_year_int + window_size - 1 > BUDGET_WINDOW_MAX_END_YEAR
        then Inl (ValueError (''budget-window end_year must be ''
                    @ show_int BUDGET_WINDOW_MAX_END_YEAR @ '' or earlier''))
        else (let normalized_start_year = show_int start_year_int
              in res_bind (build_budget_window_years normalized_start_year window_size)
                   (\<lambda>years. Inr \<lparr>bw_start_year = normalized_start_year,
                                  bw_window_size = window_size, bw_years = years,
                                  bw_time_period = build_budget_window_time_period
                                                     normalized_start_year window_size\<rparr>))))"

section \<open>Economy years\<close>

definition US_ECONOMY_YEARS :: "int list" where
  "US_ECONOMY_YEARS = rev [2024..2035]"

definition UK_ECONOMY_YEARS :: "int list" where
  "UK_ECONOMY_YEARS = [2024..2032]"

definition ECONOMY_YEARS :: "(string \<times> int list) list" where
  "ECONOMY_YEARS = [(''us'', US_ECONOMY_YEARS), (''uk'', UK_ECONOMY_YEARS)]"

definition DATASET_YEAR_UNAVAILABLE :: string where
  "DATASET_YEAR_UNAVAILABLE = ''DATASET_YEAR_UNAVAILABLE''"

definition economy_years_of :: "string \<Rightarrow> int list result" where
  "economy_years_of country_id =
     (case map_of ECONOMY_YEARS country_id of None \<Rightarrow> Inl (KeyErr country_id) | Some ys \<Rightarrow> Inr ys)"

definition dataset_year_unavailable_message :: "string \<Rightarrow> string \<Rightarrow> string result" where
  "dataset_year_unavailable_message country_id year =
     res_bind (economy_years_of country_id) (\<lambda>years.
       let country = py_upper country_id
       in Inr (country @ '' results are available for '' @ show_int (Min (set years)) @ '' to ''
            @ show_int (Max (set years)) @ ''. '' @ year @ '' is outside the years the current ''
            @ country @ '' model and data cover.''))"

definition validate_economy_year :: "string \<Rightarrow> string \<Rightarrow> unit result" where
  "validate_economy_year country_id year =
     res_bind
       (if py_isdigit year
        then res_bind (py_int year) (\<lambda>y. res_bind (economy_years_of country_id)
               (\<lambda>years. Inr (y \<in> set years)))
        else Inr False)
       (\<lambda>covered. if covered then Inr ()
          else res_bind (dataset_year_unavailable_message country_id year)
                 (\<lambda>message. Inl (SPMValidationError DATASET_YEAR_UNAVAILABLE message)))"

section \<open>Properties\<close>

lemma py_int_show_int_neg: "py_int (show_int i) = Inr i"
proof (cases "0 \<le> i")
  case False
  let ?d = "show_nat (nat (- i))"
  have s: "show_int i = CHR ''-'' # ?d" using False by (simp add: show_int_def)
  have "\<not> py_isspace CHR ''-''" by (simp add: py_isspace_def)
  moreover have "\<not> py_isspace c" if "is_digit c" for c
    using that by (auto simp: is_digit_def py_isspace_def)
  ultimately have "\<forall>c\<in>set (CHR ''-'' # ?d). \<not> py_isspace c"
    using show_nat_digits by auto
  then have strip: "py_strip (CHR ''-'' # ?d) = CHR ''-'' # ?d"
    unfolding py_strip_def
    by (metis (no_types, opaque_lifting) dropWhile_eq_self_iff hd_in_set rev_rev_ident set_rev)
  show ?thesis
    using digit_groups_digits [OF show_nat_digits [of "nat (- i)"] show_nat_not_Nil] False
    by (simp add: py_int_def s strip startswith_def Let_def del: digit_groups.simps)
qed simp

lemma setup_Inr:
  assumes "build_budget_window_request_setup start_year window_size target = Inr window"
  shows "\<exists>y. py_int start_year = Inr y \<and> target = ''general''
     \<and> 1 \<le> window_size \<and> window_size \<le> BUDGET_WINDOW_MAX_YEARS
     \<and> y + window_size - 1 \<le> BUDGET_WINDOW_MAX_END_YEAR
     \<and> window = \<lparr>bw_start_year = show_int y, bw_window_size = window_size,
                bw_years = map (\<lambda>i. show_int (y + int i)) [0..<nat window_size],
                bw_time_period = build_budget_window_time_period (show_int y) window_size\<rparr>"
  using assms
  by (auto simp: build_budget_window_request_setup_def build_budget_window_years_def
      res_bind_Inr_iff py_int_show_int_neg not_less Let_def split: if_splits)

lemma time_period_inj:
  assumes "build_budget_window_time_period (show_int a) m =
             build_budget_window_time_period (show_int b) n"
  shows "a = b \<and> m = n"
proof -
  have nc: "CHR '':'' \<notin> set (show_int i)" for i
    using show_nat_digits [of "nat (- i)"] show_nat_digits [of "nat i"]
    by (auto simp: show_int_def is_digit_def)
  have "split_on CHR '':'' (show_int a @ CHR '':'' # show_int m)
      = split_on CHR '':'' (show_int b @ CHR '':'' # show_int n)"
    using assms by (simp add: build_budget_window_time_period_def)
  then have "show_int a = show_int b \<and> show_int m = show_int n"
    by (simp add: split_on_append split_on_single nc)
  then show ?thesis by (auto dest: show_int_inj)
qed

text \<open>
  A budget-window request is accepted exactly for the target \<open>general\<close>, a start year
  that reads as an integer, 1 to 75 years and an end no later than 2099. The accepted
  window is the consecutive years from the start year, and its period names it: two
  accepted requests have the same period only if they cover the same years.
\<close>

theorem budget_window_setup_correct:
  "((\<exists>window. build_budget_window_request_setup start_year window_size target = Inr window) \<longleftrightarrow>
      target = ''general'' \<and> 1 \<le> window_size \<and> window_size \<le> 75
      \<and> (\<exists>y. py_int start_year = Inr y \<and> y + window_size - 1 \<le> 2099))
   \<and> (build_budget_window_request_setup start_year window_size target = Inr window \<longrightarrow>
        (\<exists>y. py_int start_year = Inr y
           \<and> bw_years window = map (\<lambda>i. show_int (y + int i)) [0..<nat window_size]))
   \<and> (build_budget_window_request_setup start_year window_size target = Inr window \<longrightarrow>
      build_budget_window_request_setup start_year' window_size' target' = Inr window' \<longrightarrow>
        (bw_time_period window = bw_time_period window' \<longleftrightarrow> bw_years window = bw_years window'))"
proof (intro conjI impI)
  show "(\<exists>window. build_budget_window_request_setup start_year window_size target = Inr window) \<longleftrightarrow>
      target = ''general'' \<and> 1 \<le> window_size \<and> window_size \<le> 75
      \<and> (\<exists>y. py_int start_year = Inr y \<and> y + window_size - 1 \<le> 2099)"
    by (auto simp: build_budget_window_request_setup_def build_budget_window_years_def Let_def
        res_bind_Inr_iff py_int_show_int_neg BUDGET_WINDOW_MAX_YEARS_def
        BUDGET_WINDOW_MAX_END_YEAR_def not_less)
next
  assume "build_budget_window_request_setup start_year window_size target = Inr window"
  then show "\<exists>y. py_int start_year = Inr y
      \<and> bw_years window = map (\<lambda>i. show_int (y + int i)) [0..<nat window_size]"
    by (auto dest!: setup_Inr)
next
  assume "build_budget_window_request_setup start_year window_size target = Inr window"
    and "build_budget_window_request_setup start_year' window_size' target' = Inr window'"
  from setup_Inr [OF this(1)] setup_Inr [OF this(2)] obtain y y' where e: "1 \<le> window_size" "1 \<le> window_size'"
      "bw_years window = map (\<lambda>i. show_int (y + int i)) [0..<nat window_size]"
      "bw_years window' = map (\<lambda>i. show_int (y' + int i)) [0..<nat window_size']"
      "bw_time_period window = build_budget_window_time_period (show_int y) window_size"
      "bw_time_period window' = build_budget_window_time_period (show_int y') window_size'"
    by (elim exE conjE, intro that) simp_all
  have "bw_years window = bw_years window' \<longrightarrow> y = y' \<and> window_size = window_size'"
  proof
    assume eq: "bw_years window = bw_years window'"
    then have "length (bw_years window) = length (bw_years window')" by simp
    with e have w: "window_size = window_size'" by simp
    from eq have "bw_years window ! 0 = bw_years window' ! 0" by simp
    with e w have "show_int y = show_int y'" by simp
    with w show "y = y' \<and> window_size = window_size'" by (simp add: show_int_inj)
  qed
  then show "bw_time_period window = bw_time_period window' \<longleftrightarrow> bw_years window = bw_years window'"
    using e time_period_inj by metis
qed

theorem budget_window_setup_correct_witness:
  "\<exists>window. build_budget_window_request_setup ''2026'' 3 ''general'' = Inr window
     \<and> bw_years window = map (\<lambda>i. show_int (2026 + int i)) [0..<3]
     \<and> (bw_time_period window = bw_time_period window \<longleftrightarrow> bw_years window = bw_years window)"
proof -
  have y: "py_int ''2026'' = Inr 2026" by code_simp
  note c = budget_window_setup_correct [of "''2026''" 3 "''general''"]
  have "\<exists>window. build_budget_window_request_setup ''2026'' 3 ''general'' = Inr window"
    by (rule c [THEN conjunct1, THEN iffD2]) (simp add: y)
  then obtain window where s: "build_budget_window_request_setup ''2026'' 3 ''general'' = Inr window"
    by (rule exE)
  have "bw_years window = map (\<lambda>i. show_int (2026 + int i)) [0..<3]"
    using c [of window] s y by auto
  with s show ?thesis
    using c [of window "''2026''" 3 "''general''" window] by blast
qed

text \<open>
  For a country with economy years, a year of ASCII digits passes exactly when it is
  one of them; every other text without superscript digits is refused with the typed
  DATASET_YEAR_UNAVAILABLE error.
\<close>

theorem validate_economy_year_correct:
  assumes "country_id \<in> {''us'', ''uk''}" and "\<forall>c\<in>set year. (of_char c :: nat) \<notin> {178, 179, 185}"
  shows "(validate_economy_year country_id year = Inr () \<longleftrightarrow>
            (\<exists>y ys. (\<forall>c\<in>set year. is_digit c) \<and> py_int year = Inr y
               \<and> economy_years_of country_id = Inr ys \<and> y \<in> set ys))
         \<and> (validate_economy_year country_id year = Inr ()
            \<or> (\<exists>m. validate_economy_year country_id year =
                     Inl (SPMValidationError ''DATASET_YEAR_UNAVAILABLE'' m)))"
proof -
  obtain ys where ys: "economy_years_of country_id = Inr ys"
    using assms(1) by (auto simp: economy_years_of_def ECONOMY_YEARS_def)
  obtain m where m: "dataset_year_unavailable_message country_id year = Inr m"
    by (simp add: dataset_year_unavailable_message_def ys Let_def)
  show ?thesis
  proof (cases "py_isdigit year")
    case True
    with assms(2) have d: "\<forall>c\<in>set year. is_digit c" and "year \<noteq> []"
      by (auto simp: py_isdigit_def)
    then have "py_int year = Inr (int (digits_val 0 year))" by (rule py_int_digits)
    with True d show ?thesis
      by (simp add: validate_economy_year_def ys m DATASET_YEAR_UNAVAILABLE_def)
  next
    case False
    have "\<not> (\<forall>c\<in>set year. is_digit c) \<or> (\<forall>y. py_int year \<noteq> Inr y)"
      using False by (cases year) (auto simp: py_isdigit_def py_int_def py_strip_def startswith_def)
    with False show ?thesis
      by (auto simp: validate_economy_year_def ys m DATASET_YEAR_UNAVAILABLE_def)
  qed
qed

theorem validate_economy_year_correct_witness:
  "validate_economy_year ''uk'' ''2030'' = Inr ()"
proof -
  have "\<exists>y ys. (\<forall>c\<in>set ''2030''. is_digit c) \<and> py_int ''2030'' = Inr y
      \<and> economy_years_of ''uk'' = Inr ys \<and> y \<in> set ys"
    by (rule exI [of _ 2030], rule exI [of _ UK_ECONOMY_YEARS], code_simp)
  then show ?thesis
    using validate_economy_year_correct [of "''uk''" "''2030''"] by (simp add: of_char_def)
qed

end
