(* ===== verification/Economy_Types.thy ===== *)
theory Economy_Types
  imports Json_Codec Budget_Window
begin

text \<open>
  \<open>policyengine_api/services/economy_impact_types.py\<close> and
  \<open>services/economic_impact_request.py\<close>: the requests, resolved options and results of the
  economy service, with the JSON forms of the results.

  A dict field is the JSON value it holds. \<open>run_progress\<close>, the stage fields relayed from the
  simulation service, is kept as the JSON object it serialises to. Logging is not modelled.
\<close>

section \<open>Statuses and actions\<close>

datatype impact_action = ACompleted | AFailed | AComputing | ACreate

datatype impact_status = Computing | Ok | Error

fun status_value :: "impact_status \<Rightarrow> string" where
  "status_value Computing = ''computing''"
| "status_value Ok = ''ok''"
| "status_value Error = ''error''"

definition status_of :: "string \<Rightarrow> impact_status option" where
  "status_of s =
     (if s = ''computing'' then Some Computing else if s = ''ok'' then Some Ok
      else if s = ''error'' then Some Error else None)"

lemma status_of_value [simp]: "status_of (status_value s) = Some s"
  by (cases s) (simp_all add: status_of_def)

section \<open>Limits\<close>

definition BUDGET_WINDOW_SUBMISSION_VALIDATION_ERROR_STATUS_CODES :: "int set" where
  "BUDGET_WINDOW_SUBMISSION_VALIDATION_ERROR_STATUS_CODES = {400, 422}"

definition LOCAL_AREA_BREAKDOWN_REFUSAL_STATUS_CODES :: "int set" where
  "LOCAL_AREA_BREAKDOWN_REFUSAL_STATUS_CODES = {400, 422}"

definition RETRYABLE_FAILURE_SECONDS :: int where
  "RETRYABLE_FAILURE_SECONDS = 120"

definition FAILED_IMPACT_DELETE_LOCKOUT_SECONDS :: int where
  "FAILED_IMPACT_DELETE_LOCKOUT_SECONDS = 10"

definition DELETE_RETRY_NOTE :: string where
  "DELETE_RETRY_NOTE =
     ''or '' @ show_int FAILED_IMPACT_DELETE_LOCKOUT_SECONDS
       @ '' seconds after it by first sending DELETE to this URL.''"

definition LOCAL_AREA_BREAKDOWN_RETRY_NOTE :: string where
  "LOCAL_AREA_BREAKDOWN_RETRY_NOTE =
     ''A new local-area breakdown can be requested '' @ show_int (RETRYABLE_FAILURE_SECONDS div 60)
       @ '' minutes after this failure, '' @ DELETE_RETRY_NOTE"

definition US_STATE_RETRY_NOTE :: string where
  "US_STATE_RETRY_NOTE =
     ''A new run for this state can be requested '' @ show_int (RETRYABLE_FAILURE_SECONDS div 60)
       @ '' minutes after this failure, '' @ DELETE_RETRY_NOTE"

definition FAILED_IMPACT_DELETE_ATTEMPTS :: nat where
  "FAILED_IMPACT_DELETE_ATTEMPTS = 3"

definition LOCAL_AREA_BREAKDOWN_SIMULATION_KIND :: string where
  "LOCAL_AREA_BREAKDOWN_SIMULATION_KIND = ''local_area_breakdown''"

definition LOCAL_AREA_BREAKDOWN_RESULT_SCHEMA_VERSION :: int where
  "LOCAL_AREA_BREAKDOWN_RESULT_SCHEMA_VERSION = 2"

definition BUDGET_WINDOW_CLAIM_ATTEMPTS :: nat where
  "BUDGET_WINDOW_CLAIM_ATTEMPTS = 3"

definition REFORM_IMPACT_START_CLAIM_ATTEMPTS :: nat where
  "REFORM_IMPACT_START_CLAIM_ATTEMPTS = 3"

definition BUDGET_WINDOW_LISTED_COMPUTING_YEARS :: nat where
  "BUDGET_WINDOW_LISTED_COMPUTING_YEARS = 2"

definition LOCAL_AREA_BREAKDOWN :: string where
  "LOCAL_AREA_BREAKDOWN = ''local_areas''"

section \<open>Requests\<close>

record impact_request =
  rq_country_id :: string
  rq_policy_id :: int
  rq_baseline_policy_id :: int
  rq_region :: string
  rq_dataset :: string
  rq_options :: "(string \<times> json) list"
  rq_api_version :: "string option"
  rq_target :: string

record impact_policies =
  baseline_json :: json
  reform_json :: json

record bundle_identity =
  bi_dataset :: string
  bi_model_version :: "string option"
  bi_policyengine_version :: "string option"
  bi_data_version :: "string option"
  bi_runtime_app_name :: "string option"

record setup_options =
  eo_submission_claim_id :: string
  eo_observability_id :: "string option"
  eo_country_id :: string
  eo_reform_policy_id :: int
  eo_baseline_policy_id :: int
  eo_region :: string
  eo_dataset :: string
  eo_time_period :: string
  eo_options :: "(string \<times> json) list"
  eo_api_version :: string
  eo_target :: string
  eo_model_version :: "string option"
  eo_policyengine_version :: "string option"
  eo_data_version :: "string option"
  eo_runtime_app_name :: "string option"
  eo_options_hash :: "string option"

section \<open>Annual results\<close>

record impact_result =
  er_status :: impact_status
  er_data :: "json option"
  er_message :: "string option"
  er_retry_after_seconds :: "int option"
  er_delete_after_seconds :: "int option"
  er_run_progress :: "json option"

fun opt_str :: "string option \<Rightarrow> json" where
  "opt_str None = JNull"
| "opt_str (Some s) = JStr s"

fun opt_int :: "int option \<Rightarrow> json" where
  "opt_int None = JNull"
| "opt_int (Some i) = JInt i"

fun opt_json :: "json option \<Rightarrow> json" where
  "opt_json None = JNull"
| "opt_json (Some v) = v"

definition impact_result_to_dict :: "impact_result \<Rightarrow> json" where
  "impact_result_to_dict r =
     JObj [(''status'', JStr (status_value (er_status r))), (''data'', opt_json (er_data r)),
           (''message'', opt_str (er_message r)),
           (''retry_after_seconds'', opt_int (er_retry_after_seconds r)),
           (''delete_after_seconds'', opt_int (er_delete_after_seconds r))]"

definition impact_completed :: "json \<Rightarrow> impact_result" where
  "impact_completed data =
     \<lparr>er_status = Ok, er_data = Some data, er_message = None, er_retry_after_seconds = None,
      er_delete_after_seconds = None, er_run_progress = None\<rparr>"

definition impact_computing :: "json option \<Rightarrow> impact_result" where
  "impact_computing run_progress =
     \<lparr>er_status = Computing, er_data = None, er_message = None, er_retry_after_seconds = None,
      er_delete_after_seconds = None, er_run_progress = run_progress\<rparr>"

definition impact_error :: "string \<Rightarrow> int option \<Rightarrow> int option \<Rightarrow> impact_result" where
  "impact_error message retry_after_seconds delete_after_seconds =
     \<lparr>er_status = Error, er_data = None, er_message = Some message,
      er_retry_after_seconds = retry_after_seconds,
      er_delete_after_seconds = delete_after_seconds, er_run_progress = None\<rparr>"

section \<open>Deletions of a stored failure\<close>

datatype deletion_outcome = Deleted | Locked | NotAFailure | NotFound

record failed_impact_deletion =
  fd_outcome :: deletion_outcome
  fd_message :: "string option"
  fd_delete_after_seconds :: "int option"

definition deletion_deleted :: failed_impact_deletion where
  "deletion_deleted = \<lparr>fd_outcome = Deleted, fd_message = None, fd_delete_after_seconds = None\<rparr>"

definition deletion_locked :: "int \<Rightarrow> failed_impact_deletion" where
  "deletion_locked delete_after_seconds =
     \<lparr>fd_outcome = Locked,
      fd_message = Some (''This failure was recorded less than ''
        @ show_int FAILED_IMPACT_DELETE_LOCKOUT_SECONDS @ '' seconds ago, so it was not ''
        @ ''deleted. It can be deleted in '' @ show_int delete_after_seconds @ '' seconds.''),
      fd_delete_after_seconds = Some delete_after_seconds\<rparr>"

definition deletion_not_a_failure :: "string \<Rightarrow> failed_impact_deletion" where
  "deletion_not_a_failure status =
     \<lparr>fd_outcome = NotAFailure,
      fd_message = Some (''The stored economic impact is '' @ status
        @ '', not a failure, so it was not deleted.''),
      fd_delete_after_seconds = None\<rparr>"

definition deletion_not_found :: failed_impact_deletion where
  "deletion_not_found =
     \<lparr>fd_outcome = NotFound,
      fd_message = Some ''No economic impact is stored for this request.'',
      fd_delete_after_seconds = None\<rparr>"

section \<open>Budget-window results\<close>

record year_progress =
  yp_completed :: "string list"
  yp_computing :: "string list"
  yp_queued :: "string list"

record window_result =
  wr_status :: impact_status
  wr_data :: "json option"
  wr_progress :: "int option"
  wr_completed_years :: "string list"
  wr_computing_years :: "string list"
  wr_queued_years :: "string list"
  wr_message :: "string option"
  wr_error :: "string option"
  wr_cache_status :: "string option"

definition window_result_to_dict :: "window_result \<Rightarrow> json" where
  "window_result_to_dict r =
     JObj [(''status'', JStr (status_value (wr_status r))), (''data'', opt_json (wr_data r)),
           (''progress'', opt_int (wr_progress r)),
           (''completed_years'', JArr (map JStr (wr_completed_years r))),
           (''computing_years'', JArr (map JStr (wr_computing_years r))),
           (''queued_years'', JArr (map JStr (wr_queued_years r))),
           (''message'', opt_str (wr_message r)), (''error'', opt_str (wr_error r))]"

definition window_completed :: "json \<Rightarrow> string option \<Rightarrow> window_result" where
  "window_completed data cache_status =
     \<lparr>wr_status = Ok, wr_data = Some data, wr_progress = Some 100, wr_completed_years = [],
      wr_computing_years = [], wr_queued_years = [], wr_message = None, wr_error = None,
      wr_cache_status = cache_status\<rparr>"

definition window_computing ::
  "int \<Rightarrow> year_progress \<Rightarrow> string \<Rightarrow> string option \<Rightarrow> window_result" where
  "window_computing progress years message cache_status =
     \<lparr>wr_status = Computing, wr_data = None, wr_progress = Some progress,
      wr_completed_years = yp_completed years, wr_computing_years = yp_computing years,
      wr_queued_years = yp_queued years, wr_message = Some message, wr_error = None,
      wr_cache_status = cache_status\<rparr>"

definition window_failed ::
  "string \<Rightarrow> string list \<Rightarrow> string list \<Rightarrow> string list \<Rightarrow> string option \<Rightarrow> window_result" where
  "window_failed message completed computing queued cache_status =
     \<lparr>wr_status = Error, wr_data = None, wr_progress = None, wr_completed_years = completed,
      wr_computing_years = computing, wr_queued_years = queued, wr_message = Some message,
      wr_error = Some message, wr_cache_status = cache_status\<rparr>"

text \<open>\<open>model_dump(mode="json")\<close>, every field included.\<close>

definition window_result_dump :: "window_result \<Rightarrow> json" where
  "window_result_dump r =
     JObj [(''status'', JStr (status_value (wr_status r))), (''data'', opt_json (wr_data r)),
           (''progress'', opt_int (wr_progress r)),
           (''completed_years'', JArr (map JStr (wr_completed_years r))),
           (''computing_years'', JArr (map JStr (wr_computing_years r))),
           (''queued_years'', JArr (map JStr (wr_queued_years r))),
           (''message'', opt_str (wr_message r)), (''error'', opt_str (wr_error r)),
           (''cache_status'', opt_str (wr_cache_status r))]"

text \<open>
  \<open>model_validate\<close> on a stored dict. pydantic also coerces numeric strings and whole
  floats to an int, which the stored documents never hold; here they are refused.
\<close>

fun read_opt_str :: "json option \<Rightarrow> string option option" where
  "read_opt_str None = Some None"
| "read_opt_str (Some JNull) = Some None"
| "read_opt_str (Some (JStr s)) = Some (Some s)"
| "read_opt_str (Some v) = None"

fun read_opt_int :: "json option \<Rightarrow> int option option" where
  "read_opt_int None = Some None"
| "read_opt_int (Some JNull) = Some None"
| "read_opt_int (Some v) = (case as_int v of None \<Rightarrow> None | Some i \<Rightarrow> Some (Some i))"

fun read_opt_dict :: "json option \<Rightarrow> json option option" where
  "read_opt_dict None = Some None"
| "read_opt_dict (Some JNull) = Some None"
| "read_opt_dict (Some (JObj kvs)) = Some (Some (JObj kvs))"
| "read_opt_dict (Some v) = None"

fun read_strs :: "json list \<Rightarrow> string list option" where
  "read_strs [] = Some []"
| "read_strs (JStr s # vs) = map_option (Cons s) (read_strs vs)"
| "read_strs (v # vs) = None"

fun read_str_list :: "json option \<Rightarrow> string list option" where
  "read_str_list None = Some []"
| "read_str_list (Some (JArr vs)) = read_strs vs"
| "read_str_list (Some v) = None"

fun read_status :: "json option \<Rightarrow> impact_status option" where
  "read_status (Some (JStr s)) = status_of s"
| "read_status v = None"

definition window_result_validate :: "json \<Rightarrow> window_result result" where
  "window_result_validate v =
     (case v of
        JObj d \<Rightarrow>
          (case (read_status (map_of d ''status''), read_opt_dict (map_of d ''data''),
                 read_opt_int (map_of d ''progress''), read_str_list (map_of d ''completed_years''),
                 read_str_list (map_of d ''computing_years''), read_str_list (map_of d ''queued_years''),
                 read_opt_str (map_of d ''message''), read_opt_str (map_of d ''error''),
                 read_opt_str (map_of d ''cache_status'')) of
             (Some st, Some da, Some pr, Some co, Some cm, Some qu, Some me, Some er, Some cs) \<Rightarrow>
               Inr \<lparr>wr_status = st, wr_data = da, wr_progress = pr, wr_completed_years = co,
                    wr_computing_years = cm, wr_queued_years = qu, wr_message = me, wr_error = er,
                    wr_cache_status = cs\<rparr>
           | _ \<Rightarrow> Inl (ValueError ''validation error for BudgetWindowEconomicImpactResult''))
      | _ \<Rightarrow> Inl (ValueError ''validation error for BudgetWindowEconomicImpactResult''))"

section \<open>Stored results read back\<close>

lemma read_strs_map [simp]: "read_strs (map JStr ss) = Some ss"
  by (induction ss) auto

lemma read_opt_str_opt [simp]: "read_opt_str (Some (opt_str s)) = Some s"
  by (cases s) auto

lemma read_opt_int_opt [simp]: "read_opt_int (Some (opt_int i)) = Some i"
  by (cases i) auto

definition is_dict_opt :: "json option \<Rightarrow> bool" where
  "is_dict_opt v \<longleftrightarrow> (case v of None \<Rightarrow> True | Some (JObj _) \<Rightarrow> True | _ \<Rightarrow> False)"

lemma read_opt_dict_opt [simp]: "is_dict_opt v \<Longrightarrow> read_opt_dict (Some (opt_json v)) = Some v"
  by (cases v) (auto simp: is_dict_opt_def split: json.splits)

lemma window_result_validate_dump:
  "is_dict_opt (wr_data r) \<Longrightarrow> window_result_validate (window_result_dump r) = Inr r"
  by (simp add: window_result_validate_def window_result_dump_def)

lemma window_result_validate_sorted_dump:
  assumes "wr_data r = None"
  shows "window_result_validate (sort_keys (window_result_dump r)) = Inr r"
proof -
  have leaf: "sort_keys (opt_str s) = opt_str s" "sort_keys (opt_int i) = opt_int i" for s i
    by (cases s; simp) (cases i; simp)
  have strs: "sort_keys_list (map JStr ss) = map JStr ss" for ss
    by (induction ss) auto
  have "distinct (map fst (sort_keys_items [(''status'', JStr (status_value (wr_status r))),
      (''data'', JNull), (''progress'', opt_int (wr_progress r)),
      (''completed_years'', JArr (map JStr (wr_completed_years r))),
      (''computing_years'', JArr (map JStr (wr_computing_years r))),
      (''queued_years'', JArr (map JStr (wr_queued_years r))),
      (''message'', opt_str (wr_message r)), (''error'', opt_str (wr_error r)),
      (''cache_status'', opt_str (wr_cache_status r))]))"
    by simp
  from map_of_sort_key_fst [OF this] show ?thesis
    using assms
    by (simp only: window_result_dump_def sort_keys.simps window_result_validate_def json.case)
      (simp add: leaf strs del: insort_key.simps)
qed

end
