(* ===== verification/Calendar.thy ===== *)
theory Calendar
  imports Json_Codec
begin

text \<open>
  Python's \<open>datetime.date\<close> and naive \<open>datetime.datetime\<close>: the Gregorian calendar of the
  years 1 to 9999, the ISO texts the program writes and reads, and the microseconds
  between two times.
\<close>

section \<open>Dates\<close>

type_synonym date = "nat \<times> nat \<times> nat"

definition is_leap :: "nat \<Rightarrow> bool" where
  "is_leap y \<longleftrightarrow> y mod 4 = 0 \<and> (y mod 100 \<noteq> 0 \<or> y mod 400 = 0)"

definition days_in_month :: "nat \<Rightarrow> nat \<Rightarrow> nat" where
  "days_in_month y m =
     (if m = 2 then (if is_leap y then 29 else 28)
      else if m \<in> {4, 6, 9, 11} then 30 else 31)"

fun calendar_date :: "date \<Rightarrow> bool" where
  "calendar_date (y, m, d) \<longleftrightarrow>
     1 \<le> y \<and> y \<le> 9999 \<and> 1 \<le> m \<and> m \<le> 12 \<and> 1 \<le> d \<and> d \<le> days_in_month y m"

fun date_le :: "date \<Rightarrow> date \<Rightarrow> bool" where
  "date_le (y, m, d) (y', m', d') \<longleftrightarrow> y < y' \<or> y = y' \<and> (m < m' \<or> m = m' \<and> d \<le> d')"

text \<open>\<open>_ZERO_PADDED_DATE.fullmatch\<close>: four, two and two digits separated by hyphens.\<close>

definition zero_padded_date :: "string \<Rightarrow> bool" where
  "zero_padded_date s \<longleftrightarrow>
     length s = 10 \<and> (\<forall>i<10. if i = 4 \<or> i = 7 then s ! i = CHR ''-'' else is_digit (s ! i))"

text \<open>\<open>date.fromisoformat\<close> on text of that shape: None where it raises ValueError.\<close>

definition date_fields :: "string \<Rightarrow> date" where
  "date_fields s =
     (digits_val 0 (take 4 s), digits_val 0 (take 2 (drop 5 s)), digits_val 0 (take 2 (drop 8 s)))"

definition fromisoformat :: "string \<Rightarrow> date option" where
  "fromisoformat s = (if calendar_date (date_fields s) then Some (date_fields s) else None)"

section \<open>ISO dates\<close>

text \<open>The text of a date, zero-padded.\<close>

definition pad_left :: "nat \<Rightarrow> string \<Rightarrow> string" where
  "pad_left k s = replicate (k - length s) CHR ''0'' @ s"

fun isoformat :: "date \<Rightarrow> string" where
  "isoformat (y, m, d) =
     pad_left 4 (show_nat y) @ ''-'' @ pad_left 2 (show_nat m) @ ''-'' @ pad_left 2 (show_nat d)"

lemma digits_val_pad_left: "digits_val 0 (pad_left k (show_nat n)) = n"
  by (simp add: pad_left_def digits_val_zeros)

lemma pad_left_digits: "\<forall>c\<in>set (pad_left k (show_nat n)). is_digit c"
  using show_nat_digits [of n] by (auto simp: pad_left_def)

lemma length_show_nat_le: "0 < k \<Longrightarrow> n < 10 ^ k \<Longrightarrow> length (show_nat n) \<le> k"
proof (induction k arbitrary: n)
  case (Suc k)
  show ?case
  proof (cases "n < 10")
    case True
    then show ?thesis by (simp add: show_nat.simps [of n])
  next
    case False
    with Suc.prems have "0 < k" by (cases k) auto
    moreover have "n div 10 < 10 ^ k" using Suc.prems by (simp add: less_mult_imp_div_less)
    ultimately have "length (show_nat (n div 10)) \<le> k" by (rule Suc.IH)
    with False show ?thesis by (simp add: show_nat.simps [of n])
  qed
qed simp

lemma length_pad_left: "0 < k \<Longrightarrow> n < 10 ^ k \<Longrightarrow> length (pad_left k (show_nat n)) = k"
  using length_show_nat_le [of k n] by (simp add: pad_left_def)

lemma digits_val_inj:
  "length s = length t \<Longrightarrow> \<forall>c\<in>set s. is_digit c \<Longrightarrow> \<forall>c\<in>set t. is_digit c \<Longrightarrow>
     digits_val 0 s = digits_val 0 t \<Longrightarrow> s = t"
proof (induction s arbitrary: t rule: rev_induct)
  case (snoc c s)
  then obtain t' d where t: "t = t' @ [d]" by (cases t rule: rev_cases) auto
  have eq: "10 * digits_val 0 s + digit_val c = 10 * digits_val 0 t' + digit_val d"
    using snoc.prems t by (simp add: digits_val_append)
  moreover have "digit_val c < 10" and "digit_val d < 10"
    using snoc.prems t by (auto simp: digit_val_less)
  ultimately have "digit_val c = digit_val d" and "digits_val 0 s = digits_val 0 t'"
    by presburger+
  moreover have "c = d"
    using \<open>digit_val c = digit_val d\<close> snoc.prems t digit_char_digit_val
    by (metis in_set_conv_decomp)
  ultimately show ?case using snoc t by auto
qed simp

lemma calendar_date_bounds:
  "calendar_date (y, m, d) \<Longrightarrow> y < 10 ^ 4 \<and> m < 10 ^ 2 \<and> d < 10 ^ 2"
  by (auto simp: days_in_month_def split: if_splits)

lemma date_fields_isoformat:
  assumes "calendar_date d"
  shows "date_fields (isoformat d) = d"
proof -
  obtain y m k where d: "d = (y, m, k)" by (cases d)
  with calendar_date_bounds assms have "length (pad_left 4 (show_nat y)) = 4"
    "length (pad_left 2 (show_nat m)) = 2" "length (pad_left 2 (show_nat k)) = 2"
    by (simp_all add: length_pad_left del: calendar_date.simps)
  then show ?thesis by (simp add: d date_fields_def digits_val_pad_left)
qed

lemma zero_padded_parts:
  "zero_padded_date s \<longleftrightarrow>
     (\<exists>a b c. s = a @ ''-'' @ b @ ''-'' @ c \<and> length a = 4 \<and> length b = 2 \<and> length c = 2
        \<and> (\<forall>x\<in>set (a @ b @ c). is_digit x))"
proof
  assume z: "zero_padded_date s"
  let ?a = "take 4 s" and ?b = "take 2 (drop 5 s)" and ?c = "drop 8 s"
  have len: "length s = 10" using z by (simp add: zero_padded_date_def)
  then obtain a0 a1 a2 a3 h b0 b1 i c0 c1 where s: "s = [a0, a1, a2, a3, h, b0, b1, i, c0, c1]"
    by (auto simp: numeral_eq_Suc length_Suc_conv)
  have all: "\<And>i. i < 10 \<Longrightarrow> if i = 4 \<or> i = 7 then s ! i = CHR ''-'' else is_digit (s ! i)"
    using z by (simp add: zero_padded_date_def)
  have "h = CHR ''-''" "i = CHR ''-''" "is_digit a0" "is_digit a1" "is_digit a2" "is_digit a3"
    "is_digit b0" "is_digit b1" "is_digit c0" "is_digit c1"
    using all [of 0] all [of 1] all [of 2] all [of 3] all [of 4] all [of 5] all [of 6] all [of 7]
      all [of 8] all [of 9] by (simp_all add: s)
  then show "\<exists>a b c. s = a @ ''-'' @ b @ ''-'' @ c \<and> length a = 4 \<and> length b = 2 \<and> length c = 2
        \<and> (\<forall>x\<in>set (a @ b @ c). is_digit x)"
    by (intro exI [of _ "[a0, a1, a2, a3]"] exI [of _ "[b0, b1]"] exI [of _ "[c0, c1]"])
      (simp add: s)
next
  assume "\<exists>a b c. s = a @ ''-'' @ b @ ''-'' @ c \<and> length a = 4 \<and> length b = 2 \<and> length c = 2
        \<and> (\<forall>x\<in>set (a @ b @ c). is_digit x)"
  then obtain a b c where s: "s = a @ ''-'' @ b @ ''-'' @ c"
    and l: "length a = 4" "length b = 2" "length c = 2" and d: "\<forall>x\<in>set (a @ b @ c). is_digit x"
    by blast
  have "if i = 4 \<or> i = 7 then s ! i = CHR ''-'' else is_digit (s ! i)" if "i < 10" for i
  proof -
    have "i < 4 \<or> i = 4 \<or> i = 5 \<or> i = 6 \<or> i = 7 \<or> i = 8 \<or> i = 9" using that by arith
    then show ?thesis
      using l d by (auto simp: s nth_append)
  qed
  moreover have "length s = 10" using l by (simp add: s)
  ultimately show "zero_padded_date s" by (simp only: zero_padded_date_def) blast
qed

lemma zero_padded_isoformat:
  assumes "calendar_date d"
  shows "zero_padded_date (isoformat d)"
proof -
  obtain y m k where d: "d = (y, m, k)" by (cases d)
  with calendar_date_bounds assms have "length (pad_left 4 (show_nat y)) = 4"
    "length (pad_left 2 (show_nat m)) = 2" "length (pad_left 2 (show_nat k)) = 2"
    by (simp_all add: length_pad_left del: calendar_date.simps)
  with d pad_left_digits show ?thesis
    unfolding zero_padded_parts
    by (intro exI [of _ "pad_left 4 (show_nat y)"] exI [of _ "pad_left 2 (show_nat m)"]
        exI [of _ "pad_left 2 (show_nat k)"]) auto
qed

lemma isoformat_date_fields:
  assumes "zero_padded_date s" and "calendar_date (date_fields s)"
  shows "isoformat (date_fields s) = s"
proof -
  from assms(1) obtain a b c where s: "s = a @ ''-'' @ b @ ''-'' @ c"
    and l: "length a = 4" "length b = 2" "length c = 2" and d: "\<forall>x\<in>set (a @ b @ c). is_digit x"
    unfolding zero_padded_parts by blast
  have f: "date_fields s = (digits_val 0 a, digits_val 0 b, digits_val 0 c)"
    using l by (simp add: date_fields_def s)
  have bounds: "digits_val 0 a < 10 ^ 4 \<and> digits_val 0 b < 10 ^ 2 \<and> digits_val 0 c < 10 ^ 2"
    using assms(2) unfolding f by (rule calendar_date_bounds)
  have "pad_left 4 (show_nat (digits_val 0 a)) = a" "pad_left 2 (show_nat (digits_val 0 b)) = b"
    "pad_left 2 (show_nat (digits_val 0 c)) = c"
    using bounds l d pad_left_digits
    by (auto intro!: digits_val_inj simp: length_pad_left digits_val_pad_left)
  then show ?thesis unfolding f by (simp add: s)
qed

text \<open>A date text is accepted exactly when it is the zero-padded text of a calendar date.\<close>

lemma accepted_date_iff:
  "zero_padded_date s \<and> fromisoformat s = Some d \<longleftrightarrow> calendar_date d \<and> s = isoformat d"
  by (auto simp: fromisoformat_def date_fields_isoformat isoformat_date_fields
      zero_padded_isoformat split: if_splits)

lemma isoformat_no_dot:
  assumes "calendar_date d"
  shows "CHR ''.'' \<notin> set (isoformat d)"
proof -
  obtain y m k where d: "d = (y, m, k)" by (cases d)
  have "\<not> is_digit CHR ''.''" by (simp add: is_digit_def)
  with pad_left_digits show ?thesis by (auto simp: d)
qed

lemma date_le_refl [simp]: "date_le d d"
  by (cases d) simp

declare calendar_date.simps [simp del] isoformat.simps [simp del] date_le.simps [simp del]

section \<open>Date-times\<close>

text \<open>A naive date-time: a date, hours, minutes, seconds and microseconds.\<close>

type_synonym datetime = "date \<times> nat \<times> nat \<times> nat \<times> nat"

fun valid_datetime :: "datetime \<Rightarrow> bool" where
  "valid_datetime (d, h, mi, s, us) \<longleftrightarrow>
     calendar_date d \<and> h < 24 \<and> mi < 60 \<and> s < 60 \<and> us < 1000000"

definition datetime_min :: datetime where
  "datetime_min = ((1, 1, 1), 0, 0, 0, 0)"

definition days_before_month :: "nat \<Rightarrow> nat \<Rightarrow> nat" where
  "days_before_month y m = sum_list (map (days_in_month y) [1..<m])"

text \<open>\<open>date.toordinal\<close>: 1 January of year 1 is day 1.\<close>

fun toordinal :: "date \<Rightarrow> int" where
  "toordinal (y, m, d) =
     (let z = int y - 1
      in z * 365 + z div 4 - z div 100 + z div 400 + int (days_before_month y m) + int d)"

text \<open>Microseconds since the epoch, 1 January 1970 (day 719163).\<close>

fun timestamp :: "datetime \<Rightarrow> int" where
  "timestamp (d, h, mi, s, us) =
     (((toordinal d - 719163) * 24 + int h) * 60 + int mi) * 60 * 1000000 + int s * 1000000 + int us"

text \<open>\<open>isoformat()\<close> of the time in UTC.\<close>

fun datetime_text :: "datetime \<Rightarrow> string" where
  "datetime_text (d, h, mi, s, us) =
     isoformat d @ ''T'' @ pad_left 2 (show_nat h) @ '':'' @ pad_left 2 (show_nat mi) @ '':''
       @ pad_left 2 (show_nat s)
       @ (if us = 0 then '''' else ''.'' @ pad_left 6 (show_nat us)) @ ''+00:00''"

text \<open>
  \<open>datetime.fromisoformat\<close> on such a text, as a naive time in UTC. The other ISO formats
  Python reads are outside the model.
\<close>

definition all_digits :: "string \<Rightarrow> bool" where
  "all_digits s \<longleftrightarrow> (\<forall>c\<in>set s. is_digit c)"

definition fraction_of :: "string \<Rightarrow> nat option" where
  "fraction_of t =
     (if t = ''+00:00'' then Some 0
      else if length t = 13 \<and> take 1 t = ''.'' \<and> drop 7 t = ''+00:00'' \<and> all_digits (take 6 (drop 1 t))
      then Some (digits_val 0 (take 6 (drop 1 t))) else None)"

definition datetime_of_text :: "string \<Rightarrow> datetime option" where
  "datetime_of_text s =
     (let d = take 10 s; t = drop 10 s; hh = take 2 (drop 1 t); mm = take 2 (drop 4 t);
          ss = take 2 (drop 7 t)
      in if zero_padded_date d \<and> 9 \<le> length t \<and> take 1 t = ''T'' \<and> t ! 3 = CHR '':''
            \<and> t ! 6 = CHR '':'' \<and> all_digits (hh @ mm @ ss)
         then (case (fromisoformat d, fraction_of (drop 9 t)) of
                 (Some date, Some us) \<Rightarrow>
                   (let dt = (date, digits_val 0 hh, digits_val 0 mm, digits_val 0 ss, us)
                    in if valid_datetime dt then Some dt else None)
               | _ \<Rightarrow> None)
         else None)"

lemma two_digits:
  assumes "n < 100"
  obtains a b where "pad_left 2 (show_nat n) = [a, b]" "is_digit a" "is_digit b"
    "digits_val 0 [a, b] = n"
proof -
  have "length (pad_left 2 (show_nat n)) = 2" using assms by (simp add: length_pad_left)
  then obtain a b where ab: "pad_left 2 (show_nat n) = [a, b]"
    by (auto simp: numeral_eq_Suc length_Suc_conv)
  with pad_left_digits [of 2 n] digits_val_pad_left [of 2 n] show ?thesis
    by (auto intro!: that)
qed

lemma fraction_of_text:
  assumes "us < 1000000"
  shows "fraction_of ((if us = 0 then '''' else ''.'' @ pad_left 6 (show_nat us)) @ ''+00:00'') = Some us"
proof (cases "us = 0")
  case False
  have "length (pad_left 6 (show_nat us)) = 6" using assms by (simp add: length_pad_left)
  with False pad_left_digits [of 6 us] show ?thesis
    by (simp add: fraction_of_def all_digits_def digits_val_pad_left)
qed (simp add: fraction_of_def)

lemma length_isoformat: "calendar_date d \<Longrightarrow> length (isoformat d) = 10"
  using zero_padded_isoformat by (simp add: zero_padded_date_def)

lemma datetime_of_text_text:
  assumes "valid_datetime dt"
  shows "datetime_of_text (datetime_text dt) = Some dt"
proof -
  obtain d h mi s us where dt: "dt = (d, h, mi, s, us)" by (cases dt)
  with assms have v: "calendar_date d" "h < 24" "mi < 60" "s < 60" "us < 1000000" by auto
  obtain h1 h2 where h: "pad_left 2 (show_nat h) = [h1, h2]" "is_digit h1" "is_digit h2"
    "digits_val 0 [h1, h2] = h" by (rule two_digits [of h]) (use v in auto)
  obtain m1 m2 where m: "pad_left 2 (show_nat mi) = [m1, m2]" "is_digit m1" "is_digit m2"
    "digits_val 0 [m1, m2] = mi" by (rule two_digits [of mi]) (use v in auto)
  obtain s1 s2 where s: "pad_left 2 (show_nat s) = [s1, s2]" "is_digit s1" "is_digit s2"
    "digits_val 0 [s1, s2] = s" by (rule two_digits [of s]) (use v in auto)
  let ?f = "(if us = 0 then '''' else ''.'' @ pad_left 6 (show_nat us)) @ ''+00:00''"
  let ?r = "CHR ''T'' # h1 # h2 # CHR '':'' # m1 # m2 # CHR '':'' # s1 # s2 # ?f"
  have whole: "datetime_text dt = isoformat d @ ?r" by (simp add: dt h m s)
  have iso: "fromisoformat (isoformat d) = Some d" "zero_padded_date (isoformat d)"
    using accepted_date_iff [of "isoformat d" d] v(1) by auto
  have parts: "take 10 (isoformat d @ ?r) = isoformat d" "drop 10 (isoformat d @ ?r) = ?r"
    using length_isoformat [OF v(1)] by simp_all
  have r: "take 1 ?r = ''T''" "?r ! 3 = CHR '':''" "?r ! 6 = CHR '':''" "9 \<le> length ?r"
    "take 2 (drop 1 ?r) = [h1, h2]" "take 2 (drop 4 ?r) = [m1, m2]" "take 2 (drop 7 ?r) = [s1, s2]"
    "drop 9 ?r = ?f" by simp_all
  show ?thesis
    unfolding whole datetime_of_text_def Let_def parts r h(4) m(4) s(4) fraction_of_text [OF v(5)]
    using h m s v by (simp add: iso all_digits_def dt)
qed

end
