(* ===== verification/Spm.thy ===== *)
theory Spm
  imports Economy_Types Calendar
begin

text \<open>
  \<open>policyengine_api/spm.py\<close>: the public SPM settings, their resolution against the
  certified configuration of the installed bundle, and the compact receipts of a
  calculation. A Python value is its JSON form, None being \<open>JNull\<close>.

  The record \<open>spm_install\<close> is what the module reads of the installed packages: the bundle
  manifest, whether the country model has the canonical constructor, and the forecast
  artifact of spm-calculator; with pydantic's date and int coercions and the readable text
  of its validation report for a model and an input. \<open>OtherError\<close> stands for the
  AttributeError, ImportError and OSError of an import.
\<close>

section \<open>The installed packages\<close>

record forecast =
  fc_years :: "int list"
  fc_entry :: "int \<Rightarrow> string option \<Rightarrow> string option \<Rightarrow> unit result"
  fc_geography_factor :: "int \<Rightarrow> string option \<Rightarrow> string option \<Rightarrow> string option \<Rightarrow> unit result"

record spm_install =
  si_manifest :: json
  si_country_implements :: "string \<Rightarrow> bool"
  si_us_supports :: "bool result"
  si_load_forecast :: "string \<Rightarrow> forecast result"
  si_report :: "string \<Rightarrow> json \<Rightarrow> string"
  si_date :: "json \<Rightarrow> date option"
  si_int :: "json \<Rightarrow> int option"

fun error_message :: "exn \<Rightarrow> string" where
  "error_message (ValueError m) = m"
| "error_message (TypeErr m) = m"
| "error_message (KeyErr m) = repr_string m"
| "error_message (OverflowErr m) = m"
| "error_message (RuntimeErr m) = m"
| "error_message (CacheCoordinationError m) = m"
| "error_message (ReformImpactHandoffError m) = m"
| "error_message (SPMValidationError code m) = m"
| "error_message (PolicyNotFoundError ids) =
     (case ids of [] \<Rightarrow> [] | [i] \<Rightarrow> show_int i
      | _ \<Rightarrow> ''('' @ join '', '' (map show_int ids) @ '')'')"
| "error_message (HTTPStatusError code body m) = m"
| "error_message (HTTPRequestError transport m) = m"
| "error_message (EntrypointConnectionError m) = m"
| "error_message (LookupErr m) = m"
| "error_message (InvalidIdErr m) = m"
| "error_message (IntegrityErr m) = m"
| "error_message (OtherError m) = m"

text \<open>\<open>SPMValidationError\<close> is a ValueError.\<close>

fun is_value_error :: "exn \<Rightarrow> bool" where
  "is_value_error (ValueError m) = True"
| "is_value_error (SPMValidationError code m) = True"
| "is_value_error e = False"

fun is_install_error :: "exn \<Rightarrow> bool" where
  "is_install_error (TypeErr m) = True"
| "is_install_error (OtherError m) = True"
| "is_install_error e = is_value_error e"

text \<open>\<open>raise SPMValidationError(code, error_message(error)) from error\<close> for the errors caught.\<close>

definition as_spm_error :: "string \<Rightarrow> (exn \<Rightarrow> bool) \<Rightarrow> 'a result \<Rightarrow> 'a result" where
  "as_spm_error code caught r =
     (case r of
        Inl e \<Rightarrow> if caught e then Inl (SPMValidationError code (error_message e)) else Inl e
      | Inr x \<Rightarrow> Inr x)"

definition spm_error_to_dict :: "string \<Rightarrow> string \<Rightarrow> json" where
  "spm_error_to_dict code message = JObj [(''code'', JStr code), (''message'', JStr message)]"

section \<open>Field constraints\<close>

definition sha256_text :: "string \<Rightarrow> bool" where
  "sha256_text s \<longleftrightarrow>
     length s = 64 \<and> (\<forall>c\<in>set s. is_digit c \<or> 97 \<le> (of_char c :: nat) \<and> (of_char c :: nat) \<le> 102)"

definition white_space :: "char \<Rightarrow> bool" where
  "white_space c \<longleftrightarrow> (let n = (of_char c :: nat) in 9 \<le> n \<and> n \<le> 13 \<or> n \<in> {32, 133, 160})"

definition nonspace_text :: "string \<Rightarrow> bool" where
  "nonspace_text s \<longleftrightarrow> s \<noteq> [] \<and> (\<forall>c\<in>set s. \<not> white_space c)"

definition CALENDAR_YEAR_LENGTH :: nat where
  "CALENDAR_YEAR_LENGTH = 4"

definition calendar_year :: "string \<Rightarrow> bool" where
  "calendar_year s \<longleftrightarrow> length s = CALENDAR_YEAR_LENGTH \<and> (\<forall>c\<in>set s. is_digit c)"

definition geography_kind_text :: "string \<Rightarrow> bool" where
  "geography_kind_text s \<longleftrightarrow> s \<in> {''county'', ''national'', ''metro''}"

text \<open>\<open>date.fromisoformat(value).isoformat() == value\<close>.\<close>

definition exact_iso_date :: "string \<Rightarrow> bool" where
  "exact_iso_date s \<longleftrightarrow> zero_padded_date s \<and> calendar_date (date_fields s)"

text \<open>\<open>validate_location\<close>, the same for a selection, a configuration and a receipt.\<close>

definition location_ok :: "string \<Rightarrow> string option \<Rightarrow> bool" where
  "location_ok kind geography_id =
     (if kind = ''metro'' then (case geography_id of None \<Rightarrow> False | Some g \<Rightarrow> py_strip g \<noteq> [])
      else geography_id = None)"

text \<open>An optional text field (absent means None), and a text field with or without a default.\<close>

fun opt_field :: "(string \<Rightarrow> bool) \<Rightarrow> json option \<Rightarrow> string option option" where
  "opt_field ok None = Some None"
| "opt_field ok (Some JNull) = Some None"
| "opt_field ok (Some (JStr s)) = (if ok s then Some (Some s) else None)"
| "opt_field ok (Some v) = None"

fun req_field :: "(string \<Rightarrow> bool) \<Rightarrow> json option \<Rightarrow> string option" where
  "req_field ok (Some (JStr s)) = (if ok s then Some s else None)"
| "req_field ok v = None"

definition default_field :: "(string \<Rightarrow> bool) \<Rightarrow> string \<Rightarrow> json option \<Rightarrow> string option" where
  "default_field ok d v = (if v = None then Some d else req_field ok v)"

definition only_keys :: "string list \<Rightarrow> (string \<times> json) list \<Rightarrow> bool" where
  "only_keys names d \<longleftrightarrow> (\<forall>(k, v)\<in>set d. k \<in> set names)"

section \<open>Selections\<close>

definition SELECTION_FIELDS :: "string list" where
  "SELECTION_FIELDS = [''forecast_content_sha256'', ''scenario'', ''geography_kind'', ''geography_id'',
     ''county_vintage'', ''as_of'']"

record spm_selection =
  sp_forecast_content_sha256 :: "string option"
  sp_scenario :: "string option"
  sp_geography_kind :: string
  sp_geography_id :: "string option"
  sp_county_vintage :: string
  sp_as_of :: "string option"
  sp_fields_set :: "string list"

definition selection_fields_of :: "(string \<times> json) list \<Rightarrow> spm_selection option" where
  "selection_fields_of d =
     (case (opt_field sha256_text (map_of d ''forecast_content_sha256''),
            opt_field nonspace_text (map_of d ''scenario''),
            default_field geography_kind_text ''county'' (map_of d ''geography_kind''),
            opt_field (\<lambda>s. s \<noteq> []) (map_of d ''geography_id''),
            default_field calendar_year ''2020'' (map_of d ''county_vintage''),
            opt_field exact_iso_date (map_of d ''as_of'')) of
        (Some sha, Some sc, Some kind, Some gid, Some vintage, Some as_of) \<Rightarrow>
          Some \<lparr>sp_forecast_content_sha256 = sha, sp_scenario = sc, sp_geography_kind = kind,
                sp_geography_id = gid, sp_county_vintage = vintage, sp_as_of = as_of,
                sp_fields_set = filter (\<lambda>f. map_of d f \<noteq> None) SELECTION_FIELDS\<rparr>
      | _ \<Rightarrow> None)"

definition selection_of :: "json \<Rightarrow> spm_selection option" where
  "selection_of v =
     (case v of
        JObj d \<Rightarrow>
          (if only_keys SELECTION_FIELDS d
           then (case selection_fields_of d of
                   Some sel \<Rightarrow> if location_ok (sp_geography_kind sel) (sp_geography_id sel)
                              then Some sel else None
                 | None \<Rightarrow> None)
           else None)
      | _ \<Rightarrow> None)"

definition validate_selection :: "spm_install \<Rightarrow> json \<Rightarrow> spm_selection result" where
  "validate_selection inst v =
     (case selection_of v of
        None \<Rightarrow> Inl (ValueError (si_report inst ''SPMSelection'' v)) | Some sel \<Rightarrow> Inr sel)"

definition selection_field :: "spm_selection \<Rightarrow> string \<Rightarrow> json" where
  "selection_field sel f =
     (if f = ''forecast_content_sha256'' then opt_str (sp_forecast_content_sha256 sel)
      else if f = ''scenario'' then opt_str (sp_scenario sel)
      else if f = ''geography_kind'' then JStr (sp_geography_kind sel)
      else if f = ''geography_id'' then opt_str (sp_geography_id sel)
      else if f = ''county_vintage'' then JStr (sp_county_vintage sel)
      else opt_str (sp_as_of sel))"

text \<open>\<open>serialize_selection\<close>: only the fields that were set.\<close>

definition selection_dump :: "spm_selection \<Rightarrow> json" where
  "selection_dump sel =
     JObj (map (\<lambda>f. (f, selection_field sel f)) (filter (\<lambda>f. f \<in> set (sp_fields_set sel)) SELECTION_FIELDS))"

text \<open>\<open>resolved_spm_settings\<close>: every field, or None when one is missing or unreadable.\<close>

definition resolved_spm_settings :: "json \<Rightarrow> json option" where
  "resolved_spm_settings settings =
     (case selection_of settings of
        None \<Rightarrow> None
      | Some sel \<Rightarrow>
          if set SELECTION_FIELDS \<subseteq> set (sp_fields_set sel)
          then Some (JObj (map (\<lambda>f. (f, selection_field sel f)) SELECTION_FIELDS)) else None)"

section \<open>Resolution against the certified bundle\<close>

definition requested_spm_selection :: "spm_install \<Rightarrow> json \<Rightarrow> spm_selection result" where
  "requested_spm_selection inst selection =
     as_spm_error ''SPM_SETTINGS_INVALID'' is_value_error
       (validate_selection inst (if selection = JNull then JObj [] else selection))"

text \<open>\<open>_certified_spm_configuration\<close>: the configuration's dict, or \<open>JNull\<close> for a legacy bundle.\<close>

definition certified_spm_configuration :: "spm_install \<Rightarrow> string \<Rightarrow> bool \<Rightarrow> json result" where
  "certified_spm_configuration inst country_id selection_sent =
     (case si_manifest inst of
        JObj bundle \<Rightarrow>
          (case (case map_of bundle ''measurements'' of Some (JObj m) \<Rightarrow> map_of m ''spm'' | _ \<Rightarrow> None) of
             Some (JObj configured) \<Rightarrow> Inr (JObj configured)
           | _ \<Rightarrow>
               if si_country_implements inst country_id
               then Inl (SPMValidationError ''SPM_CONFIGURATION_UNAVAILABLE''
                      ''The installed bundle has no certified SPM measurement configuration'')
               else if \<not> selection_sent then Inr JNull
               else Inl (SPMValidationError ''SPM_SETTINGS_UNSUPPORTED''
                      ''This US model bundle does not support canonical SPM settings''))
      | _ \<Rightarrow> Inl (SPMValidationError ''SPM_CONFIGURATION_UNAVAILABLE''
                ''The installed bundle manifest is invalid''))"

definition certified_bundle_spm :: "spm_install \<Rightarrow> json \<Rightarrow> (spm_selection \<times> forecast) result" where
  "certified_bundle_spm inst configured =
     res_bind (validate_selection inst configured) (\<lambda>defaults.
       case (sp_forecast_content_sha256 defaults, sp_scenario defaults) of
         (Some sha, Some scenario) \<Rightarrow>
           res_bind (si_us_supports inst) (\<lambda>supports.
             if \<not> supports then Inl (ValueError ''The installed US model does not support canonical SPM'')
             else res_bind (si_load_forecast inst sha) (\<lambda>fc. Inr (defaults, fc)))
       | _ \<Rightarrow> Inl (ValueError ''The bundle must pin the SPM artifact hash and scenario''))"

definition merged_field :: "spm_selection \<Rightarrow> spm_selection \<Rightarrow> string \<Rightarrow> json" where
  "merged_field chosen defaults f =
     (if f = ''forecast_content_sha256'' then selection_field defaults f
      else if f = ''scenario''
      then opt_str (case sp_scenario chosen of Some s \<Rightarrow> if s \<noteq> [] then Some s else sp_scenario defaults
                    | None \<Rightarrow> sp_scenario defaults)
      else if f = ''geography_id'' \<and> ''geography_kind'' \<in> set (sp_fields_set chosen)
              \<and> sp_geography_kind chosen \<noteq> sp_geography_kind defaults
      then opt_str (sp_geography_id chosen)
      else if f \<in> set (sp_fields_set chosen) then selection_field chosen f
      else selection_field defaults f)"

definition merged_selection_values :: "spm_selection \<Rightarrow> spm_selection \<Rightarrow> json" where
  "merged_selection_values chosen defaults =
     JObj (map (\<lambda>f. (f, merged_field chosen defaults f)) SELECTION_FIELDS)"

definition validated_spm_selection :: "spm_install \<Rightarrow> json \<Rightarrow> forecast \<Rightarrow> spm_selection result" where
  "validated_spm_selection inst values fc =
     res_bind (validate_selection inst values) (\<lambda>resolved.
       case fc_years fc of
         [] \<Rightarrow> Inl (RuntimeErr ''IndexError: tuple index out of range'')
       | year # years \<Rightarrow>
           res_bind (fc_entry fc year (sp_scenario resolved) (sp_as_of resolved)) (\<lambda>u.
             if sp_county_vintage resolved \<noteq> ''2020''
             then Inl (ValueError ''Unsupported county vintage: use 2020'') else Inr resolved))"

text \<open>The loop tries each year, skipping those whose lookup raises a ValueError.\<close>

fun metro_in_years :: "forecast \<Rightarrow> spm_selection \<Rightarrow> int list \<Rightarrow> unit result" where
  "metro_in_years fc sel [] =
     Inl (SPMValidationError ''SPM_GEOGRAPHY_UNAVAILABLE''
       (''SPM area is unavailable in the selected artifact: ''
        @ (case sp_geography_id sel of None \<Rightarrow> ''None'' | Some g \<Rightarrow> g)))"
| "metro_in_years fc sel (year # years) =
     (case fc_geography_factor fc year (sp_scenario sel) (sp_geography_id sel) (sp_as_of sel) of
        Inr u \<Rightarrow> Inr ()
      | Inl e \<Rightarrow> if is_value_error e then metro_in_years fc sel years else Inl e)"

definition validate_metro_selection :: "forecast \<Rightarrow> spm_selection \<Rightarrow> unit result" where
  "validate_metro_selection fc sel = metro_in_years fc sel (fc_years fc)"

definition unavailable_artifact :: "bool \<Rightarrow> exn" where
  "unavailable_artifact stored =
     (if stored
      then SPMValidationError ''SPM_CONFIGURATION_UNAVAILABLE''
             (''This deployment does not have the SPM artifact this household''
              @ [CHR 0x27] @ ''s saved selection was measured against'')
      else SPMValidationError ''SPM_SETTINGS_INVALID''
             (''SPM selection does not match this bundle'' @ [CHR 0x27] @ ''s artifact hash''))"

definition resolve_certified_selection ::
  "spm_install \<Rightarrow> spm_selection \<Rightarrow> json \<Rightarrow> bool \<Rightarrow> json result" where
  "resolve_certified_selection inst chosen configured stored =
     res_bind (as_spm_error ''SPM_CONFIGURATION_UNAVAILABLE'' is_install_error
                 (certified_bundle_spm inst configured)) (\<lambda>(defaults, fc).
       if sp_forecast_content_sha256 chosen \<noteq> None
          \<and> sp_forecast_content_sha256 chosen \<noteq> sp_forecast_content_sha256 defaults
       then Inl (unavailable_artifact stored)
       else res_bind (as_spm_error ''SPM_SETTINGS_INVALID'' is_value_error
                        (validated_spm_selection inst (merged_selection_values chosen defaults) fc))
              (\<lambda>resolved.
                 res_bind (if sp_geography_kind resolved = ''metro''
                           then validate_metro_selection fc resolved else Inr ())
                   (\<lambda>u. Inr (selection_dump resolved))))"

definition normalize_spm_selection :: "spm_install \<Rightarrow> string \<Rightarrow> json \<Rightarrow> bool \<Rightarrow> json result" where
  "normalize_spm_selection inst country_id selection stored =
     (if country_id \<noteq> ''us''
      then (if selection \<noteq> JNull
            then Inl (SPMValidationError ''SPM_SETTINGS_UNSUPPORTED''
                   ''SPM settings are only available for the US'')
            else Inr JNull)
      else res_bind (requested_spm_selection inst selection) (\<lambda>chosen.
             res_bind (certified_spm_configuration inst country_id (selection \<noteq> JNull)) (\<lambda>configured.
               if configured = JNull then Inr JNull
               else resolve_certified_selection inst chosen configured stored)))"

text \<open>\<open>spm_metadata\<close>; the settings schema is pydantic's.\<close>

definition spm_metadata :: "spm_install \<Rightarrow> json \<Rightarrow> string \<Rightarrow> json result" where
  "spm_metadata inst settings_schema country_id =
     (if country_id \<noteq> ''us'' then Inr (JObj [(''available'', JBool False)])
      else case normalize_spm_selection inst country_id JNull False of
        Inl (SPMValidationError code m) \<Rightarrow> Inr (JObj [(''available'', JBool False)])
      | Inl e \<Rightarrow> Inl e
      | Inr defaults \<Rightarrow>
          if defaults = JNull then Inr (JObj [(''available'', JBool False)])
          else Inr (JObj [(''available'', JBool True), (''settings_schema'', settings_schema),
                          (''defaults'', defaults)]))"

section \<open>Resolved selections are stable\<close>

lemma opt_field_Some: "opt_field ok (Some v) = Some x \<Longrightarrow> v = opt_str x"
  by (cases v) (auto split: if_splits)

lemma default_field_Some: "default_field ok d (Some v) = Some x \<Longrightarrow> v = JStr x"
  by (cases v) (auto simp: default_field_def split: if_splits)

lemma opt_field_ok: "opt_field ok v = Some (Some x) \<Longrightarrow> ok x"
  by (cases v; cases "the v") (auto split: if_splits)

lemma map_of_fields:
  "f \<in> set SELECTION_FIELDS \<Longrightarrow> map_of (map (\<lambda>f. (f, g f)) SELECTION_FIELDS) f = Some (g f)"
  by (auto simp: SELECTION_FIELDS_def)

lemma selection_fields_of_Some:
  assumes "selection_fields_of d = Some sel"
  shows "opt_field sha256_text (map_of d ''forecast_content_sha256'') = Some (sp_forecast_content_sha256 sel)"
    and "opt_field nonspace_text (map_of d ''scenario'') = Some (sp_scenario sel)"
    and "default_field geography_kind_text ''county'' (map_of d ''geography_kind'') = Some (sp_geography_kind sel)"
    and "opt_field (\<lambda>s. s \<noteq> []) (map_of d ''geography_id'') = Some (sp_geography_id sel)"
    and "default_field calendar_year ''2020'' (map_of d ''county_vintage'') = Some (sp_county_vintage sel)"
    and "opt_field exact_iso_date (map_of d ''as_of'') = Some (sp_as_of sel)"
    and "sp_fields_set sel = filter (\<lambda>f. map_of d f \<noteq> None) SELECTION_FIELDS"
  using assms by (auto simp: selection_fields_of_def split: option.splits)

lemma selection_of_Some:
  assumes "selection_of v = Some sel"
  obtains d where "v = JObj d" and "selection_fields_of d = Some sel"
  using assms by (auto simp: selection_of_def split: json.splits option.splits if_splits)

lemma selection_of_all_fields:
  assumes "selection_of (JObj (map (\<lambda>f. (f, g f)) SELECTION_FIELDS)) = Some sel"
  shows "sp_fields_set sel = SELECTION_FIELDS"
    and "f \<in> set SELECTION_FIELDS \<Longrightarrow> g f = selection_field sel f"
proof -
  define d where "d = map (\<lambda>f. (f, g f)) SELECTION_FIELDS"
  have sel: "selection_fields_of d = Some sel"
    using selection_of_Some [OF assms] by (auto simp: d_def)
  have get: "map_of d f = Some (g f)" if "f \<in> set SELECTION_FIELDS" for f
    unfolding d_def using that by (rule map_of_fields)
  have all: "filter (\<lambda>f. map_of d f \<noteq> None) SELECTION_FIELDS = SELECTION_FIELDS"
    by (rule filter_True) (simp add: get)
  show "sp_fields_set sel = SELECTION_FIELDS"
    using selection_fields_of_Some(7) [OF sel] all by simp
  have fields: "set SELECTION_FIELDS = {''forecast_content_sha256'', ''scenario'', ''geography_kind'',
      ''geography_id'', ''county_vintage'', ''as_of''}"
    by (simp add: SELECTION_FIELDS_def)
  note parts = selection_fields_of_Some [OF sel]
  have "g ''forecast_content_sha256'' = opt_str (sp_forecast_content_sha256 sel)"
    using parts(1) get [unfolded fields] by (simp add: opt_field_Some)
  moreover have "g ''scenario'' = opt_str (sp_scenario sel)"
    using parts(2) get [unfolded fields] by (simp add: opt_field_Some)
  moreover have "g ''geography_kind'' = JStr (sp_geography_kind sel)"
    using parts(3) get [unfolded fields] by (simp add: default_field_Some)
  moreover have "g ''geography_id'' = opt_str (sp_geography_id sel)"
    using parts(4) get [unfolded fields] by (simp add: opt_field_Some)
  moreover have "g ''county_vintage'' = JStr (sp_county_vintage sel)"
    using parts(5) get [unfolded fields] by (simp add: default_field_Some)
  moreover have "g ''as_of'' = opt_str (sp_as_of sel)"
    using parts(6) get [unfolded fields] by (simp add: opt_field_Some)
  ultimately show "g f = selection_field sel f" if "f \<in> set SELECTION_FIELDS"
    using that unfolding fields by (auto simp: selection_field_def)
qed

lemma selection_dump_all_fields:
  assumes "selection_of (JObj (map (\<lambda>f. (f, g f)) SELECTION_FIELDS)) = Some sel"
  shows "selection_dump sel = JObj (map (\<lambda>f. (f, g f)) SELECTION_FIELDS)"
proof -
  note all = selection_of_all_fields [OF assms]
  have f: "filter (\<lambda>f. f \<in> set (sp_fields_set sel)) SELECTION_FIELDS = SELECTION_FIELDS"
    by (simp add: all(1) filter_True)
  have "map (\<lambda>f. (f, selection_field sel f)) SELECTION_FIELDS = map (\<lambda>f. (f, g f)) SELECTION_FIELDS"
    by (rule map_cong) (simp_all add: all(2))
  then show ?thesis unfolding selection_dump_def f by simp
qed

lemma selection_scenario_ok:
  assumes "selection_of v = Some sel" and "sp_scenario sel = Some s"
  shows "s \<noteq> []"
proof -
  obtain d where "selection_fields_of d = Some sel"
    using selection_of_Some [OF assms(1)] by blast
  from selection_fields_of_Some(2) [OF this] show ?thesis
    using assms(2) opt_field_ok by (fastforce simp: nonspace_text_def)
qed

lemma as_spm_error_Inr [simp]: "as_spm_error code caught r = Inr x \<longleftrightarrow> r = Inr x"
  by (auto simp: as_spm_error_def split: sum.splits)

text \<open>What a request that resolves a certified selection has gone through.\<close>

lemma resolve_certified_cases:
  assumes "resolve_certified_selection inst chosen configured stored = Inr r"
  obtains defaults fc resolved where
    "certified_bundle_spm inst configured = Inr (defaults, fc)"
    "validated_spm_selection inst (merged_selection_values chosen defaults) fc = Inr resolved"
    "sp_geography_kind resolved = ''metro'' \<longrightarrow> validate_metro_selection fc resolved = Inr ()"
    "r = selection_dump resolved"
proof -
  obtain defaults fc where "certified_bundle_spm inst configured = Inr (defaults, fc)"
      and r: "(if sp_forecast_content_sha256 chosen \<noteq> None
          \<and> sp_forecast_content_sha256 chosen \<noteq> sp_forecast_content_sha256 defaults
       then Inl (unavailable_artifact stored)
       else res_bind (as_spm_error ''SPM_SETTINGS_INVALID'' is_value_error
                        (validated_spm_selection inst (merged_selection_values chosen defaults) fc))
              (\<lambda>resolved.
                 res_bind (if sp_geography_kind resolved = ''metro''
                           then validate_metro_selection fc resolved else Inr ())
                   (\<lambda>u. Inr (selection_dump resolved)))) = Inr r"
    using assms unfolding resolve_certified_selection_def
    by (auto simp: res_bind_Inr_iff split: prod.splits simp del: if_split)
  then obtain resolved where
      "validated_spm_selection inst (merged_selection_values chosen defaults) fc = Inr resolved"
      "(if sp_geography_kind resolved = ''metro''
        then validate_metro_selection fc resolved else Inr ()) = Inr ()"
      "r = selection_dump resolved"
    by (cases "sp_forecast_content_sha256 chosen \<noteq> None
          \<and> sp_forecast_content_sha256 chosen \<noteq> sp_forecast_content_sha256 defaults")
       (simp_all only: if_True if_False res_bind_Inr_iff as_spm_error_Inr, auto)
  then show ?thesis using that \<open>certified_bundle_spm inst configured = Inr (defaults, fc)\<close>
    by (simp split: if_splits)
qed

lemma certified_configuration_sent:
  assumes "certified_spm_configuration inst country sent = Inr configured" and "configured \<noteq> JNull"
  shows "certified_spm_configuration inst country sent' = Inr configured"
proof (cases "si_manifest inst")
  case (JObj b)
  define spm where "spm = (case map_of b ''measurements'' of Some (JObj m) \<Rightarrow> map_of m ''spm'' | _ \<Rightarrow> None)"
  have cfg: "certified_spm_configuration inst country sent =
      (case spm of Some (JObj configured) \<Rightarrow> Inr (JObj configured)
       | _ \<Rightarrow> if si_country_implements inst country
             then Inl (SPMValidationError ''SPM_CONFIGURATION_UNAVAILABLE''
                    ''The installed bundle has no certified SPM measurement configuration'')
             else if \<not> sent then Inr JNull
             else Inl (SPMValidationError ''SPM_SETTINGS_UNSUPPORTED''
                    ''This US model bundle does not support canonical SPM settings''))" for sent
    unfolding certified_spm_configuration_def JObj spm_def by simp
  show ?thesis
    using assms unfolding cfg by (cases spm; cases "the spm"; clarsimp split: if_splits)
qed (use assms in \<open>simp_all add: certified_spm_configuration_def\<close>)

lemma merged_resolved:
  assumes "sp_fields_set sel = SELECTION_FIELDS"
    and "sp_forecast_content_sha256 sel = sp_forecast_content_sha256 defaults"
    and "\<exists>s. sp_scenario sel = Some s \<and> s \<noteq> []"
  shows "merged_selection_values sel defaults =
    JObj (map (\<lambda>f. (f, selection_field sel f)) SELECTION_FIELDS)"
proof -
  have "merged_field sel defaults f = selection_field sel f" if f: "f \<in> set SELECTION_FIELDS" for f
  proof -
    consider "f = ''forecast_content_sha256''" | "f = ''scenario''"
      | "f \<noteq> ''forecast_content_sha256''" "f \<noteq> ''scenario''"
      by blast
    then show ?thesis
    proof cases
      case 1
      then show ?thesis by (simp add: merged_field_def selection_field_def assms(2))
    next
      case 2
      obtain s where s: "sp_scenario sel = Some s" "s \<noteq> []" using assms(3) by blast
      then show ?thesis using 2 by (simp add: merged_field_def selection_field_def)
    next
      case 3
      have "selection_field sel ''geography_id'' = opt_str (sp_geography_id sel)"
        by (simp add: selection_field_def)
      then show ?thesis using 3 f unfolding merged_field_def assms(1) by simp
    qed
  qed
  then show ?thesis unfolding merged_selection_values_def by simp
qed

text \<open>
  C40. A certified selection has all six settings, names the artifact the bundle pins with
  a scenario, and is stable: sent back as a request, or read back from storage, it resolves
  to itself under the same installation.
\<close>

theorem normalize_spm_selection_stable:
  assumes "normalize_spm_selection inst ''us'' selection stored = Inr r" and "r \<noteq> JNull"
  shows "resolved_spm_settings r = Some r
    \<and> (\<exists>configured sent defaults fc items. certified_spm_configuration inst ''us'' sent = Inr configured
         \<and> certified_bundle_spm inst configured = Inr (defaults, fc) \<and> r = JObj items
         \<and> map_of items ''forecast_content_sha256'' = Some (opt_str (sp_forecast_content_sha256 defaults)))
    \<and> normalize_spm_selection inst ''us'' r stored' = Inr r"
proof -
  obtain chosen configured defaults fc resolved where
    requested: "requested_spm_selection inst selection = Inr chosen" and
    config: "certified_spm_configuration inst ''us'' (selection \<noteq> JNull) = Inr configured" "configured \<noteq> JNull" and
    bnd: "certified_bundle_spm inst configured = Inr (defaults, fc)" and
    valid: "validated_spm_selection inst (merged_selection_values chosen defaults) fc = Inr resolved" and
    metro: "sp_geography_kind resolved = ''metro'' \<longrightarrow> validate_metro_selection fc resolved = Inr ()" and
    r: "r = selection_dump resolved"
  proof -
    obtain chosen configured where
      c: "requested_spm_selection inst selection = Inr chosen"
        "certified_spm_configuration inst ''us'' (selection \<noteq> JNull) = Inr configured" "configured \<noteq> JNull"
        "resolve_certified_selection inst chosen configured stored = Inr r"
      using assms by (auto simp: normalize_spm_selection_def res_bind_Inr_iff split: if_splits)
    show ?thesis by (rule resolve_certified_cases [OF c(4)]) (use that c in blast)
  qed
  let ?g = "merged_field chosen defaults"
  have sel: "selection_of (JObj (map (\<lambda>f. (f, ?g f)) SELECTION_FIELDS)) = Some resolved"
    using valid by (auto simp: validated_spm_selection_def merged_selection_values_def validate_selection_def
        res_bind_Inr_iff split: option.splits list.splits if_splits)
  note all = selection_of_all_fields [OF sel]
  have dump: "r = JObj (map (\<lambda>f. (f, ?g f)) SELECTION_FIELDS)"
    unfolding r by (rule selection_dump_all_fields [OF sel])
  have fields: "r = JObj (map (\<lambda>f. (f, selection_field resolved f)) SELECTION_FIELDS)"
    unfolding dump by (simp add: all(2) SELECTION_FIELDS_def)
  have selr: "selection_of r = Some resolved" unfolding dump by (rule sel)
  obtain sha sc where pinned: "sp_forecast_content_sha256 defaults = Some sha" "sp_scenario defaults = Some sc"
      and dsel: "selection_of configured = Some defaults"
    using bnd by (auto simp: certified_bundle_spm_def validate_selection_def res_bind_Inr_iff
        split: option.splits if_splits)
  have sha: "sp_forecast_content_sha256 resolved = sp_forecast_content_sha256 defaults"
    using all(2) [of "''forecast_content_sha256''"]
    by (simp add: SELECTION_FIELDS_def merged_field_def selection_field_def)
       (metis read_opt_str_opt option.inject)
  have sc: "\<exists>s. sp_scenario resolved = Some s \<and> s \<noteq> []"
  proof -
    have "opt_str (sp_scenario resolved) =
        opt_str (case sp_scenario chosen of Some s \<Rightarrow> if s \<noteq> [] then Some s else sp_scenario defaults
                    | None \<Rightarrow> sp_scenario defaults)"
      using all(2) [of "''scenario''"] by (simp add: SELECTION_FIELDS_def merged_field_def selection_field_def)
    then have "sp_scenario resolved =
        (case sp_scenario chosen of Some s \<Rightarrow> if s \<noteq> [] then Some s else sp_scenario defaults
                    | None \<Rightarrow> sp_scenario defaults)"
      by (metis read_opt_str_opt option.inject)
    moreover have "sc \<noteq> []" using selection_scenario_ok [OF dsel pinned(2)] .
    ultimately show ?thesis using pinned by (auto split: option.splits if_splits)
  qed
  have settings: "resolved_spm_settings r = Some r"
    using selr fields all(1) by (simp add: resolved_spm_settings_def)
  have notnull: "r \<noteq> JNull" by (rule assms(2))
  have merged: "merged_selection_values resolved defaults = r"
    unfolding fields by (rule merged_resolved [OF all(1) sha sc])
  have merged0: "merged_selection_values chosen defaults = r"
    unfolding dump merged_selection_values_def ..
  have again: "resolve_certified_selection inst resolved configured stored' = Inr r"
    using bnd valid metro sha r
    by (simp add: resolve_certified_selection_def as_spm_error_def merged merged0)
  have "normalize_spm_selection inst ''us'' r stored' = Inr r"
    using again certified_configuration_sent [OF config] config(2) selr notnull
    by (simp add: normalize_spm_selection_def requested_spm_selection_def validate_selection_def as_spm_error_def)
  moreover have "\<exists>items. r = JObj items
      \<and> map_of items ''forecast_content_sha256'' = Some (opt_str (sp_forecast_content_sha256 defaults))"
    unfolding fields by (simp add: SELECTION_FIELDS_def selection_field_def sha)
  ultimately show ?thesis using settings config bnd by blast
qed

definition example_install :: spm_install where
  "example_install =
     \<lparr>si_manifest = JObj [(''measurements'', JObj [(''spm'',
        JObj [(''forecast_content_sha256'', JStr (replicate 64 CHR ''a'')), (''scenario'', JStr ''base'')])])],
      si_country_implements = (\<lambda>c. True), si_us_supports = Inr True,
      si_load_forecast = (\<lambda>sha. Inr \<lparr>fc_years = [2025], fc_entry = (\<lambda>y s a. Inr ()),
         fc_geography_factor = (\<lambda>y s g a. Inr ())\<rparr>),
      si_report = (\<lambda>m v. m), si_date = (\<lambda>v. None), si_int = as_int\<rparr>"

definition example_resolved :: json where
  "example_resolved =
     JObj [(''forecast_content_sha256'', JStr (replicate 64 CHR ''a'')), (''scenario'', JStr ''base''),
           (''geography_kind'', JStr ''national''), (''geography_id'', JNull),
           (''county_vintage'', JStr ''2020''), (''as_of'', JNull)]"

lemma example_normalizes:
  "normalize_spm_selection example_install ''us'' (JObj [(''geography_kind'', JStr ''national'')]) False
     = Inr example_resolved"
  by code_simp

theorem normalize_spm_selection_stable_witness:
  "normalize_spm_selection example_install ''us'' example_resolved True = Inr example_resolved"
  using normalize_spm_selection_stable [OF example_normalizes, of True] by (simp add: example_resolved_def)

end
