(* ===== verification/Spm_Receipts.thy ===== *)
theory Spm_Receipts
  imports Spm
begin

text \<open>
  The receipts of \<open>policyengine_api/spm.py\<close>: the compact receipt of one calculation, the
  comparison receipt of a society-wide result, their construction from a country's own
  receipt and their reading from a worker's document.
\<close>

section \<open>Receipts\<close>

record runtime_versions =
  rv_policyengine :: string
  rv_core :: string
  rv_us :: string
  rv_calculator :: string

record provenance =
  pv_forecast_id :: string
  pv_forecast_sha256 :: string
  pv_scenario :: string
  pv_geography_kind :: string
  pv_geography_id :: "string option"
  pv_county_vintage :: string
  pv_as_of :: "date option"
  pv_years :: "string list"
  pv_runtime_versions :: runtime_versions

record execution_provenance =
  ep_receipt :: provenance
  ep_execution_count :: int

record comparison_provenance =
  cp_baseline :: execution_provenance
  cp_reform :: execution_provenance

record resolved_configuration =
  rf_forecast_content_sha256 :: string
  rf_scenario :: string
  rf_geography_kind :: string
  rf_geography_id :: "string option"
  rf_county_vintage :: string
  rf_as_of :: "string option"

fun opt_ok :: "('a \<Rightarrow> bool) \<Rightarrow> 'a option \<Rightarrow> bool" where
  "opt_ok ok None = True"
| "opt_ok ok (Some x) = ok x"

definition years_ok :: "string list \<Rightarrow> bool" where
  "years_ok years \<longleftrightarrow> list_all calendar_year years \<and> sorted years \<and> distinct years"

definition versions_ok :: "runtime_versions \<Rightarrow> bool" where
  "versions_ok v \<longleftrightarrow>
     rv_policyengine v \<noteq> [] \<and> rv_core v \<noteq> [] \<and> rv_us v \<noteq> [] \<and> rv_calculator v \<noteq> []"

text \<open>The constraints of \<open>SPMProvenance\<close> and of \<open>SPMResolvedConfiguration\<close>.\<close>

definition provenance_ok :: "provenance \<Rightarrow> bool" where
  "provenance_ok p \<longleftrightarrow>
     nonspace_text (pv_forecast_id p) \<and> sha256_text (pv_forecast_sha256 p)
     \<and> nonspace_text (pv_scenario p) \<and> geography_kind_text (pv_geography_kind p)
     \<and> pv_geography_id p \<noteq> Some [] \<and> calendar_year (pv_county_vintage p)
     \<and> opt_ok calendar_date (pv_as_of p) \<and> years_ok (pv_years p)
     \<and> versions_ok (pv_runtime_versions p)
     \<and> location_ok (pv_geography_kind p) (pv_geography_id p)"

definition configuration_ok :: "resolved_configuration \<Rightarrow> bool" where
  "configuration_ok c \<longleftrightarrow>
     sha256_text (rf_forecast_content_sha256 c) \<and> nonspace_text (rf_scenario c)
     \<and> geography_kind_text (rf_geography_kind c) \<and> rf_geography_id c \<noteq> Some []
     \<and> calendar_year (rf_county_vintage c)
     \<and> opt_ok exact_iso_date (rf_as_of c)
     \<and> location_ok (rf_geography_kind c) (rf_geography_id c)"

section \<open>Reading a worker's document\<close>

text \<open>A version under its alias or, failing that, under its field name; not under both.\<close>

definition version_field :: "(string \<times> json) list \<Rightarrow> string \<Rightarrow> string \<Rightarrow> string option" where
  "version_field d alias name =
     (if alias \<noteq> name \<and> map_of d alias \<noteq> None \<and> map_of d name \<noteq> None then None
      else req_field (\<lambda>s. s \<noteq> []) (case map_of d alias of Some v \<Rightarrow> Some v | None \<Rightarrow> map_of d name))"

definition versions_of :: "json \<Rightarrow> runtime_versions option" where
  "versions_of v =
     (case v of
        JObj d \<Rightarrow>
          (if only_keys [''policyengine'', ''policyengine-core'', ''policyengine_core'', ''policyengine-us'',
                         ''policyengine_us'', ''spm-calculator'', ''spm_calculator''] d
           then (case (version_field d ''policyengine'' ''policyengine'',
                       version_field d ''policyengine-core'' ''policyengine_core'',
                       version_field d ''policyengine-us'' ''policyengine_us'',
                       version_field d ''spm-calculator'' ''spm_calculator'') of
                   (Some a, Some b, Some c, Some e) \<Rightarrow>
                     Some \<lparr>rv_policyengine = a, rv_core = b, rv_us = c, rv_calculator = e\<rparr>
                 | _ \<Rightarrow> None)
           else None)
      | _ \<Rightarrow> None)"

fun years_field :: "json option \<Rightarrow> string list option" where
  "years_field (Some (JArr vs)) = read_strs vs"
| "years_field v = None"

fun date_field :: "(json \<Rightarrow> date option) \<Rightarrow> json option \<Rightarrow> date option option" where
  "date_field parse None = None"
| "date_field parse (Some JNull) = Some None"
| "date_field parse (Some v) = (case parse v of None \<Rightarrow> None | Some d \<Rightarrow> Some (Some d))"

definition PROVENANCE_FIELDS :: "string list" where
  "PROVENANCE_FIELDS = [''schema_version'', ''forecast_id'', ''forecast_sha256'', ''scenario'',
     ''geography_kind'', ''geography_id'', ''county_vintage'', ''as_of'', ''years'', ''runtime_versions'']"

text \<open>A required field that may be null.\<close>

definition nullable_field :: "(string \<Rightarrow> bool) \<Rightarrow> json option \<Rightarrow> string option option" where
  "nullable_field ok v = (if v = None then None else opt_field ok v)"

definition provenance_fields_of :: "spm_install \<Rightarrow> (string \<times> json) list \<Rightarrow> provenance option" where
  "provenance_fields_of inst d =
     (case (req_field (\<lambda>s. s = ''canonical-spm-provenance-v2'') (map_of d ''schema_version''),
            req_field nonspace_text (map_of d ''forecast_id''),
            req_field sha256_text (map_of d ''forecast_sha256''),
            req_field nonspace_text (map_of d ''scenario''),
            req_field geography_kind_text (map_of d ''geography_kind''),
            nullable_field (\<lambda>s. s \<noteq> []) (map_of d ''geography_id''),
            req_field calendar_year (map_of d ''county_vintage''),
            date_field (si_date inst) (map_of d ''as_of''),
            years_field (map_of d ''years''),
            (case map_of d ''runtime_versions'' of None \<Rightarrow> None | Some v \<Rightarrow> versions_of v)) of
        (Some schema, Some fid, Some sha, Some sc, Some kind, Some gid, Some vintage, Some as_of,
         Some years, Some versions) \<Rightarrow>
          Some \<lparr>pv_forecast_id = fid, pv_forecast_sha256 = sha, pv_scenario = sc,
                pv_geography_kind = kind, pv_geography_id = gid, pv_county_vintage = vintage,
                pv_as_of = as_of, pv_years = years, pv_runtime_versions = versions\<rparr>
      | _ \<Rightarrow> None)"

definition provenance_of :: "spm_install \<Rightarrow> json \<Rightarrow> provenance option" where
  "provenance_of inst v =
     (case v of
        JObj d \<Rightarrow>
          (if only_keys PROVENANCE_FIELDS d
           then (case provenance_fields_of inst d of
                   Some p \<Rightarrow> if years_ok (pv_years p)
                               \<and> location_ok (pv_geography_kind p) (pv_geography_id p)
                             then Some p else None
                 | None \<Rightarrow> None)
           else None)
      | _ \<Rightarrow> None)"

definition execution_of :: "spm_install \<Rightarrow> json option \<Rightarrow> execution_provenance option" where
  "execution_of inst v =
     (case v of
        Some (JObj d) \<Rightarrow>
          (if only_keys [''receipt'', ''execution_count''] d
           then (case (map_of d ''receipt'', map_of d ''execution_count'') of
                   (Some r, Some n) \<Rightarrow>
                     (case (provenance_of inst r, si_int inst n) of
                        (Some p, Some runs) \<Rightarrow>
                          if 1 \<le> runs then Some \<lparr>ep_receipt = p, ep_execution_count = runs\<rparr> else None
                      | _ \<Rightarrow> None)
                 | _ \<Rightarrow> None)
           else None)
      | _ \<Rightarrow> None)"

definition comparison_of :: "spm_install \<Rightarrow> json \<Rightarrow> comparison_provenance option" where
  "comparison_of inst v =
     (case v of
        JObj d \<Rightarrow>
          (if only_keys [''schema_version'', ''baseline'', ''reform''] d
              \<and> map_of d ''schema_version'' = Some (JStr ''canonical-spm-comparison-v2'')
           then (case (execution_of inst (map_of d ''baseline''), execution_of inst (map_of d ''reform'')) of
                   (Some b, Some r) \<Rightarrow>
                     if ep_receipt b = ep_receipt r then Some \<lparr>cp_baseline = b, cp_reform = r\<rparr> else None
                 | _ \<Rightarrow> None)
           else None)
      | _ \<Rightarrow> None)"

definition validate_comparison :: "spm_install \<Rightarrow> json \<Rightarrow> comparison_provenance result" where
  "validate_comparison inst v =
     (case comparison_of inst v of
        None \<Rightarrow> Inl (ValueError (si_report inst ''SPMComparisonProvenance'' v)) | Some c \<Rightarrow> Inr c)"

section \<open>The resolved configuration of a receipt\<close>

definition configuration_dump :: "resolved_configuration \<Rightarrow> json" where
  "configuration_dump c =
     JObj [(''forecast_content_sha256'', JStr (rf_forecast_content_sha256 c)),
           (''scenario'', JStr (rf_scenario c)), (''geography_kind'', JStr (rf_geography_kind c)),
           (''geography_id'', opt_str (rf_geography_id c)),
           (''county_vintage'', JStr (rf_county_vintage c)), (''as_of'', opt_str (rf_as_of c))]"

definition resolved_spm_configuration :: "spm_install \<Rightarrow> provenance \<Rightarrow> resolved_configuration result" where
  "resolved_spm_configuration inst p =
     (let c = \<lparr>rf_forecast_content_sha256 = pv_forecast_sha256 p, rf_scenario = pv_scenario p,
               rf_geography_kind = pv_geography_kind p, rf_geography_id = pv_geography_id p,
               rf_county_vintage = pv_county_vintage p, rf_as_of = map_option isoformat (pv_as_of p)\<rparr>
      in if configuration_ok c then Inr c
         else Inl (ValueError (si_report inst ''SPMResolvedConfiguration'' (configuration_dump c))))"

section \<open>Building receipts from a country's own\<close>

definition versions_dump :: "runtime_versions \<Rightarrow> json" where
  "versions_dump v =
     JObj [(''policyengine'', JStr (rv_policyengine v)), (''policyengine-core'', JStr (rv_core v)),
           (''policyengine-us'', JStr (rv_us v)), (''spm-calculator'', JStr (rv_calculator v))]"

definition provenance_dump :: "provenance \<Rightarrow> json" where
  "provenance_dump p =
     JObj [(''schema_version'', JStr ''canonical-spm-provenance-v2''),
           (''forecast_id'', JStr (pv_forecast_id p)), (''forecast_sha256'', JStr (pv_forecast_sha256 p)),
           (''scenario'', JStr (pv_scenario p)), (''geography_kind'', JStr (pv_geography_kind p)),
           (''geography_id'', opt_str (pv_geography_id p)),
           (''county_vintage'', JStr (pv_county_vintage p)),
           (''as_of'', opt_str (map_option isoformat (pv_as_of p))),
           (''years'', JArr (map JStr (pv_years p))),
           (''runtime_versions'', versions_dump (pv_runtime_versions p))]"

definition execution_dump :: "execution_provenance \<Rightarrow> json" where
  "execution_dump e =
     JObj [(''receipt'', provenance_dump (ep_receipt e)), (''execution_count'', JInt (ep_execution_count e))]"

definition comparison_dump :: "comparison_provenance \<Rightarrow> json" where
  "comparison_dump c =
     JObj [(''schema_version'', JStr ''canonical-spm-comparison-v2''),
           (''baseline'', execution_dump (cp_baseline c)), (''reform'', execution_dump (cp_reform c))]"

definition build_spm_provenance ::
  "spm_install \<Rightarrow> string \<Rightarrow> string \<Rightarrow> spm_selection \<Rightarrow> string list \<Rightarrow> runtime_versions \<Rightarrow> provenance result" where
  "build_spm_provenance inst forecast_id forecast_sha256 selection years versions =
     (if sp_forecast_content_sha256 selection \<noteq> Some forecast_sha256
      then Inl (ValueError ''SPM receipt differs from the SPM configuration'')
      else case sp_scenario selection of
        None \<Rightarrow> Inl (ValueError ''Resolved SPM configuration must include scenario'')
      | Some scenario \<Rightarrow>
          (let p = \<lparr>pv_forecast_id = forecast_id, pv_forecast_sha256 = forecast_sha256,
                    pv_scenario = scenario, pv_geography_kind = sp_geography_kind selection,
                    pv_geography_id = sp_geography_id selection,
                    pv_county_vintage = sp_county_vintage selection,
                    pv_as_of = map_option date_fields (sp_as_of selection), pv_years = years,
                    pv_runtime_versions = versions\<rparr>
           in if provenance_ok p then Inr p
              else Inl (ValueError (si_report inst ''SPMProvenance'' (provenance_dump p)))))"

definition required_string :: "(string \<times> json) list \<Rightarrow> string \<Rightarrow> string result" where
  "required_string source field =
     (case map_of source field of
        Some (JStr s) \<Rightarrow>
          if s = [] then Inl (ValueError (''Country SPM receipt requires '' @ field)) else Inr s
      | _ \<Rightarrow> Inl (ValueError (''Country SPM receipt requires '' @ field)))"

definition build_spm_calculation_provenance ::
  "spm_install \<Rightarrow> spm_selection \<Rightarrow> (string \<times> json) list \<Rightarrow> provenance result" where
  "build_spm_calculation_provenance inst config receipt =
     res_bind (required_string receipt ''forecast_sha256'') (\<lambda>sha.
     res_bind (required_string receipt ''scenario'') (\<lambda>scenario.
     res_bind (required_string receipt ''geography_kind'') (\<lambda>kind.
       if sp_forecast_content_sha256 config \<noteq> Some sha \<or> sp_scenario config \<noteq> Some scenario
          \<or> kind \<noteq> sp_geography_kind config
       then Inl (ValueError ''Country SPM receipt differs from the SPM configuration'')
       else case map_of receipt ''years'' of
         Some (JObj years) \<Rightarrow>
           (case map_of receipt ''runtime_versions'' of
              Some (JObj versions) \<Rightarrow>
                (case versions_of (JObj versions) of
                   None \<Rightarrow> Inl (ValueError (si_report inst ''SPMRuntimeVersions'' (JObj versions)))
                 | Some v \<Rightarrow>
                     res_bind (required_string receipt ''forecast_id'') (\<lambda>fid.
                       build_spm_provenance inst fid sha config (sort (map fst years)) v))
            | _ \<Rightarrow> Inl (ValueError ''Country SPM receipt requires runtime_versions''))
       | _ \<Rightarrow> Inl (ValueError ''Country SPM receipt requires a years mapping''))))"

definition collapse_execution_receipts ::
  "string \<Rightarrow> provenance list \<Rightarrow> execution_provenance result" where
  "collapse_execution_receipts side receipts =
     (case receipts of
        [] \<Rightarrow> Inl (ValueError (side @ '' SPM receipts are empty''))
      | first # others \<Rightarrow>
          if list_ex (\<lambda>r. r \<noteq> first) others then Inl (ValueError (side @ '' SPM receipts differ''))
          else Inr \<lparr>ep_receipt = first, ep_execution_count = int (length receipts)\<rparr>)"

definition build_spm_comparison_provenance ::
  "spm_install \<Rightarrow> provenance list \<Rightarrow> provenance list \<Rightarrow> comparison_provenance result" where
  "build_spm_comparison_provenance inst baseline_receipts reform_receipts =
     res_bind (collapse_execution_receipts ''baseline'' baseline_receipts) (\<lambda>b.
     res_bind (collapse_execution_receipts ''reform'' reform_receipts) (\<lambda>r.
       (let c = \<lparr>cp_baseline = b, cp_reform = r\<rparr>
        in if ep_receipt b = ep_receipt r then Inr c
           else Inl (ValueError (si_report inst ''SPMComparisonProvenance'' (comparison_dump c))))))"

text \<open>
  \<open>calculation_spm_receipt\<close> on a simulation: its \<open>spm_config\<close>, if it has one, and what its
  \<open>spm_provenance\<close> returns. The configuration is read first, so a provenance that is never
  asked for is not.
\<close>

definition country_spm_receipt :: "spm_install \<Rightarrow> json \<Rightarrow> json result \<Rightarrow> json result" where
  "country_spm_receipt inst spm_config source =
     (case resolved_spm_settings spm_config of
        None \<Rightarrow> Inl (ValueError ''Country SPM configuration is incomplete'')
      | Some resolved \<Rightarrow>
          res_bind source (\<lambda>src.
            case src of
              JObj receipt \<Rightarrow>
                res_bind (validate_selection inst resolved) (\<lambda>config.
                res_bind (build_spm_calculation_provenance inst config receipt) (\<lambda>p.
                  Inr (JObj [(''spm_provenance'', provenance_dump p)])))
            | _ \<Rightarrow> Inl (ValueError ''Country SPM receipt must be an object'')))"

definition calculation_spm_receipt :: "spm_install \<Rightarrow> json option \<Rightarrow> json result \<Rightarrow> json result" where
  "calculation_spm_receipt inst spm_config source =
     (case spm_config of
        None \<Rightarrow> Inr (JObj [])
      | Some config \<Rightarrow>
          (case country_spm_receipt inst config source of
             Inl e \<Rightarrow>
               if is_value_error e
               then Inl (SPMValidationError ''SPM_CONFIGURATION_UNAVAILABLE''
                      (''The installed country model reported an SPM receipt this API cannot certify: ''
                       @ error_message e))
               else Inl e
           | Inr r \<Rightarrow> Inr r))"

section \<open>Properties\<close>

lemma exact_iso_isoformat [simp]: "calendar_date d \<Longrightarrow> exact_iso_date (isoformat d)"
  by (simp add: exact_iso_date_def zero_padded_isoformat date_fields_isoformat
      del: isoformat.simps calendar_date.simps)

lemma isoformat_exact: "exact_iso_date s \<Longrightarrow> isoformat (date_fields s) = s"
  by (simp add: exact_iso_date_def isoformat_date_fields)

text \<open>Every valid receipt resolves, so the validation of the resolved configuration never fails.\<close>

lemma resolved_configuration_total:
  assumes "provenance_ok p"
  shows "resolved_spm_configuration inst p =
    Inr \<lparr>rf_forecast_content_sha256 = pv_forecast_sha256 p, rf_scenario = pv_scenario p,
         rf_geography_kind = pv_geography_kind p, rf_geography_id = pv_geography_id p,
         rf_county_vintage = pv_county_vintage p, rf_as_of = map_option isoformat (pv_as_of p)\<rparr>"
proof -
  have "opt_ok exact_iso_date (map_option isoformat (pv_as_of p))"
    using assms exact_iso_isoformat
    by (cases "pv_as_of p") (simp_all add: provenance_ok_def del: isoformat.simps calendar_date.simps)
  then show ?thesis
    using assms by (simp add: resolved_spm_configuration_def provenance_ok_def configuration_ok_def Let_def
        del: isoformat.simps calendar_date.simps)
qed

lemma build_spm_provenance_Inr:
  assumes "build_spm_provenance inst fid sha config years versions = Inr p"
  shows "provenance_ok p" and "sp_forecast_content_sha256 config = Some (pv_forecast_sha256 p)"
    and "sp_scenario config = Some (pv_scenario p)" and "pv_geography_kind p = sp_geography_kind config"
    and "pv_geography_id p = sp_geography_id config" and "pv_county_vintage p = sp_county_vintage config"
    and "pv_as_of p = map_option date_fields (sp_as_of config)" and "pv_years p = years"
    and "pv_runtime_versions p = versions" and "pv_forecast_id p = fid" and "pv_forecast_sha256 p = sha"
  using assms by (auto simp: build_spm_provenance_def Let_def split: if_splits option.splits)

lemma build_calculation_Inr:
  assumes "build_spm_calculation_provenance inst config receipt = Inr p"
  obtains fid sha years versions where
    "build_spm_provenance inst fid sha config (sort (map fst years)) versions = Inr p"
    "map_of receipt ''years'' = Some (JObj years)"
proof -
  from assms obtain sha scenario kind where
    body: "(if sp_forecast_content_sha256 config \<noteq> Some sha \<or> sp_scenario config \<noteq> Some scenario
          \<or> kind \<noteq> sp_geography_kind config
       then Inl (ValueError ''Country SPM receipt differs from the SPM configuration'')
       else case map_of receipt ''years'' of
         Some (JObj years) \<Rightarrow>
           (case map_of receipt ''runtime_versions'' of
              Some (JObj versions) \<Rightarrow>
                (case versions_of (JObj versions) of
                   None \<Rightarrow> Inl (ValueError (si_report inst ''SPMRuntimeVersions'' (JObj versions)))
                 | Some v \<Rightarrow>
                     res_bind (required_string receipt ''forecast_id'') (\<lambda>fid.
                       build_spm_provenance inst fid sha config (sort (map fst years)) v))
            | _ \<Rightarrow> Inl (ValueError ''Country SPM receipt requires runtime_versions''))
       | _ \<Rightarrow> Inl (ValueError ''Country SPM receipt requires a years mapping'')) = Inr p"
    by (auto simp: build_spm_calculation_provenance_def res_bind_Inr_iff)
  then show thesis
    using that
    by (auto simp: res_bind_Inr_iff split: if_splits option.splits json.splits)
qed

text \<open>
  A receipt the API reduces from the country's own certifies the selection it was asked
  for: it satisfies the constraints of the public receipt, its years are the country's
  sorted, and resolving it gives back exactly that complete selection.
\<close>

theorem calculation_receipt_certifies_selection:
  assumes "selection_of v = Some config" and "sp_fields_set config = SELECTION_FIELDS"
    and "build_spm_calculation_provenance inst config receipt = Inr p"
  shows "provenance_ok p
    \<and> (\<exists>years. map_of receipt ''years'' = Some (JObj years) \<and> pv_years p = sort (map fst years))
    \<and> (\<exists>c. resolved_spm_configuration inst p = Inr c \<and> configuration_dump c = selection_dump config)"
proof -
  obtain fid sha years versions where
    b: "build_spm_provenance inst fid sha config (sort (map fst years)) versions = Inr p" and
    y: "map_of receipt ''years'' = Some (JObj years)"
    using assms(3) by (rule build_calculation_Inr)
  note built = build_spm_provenance_Inr [OF b]
  obtain d where d: "selection_fields_of d = Some config" using selection_of_Some [OF assms(1)] by blast
  have as_of: "map_option isoformat (pv_as_of p) = sp_as_of config"
  proof (cases "sp_as_of config")
    case (Some s)
    then have "exact_iso_date s" using selection_fields_of_Some(6) [OF d] opt_field_ok by metis
    then show ?thesis using Some built(7) by (simp add: isoformat_exact del: isoformat.simps)
  qed (simp add: built(7))
  have dump: "selection_dump config =
      JObj [(''forecast_content_sha256'', JStr (pv_forecast_sha256 p)), (''scenario'', JStr (pv_scenario p)),
            (''geography_kind'', JStr (pv_geography_kind p)), (''geography_id'', opt_str (pv_geography_id p)),
            (''county_vintage'', JStr (pv_county_vintage p)), (''as_of'', opt_str (sp_as_of config))]"
    unfolding selection_dump_def assms(2)
    by (simp add: SELECTION_FIELDS_def selection_field_def built)
  show ?thesis
    using built(1,8) y dump as_of by (simp add: resolved_configuration_total configuration_dump_def)
qed

text \<open>A receipt written out is read back, when pydantic's dates read ISO dates.\<close>

definition reads_iso_dates :: "spm_install \<Rightarrow> bool" where
  "reads_iso_dates inst \<longleftrightarrow> (\<forall>d. calendar_date d \<longrightarrow> si_date inst (JStr (isoformat d)) = Some d)"

lemma opt_field_opt_str: "(\<And>s. x = Some s \<Longrightarrow> ok s) \<Longrightarrow> opt_field ok (Some (opt_str x)) = Some x"
  by (cases x) auto

lemma date_field_opt:
  assumes "reads_iso_dates inst" and "opt_ok calendar_date x"
  shows "date_field (si_date inst) (Some (opt_str (map_option isoformat x))) = Some x"
  using assms by (cases x) (auto simp: reads_iso_dates_def simp del: isoformat.simps calendar_date.simps)

lemma versions_of_dump: "versions_ok v \<Longrightarrow> versions_of (versions_dump v) = Some v"
  by (cases v) (simp add: versions_of_def versions_dump_def versions_ok_def only_keys_def version_field_def)

lemma provenance_of_dump:
  assumes "provenance_ok p" and "reads_iso_dates inst"
  shows "provenance_of inst (provenance_dump p) = Some p"
proof -
  define items where "items = (case provenance_dump p of JObj d \<Rightarrow> d)"
  have dump: "provenance_dump p = JObj items" by (simp add: items_def provenance_dump_def)
  have keys: "only_keys PROVENANCE_FIELDS items"
    by (simp add: items_def provenance_dump_def only_keys_def PROVENANCE_FIELDS_def)
  have gets: "map_of items ''schema_version'' = Some (JStr ''canonical-spm-provenance-v2'')"
    "map_of items ''forecast_id'' = Some (JStr (pv_forecast_id p))"
    "map_of items ''forecast_sha256'' = Some (JStr (pv_forecast_sha256 p))"
    "map_of items ''scenario'' = Some (JStr (pv_scenario p))"
    "map_of items ''geography_kind'' = Some (JStr (pv_geography_kind p))"
    "map_of items ''geography_id'' = Some (opt_str (pv_geography_id p))"
    "map_of items ''county_vintage'' = Some (JStr (pv_county_vintage p))"
    "map_of items ''as_of'' = Some (opt_str (map_option isoformat (pv_as_of p)))"
    "map_of items ''years'' = Some (JArr (map JStr (pv_years p)))"
    "map_of items ''runtime_versions'' = Some (versions_dump (pv_runtime_versions p))"
    by (simp_all add: items_def provenance_dump_def)
  have gid: "opt_field (\<lambda>s. s \<noteq> []) (Some (opt_str (pv_geography_id p))) = Some (pv_geography_id p)"
    by (rule opt_field_opt_str) (use assms(1) in \<open>auto simp: provenance_ok_def\<close>)
  have as_of: "date_field (si_date inst) (Some (opt_str (map_option isoformat (pv_as_of p)))) = Some (pv_as_of p)"
    by (rule date_field_opt [OF assms(2)]) (use assms(1) in \<open>simp add: provenance_ok_def\<close>)
  have fields: "provenance_fields_of inst items = Some p"
    unfolding provenance_fields_of_def gets
    using assms(1) as_of gid by (simp add: provenance_ok_def nullable_field_def versions_of_dump)
  show ?thesis
    unfolding provenance_of_def dump using keys fields assms(1) by (simp add: provenance_ok_def)
qed

definition execution_ok :: "execution_provenance \<Rightarrow> bool" where
  "execution_ok e \<longleftrightarrow> provenance_ok (ep_receipt e) \<and> 1 \<le> ep_execution_count e"

lemma execution_of_dump:
  assumes "execution_ok e" and "reads_iso_dates inst" and "\<And>i. si_int inst (JInt i) = Some i"
  shows "execution_of inst (Some (execution_dump e)) = Some e"
  using assms provenance_of_dump
  by (cases e) (simp add: execution_of_def execution_dump_def execution_ok_def only_keys_def)

lemma comparison_of_dump:
  assumes "execution_ok (cp_baseline c)" and "execution_ok (cp_reform c)"
    and "ep_receipt (cp_baseline c) = ep_receipt (cp_reform c)"
    and "reads_iso_dates inst" and "\<And>i. si_int inst (JInt i) = Some i"
  shows "comparison_of inst (comparison_dump c) = Some c"
  using execution_of_dump [OF assms(1,4,5)] execution_of_dump [OF assms(2,4,5)] assms(3)
  by (cases c) (simp add: comparison_of_def comparison_dump_def only_keys_def)

lemma collapse_Inr:
  "collapse_execution_receipts side receipts = Inr e \<longleftrightarrow>
     (\<exists>r. receipts \<noteq> [] \<and> (\<forall>x\<in>set receipts. x = r)
        \<and> e = \<lparr>ep_receipt = r, ep_execution_count = int (length receipts)\<rparr>)"
  by (cases receipts) (auto simp: collapse_execution_receipts_def list_ex_iff)

text \<open>
  Comparison receipts are built exactly from non-empty child receipts that are all the
  same on both sides; one built from valid receipts, written out and read back, is itself,
  with the counts of both sides.
\<close>

theorem comparison_receipt_roundtrip:
  assumes "\<forall>p\<in>set baseline \<union> set reform. provenance_ok p"
    and "reads_iso_dates inst" and "\<forall>i. si_int inst (JInt i) = Some i"
  shows "(\<exists>c. build_spm_comparison_provenance inst baseline reform = Inr c
            \<and> validate_comparison inst (comparison_dump c) = Inr c
            \<and> ep_execution_count (cp_baseline c) = int (length baseline)
            \<and> ep_execution_count (cp_reform c) = int (length reform))
    \<longleftrightarrow> baseline \<noteq> [] \<and> reform \<noteq> [] \<and> card (set baseline \<union> set reform) = 1"
    (is "?built \<longleftrightarrow> ?same")
proof
  assume ?built
  then obtain b r where "baseline \<noteq> []" "\<forall>x\<in>set baseline. x = b" "reform \<noteq> []" "\<forall>x\<in>set reform. x = r"
      and "b = r"
    by (auto simp: build_spm_comparison_provenance_def res_bind_Inr_iff collapse_Inr Let_def split: if_splits)
  moreover from this have "set baseline \<union> set reform = {b}" by (cases baseline) auto
  ultimately show ?same by simp
next
  assume same: ?same
  then obtain p where p: "set baseline \<union> set reform = {p}" by (auto simp: card_1_singleton_iff)
  then have eq: "\<forall>x\<in>set baseline. x = p" "\<forall>x\<in>set reform. x = p" by blast+
  let ?b = "\<lparr>ep_receipt = p, ep_execution_count = int (length baseline)\<rparr>"
  let ?r = "\<lparr>ep_receipt = p, ep_execution_count = int (length reform)\<rparr>"
  let ?c = "\<lparr>cp_baseline = ?b, cp_reform = ?r\<rparr>"
  have "collapse_execution_receipts ''baseline'' baseline = Inr ?b"
    "collapse_execution_receipts ''reform'' reform = Inr ?r"
    using same eq by (auto simp: collapse_Inr)
  then have built: "build_spm_comparison_provenance inst baseline reform = Inr ?c"
    by (simp add: build_spm_comparison_provenance_def)
  have "length baseline \<ge> 1" "length reform \<ge> 1" using same by (simp_all add: Suc_le_eq)
  then have ok: "execution_ok ?b" "execution_ok ?r"
    using assms(1) p by (simp_all add: execution_ok_def)
  have ints: "si_int inst (JInt i) = Some i" for i using assms(3) by blast
  have "comparison_of inst (comparison_dump ?c) = Some ?c"
    by (rule comparison_of_dump) (use ok ints assms(2) in simp_all)
  then show ?built using built by (auto simp: validate_comparison_def)
qed

definition example_versions :: runtime_versions where
  "example_versions = \<lparr>rv_policyengine = ''4'', rv_core = ''3'', rv_us = ''1'', rv_calculator = ''2''\<rparr>"

definition example_receipt :: provenance where
  "example_receipt =
     \<lparr>pv_forecast_id = ''f'', pv_forecast_sha256 = replicate 64 CHR ''a'', pv_scenario = ''base'',
      pv_geography_kind = ''national'', pv_geography_id = None, pv_county_vintage = ''2020'',
      pv_as_of = Some (2025, 1, 31), pv_years = [''2025'', ''2026''],
      pv_runtime_versions = example_versions\<rparr>"

definition example_config :: spm_selection where
  "example_config =
     \<lparr>sp_forecast_content_sha256 = Some (replicate 64 CHR ''a''), sp_scenario = Some ''base'',
      sp_geography_kind = ''national'', sp_geography_id = None, sp_county_vintage = ''2020'',
      sp_as_of = Some ''2025-01-31'', sp_fields_set = SELECTION_FIELDS\<rparr>"

definition country_receipt :: "(string \<times> json) list" where
  "country_receipt =
     [(''forecast_sha256'', JStr (replicate 64 CHR ''a'')), (''scenario'', JStr ''base''),
      (''geography_kind'', JStr ''national''), (''forecast_id'', JStr ''f''),
      (''years'', JObj [(''2026'', JNull), (''2025'', JNull)]),
      (''runtime_versions'', versions_dump example_versions)]"

text \<open>A pydantic that reads exact ISO dates and JSON integers.\<close>

fun iso_date_of :: "json \<Rightarrow> date option" where
  "iso_date_of (JStr s) = (if exact_iso_date s then Some (date_fields s) else None)"
| "iso_date_of v = None"

definition iso_install :: spm_install where
  "iso_install = example_install\<lparr>si_date := iso_date_of\<rparr>"

theorem calculation_receipt_certifies_selection_witness:
  "provenance_ok example_receipt
   \<and> resolved_spm_configuration iso_install example_receipt =
       Inr \<lparr>rf_forecast_content_sha256 = replicate 64 CHR ''a'', rf_scenario = ''base'',
            rf_geography_kind = ''national'', rf_geography_id = None, rf_county_vintage = ''2020'',
            rf_as_of = Some ''2025-01-31''\<rparr>"
proof -
  have sel: "selection_of (selection_dump example_config) = Some example_config" by code_simp
  have set: "sp_fields_set example_config = SELECTION_FIELDS" by (simp add: example_config_def)
  have bld: "build_spm_calculation_provenance iso_install example_config country_receipt = Inr example_receipt"
    by code_simp
  have res: "resolved_spm_configuration iso_install example_receipt =
       Inr \<lparr>rf_forecast_content_sha256 = replicate 64 CHR ''a'', rf_scenario = ''base'',
            rf_geography_kind = ''national'', rf_geography_id = None, rf_county_vintage = ''2020'',
            rf_as_of = Some ''2025-01-31''\<rparr>"
    by code_simp
  from calculation_receipt_certifies_selection [OF sel set bld] res show ?thesis by simp
qed

lemma iso_install_reads: "reads_iso_dates iso_install"
  by (simp add: reads_iso_dates_def iso_install_def date_fields_isoformat
      del: isoformat.simps calendar_date.simps split_paired_All)

theorem comparison_receipt_roundtrip_witness:
  "\<exists>c. build_spm_comparison_provenance iso_install [example_receipt, example_receipt] [example_receipt] = Inr c
     \<and> ep_execution_count (cp_baseline c) = 2 \<and> ep_execution_count (cp_reform c) = 1"
proof -
  have ok: "provenance_ok example_receipt" by code_simp
  have ints: "\<forall>i. si_int iso_install (JInt i) = Some i"
    by (simp add: iso_install_def example_install_def)
  show ?thesis
    using comparison_receipt_roundtrip [OF _ iso_install_reads ints,
        of "[example_receipt, example_receipt]" "[example_receipt]"] ok
    by fastforce
qed

end
