(* ===== verification/Worker_SPM.thy ===== *)
theory Worker_SPM
  imports Spm_Receipts
begin

text \<open>
  \<open>policyengine_api/worker_spm.py\<close>: the worker's certified SPM capability, the receipts a
  worker's result must carry, and the typed input errors a worker reports.
\<close>

section \<open>The worker's capability\<close>

definition check_worker_capability :: "spm_install \<Rightarrow> json \<Rightarrow> json \<Rightarrow> unit result" where
  "check_worker_capability inst capability resolved =
     (case capability of
        JObj cap \<Rightarrow>
          if fst ` set cap \<noteq> {''contract_version'', ''defaults''}
          then Inl (ValueError ''The selected worker has no certified canonical SPM capability'')
          else if map_of cap ''contract_version'' \<noteq> Some (JStr ''canonical-spm-v1'')
          then Inl (ValueError ''The selected worker uses an unsupported SPM contract'')
          else res_bind (validate_selection inst (dict_get_none cap ''defaults'')) (\<lambda>defaults.
            if sp_scenario defaults = None \<or> sp_forecast_content_sha256 defaults = None
            then Inl (ValueError ''The worker capability must pin SPM artifact hash and scenario'')
            else case resolved of
              JObj r \<Rightarrow>
                if map_of r ''forecast_content_sha256'' \<noteq> Some (opt_str (sp_forecast_content_sha256 defaults))
                then Inl (ValueError ''The API and worker SPM artifact identities differ'') else Inr ()
            | _ \<Rightarrow> Inl (TypeErr ''resolved''))
      | _ \<Rightarrow> Inl (ValueError ''The selected worker has no certified canonical SPM capability''))"

text \<open>\<open>validate_worker_spm\<close> with a gateway, whose capability request may raise.\<close>

definition validate_worker_spm ::
  "spm_install \<Rightarrow> (string \<Rightarrow> string option \<Rightarrow> string option \<Rightarrow> ('w, json) act)
     \<Rightarrow> string \<Rightarrow> json \<Rightarrow> string option \<Rightarrow> string option \<Rightarrow> ('w, json) act" where
  "validate_worker_spm inst get_capability country selection policyengine_version model_version =
     (let country_id = py_lower country
      in bindA (liftA (normalize_spm_selection inst country_id selection False)) (\<lambda>resolved.
           if resolved = JNull then retA JNull
           else bindA (get_capability country_id model_version policyengine_version) (\<lambda>capability.
             bindA (liftA (as_spm_error ''SPM_CONFIGURATION_UNAVAILABLE'' is_value_error
                      (check_worker_capability inst capability resolved)))
               (\<lambda>u. retA resolved))))"

section \<open>The receipts of a result\<close>

text \<open>Equality of two dicts whose values are texts or None, whatever the order of their keys.\<close>

fun same_dict :: "json \<Rightarrow> json \<Rightarrow> bool" where
  "same_dict (JObj a) (JObj b) \<longleftrightarrow>
     list_all (\<lambda>k. map_of a k = map_of b k) (map fst a @ map fst b)"
| "same_dict u v \<longleftrightarrow> u = v"

fun is_dict :: "json \<Rightarrow> bool" where
  "is_dict (JObj d) = True"
| "is_dict v = False"

definition budget_window_rows :: "(string \<times> json) list \<Rightarrow> json list result" where
  "budget_window_rows d =
     (case map_of d ''windowSize'' of
        Some (JInt n) \<Rightarrow>
          if n < 1 then Inl (ValueError ''Budget window size must be a positive integer'')
          else (case map_of d ''annualImpacts'' of
            Some (JArr rows) \<Rightarrow>
              if \<not> list_all is_dict rows
              then Inl (ValueError ''Budget window annual impacts must be objects'')
              else if int (length rows) \<noteq> n
              then Inl (ValueError ''Budget window has incomplete SPM receipts'') else Inr rows
          | _ \<Rightarrow> Inl (ValueError ''Budget window annual impacts must be objects''))
      | _ \<Rightarrow> Inl (ValueError ''Budget window size must be a positive integer''))"

definition row_year :: "json \<Rightarrow> json" where
  "row_year row = (case row of JObj r \<Rightarrow> dict_get_none r ''year'' | _ \<Rightarrow> JNull)"

definition check_budget_window_years :: "json list \<Rightarrow> string list option \<Rightarrow> unit result" where
  "check_budget_window_years rows expected_years =
     (let actual = map (\<lambda>row. py_str (row_year row)) rows
      in if \<not> list_all calendar_year actual
         then Inl (ValueError ''Budget window annual impacts require calendar years'')
         else if \<not> distinct actual
         then Inl (ValueError ''Budget window SPM result years differ from request'')
         else if expected_years \<noteq> None \<and> expected_years \<noteq> Some actual
         then Inl (ValueError ''Budget window SPM result years differ from request'') else Inr ())"

definition check_side :: "spm_install \<Rightarrow> json \<Rightarrow> string option \<Rightarrow> execution_provenance \<Rightarrow> unit result" where
  "check_side inst selection expected_year execution =
     (let receipt = ep_receipt execution
      in res_bind (resolved_spm_configuration inst receipt) (\<lambda>resolved.
           if \<not> same_dict (configuration_dump resolved) selection
           then Inl (ValueError ''Worker result SPM settings differ from the request'')
           else case expected_year of
             Some year \<Rightarrow>
               if year \<notin> set (pv_years receipt)
               then Inl (ValueError ''Worker SPM receipt does not cover requested year'') else Inr ()
           | None \<Rightarrow> Inr ()))"

definition check_annual_receipts ::
  "spm_install \<Rightarrow> (string \<times> json) list \<Rightarrow> json \<Rightarrow> string option \<Rightarrow> unit result" where
  "check_annual_receipts inst d selection expected_year =
     (if map_of d ''spm_config'' \<noteq> None
      then Inl (ValueError ''Worker result must not include legacy spm_config'')
      else res_bind (validate_comparison inst (dict_get_none d ''spm_provenance'')) (\<lambda>c.
        res_bind (check_side inst selection expected_year (cp_baseline c)) (\<lambda>u.
          check_side inst selection expected_year (cp_reform c))))"

fun is_worker_result_error :: "exn \<Rightarrow> bool" where
  "is_worker_result_error (TypeErr m) = True"
| "is_worker_result_error (KeyErr m) = True"
| "is_worker_result_error e = is_value_error e"

text \<open>A check of every element, up to the first that raises.\<close>

fun res_each :: "('a \<Rightarrow> unit result) \<Rightarrow> 'a list \<Rightarrow> unit result" where
  "res_each f [] = Inr ()"
| "res_each f (x # xs) = res_bind (f x) (\<lambda>u. res_each f xs)"

lemma res_each_cong [fundef_cong]:
  "xs = ys \<Longrightarrow> (\<And>x. x \<in> set ys \<Longrightarrow> f x = g x) \<Longrightarrow> res_each f xs = res_each g ys"
  by (induction ys arbitrary: xs) auto

lemma res_bind_cong [fundef_cong]:
  "m = m' \<Longrightarrow> (\<And>x. m' = Inr x \<Longrightarrow> f x = g x) \<Longrightarrow> res_bind m f = res_bind m' g"
  by (cases m') auto

lemma res_each_Inr: "res_each f xs = Inr () \<longleftrightarrow> (\<forall>x\<in>set xs. f x = Inr ())"
  by (induction xs) (auto simp: res_bind_Inr_iff)

definition year_text :: "json \<Rightarrow> string option" where
  "year_text v = (if v = JNull then None else Some (py_str v))"

lemma budget_window_rows_Inr:
  "budget_window_rows d = Inr rows \<longleftrightarrow>
     rows \<noteq> [] \<and> map_of d ''annualImpacts'' = Some (JArr rows) \<and> list_all is_dict rows
     \<and> map_of d ''windowSize'' = Some (JInt (int (length rows)))"
  by (auto simp: budget_window_rows_def split: option.splits json.splits if_splits)

lemma size_member: "x \<in> set xs \<Longrightarrow> size x < Suc (size_list size xs)"
  by (induction xs) auto

text \<open>\<open>validate_worker_result\<close> with \<open>_check_worker_result\<close>: a row is a result of its own.\<close>

function validate_worker_result ::
  "spm_install \<Rightarrow> json \<Rightarrow> json \<Rightarrow> string option \<Rightarrow> string list option \<Rightarrow> unit result" where
  "validate_worker_result inst selection res expected_year expected_years =
     (if selection = JNull then Inr ()
      else as_spm_error ''SPM_CONFIGURATION_UNAVAILABLE'' is_worker_result_error
        (case res of
           JObj d \<Rightarrow>
             if map_of d ''kind'' = Some (JStr ''budgetWindow'')
             then (if expected_year \<noteq> None then Inl (ValueError ''Expected an annual SPM result'')
                   else res_bind (budget_window_rows d) (\<lambda>rows.
                     res_bind (check_budget_window_years rows expected_years) (\<lambda>u.
                       res_each (\<lambda>row. validate_worker_result inst selection row
                                    (year_text (row_year row)) None) rows)))
             else if expected_years \<noteq> None then Inl (ValueError ''Expected a budget window SPM result'')
             else check_annual_receipts inst d selection expected_year
         | _ \<Rightarrow> Inl (TypeErr ''Worker SPM result must be an object'')))"
  by pat_completeness auto

termination
proof (relation "measure (\<lambda>(inst, selection, res, ey, eys). size res)", goal_cases)
  case (2 inst selection res ey eys d rows u row)
  have "map_of d ''annualImpacts'' = Some (JArr rows)" using 2 by (simp add: budget_window_rows_Inr)
  then have "(''annualImpacts'', JArr rows) \<in> set d" by (rule map_of_SomeD)
  then have "size (JArr rows) < size (JObj d)"
    by (induction d) auto
  moreover have "size row < size (JArr rows)" using 2 size_member by fastforce
  ultimately show ?case using 2 by simp
qed simp

declare validate_worker_result.simps [simp del]

section \<open>The typed errors of a worker\<close>

definition WORKER_INPUT_ERROR_CODES :: "string list" where
  "WORKER_INPUT_ERROR_CODES =
     [''SPM_GEOGRAPHY_REQUIRED'', ''SPM_GEOGRAPHY_UNAVAILABLE'', ''SPM_COMPOSITION_REQUIRED'',
      ''SPM_YEAR_UNAVAILABLE'', ''SPM_SETTINGS_INVALID'', ''SPM_SETTINGS_UNSUPPORTED'',
      ''SPM_CONFIGURATION_UNAVAILABLE'', ''DATASET_YEAR_UNAVAILABLE'']"

text \<open>
  \<open>raise_worker_spm_error\<close>: a response's status and its decoded body, None when it is not
  JSON. A body that is not an object has no \<open>get\<close>; \<open>errors\<close> that cannot be iterated raise
  TypeError, as does an error whose code is a list or an object, which the set of codes
  cannot look up; an error that is not an object is skipped, as are the keys of an object.
\<close>

fun typed_error :: "json \<Rightarrow> exn option" where
  "typed_error (JObj e) =
     (case (map_of e ''code'', map_of e ''message'') of
        (Some (JArr c), _) \<Rightarrow> Some (TypeErr ''unhashable type'')
      | (Some (JObj c), _) \<Rightarrow> Some (TypeErr ''unhashable type'')
      | (Some (JStr code), Some (JStr m)) \<Rightarrow>
          if code \<in> set WORKER_INPUT_ERROR_CODES then Some (SPMValidationError code m) else None
      | _ \<Rightarrow> None)"
| "typed_error v = None"

fun first_typed_error :: "json list \<Rightarrow> exn option" where
  "first_typed_error [] = None"
| "first_typed_error (v # vs) =
     (case typed_error v of None \<Rightarrow> first_typed_error vs | Some e \<Rightarrow> Some e)"

definition raise_worker_spm_error :: "int \<Rightarrow> json option \<Rightarrow> unit result" where
  "raise_worker_spm_error status_code body =
     (if status_code \<notin> {400, 422} then Inr ()
      else case body of
        Some (JObj d) \<Rightarrow>
          (case map_of d ''errors'' of
             None \<Rightarrow> Inr ()
           | Some (JArr errors) \<Rightarrow>
               (case first_typed_error errors of None \<Rightarrow> Inr () | Some e \<Rightarrow> Inl e)
           | Some (JStr s) \<Rightarrow> Inr ()
           | Some (JObj e) \<Rightarrow> Inr ()
           | Some v \<Rightarrow> Inl (TypeErr ''object is not iterable''))
      | _ \<Rightarrow> Inr ())"

section \<open>Properties\<close>

text \<open>What a certified annual result holds.\<close>

definition annual_certified :: "spm_install \<Rightarrow> json \<Rightarrow> string option \<Rightarrow> (string \<times> json) list \<Rightarrow> bool" where
  "annual_certified inst selection expected_year d \<longleftrightarrow>
     map_of d ''kind'' \<noteq> Some (JStr ''budgetWindow'') \<and> map_of d ''spm_config'' = None
     \<and> (case comparison_of inst (dict_get_none d ''spm_provenance'') of
          None \<Rightarrow> False
        | Some c \<Rightarrow>
            (\<exists>conf. resolved_spm_configuration inst (ep_receipt (cp_baseline c)) = Inr conf
               \<and> same_dict (configuration_dump conf) selection)
            \<and> (\<forall>year. expected_year = Some year \<longrightarrow> year \<in> set (pv_years (ep_receipt (cp_baseline c)))))"

lemma check_side_Inr:
  "check_side inst selection expected_year execution = Inr () \<longleftrightarrow>
     (\<exists>conf. resolved_spm_configuration inst (ep_receipt execution) = Inr conf
        \<and> same_dict (configuration_dump conf) selection)
     \<and> (\<forall>year. expected_year = Some year \<longrightarrow> year \<in> set (pv_years (ep_receipt execution)))"
  by (auto simp: check_side_def Let_def res_bind_Inr_iff split: option.splits)

lemma comparison_same_receipt:
  "comparison_of inst v = Some c \<Longrightarrow> ep_receipt (cp_reform c) = ep_receipt (cp_baseline c)"
  by (auto simp: comparison_of_def split: json.splits option.splits if_splits)

lemma check_annual_receipts_Inr:
  "check_annual_receipts inst d selection expected_year = Inr () \<longleftrightarrow>
     map_of d ''spm_config'' = None
     \<and> (case comparison_of inst (dict_get_none d ''spm_provenance'') of
          None \<Rightarrow> False
        | Some c \<Rightarrow>
            (\<exists>conf. resolved_spm_configuration inst (ep_receipt (cp_baseline c)) = Inr conf
               \<and> same_dict (configuration_dump conf) selection)
            \<and> (\<forall>year. expected_year = Some year \<longrightarrow> year \<in> set (pv_years (ep_receipt (cp_baseline c)))))"
  by (auto simp: check_annual_receipts_def validate_comparison_def res_bind_Inr_iff check_side_Inr
      comparison_same_receipt split: option.splits)

lemma validate_annual:
  assumes "selection \<noteq> JNull"
  shows "validate_worker_result inst selection (JObj d) (Some year) None = Inr ()
     \<longleftrightarrow> annual_certified inst selection (Some year) d"
  using assms
  by (simp add: validate_worker_result.simps [of _ _ "JObj d"] annual_certified_def check_annual_receipts_Inr)

lemma as_spm_error_result:
  "(\<And>e. r = Inl e \<Longrightarrow> caught e) \<Longrightarrow>
     as_spm_error code caught r = Inr () \<or> (\<exists>m. as_spm_error code caught r = Inl (SPMValidationError code m))"
  by (cases r) (auto simp: as_spm_error_def)

lemma res_each_Inl: "res_each f xs = Inl e \<Longrightarrow> \<exists>x\<in>set xs. f x = Inl e"
  by (induction xs) (auto simp: res_bind_Inl_iff)

lemma internal_errors_caught:
  "budget_window_rows d = Inl e \<Longrightarrow> is_worker_result_error e"
  "check_budget_window_years rows eys = Inl e \<Longrightarrow> is_worker_result_error e"
  "check_annual_receipts inst d selection ey = Inl e \<Longrightarrow> is_worker_result_error e"
  by (auto simp: budget_window_rows_def check_budget_window_years_def check_annual_receipts_def check_side_def
      validate_comparison_def resolved_spm_configuration_def Let_def res_bind_Inl_iff
      split: option.splits json.splits if_splits)

lemma validate_worker_result_typed:
  "validate_worker_result inst selection res ey eys = Inr ()
   \<or> (\<exists>m. validate_worker_result inst selection res ey eys
          = Inl (SPMValidationError ''SPM_CONFIGURATION_UNAVAILABLE'' m))"
proof (induction inst selection res ey eys rule: validate_worker_result.induct)
  case (1 inst selection res ey eys)
  show ?case
  proof (cases "selection = JNull")
    case False
    show ?thesis
      unfolding validate_worker_result.simps [of inst selection res] using False
    proof (simp only: if_False, intro as_spm_error_result, goal_cases)
      case (1 e)
      then show ?case
        using "1.IH" False
        by (cases res) (auto simp: res_bind_Inl_iff split: if_splits dest!: res_each_Inl
            dest: internal_errors_caught, fastforce+)
    qed
  qed (simp add: validate_worker_result.simps)
qed

text \<open>
  A worker's budget-window result is accepted exactly when it holds one annual result
  for each requested year, in order, and each of them carries a comparison receipt that
  resolves to the requested SPM selection and covers its year; anything else is refused
  with the typed SPM error, never another exception.
\<close>

theorem budget_window_result_accepted_iff:
  assumes "selection \<noteq> JNull"
  shows "(validate_worker_result inst selection (JObj d) None (Some years) = Inr () \<longleftrightarrow>
      (\<exists>rows. map_of d ''kind'' = Some (JStr ''budgetWindow'')
         \<and> map_of d ''annualImpacts'' = Some (JArr (map JObj rows)) \<and> rows \<noteq> []
         \<and> map_of d ''windowSize'' = Some (JInt (int (length rows)))
         \<and> map (\<lambda>r. py_str (dict_get_none r ''year'')) rows = years
         \<and> list_all calendar_year years \<and> distinct years
         \<and> list_all2 (\<lambda>r year. annual_certified inst selection (Some year) r) rows years))
    \<and> (\<forall>e. validate_worker_result inst selection res ey eys = Inl e \<longrightarrow>
         (\<exists>m. e = SPMValidationError ''SPM_CONFIGURATION_UNAVAILABLE'' m))"
proof -
  have rows_dict: "list_all is_dict vs \<longleftrightarrow> (\<exists>rows. vs = map JObj rows)" for vs
  proof (induction vs)
    case (Cons v vs)
    have "is_dict v \<longleftrightarrow> (\<exists>r. v = JObj r)" by (cases v) auto
    with Cons show ?case by (auto simp: Cons_eq_map_conv)
  qed simp
  have year: "year_text (dict_get_none r ''year'') = Some (py_str (dict_get_none r ''year''))"
    if "calendar_year (py_str (dict_get_none r ''year''))" for r
    using that by (auto simp: year_text_def py_str_def calendar_year_def is_digit_def)
  have each: "res_each (\<lambda>row. validate_worker_result inst selection row (year_text (row_year row)) None)
        (map JObj rows) = Inr ()
      \<longleftrightarrow> list_all2 (\<lambda>r year. annual_certified inst selection (Some year) r) rows years"
    if years: "map (\<lambda>r. py_str (dict_get_none r ''year'')) rows = years" "list_all calendar_year years" for rows
  proof -
    have "validate_worker_result inst selection (JObj r) (year_text (dict_get_none r ''year'')) None = Inr ()
        \<longleftrightarrow> annual_certified inst selection (Some (py_str (dict_get_none r ''year''))) r"
      if "r \<in> set rows" for r
    proof -
      have "calendar_year (py_str (dict_get_none r ''year''))"
        using that years by (auto simp: list_all_iff)
      from year [OF this] show ?thesis using validate_annual [OF assms] by simp
    qed
    then show ?thesis
      unfolding years(1) [symmetric] res_each_Inr list_all2_map2 list_all2_same
      by (simp add: row_year_def)
  qed
  let ?each = "res_each (\<lambda>row. validate_worker_result inst selection row (year_text (row_year row)) None)"
  have check: "check_budget_window_years (map JObj rows) (Some years) = Inr () \<longleftrightarrow>
      map (\<lambda>r. py_str (dict_get_none r ''year'')) rows = years \<and> list_all calendar_year years \<and> distinct years"
    for rows
    by (auto simp: check_budget_window_years_def Let_def row_year_def comp_def)
  have "validate_worker_result inst selection (JObj d) None (Some years) = Inr () \<longleftrightarrow>
      map_of d ''kind'' = Some (JStr ''budgetWindow'')
      \<and> (\<exists>vs. budget_window_rows d = Inr vs \<and> check_budget_window_years vs (Some years) = Inr ()
          \<and> ?each vs = Inr ())"
    using assms by (simp add: validate_worker_result.simps [of inst selection "JObj d"] res_bind_Inr_iff)
  also have "\<dots> \<longleftrightarrow> (\<exists>rows. map_of d ''kind'' = Some (JStr ''budgetWindow'')
         \<and> budget_window_rows d = Inr (map JObj rows)
         \<and> check_budget_window_years (map JObj rows) (Some years) = Inr ()
         \<and> ?each (map JObj rows) = Inr ())"
  proof -
    have dicts: "\<exists>rows. vs = map JObj rows" if "budget_window_rows d = Inr vs" for vs
      using that rows_dict by (simp add: budget_window_rows_Inr)
    show ?thesis by (rule iffI; elim conjE exE) (frule dicts, blast, blast)
  qed
  also have "\<dots> \<longleftrightarrow> (\<exists>rows. map_of d ''kind'' = Some (JStr ''budgetWindow'')
         \<and> map_of d ''annualImpacts'' = Some (JArr (map JObj rows)) \<and> rows \<noteq> []
         \<and> map_of d ''windowSize'' = Some (JInt (int (length rows)))
         \<and> map (\<lambda>r. py_str (dict_get_none r ''year'')) rows = years
         \<and> list_all calendar_year years \<and> distinct years
         \<and> list_all2 (\<lambda>r year. annual_certified inst selection (Some year) r) rows years)"
  proof (rule arg_cong [where f = Ex], rule ext)
    fix rows
    have "list_all is_dict (map JObj rows)" by (simp add: list_all_iff)
    then show "(map_of d ''kind'' = Some (JStr ''budgetWindow'')
         \<and> budget_window_rows d = Inr (map JObj rows)
         \<and> check_budget_window_years (map JObj rows) (Some years) = Inr ()
         \<and> ?each (map JObj rows) = Inr ()) =
       (map_of d ''kind'' = Some (JStr ''budgetWindow'')
         \<and> map_of d ''annualImpacts'' = Some (JArr (map JObj rows)) \<and> rows \<noteq> []
         \<and> map_of d ''windowSize'' = Some (JInt (int (length rows)))
         \<and> map (\<lambda>r. py_str (dict_get_none r ''year'')) rows = years
         \<and> list_all calendar_year years \<and> distinct years
         \<and> list_all2 (\<lambda>r year. annual_certified inst selection (Some year) r) rows years)"
      unfolding check budget_window_rows_Inr
      using each [of rows]
      by (cases "map (\<lambda>r. py_str (dict_get_none r ''year'')) rows = years \<and> list_all calendar_year years")
         (simp_all only: length_map map_is_Nil_conv simp_thms, blast+)
  qed
  finally show ?thesis
    using validate_worker_result_typed [of inst selection res ey eys] by auto
qed

definition example_row :: "string \<Rightarrow> (string \<times> json) list" where
  "example_row year =
     [(''year'', JStr year),
      (''spm_provenance'', comparison_dump
         \<lparr>cp_baseline = \<lparr>ep_receipt = example_receipt, ep_execution_count = 1\<rparr>,
          cp_reform = \<lparr>ep_receipt = example_receipt, ep_execution_count = 2\<rparr>\<rparr>)]"

definition example_window :: "(string \<times> json) list" where
  "example_window =
     [(''kind'', JStr ''budgetWindow''), (''windowSize'', JInt 2),
      (''annualImpacts'', JArr [JObj (example_row ''2025''), JObj (example_row ''2026'')])]"

lemma annual_receipts_example:
  assumes "y \<in> {''2025'', ''2026''}"
  shows "check_annual_receipts iso_install (example_row y) (selection_dump example_config) (Some y) = Inr ()"
proof -
  have ok: "provenance_ok example_receipt" by code_simp
  have cmp: "comparison_of iso_install (dict_get_none (example_row y) ''spm_provenance'') =
      Some \<lparr>cp_baseline = \<lparr>ep_receipt = example_receipt, ep_execution_count = 1\<rparr>,
            cp_reform = \<lparr>ep_receipt = example_receipt, ep_execution_count = 2\<rparr>\<rparr>"
    using comparison_of_dump [OF _ _ _ iso_install_reads,
        of "\<lparr>cp_baseline = \<lparr>ep_receipt = example_receipt, ep_execution_count = 1\<rparr>,
            cp_reform = \<lparr>ep_receipt = example_receipt, ep_execution_count = 2\<rparr>\<rparr>"] ok
    by (simp add: execution_ok_def example_row_def dict_get_none_def)
       (simp add: iso_install_def example_install_def)
  have iso: "isoformat (2025, 1, 31) = ''2025-01-31''" by code_simp
  have "\<exists>conf. resolved_spm_configuration iso_install example_receipt = Inr conf
      \<and> same_dict (configuration_dump conf) (selection_dump example_config)"
    by (simp add: resolved_configuration_total [OF ok])
       (simp add: configuration_dump_def selection_dump_def selection_field_def example_config_def
         example_receipt_def SELECTION_FIELDS_def iso [simplified])
  moreover have "map_of (example_row y) ''spm_config'' = None" by (simp add: example_row_def)
  moreover have "y \<in> set (pv_years example_receipt)" using assms by (simp add: example_receipt_def)
  ultimately show ?thesis unfolding check_annual_receipts_Inr cmp by simp
qed

lemma example_window_validates:
  "validate_worker_result iso_install (selection_dump example_config) (JObj example_window) None
     (Some [''2025'', ''2026'']) = Inr ()"
proof -
  have sel: "selection_dump example_config \<noteq> JNull" by (simp add: selection_dump_def)
  let ?sel = "selection_dump example_config"
  have receipts: "check_annual_receipts iso_install (example_row ''2025'') ?sel (Some ''2025'') = Inr ()"
    "check_annual_receipts iso_install (example_row ''2026'') ?sel (Some ''2026'') = Inr ()"
    by (rule annual_receipts_example; simp)+
  have row: "validate_worker_result iso_install ?sel (JObj (example_row y)) (Some y) None = Inr ()"
    if "check_annual_receipts iso_install (example_row y) ?sel (Some y) = Inr ()" for y
  proof -
    have "map_of (example_row y) ''kind'' \<noteq> Some (JStr ''budgetWindow'')" by (simp add: example_row_def)
    with that sel show ?thesis by (subst validate_worker_result.simps) simp
  qed
  have rows: "budget_window_rows example_window = Inr [JObj (example_row ''2025''), JObj (example_row ''2026'')]"
    by (simp add: budget_window_rows_Inr example_window_def)
  have years: "check_budget_window_years [JObj (example_row ''2025''), JObj (example_row ''2026'')]
      (Some [''2025'', ''2026'']) = Inr ()"
    by code_simp
  have texts: "year_text (row_year (JObj (example_row y))) = Some y" for y
    by (simp add: row_year_def example_row_def year_text_def py_str_def dict_get_none_def)
  have kind: "map_of example_window ''kind'' = Some (JStr ''budgetWindow'')" by (simp add: example_window_def)
  show ?thesis
    using sel rows years texts row [OF receipts(1)] row [OF receipts(2)] kind
    by (subst validate_worker_result.simps) simp
qed

theorem budget_window_result_accepted_iff_witness:
  "\<exists>rows. map_of example_window ''annualImpacts'' = Some (JArr (map JObj rows))
     \<and> list_all2 (\<lambda>r year. annual_certified iso_install (selection_dump example_config) (Some year) r)
          rows [''2025'', ''2026'']"
proof -
  have sel: "selection_dump example_config \<noteq> JNull" by (simp add: selection_dump_def)
  from budget_window_result_accepted_iff [OF sel, of iso_install example_window "[''2025'', ''2026'']"]
    example_window_validates
  show ?thesis by blast
qed

end
