(* ===== verification/Cache_Backend.thy ===== *)
theory Cache_Backend
  imports Prelude "HOL-Library.AList" "HOL-Library.Product_Lexorder" "HOL-Library.Multiset"
begin

text \<open>
  The Redis client subset the runtime cache uses (\<open>CacheBackend\<close> and \<open>CachePipeline\<close>
  of \<open>policyengine_api/runtime_cache/core.py\<close>) as a record of operations, its in-memory
  implementation \<open>InMemoryCacheBackend\<close> and its storage-free one
  \<open>DisabledCacheBackend\<close> (\<open>runtime_cache/fake.py\<close>).

  Times are whole microseconds and scores are whole numbers; the source holds both as
  floats. A pipeline is the list of its queued commands, and \<open>execute\<close> runs them in
  one step, as the transactional pipelines of the source do. Replies are texts: the
  source's clients decode responses, so no value is \<open>bytes\<close>.
\<close>

section \<open>The client interface\<close>

record set_options =
  so_ex :: "int option"
  so_nx :: bool
  so_xx :: bool

datatype cache_command =
    CSet string string set_options
  | CDelete "string list"
  | CExpire string int
  | CZadd string "(string \<times> int) list"
  | CZrem string "string list"
  | CZremrangebyrank string int int

text \<open>A reply: Redis's nil, a boolean, or an integer.\<close>

datatype reply = RNil | RBool bool | RInt int

fun reply_truthy :: "reply \<Rightarrow> bool" where
  "reply_truthy RNil = False"
| "reply_truthy (RBool b) = b"
| "reply_truthy (RInt i) = (i \<noteq> 0)"

record 'w cache_client =
  cl_get :: "string \<Rightarrow> ('w, string option) act"
  cl_set :: "string \<Rightarrow> string \<Rightarrow> set_options \<Rightarrow> ('w, reply) act"
  cl_delete :: "string list \<Rightarrow> ('w, reply) act"
  cl_pttl :: "string \<Rightarrow> ('w, int) act"
  cl_zrevrange :: "string \<Rightarrow> int \<Rightarrow> int \<Rightarrow> ('w, string list) act"
  cl_eval :: "string \<Rightarrow> int \<Rightarrow> string list \<Rightarrow> ('w, int) act"
  cl_execute :: "cache_command list \<Rightarrow> ('w, reply list) act"

definition PTTL_MISSING_KEY :: int where
  "PTTL_MISSING_KEY = - 2"

definition PTTL_NO_EXPIRY :: int where
  "PTTL_NO_EXPIRY = - 1"

section \<open>The two scripts\<close>

definition COMPARE_AND_DELETE :: string where
  "COMPARE_AND_DELETE = join [CHR 0x0A]
     [''if redis.call('' @ [CHR 0x27] @ ''get'' @ [CHR 0x27] @ '', KEYS[1]) == ARGV[1] then'',
      ''  return redis.call('' @ [CHR 0x27] @ ''del'' @ [CHR 0x27] @ '', KEYS[1])'',
      ''end'', ''return 0'']"

definition DELETE_UNCHANGED_RECORD :: string where
  "DELETE_UNCHANGED_RECORD = join [CHR 0x0A]
     [''if redis.call('' @ [CHR 0x27] @ ''get'' @ [CHR 0x27] @ '', KEYS[1]) == ARGV[1] then'',
      ''  redis.call('' @ [CHR 0x27] @ ''del'' @ [CHR 0x27] @ '', KEYS[1])'',
      ''  redis.call('' @ [CHR 0x27] @ ''zrem'' @ [CHR 0x27] @ '', KEYS[2], KEYS[1])'',
      ''  redis.call('' @ [CHR 0x27] @ ''zrem'' @ [CHR 0x27] @ '', KEYS[3], KEYS[1])'',
      ''  return 1'', ''end'', ''return 0'']"

lemma scripts_differ: "COMPARE_AND_DELETE \<noteq> DELETE_UNCHANGED_RECORD"
  by code_simp

section \<open>The in-memory backend\<close>

record mem =
  mem_external_clock :: bool
  mem_time :: int
  mem_values :: "string \<Rightarrow> string option"
  mem_expires :: "string \<Rightarrow> int option"
  mem_zsets :: "string \<Rightarrow> (string \<times> int) list option"

text \<open>A new backend on its own clock.\<close>

definition empty_mem :: mem where
  "empty_mem = \<lparr>mem_external_clock = False, mem_time = 0, mem_values = (\<lambda>_. None),
     mem_expires = (\<lambda>_. None), mem_zsets = (\<lambda>_. None)\<rparr>"

definition micros :: "int \<Rightarrow> int" where
  "micros seconds = seconds * 1000000"

definition mem_advance :: "int \<Rightarrow> ('x mem_scheme, unit) act" where
  "mem_advance amount m =
     (if mem_external_clock m
      then (Inl (RuntimeErr ''cannot advance an externally clocked fake''), m)
      else (Inr (), m\<lparr>mem_time := mem_time m + amount\<rparr>))"

definition mem_drop :: "string \<Rightarrow> 'x mem_scheme \<Rightarrow> 'x mem_scheme" where
  "mem_drop key m =
     m\<lparr>mem_values := (mem_values m)(key := None), mem_zsets := (mem_zsets m)(key := None),
       mem_expires := (mem_expires m)(key := None)\<rparr>"

definition mem_purge :: "string \<Rightarrow> 'x mem_scheme \<Rightarrow> 'x mem_scheme" where
  "mem_purge key m =
     (case mem_expires m key of
        None \<Rightarrow> m
      | Some expires_at \<Rightarrow> if expires_at \<le> mem_time m then mem_drop key m else m)"

definition mem_get :: "string \<Rightarrow> 'x mem_scheme \<Rightarrow> string option \<times> 'x mem_scheme" where
  "mem_get key m = (let m' = mem_purge key m in (mem_values m' key, m'))"

definition mem_set ::
  "string \<Rightarrow> string \<Rightarrow> set_options \<Rightarrow> 'x mem_scheme \<Rightarrow> reply \<times> 'x mem_scheme" where
  "mem_set key value opts m =
     (let m' = mem_purge key m
      in if (so_nx opts \<and> mem_values m' key \<noteq> None) \<or> (so_xx opts \<and> mem_values m' key = None)
         then (RNil, m')
         else (RBool True,
               m'\<lparr>mem_values := (mem_values m')(key \<mapsto> value),
                  mem_expires := (mem_expires m')
                    (key := (case so_ex opts of None \<Rightarrow> None
                             | Some ex \<Rightarrow> Some (mem_time m' + micros ex)))\<rparr>))"

definition mem_exists :: "string \<Rightarrow> 'x mem_scheme \<Rightarrow> bool" where
  "mem_exists key m \<longleftrightarrow> mem_values m key \<noteq> None \<or> mem_zsets m key \<noteq> None"

fun mem_delete :: "string list \<Rightarrow> 'x mem_scheme \<Rightarrow> int \<times> 'x mem_scheme" where
  "mem_delete [] m = (0, m)"
| "mem_delete (key # keys) m =
     (let m' = mem_purge key m;
          (deleted, m'') = mem_delete keys (mem_drop key m')
      in ((if mem_exists key m' then 1 else 0) + deleted, m''))"

definition mem_expire :: "string \<Rightarrow> int \<Rightarrow> 'x mem_scheme \<Rightarrow> bool \<times> 'x mem_scheme" where
  "mem_expire key seconds m =
     (let m' = mem_purge key m
      in if \<not> mem_exists key m' then (False, m')
         else (True, m'\<lparr>mem_expires := (mem_expires m')(key \<mapsto> mem_time m' + micros seconds)\<rparr>))"

text \<open>\<open>math.ceil\<close> of microseconds in milliseconds.\<close>

definition ceil_div :: "int \<Rightarrow> int \<Rightarrow> int" where
  "ceil_div a b = - ((- a) div b)"

definition mem_pttl :: "string \<Rightarrow> 'x mem_scheme \<Rightarrow> int \<times> 'x mem_scheme" where
  "mem_pttl key m =
     (let m' = mem_purge key m
      in (if \<not> mem_exists key m' then PTTL_MISSING_KEY
          else (case mem_expires m' key of None \<Rightarrow> PTTL_NO_EXPIRY
                | Some expires_at \<Rightarrow> ceil_div (expires_at - mem_time m') 1000), m'))"

definition zset_of :: "string \<Rightarrow> 'x mem_scheme \<Rightarrow> (string \<times> int) list" where
  "zset_of key m = (case mem_zsets m key of None \<Rightarrow> [] | Some z \<Rightarrow> z)"

definition mem_zadd ::
  "string \<Rightarrow> (string \<times> int) list \<Rightarrow> 'x mem_scheme \<Rightarrow> int \<times> 'x mem_scheme" where
  "mem_zadd key mapping m =
     (let m' = mem_purge key m; values = zset_of key m'
      in (int (length (filter (\<lambda>(member, score). map_of values member = None) mapping)),
          m'\<lparr>mem_zsets := (mem_zsets m')
               (key \<mapsto> fold (\<lambda>(member, score). AList.update member score) mapping values)\<rparr>))"

text \<open>Members by ascending score, equal scores by member.\<close>

definition ordered :: "(string \<times> int) list \<Rightarrow> (string \<times> int) list" where
  "ordered z = sort_key (\<lambda>(member, score). (score, member)) z"

text \<open>\<open>xs[start:stop]\<close>, with None for an absent \<open>stop\<close>.\<close>

definition slice_index :: "nat \<Rightarrow> int \<Rightarrow> nat" where
  "slice_index n i = (if i < 0 then nat (int n + i) else min n (nat i))"

definition py_slice :: "'a list \<Rightarrow> int \<Rightarrow> int option \<Rightarrow> 'a list" where
  "py_slice xs start stop =
     (let from = slice_index (length xs) start;
          upto = (case stop of None \<Rightarrow> length xs | Some s \<Rightarrow> slice_index (length xs) s)
      in take (upto - from) (drop from xs))"

definition stop_of :: "int \<Rightarrow> int option" where
  "stop_of end = (if end = - 1 then None else Some (end + 1))"

definition mem_zrevrange ::
  "string \<Rightarrow> int \<Rightarrow> int \<Rightarrow> 'x mem_scheme \<Rightarrow> string list \<times> 'x mem_scheme" where
  "mem_zrevrange key start end m =
     (let m' = mem_purge key m
      in (map fst (py_slice (rev (ordered (zset_of key m'))) start (stop_of end)), m'))"

definition mem_zrem :: "string \<Rightarrow> string list \<Rightarrow> 'x mem_scheme \<Rightarrow> int \<times> 'x mem_scheme" where
  "mem_zrem key members m =
     (let values = zset_of key m
      in (int (length (filter (\<lambda>member. map_of values member \<noteq> None) members)),
          m\<lparr>mem_zsets := (mem_zsets m)
              (key := map_option (\<lambda>z. fold AList.delete members z) (mem_zsets m key))\<rparr>))"

definition mem_zremrangebyrank ::
  "string \<Rightarrow> int \<Rightarrow> int \<Rightarrow> 'x mem_scheme \<Rightarrow> int \<times> 'x mem_scheme" where
  "mem_zremrangebyrank key start end m =
     (let m' = mem_purge key m;
          members = map fst (py_slice (ordered (zset_of key m')) start (stop_of end))
      in mem_zrem key members m')"

definition mem_delete_unchanged_record ::
  "int \<Rightarrow> string list \<Rightarrow> ('x mem_scheme, int) act" where
  "mem_delete_unchanged_record numkeys keys_and_args m =
     (case keys_and_args of
        [record_key, scope_index, recent_index, expected] \<Rightarrow>
          if numkeys \<noteq> 3
          then (Inl (ValueError ''the record delete takes three keys and one argument''), m)
          else (let (held, m1) = mem_get record_key m
                in if held \<noteq> Some expected then (Inr 0, m1)
                   else (let m2 = snd (mem_delete [record_key] m1);
                             m3 = snd (mem_zrem scope_index [record_key] m2);
                             m4 = snd (mem_zrem recent_index [record_key] m3)
                         in (Inr 1, m4)))
      | _ \<Rightarrow> (Inl (ValueError ''the record delete takes three keys and one argument''), m))"

definition mem_eval :: "string \<Rightarrow> int \<Rightarrow> string list \<Rightarrow> ('x mem_scheme, int) act" where
  "mem_eval script numkeys keys_and_args m =
     (if script = DELETE_UNCHANGED_RECORD then mem_delete_unchanged_record numkeys keys_and_args m
      else (case keys_and_args of
              [key, expected] \<Rightarrow>
                if numkeys \<noteq> 1
                then (Inl (ValueError ''fake supports one-key compare-and-delete only''), m)
                else (let (held, m') = mem_get key m
                      in if held \<noteq> Some expected then (Inr 0, m')
                         else (let (deleted, m'') = mem_delete [key] m' in (Inr deleted, m'')))
            | _ \<Rightarrow> (Inl (ValueError ''fake supports one-key compare-and-delete only''), m)))"

subsection \<open>Pipelines\<close>

fun mem_run :: "cache_command \<Rightarrow> 'x mem_scheme \<Rightarrow> reply \<times> 'x mem_scheme" where
  "mem_run (CSet key value opts) m = mem_set key value opts m"
| "mem_run (CDelete keys) m = (let (n, m') = mem_delete keys m in (RInt n, m'))"
| "mem_run (CExpire key seconds) m = (let (b, m') = mem_expire key seconds m in (RBool b, m'))"
| "mem_run (CZadd key mapping) m = (let (n, m') = mem_zadd key mapping m in (RInt n, m'))"
| "mem_run (CZrem key members) m = (let (n, m') = mem_zrem key members m in (RInt n, m'))"
| "mem_run (CZremrangebyrank key start end) m =
     (let (n, m') = mem_zremrangebyrank key start end m in (RInt n, m'))"

fun mem_execute :: "cache_command list \<Rightarrow> 'x mem_scheme \<Rightarrow> reply list \<times> 'x mem_scheme" where
  "mem_execute [] m = ([], m)"
| "mem_execute (c # cs) m =
     (let (r, m') = mem_run c m; (rs, m'') = mem_execute cs m' in (r # rs, m''))"

definition ok :: "('w \<Rightarrow> 'a \<times> 'w) \<Rightarrow> ('w, 'a) act" where
  "ok f w = (let (x, w') = f w in (Inr x, w'))"

definition mem_client :: "'x mem_scheme cache_client" where
  "mem_client =
     \<lparr>cl_get = (\<lambda>key. ok (mem_get key)),
      cl_set = (\<lambda>key value opts. ok (mem_set key value opts)),
      cl_delete = (\<lambda>keys. ok (\<lambda>m. let (n, m') = mem_delete keys m in (RInt n, m'))),
      cl_pttl = (\<lambda>key. ok (mem_pttl key)),
      cl_zrevrange = (\<lambda>key start end. ok (mem_zrevrange key start end)),
      cl_eval = mem_eval,
      cl_execute = (\<lambda>cs. ok (mem_execute cs))\<rparr>"

section \<open>The disabled backend\<close>

fun disabled_run :: "cache_command \<Rightarrow> reply" where
  "disabled_run (CSet key value opts) = RBool False"
| "disabled_run (CDelete keys) = RInt 0"
| "disabled_run (CExpire key seconds) = RBool False"
| "disabled_run (CZadd key mapping) = RInt 0"
| "disabled_run (CZrem key members) = RInt 0"
| "disabled_run (CZremrangebyrank key start end) = RInt 0"

definition disabled_client :: "'w cache_client" where
  "disabled_client =
     \<lparr>cl_get = (\<lambda>key. retA None),
      cl_set = (\<lambda>key value opts. retA (RBool False)),
      cl_delete = (\<lambda>keys. retA (RInt 0)),
      cl_pttl = (\<lambda>key. retA PTTL_MISSING_KEY),
      cl_zrevrange = (\<lambda>key start end. retA []),
      cl_eval = (\<lambda>script numkeys args. raiseA (RuntimeErr ''the shared runtime cache is disabled'')),
      cl_execute = (\<lambda>cs. retA (map disabled_run cs))\<rparr>"

section \<open>What a client relies on\<close>

text \<open>
  The contract of the string keys, over an abstract state: \<open>live w k\<close> is the value a
  read of \<open>k\<close> finds in the state \<open>w\<close>. Reads change nothing, a write with a positive
  lifetime is found by the next read unless \<open>nx\<close> or \<open>xx\<close> blocks it, and the
  compare-and-delete script removes a key exactly when it holds the expected value.
\<close>

definition write_blocked :: "set_options \<Rightarrow> string option \<Rightarrow> bool" where
  "write_blocked opts held \<longleftrightarrow> (so_nx opts \<and> held \<noteq> None) \<or> (so_xx opts \<and> held = None)"

definition positive_ttl :: "set_options \<Rightarrow> bool" where
  "positive_ttl opts \<longleftrightarrow> (case so_ex opts of None \<Rightarrow> True | Some ex \<Rightarrow> 0 < ex)"

locale cache_store =
  fixes client :: "'w cache_client"
    and live :: "'w \<Rightarrow> string \<Rightarrow> string option"
  assumes get_law: "\<exists>w'. cl_get client k w = (Inr (live w k), w') \<and> live w' = live w"
    and set_law: "positive_ttl opts \<Longrightarrow>
      \<exists>w'. cl_set client k v opts w =
             (Inr (if write_blocked opts (live w k) then RNil else RBool True), w')
         \<and> live w' = (if write_blocked opts (live w k) then live w else (live w)(k \<mapsto> v))"
    and compare_and_delete_law:
      "\<exists>w'. cl_eval client COMPARE_AND_DELETE 1 [k, v] w =
             (Inr (if live w k = Some v then 1 else 0), w')
         \<and> live w' = (if live w k = Some v then (live w)(k := None) else live w)"

section \<open>The in-memory backend keeps the contract\<close>

definition mem_live :: "'x mem_scheme \<Rightarrow> string \<Rightarrow> string option" where
  "mem_live m key =
     (case mem_expires m key of
        None \<Rightarrow> mem_values m key
      | Some expires_at \<Rightarrow> if expires_at \<le> mem_time m then None else mem_values m key)"

lemma mem_values_purge [simp]: "mem_values (mem_purge key m) key = mem_live m key"
  by (auto simp: mem_purge_def mem_live_def mem_drop_def split: option.splits)

lemma mem_live_purge [simp]: "mem_live (mem_purge key m) = mem_live m"
  by (rule ext) (auto simp: mem_purge_def mem_live_def mem_drop_def split: option.splits)

lemma mem_time_purge [simp]: "mem_time (mem_purge key m) = mem_time m"
  by (auto simp: mem_purge_def mem_drop_def split: option.splits)

lemma mem_live_drop [simp]: "mem_live (mem_drop key m) = (mem_live m)(key := None)"
  by (rule ext) (auto simp: mem_live_def mem_drop_def split: option.splits)

lemma mem_live_update:
  "mem_live (m\<lparr>mem_values := vs, mem_expires := es\<rparr>) k =
     (case es k of None \<Rightarrow> vs k | Some e \<Rightarrow> if e \<le> mem_time m then None else vs k)"
  by (simp add: mem_live_def split: option.split)

lemma mem_live_time:
  "mem_live (m\<lparr>mem_time := t\<rparr>) k =
     (case mem_expires m k of None \<Rightarrow> mem_values m k
      | Some e \<Rightarrow> if e \<le> t then None else mem_values m k)"
  by (simp add: mem_live_def split: option.split)

lemma mem_get_live: "mem_get key m = (mem_live m key, mem_purge key m)"
  by (simp add: mem_get_def)

lemma mem_set_live:
  assumes "positive_ttl opts"
  shows "fst (mem_set key value opts m) =
           (if write_blocked opts (mem_live m key) then RNil else RBool True)"
    and "mem_live (snd (mem_set key value opts m)) =
           (if write_blocked opts (mem_live m key) then mem_live m
            else (mem_live m)(key \<mapsto> value))"
proof -
  show "fst (mem_set key value opts m) =
           (if write_blocked opts (mem_live m key) then RNil else RBool True)"
    by (simp add: mem_set_def write_blocked_def Let_def)
  show "mem_live (snd (mem_set key value opts m)) =
           (if write_blocked opts (mem_live m key) then mem_live m
            else (mem_live m)(key \<mapsto> value))"
  proof (cases "write_blocked opts (mem_live m key)")
    case True
    then show ?thesis by (auto simp: mem_set_def write_blocked_def Let_def)
  next
    case False
    let ?m = "mem_purge key m"
    have "mem_live (snd (mem_set key value opts m)) k = ((mem_live ?m)(key \<mapsto> value)) k" for k
    proof -
      have "mem_live (snd (mem_set key value opts m)) k =
          mem_live (?m\<lparr>mem_values := (mem_values ?m)(key \<mapsto> value),
             mem_expires := (mem_expires ?m)(key := (case so_ex opts of None \<Rightarrow> None
               | Some ex \<Rightarrow> Some (mem_time ?m + micros ex)))\<rparr>) k"
        using False by (auto simp: mem_set_def write_blocked_def Let_def)
      also have "\<dots> = ((mem_live ?m)(key \<mapsto> value)) k"
        using assms unfolding mem_live_update
        by (auto simp: positive_ttl_def micros_def mem_live_def [of ?m k] simp del: mem_live_purge
            split: option.splits)
      finally show ?thesis .
    qed
    with False show ?thesis by auto
  qed
qed

lemma mem_delete_live: "mem_live (snd (mem_delete keys m)) = (\<lambda>k. if k \<in> set keys then None else mem_live m k)"
proof (induction keys arbitrary: m)
  case (Cons key keys)
  show ?case
    using Cons.IH [of "mem_drop key (mem_purge key m)"]
    by (auto simp: Let_def case_prod_unfold fun_eq_iff)
qed (simp add: fun_eq_iff)

lemma mem_compare_and_delete:
  "\<exists>m'. mem_eval COMPARE_AND_DELETE 1 [k, v] m = (Inr (if mem_live m k = Some v then 1 else 0), m')
     \<and> mem_live m' = (if mem_live m k = Some v then (mem_live m)(k := None) else mem_live m)"
  by (auto simp: mem_eval_def scripts_differ mem_get_live mem_exists_def fun_eq_iff
      simp flip: mem_get_def)

interpretation memory: cache_store "mem_client :: 'x mem_scheme cache_client" mem_live
proof
  fix k v :: string and w :: "'x mem_scheme" and opts :: set_options
  show "\<exists>w'. cl_get mem_client k w = (Inr (mem_live w k), w') \<and> mem_live w' = mem_live w"
    by (simp add: mem_client_def ok_def mem_get_live)
  show "\<exists>w'. cl_eval mem_client COMPARE_AND_DELETE 1 [k, v] w =
             (Inr (if mem_live w k = Some v then 1 else 0), w')
         \<and> mem_live w' = (if mem_live w k = Some v then (mem_live w)(k := None) else mem_live w)"
    using mem_compare_and_delete [of k v w] by (simp add: mem_client_def)
  show "\<exists>w'. cl_set mem_client k v opts w =
             (Inr (if write_blocked opts (mem_live w k) then RNil else RBool True), w')
         \<and> mem_live w' = (if write_blocked opts (mem_live w k) then mem_live w
              else (mem_live w)(k \<mapsto> v))"
    if "positive_ttl opts"
    using mem_set_live [OF that, of k v w]
    by (simp add: mem_client_def ok_def case_prod_unfold)
qed

section \<open>Pipelines over the contract\<close>

text \<open>
  The effect of a queued command on the string keys: the sorted-set commands and a
  lifetime change leave every value readable. \<open>cache_pipeline\<close> extends the contract with
  the transactional execution of such commands.
\<close>

fun command_live :: "cache_command \<Rightarrow> (string \<Rightarrow> string option) \<Rightarrow> string \<Rightarrow> string option" where
  "command_live (CSet k v opts) l = (if write_blocked opts (l k) then l else l(k \<mapsto> v))"
| "command_live (CDelete ks) l = (\<lambda>k. if k \<in> set ks then None else l k)"
| "command_live c l = l"

fun lawful_command :: "cache_command \<Rightarrow> bool" where
  "lawful_command (CSet k v opts) = positive_ttl opts"
| "lawful_command (CExpire k seconds) = (0 < seconds)"
| "lawful_command c = True"

definition set_reply :: "set_options \<Rightarrow> string option \<Rightarrow> reply" where
  "set_reply opts held = (if write_blocked opts held then RNil else RBool True)"

locale cache_pipeline = cache_store +
  assumes execute_law: "list_all lawful_command cs \<Longrightarrow>
      \<exists>rs w'. cl_execute client cs w = (Inr rs, w') \<and> live w' = fold command_live cs (live w)
        \<and> (\<forall>k v opts cs'. cs = CSet k v opts # cs' \<longrightarrow> rs \<noteq> [] \<and> hd rs = set_reply opts (live w k))"

lemma mem_live_zsets [simp]: "mem_live (m\<lparr>mem_zsets := z\<rparr>) = mem_live m"
  by (rule ext) (simp add: mem_live_def split: option.split)

lemma mem_zadd_live [simp]: "mem_live (snd (mem_zadd key mapping m)) = mem_live m"
  by (simp add: mem_zadd_def Let_def)

lemma mem_zrem_live [simp]: "mem_live (snd (mem_zrem key members m)) = mem_live m"
  by (simp add: mem_zrem_def Let_def)

lemma mem_zremrangebyrank_live [simp]: "mem_live (snd (mem_zremrangebyrank key i j m)) = mem_live m"
  by (simp add: mem_zremrangebyrank_def Let_def)

lemma mem_expire_live:
  assumes "0 < seconds"
  shows "mem_live (snd (mem_expire key seconds m)) = mem_live m"
proof -
  let ?m = "mem_purge key m"
  have "mem_live (?m\<lparr>mem_expires := (mem_expires ?m)(key \<mapsto> mem_time m + micros seconds)\<rparr>) k = mem_live ?m k" for k
    using assms mem_values_purge [of key m]
    by (auto simp: mem_live_def [of "_\<lparr>mem_expires := _\<rparr>"] mem_live_def [of ?m k] micros_def
        simp del: mem_live_purge split: option.splits)
      (auto simp: mem_purge_def mem_drop_def mem_live_def split: option.splits if_splits)
  then show ?thesis by (auto simp: mem_expire_def Let_def)
qed

lemma mem_run_live:
  assumes "lawful_command c"
  shows "mem_live (snd (mem_run c m)) = command_live c (mem_live m)"
proof (cases c)
  case (CSet k v opts)
  with assms mem_set_live(2) [of opts k v m] show ?thesis by simp
next
  case (CDelete ks)
  with mem_delete_live [of ks m] show ?thesis by (simp add: Let_def case_prod_unfold)
next
  case (CExpire k seconds)
  with assms mem_expire_live [of seconds k m] show ?thesis by (simp add: Let_def case_prod_unfold)
qed (simp_all add: Let_def case_prod_unfold)

lemma mem_execute_live:
  "list_all lawful_command cs \<Longrightarrow> mem_live (snd (mem_execute cs m)) = fold command_live cs (mem_live m)"
  by (induction cs arbitrary: m) (simp_all add: Let_def case_prod_unfold mem_run_live)

lemma mem_execute_first:
  assumes "positive_ttl opts"
  shows "fst (mem_execute (CSet k v opts # cs) m) \<noteq> []
     \<and> hd (fst (mem_execute (CSet k v opts # cs) m)) = set_reply opts (mem_live m k)"
  using mem_set_live(1) [OF assms, of k v m] by (simp add: Let_def case_prod_unfold set_reply_def)

interpretation memory: cache_pipeline "mem_client :: 'x mem_scheme cache_client" mem_live
proof
  fix cs and w :: "'x mem_scheme"
  assume lawful: "list_all lawful_command cs"
  have "cs = CSet k v opts # cs' \<longrightarrow> fst (mem_execute cs w) \<noteq> []
      \<and> hd (fst (mem_execute cs w)) = set_reply opts (mem_live w k)" for k v opts cs'
    using lawful mem_execute_first [of opts k v cs' w] by auto
  with mem_execute_live [OF lawful, of w]
  show "\<exists>rs w'. cl_execute mem_client cs w = (Inr rs, w')
      \<and> mem_live w' = fold command_live cs (mem_live w)
      \<and> (\<forall>k v opts cs'. cs = CSet k v opts # cs' \<longrightarrow> rs \<noteq> [] \<and> hd rs = set_reply opts (mem_live w k))"
    by (intro exI [of _ "fst (mem_execute cs w)"] exI [of _ "snd (mem_execute cs w)"])
      (simp add: mem_client_def ok_def Let_def case_prod_unfold)
qed

section \<open>Sorted sets\<close>

text \<open>Every sorted set has each member once.\<close>

definition zsets_ok :: "'x mem_scheme \<Rightarrow> bool" where
  "zsets_ok m \<longleftrightarrow> (\<forall>k z. mem_zsets m k = Some z \<longrightarrow> distinct (map fst z))"

lemma zsets_ok_of: "zsets_ok m \<Longrightarrow> distinct (map fst (zset_of k m))"
  by (auto simp: zsets_ok_def zset_of_def split: option.splits)

lemma zsets_ok_drop: "zsets_ok m \<Longrightarrow> zsets_ok (mem_drop k m)"
  by (auto simp: zsets_ok_def mem_drop_def)

lemma zsets_ok_purge: "zsets_ok m \<Longrightarrow> zsets_ok (mem_purge k m)"
  by (simp add: mem_purge_def zsets_ok_drop split: option.splits)

lemma distinct_fold_update:
  "distinct (map fst z) \<Longrightarrow> distinct (map fst (fold (\<lambda>(member, sc). AList.update member sc) xs z))"
  by (induction xs arbitrary: z) (auto simp: distinct_update)

lemma fold_delete: "fold AList.delete members z = filter (\<lambda>x. fst x \<notin> set members) z"
proof (induction members arbitrary: z)
  case (Cons m ms)
  show ?case unfolding fold.simps comp_def Cons
    by (induction z) (auto simp: AList.delete_eq)
qed (simp add: filter_True)

lemma distinct_filter_fst: "distinct (map fst z) \<Longrightarrow> distinct (map fst (filter P z))"
  by (simp add: distinct_map_filter)

lemma zsets_ok_zrem: "zsets_ok m \<Longrightarrow> zsets_ok (snd (mem_zrem k members m))"
  by (auto simp: zsets_ok_def mem_zrem_def Let_def fold_delete distinct_filter_fst)

lemma zsets_ok_set: "zsets_ok m \<Longrightarrow> zsets_ok (snd (mem_set k v opts m))"
  using zsets_ok_purge [of m k] by (auto simp: mem_set_def Let_def zsets_ok_def)

lemma zsets_ok_expire: "zsets_ok m \<Longrightarrow> zsets_ok (snd (mem_expire k s m))"
  using zsets_ok_purge [of m k] by (auto simp: mem_expire_def Let_def zsets_ok_def)

lemma zsets_ok_delete: "zsets_ok m \<Longrightarrow> zsets_ok (snd (mem_delete ks m))"
  by (induction ks arbitrary: m) (simp_all add: Let_def case_prod_unfold zsets_ok_drop zsets_ok_purge)

lemma zsets_ok_zadd: "zsets_ok m \<Longrightarrow> zsets_ok (snd (mem_zadd k xs m))"
  using zsets_ok_purge [of m k]
  by (auto simp: mem_zadd_def Let_def zsets_ok_def zset_of_def intro!: distinct_fold_update
      split: option.splits)

text \<open>
  Every command of a pipeline keeps each sorted set's members distinct.
\<close>

lemma mem_execute_zsets_ok:
  assumes "zsets_ok m"
  shows "zsets_ok (snd (mem_execute cs m))"
  using assms
proof (induction cs arbitrary: m)
  case (Cons c cs)
  have "zsets_ok (snd (mem_run c m))"
    using Cons.prems
    by (cases c) (simp_all add: Let_def case_prod_unfold zsets_ok_set zsets_ok_delete zsets_ok_expire
        zsets_ok_zadd zsets_ok_zrem mem_zremrangebyrank_def zsets_ok_purge)
  with Cons.IH show ?case by (simp add: Let_def case_prod_unfold)
qed simp

lemma length_ordered [simp]: "length (ordered z) = length z"
  by (simp add: ordered_def)

lemma set_ordered [simp]: "set (ordered z) = set z"
  by (simp add: ordered_def)

lemma distinct_ordered: "distinct (map fst z) \<Longrightarrow> distinct (map fst (ordered z))"
proof -
  assume "distinct (map fst z)"
  moreover have "mset (map fst (ordered z)) = mset (map fst z)"
    by (simp only: ordered_def mset_map mset_sort)
  ultimately show ?thesis using mset_eq_imp_distinct_iff by blast
qed

lemma filter_take_drop:
  "distinct (map fst xs) \<Longrightarrow> filter (\<lambda>x. fst x \<notin> fst ` set (take n xs)) xs = drop n xs"
proof (induction xs arbitrary: n)
  case (Cons x xs)
  show ?case
  proof (cases n)
    case (Suc k)
    have "filter (\<lambda>y. fst y \<notin> insert (fst x) (fst ` set (take k xs))) xs =
        filter (\<lambda>y. fst y \<notin> fst ` set (take k xs)) xs"
      using Cons.prems by (intro filter_cong) (auto simp: image_iff)
    with Cons Suc show ?thesis by simp
  qed (simp add: filter_True)
qed simp

text \<open>Trimming to a limit keeps the members with the highest scores.\<close>

lemma mem_trim_ordered:
  assumes "zsets_ok m" and "0 < limit"
  shows "ordered (zset_of key (snd (mem_zremrangebyrank key 0 (- (limit + 1)) m))) =
     drop (length (zset_of key (mem_purge key m)) - nat limit) (ordered (zset_of key (mem_purge key m)))"
proof -
  let ?z = "zset_of key (mem_purge key m)"
  let ?n = "length ?z - nat limit"
  have d: "distinct (map fst ?z)" using zsets_ok_of [OF zsets_ok_purge [OF assms(1)]] .
  have sl: "py_slice (ordered ?z) 0 (stop_of (- (limit + 1))) = take ?n (ordered ?z)"
  proof -
    have "nat (int (length ?z) - limit) = ?n" using assms(2) by (simp add: nat_diff_distrib')
    with assms(2) show ?thesis by (simp add: py_slice_def stop_of_def slice_index_def Let_def)
  qed
  have "zset_of key (snd (mem_zremrangebyrank key 0 (- (limit + 1)) m)) =
      filter (\<lambda>x. fst x \<notin> fst ` set (take ?n (ordered ?z))) ?z"
    unfolding mem_zremrangebyrank_def Let_def sl
    by (auto simp: mem_zrem_def Let_def zset_of_def fold_delete split: option.splits)
  then have "ordered (zset_of key (snd (mem_zremrangebyrank key 0 (- (limit + 1)) m))) =
      filter (\<lambda>x. fst x \<notin> fst ` set (take ?n (ordered ?z))) (ordered ?z)"
    by (simp add: ordered_def filter_sort)
  with filter_take_drop [OF distinct_ordered [OF d]] show ?thesis by simp
qed

section \<open>Expiry\<close>

text \<open>
  A value written with a lifetime is found by a read exactly until its lifetime has
  passed, whatever the key held before; PTTL counts the milliseconds left, rounded up.
\<close>

theorem mem_set_then_advance:
  assumes "0 < ex" and "0 \<le> t" and "\<not> mem_external_clock m"
    and "snd (mem_set key value \<lparr>so_ex = Some ex, so_nx = False, so_xx = False\<rparr> m) = m1"
    and "mem_advance t m1 = (r, m2)"
  shows "fst (mem_get key m2) = (if t < micros ex then Some value else None)
         \<and> (t < micros ex \<longrightarrow> fst (mem_pttl key m2) = ceil_div (micros ex - t) 1000)"
proof -
  have clock: "mem_external_clock (mem_purge key m) = mem_external_clock m"
    by (auto simp: mem_purge_def mem_drop_def split: option.splits)
  have m2: "m2 = m1\<lparr>mem_time := mem_time m + t\<rparr>"
    using assms(3-5) by (auto simp: mem_advance_def mem_set_def Let_def clock)
  have e: "mem_expires m1 key = Some (mem_time m + micros ex)" and v: "mem_values m1 key = Some value"
    using assms(4) by (auto simp: mem_set_def Let_def)
  have "fst (mem_get key m2) = (if t < micros ex then Some value else None)"
    by (simp add: mem_get_live m2 mem_live_time e v)
  moreover have "fst (mem_pttl key m2) = ceil_div (micros ex - t) 1000" if "t < micros ex"
    using that by (simp add: mem_pttl_def m2 mem_purge_def e v mem_exists_def)
  ultimately show ?thesis by blast
qed

theorem mem_set_then_advance_witness:
  "fst (mem_get ''k'' (snd (mem_advance 299999999
      (snd (mem_set ''k'' ''token'' \<lparr>so_ex = Some 300, so_nx = False, so_xx = False\<rparr> empty_mem))))) = Some ''token''"
  using mem_set_then_advance [of 300 299999999 empty_mem "''k''" "''token''" _
      "fst (mem_advance 299999999 (snd (mem_set ''k'' ''token'' \<lparr>so_ex = Some 300, so_nx = False, so_xx = False\<rparr> empty_mem)))"]
  by (simp add: empty_mem_def micros_def)

end
