(* ===== verification/Cache_Core.thy ===== *)
theory Cache_Core
  imports Cache_Backend Json_Codec
begin

text \<open>
  \<open>policyengine_api/runtime_cache/core.py\<close> and \<open>runtime_cache/claims.py\<close>: namespaced
  keys, versioned envelopes, jittered lifetimes, the completed-result cache whose
  failures are misses, and the fail-closed ownership claims.

  \<open>sha\<close> is \<open>hashlib.sha256(text).hexdigest()\<close> and \<open>draw\<close> is \<open>random.randint\<close>; both are
  parameters. Metric events (\<open>record_cache_event\<close>) are not modelled.
\<close>

section \<open>Keys\<close>

record namespace =
  environment :: string
  service :: string

definition CACHE_KEY_ROOT :: string where
  "CACHE_KEY_ROOT = ''policyengine''"

definition key_prefix :: "namespace \<Rightarrow> string \<Rightarrow> int \<Rightarrow> string" where
  "key_prefix ns family schema_version =
     CACHE_KEY_ROOT @ '':'' @ environment ns @ '':'' @ service ns @ '':'' @ family @ '':v''
       @ show_int schema_version @ '':''"

definition namespace_key ::
  "(string \<Rightarrow> string) \<Rightarrow> namespace \<Rightarrow> string \<Rightarrow> int \<Rightarrow> (string \<times> json) list \<Rightarrow> string option \<Rightarrow> string" where
  "namespace_key sha ns family schema_version inputs suffix =
     (let key = key_prefix ns family schema_version @ sha (dumps_canonical (JObj inputs))
      in case suffix of None \<Rightarrow> key | Some s \<Rightarrow> if s = [] then key else key @ '':'' @ s)"

definition family_key :: "namespace \<Rightarrow> string \<Rightarrow> int \<Rightarrow> string \<Rightarrow> string" where
  "family_key ns family schema_version name = key_prefix ns family schema_version @ name"

section \<open>Envelopes\<close>

definition encode_envelope :: "string \<Rightarrow> int \<Rightarrow> json \<Rightarrow> string" where
  "encode_envelope family schema_version payload =
     dumps_canonical (JObj [(''family'', JStr family), (''payload'', payload),
                            (''schema_version'', JInt schema_version)])"

definition decode_envelope :: "string option \<Rightarrow> string \<Rightarrow> int \<Rightarrow> json" where
  "decode_envelope value family schema_version =
     (case value of None \<Rightarrow> JNull
      | Some text \<Rightarrow>
          (case loads text of
             Some (JObj decoded) \<Rightarrow>
               if dict_get_none decoded ''family'' \<noteq> JStr family then JNull
               else if \<not> eq_int (dict_get_none decoded ''schema_version'') schema_version then JNull
               else dict_get_none decoded ''payload''
           | _ \<Rightarrow> JNull))"

section \<open>Lifetimes\<close>

text \<open>A tenth of the lifetime is the most that jitter takes off.\<close>

definition COMPLETED_RESULT_TTL_JITTER_FRACTION :: rat where
  "COMPLETED_RESULT_TTL_JITTER_FRACTION = 1 / 10"

definition jittered_ttl :: "(int \<Rightarrow> int \<Rightarrow> int) \<Rightarrow> int \<Rightarrow> rat \<Rightarrow> int result" where
  "jittered_ttl draw ttl_seconds jitter_fraction =
     (if ttl_seconds \<le> 0 then Inl (ValueError ''cache TTL must be positive'')
      else if \<not> (0 \<le> jitter_fraction \<and> jitter_fraction < 1)
      then Inl (ValueError ''TTL jitter fraction must be at least 0 and less than 1'')
      else (let max_reduction = \<lfloor>of_int ttl_seconds * jitter_fraction\<rfloor>;
                reduction = draw 0 max_reduction
            in if \<not> (0 \<le> reduction \<and> reduction \<le> max_reduction)
               then Inl (ValueError ''TTL jitter reduction is outside the permitted range'')
               else Inr (ttl_seconds - reduction)))"

definition default_jittered_ttl :: "(int \<Rightarrow> int \<Rightarrow> int) \<Rightarrow> int \<Rightarrow> int result" where
  "default_jittered_ttl draw ttl_seconds =
     jittered_ttl draw ttl_seconds COMPLETED_RESULT_TTL_JITTER_FRACTION"

section \<open>The completed-result cache\<close>

record json_cache =
  jc_family :: string
  jc_schema_version :: int
  jc_ttl_seconds :: int

definition new_json_cache :: "string \<Rightarrow> int \<Rightarrow> int \<Rightarrow> json_cache result" where
  "new_json_cache family schema_version ttl_seconds =
     (if ttl_seconds \<le> 0 then Inl (ValueError ''cache TTL must be positive'')
      else Inr \<lparr>jc_family = family, jc_schema_version = schema_version, jc_ttl_seconds = ttl_seconds\<rparr>)"

definition json_cache_key ::
  "(string \<Rightarrow> string) \<Rightarrow> namespace \<Rightarrow> json_cache \<Rightarrow> (string \<times> json) list \<Rightarrow> string" where
  "json_cache_key sha ns c inputs = namespace_key sha ns (jc_family c) (jc_schema_version c) inputs None"

definition json_cache_get ::
  "(string \<Rightarrow> string) \<Rightarrow> 'w cache_client \<Rightarrow> namespace \<Rightarrow> json_cache \<Rightarrow> (string \<times> json) list
     \<Rightarrow> ('w, json) act" where
  "json_cache_get sha client ns c inputs =
     catchA (bindA (cl_get client (json_cache_key sha ns c inputs))
               (\<lambda>value. retA (decode_envelope value (jc_family c) (jc_schema_version c))))
       (\<lambda>e. retA JNull)"

definition json_cache_set ::
  "(string \<Rightarrow> string) \<Rightarrow> (int \<Rightarrow> int \<Rightarrow> int) \<Rightarrow> 'w cache_client \<Rightarrow> namespace \<Rightarrow> json_cache
     \<Rightarrow> (string \<times> json) list \<Rightarrow> json \<Rightarrow> ('w, bool) act" where
  "json_cache_set sha draw client ns c inputs payload =
     catchA (bindA (liftA (default_jittered_ttl draw (jc_ttl_seconds c))) (\<lambda>ttl.
               bindA (cl_set client (json_cache_key sha ns c inputs)
                        (encode_envelope (jc_family c) (jc_schema_version c) payload)
                        \<lparr>so_ex = Some ttl, so_nx = False, so_xx = False\<rparr>)
                 (\<lambda>reply. retA (reply_truthy reply))))
       (\<lambda>e. retA False)"

section \<open>What a cache object is bound to\<close>

text \<open>
  A client and a namespace, with the standard-library functions the caches call: SHA-256,
  \<open>random.randint\<close> and \<open>time.time\<close> (in microseconds).
\<close>

record 'w cache_context =
  ctx_client :: "'w cache_client"
  ctx_namespace :: namespace
  ctx_sha :: "string \<Rightarrow> string"
  ctx_draw :: "int \<Rightarrow> int \<Rightarrow> int"
  ctx_time :: "'w \<Rightarrow> int"

text \<open>The in-memory backend with the identity for a digest and no jitter, for examples.\<close>

definition memory_context :: "'x mem_scheme cache_context" where
  "memory_context =
     \<lparr>ctx_client = mem_client, ctx_namespace = \<lparr>environment = ''prod'', service = ''api''\<rparr>,
      ctx_sha = (\<lambda>s. s), ctx_draw = (\<lambda>a b. a), ctx_time = mem_time\<rparr>"

definition plain_ex :: "int \<Rightarrow> set_options" where
  "plain_ex ttl = \<lparr>so_ex = Some ttl, so_nx = False, so_xx = False\<rparr>"

section \<open>Ownership claims\<close>

definition acquire_claim ::
  "'w cache_client \<Rightarrow> string \<Rightarrow> string \<Rightarrow> int \<Rightarrow> ('w, bool) act" where
  "acquire_claim client key token ttl_seconds =
     (if token = [] \<or> ttl_seconds \<le> 0
      then raiseA (ValueError ''claim token and positive TTL are required'')
      else catchA
             (bindA (cl_set client key token \<lparr>so_ex = Some ttl_seconds, so_nx = True, so_xx = False\<rparr>)
                (\<lambda>reply. retA (reply_truthy reply)))
             (\<lambda>e. raiseA (CacheCoordinationError
                ''shared-cache ownership could not be established'')))"

definition release_claim :: "'w cache_client \<Rightarrow> string \<Rightarrow> string \<Rightarrow> ('w, bool) act" where
  "release_claim client key token =
     catchA (bindA (cl_eval client COMPARE_AND_DELETE 1 [key, token]) (\<lambda>n. retA (n \<noteq> 0)))
       (\<lambda>e. raiseA (CacheCoordinationError
          ''shared-cache ownership could not be released safely''))"

section \<open>Envelopes read back\<close>

lemma wf_envelope:
  "wf_json payload \<Longrightarrow>
     wf_json (JObj [(''family'', JStr family), (''payload'', payload), (''schema_version'', JInt v)])"
  by simp

lemma loads_envelope:
  assumes "wf_json payload"
  shows "loads (encode_envelope family v payload) =
     Some (JObj [(''family'', JStr family), (''payload'', sort_keys payload), (''schema_version'', JInt v)])"
proof -
  have "sort_keys (JObj [(''family'', JStr family), (''payload'', payload), (''schema_version'', JInt v)])
      = JObj [(''family'', JStr family), (''payload'', sort_keys payload), (''schema_version'', JInt v)]"
    by simp
  then show ?thesis
    using loads_dumps_canonical [OF wf_envelope [OF assms, of family v]]
    by (simp only: encode_envelope_def)
qed

lemma decode_encode_envelope:
  "wf_json payload \<Longrightarrow>
     decode_envelope (Some (encode_envelope family v payload)) family' v' =
       (if family = family' \<and> v = v' then sort_keys payload else JNull)"
  by (simp add: decode_envelope_def loads_envelope dict_get_none_def)

lemma decode_envelope_None [simp]: "decode_envelope None family v = JNull"
  by (simp add: decode_envelope_def)

text \<open>
  An envelope gives back its payload (with dict keys sorted) to a reader of the same
  family and schema version, and reads as a miss for every other family or version.
\<close>

theorem envelope_roundtrip:
  assumes "wf_json payload"
  shows "decode_envelope (Some (encode_envelope family v payload)) family' v' =
           (if family = family' \<and> v = v' then sort_keys payload else JNull)"
  using assms by (rule decode_encode_envelope)

theorem envelope_roundtrip_witness:
  "decode_envelope (Some (encode_envelope ''f'' 3 (JObj [(''b'', JInt 1), (''a'', JNull)]))) ''f'' 3 =
     sort_keys (JObj [(''b'', JInt 1), (''a'', JNull)])"
  using envelope_roundtrip [of "JObj [(''b'', JInt 1), (''a'', JNull)]" "''f''" 3 "''f''" 3] by simp

section \<open>Keys separate what they are built from\<close>

lemma append_colon_inj:
  assumes "CHR '':'' \<notin> set a" and "CHR '':'' \<notin> set b"
    and "a @ CHR '':'' # s = b @ CHR '':'' # t"
  shows "a = b \<and> s = t"
  using assms
proof (induction a arbitrary: b)
  case Nil
  then show ?case by (cases b) auto
next
  case (Cons x a)
  then show ?case by (cases b) auto
qed

lemma show_int_no_colon: "CHR '':'' \<notin> set (show_int i)"
  using show_nat_digits [of "nat (- i)"] show_nat_digits [of "nat i"]
  by (auto simp: show_int_def is_digit_def)

definition plain_key_part :: "string \<Rightarrow> bool" where
  "plain_key_part s \<longleftrightarrow> CHR '':'' \<notin> set s"

lemma key_prefix_inj:
  assumes "plain_key_part (environment ns)" "plain_key_part (service ns)" "plain_key_part family"
    and "plain_key_part (environment ns')" "plain_key_part (service ns')" "plain_key_part family'"
    and eq: "key_prefix ns family v @ s = key_prefix ns' family' v' @ s'"
  shows "environment ns = environment ns' \<and> service ns = service ns' \<and> family = family'
           \<and> v = v' \<and> s = s'"
proof -
  have e: "environment ns @ CHR '':'' # service ns @ CHR '':'' # family @ CHR '':'' # CHR ''v''
        # show_int v @ CHR '':'' # s
      = environment ns' @ CHR '':'' # service ns' @ CHR '':'' # family' @ CHR '':'' # CHR ''v''
        # show_int v' @ CHR '':'' # s'"
    using eq by (simp add: key_prefix_def)
  from append_colon_inj [OF _ _ e] assms
  have 1: "environment ns = environment ns'"
    and e: "service ns @ CHR '':'' # family @ CHR '':'' # CHR ''v'' # show_int v @ CHR '':'' # s
      = service ns' @ CHR '':'' # family' @ CHR '':'' # CHR ''v'' # show_int v' @ CHR '':'' # s'"
    by (auto simp: plain_key_part_def)
  from append_colon_inj [OF _ _ e] assms
  have 2: "service ns = service ns'"
    and e: "family @ CHR '':'' # CHR ''v'' # show_int v @ CHR '':'' # s
      = family' @ CHR '':'' # CHR ''v'' # show_int v' @ CHR '':'' # s'"
    by (auto simp: plain_key_part_def)
  from append_colon_inj [OF _ _ e] assms
  have 3: "family = family'" and e: "show_int v @ CHR '':'' # s = show_int v' @ CHR '':'' # s'"
    by (auto simp: plain_key_part_def)
  from append_colon_inj [OF show_int_no_colon show_int_no_colon e]
  have "show_int v = show_int v'" and "s = s'" by auto
  with 1 2 3 show ?thesis by (simp add: show_int_inj)
qed

text \<open>
  Two cache keys are equal exactly when the deployment, the family, the schema
  version and the inputs (up to dict order) are: keys of different deployments, families
  or versions never meet, for a digest that does not collide on the two inputs.
\<close>

theorem namespace_key_eq_iff:
  assumes "plain_key_part (environment ns)" "plain_key_part (service ns)" "plain_key_part family"
    and "plain_key_part (environment ns')" "plain_key_part (service ns')" "plain_key_part family'"
    and "wf_json (JObj inputs)" "wf_json (JObj inputs')"
    and collision_free: "sha (dumps_canonical (JObj inputs)) = sha (dumps_canonical (JObj inputs'))
           \<Longrightarrow> dumps_canonical (JObj inputs) = dumps_canonical (JObj inputs')"
  shows "namespace_key sha ns family v inputs None = namespace_key sha ns' family' v' inputs' None \<longleftrightarrow>
           ns = ns' \<and> family = family' \<and> v = v' \<and> sort_keys (JObj inputs) = sort_keys (JObj inputs')"
proof
  assume "namespace_key sha ns family v inputs None = namespace_key sha ns' family' v' inputs' None"
  then have "key_prefix ns family v @ sha (dumps_canonical (JObj inputs))
      = key_prefix ns' family' v' @ sha (dumps_canonical (JObj inputs'))"
    by (simp add: namespace_key_def)
  from key_prefix_inj [OF assms(1-6) this]
  show "ns = ns' \<and> family = family' \<and> v = v' \<and> sort_keys (JObj inputs) = sort_keys (JObj inputs')"
    using collision_free dumps_canonical_inj [OF assms(7,8)] by auto
next
  assume "ns = ns' \<and> family = family' \<and> v = v' \<and> sort_keys (JObj inputs) = sort_keys (JObj inputs')"
  then show "namespace_key sha ns family v inputs None = namespace_key sha ns' family' v' inputs' None"
    by (simp add: namespace_key_def dumps_canonical_def del: sort_keys.simps)
qed

theorem namespace_key_eq_iff_witness:
  "namespace_key (\<lambda>s. s) \<lparr>environment = ''prod'', service = ''api''\<rparr> ''f'' 3 [(''a'', JInt 1)] None
     \<noteq> namespace_key (\<lambda>s. s) \<lparr>environment = ''beta'', service = ''api''\<rparr> ''f'' 3 [(''a'', JInt 1)] None"
  using namespace_key_eq_iff [of "\<lparr>environment = ''prod'', service = ''api''\<rparr>" "''f''"
      "\<lparr>environment = ''beta'', service = ''api''\<rparr>" "''f''" "[(''a'', JInt 1)]" "[(''a'', JInt 1)]"
      "\<lambda>s. s" 3 3]
  by (simp add: plain_key_part_def)

section \<open>Jitter\<close>

lemma jittered_ttl_Inr:
  assumes "jittered_ttl draw ttl f = Inr r"
  shows "0 < r \<and> r \<le> ttl \<and> of_int ttl * (1 - f) \<le> of_int r"
proof -
  let ?c = "draw 0 \<lfloor>of_int ttl * f\<rfloor>"
  from assms have t: "0 < ttl" and f: "0 \<le> f" "f < 1" and c: "0 \<le> ?c" "?c \<le> \<lfloor>of_int ttl * f\<rfloor>"
    and r: "r = ttl - ?c"
    by (auto simp: jittered_ttl_def Let_def not_less not_le split: if_splits)
  have "of_int ?c \<le> of_int ttl * f" using c(2) by (simp add: le_floor_iff)
  then have b: "of_int ttl * (1 - f) \<le> of_int r" by (simp add: r algebra_simps)
  moreover have "0 < of_int ttl * (1 - f)" using t f by simp
  ultimately have "(0 :: rat) < of_int r" by linarith
  with b c(1) r show ?thesis by simp
qed

lemma default_jittered_ttl_Inr:
  assumes "default_jittered_ttl draw ttl = Inr r"
  shows "0 < r \<and> r \<le> ttl \<and> 9 * ttl \<le> 10 * r"
proof -
  from assms have "jittered_ttl draw ttl (1 / 10) = Inr r"
    by (simp add: default_jittered_ttl_def COMPLETED_RESULT_TTL_JITTER_FRACTION_def)
  from jittered_ttl_Inr [OF this]
  have "0 < r" "r \<le> ttl" and b: "(of_int ttl :: rat) * (1 - 1 / 10) \<le> of_int r" by auto
  from b have "(of_int (9 * ttl) :: rat) \<le> of_int (10 * r)" by simp
  then have "9 * ttl \<le> 10 * r" by (simp only: of_int_le_iff)
  with \<open>0 < r\<close> \<open>r \<le> ttl\<close> show ?thesis by simp
qed

text \<open>
  With a random generator that stays in the range it is given, every positive
  lifetime is jittered without error, and the result is positive, never longer than the
  lifetime and at least nine tenths of it.
\<close>

theorem jittered_ttl_bounds:
  assumes "\<And>b. 0 \<le> b \<Longrightarrow> 0 \<le> draw 0 b \<and> draw 0 b \<le> b" and "0 < ttl"
  shows "\<exists>r. default_jittered_ttl draw ttl = Inr r \<and> 0 < r \<and> r \<le> ttl \<and> 9 * ttl \<le> 10 * r"
proof -
  have "0 \<le> \<lfloor>(of_int ttl :: rat) * (1 / 10)\<rfloor>" using assms(2) by simp
  from assms(1) [OF this] assms(2) obtain r where r: "default_jittered_ttl draw ttl = Inr r"
    by (simp add: default_jittered_ttl_def COMPLETED_RESULT_TTL_JITTER_FRACTION_def
        jittered_ttl_def Let_def)
  from default_jittered_ttl_Inr [OF r] r show ?thesis by blast
qed

theorem jittered_ttl_bounds_witness:
  "\<exists>r. default_jittered_ttl (\<lambda>a b. b) 300 = Inr r \<and> 0 < r \<and> r \<le> 300 \<and> 9 * 300 \<le> 10 * r"
  by (rule jittered_ttl_bounds) simp_all

section \<open>The contract the cache users build on\<close>

context cache_store
begin

lemma acquire_claim_law:
  assumes "token \<noteq> []" and "0 < ttl"
  shows "\<exists>w'. acquire_claim client key token ttl w = (Inr (live w key = None), w')
     \<and> live w' = (if live w key = None then (live w)(key \<mapsto> token) else live w)"
proof -
  let ?o = "\<lparr>so_ex = Some ttl, so_nx = True, so_xx = False\<rparr>"
  have p: "positive_ttl ?o" using assms(2) by (simp add: positive_ttl_def)
  from set_law [OF p, of key token w] obtain w'
    where "cl_set client key token ?o w =
        (Inr (if write_blocked ?o (live w key) then RNil else RBool True), w')"
      and "live w' = (if write_blocked ?o (live w key) then live w else (live w)(key \<mapsto> token))"
    by blast
  then show ?thesis
    using assms
    by (intro exI [of _ w']) (auto simp: acquire_claim_def write_blocked_def bindA_def catchA_def retA_def)
qed

lemma release_claim_law:
  "\<exists>w'. release_claim client key token w = (Inr (live w key = Some token), w')
     \<and> live w' = (if live w key = Some token then (live w)(key := None) else live w)"
proof -
  from compare_and_delete_law [of key token w] obtain w'
    where "cl_eval client COMPARE_AND_DELETE 1 [key, token] w =
        (Inr (if live w key = Some token then 1 else 0), w')"
      and "live w' = (if live w key = Some token then (live w)(key := None) else live w)"
    by blast
  then show ?thesis
    by (intro exI [of _ w']) (auto simp: release_claim_def bindA_def catchA_def retA_def)
qed

lemma plain_set_law:
  assumes "0 < ttl"
  shows "\<exists>w'. cl_set client k v (plain_ex ttl) w = (Inr (RBool True), w') \<and> live w' = (live w)(k \<mapsto> v)"
  using set_law [of "plain_ex ttl" k v w] assms
  by (simp add: positive_ttl_def plain_ex_def write_blocked_def)

lemma json_cache_get_law:
  "\<exists>w'. json_cache_get sha client ns c inputs w =
       (Inr (decode_envelope (live w (json_cache_key sha ns c inputs)) (jc_family c) (jc_schema_version c)), w')
     \<and> live w' = live w"
proof -
  from get_law [of "json_cache_key sha ns c inputs" w] obtain w'
    where "cl_get client (json_cache_key sha ns c inputs) w =
        (Inr (live w (json_cache_key sha ns c inputs)), w')" and "live w' = live w"
    by blast
  then show ?thesis
    by (intro exI [of _ w']) (simp add: json_cache_get_def bindA_def catchA_def retA_def)
qed

lemma json_cache_set_law:
  assumes "default_jittered_ttl draw (jc_ttl_seconds c) = Inr ttl"
  shows "\<exists>w'. json_cache_set sha draw client ns c inputs payload w = (Inr True, w')
     \<and> live w' = (live w)(json_cache_key sha ns c inputs \<mapsto>
                    encode_envelope (jc_family c) (jc_schema_version c) payload)"
proof -
  let ?o = "\<lparr>so_ex = Some ttl, so_nx = False, so_xx = False\<rparr>"
  have p: "positive_ttl ?o"
    using default_jittered_ttl_Inr [OF assms] by (simp add: positive_ttl_def)
  show ?thesis
    using set_law [OF p, of "json_cache_key sha ns c inputs"
        "encode_envelope (jc_family c) (jc_schema_version c) payload" w] assms
    by (auto simp: json_cache_set_def bindA_def catchA_def retA_def liftA_def write_blocked_def)
qed

text \<open>What is set is what is read, with its dict keys sorted.\<close>

lemma json_cache_get_after_set:
  assumes "default_jittered_ttl draw (jc_ttl_seconds c) = Inr ttl" and "wf_json payload"
    and "json_cache_set sha draw client ns c inputs payload w = (r, w')"
  shows "fst (json_cache_get sha client ns c inputs w') = Inr (sort_keys payload)"
  using json_cache_set_law [OF assms(1), of sha ns inputs payload w]
    json_cache_get_law [of sha ns c inputs w'] assms(2,3)
  by (auto simp: decode_encode_envelope)

end

section \<open>Failures of the backend\<close>

text \<open>
  A backend that fails never lets a claim be taken or released: both raise
  CacheCoordinationError; the completed-result cache turns the same failures into a miss
  and a write that reports False.
\<close>

theorem backend_failure_contract:
  assumes "\<And>k v opts w. cl_set client k v opts w = (Inl e, w)" and "\<And>k w. cl_get client k w = (Inl e, w)"
    and "\<And>s n args w. cl_eval client s n args w = (Inl e, w)"
    and "token \<noteq> []" and "0 < ttl"
  shows "(\<exists>m. fst (acquire_claim client key token ttl w) = Inl (CacheCoordinationError m))
     \<and> (\<exists>m. fst (release_claim client key token w) = Inl (CacheCoordinationError m))
     \<and> json_cache_get sha client ns c inputs w = (Inr JNull, w)
     \<and> json_cache_set sha draw client ns c inputs payload w = (Inr False, w)"
  using assms
  by (cases "default_jittered_ttl draw (jc_ttl_seconds c)")
    (auto simp: acquire_claim_def release_claim_def json_cache_get_def json_cache_set_def
      bindA_def catchA_def retA_def raiseA_def liftA_def)

definition failing_client :: "'w cache_client" where
  "failing_client =
     (let e = OtherError ''connection refused''
      in \<lparr>cl_get = (\<lambda>key. raiseA e), cl_set = (\<lambda>key value opts. raiseA e),
          cl_delete = (\<lambda>keys. raiseA e), cl_pttl = (\<lambda>key. raiseA e),
          cl_zrevrange = (\<lambda>key start end. raiseA e), cl_eval = (\<lambda>script numkeys args. raiseA e),
          cl_execute = (\<lambda>cs. raiseA e)\<rparr>)"

theorem backend_failure_contract_witness:
  "\<exists>m. fst (acquire_claim failing_client ''k'' ''t'' 300 empty_mem) = Inl (CacheCoordinationError m)"
  using backend_failure_contract [of failing_client "OtherError ''connection refused''" "''t''" 300
      "''k''" empty_mem "\<lambda>s. s" "\<lparr>environment = [], service = []\<rparr>"
      "\<lparr>jc_family = [], jc_schema_version = 1, jc_ttl_seconds = 1\<rparr>" "[]" "\<lambda>a b. a" JNull]
  by (simp add: failing_client_def raiseA_def Let_def)

section \<open>Mutual exclusion of claims\<close>

datatype claim_op = Acquire string int | Release string | Wait int

definition claim_op_act :: "string \<Rightarrow> claim_op \<Rightarrow> ('x mem_scheme, bool) act" where
  "claim_op_act key op =
     (case op of
        Acquire token ttl \<Rightarrow> acquire_claim mem_client key token ttl
      | Release token \<Rightarrow> release_claim mem_client key token
      | Wait amount \<Rightarrow> bindA (mem_advance amount) (\<lambda>u. retA False))"

fun run_claim_ops :: "string \<Rightarrow> claim_op list \<Rightarrow> 'x mem_scheme \<Rightarrow> bool result list \<times> 'x mem_scheme" where
  "run_claim_ops key [] m = ([], m)"
| "run_claim_ops key (op # ops) m =
     (let (r, m') = claim_op_act key op m; (rs, m'') = run_claim_ops key ops m' in (r # rs, m''))"

fun waited :: "claim_op list \<Rightarrow> int" where
  "waited [] = (0::int)"
| "waited (Wait amount # ops) = amount + waited ops"
| "waited (op # ops) = waited ops"

definition held_until :: "'x mem_scheme \<Rightarrow> string \<Rightarrow> string \<Rightarrow> int \<Rightarrow> bool" where
  "held_until m key token e \<longleftrightarrow>
     mem_values m key = Some token \<and> mem_expires m key = Some e \<and> mem_time m < e"

lemma held_until_live: "held_until m key token e \<Longrightarrow> mem_live m key = Some token"
  by (simp add: held_until_def mem_live_def)

lemma held_until_purge: "held_until m key token e \<Longrightarrow> mem_purge key m = m"
  by (simp add: held_until_def mem_purge_def)

lemma acquire_held:
  assumes "held_until m key token e"
  shows "fst (acquire_claim mem_client key token' ttl m) \<noteq> Inr True"
    and "snd (acquire_claim mem_client key token' ttl m) = m"
  using held_until_purge [OF assms] held_until_live [OF assms] assms
  by (auto simp: acquire_claim_def mem_client_def ok_def mem_set_def held_until_def act_simps
      catchA_def bindA_def)

lemma release_held:
  assumes "held_until m key token e" and "token' \<noteq> token"
  shows "release_claim mem_client key token' m = (Inr False, m)"
  using held_until_purge [OF assms(1)] held_until_live [OF assms(1)] assms
  by (simp add: release_claim_def mem_client_def mem_eval_def scripts_differ mem_get_live act_simps
      catchA_def bindA_def)

lemma run_claim_ops_held:
  assumes "held_until m key token e" and "Release token \<notin> set ops"
    and "\<forall>amount. Wait amount \<in> set ops \<longrightarrow> 0 \<le> amount" and "mem_time m + waited ops < e"
  shows "held_until (snd (run_claim_ops key ops m)) key token e
     \<and> Inr True \<notin> set (fst (run_claim_ops key ops m))"
  using assms
proof (induction ops arbitrary: m)
  case (Cons op ops)
  let ?m = "snd (claim_op_act key op m)"
  have w: "0 \<le> waited ops"
  proof -
    have "\<forall>amount. Wait amount \<in> set xs \<longrightarrow> 0 \<le> amount \<Longrightarrow> 0 \<le> waited xs" for xs
      by (induction xs rule: waited.induct) auto
    with Cons.prems(3) show ?thesis by simp
  qed
  have step: "held_until ?m key token e \<and> fst (claim_op_act key op m) \<noteq> Inr True
      \<and> mem_time ?m + waited ops < e"
  proof (cases op)
    case (Acquire token' ttl)
    with acquire_held [OF Cons.prems(1), of token' ttl] Cons.prems(1,4) show ?thesis
      by (simp add: claim_op_act_def)
  next
    case (Release token')
    with Cons.prems(2) have "token' \<noteq> token" by auto
    with Release release_held [OF Cons.prems(1)] Cons.prems(1,4) show ?thesis
      by (simp add: claim_op_act_def)
  next
    case (Wait amount)
    with Cons.prems w show ?thesis
      by (auto simp: claim_op_act_def mem_advance_def bindA_def retA_def held_until_def)
  qed
  with Cons.IH [of ?m] Cons.prems show ?case
    by (auto simp: Let_def case_prod_unfold)
qed simp

text \<open>
  C27. Once a claim is acquired, it stays with its owner: as long as the owner does not
  release it and its lifetime has not passed, no sequence of acquisitions, releases by
  others and waiting lets any other acquisition of the key succeed.
\<close>

theorem claim_mutual_exclusion:
  assumes "acquire_claim mem_client key token ttl m = (Inr True, m')"
    and "Release token \<notin> set ops" and "\<forall>amount. Wait amount \<in> set ops \<longrightarrow> 0 \<le> amount"
    and "waited ops < micros ttl"
  shows "Inr True \<notin> set (fst (run_claim_ops key ops m'))
     \<and> mem_live (snd (run_claim_ops key ops m')) key = Some token"
proof -
  from assms(1) have pos: "0 < ttl" and free: "mem_live m key = None"
    and m': "m' = snd (mem_set key token \<lparr>so_ex = Some ttl, so_nx = True, so_xx = False\<rparr> m)"
    by (auto simp: acquire_claim_def mem_client_def ok_def mem_set_def bindA_def catchA_def retA_def
        raiseA_def Let_def split: if_splits)
  have held: "held_until m' key token (mem_time m + micros ttl)" and t: "mem_time m' = mem_time m"
    using pos free by (auto simp: m' held_until_def mem_set_def micros_def Let_def)
  have "held_until (snd (run_claim_ops key ops m')) key token (mem_time m + micros ttl)
      \<and> Inr True \<notin> set (fst (run_claim_ops key ops m'))"
    by (rule run_claim_ops_held [OF held assms(2,3)]) (use assms(4) t in simp)
  then show ?thesis by (auto dest: held_until_live)
qed

theorem claim_mutual_exclusion_witness:
  "Inr True \<notin> set (fst (run_claim_ops ''k'' [Acquire ''b'' 300, Release ''b'', Wait 5, Acquire ''c'' 300]
     (snd (acquire_claim mem_client ''k'' ''a'' 300 empty_mem))))"
proof -
  have "fst (acquire_claim mem_client ''k'' ''a'' 300 empty_mem) = Inr True"
    by (simp add: acquire_claim_def mem_client_def ok_def mem_set_def mem_live_def bindA_def catchA_def
        retA_def empty_mem_def Let_def)
  then have "acquire_claim mem_client ''k'' ''a'' 300 empty_mem =
      (Inr True, snd (acquire_claim mem_client ''k'' ''a'' 300 empty_mem))"
    by (metis prod.collapse)
  from claim_mutual_exclusion [OF this, of "[Acquire ''b'' 300, Release ''b'', Wait 5, Acquire ''c'' 300]"]
  show ?thesis by (simp add: micros_def)
qed

text \<open>
  The completed-result cache on the in-memory backend gives back what was stored:
  a read after a write of the same inputs returns the payload with its dict keys sorted.
\<close>

theorem json_cache_roundtrip:
  assumes "default_jittered_ttl draw (jc_ttl_seconds c) = Inr ttl" and "wf_json payload"
    and "json_cache_set sha draw mem_client ns c inputs payload m = (r, m')"
  shows "fst (json_cache_get sha mem_client ns c inputs m') = Inr (sort_keys payload)"
  using assms by (rule memory.json_cache_get_after_set)

theorem json_cache_roundtrip_witness:
  "fst (json_cache_get (\<lambda>s. s) mem_client \<lparr>environment = ''prod'', service = ''api''\<rparr>
      \<lparr>jc_family = ''f'', jc_schema_version = 1, jc_ttl_seconds = 100\<rparr> []
      (snd (json_cache_set (\<lambda>s. s) (\<lambda>a b. a) mem_client \<lparr>environment = ''prod'', service = ''api''\<rparr>
         \<lparr>jc_family = ''f'', jc_schema_version = 1, jc_ttl_seconds = 100\<rparr> [] (JInt 5) empty_mem)))
   = Inr (sort_keys (JInt 5))"
  by (rule json_cache_roundtrip [where draw = "\<lambda>a b. a" and ttl = 100, OF _ _ prod.collapse [symmetric]])
    (simp_all add: default_jittered_ttl_def jittered_ttl_def COMPLETED_RESULT_TTL_JITTER_FRACTION_def)

end
