(* ===== verification/Observability_Ids.thy ===== *)
theory Observability_Ids
  imports Json_Codec
begin

text \<open>
  \<open>policyengine_api/observability/identifiers.py\<close> and the identifier part of
  \<open>policyengine_api/request_context.py\<close>: the diagnostic identifier of a request, kept in
  canonical UUID form, bound to the current request and restored from stored state.

  \<open>uuid.UUID(text)\<close> and \<open>str\<close> of it are written out. The request context is a record of
  the ways the source reads and binds it (Flask's \<open>g\<close> or context variables), and
  \<open>uuid4()\<close> is its operation \<open>rc_new_id\<close>. Telemetry bindings are not modelled.
\<close>

section \<open>UUID texts\<close>

text \<open>\<open>str.replace\<close> for a non-empty text.\<close>

fun py_replace :: "string \<Rightarrow> string \<Rightarrow> string \<Rightarrow> string" where
  "py_replace old new [] = []"
| "py_replace old new (c # cs) =
     (if old \<noteq> [] \<and> startswith (c # cs) old then new @ py_replace old new (drop (length old - 1) cs)
      else c # py_replace old new cs)"

definition strip_braces :: "string \<Rightarrow> string" where
  "strip_braces s =
     (let brace = (\<lambda>c. c = CHR ''{'' \<or> c = CHR ''}'')
      in rev (dropWhile brace (rev (dropWhile brace s))))"

text \<open>\<open>int(text, 16)\<close>: None where it raises ValueError.\<close>

definition is_hex :: "char \<Rightarrow> bool" where
  "is_hex c \<longleftrightarrow> hex_val c \<noteq> None"

definition hex_number :: "string \<Rightarrow> nat" where
  "hex_number s = foldl (\<lambda>n c. 16 * n + the (hex_val c)) 0 s"

definition hex_groups :: "string \<Rightarrow> nat option" where
  "hex_groups s =
     (let parts = split_on CHR ''_'' s
      in if \<forall>p\<in>set parts. p \<noteq> [] \<and> (\<forall>c\<in>set p. is_hex c) then Some (hex_number (concat parts))
         else None)"

definition py_int16 :: "string \<Rightarrow> int option" where
  "py_int16 s =
     (let t = py_strip s; negative = startswith t ''-'';
          body = (if negative \<or> startswith t ''+'' then drop 1 t else t);
          digits = (if startswith body ''0x'' \<or> startswith body ''0X''
                    then (let r = drop 2 body in if startswith r ''_'' then drop 1 r else r) else body)
      in map_option (\<lambda>n. if negative then - int n else int n) (hex_groups digits))"

definition hex32 :: "nat \<Rightarrow> string" where
  "hex32 n = map (\<lambda>i. hex_digit (n div 16 ^ i mod 16)) (rev [0..<32])"

definition uuid_text :: "nat \<Rightarrow> string" where
  "uuid_text n =
     (let h = hex32 n
      in take 8 h @ ''-'' @ take 4 (drop 8 h) @ ''-'' @ take 4 (drop 12 h) @ ''-''
           @ take 4 (drop 16 h) @ ''-'' @ drop 20 h)"

definition uuid_of_text :: "string \<Rightarrow> nat option" where
  "uuid_of_text s =
     (let hex = py_replace ''-'' '''' (strip_braces (py_replace ''uuid:'' '''' (py_replace ''urn:'' '''' s)))
      in if length hex \<noteq> 32 then None
         else (case py_int16 hex of None \<Rightarrow> None
               | Some n \<Rightarrow> if 0 \<le> n \<and> n < 2 ^ 128 then Some (nat n) else None))"

definition normalize_observability_id :: "json \<Rightarrow> string option" where
  "normalize_observability_id v =
     (case v of JStr s \<Rightarrow> map_option uuid_text (uuid_of_text s) | _ \<Rightarrow> None)"

section \<open>The request context\<close>

record 'w request_context =
  rc_current :: "'w \<Rightarrow> string option"
  rc_incoming :: "'w \<Rightarrow> string option"
  rc_bind :: "string \<Rightarrow> 'w \<Rightarrow> 'w"
  rc_new_id :: "('w, string) act"

definition bind_observability_id :: "'w request_context \<Rightarrow> string \<Rightarrow> ('w, string) act" where
  "bind_observability_id rc obs w = (Inr obs, rc_bind rc obs w)"

definition resolve_observability_id :: "'w request_context \<Rightarrow> json \<Rightarrow> ('w, string) act" where
  "resolve_observability_id rc v =
     (case normalize_observability_id v of Some obs \<Rightarrow> retA obs | None \<Rightarrow> rc_new_id rc)"

fun opt_text_json :: "string option \<Rightarrow> json" where
  "opt_text_json None = JNull"
| "opt_text_json (Some s) = JStr s"

definition start_observability_id :: "'w request_context \<Rightarrow> json \<Rightarrow> ('w, string) act" where
  "start_observability_id rc v w =
     (case rc_current rc w of
        Some current \<Rightarrow> (Inr current, w)
      | None \<Rightarrow>
          bindA (resolve_observability_id rc
                   (case normalize_observability_id v of Some obs \<Rightarrow> JStr obs
                    | None \<Rightarrow> opt_text_json (rc_incoming rc w)))
            (bind_observability_id rc) w)"

definition restore_observability_id :: "'w request_context \<Rightarrow> json \<Rightarrow> ('w, string option) act" where
  "restore_observability_id rc v w =
     (case normalize_observability_id v of
        None \<Rightarrow> (Inr (rc_current rc w), w)
      | Some obs \<Rightarrow> bindA (bind_observability_id rc obs) (\<lambda>bound. retA (Some bound)) w)"

section \<open>Canonical identifiers are stable\<close>

lemma py_replace_absent:
  assumes "c \<in> set old" and "c \<notin> set s"
  shows "py_replace old new s = s"
  using assms(2)
proof (induction s)
  case (Cons x xs)
  have "\<not> startswith (x # xs) old"
  proof
    assume "startswith (x # xs) old"
    then have "old = take (length old) (x # xs)" by (simp add: startswith_def)
    then have "set old \<subseteq> set (x # xs)" by (metis set_take_subset)
    with assms(1) Cons.prems show False by auto
  qed
  with Cons show ?case by simp
qed simp

lemma py_replace_char: "py_replace [c] [] s = filter (\<lambda>x. x \<noteq> c) s"
  by (induction s) (auto simp: startswith_def)

lemma hex_digit_facts:
  assumes "d < 16"
  shows "is_hex (hex_digit d)" "hex_digit d \<notin> set ''-:{}_+xX ''" "\<not> py_isspace (hex_digit d)"
proof -
  have o: "(of_char (hex_digit d) :: nat) = (if d < 10 then 48 + d else 87 + d)"
    using assms by (simp add: hex_digit_def)
  show "is_hex (hex_digit d)" using assms by (simp add: is_hex_def hex_val_hex_digit)
  show "\<not> py_isspace (hex_digit d)" using o assms by (auto simp: py_isspace_def split: if_splits)
  show "hex_digit d \<notin> set ''-:{}_+xX ''"
  proof
    assume "hex_digit d \<in> set ''-:{}_+xX ''"
    then have "(of_char (hex_digit d) :: nat) \<in> of_char ` set ''-:{}_+xX ''" by (rule imageI)
    with o assms show False by (auto split: if_splits)
  qed
qed

lemma hex_number_digits:
  "hex_number (map (\<lambda>i. hex_digit (n div 16 ^ i mod 16)) (rev [0..<k])) = n mod 16 ^ k"
proof (induction k)
  case (Suc k)
  have acc: "foldl (\<lambda>n c. 16 * n + the (hex_val c)) a s = a * 16 ^ length s + hex_number s" for a s
  proof (induction s arbitrary: a)
    case (Cons c s)
    show ?case
      using Cons [of "16 * a + the (hex_val c)"] Cons [of "the (hex_val c)"]
      by (simp add: hex_number_def algebra_simps)
  qed (simp add: hex_number_def)
  have "hex_number (map (\<lambda>i. hex_digit (n div 16 ^ i mod 16)) (rev [0..<Suc k])) =
      foldl (\<lambda>n c. 16 * n + the (hex_val c)) (n div 16 ^ k mod 16)
        (map (\<lambda>i. hex_digit (n div 16 ^ i mod 16)) (rev [0..<k]))"
    by (simp add: hex_number_def hex_val_hex_digit)
  also have "\<dots> = (n div 16 ^ k mod 16) * 16 ^ k + n mod 16 ^ k"
    unfolding acc using Suc by simp
  also have "\<dots> = n mod 16 ^ Suc k"
    using mod_mult2_eq [of n "16 ^ k" 16] by (simp add: mult.commute)
  finally show ?case .
qed (simp add: hex_number_def)

lemma hex32_chars: "c \<in> set (hex32 n) \<Longrightarrow> \<exists>d<16. c = hex_digit d"
  by (auto simp: hex32_def intro: exI [of _ "n div 16 ^ _ mod 16"])

lemma uuid_chars: "c \<in> set (uuid_text n) \<Longrightarrow> c = CHR ''-'' \<or> (\<exists>d<16. c = hex_digit d)"
  using hex32_chars [of c n]
  by (auto simp: uuid_text_def Let_def dest: in_set_takeD in_set_dropD)

lemma filter_uuid: "filter (\<lambda>x. x \<noteq> CHR ''-'') (uuid_text n) = hex32 n"
proof -
  have f: "filter (\<lambda>x. x \<noteq> CHR ''-'') s = s" if sub: "set s \<subseteq> set (hex32 n)" for s
  proof (rule filter_True, rule ballI)
    fix c assume "c \<in> set s"
    then obtain d where "d < 16" "c = hex_digit d" using sub hex32_chars by blast
    with hex_digit_facts(2) [of d] show "c \<noteq> CHR ''-''" by auto
  qed
  have "set (take i (drop j (hex32 n))) \<subseteq> set (hex32 n)" for i j
    by (auto dest: in_set_takeD in_set_dropD)
  moreover have "set (drop 20 (hex32 n)) \<subseteq> set (hex32 n)" "set (take 8 (hex32 n)) \<subseteq> set (hex32 n)"
    by (auto dest: in_set_takeD in_set_dropD)
  ultimately have "filter (\<lambda>x. x \<noteq> CHR ''-'') (uuid_text n) =
      take 8 (hex32 n) @ take 4 (drop 8 (hex32 n)) @ take 4 (drop 12 (hex32 n))
        @ take 4 (drop 16 (hex32 n)) @ drop 20 (hex32 n)"
    by (simp add: uuid_text_def Let_def f)
  also have "\<dots> = hex32 n"
    using append_take_drop_id [of 4 "drop 16 (hex32 n)"] append_take_drop_id [of 4 "drop 12 (hex32 n)"]
      append_take_drop_id [of 4 "drop 8 (hex32 n)"] append_take_drop_id [of 8 "hex32 n"]
    by (simp only: drop_drop) simp
  finally show ?thesis .
qed

lemma py_int16_hex32:
  assumes "n < 2 ^ 128"
  shows "py_int16 (hex32 n) = Some (int n)"
proof -
  have ne: "hex32 n \<noteq> []" by (simp add: hex32_def)
  have facts: "is_hex c" "c \<notin> set ''-:{}_+xX ''" "\<not> py_isspace c" if "c \<in> set (hex32 n)" for c
    using hex32_chars [OF that] hex_digit_facts by auto
  have dw: "dropWhile py_isspace s = s" if "set s \<subseteq> set (hex32 n)" for s
    using that facts(3) by (cases s) auto
  have strip: "py_strip (hex32 n) = hex32 n" by (simp add: py_strip_def dw)
  obtain a b t where h: "hex32 n = a # b # t"
    by (cases "hex32 n"; cases "tl (hex32 n)") (auto simp: hex32_def dest: arg_cong [of _ _ length])
  have nostart: "\<not> startswith (hex32 n) ''-''" "\<not> startswith (hex32 n) ''+''"
    "\<not> startswith (hex32 n) ''0x''" "\<not> startswith (hex32 n) ''0X''"
    using facts(2) [of a] facts(2) [of b] by (auto simp: startswith_def h)
  have "CHR ''_'' \<notin> set (hex32 n)" using facts(2) by auto
  then have "hex_groups (hex32 n) = Some (hex_number (hex32 n))"
    using ne facts(1) by (simp add: hex_groups_def split_on_single)
  moreover have "hex_number (hex32 n) = n"
    using hex_number_digits [of n 32] assms by (simp add: hex32_def)
  ultimately show ?thesis by (simp add: py_int16_def strip nostart Let_def)
qed

lemma uuid_of_uuid_text:
  assumes "n < 2 ^ 128"
  shows "uuid_of_text (uuid_text n) = Some n"
proof -
  have abs: "c \<notin> set (uuid_text n)" if "c \<in> set '':{}''" for c
  proof
    assume "c \<in> set (uuid_text n)"
    then consider "c = CHR ''-''" | d where "d < 16" "c = hex_digit d" using uuid_chars by blast
    then show False
    proof cases
      case 1
      with that show ?thesis by simp
    next
      case 2
      with hex_digit_facts(2) [of d] that show ?thesis by auto
    qed
  qed
  have r: "py_replace ''urn:'' '''' (uuid_text n) = uuid_text n"
    "py_replace ''uuid:'' '''' (uuid_text n) = uuid_text n"
    by (rule py_replace_absent [where c = "CHR '':''"], simp, rule abs, simp)+
  have "dropWhile (\<lambda>c. c = CHR ''{'' \<or> c = CHR ''}'') s = s" if "set s \<subseteq> set (uuid_text n)" for s
    using that abs by (cases s) auto
  then have b: "strip_braces (uuid_text n) = uuid_text n" by (simp add: strip_braces_def)
  have "length (hex32 n) = 32" by (simp add: hex32_def)
  with assms show ?thesis
    by (simp add: uuid_of_text_def r b py_replace_char filter_uuid py_int16_hex32)
qed

lemma uuid_of_text_bound: "uuid_of_text s = Some n \<Longrightarrow> n < 2 ^ 128"
  by (auto simp: uuid_of_text_def Let_def nat_less_iff split: if_splits option.splits)

lemma normalize_idem:
  "normalize_observability_id v = Some obs \<Longrightarrow> normalize_observability_id (JStr obs) = Some obs"
proof -
  assume "normalize_observability_id v = Some obs"
  then obtain s n where "v = JStr s" "uuid_of_text s = Some n" "obs = uuid_text n"
    by (auto simp: normalize_observability_id_def split: json.splits)
  with uuid_of_uuid_text [OF uuid_of_text_bound] show ?thesis
    by (simp add: normalize_observability_id_def)
qed

end
