(* ===== verification/Reform_Impact_Cache.thy ===== *)
theory Reform_Impact_Cache
  imports Cache_Core Calendar Observability_Ids Economy_Types
begin

text \<open>
  \<open>policyengine_api/runtime_cache/reform_impacts.py\<close>: the records of single-year economy
  jobs and their results, kept by execution with two expiring indexes, and the claims that
  let one request submit a job.

  Stored date-times are naive UTC times. Reads of a record whose text fields hold another
  JSON type are read as unreadable; the source's own writes never produce one. The
  context variable that makes lookups fail closed is the argument \<open>fail_closed\<close>.
\<close>

definition REFORM_IMPACT_SCHEMA_VERSION :: int where
  "REFORM_IMPACT_SCHEMA_VERSION = 3"

definition REFORM_IMPACT_TTL_SECONDS :: int where
  "REFORM_IMPACT_TTL_SECONDS = 2592000"

definition REFORM_IMPACT_INDEX_LIMIT :: int where
  "REFORM_IMPACT_INDEX_LIMIT = 1000"

definition REFORM_IMPACT_START_CLAIM_TTL_SECONDS :: int where
  "REFORM_IMPACT_START_CLAIM_TTL_SECONDS = 300"

definition REFORM_IMPACT_START_CLAIM_FAMILY :: string where
  "REFORM_IMPACT_START_CLAIM_FAMILY = ''reform-impact-start-claim''"

definition REFORM_IMPACT_FAMILY :: string where
  "REFORM_IMPACT_FAMILY = ''reform-impact''"

section \<open>Scopes, identities and records\<close>

record impact_scope =
  sc_country_id :: string
  sc_reform_policy_id :: int
  sc_baseline_policy_id :: int
  sc_region :: string
  sc_dataset :: string
  sc_time_period :: string

record impact_identity =
  id_scope :: impact_scope
  id_api_version :: string
  id_options_hash :: "string option"

record cached_impact =
  im_reform_impact_id :: int
  im_baseline_policy_id :: int
  im_reform_policy_id :: int
  im_country_id :: string
  im_region :: string
  im_dataset :: string
  im_time_period :: string
  im_options_json :: json
  im_options_hash :: "string option"
  im_api_version :: string
  im_reform_impact_json :: json
  im_status :: string
  im_message :: "string option"
  im_start_time :: "datetime option"
  im_end_time :: "datetime option"
  im_execution_id :: "string option"
  im_error_code :: "string option"
  im_observability_id :: "string option"

record start_claim =
  sl_submission_claim_id :: string
  sl_observability_id :: string

definition start_claim_payload :: "start_claim \<Rightarrow> json" where
  "start_claim_payload claim =
     JObj [(''submission_claim_id'', JStr (sl_submission_claim_id claim)),
           (''observability_id'', JStr (sl_observability_id claim))]"

definition start_claim_from_payload :: "json \<Rightarrow> start_claim option" where
  "start_claim_from_payload payload =
     (case payload of
        JObj d \<Rightarrow>
          (case dict_get_none d ''submission_claim_id'' of
             JStr claim_id \<Rightarrow>
               if claim_id = [] then None
               else (case normalize_observability_id (dict_get_none d ''observability_id'') of
                       None \<Rightarrow> None
                     | Some obs \<Rightarrow> Some \<lparr>sl_submission_claim_id = claim_id, sl_observability_id = obs\<rparr>)
           | _ \<Rightarrow> None)
      | _ \<Rightarrow> None)"

subsection \<open>The wire format\<close>

fun datetime_to_wire :: "datetime option \<Rightarrow> json" where
  "datetime_to_wire None = JNull"
| "datetime_to_wire (Some dt) = JStr (datetime_text dt)"

fun datetime_from_wire :: "json \<Rightarrow> datetime option result" where
  "datetime_from_wire JNull = Inr None"
| "datetime_from_wire (JStr s) =
     (case datetime_of_text s of None \<Rightarrow> Inl (ValueError ''Invalid isoformat string'')
      | Some dt \<Rightarrow> Inr (Some dt))"
| "datetime_from_wire v = Inl (TypeErr ''invalid cached datetime'')"

definition impact_to_wire :: "cached_impact \<Rightarrow> json" where
  "impact_to_wire i =
     JObj [(''reform_impact_id'', JInt (im_reform_impact_id i)),
           (''baseline_policy_id'', JInt (im_baseline_policy_id i)),
           (''reform_policy_id'', JInt (im_reform_policy_id i)),
           (''country_id'', JStr (im_country_id i)), (''region'', JStr (im_region i)),
           (''dataset'', JStr (im_dataset i)), (''time_period'', JStr (im_time_period i)),
           (''options_json'', im_options_json i), (''options_hash'', opt_str (im_options_hash i)),
           (''api_version'', JStr (im_api_version i)),
           (''reform_impact_json'', im_reform_impact_json i), (''status'', JStr (im_status i)),
           (''message'', opt_str (im_message i)),
           (''start_time'', datetime_to_wire (im_start_time i)),
           (''end_time'', datetime_to_wire (im_end_time i)),
           (''execution_id'', opt_str (im_execution_id i)),
           (''error_code'', opt_str (im_error_code i)),
           (''observability_id'', opt_str (im_observability_id i))]"

text \<open>\<open>int(v)\<close> and \<open>d[k]\<close>, with the exceptions they raise.\<close>

fun int_of_json :: "json \<Rightarrow> int result" where
  "int_of_json (JStr s) = py_int s"
| "int_of_json (JFloat (FFin neg m e)) =
     (let n = (if 0 \<le> e then int m * 10 ^ nat e else int m div 10 ^ nat (- e))
      in Inr (if neg then - n else n))"
| "int_of_json (JFloat (FInf neg)) = Inl (OverflowErr ''cannot convert float infinity to integer'')"
| "int_of_json (JFloat FNan) = Inl (ValueError ''cannot convert float NaN to integer'')"
| "int_of_json v = (case as_int v of None \<Rightarrow> Inl (TypeErr ''int() argument'') | Some i \<Rightarrow> Inr i)"

definition dict_item :: "(string \<times> json) list \<Rightarrow> string \<Rightarrow> json result" where
  "dict_item d k = (case map_of d k of None \<Rightarrow> Inl (KeyErr k) | Some v \<Rightarrow> Inr v)"

definition text_item :: "(string \<times> json) list \<Rightarrow> string \<Rightarrow> string result" where
  "text_item d k = res_bind (dict_item d k) (\<lambda>v. Inr (py_str v))"

definition int_item :: "(string \<times> json) list \<Rightarrow> string \<Rightarrow> int result" where
  "int_item d k = res_bind (dict_item d k) int_of_json"

definition opt_text_item :: "(string \<times> json) list \<Rightarrow> string \<Rightarrow> string option result" where
  "opt_text_item d k =
     (case read_opt_str (map_of d k) of None \<Rightarrow> Inl (TypeErr k) | Some v \<Rightarrow> Inr v)"

definition execution_id_item :: "(string \<times> json) list \<Rightarrow> string option result" where
  "execution_id_item d =
     res_bind (dict_item d ''execution_id'')
       (\<lambda>v. Inr (if v = JNull then None else Some (py_str v)))"

definition impact_of_dict :: "(string \<times> json) list \<Rightarrow> cached_impact result" where
  "impact_of_dict d =
     res_bind (int_item d ''reform_impact_id'') (\<lambda>rid.
     res_bind (int_item d ''baseline_policy_id'') (\<lambda>bid.
     res_bind (int_item d ''reform_policy_id'') (\<lambda>pid.
     res_bind (text_item d ''country_id'') (\<lambda>country.
     res_bind (text_item d ''region'') (\<lambda>region.
     res_bind (text_item d ''dataset'') (\<lambda>dataset.
     res_bind (text_item d ''time_period'') (\<lambda>period.
     res_bind (opt_text_item d ''options_hash'') (\<lambda>hash.
     res_bind (text_item d ''api_version'') (\<lambda>version.
     res_bind (dict_item d ''reform_impact_json'') (\<lambda>impact.
     res_bind (text_item d ''status'') (\<lambda>status.
     res_bind (opt_text_item d ''message'') (\<lambda>message.
     res_bind (datetime_from_wire (dict_get_none d ''start_time'')) (\<lambda>start.
     res_bind (datetime_from_wire (dict_get_none d ''end_time'')) (\<lambda>ended.
     res_bind (execution_id_item d) (\<lambda>execution_id.
     res_bind (opt_text_item d ''error_code'') (\<lambda>code.
     res_bind (opt_text_item d ''observability_id'') (\<lambda>obs.
       Inr \<lparr>im_reform_impact_id = rid, im_baseline_policy_id = bid, im_reform_policy_id = pid,
            im_country_id = country, im_region = region, im_dataset = dataset,
            im_time_period = period, im_options_json = dict_get_none d ''options_json'',
            im_options_hash = hash, im_api_version = version, im_reform_impact_json = impact,
            im_status = status, im_message = message, im_start_time = start, im_end_time = ended,
            im_execution_id = execution_id, im_error_code = code,
            im_observability_id = obs\<rparr>)))))))))))))))))"

text \<open>
  KeyError, TypeError and ValueError read as no impact; the OverflowError of an infinite
  identifier is not caught by the source, and reads of such a foreign record raise.
\<close>

definition impact_from_wire :: "json \<Rightarrow> cached_impact option result" where
  "impact_from_wire payload =
     (case payload of
        JObj d \<Rightarrow>
          (case impact_of_dict d of
             Inr i \<Rightarrow> Inr (Some i)
           | Inl (OverflowErr m) \<Rightarrow> Inl (OverflowErr m)
           | Inl e \<Rightarrow> Inr None)
      | _ \<Rightarrow> Inr None)"

section \<open>SQL LIKE patterns\<close>

text \<open>
  \<open>_like_matches\<close> builds a regular expression: an ordinary or escaped character for
  itself, \<open>.\<close> for an underscore and \<open>.*\<close> for a percent sign, between \<open>^\<close> and \<open>$\<close>.
  A dot matches any character but a newline, and \<open>$\<close> also matches before a final newline.
\<close>

datatype like_token = LChar char | LOne | LMany

fun like_tokens :: "bool \<Rightarrow> string \<Rightarrow> like_token list" where
  "like_tokens escaped [] = (if escaped then [LChar CHR 0x5C] else [])"
| "like_tokens True (c # cs) = LChar c # like_tokens False cs"
| "like_tokens False (c # cs) =
     (if c = CHR 0x5C then like_tokens True cs
      else (if c = CHR ''%'' then LMany else if c = CHR ''_'' then LOne else LChar c)
             # like_tokens False cs)"

fun like_match :: "like_token list \<Rightarrow> string \<Rightarrow> bool" where
  "like_match [] s = (s = [] \<or> s = [CHR 0x0A])"
| "like_match (LChar c # ts) s = (case s of [] \<Rightarrow> False | x # xs \<Rightarrow> x = c \<and> like_match ts xs)"
| "like_match (LOne # ts) s =
     (case s of [] \<Rightarrow> False | x # xs \<Rightarrow> x \<noteq> CHR 0x0A \<and> like_match ts xs)"
| "like_match (LMany # ts) s =
     (like_match ts s
      \<or> (case s of [] \<Rightarrow> False | x # xs \<Rightarrow> x \<noteq> CHR 0x0A \<and> like_match (LMany # ts) xs))"

definition like_matches :: "string \<Rightarrow> string \<Rightarrow> bool" where
  "like_matches value pattern = like_match (like_tokens False pattern) value"

section \<open>Start claims\<close>

definition start_claim_key :: "'w cache_context \<Rightarrow> impact_identity \<Rightarrow> string \<Rightarrow> string" where
  "start_claim_key ctx identity target =
     namespace_key (ctx_sha ctx) (ctx_namespace ctx) REFORM_IMPACT_START_CLAIM_FAMILY
       REFORM_IMPACT_SCHEMA_VERSION
       [(''api_version'', JStr (id_api_version identity)),
        (''baseline_policy_id'', JInt (sc_baseline_policy_id (id_scope identity))),
        (''country_id'', JStr (sc_country_id (id_scope identity))),
        (''dataset'', JStr (sc_dataset (id_scope identity))),
        (''options_hash'', opt_str (id_options_hash identity)),
        (''reform_policy_id'', JInt (sc_reform_policy_id (id_scope identity))),
        (''region'', JStr (sc_region (id_scope identity))), (''target'', JStr target),
        (''time_period'', JStr (sc_time_period (id_scope identity)))] None"

definition encoded_start_claim :: "start_claim \<Rightarrow> string" where
  "encoded_start_claim claim =
     encode_envelope REFORM_IMPACT_START_CLAIM_FAMILY REFORM_IMPACT_SCHEMA_VERSION
       (start_claim_payload claim)"

definition start_claim_of :: "string \<Rightarrow> string \<Rightarrow> start_claim result" where
  "start_claim_of claim_token obs =
     (case start_claim_from_payload
             (JObj [(''submission_claim_id'', JStr claim_token), (''observability_id'', JStr obs)]) of
        None \<Rightarrow> Inl (ValueError ''a claim token and valid observability identifier are required'')
      | Some claim \<Rightarrow> Inr claim)"

definition claim_start ::
  "'w cache_context \<Rightarrow> impact_identity \<Rightarrow> string \<Rightarrow> string \<Rightarrow> string \<Rightarrow> ('w, bool) act" where
  "claim_start ctx identity target claim_token obs =
     bindA (liftA (start_claim_of claim_token obs)) (\<lambda>claim.
       acquire_claim (ctx_client ctx) (start_claim_key ctx identity target)
         (encoded_start_claim claim) REFORM_IMPACT_START_CLAIM_TTL_SECONDS)"

definition decoded_start_claim :: "string option \<Rightarrow> start_claim option" where
  "decoded_start_claim encoded =
     start_claim_from_payload
       (decode_envelope encoded REFORM_IMPACT_START_CLAIM_FAMILY REFORM_IMPACT_SCHEMA_VERSION)"

definition get_start_claim ::
  "'w cache_context \<Rightarrow> impact_identity \<Rightarrow> string \<Rightarrow> ('w, start_claim option) act" where
  "get_start_claim ctx identity target =
     bindA
       (catchA (cl_get (ctx_client ctx) (start_claim_key ctx identity target))
          (\<lambda>e. raiseA (CacheCoordinationError ''reform-impact submission ownership is unavailable'')))
       (\<lambda>encoded.
          if encoded \<noteq> None \<and> decoded_start_claim encoded = None
          then raiseA (CacheCoordinationError ''reform-impact submission ownership is unreadable'')
          else retA (decoded_start_claim encoded))"

definition release_start ::
  "'w cache_context \<Rightarrow> impact_identity \<Rightarrow> string \<Rightarrow> string \<Rightarrow> string \<Rightarrow> ('w, bool) act" where
  "release_start ctx identity target claim_token obs =
     bindA (liftA (start_claim_of claim_token obs)) (\<lambda>claim.
       release_claim (ctx_client ctx) (start_claim_key ctx identity target)
         (encoded_start_claim claim))"

section \<open>Records and indexes\<close>

definition record_key :: "'w cache_context \<Rightarrow> string option \<Rightarrow> string" where
  "record_key ctx execution_id =
     namespace_key (ctx_sha ctx) (ctx_namespace ctx) REFORM_IMPACT_FAMILY
       REFORM_IMPACT_SCHEMA_VERSION [(''execution_id'', opt_str execution_id)] None"

definition scope_index_key :: "'w cache_context \<Rightarrow> impact_scope \<Rightarrow> string \<Rightarrow> string" where
  "scope_index_key ctx scope api_version =
     namespace_key (ctx_sha ctx) (ctx_namespace ctx) ''reform-impact-index''
       REFORM_IMPACT_SCHEMA_VERSION
       [(''api_version'', JStr api_version),
        (''baseline_policy_id'', JInt (sc_baseline_policy_id scope)),
        (''country_id'', JStr (sc_country_id scope)), (''dataset'', JStr (sc_dataset scope)),
        (''reform_policy_id'', JInt (sc_reform_policy_id scope)),
        (''region'', JStr (sc_region scope)), (''time_period'', JStr (sc_time_period scope))] None"

definition impact_scope_of :: "cached_impact \<Rightarrow> impact_scope" where
  "impact_scope_of i =
     \<lparr>sc_country_id = im_country_id i, sc_reform_policy_id = im_reform_policy_id i,
      sc_baseline_policy_id = im_baseline_policy_id i, sc_region = im_region i,
      sc_dataset = im_dataset i, sc_time_period = im_time_period i\<rparr>"

definition scope_index :: "'w cache_context \<Rightarrow> cached_impact \<Rightarrow> string" where
  "scope_index ctx i = scope_index_key ctx (impact_scope_of i) (im_api_version i)"

definition recent_index :: "'w cache_context \<Rightarrow> string" where
  "recent_index ctx =
     family_key (ctx_namespace ctx) ''reform-impact-index'' REFORM_IMPACT_SCHEMA_VERSION ''recent''"

definition score :: "'w cache_context \<Rightarrow> cached_impact \<Rightarrow> 'w \<Rightarrow> int" where
  "score ctx i w = (case im_start_time i of None \<Rightarrow> ctx_time ctx w | Some dt \<Rightarrow> timestamp dt)"

definition encoded_impact :: "cached_impact \<Rightarrow> string" where
  "encoded_impact i =
     encode_envelope REFORM_IMPACT_FAMILY REFORM_IMPACT_SCHEMA_VERSION (impact_to_wire i)"

definition decode_impact :: "string option \<Rightarrow> cached_impact option result" where
  "decode_impact value =
     impact_from_wire (decode_envelope value REFORM_IMPACT_FAMILY REFORM_IMPACT_SCHEMA_VERSION)"

definition index_commands :: "string \<Rightarrow> string \<Rightarrow> int \<Rightarrow> int \<Rightarrow> cache_command list" where
  "index_commands index key sc ttl =
     [CZadd index [(key, sc)], CZremrangebyrank index 0 (- (REFORM_IMPACT_INDEX_LIMIT + 1)),
      CExpire index ttl]"

text \<open>\<open>a or b\<close> on optional texts and integers.\<close>

definition text_or :: "string option \<Rightarrow> string option \<Rightarrow> string option" where
  "text_or a b = (case a of Some s \<Rightarrow> if s \<noteq> [] then Some s else b | None \<Rightarrow> b)"

definition int_or :: "int option \<Rightarrow> int \<Rightarrow> int" where
  "int_or a b = (case a of Some i \<Rightarrow> if i \<noteq> 0 then i else b | None \<Rightarrow> b)"

definition set_commands ::
  "'w cache_context \<Rightarrow> cached_impact \<Rightarrow> string \<Rightarrow> int option \<Rightarrow> bool \<Rightarrow> int \<Rightarrow> 'w \<Rightarrow> cache_command list" where
  "set_commands ctx impact key record_ttl_seconds only_if_present ttl w =
     [CSet key (encoded_impact impact)
        \<lparr>so_ex = Some (int_or record_ttl_seconds ttl), so_nx = False, so_xx = only_if_present\<rparr>]
     @ index_commands (scope_index ctx impact) key (score ctx impact w) ttl
     @ index_commands (recent_index ctx) key (score ctx impact w) ttl"

definition set_impact ::
  "'w cache_context \<Rightarrow> cached_impact \<Rightarrow> string option \<Rightarrow> int option \<Rightarrow> bool \<Rightarrow> ('w, bool) act" where
  "set_impact ctx impact record_execution_id record_ttl_seconds only_if_present w =
     (let execution_id = text_or record_execution_id (im_execution_id impact)
      in if execution_id = None \<or> execution_id = Some []
         then raiseA (ValueError ''a reform-impact cache record identifier is required'') w
         else catchA
                (bindA (liftA (default_jittered_ttl (ctx_draw ctx) REFORM_IMPACT_TTL_SECONDS)) (\<lambda>ttl.
                   bindA (cl_execute (ctx_client ctx)
                            (set_commands ctx impact (record_key ctx execution_id) record_ttl_seconds
                               only_if_present ttl w))
                     (\<lambda>replies. retA (\<not> only_if_present \<or> hd replies \<noteq> RNil))))
                (\<lambda>e. retA False) w)"

definition get_by_execution_id ::
  "'w cache_context \<Rightarrow> string \<Rightarrow> ('w, cached_impact option) act" where
  "get_by_execution_id ctx execution_id =
     bindA
       (catchA (bindA (cl_get (ctx_client ctx) (record_key ctx (Some execution_id)))
                  (\<lambda>value. retA (Some value)))
          (\<lambda>e. retA None))
       (\<lambda>read. case read of None \<Rightarrow> retA None | Some value \<Rightarrow> liftA (decode_impact value))"

text \<open>\<open>except (RedisError, OSError)\<close>: the failures of the connection to the cache.\<close>

fun is_connection_error :: "exn \<Rightarrow> bool" where
  "is_connection_error (OtherError m) = True"
| "is_connection_error e = False"

definition seconds_left :: "'w cache_context \<Rightarrow> cached_impact \<Rightarrow> ('w, int option) act" where
  "seconds_left ctx impact =
     (if im_execution_id impact = None \<or> im_execution_id impact = Some [] then retA None
      else bindA
             (catchA
                (bindA (cl_pttl (ctx_client ctx) (record_key ctx (im_execution_id impact))) (\<lambda>r.
                   bindA (cl_pttl (ctx_client ctx) (scope_index ctx impact)) (\<lambda>i. retA (Some (r, i)))))
                (\<lambda>e. if is_connection_error e then retA None else raiseA e))
             (\<lambda>read. retA
                (case read of
                   None \<Rightarrow> None
                 | Some (record_ms, index_ms) \<Rightarrow>
                     if record_ms < 0 then None
                     else if index_ms = PTTL_NO_EXPIRY then Some (ceil_div record_ms 1000)
                     else if index_ms < 0 then Some 0
                     else Some (ceil_div (min record_ms index_ms) 1000))))"

definition read_index ::
  "'w cache_context \<Rightarrow> string \<Rightarrow> int \<Rightarrow> ('w, (string \<times> string option) list) act" where
  "read_index ctx index limit =
     bindA (cl_zrevrange (ctx_client ctx) index 0 (max (limit - 1) 0)) (\<lambda>keys.
       mapA (\<lambda>key. bindA (cl_get (ctx_client ctx) key) (\<lambda>value. retA (key, value))) keys)"

fun decode_entries :: "(string \<times> string option) list \<Rightarrow> cached_impact list result" where
  "decode_entries [] = Inr []"
| "decode_entries ((key, value) # entries) =
     res_bind (decode_impact value) (\<lambda>impact.
     res_bind (decode_entries entries) (\<lambda>impacts.
       Inr (case impact of None \<Rightarrow> impacts | Some i \<Rightarrow> i # impacts)))"

definition from_index ::
  "'w cache_context \<Rightarrow> bool \<Rightarrow> string \<Rightarrow> int \<Rightarrow> ('w, cached_impact list) act" where
  "from_index ctx fail_closed index limit =
     bindA
       (catchA (bindA (read_index ctx index limit) (\<lambda>entries. retA (Some entries)))
          (\<lambda>e. if fail_closed
               then raiseA (CacheCoordinationError ''reform-impact lookups cannot read the cache'')
               else retA None))
       (\<lambda>read. case read of None \<Rightarrow> retA [] | Some entries \<Rightarrow> liftA (decode_entries entries))"

definition recent :: "'w cache_context \<Rightarrow> bool \<Rightarrow> int \<Rightarrow> ('w, cached_impact list) act" where
  "recent ctx fail_closed limit = from_index ctx fail_closed (recent_index ctx) limit"

definition hash_selected :: "string option \<Rightarrow> string option \<Rightarrow> cached_impact \<Rightarrow> bool" where
  "hash_selected options_hash pattern impact =
     (im_options_hash impact = options_hash
      \<or> (case (pattern, im_options_hash impact) of
           (Some p, Some h) \<Rightarrow> like_matches h p | _ \<Rightarrow> False))"

definition impact_rank :: "string option \<Rightarrow> cached_impact \<Rightarrow> bool \<times> datetime \<times> int" where
  "impact_rank options_hash impact =
     (im_options_hash impact = options_hash,
      (case im_start_time impact of None \<Rightarrow> datetime_min | Some dt \<Rightarrow> dt),
      im_reform_impact_id impact)"

text \<open>\<open>sorted(xs, key=key, reverse=True)\<close>, which keeps equal elements in their order.\<close>

definition sorted_desc :: "('a \<Rightarrow> 'k::linorder) \<Rightarrow> 'a list \<Rightarrow> 'a list" where
  "sorted_desc key xs = rev (sort_key key (rev xs))"

lemma set_sorted_desc: "set (sorted_desc key xs) = set xs"
  by (simp add: sorted_desc_def)

lemma sorted_desc_first:
  assumes "sorted_desc k xs = y # ys" and "x \<in> set xs"
  shows "k x \<le> k y"
proof -
  have "sorted (map k (sort_key k (rev xs)))" by simp
  moreover have "sort_key k (rev xs) = rev ys @ [y]"
    using assms(1) by (simp add: sorted_desc_def rev_eq_Cons_iff)
  moreover have "x \<in> set (y # ys)" using assms set_sorted_desc by metis
  ultimately show ?thesis by (auto simp: sorted_append)
qed

definition matching ::
  "'w cache_context \<Rightarrow> bool \<Rightarrow> impact_identity \<Rightarrow> string option \<Rightarrow> ('w, cached_impact list) act" where
  "matching ctx fail_closed identity options_hash_pattern =
     bindA
       (from_index ctx fail_closed
          (scope_index_key ctx (id_scope identity) (id_api_version identity)) REFORM_IMPACT_INDEX_LIMIT)
       (\<lambda>impacts. retA
          (sorted_desc (impact_rank (id_options_hash identity))
             (filter (hash_selected (id_options_hash identity) options_hash_pattern) impacts)))"

definition update_impact ::
  "'w cache_context \<Rightarrow> string \<Rightarrow> bool \<Rightarrow> int option \<Rightarrow> (cached_impact \<Rightarrow> cached_impact)
     \<Rightarrow> ('w, cached_impact option) act" where
  "update_impact ctx execution_id clear_execution_id record_ttl_seconds changes =
     bindA (get_by_execution_id ctx execution_id) (\<lambda>found.
       case found of
         None \<Rightarrow> retA None
       | Some impact \<Rightarrow>
           (let updated = (if clear_execution_id then (changes impact)\<lparr>im_execution_id := None\<rparr>
                           else changes impact)
            in bindA (set_impact ctx updated (Some execution_id) record_ttl_seconds True)
                 (\<lambda>stored. retA (if stored then Some updated else None))))"

text \<open>Python's \<open>==\<close> of two records: dicts compare without regard to order.\<close>

definition impact_eq :: "cached_impact \<Rightarrow> cached_impact \<Rightarrow> bool" where
  "impact_eq a b \<longleftrightarrow>
     a\<lparr>im_options_json := sort_keys (im_options_json a),
       im_reform_impact_json := sort_keys (im_reform_impact_json a)\<rparr> =
     b\<lparr>im_options_json := sort_keys (im_options_json b),
       im_reform_impact_json := sort_keys (im_reform_impact_json b)\<rparr>"

fun find_stored ::
  "cached_impact \<Rightarrow> (string \<times> string option) list \<Rightarrow> (string \<times> string) option result" where
  "find_stored failure [] = Inr None"
| "find_stored failure ((key, None) # entries) = find_stored failure entries"
| "find_stored failure ((key, Some value) # entries) =
     res_bind (decode_impact (Some value)) (\<lambda>impact.
       if (case impact of None \<Rightarrow> False | Some i \<Rightarrow> impact_eq i failure) then Inr (Some (key, value))
       else find_stored failure entries)"

definition delete_failure :: "'w cache_context \<Rightarrow> cached_impact \<Rightarrow> ('w, bool) act" where
  "delete_failure ctx failure =
     (if im_status failure \<noteq> ''error''
      then raiseA (ValueError ''only a failed reform impact can be deleted'')
      else catchA
             (bindA (read_index ctx (scope_index ctx failure) REFORM_IMPACT_INDEX_LIMIT) (\<lambda>entries.
              bindA (liftA (find_stored failure entries)) (\<lambda>stored.
                case stored of
                  None \<Rightarrow> retA False
                | Some (key, value) \<Rightarrow>
                    bindA (cl_eval (ctx_client ctx) DELETE_UNCHANGED_RECORD 3
                             [key, scope_index ctx failure, recent_index ctx, value])
                      (\<lambda>n. retA (n \<noteq> 0)))))
             (\<lambda>e. raiseA (CacheCoordinationError
                ''the stored reform-impact failure could not be deleted'')))"

definition is_matching_computing :: "impact_scope \<Rightarrow> string \<Rightarrow> cached_impact \<Rightarrow> bool" where
  "is_matching_computing scope options_hash impact \<longleftrightarrow>
     impact_scope_of impact = scope \<and> im_options_hash impact = Some options_hash
     \<and> im_status impact = ''computing''"

definition delete_matching_computing ::
  "'w cache_context \<Rightarrow> bool \<Rightarrow> impact_scope \<Rightarrow> string \<Rightarrow> ('w, unit) act" where
  "delete_matching_computing ctx fail_closed scope options_hash =
     bindA (recent ctx fail_closed REFORM_IMPACT_INDEX_LIMIT) (\<lambda>impacts.
       let selected = filter (is_matching_computing scope options_hash) impacts
       in if selected = [] then retA ()
          else catchA
                 (bindA (cl_execute (ctx_client ctx)
                    (concat (map (\<lambda>impact.
                       let key = record_key ctx (im_execution_id impact)
                       in [CDelete [key], CZrem (scope_index ctx impact) [key],
                           CZrem (recent_index ctx) [key]]) selected)))
                    (\<lambda>replies. retA ()))
                 (\<lambda>e. retA ()))"

definition reform_impact_id :: "(string \<Rightarrow> string) \<Rightarrow> string \<Rightarrow> int" where
  "reform_impact_id sha execution_id = int (hex_number (take 15 (sha execution_id)))"

section \<open>Records read back\<close>

definition valid_impact :: "cached_impact \<Rightarrow> bool" where
  "valid_impact i \<longleftrightarrow>
     wf_json (im_options_json i) \<and> wf_json (im_reform_impact_json i)
     \<and> (\<forall>dt. im_start_time i = Some dt \<longrightarrow> valid_datetime dt)
     \<and> (\<forall>dt. im_end_time i = Some dt \<longrightarrow> valid_datetime dt)"

definition sorted_impact :: "cached_impact \<Rightarrow> cached_impact" where
  "sorted_impact i =
     i\<lparr>im_options_json := sort_keys (im_options_json i),
       im_reform_impact_json := sort_keys (im_reform_impact_json i)\<rparr>"

lemma impact_eq_sorted: "impact_eq a b \<longleftrightarrow> sorted_impact a = sorted_impact b"
  by (simp add: impact_eq_def sorted_impact_def)

lemma sort_opt_str [simp]: "sort_keys (opt_str s) = opt_str s"
  by (cases s) simp_all

lemma wf_opt_str [simp]: "wf_json (opt_str s)"
  by (cases s) simp_all

lemma sort_datetime [simp]: "sort_keys (datetime_to_wire t) = datetime_to_wire t"
  by (cases t) simp_all

lemma wf_datetime [simp]: "wf_json (datetime_to_wire t)"
  by (cases t) simp_all

lemma datetime_wire_roundtrip:
  "(\<forall>dt. t = Some dt \<longrightarrow> valid_datetime dt) \<Longrightarrow> datetime_from_wire (datetime_to_wire t) = Inr t"
  by (cases t) (simp_all add: datetime_of_text_text del: datetime_text.simps valid_datetime.simps)

lemma execution_id_roundtrip:
  "opt_str v = JNull \<longleftrightarrow> v = None" "v \<noteq> None \<Longrightarrow> py_str (opt_str v) = the v"
  by (cases v; simp add: py_str_def)+

definition wire_items :: "cached_impact \<Rightarrow> (string \<times> json) list" where
  "wire_items i =
     [(''reform_impact_id'', JInt (im_reform_impact_id i)),
      (''baseline_policy_id'', JInt (im_baseline_policy_id i)),
      (''reform_policy_id'', JInt (im_reform_policy_id i)),
      (''country_id'', JStr (im_country_id i)), (''region'', JStr (im_region i)),
      (''dataset'', JStr (im_dataset i)), (''time_period'', JStr (im_time_period i)),
      (''options_json'', im_options_json i), (''options_hash'', opt_str (im_options_hash i)),
      (''api_version'', JStr (im_api_version i)),
      (''reform_impact_json'', im_reform_impact_json i), (''status'', JStr (im_status i)),
      (''message'', opt_str (im_message i)),
      (''start_time'', datetime_to_wire (im_start_time i)),
      (''end_time'', datetime_to_wire (im_end_time i)),
      (''execution_id'', opt_str (im_execution_id i)),
      (''error_code'', opt_str (im_error_code i)),
      (''observability_id'', opt_str (im_observability_id i))]"

lemma impact_to_wire_items: "impact_to_wire i = JObj (wire_items i)"
  by (simp add: impact_to_wire_def wire_items_def)

lemma distinct_wire_items: "distinct (map fst (wire_items i))"
  by (simp add: wire_items_def)

lemma sort_wire_items: "sort_keys_items (wire_items i) = wire_items (sorted_impact i)"
  by (simp add: wire_items_def sorted_impact_def)

lemma wf_impact_to_wire: "valid_impact i \<Longrightarrow> wf_json (impact_to_wire i)"
  using distinct_wire_items [of i]
  by (simp add: impact_to_wire_items) (simp add: wire_items_def valid_impact_def)

lemma impact_of_dict_cong:
  assumes "map_of d = map_of d'"
  shows "impact_of_dict d = impact_of_dict d'"
proof -
  have "int_item d = int_item d'" "text_item d = text_item d'" "dict_item d = dict_item d'"
    "opt_text_item d = opt_text_item d'" "execution_id_item d = execution_id_item d'"
    "dict_get_none d = dict_get_none d'"
    using assms
    by (auto simp: int_item_def text_item_def dict_item_def opt_text_item_def execution_id_item_def
        dict_get_none_def fun_eq_iff)
  then show ?thesis by (simp only: impact_of_dict_def)
qed

lemma wire_item_values:
  "dict_item (wire_items i) ''reform_impact_json'' = Inr (im_reform_impact_json i)"
  "dict_get_none (wire_items i) ''options_json'' = im_options_json i"
  "dict_get_none (wire_items i) ''start_time'' = datetime_to_wire (im_start_time i)"
  "dict_get_none (wire_items i) ''end_time'' = datetime_to_wire (im_end_time i)"
  "execution_id_item (wire_items i) = Inr (im_execution_id i)"
  by (simp_all add: dict_item_def dict_get_none_def wire_items_def)
    (cases "im_execution_id i"; simp add: execution_id_item_def dict_item_def wire_items_def py_str_def)

lemma wire_item_ints:
  "int_item (wire_items i) ''reform_impact_id'' = Inr (im_reform_impact_id i)"
  "int_item (wire_items i) ''baseline_policy_id'' = Inr (im_baseline_policy_id i)"
  "int_item (wire_items i) ''reform_policy_id'' = Inr (im_reform_policy_id i)"
  by (simp_all add: int_item_def dict_item_def wire_items_def)

lemma wire_item_texts:
  "text_item (wire_items i) ''country_id'' = Inr (im_country_id i)"
  "text_item (wire_items i) ''region'' = Inr (im_region i)"
  "text_item (wire_items i) ''dataset'' = Inr (im_dataset i)"
  "text_item (wire_items i) ''time_period'' = Inr (im_time_period i)"
  "text_item (wire_items i) ''api_version'' = Inr (im_api_version i)"
  "text_item (wire_items i) ''status'' = Inr (im_status i)"
  by (simp_all add: text_item_def dict_item_def wire_items_def py_str_def)

lemma wire_item_opt_texts:
  "opt_text_item (wire_items i) ''options_hash'' = Inr (im_options_hash i)"
  "opt_text_item (wire_items i) ''message'' = Inr (im_message i)"
  "opt_text_item (wire_items i) ''error_code'' = Inr (im_error_code i)"
  "opt_text_item (wire_items i) ''observability_id'' = Inr (im_observability_id i)"
  by (simp_all add: opt_text_item_def wire_items_def)

lemma impact_of_wire_items:
  assumes "valid_impact i"
  shows "impact_of_dict (wire_items i) = Inr i"
  using assms
  by (simp add: impact_of_dict_def wire_item_values wire_item_ints wire_item_texts wire_item_opt_texts
      datetime_wire_roundtrip valid_impact_def)

lemma valid_sorted_impact: "valid_impact i \<Longrightarrow> valid_impact (sorted_impact i)"
  by (simp add: valid_impact_def sorted_impact_def wf_sort_keys)

lemma impact_from_sorted_wire:
  assumes "valid_impact i"
  shows "impact_from_wire (sort_keys (impact_to_wire i)) = Inr (Some (sorted_impact i))"
proof -
  have "impact_of_dict (sort_key fst (wire_items (sorted_impact i))) = Inr (sorted_impact i)"
    using impact_of_dict_cong [OF map_of_sort_key_fst [OF distinct_wire_items]]
      impact_of_wire_items [OF valid_sorted_impact [OF assms]] by simp
  then show ?thesis
    by (simp add: impact_from_wire_def impact_to_wire_items sort_wire_items)
qed

lemma decode_encoded_impact:
  "valid_impact i \<Longrightarrow> decode_impact (Some (encoded_impact i)) = Inr (Some (sorted_impact i))"
  by (simp add: decode_impact_def encoded_impact_def decode_encode_envelope wf_impact_to_wire
      impact_from_sorted_wire)

lemma decode_impact_None [simp]: "decode_impact None = Inr None"
  by (simp add: decode_impact_def impact_from_wire_def)

section \<open>Start claims read back\<close>

lemma start_claim_of_Inr:
  "start_claim_of token obs = Inr claim \<Longrightarrow>
     token \<noteq> [] \<and> sl_submission_claim_id claim = token
     \<and> normalize_observability_id (JStr obs) = Some (sl_observability_id claim)"
  by (auto simp: start_claim_of_def start_claim_from_payload_def dict_get_none_def
      split: option.splits if_splits)

lemma decoded_encoded_start_claim:
  assumes "sl_submission_claim_id claim \<noteq> []"
    and "normalize_observability_id (JStr (sl_observability_id claim)) = Some (sl_observability_id claim)"
  shows "decoded_start_claim (Some (encoded_start_claim claim)) = Some claim"
  using assms
  by (simp add: decoded_start_claim_def encoded_start_claim_def decode_encode_envelope
      start_claim_payload_def start_claim_from_payload_def dict_get_none_def)

lemma decoded_start_claim_of:
  "start_claim_of token obs = Inr claim \<Longrightarrow> decoded_start_claim (Some (encoded_start_claim claim)) = Some claim"
  using start_claim_of_Inr normalize_idem decoded_encoded_start_claim by metis

lemma decoded_start_claim_None [simp]: "decoded_start_claim None = None"
  by (simp add: decoded_start_claim_def start_claim_from_payload_def)

context cache_store
begin

lemma claim_start_law:
  assumes "ctx_client ctx = client" and "start_claim_of token obs = Inr claim"
  shows "\<exists>w'. claim_start ctx identity target token obs w =
       (Inr (live w (start_claim_key ctx identity target) = None), w')
     \<and> live w' = (if live w (start_claim_key ctx identity target) = None
                  then (live w)(start_claim_key ctx identity target \<mapsto> encoded_start_claim claim)
                  else live w)"
proof -
  have "encoded_start_claim claim \<noteq> []"
    by (simp add: encoded_start_claim_def encode_envelope_def dumps_canonical_def)
  from acquire_claim_law [OF this, of REFORM_IMPACT_START_CLAIM_TTL_SECONDS] assms show ?thesis
    by (simp add: claim_start_def act_simps bindA_def REFORM_IMPACT_START_CLAIM_TTL_SECONDS_def)
qed

lemma get_start_claim_law:
  assumes "ctx_client ctx = client"
  shows "\<exists>w'. get_start_claim ctx identity target w =
       ((case live w (start_claim_key ctx identity target) of
           None \<Rightarrow> Inr None
         | Some doc \<Rightarrow>
             (case decoded_start_claim (Some doc) of
                None \<Rightarrow> Inl (CacheCoordinationError ''reform-impact submission ownership is unreadable'')
              | Some claim \<Rightarrow> Inr (Some claim))), w')
     \<and> live w' = live w"
proof -
  obtain w' where "cl_get client (start_claim_key ctx identity target) w =
      (Inr (live w (start_claim_key ctx identity target)), w')" "live w' = live w"
    using get_law by blast
  then show ?thesis
    by (intro exI [of _ w'])
      (auto simp: get_start_claim_def assms act_simps bindA_def catchA_def split: option.splits)
qed

lemma release_start_law:
  assumes "ctx_client ctx = client" and "start_claim_of token obs = Inr claim"
  shows "\<exists>w'. release_start ctx identity target token obs w =
       (Inr (live w (start_claim_key ctx identity target) = Some (encoded_start_claim claim)), w')
     \<and> live w' = (if live w (start_claim_key ctx identity target) = Some (encoded_start_claim claim)
                  then (live w)(start_claim_key ctx identity target := None) else live w)"
  using release_claim_law [of "start_claim_key ctx identity target" "encoded_start_claim claim" w] assms(2)
  by (simp add: release_start_def assms(1) act_simps bindA_def)

end

section \<open>Writes and reads over the contract\<close>

lemma lawful_index_commands [simp]: "0 < ttl \<Longrightarrow> list_all lawful_command (index_commands i k s ttl)"
  by (simp add: index_commands_def)

lemma live_index_commands [simp]: "fold command_live (index_commands i k s ttl) l = l"
  by (simp add: index_commands_def)

definition has_id :: "string option \<Rightarrow> bool" where
  "has_id e \<longleftrightarrow> (case e of None \<Rightarrow> False | Some s \<Rightarrow> s \<noteq> [])"

lemma int_or_positive: "0 < ttl \<Longrightarrow> (\<forall>s. r = Some s \<longrightarrow> 0 \<le> s) \<Longrightarrow> 0 < int_or r ttl"
  by (auto simp: int_or_def split: option.splits)

text \<open>
  The pipeline of a client between whose commands other workers act: \<open>others\<close> runs just
  before the commands, after whatever the operation has read.
\<close>

definition interrupted :: "('x mem_scheme \<Rightarrow> 'x mem_scheme) \<Rightarrow> 'x mem_scheme cache_client" where
  "interrupted others = mem_client\<lparr>cl_execute := \<lambda>cs m. cl_execute mem_client cs (others m)\<rparr>"

lemma interrupted_parts:
  "cl_get (interrupted others) = cl_get mem_client"
  "cl_execute (interrupted others) = (\<lambda>cs m. cl_execute mem_client cs (others m))"
  by (simp_all add: interrupted_def)

context cache_pipeline
begin

lemma set_impact_between:
  assumes "cl_execute (ctx_client ctx) = (\<lambda>cs w. cl_execute client cs (others w))"
    and "has_id (text_or rid (im_execution_id impact))"
    and "default_jittered_ttl (ctx_draw ctx) REFORM_IMPACT_TTL_SECONDS = Inr ttl"
    and "\<forall>s. record_ttl = Some s \<longrightarrow> 0 \<le> s"
  defines "k \<equiv> record_key ctx (text_or rid (im_execution_id impact))"
  shows "\<exists>w'. set_impact ctx impact rid record_ttl only_if_present w =
       (Inr (\<not> only_if_present \<or> live (others w) k \<noteq> None), w')
     \<and> live w' = (if only_if_present \<and> live (others w) k = None then live (others w)
                  else (live (others w))(k \<mapsto> encoded_impact impact))"
proof -
  let ?opts = "\<lparr>so_ex = Some (int_or record_ttl ttl), so_nx = False, so_xx = only_if_present\<rparr>"
  let ?cs = "set_commands ctx impact k record_ttl only_if_present ttl w"
  have t: "0 < ttl" using default_jittered_ttl_Inr [OF assms(3)] by simp
  have p: "positive_ttl ?opts" using int_or_positive [OF t assms(4)] by (simp add: positive_ttl_def)
  have lawful: "list_all lawful_command ?cs" using t p by (simp add: set_commands_def)
  obtain rs w' where e: "cl_execute client ?cs (others w) = (Inr rs, w')"
    and l: "live w' = fold command_live ?cs (live (others w))"
    and f: "\<And>k v opts cs'. ?cs = CSet k v opts # cs' \<longrightarrow> rs \<noteq> [] \<and> hd rs = set_reply opts (live (others w) k)"
    using execute_law [OF lawful, of "others w"] by blast
  have l': "live w' = (if write_blocked ?opts (live (others w) k) then live (others w)
      else (live (others w))(k \<mapsto> encoded_impact impact))"
    using l by (simp add: set_commands_def)
  have h: "hd rs = set_reply ?opts (live (others w) k)" using f by (simp add: set_commands_def)
  have id: "text_or rid (im_execution_id impact) \<noteq> None" "text_or rid (im_execution_id impact) \<noteq> Some []"
    using assms(2) by (auto simp: has_id_def split: option.splits)
  show ?thesis
    using e l' h id
    by (intro exI [of _ w'])
      (simp add: set_impact_def assms(1,3) k_def [symmetric] Let_def act_simps catchA_def bindA_def
        set_reply_def write_blocked_def)
qed

lemma set_impact_law:
  assumes "ctx_client ctx = client" and "has_id (text_or rid (im_execution_id impact))"
    and "default_jittered_ttl (ctx_draw ctx) REFORM_IMPACT_TTL_SECONDS = Inr ttl"
    and "\<forall>s. record_ttl = Some s \<longrightarrow> 0 \<le> s"
  defines "k \<equiv> record_key ctx (text_or rid (im_execution_id impact))"
  shows "\<exists>w'. set_impact ctx impact rid record_ttl only_if_present w =
       (Inr (\<not> only_if_present \<or> live w k \<noteq> None), w')
     \<and> live w' = (if only_if_present \<and> live w k = None then live w
                  else (live w)(k \<mapsto> encoded_impact impact))"
  unfolding k_def by (rule set_impact_between [where others = "\<lambda>w. w", OF _ assms(2-4)]) (simp add: assms(1))

lemma get_by_execution_id_law:
  assumes "cl_get (ctx_client ctx) = cl_get client"
  shows "\<exists>w'. get_by_execution_id ctx e w = (decode_impact (live w (record_key ctx (Some e))), w')
     \<and> live w' = live w"
proof -
  obtain w' where "cl_get client (record_key ctx (Some e)) w = (Inr (live w (record_key ctx (Some e))), w')"
      "live w' = live w"
    using get_law by blast
  then show ?thesis
    by (intro exI [of _ w']) (simp add: get_by_execution_id_def assms act_simps catchA_def bindA_def)
qed

text \<open>
  An update of a record that is gone when it is read or when it is written writes no record;
  of one that is there, only that key.
\<close>

lemma update_impact_between:
  fixes clear :: bool and changes :: "cached_impact \<Rightarrow> cached_impact"
  assumes "cl_get (ctx_client ctx) = cl_get client"
    and "cl_execute (ctx_client ctx) = (\<lambda>cs w. cl_execute client cs (others w))"
    and "\<And>w. live (others w) = act (live w)" and "e \<noteq> []"
    and "default_jittered_ttl (ctx_draw ctx) REFORM_IMPACT_TTL_SECONDS = Inr ttl"
    and "\<forall>s. record_ttl = Some s \<longrightarrow> 0 \<le> s"
  defines "k \<equiv> record_key ctx (Some e)"
    and "upd \<equiv> \<lambda>i. if clear then (changes i)\<lparr>im_execution_id := None\<rparr> else changes i"
  shows "\<exists>w'. update_impact ctx e clear record_ttl changes w =
       ((case decode_impact (live w k) of
           Inl x \<Rightarrow> Inl x
         | Inr None \<Rightarrow> Inr None
         | Inr (Some i) \<Rightarrow> Inr (if act (live w) k = None then None else Some (upd i))), w')
     \<and> live w' = (case decode_impact (live w k) of
           Inr (Some i) \<Rightarrow>
             (if act (live w) k = None then act (live w) else (act (live w))(k \<mapsto> encoded_impact (upd i)))
         | _ \<Rightarrow> live w)"
proof -
  obtain w1 where g: "get_by_execution_id ctx e w = (decode_impact (live w k), w1)" "live w1 = live w"
    unfolding k_def using get_by_execution_id_law [OF assms(1)] by blast
  show ?thesis
  proof (cases "decode_impact (live w k)")
    case (Inl x)
    with g show ?thesis by (simp add: update_impact_def bindA_def)
  next
    case (Inr found)
    show ?thesis
    proof (cases found)
      case None
      with g Inr show ?thesis by (simp add: update_impact_def bindA_def retA_def)
    next
      case (Some i)
      have id: "text_or (Some e) j = Some e" for j using assms(4) by (simp add: text_or_def)
      have "has_id (text_or (Some e) (im_execution_id (upd i)))" using assms(4) by (simp add: id has_id_def)
      from set_impact_between [OF assms(2) this assms(5,6), of True w1]
      obtain w2 where "set_impact ctx (upd i) (Some e) record_ttl True w1 = (Inr (act (live w) k \<noteq> None), w2)"
          "live w2 = (if act (live w) k = None then act (live w)
                      else (act (live w))(k \<mapsto> encoded_impact (upd i)))"
        by (auto simp: id g(2) k_def assms(3))
      with g Inr Some show ?thesis
        by (intro exI [of _ w2]) (simp add: update_impact_def upd_def bindA_def retA_def Let_def)
    qed
  qed
qed

end

section \<open>Properties\<close>

text \<open>
  Every record the cache writes is read back as the same impact, its dicts with sorted
  keys: dates keep their microseconds and missing fields stay missing.
\<close>

theorem impact_wire_roundtrip:
  assumes "valid_impact i"
  shows "decode_impact (Some (encoded_impact i)) = Inr (Some (sorted_impact i))"
  using assms by (rule decode_encoded_impact)

definition example_impact :: cached_impact where
  "example_impact =
     \<lparr>im_reform_impact_id = 7, im_baseline_policy_id = 2, im_reform_policy_id = 5,
      im_country_id = ''us'', im_region = ''us'', im_dataset = ''default'', im_time_period = ''2026'',
      im_options_json = JObj [], im_options_hash = Some ''[dataset=default]'',
      im_api_version = ''v1'', im_reform_impact_json = JObj [], im_status = ''computing'',
      im_message = None, im_start_time = Some ((2026, 2, 28), 23, 59, 59, 999999),
      im_end_time = None, im_execution_id = Some ''job-1'', im_error_code = None,
      im_observability_id = None\<rparr>"

lemma valid_example_impact: "valid_impact example_impact"
  by (simp add: valid_impact_def example_impact_def calendar_date.simps days_in_month_def is_leap_def)

theorem impact_wire_roundtrip_witness:
  "decode_impact (Some (encoded_impact example_impact)) = Inr (Some (sorted_impact example_impact))"
  using valid_example_impact by (rule impact_wire_roundtrip)

text \<open>
  C35. On the in-memory backend an update never puts back a record that is gone, even when
  other workers delete it, let it expire or rewrite it between its read and its write: it
  then writes no record and returns None. A record still there at the write is rewritten under the same key
  with the changes applied to what was read, and every other key keeps the value the others
  left. The indexes may then list a key that has no record, which lookups skip.
\<close>

theorem update_never_resurrects:
  fixes ctx :: "'x mem_scheme cache_context"
  assumes "ctx_client ctx = interrupted others" and "\<And>m. mem_live (others m) = act (mem_live m)"
    and "e \<noteq> []" and "default_jittered_ttl (ctx_draw ctx) REFORM_IMPACT_TTL_SECONDS = Inr ttl"
    and "\<forall>s. record_ttl = Some s \<longrightarrow> 0 \<le> s"
    and "update_impact ctx e clear record_ttl changes m = (r, m')"
  shows "case decode_impact (mem_live m (record_key ctx (Some e))) of
       Inl x \<Rightarrow> r = Inl x \<and> mem_live m' = mem_live m
     | Inr None \<Rightarrow> r = Inr None \<and> mem_live m' = mem_live m
     | Inr (Some i) \<Rightarrow>
         (let written = (if clear then (changes i)\<lparr>im_execution_id := None\<rparr> else changes i)
          in if act (mem_live m) (record_key ctx (Some e)) = None
             then r = Inr None \<and> mem_live m' = act (mem_live m)
             else r = Inr (Some written)
               \<and> mem_live m' = (act (mem_live m))(record_key ctx (Some e) \<mapsto> encoded_impact written))"
proof -
  have parts: "cl_get (ctx_client ctx) = cl_get mem_client"
    "cl_execute (ctx_client ctx) = (\<lambda>cs m. cl_execute mem_client cs (others m))"
    using assms(1) by (simp_all add: interrupted_parts)
  from memory.update_impact_between [OF parts assms(2-5), of clear changes m] assms(6)
  show ?thesis by (auto simp: Let_def split: sum.splits option.splits)
qed

text \<open>Another worker that deletes every key, and a memory that holds one record.\<close>

definition cleared :: "'x mem_scheme \<Rightarrow> 'x mem_scheme" where
  "cleared m = m\<lparr>mem_values := (\<lambda>k. None)\<rparr>"

lemma cleared_live: "mem_live (cleared m) = (\<lambda>k. None)"
  by (rule ext) (simp add: cleared_def mem_live_def split: option.split)

definition interrupted_context :: "mem cache_context" where
  "interrupted_context = memory_context\<lparr>ctx_client := interrupted cleared\<rparr>"

definition one_record :: mem where
  "one_record = empty_mem\<lparr>mem_values :=
     [record_key interrupted_context (Some ''job-1'') \<mapsto> encoded_impact example_impact]\<rparr>"

theorem update_never_resurrects_witness:
  "fst (update_impact interrupted_context ''job-1'' True (Some 60) (\<lambda>i. i\<lparr>im_status := ''ok''\<rparr>) one_record)
     = Inr None
   \<and> decode_impact (mem_live one_record (record_key interrupted_context (Some ''job-1'')))
     = Inr (Some (sorted_impact example_impact))"
proof -
  let ?run = "update_impact interrupted_context ''job-1'' True (Some 60) (\<lambda>i. i\<lparr>im_status := ''ok''\<rparr>) one_record"
  have client: "ctx_client interrupted_context = interrupted cleared"
    by (simp add: interrupted_context_def)
  have ttl: "default_jittered_ttl (ctx_draw interrupted_context) REFORM_IMPACT_TTL_SECONDS = Inr 2592000"
    by (simp add: interrupted_context_def memory_context_def default_jittered_ttl_def jittered_ttl_def
        COMPLETED_RESULT_TTL_JITTER_FRACTION_def REFORM_IMPACT_TTL_SECONDS_def)
  have "mem_live one_record (record_key interrupted_context (Some ''job-1''))
      = Some (encoded_impact example_impact)"
    by (simp add: one_record_def mem_live_def empty_mem_def)
  then have stored: "decode_impact (mem_live one_record (record_key interrupted_context (Some ''job-1'')))
      = Inr (Some (sorted_impact example_impact))"
    by (simp add: decode_encoded_impact [OF valid_example_impact])
  from update_never_resurrects [OF client cleared_live _ ttl _ prod.collapse [symmetric],
      of "''job-1''" "Some 60" True "\<lambda>i. i\<lparr>im_status := ''ok''\<rparr>" one_record] stored
  show ?thesis by simp
qed

text \<open>
  Each index keeps the newest 1,000 records: after the commands that index a record,
  the index holds, in the order of its scores, exactly the last 1,000 of the entries it had
  with the record's score set.
\<close>

theorem index_keeps_newest:
  fixes m :: "'x mem_scheme"
  assumes "zsets_ok m" and "0 < ttl"
    and entries_def: "entries = AList.update key sc (zset_of index (mem_purge index m))"
  shows "ordered (zset_of index (snd (mem_execute (index_commands index key sc ttl) m))) =
     drop (length entries - 1000) (ordered entries)"
proof -
  let ?m1 = "snd (mem_zadd index [(key, sc)] m)"
  let ?m2 = "snd (mem_zremrangebyrank index 0 (- 1001) ?m1)"
  have live: "mem_purge index (mem_purge index n) = mem_purge index n" for n :: "'x mem_scheme"
    by (auto simp: mem_purge_def mem_drop_def split: option.splits)
  have exp1: "mem_expires ?m1 = mem_expires (mem_purge index m)" "mem_time ?m1 = mem_time m"
    by (simp_all add: mem_zadd_def Let_def)
  have purged: "mem_purge index n = n"
    if "mem_expires n = mem_expires (mem_purge index m)" "mem_time n = mem_time m" for n :: "'x mem_scheme"
    using that by (auto simp: mem_purge_def mem_drop_def split: option.splits)
  have z1: "zset_of index (mem_purge index ?m1) = entries"
    unfolding purged [OF exp1]
    by (simp add: mem_zadd_def Let_def entries_def zset_of_def)
  have ok1: "zsets_ok ?m1" using assms(1) by (rule zsets_ok_zadd)
  have z2: "ordered (zset_of index ?m2) = drop (length entries - 1000) (ordered entries)"
    using mem_trim_ordered [OF ok1, of 1000 index] by (simp add: z1)
  have exp2: "mem_expires ?m2 = mem_expires (mem_purge index m)" "mem_time ?m2 = mem_time m"
    using exp1 purged [OF exp1] by (simp_all add: mem_zremrangebyrank_def mem_zrem_def Let_def)
  have z3: "zset_of index (snd (mem_expire index ttl ?m2)) = zset_of index ?m2"
    unfolding mem_expire_def Let_def purged [OF exp2] by (simp add: zset_of_def)
  show ?thesis
    by (simp add: index_commands_def REFORM_IMPACT_INDEX_LIMIT_def Let_def case_prod_unfold z3 z2)
qed

theorem index_keeps_newest_witness:
  "ordered (zset_of ''i'' (snd (mem_execute (index_commands ''i'' ''k'' 5 60) empty_mem))) = [(''k'', 5)]"
  using index_keeps_newest [of empty_mem 60 "[(''k'', 5)]" "''k''" 5 "''i''"]
  by (simp add: zsets_ok_def empty_mem_def mem_purge_def zset_of_def ordered_def)

end
