(* ===== verification/Simulation_Entrypoint.thy ===== *)
theory Simulation_Entrypoint
  imports Worker_SPM Reform_Impact_Cache
begin

text \<open>
  \<open>policyengine_api/libs/simulation_entrypoint.py\<close>: the client of the simulation service,
  over an HTTP client that is a field of its record. A response is its status, its body,
  and the text of the error \<open>raise_for_status\<close> makes of it.

  The fields the service's documents hold are read at the types their schema gives them:
  where Python would pass a job identifier, a status, an application name or a list of
  years of another type on unchecked, the model raises \<open>OtherError\<close>. Logging, the base
  URL, the request headers and gateway authentication are not modelled.
\<close>

section \<open>The HTTP client\<close>

record http_response =
  hr_status :: int
  hr_text :: string
  hr_error :: string

record 'w entrypoint =
  en_get :: "string \<Rightarrow> ('w, http_response) act"
  en_post :: "string \<Rightarrow> json \<Rightarrow> ('w, http_response) act"
  en_install :: spm_install
  en_policyengine_version :: string
  en_country_versions :: "string \<Rightarrow> string option"
  en_run_progress :: "json \<Rightarrow> json option"

definition response_json :: "http_response \<Rightarrow> json result" where
  "response_json r =
     (case loads (hr_text r) of None \<Rightarrow> Inl (ValueError ''JSONDecodeError'') | Some v \<Rightarrow> Inr v)"

definition raise_for_status :: "http_response \<Rightarrow> unit result" where
  "raise_for_status r =
     (if 200 \<le> hr_status r \<and> hr_status r \<le> 299 then Inr ()
      else Inl (HTTPStatusError (hr_status r) (hr_text r) (hr_error r)))"

definition check_typed_error :: "http_response \<Rightarrow> unit result" where
  "check_typed_error r = raise_worker_spm_error (hr_status r) (loads (hr_text r))"

definition entrypoint_get :: "'w entrypoint \<Rightarrow> string \<Rightarrow> ('w, http_response) act" where
  "entrypoint_get en path =
     catchA (en_get en path)
       (\<lambda>e. case e of
          HTTPRequestError True m \<Rightarrow>
            raiseA (EntrypointConnectionError (''No response from the simulation service to GET '' @ path))
        | _ \<Rightarrow> raiseA e)"

section \<open>Worker bundles\<close>

fun text_json :: "json \<Rightarrow> string option" where
  "text_json (JStr s) = (if s = [] then None else Some s)"
| "text_json v = None"

text \<open>The routes of a kind, the application a version routes to, and an application's bundle.\<close>

definition route_map :: "(string \<times> json) list \<Rightarrow> string \<Rightarrow> (string \<times> json) list result" where
  "route_map vs kind =
     res_bind (dict_item vs kind) (\<lambda>routes.
       case routes of JObj rs \<Rightarrow> Inr rs | _ \<Rightarrow> Inl (TypeErr ''Invalid worker route map''))"

definition routed_app :: "(string \<times> json) list \<Rightarrow> string option \<Rightarrow> (string \<times> string) result" where
  "routed_app rs wanted =
     res_bind (if wanted = None \<or> wanted = Some ''latest'' then dict_item rs ''latest''
               else Inr (JStr (the wanted))) (\<lambda>rv.
       case text_json rv of
         None \<Rightarrow> Inl (ValueError ''Invalid worker route version'')
       | Some route_version \<Rightarrow>
           res_bind (dict_item rs route_version) (\<lambda>app.
             case text_json app of
               None \<Rightarrow> Inl (ValueError ''Invalid worker application identity'')
             | Some app_name \<Rightarrow> Inr (route_version, app_name)))"

definition unique_bundle :: "(string \<times> json) list \<Rightarrow> string \<Rightarrow> string result" where
  "unique_bundle vs app_name =
     res_bind (dict_item vs ''policyengine'') (\<lambda>bundle_routes.
       case bundle_routes of
         JObj bs \<Rightarrow>
           if list_ex (\<lambda>(b, a). b = [] \<or> text_json a = None) bs
           then Inl (ValueError ''Invalid worker bundle route map'')
           else (case map fst (filter (\<lambda>(b, a). b \<noteq> ''latest'' \<and> a = JStr app_name) bs) of
                   [b] \<Rightarrow> Inr b
                 | _ \<Rightarrow> Inl (ValueError ''Worker route has no unambiguous bundle identity''))
       | _ \<Rightarrow> Inl (ValueError ''Invalid worker bundle route map''))"

definition worker_bundle_version ::
  "json \<Rightarrow> string \<Rightarrow> string option \<Rightarrow> string option \<Rightarrow> string result" where
  "worker_bundle_version versions country version policyengine_version =
     (case versions of
        JObj vs \<Rightarrow>
          (let pe = (case policyengine_version of Some p \<Rightarrow> p \<noteq> [] | None \<Rightarrow> False)
           in res_bind (route_map vs (if pe then ''policyengine'' else country)) (\<lambda>rs.
                res_bind (routed_app rs (if pe then policyengine_version else version))
                  (\<lambda>(route_version, app_name).
                     if pe then Inr route_version else unique_bundle vs app_name)))
      | _ \<Rightarrow> Inl (TypeErr ''Invalid worker versions response''))"

fun is_capability_error :: "exn \<Rightarrow> bool" where
  "is_capability_error (HTTPStatusError code body m) = True"
| "is_capability_error (HTTPRequestError transport m) = True"
| "is_capability_error (KeyErr m) = True"
| "is_capability_error (TypeErr m) = True"
| "is_capability_error e = is_value_error e"

definition get_spm_capability ::
  "'w entrypoint \<Rightarrow> string \<Rightarrow> string option \<Rightarrow> string option \<Rightarrow> ('w, json) act" where
  "get_spm_capability en country version policyengine_version =
     catchA
       (bindA (entrypoint_get en ''/versions'') (\<lambda>response.
          liftA (res_bind (raise_for_status response) (\<lambda>u.
            res_bind (response_json response) (\<lambda>versions.
              res_bind (worker_bundle_version versions country version policyengine_version) (\<lambda>b.
                case versions of
                  JObj vs \<Rightarrow>
                    Inr (case map_of vs ''spm_capabilities'' of
                           Some (JObj caps) \<Rightarrow> dict_get_none caps b | _ \<Rightarrow> JNull)
                | _ \<Rightarrow> Inr JNull))))))
       (\<lambda>e. if is_capability_error e
            then raiseA (SPMValidationError ''SPM_CONFIGURATION_UNAVAILABLE''
                   (''Cannot validate the selected worker'' @ [CHR 0x27] @ ''s canonical SPM capability''))
            else raiseA e)"

text \<open>\<open>validate_worker_spm\<close> with this client as its gateway.\<close>

definition gateway_worker_spm ::
  "'w entrypoint \<Rightarrow> string \<Rightarrow> json \<Rightarrow> string option \<Rightarrow> string option \<Rightarrow> ('w, json) act" where
  "gateway_worker_spm en country selection policyengine_version model_version =
     validate_worker_spm (en_install en) (get_spm_capability en) country selection
       policyengine_version model_version"

section \<open>Application names\<close>

definition route_text :: "json \<Rightarrow> string result" where
  "route_text v = (case v of JStr s \<Rightarrow> Inr s | _ \<Rightarrow> Inl (OtherError ''application name''))"

definition lookup_route :: "json \<Rightarrow> string \<Rightarrow> string \<Rightarrow> string result" where
  "lookup_route routes key message =
     (case routes of
        JObj d \<Rightarrow> (case map_of d key of None \<Rightarrow> Inl (ValueError message) | Some v \<Rightarrow> route_text v)
      | _ \<Rightarrow> Inl (TypeErr ''version map''))"

definition resolve_app_name ::
  "'w entrypoint \<Rightarrow> string \<Rightarrow> string option \<Rightarrow> string option \<Rightarrow> ('w, string \<times> string) act" where
  "resolve_app_name en country version policyengine_version =
     (case policyengine_version of
        Some pv \<Rightarrow>
          bindA (entrypoint_get en ''/versions/policyengine'') (\<lambda>response.
            liftA (res_bind (check_typed_error response) (\<lambda>u.
              res_bind (raise_for_status response) (\<lambda>u.
                res_bind (response_json response) (\<lambda>routes.
                  res_bind (lookup_route routes pv (''Unknown policyengine version '' @ pv)) (\<lambda>app.
                    Inr (app, the (text_or version (Some pv)))))))))
      | None \<Rightarrow>
          bindA (entrypoint_get en (''/versions/'' @ country)) (\<lambda>response.
            liftA (res_bind (raise_for_status response) (\<lambda>u.
              res_bind (response_json response) (\<lambda>routes.
                res_bind
                  (case text_or version None of
                     Some v \<Rightarrow> Inr v
                   | None \<Rightarrow>
                       (case routes of JObj d \<Rightarrow> res_bind (dict_item d ''latest'') route_text
                        | _ \<Rightarrow> Inl (TypeErr ''version map''))) (\<lambda>resolved.
                  res_bind (lookup_route routes resolved
                              (''Unknown version '' @ resolved @ '' for country '' @ country)) (\<lambda>app.
                    Inr (app, resolved))))))))"

section \<open>Submissions\<close>

definition payload_text :: "(string \<times> json) list \<Rightarrow> string \<Rightarrow> string option" where
  "payload_text payload k = (case map_of payload k of Some (JStr s) \<Rightarrow> Some s | _ \<Rightarrow> None)"

text \<open>The payload with its certified selection, and without nulls and under the posted names.\<close>

definition with_certified_selection ::
  "json \<Rightarrow> string \<Rightarrow> (string \<times> json) list \<Rightarrow> (string \<times> json) list" where
  "with_certified_selection resolved bundle_version payload =
     (if resolved = JNull then payload
      else AList.update ''policyengine_version'' (JStr bundle_version)
             (AList.update ''spm'' resolved payload))"

definition modal_fields :: "(string \<times> json) list \<Rightarrow> (string \<times> json) list" where
  "modal_fields payload =
     (let modal_payload = filter (\<lambda>(k, v). v \<noteq> JNull) payload
      in case map_of modal_payload ''model_version'' of
           None \<Rightarrow> modal_payload
         | Some v \<Rightarrow> AList.update ''version'' v (AList.delete ''model_version'' modal_payload))"

definition payload_country :: "(string \<times> json) list \<Rightarrow> string" where
  "payload_country payload = (case payload_text payload ''country'' of Some c \<Rightarrow> c | None \<Rightarrow> ''us'')"

definition normalize_submission_payload ::
  "'w entrypoint \<Rightarrow> (string \<times> json) list \<Rightarrow> ('w, (string \<times> json) list) act" where
  "normalize_submission_payload en payload =
     (if map_of payload ''data'' \<noteq> None \<or> map_of payload ''data_version'' \<noteq> None
      then raiseA (ValueError ''Dataset overrides are not supported'')
      else
        (let country = payload_country payload;
             bundle_version = the (text_or (payload_text payload ''policyengine_version'')
                                     (Some (en_policyengine_version en)))
         in bindA (gateway_worker_spm en country (dict_get_none payload ''spm'') (Some bundle_version)
                     (text_or (payload_text payload ''model_version'') (en_country_versions en country)))
              (\<lambda>resolved.
                 if resolved \<noteq> JNull \<and> bundle_version = ''latest''
                 then raiseA (SPMValidationError ''SPM_SETTINGS_INVALID''
                        ''Canonical SPM execution requires an exact PolicyEngine version'')
                 else retA (modal_fields (with_certified_selection resolved bundle_version payload)))))"

record sim_execution =
  ex_job_id :: string
  ex_status :: string
  ex_result :: json
  ex_error :: json
  ex_policyengine_bundle :: json
  ex_resolved_app_name :: json
  ex_run_progress :: "json option"

record batch_execution =
  bx_batch_job_id :: string
  bx_status :: string
  bx_progress :: "int option"
  bx_completed_years :: "string list"
  bx_running_years :: "string list"
  bx_queued_years :: "string list"
  bx_failed_years :: "string list"
  bx_result :: json
  bx_error :: json

definition document :: "json \<Rightarrow> (string \<times> json) list result" where
  "document v = (case v of JObj d \<Rightarrow> Inr d | _ \<Rightarrow> Inl (OtherError ''response document''))"

definition document_text :: "(string \<times> json) list \<Rightarrow> string \<Rightarrow> string result" where
  "document_text d k = res_bind (dict_item d k)
     (\<lambda>v. case v of JStr s \<Rightarrow> Inr s | _ \<Rightarrow> Inl (OtherError k))"

definition document_years :: "(string \<times> json) list \<Rightarrow> string \<Rightarrow> string list result" where
  "document_years d k =
     (case read_str_list (map_of d k) of None \<Rightarrow> Inl (OtherError k) | Some ys \<Rightarrow> Inr ys)"

definition document_int :: "(string \<times> json) list \<Rightarrow> string \<Rightarrow> int option result" where
  "document_int d k =
     (case map_of d k of
        None \<Rightarrow> Inr None | Some JNull \<Rightarrow> Inr None | Some (JInt i) \<Rightarrow> Inr (Some i)
      | Some v \<Rightarrow> Inl (OtherError k))"

text \<open>A submission's response, through the typed errors and the status check.\<close>

definition submitted_document :: "http_response \<Rightarrow> (string \<times> json) list result" where
  "submitted_document response =
     res_bind (check_typed_error response) (\<lambda>u.
       res_bind (raise_for_status response) (\<lambda>u.
         res_bind (response_json response) document))"

definition polled_document :: "http_response \<Rightarrow> (string \<times> json) list result" where
  "polled_document response =
     res_bind (check_typed_error response) (\<lambda>u.
       res_bind (if hr_status response \<in> {200, 202, 500} then Inr () else raise_for_status response) (\<lambda>u.
         res_bind (response_json response) document))"

definition run_simulation :: "'w entrypoint \<Rightarrow> (string \<times> json) list \<Rightarrow> ('w, sim_execution) act" where
  "run_simulation en payload =
     bindA (normalize_submission_payload en payload) (\<lambda>modal_payload.
       bindA (en_post en ''/simulate/economy/comparison'' (JObj modal_payload)) (\<lambda>response.
         liftA (res_bind (submitted_document response) (\<lambda>d.
           res_bind (document_text d ''job_id'') (\<lambda>job_id.
             res_bind (document_text d ''status'') (\<lambda>status.
               Inr \<lparr>ex_job_id = job_id, ex_status = status, ex_result = JNull, ex_error = JNull,
                    ex_policyengine_bundle = dict_get_none d ''policyengine_bundle'',
                    ex_resolved_app_name = dict_get_none d ''resolved_app_name'',
                    ex_run_progress = None\<rparr>))))))"

definition run_budget_window_batch ::
  "'w entrypoint \<Rightarrow> (string \<times> json) list \<Rightarrow> ('w, batch_execution) act" where
  "run_budget_window_batch en payload =
     bindA (normalize_submission_payload en payload) (\<lambda>modal_payload.
       bindA (en_post en ''/simulate/economy/budget-window'' (JObj modal_payload)) (\<lambda>response.
         liftA (res_bind (submitted_document response) (\<lambda>d.
           res_bind (document_text d ''batch_job_id'') (\<lambda>job_id.
             res_bind (document_text d ''status'') (\<lambda>status.
               Inr \<lparr>bx_batch_job_id = job_id, bx_status = status, bx_progress = None,
                    bx_completed_years = [], bx_running_years = [], bx_queued_years = [],
                    bx_failed_years = [], bx_result = JNull, bx_error = JNull\<rparr>))))))"

section \<open>Polling\<close>

definition get_execution_by_id :: "'w entrypoint \<Rightarrow> string \<Rightarrow> ('w, sim_execution) act" where
  "get_execution_by_id en job_id =
     bindA (entrypoint_get en (''/jobs/'' @ job_id)) (\<lambda>response.
       liftA (res_bind (polled_document response) (\<lambda>d.
         res_bind (document_text d ''status'') (\<lambda>status.
           Inr \<lparr>ex_job_id = job_id, ex_status = status, ex_result = dict_get_none d ''result'',
                ex_error = dict_get_none d ''error'',
                ex_policyengine_bundle = dict_get_none d ''policyengine_bundle'',
                ex_resolved_app_name = dict_get_none d ''resolved_app_name'',
                ex_run_progress = en_run_progress en (JObj d)\<rparr>))))"

definition get_budget_window_batch_by_id :: "'w entrypoint \<Rightarrow> string \<Rightarrow> ('w, batch_execution) act" where
  "get_budget_window_batch_by_id en batch_job_id =
     bindA (entrypoint_get en (''/budget-window-jobs/'' @ batch_job_id)) (\<lambda>response.
       liftA (res_bind (polled_document response) (\<lambda>d.
         res_bind (document_text d ''status'') (\<lambda>status.
         res_bind (document_int d ''progress'') (\<lambda>progress.
         res_bind (document_years d ''completed_years'') (\<lambda>completed.
         res_bind (document_years d ''running_years'') (\<lambda>running.
         res_bind (document_years d ''queued_years'') (\<lambda>queued.
         res_bind (document_years d ''failed_years'') (\<lambda>failed.
           Inr \<lparr>bx_batch_job_id = batch_job_id, bx_status = status, bx_progress = progress,
                bx_completed_years = completed, bx_running_years = running,
                bx_queued_years = queued, bx_failed_years = failed,
                bx_result = dict_get_none d ''result'', bx_error = dict_get_none d ''error''\<rparr>)))))))))"

section \<open>Properties\<close>

lemma single_map_filter: "map f (filter P xs) = [y] \<Longrightarrow> \<exists>x\<in>set xs. P x \<and> f x = y \<and> (\<forall>z\<in>set xs. P z \<longrightarrow> f z = y)"
proof -
  assume s: "map f (filter P xs) = [y]"
  then obtain x where x: "filter P xs = [x]" "f x = y" by (cases "filter P xs") auto
  have m: "z \<in> set xs \<and> P z \<longleftrightarrow> z = x" for z
    using arg_cong [OF x(1), of set] by auto
  have "x \<in> set xs" "P x" using m [of x] by auto
  moreover have "f z = y" if "z \<in> set xs" "P z" for z using m [of z] that x(2) by auto
  ultimately show ?thesis using x(2) by blast
qed

text \<open>
  The bundle whose SPM capability applies to a country's route is the one bundle,
  other than the alias \<open>latest\<close>, that routes to the application the country's route names.
\<close>

theorem worker_bundle_version_unique:
  assumes "worker_bundle_version versions country version None = Inr b"
  shows "\<exists>vs routes bundles app route. versions = JObj vs
    \<and> map_of vs country = Some (JObj routes) \<and> map_of vs ''policyengine'' = Some (JObj bundles)
    \<and> (route = (case version of None \<Rightarrow> ''latest'' | Some v \<Rightarrow> v)
       \<or> map_of routes ''latest'' = Some (JStr route) \<and> version \<in> {None, Some ''latest''})
    \<and> map_of routes route = Some (JStr app) \<and> app \<noteq> []
    \<and> b \<noteq> ''latest'' \<and> (b, JStr app) \<in> set bundles
    \<and> (\<forall>b'. b' \<noteq> ''latest'' \<and> (b', JStr app) \<in> set bundles \<longrightarrow> b' = b)"
proof -
  obtain vs where vs: "versions = JObj vs"
    using assms by (cases versions) (simp_all add: worker_bundle_version_def)
  have "res_bind (route_map vs country) (\<lambda>rs. res_bind (routed_app rs version)
      (\<lambda>(route_version, app_name). unique_bundle vs app_name)) = Inr b"
    using assms unfolding worker_bundle_version_def vs by simp
  then obtain routes route app where
    routes: "route_map vs country = Inr routes" and
    routed: "routed_app routes version = Inr (route, app)" and
    bnd: "unique_bundle vs app = Inr b"
    unfolding res_bind_Inr_iff by auto
  have texts: "text_json v = Some s \<longleftrightarrow> v = JStr s \<and> s \<noteq> []" for v s by (cases v) auto
  have country: "map_of vs country = Some (JObj routes)"
    using routes by (auto simp: route_map_def dict_item_def split: option.splits json.splits)
  obtain rv where rv: "(if version = None \<or> version = Some ''latest'' then dict_item routes ''latest''
          else Inr (JStr (the version))) = Inr rv" and
    step: "(case text_json rv of
         None \<Rightarrow> Inl (ValueError ''Invalid worker route version'')
       | Some route_version \<Rightarrow>
           res_bind (dict_item routes route_version) (\<lambda>app.
             case text_json app of
               None \<Rightarrow> Inl (ValueError ''Invalid worker application identity'')
             | Some app_name \<Rightarrow> Inr (route_version, app_name))) = Inr (route, app)"
    using routed unfolding routed_app_def res_bind_Inr_iff by blast
  have app: "text_json rv = Some route" "map_of routes route = Some (JStr app)" "app \<noteq> []"
    using step by (cases "text_json rv"; auto simp: res_bind_Inr_iff texts dict_item_def split: option.splits)+
  obtain bundles where bundles: "map_of vs ''policyengine'' = Some (JObj bundles)"
    and pick: "(if list_ex (\<lambda>(b, a). b = [] \<or> text_json a = None) bundles
           then Inl (ValueError ''Invalid worker bundle route map'')
           else (case map fst (filter (\<lambda>(b, a). b \<noteq> ''latest'' \<and> a = JStr app) bundles) of
                   [b] \<Rightarrow> Inr b
                 | _ \<Rightarrow> Inl (ValueError ''Worker route has no unambiguous bundle identity''))) = Inr b"
    using bnd unfolding unique_bundle_def res_bind_Inr_iff dict_item_def
    by (cases "map_of vs ''policyengine''"; cases "the (map_of vs ''policyengine'')") auto
  have single: "map fst (filter (\<lambda>(b, a). b \<noteq> ''latest'' \<and> a = JStr app) bundles) = [b]"
    using pick by (simp split: if_splits list.splits)
  from single_map_filter [OF single]
  have uniq: "b \<noteq> ''latest''" "(b, JStr app) \<in> set bundles"
    "\<forall>b'. b' \<noteq> ''latest'' \<and> (b', JStr app) \<in> set bundles \<longrightarrow> b' = b"
    by auto
  have "route = (case version of None \<Rightarrow> ''latest'' | Some v \<Rightarrow> v)
       \<or> map_of routes ''latest'' = Some (JStr route) \<and> version \<in> {None, Some ''latest''}"
    using rv app(1) by (auto simp: dict_item_def texts split: if_splits option.splits)
  then show ?thesis using vs country bundles app uniq by blast
qed

lemma map_of_filter_values:
  "distinct (map fst xs) \<Longrightarrow>
     map_of (filter (\<lambda>(k, v). P v) xs) k = (case map_of xs k of Some v \<Rightarrow> if P v then Some v else None | None \<Rightarrow> None)"
proof (induction xs)
  case (Cons x xs)
  obtain a v where x: "x = (a, v)" by (cases x)
  have "map_of xs a = None" using Cons.prems x by (simp add: map_of_eq_None_iff)
  then have "map_of (filter (\<lambda>(k, v). P v) xs) a = None"
    by (auto simp: map_of_eq_None_iff)
  with Cons x \<open>map_of xs a = None\<close> show ?case by (auto split: option.splits)
qed simp

lemma distinct_AList_update: "distinct (map fst al) \<Longrightarrow> distinct (map fst (AList.update k v al))"
  by (rule distinct_update)

definition not_null :: "json option \<Rightarrow> json option" where
  "not_null v = (if v = Some JNull then None else v)"

lemma map_of_not_null:
  "distinct (map fst xs) \<Longrightarrow> map_of (filter (\<lambda>(k, v). v \<noteq> JNull) xs) k = not_null (map_of xs k)"
  by (simp add: map_of_filter_values not_null_def split: option.splits)

text \<open>
  C34. What is posted to the simulation service never overrides its dataset and holds no
  null; it is the request's payload, its model version under \<open>version\<close>, with the SPM
  selection the selected worker certified and an exact wrapper version when there is one.
\<close>

theorem submission_payload_certified:
  assumes "normalize_submission_payload en payload w = (Inr modal, w')" and "distinct (map fst payload)"
  shows "\<exists>resolved pv.
      gateway_worker_spm en (payload_country payload) (dict_get_none payload ''spm'') (Some pv)
          (text_or (payload_text payload ''model_version'') (en_country_versions en (payload_country payload))) w
        = (Inr resolved, w')
    \<and> Some JNull \<notin> range (map_of modal)
    \<and> map_of modal ''data'' = None \<and> map_of modal ''data_version'' = None \<and> map_of modal ''model_version'' = None
    \<and> map_of modal ''version'' =
        (case not_null (map_of payload ''model_version'') of Some v \<Rightarrow> Some v
         | None \<Rightarrow> not_null (map_of payload ''version''))
    \<and> (if resolved = JNull then \<forall>k. k \<notin> {''version'', ''model_version''} \<longrightarrow> map_of modal k = not_null (map_of payload k)
       else pv \<noteq> ''latest'' \<and> map_of modal ''spm'' = Some resolved
         \<and> map_of modal ''policyengine_version'' = Some (JStr pv)
         \<and> (\<forall>k. k \<notin> {''spm'', ''policyengine_version'', ''version'', ''model_version''} \<longrightarrow>
              map_of modal k = not_null (map_of payload k)))"
proof -
  define country where "country = payload_country payload"
  define pv where "pv = the (text_or (payload_text payload ''policyengine_version'') (Some (en_policyengine_version en)))"
  have nodata: "map_of payload ''data'' = None" "map_of payload ''data_version'' = None"
    using assms(1) by (auto simp: normalize_submission_payload_def raiseA_def split: if_splits)
  have "bindA (gateway_worker_spm en country (dict_get_none payload ''spm'') (Some pv)
        (text_or (payload_text payload ''model_version'') (en_country_versions en country)))
      (\<lambda>resolved.
         if resolved \<noteq> JNull \<and> pv = ''latest''
         then raiseA (SPMValidationError ''SPM_SETTINGS_INVALID''
                ''Canonical SPM execution requires an exact PolicyEngine version'')
         else retA (modal_fields (with_certified_selection resolved pv payload))) w = (Inr modal, w')"
    using assms(1) nodata unfolding normalize_submission_payload_def country_def pv_def Let_def by simp
  then obtain resolved where
    resolved: "gateway_worker_spm en country (dict_get_none payload ''spm'') (Some pv)
        (text_or (payload_text payload ''model_version'') (en_country_versions en country)) w = (Inr resolved, w')" and
    exact: "resolved = JNull \<or> pv \<noteq> ''latest''" and
    modal: "modal = modal_fields (with_certified_selection resolved pv payload)"
    unfolding bindA_eq_Inr_iff by (auto simp: raiseA_def retA_def split: if_splits)
  define p1 where "p1 = with_certified_selection resolved pv payload"
  have d1: "distinct (map fst p1)"
    using assms(2) by (simp add: p1_def with_certified_selection_def distinct_AList_update)
  have get1: "map_of p1 k =
      (if resolved = JNull then map_of payload k
       else if k = ''policyengine_version'' then Some (JStr pv) else if k = ''spm'' then Some resolved
       else map_of payload k)" for k
    by (simp add: p1_def with_certified_selection_def update_conv)
  have get: "map_of modal k =
      (case not_null (map_of p1 ''model_version'') of
         None \<Rightarrow> not_null (map_of p1 k)
       | Some v \<Rightarrow> if k = ''version'' then Some v else if k = ''model_version'' then None
                 else not_null (map_of p1 k))" for k
    unfolding modal p1_def [symmetric] modal_fields_def Let_def map_of_not_null [OF d1, of "''model_version''"]
    by (simp add: map_of_not_null [OF d1] update_conv delete_conv split: option.splits)
  have mv: "map_of p1 ''model_version'' = map_of payload ''model_version''"
    "map_of p1 ''version'' = map_of payload ''version''" by (simp_all add: get1)
  have nn: "not_null v \<noteq> Some JNull" for v by (simp add: not_null_def)
  have nonull: "map_of modal k \<noteq> Some JNull" for k
    using nn [of "map_of p1 k"] nn [of "map_of p1 ''model_version''"] by (auto simp: get split: option.splits)
  have dropped: "map_of modal ''data'' = None \<and> map_of modal ''data_version'' = None
      \<and> map_of modal ''model_version'' = None"
    using nodata by (simp add: get get1 not_null_def split: option.splits)
  have version: "map_of modal ''version'' =
        (case not_null (map_of payload ''model_version'') of Some v \<Rightarrow> Some v
         | None \<Rightarrow> not_null (map_of payload ''version''))"
    by (simp add: get mv split: option.splits)
  have other: "map_of modal k = not_null (map_of p1 k)" if "k \<notin> {''version'', ''model_version''}" for k
    using that by (simp add: get split: option.splits)
  have certified: "if resolved = JNull
       then \<forall>k. k \<notin> {''version'', ''model_version''} \<longrightarrow> map_of modal k = not_null (map_of payload k)
       else pv \<noteq> ''latest'' \<and> map_of modal ''spm'' = Some resolved
         \<and> map_of modal ''policyengine_version'' = Some (JStr pv)
         \<and> (\<forall>k. k \<notin> {''spm'', ''policyengine_version'', ''version'', ''model_version''} \<longrightarrow>
              map_of modal k = not_null (map_of payload k))"
    using exact other by (cases "resolved = JNull") (simp_all add: get1 not_null_def)
  show ?thesis
  proof (intro exI conjI, rule resolved [unfolded country_def], goal_cases)
    case 1
    show ?case using nonull by (metis rangeE)
  qed (use dropped version certified in blast)+
qed

definition example_versions_doc :: json where
  "example_versions_doc =
     JObj [(''uk'', JObj [(''latest'', JStr ''2.1''), (''2.1'', JStr ''app-7'')]),
           (''policyengine'', JObj [(''latest'', JStr ''app-7''), (''4.0'', JStr ''app-6''), (''4.1'', JStr ''app-7'')])]"

theorem worker_bundle_version_unique_witness:
  "worker_bundle_version example_versions_doc ''uk'' None None = Inr ''4.1''
   \<and> (\<exists>vs. example_versions_doc = JObj vs)"
proof -
  have "worker_bundle_version example_versions_doc ''uk'' None None = Inr ''4.1''" by code_simp
  with worker_bundle_version_unique [OF this] show ?thesis by blast
qed

definition silent_entrypoint :: "'w entrypoint" where
  "silent_entrypoint =
     \<lparr>en_get = (\<lambda>path. raiseA (HTTPRequestError True ''refused'')),
      en_post = (\<lambda>path body. raiseA (HTTPRequestError True ''refused'')),
      en_install = iso_install, en_policyengine_version = ''4.1'',
      en_country_versions = (\<lambda>c. Some ''2.1''), en_run_progress = (\<lambda>v. None)\<rparr>"

definition example_submission :: "(string \<times> json) list" where
  "example_submission = [(''country'', JStr ''uk''), (''spm'', JNull), (''model_version'', JStr ''2.1'')]"

theorem submission_payload_certified_witness:
  "\<exists>modal. normalize_submission_payload silent_entrypoint example_submission () = (Inr modal, ())
     \<and> map_of modal ''version'' = Some (JStr ''2.1'') \<and> Some JNull \<notin> range (map_of modal)"
proof -
  have dist: "distinct (map fst example_submission)" by (simp add: example_submission_def)
  have uk: "gateway_worker_spm silent_entrypoint (payload_country example_submission) JNull p v () = (Inr JNull, ())"
    for p v
    by (simp add: example_submission_def payload_country_def payload_text_def Let_def
        gateway_worker_spm_def validate_worker_spm_def normalize_spm_selection_def
        py_lower_def lower_char_def act_simps bindA_def retA_def liftA_def)
  have get: "dict_get_none example_submission ''spm'' = JNull" "map_of example_submission ''spm'' = Some JNull"
    "map_of example_submission ''model_version'' = Some (JStr ''2.1'')"
    "map_of example_submission ''data'' = None" "map_of example_submission ''data_version'' = None"
    by (simp_all add: example_submission_def dict_get_none_def)
  obtain modal where modal: "normalize_submission_payload silent_entrypoint example_submission () = (Inr modal, ())"
    by (simp add: normalize_submission_payload_def Let_def get bindA_def uk retA_def)
  from submission_payload_certified [OF modal dist]
  have "map_of modal ''version'' =
        (case not_null (map_of example_submission ''model_version'') of Some v \<Rightarrow> Some v
         | None \<Rightarrow> not_null (map_of example_submission ''version''))
      \<and> Some JNull \<notin> range (map_of modal)"
    by (elim exE conjE) (intro conjI; assumption)
  then show ?thesis using modal get(3) by (auto simp: not_null_def)
qed

end
