(* ===== verification/Reform_Impacts_Service.thy ===== *)
theory Reform_Impacts_Service
  imports Reform_Impact_Cache
begin

text \<open>
  \<open>policyengine_api/services/reform_impacts_service.py\<close>: the lookup, claim and status
  operations the economy service uses over the reform-impact cache. The service is the
  cache it is bound to and its clock, which reads a naive UTC date-time.
\<close>

record 'w impacts_service =
  rs_cache :: "'w cache_context"
  rs_now :: "'w \<Rightarrow> datetime"

record reform_execution =
  rx_execution_id :: string
  rx_start_time :: "datetime option"
  rx_observability_id :: "string option"

definition get_all_reform_impacts ::
  "'w impacts_service \<Rightarrow> bool \<Rightarrow> impact_identity \<Rightarrow> ('w, cached_impact list) act" where
  "get_all_reform_impacts rs fail_closed identity = matching (rs_cache rs) fail_closed identity None"

definition get_all_reform_impacts_by_options_hash_prefix ::
  "'w impacts_service \<Rightarrow> bool \<Rightarrow> impact_identity \<Rightarrow> string \<Rightarrow> ('w, cached_impact list) act" where
  "get_all_reform_impacts_by_options_hash_prefix rs fail_closed identity prefix =
     matching (rs_cache rs) fail_closed identity (Some prefix)"

definition release_reform_impact_start ::
  "'w impacts_service \<Rightarrow> impact_identity \<Rightarrow> string \<Rightarrow> string \<Rightarrow> string \<Rightarrow> ('w, unit) act" where
  "release_reform_impact_start rs identity target claim_token obs =
     catchA (bindA (release_start (rs_cache rs) identity target claim_token obs) (\<lambda>r. retA ()))
       (\<lambda>e. if is_coordination_error e then retA () else raiseA e)"

definition new_impact ::
  "(string \<Rightarrow> string) \<Rightarrow> impact_identity \<Rightarrow> reform_execution \<Rightarrow> json \<Rightarrow> string \<Rightarrow> json \<Rightarrow> cached_impact" where
  "new_impact sha identity execution opts status impact_json =
     (let scope = id_scope identity
      in \<lparr>im_reform_impact_id = reform_impact_id sha (rx_execution_id execution),
          im_baseline_policy_id = sc_baseline_policy_id scope,
          im_reform_policy_id = sc_reform_policy_id scope, im_country_id = sc_country_id scope,
          im_region = sc_region scope, im_dataset = sc_dataset scope,
          im_time_period = sc_time_period scope, im_options_json = opts,
          im_options_hash = id_options_hash identity, im_api_version = id_api_version identity,
          im_reform_impact_json = impact_json, im_status = status, im_message = None,
          im_start_time = rx_start_time execution, im_end_time = None,
          im_execution_id = Some (rx_execution_id execution), im_error_code = None,
          im_observability_id = rx_observability_id execution\<rparr>)"

definition set_reform_impact ::
  "'w impacts_service \<Rightarrow> impact_identity \<Rightarrow> reform_execution \<Rightarrow> json \<Rightarrow> string \<Rightarrow> json
     \<Rightarrow> ('w, cached_impact) act" where
  "set_reform_impact rs identity execution opts status impact_json =
     (let impact = new_impact (ctx_sha (rs_cache rs)) identity execution opts status impact_json
      in bindA (set_impact (rs_cache rs) impact None None False) (\<lambda>stored.
           if stored then retA impact
           else raiseA (ReformImpactHandoffError
                  ''submitted reform-impact execution could not be stored'')))"

definition delete_reform_impact ::
  "'w impacts_service \<Rightarrow> bool \<Rightarrow> impact_scope \<Rightarrow> string \<Rightarrow> ('w, unit) act" where
  "delete_reform_impact rs fail_closed scope options_hash =
     delete_matching_computing (rs_cache rs) fail_closed scope options_hash"

definition mark_failed ::
  "string \<Rightarrow> string option \<Rightarrow> datetime \<Rightarrow> cached_impact \<Rightarrow> cached_impact" where
  "mark_failed message error_code now i =
     i\<lparr>im_status := ''error'', im_message := Some message, im_error_code := error_code,
       im_end_time := Some now\<rparr>"

definition set_error_reform_impact ::
  "'w impacts_service \<Rightarrow> string \<Rightarrow> string \<Rightarrow> string option \<Rightarrow> int option
     \<Rightarrow> ('w, cached_impact option) act" where
  "set_error_reform_impact rs execution_id message error_code keep_seconds w =
     update_impact (rs_cache rs) execution_id (error_code \<noteq> None) keep_seconds
       (mark_failed message error_code (rs_now rs w)) w"

definition delete_failed_reform_impact :: "'w impacts_service \<Rightarrow> cached_impact \<Rightarrow> ('w, bool) act" where
  "delete_failed_reform_impact rs failure = delete_failure (rs_cache rs) failure"

text \<open>Microseconds from \<open>dt\<close> to \<open>now\<close>, and the whole seconds left, rounded up.\<close>

definition seconds_until :: "datetime \<Rightarrow> datetime option \<Rightarrow> int \<Rightarrow> int" where
  "seconds_until now end_time seconds_after_end =
     (case end_time of
        None \<Rightarrow> 0
      | Some ended \<Rightarrow>
          (let elapsed = timestamp now - timestamp ended
           in min seconds_after_end
                (max 0 (ceil_div (seconds_after_end * 1000000 - elapsed) 1000000))))"

definition get_reform_impact_seconds_until ::
  "'w impacts_service \<Rightarrow> cached_impact \<Rightarrow> int \<Rightarrow> ('w, int) act" where
  "get_reform_impact_seconds_until rs impact seconds_after_end w =
     (Inr (seconds_until (rs_now rs w) (im_end_time impact) seconds_after_end), w)"

definition get_reform_impact_seconds_left ::
  "'w impacts_service \<Rightarrow> cached_impact \<Rightarrow> ('w, int option) act" where
  "get_reform_impact_seconds_left rs impact = seconds_left (rs_cache rs) impact"

definition mark_complete :: "json \<Rightarrow> datetime \<Rightarrow> cached_impact \<Rightarrow> cached_impact" where
  "mark_complete impact_json now i =
     i\<lparr>im_status := ''ok'', im_message := Some ''Completed'',
       im_reform_impact_json := impact_json, im_end_time := Some now\<rparr>"

definition set_complete_reform_impact ::
  "'w impacts_service \<Rightarrow> string \<Rightarrow> json \<Rightarrow> ('w, cached_impact option) act" where
  "set_complete_reform_impact rs execution_id impact_json w =
     update_impact (rs_cache rs) execution_id False None (mark_complete impact_json (rs_now rs w)) w"

section \<open>Properties\<close>

lemma ceil_div_pos_iff: "0 < b \<Longrightarrow> 0 < ceil_div a b \<longleftrightarrow> 0 < a"
proof -
  assume b: "0 < b"
  have "0 < ceil_div a b \<longleftrightarrow> (- a) div b < 0" by (simp add: ceil_div_def)
  also have "\<dots> \<longleftrightarrow> - a < 0" using b by (rule pos_imp_zdiv_neg_iff)
  finally show ?thesis by simp
qed

lemma ceil_div_upper: "0 < b \<Longrightarrow> a \<le> ceil_div a b * b"
proof -
  assume b: "0 < b"
  have "(- a) div b * b \<le> - a" using b by (simp flip: minus_mod_eq_div_mult)
  then show ?thesis by (simp add: ceil_div_def)
qed

text \<open>
  The lockout of a recorded failure: the seconds left are between 0 and the lockout; 0
  exactly once it has passed; and a caller that waits that many seconds by the same clock
  is not early, unless the failure was stamped ahead of the clock.
\<close>

theorem seconds_until_correct:
  assumes "0 \<le> lockout"
  shows "0 \<le> seconds_until now (Some ended) lockout \<and> seconds_until now (Some ended) lockout \<le> lockout
     \<and> (seconds_until now (Some ended) lockout = 0 \<longleftrightarrow>
          lockout = 0 \<or> timestamp ended + lockout * 1000000 \<le> timestamp now)
     \<and> (timestamp ended \<le> timestamp now \<longrightarrow>
          timestamp now + seconds_until now (Some ended) lockout * 1000000 \<le> timestamp later \<longrightarrow>
          seconds_until later (Some ended) lockout = 0)"
proof -
  let ?left = "lockout * 1000000 - (timestamp now - timestamp ended)"
  have s: "seconds_until now (Some ended) lockout = min lockout (max 0 (ceil_div ?left 1000000))"
    and l: "seconds_until later (Some ended) lockout =
        min lockout (max 0 (ceil_div (lockout * 1000000 - (timestamp later - timestamp ended)) 1000000))"
    by (simp_all add: seconds_until_def Let_def)
  have zero: "min lockout (max 0 (ceil_div x 1000000)) = 0 \<longleftrightarrow> lockout = 0 \<or> x \<le> 0" for x
    using ceil_div_pos_iff [of 1000000 x] assms by (auto simp: min_def max_def)
  have late: "seconds_until later (Some ended) lockout = 0"
    if "timestamp ended \<le> timestamp now"
      and "timestamp now + seconds_until now (Some ended) lockout * 1000000 \<le> timestamp later"
  proof -
    have "?left \<le> seconds_until now (Some ended) lockout * 1000000"
      using ceil_div_upper [of 1000000 ?left] that(1) assms unfolding s by (auto simp: min_def max_def)
    with that(2) show ?thesis unfolding l zero by simp
  qed
  show ?thesis using late assms unfolding s zero by auto
qed

theorem seconds_until_correct_witness:
  "seconds_until ((2026, 1, 1), 0, 0, 4, 500000) (Some ((2026, 1, 1), 0, 0, 0, 0)) 10 = 6
   \<and> seconds_until ((2026, 1, 1), 0, 0, 10, 500000) (Some ((2026, 1, 1), 0, 0, 0, 0)) 10 = 0"
proof -
  have six: "seconds_until ((2026, 1, 1), 0, 0, 4, 500000) (Some ((2026, 1, 1), 0, 0, 0, 0)) 10 = 6"
    by (simp add: seconds_until_def ceil_div_def Let_def)
  show ?thesis
    using six seconds_until_correct [of 10 "((2026, 1, 1), 0, 0, 4, 500000)" "((2026, 1, 1), 0, 0, 0, 0)"
        "((2026, 1, 1), 0, 0, 10, 500000)"] by (simp add: six)
qed

lemma set_impact_total:
  assumes "has_id (text_or rid (im_execution_id impact))"
  shows "\<exists>b w'. set_impact ctx impact rid ttl only_if_present w = (Inr b, w')"
proof -
  have total: "\<exists>b w'. catchA n (\<lambda>e. retA False) w = (Inr b, w')" for n :: "('a, bool) act"
    by (cases "n w"; cases "fst (n w)") (auto simp: catchA_def retA_def)
  from assms have "text_or rid (im_execution_id impact) \<noteq> None"
    "text_or rid (im_execution_id impact) \<noteq> Some []"
    by (auto simp: has_id_def split: option.splits)
  then show ?thesis unfolding set_impact_def Let_def using total by auto
qed

text \<open>
  A submitted job whose record the cache refuses to store raises
  ReformImpactHandoffError, and one it accepts is returned as stored under its execution.
\<close>

theorem set_reform_impact_handoff:
  assumes "set_reform_impact rs identity execution opts status impact_json w = (r, w')"
    and "rx_execution_id execution \<noteq> []"
  shows "r = Inr (new_impact (ctx_sha (rs_cache rs)) identity execution opts status impact_json)
     \<or> (\<exists>m. r = Inl (ReformImpactHandoffError m))"
proof -
  let ?i = "new_impact (ctx_sha (rs_cache rs)) identity execution opts status impact_json"
  have id: "text_or None (im_execution_id ?i) = Some (rx_execution_id execution)"
    by (simp add: text_or_def new_impact_def Let_def)
  have "\<exists>b w1. set_impact (rs_cache rs) ?i None None False w = (Inr b, w1)"
    using set_impact_total [of None ?i] assms(2) by (simp add: id has_id_def)
  then show ?thesis
    using assms(1)
    by (auto simp: set_reform_impact_def Let_def bindA_def retA_def raiseA_def split: if_splits)
qed

theorem set_reform_impact_handoff_witness:
  "\<exists>m. fst (set_reform_impact \<lparr>rs_cache = memory_context\<lparr>ctx_client := failing_client\<rparr>,
       rs_now = (\<lambda>w. ((2026, 1, 1), 0, 0, 0, 0))\<rparr>
     \<lparr>id_scope = impact_scope_of example_impact, id_api_version = ''v1'', id_options_hash = None\<rparr>
     \<lparr>rx_execution_id = ''job-1'', rx_start_time = None, rx_observability_id = None\<rparr>
     (JObj []) ''computing'' (JObj []) empty_mem) = Inl (ReformImpactHandoffError m)" (is "\<exists>m. fst ?x = _")
proof -
  have "fst ?x \<noteq> Inr y" for y
    by (simp add: set_reform_impact_def set_impact_def Let_def text_or_def new_impact_def
        memory_context_def failing_client_def default_jittered_ttl_def jittered_ttl_def
        COMPLETED_RESULT_TTL_JITTER_FRACTION_def REFORM_IMPACT_TTL_SECONDS_def act_simps catchA_def
        bindA_def)
  moreover have "(\<exists>y. fst ?x = Inr y) \<or> (\<exists>m. fst ?x = Inl (ReformImpactHandoffError m))"
    using set_reform_impact_handoff [where r = "fst ?x" and w' = "snd ?x", OF prod.collapse [symmetric]]
    by auto
  ultimately show ?thesis by blast
qed

end
