(* ===== verification/Regions.thy ===== *)
theory Regions
  imports Json_Codec
begin

text \<open>
  \<open>policyengine_api/data/congressional_districts.py\<close>, \<open>data/places.py\<close> and
  \<open>data/uk_regions.py\<close>: the regions an economy request may name, and the normalisation of
  the spellings it may use.

  The UK area lists and the bundle's release kind come from the installed policyengine
  wheel: they are the record \<open>uk_registry\<close>.
\<close>

section \<open>US states and congressional districts\<close>

definition STATE_CODE_TO_NAME :: "(string \<times> string) list" where
  "STATE_CODE_TO_NAME =
     [(''AL'', ''Alabama''), (''AK'', ''Alaska''), (''AZ'', ''Arizona''), (''AR'', ''Arkansas''),
      (''CA'', ''California''), (''CO'', ''Colorado''), (''CT'', ''Connecticut''),
      (''DE'', ''Delaware''), (''DC'', ''District of Columbia''), (''FL'', ''Florida''),
      (''GA'', ''Georgia''), (''HI'', ''Hawaii''), (''ID'', ''Idaho''), (''IL'', ''Illinois''),
      (''IN'', ''Indiana''), (''IA'', ''Iowa''), (''KS'', ''Kansas''), (''KY'', ''Kentucky''),
      (''LA'', ''Louisiana''), (''ME'', ''Maine''), (''MD'', ''Maryland''),
      (''MA'', ''Massachusetts''), (''MI'', ''Michigan''), (''MN'', ''Minnesota''),
      (''MS'', ''Mississippi''), (''MO'', ''Missouri''), (''MT'', ''Montana''),
      (''NE'', ''Nebraska''), (''NV'', ''Nevada''), (''NH'', ''New Hampshire''),
      (''NJ'', ''New Jersey''), (''NM'', ''New Mexico''), (''NY'', ''New York''),
      (''NC'', ''North Carolina''), (''ND'', ''North Dakota''), (''OH'', ''Ohio''),
      (''OK'', ''Oklahoma''), (''OR'', ''Oregon''), (''PA'', ''Pennsylvania''),
      (''RI'', ''Rhode Island''), (''SC'', ''South Carolina''), (''SD'', ''South Dakota''),
      (''TN'', ''Tennessee''), (''TX'', ''Texas''), (''UT'', ''Utah''), (''VT'', ''Vermont''),
      (''VA'', ''Virginia''), (''WA'', ''Washington''), (''WV'', ''West Virginia''),
      (''WI'', ''Wisconsin''), (''WY'', ''Wyoming'')]"

definition AT_LARGE_STATES :: "string list" where
  "AT_LARGE_STATES = [''AK'', ''DE'', ''DC'', ''ND'', ''SD'', ''VT'', ''WY'']"

record district =
  state_code :: string
  district_number :: nat

text \<open>The table lists each state's districts in order, from 1 to the state's count.\<close>

definition district_counts :: "(string \<times> nat) list" where
  "district_counts =
     [(''AL'', 7), (''AK'', 1), (''AZ'', 9), (''AR'', 4), (''CA'', 52), (''CO'', 8), (''CT'', 5),
      (''DE'', 1), (''DC'', 1), (''FL'', 28), (''GA'', 14), (''HI'', 2), (''ID'', 2),
      (''IL'', 17), (''IN'', 9), (''IA'', 4), (''KS'', 4), (''KY'', 6), (''LA'', 6),
      (''ME'', 2), (''MD'', 8), (''MA'', 9), (''MI'', 13), (''MN'', 8), (''MS'', 4),
      (''MO'', 8), (''MT'', 2), (''NE'', 3), (''NV'', 4), (''NH'', 2), (''NJ'', 12),
      (''NM'', 3), (''NY'', 26), (''NC'', 14), (''ND'', 1), (''OH'', 15), (''OK'', 5),
      (''OR'', 6), (''PA'', 17), (''RI'', 2), (''SC'', 7), (''SD'', 1), (''TN'', 9),
      (''TX'', 38), (''UT'', 4), (''VT'', 1), (''VA'', 11), (''WA'', 10), (''WV'', 2),
      (''WI'', 8), (''WY'', 1)]"

definition CONGRESSIONAL_DISTRICTS :: "district list" where
  "CONGRESSIONAL_DISTRICTS =
     concat (map (\<lambda>(st, n). map (\<lambda>i. \<lparr>state_code = st, district_number = i\<rparr>) [1..<n + 1])
       district_counts)"

definition get_ordinal_suffix :: "nat \<Rightarrow> string" where
  "get_ordinal_suffix number =
     (if 10 \<le> number mod 100 \<and> number mod 100 \<le> 20 then ''th''
      else if number mod 10 = 1 then ''st'' else if number mod 10 = 2 then ''nd''
      else if number mod 10 = 3 then ''rd'' else ''th'')"

definition format_district_number :: "nat \<Rightarrow> string" where
  "format_district_number number =
     (let s = show_nat number in replicate (2 - length s) CHR ''0'' @ s)"

definition build_district_name :: "district \<Rightarrow> string" where
  "build_district_name d =
     ''congressional_district/'' @ state_code d @ ''-'' @ format_district_number (district_number d)"

definition build_district_label :: "district \<Rightarrow> string result" where
  "build_district_label d =
     (case map_of STATE_CODE_TO_NAME (state_code d) of
        None \<Rightarrow> Inl (KeyErr (state_code d))
      | Some state_name \<Rightarrow>
          Inr (state_name @ [CHR 0x27] @ ''s ''
               @ (if state_code d \<in> set AT_LARGE_STATES then ''at-large''
                  else show_nat (district_number d) @ get_ordinal_suffix (district_number d))
               @ '' congressional district''))"

definition build_congressional_district_metadata :: "json list result" where
  "build_congressional_district_metadata =
     res_concat_map (\<lambda>d. res_bind (build_district_label d) (\<lambda>label.
         Inr [JObj [(''name'', JStr (build_district_name d)), (''label'', JStr label),
                    (''type'', JStr ''congressional_district''),
                    (''state_abbreviation'', JStr (state_code d)),
                    (''state_name'', JStr (the (map_of STATE_CODE_TO_NAME (state_code d))))]]))
       CONGRESSIONAL_DISTRICTS"

definition get_valid_state_codes :: "string list" where
  "get_valid_state_codes = map (\<lambda>(code, name). py_lower code) STATE_CODE_TO_NAME"

definition get_valid_congressional_districts :: "string list" where
  "get_valid_congressional_districts =
     map (\<lambda>d. py_lower (state_code d) @ ''-'' @ format_district_number (district_number d))
       CONGRESSIONAL_DISTRICTS"

definition normalize_us_region :: "string \<Rightarrow> string" where
  "normalize_us_region region =
     (if startswith region ''state/'' \<or> startswith region ''place/''
         \<or> startswith region ''congressional_district/'' then region
      else if region = ''us'' then region
      else if py_lower region \<in> set get_valid_state_codes then ''state/'' @ region
      else region)"

section \<open>US places\<close>

text \<open>A value between quotes in an f-string, with nothing in it escaped.\<close>

definition quoted :: "string \<Rightarrow> string" where
  "quoted s = [CHR 0x27] @ s @ [CHR 0x27]"

definition parse_place_code :: "string \<Rightarrow> (string \<times> string) result" where
  "parse_place_code place_code =
     (if CHR ''-'' \<notin> set place_code
      then Inl (ValueError (''Invalid place format: '' @ quoted place_code
                            @ ''. Expected format: STATE_ABBREV-PLACE_FIPS (e.g., NJ-57000)''))
      else Inr (split_first CHR ''-'' place_code))"

definition validate_place_code :: "string \<Rightarrow> unit result" where
  "validate_place_code place_code =
     res_bind (parse_place_code place_code) (\<lambda>(state_abbrev, place_fips).
       if py_lower state_abbrev \<notin> set get_valid_state_codes
       then Inl (ValueError (''Invalid state in place code: '' @ quoted state_abbrev))
       else if \<not> py_isdigit place_fips \<or> length place_fips \<noteq> 5
       then Inl (ValueError (''Invalid FIPS code in place: '' @ quoted place_fips
                             @ ''. Expected 5-digit FIPS code''))
       else Inr ())"

text \<open>\<open>_validate_us_region\<close> and \<open>_setup_region\<close> of \<open>services/economy_simulation_requests.py\<close>.\<close>

definition validate_us_region :: "string \<Rightarrow> unit result" where
  "validate_us_region region =
     (if startswith region ''state/'' then
        (let code = drop 6 region
         in if py_lower code \<notin> set get_valid_state_codes
            then Inl (ValueError (''Invalid US state: '' @ quoted code)) else Inr ())
      else if startswith region ''place/'' then validate_place_code (drop 6 region)
      else if startswith region ''congressional_district/'' then
        (let district_id = drop 23 region
         in if py_lower district_id \<notin> set get_valid_congressional_districts
            then Inl (ValueError (''Invalid congressional district: '' @ quoted district_id))
            else Inr ())
      else Inl (ValueError (''Invalid US region: '' @ quoted region)))"

definition setup_region :: "string \<Rightarrow> string \<Rightarrow> string result" where
  "setup_region country region =
     (if country = ''us'' \<and> region \<noteq> ''us''
      then res_bind (validate_us_region region) (\<lambda>u. Inr region) else Inr region)"

section \<open>UK regions\<close>

record uk_registry =
  uk_release_kind :: "string option"
  uk_areas :: "string \<Rightarrow> (string \<times> string) list"

definition area_regions_resolve :: "uk_registry \<Rightarrow> bool" where
  "area_regions_resolve reg \<longleftrightarrow> uk_release_kind reg = Some ''local_area''"

definition UK_COUNTRY_REGIONS :: "(string \<times> string) list" where
  "UK_COUNTRY_REGIONS =
     [(''country/england'', ''England''), (''country/scotland'', ''Scotland''),
      (''country/wales'', ''Wales''), (''country/northern_ireland'', ''Northern Ireland'')]"

definition uk_country_codes :: "string list" where
  "uk_country_codes = map fst UK_COUNTRY_REGIONS"

definition UK_AREA_REGION_NOUNS :: "(string \<times> string) list" where
  "UK_AREA_REGION_NOUNS =
     [(''constituency'', ''constituency''), (''local_authority'', ''local authority'')]"

definition area_codes_by_spelling :: "uk_registry \<Rightarrow> string \<Rightarrow> string \<Rightarrow> string option" where
  "area_codes_by_spelling reg region_type spelling =
     map_of (concat (map (\<lambda>(code, name).
         let region_code = region_type @ ''/'' @ code
         in [(py_casefold code, region_code), (py_casefold name, region_code)])
       (uk_areas reg region_type))) spelling"

definition replace_spaces :: "string \<Rightarrow> string" where
  "replace_spaces s = map (\<lambda>c. if c = CHR '' '' then CHR ''_'' else c) s"

definition normalise_uk_region :: "string \<Rightarrow> string" where
  "normalise_uk_region region =
     (let requested = py_strip region
      in if requested = [] \<or> py_lower requested = ''uk'' then ''uk''
         else if CHR ''/'' \<notin> set requested
         then ''country/'' @ replace_spaces (py_lower requested)
         else (let (ty, v) = split_first CHR ''/'' requested;
                   region_type = py_lower ty;
                   v = py_strip v;
                   v = (if region_type = ''country'' then replace_spaces (py_lower v)
                        else if region_type = ''local_authority'' then py_upper v else v)
               in region_type @ ''/'' @ v))"

definition resolve_uk_region :: "uk_registry \<Rightarrow> string \<Rightarrow> string option" where
  "resolve_uk_region reg region =
     (let code = normalise_uk_region region
      in if code = ''uk'' then Some code
         else (let (region_type, v) = split_first CHR ''/'' code
               in if map_of UK_AREA_REGION_NOUNS region_type \<noteq> None
                  then (if \<not> area_regions_resolve reg then None
                        else area_codes_by_spelling reg region_type (py_casefold v))
                  else if code \<in> set uk_country_codes then Some code else None))"

definition list_alternatives :: "string list \<Rightarrow> string" where
  "list_alternatives names =
     (if butlast names = [] then last names
      else join '', '' (butlast names) @ '' or '' @ last names)"

definition describe_accepted_uk_regions :: "uk_registry \<Rightarrow> string" where
  "describe_accepted_uk_regions reg =
     join ''; ''
       ([''uk'', list_alternatives uk_country_codes]
        @ (if area_regions_resolve reg
           then map (\<lambda>(region_type, noun). region_type @ ''/<'' @ noun @ '' name or GSS code>'')
                  UK_AREA_REGION_NOUNS
           else []))"

section \<open>Properties\<close>

lemma state_codes_bare:
  "code \<in> set get_valid_state_codes \<Longrightarrow> length code = 2"
proof -
  have "list_all (\<lambda>code. length code = 2) get_valid_state_codes"
    by (simp add: get_valid_state_codes_def STATE_CODE_TO_NAME_def py_lower_def)
  then show "code \<in> set get_valid_state_codes \<Longrightarrow> length code = 2" by (simp add: list_all_iff)
qed

lemma us_not_state: "''us'' \<notin> set get_valid_state_codes"
  by code_simp

lemma startswith_iff: "startswith s p \<longleftrightarrow> (\<exists>t. s = p @ t)"
  unfolding startswith_def by (metis append_eq_conv_conj append_take_drop_id)

lemma bare_state_code:
  assumes "py_lower region \<in> set get_valid_state_codes"
  shows "length region = 2"
  using state_codes_bare [OF assms] by (simp add: py_lower_def)

lemma split_first_iff:
  "CHR ''-'' \<in> set s \<Longrightarrow> split_first CHR ''-'' s = (a, b)
     \<longleftrightarrow> s = a @ ''-'' @ b \<and> CHR ''-'' \<notin> set a"
proof
  assume dash: "CHR ''-'' \<in> set s" and split: "split_first CHR ''-'' s = (a, b)"
  have "dropWhile (\<lambda>x. x \<noteq> CHR ''-'') s \<noteq> []" using dash by auto
  then obtain c t where d: "dropWhile (\<lambda>x. x \<noteq> CHR ''-'') s = c # t" by (cases "dropWhile (\<lambda>x. x \<noteq> CHR ''-'') s") auto
  have c: "c = CHR ''-''" using hd_dropWhile [of "\<lambda>x. x \<noteq> CHR ''-''" s] d by simp
  have "s = takeWhile (\<lambda>x. x \<noteq> CHR ''-'') s @ c # t" by (simp flip: d)
  moreover have "a = takeWhile (\<lambda>x. x \<noteq> CHR ''-'') s" and "b = t" using split d by (auto simp: split_first_def)
  ultimately show "s = a @ ''-'' @ b \<and> CHR ''-'' \<notin> set a" using c by (auto dest: set_takeWhileD)
next
  assume s: "s = a @ ''-'' @ b \<and> CHR ''-'' \<notin> set a"
  then have "\<forall>x\<in>set a. x \<noteq> CHR ''-''" by blast
  then show "split_first CHR ''-'' s = (a, b)" using s by (simp add: split_first_def)
qed

lemma validate_place_code_iff:
  "validate_place_code s = Inr () \<longleftrightarrow>
     (\<exists>st fips. s = st @ ''-'' @ fips \<and> CHR ''-'' \<notin> set st
        \<and> py_lower st \<in> set get_valid_state_codes \<and> py_isdigit fips \<and> length fips = 5)"
proof (cases "CHR ''-'' \<in> set s")
  case True
  obtain a b where ab: "split_first CHR ''-'' s = (a, b)" by (cases "split_first CHR ''-'' s")
  have sp: "split_first CHR ''-'' s = (st, fips)
      \<longleftrightarrow> s = st @ ''-'' @ fips \<and> CHR ''-'' \<notin> set st" for st fips
    by (rule split_first_iff [OF True])
  have "validate_place_code s = Inr () \<longleftrightarrow>
      py_lower a \<in> set get_valid_state_codes \<and> py_isdigit b \<and> length b = 5"
    using True ab by (auto simp: validate_place_code_def parse_place_code_def)
  also have "\<dots> \<longleftrightarrow> (\<exists>st fips. split_first CHR ''-'' s = (st, fips)
      \<and> py_lower st \<in> set get_valid_state_codes \<and> py_isdigit fips \<and> length fips = 5)"
    unfolding ab by blast
  finally show ?thesis unfolding sp by blast
next
  case False
  then show ?thesis by (auto simp: validate_place_code_def parse_place_code_def)
qed

text \<open>
  A US region is accepted, once normalised, exactly when it is \<open>us\<close>, a state code in
  any case (bare or with its prefix), a known congressional district in any case, or a
  place of a known state with a five-digit code; normalising twice changes nothing.
\<close>

theorem us_region_accepted_iff:
  "(setup_region ''us'' (normalize_us_region region) = Inr (normalize_us_region region) \<longleftrightarrow>
      region = ''us''
      \<or> py_lower region \<in> set get_valid_state_codes
      \<or> (\<exists>code. region = ''state/'' @ code \<and> py_lower code \<in> set get_valid_state_codes)
      \<or> (\<exists>d. region = ''congressional_district/'' @ d
             \<and> py_lower d \<in> set get_valid_congressional_districts)
      \<or> (\<exists>st fips. region = ''place/'' @ st @ ''-'' @ fips \<and> CHR ''-'' \<notin> set st
             \<and> py_lower st \<in> set get_valid_state_codes \<and> py_isdigit fips \<and> length fips = 5))
   \<and> normalize_us_region (normalize_us_region region) = normalize_us_region region"
proof -
  note defs = setup_region_def validate_us_region_def normalize_us_region_def startswith_def
  consider (state) code where "region = ''state/'' @ code"
    | (place) code where "region = ''place/'' @ code"
    | (district) d where "region = ''congressional_district/'' @ d"
    | (bare) "\<not> startswith region ''state/''" "\<not> startswith region ''place/''"
        "\<not> startswith region ''congressional_district/''"
    unfolding startswith_iff by blast
  then show ?thesis
  proof cases
    case state
    then show ?thesis by (auto simp: defs dest: bare_state_code split: if_splits)
  next
    case place
    have "(validate_place_code code = Inr ()) =
        (\<exists>st fips. region = ''place/'' @ st @ ''-'' @ fips \<and> CHR ''-'' \<notin> set st
             \<and> py_lower st \<in> set get_valid_state_codes \<and> py_isdigit fips \<and> length fips = 5)"
      by (simp add: validate_place_code_iff place)
    then show ?thesis using place
      by (auto simp: defs res_bind_Inr_iff dest: bare_state_code split: if_splits)
  next
    case district
    then show ?thesis by (auto simp: defs dest: bare_state_code split: if_splits)
  next
    case bare
    then show ?thesis
      by (auto simp: setup_region_def validate_us_region_def normalize_us_region_def startswith_iff
        us_not_state)
  qed
qed

text \<open>
  The registry's codes, and the shape of the area lists in the wheel: GSS codes are upper-case
  letters and digits, each listed once and not the name of an area.
\<close>

definition uk_registry_codes :: "uk_registry \<Rightarrow> string list" where
  "uk_registry_codes reg =
     ''uk'' # uk_country_codes
     @ (if area_regions_resolve reg
        then concat (map (\<lambda>(ty, noun). map (\<lambda>(code, name). ty @ ''/'' @ code) (uk_areas reg ty))
               UK_AREA_REGION_NOUNS)
        else [])"

definition gss_char :: "char \<Rightarrow> bool" where
  "gss_char c \<longleftrightarrow> is_digit c \<or> (65 \<le> (of_char c :: nat) \<and> (of_char c :: nat) \<le> 90)"

definition area_list_ok :: "(string \<times> string) list \<Rightarrow> bool" where
  "area_list_ok areas \<longleftrightarrow>
     (\<forall>(code, name)\<in>set areas. code \<noteq> [] \<and> list_all gss_char code
        \<and> (\<forall>(code', name')\<in>set areas. (py_casefold code' = py_casefold code \<longrightarrow> code' = code)
             \<and> py_casefold name' \<noteq> py_casefold code))"

lemma map_of_pairs_member:
  "map_of (concat (map (\<lambda>(c, n). [(f c, g c), (h n, g c)]) xs)) k = Some v
     \<Longrightarrow> \<exists>(c, n)\<in>set xs. v = g c"
  by (induction xs) (auto split: if_splits)

lemma map_of_pairs_code:
  assumes "(code, name) \<in> set xs"
    and "\<And>c n. (c, n) \<in> set xs \<Longrightarrow> (f c = f code \<longrightarrow> c = code) \<and> h n \<noteq> f code"
  shows "map_of (concat (map (\<lambda>(c, n). [(f c, g c), (h n, g c)]) xs)) (f code) = Some (g code)"
  using assms
proof (induction xs)
  case (Cons x xs)
  obtain c n where x: "x = (c, n)" by (cases x)
  have head: "f c = f code \<Longrightarrow> c = code" "h n \<noteq> f code" using Cons.prems(2) [of c n] x by auto
  show ?case
  proof (cases "f code = f c")
    case True
    then have "c = code" using head(1) by metis
    then show ?thesis by (simp add: x)
  next
    case False
    then have mem: "(code, name) \<in> set xs" using Cons.prems(1) x by auto
    have "map_of (concat (map (\<lambda>(c, n). [(f c, g c), (h n, g c)]) xs)) (f code) = Some (g code)"
      by (rule Cons.IH [OF mem]) (use Cons.prems(2) in auto)
    then show ?thesis using False head(2) by (simp add: x)
  qed
qed simp

lemma gss_char_facts:
  assumes "gss_char c"
  shows "upper_char c = [c]" and "\<not> py_isspace c" and "c \<noteq> CHR ''/''"
  using assms by (auto simp: gss_char_def is_digit_def upper_char_def py_isspace_def Let_def)

lemma gss_upper: "list_all gss_char s \<Longrightarrow> py_upper s = s"
  unfolding py_upper_def by (induction s) (auto simp: gss_char_facts)

lemma gss_strip:
  assumes "list_all gss_char s"
  shows "py_strip s = s"
proof -
  have drop: "dropWhile py_isspace t = t" if "\<forall>c\<in>set t. gss_char c" for t
    using that by (cases t) (auto simp: gss_char_facts)
  show ?thesis using assms by (simp add: py_strip_def list_all_iff drop)
qed

lemma strip_code:
  assumes "list_all gss_char s" and "s \<noteq> []" and "p \<noteq> []" and "\<not> py_isspace (hd p)"
  shows "py_strip (p @ s) = p @ s"
proof -
  have "dropWhile py_isspace (p @ s) = p @ s" using assms(3,4) by (cases p) auto
  moreover have "dropWhile py_isspace (rev (p @ s)) = rev (p @ s)"
    using assms(1,2) by (cases s rule: rev_cases) (auto simp: gss_char_facts)
  ultimately show ?thesis unfolding py_strip_def by simp
qed

lemma normalise_area:
  assumes "list_all gss_char s" and "s \<noteq> []" and "ty \<in> {''constituency'', ''local_authority''}"
  shows "normalise_uk_region (ty @ ''/'' @ s) = ty @ ''/'' @ s"
proof -
  have hd: "ty @ ''/'' \<noteq> []" "\<not> py_isspace (hd (ty @ ''/''))"
    using assms(3) by (auto simp: py_isspace_def)
  have strip: "py_strip (ty @ ''/'' @ s) = ty @ ''/'' @ s"
    using strip_code [OF assms(1,2) hd] by simp
  have split: "split_first CHR ''/'' (ty @ ''/'' @ s) = (ty, s)"
    using assms(3) by (auto simp: split_first_def)
  have low: "py_lower ty = ty" using assms(3) by (auto simp: py_lower_def lower_char_def)
  have len: "length (py_lower (ty @ ''/'' @ s)) \<noteq> length ''uk''"
    using assms(3) by (auto simp: py_lower_def)
  have notuk: "py_lower (ty @ ''/'' @ s) \<noteq> ''uk''" using len by metis
  show ?thesis
    unfolding normalise_uk_region_def Let_def strip split prod.case low gss_strip [OF assms(1)]
    using assms(3) notuk by (auto simp: gss_upper [OF assms(1)])
qed

text \<open>
  Every UK region the check accepts resolves to a code of the registry (the UK, one of
  its countries, or an area of the packaged lists when the bundle's release has them), and
  every code of the registry is accepted and resolves to itself.
\<close>

theorem uk_region_resolves_to_registry:
  assumes "\<forall>ty\<in>set (map fst UK_AREA_REGION_NOUNS). area_list_ok (uk_areas reg ty)"
  shows "(\<forall>region code. resolve_uk_region reg region = Some code \<longrightarrow> code \<in> set (uk_registry_codes reg))
    \<and> (\<forall>code\<in>set (uk_registry_codes reg). resolve_uk_region reg code = Some code)"
proof (intro conjI allI impI ballI)
  fix region code assume "resolve_uk_region reg region = Some code"
  then show "code \<in> set (uk_registry_codes reg)"
    by (auto simp: resolve_uk_region_def uk_registry_codes_def Let_def area_codes_by_spelling_def
        UK_AREA_REGION_NOUNS_def split: if_splits prod.splits dest!: map_of_pairs_member)
next
  fix code assume code: "code \<in> set (uk_registry_codes reg)"
  have area: "resolve_uk_region reg (ty @ ''/'' @ s) = Some (ty @ ''/'' @ s)"
    if area: "(s, name) \<in> set (uk_areas reg ty)" and ty: "ty \<in> {''constituency'', ''local_authority''}"
      and on: "area_regions_resolve reg" for ty s name
  proof -
    have ok: "area_list_ok (uk_areas reg ty)" using assms ty by (auto simp: UK_AREA_REGION_NOUNS_def)
    then have s: "list_all gss_char s" "s \<noteq> []" using area by (auto simp: area_list_ok_def)
    have split: "split_first CHR ''/'' (ty @ ''/'' @ s) = (ty, s)"
      using ty by (auto simp: split_first_def)
    have "area_codes_by_spelling reg ty (py_casefold s) = Some (ty @ ''/'' @ s)"
      unfolding area_codes_by_spelling_def Let_def
      by (rule map_of_pairs_code [OF area, where g = "\<lambda>c. ty @ ''/'' @ c"])
        (use ok area in \<open>fastforce simp: area_list_ok_def\<close>)
    then show ?thesis
      unfolding resolve_uk_region_def normalise_area [OF s ty] Let_def split prod.case
      using ty on by (auto simp: UK_AREA_REGION_NOUNS_def)
  qed
  have country: "resolve_uk_region reg c = Some c" if "c \<in> set (''uk'' # uk_country_codes)" for c
    using that unfolding uk_country_codes_def UK_COUNTRY_REGIONS_def
    by (auto simp: resolve_uk_region_def normalise_uk_region_def py_strip_def py_isspace_def
        py_lower_def lower_char_def replace_spaces_def split_first_def UK_AREA_REGION_NOUNS_def
        uk_country_codes_def UK_COUNTRY_REGIONS_def)
  show "resolve_uk_region reg code = Some code"
    using code area country
    by (fastforce simp: uk_registry_codes_def UK_AREA_REGION_NOUNS_def split: if_splits)
qed

definition sample_registry :: uk_registry where
  "sample_registry = \<lparr>uk_release_kind = Some ''local_area'',
     uk_areas = (\<lambda>ty. if ty = ''constituency'' then [(''E14001063'', ''Aldershot'')]
                      else [(''E06000001'', ''Hartlepool'')])\<rparr>"

lemma uk_region_resolves_to_registry_witness:
  "''constituency/E14001063'' \<in> set (uk_registry_codes sample_registry)
   \<and> resolve_uk_region sample_registry ''constituency/E14001063'' = Some ''constituency/E14001063''"
proof -
  have ok: "\<forall>ty\<in>set (map fst UK_AREA_REGION_NOUNS). area_list_ok (uk_areas sample_registry ty)"
    by (simp add: UK_AREA_REGION_NOUNS_def sample_registry_def area_list_ok_def gss_char_def is_digit_def
        py_casefold_def lower_char_def)
  have mem: "''constituency/E14001063'' \<in> set (uk_registry_codes sample_registry)"
    by (simp add: uk_registry_codes_def sample_registry_def area_regions_resolve_def UK_AREA_REGION_NOUNS_def)
  show ?thesis using uk_region_resolves_to_registry [OF ok] mem by blast
qed

lemma districts_total: "length CONGRESSIONAL_DISTRICTS = 436"
  by (simp add: CONGRESSIONAL_DISTRICTS_def district_counts_def)

end
