(* ===== verification/Json_Reader.thy ===== *)
theory Json_Reader
  imports Json_Codec
begin

text \<open>
  What \<open>json.loads\<close> returns: documents whose dicts have distinct keys, and the fuel of the
  model's parser, which is enough for every text.
\<close>

section \<open>Well-formed documents\<close>

lemma norm_float_normal: "norm_float m e = (m', e') \<Longrightarrow> m' mod 10 \<noteq> 0 \<or> m' = 0 \<and> e' = 0"
proof (induction m e rule: norm_float.induct)
  case (1 m e)
  then show ?case by (subst (asm) norm_float.simps) (auto split: if_splits)
qed

lemma parse_number_wf: "parse_number neg s = Some (v, r) \<Longrightarrow> wf_json v"
  using norm_float_normal
  by (auto simp: parse_number_def Let_def split: option.splits prod.splits if_splits)

lemma parse_word_wf: "parse_word s = Some (v, r) \<Longrightarrow> wf_json v"
  using parse_number_wf by (auto simp: parse_word_def split: if_splits)

lemma distinct_dict_of: "distinct (map fst (dict_of kvs))"
proof -
  have "distinct (map fst d) \<Longrightarrow> distinct (map fst (fold (\<lambda>(k, v) d. AList.update k v d) kvs d))" for d
    by (induction kvs arbitrary: d) (auto simp: distinct_update)
  from this [of "[]"] show ?thesis by (simp add: dict_of_def)
qed

lemma wf_items_update: "wf_json v \<Longrightarrow> wf_items d \<Longrightarrow> wf_items (AList.update k v d)"
  by (induction d) auto

lemma wf_dict_of: "wf_items kvs \<Longrightarrow> wf_json (JObj (dict_of kvs))"
proof -
  assume "wf_items kvs"
  moreover have "wf_items d \<Longrightarrow> wf_items kvs \<Longrightarrow> wf_items (fold (\<lambda>(k, v) d. AList.update k v d) kvs d)" for d
    by (induction kvs arbitrary: d) (auto simp: wf_items_update)
  ultimately have "wf_items (dict_of kvs)" by (simp add: dict_of_def)
  with distinct_dict_of show ?thesis by simp
qed

lemma parsed_wf:
  "pval n s = Some (v, r) \<Longrightarrow> wf_json v"
  "pitems n s = Some (vs, r) \<Longrightarrow> wf_jsons vs"
  "pmembers n s = Some (kvs, r) \<Longrightarrow> wf_items kvs"
proof (induction n s and n s and n s arbitrary: v r and vs r and kvs r
    rule: pval_pitems_pmembers.induct)
  case (3 n c cs)
  then show ?case
    using parse_word_wf wf_dict_of by (fastforce split: if_splits)
next
  case (5 n s)
  then show ?case by (fastforce split: option.splits prod.splits list.splits if_splits)
next
  case (7 n s)
  then show ?case by (fastforce split: option.splits prod.splits list.splits if_splits)
qed simp_all

lemma loads_wf: "loads s = Some v \<Longrightarrow> wf_json v"
  using parsed_wf(1) by (auto simp: loads_def split: option.splits prod.splits if_splits)

section \<open>The fuel of the parser\<close>

lemma parse_chars_shorter: "parse_chars s = Some (t, r) \<Longrightarrow> length r < length s"
proof (induction s arbitrary: t r rule: parse_chars.induct)
  case (2 c cs)
  then show ?case by (fastforce split: if_splits list.splits option.splits)
qed simp

lemma dropWhile_shorter: "length (dropWhile P s) \<le> length s"
  by (induction s) auto

lemma scan_int_shorter: "scan_int s = Some (ip, r) \<Longrightarrow> length r < length s"
  using dropWhile_shorter [of is_digit "tl s"] by (auto simp: scan_int_def split: list.splits if_splits)

lemma scan_frac_shorter: "scan_frac s = (fp, r) \<Longrightarrow> length r \<le> length s"
  using dropWhile_shorter [of is_digit "tl s"] by (auto simp: scan_frac_def split: list.splits if_splits)

lemma scan_exp_digits_shorter: "scan_exp_digits neg t s = (ex, r) \<Longrightarrow> length t \<le> length s \<Longrightarrow> length r \<le> length s"
  using dropWhile_shorter [of is_digit t] by (auto simp: scan_exp_digits_def Let_def split: if_splits)

lemma scan_exp_shorter: "scan_exp s = (ex, r) \<Longrightarrow> length r \<le> length s"
  by (auto simp: scan_exp_def split: list.splits if_splits dest!: scan_exp_digits_shorter)

lemma parse_number_shorter: "parse_number neg s = Some (v, r) \<Longrightarrow> length r < length s"
  by (fastforce simp: parse_number_def Let_def split: option.splits prod.splits if_splits
      dest!: scan_int_shorter scan_frac_shorter scan_exp_shorter)

lemma parse_word_shorter:
  assumes "parse_word s = Some (v, r)" and "s \<noteq> []"
  shows "length r < length s"
proof -
  have "0 < length s" using assms(2) by simp
  then show ?thesis
    using assms(1) by (auto simp: parse_word_def split: if_splits dest!: parse_number_shorter)
qed

lemma skip_ws_shorter: "length (skip_ws s) \<le> length s"
  by (simp add: skip_ws_def dropWhile_shorter)

text \<open>One step of the two loops.\<close>

lemma pitems_SomeE:
  assumes "pitems (Suc n) s = Some (vs, r)"
  obtains v r1 ds where "pval n s = Some (v, r1)" "skip_ws r1 = CHR '']'' # ds" "vs = [v]" "r = ds"
    | v r1 ds vs' where "pval n s = Some (v, r1)" "skip_ws r1 = CHR '','' # ds"
        "pitems n (skip_ws ds) = Some (vs', r)" "vs = v # vs'"
  using assms by (auto split: option.splits prod.splits list.splits if_splits)

lemma pmembers_SomeE:
  assumes "pmembers (Suc n) s = Some (kvs, r)"
  obtains k qs r1 ps v r2 ds where "s = CHR 0x22 # qs" "parse_chars qs = Some (k, r1)"
      "skip_ws r1 = CHR '':'' # ps" "pval n (skip_ws ps) = Some (v, r2)"
      "skip_ws r2 = CHR ''}'' # ds" "kvs = [(k, v)]" "r = ds"
    | k qs r1 ps v r2 ds kvs' where "s = CHR 0x22 # qs" "parse_chars qs = Some (k, r1)"
      "skip_ws r1 = CHR '':'' # ps" "pval n (skip_ws ps) = Some (v, r2)"
      "skip_ws r2 = CHR '','' # ds" "pmembers n (skip_ws ds) = Some (kvs', r)" "kvs = (k, v) # kvs'"
  using assms by (auto split: option.splits prod.splits list.splits if_splits)

definition enough :: "(nat \<Rightarrow> string \<Rightarrow> ('a \<times> string) option) \<Rightarrow> nat \<Rightarrow> string \<Rightarrow> 'a \<Rightarrow> string \<Rightarrow> bool" where
  "enough p extra s x r \<longleftrightarrow>
     length r < length s \<and> (\<forall>m. 2 * length s + extra \<le> m \<longrightarrow> p m s = Some (x, r))"

lemma fuel_step: "2 * length s + extra \<le> m \<Longrightarrow> s \<noteq> [] \<Longrightarrow> \<exists>k. m = Suc k"
  by (cases m) auto

lemma skip_ws_Cons_shorter: "skip_ws r = d # ds \<Longrightarrow> length ds < length r"
  using skip_ws_shorter [of r] by simp

lemma enough_pitems:
  assumes "\<And>v r1. pval n s = Some (v, r1) \<Longrightarrow> enough pval 0 s v r1"
    and "\<And>ds vs r. pitems n (skip_ws ds) = Some (vs, r) \<Longrightarrow> enough pitems 1 (skip_ws ds) vs r"
    and "pitems (Suc n) s = Some (vs, r)"
  shows "enough pitems 1 s vs r"
  using assms(3)
proof (cases rule: pitems_SomeE)
  case (1 v r1 ds)
  have e: "enough pval 0 s v r1" using assms(1) 1(1) .
  have l: "length ds < length r1" using skip_ws_Cons_shorter 1(2) .
  have "pitems m s = Some (vs, r)" if "2 * length s + 1 \<le> m" for m
    using that e 1 by (cases m) (auto simp: enough_def)
  with e l 1 show ?thesis by (auto simp: enough_def)
next
  case (2 v r1 ds vs')
  have e: "enough pval 0 s v r1" using assms(1) 2(1) .
  have f: "enough pitems 1 (skip_ws ds) vs' r" using assms(2) 2(3) .
  have l: "length ds < length r1" "length (skip_ws ds) \<le> length ds"
    using skip_ws_Cons_shorter 2(2) skip_ws_shorter by blast+
  have "pitems m s = Some (vs, r)" if m: "2 * length s + 1 \<le> m" for m
  proof -
    obtain k where k: "m = Suc k" using m by (cases m) auto
    have "2 * length s \<le> k" "2 * length (skip_ws ds) + 1 \<le> k"
      using m k l e by (auto simp: enough_def)
    with e f have "pval k s = Some (v, r1)" "pitems k (skip_ws ds) = Some (vs', r)"
      by (auto simp: enough_def)
    with 2 k show ?thesis by simp
  qed
  with e f l show ?thesis by (auto simp: enough_def)
qed

lemma enough_pmembers:
  assumes "\<And>ps v r1. pval n (skip_ws ps) = Some (v, r1) \<Longrightarrow> enough pval 0 (skip_ws ps) v r1"
    and "\<And>ds kvs r. pmembers n (skip_ws ds) = Some (kvs, r) \<Longrightarrow> enough pmembers 1 (skip_ws ds) kvs r"
    and "pmembers (Suc n) s = Some (kvs, r)"
  shows "enough pmembers 1 s kvs r"
  using assms(3)
proof (cases rule: pmembers_SomeE)
  case (1 k qs r1 ps v r2 ds)
  have e: "enough pval 0 (skip_ws ps) v r2" using assms(1) 1(4) .
  have l: "length r1 < length qs" "length ps < length r1" "length (skip_ws ps) \<le> length ps"
    "length ds < length r2"
    using parse_chars_shorter 1(2) skip_ws_Cons_shorter 1(3,5) skip_ws_shorter by blast+
  have "pmembers m s = Some (kvs, r)" if m: "2 * length s + 1 \<le> m" for m
  proof -
    obtain j where j: "m = Suc j" using m by (cases m) auto
    have "2 * length (skip_ws ps) \<le> j" using m j l 1(1) by simp
    with e have "pval j (skip_ws ps) = Some (v, r2)" by (simp add: enough_def)
    with 1 j show ?thesis by simp
  qed
  with e l 1 show ?thesis by (auto simp: enough_def)
next
  case (2 k qs r1 ps v r2 ds kvs')
  have e: "enough pval 0 (skip_ws ps) v r2" using assms(1) 2(4) .
  have f: "enough pmembers 1 (skip_ws ds) kvs' r" using assms(2) 2(6) .
  have l: "length r1 < length qs" "length ps < length r1" "length (skip_ws ps) \<le> length ps"
    "length ds < length r2" "length (skip_ws ds) \<le> length ds"
    using parse_chars_shorter 2(2) skip_ws_Cons_shorter 2(3,5) skip_ws_shorter by blast+
  have "pmembers m s = Some (kvs, r)" if m: "2 * length s + 1 \<le> m" for m
  proof -
    obtain j where j: "m = Suc j" using m by (cases m) auto
    have "2 * length (skip_ws ps) \<le> j" "2 * length (skip_ws ds) + 1 \<le> j"
      using m j l e 2(1) by (auto simp: enough_def)
    with e f have "pval j (skip_ws ps) = Some (v, r2)" "pmembers j (skip_ws ds) = Some (kvs', r)"
      by (simp_all add: enough_def)
    with 2 j show ?thesis by simp
  qed
  with e f l 2 show ?thesis by (auto simp: enough_def)
qed

text \<open>A value: its opening character decides which of the loops reads it.\<close>

lemma pval_cases:
  assumes "pval (Suc n) (c # cs) = Some (v, r)"
  obtains "\<And>m. pval (Suc m) (c # cs) = Some (v, r)" "length r < length (c # cs)"
    | vs where "c = CHR ''[''" "\<not> startswith (skip_ws cs) '']''" "pitems n (skip_ws cs) = Some (vs, r)" "v = JArr vs"
    | kvs where "c = CHR ''{''" "\<not> startswith (skip_ws cs) ''}''" "pmembers n (skip_ws cs) = Some (kvs, r)"
        "v = JObj (dict_of kvs)"
proof -
  have l: "length (skip_ws cs) \<le> length cs" by (rule skip_ws_shorter)
  consider (plain) "\<And>m. pval (Suc m) (c # cs) = pval (Suc n) (c # cs)"
    | (array) "c = CHR ''[''" "\<not> startswith (skip_ws cs) '']''"
    | (object) "c = CHR ''{''" "\<not> startswith (skip_ws cs) ''}''"
    by (cases "c = CHR ''['' \<and> \<not> startswith (skip_ws cs) '']''";
        cases "c = CHR ''{'' \<and> \<not> startswith (skip_ws cs) ''}''") auto
  then show thesis
  proof cases
    case plain
    have "length r < length (c # cs)"
    proof (cases "c = CHR 0x22 \<or> c = CHR ''['' \<or> c = CHR ''{''")
      case True
      with assms plain [of 0] l show ?thesis
        by (auto dest: parse_chars_shorter split: if_splits)
    next
      case False
      with assms have "parse_word (c # cs) = Some (v, r)" by simp
      then show ?thesis by (rule parse_word_shorter) simp
    qed
    with plain assms show ?thesis by (intro that(1)) simp_all
  next
    case array
    with assms obtain vs where "pitems n (skip_ws cs) = Some (vs, r)" "v = JArr vs"
      by (auto split: if_splits)
    with array show ?thesis by (rule that(2))
  next
    case object
    with assms obtain kvs where "pmembers n (skip_ws cs) = Some (kvs, r)" "v = JObj (dict_of kvs)"
      by (auto split: if_splits)
    with object show ?thesis by (rule that(3))
  qed
qed

lemma enough_pval:
  assumes "\<And>s vs r. pitems n s = Some (vs, r) \<Longrightarrow> enough pitems 1 s vs r"
    and "\<And>s kvs r. pmembers n s = Some (kvs, r) \<Longrightarrow> enough pmembers 1 s kvs r"
    and "pval (Suc n) s = Some (v, r)"
  shows "enough pval 0 s v r"
proof -
  obtain c cs where s: "s = c # cs" using assms(3) by (cases s) auto
  have l: "length (skip_ws cs) \<le> length cs" by (rule skip_ws_shorter)
  from assms(3) show ?thesis unfolding s
  proof (cases rule: pval_cases)
    case 1
    have "pval m (c # cs) = Some (v, r)" if "2 * length (c # cs) + 0 \<le> m" for m
      using that 1(1) by (cases m) (simp_all del: pval.simps(3))
    with 1(2) show "enough pval 0 (c # cs) v r" by (simp add: enough_def)
  next
    case (2 vs)
    have e: "enough pitems 1 (skip_ws cs) vs r" using assms(1) 2(3) .
    have "pval m (c # cs) = Some (v, r)" if "2 * length (c # cs) + 0 \<le> m" for m
      using that e 2 l by (cases m) (auto simp: enough_def)
    with e l show "enough pval 0 (c # cs) v r" by (simp add: enough_def)
  next
    case (3 kvs)
    have e: "enough pmembers 1 (skip_ws cs) kvs r" using assms(2) 3(3) .
    have "pval m (c # cs) = Some (v, r)" if "2 * length (c # cs) + 0 \<le> m" for m
      using that e 3 l by (cases m) (auto simp: enough_def)
    with e l show "enough pval 0 (c # cs) v r" by (simp add: enough_def)
  qed
qed

lemma parsed_enough:
  "pval n s = Some (v, r) \<Longrightarrow> enough pval 0 s v r"
  "pitems n s = Some (vs, r) \<Longrightarrow> enough pitems 1 s vs r"
  "pmembers n s = Some (kvs, r) \<Longrightarrow> enough pmembers 1 s kvs r"
proof (induction n arbitrary: s v r vs kvs)
  case (Suc n)
  {
    case 1
    show ?case by (rule enough_pval [OF Suc(2,3) 1])
  next
    case 2
    show ?case by (rule enough_pitems [OF Suc(1) Suc(2) 2])
  next
    case 3
    show ?case by (rule enough_pmembers [OF Suc(1) Suc(3) 3])
  }
qed simp_all

section \<open>The fuel of the parser\<close>

lemma loads_fuel_enough:
  "pval (2 * length s + 1 + k) (skip_ws s) = pval (2 * length s + 1) (skip_ws s)"
proof -
  have l: "2 * length (skip_ws s) + 0 \<le> 2 * length s + 1" using skip_ws_shorter [of s] by simp
  have "pval m (skip_ws s) = Some x" if "pval n (skip_ws s) = Some x" "2 * length s + 1 \<le> m" for m n x
    using parsed_enough(1) [of n "skip_ws s" "fst x" "snd x"] that l by (simp add: enough_def)
  then show ?thesis
    by (cases "pval (2 * length s + 1 + k) (skip_ws s)";
        cases "pval (2 * length s + 1) (skip_ws s)") (metis le_add1 le_refl option.distinct(1) option.inject)+
qed

end
