(* ===== verification/Simulation_Requests.thy ===== *)
theory Simulation_Requests
  imports Simulation_Entrypoint Reform_Impacts_Service Regions Observability_Ids Json_Reader
begin

text \<open>
  \<open>policyengine_api/services/economy_simulation_requests.py\<close>: the checks of a request, the
  payload of its simulation job and its telemetry, and the reason in a refusal; with the
  cache version of \<open>constants.py\<close>.

  The record \<open>economy\<close> is what \<open>EconomyService\<close> is built from: the stored impacts, the
  budget-window cache, the gateway, the request's identifiers, the policies (None is
  \<open>JNull\<close>), a source of claim tokens, the UTC time as text and the local time, and the installed
  versions.
\<close>

section \<open>Collaborators\<close>

record runtime_versions_table =
  rt_country :: "string \<Rightarrow> string option"
  rt_policyengine :: string
  rt_core :: string
  rt_sha1 :: "string \<Rightarrow> string"

record 'w economy =
  ec_impacts :: "'w impacts_service"
  ec_windows :: "'w cache_context"
  ec_gateway :: "'w entrypoint"
  ec_request :: "'w request_context"
  ec_policy_json :: "string \<Rightarrow> int \<Rightarrow> ('w, json) act"
  ec_new_claim_id :: "('w, string) act"
  ec_utc_now :: "'w \<Rightarrow> string"
  ec_local_now :: "'w \<Rightarrow> datetime"
  ec_uk :: uk_registry
  ec_versions :: runtime_versions_table
  ec_sha256 :: "string \<Rightarrow> string"

section \<open>Cache versions\<close>

definition RUNTIME_CACHE_SCHEMA_VERSIONS :: "(string \<times> int) list" where
  "RUNTIME_CACHE_SCHEMA_VERSIONS = [(''economy_impact'', 4), (''report_output'', 3)]"

definition RUNTIME_CACHE_VERSION_LENGTH :: nat where
  "RUNTIME_CACHE_VERSION_LENGTH = 10"

definition MINIMUM_RUNTIME_CACHE_DIGEST_LENGTH :: nat where
  "MINIMUM_RUNTIME_CACHE_DIGEST_LENGTH = 4"

definition installed_version :: "runtime_versions_table \<Rightarrow> string \<Rightarrow> string" where
  "installed_version rt country_id = (case rt_country rt country_id of Some v \<Rightarrow> v | None \<Rightarrow> ''0.0.0'')"

definition build_runtime_cache_version ::
  "runtime_versions_table \<Rightarrow> string \<Rightarrow> string \<Rightarrow> string option \<Rightarrow> string result" where
  "build_runtime_cache_version rt scope country_id caller_version =
     (case map_of RUNTIME_CACHE_SCHEMA_VERSIONS scope of
        None \<Rightarrow> Inl (KeyErr scope)
      | Some v \<Rightarrow>
          (let schema_version = show_int v;
               prefix = (if scope = ''economy_impact'' then ''e'' else ''r'');
               digest_length = int RUNTIME_CACHE_VERSION_LENGTH - int (length prefix)
                                 - int (length schema_version)
           in if digest_length < int MINIMUM_RUNTIME_CACHE_DIGEST_LENGTH
              then Inl (ValueError (''Runtime cache version for '' @ scope @ '' does not fit in VARCHAR(10)''))
              else
                (let raw = join ''|''
                   [scope, country_id, the (text_or caller_version (Some (installed_version rt country_id))),
                    installed_version rt country_id, rt_policyengine rt, rt_core rt, schema_version]
                 in Inr (prefix @ schema_version @ take (nat digest_length) (rt_sha1 rt raw)))))"

definition get_economy_impact_cache_version ::
  "runtime_versions_table \<Rightarrow> string \<Rightarrow> string option \<Rightarrow> string result" where
  "get_economy_impact_cache_version rt country_id caller_version =
     build_runtime_cache_version rt ''economy_impact'' country_id caller_version"

definition get_report_output_cache_version :: "runtime_versions_table \<Rightarrow> string \<Rightarrow> string result" where
  "get_report_output_cache_version rt country_id =
     build_runtime_cache_version rt ''report_output'' country_id None"

section \<open>Policies\<close>

text \<open>
  A stored text is read by \<open>json.loads\<close>; the nesting depth and the number of digits past
  which the interpreter itself gives up (RecursionError, ValueError) are not modelled.
\<close>

definition parse_json_object :: "json \<Rightarrow> json result" where
  "parse_json_object v =
     res_bind (case v of
         JStr s \<Rightarrow> (case loads s of None \<Rightarrow> Inl (ValueError ''JSONDecodeError'') | Some p \<Rightarrow> Inr p)
       | _ \<Rightarrow> Inr v) (\<lambda>parsed.
       case parsed of JObj d \<Rightarrow> Inr parsed | _ \<Rightarrow> Inl (TypeErr ''Expected a JSON object''))"

definition get_policy_jsons ::
  "'w economy \<Rightarrow> string \<Rightarrow> int \<Rightarrow> int \<Rightarrow> ('w, impact_policies) act" where
  "get_policy_jsons ec country_id baseline_policy_id reform_policy_id =
     bindA (ec_policy_json ec country_id baseline_policy_id) (\<lambda>baseline.
     bindA (ec_policy_json ec country_id reform_policy_id) (\<lambda>reform.
       (let missing = map fst (filter (\<lambda>(i, p). p = JNull)
                        [(reform_policy_id, reform), (baseline_policy_id, baseline)])
        in if missing \<noteq> [] then raiseA (PolicyNotFoundError (rev (remdups (rev missing))))
           else bindA (liftA (parse_json_object baseline)) (\<lambda>b.
                bindA (liftA (parse_json_object reform)) (\<lambda>r.
                  retA \<lparr>baseline_json = b, reform_json = r\<rparr>)))))"

section \<open>Checks of a request\<close>

definition with_normalized_region :: "impact_request \<Rightarrow> impact_request" where
  "with_normalized_region rq =
     (if rq_country_id rq \<noteq> ''us'' then rq
      else rq\<lparr>rq_region := normalize_us_region (rq_region rq)\<rparr>)"

definition LOCAL_AREA_BREAKDOWN_REGIONS :: "string list" where
  "LOCAL_AREA_BREAKDOWN_REGIONS = ''uk'' # map fst UK_COUNTRY_REGIONS"

definition validate_breakdown :: "impact_request \<Rightarrow> unit result" where
  "validate_breakdown rq =
     (let breakdown = dict_get_none (rq_options rq) ''breakdown''
      in if breakdown = JNull then Inr ()
         else if breakdown \<noteq> JStr LOCAL_AREA_BREAKDOWN
         then Inl (ValueError (''Unknown breakdown: '' @ py_repr breakdown))
         else if rq_country_id rq \<noteq> ''uk''
         then Inl (ValueError ''breakdown=local_areas is only available for UK economy calculations'')
         else if rq_region rq \<notin> set LOCAL_AREA_BREAKDOWN_REGIONS
         then Inl (ValueError (''breakdown=local_areas needs region uk or a UK country, one of ''
                @ join '', '' LOCAL_AREA_BREAKDOWN_REGIONS @ ''; not '' @ repr_string (rq_region rq)))
         else if rq_target rq = ''cliff''
         then Inl (ValueError ''breakdown=local_areas cannot be combined with target=cliff'')
         else Inr ())"

definition validate_uk_region :: "uk_registry \<Rightarrow> impact_request \<Rightarrow> unit result" where
  "validate_uk_region reg rq =
     (if rq_country_id rq \<noteq> ''uk'' then Inr ()
      else if resolve_uk_region reg (rq_region rq) \<noteq> None then Inr ()
      else Inl (ValueError (''Unknown UK region '' @ repr_string (rq_region rq)
             @ ''. Accepted regions: '' @ describe_accepted_uk_regions reg @ ''.'')))"

section \<open>Refusals\<close>

text \<open>The texts of the items of a value that Python iterates over.\<close>

fun iterated_texts :: "json \<Rightarrow> string list result" where
  "iterated_texts (JArr vs) = Inr (map py_str vs)"
| "iterated_texts (JStr s) = Inr (map (\<lambda>c. [c]) s)"
| "iterated_texts (JObj d) = Inr (map fst d)"
| "iterated_texts v = Inl (TypeErr ''object is not iterable'')"

fun field_reasons :: "json list \<Rightarrow> string list result" where
  "field_reasons [] = Inr []"
| "field_reasons (JObj d # vs) =
     res_bind (iterated_texts (case map_of d ''loc'' of None \<Rightarrow> JArr [] | Some l \<Rightarrow> l)) (\<lambda>loc.
     res_bind (field_reasons vs) (\<lambda>rest.
       Inr (join '': '' (filter (\<lambda>p. p \<noteq> [])
              [join ''.'' loc, py_str (case map_of d ''msg'' of None \<Rightarrow> JStr [] | Some m \<Rightarrow> m)]) # rest)))"
| "field_reasons (v # vs) = field_reasons vs"

definition validation_field_reasons :: "json \<Rightarrow> string option result" where
  "validation_field_reasons details =
     (case details of
        JArr vs \<Rightarrow>
          res_bind (field_reasons vs) (\<lambda>reasons.
            (let s = join ''; '' (filter (\<lambda>r. r \<noteq> []) reasons)
             in Inr (if s = [] then None else Some s)))
      | _ \<Rightarrow> Inr None)"

definition build_submission_error_message :: "string \<Rightarrow> string \<Rightarrow> string result" where
  "build_submission_error_message body error_text =
     res_bind
       (case loads body of
          Some (JObj d) \<Rightarrow>
            res_bind (validation_field_reasons (dict_get_none d ''detail'')) (\<lambda>reasons.
              Inr (case reasons of
                     Some r \<Rightarrow> Some r
                   | None \<Rightarrow>
                       map_option py_str (List.find truthy
                         (map (dict_get_none d) [''detail'', ''message'', ''error'']))))
        | _ \<Rightarrow> Inr None)
       (\<lambda>found. Inr (case found of
          Some m \<Rightarrow> m
        | None \<Rightarrow> if py_strip body \<noteq> [] then py_strip body else error_text))"

definition breakdown_refusal ::
  "int \<Rightarrow> string \<Rightarrow> string \<Rightarrow> string option \<Rightarrow> impact_result option result" where
  "breakdown_refusal status_code body error_text breakdown =
     (if breakdown = None \<or> status_code \<notin> LOCAL_AREA_BREAKDOWN_REFUSAL_STATUS_CODES then Inr None
      else res_bind (build_submission_error_message body error_text) (\<lambda>m.
        Inr (Some (impact_error
          (''The simulation API refused the local-area breakdown request (HTTP ''
           @ show_int status_code @ ''): '' @ m) None None))))"

section \<open>The payload of a job\<close>

record simulation_options =
  sm_spm :: "spm_selection option"
  sm_country :: string
  sm_reform :: json
  sm_baseline :: json
  sm_time_period :: string
  sm_include_cliffs :: bool
  sm_region :: string
  sm_model_version :: "string option"
  sm_policyengine_version :: "string option"
  sm_breakdown :: "string option"

definition read_breakdown :: "json \<Rightarrow> string option option" where
  "read_breakdown v =
     (if v = JNull then Some None
      else if v = JStr LOCAL_AREA_BREAKDOWN then Some (Some LOCAL_AREA_BREAKDOWN) else None)"

definition setup_sim_options ::
  "spm_install \<Rightarrow> setup_options \<Rightarrow> json \<Rightarrow> json \<Rightarrow> string \<Rightarrow> bool \<Rightarrow> simulation_options result" where
  "setup_sim_options inst eo reform_policy baseline_policy time_period include_cliffs =
     res_bind (parse_json_object reform_policy) (\<lambda>reform.
     res_bind (parse_json_object baseline_policy) (\<lambda>baseline.
     res_bind (setup_region (eo_country_id eo) (eo_region eo)) (\<lambda>region.
       (let spm = dict_get_none (eo_options eo) ''spm''
        in case (if spm = JNull then Some None else map_option Some (selection_of spm),
                 read_breakdown (dict_get_none (eo_options eo) ''breakdown'')) of
             (Some sel, Some br) \<Rightarrow>
               Inr \<lparr>sm_spm = sel, sm_country = eo_country_id eo, sm_reform = reform,
                    sm_baseline = baseline, sm_time_period = time_period,
                    sm_include_cliffs = include_cliffs, sm_region = region,
                    sm_model_version = eo_model_version eo,
                    sm_policyengine_version = eo_policyengine_version eo, sm_breakdown = br\<rparr>
           | _ \<Rightarrow> Inl (ValueError (si_report inst ''SimulationOptions'' (JObj (eo_options eo))))))))"

definition simulation_options_dump :: "simulation_options \<Rightarrow> (string \<times> json) list" where
  "simulation_options_dump sm =
     [(''spm'', case sm_spm sm of None \<Rightarrow> JNull | Some sel \<Rightarrow> selection_dump sel),
      (''country'', JStr (sm_country sm)), (''scope'', JStr ''macro''), (''reform'', sm_reform sm),
      (''baseline'', sm_baseline sm), (''time_period'', JStr (sm_time_period sm)),
      (''include_cliffs'', JBool (sm_include_cliffs sm)), (''region'', JStr (sm_region sm)),
      (''model_version'', opt_str (sm_model_version sm)),
      (''policyengine_version'', opt_str (sm_policyengine_version sm))]
     @ (case sm_breakdown sm of None \<Rightarrow> [] | Some b \<Rightarrow> [(''breakdown'', JStr b)])"

section \<open>Telemetry\<close>

definition classify_simulation_geography :: "string \<Rightarrow> string \<Rightarrow> string \<times> string \<times> string" where
  "classify_simulation_geography country_id region =
     (if region = country_id then (''national'', ''national'', country_id)
      else if CHR ''/'' \<notin> set region then (''other'', ''other'', region)
      else (let (geography_type, geography_code) = split_first CHR ''/'' region
            in (if geography_type = ''congressional_district'' then ''district'' else geography_type,
                geography_type, geography_code)))"

definition stable_config_hash :: "(string \<Rightarrow> string) \<Rightarrow> json \<Rightarrow> string" where
  "stable_config_hash sha payload = ''sha256:'' @ sha (dumps_canonical payload)"

definition build_simulation_telemetry :: "'w economy \<Rightarrow> setup_options \<Rightarrow> json \<Rightarrow> 'w \<Rightarrow> json" where
  "build_simulation_telemetry ec eo sim_config w =
     (let (kind, geography_type, geography_code) =
            classify_simulation_geography (eo_country_id eo) (eo_region eo);
          simulation_kind = (if dict_get_none (eo_options eo) ''breakdown'' \<noteq> JNull
                             then LOCAL_AREA_BREAKDOWN_SIMULATION_KIND else kind)
      in JObj [(''submission_claim_id'', JStr (eo_submission_claim_id eo)),
               (''requested_at'', JStr (ec_utc_now ec w)), (''simulation_kind'', JStr simulation_kind),
               (''geography_code'', JStr geography_code), (''geography_type'', JStr geography_type),
               (''config_hash'', JStr (stable_config_hash (ec_sha256 ec) sim_config)),
               (''capture_mode'', JStr ''disabled'')])"

section \<open>Facts of the helpers\<close>

lemma parse_json_object_Inr: "parse_json_object v = Inr r \<Longrightarrow> \<exists>d. r = JObj d"
proof -
  assume "parse_json_object v = Inr r"
  then obtain p where "(case p of JObj d \<Rightarrow> Inr p | _ \<Rightarrow> Inl (TypeErr ''Expected a JSON object'')) = Inr r"
    unfolding parse_json_object_def res_bind_Inr_iff by blast
  then show ?thesis by (cases p) auto
qed

lemma parse_json_object_object [simp]: "parse_json_object (JObj d) = Inr (JObj d)"
  by (simp add: parse_json_object_def)

lemma parse_json_object_text:
  "parse_json_object (JStr s) =
     (case loads s of
        None \<Rightarrow> Inl (ValueError ''JSONDecodeError'')
      | Some (JObj d) \<Rightarrow> Inr (JObj d)
      | Some v \<Rightarrow> Inl (TypeErr ''Expected a JSON object''))"
  by (simp add: parse_json_object_def split: option.split json.split)

text \<open>
  Reading a policy's JSON returns an object with distinct keys and floats in shortest
  form, at every depth, from a stored text as from a decoded value; it is read back as it is,
  and so is its text.
\<close>

theorem parse_json_object_well_formed:
  assumes "parse_json_object v = Inr r" and "wf_json v"
  shows "\<exists>d. r = JObj d \<and> wf_json r \<and> parse_json_object r = Inr r
     \<and> parse_json_object (JStr (dumps_default r)) = Inr r"
proof -
  obtain d where d: "r = JObj d" using parse_json_object_Inr [OF assms(1)] by blast
  have "wf_json r"
  proof (cases v)
    case (JStr s)
    with assms(1) d have "loads s = Some r"
      by (simp add: parse_json_object_text split: option.splits json.splits)
    then show ?thesis by (rule loads_wf)
  qed (use assms in \<open>auto simp: parse_json_object_def\<close>)
  with d show ?thesis by (simp add: parse_json_object_text loads_dumps_default)
qed

theorem parse_json_object_well_formed_witness:
  "parse_json_object (JStr (dumps_default (JObj [(''a'', JInt 2)]))) = Inr (JObj [(''a'', JInt 2)])"
proof -
  have "parse_json_object (JStr [CHR ''{'', CHR 0x22, CHR ''a'', CHR 0x22, CHR '':'', CHR ''1'', CHR '','',
      CHR 0x22, CHR ''a'', CHR 0x22, CHR '':'', CHR ''2'', CHR ''}'']) = Inr (JObj [(''a'', JInt 2)])"
    by code_simp
  from parse_json_object_well_formed [OF this] show ?thesis by simp
qed

end
