(* ===== verification/Stored_Impacts.thy ===== *)
theory Stored_Impacts
  imports Simulation_Requests
begin

text \<open>
  \<open>policyengine_api/services/economy_stored_impacts.py\<close>: the cache identity of a request,
  the lookup of its stored impacts, its start claim and its status records.

  The setup options a method mutates are an argument it returns changed. An execution
  identifier read from a record is a text: the code never stores a record to poll or fail
  without one, and the model raises \<open>OtherError\<close> where it would meet None.
\<close>

section \<open>Options hashes\<close>

definition py_opt :: "string option \<Rightarrow> string" where
  "py_opt v = (case v of None \<Rightarrow> ''None'' | Some s \<Rightarrow> s)"

definition given :: "string option \<Rightarrow> bool" where
  "given v \<longleftrightarrow> v \<noteq> None \<and> v \<noteq> Some []"

definition strip_ampersands :: "string \<Rightarrow> string" where
  "strip_ampersands s =
     rev (dropWhile (\<lambda>c. c = CHR ''&'') (rev (dropWhile (\<lambda>c. c = CHR ''&'') s)))"

definition option_pairs :: "(string \<times> json) list \<Rightarrow> string" where
  "option_pairs opts = join ''&'' (map (\<lambda>(k, v). k @ ''='' @ py_str v) (sort_key fst opts))"

definition bundle_parts :: "(string \<times> json) list \<Rightarrow> bundle_identity \<Rightarrow> string list" where
  "bundle_parts opts bi =
     [''dataset='' @ bi_dataset bi, ''model_version='' @ py_opt (bi_model_version bi)]
     @ (if given (bi_data_version bi) then [''data_version='' @ py_opt (bi_data_version bi)] else [])
     @ (if given (bi_policyengine_version bi)
        then [''policyengine_version='' @ py_opt (bi_policyengine_version bi)] else [])
     @ (if dict_get_none opts ''spm'' \<noteq> JNull
        then [''spm_provenance_schema=canonical-spm-comparison-v2''] else [])
     @ (if dict_get_none opts ''breakdown'' \<noteq> JNull
        then [''breakdown_schema='' @ show_int LOCAL_AREA_BREAKDOWN_RESULT_SCHEMA_VERSION] else [])
     @ (if given (bi_runtime_app_name bi)
        then [''runtime_app_name='' @ py_opt (bi_runtime_app_name bi)] else [])"

definition build_options_hash :: "(string \<times> json) list \<Rightarrow> bundle_identity \<Rightarrow> string" where
  "build_options_hash opts bi =
     ''['' @ strip_ampersands (join ''&'' (option_pairs opts # bundle_parts opts bi)) @ '']''"

definition runtime_bundle :: "setup_options \<Rightarrow> bundle_identity" where
  "runtime_bundle eo =
     \<lparr>bi_dataset = eo_dataset eo, bi_model_version = eo_model_version eo,
      bi_policyengine_version = eo_policyengine_version eo, bi_data_version = eo_data_version eo,
      bi_runtime_app_name = eo_runtime_app_name eo\<rparr>"

definition with_options_hash :: "setup_options \<Rightarrow> setup_options" where
  "with_options_hash eo =
     eo\<lparr>eo_options_hash := Some (build_options_hash (eo_options eo) (runtime_bundle eo))\<rparr>"

definition with_runtime_app :: "setup_options \<Rightarrow> string \<times> string \<Rightarrow> setup_options" where
  "with_runtime_app eo resolved =
     eo\<lparr>eo_runtime_app_name := Some (fst resolved), eo_model_version := Some (snd resolved)\<rparr>"

definition resolve_app :: "'w economy \<Rightarrow> setup_options \<Rightarrow> ('w, string \<times> string) act" where
  "resolve_app ec eo =
     resolve_app_name (ec_gateway ec) (eo_country_id eo) (eo_model_version eo) (eo_policyengine_version eo)"

definition resolve_runtime_bundle_for_setup_options ::
  "'w economy \<Rightarrow> setup_options \<Rightarrow> ('w, setup_options) act" where
  "resolve_runtime_bundle_for_setup_options ec eo =
     bindA (if eo_runtime_app_name eo = None
            then bindA (resolve_app ec eo) (\<lambda>resolved. retA (with_runtime_app eo resolved))
            else retA eo)
       (\<lambda>eo. retA (with_options_hash eo))"

definition escape_like :: "string \<Rightarrow> string" where
  "escape_like s =
     concat (map (\<lambda>c. if c \<in> {CHR 0x5C, CHR ''%'', CHR ''_''} then [CHR 0x5C, c] else [c]) s)"

definition build_options_hash_lookup_pattern :: "string \<Rightarrow> string" where
  "build_options_hash_lookup_pattern options_hash =
     (if endswith options_hash '']''
      then butlast (escape_like options_hash) @ ''&%'' else escape_like options_hash @ ''%'')"

section \<open>Identities\<close>

definition reform_impact_scope :: "setup_options \<Rightarrow> impact_scope" where
  "reform_impact_scope eo =
     \<lparr>sc_country_id = eo_country_id eo, sc_reform_policy_id = eo_reform_policy_id eo,
      sc_baseline_policy_id = eo_baseline_policy_id eo, sc_region = eo_region eo,
      sc_dataset = eo_dataset eo, sc_time_period = eo_time_period eo\<rparr>"

definition reform_impact_identity :: "setup_options \<Rightarrow> impact_identity" where
  "reform_impact_identity eo =
     \<lparr>id_scope = reform_impact_scope eo, id_api_version = eo_api_version eo,
      id_options_hash = eo_options_hash eo\<rparr>"

definition claim_identity :: "setup_options \<Rightarrow> impact_identity result" where
  "claim_identity eo =
     (if \<not> given (eo_options_hash eo)
      then Inl (ValueError ''resolved reform-impact options hash is required'')
      else Inr (reform_impact_identity eo))"

definition claim_observability_id :: "setup_options \<Rightarrow> string option \<Rightarrow> string result" where
  "claim_observability_id eo obs =
     (case text_or obs (eo_observability_id eo) of
        None \<Rightarrow> Inl (ValueError ''reform-impact observability identifier is required'')
      | Some o' \<Rightarrow> Inr o')"

definition claim_reform_impact_start :: "'w economy \<Rightarrow> setup_options \<Rightarrow> string \<Rightarrow> ('w, bool) act" where
  "claim_reform_impact_start ec eo obs =
     bindA (liftA (claim_observability_id eo (Some obs))) (\<lambda>resolved.
     bindA (liftA (claim_identity eo)) (\<lambda>identity.
       claim_start (rs_cache (ec_impacts ec)) identity (eo_target eo) (eo_submission_claim_id eo) resolved))"

definition get_reform_impact_start_claim ::
  "'w economy \<Rightarrow> setup_options \<Rightarrow> ('w, start_claim option) act" where
  "get_reform_impact_start_claim ec eo =
     bindA (liftA (claim_identity eo)) (\<lambda>identity.
       get_start_claim (rs_cache (ec_impacts ec)) identity (eo_target eo))"

definition release_start_claim :: "'w economy \<Rightarrow> setup_options \<Rightarrow> ('w, unit) act" where
  "release_start_claim ec eo =
     bindA (liftA (claim_observability_id eo None)) (\<lambda>resolved.
     bindA (liftA (claim_identity eo)) (\<lambda>identity.
       release_reform_impact_start (ec_impacts ec) identity (eo_target eo)
         (eo_submission_claim_id eo) resolved))"

section \<open>Stored impacts\<close>

definition get_previous_impacts ::
  "'w economy \<Rightarrow> bool \<Rightarrow> impact_scope \<Rightarrow> string \<Rightarrow> string \<Rightarrow> ('w, cached_impact list) act" where
  "get_previous_impacts ec fail_closed scope options_hash api_version =
     get_all_reform_impacts_by_options_hash_prefix (ec_impacts ec) fail_closed
       \<lparr>id_scope = scope, id_api_version = api_version, id_options_hash = Some options_hash\<rparr>
       (build_options_hash_lookup_pattern options_hash)"

definition first_exact :: "string \<Rightarrow> cached_impact list \<Rightarrow> cached_impact option" where
  "first_exact options_hash impacts =
     (case List.find (\<lambda>i. im_options_hash i = Some options_hash) impacts of
        Some i \<Rightarrow> Some i | None \<Rightarrow> (case impacts of [] \<Rightarrow> None | i # is \<Rightarrow> Some i))"

definition get_most_recent_impact ::
  "'w economy \<Rightarrow> bool \<Rightarrow> setup_options \<Rightarrow> ('w, cached_impact option) act" where
  "get_most_recent_impact ec fail_closed eo =
     (case eo_options_hash eo of
        None \<Rightarrow> raiseA (OtherError ''options_hash'')
      | Some options_hash \<Rightarrow>
          bindA (get_previous_impacts ec fail_closed (reform_impact_scope eo) options_hash (eo_api_version eo))
            (\<lambda>impacts. retA (first_exact options_hash impacts)))"

definition extract_cached_result :: "cached_impact \<Rightarrow> (string \<times> json) list" where
  "extract_cached_result i =
     (case parse_json_object (im_reform_impact_json i) of Inr (JObj d) \<Rightarrow> d | _ \<Rightarrow> [])"

definition should_refresh_cached_impact ::
  "'w economy \<Rightarrow> setup_options \<Rightarrow> cached_impact \<Rightarrow> ('w, bool \<times> setup_options) act" where
  "should_refresh_cached_impact ec eo i =
     (if im_status i = ''computing'' then retA (False, eo)
      else
        (let cached_app = dict_get_none (extract_cached_result i) ''resolved_app_name''
         in bindA (catchA (bindA (resolve_app ec eo) (\<lambda>r. retA (Some r))) (\<lambda>e. retA None)) (\<lambda>resolved.
              case resolved of
                None \<Rightarrow> retA (False, eo)
              | Some r \<Rightarrow>
                  (let eo' = with_options_hash (with_runtime_app eo r)
                   in retA (case text_json cached_app of
                              None \<Rightarrow> (True, eo')
                            | Some app \<Rightarrow> (fst r \<noteq> app, eo'))))))"

definition get_reusable_impact ::
  "'w economy \<Rightarrow> bool \<Rightarrow> setup_options \<Rightarrow> ('w, cached_impact option \<times> setup_options) act" where
  "get_reusable_impact ec fail_closed eo =
     bindA (get_most_recent_impact ec fail_closed eo) (\<lambda>found.
       case found of
         None \<Rightarrow> retA (None, eo)
       | Some i \<Rightarrow>
           bindA (should_refresh_cached_impact ec eo i) (\<lambda>(refresh, eo').
             if \<not> refresh then retA (Some i, eo')
             else bindA (get_most_recent_impact ec fail_closed eo') (\<lambda>again.
               retA (case again of
                       Some j \<Rightarrow> if im_options_hash j = eo_options_hash eo' then Some j else None
                     | None \<Rightarrow> None, eo'))))"

definition determine_impact_action :: "cached_impact option \<Rightarrow> impact_action result" where
  "determine_impact_action found =
     (case found of
        None \<Rightarrow> Inr ACreate
      | Some i \<Rightarrow>
          if im_status i = ''ok'' then Inr ACompleted
          else if im_status i = ''error'' then Inr AFailed
          else if im_status i = ''computing'' then Inr AComputing
          else Inl (ValueError (''Unknown impact status: '' @ im_status i)))"

section \<open>Status records\<close>

definition set_reform_impact_computing :: "'w economy \<Rightarrow> setup_options \<Rightarrow> string \<Rightarrow> ('w, unit) act" where
  "set_reform_impact_computing ec eo execution_id w =
     bindA (set_reform_impact (ec_impacts ec) (reform_impact_identity eo)
              \<lparr>rx_execution_id = execution_id, rx_start_time = Some (ec_local_now ec w),
               rx_observability_id = eo_observability_id eo\<rparr>
              (JObj (eo_options eo)) ''computing'' (JObj []))
       (\<lambda>i. retA ()) w"

definition set_impact_complete :: "'w economy \<Rightarrow> json \<Rightarrow> string \<Rightarrow> ('w, unit) act" where
  "set_impact_complete ec impact_json execution_id =
     bindA (set_complete_reform_impact (ec_impacts ec) execution_id impact_json) (\<lambda>i. retA ())"

definition execution_id_of :: "cached_impact \<Rightarrow> string result" where
  "execution_id_of i =
     (case im_execution_id i of None \<Rightarrow> Inl (OtherError ''execution_id'') | Some e \<Rightarrow> Inr e)"

definition set_impact_error ::
  "'w economy \<Rightarrow> string \<Rightarrow> string \<Rightarrow> string option \<Rightarrow> int option \<Rightarrow> ('w, cached_impact option) act" where
  "set_impact_error ec message execution_id error_code keep_seconds =
     set_error_reform_impact (ec_impacts ec) execution_id message error_code keep_seconds"

definition failure_the_next_request_answers_from ::
  "'w economy \<Rightarrow> cached_impact option \<Rightarrow> setup_options \<Rightarrow> ('w, cached_impact option) act" where
  "failure_the_next_request_answers_from ec stored_failure eo =
     (case stored_failure of
        None \<Rightarrow> retA None
      | Some failure \<Rightarrow>
          bindA (get_most_recent_impact ec False eo) (\<lambda>next_answer.
            retA (case next_answer of
                    None \<Rightarrow> None
                  | Some i \<Rightarrow> if im_execution_id i \<noteq> im_execution_id failure then None else Some failure)))"

definition stored_failure_result ::
  "'w economy \<Rightarrow> string \<Rightarrow> cached_impact option \<Rightarrow> ('w, impact_result) act" where
  "stored_failure_result ec message stored_failure =
     (case stored_failure of
        None \<Rightarrow> retA (impact_error message None None)
      | Some failure \<Rightarrow>
          bindA (get_reform_impact_seconds_left (ec_impacts ec) failure) (\<lambda>retry.
            case retry of
              None \<Rightarrow> retA (impact_error message None None)
            | Some s \<Rightarrow>
                bindA (get_reform_impact_seconds_until (ec_impacts ec) failure
                         FAILED_IMPACT_DELETE_LOCKOUT_SECONDS)
                  (\<lambda>d. retA (impact_error message (Some s) (Some d)))))"

section \<open>Lookups\<close>

lemma like_tokens_escape: "like_tokens False (escape_like s @ t) = map LChar s @ like_tokens False t"
  by (induction s) (auto simp: escape_like_def)

lemma like_match_chars: "like_match (map LChar s @ ts) v \<longleftrightarrow> (\<exists>r. v = s @ r \<and> like_match ts r)"
proof (induction s arbitrary: v)
  case (Cons c s)
  then show ?case by (cases v) auto
qed simp

lemma like_match_many: "like_match [LMany] v \<longleftrightarrow> CHR 0x0A \<notin> set (butlast v)"
  by (induction v) auto

text \<open>
  C32. The pattern an options hash looks impacts up by selects exactly the texts that continue
  the hash: after the fields of a bracketed hash, a separator and anything further, and after
  any other hash anything. Wildcards and escapes in the hash match only themselves; what
  follows may end with a newline and has none before its end.
\<close>

theorem lookup_pattern_selects:
  "like_matches v (build_options_hash_lookup_pattern h) \<longleftrightarrow>
     (\<exists>rest. v = (if endswith h '']'' then butlast h @ ''&'' else h) @ rest \<and> CHR 0x0A \<notin> set (butlast rest))"
proof (cases "endswith h '']''")
  case True
  then have "h = take (length h - length '']'') h @ '']''" by (metis append_take_drop_id endswith_def)
  then obtain s where h: "h = s @ '']''" by blast
  have "escape_like h = escape_like s @ '']''" by (simp add: h escape_like_def)
  then have p: "build_options_hash_lookup_pattern h = escape_like s @ ''&%''"
    using True by (simp add: build_options_hash_lookup_pattern_def)
  have "like_matches v (escape_like s @ ''&%'') \<longleftrightarrow> (\<exists>r. v = s @ ''&'' @ r \<and> like_match [LMany] r)"
    using like_match_chars [of "s @ ''&''" "[LMany]" v] by (simp add: like_matches_def like_tokens_escape)
  then show ?thesis unfolding p using True by (simp add: h like_match_many del: like_match.simps)
next
  case False
  then have "like_matches v (build_options_hash_lookup_pattern h) \<longleftrightarrow> (\<exists>r. v = h @ r \<and> like_match [LMany] r)"
    using like_match_chars [of h "[LMany]" v]
    by (simp add: build_options_hash_lookup_pattern_def like_matches_def like_tokens_escape)
  with False show ?thesis by (simp add: like_match_many del: like_match.simps)
qed

theorem lookup_pattern_selects_witness:
  "like_matches ''[a_b=1&runtime_app_name=x]'' (build_options_hash_lookup_pattern ''[a_b=1]'')
   \<and> \<not> like_matches ''[azb=1&runtime_app_name=x]'' (build_options_hash_lookup_pattern ''[a_b=1]'')"
proof -
  have "endswith ''[a_b=1]'' '']''" by code_simp
  with lookup_pattern_selects [of "''[a_b=1&runtime_app_name=x]''" "''[a_b=1]''"]
    lookup_pattern_selects [of "''[azb=1&runtime_app_name=x]''" "''[a_b=1]''"] show ?thesis by simp
qed

lemma first_exact_ranked:
  assumes "first_exact h (sorted_desc (impact_rank (Some h)) impacts) = Some i"
  shows "i \<in> set impacts \<and> (\<forall>j\<in>set impacts. impact_rank (Some h) j \<le> impact_rank (Some h) i)"
proof -
  let ?s = "sorted_desc (impact_rank (Some h)) impacts"
  obtain y ys where s: "?s = y # ys" using assms by (cases ?s) (simp_all add: first_exact_def)
  have top: "impact_rank (Some h) j \<le> impact_rank (Some h) y" if "j \<in> set impacts" for j
    using sorted_desc_first [OF s that] .
  have "i = y"
  proof (cases "im_options_hash y = Some h")
    case True
    with assms s show ?thesis by (simp add: first_exact_def)
  next
    case False
    have "im_options_hash j \<noteq> Some h" if "j \<in> set ?s" for j
      using top [of j] that False set_sorted_desc [of "impact_rank (Some h)" impacts]
      by (auto simp: impact_rank_def)
    then have "List.find (\<lambda>i. im_options_hash i = Some h) ?s = None" by (simp add: find_None_iff)
    with assms s show ?thesis by (simp add: first_exact_def)
  qed
  moreover have "y \<in> set impacts" using s set_sorted_desc by (metis list.set_intros(1))
  ultimately show ?thesis using top by simp
qed

end
