(* ===== verification/Impact_Execution.thy ===== *)
theory Impact_Execution
  imports Stored_Impacts
begin

text \<open>
  \<open>policyengine_api/services/economy_impact_execution.py\<close>: submitting a single-year job,
  following its execution, and answering from its stored result.
\<close>

section \<open>Execution states\<close>

definition EXECUTION_STATUSES_SUCCESS :: "string list" where
  "EXECUTION_STATUSES_SUCCESS = [''complete'']"

definition EXECUTION_STATUSES_FAILURE :: "string list" where
  "EXECUTION_STATUSES_FAILURE = [''failed'']"

definition EXECUTION_STATUSES_PENDING :: "string list" where
  "EXECUTION_STATUSES_PENDING = [''submitted'', ''running'']"

definition wants_breakdown :: "setup_options \<Rightarrow> bool" where
  "wants_breakdown eo \<longleftrightarrow> dict_get_none (eo_options eo) ''breakdown'' \<noteq> JNull"

definition breakdown_result_kind_error :: "setup_options \<Rightarrow> json \<Rightarrow> string option" where
  "breakdown_result_kind_error eo res =
     (if \<not> wants_breakdown eo then None
      else
        (let kind = (case res of JObj d \<Rightarrow> dict_get_none d ''kind'' | _ \<Rightarrow> JNull)
         in if kind = JStr LOCAL_AREA_BREAKDOWN then None
            else Some (''The simulation API returned a result of kind '' @ py_repr kind
                   @ '' for a local-area breakdown request, which needs kind ''
                   @ repr_string LOCAL_AREA_BREAKDOWN @ ''; the result was not stored'')))"

definition failure_retry_note :: "setup_options \<Rightarrow> string option" where
  "failure_retry_note eo =
     (if wants_breakdown eo then Some LOCAL_AREA_BREAKDOWN_RETRY_NOTE
      else if eo_country_id eo = ''us'' \<and> startswith (eo_region eo) ''state/'' then Some US_STATE_RETRY_NOTE
      else None)"

definition record_retryable_failure ::
  "'w economy \<Rightarrow> setup_options \<Rightarrow> cached_impact \<Rightarrow> string \<Rightarrow> string \<Rightarrow> ('w, impact_result) act" where
  "record_retryable_failure ec eo i reason retry_note =
     (let message = reason @ ''. '' @ retry_note
      in bindA (if given (im_execution_id i)
                then set_impact_error ec message (the (im_execution_id i)) None (Some RETRYABLE_FAILURE_SECONDS)
                else retA None) (\<lambda>stored_failure.
         bindA (failure_the_next_request_answers_from ec stored_failure eo) (\<lambda>answer.
           stored_failure_result ec message answer)))"

section \<open>The bundle of a result\<close>

definition update_not_null :: "(string \<times> json) list \<Rightarrow> json \<Rightarrow> (string \<times> json) list" where
  "update_not_null bundle v =
     (case v of
        JObj d \<Rightarrow> fold (\<lambda>(k, x) b. AList.update k x b) (filter (\<lambda>(k, x). x \<noteq> JNull) d) bundle
      | _ \<Rightarrow> bundle)"

definition with_policyengine_bundle ::
  "json \<Rightarrow> setup_options \<Rightarrow> sim_execution option \<Rightarrow> (string \<times> json) list" where
  "with_policyengine_bundle res eo execution =
     (let d = (case res of JObj d \<Rightarrow> d | _ \<Rightarrow> []);
          cached_app = text_json (dict_get_none d ''resolved_app_name'');
          use_setup = execution \<noteq> None \<or> cached_app \<noteq> None;
          setup_bundle = [(''model_version'', if use_setup then opt_str (eo_model_version eo) else JNull),
            (''policyengine_version'', if use_setup then opt_str (eo_policyengine_version eo) else JNull),
            (''data_version'', opt_str (eo_data_version eo)), (''dataset'', JStr (eo_dataset eo))];
          own_bundle = update_not_null setup_bundle (dict_get_none d ''policyengine_bundle'');
          full_bundle = (case execution of None \<Rightarrow> own_bundle
                         | Some ex \<Rightarrow> update_not_null own_bundle (ex_policyengine_bundle ex));
          response = AList.update ''policyengine_bundle'' (JObj full_bundle) d;
          app = (case (case execution of None \<Rightarrow> None | Some ex \<Rightarrow> text_json (ex_resolved_app_name ex)) of
                   Some a \<Rightarrow> Some a | None \<Rightarrow> eo_runtime_app_name eo)
      in if given app then AList.update ''resolved_app_name'' (opt_str app) response else response)"

section \<open>Answering from an execution\<close>

definition request_spm :: "setup_options \<Rightarrow> json" where
  "request_spm eo = dict_get_none (eo_options eo) ''spm''"

definition check_annual_result :: "'w economy \<Rightarrow> setup_options \<Rightarrow> json \<Rightarrow> unit result" where
  "check_annual_result ec eo res =
     validate_worker_result (en_install (ec_gateway ec)) (request_spm eo) res (Some (eo_time_period eo)) None"

definition handle_execution_state ::
  "'w economy \<Rightarrow> setup_options \<Rightarrow> string \<Rightarrow> cached_impact \<Rightarrow> sim_execution \<Rightarrow> ('w, impact_result) act" where
  "handle_execution_state ec eo execution_state i execution =
     (if execution_state \<in> set EXECUTION_STATUSES_SUCCESS then
        (case breakdown_result_kind_error eo (ex_result execution) of
           Some kind_error \<Rightarrow>
             record_retryable_failure ec eo i kind_error LOCAL_AREA_BREAKDOWN_RETRY_NOTE
         | None \<Rightarrow>
             (let res = JObj (with_policyengine_bundle (ex_result execution) eo (Some execution))
              in bindA (liftA (check_annual_result ec eo res)) (\<lambda>u.
                 bindA (liftA (execution_id_of i)) (\<lambda>execution_id.
                 bindA (set_impact_complete ec res execution_id) (\<lambda>u.
                   retA (impact_completed res))))))
      else if execution_state \<in> set EXECUTION_STATUSES_FAILURE then
        (let error_message = (if truthy (ex_error execution)
               then ''Simulation entrypoint execution failed: '' @ py_str (ex_error execution)
               else ''Simulation entrypoint execution failed'')
         in case failure_retry_note eo of
              Some retry_note \<Rightarrow> record_retryable_failure ec eo i error_message retry_note
            | None \<Rightarrow>
                bindA (liftA (execution_id_of i)) (\<lambda>execution_id.
                bindA (set_impact_error ec error_message execution_id None None) (\<lambda>stored_failure.
                bindA (failure_the_next_request_answers_from ec stored_failure eo) (\<lambda>answer.
                  stored_failure_result ec error_message answer))))
      else if execution_state \<in> set EXECUTION_STATUSES_PENDING then
        retA (impact_computing (ex_run_progress execution))
      else raiseA (ValueError (''Unexpected sim API execution state: '' @ execution_state)))"

definition record_uncertifiable_stored_impact ::
  "'w economy \<Rightarrow> setup_options \<Rightarrow> cached_impact \<Rightarrow> string \<Rightarrow> string \<Rightarrow> ('w, unit) act" where
  "record_uncertifiable_stored_impact ec eo i code message =
     (if \<not> given (im_execution_id i) then retA ()
      else if im_options_hash i \<noteq> eo_options_hash eo then retA ()
      else catchA (bindA (set_impact_error ec message (the (im_execution_id i)) (Some code) None) (\<lambda>f. retA ()))
             (\<lambda>e. retA ()))"

definition handle_completed_impact ::
  "'w economy \<Rightarrow> setup_options \<Rightarrow> cached_impact \<Rightarrow> ('w, impact_result) act" where
  "handle_completed_impact ec eo i =
     bindA (liftA (parse_json_object (im_reform_impact_json i))) (\<lambda>res.
       bindA (catchA (liftA (check_annual_result ec eo res))
         (\<lambda>e. case e of
            SPMValidationError code message \<Rightarrow>
              bindA (record_uncertifiable_stored_impact ec eo i code message) (\<lambda>u. raiseA e)
          | _ \<Rightarrow> raiseA e))
         (\<lambda>u. retA (impact_completed (JObj (with_policyengine_bundle res eo None)))))"

definition handle_failed_impact :: "'w economy \<Rightarrow> cached_impact \<Rightarrow> ('w, impact_result) act" where
  "handle_failed_impact ec i =
     (if given (im_error_code i)
      then raiseA (SPMValidationError (the (im_error_code i)) (py_opt (im_message i)))
      else stored_failure_result ec
             (the (text_or (im_message i) (Some ''Simulation entrypoint execution failed''))) (Some i))"

definition handle_computing_impact ::
  "'w economy \<Rightarrow> setup_options \<Rightarrow> cached_impact \<Rightarrow> ('w, impact_result) act" where
  "handle_computing_impact ec eo i =
     bindA (liftA (execution_id_of i)) (\<lambda>execution_id.
       catchA
         (bindA (get_execution_by_id (ec_gateway ec) execution_id) (\<lambda>execution.
            handle_execution_state ec eo (ex_status execution) i execution))
         (\<lambda>e. case e of
            SPMValidationError code message \<Rightarrow>
              bindA (set_impact_error ec message execution_id (Some code) None) (\<lambda>f. raiseA e)
          | _ \<Rightarrow> raiseA e))"

section \<open>Submitting a job\<close>

definition submission_metadata :: "setup_options \<Rightarrow> json" where
  "submission_metadata eo =
     JObj [(''reform_policy_id'', JInt (eo_reform_policy_id eo)),
           (''baseline_policy_id'', JInt (eo_baseline_policy_id eo)),
           (''submission_claim_id'', JStr (eo_submission_claim_id eo)),
           (''model_version'', opt_str (eo_model_version eo)),
           (''policyengine_version'', opt_str (eo_policyengine_version eo)),
           (''data_version'', opt_str (eo_data_version eo)), (''dataset'', JStr (eo_dataset eo)),
           (''resolved_app_name'', opt_str (eo_runtime_app_name eo))]"

definition hand_off_execution :: "'w economy \<Rightarrow> setup_options \<Rightarrow> sim_execution \<Rightarrow> ('w, unit) act" where
  "hand_off_execution ec eo execution =
     catchA (set_reform_impact_computing ec eo (ex_job_id execution))
       (\<lambda>e. case e of
          ReformImpactHandoffError m \<Rightarrow> raiseA e
        | _ \<Rightarrow> raiseA (ReformImpactHandoffError
                 ''simulation was submitted but its execution state could not be handed off''))"

definition handle_create_impact ::
  "'w economy \<Rightarrow> setup_options \<Rightarrow> impact_policies \<Rightarrow> ('w, impact_result) act" where
  "handle_create_impact ec eo policies w =
     bindA (liftA (setup_sim_options (en_install (ec_gateway ec)) eo (reform_json policies)
              (baseline_json policies) (eo_time_period eo) (eo_target eo = ''cliff''))) (\<lambda>sim_config.
       (let sim_params = simulation_options_dump sim_config;
            telemetry = build_simulation_telemetry ec eo (JObj sim_params) w;
            payload = sim_params @ [(''_metadata'', submission_metadata eo), (''_telemetry'', telemetry)]
        in bindA (catchA (bindA (run_simulation (ec_gateway ec) payload) (\<lambda>ex. retA (Inr ex)))
                 (\<lambda>e. case e of
                    HTTPStatusError status_code body error_text \<Rightarrow>
                      bindA (liftA (breakdown_refusal status_code body error_text (sm_breakdown sim_config)))
                        (\<lambda>refusal. case refusal of None \<Rightarrow> raiseA e | Some r \<Rightarrow> retA (Inl r))
                  | _ \<Rightarrow> raiseA e))
           (\<lambda>submitted. case submitted of
              Inl refusal \<Rightarrow> retA refusal
            | Inr execution \<Rightarrow>
                bindA (hand_off_execution ec eo execution) (\<lambda>u. retA (impact_computing None))))) w"

end
