(* ===== verification/Act_Logic.thy ===== *)
theory Act_Logic
  imports Prelude
begin

text \<open>
  Two small logics of actions. \<open>yields P m\<close>: whatever \<open>m\<close> returns satisfies \<open>P\<close>.
  \<open>stays f m\<close>: \<open>m\<close> leaves the part \<open>f\<close> of the state as it was, whether it returns or
  raises. Their rules are collected as \<open>yields_intros\<close> and \<open>stays_intros\<close>.
\<close>

named_theorems yields_intros \<open>what actions return\<close>
named_theorems stays_intros \<open>what actions leave unchanged\<close>

section \<open>What an action returns\<close>

definition yields :: "('a \<Rightarrow> bool) \<Rightarrow> ('w, 'a) act \<Rightarrow> bool" where
  "yields P m \<longleftrightarrow> (\<forall>w x w'. m w = (Inr x, w') \<longrightarrow> P x)"

lemma yieldsD: "yields P m \<Longrightarrow> m w = (Inr x, w') \<Longrightarrow> P x"
  by (auto simp: yields_def)

lemma yields_retA [yields_intros]: "P x \<Longrightarrow> yields P (retA x)"
  by (simp add: yields_def retA_def)

lemma yields_raiseA [yields_intros]: "yields P (raiseA e)"
  by (simp add: yields_def raiseA_def)

lemma yields_liftA [yields_intros]: "(\<And>x. r = Inr x \<Longrightarrow> P x) \<Longrightarrow> yields P (liftA r)"
  by (simp add: yields_def liftA_def)

lemma yields_bindA [yields_intros]: "(\<And>x. yields P (f x)) \<Longrightarrow> yields P (bindA m f)"
  by (auto simp: yields_def bindA_def split: prod.splits sum.splits)

lemma yields_bindA_of:
  "yields Q m \<Longrightarrow> (\<And>x. Q x \<Longrightarrow> yields P (f x)) \<Longrightarrow> yields P (bindA m f)"
  by (fastforce simp: yields_def bindA_def split: prod.splits sum.splits)

lemma yields_bindA_liftA [yields_intros]:
  "(\<And>x. r = Inr x \<Longrightarrow> yields P (f x)) \<Longrightarrow> yields P (bindA (liftA r) f)"
  by (rule yields_bindA_of [of "\<lambda>x. r = Inr x"]) (auto intro: yields_liftA)

lemma yields_catchA [yields_intros]:
  "yields P m \<Longrightarrow> (\<And>e. yields P (h e)) \<Longrightarrow> yields P (catchA m h)"
  by (fastforce simp: yields_def catchA_def split: prod.splits sum.splits)

lemma yields_mono: "yields P m \<Longrightarrow> (\<And>x. P x \<Longrightarrow> Q x) \<Longrightarrow> yields Q m"
  by (auto simp: yields_def)

lemma yields_at: "(\<And>w0. yields P (\<lambda>w. m w0 w)) \<Longrightarrow> yields P (\<lambda>w. m w w)"
  by (auto simp: yields_def)

section \<open>What an action leaves unchanged\<close>

definition stays :: "('w \<Rightarrow> 'b) \<Rightarrow> ('w, 'a) act \<Rightarrow> bool" where
  "stays f m \<longleftrightarrow> (\<forall>w. f (snd (m w)) = f w)"

lemma staysD: "stays f m \<Longrightarrow> m w = (r, w') \<Longrightarrow> f w' = f w"
  by (metis stays_def snd_conv)

lemma stays_retA [stays_intros]: "stays f (retA x)"
  by (simp add: stays_def retA_def)

lemma stays_raiseA [stays_intros]: "stays f (raiseA e)"
  by (simp add: stays_def raiseA_def)

lemma stays_liftA [stays_intros]: "stays f (liftA r)"
  by (simp add: stays_def liftA_def)

lemma stays_bindA [stays_intros]:
  "stays f m \<Longrightarrow> (\<And>x. stays f (g x)) \<Longrightarrow> stays f (bindA m g)"
  by (simp add: stays_def bindA_def split: prod.splits sum.splits) (metis snd_conv)

lemma stays_catchA [stays_intros]:
  "stays f m \<Longrightarrow> (\<And>e. stays f (h e)) \<Longrightarrow> stays f (catchA m h)"
  by (simp add: stays_def catchA_def split: prod.splits sum.splits) (metis snd_conv)

lemma stays_mapA [stays_intros]: "(\<And>x. stays f (g x)) \<Longrightarrow> stays f (mapA g xs)"
  by (induction xs) (auto intro!: stays_intros)

lemma stays_at: "(\<And>w0. stays f (\<lambda>w. m w0 w)) \<Longrightarrow> stays f (\<lambda>w. m w w)"
  by (auto simp: stays_def)

lemma stays_if [stays_intros]: "stays f m \<Longrightarrow> stays f n \<Longrightarrow> stays f (if b then m else n)"
  by simp

lemma stays_option [stays_intros]:
  "stays f m \<Longrightarrow> (\<And>x. stays f (g x)) \<Longrightarrow> stays f (case v of None \<Rightarrow> m | Some x \<Rightarrow> g x)"
  by (cases v) auto

lemma stays_prod [stays_intros]:
  "(\<And>x y. stays f (g x y)) \<Longrightarrow> stays f (case v of (x, y) \<Rightarrow> g x y)"
  by (cases v) auto

lemma stays_sum [stays_intros]:
  "(\<And>x. stays f (g x)) \<Longrightarrow> (\<And>y. stays f (h y)) \<Longrightarrow> stays f (case v of Inl x \<Rightarrow> g x | Inr y \<Rightarrow> h y)"
  by (cases v) auto

lemma stays_spm_error [stays_intros]:
  "(\<And>c s. stays f (g c s)) \<Longrightarrow> stays f h \<Longrightarrow>
     stays f (case e of SPMValidationError c s \<Rightarrow> g c s | _ \<Rightarrow> h)"
  by (cases e) auto

lemma stays_handoff_error [stays_intros]:
  "(\<And>s. stays f (g s)) \<Longrightarrow> stays f h \<Longrightarrow>
     stays f (case e of ReformImpactHandoffError s \<Rightarrow> g s | _ \<Rightarrow> h)"
  by (cases e) auto

lemma stays_status_error [stays_intros]:
  "(\<And>c b s. stays f (g c b s)) \<Longrightarrow> stays f h \<Longrightarrow>
     stays f (case e of HTTPStatusError c b s \<Rightarrow> g c b s | _ \<Rightarrow> h)"
  by (cases e) auto

lemma stays_request_error [stays_intros]:
  "(\<And>b s. stays f (g b s)) \<Longrightarrow> stays f h \<Longrightarrow>
     stays f (case e of HTTPRequestError b s \<Rightarrow> g b s | _ \<Rightarrow> h)"
  by (cases e) auto

end
