(* ===== verification/Economy_Service.thy ===== *)
theory Economy_Service
  imports Impact_Execution Act_Logic
begin

text \<open>
  \<open>policyengine_api/services/economy_service.py\<close>: resolving a request's options, answering
  it from its stored impact or by a new simulation, and deleting a stored failure.

  The setup options a method mutates are an argument it returns changed. Telemetry, logging
  and the lazy construction of the collaborators are not modelled.
\<close>

section \<open>Resolved options\<close>

definition with_resolved_spm :: "json \<Rightarrow> (string \<times> json) list \<Rightarrow> (string \<times> json) list" where
  "with_resolved_spm resolved opts =
     (if resolved = JNull then opts else AList.update ''spm'' resolved opts)"

definition installed_bundle :: "runtime_versions_table \<Rightarrow> string \<Rightarrow> bundle_identity" where
  "installed_bundle rt country_id =
     \<lparr>bi_dataset = ''default'', bi_model_version = rt_country rt country_id,
      bi_policyengine_version =
        (if country_id \<in> {''us'', ''uk''} then Some (rt_policyengine rt) else None),
      bi_data_version = None, bi_runtime_app_name = None\<rparr>"

definition setup_options_of ::
  "runtime_versions_table \<Rightarrow> impact_request \<Rightarrow> string \<Rightarrow> (string \<times> json) list \<Rightarrow> string \<Rightarrow> string
     \<Rightarrow> setup_options" where
  "setup_options_of rt rq time_period opts claim_id cache_version =
     (let bi = installed_bundle rt (rq_country_id rq)
      in \<lparr>eo_submission_claim_id = claim_id, eo_observability_id = None,
          eo_country_id = rq_country_id rq, eo_reform_policy_id = rq_policy_id rq,
          eo_baseline_policy_id = rq_baseline_policy_id rq, eo_region = rq_region rq,
          eo_dataset = bi_dataset bi, eo_time_period = time_period, eo_options = opts,
          eo_api_version = cache_version, eo_target = rq_target rq,
          eo_model_version = bi_model_version bi,
          eo_policyengine_version = bi_policyengine_version bi,
          eo_data_version = bi_data_version bi, eo_runtime_app_name = None,
          eo_options_hash = Some (build_options_hash opts bi)\<rparr>)"

definition request_checks :: "uk_registry \<Rightarrow> impact_request \<Rightarrow> unit result" where
  "request_checks reg rq =
     (if rq_dataset rq \<noteq> ''default''
      then Inl (ValueError ''Custom datasets are not supported for economy calculations'')
      else res_bind (validate_breakdown rq) (\<lambda>u. validate_uk_region reg rq))"

definition build_economic_impact_setup_options ::
  "'w economy \<Rightarrow> impact_request \<Rightarrow> string \<Rightarrow> ('w, setup_options) act" where
  "build_economic_impact_setup_options ec rq time_period =
     bindA (liftA (request_checks (ec_uk ec) rq)) (\<lambda>u.
     bindA (gateway_worker_spm (ec_gateway ec) (rq_country_id rq) (dict_get_none (rq_options rq) ''spm'')
              (Some (rt_policyengine (ec_versions ec))) (rt_country (ec_versions ec) (rq_country_id rq)))
       (\<lambda>resolved_spm.
     bindA (ec_new_claim_id ec) (\<lambda>claim_id.
     bindA (liftA (get_economy_impact_cache_version (ec_versions ec) (rq_country_id rq) (rq_api_version rq)))
       (\<lambda>cache_version.
         retA (setup_options_of (ec_versions ec) rq time_period
                 (with_resolved_spm resolved_spm (rq_options rq)) claim_id cache_version)))))"

section \<open>Submission ownership\<close>

definition restored :: "'w economy \<Rightarrow> string option \<Rightarrow> setup_options \<Rightarrow> ('w, setup_options) act" where
  "restored ec obs eo =
     bindA (restore_observability_id (ec_request ec) (opt_text_json obs))
       (\<lambda>bound. retA (eo\<lparr>eo_observability_id := bound\<rparr>))"

text \<open>
  The claim attempts: the options of the request that owns the submission, or the claim of
  another request with the options that carry its identifier.
\<close>

fun claim_attempts ::
  "nat \<Rightarrow> 'w economy \<Rightarrow> setup_options \<Rightarrow> string \<Rightarrow> ('w, start_claim option \<times> setup_options) act" where
  "claim_attempts 0 ec eo candidate =
     raiseA (CacheCoordinationError ''reform-impact submission ownership changed repeatedly'')"
| "claim_attempts (Suc n) ec eo candidate =
     bindA (claim_reform_impact_start ec eo candidate) (\<lambda>claimed.
       if claimed then
         bindA (start_observability_id (ec_request ec) (JStr candidate))
           (\<lambda>obs. retA (None, eo\<lparr>eo_observability_id := Some obs\<rparr>))
       else
         bindA (get_reform_impact_start_claim ec eo) (\<lambda>existing.
           case existing of
             None \<Rightarrow> claim_attempts n ec eo candidate
           | Some claim \<Rightarrow>
               bindA (restored ec (Some (sl_observability_id claim)) eo) (\<lambda>eo'. retA (Some claim, eo'))))"

definition claim_reform_impact_submission ::
  "'w economy \<Rightarrow> setup_options \<Rightarrow> ('w, start_claim option \<times> setup_options) act" where
  "claim_reform_impact_submission ec eo =
     bindA (resolve_runtime_bundle_for_setup_options ec eo) (\<lambda>eo' w.
       bindA (resolve_observability_id (ec_request ec) (opt_text_json (rc_incoming (ec_request ec) w)))
         (\<lambda>candidate. claim_attempts REFORM_IMPACT_START_CLAIM_ATTEMPTS ec eo' candidate) w)"

definition submit_owned_impact ::
  "'w economy \<Rightarrow> setup_options \<Rightarrow> impact_policies \<Rightarrow> ('w, impact_result) act" where
  "submit_owned_impact ec eo policies =
     bindA (catchA (handle_create_impact ec eo policies)
         (\<lambda>e. case e of
            ReformImpactHandoffError m \<Rightarrow> raiseA e
          | _ \<Rightarrow> bindA (release_start_claim ec eo) (\<lambda>u. raiseA e)))
       (\<lambda>res. bindA (release_start_claim ec eo) (\<lambda>u. retA res))"

definition create_economic_impact :: "'w economy \<Rightarrow> setup_options \<Rightarrow> ('w, impact_result) act" where
  "create_economic_impact ec eo =
     bindA (get_policy_jsons ec (eo_country_id eo) (eo_baseline_policy_id eo) (eo_reform_policy_id eo))
       (\<lambda>policies.
     bindA (claim_reform_impact_submission ec eo) (\<lambda>(existing_claim, eo').
       if existing_claim \<noteq> None then retA (impact_computing None)
       else submit_owned_impact ec eo' policies))"

section \<open>Answering a request\<close>

definition answer_from_stored_impact ::
  "'w economy \<Rightarrow> setup_options \<Rightarrow> impact_action \<Rightarrow> cached_impact \<Rightarrow> ('w, impact_result) act" where
  "answer_from_stored_impact ec eo action i =
     (case action of
        ACompleted \<Rightarrow> handle_completed_impact ec eo i
      | AFailed \<Rightarrow> handle_failed_impact ec i
      | AComputing \<Rightarrow> handle_computing_impact ec eo i
      | ACreate \<Rightarrow> raiseA (ValueError ''Unexpected impact action: create''))"

definition get_or_create_economic_impact :: "'w economy \<Rightarrow> setup_options \<Rightarrow> ('w, impact_result) act" where
  "get_or_create_economic_impact ec eo =
     bindA (get_reusable_impact ec False eo) (\<lambda>(most_recent, eo').
     bindA (liftA (determine_impact_action most_recent)) (\<lambda>action.
       case most_recent of
         None \<Rightarrow> create_economic_impact ec eo'
       | Some i \<Rightarrow>
           bindA (restored ec (im_observability_id i) eo') (\<lambda>eo''.
             answer_from_stored_impact ec eo'' action i)))"

definition get_economic_impact :: "'w economy \<Rightarrow> impact_request \<Rightarrow> string \<Rightarrow> ('w, impact_result) act" where
  "get_economic_impact ec rq time_period =
     bindA (liftA (validate_economy_year (rq_country_id rq) time_period)) (\<lambda>u.
     bindA (build_economic_impact_setup_options ec (with_normalized_region rq) time_period) (\<lambda>eo.
       get_or_create_economic_impact ec eo))"

section \<open>Deleting a stored failure\<close>

fun delete_attempts :: "nat \<Rightarrow> 'w economy \<Rightarrow> setup_options \<Rightarrow> ('w, failed_impact_deletion) act" where
  "delete_attempts 0 ec eo =
     raiseA (CacheCoordinationError ''the stored economic impact changed repeatedly while being deleted'')"
| "delete_attempts (Suc n) ec eo =
     bindA (get_reusable_impact ec True eo) (\<lambda>(stored, eo').
       case stored of
         None \<Rightarrow> retA deletion_not_found
       | Some i \<Rightarrow>
           if im_status i \<noteq> ''error'' then retA (deletion_not_a_failure (im_status i))
           else bindA (get_reform_impact_seconds_until (ec_impacts ec) i FAILED_IMPACT_DELETE_LOCKOUT_SECONDS)
             (\<lambda>delete_after.
               if 0 < delete_after then retA (deletion_locked delete_after)
               else bindA (delete_failed_reform_impact (ec_impacts ec) i) (\<lambda>deleted.
                 if deleted then retA deletion_deleted else delete_attempts n ec eo)))"

definition delete_failed_economic_impact ::
  "'w economy \<Rightarrow> impact_request \<Rightarrow> string \<Rightarrow> ('w, failed_impact_deletion) act" where
  "delete_failed_economic_impact ec rq time_period =
     bindA (liftA (validate_economy_year (rq_country_id rq) time_period)) (\<lambda>u.
     bindA (build_economic_impact_setup_options ec (with_normalized_region rq) time_period) (\<lambda>eo.
       delete_attempts FAILED_IMPACT_DELETE_ATTEMPTS ec eo))"

section \<open>Only certified results are answered\<close>

definition ok_certified :: "'w economy \<Rightarrow> setup_options \<Rightarrow> impact_result \<Rightarrow> bool" where
  "ok_certified ec eo r \<longleftrightarrow>
     (er_status r = Ok \<longrightarrow>
        (\<exists>d. er_data r = Some (JObj d)
           \<and> (request_spm eo \<noteq> JNull \<longrightarrow>
                annual_certified (en_install (ec_gateway ec)) (request_spm eo) (Some (eo_time_period eo)) d)))"

text \<open>The options of one request through the calls that resolve and claim it.\<close>

definition same_request :: "setup_options \<Rightarrow> setup_options \<Rightarrow> bool" where
  "same_request eo eo' \<longleftrightarrow>
     eo_options eo' = eo_options eo \<and> eo_time_period eo' = eo_time_period eo
     \<and> eo_submission_claim_id eo' = eo_submission_claim_id eo
     \<and> reform_impact_scope eo' = reform_impact_scope eo \<and> eo_target eo' = eo_target eo"

lemma same_request_simps [simp]:
  "same_request eo (with_options_hash eo') \<longleftrightarrow> same_request eo eo'"
  "same_request eo (with_runtime_app eo' r) \<longleftrightarrow> same_request eo eo'"
  "same_request eo (eo'\<lparr>eo_observability_id := v\<rparr>) \<longleftrightarrow> same_request eo eo'"
  "same_request eo eo"
  by (simp_all add: same_request_def with_options_hash_def with_runtime_app_def reform_impact_scope_def)

lemma same_request_certified: "same_request eo eo' \<Longrightarrow> ok_certified ec eo' r \<longleftrightarrow> ok_certified ec eo r"
  by (simp add: same_request_def ok_certified_def request_spm_def)

lemma not_ok_certified [simp]:
  "ok_certified ec eo (impact_error m s d)" "ok_certified ec eo (impact_computing p)"
  by (simp_all add: ok_certified_def impact_error_def impact_computing_def)

lemma annual_certified_bundle:
  "annual_certified inst sel y (with_policyengine_bundle (JObj d) eo ex) \<longleftrightarrow> annual_certified inst sel y d"
  by (simp add: annual_certified_def with_policyengine_bundle_def Let_def update_conv dict_get_none_def)

lemma check_annual_result_Inr:
  assumes "check_annual_result ec eo (JObj d) = Inr ()" and "request_spm eo \<noteq> JNull"
  shows "annual_certified (en_install (ec_gateway ec)) (request_spm eo) (Some (eo_time_period eo)) d"
  using assms validate_annual by (simp add: check_annual_result_def)

lemma yields_stored_failure_result:
  "yields (ok_certified ec eo) (stored_failure_result ec m f)"
  unfolding stored_failure_result_def by (auto split: option.split intro!: yields_intros)

lemma yields_record_retryable_failure:
  "yields (ok_certified ec eo) (record_retryable_failure ec eo i reason note)"
  unfolding record_retryable_failure_def Let_def
  by (intro yields_bindA yields_stored_failure_result)

lemma yields_handle_execution_state:
  "yields (ok_certified ec eo) (handle_execution_state ec eo s i ex)"
proof -
  have "ok_certified ec eo (impact_completed (JObj d))" if "check_annual_result ec eo (JObj d) = Inr ()" for d
    using check_annual_result_Inr [OF that] by (simp add: ok_certified_def impact_completed_def)
  then show ?thesis
    unfolding handle_execution_state_def Let_def
    by (auto split: option.split intro!: yields_intros yields_record_retryable_failure
        yields_stored_failure_result)
qed

lemma yields_handle_computing_impact:
  "yields (ok_certified ec eo) (handle_computing_impact ec eo i)"
  unfolding handle_computing_impact_def
  by (auto split: exn.split intro!: yields_intros yields_handle_execution_state)

lemma yields_handle_failed_impact: "yields (ok_certified ec eo) (handle_failed_impact ec i)"
  unfolding handle_failed_impact_def by (auto intro!: yields_intros yields_stored_failure_result)

lemma yields_handle_completed_impact:
  "yields (ok_certified ec eo) (handle_completed_impact ec eo i)"
  unfolding handle_completed_impact_def
proof (intro yields_bindA_liftA, goal_cases)
  case (1 res)
  then obtain d where d: "res = JObj d" using parse_json_object_Inr by blast
  show ?case
  proof (rule yields_bindA_of [of "\<lambda>u. check_annual_result ec eo res = Inr ()"], goal_cases)
    case 1
    show ?case
      by (auto split: exn.split intro!: yields_intros)
  next
    case (2 u)
    then show ?case
      using check_annual_result_Inr [of ec eo d] annual_certified_bundle
      by (auto simp: d ok_certified_def impact_completed_def intro!: yields_retA)
  qed
qed

lemma yields_answer_from_stored_impact:
  "yields (ok_certified ec eo) (answer_from_stored_impact ec eo action i)"
  unfolding answer_from_stored_impact_def
  by (auto split: impact_action.split intro!: yields_handle_completed_impact
      yields_handle_failed_impact yields_handle_computing_impact yields_raiseA)

lemma yields_handle_create_impact: "yields (ok_certified ec eo) (handle_create_impact ec eo' p)"
proof -
  let ?refused = "\<lambda>x. \<forall>r. x = Inl r \<longrightarrow> ok_certified ec eo r"
  have refusal: "ok_certified ec eo r" if "breakdown_refusal c b t k = Inr (Some r)" for r c b t k
    using that by (auto simp: breakdown_refusal_def res_bind_Inr_iff split: if_splits)
  show ?thesis
    unfolding handle_create_impact_def Let_def
  proof (rule yields_at, intro yields_bindA_liftA, rule yields_bindA_of [of ?refused], goal_cases)
    case (1 w sm)
    show ?case
      by (auto split: exn.split option.split intro!: yields_intros refusal)
  next
    case (2 w sm x)
    then show ?case by (auto split: sum.split intro!: yields_intros)
  qed
qed

lemma yields_submit_owned_impact: "yields (ok_certified ec eo) (submit_owned_impact ec eo' p)"
  unfolding submit_owned_impact_def
  by (rule yields_bindA_of [of "ok_certified ec eo"])
    (auto split: exn.split intro!: yields_intros yields_handle_create_impact)

lemma yields_create_economic_impact: "yields (ok_certified ec eo) (create_economic_impact ec eo')"
  unfolding create_economic_impact_def
  by (auto intro!: yields_intros yields_submit_owned_impact)

lemma yields_should_refresh:
  "yields (\<lambda>(b, eo'). same_request eo eo') (should_refresh_cached_impact ec eo i)"
  unfolding should_refresh_cached_impact_def Let_def
  by (auto split: option.split intro!: yields_intros)

lemma yields_get_reusable_impact:
  "yields (\<lambda>(found, eo'). same_request eo eo') (get_reusable_impact ec c eo)"
  unfolding get_reusable_impact_def
proof (rule yields_bindA)
  fix found
  have "yields (\<lambda>(found, eo'). same_request eo eo')
      (bindA (should_refresh_cached_impact ec eo i) (\<lambda>(refresh, eo').
         if \<not> refresh then retA (Some i, eo')
         else bindA (get_most_recent_impact ec c eo') (\<lambda>again.
           retA (case again of
                   Some j \<Rightarrow> if im_options_hash j = eo_options_hash eo' then Some j else None
                 | None \<Rightarrow> None, eo'))))" for i
    by (rule yields_bindA_of [OF yields_should_refresh]) (auto intro!: yields_intros)
  then show "yields (\<lambda>(found, eo'). same_request eo eo')
      (case found of
         None \<Rightarrow> retA (None, eo)
       | Some i \<Rightarrow>
           bindA (should_refresh_cached_impact ec eo i) (\<lambda>(refresh, eo').
             if \<not> refresh then retA (Some i, eo')
             else bindA (get_most_recent_impact ec c eo') (\<lambda>again.
               retA (case again of
                       Some j \<Rightarrow> if im_options_hash j = eo_options_hash eo' then Some j else None
                     | None \<Rightarrow> None, eo'))))"
    by (auto split: option.split intro!: yields_retA)
qed

lemma yields_get_or_create: "yields (ok_certified ec eo) (get_or_create_economic_impact ec eo)"
  unfolding get_or_create_economic_impact_def
proof (rule yields_bindA_of [OF yields_get_reusable_impact], goal_cases)
  case (1 x)
  obtain found eo' where x: "x = (found, eo')" by (cases x)
  have same: "yields (ok_certified ec eo) m" if "yields (ok_certified ec eo2) m" "same_request eo eo2"
    for m :: "('a, impact_result) act" and eo2
    using yields_mono [OF that(1)] same_request_certified [OF that(2)] by blast
  have rest: "yields (ok_certified ec eo)
      (bindA (restored ec obs eo') (\<lambda>eo''. answer_from_stored_impact ec eo'' a i))" for obs a i
  proof (rule yields_bindA_of [of "same_request eo"], goal_cases)
    case 1
    show ?case using \<open>case x of (found, eo') \<Rightarrow> same_request eo eo'\<close> x
      by (auto simp: restored_def intro!: yields_intros)
  next
    case (2 eo'')
    with same yields_answer_from_stored_impact show ?case by blast
  qed
  show ?case unfolding x
    by (auto split: option.split intro!: yields_intros yields_create_economic_impact rest)
qed

lemma request_spm_setup:
  "request_spm (setup_options_of rt rq y (with_resolved_spm resolved opts) c v) =
     (if resolved = JNull then dict_get_none opts ''spm'' else resolved)"
  by (simp add: request_spm_def setup_options_of_def Let_def with_resolved_spm_def dict_get_none_def
      update_conv)

lemma build_economic_impact_setup_options_Inr:
  assumes "build_economic_impact_setup_options ec rq y w = (Inr eo, w')"
  shows "\<exists>resolved w1 c v.
      gateway_worker_spm (ec_gateway ec) (rq_country_id rq) (dict_get_none (rq_options rq) ''spm'')
        (Some (rt_policyengine (ec_versions ec))) (rt_country (ec_versions ec) (rq_country_id rq)) w
        = (Inr resolved, w1)
    \<and> request_checks (ec_uk ec) rq = Inr ()
    \<and> get_economy_impact_cache_version (ec_versions ec) (rq_country_id rq) (rq_api_version rq) = Inr v
    \<and> eo = setup_options_of (ec_versions ec) rq y (with_resolved_spm resolved (rq_options rq)) c v"
  using assms unfolding build_economic_impact_setup_options_def bindA_eq_Inr_iff
  by (auto simp: liftA_def retA_def)

lemma with_normalized_region_simps [simp]:
  "rq_country_id (with_normalized_region rq) = rq_country_id rq"
  "rq_options (with_normalized_region rq) = rq_options rq"
  "rq_api_version (with_normalized_region rq) = rq_api_version rq"
  by (simp_all add: with_normalized_region_def)

text \<open>
  C1. The annual route answers a result only for a year the country offers, and only an
  object whose SPM receipts certify the selection the request resolves to, for the year
  asked for, whether the result was stored before or polled now.
\<close>

theorem annual_answer_certified:
  assumes "get_economic_impact ec rq year w = (Inr r, w')" and "er_status r = Ok"
  shows "\<exists>d resolved w1. er_data r = Some (JObj d)
     \<and> validate_economy_year (rq_country_id rq) year = Inr ()
     \<and> gateway_worker_spm (ec_gateway ec) (rq_country_id rq) (dict_get_none (rq_options rq) ''spm'')
         (Some (rt_policyengine (ec_versions ec))) (rt_country (ec_versions ec) (rq_country_id rq)) w
         = (Inr resolved, w1)
     \<and> (resolved \<noteq> JNull \<longrightarrow>
          annual_certified (en_install (ec_gateway ec)) resolved (Some year) d)"
proof -
  obtain eo w1 where year: "validate_economy_year (rq_country_id rq) year = Inr ()"
    and eo: "build_economic_impact_setup_options ec (with_normalized_region rq) year w = (Inr eo, w1)"
    and r: "get_or_create_economic_impact ec eo w1 = (Inr r, w')"
    using assms(1) unfolding get_economic_impact_def bindA_eq_Inr_iff by (auto simp: liftA_def)
  obtain resolved w2 where resolved:
      "gateway_worker_spm (ec_gateway ec) (rq_country_id rq) (dict_get_none (rq_options rq) ''spm'')
         (Some (rt_policyengine (ec_versions ec))) (rt_country (ec_versions ec) (rq_country_id rq)) w
         = (Inr resolved, w2)"
    and spm: "resolved \<noteq> JNull \<longrightarrow> request_spm eo = resolved" and period: "eo_time_period eo = year"
    using build_economic_impact_setup_options_Inr [OF eo]
    by (auto simp: request_spm_setup) (auto simp: setup_options_of_def Let_def)
  from yieldsD [OF yields_get_or_create r] assms(2) obtain d where "er_data r = Some (JObj d)"
    "request_spm eo \<noteq> JNull \<longrightarrow>
       annual_certified (en_install (ec_gateway ec)) (request_spm eo) (Some year) d"
    by (auto simp: ok_certified_def period)
  with year resolved spm show ?thesis by auto
qed

text \<open>A request over a cache that holds one record under every key.\<close>

definition installed_example :: runtime_versions_table where
  "installed_example = \<lparr>rt_country = (\<lambda>c. Some ''2.1''), rt_policyengine = ''4.1'', rt_core = ''3.0'',
     rt_sha1 = (\<lambda>s. s)\<rparr>"

definition example_economy :: "'w cache_context \<Rightarrow> 'w entrypoint \<Rightarrow> 'w economy" where
  "example_economy ctx en =
     \<lparr>ec_impacts = \<lparr>rs_cache = ctx, rs_now = (\<lambda>w. ((2026, 1, 1), 0, 0, 0, 0))\<rparr>, ec_windows = ctx,
      ec_gateway = en,
      ec_request = \<lparr>rc_current = (\<lambda>w. None), rc_incoming = (\<lambda>w. None), rc_bind = (\<lambda>obs w. w),
                    rc_new_id = retA (uuid_text 0)\<rparr>,
      ec_policy_json = (\<lambda>c i. retA (JObj [])), ec_new_claim_id = retA ''claim'',
      ec_utc_now = (\<lambda>w. ''now''), ec_local_now = (\<lambda>w. ((2026, 1, 1), 0, 0, 0, 0)),
      ec_uk = \<lparr>uk_release_kind = None, uk_areas = (\<lambda>t. [])\<rparr>, ec_versions = installed_example,
      ec_sha256 = (\<lambda>s. s)\<rparr>"

definition replay_client :: "cached_impact \<Rightarrow> 'w cache_client" where
  "replay_client i =
     \<lparr>cl_get = (\<lambda>k. retA (Some (encoded_impact i))), cl_set = (\<lambda>k v opts. raiseA (OtherError ''set'')),
      cl_delete = (\<lambda>ks. raiseA (OtherError ''delete'')), cl_pttl = (\<lambda>k. raiseA (OtherError ''pttl'')),
      cl_zrevrange = (\<lambda>k a b. retA [''record'']), cl_eval = (\<lambda>s n ks. raiseA (OtherError ''eval'')),
      cl_execute = (\<lambda>cs. raiseA (OtherError ''execute''))\<rparr>"

definition uk_request :: impact_request where
  "uk_request = \<lparr>rq_country_id = ''uk'', rq_policy_id = 5, rq_baseline_policy_id = 2,
     rq_region = ''uk'', rq_dataset = ''default'', rq_options = [], rq_api_version = None,
     rq_target = ''general''\<rparr>"

definition uk_options :: setup_options where
  "uk_options = setup_options_of installed_example uk_request ''2026'' [] ''claim'' ''e4economy_''"

definition uk_impact :: cached_impact where
  "uk_impact = example_impact\<lparr>im_status := ''ok'', im_options_hash := eo_options_hash uk_options,
     im_reform_impact_json := JObj [(''budget'', JInt 3)]\<rparr>"

definition replay_economy :: "unit economy" where
  "replay_economy = example_economy
     \<lparr>ctx_client = replay_client uk_impact, ctx_namespace = \<lparr>environment = ''prod'', service = ''api''\<rparr>,
      ctx_sha = (\<lambda>s. s), ctx_draw = (\<lambda>a b. a), ctx_time = (\<lambda>w. 0)\<rparr> silent_entrypoint"

lemma uk_spm: "gateway_worker_spm en ''uk'' JNull p v w = (Inr JNull, w)"
  by (simp add: gateway_worker_spm_def validate_worker_spm_def normalize_spm_selection_def
      py_lower_def lower_char_def act_simps bindA_def retA_def liftA_def)

lemma uk_setup_for:
  "build_economic_impact_setup_options (example_economy ctx en) uk_request y w
     = (Inr (setup_options_of installed_example uk_request y [] ''claim'' ''e4economy_''), w)"
proof -
  have "resolve_uk_region (ec_uk (example_economy ctx en)) ''uk'' = Some ''uk''"
    by (simp add: example_economy_def) code_simp
  then have checks: "request_checks (ec_uk (example_economy ctx en)) uk_request = Inr ()"
    by (simp add: request_checks_def validate_breakdown_def validate_uk_region_def uk_request_def
        dict_get_none_def)
  have version: "get_economy_impact_cache_version installed_example ''uk'' None = Inr ''e4economy_''"
    by code_simp
  have fields: "rq_country_id uk_request = ''uk''" "rq_options uk_request = []"
    "rq_api_version uk_request = None" by (simp_all add: uk_request_def)
  have parts: "ec_versions (example_economy ctx en) = installed_example"
    "ec_new_claim_id (example_economy ctx en) = retA ''claim''"
    by (simp_all add: example_economy_def)
  show ?thesis
    by (simp add: build_economic_impact_setup_options_def parts fields checks version bindA_def liftA_def
        retA_def uk_spm dict_get_none_def with_resolved_spm_def)
qed

lemma uk_setup:
  "build_economic_impact_setup_options (example_economy ctx en) uk_request ''2026'' w = (Inr uk_options, w)"
  by (simp add: uk_setup_for uk_options_def)

lemma valid_uk_impact: "valid_impact uk_impact"
  using valid_example_impact by (simp add: valid_impact_def uk_impact_def)

lemma uk_impact_fields:
  "im_options_hash (sorted_impact uk_impact) = eo_options_hash uk_options"
  "im_status (sorted_impact uk_impact) = ''ok''"
  "im_reform_impact_json (sorted_impact uk_impact) = JObj [(''budget'', JInt 3)]"
  "im_observability_id (sorted_impact uk_impact) = None"
  by (simp_all add: sorted_impact_def uk_impact_def example_impact_def)

lemma uk_options_hash: "\<exists>h. eo_options_hash uk_options = Some h"
  by (simp add: uk_options_def setup_options_of_def Let_def)

lemma replay_listed:
  "from_index (rs_cache (ec_impacts replay_economy)) c k REFORM_IMPACT_INDEX_LIMIT ()
     = (Inr [sorted_impact uk_impact], ())"
proof -
  have read: "read_index (rs_cache (ec_impacts replay_economy)) k REFORM_IMPACT_INDEX_LIMIT ()
      = (Inr [(''record'', Some (encoded_impact uk_impact))], ())" for k
    by (simp add: read_index_def replay_economy_def example_economy_def replay_client_def bindA_def retA_def)
  have entries: "decode_entries [(''record'', Some (encoded_impact uk_impact))] = Inr [sorted_impact uk_impact]"
    by (simp add: decode_encoded_impact [OF valid_uk_impact])
  show ?thesis
    unfolding from_index_def by (simp only: bindA_def catchA_def read retA_def prod.case sum.case
        option.case liftA_def entries)
qed

lemma replay_get_most_recent:
  "get_most_recent_impact replay_economy c uk_options () = (Inr (Some (sorted_impact uk_impact)), ())"
proof -
  obtain h where h: "eo_options_hash uk_options = Some h" using uk_options_hash by blast
  have "hash_selected (Some h) p (sorted_impact uk_impact)" for p
    by (simp add: hash_selected_def uk_impact_fields h)
  then have selected: "sorted_desc k (filter (hash_selected (Some h) p) [sorted_impact uk_impact])
      = [sorted_impact uk_impact]" for p and k :: "cached_impact \<Rightarrow> bool \<times> datetime \<times> int"
    by (simp add: sorted_desc_def)
  have "first_exact h [sorted_impact uk_impact] = Some (sorted_impact uk_impact)"
    by (simp add: first_exact_def)
  then show ?thesis
    by (simp only: get_most_recent_impact_def h get_previous_impacts_def matching_def
        get_all_reform_impacts_by_options_hash_prefix_def impact_identity.simps option.case
        bindA_def replay_listed retA_def prod.case sum.case selected)
qed

lemma replay_resolve_app: "\<exists>e. resolve_app replay_economy uk_options () = (Inl e, ())"
  by (simp add: resolve_app_def resolve_app_name_def replay_economy_def example_economy_def
      silent_entrypoint_def entrypoint_get_def uk_options_def setup_options_of_def Let_def
      installed_bundle_def uk_request_def bindA_def catchA_def raiseA_def)

lemma replay_get_reusable:
  "get_reusable_impact replay_economy c uk_options () = (Inr (Some (sorted_impact uk_impact), uk_options), ())"
proof -
  obtain e where e: "resolve_app replay_economy uk_options () = (Inl e, ())"
    using replay_resolve_app by blast
  have "should_refresh_cached_impact replay_economy uk_options (sorted_impact uk_impact) ()
      = (Inr (False, uk_options), ())"
    by (simp add: should_refresh_cached_impact_def uk_impact_fields bindA_def catchA_def retA_def e Let_def)
  then show ?thesis
    by (simp add: get_reusable_impact_def replay_get_most_recent bindA_def retA_def)
qed

theorem annual_answer_certified_witness:
  "\<exists>r d. fst (get_economic_impact replay_economy uk_request ''2026'' ()) = Inr r \<and> er_status r = Ok
     \<and> er_data r = Some (JObj d)"
proof -
  have year: "validate_economy_year (rq_country_id uk_request) ''2026'' = Inr ()"
    by (simp add: uk_request_def) code_simp
  have norm: "with_normalized_region uk_request = uk_request"
    by (simp add: with_normalized_region_def uk_request_def)
  have action: "determine_impact_action (Some (sorted_impact uk_impact)) = Inr ACompleted"
    by (simp add: determine_impact_action_def uk_impact_fields)
  have spm: "request_spm (uk_options\<lparr>eo_observability_id := v\<rparr>) = JNull" for v
    by (simp add: request_spm_def uk_options_def setup_options_of_def Let_def dict_get_none_def)
  have restore: "restored replay_economy None uk_options () = (Inr (uk_options\<lparr>eo_observability_id := None\<rparr>), ())"
    by (simp add: restored_def restore_observability_id_def normalize_observability_id_def
        replay_economy_def example_economy_def bindA_def retA_def)
  have built: "build_economic_impact_setup_options replay_economy uk_request ''2026'' () = (Inr uk_options, ())"
    unfolding replay_economy_def by (rule uk_setup)
  obtain r where r: "get_economic_impact replay_economy uk_request ''2026'' () = (Inr r, ())"
    and ok: "er_status r = Ok"
    by (simp add: get_economic_impact_def year norm built get_or_create_economic_impact_def
        replay_get_reusable action uk_impact_fields restore answer_from_stored_impact_def
        handle_completed_impact_def parse_json_object_def check_annual_result_def spm
        validate_worker_result.simps impact_completed_def bindA_def liftA_def catchA_def retA_def)
  from annual_answer_certified [OF r ok] r ok show ?thesis by auto
qed

section \<open>The impact a request reuses\<close>

text \<open>
  The impacts stored in a request's scope that its options hash or the lookup pattern selects,
  and the one of highest rank: an impact stored under the exact hash before any other, then
  the latest start, then the highest identifier.
\<close>

definition selected_impacts :: "'w economy \<Rightarrow> bool \<Rightarrow> setup_options \<Rightarrow> string \<Rightarrow> ('w, cached_impact list) act" where
  "selected_impacts ec c eo h =
     bindA (from_index (rs_cache (ec_impacts ec)) c
              (scope_index_key (rs_cache (ec_impacts ec)) (reform_impact_scope eo) (eo_api_version eo))
              REFORM_IMPACT_INDEX_LIMIT)
       (\<lambda>impacts. retA (filter (\<lambda>i. im_options_hash i = Some h
            \<or> (case im_options_hash i of None \<Rightarrow> False
                | Some h' \<Rightarrow> like_matches h' (build_options_hash_lookup_pattern h))) impacts))"

definition top_impact :: "string \<Rightarrow> cached_impact list \<Rightarrow> cached_impact \<Rightarrow> bool" where
  "top_impact h impacts i \<longleftrightarrow>
     i \<in> set impacts
     \<and> (\<forall>j\<in>set impacts.
          (im_options_hash j = Some h \<longrightarrow> im_options_hash i = Some h)
          \<and> ((im_options_hash j = Some h) = (im_options_hash i = Some h) \<longrightarrow>
               (let start = \<lambda>x. case im_start_time x of None \<Rightarrow> datetime_min | Some t \<Rightarrow> t
                in start j < start i
                   \<or> start j = start i \<and> im_reform_impact_id j \<le> im_reform_impact_id i)))"

lemma triple_le:
  fixes t t' :: "'t::linorder" and n n' :: "'n::linorder"
  shows "(a, t, n) \<le> (a', t', n') \<longleftrightarrow> (a \<longrightarrow> a') \<and> (a = a' \<longrightarrow> t < t' \<or> t = t' \<and> n \<le> n')"
  by (cases a; cases a') (auto simp: less_eq_prod_simp)

lemma top_impact_rank:
  assumes "i \<in> set impacts" and "\<forall>j\<in>set impacts. impact_rank (Some h) j \<le> impact_rank (Some h) i"
  shows "top_impact h impacts i"
  using assms unfolding top_impact_def Let_def impact_rank_def triple_le by blast

lemma top_impactD:
  "top_impact h impacts i \<Longrightarrow> i \<in> set impacts"
  "top_impact h impacts i \<Longrightarrow> j \<in> set impacts \<Longrightarrow> im_options_hash j = Some h \<Longrightarrow> im_options_hash i = Some h"
  unfolding top_impact_def by blast+

lemma selected_hash_selected:
  "(im_options_hash i = Some h
      \<or> (case im_options_hash i of None \<Rightarrow> False
          | Some h' \<Rightarrow> like_matches h' (build_options_hash_lookup_pattern h)))
     = hash_selected (Some h) (Some (build_options_hash_lookup_pattern h)) i"
  by (auto simp: hash_selected_def split: option.split)

lemma most_recent_selected:
  assumes "eo_options_hash eo = Some h"
  shows "get_most_recent_impact ec c eo =
     bindA (selected_impacts ec c eo h) (\<lambda>impacts. retA (first_exact h (sorted_desc (impact_rank (Some h)) impacts)))"
  by (rule ext) (simp add: get_most_recent_impact_def get_previous_impacts_def selected_impacts_def
      get_all_reform_impacts_by_options_hash_prefix_def matching_def bindA_def retA_def assms
      selected_hash_selected split: prod.split sum.split)

lemma most_recent_is_top:
  assumes "eo_options_hash eo = Some h" and "get_most_recent_impact ec c eo w = (Inr found, w')"
  obtains impacts where "selected_impacts ec c eo h w = (Inr impacts, w')"
    and "case found of None \<Rightarrow> impacts = [] | Some i \<Rightarrow> top_impact h impacts i"
proof -
  obtain impacts where sel: "selected_impacts ec c eo h w = (Inr impacts, w')"
    and found: "found = first_exact h (sorted_desc (impact_rank (Some h)) impacts)"
    using assms(2) unfolding most_recent_selected [OF assms(1)] bindA_eq_Inr_iff by (auto simp: retA_def)
  have "impacts = []" if "found = None"
  proof -
    have "sorted_desc (impact_rank (Some h)) impacts = []"
      using that found by (simp add: first_exact_def split: option.splits list.splits)
    then show ?thesis using set_sorted_desc [of "impact_rank (Some h)" impacts] by simp
  qed
  moreover have "top_impact h impacts i" if "found = Some i" for i
    using first_exact_ranked [of h impacts i] that found by (auto intro: top_impact_rank)
  ultimately show thesis using sel by (intro that) (auto split: option.split)
qed

lemma refreshed_hash:
  "should_refresh_cached_impact ec eo i w = (Inr (True, eo'), w') \<Longrightarrow> \<exists>h. eo_options_hash eo' = Some h"
  by (auto simp: should_refresh_cached_impact_def bindA_def retA_def Let_def with_options_hash_def
      split: if_splits sum.splits option.splits prod.splits)

text \<open>
  C33. The impact a request is answered from is the one of highest rank among those stored in
  its scope that its options hash or the lookup pattern selects, as long as it needs no
  refresh. When it does, the request looks again under the hash with the runtime app
  resolved, and takes the one of highest rank then only if it is stored under exactly that
  hash; it takes none only when nothing was selected, or nothing is stored under exactly
  the refreshed hash.
\<close>

theorem reusable_impact_is_top:
  assumes "eo_options_hash eo = Some h"
    and "get_reusable_impact ec c eo w = (Inr (found, eo'), w')"
  shows "\<exists>impacts w1. selected_impacts ec c eo h w = (Inr impacts, w1)
     \<and> (if impacts = [] then found = None \<and> eo' = eo
        else \<exists>i refresh w2. top_impact h impacts i
          \<and> should_refresh_cached_impact ec eo i w1 = (Inr (refresh, eo'), w2)
          \<and> (if \<not> refresh then found = Some i
             else \<exists>h' again. eo_options_hash eo' = Some h' \<and> selected_impacts ec c eo' h' w2 = (Inr again, w')
               \<and> (case found of
                    Some j \<Rightarrow> top_impact h' again j \<and> im_options_hash j = Some h'
                  | None \<Rightarrow> \<forall>j\<in>set again. im_options_hash j \<noteq> Some h')))"
proof -
  obtain first w1 where first: "get_most_recent_impact ec c eo w = (Inr first, w1)"
    and rest: "(case first of
         None \<Rightarrow> retA (None, eo)
       | Some i \<Rightarrow>
           bindA (should_refresh_cached_impact ec eo i) (\<lambda>(refresh, eo').
             if \<not> refresh then retA (Some i, eo')
             else bindA (get_most_recent_impact ec c eo') (\<lambda>again.
               retA (case again of
                       Some j \<Rightarrow> if im_options_hash j = eo_options_hash eo' then Some j else None
                     | None \<Rightarrow> None, eo')))) w1 = (Inr (found, eo'), w')"
    using assms(2) unfolding get_reusable_impact_def bindA_eq_Inr_iff by blast
  obtain impacts where sel: "selected_impacts ec c eo h w = (Inr impacts, w1)"
    and top: "case first of None \<Rightarrow> impacts = [] | Some i \<Rightarrow> top_impact h impacts i"
    by (rule most_recent_is_top [OF assms(1) first])
  show ?thesis
  proof (cases first)
    case None
    with rest top sel show ?thesis by (auto simp: retA_def)
  next
    case (Some i)
    note step = rest [unfolded Some option.case bindA_eq_Inr_iff [of "should_refresh_cached_impact ec eo i"]]
    from step obtain x w2 where looked: "should_refresh_cached_impact ec eo i w1 = (Inr x, w2)"
      and after_look: "(case x of (refresh, eo') \<Rightarrow>
             if \<not> refresh then retA (Some i, eo')
             else bindA (get_most_recent_impact ec c eo') (\<lambda>again.
               retA (case again of
                       Some j \<Rightarrow> if im_options_hash j = eo_options_hash eo' then Some j else None
                     | None \<Rightarrow> None, eo'))) w2 = (Inr (found, eo'), w')"
      by (elim exE conjE) (rule that, assumption+)
    obtain refresh eo1 where x: "x = (refresh, eo1)" by (cases x)
    note refresh = looked [unfolded x] and after = after_look [unfolded x prod.case]
    from Some top have i: "top_impact h impacts i" by simp
    with top_impactD(1) have ne: "impacts \<noteq> []" by fastforce
    show ?thesis
    proof (cases refresh)
      case False
      with after have "found = Some i" "eo' = eo1" by (simp_all add: retA_def)
      with False refresh i ne sel show ?thesis by (intro exI [of _ impacts] exI [of _ w1]) auto
    next
      case True
      have "should_refresh_cached_impact ec eo i w1 = (Inr (True, eo1), w2)" using refresh True by simp
      from refreshed_hash [OF this] obtain h' where h': "eo_options_hash eo1 = Some h'" by blast
      obtain newer where again: "get_most_recent_impact ec c eo1 w2 = (Inr newer, w')"
        and found: "eo' = eo1" "found = (case newer of
                       Some j \<Rightarrow> if im_options_hash j = eo_options_hash eo1 then Some j else None | None \<Rightarrow> None)"
        using after True by (auto simp: bindA_eq_Inr_iff retA_def)
      obtain stored where stored: "selected_impacts ec c eo1 h' w2 = (Inr stored, w')"
        "case newer of None \<Rightarrow> stored = [] | Some j \<Rightarrow> top_impact h' stored j"
        by (rule most_recent_is_top [OF h' again])
      have "case found of
          Some j \<Rightarrow> top_impact h' stored j \<and> im_options_hash j = Some h'
        | None \<Rightarrow> \<forall>j\<in>set stored. im_options_hash j \<noteq> Some h'"
        using found(2) stored(2) h' top_impactD(2) [of h' stored] by (auto split: option.splits if_splits)
      with True refresh i ne sel h' stored(1) found(1) show ?thesis
        by (intro exI [of _ impacts] exI [of _ w1]) auto
    qed
  qed
qed

theorem reusable_impact_is_top_witness:
  "get_reusable_impact replay_economy True uk_options () = (Inr (Some (sorted_impact uk_impact), uk_options), ())
   \<and> (\<exists>h impacts. eo_options_hash uk_options = Some h
        \<and> fst (selected_impacts replay_economy True uk_options h ()) = Inr impacts \<and> impacts \<noteq> [])"
proof -
  obtain h where h: "eo_options_hash uk_options = Some h" using uk_options_hash by blast
  from reusable_impact_is_top [OF h replay_get_reusable, of True] obtain impacts w1 where
    impacts: "selected_impacts replay_economy True uk_options h () = (Inr impacts, w1)" "impacts \<noteq> []"
    by (metis option.distinct(1))
  with h replay_get_reusable show ?thesis by (intro conjI exI [of _ h] exI [of _ impacts]) simp_all
qed

end
