(* ===== verification/Economy_Claims.thy ===== *)
theory Economy_Claims
  imports Economy_Service
begin

text \<open>
  The submission claims of the annual route on the in-memory backend: what one request does
  to every claim, its own and those of other requests.

  \<open>isolated\<close> says what the collaborators other than the cache may not do: the simulation
  service, the policies and the sources of identifiers do not write to the cache, reading
  and writing the cache does not bind a request identifier, and a fresh identifier is
  canonical.
\<close>

section \<open>The state next to the cache\<close>

text \<open>The client of the in-memory backend leaves the rest of the state alone.\<close>

lemma more_purge [simp]: "mem.more (mem_purge k m) = mem.more m"
  by (auto simp: mem_purge_def mem_drop_def split: option.split)

lemma more_drop [simp]: "mem.more (mem_drop k m) = mem.more m"
  by (simp add: mem_drop_def)

lemma more_get [simp]: "mem.more (snd (mem_get k m)) = mem.more m"
  by (simp add: mem_get_def Let_def)

lemma more_set [simp]: "mem.more (snd (mem_set k v opts m)) = mem.more m"
  by (simp add: mem_set_def Let_def)

lemma more_delete [simp]: "mem.more (snd (mem_delete ks m)) = mem.more m"
  by (induction ks arbitrary: m) (simp_all add: Let_def case_prod_unfold)

lemma more_zadd [simp]: "mem.more (snd (mem_zadd k z m)) = mem.more m"
  by (simp add: mem_zadd_def Let_def)

lemma more_zrem [simp]: "mem.more (snd (mem_zrem k z m)) = mem.more m"
  by (simp add: mem_zrem_def Let_def)

lemma more_zremrangebyrank [simp]: "mem.more (snd (mem_zremrangebyrank k i j m)) = mem.more m"
  by (simp add: mem_zremrangebyrank_def Let_def)

lemma more_expire [simp]: "mem.more (snd (mem_expire k s m)) = mem.more m"
  by (simp add: mem_expire_def Let_def)

lemma more_run [simp]: "mem.more (snd (mem_run c m)) = mem.more m"
  by (cases c) (simp_all add: Let_def case_prod_unfold)

lemma more_execute [simp]: "mem.more (snd (mem_execute cs m)) = mem.more m"
  by (induction cs arbitrary: m) (simp_all add: Let_def case_prod_unfold)

lemma more_eval [simp]: "mem.more (snd (mem_eval s n ks m)) = mem.more m"
  by (simp add: mem_eval_def mem_delete_unchanged_record_def Let_def case_prod_unfold split: list.split)

lemma stays_more_client [stays_intros]:
  "stays mem.more (cl_get mem_client k)" "stays mem.more (cl_set mem_client k v opts)"
  "stays mem.more (cl_pttl mem_client k)" "stays mem.more (cl_zrevrange mem_client k i j)"
  "stays mem.more (cl_eval mem_client s n ks)" "stays mem.more (cl_execute mem_client cs)"
  by (simp_all add: stays_def mem_client_def ok_def Let_def case_prod_unfold mem_pttl_def
      mem_zrevrange_def)

lemma stays_live_client [stays_intros]:
  "stays mem_live (cl_get mem_client k)" "stays mem_live (cl_pttl mem_client k)"
  "stays mem_live (cl_zrevrange mem_client k i j)"
  by (simp_all add: stays_def mem_client_def ok_def Let_def case_prod_unfold mem_pttl_def
      mem_zrevrange_def mem_get_live)

lemma stays_part: "stays f m \<Longrightarrow> stays (\<lambda>w. g (f w)) m"
  by (simp add: stays_def)

section \<open>Isolation\<close>

definition isolated :: "'x mem_scheme economy \<Rightarrow> bool" where
  "isolated ec \<longleftrightarrow>
     ctx_client (rs_cache (ec_impacts ec)) = mem_client
     \<and> (\<forall>p. stays mem_live (en_get (ec_gateway ec) p) \<and> stays (rc_current (ec_request ec)) (en_get (ec_gateway ec) p))
     \<and> (\<forall>p b. stays mem_live (en_post (ec_gateway ec) p b) \<and> stays (rc_current (ec_request ec)) (en_post (ec_gateway ec) p b))
     \<and> (\<forall>c i. stays mem_live (ec_policy_json ec c i) \<and> stays (rc_current (ec_request ec)) (ec_policy_json ec c i))
     \<and> stays mem_live (ec_new_claim_id ec) \<and> stays (rc_current (ec_request ec)) (ec_new_claim_id ec)
     \<and> stays mem_live (rc_new_id (ec_request ec)) \<and> stays (rc_current (ec_request ec)) (rc_new_id (ec_request ec))
     \<and> (\<forall>obs m. mem_live (rc_bind (ec_request ec) obs m) = mem_live m)
     \<and> (\<forall>m m'. mem.more m = mem.more m' \<longrightarrow> rc_current (ec_request ec) m = rc_current (ec_request ec) m')
     \<and> yields (\<lambda>obs. normalize_observability_id (JStr obs) = Some obs) (rc_new_id (ec_request ec))"

text \<open>The documents under the keys of claims, and nothing for any other key.\<close>

definition claims :: "'x mem_scheme economy \<Rightarrow> 'x mem_scheme \<Rightarrow> string \<Rightarrow> string option" where
  "claims ec m k =
     (if \<exists>identity target. k = start_claim_key (rs_cache (ec_impacts ec)) identity target
      then mem_live m k else None)"

lemma isolated_client: "isolated ec \<Longrightarrow> ctx_client (rs_cache (ec_impacts ec)) = mem_client"
  by (simp add: isolated_def)

lemma stays_current: "isolated ec \<Longrightarrow> stays mem.more m \<Longrightarrow> stays (rc_current (ec_request ec)) m"
  unfolding isolated_def stays_def by blast

lemma claims_live: "claims ec = (\<lambda>m. (\<lambda>l k. if \<exists>identity target. k = start_claim_key (rs_cache (ec_impacts ec)) identity target
      then l k else None) (mem_live m))"
  by (simp add: claims_def fun_eq_iff)

lemma stays_claims: "stays mem_live m \<Longrightarrow> stays (claims ec) m"
  unfolding claims_live by (erule stays_part)

lemma record_key_no_claim: "record_key ctx e \<noteq> start_claim_key ctx identity target"
  by (simp add: record_key_def start_claim_key_def namespace_key_def key_prefix_def
      REFORM_IMPACT_FAMILY_def REFORM_IMPACT_START_CLAIM_FAMILY_def)

lemma claims_record:
  assumes "mem_live m' = (mem_live m)(record_key (rs_cache (ec_impacts ec)) e \<mapsto> v)"
  shows "claims ec m' = claims ec m"
proof
  fix k
  have "k \<noteq> record_key (rs_cache (ec_impacts ec)) e"
    if "\<exists>identity target. k = start_claim_key (rs_cache (ec_impacts ec)) identity target"
    using that record_key_no_claim by metis
  then show "claims ec m' k = claims ec m k" by (simp add: claims_def assms)
qed

lemma claims_cong: "mem_live m' = mem_live m \<Longrightarrow> claims ec m' = claims ec m"
  by (rule ext) (simp add: claims_def)

lemma isolated_stays:
  assumes "isolated ec"
  shows "stays mem_live (en_get (ec_gateway ec) p)" "stays mem_live (en_post (ec_gateway ec) p b)"
    "stays mem_live (ec_policy_json ec c i)" "stays mem_live (ec_new_claim_id ec)"
    "stays mem_live (rc_new_id (ec_request ec))"
    "stays (rc_current (ec_request ec)) (en_get (ec_gateway ec) p)"
    "stays (rc_current (ec_request ec)) (ec_policy_json ec c i)"
    "stays (rc_current (ec_request ec)) (ec_new_claim_id ec)"
    "stays (rc_current (ec_request ec)) (rc_new_id (ec_request ec))"
  using assms by (simp_all add: isolated_def)

section \<open>The simulation service\<close>

lemma stays_entrypoint_get:
  "(\<And>p. stays f (en_get en p)) \<Longrightarrow> stays f (entrypoint_get en path)"
  unfolding entrypoint_get_def by (auto split: exn.split bool.split intro!: stays_intros)

lemma stays_resolve_app_name:
  "(\<And>p. stays f (en_get en p)) \<Longrightarrow> stays f (resolve_app_name en c v pv)"
  unfolding resolve_app_name_def by (auto split: option.split intro!: stays_intros stays_entrypoint_get)

lemma stays_gateway_worker_spm:
  "(\<And>p. stays f (en_get en p)) \<Longrightarrow> stays f (gateway_worker_spm en c s p v)"
  unfolding gateway_worker_spm_def validate_worker_spm_def get_spm_capability_def Let_def
  by (auto intro!: stays_intros stays_entrypoint_get)

lemma stays_run_simulation:
  "(\<And>p. stays f (en_get en p)) \<Longrightarrow> (\<And>p b. stays f (en_post en p b)) \<Longrightarrow> stays f (run_simulation en payload)"
  unfolding run_simulation_def normalize_submission_payload_def Let_def
  by (auto intro!: stays_intros stays_gateway_worker_spm)

lemma stays_get_execution_by_id:
  "(\<And>p. stays f (en_get en p)) \<Longrightarrow> stays f (get_execution_by_id en job)"
  unfolding get_execution_by_id_def by (auto intro!: stays_intros stays_entrypoint_get)

section \<open>The cache of impacts\<close>

lemma stays_from_index:
  "(\<And>k. stays f (cl_get (ctx_client ctx) k)) \<Longrightarrow> (\<And>k i j. stays f (cl_zrevrange (ctx_client ctx) k i j)) \<Longrightarrow>
     stays f (from_index ctx c k l)"
  unfolding from_index_def read_index_def by (auto split: option.split intro!: stays_intros)

lemma stays_matching:
  "(\<And>k. stays f (cl_get (ctx_client ctx) k)) \<Longrightarrow> (\<And>k i j. stays f (cl_zrevrange (ctx_client ctx) k i j)) \<Longrightarrow>
     stays f (matching ctx c identity p)"
  unfolding matching_def by (auto intro!: stays_intros stays_from_index)

lemma stays_get_by_execution_id:
  "(\<And>k. stays f (cl_get (ctx_client ctx) k)) \<Longrightarrow> stays f (get_by_execution_id ctx e)"
  unfolding get_by_execution_id_def by (auto split: option.split intro!: stays_intros)

lemma stays_get_most_recent_impact:
  assumes "\<And>k. stays f (cl_get (ctx_client (rs_cache (ec_impacts ec))) k)"
    and "\<And>k i j. stays f (cl_zrevrange (ctx_client (rs_cache (ec_impacts ec))) k i j)"
  shows "stays f (get_most_recent_impact ec c eo)"
  unfolding get_most_recent_impact_def get_previous_impacts_def
    get_all_reform_impacts_by_options_hash_prefix_def
  using assms by (auto split: option.split intro!: stays_intros stays_matching)

lemma stays_get_reusable_impact:
  assumes "\<And>k. stays f (cl_get (ctx_client (rs_cache (ec_impacts ec))) k)"
    and "\<And>k i j. stays f (cl_zrevrange (ctx_client (rs_cache (ec_impacts ec))) k i j)"
    and "\<And>p. stays f (en_get (ec_gateway ec) p)"
  shows "stays f (get_reusable_impact ec c eo)"
  unfolding get_reusable_impact_def should_refresh_cached_impact_def resolve_app_def Let_def
  using assms
  by (auto split: option.split intro!: stays_intros stays_get_most_recent_impact stays_resolve_app_name)

lemma stays_seconds_left:
  "(\<And>k. stays f (cl_pttl (ctx_client ctx) k)) \<Longrightarrow> stays f (seconds_left ctx i)"
  unfolding seconds_left_def by (auto intro!: stays_intros)

lemma stays_seconds_until: "stays f (get_reform_impact_seconds_until rs i s)"
  by (simp add: stays_def get_reform_impact_seconds_until_def)

section \<open>Records are not claims\<close>

locale isolated_economy =
  fixes ec :: "'x mem_scheme economy"
  assumes isolated: "isolated ec"
begin

lemmas client = isolated_client [OF isolated]

lemma stays_set_impact: "(\<forall>s. ttl = Some s \<longrightarrow> 0 \<le> s) \<Longrightarrow>
    stays (claims ec) (set_impact (rs_cache (ec_impacts ec)) impact rid ttl only)"
  unfolding stays_def
proof
  fix w
  let ?ctx = "rs_cache (ec_impacts ec)" and ?e = "text_or rid (im_execution_id impact)"
  assume ttl: "\<forall>s. ttl = Some s \<longrightarrow> 0 \<le> s"
  show "claims ec (snd (set_impact ?ctx impact rid ttl only w)) = claims ec w"
  proof (cases "has_id ?e")
    case True
    show ?thesis
    proof (cases "default_jittered_ttl (ctx_draw ?ctx) REFORM_IMPACT_TTL_SECONDS")
      case (Inr t)
      from memory.set_impact_law [OF client True Inr ttl, of only w] obtain w' where
        "snd (set_impact ?ctx impact rid ttl only w) = w'"
        "mem_live w' = mem_live w \<or> mem_live w' = (mem_live w)(record_key ?ctx ?e \<mapsto> encoded_impact impact)"
        by (auto split: if_splits)
      then show ?thesis using claims_record claims_cong by metis
    next
      case (Inl e)
      with True show ?thesis
        by (auto simp: set_impact_def has_id_def bindA_def liftA_def catchA_def retA_def raiseA_def Let_def)
    qed
  next
    case False
    then have "?e = None \<or> ?e = Some []" by (auto simp: has_id_def split: option.splits)
    then show ?thesis by (simp add: set_impact_def Let_def raiseA_def)
  qed
qed

lemma stays_get_by_id: "stays (claims ec) (get_by_execution_id (rs_cache (ec_impacts ec)) e)"
  by (rule stays_claims, rule stays_get_by_execution_id) (simp add: client stays_live_client)

lemma stays_update_impact: "(\<forall>s. ttl = Some s \<longrightarrow> 0 \<le> s) \<Longrightarrow>
    stays (claims ec) (update_impact (rs_cache (ec_impacts ec)) e clear ttl changes)"
  unfolding update_impact_def Let_def
  by (auto split: option.split intro!: stays_intros stays_set_impact stays_get_by_id)

lemma stays_set_error: "(\<forall>s. ttl = Some s \<longrightarrow> 0 \<le> s) \<Longrightarrow>
    stays (claims ec) (set_impact_error ec message e code ttl)"
  unfolding set_impact_error_def set_error_reform_impact_def
  by (rule stays_at) (rule stays_update_impact)

lemma stays_set_complete: "stays (claims ec) (set_impact_complete ec v e)"
  unfolding set_impact_complete_def set_complete_reform_impact_def
  by (intro stays_intros, rule stays_at, rule stays_update_impact) simp

lemma stays_most_recent: "stays (claims ec) (get_most_recent_impact ec c eo)"
  by (rule stays_claims, rule stays_get_most_recent_impact) (simp_all add: client stays_live_client)

lemma stays_stored_failure: "stays (claims ec) (stored_failure_result ec message failure)"
proof -
  have "stays (claims ec) (seconds_left (rs_cache (ec_impacts ec)) i)" for i
    by (rule stays_claims, rule stays_seconds_left) (simp add: client stays_live_client)
  then show ?thesis
    unfolding stored_failure_result_def get_reform_impact_seconds_left_def
    by (auto split: option.split intro!: stays_intros stays_seconds_until)
qed

lemma stays_next_answer: "stays (claims ec) (failure_the_next_request_answers_from ec failure eo)"
  unfolding failure_the_next_request_answers_from_def
  by (auto split: option.split intro!: stays_intros stays_most_recent)

lemma stays_retryable: "stays (claims ec) (record_retryable_failure ec eo i reason note)"
  unfolding record_retryable_failure_def Let_def
  by (auto simp: RETRYABLE_FAILURE_SECONDS_def
      intro!: stays_intros stays_set_error stays_next_answer stays_stored_failure)

end

section \<open>Answering from a stored impact\<close>

context isolated_economy
begin

lemma stays_execution_state: "stays (claims ec) (handle_execution_state ec eo s i ex)"
  unfolding handle_execution_state_def Let_def
  by (auto split: option.split intro!: stays_intros stays_retryable stays_set_complete stays_set_error
      stays_next_answer stays_stored_failure)

lemma stays_execution: "stays (claims ec) (get_execution_by_id (ec_gateway ec) e)"
  by (rule stays_claims, rule stays_get_execution_by_id, rule isolated_stays [OF isolated])

lemma stays_answer: "stays (claims ec) (answer_from_stored_impact ec eo action i)"
  unfolding answer_from_stored_impact_def handle_completed_impact_def handle_failed_impact_def
    handle_computing_impact_def record_uncertifiable_stored_impact_def
  by (cases action)
    (auto intro!: stays_intros stays_execution stays_execution_state stays_set_error stays_stored_failure)

lemma bind_claims: "claims ec (rc_bind (ec_request ec) v w) = claims ec w"
  using isolated by (intro claims_cong) (simp add: isolated_def)

lemma stays_restored: "stays (claims ec) (restored ec obs eo)"
  by (simp add: stays_def bind_claims restored_def restore_observability_id_def bind_observability_id_def
      bindA_def retA_def split: option.split)

lemma stays_handle_create: "stays (claims ec) (handle_create_impact ec eo p)"
proof -
  have "stays (claims ec) (\<lambda>v. set_reform_impact_computing ec eo e v)" for e
    unfolding set_reform_impact_computing_def set_reform_impact_def Let_def
    by (rule stays_at) (auto intro!: stays_intros stays_set_impact)
  moreover have "stays (claims ec) (run_simulation (ec_gateway ec) payload)" for payload
    by (rule stays_claims, rule stays_run_simulation; rule isolated_stays [OF isolated])
  ultimately show ?thesis
    unfolding handle_create_impact_def Let_def hand_off_execution_def
    by - (rule stays_at, auto split: sum.split intro!: stays_intros)
qed

section \<open>Claiming and releasing\<close>

abbreviation claim_key :: "setup_options \<Rightarrow> string" where
  "claim_key eo \<equiv> start_claim_key (rs_cache (ec_impacts ec)) (reform_impact_identity eo) (eo_target eo)"

lemma claims_at: "claims ec m (claim_key eo) = mem_live m (claim_key eo)"
  by (auto simp: claims_def)

lemma claims_claimed: "mem_live m' = (mem_live m)(claim_key eo := v) \<Longrightarrow> claims ec m' = (claims ec m)(claim_key eo := v)"
  by (rule ext) (auto simp: claims_def)

lemma identity_observability [simp]:
  "reform_impact_identity (eo\<lparr>eo_observability_id := v\<rparr>) = reform_impact_identity eo"
  by (simp add: reform_impact_identity_def reform_impact_scope_def)

text \<open>A claim of a candidate identifier: taken, refused, or invalid.\<close>

lemma claim_outcome:
  assumes "claim_reform_impact_start ec eo candidate m = (r, m')"
    and "normalize_observability_id (JStr candidate) = Some candidate"
  shows "(\<exists>claim. r = Inr True \<and> given (eo_options_hash eo)
            \<and> start_claim_of (eo_submission_claim_id eo) candidate = Inr claim
            \<and> claims ec m (claim_key eo) = None
            \<and> claims ec m' = (claims ec m)(claim_key eo \<mapsto> encoded_start_claim claim))
       \<or> (r \<noteq> Inr True \<and> claims ec m' = claims ec m)"
proof -
  have "candidate \<noteq> []" using assms(2) by (auto simp: normalize_observability_id_def uuid_of_text_def
        strip_braces_def Let_def)
  then have obs: "claim_observability_id eo (Some candidate) = Inr candidate"
    by (simp add: claim_observability_id_def text_or_def)
  show ?thesis
  proof (cases "given (eo_options_hash eo)")
    case False
    then show ?thesis using assms(1)
      by (auto simp: claim_reform_impact_start_def obs claim_identity_def bindA_def liftA_def)
  next
    case True
    then have m: "claim_start (rs_cache (ec_impacts ec)) (reform_impact_identity eo) (eo_target eo)
        (eo_submission_claim_id eo) candidate m = (r, m')"
      using assms(1) by (simp add: claim_reform_impact_start_def obs claim_identity_def bindA_def liftA_def)
    show ?thesis
    proof (cases "start_claim_of (eo_submission_claim_id eo) candidate")
      case (Inl e)
      with m show ?thesis by (auto simp: claim_start_def bindA_def liftA_def)
    next
      case (Inr claim)
      from memory.claim_start_law [OF client Inr, of "reform_impact_identity eo" "eo_target eo" m] m
      have r: "r = Inr (mem_live m (claim_key eo) = None)"
        and m': "mem_live m' = (if mem_live m (claim_key eo) = None
           then (mem_live m)(claim_key eo \<mapsto> encoded_start_claim claim) else mem_live m)" by auto
      show ?thesis
      proof (cases "mem_live m (claim_key eo) = None")
        case True
        with m' have "mem_live m' = (mem_live m)(claim_key eo \<mapsto> encoded_start_claim claim)" by simp
        from claims_claimed [OF this] True r \<open>given (eo_options_hash eo)\<close> Inr show ?thesis
          by (simp add: claims_at)
      next
        case False
        with m' r show ?thesis by (auto intro: claims_cong)
      qed
    qed
  qed
qed

lemma release_outcome:
  assumes "release_start_claim ec eo m = (r, m')"
    and "eo_observability_id eo = Some candidate" and "candidate \<noteq> []" and "given (eo_options_hash eo)"
    and "start_claim_of (eo_submission_claim_id eo) candidate = Inr claim"
    and "claims ec m (claim_key eo) = Some (encoded_start_claim claim)"
  shows "claims ec m' = (claims ec m)(claim_key eo := None)"
proof -
  have obs: "claim_observability_id eo None = Inr candidate"
    using assms(2,3) by (simp add: claim_observability_id_def text_or_def)
  from memory.release_start_law [OF client assms(5), of "reform_impact_identity eo" "eo_target eo" m] assms(6)
  obtain m1 where "release_start (rs_cache (ec_impacts ec)) (reform_impact_identity eo) (eo_target eo)
      (eo_submission_claim_id eo) candidate m = (Inr True, m1)"
    and m1: "mem_live m1 = (mem_live m)(claim_key eo := None)"
    by (auto simp: claims_at)
  with assms(1,4) have "m' = m1"
    by (simp add: release_start_claim_def obs claim_identity_def release_reform_impact_start_def
        bindA_def liftA_def catchA_def retA_def)
  with claims_claimed [OF m1] show ?thesis by simp
qed

end

section \<open>A request that submits\<close>

context isolated_economy
begin

lemma stays_get_claim: "stays (claims ec) (get_reform_impact_start_claim ec eo)"
  unfolding get_reform_impact_start_claim_def get_start_claim_def
  by (auto simp: client intro!: stays_intros stays_claims)

lemma current_get_claim: "stays (rc_current (ec_request ec)) (get_reform_impact_start_claim ec eo)"
  unfolding get_reform_impact_start_claim_def get_start_claim_def
  by (auto simp: client intro!: stays_intros stays_current [OF isolated])

lemma current_claim: "stays (rc_current (ec_request ec)) (claim_reform_impact_start ec eo candidate)"
  unfolding claim_reform_impact_start_def claim_start_def acquire_claim_def
  by (auto simp: client intro!: stays_intros stays_current [OF isolated])

lemma start_canonical:
  assumes "rc_current (ec_request ec) m = None" and "normalize_observability_id (JStr candidate) = Some candidate"
  shows "\<exists>m'. start_observability_id (ec_request ec) (JStr candidate) m = (Inr candidate, m')
     \<and> claims ec m' = claims ec m"
  using assms
  by (simp add: start_observability_id_def resolve_observability_id_def bind_observability_id_def
      bindA_def retA_def bind_claims)

text \<open>What the claim of an owned submission is, for the options it is claimed with.\<close>

definition owned :: "(string \<Rightarrow> string option) \<Rightarrow> setup_options \<Rightarrow> 'x mem_scheme \<Rightarrow> bool" where
  "owned before eo m \<longleftrightarrow>
     (\<exists>candidate claim. eo_observability_id eo = Some candidate \<and> candidate \<noteq> []
        \<and> given (eo_options_hash eo)
        \<and> start_claim_of (eo_submission_claim_id eo) candidate = Inr claim
        \<and> before (claim_key eo) = None
        \<and> claims ec m = before(claim_key eo \<mapsto> encoded_start_claim claim))"

lemma yields_claim_attempts:
  "same_request eo0 eo \<Longrightarrow> yields (\<lambda>(existing, eo'). same_request eo0 eo') (claim_attempts n ec eo candidate)"
proof (induction n)
  case (Suc n)
  let ?P = "\<lambda>(existing :: start_claim option, eo'). same_request eo0 eo'"
  have restored: "yields (same_request eo0) (restored ec obs eo)" for obs
    using Suc.prems by (auto simp: restored_def intro!: yields_intros)
  have found: "yields ?P (bindA (restored ec obs eo) (\<lambda>eo'. retA (Some claim, eo')))" for obs claim
    by (rule yields_bindA_of [OF restored]) (simp add: yields_retA)
  have taken: "yields ?P (bindA a (\<lambda>obs. retA (None, eo\<lparr>eo_observability_id := Some obs\<rparr>)))" for a
    using Suc.prems by (intro yields_bindA yields_retA) simp
  have refused: "yields ?P (bindA (get_reform_impact_start_claim ec eo) (\<lambda>existing.
      case existing of
        None \<Rightarrow> claim_attempts n ec eo candidate
      | Some claim \<Rightarrow> bindA (restored ec (Some (sl_observability_id claim)) eo) (\<lambda>eo'. retA (Some claim, eo'))))"
    by (rule yields_bindA) (simp add: Suc.IH [OF Suc.prems] found split: option.split)
  show ?case
    unfolding claim_attempts.simps by (rule yields_bindA) (simp add: taken refused)
qed (simp add: yields_raiseA)

lemma yields_claim_submission:
  "yields (\<lambda>(existing, eo'). same_request eo eo') (claim_reform_impact_submission ec eo)"
proof -
  have "yields (same_request eo) (resolve_runtime_bundle_for_setup_options ec eo)"
    unfolding resolve_runtime_bundle_for_setup_options_def
    by (rule yields_bindA_of [of "same_request eo"]) (auto intro!: yields_bindA yields_retA)
  then show ?thesis
    unfolding claim_reform_impact_submission_def
    by (rule yields_bindA_of) (rule yields_at, rule yields_bindA, rule yields_claim_attempts)
qed

lemma claim_attempts_outcome:
  assumes "claim_attempts n ec eo candidate m = (r, m')" and "rc_current (ec_request ec) m = None"
    and "normalize_observability_id (JStr candidate) = Some candidate"
  shows "(\<exists>eo'. r = Inr (None, eo') \<and> owned (claims ec m) eo' m')
       \<or> ((\<forall>eo'. r \<noteq> Inr (None, eo')) \<and> claims ec m' = claims ec m)"
  using assms(1,2)
proof (induction n arbitrary: m)
  case 0
  then show ?case by (auto simp: raiseA_def)
next
  case (Suc n)
  have ne: "candidate \<noteq> []" using assms(3)
    by (auto simp: normalize_observability_id_def uuid_of_text_def strip_braces_def Let_def)
  obtain rc m1 where c: "claim_reform_impact_start ec eo candidate m = (rc, m1)" by fastforce
  have cur1: "rc_current (ec_request ec) m1 = None"
    using staysD [OF current_claim c] Suc.prems(2) by simp
  show ?case
  proof (cases "rc = Inr True")
    case True
    with claim_outcome [OF c assms(3)] obtain claim where
      claim: "given (eo_options_hash eo)" "start_claim_of (eo_submission_claim_id eo) candidate = Inr claim"
        "claims ec m (claim_key eo) = None"
        "claims ec m1 = (claims ec m)(claim_key eo \<mapsto> encoded_start_claim claim)" by auto
    from start_canonical [OF cur1 assms(3)] obtain m2 where
      m2: "start_observability_id (ec_request ec) (JStr candidate) m1 = (Inr candidate, m2)"
        "claims ec m2 = claims ec m1" by blast
    let ?eo = "eo\<lparr>eo_observability_id := Some candidate\<rparr>"
    have "r = Inr (None, ?eo)" "m' = m2"
      using Suc.prems(1) c m2(1) True by (auto simp: bindA_def retA_def)
    moreover have "owned (claims ec m) ?eo m2"
      unfolding owned_def using claim ne m2(2) by simp
    ultimately show ?thesis by auto
  next
    case False
    then have l1: "claims ec m1 = claims ec m" using claim_outcome [OF c assms(3)] by auto
    show ?thesis
    proof (cases rc)
      case (Inl e)
      with Suc.prems(1) c l1 show ?thesis by (auto simp: bindA_def)
    next
      case (Inr b)
      with False have b: "rc = Inr False" by simp
      obtain rg m2 where g: "get_reform_impact_start_claim ec eo m1 = (rg, m2)" by fastforce
      have l2: "claims ec m2 = claims ec m" using staysD [OF stays_get_claim g] l1 by simp
      have cur2: "rc_current (ec_request ec) m2 = None" using staysD [OF current_get_claim g] cur1 by simp
      consider e where "rg = Inl e" | "rg = Inr None" | claim where "rg = Inr (Some claim)"
        by (cases rg) auto
      then show ?thesis
      proof cases
        case 1
        with Suc.prems(1) c b g l2 show ?thesis by (auto simp: bindA_def)
      next
        case 2
        then have "claim_attempts n ec eo candidate m2 = (r, m')"
          using Suc.prems(1) c b g by (simp add: bindA_def)
        from Suc.IH [OF this cur2] l2 show ?thesis by simp
      next
        case 3
        let ?next = "bindA (restored ec (Some (sl_observability_id claim)) eo) (\<lambda>eo'. retA (Some claim, eo'))"
        have m: "?next m2 = (r, m')" using 3 Suc.prems(1) c b g by (simp add: bindA_def)
        have "stays (claims ec) ?next" by (intro stays_intros stays_restored)
        then have "claims ec m' = claims ec m2" using m by (rule staysD)
        moreover have "yields (\<lambda>x. fst x \<noteq> None) ?next" by (auto intro!: yields_intros)
        then have "\<forall>eo'. r \<noteq> Inr (None, eo')" using m by (auto dest: yieldsD)
        ultimately show ?thesis using l2 by auto
      qed
    qed
  qed
qed

end

context isolated_economy
begin

lemma release_owned:
  assumes "owned before eo m" and "release_start_claim ec eo m = (r, m')"
  shows "claims ec m' = before"
proof -
  obtain candidate claim where o: "eo_observability_id eo = Some candidate" "candidate \<noteq> []"
    "given (eo_options_hash eo)" "start_claim_of (eo_submission_claim_id eo) candidate = Inr claim"
    "before (claim_key eo) = None"
    "claims ec m = before(claim_key eo \<mapsto> encoded_start_claim claim)"
    using assms(1) unfolding owned_def by blast
  from release_outcome [OF assms(2) o(1-4)] o(5,6) show ?thesis by (simp add: fun_upd_idem)
qed

lemma submit_owned_outcome:
  assumes "owned before eo m" and "submit_owned_impact ec eo p m = (r, m')"
  shows "claims ec m' = before \<or> (\<exists>msg. r = Inl (ReformImpactHandoffError msg)) \<and> owned before eo m'"
proof -
  obtain r1 m1 where h: "handle_create_impact ec eo p m = (r1, m1)" by fastforce
  have "claims ec m1 = claims ec m" using stays_handle_create h by (rule staysD)
  with assms(1) have own: "owned before eo m1" by (simp add: owned_def)
  obtain r2 m2 where rel: "release_start_claim ec eo m1 = (r2, m2)" by fastforce
  have before: "claims ec m2 = before" using release_owned [OF own rel] .
  show ?thesis
  proof (cases r1)
    case (Inr x)
    with h rel assms(2) before show ?thesis
      by (cases r2) (auto simp: submit_owned_impact_def bindA_def catchA_def retA_def)
  next
    case (Inl e)
    with h rel assms(2) before own show ?thesis
      by (cases e; cases r2)
        (auto simp: submit_owned_impact_def bindA_def catchA_def retA_def raiseA_def)
  qed
qed

lemma quiet_step:
  assumes "stays mem_live a" and "stays (rc_current (ec_request ec)) a" and "a m = (r, m')"
    and "rc_current (ec_request ec) m = None"
  shows "claims ec m' = claims ec m \<and> rc_current (ec_request ec) m' = None"
  using staysD [OF stays_claims [OF assms(1)] assms(3)] staysD [OF assms(2,3)] assms(4) by simp

lemma stays_get_policy_jsons:
  "(\<And>c i. stays f (ec_policy_json ec c i)) \<Longrightarrow> stays f (get_policy_jsons ec c b i)"
  unfolding get_policy_jsons_def Let_def by (auto intro!: stays_intros)

lemma yields_resolve_candidate:
  "yields (\<lambda>obs. normalize_observability_id (JStr obs) = Some obs)
     (resolve_observability_id (ec_request ec) v)"
  using isolated normalize_idem
  by (auto simp: resolve_observability_id_def isolated_def split: option.split intro!: yields_intros)

lemma stays_resolve_candidate:
  "stays f (rc_new_id (ec_request ec)) \<Longrightarrow> stays f (resolve_observability_id (ec_request ec) v)"
  by (auto simp: resolve_observability_id_def split: option.split intro!: stays_intros)

lemma stays_resolve_bundle:
  "(\<And>p. stays f (en_get (ec_gateway ec) p)) \<Longrightarrow> stays f (resolve_runtime_bundle_for_setup_options ec eo)"
  unfolding resolve_runtime_bundle_for_setup_options_def resolve_app_def
  by (auto intro!: stays_intros stays_resolve_app_name)

lemma claim_submission_outcome:
  assumes "claim_reform_impact_submission ec eo m = (r, m')" and "rc_current (ec_request ec) m = None"
  shows "(\<exists>eo'. r = Inr (None, eo') \<and> owned (claims ec m) eo' m')
       \<or> ((\<forall>eo'. r \<noteq> Inr (None, eo')) \<and> claims ec m' = claims ec m)"
proof -
  obtain r1 m1 where b: "resolve_runtime_bundle_for_setup_options ec eo m = (r1, m1)" by fastforce
  have "claims ec m1 = claims ec m \<and> rc_current (ec_request ec) m1 = None"
      by (rule quiet_step [where a = "resolve_runtime_bundle_for_setup_options ec eo", OF _ _ b assms(2)];
          rule stays_resolve_bundle; rule isolated_stays [OF isolated])
    then have keep: "claims ec m1 = claims ec m" "rc_current (ec_request ec) m1 = None" by simp_all
  show ?thesis
  proof (cases r1)
    case (Inl e)
    with b assms(1) keep show ?thesis by (auto simp: claim_reform_impact_submission_def bindA_def)
  next
    case (Inr eo1)
    let ?v = "opt_text_json (rc_incoming (ec_request ec) m1)"
    obtain r2 m2 where c: "resolve_observability_id (ec_request ec) ?v m1 = (r2, m2)" by fastforce
    have "claims ec m2 = claims ec m1 \<and> rc_current (ec_request ec) m2 = None"
      by (rule quiet_step [where a = "resolve_observability_id (ec_request ec) ?v", OF _ _ c keep(2)];
          rule stays_resolve_candidate; rule isolated_stays [OF isolated])
    then have keep2: "claims ec m2 = claims ec m" "rc_current (ec_request ec) m2 = None" using keep(1) by simp_all
    show ?thesis
    proof (cases r2)
      case (Inl e)
      with b c Inr assms(1) keep2 show ?thesis by (auto simp: claim_reform_impact_submission_def bindA_def)
    next
      case (Inr candidate)
      with yieldsD [OF yields_resolve_candidate] c
      have "normalize_observability_id (JStr candidate) = Some candidate" by blast
      moreover have "claim_attempts REFORM_IMPACT_START_CLAIM_ATTEMPTS ec eo1 candidate m2 = (r, m')"
        using assms(1) b c Inr \<open>r1 = Inr eo1\<close>
        by (simp add: claim_reform_impact_submission_def bindA_def)
      ultimately show ?thesis using claim_attempts_outcome keep2 by metis
    qed
  qed
qed

text \<open>What is left of the claims: all of them, or all but the one of a job that was not handed off.\<close>

definition claims_left ::
  "setup_options \<Rightarrow> impact_result result \<Rightarrow> (string \<Rightarrow> string option) \<Rightarrow> 'x mem_scheme \<Rightarrow> bool" where
  "claims_left eo r before m \<longleftrightarrow>
     claims ec m = before
     \<or> (\<exists>msg. r = Inl (ReformImpactHandoffError msg)) \<and> (\<exists>eo'. same_request eo eo' \<and> owned before eo' m)"

lemma claims_left_same: "same_request eo eo' \<Longrightarrow> claims_left eo' r before m \<Longrightarrow> claims_left eo r before m"
  by (auto simp: claims_left_def same_request_def)

lemma create_outcome:
  assumes "create_economic_impact ec eo m = (r, m')" and "rc_current (ec_request ec) m = None"
  shows "claims_left eo r (claims ec m) m'"
proof -
  obtain r1 m1 where p: "get_policy_jsons ec (eo_country_id eo) (eo_baseline_policy_id eo)
      (eo_reform_policy_id eo) m = (r1, m1)" by fastforce
  have "claims ec m1 = claims ec m \<and> rc_current (ec_request ec) m1 = None"
      by (rule quiet_step [where a = "get_policy_jsons ec (eo_country_id eo) (eo_baseline_policy_id eo) (eo_reform_policy_id eo)", OF _ _ p assms(2)];
          rule stays_get_policy_jsons; rule isolated_stays [OF isolated])
    then have keep: "claims ec m1 = claims ec m" "rc_current (ec_request ec) m1 = None" by simp_all
  show ?thesis
  proof (cases r1)
    case (Inl e)
    with p assms(1) keep show ?thesis by (auto simp: claims_left_def create_economic_impact_def bindA_def)
  next
    case (Inr policies)
    obtain r2 m2 where c: "claim_reform_impact_submission ec eo m1 = (r2, m2)" by fastforce
    note rest = assms(1) [unfolded create_economic_impact_def bindA_def p Inr prod.case sum.case c]
    from claim_submission_outcome [OF c keep(2)] show ?thesis
    proof (elim disjE exE conjE)
      fix eo' assume claimed: "r2 = Inr (None, eo')" and own: "owned (claims ec m1) eo' m2"
      have "same_request eo eo'" using yieldsD [OF yields_claim_submission] c claimed by fastforce
      moreover have "submit_owned_impact ec eo' policies m2 = (r, m')" using rest claimed by simp
      ultimately show ?thesis using submit_owned_outcome [OF own] keep(1) by (auto simp: claims_left_def)
    next
      assume "\<forall>eo'. r2 \<noteq> Inr (None, eo')" "claims ec m2 = claims ec m1"
      with rest keep(1) show ?thesis
        by (cases r2) (auto simp: claims_left_def retA_def split: prod.splits if_splits option.splits)
    qed
  qed
qed

lemma stays_build_options:
  assumes "\<And>p. stays f (en_get (ec_gateway ec) p)" and "stays f (ec_new_claim_id ec)"
  shows "stays f (build_economic_impact_setup_options ec rq y)"
  unfolding build_economic_impact_setup_options_def
  using assms by (auto intro!: stays_intros stays_gateway_worker_spm)

lemma get_or_create_outcome:
  assumes "get_or_create_economic_impact ec eo m = (r, m')" and "rc_current (ec_request ec) m = None"
  shows "claims_left eo r (claims ec m) m'"
proof -
  obtain r1 m1 where g: "get_reusable_impact ec False eo m = (r1, m1)" by fastforce
  have "stays (claims ec) (get_reusable_impact ec False eo)"
    by (rule stays_claims, rule stays_get_reusable_impact)
      (simp_all add: client stays_live_client isolated_stays [OF isolated])
  moreover have "stays (rc_current (ec_request ec)) (get_reusable_impact ec False eo)"
    by (rule stays_get_reusable_impact)
      (simp_all add: client stays_more_client stays_current [OF isolated] isolated_stays [OF isolated])
  ultimately have keep: "claims ec m1 = claims ec m" "rc_current (ec_request ec) m1 = None"
    using staysD g assms(2) by fastforce+
  show ?thesis
  proof (cases r1)
    case (Inl e)
    with g assms(1) keep show ?thesis by (auto simp: claims_left_def get_or_create_economic_impact_def bindA_def)
  next
    case (Inr x)
    obtain found eo' where x: "x = (found, eo')" by (cases x)
    note rest = assms(1) [unfolded get_or_create_economic_impact_def bindA_def [of "get_reusable_impact ec False eo"]
        g Inr prod.case sum.case x]
    show ?thesis
    proof (cases found)
      case None
      with rest have "create_economic_impact ec eo' m1 = (r, m')"
        by (simp add: bindA_def liftA_def determine_impact_action_def)
      moreover have "same_request eo eo'"
        using yieldsD [OF yields_get_reusable_impact] g Inr x by fastforce
      ultimately show ?thesis using create_outcome [OF _ keep(2)] keep(1) claims_left_same by metis
    next
      case (Some i)
      have "stays (claims ec) (bindA (liftA (determine_impact_action found)) (\<lambda>action.
          case found of None \<Rightarrow> create_economic_impact ec eo'
          | Some i \<Rightarrow> bindA (restored ec (im_observability_id i) eo') (\<lambda>eo''.
              answer_from_stored_impact ec eo'' action i)))"
        unfolding Some by (simp) (intro stays_intros stays_restored stays_answer)
      from staysD [OF this rest] keep(1) show ?thesis by (simp add: claims_left_def)
    qed
  qed
qed

text \<open>The claim of a request: the one of its scope and target, under some options hash.\<close>

lemma request_outcome:
  assumes "get_economic_impact ec rq year m = (r, m')" and "rc_current (ec_request ec) m = None"
  shows "claims ec m' = claims ec m
     \<or> (\<exists>msg own doc. r = Inl (ReformImpactHandoffError msg)
          \<and> id_scope own = reform_impact_scope (setup_options_of (ec_versions ec) (with_normalized_region rq) year [] [] [])
          \<and> claims ec m (start_claim_key (rs_cache (ec_impacts ec)) own (rq_target rq)) = None
          \<and> claims ec m' = (claims ec m)(start_claim_key (rs_cache (ec_impacts ec)) own (rq_target rq) \<mapsto> doc))"
proof -
  obtain r1 m1 where b: "build_economic_impact_setup_options ec (with_normalized_region rq) year m = (r1, m1)"
    by fastforce
  have "claims ec m1 = claims ec m \<and> rc_current (ec_request ec) m1 = None"
      by (rule quiet_step [where a = "build_economic_impact_setup_options ec (with_normalized_region rq) year", OF _ _ b assms(2)];
          rule stays_build_options; rule isolated_stays [OF isolated])
    then have keep: "claims ec m1 = claims ec m" "rc_current (ec_request ec) m1 = None" by simp_all
  show ?thesis
  proof (cases "\<exists>eo. r1 = Inr eo \<and> validate_economy_year (rq_country_id rq) year = Inr ()")
    case False
    with assms(1) b keep(1) show ?thesis
      by (cases "validate_economy_year (rq_country_id rq) year"; cases r1)
        (auto simp: get_economic_impact_def bindA_def liftA_def)
  next
    case True
    then obtain eo where eo: "r1 = Inr eo" "validate_economy_year (rq_country_id rq) year = Inr ()" by blast
    with assms(1) b have "get_or_create_economic_impact ec eo m1 = (r, m')"
      by (simp add: get_economic_impact_def bindA_def liftA_def)
    from get_or_create_outcome [OF this keep(2)] keep(1) have left: "claims_left eo r (claims ec m) m'" by simp
    from build_economic_impact_setup_options_Inr [OF b [unfolded eo(1)]] obtain resolved c v where
      "eo = setup_options_of (ec_versions ec) (with_normalized_region rq) year
              (with_resolved_spm resolved (rq_options (with_normalized_region rq))) c v" by blast
    then have scope: "reform_impact_scope eo
        = reform_impact_scope (setup_options_of (ec_versions ec) (with_normalized_region rq) year [] [] [])"
      and target: "eo_target eo = rq_target rq"
      by (simp_all add: setup_options_of_def reform_impact_scope_def with_normalized_region_def Let_def)
    show ?thesis
    proof (cases "claims ec m' = claims ec m")
      case False
      with left obtain msg eo' where own: "r = Inl (ReformImpactHandoffError msg)" "same_request eo eo'"
        "owned (claims ec m) eo' m'"
        unfolding claims_left_def by blast
      from own(3) obtain claim where "claims ec m (claim_key eo') = None"
        "claims ec m' = (claims ec m)(claim_key eo' \<mapsto> encoded_start_claim claim)"
        unfolding owned_def by blast
      moreover have "eo_target eo' = rq_target rq" "id_scope (reform_impact_identity eo') = reform_impact_scope eo"
        using own(2) target by (simp_all add: same_request_def reform_impact_identity_def)
      ultimately show ?thesis using own(1) scope by (intro disjI2) (metis (no_types))
    qed simp
  qed
qed

end

section \<open>Properties\<close>

text \<open>A service that routes a version and refuses connections to submit.\<close>

definition refusing_entrypoint :: "'w entrypoint" where
  "refusing_entrypoint = silent_entrypoint
     \<lparr>en_get := (\<lambda>path. retA \<lparr>hr_status = 200, hr_text = dumps_canonical (JObj [(''4.1'', JStr ''app-7'')]),
                       hr_error = []\<rparr>)\<rparr>"

definition refusing_economy :: "mem economy" where
  "refusing_economy = example_economy memory_context refusing_entrypoint"

lemma stays_refusing:
  "stays f (en_get refusing_entrypoint p)" "stays f (en_post refusing_entrypoint p b)"
  by (simp_all add: refusing_entrypoint_def silent_entrypoint_def stays_retA stays_raiseA)

lemma isolated_refusing: "isolated refusing_economy"
proof -
  have "normalize_observability_id (JStr (uuid_text 0)) = Some (uuid_text 0)"
    by (simp add: normalize_observability_id_def uuid_of_uuid_text)
  then show ?thesis
    by (simp add: isolated_def refusing_economy_def example_economy_def memory_context_def
        stays_retA yields_retA stays_refusing)
qed

interpretation refusing: isolated_economy refusing_economy
  by unfold_locales (rule isolated_refusing)

text \<open>
  C16. Every annual request leaves every submission claim as it found it, whether it answers
  or raises: the claim it takes to submit is released on every path, and no claim of another
  request is touched. The one exception is a submitted job that could not be handed off: the
  request then raises ReformImpactHandoffError and keeps the claim it took, one of its own
  policies, year and target that was free before, and every other claim is as it was.
  The simulation service, the stored policies and the sources of identifiers do not write to
  the cache (\<open>isolated\<close>), which is the in-memory one.
\<close>

theorem request_leaves_claims:
  fixes ec :: "'x mem_scheme economy"
  assumes "isolated ec" and "rc_current (ec_request ec) m = None"
    and "get_economic_impact ec rq year m = (r, m')"
  shows "let key = start_claim_key (rs_cache (ec_impacts ec))
     in (\<forall>identity target. mem_live m' (key identity target) = mem_live m (key identity target))
        \<or> (\<exists>msg own. r = Inl (ReformImpactHandoffError msg)
             \<and> sc_country_id (id_scope own) = rq_country_id rq
             \<and> sc_reform_policy_id (id_scope own) = rq_policy_id rq
             \<and> sc_baseline_policy_id (id_scope own) = rq_baseline_policy_id rq
             \<and> sc_time_period (id_scope own) = year
             \<and> mem_live m (key own (rq_target rq)) = None \<and> mem_live m' (key own (rq_target rq)) \<noteq> None
             \<and> (\<forall>identity target. key identity target \<noteq> key own (rq_target rq) \<longrightarrow>
                  mem_live m' (key identity target) = mem_live m (key identity target)))"
proof -
  let ?key = "start_claim_key (rs_cache (ec_impacts ec))"
  have at: "mem_live n (?key identity target) = claims ec n (?key identity target)"
    for n :: "'x mem_scheme" and identity target by (auto simp: claims_def)
  have scope: "sc_country_id s = rq_country_id rq" "sc_reform_policy_id s = rq_policy_id rq"
    "sc_baseline_policy_id s = rq_baseline_policy_id rq" "sc_time_period s = year"
    if "s = reform_impact_scope (setup_options_of (ec_versions ec) (with_normalized_region rq) year [] [] [])" for s
    by (simp_all add: that setup_options_of_def reform_impact_scope_def with_normalized_region_def Let_def)
  show ?thesis
    unfolding Let_def at
    using isolated_economy.request_outcome [OF isolated_economy.intro [OF assms(1)] assms(3,2)] scope
    by (elim disjE exE conjE) (auto simp: fun_upd_apply intro!: exI)
qed

theorem request_leaves_claims_witness:
  "(\<exists>msg. fst (get_economic_impact refusing_economy uk_request ''2026'' empty_mem) = Inl (ReformImpactHandoffError msg))
     \<or> mem_live (snd (get_economic_impact refusing_economy uk_request ''2026'' empty_mem))
         (start_claim_key (memory_context :: mem cache_context) (reform_impact_identity uk_options) ''general'') = None"
proof -
  have parts: "rs_cache (ec_impacts refusing_economy) = memory_context"
    "rc_current (ec_request refusing_economy) empty_mem = None"
    by (simp_all add: refusing_economy_def example_economy_def)
  have "mem_live empty_mem k = None" for k by (simp add: mem_live_def empty_mem_def)
  with request_leaves_claims [OF isolated_refusing parts(2) prod.collapse [symmetric],
      of uk_request "''2026''"]
  show ?thesis unfolding parts Let_def by auto
qed

end
