(* ===== verification/Failure_Deletion.thy ===== *)
theory Failure_Deletion
  imports Economy_Claims
begin

text \<open>
  What a request to delete a stored failure can remove, on the in-memory backend: nothing
  but a record that is a failure older than the lockout.
\<close>

section \<open>The reads and the delete script\<close>

context cache_store
begin

lemma read_key_law:
  "\<exists>w'. bindA (cl_get client key) (\<lambda>doc. retA (key, doc)) w = (Inr (key, live w key), w') \<and> live w' = live w"
  using get_law [of key w] by (auto simp: bindA_def retA_def)

lemma mapA_read_law:
  assumes "\<And>key w. \<exists>w'. rd key w = (Inr (key, live w key), w') \<and> live w' = live w"
  shows "\<exists>w'. mapA rd keys w = (Inr (map (\<lambda>key. (key, live w key)) keys), w') \<and> live w' = live w"
proof (induction keys arbitrary: w)
  case (Cons key keys)
  obtain w1 where g: "rd key w = (Inr (key, live w key), w1)" "live w1 = live w" using assms by blast
  from Cons.IH [of w1] obtain w2 where
    "mapA rd keys w1 = (Inr (map (\<lambda>key. (key, live w1 key)) keys), w2)" "live w2 = live w1" by blast
  with g show ?case by (intro exI [of _ w2]) (simp add: bindA_def retA_def)
qed (simp add: retA_def)

lemmas read_keys_law = mapA_read_law [OF read_key_law]

end

lemma read_index_entries:
  assumes "ctx_client ctx = mem_client" and "read_index ctx index l m = (r, m')"
  shows "\<exists>keys. r = Inr (map (\<lambda>key. (key, mem_live m key)) keys) \<and> mem_live m' = mem_live m"
proof -
  obtain keys m1 where z: "cl_zrevrange mem_client index 0 (max (l - 1) 0) m = (Inr keys, m1)"
    by (simp add: mem_client_def ok_def Let_def case_prod_unfold)
  have "mem_live m1 = mem_live m" using stays_live_client(3) z by (rule staysD)
  moreover have "mapA (\<lambda>key. bindA (cl_get mem_client key) (\<lambda>value. retA (key, value))) keys m1 = (r, m')"
    using assms z by (simp add: read_index_def bindA_Inr)
  ultimately show ?thesis using memory.read_keys_law [of keys m1] by auto
qed

lemma delete_unchanged_law:
  "\<exists>m'. mem_eval DELETE_UNCHANGED_RECORD 3 [k, i, j, v] m = (Inr (if mem_live m k = Some v then 1 else 0), m')
     \<and> mem_live m' = (if mem_live m k = Some v then (mem_live m)(k := None) else mem_live m)"
proof -
  have del: "mem_live (snd (mem_delete [k] n)) = (mem_live n)(k := None)" for n :: "'a mem_scheme"
    by (simp only: mem_delete_live) (auto simp: fun_eq_iff)
  show ?thesis
    using del [of "mem_purge k m"]
    by (simp add: mem_eval_def mem_delete_unchanged_record_def Let_def mem_get_live del: mem_delete.simps)
qed

lemma find_stored_Some:
  "find_stored failure (map (\<lambda>key. (key, l key)) keys) = Inr (Some (k, v)) \<Longrightarrow>
     l k = Some v \<and> (\<exists>i. decode_impact (Some v) = Inr (Some i) \<and> impact_eq i failure)"
proof (induction keys)
  case (Cons key keys)
  show ?case
  proof (cases "l key")
    case None
    with Cons show ?thesis by simp
  next
    case (Some doc)
    with Cons.prems obtain found where f: "decode_impact (Some doc) = Inr found"
      and s: "(if (case found of None \<Rightarrow> False | Some i \<Rightarrow> impact_eq i failure) then Inr (Some (key, doc))
         else find_stored failure (map (\<lambda>key. (key, l key)) keys)) = Inr (Some (k, v))"
      by (auto simp: res_bind_Inr_iff)
    with Cons.IH Some show ?thesis by (auto split: if_splits option.splits)
  qed
qed simp

lemma impact_eq_fields:
  "impact_eq a b \<Longrightarrow> im_status a = im_status b \<and> im_end_time a = im_end_time b"
  by (auto simp: impact_eq_def dest: arg_cong [of _ _ im_status] arg_cong [of _ _ im_end_time])

text \<open>What the deletion of a failure does to the values.\<close>

lemma delete_failure_outcome:
  assumes "ctx_client ctx = mem_client" and "delete_failure ctx failure m = (r, m')"
  shows "(r \<noteq> Inr True \<and> mem_live m' = mem_live m)
     \<or> (\<exists>k v i. mem_live m k = Some v \<and> decode_impact (Some v) = Inr (Some i)
           \<and> im_status i = ''error'' \<and> im_end_time i = im_end_time failure
           \<and> mem_live m' = (mem_live m)(k := None) \<and> r = Inr True)"
proof (cases "im_status failure = ''error''")
  case False
  with assms(2) show ?thesis by (auto simp: delete_failure_def raiseA_def)
next
  case True
  let ?ix = "scope_index ctx failure"
  obtain r1 m1 where read: "read_index ctx ?ix REFORM_IMPACT_INDEX_LIMIT m = (r1, m1)" by fastforce
  from read_index_entries [OF assms(1) read] obtain keys where
    r1: "r1 = Inr (map (\<lambda>key. (key, mem_live m key)) keys)" and l1: "mem_live m1 = mem_live m" by blast
  show ?thesis
  proof (cases "find_stored failure (map (\<lambda>key. (key, mem_live m key)) keys)")
    case (Inl e)
    with assms(2) True read r1 l1 show ?thesis
      by (auto simp: delete_failure_def bindA_def catchA_def liftA_def raiseA_def)
  next
    case (Inr stored)
    show ?thesis
    proof (cases stored)
      case None
      with assms(2) True read r1 l1 Inr show ?thesis
        by (auto simp: delete_failure_def bindA_def catchA_def liftA_def retA_def)
    next
      case (Some kv)
      obtain k v where kv: "kv = (k, v)" by (cases kv)
      with find_stored_Some [of failure "mem_live m" keys k v] Inr Some obtain i where
        held: "mem_live m k = Some v" and i: "decode_impact (Some v) = Inr (Some i)" "impact_eq i failure"
        by auto
      from delete_unchanged_law [of k ?ix "recent_index ctx" v m1] held l1 obtain m2 where
        "cl_eval mem_client DELETE_UNCHANGED_RECORD 3 [k, ?ix, recent_index ctx, v] m1 = (Inr 1, m2)"
        and l2: "mem_live m2 = (mem_live m)(k := None)"
        by (auto simp: mem_client_def)
      with assms True read r1 Inr Some kv have "r = Inr True" "m' = m2"
        by (auto simp: delete_failure_def bindA_def catchA_def liftA_def retA_def)
      with held i l2 impact_eq_fields [OF i(2)] True show ?thesis by auto
    qed
  qed
qed

section \<open>Properties\<close>

definition past_lockout :: "datetime \<Rightarrow> cached_impact \<Rightarrow> bool" where
  "past_lockout now i \<longleftrightarrow>
     (\<forall>ended. im_end_time i = Some ended \<longrightarrow>
        timestamp ended + FAILED_IMPACT_DELETE_LOCKOUT_SECONDS * 1000000 \<le> timestamp now)"

lemma seconds_until_0_past:
  assumes "im_end_time i = im_end_time j"
    and "\<not> 0 < seconds_until now (im_end_time j) FAILED_IMPACT_DELETE_LOCKOUT_SECONDS"
  shows "past_lockout now i"
  using assms ceil_div_pos_iff [of 1000000 "FAILED_IMPACT_DELETE_LOCKOUT_SECONDS * 1000000
      - (timestamp now - timestamp (the (im_end_time j)))"]
  by (auto simp: past_lockout_def seconds_until_def Let_def FAILED_IMPACT_DELETE_LOCKOUT_SECONDS_def
      min_def max_def split: if_splits)

definition deleted_a_failure ::
  "datetime \<Rightarrow> 'x mem_scheme \<Rightarrow> failed_impact_deletion result \<Rightarrow> 'x mem_scheme \<Rightarrow> bool" where
  "deleted_a_failure now m r m' \<longleftrightarrow>
     (\<exists>k v i. mem_live m k = Some v \<and> decode_impact (Some v) = Inr (Some i)
        \<and> im_status i = ''error'' \<and> past_lockout now i
        \<and> mem_live m' = (mem_live m)(k := None) \<and> r = Inr deletion_deleted)"

context isolated_economy
begin

lemma live_get_reusable: "stays mem_live (get_reusable_impact ec c eo)"
  by (rule stays_get_reusable_impact)
    (simp_all add: client stays_live_client isolated_stays [OF isolated])

lemma delete_attempts_outcome:
  assumes "\<forall>w. rs_now (ec_impacts ec) w = now" and "delete_attempts n ec eo m = (r, m')"
  shows "(r \<noteq> Inr deletion_deleted \<and> mem_live m' = mem_live m) \<or> deleted_a_failure now m r m'"
  using assms(2)
proof (induction n arbitrary: m)
  case 0
  then show ?case by (auto simp: raiseA_def)
next
  case (Suc n)
  obtain r1 m1 where g: "get_reusable_impact ec True eo m = (r1, m1)" by fastforce
  have l1: "mem_live m1 = mem_live m" using live_get_reusable g by (rule staysD)
  consider e where "r1 = Inl e" | eo' where "r1 = Inr (None, eo')"
    | i eo' where "r1 = Inr (Some i, eo')" "im_status i \<noteq> ''error''"
    | i eo' where "r1 = Inr (Some i, eo')" "im_status i = ''error''"
    by (cases r1) (auto, metis option.exhaust)
  then show ?case
  proof cases
    case 4
    let ?s = "seconds_until now (im_end_time i) FAILED_IMPACT_DELETE_LOCKOUT_SECONDS"
    obtain r2 m2 where d: "delete_failed_reform_impact (ec_impacts ec) i m1 = (r2, m2)" by fastforce
    from 4 Suc.prems g assms(1) d have r: "if 0 < ?s then r = Inr (deletion_locked ?s) \<and> m' = m1
        else (case r2 of Inl e \<Rightarrow> r = Inl e \<and> m' = m2
              | Inr True \<Rightarrow> r = Inr deletion_deleted \<and> m' = m2
              | Inr False \<Rightarrow> delete_attempts n ec eo m2 = (r, m'))"
      by (auto simp: bindA_def retA_def get_reform_impact_seconds_until_def split: sum.splits bool.splits)
    have locked: "deletion_locked ?s \<noteq> deletion_deleted"
      by (simp add: deletion_locked_def deletion_deleted_def)
    from delete_failure_outcome [OF client d [unfolded delete_failed_reform_impact_def]]
    show ?thesis
    proof (elim disjE exE conjE)
      assume "r2 \<noteq> Inr True" and l2: "mem_live m2 = mem_live m1"
      with r locked l1 Suc.IH [of m2] show ?thesis
        by (auto simp: deleted_a_failure_def split: if_splits sum.splits bool.splits)
    next
      fix k v j
      assume "mem_live m1 k = Some v" "decode_impact (Some v) = Inr (Some j)" "im_status j = ''error''"
        and ended: "im_end_time j = im_end_time i"
        and "mem_live m2 = (mem_live m1)(k := None)" "r2 = Inr True"
      with r locked l1 seconds_until_0_past [OF ended, of now] show ?thesis
        unfolding deleted_a_failure_def by (cases "0 < ?s") auto
    qed
  qed (use Suc.prems g l1 in \<open>auto simp: bindA_def retA_def deletion_not_found_def
      deletion_not_a_failure_def deletion_deleted_def\<close>)
qed

end

text \<open>
  C17. A request to delete a stored failure removes nothing, or exactly one record, and that
  record is a failure recorded at least the lockout of 10 seconds before: a record that is
  computing or complete, a newer failure, a claim and every other value stay. It reports a
  deletion exactly when it made one.
\<close>

theorem delete_only_old_failures:
  fixes ec :: "'x mem_scheme economy"
  assumes "isolated ec" and "\<forall>w. rs_now (ec_impacts ec) w = now"
    and "delete_failed_economic_impact ec rq year m = (r, m')"
  shows "(r \<noteq> Inr deletion_deleted \<and> mem_live m' = mem_live m)
     \<or> (\<exists>k v i. mem_live m k = Some v \<and> decode_impact (Some v) = Inr (Some i)
           \<and> im_status i = ''error''
           \<and> (\<forall>ended. im_end_time i = Some ended \<longrightarrow> timestamp ended + 10 * 1000000 \<le> timestamp now)
           \<and> mem_live m' = (mem_live m)(k := None) \<and> r = Inr deletion_deleted)"
proof -
  obtain r1 m1 where b: "build_economic_impact_setup_options ec (with_normalized_region rq) year m = (r1, m1)"
    by fastforce
  have "stays mem_live (build_economic_impact_setup_options ec (with_normalized_region rq) year)"
    by (rule isolated_economy.stays_build_options [OF isolated_economy.intro [OF assms(1)]];
        rule isolated_stays [OF assms(1)])
  then have l1: "mem_live m1 = mem_live m" using b by (rule staysD)
  have "(r \<noteq> Inr deletion_deleted \<and> mem_live m' = mem_live m) \<or> deleted_a_failure now m r m'"
  proof (cases "validate_economy_year (rq_country_id rq) year")
    case (Inl e)
    with assms(3) show ?thesis by (auto simp: delete_failed_economic_impact_def bindA_def liftA_def)
  next
    case year: (Inr u)
    show ?thesis
    proof (cases r1)
      case (Inl e)
      with assms(3) year b l1 show ?thesis
        by (auto simp: delete_failed_economic_impact_def bindA_def liftA_def)
    next
      case (Inr eo)
      with assms(3) year b have "delete_attempts FAILED_IMPACT_DELETE_ATTEMPTS ec eo m1 = (r, m')"
        by (simp add: delete_failed_economic_impact_def bindA_def liftA_def)
      from isolated_economy.delete_attempts_outcome [OF isolated_economy.intro [OF assms(1)] assms(2) this] l1
      show ?thesis by (simp add: deleted_a_failure_def)
    qed
  qed
  then show ?thesis
    by (simp add: deleted_a_failure_def past_lockout_def FAILED_IMPACT_DELETE_LOCKOUT_SECONDS_def)
qed

lemma live_empty_mem: "mem_live empty_mem = (\<lambda>k. None)"
  by (rule ext) (simp add: mem_live_def empty_mem_def)

theorem delete_only_old_failures_witness:
  "mem_live (snd (delete_failed_economic_impact refusing_economy uk_request ''2026'' empty_mem)) = (\<lambda>k. None)"
proof -
  have "\<forall>w. rs_now (ec_impacts refusing_economy) w = ((2026, 1, 1), 0, 0, 0, 0)"
    by (simp add: refusing_economy_def example_economy_def)
  from delete_only_old_failures [OF isolated_refusing this prod.collapse [symmetric],
      of uk_request "''2026''" empty_mem]
  show ?thesis by (auto simp: live_empty_mem)
qed

end
