(* ===== verification/Budget_Window_Cache.thy ===== *)
theory Budget_Window_Cache
  imports Reform_Impact_Cache
begin

text \<open>
  \<open>policyengine_api/services/budget_window_cache.py\<close>: one atomic cache document per
  budget-window report, written by the requests that share it, and the claim that lets one
  of them submit its batch.

  Metric events are not modelled. A state read from the cache is a JSON object, checked as pydantic checks it
  in strict mode.
\<close>

definition BUDGET_WINDOW_CACHE_FAMILY :: string where
  "BUDGET_WINDOW_CACHE_FAMILY = ''budget-window''"

definition BUDGET_WINDOW_CACHE_SCHEMA_VERSION :: int where
  "BUDGET_WINDOW_CACHE_SCHEMA_VERSION = 4"

definition BUDGET_WINDOW_STARTING_TTL_SECONDS :: int where
  "BUDGET_WINDOW_STARTING_TTL_SECONDS = 300"

definition BUDGET_WINDOW_BATCH_TTL_SECONDS :: int where
  "BUDGET_WINDOW_BATCH_TTL_SECONDS = 86400"

definition BUDGET_WINDOW_RESULT_TTL_SECONDS :: int where
  "BUDGET_WINDOW_RESULT_TTL_SECONDS = 2592000"

section \<open>The state document\<close>

datatype bw_status = Starting | Submitted | Completed | Failed

datatype bw_failure = SPMFailure | ExecutionFailure

fun bw_status_text :: "bw_status \<Rightarrow> string" where
  "bw_status_text Starting = ''starting''"
| "bw_status_text Submitted = ''submitted''"
| "bw_status_text Completed = ''completed''"
| "bw_status_text Failed = ''failed''"

fun bw_failure_text :: "bw_failure \<Rightarrow> string" where
  "bw_failure_text SPMFailure = ''spm_validation''"
| "bw_failure_text ExecutionFailure = ''execution''"

record bw_state =
  st_status :: bw_status
  st_observability_id :: "string option"
  st_submission_claim_id :: "string option"
  st_batch_job_id :: "string option"
  st_result :: "json option"
  st_failure_type :: "bw_failure option"
  st_error :: "json option"

definition missing_fields :: "bw_state \<Rightarrow> string list" where
  "missing_fields st =
     (case st_status st of
        Starting \<Rightarrow> (if st_submission_claim_id st = None then [''submission_claim_id''] else [])
      | Submitted \<Rightarrow> (if st_batch_job_id st = None then [''batch_job_id''] else [])
      | Completed \<Rightarrow> (if st_result st = None then [''result''] else [])
      | Failed \<Rightarrow> (if st_failure_type st = None then [''failure_type''] else [])
                 @ (if st_error st = None then [''error''] else []))"

text \<open>The field constraints of the model and its validator, on a state given by its fields.\<close>

definition validate_bw_state :: "bw_state \<Rightarrow> bw_state result" where
  "validate_bw_state st =
     (if st_submission_claim_id st = Some [] \<or> st_batch_job_id st = Some []
      then Inl (ValueError ''String should have at least 1 character'')
      else if \<not> is_dict_opt (st_result st) \<or> \<not> is_dict_opt (st_error st)
      then Inl (ValueError ''Input should be a valid dictionary'')
      else if missing_fields st \<noteq> []
      then Inl (ValueError (bw_status_text (st_status st) @ '' state requires: ''
                  @ join '', '' (missing_fields st)))
      else Inr st)"

fun opt_member :: "string \<Rightarrow> json option \<Rightarrow> (string \<times> json) list" where
  "opt_member name None = []"
| "opt_member name (Some v) = [(name, v)]"

definition bw_state_payload :: "bw_state \<Rightarrow> json" where
  "bw_state_payload st =
     JObj ([(''status'', JStr (bw_status_text (st_status st)))]
       @ opt_member ''observability_id'' (map_option JStr (st_observability_id st))
       @ opt_member ''submission_claim_id'' (map_option JStr (st_submission_claim_id st))
       @ opt_member ''batch_job_id'' (map_option JStr (st_batch_job_id st))
       @ opt_member ''result'' (st_result st)
       @ opt_member ''failure_type'' (map_option (\<lambda>f. JStr (bw_failure_text f)) (st_failure_type st))
       @ opt_member ''error'' (st_error st))"

fun read_bw_status :: "json option \<Rightarrow> bw_status option" where
  "read_bw_status (Some (JStr s)) =
     (if s = ''starting'' then Some Starting else if s = ''submitted'' then Some Submitted
      else if s = ''completed'' then Some Completed else if s = ''failed'' then Some Failed else None)"
| "read_bw_status v = None"

fun read_bw_failure :: "json option \<Rightarrow> bw_failure option option" where
  "read_bw_failure None = Some None"
| "read_bw_failure (Some JNull) = Some None"
| "read_bw_failure (Some (JStr s)) =
     (if s = ''spm_validation'' then Some (Some SPMFailure)
      else if s = ''execution'' then Some (Some ExecutionFailure) else None)"
| "read_bw_failure (Some v) = None"

definition bw_state_from_payload :: "json \<Rightarrow> bw_state option" where
  "bw_state_from_payload payload =
     (case payload of
        JObj d \<Rightarrow>
          (case (read_bw_status (map_of d ''status''), read_opt_str (map_of d ''observability_id''),
                 read_opt_str (map_of d ''submission_claim_id''), read_opt_str (map_of d ''batch_job_id''),
                 read_opt_dict (map_of d ''result''), read_bw_failure (map_of d ''failure_type''),
                 read_opt_dict (map_of d ''error'')) of
             (Some s, Some ob, Some cl, Some ba, Some re, Some fa, Some er) \<Rightarrow>
               (case validate_bw_state
                       \<lparr>st_status = s, st_observability_id = ob, st_submission_claim_id = cl,
                        st_batch_job_id = ba, st_result = re, st_failure_type = fa, st_error = er\<rparr> of
                  Inl e \<Rightarrow> None | Inr st \<Rightarrow> Some st)
           | _ \<Rightarrow> None)
      | _ \<Rightarrow> None)"

definition starting_state :: "string \<Rightarrow> string option \<Rightarrow> bw_state" where
  "starting_state claim_token obs =
     \<lparr>st_status = Starting, st_observability_id = obs, st_submission_claim_id = Some claim_token,
      st_batch_job_id = None, st_result = None, st_failure_type = None, st_error = None\<rparr>"

definition submitted_state :: "string \<Rightarrow> string option \<Rightarrow> bw_state" where
  "submitted_state batch_job_id obs =
     \<lparr>st_status = Submitted, st_observability_id = obs, st_submission_claim_id = None,
      st_batch_job_id = Some batch_job_id, st_result = None, st_failure_type = None, st_error = None\<rparr>"

definition completed_state :: "json \<Rightarrow> string option \<Rightarrow> bw_state" where
  "completed_state res obs =
     \<lparr>st_status = Completed, st_observability_id = obs, st_submission_claim_id = None,
      st_batch_job_id = None, st_result = Some res, st_failure_type = None, st_error = None\<rparr>"

definition failed_state :: "bw_failure \<Rightarrow> json \<Rightarrow> string option \<Rightarrow> bw_state" where
  "failed_state failure error obs =
     \<lparr>st_status = Failed, st_observability_id = obs, st_submission_claim_id = None,
      st_batch_job_id = None, st_result = None, st_failure_type = Some failure, st_error = Some error\<rparr>"

section \<open>Keys\<close>

definition bw_build_key ::
  "'w cache_context \<Rightarrow> impact_scope \<Rightarrow> string option \<Rightarrow> string \<Rightarrow> string" where
  "bw_build_key ctx scope options_hash api_version =
     namespace_key (ctx_sha ctx) (ctx_namespace ctx) BUDGET_WINDOW_CACHE_FAMILY
       BUDGET_WINDOW_CACHE_SCHEMA_VERSION
       [(''api_version'', JStr api_version),
        (''baseline_policy_id'', JInt (sc_baseline_policy_id scope)),
        (''country_id'', JStr (sc_country_id scope)), (''dataset'', JStr (sc_dataset scope)),
        (''options_hash'', opt_str options_hash),
        (''reform_policy_id'', JInt (sc_reform_policy_id scope)),
        (''region'', JStr (sc_region scope)), (''time_period'', JStr (sc_time_period scope))] None"

definition bw_state_key :: "string \<Rightarrow> string" where
  "bw_state_key cache_key = cache_key @ '':state''"

definition encoded_state :: "bw_state \<Rightarrow> string" where
  "encoded_state st =
     encode_envelope BUDGET_WINDOW_CACHE_FAMILY BUDGET_WINDOW_CACHE_SCHEMA_VERSION (bw_state_payload st)"

definition decoded_state :: "string option \<Rightarrow> bw_state option" where
  "decoded_state encoded =
     bw_state_from_payload
       (decode_envelope encoded BUDGET_WINDOW_CACHE_FAMILY BUDGET_WINDOW_CACHE_SCHEMA_VERSION)"

section \<open>Operations\<close>

text \<open>\<open>except CacheCoordinationError: return\<close>; any other exception passes.\<close>

definition suppress_coordination :: "('w, 'a) act \<Rightarrow> ('w, unit) act" where
  "suppress_coordination m =
     catchA (bindA m (\<lambda>x. retA ())) (\<lambda>e. if is_coordination_error e then retA () else raiseA e)"

definition clear_invalid_state :: "'w cache_context \<Rightarrow> string \<Rightarrow> string \<Rightarrow> ('w, unit) act" where
  "clear_invalid_state ctx state_key encoded =
     suppress_coordination (release_claim (ctx_client ctx) state_key encoded)"

definition bw_get_state :: "'w cache_context \<Rightarrow> string \<Rightarrow> ('w, bw_state option) act" where
  "bw_get_state ctx cache_key =
     bindA
       (catchA (cl_get (ctx_client ctx) (bw_state_key cache_key))
          (\<lambda>e. raiseA (CacheCoordinationError ''budget-window coordination state is unavailable'')))
       (\<lambda>encoded.
          (case (encoded, decoded_state encoded) of
             (Some text, None) \<Rightarrow>
               bindA (clear_invalid_state ctx (bw_state_key cache_key) text) (\<lambda>u. retA None)
           | (_, state) \<Rightarrow> retA state))"

definition claim_batch_start ::
  "'w cache_context \<Rightarrow> string \<Rightarrow> string \<Rightarrow> string option \<Rightarrow> ('w, bool) act" where
  "claim_batch_start ctx cache_key claim_token obs =
     bindA (liftA (validate_bw_state (starting_state claim_token obs))) (\<lambda>state.
       acquire_claim (ctx_client ctx) (bw_state_key cache_key) (encoded_state state)
         BUDGET_WINDOW_STARTING_TTL_SECONDS)"

definition clear_starting_claim ::
  "'w cache_context \<Rightarrow> string \<Rightarrow> string \<Rightarrow> string option \<Rightarrow> ('w, unit) act" where
  "clear_starting_claim ctx cache_key claim_token obs =
     bindA (liftA (validate_bw_state (starting_state claim_token obs))) (\<lambda>state.
       suppress_coordination
         (release_claim (ctx_client ctx) (bw_state_key cache_key) (encoded_state state)))"

definition store_submitted ::
  "'w cache_context \<Rightarrow> string \<Rightarrow> string \<Rightarrow> string option \<Rightarrow> ('w, unit) act" where
  "store_submitted ctx cache_key batch_job_id obs =
     bindA (liftA (validate_bw_state (submitted_state batch_job_id obs))) (\<lambda>state.
       bindA
         (catchA (cl_set (ctx_client ctx) (bw_state_key cache_key) (encoded_state state)
                    (plain_ex BUDGET_WINDOW_BATCH_TTL_SECONDS))
            (\<lambda>e. raiseA (CacheCoordinationError ''budget-window coordination state is unavailable'')))
         (\<lambda>stored. if reply_truthy stored then retA ()
            else raiseA (CacheCoordinationError ''budget-window submitted state could not be stored'')))"

definition set_recoverable_state ::
  "'w cache_context \<Rightarrow> string \<Rightarrow> bw_state \<Rightarrow> ('w, bool) act" where
  "set_recoverable_state ctx cache_key state =
     catchA
       (bindA (liftA (default_jittered_ttl (ctx_draw ctx) BUDGET_WINDOW_RESULT_TTL_SECONDS)) (\<lambda>ttl.
          bindA (cl_set (ctx_client ctx) (bw_state_key cache_key) (encoded_state state) (plain_ex ttl))
            (\<lambda>stored. retA (reply_truthy stored))))
       (\<lambda>e. retA False)"

definition set_completed_result ::
  "'w cache_context \<Rightarrow> string \<Rightarrow> json \<Rightarrow> string option \<Rightarrow> ('w, bool) act" where
  "set_completed_result ctx cache_key res obs =
     bindA (liftA (validate_bw_state (completed_state res obs)))
       (\<lambda>state. set_recoverable_state ctx cache_key state)"

definition set_terminal_error ::
  "'w cache_context \<Rightarrow> string \<Rightarrow> json \<Rightarrow> string option \<Rightarrow> ('w, bool) act" where
  "set_terminal_error ctx cache_key error obs =
     bindA (liftA (validate_bw_state (failed_state SPMFailure error obs)))
       (\<lambda>state. set_recoverable_state ctx cache_key state)"

definition set_execution_failure ::
  "'w cache_context \<Rightarrow> string \<Rightarrow> json \<Rightarrow> string option \<Rightarrow> ('w, bool) act" where
  "set_execution_failure ctx cache_key res obs =
     bindA (liftA (validate_bw_state (failed_state ExecutionFailure res obs)))
       (\<lambda>state. set_recoverable_state ctx cache_key state)"

section \<open>States read back\<close>

text \<open>What the constructor accepts, with JSON documents that have distinct keys.\<close>

definition valid_state :: "bw_state \<Rightarrow> bool" where
  "valid_state st \<longleftrightarrow>
     validate_bw_state st = Inr st
     \<and> (\<forall>v. st_result st = Some v \<longrightarrow> wf_json v) \<and> (\<forall>v. st_error st = Some v \<longrightarrow> wf_json v)"

definition sorted_state :: "bw_state \<Rightarrow> bw_state" where
  "sorted_state st =
     st\<lparr>st_result := map_option sort_keys (st_result st),
        st_error := map_option sort_keys (st_error st)\<rparr>"

lemma validate_Inr_iff:
  "validate_bw_state st = Inr st' \<longleftrightarrow>
     st' = st \<and> st_submission_claim_id st \<noteq> Some [] \<and> st_batch_job_id st \<noteq> Some []
     \<and> is_dict_opt (st_result st) \<and> is_dict_opt (st_error st) \<and> missing_fields st = []"
  by (auto simp: validate_bw_state_def)

lemma is_dict_opt_sort [simp]: "is_dict_opt (map_option sort_keys v) \<longleftrightarrow> is_dict_opt v"
proof (cases v)
  case (Some w)
  then show ?thesis by (cases w) (auto simp: is_dict_opt_def)
qed simp

lemma missing_fields_sorted [simp]: "missing_fields (sorted_state st) = missing_fields st"
  by (cases "st_status st") (auto simp: missing_fields_def sorted_state_def)

lemma map_of_opt_member [simp]: "map_of (opt_member n v) = (if v = None then Map.empty else [n \<mapsto> the v])"
  by (cases v) auto

lemma distinct_payload: "distinct (map fst (opt_member a v @ kvs)) \<longleftrightarrow>
    distinct (map fst kvs) \<and> (v \<noteq> None \<longrightarrow> a \<notin> fst ` set kvs)"
  by (cases v) auto

lemma fst_opt_member: "fst ` set (opt_member a v) \<subseteq> {a}"
  by (cases v) auto

definition payload_items :: "bw_state \<Rightarrow> (string \<times> json) list" where
  "payload_items st =
     [(''status'', JStr (bw_status_text (st_status st)))]
       @ opt_member ''observability_id'' (map_option JStr (st_observability_id st))
       @ opt_member ''submission_claim_id'' (map_option JStr (st_submission_claim_id st))
       @ opt_member ''batch_job_id'' (map_option JStr (st_batch_job_id st))
       @ opt_member ''result'' (st_result st)
       @ opt_member ''failure_type'' (map_option (\<lambda>f. JStr (bw_failure_text f)) (st_failure_type st))
       @ opt_member ''error'' (st_error st)"

lemma bw_state_payload_items: "bw_state_payload st = JObj (payload_items st)"
  by (simp add: bw_state_payload_def payload_items_def)

lemma opt_member_set: "set (opt_member a v) = (case v of None \<Rightarrow> {} | Some w \<Rightarrow> {(a, w)})"
  by (cases v) auto

lemma distinct_payload_items: "distinct (map fst (payload_items st))"
  unfolding payload_items_def
  by (simp add: distinct_payload opt_member_set image_Un split: option.splits)

lemma sort_keys_opt_member:
  "sort_keys_items (opt_member a v @ kvs) = opt_member a (map_option sort_keys v) @ sort_keys_items kvs"
  by (cases v) auto

lemma sort_payload_items: "sort_keys_items (payload_items st) = payload_items (sorted_state st)"
proof -
  have leaf: "map_option sort_keys (map_option JStr s) = map_option JStr s"
    "map_option sort_keys (map_option (\<lambda>f. JStr (bw_failure_text f)) g)
       = map_option (\<lambda>f. JStr (bw_failure_text f)) g" for s g
    by (cases s; simp) (cases g; simp)
  have last: "sort_keys_items (opt_member a v) = opt_member a (map_option sort_keys v)" for a v
    using sort_keys_opt_member [of a v "[]"] by simp
  show ?thesis
    by (simp add: payload_items_def sort_keys_opt_member last leaf sorted_state_def)
qed

lemma wf_payload: "valid_state st \<Longrightarrow> wf_json (bw_state_payload st)"
  using distinct_payload_items [of st]
  by (auto simp: bw_state_payload_items wf_items_iff payload_items_def valid_state_def
      opt_member_set split: option.splits)

lemma read_back:
  "read_opt_str (map_option JStr s) = Some s"
  "read_bw_failure (map_option (\<lambda>f. JStr (bw_failure_text f)) g) = Some g"
  "read_bw_status (Some (JStr (bw_status_text t))) = Some t"
  "is_dict_opt v \<Longrightarrow> read_opt_dict v = Some v"
proof -
  show "read_opt_str (map_option JStr s) = Some s" by (cases s) simp_all
  show "read_bw_failure (map_option (\<lambda>f. JStr (bw_failure_text f)) g) = Some g"
  proof (cases g)
    case (Some f)
    then show ?thesis by (cases f) simp_all
  qed simp
  show "read_bw_status (Some (JStr (bw_status_text t))) = Some t" by (cases t) simp_all
  show "is_dict_opt v \<Longrightarrow> read_opt_dict v = Some v"
    by (cases v) (auto simp: is_dict_opt_def split: json.splits)
qed

lemma sorted_state_fields [simp]:
  "st_status (sorted_state st) = st_status st"
  "st_observability_id (sorted_state st) = st_observability_id st"
  "st_submission_claim_id (sorted_state st) = st_submission_claim_id st"
  "st_batch_job_id (sorted_state st) = st_batch_job_id st"
  "st_result (sorted_state st) = map_option sort_keys (st_result st)"
  "st_failure_type (sorted_state st) = st_failure_type st"
  "st_error (sorted_state st) = map_option sort_keys (st_error st)"
  by (simp_all add: sorted_state_def)

lemma map_of_payload_items:
  "map_of (payload_items st) ''status'' = Some (JStr (bw_status_text (st_status st)))"
  "map_of (payload_items st) ''observability_id'' = map_option JStr (st_observability_id st)"
  "map_of (payload_items st) ''submission_claim_id'' = map_option JStr (st_submission_claim_id st)"
  "map_of (payload_items st) ''batch_job_id'' = map_option JStr (st_batch_job_id st)"
  "map_of (payload_items st) ''result'' = st_result st"
  "map_of (payload_items st) ''failure_type'' =
     map_option (\<lambda>f. JStr (bw_failure_text f)) (st_failure_type st)"
  "map_of (payload_items st) ''error'' = st_error st"
  by (auto simp: payload_items_def map_add_def split: option.splits)

lemma from_payload_sorted:
  assumes "valid_state st"
  shows "bw_state_from_payload (sort_keys (bw_state_payload st)) = Some (sorted_state st)"
proof -
  let ?s = "sorted_state st"
  have d: "distinct (map fst (payload_items ?s))" by (rule distinct_payload_items)
  have k: "sort_keys (bw_state_payload st) = JObj (sort_key fst (payload_items ?s))"
    by (simp add: bw_state_payload_items sort_payload_items)
  have v: "validate_bw_state ?s = Inr ?s" and dict: "is_dict_opt (st_result ?s)" "is_dict_opt (st_error ?s)"
    using assms unfolding valid_state_def validate_Inr_iff by auto
  have whole: "\<lparr>st_status = st_status ?s, st_observability_id = st_observability_id ?s,
      st_submission_claim_id = st_submission_claim_id ?s, st_batch_job_id = st_batch_job_id ?s,
      st_result = st_result ?s, st_failure_type = st_failure_type ?s, st_error = st_error ?s\<rparr> = ?s"
    by simp
  show ?thesis
    unfolding k bw_state_from_payload_def json.case map_of_sort_key_fst [OF d] map_of_payload_items
      read_back(1-3) read_back(4) [OF dict(1)] read_back(4) [OF dict(2)]
    by (simp only: prod.case option.case sum.case whole v)
qed

lemma decoded_encoded_state:
  "valid_state st \<Longrightarrow> decoded_state (Some (encoded_state st)) = Some (sorted_state st)"
  by (simp add: decoded_state_def encoded_state_def decode_encode_envelope wf_payload from_payload_sorted)

lemma encoded_state_inj:
  "valid_state s \<Longrightarrow> valid_state t \<Longrightarrow> encoded_state s = encoded_state t \<Longrightarrow> sorted_state s = sorted_state t"
  by (metis decoded_encoded_state option.inject)

section \<open>The operations over the cache contract\<close>

lemma valid_starting [simp]: "token \<noteq> [] \<Longrightarrow> validate_bw_state (starting_state token obs) = Inr (starting_state token obs)"
  by (simp add: validate_Inr_iff starting_state_def missing_fields_def is_dict_opt_def)

lemma valid_submitted [simp]: "job \<noteq> [] \<Longrightarrow> validate_bw_state (submitted_state job obs) = Inr (submitted_state job obs)"
  by (simp add: validate_Inr_iff submitted_state_def missing_fields_def is_dict_opt_def)

lemma valid_completed [simp]:
  "validate_bw_state (completed_state (JObj d) obs) = Inr (completed_state (JObj d) obs)"
  by (simp add: validate_Inr_iff completed_state_def missing_fields_def is_dict_opt_def)

lemma valid_failed [simp]:
  "validate_bw_state (failed_state f (JObj d) obs) = Inr (failed_state f (JObj d) obs)"
  by (simp add: validate_Inr_iff failed_state_def missing_fields_def is_dict_opt_def)

lemma sorted_starting [simp]: "sorted_state (starting_state token obs) = starting_state token obs"
  by (simp add: sorted_state_def starting_state_def)

lemma sorted_submitted [simp]: "sorted_state (submitted_state job obs) = submitted_state job obs"
  by (simp add: sorted_state_def submitted_state_def)

lemma decoded_starting [simp]:
  "token \<noteq> [] \<Longrightarrow> decoded_state (Some (encoded_state (starting_state token obs))) = Some (starting_state token obs)"
  using decoded_encoded_state [of "starting_state token obs"]
  by (simp add: valid_state_def) (simp add: starting_state_def)

lemma decoded_submitted [simp]:
  "job \<noteq> [] \<Longrightarrow> decoded_state (Some (encoded_state (submitted_state job obs))) = Some (submitted_state job obs)"
  using decoded_encoded_state [of "submitted_state job obs"]
  by (simp add: valid_state_def) (simp add: submitted_state_def)

lemma encoded_state_not_Nil: "encoded_state st \<noteq> []"
  by (simp add: encoded_state_def encode_envelope_def dumps_canonical_def)

lemma encoded_starting_inj:
  assumes "token \<noteq> []" and "token' \<noteq> []"
    and "encoded_state (starting_state token obs) = encoded_state (starting_state token' obs')"
  shows "token = token' \<and> obs = obs'"
proof -
  have "Some (starting_state token obs) = Some (starting_state token' obs')"
    by (metis decoded_starting assms)
  then show ?thesis by (simp add: starting_state_def)
qed

lemma decoded_state_None [simp]: "decoded_state None = None"
  by (simp add: decoded_state_def bw_state_from_payload_def)

context cache_store
begin

lemma bw_get_state_law:
  assumes "ctx_client ctx = client"
  shows "\<exists>w'. bw_get_state ctx key w = (Inr (decoded_state (live w (bw_state_key key))), w')
     \<and> live w' = (if decoded_state (live w (bw_state_key key)) = None
                  then (live w)(bw_state_key key := None) else live w)"
proof -
  let ?k = "bw_state_key key"
  obtain w1 where g: "cl_get client ?k w = (Inr (live w ?k), w1)" "live w1 = live w"
    using get_law by blast
  show ?thesis
  proof (cases "live w ?k")
    case None
    with g show ?thesis
      by (intro exI [of _ w1])
        (auto simp: bw_get_state_def assms act_simps catchA_def bindA_def fun_upd_idem)
  next
    case (Some doc)
    note doc = this
    show ?thesis
    proof (cases "decoded_state (Some doc)")
      case None
      obtain w2 where r: "release_claim client ?k doc w1 = (Inr (live w1 ?k = Some doc), w2)"
          "live w2 = (if live w1 ?k = Some doc then (live w1)(?k := None) else live w1)"
        using release_claim_law by blast
      with g doc None show ?thesis
        by (intro exI [of _ w2])
          (simp add: bw_get_state_def assms clear_invalid_state_def suppress_coordination_def
            act_simps catchA_def bindA_def)
    next
      case (Some st)
      with g doc show ?thesis
        by (intro exI [of _ w1]) (simp add: bw_get_state_def assms act_simps catchA_def bindA_def)
    qed
  qed
qed

lemma claim_batch_start_law:
  assumes "ctx_client ctx = client" and "token \<noteq> []"
  shows "\<exists>w'. claim_batch_start ctx key token obs w = (Inr (live w (bw_state_key key) = None), w')
     \<and> live w' = (if live w (bw_state_key key) = None
                  then (live w)(bw_state_key key \<mapsto> encoded_state (starting_state token obs)) else live w)"
  using acquire_claim_law [OF encoded_state_not_Nil, of BUDGET_WINDOW_STARTING_TTL_SECONDS
      "bw_state_key key" "starting_state token obs" w]
  by (simp add: claim_batch_start_def assms act_simps bindA_def BUDGET_WINDOW_STARTING_TTL_SECONDS_def)

lemma clear_starting_claim_law:
  assumes "ctx_client ctx = client" and "token \<noteq> []"
  shows "\<exists>w'. clear_starting_claim ctx key token obs w = (Inr (), w')
     \<and> live w' = (if live w (bw_state_key key) = Some (encoded_state (starting_state token obs))
                  then (live w)(bw_state_key key := None) else live w)"
  using release_claim_law [of "bw_state_key key" "encoded_state (starting_state token obs)" w]
  by (auto simp: clear_starting_claim_def suppress_coordination_def assms act_simps bindA_def catchA_def)

lemma store_submitted_law:
  assumes "ctx_client ctx = client" and "job \<noteq> []"
  shows "\<exists>w'. store_submitted ctx key job obs w = (Inr (), w')
     \<and> live w' = (live w)(bw_state_key key \<mapsto> encoded_state (submitted_state job obs))"
  using plain_set_law [of BUDGET_WINDOW_BATCH_TTL_SECONDS "bw_state_key key"
      "encoded_state (submitted_state job obs)" w]
  by (auto simp: store_submitted_def assms act_simps bindA_def catchA_def
      BUDGET_WINDOW_BATCH_TTL_SECONDS_def)

lemma set_recoverable_state_law:
  assumes "ctx_client ctx = client"
    and "default_jittered_ttl (ctx_draw ctx) BUDGET_WINDOW_RESULT_TTL_SECONDS = Inr ttl"
  shows "\<exists>w'. set_recoverable_state ctx key st w = (Inr True, w')
     \<and> live w' = (live w)(bw_state_key key \<mapsto> encoded_state st)"
  using plain_set_law [of ttl "bw_state_key key" "encoded_state st" w]
    default_jittered_ttl_Inr [OF assms(2)]
  by (auto simp: set_recoverable_state_def assms act_simps bindA_def catchA_def)

end

text \<open>What the requests of a report find where a readable document is stored.\<close>

lemma encoded_submitted_not_starting:
  assumes "job \<noteq> []" and "token \<noteq> []"
  shows "encoded_state (submitted_state job obs) \<noteq> encoded_state (starting_state token obs')"
proof
  assume "encoded_state (submitted_state job obs) = encoded_state (starting_state token obs')"
  with assms have "Some (submitted_state job obs) = Some (starting_state token obs')"
    by (metis decoded_starting decoded_submitted)
  then show False by (simp add: submitted_state_def starting_state_def)
qed

lemma held_document:
  fixes ctx :: "'x mem_scheme cache_context"
  assumes "ctx_client ctx = mem_client" and "token \<noteq> []" and "mem_live m (bw_state_key key) = Some doc"
  shows "decoded_state (Some doc) = Some st \<Longrightarrow> fst (bw_get_state ctx key m) = Inr (Some st)"
    and "fst (claim_batch_start ctx key token obs m) = Inr False"
    and "mem_live (snd (clear_starting_claim ctx key token obs m)) (bw_state_key key)
      = (if doc = encoded_state (starting_state token obs) then None else Some doc)"
  using memory.bw_get_state_law [OF assms(1), of key m]
    memory.claim_batch_start_law [OF assms(1,2), of key obs m]
    memory.clear_starting_claim_law [OF assms(1,2), of key obs m] assms(3)
  by auto

section \<open>Properties\<close>

text \<open>
  Every state the cache stores is read back: the decoder gives the state that was
  encoded (its documents with sorted keys), and two states share a stored text only if
  they are the same up to key order.
\<close>

theorem bw_state_roundtrip:
  assumes "valid_state st" and "valid_state st'"
  shows "decoded_state (Some (encoded_state st)) = Some (sorted_state st)
     \<and> (encoded_state st = encoded_state st' \<longrightarrow> sorted_state st = sorted_state st')"
  using assms decoded_encoded_state encoded_state_inj by blast

theorem bw_state_roundtrip_witness:
  "decoded_state (Some (encoded_state (completed_state (JObj [(''b'', JInt 1), (''a'', JNull)]) None)))
     = Some (sorted_state (completed_state (JObj [(''b'', JInt 1), (''a'', JNull)]) None))"
proof -
  have "valid_state (completed_state (JObj [(''b'', JInt 1), (''a'', JNull)]) None)"
    by (simp add: valid_state_def) (simp add: completed_state_def)
  from bw_state_roundtrip [OF this this] show ?thesis by simp
qed

text \<open>
  C36. The batch claim is exclusive and visible: it succeeds exactly when no document is
  stored; then every request reads the claimant's starting state, every other claim fails,
  releasing another claim (another token or identifier) changes nothing, and releasing
  this one leaves no document. A submission stored over the claim replaces it: every request
  reads the submitted job, every claim fails, and releasing a claim, this one included,
  leaves the submission.
\<close>

theorem batch_claim_contract:
  fixes ctx :: "'x mem_scheme cache_context"
  assumes "ctx_client ctx = mem_client" and "token \<noteq> []" and "token' \<noteq> []"
    and "claim_batch_start ctx key token obs m = (r, m')"
  shows "(r = Inr True \<longleftrightarrow> mem_live m (bw_state_key key) = None)
     \<and> (r = Inr True \<longrightarrow>
          fst (bw_get_state ctx key m') = Inr (Some (starting_state token obs))
          \<and> fst (claim_batch_start ctx key token' obs' m') = Inr False
          \<and> mem_live (snd (clear_starting_claim ctx key token' obs' m')) (bw_state_key key)
              = (if token = token' \<and> obs = obs' then None
                 else Some (encoded_state (starting_state token obs))))
     \<and> (job \<noteq> [] \<longrightarrow>
          (let (stored, m2) = store_submitted ctx key job obs2 m'
           in stored = Inr ()
              \<and> fst (bw_get_state ctx key m2) = Inr (Some (submitted_state job obs2))
              \<and> fst (claim_batch_start ctx key token' obs' m2) = Inr False
              \<and> mem_live (snd (clear_starting_claim ctx key token' obs' m2)) (bw_state_key key)
                  = Some (encoded_state (submitted_state job obs2))))"
proof -
  let ?k = "bw_state_key key" and ?e = "encoded_state (starting_state token obs)"
    and ?s = "encoded_state (submitted_state job obs2)"
  from memory.claim_batch_start_law [OF assms(1,2), of key obs m] assms(4)
  have r: "r = Inr (mem_live m ?k = None)"
    and m': "mem_live m' = (if mem_live m ?k = None then (mem_live m)(?k \<mapsto> ?e) else mem_live m)"
    by auto
  have "fst (bw_get_state ctx key m') = Inr (Some (starting_state token obs))
      \<and> fst (claim_batch_start ctx key token' obs' m') = Inr False
      \<and> mem_live (snd (clear_starting_claim ctx key token' obs' m')) ?k
          = (if token = token' \<and> obs = obs' then None else Some ?e)" if "mem_live m ?k = None"
  proof -
    from that m' have held: "mem_live m' ?k = Some ?e" by simp
    have "?e = encoded_state (starting_state token' obs') \<longleftrightarrow> token = token' \<and> obs = obs'"
      using encoded_starting_inj [OF assms(2,3)] by blast
    with held_document(1) [OF assms(1,3) held, of "starting_state token obs"]
      held_document(2,3) [OF assms(1,3) held] assms(2) show ?thesis by simp
  qed
  moreover have "let (stored, m2) = store_submitted ctx key job obs2 m'
      in stored = Inr ()
         \<and> fst (bw_get_state ctx key m2) = Inr (Some (submitted_state job obs2))
         \<and> fst (claim_batch_start ctx key token' obs' m2) = Inr False
         \<and> mem_live (snd (clear_starting_claim ctx key token' obs' m2)) ?k = Some ?s" if job: "job \<noteq> []"
  proof -
    obtain m2 where m2: "store_submitted ctx key job obs2 m' = (Inr (), m2)" "mem_live m2 ?k = Some ?s"
      using memory.store_submitted_law [OF assms(1) job, of key obs2 m'] by auto
    have "?s \<noteq> encoded_state (starting_state token' obs')"
      using encoded_submitted_not_starting [OF job assms(3)] .
    with m2 held_document(1) [OF assms(1,3) m2(2), of "submitted_state job obs2"]
      held_document(2,3) [OF assms(1,3) m2(2)] job show ?thesis by simp
  qed
  ultimately show ?thesis using r by auto
qed

theorem batch_claim_contract_witness:
  "fst (bw_get_state memory_context ''k''
     (snd (claim_batch_start memory_context ''k'' ''token'' None empty_mem)))
   = Inr (Some (starting_state ''token'' None))
   \<and> (let (stored, m2) = store_submitted memory_context ''k'' ''job'' None
            (snd (claim_batch_start memory_context ''k'' ''token'' None empty_mem))
      in stored = Inr () \<and> fst (bw_get_state memory_context ''k'' m2) = Inr (Some (submitted_state ''job'' None)))"
proof -
  have "mem_live empty_mem (bw_state_key ''k'') = None"
    by (simp add: mem_live_def empty_mem_def)
  with batch_claim_contract [OF _ _ _ prod.collapse [symmetric], of memory_context "''token''"
      "''other''" "''k''" None empty_mem None "''job''" None]
  show ?thesis by (simp add: memory_context_def split: prod.splits)
qed

end
