(* ===== verification/Budget_Window_Service.thy ===== *)
theory Budget_Window_Service
  imports Economy_Service Budget_Window_Cache "HOL-Library.Log_Nat"
begin

text \<open>
  \<open>policyengine_api/services/economy_budget_window_results.py\<close> and
  \<open>economy_budget_window_submission.py\<close>: answering a budget-window request from the stored
  state of its report, polling its batch job, and submitting the batch once.

  The progress of a batch that reports none is \<open>round\<close> of a float quotient, so binary64
  division and multiplication are written out on naturals, for counts below 2 to the 40.
\<close>

section \<open>Progress\<close>

text \<open>The nearest integer to \<open>a / b\<close>, ties to even; the binary64 value nearest to it.\<close>

definition nearest_even :: "nat \<Rightarrow> nat \<Rightarrow> nat" where
  "nearest_even a b =
     (let q = a div b; r = a mod b in if 2 * r < b \<or> (2 * r = b \<and> even q) then q else q + 1)"

definition float_quotient :: "nat \<Rightarrow> nat \<Rightarrow> nat \<times> nat" where
  "float_quotient a b =
     (if a = 0 then (0, 0)
      else (let k0 = 53 + floorlog 2 b - floorlog 2 a;
                k = (if b * 2 ^ 53 \<le> a * 2 ^ k0 then k0 - 1 else k0)
            in (nearest_even (a * 2 ^ k) b, k)))"

text \<open>\<open>round((completed / total) * 100)\<close>, each float a numerator over a power of two.\<close>

definition completed_percent :: "nat \<Rightarrow> nat \<Rightarrow> nat" where
  "completed_percent completed total_years =
     (let (m, k) = float_quotient completed total_years;
          (m', k') = float_quotient (m * 100) (2 ^ k)
      in nearest_even m' (2 ^ k'))"

definition build_budget_window_progress_message ::
  "string list \<Rightarrow> nat \<Rightarrow> string list \<Rightarrow> string list \<Rightarrow> string" where
  "build_budget_window_progress_message completed total_years computing queued =
     (let counts = '' ('' @ show_nat (length completed) @ '' of '' @ show_nat total_years @ '' complete)...'';
          listed = join '', '' (take BUDGET_WINDOW_LISTED_COMPUTING_YEARS computing)
      in if computing \<noteq> [] then
           ''Scoring ''
             @ (if BUDGET_WINDOW_LISTED_COMPUTING_YEARS < length computing
                then listed @ '' + '' @ show_nat (length computing - BUDGET_WINDOW_LISTED_COMPUTING_YEARS)
                       @ '' more''
                else listed)
             @ counts
         else if queued \<noteq> [] then ''Queued '' @ hd queued @ counts
         else ''Scoring budget window'' @ counts)"

definition build_budget_window_computing_result ::
  "nat \<Rightarrow> year_progress \<Rightarrow> int option \<Rightarrow> string option \<Rightarrow> window_result" where
  "build_budget_window_computing_result total_years years progress cache_status =
     window_computing
       (case progress of Some p \<Rightarrow> p | None \<Rightarrow> int (completed_percent (length (yp_completed years)) total_years))
       years
       (build_budget_window_progress_message (yp_completed years) total_years
          (yp_computing years) (yp_queued years))
       cache_status"

definition queued_result :: "string list \<Rightarrow> string \<Rightarrow> window_result" where
  "queued_result years cache_status =
     build_budget_window_computing_result (length years)
       \<lparr>yp_completed = [], yp_computing = [], yp_queued = years\<rparr> (Some 0) (Some cache_status)"

section \<open>Stored states\<close>

definition check_window_result :: "'w economy \<Rightarrow> setup_options \<Rightarrow> json \<Rightarrow> string list \<Rightarrow> unit result" where
  "check_window_result ec eo res years =
     validate_worker_result (en_install (ec_gateway ec)) (request_spm eo) res None (Some years)"

text \<open>An SPM error is recorded as the report's terminal error and raised again.\<close>

definition recording_spm_error ::
  "'w economy \<Rightarrow> setup_options \<Rightarrow> string \<Rightarrow> ('w, 'a) act \<Rightarrow> ('w, 'a) act" where
  "recording_spm_error ec eo cache_key m =
     catchA m (\<lambda>e. case e of
        SPMValidationError code message \<Rightarrow>
          bindA (set_terminal_error (ec_windows ec) cache_key (spm_error_to_dict code message)
                   (eo_observability_id eo)) (\<lambda>b. raiseA e)
      | _ \<Rightarrow> raiseA e)"

fun dict_or_empty :: "json option \<Rightarrow> json" where
  "dict_or_empty (Some v) = (if truthy v then v else JObj [])"
| "dict_or_empty None = JObj []"

definition replay_budget_window_result ::
  "'w economy \<Rightarrow> bw_state \<Rightarrow> setup_options \<Rightarrow> string \<Rightarrow> string list \<Rightarrow> ('w, window_result) act" where
  "replay_budget_window_result ec st eo cache_key years =
     (let cached_result = dict_or_empty (st_result st)
      in bindA (recording_spm_error ec eo cache_key
                  (liftA (check_window_result ec eo cached_result years)))
           (\<lambda>u. retA (window_completed cached_result (Some ''result-hit''))))"

definition member_or :: "json \<Rightarrow> string \<Rightarrow> string \<Rightarrow> string" where
  "member_or v k fallback =
     (case v of JObj d \<Rightarrow> (case map_of d k of Some x \<Rightarrow> py_str x | None \<Rightarrow> fallback) | _ \<Rightarrow> fallback)"

definition replay_budget_window_failure :: "bw_state \<Rightarrow> window_result result" where
  "replay_budget_window_failure st =
     (if st_failure_type st = Some SPMFailure then
        (let cached_error = dict_or_empty (st_error st)
         in Inl (SPMValidationError (member_or cached_error ''code'' ''SPM_VALIDATION_ERROR'')
                   (member_or cached_error ''message'' ''Stored budget-window validation failed'')))
      else res_bind (window_result_validate (opt_json (st_error st)))
             (\<lambda>r. Inr (r\<lparr>wr_cache_status := Some ''failure-hit''\<rparr>)))"

section \<open>Polling a batch\<close>

definition nonempty_dict :: "json \<Rightarrow> bool" where
  "nonempty_dict v \<longleftrightarrow> (case v of JObj d \<Rightarrow> d \<noteq> [] | _ \<Rightarrow> False)"

definition record_window_failure ::
  "'w economy \<Rightarrow> setup_options \<Rightarrow> string \<Rightarrow> window_result \<Rightarrow> ('w, window_result) act" where
  "record_window_failure ec eo cache_key failed =
     bindA (set_execution_failure (ec_windows ec) cache_key (window_result_dump failed)
              (eo_observability_id eo)) (\<lambda>b. retA failed)"

definition batch_failure :: "batch_execution \<Rightarrow> string list \<Rightarrow> string option \<Rightarrow> string \<Rightarrow> window_result" where
  "batch_failure bx years cache_status message =
     window_failed message (bx_completed_years bx) (bx_running_years bx)
       (if bx_queued_years bx \<noteq> [] then bx_queued_years bx else years) cache_status"

text \<open>The error of a failed batch, which the result's model accepts only as a text.\<close>

definition batch_error_message :: "json \<Rightarrow> string result" where
  "batch_error_message error =
     (if \<not> truthy error then Inr ''Budget-window batch failed''
      else case error of JStr s \<Rightarrow> Inr s
         | _ \<Rightarrow> Inl (ValueError ''validation error for BudgetWindowEconomicImpactResult''))"

definition window_result_from_batch ::
  "'w economy \<Rightarrow> batch_execution \<Rightarrow> string \<Rightarrow> setup_options \<Rightarrow> string list \<Rightarrow> string option
     \<Rightarrow> ('w, window_result) act" where
  "window_result_from_batch ec bx cache_key eo years cache_status =
     (if bx_status bx \<in> set EXECUTION_STATUSES_SUCCESS then
        (if \<not> nonempty_dict (bx_result bx)
         then record_window_failure ec eo cache_key
                (batch_failure bx years cache_status ''Budget-window batch completed without a result'')
         else bindA (set_completed_result (ec_windows ec) cache_key (bx_result bx) (eo_observability_id eo))
                (\<lambda>b. retA (window_completed (bx_result bx) cache_status)))
      else if bx_status bx \<in> set EXECUTION_STATUSES_FAILURE then
        bindA (liftA (batch_error_message (bx_error bx))) (\<lambda>message.
          record_window_failure ec eo cache_key (batch_failure bx years cache_status message))
      else if bx_status bx \<in> set EXECUTION_STATUSES_PENDING then
        retA (build_budget_window_computing_result (length years)
                \<lparr>yp_completed = bx_completed_years bx, yp_computing = bx_running_years bx,
                 yp_queued = bx_queued_years bx\<rparr> (bx_progress bx) cache_status)
      else raiseA (ValueError (''Unexpected budget-window batch execution state: '' @ bx_status bx)))"

definition certified_batch ::
  "'w economy \<Rightarrow> string \<Rightarrow> setup_options \<Rightarrow> string list \<Rightarrow> ('w, batch_execution) act" where
  "certified_batch ec batch_job_id eo years =
     bindA (get_budget_window_batch_by_id (ec_gateway ec) batch_job_id) (\<lambda>bx.
       if bx_status bx \<in> set EXECUTION_STATUSES_SUCCESS \<and> nonempty_dict (bx_result bx)
       then bindA (liftA (check_window_result ec eo (bx_result bx) years)) (\<lambda>u. retA bx)
       else retA bx)"

definition get_budget_window_result_from_batch_job_id ::
  "'w economy \<Rightarrow> string \<Rightarrow> string \<Rightarrow> setup_options \<Rightarrow> string list \<Rightarrow> string option
     \<Rightarrow> ('w, window_result) act" where
  "get_budget_window_result_from_batch_job_id ec batch_job_id cache_key eo years cache_status =
     bindA (recording_spm_error ec eo cache_key (certified_batch ec batch_job_id eo years))
       (\<lambda>bx. window_result_from_batch ec bx cache_key eo years cache_status)"

definition budget_window_result_from_state ::
  "'w economy \<Rightarrow> bw_state \<Rightarrow> setup_options \<Rightarrow> string \<Rightarrow> string list \<Rightarrow> ('w, window_result) act" where
  "budget_window_result_from_state ec st eo cache_key years =
     (case st_status st of
        Failed \<Rightarrow> liftA (replay_budget_window_failure st)
      | Completed \<Rightarrow> replay_budget_window_result ec st eo cache_key years
      | Submitted \<Rightarrow>
          get_budget_window_result_from_batch_job_id ec (case st_batch_job_id st of None \<Rightarrow> [] | Some b \<Rightarrow> b) cache_key eo
            years (Some ''batch-id-hit'')
      | Starting \<Rightarrow> retA (queued_result years ''starting-claim-hit''))"

section \<open>Submitting a batch\<close>

definition build_budget_window_cache_key :: "'w economy \<Rightarrow> setup_options \<Rightarrow> string" where
  "build_budget_window_cache_key ec eo =
     bw_build_key (ec_windows ec) (reform_impact_scope eo) (eo_options_hash eo) (eo_api_version eo)"

definition restored_window :: "'w economy \<Rightarrow> string option \<Rightarrow> setup_options \<Rightarrow> ('w, setup_options) act" where
  "restored_window ec obs eo =
     bindA (restore_observability_id (ec_request ec) (opt_text_json obs)) (\<lambda>resolved.
       retA (case resolved of None \<Rightarrow> eo | Some r \<Rightarrow> eo\<lparr>eo_observability_id := Some r\<rparr>))"

fun claim_budget_window_start ::
  "nat \<Rightarrow> 'w economy \<Rightarrow> string \<Rightarrow> string \<Rightarrow> setup_options \<Rightarrow> ('w, bool \<times> setup_options) act" where
  "claim_budget_window_start 0 ec cache_key candidate eo =
     raiseA (CacheCoordinationError ''budget-window submission ownership changed repeatedly'')"
| "claim_budget_window_start (Suc n) ec cache_key candidate eo =
     bindA (claim_batch_start (ec_windows ec) cache_key (eo_submission_claim_id eo) (Some candidate))
       (\<lambda>claimed.
       if claimed then
         bindA (start_observability_id (ec_request ec) (JStr candidate))
           (\<lambda>obs. retA (True, eo\<lparr>eo_observability_id := Some obs\<rparr>))
       else
         bindA (bw_get_state (ec_windows ec) cache_key) (\<lambda>found.
           case found of
             None \<Rightarrow> claim_budget_window_start n ec cache_key candidate eo
           | Some st \<Rightarrow>
               bindA (restored_window ec (st_observability_id st) eo) (\<lambda>eo'. retA (False, eo'))))"

definition build_budget_window_batch_payload ::
  "spm_install \<Rightarrow> setup_options \<Rightarrow> string \<Rightarrow> int \<Rightarrow> int \<Rightarrow> impact_policies
     \<Rightarrow> (string \<times> json) list result" where
  "build_budget_window_batch_payload inst eo start_year window_size max_parallel policies =
     res_bind (setup_sim_options inst eo (reform_json policies) (baseline_json policies) start_year False)
       (\<lambda>sim_config.
         Inr (AList.update ''target'' (JStr (eo_target eo))
               (AList.update ''max_parallel'' (JInt max_parallel)
                 (AList.update ''window_size'' (JInt window_size)
                   (AList.update ''start_year'' (JStr start_year)
                     (AList.delete ''time_period'' (simulation_options_dump sim_config)))))))"

definition start_budget_window_batch ::
  "'w economy \<Rightarrow> setup_options \<Rightarrow> string \<Rightarrow> int \<Rightarrow> int \<Rightarrow> impact_policies
     \<Rightarrow> ('w, batch_execution) act" where
  "start_budget_window_batch ec eo start_year window_size max_parallel policies =
     bindA (liftA (build_budget_window_batch_payload (en_install (ec_gateway ec)) eo start_year
              window_size max_parallel policies))
       (\<lambda>sim_params. run_budget_window_batch (ec_gateway ec) sim_params)"

definition clear_claim_and_raise ::
  "'w economy \<Rightarrow> setup_options \<Rightarrow> string \<Rightarrow> exn \<Rightarrow> ('w, 'a) act" where
  "clear_claim_and_raise ec eo cache_key e =
     bindA (clear_starting_claim (ec_windows ec) cache_key (eo_submission_claim_id eo)
              (eo_observability_id eo)) (\<lambda>u. raiseA e)"

definition start_and_store_batch ::
  "'w economy \<Rightarrow> setup_options \<Rightarrow> string \<Rightarrow> budget_window_setup \<Rightarrow> int \<Rightarrow> impact_policies
     \<Rightarrow> ('w, unit) act" where
  "start_and_store_batch ec eo cache_key bw max_active_years policies =
     bindA (start_budget_window_batch ec eo (bw_start_year bw) (bw_window_size bw) max_active_years policies)
       (\<lambda>bx. store_submitted (ec_windows ec) cache_key (bx_batch_job_id bx) (eo_observability_id eo))"

definition submit_claimed_budget_window_batch ::
  "'w economy \<Rightarrow> setup_options \<Rightarrow> string \<Rightarrow> budget_window_setup \<Rightarrow> int \<Rightarrow> impact_policies
     \<Rightarrow> ('w, window_result option) act" where
  "submit_claimed_budget_window_batch ec eo cache_key bw max_active_years policies =
     catchA
       (bindA (start_and_store_batch ec eo cache_key bw max_active_years policies) (\<lambda>u. retA None))
       (\<lambda>e. case e of
          HTTPStatusError status_code body error_text \<Rightarrow>
            if status_code \<in> BUDGET_WINDOW_SUBMISSION_VALIDATION_ERROR_STATUS_CODES
            then bindA (liftA (build_submission_error_message body error_text)) (\<lambda>message.
                 bindA (record_window_failure ec eo cache_key
                          (window_failed message [] [] (bw_years bw) (Some ''miss'')))
                   (\<lambda>failed. retA (Some failed)))
            else clear_claim_and_raise ec eo cache_key e
        | _ \<Rightarrow> clear_claim_and_raise ec eo cache_key e)"

definition submit_budget_window ::
  "'w economy \<Rightarrow> setup_options \<Rightarrow> string \<Rightarrow> budget_window_setup \<Rightarrow> int \<Rightarrow> ('w, window_result) act" where
  "submit_budget_window ec eo cache_key bw max_active_years =
     bindA (get_policy_jsons ec (eo_country_id eo) (eo_baseline_policy_id eo) (eo_reform_policy_id eo))
       (\<lambda>policies w.
     bindA (resolve_observability_id (ec_request ec) (opt_text_json (rc_incoming (ec_request ec) w)))
       (\<lambda>candidate.
     bindA (claim_budget_window_start BUDGET_WINDOW_CLAIM_ATTEMPTS ec cache_key candidate eo)
       (\<lambda>(owns_claim, eo').
       if owns_claim then
         bindA (submit_claimed_budget_window_batch ec eo' cache_key bw max_active_years policies)
           (\<lambda>rejected. case rejected of
              Some r \<Rightarrow> retA r
            | None \<Rightarrow> retA (queued_result (bw_years bw) ''miss''))
       else retA (queued_result (bw_years bw) ''starting-claim-hit''))) w)"

definition get_budget_window_economic_impact ::
  "'w economy \<Rightarrow> impact_request \<Rightarrow> string \<Rightarrow> int \<Rightarrow> int \<Rightarrow> ('w, window_result) act" where
  "get_budget_window_economic_impact ec rq start_year window_size max_active_years =
     bindA (liftA (build_budget_window_request_setup start_year window_size (rq_target rq))) (\<lambda>bw.
     bindA (liftA (validate_economy_year (rq_country_id rq) (bw_start_year bw))) (\<lambda>u.
     bindA (build_economic_impact_setup_options ec (with_normalized_region rq) (bw_time_period bw)) (\<lambda>eo.
       (let cache_key = build_budget_window_cache_key ec eo
        in bindA (bw_get_state (ec_windows ec) cache_key) (\<lambda>found.
             case found of
               None \<Rightarrow> submit_budget_window ec eo cache_key bw max_active_years
             | Some st \<Rightarrow>
                 bindA (restored_window ec (st_observability_id st) eo) (\<lambda>eo'.
                   budget_window_result_from_state ec st eo' cache_key (bw_years bw)))))))"

section \<open>Bounds of the progress\<close>

lemma nearest_even_upper: "0 < b \<Longrightarrow> a \<le> n * b \<Longrightarrow> nearest_even a b \<le> n"
proof -
  assume b: "0 < b" and a: "a \<le> n * b"
  have q: "a div b \<le> n" using a b div_le_mono [of a "n * b" b] by simp
  show ?thesis
  proof (cases "a div b = n")
    case True
    then have "n * b \<le> a" by (metis div_times_less_eq_dividend)
    with a have "a = n * b" by simp
    with b True show ?thesis by (simp add: nearest_even_def)
  next
    case False
    with q show ?thesis by (simp add: nearest_even_def Let_def)
  qed
qed

lemma nearest_even_exact: "0 < b \<Longrightarrow> nearest_even (n * b) b = n"
  by (simp add: nearest_even_def)

lemma float_quotient_upper:
  assumes "float_quotient a b = (m, k)" and "0 < b" and "a \<le> n * b"
  shows "m \<le> n * 2 ^ k"
proof (cases "a = 0")
  case True
  with assms(1) show ?thesis by (simp add: float_quotient_def)
next
  case False
  then have "m = nearest_even (a * 2 ^ k) b"
    using assms(1) by (auto simp: float_quotient_def Let_def)
  moreover have "a * 2 ^ k \<le> (n * 2 ^ k) * b" using assms(3) by simp
  ultimately show ?thesis using nearest_even_upper assms(2) by simp
qed

lemma float_quotient_exact:
  assumes "float_quotient (n * b) b = (m, k)" and "0 < b"
  shows "m = n * 2 ^ k"
proof (cases "n = 0")
  case True
  with assms(1) show ?thesis by (simp add: float_quotient_def)
next
  case False
  then have "m = nearest_even ((n * 2 ^ k) * b) b"
    using assms by (auto simp: float_quotient_def Let_def ac_simps)
  then show ?thesis using nearest_even_exact assms(2) by simp
qed

text \<open>
  The percentage of a window's years that are complete, computed in floats as the code
  does, is at most 100 whatever the rounding, 100 when every year is complete and 0 when
  none is.
\<close>

theorem completed_percent_bounds:
  assumes "0 < total_years" and "completed \<le> total_years"
  shows "completed_percent completed total_years \<le> 100
     \<and> (completed = total_years \<longrightarrow> completed_percent completed total_years = 100)
     \<and> (completed = 0 \<longrightarrow> completed_percent completed total_years = 0)"
proof -
  obtain m k where q: "float_quotient completed total_years = (m, k)" by fastforce
  obtain m' k' where q': "float_quotient (m * 100) (2 ^ k) = (m', k')" by fastforce
  have p: "completed_percent completed total_years = nearest_even m' (2 ^ k')"
    by (simp add: completed_percent_def q q')
  have "m \<le> 2 ^ k" using float_quotient_upper [OF q assms(1), of 1] assms(2) by simp
  then have "m' \<le> 100 * 2 ^ k'" using float_quotient_upper [OF q', of 100] by simp
  then have 1: "nearest_even m' (2 ^ k') \<le> 100" by (simp add: nearest_even_upper)
  have 2: "nearest_even m' (2 ^ k') = 100" if "completed = total_years"
  proof -
    have "m = 2 ^ k" using float_quotient_exact [of 1 total_years m k] q assms(1) that by simp
    with q' have "float_quotient (100 * 2 ^ k) (2 ^ k) = (m', k')" by (simp add: mult.commute)
    from float_quotient_exact [OF this] have "m' = 100 * 2 ^ k'" by simp
    then show ?thesis by (simp add: nearest_even_exact)
  qed
  have 3: "nearest_even m' (2 ^ k') = 0" if "completed = 0"
  proof -
    from that q have "m = 0" by (simp add: float_quotient_def)
    with q' have "m' = 0" by (simp add: float_quotient_def)
    then show ?thesis by (simp add: nearest_even_def)
  qed
  from 1 2 3 show ?thesis unfolding p by blast
qed

theorem completed_percent_bounds_witness:
  "completed_percent 40 40 = 100 \<and> completed_percent 23 40 \<le> 100"
  using completed_percent_bounds [of 40 40] completed_percent_bounds [of 40 23] by simp

end
