(* ===== verification/Budget_Window_Answers.thy ===== *)
theory Budget_Window_Answers
  imports Budget_Window_Service
begin

text \<open>
  What the budget-window route answers: a result only when its SPM receipts certify the
  window asked for, and, for a batch the simulation service refuses with a body it cannot
  read, an error that leaves the submission claimed.
\<close>

section \<open>Only certified windows are answered\<close>

definition window_certified :: "'w economy \<Rightarrow> setup_options \<Rightarrow> string list \<Rightarrow> window_result \<Rightarrow> bool" where
  "window_certified ec eo years r \<longleftrightarrow>
     (wr_status r = Ok \<and> wr_cache_status r \<noteq> Some ''failure-hit'' \<longrightarrow>
        (\<exists>v. wr_data r = Some v
           \<and> validate_worker_result (en_install (ec_gateway ec)) (request_spm eo) v None (Some years) = Inr ()))"

lemma window_not_ok [simp]:
  "window_certified ec eo years (window_failed m a b c s)"
  "window_certified ec eo years (queued_result ys t)"
  "window_certified ec eo years (build_budget_window_computing_result n p q s)"
  by (simp_all add: window_certified_def window_failed_def queued_result_def window_computing_def
      build_budget_window_computing_result_def)












text \<open>
  A cache that holds one submitted batch under every key, a worker that certifies the
  selection of a request, and a batch that has completed its report.
\<close>

abbreviation example_selection :: json where
  "example_selection \<equiv> selection_dump example_config"

definition window_report :: json where
  "window_report = JObj Worker_SPM.example_window"

definition certifying_versions :: json where
  "certifying_versions =
     JObj [(''policyengine'', JObj [(''4.1'', JStr ''app-7'')]),
           (''spm_capabilities'', JObj [(''4.1'',
              JObj [(''contract_version'', JStr ''canonical-spm-v1''), (''defaults'', example_selection)])])]"

definition completed_batch :: json where
  "completed_batch = JObj [(''status'', JStr ''complete''), (''result'', window_report)]"

definition certifying_entrypoint :: "'w entrypoint" where
  "certifying_entrypoint = silent_entrypoint
     \<lparr>en_get := \<lambda>path. retA \<lparr>hr_status = 200,
        hr_text = dumps_default (if path = ''/versions'' then certifying_versions else completed_batch),
        hr_error = []\<rparr>\<rparr>"

definition window_economy :: "unit economy" where
  "window_economy = example_economy
     \<lparr>ctx_client = (replay_client uk_impact)\<lparr>cl_get := \<lambda>k. retA (Some (encoded_state (submitted_state ''job'' None)))\<rparr>,
      ctx_namespace = \<lparr>environment = ''prod'', service = ''api''\<rparr>,
      ctx_sha = (\<lambda>s. s), ctx_draw = (\<lambda>a b. a), ctx_time = (\<lambda>w. 0)\<rparr> certifying_entrypoint"










section \<open>A refusal that cannot be read\<close>

lemma field_reasons_null:
  "map_of item ''loc'' = Some JNull \<Longrightarrow>
     field_reasons (JObj item # rest) = Inl (TypeErr ''object is not iterable'')"
  by simp

lemma refusal_message_null:
  assumes "loads body = Some (JObj d)" and "map_of d ''detail'' = Some (JArr (JObj item # rest))"
    and "map_of item ''loc'' = Some JNull"
  shows "build_submission_error_message body t = Inl (TypeErr ''object is not iterable'')"
  using assms(1,2)
  by (simp add: build_submission_error_message_def validation_field_reasons_def dict_get_none_def
      field_reasons_null [OF assms(3)] del: field_reasons.simps)

text \<open>
  When the simulation service refuses a batch with a validation body whose first detail
  has a null location, reading the reason raises TypeError in the handler of the refusal:
  the submission ends with that error in the state the refusal left, so its claim is neither
  released nor turned into a failure, and the report stays \<open>starting\<close> until the claim expires.
\<close>

theorem malformed_refusal_keeps_claim:
  assumes "start_budget_window_batch ec eo (bw_start_year bw) (bw_window_size bw) max_active policies w
      = (Inl (HTTPStatusError code body t), w1)"
    and "code \<in> BUDGET_WINDOW_SUBMISSION_VALIDATION_ERROR_STATUS_CODES"
    and "loads body = Some (JObj d)" and "map_of d ''detail'' = Some (JArr (JObj item # rest))"
    and "map_of item ''loc'' = Some JNull"
  shows "submit_claimed_budget_window_batch ec eo key bw max_active policies w
     = (Inl (TypeErr ''object is not iterable''), w1)"
  using assms(1,2) refusal_message_null [OF assms(3-5)]
  by (simp add: submit_claimed_budget_window_batch_def start_and_store_batch_def bindA_def catchA_def
      liftA_def)

definition refusal_body :: string where
  "refusal_body = dumps_default (JObj [(''detail'', JArr [JObj [(''loc'', JNull), (''msg'', JStr ''bad'')]])])"

definition refusing_batches :: "unit economy" where
  "refusing_batches = window_economy\<lparr>ec_gateway := silent_entrypoint\<lparr>en_post := \<lambda>path b.
     retA \<lparr>hr_status = 422, hr_text = refusal_body, hr_error = ''422''\<rparr>\<rparr>\<rparr>"

definition example_window :: budget_window_setup where
  "example_window = \<lparr>bw_start_year = ''2026'', bw_window_size = 2, bw_years = [''2026'', ''2027''],
     bw_time_period = build_budget_window_time_period ''2026'' 2\<rparr>"

definition empty_policies :: impact_policies where
  "empty_policies = \<lparr>baseline_json = JObj [], reform_json = JObj []\<rparr>"

lemma loads_refusal_body:
  "loads refusal_body = Some (JObj [(''detail'', JArr [JObj [(''loc'', JNull), (''msg'', JStr ''bad'')]])])"
  unfolding refusal_body_def by (rule loads_dumps_default) simp

lemma refusing_batches_start:
  "start_budget_window_batch refusing_batches uk_options ''2026'' 2 20 empty_policies ()
     = (Inl (HTTPStatusError 422 refusal_body ''422''), ())"
proof -
  let ?en = "ec_gateway refusing_batches"
  have uk: "payload_country ((''spm'', JNull) # (''country'', JStr ''uk'') # rest) = ''uk''" for rest
    by (simp add: payload_country_def payload_text_def Let_def)
  obtain rest where payload: "build_budget_window_batch_payload (en_install ?en) uk_options ''2026'' 2 20 empty_policies
      = Inr ((''spm'', JNull) # (''country'', JStr ''uk'') # rest)"
    and rest: "map_of rest ''data'' = None" "map_of rest ''data_version'' = None"
    by (simp add: build_budget_window_batch_payload_def setup_sim_options_def empty_policies_def
        parse_json_object_def uk_options_def setup_options_of_def uk_request_def setup_region_def
        dict_get_none_def read_breakdown_def simulation_options_dump_def Let_def)
  have modal: "\<exists>modal. normalize_submission_payload ?en ((''spm'', JNull) # (''country'', JStr ''uk'') # rest) ()
      = (Inr modal, ())"
    by (simp add: normalize_submission_payload_def rest uk Let_def uk_spm dict_get_none_def bindA_def retA_def)
  have document: "submitted_document \<lparr>hr_status = 422, hr_text = refusal_body, hr_error = ''422''\<rparr>
      = Inl (HTTPStatusError 422 refusal_body ''422'')"
    by (simp add: submitted_document_def check_typed_error_def loads_refusal_body raise_worker_spm_error_def
        raise_for_status_def dict_get_none_def)
  from modal show ?thesis
    by (auto simp: start_budget_window_batch_def payload run_budget_window_batch_def bindA_def liftA_def)
      (simp add: refusing_batches_def retA_def liftA_def document)
qed

theorem malformed_refusal_keeps_claim_witness:
  "submit_claimed_budget_window_batch refusing_batches uk_options ''key'' example_window 20 empty_policies ()
     = (Inl (TypeErr ''object is not iterable''), ())"
  by (rule malformed_refusal_keeps_claim
      [where item = "[(''loc'', JNull), (''msg'', JStr ''bad'')]", OF _ _ loads_refusal_body])
    (simp add: example_window_def refusing_batches_start, simp_all add: BUDGET_WINDOW_SUBMISSION_VALIDATION_ERROR_STATUS_CODES_def)

end
