(* ===== verification/Budget_Window_Reports.thy ===== *)
theory Budget_Window_Reports
  imports Budget_Window_Service Economy_Claims Json_Reader
begin

text \<open>
  The life of a budget-window report on the in-memory backend: the abstract machine a
  report's stored state follows, and the proof that every request takes at most one step of
  it and touches no other key.
\<close>

section \<open>The abstract report\<close>

text \<open>
  None is a report nobody has asked for, or whose state expired. A state is what the cache
  would return for it. A request may leave the report as it is, submit its batch, record
  that the batch was refused, or, when it cannot record that, leave its claim; and once the
  batch is submitted, record its result, its failure, or an SPM error of a result.
\<close>

inductive report_step :: "bw_state option \<Rightarrow> bw_state option \<Rightarrow> bool" where
  unchanged: "report_step s s"
| submitted: "job \<noteq> [] \<Longrightarrow> report_step None (Some (submitted_state job obs))"
| held: "token \<noteq> [] \<Longrightarrow> report_step None (Some (starting_state token obs))"
| refused: "wr_status r = Error \<Longrightarrow>
    report_step None (Some (failed_state ExecutionFailure (sort_keys (window_result_dump r)) obs))"
| finished: "st_status st = Submitted \<Longrightarrow> report_step (Some st) (Some (completed_state (JObj d) obs))"
| execution_failed: "st_status st = Submitted \<Longrightarrow> wr_status r = Error \<Longrightarrow>
    report_step (Some st) (Some (failed_state ExecutionFailure (sort_keys (window_result_dump r)) obs))"
| uncertified: "st_status st \<in> {Submitted, Completed} \<Longrightarrow>
    report_step (Some st) (Some (failed_state SPMFailure (sort_keys (spm_error_to_dict c e)) obs))"

inductive_cases report_step_SomeE: "report_step (Some s) t"
inductive_cases report_step_NoneE: "report_step None t"

definition report :: "string \<Rightarrow> 'x mem_scheme \<Rightarrow> bw_state option" where
  "report key m = decoded_state (mem_live m (bw_state_key key))"

text \<open>Every value but the state of the report.\<close>

definition others :: "string \<Rightarrow> 'x mem_scheme \<Rightarrow> string \<Rightarrow> string option" where
  "others key m = (mem_live m)(bw_state_key key := None)"

definition isolated_windows :: "'x mem_scheme economy \<Rightarrow> bool" where
  "isolated_windows ec \<longleftrightarrow>
     isolated ec \<and> ctx_client (ec_windows ec) = mem_client
     \<and> yields (\<lambda>c. c \<noteq> []) (ec_new_claim_id ec)"

lemma others_upd: "mem_live m' = (mem_live m)(bw_state_key key := v) \<Longrightarrow> others key m' = others key m"
  by (simp add: others_def)

lemma others_cong: "mem_live m' = mem_live m \<Longrightarrow> others key m' = others key m"
  by (simp add: others_def)

lemma stays_others: "stays mem_live m \<Longrightarrow> stays (others key) m"
  by (simp add: stays_def others_def)

lemma report_upd: "mem_live m' = (mem_live m)(bw_state_key key := v) \<Longrightarrow> report key m' = decoded_state v"
  by (simp add: report_def)

lemma report_cong: "mem_live m' = mem_live m \<Longrightarrow> report key m' = report key m"
  by (simp add: report_def)

section \<open>Documents that can be stored\<close>

lemma wf_item: "wf_items d \<Longrightarrow> map_of d k = Some v \<Longrightarrow> wf_json v"
  by (induction d) (auto split: if_splits)

lemma loads_item: "loads s = Some (JObj d) \<Longrightarrow> wf_json (dict_get_none d k)"
  using loads_wf [of s "JObj d"] wf_item [of d k] by (auto simp: dict_get_none_def split: option.split)

lemma wf_strs: "wf_jsons (map JStr ss)"
  by (induction ss) auto

lemma wf_opts [simp]: "wf_json (opt_int i)"
  by (cases i) auto

lemma valid_failure:
  "wr_data r = None \<Longrightarrow> valid_state (failed_state ExecutionFailure (window_result_dump r) obs)"
  unfolding valid_state_def
  by (simp add: window_result_dump_def) (simp add: failed_state_def wf_strs)

lemma valid_spm_failure: "valid_state (failed_state SPMFailure (spm_error_to_dict c e) obs)"
  unfolding valid_state_def by (simp add: spm_error_to_dict_def) (simp add: failed_state_def)

lemma valid_result: "wf_json (JObj d) \<Longrightarrow> valid_state (completed_state (JObj d) obs)"
  unfolding valid_state_def by (simp del: wf_json.simps) (simp add: completed_state_def del: wf_json.simps)

lemma sorted_failed: "sorted_state (failed_state f v obs) = failed_state f (sort_keys v) obs"
  by (simp add: sorted_state_def failed_state_def)

lemma sorted_completed: "sorted_state (completed_state v obs) = completed_state (sort_keys v) obs"
  by (simp add: sorted_state_def completed_state_def)

section \<open>The batches of the simulation service\<close>

lemma stays_get_batch:
  "(\<And>p. stays f (en_get en p)) \<Longrightarrow> stays f (get_budget_window_batch_by_id en job)"
  unfolding get_budget_window_batch_by_id_def by (auto intro!: stays_intros stays_entrypoint_get)

lemma stays_run_batch:
  "(\<And>p. stays f (en_get en p)) \<Longrightarrow> (\<And>p b. stays f (en_post en p b)) \<Longrightarrow> stays f (run_budget_window_batch en payload)"
  unfolding run_budget_window_batch_def normalize_submission_payload_def Let_def
  by (auto intro!: stays_intros stays_gateway_worker_spm)

lemma batch_result_wf: "yields (\<lambda>bx. wf_json (bx_result bx)) (get_budget_window_batch_by_id en job)"
proof -
  have doc: "wf_json (dict_get_none d k)" if "polled_document response = Inr d" for response d k
    using that loads_item
    by (auto simp: polled_document_def response_json_def document_def res_bind_Inr_iff
        split: option.splits json.splits)
  show ?thesis
    unfolding get_budget_window_batch_by_id_def
    by (rule yields_bindA) (auto simp: res_bind_Inr_iff doc intro!: yields_liftA)
qed

section \<open>Moves of a report\<close>

text \<open>From the report \<open>s\<close>, the action takes one step and changes no other key.\<close>

definition moves :: "string \<Rightarrow> bw_state option \<Rightarrow> ('x mem_scheme, 'a) act \<Rightarrow> bool" where
  "moves key s a \<longleftrightarrow>
     (\<forall>m. report key m = s \<longrightarrow>
        others key (snd (a m)) = others key m \<and> report_step s (report key (snd (a m))))"

lemma movesD:
  "moves key s a \<Longrightarrow> report key m = s \<Longrightarrow> a m = (r, m') \<Longrightarrow>
     others key m' = others key m \<and> report_step s (report key m')"
  unfolding moves_def by (metis snd_conv)

lemma moves_quiet: "stays mem_live a \<Longrightarrow> moves key s a"
  unfolding moves_def stays_def using unchanged others_cong report_cong by metis

lemma moves_after_quiet:
  fixes a :: "('x mem_scheme, 'a) act"
  assumes "stays mem_live a" and "yields P a" and "\<And>x. P x \<Longrightarrow> moves key s (f x)"
  shows "moves key s (bindA a f)"
  unfolding moves_def
proof (intro allI impI)
  fix m :: "'x mem_scheme" assume rep: "report key m = s"
  obtain r m1 where a: "a m = (r, m1)" by fastforce
  have l: "mem_live m1 = mem_live m" using assms(1) a by (rule staysD)
  show "others key (snd (bindA a f m)) = others key m \<and> report_step s (report key (snd (bindA a f m)))"
  proof (cases r)
    case (Inl e)
    with a l rep show ?thesis using unchanged others_cong [OF l] report_cong [OF l] by (simp add: bindA_def)
  next
    case (Inr x)
    with assms(2) a have "P x" by (auto dest: yieldsD)
    with assms(3) have "moves key s (f x)" .
    moreover have "report key m1 = s" using rep report_cong [OF l] by simp
    ultimately show ?thesis using a Inr others_cong [OF l] by (simp add: moves_def bindA_def)
  qed
qed

lemma moves_then_quiet:
  fixes a :: "('x mem_scheme, 'a) act"
  assumes "moves key s a" and "\<And>x. stays mem_live (f x)"
  shows "moves key s (bindA a f)"
  unfolding moves_def
proof (intro allI impI)
  fix m :: "'x mem_scheme" assume rep: "report key m = s"
  obtain r m1 where a: "a m = (r, m1)" by fastforce
  from movesD [OF assms(1) rep a] have step: "others key m1 = others key m" "report_step s (report key m1)"
    by auto
  show "others key (snd (bindA a f m)) = others key m \<and> report_step s (report key (snd (bindA a f m)))"
  proof (cases r)
    case (Inl e)
    with a step show ?thesis by (simp add: bindA_def)
  next
    case (Inr x)
    have l: "mem_live (snd (f x m1)) = mem_live m1" using assms(2) by (simp add: stays_def)
    from a Inr step show ?thesis
      by (simp add: bindA_def others_cong [OF l] report_cong [OF l])
  qed
qed

lemma moves_catch_quiet:
  fixes a :: "('x mem_scheme, 'a) act"
  assumes "stays mem_live a" and "\<And>e. moves key s (h e)"
  shows "moves key s (catchA a h)"
  unfolding moves_def
proof (intro allI impI)
  fix m :: "'x mem_scheme" assume rep: "report key m = s"
  obtain r m1 where a: "a m = (r, m1)" by fastforce
  have l: "mem_live m1 = mem_live m" using assms(1) a by (rule staysD)
  show "others key (snd (catchA a h m)) = others key m \<and> report_step s (report key (snd (catchA a h m)))"
  proof (cases r)
    case (Inr x)
    with a rep show ?thesis using unchanged others_cong [OF l] report_cong [OF l] by (simp add: catchA_def)
  next
    case (Inl e)
    have "report key m1 = s" using rep report_cong [OF l] by simp
    with assms(2) [of e] a Inl show ?thesis
      using others_cong [OF l] by (simp add: moves_def catchA_def)
  qed
qed

section \<open>The requests of an isolated service\<close>

locale reporting_economy = isolated_economy ec for ec :: "'x mem_scheme economy" +
  assumes windows: "isolated_windows ec"
begin

lemma window_client: "ctx_client (ec_windows ec) = mem_client"
  using windows by (simp add: isolated_windows_def)

lemma set_recoverable_outcome:
  assumes "set_recoverable_state (ec_windows ec) key st m = (r, m')"
  shows "mem_live m' = mem_live m \<or> mem_live m' = (mem_live m)(bw_state_key key \<mapsto> encoded_state st)"
proof (cases "default_jittered_ttl (ctx_draw (ec_windows ec)) BUDGET_WINDOW_RESULT_TTL_SECONDS")
  case (Inl e)
  with assms show ?thesis
    by (simp add: set_recoverable_state_def bindA_def liftA_def catchA_def retA_def)
next
  case (Inr ttl)
  from memory.set_recoverable_state_law [OF window_client Inr, of key st m] assms show ?thesis by auto
qed

lemma moves_set_recoverable:
  assumes "valid_state st" and "report_step s (Some (sorted_state st))"
  shows "moves key s (set_recoverable_state (ec_windows ec) key st)"
  unfolding moves_def
proof (intro allI impI)
  fix m :: "'x mem_scheme" assume rep: "report key m = s"
  from set_recoverable_outcome [OF prod.collapse [symmetric], of key st m]
  show "others key (snd (set_recoverable_state (ec_windows ec) key st m)) = others key m
      \<and> report_step s (report key (snd (set_recoverable_state (ec_windows ec) key st m)))"
  proof
    assume l: "mem_live (snd (set_recoverable_state (ec_windows ec) key st m)) = mem_live m"
    show ?thesis using others_cong [OF l] report_cong [OF l] rep unchanged by simp
  next
    assume l: "mem_live (snd (set_recoverable_state (ec_windows ec) key st m))
        = (mem_live m)(bw_state_key key \<mapsto> encoded_state st)"
    show ?thesis using others_upd [OF l] report_upd [OF l] assms by (simp add: decoded_encoded_state)
  qed
qed

lemma recorded_failure_outcome:
  assumes "record_window_failure ec eo key r m = (x, m')" and "wr_data r = None"
  shows "mem_live m' = mem_live m
     \<or> mem_live m' = (mem_live m)(bw_state_key key \<mapsto>
          encoded_state (failed_state ExecutionFailure (window_result_dump r) (eo_observability_id eo)))"
proof -
  have "validate_bw_state (failed_state ExecutionFailure (window_result_dump r) obs)
      = Inr (failed_state ExecutionFailure (window_result_dump r) obs)" for obs
    using valid_failure [OF assms(2)] by (simp add: valid_state_def)
  then show ?thesis
    using assms(1) set_recoverable_outcome
    by (auto simp: record_window_failure_def set_execution_failure_def bindA_def liftA_def retA_def
        split: prod.splits sum.splits)
qed

lemma moves_recorded_failure:
  assumes "wr_status r = Error" and "wr_data r = None"
    and "\<And>obs. report_step s (Some (failed_state ExecutionFailure (sort_keys (window_result_dump r)) obs))"
  shows "moves key s (record_window_failure ec eo key r)"
proof -
  have "moves key s (set_execution_failure (ec_windows ec) key (window_result_dump r) obs)" for obs
    unfolding set_execution_failure_def
    by (rule moves_after_quiet [where P = "\<lambda>st. st = failed_state ExecutionFailure (window_result_dump r) obs"])
      (auto simp: validate_Inr_iff sorted_failed assms(3)
        intro!: stays_liftA yields_liftA moves_set_recoverable valid_failure [OF assms(2)])
  then show ?thesis
    unfolding record_window_failure_def by (rule moves_then_quiet) (rule stays_retA)
qed

lemma moves_recording_spm:
  assumes "stays mem_live a" and "s \<noteq> None" and "st_status (the s) \<in> {Submitted, Completed}"
  shows "moves key s (recording_spm_error ec eo key a)"
proof -
  have step: "report_step s (Some (failed_state SPMFailure (sort_keys (spm_error_to_dict c e)) obs))" for c e obs
    using assms(2,3) uncertified [of "the s"] by auto
  have terminal: "moves key s (bindA (set_terminal_error (ec_windows ec) key (spm_error_to_dict c e) obs) (\<lambda>b. raiseA x))"
    for c e obs x
  proof (rule moves_then_quiet)
    show "moves key s (set_terminal_error (ec_windows ec) key (spm_error_to_dict c e) obs)"
      unfolding set_terminal_error_def
      by (rule moves_after_quiet [where P = "\<lambda>st. st = failed_state SPMFailure (spm_error_to_dict c e) obs"])
        (auto simp: validate_Inr_iff sorted_failed step
          intro!: stays_liftA yields_liftA moves_set_recoverable valid_spm_failure)
  qed (rule stays_raiseA)
  show ?thesis
    unfolding recording_spm_error_def
    by (rule moves_catch_quiet [OF assms(1)])
      (auto split: exn.split intro!: terminal moves_quiet stays_raiseA)
qed

end

section \<open>A stored report\<close>

context reporting_economy
begin

lemma window_failed_fields: "wr_status (window_failed m c p q s) = Error" "wr_data (window_failed m c p q s) = None"
  by (simp_all add: window_failed_def)

lemma moves_window_result:
  assumes "st_status st = Submitted" and "wf_json (bx_result bx)"
  shows "moves key (Some st) (window_result_from_batch ec bx key eo years cs)"
proof -
  have failure: "moves key (Some st) (record_window_failure ec eo key (batch_failure bx years cs msg))" for msg
    by (rule moves_recorded_failure)
      (simp_all add: batch_failure_def window_failed_fields execution_failed [OF assms(1)])
  have result: "moves key (Some st) (bindA (set_completed_result (ec_windows ec) key (bx_result bx) obs)
      (\<lambda>b. retA (window_completed (bx_result bx) cs)))" if ne: "nonempty_dict (bx_result bx)" for obs
  proof -
    obtain d where d: "bx_result bx = JObj d"
      using ne by (auto simp: nonempty_dict_def split: json.splits)
    have "moves key (Some st) (set_completed_result (ec_windows ec) key (bx_result bx) obs)"
      unfolding set_completed_result_def
      by (rule moves_after_quiet [where P = "\<lambda>s. s = completed_state (bx_result bx) obs"])
        (use assms(2) finished [OF assms(1)] in \<open>auto simp: d validate_Inr_iff sorted_completed simp del: wf_json.simps
          intro!: stays_liftA yields_liftA moves_set_recoverable valid_result\<close>)
    then show ?thesis by (rule moves_then_quiet) (rule stays_retA)
  qed
  have failed: "moves key (Some st) (bindA (liftA (batch_error_message e)) (\<lambda>message.
      record_window_failure ec eo key (batch_failure bx years cs message)))" for e
    by (rule moves_after_quiet [where P = "\<lambda>x. True"]) (auto intro!: stays_liftA yields_liftA failure)
  show ?thesis
    unfolding window_result_from_batch_def
    using failure result failed by (auto intro!: moves_quiet stays_intros)
qed

lemma moves_poll:
  assumes "st_status st = Submitted"
  shows "moves key (Some st) (get_budget_window_result_from_batch_job_id ec job key eo years cs)"
proof -
  let ?get = "certified_batch ec job eo years"
  have quiet: "stays mem_live ?get"
    unfolding certified_batch_def
    by (auto intro!: stays_intros stays_get_batch isolated_stays [OF isolated])
  have wf: "yields (\<lambda>bx. wf_json (bx_result bx)) ?get"
    unfolding certified_batch_def
    by (rule yields_bindA_of [OF batch_result_wf]) (auto intro!: yields_intros)
  have rec: "moves key (Some st) (recording_spm_error ec eo key ?get)"
    by (rule moves_recording_spm [OF quiet]) (simp_all add: assms)
  show ?thesis
    unfolding moves_def
  proof (intro allI impI)
    fix m :: "'x mem_scheme" assume rep: "report key m = Some st"
    obtain r m1 where a: "recording_spm_error ec eo key ?get m = (r, m1)" by fastforce
    obtain r0 m0 where g: "?get m = (r0, m0)" by fastforce
    show "others key (snd (get_budget_window_result_from_batch_job_id ec job key eo years cs m)) = others key m
        \<and> report_step (Some st) (report key (snd (get_budget_window_result_from_batch_job_id ec job key eo years cs m)))"
    proof (cases r)
      case (Inl e)
      with movesD [OF rec rep a] a show ?thesis
        by (simp add: get_budget_window_result_from_batch_job_id_def bindA_def)
    next
      case (Inr bx)
      have "r0 = Inr bx \<and> m1 = m0"
      proof (cases r0)
        case (Inr bx0)
        with a g \<open>r = Inr bx\<close> show ?thesis by (simp add: recording_spm_error_def catchA_def)
      next
        case (Inl e)
        have "yields (\<lambda>x. False) (case e of SPMValidationError code message \<Rightarrow>
             bindA (set_terminal_error (ec_windows ec) key (spm_error_to_dict code message)
                   (eo_observability_id eo)) (\<lambda>b. raiseA e) | _ \<Rightarrow> raiseA e)"
          by (auto split: exn.split intro!: yields_intros)
        with a g Inl \<open>r = Inr bx\<close> show ?thesis
          by (auto simp: recording_spm_error_def catchA_def dest: yieldsD)
      qed
      then have bx: "wf_json (bx_result bx)" and l: "mem_live m1 = mem_live m"
        using wf g staysD [OF quiet g] by (auto dest: yieldsD)
      have "report key m1 = Some st" using rep report_cong [OF l] by simp
      with moves_window_result [OF assms bx] a Inr others_cong [OF l] show ?thesis
        by (simp add: get_budget_window_result_from_batch_job_id_def bindA_def moves_def)
    qed
  qed
qed

lemma moves_stored:
  "moves key (Some st) (budget_window_result_from_state ec st eo key years)"
proof (cases "st_status st")
  case Completed
  have "moves key (Some st) (recording_spm_error ec eo key (liftA (check_window_result ec eo v years)))" for v
    by (rule moves_recording_spm) (simp_all add: stays_liftA Completed)
  with Completed show ?thesis
    by (auto simp: budget_window_result_from_state_def replay_budget_window_result_def Let_def
        intro!: moves_then_quiet stays_retA)
next
  case Submitted
  then show ?thesis by (simp add: budget_window_result_from_state_def moves_poll)
qed (simp_all add: budget_window_result_from_state_def moves_quiet stays_intros)

end

section \<open>A submission\<close>

context reporting_economy
begin

text \<open>What holds while a request owns the submission of a report's batch.\<close>

definition holds_claim :: "string \<Rightarrow> setup_options \<Rightarrow> 'x mem_scheme \<Rightarrow> bool" where
  "holds_claim key eo m \<longleftrightarrow> eo_submission_claim_id eo \<noteq> []
     \<and> mem_live m (bw_state_key key)
       = Some (encoded_state (starting_state (eo_submission_claim_id eo) (eo_observability_id eo)))"

lemma holds_claim_cong: "mem_live m' = mem_live m \<Longrightarrow> holds_claim key eo m' \<longleftrightarrow> holds_claim key eo m"
  by (simp add: holds_claim_def)

definition submission_step :: "string \<Rightarrow> 'x mem_scheme \<Rightarrow> 'x mem_scheme \<Rightarrow> bool" where
  "submission_step key m m' \<longleftrightarrow> others key m' = others key m \<and> report_step None (report key m')"

lemma held_step: "holds_claim key eo m \<Longrightarrow> mem_live m' = mem_live m \<Longrightarrow> submission_step key m m'"
  by (auto simp: submission_step_def holds_claim_def report_def others_def intro!: held)

lemma cleared_step:
  assumes "holds_claim key eo m" and "clear_claim_and_raise ec eo key e m = (r, m')"
  shows "submission_step key m m'"
proof -
  from assms(1) have t: "eo_submission_claim_id eo \<noteq> []" by (simp add: holds_claim_def)
  from memory.clear_starting_claim_law [OF window_client t, of key "eo_observability_id eo" m] assms
  have l: "mem_live m' = (mem_live m)(bw_state_key key := None)"
    by (auto simp: clear_claim_and_raise_def bindA_def raiseA_def holds_claim_def)
  show ?thesis by (simp add: submission_step_def others_upd [OF l] report_upd [OF l] unchanged)
qed

lemma stays_start_batch: "stays mem_live (start_budget_window_batch ec eo y n p pol)"
  unfolding start_budget_window_batch_def
  by (auto intro!: stays_intros stays_run_batch isolated_stays [OF isolated])

lemma start_and_store_outcome:
  assumes "holds_claim key eo m" and "start_and_store_batch ec eo key bw n pol m = (r, m')"
  shows "(r = Inr () \<and> submission_step key m m') \<or> (\<exists>e. r = Inl e \<and> mem_live m' = mem_live m)"
proof -
  obtain r0 m0 where s: "start_budget_window_batch ec eo (bw_start_year bw) (bw_window_size bw) n pol m = (r0, m0)"
    by fastforce
  have l0: "mem_live m0 = mem_live m" using stays_start_batch s by (rule staysD)
  show ?thesis
  proof (cases r0)
    case (Inl e)
    with s assms(2) l0 show ?thesis by (auto simp: start_and_store_batch_def bindA_def)
  next
    case (Inr bx)
    let ?job = "bx_batch_job_id bx"
    show ?thesis
    proof (cases "?job = []")
      case True
      then have "validate_bw_state (submitted_state ?job obs)
          = Inl (ValueError ''String should have at least 1 character'')" for obs
        by (simp add: validate_bw_state_def submitted_state_def)
      with s Inr assms(2) l0 show ?thesis
        by (auto simp: start_and_store_batch_def store_submitted_def bindA_def liftA_def)
    next
      case False
      from memory.store_submitted_law [OF window_client False, of key "eo_observability_id eo" m0] s Inr assms(2)
      have r: "r = Inr ()" and l: "mem_live m' = (mem_live m)(bw_state_key key \<mapsto>
          encoded_state (submitted_state ?job (eo_observability_id eo)))"
        by (auto simp: start_and_store_batch_def bindA_def l0)
      show ?thesis
        using r False by (simp add: submission_step_def others_upd [OF l] report_upd [OF l] submitted)
    qed
  qed
qed

lemma refused_outcome:
  assumes "holds_claim key eo m"
    and "bindA (liftA v) (\<lambda>message. bindA (record_window_failure ec eo key
           (window_failed message [] [] ys c)) (\<lambda>failed. retA (Some failed))) m = (r, m')"
  shows "submission_step key m m'"
proof (cases v)
  case (Inl e)
  with assms show ?thesis by (auto simp: bindA_def liftA_def intro: held_step)
next
  case (Inr message)
  let ?f = "window_failed message [] [] ys c"
  obtain x m1 where f: "record_window_failure ec eo key ?f m = (x, m1)" by fastforce
  have m1: "m' = m1" using assms(2) Inr f by (auto simp: bindA_def liftA_def retA_def split: sum.splits)
  from recorded_failure_outcome [OF f window_failed_fields(2)] show ?thesis
  proof
    assume "mem_live m1 = mem_live m"
    with assms(1) m1 show ?thesis by (simp add: held_step)
  next
    assume l: "mem_live m1 = (mem_live m)(bw_state_key key \<mapsto>
          encoded_state (failed_state ExecutionFailure (window_result_dump ?f) (eo_observability_id eo)))"
    show ?thesis
      unfolding m1 submission_step_def
      by (simp add: others_upd [OF l] report_upd [OF l] decoded_encoded_state
          valid_failure [OF window_failed_fields(2)] sorted_failed refused window_failed_fields)
  qed
qed

lemma submit_claimed_outcome:
  assumes "holds_claim key eo m"
    and "submit_claimed_budget_window_batch ec eo key bw n pol m = (r, m')"
  shows "submission_step key m m'"
proof -
  obtain r1 m1 where s: "start_and_store_batch ec eo key bw n pol m = (r1, m1)" by fastforce
  from start_and_store_outcome [OF assms(1) s] show ?thesis
  proof (elim disjE exE conjE)
    assume "r1 = Inr ()" "submission_step key m m1"
    with s assms(2) show ?thesis
      by (simp add: submit_claimed_budget_window_batch_def catchA_def bindA_def retA_def)
  next
    fix e assume e: "r1 = Inl e" and l: "mem_live m1 = mem_live m"
    have own: "holds_claim key eo m1" using assms(1) holds_claim_cong [OF l] by simp
    have step: "submission_step key m1 m' \<Longrightarrow> submission_step key m m'"
      by (simp add: submission_step_def others_cong [OF l])
    have clear: "clear_claim_and_raise ec eo key e m1 = (r, m') \<Longrightarrow> ?thesis"
      using cleared_step [OF own] step by blast
    show ?thesis
    proof (cases e)
      case (HTTPStatusError code body t)
      show ?thesis
      proof (cases "code \<in> BUDGET_WINDOW_SUBMISSION_VALIDATION_ERROR_STATUS_CODES")
        case True
        with HTTPStatusError s e assms(2)
        have "bindA (liftA (build_submission_error_message body t)) (\<lambda>message.
            bindA (record_window_failure ec eo key (window_failed message [] [] (bw_years bw) (Some ''miss'')))
              (\<lambda>failed. retA (Some failed))) m1 = (r, m')"
          by (simp add: submit_claimed_budget_window_batch_def catchA_def bindA_def [of "start_and_store_batch _ _ _ _ _ _"])
        with refused_outcome [OF own] step show ?thesis by blast
      next
        case False
        with HTTPStatusError s e assms(2) have "clear_claim_and_raise ec eo key e m1 = (r, m')"
          by (simp add: submit_claimed_budget_window_batch_def catchA_def bindA_def)
        then show ?thesis by (rule clear)
      qed
    qed (rule clear, use s e assms(2) in \<open>simp add: submit_claimed_budget_window_batch_def catchA_def bindA_def\<close>)+
  qed
qed

end

section \<open>A whole request\<close>

context reporting_economy
begin

lemma bind_live: "mem_live (rc_bind (ec_request ec) obs m) = mem_live m"
  using isolated by (simp add: isolated_def)

lemma window_claim_outcome:
  assumes "claim_budget_window_start n ec key candidate eo m = (r, m')" and "report key m = None"
    and "rc_current (ec_request ec) m = None"
    and "normalize_observability_id (JStr candidate) = Some candidate" and "eo_submission_claim_id eo \<noteq> []"
  shows "others key m' = others key m
     \<and> ((\<exists>eo'. r = Inr (True, eo') \<and> holds_claim key eo' m') \<or> (\<exists>e. r = Inl e \<and> report key m' = None))"
  using assms(1-3)
proof (induction n arbitrary: m)
  case 0
  then show ?case by (auto simp: raiseA_def)
next
  case (Suc n)
  let ?k = "bw_state_key key" and ?t = "eo_submission_claim_id eo"
  obtain rc m1 where c: "claim_batch_start (ec_windows ec) key ?t (Some candidate) m = (rc, m1)" by fastforce
  from memory.claim_batch_start_law [OF window_client assms(5), of key "Some candidate" m] c
  have rc: "rc = Inr (mem_live m ?k = None)"
    and l1: "mem_live m1 = (if mem_live m ?k = None
        then (mem_live m)(?k \<mapsto> encoded_state (starting_state ?t (Some candidate))) else mem_live m)" by auto
  have cur: "stays (rc_current (ec_request ec)) (claim_batch_start (ec_windows ec) key ?t (Some candidate))"
    unfolding claim_batch_start_def acquire_claim_def
    by (auto simp: window_client intro!: stays_intros stays_current [OF isolated])
  have cur1: "rc_current (ec_request ec) m1 = None" using staysD [OF cur c] Suc.prems(3) by simp
  show ?case
  proof (cases "mem_live m ?k = None")
    case True
    let ?eo = "eo\<lparr>eo_observability_id := Some candidate\<rparr>"
    have l: "mem_live m1 = (mem_live m)(?k \<mapsto> encoded_state (starting_state ?t (Some candidate)))"
      using l1 True by simp
    obtain m2 where m2: "start_observability_id (ec_request ec) (JStr candidate) m1 = (Inr candidate, m2)"
      "mem_live m2 = mem_live m1"
      using cur1 assms(4)
      by (simp add: start_observability_id_def resolve_observability_id_def bind_observability_id_def
          bindA_def retA_def bind_live)
    have "r = Inr (True, ?eo)" "m' = m2" using Suc.prems(1) c rc True m2(1) by (auto simp: bindA_def retA_def)
    moreover have "holds_claim key ?eo m2" using m2(2) l assms(5) by (simp add: holds_claim_def)
    ultimately show ?thesis using others_upd [OF l] others_cong [OF m2(2)] by simp
  next
    case False
    have l: "mem_live m1 = mem_live m" using l1 False by simp
    have none: "decoded_state (mem_live m1 ?k) = None" using Suc.prems(2) l by (simp add: report_def)
    from memory.bw_get_state_law [OF window_client, of key m1] none obtain m2 where
      g: "bw_get_state (ec_windows ec) key m1 = (Inr None, m2)" and l2: "mem_live m2 = (mem_live m1)(?k := None)"
      by auto
    have curg: "stays (rc_current (ec_request ec)) (bw_get_state (ec_windows ec) key)"
      unfolding bw_get_state_def clear_invalid_state_def suppress_coordination_def release_claim_def
      by (auto simp: window_client split: option.split prod.split
          intro!: stays_intros stays_current [OF isolated])
    have cur2: "rc_current (ec_request ec) m2 = None" using staysD [OF curg g] cur1 by simp
    have rep2: "report key m2 = None" using report_upd [OF l2] by simp
    have "claim_budget_window_start n ec key candidate eo m2 = (r, m')"
      using Suc.prems(1) c rc False g by (simp add: bindA_def)
    from Suc.IH [OF this rep2 cur2] others_upd [OF l2] others_cong [OF l] show ?thesis by simp
  qed
qed

lemma submit_window_outcome:
  assumes "submit_budget_window ec eo key bw n m = (r, m')" and "report key m = None"
    and "rc_current (ec_request ec) m = None" and "eo_submission_claim_id eo \<noteq> []"
  shows "submission_step key m m'"
proof -
  let ?pol = "get_policy_jsons ec (eo_country_id eo) (eo_baseline_policy_id eo) (eo_reform_policy_id eo)"
  obtain r1 m1 where p: "?pol m = (r1, m1)" by fastforce
  have quiet1: "mem_live m1 = mem_live m" "rc_current (ec_request ec) m1 = None"
    using staysD [OF stays_get_policy_jsons p, OF isolated_stays(3) [OF isolated]]
      staysD [OF stays_get_policy_jsons p, OF isolated_stays(7) [OF isolated]] assms(3) by simp_all
  have none: "submission_step key m m''" if "others key m'' = others key m" "report key m'' = None" for m''
    using that by (simp add: submission_step_def unchanged)
  show ?thesis
  proof (cases r1)
    case (Inl e)
    with p assms(1) have "m' = m1" by (auto simp: submit_budget_window_def bindA_def)
    with none assms(2) others_cong [OF quiet1(1)] report_cong [OF quiet1(1)] show ?thesis by simp
  next
    case (Inr pol)
    let ?v = "opt_text_json (rc_incoming (ec_request ec) m1)"
    obtain r2 m2 where i: "resolve_observability_id (ec_request ec) ?v m1 = (r2, m2)" by fastforce
    have quiet2: "mem_live m2 = mem_live m" "rc_current (ec_request ec) m2 = None"
      using staysD [OF stays_resolve_candidate i, OF isolated_stays(5) [OF isolated]]
        staysD [OF stays_resolve_candidate i, OF isolated_stays(9) [OF isolated]] quiet1 by simp_all
    have rep2: "report key m2 = None" using report_cong [OF quiet2(1)] assms(2) by simp
    show ?thesis
    proof (cases r2)
      case (Inl e)
      with p Inr i assms(1) have "m' = m2" by (auto simp: submit_budget_window_def bindA_def)
      with none rep2 others_cong [OF quiet2(1)] show ?thesis by simp
    next
      case r2: (Inr candidate)
      have can: "normalize_observability_id (JStr candidate) = Some candidate"
        using yields_resolve_candidate i [unfolded r2] by (rule yieldsD)
      obtain r3 m3 where c: "claim_budget_window_start BUDGET_WINDOW_CLAIM_ATTEMPTS ec key candidate eo m2 = (r3, m3)"
        by fastforce
      from window_claim_outcome [OF c rep2 quiet2(2) can assms(4)]
      have o3: "others key m3 = others key m" and
        "(\<exists>eo'. r3 = Inr (True, eo') \<and> holds_claim key eo' m3) \<or> (\<exists>e. r3 = Inl e \<and> report key m3 = None)"
        using others_cong [OF quiet2(1)] by auto
      then show ?thesis
      proof (elim disjE exE conjE)
        fix e assume "r3 = Inl e" "report key m3 = None"
        with p Inr i r2 c assms(1) o3 none show ?thesis by (auto simp: submit_budget_window_def bindA_def)
      next
        fix eo' assume r3: "r3 = Inr (True, eo')" and own: "holds_claim key eo' m3"
        obtain r4 m4 where s: "submit_claimed_budget_window_batch ec eo' key bw n pol m3 = (r4, m4)" by fastforce
        have "m' = m4" using assms(1) p Inr i r2 c r3 s
          by (auto simp: submit_budget_window_def bindA_def retA_def split: sum.splits option.splits)
        with submit_claimed_outcome [OF own s] o3 show ?thesis by (simp add: submission_step_def)
      qed
    qed
  qed
qed

end

context reporting_economy
begin

lemma built_claim_id:
  "yields (\<lambda>eo. eo_submission_claim_id eo \<noteq> []) (build_economic_impact_setup_options ec rq y)"
proof -
  have new: "yields (\<lambda>c. c \<noteq> []) (ec_new_claim_id ec)" using windows by (simp add: isolated_windows_def)
  show ?thesis
    unfolding build_economic_impact_setup_options_def
    by (rule yields_bindA, rule yields_bindA, rule yields_bindA_of [OF new])
      (auto simp: setup_options_of_def Let_def intro!: yields_intros)
qed

lemma stays_restored_window: "stays mem_live (restored_window ec obs eo)"
  by (simp add: stays_def bind_live restored_window_def restore_observability_id_def
      bind_observability_id_def bindA_def retA_def split: option.split)

lemma stored_request_outcome:
  assumes "bindA (restored_window ec obs eo) (\<lambda>eo'. budget_window_result_from_state ec st eo' key years) m = (r, m')"
    and "report key m = Some st"
  shows "others key m' = others key m \<and> report_step (Some st) (report key m')"
proof -
  have "moves key (Some st) (bindA (restored_window ec obs eo)
      (\<lambda>eo'. budget_window_result_from_state ec st eo' key years))"
    by (rule moves_after_quiet [where P = "\<lambda>x. True"])
      (simp_all add: stays_restored_window moves_stored yields_def)
  from movesD [OF this assms(2,1)] show ?thesis .
qed

lemma keyed_request_outcome:
  assumes "bindA (bw_get_state (ec_windows ec) key) (\<lambda>found.
             case found of
               None \<Rightarrow> submit_budget_window ec eo key bw n
             | Some st \<Rightarrow>
                 bindA (restored_window ec (st_observability_id st) eo) (\<lambda>eo'.
                   budget_window_result_from_state ec st eo' key (bw_years bw))) m = (r, m')"
    and "rc_current (ec_request ec) m = None" and "eo_submission_claim_id eo \<noteq> []"
  shows "others key m' = others key m \<and> report_step (report key m) (report key m')"
proof -
  from memory.bw_get_state_law [OF window_client, of key m] obtain m1 where
    g: "bw_get_state (ec_windows ec) key m = (Inr (report key m), m1)"
    and l: "mem_live m1 = (if report key m = None then (mem_live m)(bw_state_key key := None) else mem_live m)"
    by (auto simp: report_def)
  show ?thesis
  proof (cases "report key m")
    case None
    have l1: "mem_live m1 = (mem_live m)(bw_state_key key := None)" using l None by simp
    have curg: "stays (rc_current (ec_request ec)) (bw_get_state (ec_windows ec) key)"
      unfolding bw_get_state_def clear_invalid_state_def suppress_coordination_def release_claim_def
      by (auto simp: window_client split: option.split prod.split
          intro!: stays_intros stays_current [OF isolated])
    have cur: "rc_current (ec_request ec) m1 = None" using staysD [OF curg g] assms(2) by simp
    have "submit_budget_window ec eo key bw n m1 = (r, m')"
      using assms(1) g None by (simp add: bindA_def)
    from submit_window_outcome [OF this _ cur assms(3)] report_upd [OF l1] others_upd [OF l1] None
    show ?thesis by (simp add: submission_step_def)
  next
    case (Some st)
    have l1: "mem_live m1 = mem_live m" using l Some by simp
    have "bindA (restored_window ec (st_observability_id st) eo) (\<lambda>eo'.
        budget_window_result_from_state ec st eo' key (bw_years bw)) m1 = (r, m')"
      using assms(1) g Some by (simp add: bindA_def)
    from stored_request_outcome [OF this] report_cong [OF l1] others_cong [OF l1] Some
    show ?thesis by simp
  qed
qed

lemma window_request_outcome:
  assumes "get_budget_window_economic_impact ec rq y n active m = (r, m')"
    and "rc_current (ec_request ec) m = None"
  shows "\<exists>key. others key m' = others key m \<and> report_step (report key m) (report key m')"
proof -
  let ?window = "build_budget_window_request_setup y n (rq_target rq)"
  have quiet: "\<exists>key. others key m' = others key m \<and> report_step (report key m) (report key m')"
    if "mem_live m' = mem_live m"
    using others_cong [OF that] report_cong [OF that] unchanged by simp
  show ?thesis
  proof (cases ?window)
    case (Inl e)
    with assms(1) quiet show ?thesis
      by (auto simp: get_budget_window_economic_impact_def bindA_def liftA_def)
  next
    case bw: (Inr bw)
    show ?thesis
    proof (cases "validate_economy_year (rq_country_id rq) (bw_start_year bw)")
      case (Inl e)
      with assms(1) bw quiet show ?thesis
        by (auto simp: get_budget_window_economic_impact_def bindA_def liftA_def)
    next
      case year: (Inr u)
      let ?build = "build_economic_impact_setup_options ec (with_normalized_region rq) (bw_time_period bw)"
      obtain r1 m1 where b: "?build m = (r1, m1)" by fastforce
      have live: "stays mem_live ?build" and cur: "stays (rc_current (ec_request ec)) ?build"
        by (rule stays_build_options; rule isolated_stays [OF isolated])+
      have l1: "mem_live m1 = mem_live m" using live b by (rule staysD)
      have c1: "rc_current (ec_request ec) m1 = None" using staysD [OF cur b] assms(2) by simp
      show ?thesis
      proof (cases r1)
        case (Inl e)
        with assms(1) bw year b l1 quiet show ?thesis
          by (auto simp: get_budget_window_economic_impact_def bindA_def liftA_def)
      next
        case (Inr eo)
        have id: "eo_submission_claim_id eo \<noteq> []" using built_claim_id b [unfolded Inr] by (rule yieldsD)
        note body = assms(1) [unfolded get_budget_window_economic_impact_def Let_def]
        from body bw year b Inr have "bindA (bw_get_state (ec_windows ec) (build_budget_window_cache_key ec eo)) (\<lambda>found.
             case found of
               None \<Rightarrow> submit_budget_window ec eo (build_budget_window_cache_key ec eo) bw active
             | Some st \<Rightarrow>
                 bindA (restored_window ec (st_observability_id st) eo) (\<lambda>eo'.
                   budget_window_result_from_state ec st eo' (build_budget_window_cache_key ec eo) (bw_years bw))) m1
            = (r, m')"
          by (simp add: act_simps)
        from keyed_request_outcome [OF this c1 id] others_cong [OF l1] report_cong [OF l1]
        show ?thesis by (intro exI [of _ "build_budget_window_cache_key ec eo"]) simp
      qed
    qed
  qed
qed

end

section \<open>Properties\<close>

lemma isolated_windows_refusing: "isolated_windows refusing_economy"
  using isolated_refusing
  by (simp add: isolated_windows_def refusing_economy_def example_economy_def memory_context_def yields_retA)

interpretation refusing_windows: reporting_economy refusing_economy
  by unfold_locales (rule isolated_windows_refusing)

text \<open>
  C15. The budget-window route refines the abstract report: whatever it answers or raises, a
  request moves one report by at most one step of \<open>report_step\<close> and changes nothing else in
  the cache. A submitted report can only finish or fail, and what it stores is readable.
\<close>

theorem request_takes_report_step:
  fixes ec :: "'x mem_scheme economy"
  assumes "isolated_windows ec" and "rc_current (ec_request ec) m = None"
    and "get_budget_window_economic_impact ec rq start_year window_size max_active m = (r, m')"
  shows "\<exists>key. (\<forall>k. k \<noteq> bw_state_key key \<longrightarrow> mem_live m' k = mem_live m k)
     \<and> report_step (report key m) (report key m')"
proof -
  have "reporting_economy ec"
    using assms(1) by (intro reporting_economy.intro isolated_economy.intro reporting_economy_axioms.intro)
      (simp_all add: isolated_windows_def)
  from reporting_economy.window_request_outcome [OF this assms(3,2)] obtain key where
    o: "others key m' = others key m" and step: "report_step (report key m) (report key m')" by blast
  have "mem_live m' k = mem_live m k" if "k \<noteq> bw_state_key key" for k
    using fun_cong [OF o, of k] that by (simp add: others_def)
  with step show ?thesis by blast
qed

theorem request_takes_report_step_witness:
  "\<exists>key. report_step None (report key
     (snd (get_budget_window_economic_impact refusing_economy uk_request ''2026'' 2 20 empty_mem)))"
proof -
  have cur: "rc_current (ec_request refusing_economy) empty_mem = None"
    by (simp add: refusing_economy_def example_economy_def)
  have "report key empty_mem = None" for key by (simp add: report_def mem_live_def empty_mem_def)
  with request_takes_report_step [OF isolated_windows_refusing cur prod.collapse [symmetric],
      of uk_request "''2026''" 2 20] show ?thesis by auto
qed

end
