(* ===== verification/Population_Identity.thy ===== *)
theory Population_Identity
  imports Prelude
begin

text \<open>
  \<open>policyengine_api/utils/population_identity.py\<close>: when two spellings of a population name
  the same population. The SQL condition \<open>population_id_matches\<close> builds is its value on one
  row, with the text comparison of the database taken as equality of the texts.
\<close>

definition is_ascii_decimal :: "string \<Rightarrow> bool" where
  "is_ascii_decimal s \<longleftrightarrow> s \<noteq> [] \<and> list_all is_digit s"

definition lstrip_zeros :: "string \<Rightarrow> string" where
  "lstrip_zeros s = dropWhile (\<lambda>c. c = CHR ''0'') s"

definition canonical_numeric_household_id :: "string \<Rightarrow> string \<Rightarrow> string \<Rightarrow> string option" where
  "canonical_numeric_household_id country_id population_id population_type =
     (if country_id = ''us'' \<and> population_type = ''household'' \<and> is_ascii_decimal population_id
      then Some (if lstrip_zeros population_id = [] then ''0'' else lstrip_zeros population_id)
      else None)"

text \<open>
  The regular expressions \<open>^0*N$\<close> (with \<open>N\<close> of digits) and \<open>[^0-9]\<close>. A line break that \<open>$\<close> may
  allow at the end is refused by the second, which is always asked for with the first.
\<close>

definition zeros_then :: "string \<Rightarrow> string \<Rightarrow> bool" where
  "zeros_then numeric_id column \<longleftrightarrow>
     (\<exists>k\<in>set [0..<Suc (length column)]. column = replicate k CHR ''0'' @ numeric_id)"

definition has_non_digit :: "string \<Rightarrow> bool" where
  "has_non_digit s \<longleftrightarrow> list_ex (\<lambda>c. \<not> is_digit c) s"

definition population_id_matches :: "string \<Rightarrow> string \<Rightarrow> string \<Rightarrow> string \<Rightarrow> bool" where
  "population_id_matches column country_id population_id population_type \<longleftrightarrow>
     (if country_id \<noteq> ''us'' \<or> population_type \<noteq> ''household'' then column = population_id
      else case canonical_numeric_household_id country_id population_id population_type of
        None \<Rightarrow> column = population_id
      | Some numeric_id \<Rightarrow> zeros_then numeric_id column \<and> \<not> has_non_digit column)"

text \<open>The identity of a population: the canonical number of a US household, or its own text.\<close>

definition population_identity :: "string \<Rightarrow> string \<Rightarrow> string \<Rightarrow> string" where
  "population_identity country_id population_id population_type =
     (case canonical_numeric_household_id country_id population_id population_type of
        None \<Rightarrow> population_id | Some n \<Rightarrow> n)"

section \<open>The condition decides the identity\<close>

lemma strip_split: "\<exists>k. s = replicate k CHR ''0'' @ lstrip_zeros s"
  unfolding lstrip_zeros_def
proof (induction s)
  case (Cons c s)
  then obtain k where k: "s = replicate k CHR ''0'' @ dropWhile (\<lambda>c. c = CHR ''0'') s" by blast
  show ?case
  proof (cases "c = CHR ''0''")
    case True
    with k show ?thesis by (intro exI [of _ "Suc k"]) simp
  qed simp
qed simp

lemma strip_replicate: "lstrip_zeros (replicate k CHR ''0'' @ s) = lstrip_zeros s"
  by (induction k) (simp_all add: lstrip_zeros_def)

lemma strip_strip [simp]: "lstrip_zeros (lstrip_zeros s) = lstrip_zeros s"
  by (simp add: lstrip_zeros_def)

lemma digit_zero [simp]: "is_digit CHR ''0''"
  by (simp add: is_digit_def)

lemma digits_iff: "\<not> has_non_digit s \<longleftrightarrow> list_all is_digit s"
  by (simp add: has_non_digit_def list_all_iff list_ex_iff)

lemma zeros_then_iff: "zeros_then n column \<longleftrightarrow> (\<exists>k. column = replicate k CHR ''0'' @ n)"
  by (auto simp: zeros_then_def)

definition canonical_digits :: "string \<Rightarrow> string" where
  "canonical_digits s = (if lstrip_zeros s = [] then ''0'' else lstrip_zeros s)"

lemma canonical_digits_split: "s \<noteq> [] \<Longrightarrow> \<exists>k. s = replicate k CHR ''0'' @ canonical_digits s"
proof -
  assume s: "s \<noteq> []"
  obtain k where k: "s = replicate k CHR ''0'' @ lstrip_zeros s" using strip_split by blast
  show ?thesis
  proof (cases "lstrip_zeros s = []")
    case True
    with k s obtain j where "k = Suc j" by (cases k) auto
    with k True have "s = replicate j CHR ''0'' @ ''0''" by (simp add: replicate_append_same)
    with True show ?thesis by (auto simp: canonical_digits_def)
  qed (use k in \<open>auto simp: canonical_digits_def\<close>)
qed

lemma canonical_digits_zeros: "canonical_digits (replicate k CHR ''0'' @ canonical_digits s) = canonical_digits s"
  by (simp add: canonical_digits_def strip_replicate) (simp add: lstrip_zeros_def)

lemma canonical_digits_nonempty [simp]: "canonical_digits s \<noteq> []"
  by (simp add: canonical_digits_def)

lemma canonical_digits_digits: "list_all is_digit s \<Longrightarrow> list_all is_digit (canonical_digits s)"
  by (auto simp: canonical_digits_def lstrip_zeros_def list_all_iff dest: set_dropWhileD)

lemma zeros_then_canonical:
  assumes "is_ascii_decimal p"
  shows "zeros_then (canonical_digits p) column \<and> \<not> has_non_digit column
     \<longleftrightarrow> is_ascii_decimal column \<and> canonical_digits column = canonical_digits p"
  unfolding zeros_then_iff digits_iff is_ascii_decimal_def
  using canonical_digits_split [of column] canonical_digits_zeros [of _ p] by auto

lemma numeric_id_iff:
  "canonical_numeric_household_id country_id p population_type = Some n \<longleftrightarrow>
     country_id = ''us'' \<and> population_type = ''household'' \<and> is_ascii_decimal p \<and> n = canonical_digits p"
  by (auto simp: canonical_numeric_household_id_def canonical_digits_def)

lemma population_identity_eq:
  "population_identity country_id p population_type =
     (if country_id = ''us'' \<and> population_type = ''household'' \<and> is_ascii_decimal p
      then canonical_digits p else p)"
  by (auto simp: population_identity_def canonical_numeric_household_id_def canonical_digits_def)

lemma population_identity_decimal:
  "is_ascii_decimal (canonical_digits p)" if "is_ascii_decimal p"
  using that canonical_digits_digits by (simp add: is_ascii_decimal_def)

lemma matches_iff_identity:
  "population_id_matches column country_id p population_type \<longleftrightarrow>
     population_identity country_id column population_type = population_identity country_id p population_type"
proof (cases "country_id = ''us'' \<and> population_type = ''household''")
  case False
  then show ?thesis by (auto simp: population_id_matches_def population_identity_eq)
next
  case us: True
  show ?thesis
  proof (cases "is_ascii_decimal p")
    case True
    with us have "canonical_numeric_household_id country_id p population_type = Some (canonical_digits p)"
      by (simp add: numeric_id_iff)
    with us True show ?thesis
      using zeros_then_canonical [OF True, of column] population_identity_decimal [OF True]
      by (auto simp: population_id_matches_def population_identity_eq)
  next
    case False
    with us have "canonical_numeric_household_id country_id p population_type = None"
      by (simp add: canonical_numeric_household_id_def)
    with us False show ?thesis
      using population_identity_decimal [of column]
      by (auto simp: population_id_matches_def population_identity_eq)
  qed
qed

lemma population_identity_idem [simp]:
  "population_identity c (population_identity c p t) t = population_identity c p t"
  using canonical_digits_zeros [of 0 p] population_identity_decimal [of p]
  by (auto simp: population_identity_eq)

text \<open>
  The condition that looks a population up selects exactly the rows that name the same
  population: for a US household number every spelling with leading zeros, for any other
  population its own text; so it is an equivalence, and the canonical spelling that a new
  record is stored under selects the same rows.
\<close>

theorem population_match_is_identity:
  "(population_id_matches a c b t \<longleftrightarrow> population_identity c a t = population_identity c b t)
   \<and> population_id_matches a c a t
   \<and> (population_id_matches a c b t \<longleftrightarrow> population_id_matches b c a t)
   \<and> population_id_matches a c (population_identity c b t) t = population_id_matches a c b t"
  by (auto simp: matches_iff_identity)

end
