(* ===== verification/V1_Store.thy ===== *)
theory V1_Store
  imports Simulation_Requests Population_Identity
begin

text \<open>
  The v1 database: the tables of simulations, report outputs and their runs in
  \<open>policyengine_api/data/v1_models.py\<close>, the transactions of a session, and Python's equality
  of the JSON values they hold.

  A table is the list of its rows. A session's objects are the rows themselves: a change of
  a mapped attribute is visible at once, as the identity map and autoflush make it. A row's
  primary key comes from a counter that a rolled back transaction does not turn back, as
  does the supply of UUIDs. Transactions run one after another: the row locks the code takes
  are not modelled. The widths and collations of the text columns are not modelled.
\<close>

section \<open>Equality of JSON values\<close>

text \<open>
  Numbers are equal by value, whatever their types, and dicts without regard to order. A float
  equals an int when its shortest decimal form does, which is exact below 2 to the 53. NaN,
  which a JSON column cannot hold, equals itself here.
\<close>

fun canon_float :: "pyfloat \<Rightarrow> json" where
  "canon_float (FFin neg m e) =
     (let c = (if neg then - int m else int m)
      in if 0 \<le> e then JInt (c * 10 ^ nat e)
         else if c mod 10 ^ nat (- e) = 0 then JInt (c div 10 ^ nat (- e))
         else JFloat (FFin neg m e))"
| "canon_float f = JFloat f"

fun canon :: "json \<Rightarrow> json"
  and canon_list :: "json list \<Rightarrow> json list"
  and canon_items :: "(string \<times> json) list \<Rightarrow> (string \<times> json) list" where
  "canon (JBool b) = JInt (if b then 1 else 0)"
| "canon (JFloat f) = canon_float f"
| "canon (JArr xs) = JArr (canon_list xs)"
| "canon (JObj kvs) = JObj (sort_key fst (canon_items kvs))"
| "canon v = v"
| "canon_list [] = []"
| "canon_list (x # xs) = canon x # canon_list xs"
| "canon_items [] = []"
| "canon_items ((k, v) # kvs) = (k, canon v) # canon_items kvs"

definition json_eq :: "json \<Rightarrow> json \<Rightarrow> bool" where
  "json_eq a b \<longleftrightarrow> canon a = canon b"

lemma json_eq_refl [simp]: "json_eq v v"
  by (simp add: json_eq_def)

section \<open>Rows\<close>

text \<open>A JSON column holds \<open>JNull\<close> for None. A manifest gives the versions of a run by field name.\<close>

record simulation =
  sn_id :: int
  sn_country_id :: string
  sn_api_version :: string
  sn_population_id :: string
  sn_population_type :: string
  sn_policy_id :: int
  sn_status :: string
  sn_output :: json
  sn_error_message :: "string option"
  sn_spec_json :: json
  sn_spec_schema_version :: "int option"
  sn_active_run_id :: "string option"
  sn_latest_successful_run_id :: "string option"

type_synonym version_manifest = "string \<Rightarrow> string option"

record simulation_run =
  sr_id :: string
  sr_simulation_id :: int
  sr_report_output_run_id :: "string option"
  sr_input_position :: "int option"
  sr_run_sequence :: int
  sr_status :: string
  sr_output :: json
  sr_error_message :: "string option"
  sr_trigger_type :: string
  sr_requested_at :: "datetime option"
  sr_started_at :: "datetime option"
  sr_finished_at :: "datetime option"
  sr_source_run_id :: "string option"
  sr_spec_snapshot_json :: json
  sr_versions :: version_manifest

record report_output =
  ro_id :: int
  ro_country_id :: string
  ro_simulation_1_id :: int
  ro_simulation_2_id :: "int option"
  ro_api_version :: string
  ro_status :: string
  ro_output :: json
  ro_error_message :: "string option"
  ro_year :: "string option"
  ro_report_kind :: "string option"
  ro_spec_json :: json
  ro_spec_schema_version :: "int option"
  ro_spec_status :: "string option"
  ro_active_run_id :: "string option"
  ro_latest_successful_run_id :: "string option"

record report_run =
  rr_id :: string
  rr_report_output_id :: int
  rr_run_sequence :: int
  rr_status :: string
  rr_output :: json
  rr_error_message :: "string option"
  rr_trigger_type :: string
  rr_requested_at :: "datetime option"
  rr_started_at :: "datetime option"
  rr_finished_at :: "datetime option"
  rr_source_run_id :: "string option"
  rr_spec_snapshot_json :: json
  rr_versions :: version_manifest

record v1_db =
  db_simulations :: "simulation list"
  db_simulation_runs :: "simulation_run list"
  db_reports :: "report_output list"
  db_report_runs :: "report_run list"
  db_aliases :: "(int \<times> int) list"
  db_next_simulation :: int
  db_next_report :: int
  db_draws :: nat

text \<open>
  What the services read beside the database: the installed versions and SPM bundle, the
  UUIDs \<open>uuid.uuid4\<close> draws one after another, and the clock, in UTC without microseconds.
\<close>

record v1_env =
  ve_versions :: runtime_versions_table
  ve_install :: spm_install
  ve_uuid :: "nat \<Rightarrow> string"
  ve_now :: "v1_db \<Rightarrow> datetime"

section \<open>Tables and transactions\<close>

definition put_row :: "('r \<Rightarrow> 'k) \<Rightarrow> 'r \<Rightarrow> 'r list \<Rightarrow> 'r list" where
  "put_row key r rows = map (\<lambda>x. if key x = key r then r else x) rows"

definition transaction :: "(v1_db, 'a) act \<Rightarrow> (v1_db, 'a) act" where
  "transaction m db =
     (case m db of
        (Inr x, db') \<Rightarrow> (Inr x, db')
      | (Inl e, db') \<Rightarrow>
          (Inl e, db\<lparr>db_next_simulation := db_next_simulation db', db_next_report := db_next_report db',
                     db_draws := db_draws db'\<rparr>))"

definition latest_first :: "('r \<Rightarrow> int) \<Rightarrow> 'r list \<Rightarrow> 'r list" where
  "latest_first sequence rows = rev (sort_key sequence rows)"

text \<open>The rows whose key satisfies a condition, after a row was replaced or added.\<close>

lemma keys_put_row [simp]: "map key (put_row key r rows) = map key rows"
  by (simp add: put_row_def)

lemma set_put_row:
  "key r \<in> key ` set rows \<Longrightarrow> set (put_row key r rows) = insert r {x \<in> set rows. key x \<noteq> key r}"
  by (auto simp: put_row_def)

lemma put_row_absent: "key r \<notin> key ` set rows \<Longrightarrow> put_row key r rows = rows"
  by (induction rows) (auto simp: put_row_def)

lemma put_row_same: "x \<in> set rows \<Longrightarrow> distinct (map key rows) \<Longrightarrow> put_row key x rows = rows"
  unfolding put_row_def by (rule map_idI) (auto simp: distinct_map dest: inj_onD)

lemma find_put_row:
  assumes "key r = k" and "k \<in> key ` set rows"
  shows "List.find (\<lambda>x. key x = k) (put_row key r rows) = Some r"
  using assms by (induction rows) (auto simp: put_row_def)

lemma find_put_other: "key r \<noteq> k \<Longrightarrow> List.find (\<lambda>x. key x = k) (put_row key r rows) = List.find (\<lambda>x. key x = k) rows"
  by (induction rows) (auto simp: put_row_def)

lemma filter_put_other:
  "(\<And>x. x \<in> set rows \<Longrightarrow> key x = key r \<Longrightarrow> \<not> P x) \<Longrightarrow> \<not> P r \<Longrightarrow> filter P (put_row key r rows) = filter P rows"
  by (induction rows) (auto simp: put_row_def)

lemma filter_put_row:
  "(\<And>x. x \<in> set rows \<Longrightarrow> key x = key r \<Longrightarrow> P x \<longleftrightarrow> P r) \<Longrightarrow>
     filter P (put_row key r rows) = put_row key r (filter P rows)"
  by (induction rows) (auto simp: put_row_def)

lemma find_distinct:
  "distinct (map key rows) \<Longrightarrow> x \<in> set rows \<Longrightarrow> List.find (\<lambda>y. key y = key x) rows = Some x"
  by (induction rows) (auto simp: image_iff)

lemma find_mem: "List.find P rows = Some x \<Longrightarrow> x \<in> set rows \<and> P x"
  by (auto simp: find_Some_iff)

lemma filter_singleD: "filter P rows = [x] \<Longrightarrow> x \<in> set rows \<and> P x"
  using filter_eq_ConsD [of P rows x "[]"] by auto

lemma latest_first_Nil [simp]: "latest_first f rows = [] \<longleftrightarrow> rows = []"
  by (simp add: latest_first_def) (metis length_0_conv length_sort)

lemma latest_first_single [simp]: "latest_first f [r] = [r]"
  by (simp add: latest_first_def)

lemma set_latest_first [simp]: "set (latest_first f rows) = set rows"
  by (simp add: latest_first_def)

lemma transaction_Inr: "transaction m db = (Inr x, db') \<longleftrightarrow> m db = (Inr x, db')"
  by (auto simp: transaction_def split: prod.split sum.split)

lemma transaction_Inl:
  "transaction m db = (Inl e, db') \<Longrightarrow>
     \<exists>db1. m db = (Inl e, db1) \<and> db' = db\<lparr>db_next_simulation := db_next_simulation db1,
       db_next_report := db_next_report db1, db_draws := db_draws db1\<rparr>"
  by (auto simp: transaction_def split: prod.splits sum.splits)

end
