(* ===== verification/Simulation_History.thy ===== *)
theory Simulation_History
  imports V1_Store
begin

text \<open>
  \<open>policyengine_api/services/simulation_service.py\<close>, \<open>simulation_run_service.py\<close> and
  \<open>simulation_spec_service.py\<close>: the v1 simulations, with every write mirrored into the
  simulation's run history. A population is named by a text: an integer a client sends for
  a US household is that text already.
\<close>

section \<open>Selections\<close>

definition select_simulation :: "v1_db \<Rightarrow> int \<Rightarrow> string option \<Rightarrow> simulation option" where
  "select_simulation db simulation_id country_id =
     List.find (\<lambda>s. sn_id s = simulation_id \<and> (case country_id of None \<Rightarrow> True | Some c \<Rightarrow> sn_country_id s = c))
       (db_simulations db)"

definition simulation_runs :: "v1_db \<Rightarrow> int \<Rightarrow> simulation_run list" where
  "simulation_runs db simulation_id =
     latest_first sr_run_sequence (filter (\<lambda>r. sr_simulation_id r = simulation_id) (db_simulation_runs db))"

definition latest_successful_run_id :: "simulation_run list \<Rightarrow> string option" where
  "latest_successful_run_id runs = map_option sr_id (List.find (\<lambda>r. sr_status r = ''complete'') runs)"

definition has_stale_spm_output :: "spm_install \<Rightarrow> json \<Rightarrow> bool" where
  "has_stale_spm_output inst output =
     (case output of
        JObj d \<Rightarrow>
          if map_of d ''spm_config'' \<noteq> None then True
          else (case map_of d ''spm_provenance'' of
                  None \<Rightarrow> False | Some v \<Rightarrow> provenance_of inst v = None)
      | _ \<Rightarrow> False)"

section \<open>The run history of a simulation\<close>

definition simulation_spec_json :: "simulation \<Rightarrow> json" where
  "simulation_spec_json s =
     JObj [(''country_id'', JStr (sn_country_id s)), (''population_id'', JStr (sn_population_id s)),
           (''population_type'', JStr (sn_population_type s)), (''policy_id'', JInt (sn_policy_id s))]"

definition with_current_spec :: "spm_install \<Rightarrow> simulation \<Rightarrow> simulation" where
  "with_current_spec inst s =
     (let s1 = (if has_stale_spm_output inst (sn_output s)
                then s\<lparr>sn_status := ''pending'', sn_output := JNull, sn_error_message := None\<rparr> else s)
      in s1\<lparr>sn_spec_json := simulation_spec_json s1, sn_spec_schema_version := Some 1\<rparr>)"

definition initial_simulation_run :: "string \<Rightarrow> simulation \<Rightarrow> simulation_run" where
  "initial_simulation_run run_id s =
     \<lparr>sr_id = run_id, sr_simulation_id = sn_id s, sr_report_output_run_id = None, sr_input_position = None,
      sr_run_sequence = 1, sr_status = sn_status s, sr_output = sn_output s,
      sr_error_message = sn_error_message s, sr_trigger_type = ''initial'', sr_requested_at = None,
      sr_started_at = None, sr_finished_at = None, sr_source_run_id = None,
      sr_spec_snapshot_json = sn_spec_json s,
      sr_versions = (\<lambda>f. if f = ''country_package_version'' then Some (sn_api_version s) else None)\<rparr>"

definition mirrored_simulation_run :: "simulation \<Rightarrow> simulation_run \<Rightarrow> simulation_run" where
  "mirrored_simulation_run s r =
     r\<lparr>sr_status := sn_status s, sr_output := sn_output s, sr_error_message := sn_error_message s,
       sr_spec_snapshot_json := sn_spec_json s,
       sr_versions := (sr_versions r)(''country_package_version'' := Some (sn_api_version s))\<rparr>"

definition mutable_simulation_run :: "simulation \<Rightarrow> simulation_run list \<Rightarrow> simulation_run" where
  "mutable_simulation_run s runs =
     (case List.find (\<lambda>r. Some (sr_id r) = sn_active_run_id s) runs of Some r \<Rightarrow> r | None \<Rightarrow> hd runs)"

definition sync_simulation_runs :: "v1_env \<Rightarrow> simulation \<Rightarrow> v1_db \<Rightarrow> v1_db" where
  "sync_simulation_runs env s db =
     (let runs = simulation_runs db (sn_id s)
      in if runs = []
         then db\<lparr>db_simulation_runs := db_simulation_runs db @ [initial_simulation_run (ve_uuid env (db_draws db)) s],
                 db_draws := Suc (db_draws db)\<rparr>
         else db\<lparr>db_simulation_runs :=
                   put_row sr_id (mirrored_simulation_run s (mutable_simulation_run s runs)) (db_simulation_runs db)\<rparr>)"

definition active_status :: "string \<Rightarrow> bool" where
  "active_status status \<longleftrightarrow> status \<in> {''pending'', ''running''}"

definition with_run_pointers :: "simulation_run list \<Rightarrow> simulation \<Rightarrow> simulation" where
  "with_run_pointers runs s =
     s\<lparr>sn_active_run_id := (if active_status (sn_status s) then Some (sr_id (hd runs)) else None),
       sn_latest_successful_run_id :=
         (if sn_status s = ''complete'' \<and> latest_successful_run_id runs = None
          then Some (sr_id (hd runs)) else latest_successful_run_id runs)\<rparr>"

definition ensure_simulation_dual_write_state ::
  "v1_env \<Rightarrow> int \<Rightarrow> string option \<Rightarrow> (v1_db, simulation) act" where
  "ensure_simulation_dual_write_state env simulation_id country_id db =
     (case select_simulation db simulation_id country_id of
        None \<Rightarrow> (Inl (ValueError (''Simulation #'' @ show_int simulation_id @ '' not found'')), db)
      | Some s \<Rightarrow>
          (let s1 = with_current_spec (ve_install env) s;
               db1 = sync_simulation_runs env s1 db;
               s2 = with_run_pointers (simulation_runs db1 (sn_id s1)) s1
           in (Inr s2, db1\<lparr>db_simulations := put_row sn_id s2 (db_simulations db1)\<rparr>)))"

section \<open>Creating and reading simulations\<close>

definition simulation_rank :: "string \<Rightarrow> simulation \<Rightarrow> bool \<times> int" where
  "simulation_rank population_id s = (sn_population_id s = population_id, sn_id s)"

definition lock_existing_simulation ::
  "v1_db \<Rightarrow> string \<Rightarrow> string \<Rightarrow> string \<Rightarrow> int \<Rightarrow> simulation option" where
  "lock_existing_simulation db country_id population_id population_type policy_id =
     (case sorted_desc (simulation_rank population_id)
             (filter (\<lambda>s. sn_country_id s = country_id
                 \<and> population_id_matches (sn_population_id s) country_id population_id population_type
                 \<and> sn_population_type s = population_type \<and> sn_policy_id s = policy_id)
               (db_simulations db)) of
        [] \<Rightarrow> None | s # ss \<Rightarrow> Some s)"

definition new_simulation :: "int \<Rightarrow> string \<Rightarrow> string \<Rightarrow> string \<Rightarrow> string \<Rightarrow> int \<Rightarrow> simulation" where
  "new_simulation i version country_id population_id population_type policy_id =
     \<lparr>sn_id = i, sn_country_id = country_id, sn_api_version = version, sn_population_id = population_id,
      sn_population_type = population_type, sn_policy_id = policy_id, sn_status = ''pending'',
      sn_output = JNull, sn_error_message = None, sn_spec_json = JNull, sn_spec_schema_version = None,
      sn_active_run_id = None, sn_latest_successful_run_id = None\<rparr>"

text \<open>A country without an installed version leaves the version column null, which the database refuses.\<close>

definition create_simulation ::
  "v1_env \<Rightarrow> string \<Rightarrow> string \<Rightarrow> string \<Rightarrow> int \<Rightarrow> (v1_db, simulation) act" where
  "create_simulation env country_id population_id population_type policy_id db =
     (case rt_country (ve_versions env) country_id of
        None \<Rightarrow> (Inl (IntegrityErr ''simulations.api_version''), db)
      | Some version \<Rightarrow>
          (let s = new_simulation (db_next_simulation db) version country_id population_id population_type policy_id
           in ensure_simulation_dual_write_state env (sn_id s) (Some country_id)
                (db\<lparr>db_simulations := db_simulations db @ [s],
                    db_next_simulation := db_next_simulation db + 1\<rparr>)))"

definition get_or_create_simulation ::
  "v1_env \<Rightarrow> string \<Rightarrow> string \<Rightarrow> string \<Rightarrow> int \<Rightarrow> (v1_db, simulation \<times> bool) act" where
  "get_or_create_simulation env country_id population_id population_type policy_id =
     transaction (\<lambda>db.
       case lock_existing_simulation db country_id population_id population_type policy_id of
         None \<Rightarrow>
           bindA (create_simulation env country_id
                    (population_identity country_id population_id population_type) population_type policy_id)
             (\<lambda>s. retA (s, True)) db
       | Some s \<Rightarrow>
           bindA (ensure_simulation_dual_write_state env (sn_id s) (Some country_id))
             (\<lambda>s'. retA (s', False)) db)"

definition get_simulation :: "string \<Rightarrow> int \<Rightarrow> (v1_db, simulation option) act" where
  "get_simulation country_id simulation_id db =
     (if simulation_id < 0
      then (Inl (InvalidIdErr (''Invalid simulation ID: '' @ show_int simulation_id
              @ ''. Must be a positive integer.'')), db)
      else (Inr (select_simulation db simulation_id (Some country_id)), db))"

section \<open>Updating a simulation\<close>

text \<open>The output of an update, decoded when it is a text; the SPM receipt it carries, read and written out.\<close>

definition decoded_output :: "json option \<Rightarrow> json option result" where
  "decoded_output output =
     (case output of
        Some (JStr s) \<Rightarrow>
          (case loads s of None \<Rightarrow> Inl (ValueError ''JSONDecodeError'') | Some v \<Rightarrow> Inr (Some v))
      | _ \<Rightarrow> Inr output)"

definition checked_simulation_output :: "spm_install \<Rightarrow> json option \<Rightarrow> json option result" where
  "checked_simulation_output inst output =
     (case output of
        Some (JObj d) \<Rightarrow>
          if map_of d ''spm_config'' \<noteq> None
          then Inl (ValueError ''Completed simulation output must not include legacy spm_config'')
          else (case map_of d ''spm_provenance'' of
                  None \<Rightarrow> Inr output
                | Some v \<Rightarrow>
                    (case provenance_of inst v of
                       None \<Rightarrow> Inl (ValueError (si_report inst ''SPMProvenance'' v))
                     | Some receipt \<Rightarrow>
                         Inr (Some (JObj (AList.update ''spm_provenance'' (provenance_dump receipt) d)))))
      | _ \<Rightarrow> Inr output)"

definition with_simulation_values ::
  "string option \<Rightarrow> json option \<Rightarrow> string option \<Rightarrow> simulation \<Rightarrow> simulation" where
  "with_simulation_values status output error_text s =
     s\<lparr>sn_status := (case status of None \<Rightarrow> sn_status s | Some v \<Rightarrow> v),
       sn_output := (case output of None \<Rightarrow> sn_output s | Some v \<Rightarrow> v),
       sn_error_message := (case error_text of None \<Rightarrow> sn_error_message s | Some v \<Rightarrow> Some v)\<rparr>"

definition store_simulation_values ::
  "v1_env \<Rightarrow> string \<Rightarrow> int \<Rightarrow> string option \<Rightarrow> json option \<Rightarrow> string option \<Rightarrow> (v1_db, simulation) act" where
  "store_simulation_values env country_id simulation_id status output error_text db =
     (case select_simulation db simulation_id (Some country_id) of
        None \<Rightarrow> (Inl (LookupErr (''Simulation #'' @ show_int simulation_id @ '' not found'')), db)
      | Some s \<Rightarrow>
          (case rt_country (ve_versions env) country_id of
             None \<Rightarrow> (Inl (IntegrityErr ''simulations.api_version''), db)
           | Some version \<Rightarrow>
               (let s1 = (with_simulation_values status output error_text s)\<lparr>sn_api_version := version\<rparr>
                in ensure_simulation_dual_write_state env simulation_id (Some country_id)
                     (db\<lparr>db_simulations := put_row sn_id s1 (db_simulations db)\<rparr>))))"

definition update_simulation ::
  "v1_env \<Rightarrow> string \<Rightarrow> int \<Rightarrow> string option \<Rightarrow> json option \<Rightarrow> string option
     \<Rightarrow> (v1_db, simulation option) act" where
  "update_simulation env country_id simulation_id status output error_text =
     (if status = None \<and> output = None \<and> error_text = None then retA None
      else bindA (liftA (decoded_output output)) (\<lambda>decoded.
           bindA (liftA (checked_simulation_output (ve_install env) decoded)) (\<lambda>checked.
           bindA (transaction (store_simulation_values env country_id simulation_id status checked error_text))
             (\<lambda>s. retA (Some s)))))"

section \<open>Numbered runs\<close>

definition SIMULATION_RUN_VERSION_FIELDS :: "string list" where
  "SIMULATION_RUN_VERSION_FIELDS =
     [''country_package_version'', ''policyengine_version'', ''data_version'', ''runtime_app_name'',
      ''simulation_cache_version'']"

record new_simulation_run =
  nr_report_output_run_id :: "string option"
  nr_input_position :: "int option"
  nr_status :: string
  nr_trigger_type :: string
  nr_output :: json
  nr_error_message :: "string option"
  nr_source_run_id :: "string option"
  nr_spec_snapshot :: json
  nr_version_manifest :: version_manifest
  nr_run_id :: "string option"

definition default_simulation_run :: new_simulation_run where
  "default_simulation_run =
     \<lparr>nr_report_output_run_id = None, nr_input_position = None, nr_status = ''pending'',
      nr_trigger_type = ''initial'', nr_output = JNull, nr_error_message = None, nr_source_run_id = None,
      nr_spec_snapshot = JNull, nr_version_manifest = (\<lambda>f. None), nr_run_id = None\<rparr>"

text \<open>The next number in a sequence, \<open>(max or 0) + 1\<close>.\<close>

definition next_sequence :: "int list \<Rightarrow> int" where
  "next_sequence sequences = (if sequences = [] then 1 else Max (set sequences) + 1)"

definition picked_fields :: "string list \<Rightarrow> version_manifest \<Rightarrow> version_manifest" where
  "picked_fields names manifest f = (if f \<in> set names then manifest f else None)"

text \<open>The identifier asked for, or a new UUID.\<close>

definition run_id_or_new :: "v1_env \<Rightarrow> string option \<Rightarrow> v1_db \<Rightarrow> string \<times> v1_db" where
  "run_id_or_new env run_id db =
     (case run_id of
        Some (c # cs) \<Rightarrow> (c # cs, db)
      | _ \<Rightarrow> (ve_uuid env (db_draws db), db\<lparr>db_draws := Suc (db_draws db)\<rparr>))"

definition create_simulation_run ::
  "v1_env \<Rightarrow> int \<Rightarrow> new_simulation_run option \<Rightarrow> (v1_db, simulation_run) act" where
  "create_simulation_run env simulation_id new_run db =
     (let nr = (case new_run of None \<Rightarrow> default_simulation_run | Some n \<Rightarrow> n)
      in case select_simulation db simulation_id None of
           None \<Rightarrow> (Inl (ValueError (''Simulation #'' @ show_int simulation_id @ '' not found'')), db)
         | Some parent \<Rightarrow>
             (let (run_id, db1) = run_id_or_new env (nr_run_id nr) db;
                  run = \<lparr>sr_id = run_id, sr_simulation_id = simulation_id,
                         sr_report_output_run_id = nr_report_output_run_id nr,
                         sr_input_position = nr_input_position nr,
                         sr_run_sequence = next_sequence (map sr_run_sequence (simulation_runs db simulation_id)),
                         sr_status = nr_status nr, sr_output = nr_output nr,
                         sr_error_message = nr_error_message nr, sr_trigger_type = nr_trigger_type nr,
                         sr_requested_at = None, sr_started_at = None, sr_finished_at = None,
                         sr_source_run_id = nr_source_run_id nr, sr_spec_snapshot_json = nr_spec_snapshot nr,
                         sr_versions = picked_fields SIMULATION_RUN_VERSION_FIELDS (nr_version_manifest nr)\<rparr>
              in (Inr run, db1\<lparr>db_simulation_runs := db_simulation_runs db1 @ [run]\<rparr>)))"

definition get_simulation_run :: "v1_db \<Rightarrow> string \<Rightarrow> simulation_run option" where
  "get_simulation_run db run_id = List.find (\<lambda>r. sr_id r = run_id) (db_simulation_runs db)"

definition list_simulation_runs :: "v1_db \<Rightarrow> int \<Rightarrow> simulation_run list" where
  "list_simulation_runs db simulation_id = rev (simulation_runs db simulation_id)"

definition get_newest_simulation_run :: "v1_db \<Rightarrow> int \<Rightarrow> simulation_run option" where
  "get_newest_simulation_run db simulation_id =
     (case simulation_runs db simulation_id of [] \<Rightarrow> None | r # rs \<Rightarrow> Some r)"

definition run_of_pointer :: "v1_db \<Rightarrow> string option \<Rightarrow> simulation_run option" where
  "run_of_pointer db pointer =
     (case pointer of Some (c # cs) \<Rightarrow> get_simulation_run db (c # cs) | _ \<Rightarrow> None)"

definition select_simulation_display_run :: "v1_db \<Rightarrow> simulation \<Rightarrow> simulation_run option" where
  "select_simulation_display_run db s =
     (case run_of_pointer db (sn_active_run_id s) of
        Some r \<Rightarrow> Some r
      | None \<Rightarrow>
          (case run_of_pointer db (sn_latest_successful_run_id s) of
             Some r \<Rightarrow> Some r | None \<Rightarrow> get_newest_simulation_run db (sn_id s)))"

section \<open>Specifications\<close>

definition SIMULATION_SPEC_SCHEMA_VERSION :: int where
  "SIMULATION_SPEC_SCHEMA_VERSION = 1"

record simulation_spec =
  ss_country_id :: string
  ss_population_id :: string
  ss_population_type :: string
  ss_policy_id :: int

definition spec_schema_ok :: "string \<Rightarrow> int \<Rightarrow> int option \<Rightarrow> unit result" where
  "spec_schema_ok what supported schema_version =
     (if schema_version = Some supported then Inr ()
      else Inl (ValueError (''Unsupported '' @ what @ '' spec schema version: ''
              @ (case schema_version of None \<Rightarrow> ''None'' | Some v \<Rightarrow> show_int v))))"

definition simulation_spec_dump :: "simulation_spec \<Rightarrow> json" where
  "simulation_spec_dump spec =
     JObj [(''country_id'', JStr (ss_country_id spec)), (''population_id'', JStr (ss_population_id spec)),
           (''population_type'', JStr (ss_population_type spec)), (''policy_id'', JInt (ss_policy_id spec))]"

definition POPULATION_TYPES :: "string list" where
  "POPULATION_TYPES = [''household'', ''geography'']"

text \<open>A model read from a dict: texts as they are, an int by pydantic's coercion, other keys ignored.\<close>

definition simulation_spec_of :: "spm_install \<Rightarrow> json \<Rightarrow> simulation_spec option" where
  "simulation_spec_of inst v =
     (case v of
        JObj d \<Rightarrow>
          (case (map_of d ''country_id'', map_of d ''population_id'', map_of d ''population_type'',
                 Option.bind (map_of d ''policy_id'') (si_int inst)) of
             (Some (JStr c), Some (JStr p), Some (JStr t), Some i) \<Rightarrow>
               if t \<in> set POPULATION_TYPES
               then Some \<lparr>ss_country_id = c, ss_population_id = p, ss_population_type = t, ss_policy_id = i\<rparr>
               else None
           | _ \<Rightarrow> None)
      | _ \<Rightarrow> None)"

definition validate_simulation_spec :: "spm_install \<Rightarrow> json \<Rightarrow> simulation_spec result" where
  "validate_simulation_spec inst v =
     (case simulation_spec_of inst v of
        None \<Rightarrow> Inl (ValueError (si_report inst ''SimulationSpec'' v)) | Some s \<Rightarrow> Inr s)"

definition simulation_spec_matches :: "simulation \<Rightarrow> simulation_spec \<Rightarrow> unit result" where
  "simulation_spec_matches s spec =
     (if simulation_spec_dump spec = simulation_spec_json s then Inr ()
      else Inl (ValueError ''Simulation spec must match the linked simulation row''))"

definition build_simulation_spec :: "spm_install \<Rightarrow> simulation \<Rightarrow> simulation_spec result" where
  "build_simulation_spec inst s = validate_simulation_spec inst (simulation_spec_json s)"

text \<open>A stored specification that is a text is decoded.\<close>

definition stored_json :: "json \<Rightarrow> json result" where
  "stored_json v =
     (case v of
        JStr s \<Rightarrow> (case loads s of None \<Rightarrow> Inl (ValueError ''JSONDecodeError'') | Some w \<Rightarrow> Inr w)
      | _ \<Rightarrow> Inr v)"

definition get_simulation_spec :: "v1_env \<Rightarrow> v1_db \<Rightarrow> int \<Rightarrow> simulation_spec option result" where
  "get_simulation_spec env db simulation_id =
     (case select_simulation db simulation_id None of
        None \<Rightarrow> Inr None
      | Some s \<Rightarrow>
          if sn_spec_json s = JNull then Inr None
          else res_bind (spec_schema_ok ''simulation'' SIMULATION_SPEC_SCHEMA_VERSION (sn_spec_schema_version s)) (\<lambda>u.
            res_bind (stored_json (sn_spec_json s)) (\<lambda>raw.
            res_bind (validate_simulation_spec (ve_install env) raw) (\<lambda>spec.
            res_bind (simulation_spec_matches s spec) (\<lambda>u. Inr (Some spec))))))"

definition set_simulation_spec :: "int \<Rightarrow> simulation_spec \<Rightarrow> int \<Rightarrow> (v1_db, bool) act" where
  "set_simulation_spec simulation_id spec schema_version db =
     (case res_bind (spec_schema_ok ''simulation'' SIMULATION_SPEC_SCHEMA_VERSION (Some schema_version)) (\<lambda>u.
             case select_simulation db simulation_id None of
               None \<Rightarrow> Inl (ValueError (''Simulation #'' @ show_int simulation_id @ '' not found''))
             | Some s \<Rightarrow> res_bind (simulation_spec_matches s spec) (\<lambda>u. Inr s)) of
        Inl e \<Rightarrow> (Inl e, db)
      | Inr s \<Rightarrow>
          (Inr True, db\<lparr>db_simulations :=
             put_row sn_id (s\<lparr>sn_spec_json := simulation_spec_dump spec,
                              sn_spec_schema_version := Some schema_version\<rparr>) (db_simulations db)\<rparr>))"

end
