(* ===== verification/Report_Specs.thy ===== *)
theory Report_Specs
  imports Simulation_History
begin

text \<open>
  \<open>policyengine_api/services/report_spec_service.py\<close> and
  \<open>report_output_alias_service.py\<close>: what a v1 report calculates, and the aliases that redirect a
  legacy report.
\<close>

section \<open>Specifications\<close>

definition REPORT_SPEC_SCHEMA_VERSION :: int where
  "REPORT_SPEC_SCHEMA_VERSION = 1"

definition REPORT_SPEC_STATUSES :: "string list" where
  "REPORT_SPEC_STATUSES = [''explicit'', ''backfilled_assumed'']"

definition HOUSEHOLD_REPORT_KINDS :: "string list" where
  "HOUSEHOLD_REPORT_KINDS = [''household_single'', ''household_comparison'']"

definition ECONOMY_REPORT_KINDS :: "string list" where
  "ECONOMY_REPORT_KINDS = [''economy_single'', ''economy_comparison'']"

record economy_settings =
  es_dataset :: string
  es_target :: string
  es_options :: "json option"

definition default_economy_settings :: economy_settings where
  "default_economy_settings = \<lparr>es_dataset = ''default'', es_target = ''general'', es_options = None\<rparr>"

record simulation_input =
  si_population_type :: string
  si_population_id :: string
  si_policy_id :: int

text \<open>
  \<open>HouseholdReportSpec\<close> and \<open>EconomyReportSpec\<close>, with their fields in order: country, kind,
  period, and the simulations, or the region, the two policies, dataset, target and options.
\<close>

datatype report_spec =
    HouseholdReportSpec string string string simulation_input "simulation_input option"
  | EconomyReportSpec string string string string int int string string json

fun spec_report_kind :: "report_spec \<Rightarrow> string" where
  "spec_report_kind (HouseholdReportSpec c k y s1 s2) = k"
| "spec_report_kind (EconomyReportSpec c k y r b p d t opts) = k"

fun spec_dataset :: "report_spec \<Rightarrow> string option" where
  "spec_dataset (HouseholdReportSpec c k y s1 s2) = None"
| "spec_dataset (EconomyReportSpec c k y r b p d t opts) = Some d"

definition simulation_input_dump :: "simulation_input \<Rightarrow> json" where
  "simulation_input_dump i =
     JObj [(''population_type'', JStr (si_population_type i)), (''population_id'', JStr (si_population_id i)),
           (''policy_id'', JInt (si_policy_id i))]"

fun report_spec_dump :: "report_spec \<Rightarrow> json" where
  "report_spec_dump (HouseholdReportSpec c k y s1 s2) =
     JObj [(''country_id'', JStr c), (''report_kind'', JStr k), (''time_period'', JStr y),
           (''simulation_1'', simulation_input_dump s1),
           (''simulation_2'', case s2 of None \<Rightarrow> JNull | Some s \<Rightarrow> simulation_input_dump s)]"
| "report_spec_dump (EconomyReportSpec c k y r b p d t opts) =
     JObj [(''country_id'', JStr c), (''report_kind'', JStr k), (''time_period'', JStr y),
           (''region'', JStr r), (''baseline_policy_id'', JInt b), (''reform_policy_id'', JInt p),
           (''dataset'', JStr d), (''target'', JStr t), (''options'', opts)]"

section \<open>Building a specification\<close>

definition get_report :: "v1_db \<Rightarrow> int \<Rightarrow> report_output option" where
  "get_report db report_output_id = List.find (\<lambda>r. ro_id r = report_output_id) (db_reports db)"

definition missing_simulation :: "int \<Rightarrow> exn" where
  "missing_simulation i = ValueError (''Report output references missing simulation #'' @ show_int i)"

definition spec_linked_simulations ::
  "v1_db \<Rightarrow> report_output \<Rightarrow> (simulation \<times> simulation option) result" where
  "spec_linked_simulations db ro =
     (case select_simulation db (ro_simulation_1_id ro) None of
        None \<Rightarrow> Inl (missing_simulation (ro_simulation_1_id ro))
      | Some s1 \<Rightarrow>
          (case ro_simulation_2_id ro of
             None \<Rightarrow> Inr (s1, None)
           | Some i \<Rightarrow>
               (case select_simulation db i None of
                  None \<Rightarrow> Inl (missing_simulation i) | Some s2 \<Rightarrow> Inr (s1, Some s2))))"

definition validate_report_simulation_linkage ::
  "report_output \<Rightarrow> simulation \<Rightarrow> simulation option \<Rightarrow> unit result" where
  "validate_report_simulation_linkage ro s1 s2 =
     (if sn_id s1 \<noteq> ro_simulation_1_id ro
      then Inl (ValueError ''Simulation 1 must match report_output.simulation_1_id to build a report spec'')
      else case (ro_simulation_2_id ro, s2) of
        (None, Some s) \<Rightarrow> Inl (ValueError ''Report output does not reference a second simulation'')
      | (None, None) \<Rightarrow> Inr ()
      | (Some i, None) \<Rightarrow>
          Inl (ValueError ''Report output requires a second simulation to build a comparison report spec'')
      | (Some i, Some s) \<Rightarrow>
          if sn_id s \<noteq> i
          then Inl (ValueError ''Simulation 2 must match report_output.simulation_2_id to build a report spec'')
          else Inr ())"

definition validate_report_country :: "report_output \<Rightarrow> simulation \<Rightarrow> simulation option \<Rightarrow> unit result" where
  "validate_report_country ro s1 s2 =
     (if sn_country_id s1 \<noteq> ro_country_id ro
      then Inl (ValueError ''Simulation 1 country must match report output country to build a report spec'')
      else if (case s2 of None \<Rightarrow> False | Some s \<Rightarrow> sn_country_id s \<noteq> ro_country_id ro)
      then Inl (ValueError ''Simulation 2 country must match report output country to build a report spec'')
      else Inr ())"

definition infer_report_kind :: "simulation \<Rightarrow> simulation option \<Rightarrow> string result" where
  "infer_report_kind s1 s2 =
     (let population_type = sn_population_type s1
      in if (case s2 of None \<Rightarrow> False | Some s \<Rightarrow> sn_population_type s \<noteq> population_type)
         then Inl (ValueError ''Simulation population types must match to build a report spec'')
         else if population_type = ''household''
         then Inr (if s2 \<noteq> None then ''household_comparison'' else ''household_single'')
         else if population_type = ''geography''
         then Inr (if s2 \<noteq> None then ''economy_comparison'' else ''economy_single'')
         else Inl (ValueError (''Unsupported simulation population type: '' @ population_type)))"

definition simulation_input_of :: "simulation \<Rightarrow> simulation_input" where
  "simulation_input_of s =
     \<lparr>si_population_type = sn_population_type s, si_population_id = sn_population_id s,
      si_policy_id = sn_policy_id s\<rparr>"

definition spec_household_id :: "simulation \<Rightarrow> string" where
  "spec_household_id s = population_identity (sn_country_id s) (sn_population_id s) (sn_population_type s)"

text \<open>A report without a year is refused by the models, whose period is a text.\<close>

definition report_period :: "report_output \<Rightarrow> string result" where
  "report_period ro =
     (case ro_year ro of None \<Rightarrow> Inl (ValueError ''time_period'') | Some y \<Rightarrow> Inr y)"

definition household_spec ::
  "report_output \<Rightarrow> string \<Rightarrow> simulation \<Rightarrow> simulation option \<Rightarrow> report_spec result" where
  "household_spec ro kind s1 s2 =
     (if (case s2 of None \<Rightarrow> False | Some s \<Rightarrow> spec_household_id s1 \<noteq> spec_household_id s)
      then Inl (ValueError ''Household comparison report specs require matching household IDs'')
      else res_bind (report_period ro) (\<lambda>year.
        Inr (HouseholdReportSpec (ro_country_id ro) kind year (simulation_input_of s1)
               (map_option simulation_input_of s2))))"

definition economy_spec ::
  "report_output \<Rightarrow> string \<Rightarrow> simulation \<Rightarrow> simulation option \<Rightarrow> economy_settings \<Rightarrow> report_spec result" where
  "economy_spec ro kind s1 s2 settings =
     (if (case s2 of None \<Rightarrow> False | Some s \<Rightarrow> sn_population_id s \<noteq> sn_population_id s1)
      then Inl (ValueError ''Economy comparison report specs require matching geography IDs'')
      else res_bind (report_period ro) (\<lambda>year.
        Inr (EconomyReportSpec (ro_country_id ro) kind year (sn_population_id s1) (sn_policy_id s1)
               (case s2 of None \<Rightarrow> sn_policy_id s1 | Some s \<Rightarrow> sn_policy_id s)
               (es_dataset settings) (es_target settings)
               (case es_options settings of None \<Rightarrow> JObj [] | Some v \<Rightarrow> if truthy v then v else JObj []))))"

definition build_report_spec ::
  "report_output \<Rightarrow> simulation \<Rightarrow> simulation option \<Rightarrow> economy_settings \<Rightarrow> report_spec result" where
  "build_report_spec ro s1 s2 settings =
     res_bind (validate_report_simulation_linkage ro s1 s2) (\<lambda>u.
     res_bind (validate_report_country ro s1 s2) (\<lambda>u.
     res_bind (infer_report_kind s1 s2) (\<lambda>kind.
       if kind \<in> set HOUSEHOLD_REPORT_KINDS then household_spec ro kind s1 s2
       else economy_spec ro kind s1 s2 settings)))"

section \<open>Stored specifications\<close>

fun settings_of :: "report_spec \<Rightarrow> economy_settings" where
  "settings_of (EconomyReportSpec c k y r b p d t opts) =
     \<lparr>es_dataset = d, es_target = t, es_options = Some opts\<rparr>"
| "settings_of (HouseholdReportSpec c k y s1 s2) = default_economy_settings"

text \<open>Equal models: of the same class, with equal fields.\<close>

fun spec_eq :: "report_spec \<Rightarrow> report_spec \<Rightarrow> bool" where
  "spec_eq (EconomyReportSpec c k y r b p d t v) (EconomyReportSpec c' k' y' r' b' p' d' t' v') \<longleftrightarrow>
     (c, k, y, r, b, p, d, t) = (c', k', y', r', b', p', d', t') \<and> json_eq v v'"
| "spec_eq a b \<longleftrightarrow> a = b"

definition report_spec_matches :: "v1_db \<Rightarrow> report_output \<Rightarrow> report_spec \<Rightarrow> unit result" where
  "report_spec_matches db ro spec =
     res_bind (spec_linked_simulations db ro) (\<lambda>(s1, s2).
     res_bind (build_report_spec ro s1 s2 (settings_of spec)) (\<lambda>expected.
       if spec_eq spec expected then Inr ()
       else Inl (ValueError ''Report spec must match the linked report and simulations'')))"

definition text_field :: "(string \<times> json) list \<Rightarrow> string \<Rightarrow> string option" where
  "text_field d k = (case map_of d k of Some (JStr s) \<Rightarrow> Some s | _ \<Rightarrow> None)"

definition text_field_or :: "(string \<times> json) list \<Rightarrow> string \<Rightarrow> string \<Rightarrow> string option" where
  "text_field_or d k fallback = (if map_of d k = None then Some fallback else text_field d k)"

definition simulation_input_read :: "spm_install \<Rightarrow> json \<Rightarrow> simulation_input option" where
  "simulation_input_read inst v =
     (case v of
        JObj d \<Rightarrow>
          (case (text_field d ''population_type'', text_field d ''population_id'',
                 Option.bind (map_of d ''policy_id'') (si_int inst)) of
             (Some t, Some p, Some i) \<Rightarrow>
               if t \<in> set POPULATION_TYPES
               then Some \<lparr>si_population_type = t, si_population_id = p, si_policy_id = i\<rparr> else None
           | _ \<Rightarrow> None)
      | _ \<Rightarrow> None)"

definition household_spec_read :: "spm_install \<Rightarrow> (string \<times> json) list \<Rightarrow> report_spec option" where
  "household_spec_read inst d =
     (case (text_field d ''country_id'', text_field d ''report_kind'', text_field d ''time_period'',
            Option.bind (map_of d ''simulation_1'') (simulation_input_read inst)) of
        (Some c, Some k, Some y, Some s1) \<Rightarrow>
          if k \<in> set HOUSEHOLD_REPORT_KINDS
          then (case dict_get_none d ''simulation_2'' of
                  JNull \<Rightarrow> Some (HouseholdReportSpec c k y s1 None)
                | v \<Rightarrow> map_option (\<lambda>s2. HouseholdReportSpec c k y s1 (Some s2)) (simulation_input_read inst v))
          else None
      | _ \<Rightarrow> None)"

definition economy_spec_read :: "spm_install \<Rightarrow> (string \<times> json) list \<Rightarrow> report_spec option" where
  "economy_spec_read inst d =
     (case (text_field d ''country_id'', text_field d ''report_kind'', text_field d ''time_period'',
            text_field d ''region'', Option.bind (map_of d ''baseline_policy_id'') (si_int inst),
            Option.bind (map_of d ''reform_policy_id'') (si_int inst)) of
        (Some c, Some k, Some y, Some r, Some b, Some p) \<Rightarrow>
          (case (text_field_or d ''dataset'' ''default'', text_field_or d ''target'' ''general'',
                 case map_of d ''options'' of
                   None \<Rightarrow> Some (JObj []) | Some (JObj opts) \<Rightarrow> Some (JObj opts) | Some v \<Rightarrow> None) of
             (Some dataset, Some target, Some opts) \<Rightarrow>
               if k \<in> set ECONOMY_REPORT_KINDS \<and> target \<in> {''general'', ''cliff''}
               then Some (EconomyReportSpec c k y r b p dataset target opts) else None
           | _ \<Rightarrow> None)
      | _ \<Rightarrow> None)"

definition parse_report_spec :: "spm_install \<Rightarrow> string option \<Rightarrow> json \<Rightarrow> report_spec result" where
  "parse_report_spec inst report_kind raw =
     (let refused = Inl (ValueError (si_report inst ''ReportSpec'' raw));
          fields = (case raw of JObj d \<Rightarrow> Some d | _ \<Rightarrow> None);
          read_by = (\<lambda>read_fields. case Option.bind fields read_fields of None \<Rightarrow> refused | Some s \<Rightarrow> Inr s)
      in case report_kind of
           None \<Rightarrow> Inl (ValueError ''Unsupported report kind: None'')
         | Some k \<Rightarrow>
             if k \<in> set HOUSEHOLD_REPORT_KINDS then read_by (household_spec_read inst)
             else if k \<in> set ECONOMY_REPORT_KINDS then read_by (economy_spec_read inst)
             else Inl (ValueError (''Unsupported report kind: '' @ k)))"

definition get_report_spec :: "v1_env \<Rightarrow> v1_db \<Rightarrow> int \<Rightarrow> report_spec option result" where
  "get_report_spec env db report_output_id =
     (case get_report db report_output_id of
        None \<Rightarrow> Inr None
      | Some ro \<Rightarrow>
          if ro_spec_json ro = JNull then Inr None
          else res_bind (spec_schema_ok ''report'' REPORT_SPEC_SCHEMA_VERSION (ro_spec_schema_version ro)) (\<lambda>u.
            res_bind (stored_json (ro_spec_json ro)) (\<lambda>raw.
            res_bind (parse_report_spec (ve_install env) (ro_report_kind ro) raw) (\<lambda>spec.
            res_bind (report_spec_matches db ro spec) (\<lambda>u. Inr (Some spec))))))"

definition set_report_spec :: "int \<Rightarrow> report_spec \<Rightarrow> string \<Rightarrow> int \<Rightarrow> (v1_db, bool) act" where
  "set_report_spec report_output_id spec spec_status schema_version db =
     (case (if spec_status \<notin> set REPORT_SPEC_STATUSES
            then Inl (ValueError (''Unsupported report spec status: '' @ spec_status))
            else res_bind (spec_schema_ok ''report'' REPORT_SPEC_SCHEMA_VERSION (Some schema_version)) (\<lambda>u.
              case get_report db report_output_id of
                None \<Rightarrow> Inl (ValueError (''Report output #'' @ show_int report_output_id @ '' not found''))
              | Some ro \<Rightarrow> res_bind (report_spec_matches db ro spec) (\<lambda>u. Inr ro))) of
        Inl e \<Rightarrow> (Inl e, db)
      | Inr ro \<Rightarrow>
          (Inr True, db\<lparr>db_reports :=
             put_row ro_id (ro\<lparr>ro_report_kind := Some (spec_report_kind spec), ro_spec_json := report_spec_dump spec,
                              ro_spec_schema_version := Some schema_version,
                              ro_spec_status := Some spec_status\<rparr>) (db_reports db)\<rparr>))"

section \<open>Aliases\<close>

definition get_alias :: "v1_db \<Rightarrow> int \<Rightarrow> int option" where
  "get_alias db legacy_id = map_of (db_aliases db) legacy_id"

definition resolve_canonical_report_output_id :: "v1_db \<Rightarrow> int \<Rightarrow> int option result" where
  "resolve_canonical_report_output_id db requested_id =
     (case get_alias db requested_id of
        Some canonical_id \<Rightarrow>
          if get_report db canonical_id = None
          then Inl (ValueError (''Alias points to missing canonical report output #'' @ show_int canonical_id))
          else Inr (Some canonical_id)
      | None \<Rightarrow> Inr (map_option ro_id (get_report db requested_id)))"

definition same_report :: "report_output \<Rightarrow> report_output \<Rightarrow> bool" where
  "same_report a b \<longleftrightarrow>
     ro_country_id a = ro_country_id b \<and> ro_simulation_1_id a = ro_simulation_1_id b
     \<and> ro_simulation_2_id a = ro_simulation_2_id b \<and> ro_year a = ro_year b"

definition alias_to_add :: "v1_db \<Rightarrow> int \<Rightarrow> int \<Rightarrow> bool result" where
  "alias_to_add db legacy_id canonical_id =
     (case (get_report db legacy_id, get_report db canonical_id) of
        (None, _) \<Rightarrow> Inl (ValueError (''Legacy report output #'' @ show_int legacy_id @ '' not found''))
      | (Some legacy, None) \<Rightarrow>
          Inl (ValueError (''Canonical report output #'' @ show_int canonical_id @ '' not found''))
      | (Some legacy, Some canonical) \<Rightarrow>
          if legacy_id = canonical_id
          then Inl (ValueError ''Legacy and canonical report outputs must be different'')
          else (case get_alias db legacy_id of
                  Some i \<Rightarrow>
                    if i = canonical_id then Inr False
                    else Inl (ValueError (''Legacy report output alias already points to canonical report output #''
                           @ show_int i))
                | None \<Rightarrow>
                    if \<not> same_report legacy canonical
                    then Inl (ValueError ''Legacy and canonical report outputs must describe the same report'')
                    else Inr True))"

definition set_alias :: "int \<Rightarrow> int \<Rightarrow> (v1_db, bool) act" where
  "set_alias legacy_id canonical_id db =
     (case alias_to_add db legacy_id canonical_id of
        Inl e \<Rightarrow> (Inl e, db)
      | Inr False \<Rightarrow> (Inr True, db)
      | Inr True \<Rightarrow> (Inr True, db\<lparr>db_aliases := (legacy_id, canonical_id) # db_aliases db\<rparr>))"

end
