(* ===== verification/Report_History.thy ===== *)
theory Report_History
  imports Report_Specs
begin

text \<open>
  \<open>policyengine_api/services/report_run_service.py\<close> and \<open>report_output_runs.py\<close>: the numbered
  runs of a v1 report, and how each write of a report is mirrored into one of them. A
  timestamp given as text, which \<open>format_run_timestamp\<close> also accepts, is not modelled: the
  rows hold datetimes.
\<close>

section \<open>Numbered runs\<close>

definition REPORT_RUN_VERSION_FIELDS :: "string list" where
  "REPORT_RUN_VERSION_FIELDS =
     [''country_package_version'', ''policyengine_version'', ''data_version'', ''runtime_app_name'',
      ''report_cache_version'', ''simulation_cache_version'', ''requested_version_override'',
      ''resolved_dataset'', ''resolved_options_hash'']"

record new_report_run =
  np_status :: string
  np_trigger_type :: string
  np_output :: json
  np_error_message :: "string option"
  np_source_run_id :: "string option"
  np_spec_snapshot :: json
  np_version_manifest :: version_manifest
  np_run_id :: "string option"

definition default_report_run :: new_report_run where
  "default_report_run =
     \<lparr>np_status = ''pending'', np_trigger_type = ''initial'', np_output = JNull, np_error_message = None,
      np_source_run_id = None, np_spec_snapshot = JNull, np_version_manifest = (\<lambda>f. None), np_run_id = None\<rparr>"

definition list_runs_descending :: "v1_db \<Rightarrow> int \<Rightarrow> report_run list" where
  "list_runs_descending db report_output_id =
     latest_first rr_run_sequence (filter (\<lambda>r. rr_report_output_id r = report_output_id) (db_report_runs db))"

definition terminal_status :: "string \<Rightarrow> bool" where
  "terminal_status status \<longleftrightarrow> status \<in> {''complete'', ''error''}"

definition create_report_output_run ::
  "v1_env \<Rightarrow> int \<Rightarrow> new_report_run option \<Rightarrow> (v1_db, report_run) act" where
  "create_report_output_run env report_output_id new_run db =
     (let np = (case new_run of None \<Rightarrow> default_report_run | Some n \<Rightarrow> n);
          status = np_status np; now = ve_now env db
      in if get_report db report_output_id = None
         then (Inl (ValueError (''Report output #'' @ show_int report_output_id @ '' not found'')), db)
         else (let (run_id, db1) = run_id_or_new env (np_run_id np) db;
                   run = \<lparr>rr_id = run_id, rr_report_output_id = report_output_id,
                          rr_run_sequence =
                            next_sequence (map rr_run_sequence (list_runs_descending db report_output_id)),
                          rr_status = status, rr_output = np_output np, rr_error_message = np_error_message np,
                          rr_trigger_type = np_trigger_type np, rr_requested_at = Some now,
                          rr_started_at =
                            (if status = ''running'' \<or> terminal_status status then Some now else None),
                          rr_finished_at = (if terminal_status status then Some now else None),
                          rr_source_run_id = np_source_run_id np, rr_spec_snapshot_json = np_spec_snapshot np,
                          rr_versions = picked_fields REPORT_RUN_VERSION_FIELDS (np_version_manifest np)\<rparr>
               in (Inr run, db1\<lparr>db_report_runs := db_report_runs db1 @ [run]\<rparr>)))"

definition get_report_output_run :: "v1_db \<Rightarrow> string \<Rightarrow> report_run option" where
  "get_report_output_run db run_id = List.find (\<lambda>r. rr_id r = run_id) (db_report_runs db)"

definition list_report_output_runs :: "v1_db \<Rightarrow> int \<Rightarrow> report_run list" where
  "list_report_output_runs db report_output_id = rev (list_runs_descending db report_output_id)"

definition first_run :: "report_run list \<Rightarrow> report_run option" where
  "first_run runs = (case runs of [] \<Rightarrow> None | r # rs \<Rightarrow> Some r)"

definition get_newest_report_output_run :: "v1_db \<Rightarrow> int \<Rightarrow> report_run option" where
  "get_newest_report_output_run db report_output_id = first_run (list_runs_descending db report_output_id)"

definition matches_report_result :: "report_run \<Rightarrow> report_output \<Rightarrow> bool" where
  "matches_report_result run ro \<longleftrightarrow>
     rr_status run = ro_status ro \<and> json_eq (rr_output run) (ro_output ro)
     \<and> rr_error_message run = ro_error_message ro"

definition run_named :: "string option \<Rightarrow> report_run list \<Rightarrow> report_run option" where
  "run_named pointer runs =
     (case pointer of None \<Rightarrow> None | Some i \<Rightarrow> List.find (\<lambda>r. rr_id r = i) runs)"

text \<open>The first of the choices that is a run.\<close>

fun first_some :: "'a option list \<Rightarrow> 'a option" where
  "first_some [] = None"
| "first_some (None # vs) = first_some vs"
| "first_some (Some x # vs) = Some x"

definition select_display_run :: "v1_db \<Rightarrow> report_output \<Rightarrow> report_run option" where
  "select_display_run db ro =
     (let runs = list_runs_descending db (ro_id ro);
          matching = List.find (\<lambda>r. matches_report_result r ro) runs
      in first_some
           [run_named (ro_active_run_id ro) runs,
            (if ro_status ro = ''error'' then matching else None),
            run_named (ro_latest_successful_run_id ro) runs, matching, first_run runs])"

section \<open>Timestamps\<close>

definition format_run_timestamp :: "datetime option \<Rightarrow> string option" where
  "format_run_timestamp stamp =
     (case stamp of
        None \<Rightarrow> None
      | Some (d, h, mi, s, us) \<Rightarrow>
          Some (isoformat d @ ''T'' @ pad_left 2 (show_nat h) @ '':'' @ pad_left 2 (show_nat mi) @ '':''
                  @ pad_left 2 (show_nat s) @ ''Z''))"

definition run_needs_timestamp_sync :: "report_run \<Rightarrow> string \<Rightarrow> bool" where
  "run_needs_timestamp_sync run status \<longleftrightarrow>
     (if rr_requested_at run = None then True
      else if terminal_status status then rr_started_at run = None \<or> rr_finished_at run = None
      else if status = ''running'' then rr_started_at run = None \<or> rr_finished_at run \<noteq> None
      else rr_started_at run \<noteq> None \<or> rr_finished_at run \<noteq> None)"

section \<open>The run a write is mirrored into\<close>

definition select_mutable_run :: "report_output \<Rightarrow> report_run list \<Rightarrow> report_run option" where
  "select_mutable_run ro runs =
     (if ro_status ro = ''running''
      then first_some
        [(case ro_active_run_id ro of None \<Rightarrow> None
          | Some i \<Rightarrow> List.find (\<lambda>r. rr_id r = i \<and> active_status (rr_status r)) runs),
         List.find (\<lambda>r. active_status (rr_status r)) runs]
      else first_some [run_named (ro_active_run_id ro) runs, first_run runs])"

definition has_mutable_running_run :: "report_output \<Rightarrow> report_run list \<Rightarrow> bool" where
  "has_mutable_running_run ro runs \<longleftrightarrow>
     (if runs = [] then True
      else case ro_active_run_id ro of
        Some i \<Rightarrow> (case run_named (Some i) runs of None \<Rightarrow> False | Some r \<Rightarrow> active_status (rr_status r))
      | None \<Rightarrow> list_ex (\<lambda>r. active_status (rr_status r)) runs)"

definition derive_country_package_version :: "simulation option \<Rightarrow> simulation option \<Rightarrow> string option" where
  "derive_country_package_version s1 s2 =
     (let versions = (case s1 of None \<Rightarrow> [] | Some s \<Rightarrow> [sn_api_version s])
                       @ (case s2 of None \<Rightarrow> [] | Some s \<Rightarrow> [sn_api_version s])
      in case versions of [] \<Rightarrow> None | v # vs \<Rightarrow> if \<forall>x\<in>set vs. x = v then Some v else None)"

definition build_version_manifest ::
  "report_output \<Rightarrow> report_spec option \<Rightarrow> simulation option \<Rightarrow> simulation option \<Rightarrow> version_manifest" where
  "build_version_manifest ro spec s1 s2 field =
     (if field = ''country_package_version'' then derive_country_package_version s1 s2
      else if field = ''report_cache_version'' then Some (ro_api_version ro)
      else if field = ''resolved_dataset''
      then (case spec of
              Some sp \<Rightarrow> if spec_report_kind sp \<in> set ECONOMY_REPORT_KINDS then spec_dataset sp else None
            | None \<Rightarrow> None)
      else None)"

definition report_spec_status :: "report_spec \<Rightarrow> string" where
  "report_spec_status spec =
     (if spec_report_kind spec \<in> set ECONOMY_REPORT_KINDS then ''backfilled_assumed'' else ''explicit'')"

definition snapshot_of :: "report_spec option \<Rightarrow> json" where
  "snapshot_of spec = (case spec of None \<Rightarrow> JNull | Some s \<Rightarrow> report_spec_dump s)"

definition upsert_report_spec ::
  "report_output \<Rightarrow> simulation option \<Rightarrow> simulation option \<Rightarrow> report_output \<times> report_spec option" where
  "upsert_report_spec ro s1 s2 =
     (case s1 of
        None \<Rightarrow> (ro, None)
      | Some s \<Rightarrow>
          (case build_report_spec ro s s2 default_economy_settings of
             Inl e \<Rightarrow> (ro, None)
           | Inr spec \<Rightarrow>
               (ro\<lparr>ro_report_kind := Some (spec_report_kind spec), ro_spec_json := report_spec_dump spec,
                   ro_spec_schema_version := Some 1, ro_spec_status := Some (report_spec_status spec)\<rparr>,
                Some spec)))"

definition run_matches_parent ::
  "report_run \<Rightarrow> report_output \<Rightarrow> report_spec option \<Rightarrow> version_manifest \<Rightarrow> bool" where
  "run_matches_parent run ro spec manifest \<longleftrightarrow>
     matches_report_result run ro \<and> json_eq (rr_spec_snapshot_json run) (snapshot_of spec)
     \<and> (\<forall>f\<in>set REPORT_RUN_VERSION_FIELDS. rr_versions run f = manifest f)"

definition stamp_or :: "datetime option \<Rightarrow> datetime option \<Rightarrow> datetime option" where
  "stamp_or a b = (case a of None \<Rightarrow> b | Some t \<Rightarrow> Some t)"

definition with_parent_timestamps :: "datetime \<Rightarrow> string \<Rightarrow> bool \<Rightarrow> report_run \<Rightarrow> report_run" where
  "with_parent_timestamps now status preserve_finished run =
     (let requested = stamp_or (rr_requested_at run)
            (stamp_or (rr_started_at run) (stamp_or (rr_finished_at run) (Some now)))
      in if terminal_status status
         then run\<lparr>rr_requested_at := requested,
                  rr_started_at := stamp_or (rr_started_at run)
                    (stamp_or (rr_finished_at run) (stamp_or requested (Some now))),
                  rr_finished_at := (if \<not> preserve_finished \<or> rr_finished_at run = None then Some now
                                     else rr_finished_at run)\<rparr>
         else if status = ''running''
         then run\<lparr>rr_requested_at := requested,
                  rr_started_at := stamp_or (rr_started_at run) (stamp_or requested (Some now)),
                  rr_finished_at := None\<rparr>
         else run\<lparr>rr_requested_at := requested, rr_started_at := None, rr_finished_at := None\<rparr>)"

definition update_run_from_parent ::
  "datetime \<Rightarrow> report_output \<Rightarrow> report_spec option \<Rightarrow> version_manifest \<Rightarrow> bool \<Rightarrow> report_run \<Rightarrow> report_run" where
  "update_run_from_parent now ro spec manifest preserve_finished run =
     (with_parent_timestamps now (ro_status ro) preserve_finished run)
       \<lparr>rr_status := ro_status ro, rr_output := ro_output ro, rr_error_message := ro_error_message ro,
        rr_spec_snapshot_json := snapshot_of spec,
        rr_versions := (\<lambda>f. if f \<in> set REPORT_RUN_VERSION_FIELDS then manifest f else rr_versions run f)\<rparr>"

definition sync_parent_pointers :: "report_run list \<Rightarrow> report_output \<Rightarrow> report_output" where
  "sync_parent_pointers runs ro =
     (let newest = map_option rr_id (first_run runs);
          successful = map_option rr_id (List.find (\<lambda>r. rr_status r = ''complete'') runs)
      in ro\<lparr>ro_active_run_id := (if active_status (ro_status ro) then newest else None),
            ro_latest_successful_run_id :=
              (if ro_status ro = ''complete'' \<and> successful = None then newest else successful)\<rparr>)"

section \<open>Keeping the history in step\<close>

definition select_report_output :: "v1_db \<Rightarrow> int \<Rightarrow> string option \<Rightarrow> report_output option" where
  "select_report_output db report_output_id country_id =
     List.find (\<lambda>r. ro_id r = report_output_id
                  \<and> (case country_id of None \<Rightarrow> True | Some c \<Rightarrow> ro_country_id r = c)) (db_reports db)"

text \<open>A linked simulation, its own history brought up to date; None when it is missing.\<close>

definition bootstrapped_simulation :: "v1_env \<Rightarrow> string \<Rightarrow> int \<Rightarrow> v1_db \<Rightarrow> simulation option \<times> v1_db" where
  "bootstrapped_simulation env country_id simulation_id db =
     (case ensure_simulation_dual_write_state env simulation_id (Some country_id) db of
        (Inr s, db') \<Rightarrow> (Some s, db') | (Inl e, db') \<Rightarrow> (None, db'))"

text \<open>\<open>_get_linked_simulations\<close>, with its ValueError for a missing simulation caught as both callers do.\<close>

definition linked_simulations ::
  "v1_env \<Rightarrow> report_output \<Rightarrow> v1_db \<Rightarrow> (simulation option \<times> simulation option) \<times> v1_db" where
  "linked_simulations env ro db =
     (case bootstrapped_simulation env (ro_country_id ro) (ro_simulation_1_id ro) db of
        (None, db1) \<Rightarrow> ((None, None), db1)
      | (Some s1, db1) \<Rightarrow>
          (case ro_simulation_2_id ro of
             None \<Rightarrow> ((Some s1, None), db1)
           | Some i \<Rightarrow>
               (case bootstrapped_simulation env (ro_country_id ro) i db1 of
                  (None, db2) \<Rightarrow> ((None, None), db2)
                | (Some s2, db2) \<Rightarrow>
                    ((List.find (\<lambda>s. sn_id s = sn_id s1) (db_simulations db2), Some s2), db2))))"

definition initial_report_run :: "report_output \<Rightarrow> report_spec option \<Rightarrow> version_manifest \<Rightarrow> new_report_run" where
  "initial_report_run ro spec manifest =
     \<lparr>np_status = ro_status ro, np_trigger_type = ''initial'', np_output = ro_output ro,
      np_error_message = ro_error_message ro, np_source_run_id = None, np_spec_snapshot = snapshot_of spec,
      np_version_manifest = manifest, np_run_id = None\<rparr>"

definition mirror_into_run ::
  "v1_env \<Rightarrow> report_output \<Rightarrow> report_spec option \<Rightarrow> version_manifest \<Rightarrow> v1_db \<Rightarrow> v1_db" where
  "mirror_into_run env ro spec manifest db =
     (case select_mutable_run ro (list_runs_descending db (ro_id ro)) of
        None \<Rightarrow> db
      | Some run \<Rightarrow>
          if \<not> run_matches_parent run ro spec manifest \<or> run_needs_timestamp_sync run (ro_status ro)
          then db\<lparr>db_report_runs := put_row rr_id
                    (update_run_from_parent (ve_now env db) ro spec manifest (matches_report_result run ro) run)
                    (db_report_runs db)\<rparr>
          else db)"

definition ensure_report_output_dual_write_state ::
  "v1_env \<Rightarrow> int \<Rightarrow> string option \<Rightarrow> (v1_db, report_output) act" where
  "ensure_report_output_dual_write_state env report_output_id country_id db =
     (case select_report_output db report_output_id country_id of
        None \<Rightarrow> (Inl (ValueError (''Report output #'' @ show_int report_output_id @ '' not found'')), db)
      | Some ro \<Rightarrow>
          (let ((s1, s2), db1) = linked_simulations env ro db;
               (ro1, spec) = upsert_report_spec ro s1 s2;
               manifest = build_version_manifest ro1 spec s1 s2;
               db2 = (if list_runs_descending db1 (ro_id ro1) = []
                      then snd (create_report_output_run env (ro_id ro1)
                                  (Some (initial_report_run ro1 spec manifest)) db1)
                      else mirror_into_run env ro1 spec manifest db1);
               ro2 = sync_parent_pointers (list_runs_descending db2 (ro_id ro1)) ro1
           in (Inr ro2, db2\<lparr>db_reports := put_row ro_id ro2 (db_reports db2)\<rparr>)))"

end
