(* ===== verification/Report_Outputs.thy ===== *)
theory Report_Outputs
  imports Report_History
begin

text \<open>
  \<open>policyengine_api/services/report_output_service.py\<close> and the response bodies of
  \<open>routes/report_output_routes.py\<close>: creating, resolving and updating v1 reports. A report
  stored under an outdated cache version is served, and updated, as the current report of
  the same simulations and year.
\<close>

section \<open>Canonical SPM output\<close>

definition canonicalize_annual_spm_output ::
  "spm_install \<Rightarrow> (string \<times> json) list \<Rightarrow> string option \<Rightarrow> json result" where
  "canonicalize_annual_spm_output inst output expected_year =
     (if map_of output ''spm_config'' \<noteq> None
      then Inl (ValueError ''Completed US economy output must not include legacy spm_config'')
      else case map_of output ''spm_provenance'' of
        None \<Rightarrow> Inl (ValueError ''Completed US economy output requires SPM provenance'')
      | Some v \<Rightarrow>
          res_bind (validate_comparison inst v) (\<lambda>comparison.
            if (case expected_year of
                  None \<Rightarrow> False
                | Some y \<Rightarrow> y \<notin> set (pv_years (ep_receipt (cp_baseline comparison)))
                          \<or> y \<notin> set (pv_years (ep_receipt (cp_reform comparison))))
            then Inl (ValueError ''SPM receipt does not cover the report year'')
            else Inr (JObj (AList.update ''spm_provenance'' (comparison_dump comparison) output))))"

fun canonical_rows :: "spm_install \<Rightarrow> json list \<Rightarrow> json list result" where
  "canonical_rows inst [] = Inr []"
| "canonical_rows inst (JObj row # rows) =
     res_bind (canonicalize_annual_spm_output inst row
                 (case dict_get_none row ''year'' of JNull \<Rightarrow> None | y \<Rightarrow> Some (py_str y)))
       (\<lambda>r. res_bind (canonical_rows inst rows) (\<lambda>rs. Inr (r # rs)))"
| "canonical_rows inst (v # rows) =
     Inl (TypeErr ''SPM budget-window output requires annual impact objects'')"

definition canonicalize_society_wide_spm_output ::
  "spm_install \<Rightarrow> json \<Rightarrow> string option \<Rightarrow> json result" where
  "canonicalize_society_wide_spm_output inst output expected_year =
     (case output of
        JObj d \<Rightarrow>
          if map_of d ''kind'' \<noteq> Some (JStr ''budgetWindow'')
          then canonicalize_annual_spm_output inst d expected_year
          else (case map_of d ''annualImpacts'' of
                  Some (JArr rows) \<Rightarrow>
                    res_bind (canonical_rows inst rows) (\<lambda>rs. Inr (JObj (AList.update ''annualImpacts'' (JArr rs) d)))
                | _ \<Rightarrow> Inl (TypeErr ''SPM budget-window output requires annual impact objects''))
      | _ \<Rightarrow> Inr output)"

section \<open>Views\<close>

record report_view =
  vw_report_output :: report_output
  vw_display_run :: "report_run option"
  vw_response_id :: "int option"

definition build_view :: "report_output \<Rightarrow> int option \<Rightarrow> (v1_db, report_view) act" where
  "build_view ro response_id db =
     (Inr \<lparr>vw_report_output = ro, vw_display_run = select_display_run db ro, vw_response_id = response_id\<rparr>, db)"

section \<open>Selections\<close>

text \<open>The cache version is asked for in every query, so a country whose version cannot be built raises.\<close>

definition cache_version :: "v1_env \<Rightarrow> string \<Rightarrow> string result" where
  "cache_version env country_id = get_report_output_cache_version (ve_versions env) country_id"

definition find_existing_report_output ::
  "v1_env \<Rightarrow> string \<Rightarrow> int \<Rightarrow> int option \<Rightarrow> string option \<Rightarrow> (v1_db, report_output option) act" where
  "find_existing_report_output env country_id simulation_1_id simulation_2_id year =
     bindA (liftA (cache_version env country_id)) (\<lambda>version db.
       (Inr (case latest_first ro_id (filter (\<lambda>r. ro_country_id r = country_id
                 \<and> ro_simulation_1_id r = simulation_1_id \<and> ro_simulation_2_id r = simulation_2_id
                 \<and> ro_year r = year \<and> ro_api_version r = version) (db_reports db)) of
               [] \<Rightarrow> None | r # rs \<Rightarrow> Some r), db))"

definition require_simulation :: "string \<Rightarrow> int \<Rightarrow> (v1_db, simulation) act" where
  "require_simulation country_id simulation_id db =
     (case select_simulation db simulation_id (Some country_id) of
        None \<Rightarrow> (Inl (missing_simulation simulation_id), db) | Some s \<Rightarrow> (Inr s, db))"

definition is_current_report_output :: "v1_env \<Rightarrow> report_output \<Rightarrow> (v1_db, bool) act" where
  "is_current_report_output env ro =
     bindA (liftA (cache_version env (ro_country_id ro))) (\<lambda>version. retA (ro_api_version ro = version))"

section \<open>Creating reports\<close>

definition new_report ::
  "int \<Rightarrow> string \<Rightarrow> string \<Rightarrow> int \<Rightarrow> int option \<Rightarrow> string option \<Rightarrow> report_output" where
  "new_report i version country_id simulation_1_id simulation_2_id year =
     \<lparr>ro_id = i, ro_country_id = country_id, ro_simulation_1_id = simulation_1_id,
      ro_simulation_2_id = simulation_2_id, ro_api_version = version, ro_status = ''pending'',
      ro_output = JNull, ro_error_message = None, ro_year = year, ro_report_kind = None,
      ro_spec_json = JNull, ro_spec_schema_version = None, ro_spec_status = None,
      ro_active_run_id = None, ro_latest_successful_run_id = None\<rparr>"

definition insert_report ::
  "v1_env \<Rightarrow> string \<Rightarrow> string \<Rightarrow> int \<Rightarrow> int option \<Rightarrow> string option \<Rightarrow> (v1_db, report_output) act" where
  "insert_report env version country_id simulation_1_id simulation_2_id year db =
     (let ro = new_report (db_next_report db) version country_id simulation_1_id simulation_2_id year
      in ensure_report_output_dual_write_state env (ro_id ro) (Some country_id)
           (db\<lparr>db_reports := db_reports db @ [ro], db_next_report := db_next_report db + 1\<rparr>))"

definition create_report_output ::
  "v1_env \<Rightarrow> string \<Rightarrow> int \<Rightarrow> int option \<Rightarrow> string option \<Rightarrow> (v1_db, report_output) act" where
  "create_report_output env country_id simulation_1_id simulation_2_id year =
     bindA (find_existing_report_output env country_id simulation_1_id simulation_2_id year) (\<lambda>existing.
       case existing of
         Some ro \<Rightarrow> ensure_report_output_dual_write_state env (ro_id ro) (Some country_id)
       | None \<Rightarrow>
           bindA (require_simulation country_id simulation_1_id) (\<lambda>s1.
           bindA (case simulation_2_id of None \<Rightarrow> retA () | Some i \<Rightarrow> bindA (require_simulation country_id i) (\<lambda>s. retA ()))
             (\<lambda>u.
           bindA (liftA (cache_version env country_id)) (\<lambda>version.
             insert_report env version country_id simulation_1_id simulation_2_id year))))"

definition get_or_create_current_report_output ::
  "v1_env \<Rightarrow> report_output \<Rightarrow> (v1_db, report_output) act" where
  "get_or_create_current_report_output env ro =
     bindA (find_existing_report_output env (ro_country_id ro) (ro_simulation_1_id ro) (ro_simulation_2_id ro)
              (ro_year ro)) (\<lambda>existing.
       case existing of
         Some current \<Rightarrow> ensure_report_output_dual_write_state env (ro_id current) (Some (ro_country_id ro))
       | None \<Rightarrow> create_report_output env (ro_country_id ro) (ro_simulation_1_id ro) (ro_simulation_2_id ro)
                   (ro_year ro))"

definition create_or_reuse_report_output ::
  "v1_env \<Rightarrow> string \<Rightarrow> int \<Rightarrow> int option \<Rightarrow> string \<Rightarrow> (v1_db, report_view \<times> bool) act" where
  "create_or_reuse_report_output env country_id simulation_1_id simulation_2_id year =
     transaction
       (bindA (find_existing_report_output env country_id simulation_1_id simulation_2_id (Some year)) (\<lambda>existing.
        bindA (case existing of
                 None \<Rightarrow> create_report_output env country_id simulation_1_id simulation_2_id (Some year)
               | Some ro \<Rightarrow> ensure_report_output_dual_write_state env (ro_id ro) (Some country_id)) (\<lambda>ro.
        bindA (build_view ro None) (\<lambda>view. retA (view, existing = None)))))"

section \<open>Resolving a report\<close>

definition invalid_report_id :: "int \<Rightarrow> exn" where
  "invalid_report_id i =
     InvalidIdErr (''Invalid report output ID: '' @ show_int i @ ''. Must be a positive integer.'')"

definition resolve_report_output :: "v1_env \<Rightarrow> string \<Rightarrow> int \<Rightarrow> (v1_db, report_view option) act" where
  "resolve_report_output env country_id report_output_id =
     (if report_output_id < 0 then raiseA (invalid_report_id report_output_id)
      else transaction (\<lambda>db.
        case select_report_output db report_output_id (Some country_id) of
          None \<Rightarrow> (Inr None, db)
        | Some requested \<Rightarrow>
            bindA (is_current_report_output env requested) (\<lambda>current.
              if current
              then bindA (ensure_report_output_dual_write_state env report_output_id (Some country_id)) (\<lambda>ro.
                   bindA (build_view ro None) (\<lambda>view. retA (Some view)))
              else bindA (get_or_create_current_report_output env requested) (\<lambda>ro.
                   bindA (build_view ro (Some report_output_id)) (\<lambda>view. retA (Some view)))) db))"

section \<open>Updating a report\<close>

definition with_report_values ::
  "string option \<Rightarrow> json option \<Rightarrow> string option \<Rightarrow> report_output \<Rightarrow> report_output" where
  "with_report_values status output error_text ro =
     ro\<lparr>ro_status := (case status of None \<Rightarrow> ro_status ro | Some v \<Rightarrow> v),
        ro_output := (case output of None \<Rightarrow> ro_output ro | Some v \<Rightarrow> v),
        ro_error_message := (case error_text of None \<Rightarrow> ro_error_message ro | Some v \<Rightarrow> Some v)\<rparr>"

text \<open>The output a completed US economy report stores: its effective output with canonical SPM receipts.\<close>

definition stored_output ::
  "spm_install \<Rightarrow> report_output \<Rightarrow> string option \<Rightarrow> json option \<Rightarrow> json option result" where
  "stored_output inst ro status output =
     (let effective_status = (case status of None \<Rightarrow> ro_status ro | Some v \<Rightarrow> v);
          effective_output = (case output of None \<Rightarrow> ro_output ro | Some v \<Rightarrow> v)
      in if effective_status = ''complete'' \<and> ro_country_id ro = ''us''
            \<and> (case ro_report_kind ro of None \<Rightarrow> False | Some k \<Rightarrow> k \<in> set ECONOMY_REPORT_KINDS)
         then (case canonicalize_society_wide_spm_output inst effective_output (ro_year ro) of
                 Inr v \<Rightarrow> Inr (Some v)
               | Inl e \<Rightarrow>
                   Inl (ValueError (''Completed US economy report has invalid SPM provenance: '' @ error_message e)))
         else Inr output)"

definition write_report_values ::
  "v1_env \<Rightarrow> report_output \<Rightarrow> string option \<Rightarrow> json option \<Rightarrow> string option \<Rightarrow> (v1_db, report_output) act" where
  "write_report_values env ro status output error_text db =
     (if status = Some ''running'' \<and> \<not> has_mutable_running_run ro (list_runs_descending db (ro_id ro))
      then (Inl (ValueError
             ''Cannot mark report output running without an active pending or running report run''), db)
      else case stored_output (ve_install env) ro status output of
        Inl e \<Rightarrow> (Inl e, db)
      | Inr stored \<Rightarrow>
          ensure_report_output_dual_write_state env (ro_id ro) (Some (ro_country_id ro))
            (db\<lparr>db_reports := put_row ro_id (with_report_values status stored error_text ro) (db_reports db)\<rparr>))"

definition update_selected_report ::
  "v1_env \<Rightarrow> string \<Rightarrow> int \<Rightarrow> string option \<Rightarrow> json option \<Rightarrow> string option \<Rightarrow> (v1_db, report_view) act" where
  "update_selected_report env country_id report_id status output error_text db =
     (case select_report_output db report_id (Some country_id) of
        None \<Rightarrow> (Inl (LookupErr (''Report output #'' @ show_int report_id @ '' not found'')), db)
      | Some ro \<Rightarrow>
          bindA (is_current_report_output env ro) (\<lambda>current.
          bindA (if current then retA ro else get_or_create_current_report_output env ro) (\<lambda>target.
          bindA (write_report_values env target status output error_text) (\<lambda>updated.
            build_view updated (if current then None else Some (ro_id ro))))) db)"

definition update_report_output ::
  "v1_env \<Rightarrow> string \<Rightarrow> int \<Rightarrow> string option \<Rightarrow> json option \<Rightarrow> string option
     \<Rightarrow> (v1_db, report_view option) act" where
  "update_report_output env country_id report_id status output error_text =
     (if status = None \<and> output = None \<and> error_text = None then retA None
      else bindA (liftA (decoded_output output)) (\<lambda>decoded.
           bindA (transaction (update_selected_report env country_id report_id status decoded error_text))
             (\<lambda>view. retA (Some view))))"

section \<open>Response bodies\<close>

text \<open>The columns of a report in their order; a JSON column that holds no text is served as its text.\<close>

definition report_columns :: "report_output \<Rightarrow> (string \<times> json) list" where
  "report_columns ro =
     [(''id'', JInt (ro_id ro)), (''country_id'', JStr (ro_country_id ro)),
      (''simulation_1_id'', JInt (ro_simulation_1_id ro)), (''simulation_2_id'', opt_int (ro_simulation_2_id ro)),
      (''api_version'', JStr (ro_api_version ro)), (''status'', JStr (ro_status ro)), (''output'', ro_output ro),
      (''error_message'', opt_str (ro_error_message ro)), (''year'', opt_str (ro_year ro)),
      (''report_kind'', opt_str (ro_report_kind ro)), (''report_spec_json'', ro_spec_json ro),
      (''report_spec_schema_version'', opt_int (ro_spec_schema_version ro)),
      (''report_spec_status'', opt_str (ro_spec_status ro)), (''active_run_id'', opt_str (ro_active_run_id ro)),
      (''latest_successful_run_id'', opt_str (ro_latest_successful_run_id ro))]"

definition served_json :: "json \<Rightarrow> json" where
  "served_json v = (case v of JNull \<Rightarrow> JNull | JStr s \<Rightarrow> JStr s | _ \<Rightarrow> JStr (dumps_default v))"

definition serialize_v1_report_output :: "report_view \<Rightarrow> (string \<times> json) list" where
  "serialize_v1_report_output view =
     (let columns = report_columns (vw_report_output view);
          named = (case vw_response_id view of None \<Rightarrow> columns | Some i \<Rightarrow> AList.update ''id'' (JInt i) columns);
          served = AList.update ''output'' (served_json (ro_output (vw_report_output view))) named
      in case vw_display_run view of
           None \<Rightarrow> served
         | Some run \<Rightarrow>
             served @ [(''requested_at'', opt_str (format_run_timestamp (rr_requested_at run))),
                       (''started_at'', opt_str (format_run_timestamp (rr_started_at run))),
                       (''finished_at'', opt_str (format_run_timestamp (rr_finished_at run)))])"

definition serialize_v1_simulation :: "simulation \<Rightarrow> (string \<times> json) list" where
  "serialize_v1_simulation s =
     [(''id'', JInt (sn_id s)), (''country_id'', JStr (sn_country_id s)), (''api_version'', JStr (sn_api_version s)),
      (''population_id'', JStr (sn_population_id s)), (''population_type'', JStr (sn_population_type s)),
      (''policy_id'', JInt (sn_policy_id s)), (''status'', JStr (sn_status s)),
      (''output'', served_json (sn_output s)), (''error_message'', opt_str (sn_error_message s)),
      (''simulation_spec_json'', served_json (sn_spec_json s)),
      (''simulation_spec_schema_version'', opt_int (sn_spec_schema_version s)),
      (''active_run_id'', opt_str (sn_active_run_id s)),
      (''latest_successful_run_id'', opt_str (sn_latest_successful_run_id s))]"

end
