(* ===== verification/Simulation_Invariants.thy ===== *)
theory Simulation_Invariants
  imports Simulation_History
begin

text \<open>
  What the simulation service keeps: every simulation has one run, which mirrors it, its
  pointers name that run exactly when its status says so, and no two simulations are of the
  same population and policy. Each operation is shown to keep it, and a repeated request to
  change nothing.
\<close>

section \<open>The invariant of the simulations\<close>

text \<open>A run that mirrors its simulation, and a simulation whose whole history is that run.\<close>

definition runs_of :: "v1_db \<Rightarrow> int \<Rightarrow> simulation_run list" where
  "runs_of db i = filter (\<lambda>r. sr_simulation_id r = i) (db_simulation_runs db)"

definition mirrors_simulation :: "simulation \<Rightarrow> simulation_run \<Rightarrow> bool" where
  "mirrors_simulation s r \<longleftrightarrow>
     sr_run_sequence r = 1 \<and> sr_status r = sn_status s \<and> sr_output r = sn_output s
     \<and> sr_error_message r = sn_error_message s \<and> sr_spec_snapshot_json r = simulation_spec_json s
     \<and> sr_versions r ''country_package_version'' = Some (sn_api_version s)"

definition simulation_ok :: "spm_install \<Rightarrow> v1_db \<Rightarrow> simulation \<Rightarrow> bool" where
  "simulation_ok inst db s \<longleftrightarrow>
     (\<exists>r. runs_of db (sn_id s) = [r] \<and> mirrors_simulation s r
        \<and> sn_active_run_id s = (if active_status (sn_status s) then Some (sr_id r) else None)
        \<and> sn_latest_successful_run_id s = (if sn_status s = ''complete'' then Some (sr_id r) else None))
     \<and> sn_spec_json s = simulation_spec_json s \<and> sn_spec_schema_version s = Some 1
     \<and> \<not> has_stale_spm_output inst (sn_output s)"

definition simulation_key :: "simulation \<Rightarrow> string \<times> string \<times> string \<times> int" where
  "simulation_key s =
     (sn_country_id s, population_identity (sn_country_id s) (sn_population_id s) (sn_population_type s),
      sn_population_type s, sn_policy_id s)"

text \<open>The part of the invariant that does not look into histories, and the whole of it.\<close>

definition simulation_frame :: "v1_env \<Rightarrow> v1_db \<Rightarrow> bool" where
  "simulation_frame env db \<longleftrightarrow>
     distinct (map sn_id (db_simulations db)) \<and> distinct (map sr_id (db_simulation_runs db))
     \<and> (\<forall>s\<in>set (db_simulations db). sn_id s < db_next_simulation db)
     \<and> (\<forall>r\<in>set (db_simulation_runs db). \<exists>k<db_draws db. sr_id r = ve_uuid env k)
     \<and> (\<forall>r\<in>set (db_simulation_runs db). sr_simulation_id r < db_next_simulation db)
     \<and> inj_on simulation_key (set (db_simulations db))"

text \<open>
  The same without the uniqueness of populations, which older rows of two spellings of one
  population do not have.
\<close>

definition simulation_rows :: "v1_env \<Rightarrow> v1_db \<Rightarrow> bool" where
  "simulation_rows env db \<longleftrightarrow>
     distinct (map sn_id (db_simulations db)) \<and> distinct (map sr_id (db_simulation_runs db))
     \<and> (\<forall>s\<in>set (db_simulations db). sn_id s < db_next_simulation db)
     \<and> (\<forall>r\<in>set (db_simulation_runs db). \<exists>k<db_draws db. sr_id r = ve_uuid env k)
     \<and> (\<forall>r\<in>set (db_simulation_runs db). sr_simulation_id r < db_next_simulation db)"

definition histories_ok :: "v1_env \<Rightarrow> v1_db \<Rightarrow> bool" where
  "histories_ok env db \<longleftrightarrow>
     simulation_rows env db \<and> (\<forall>s\<in>set (db_simulations db). simulation_ok (ve_install env) db s)"

lemma simulation_frame_rows:
  "simulation_frame env db \<longleftrightarrow> simulation_rows env db \<and> inj_on simulation_key (set (db_simulations db))"
  by (auto simp: simulation_frame_def simulation_rows_def)

definition simulations_ok :: "v1_env \<Rightarrow> v1_db \<Rightarrow> bool" where
  "simulations_ok env db \<longleftrightarrow>
     simulation_frame env db \<and> (\<forall>s\<in>set (db_simulations db). simulation_ok (ve_install env) db s)"

lemma simulations_ok_histories:
  "simulations_ok env db \<longleftrightarrow> histories_ok env db \<and> inj_on simulation_key (set (db_simulations db))"
  by (auto simp: simulations_ok_def histories_ok_def simulation_frame_rows)

text \<open>A simulation the services are writing: all others are in order, and it has at most one run.\<close>

definition simulation_being_written :: "v1_env \<Rightarrow> v1_db \<Rightarrow> int \<Rightarrow> bool" where
  "simulation_being_written env db i \<longleftrightarrow>
     simulation_frame env db
     \<and> (\<forall>s\<in>set (db_simulations db). sn_id s \<noteq> i \<longrightarrow> simulation_ok (ve_install env) db s)
     \<and> (runs_of db i = [] \<or> (\<exists>r. runs_of db i = [r] \<and> sr_run_sequence r = 1))"

lemma simulation_runs_eq: "simulation_runs db i = latest_first sr_run_sequence (runs_of db i)"
  by (simp add: simulation_runs_def runs_of_def)

lemma select_simulation_SomeD:
  "select_simulation db i c = Some s \<Longrightarrow> s \<in> set (db_simulations db) \<and> sn_id s = i \<and> (\<forall>x. c = Some x \<longrightarrow> sn_country_id s = x)"
  unfolding select_simulation_def by (drule find_mem) (auto split: option.splits)

lemma stale_JNull [simp]: "\<not> has_stale_spm_output inst JNull"
  by (simp add: has_stale_spm_output_def)

lemma with_current_spec_simps [simp]:
  "sn_id (with_current_spec inst s) = sn_id s"
  "sn_country_id (with_current_spec inst s) = sn_country_id s"
  "sn_api_version (with_current_spec inst s) = sn_api_version s"
  "simulation_key (with_current_spec inst s) = simulation_key s"
  "simulation_spec_json (with_current_spec inst s) = simulation_spec_json s"
  "sn_spec_json (with_current_spec inst s) = simulation_spec_json s"
  "sn_spec_schema_version (with_current_spec inst s) = Some 1"
  "\<not> has_stale_spm_output inst (sn_output (with_current_spec inst s))"
  by (simp_all add: with_current_spec_def simulation_key_def simulation_spec_json_def Let_def)

lemma with_run_pointers_simps [simp]:
  "sn_id (with_run_pointers runs s) = sn_id s"
  "sn_status (with_run_pointers runs s) = sn_status s"
  "sn_output (with_run_pointers runs s) = sn_output s"
  "sn_error_message (with_run_pointers runs s) = sn_error_message s"
  "sn_country_id (with_run_pointers runs s) = sn_country_id s"
  "sn_spec_json (with_run_pointers runs s) = sn_spec_json s"
  "sn_spec_schema_version (with_run_pointers runs s) = sn_spec_schema_version s"
  "simulation_key (with_run_pointers runs s) = simulation_key s"
  "simulation_spec_json (with_run_pointers runs s) = simulation_spec_json s"
  "mirrors_simulation (with_run_pointers runs s) r = mirrors_simulation s r"
  by (simp_all add: with_run_pointers_def simulation_key_def simulation_spec_json_def mirrors_simulation_def)

lemma runs_of_cong [simp]: "runs_of (db\<lparr>db_simulations := x\<rparr>) i = runs_of db i"
  by (simp add: runs_of_def)

text \<open>After synchronising, the simulation's only run mirrors it and the other histories are as before.\<close>

lemma sync_simulation_runs:
  assumes "simulation_rows env db
      \<and> (runs_of db (sn_id s) = [] \<or> (\<exists>r. runs_of db (sn_id s) = [r] \<and> sr_run_sequence r = 1))"
    and "inj (ve_uuid env)" and "sn_spec_json s = simulation_spec_json s" and "sn_id s < db_next_simulation db"
    and "db' = sync_simulation_runs env s db"
  shows "\<exists>r. runs_of db' (sn_id s) = [r] \<and> mirrors_simulation s r"
    and "\<And>j. j \<noteq> sn_id s \<Longrightarrow> runs_of db' j = runs_of db j"
    and "simulation_rows env db'" and "db_simulations db' = db_simulations db"
proof -
  have frame: "simulation_rows env db" using assms(1) by simp
  let ?new = "initial_simulation_run (ve_uuid env (db_draws db)) s"
  have new: "mirrors_simulation s ?new"
    using assms(3) by (simp add: mirrors_simulation_def initial_simulation_run_def)
  have fresh: "ve_uuid env (db_draws db) \<notin> sr_id ` set (db_simulation_runs db)"
    using frame assms(2) unfolding simulation_rows_def inj_def
    by (metis (no_types, lifting) imageE less_irrefl)
  note cases = assms(1) [THEN conjunct2]
  have all: "(\<exists>r. runs_of db' (sn_id s) = [r] \<and> mirrors_simulation s r)
     \<and> (\<forall>j. j \<noteq> sn_id s \<longrightarrow> runs_of db' j = runs_of db j) \<and> simulation_rows env db'
     \<and> db_simulations db' = db_simulations db"
    using cases
  proof
    assume e: "runs_of db (sn_id s) = []"
    then have d: "db' = db\<lparr>db_simulation_runs := db_simulation_runs db @ [?new], db_draws := Suc (db_draws db)\<rparr>"
      by (simp add: assms(5) sync_simulation_runs_def simulation_runs_eq Let_def)
    have "simulation_rows env db'"
      using frame fresh assms(4) unfolding d simulation_rows_def
      by (auto simp: initial_simulation_run_def) (meson less_SucI)
    with e new show ?thesis
      by (auto simp: d runs_of_def) (simp_all add: initial_simulation_run_def)
  next
    assume "\<exists>r. runs_of db (sn_id s) = [r] \<and> sr_run_sequence r = 1"
    then obtain r where r: "runs_of db (sn_id s) = [r]" "sr_run_sequence r = 1" by blast
    let ?r = "mirrored_simulation_run s r"
    have keep: "sr_id ?r = sr_id r" "sr_simulation_id ?r = sr_simulation_id r" "sr_run_sequence ?r = 1"
      using r(2) by (simp_all add: mirrored_simulation_run_def)
    have m: "mirrors_simulation s ?r"
      using r(2) assms(3) by (simp add: mirrors_simulation_def mirrored_simulation_run_def)
    have mutable: "mutable_simulation_run s [r] = r" by (simp add: mutable_simulation_run_def)
    from r have d: "db' = db\<lparr>db_simulation_runs := put_row sr_id ?r (db_simulation_runs db)\<rparr>"
      by (simp add: assms(5) sync_simulation_runs_def simulation_runs_eq Let_def mutable)
    have mem: "r \<in> set (db_simulation_runs db)" and sid: "sr_simulation_id r = sn_id s"
      using filter_singleD [OF r(1) [unfolded runs_of_def]] by auto
    have only: "x = r" if "x \<in> set (db_simulation_runs db)" "sr_id x = sr_id r" for x
      using frame that mem unfolding simulation_rows_def by (metis distinct_map inj_onD)
    have "runs_of db' (sn_id s) = put_row sr_id ?r (runs_of db (sn_id s))"
      unfolding runs_of_def d by (simp, rule filter_put_row) (use only keep in auto)
    then have 1: "runs_of db' (sn_id s) = [?r]" by (simp add: r(1) put_row_def keep)
    have 2: "runs_of db' j = runs_of db j" if "j \<noteq> sn_id s" for j
      unfolding runs_of_def d by (simp, rule filter_put_other) (use only keep sid that in auto)
    have "set (db_simulation_runs db') = insert ?r {x \<in> set (db_simulation_runs db). sr_id x \<noteq> sr_id r}"
      unfolding d using set_put_row [of sr_id ?r "db_simulation_runs db"] keep mem by auto
    then have "simulation_rows env db'"
      using frame mem keep unfolding simulation_rows_def by (auto simp: d)
    with 1 2 m show ?thesis by (auto simp: d)
  qed
  show "\<exists>r. runs_of db' (sn_id s) = [r] \<and> mirrors_simulation s r"
    "\<And>j. j \<noteq> sn_id s \<Longrightarrow> runs_of db' j = runs_of db j"
    "simulation_rows env db'" "db_simulations db' = db_simulations db"
    using all by blast+
qed

lemma ensure_simulation_rows:
  assumes "simulation_rows env db" and "inj (ve_uuid env)"
    and "\<forall>t\<in>set (db_simulations db). sn_id t \<noteq> i \<longrightarrow> simulation_ok (ve_install env) db t"
    and "runs_of db i = [] \<or> (\<exists>r. runs_of db i = [r] \<and> sr_run_sequence r = 1)"
    and "select_simulation db i c = Some s"
  obtains s' db' where "ensure_simulation_dual_write_state env i c db = (Inr s', db')"
    and "histories_ok env db'"
    and "set (db_simulations db') = insert s' {x \<in> set (db_simulations db). sn_id x \<noteq> i}" and "sn_id s' = i"
    and "sn_country_id s' = sn_country_id s" and "simulation_key s' = simulation_key s"
    and "db_next_simulation db' = db_next_simulation db" and "db_draws db \<le> db_draws db'"
    and "\<not> has_stale_spm_output (ve_install env) (sn_output s) \<Longrightarrow>
      sn_status s' = sn_status s \<and> sn_output s' = sn_output s \<and> sn_error_message s' = sn_error_message s"
proof -
  let ?s1 = "with_current_spec (ve_install env) s"
  define db1 where "db1 = sync_simulation_runs env ?s1 db"
  define s2 where "s2 = with_run_pointers (simulation_runs db1 i) ?s1"
  have s: "s \<in> set (db_simulations db)" "sn_id s = i" using select_simulation_SomeD [OF assms(5)] by auto
  have below: "sn_id ?s1 < db_next_simulation db" using assms(1) s by (auto simp: simulation_rows_def)
  have w: "simulation_rows env db
      \<and> (runs_of db (sn_id ?s1) = [] \<or> (\<exists>r. runs_of db (sn_id ?s1) = [r] \<and> sr_run_sequence r = 1))"
    using assms(1,4) s by simp
  have spec: "sn_spec_json ?s1 = simulation_spec_json ?s1" by simp
  note sync = sync_simulation_runs [OF w assms(2) spec below db1_def]
  obtain r where r: "runs_of db1 i = [r]" "mirrors_simulation ?s1 r" using sync(1) s by auto
  define db2 where "db2 = db1\<lparr>db_simulations := put_row sn_id s2 (db_simulations db1)\<rparr>"
  have key: "sn_id s2 = i" "simulation_key s2 = simulation_key s" "sn_country_id s2 = sn_country_id s"
    by (simp_all add: s2_def s)
  have sims: "set (db_simulations db2) = insert s2 {x \<in> set (db_simulations db). sn_id x \<noteq> i}"
    using set_put_row [of sn_id s2 "db_simulations db"] s key by (auto simp: db2_def sync(4))
  have "simulation_rows env db2"
    using sync(3) s key unfolding simulation_rows_def sims by (auto simp: db2_def sync(4))
  moreover have "simulation_ok (ve_install env) db2 s2"
    using r by (auto simp: simulation_ok_def db2_def key s2_def simulation_runs_eq s)
      (auto simp: with_run_pointers_def latest_successful_run_id_def mirrors_simulation_def)
  moreover have "simulation_ok (ve_install env) db2 t" if "t \<in> set (db_simulations db)" "sn_id t \<noteq> i" for t
    using assms(3) sync(2) [of "sn_id t"] that s by (simp add: simulation_ok_def db2_def)
  ultimately have ok: "histories_ok env db2" by (auto simp: histories_ok_def sims)
  have run: "ensure_simulation_dual_write_state env i c db = (Inr s2, db2)"
    by (simp add: ensure_simulation_dual_write_state_def assms(5) Let_def db1_def s2_def db2_def s)
  have counters: "db_next_simulation db2 = db_next_simulation db" "db_draws db \<le> db_draws db2"
    by (simp_all add: db2_def db1_def sync_simulation_runs_def Let_def)
  have same: "sn_status s2 = sn_status s \<and> sn_output s2 = sn_output s \<and> sn_error_message s2 = sn_error_message s"
    if "\<not> has_stale_spm_output (ve_install env) (sn_output s)"
    using that by (simp add: s2_def with_current_spec_def Let_def)
  show thesis
    using that [OF run ok sims key(1,3,2) counters] same by auto
qed

lemma ensure_simulation:
  assumes "simulation_being_written env db i" and "inj (ve_uuid env)"
    and "select_simulation db i c = Some s"
  obtains s' db' where "ensure_simulation_dual_write_state env i c db = (Inr s', db')"
    and "simulations_ok env db'" and "s' \<in> set (db_simulations db')" and "sn_id s' = i"
    and "sn_country_id s' = sn_country_id s" and "simulation_key s' = simulation_key s"
    and "sn_id ` set (db_simulations db') = sn_id ` set (db_simulations db)"
    and "db_next_simulation db' = db_next_simulation db" and "db_draws db \<le> db_draws db'"
    and "\<not> has_stale_spm_output (ve_install env) (sn_output s) \<Longrightarrow>
      sn_status s' = sn_status s \<and> sn_output s' = sn_output s \<and> sn_error_message s' = sn_error_message s"
proof -
  have s: "s \<in> set (db_simulations db)" "sn_id s = i" using select_simulation_SomeD [OF assms(3)] by auto
  have rows: "simulation_rows env db" and inj: "inj_on simulation_key (set (db_simulations db))"
    and others: "\<forall>t\<in>set (db_simulations db). sn_id t \<noteq> i \<longrightarrow> simulation_ok (ve_install env) db t"
    and runs: "runs_of db i = [] \<or> (\<exists>r. runs_of db i = [r] \<and> sr_run_sequence r = 1)"
    using assms(1) by (auto simp: simulation_being_written_def simulation_frame_rows)
  show thesis
  proof (rule ensure_simulation_rows [OF rows assms(2) others runs assms(3)])
    fix s' db'
    assume run: "ensure_simulation_dual_write_state env i c db = (Inr s', db')"
      and ok: "histories_ok env db'"
      and sims: "set (db_simulations db') = insert s' {x \<in> set (db_simulations db). sn_id x \<noteq> i}"
      and key: "sn_id s' = i" "sn_country_id s' = sn_country_id s" "simulation_key s' = simulation_key s"
      and counters: "db_next_simulation db' = db_next_simulation db" "db_draws db \<le> db_draws db'"
      and same: "\<not> has_stale_spm_output (ve_install env) (sn_output s) \<Longrightarrow>
        sn_status s' = sn_status s \<and> sn_output s' = sn_output s \<and> sn_error_message s' = sn_error_message s"
    have "inj_on simulation_key (set (db_simulations db'))"
      unfolding sims inj_on_def using inj s key
      unfolding inj_on_def by (metis (mono_tags, lifting) insert_iff mem_Collect_eq)
    with ok have "simulations_ok env db'" by (simp add: simulations_ok_histories)
    moreover have "s' \<in> set (db_simulations db')" "sn_id ` set (db_simulations db') = sn_id ` set (db_simulations db)"
      unfolding sims using s key by auto
    ultimately show thesis using same by (intro that [OF run _ _ key _ counters]) simp_all
  qed
qed

section \<open>Every operation keeps the invariant\<close>

lemma simulation_ok_cong:
  "runs_of db' (sn_id s) = runs_of db (sn_id s) \<Longrightarrow> simulation_ok inst db' s = simulation_ok inst db s"
  by (simp add: simulation_ok_def)

lemma simulations_ok_counters:
  assumes "simulations_ok env db" and "db_next_simulation db \<le> n" and "db_draws db \<le> d"
  shows "simulations_ok env (db\<lparr>db_next_simulation := n, db_next_report := m, db_draws := d\<rparr>)"
  using assms unfolding simulations_ok_def simulation_frame_def simulation_ok_def runs_of_def
  by (simp, meson le_less_trans less_le_trans)

lemma simulation_ok_written:
  "simulations_ok env db \<Longrightarrow> simulation_being_written env db i" if "i \<in> sn_id ` set (db_simulations db)"
  using that unfolding simulations_ok_def simulation_being_written_def simulation_ok_def mirrors_simulation_def
  by fastforce

lemma select_simulation_Some:
  assumes "distinct (map sn_id (db_simulations db))" and "s \<in> set (db_simulations db)"
    and "\<forall>x. c = Some x \<longrightarrow> sn_country_id s = x"
  shows "select_simulation db (sn_id s) c = Some s"
proof -
  have "List.find (\<lambda>t. sn_id t = sn_id s \<and> (case c of None \<Rightarrow> True | Some c \<Rightarrow> sn_country_id t = c)) rows = Some s"
    if "distinct (map sn_id rows)" "s \<in> set rows" for rows
    using that assms(3) by (induction rows) (auto simp: image_iff split: option.split)
  then show ?thesis using assms by (simp add: select_simulation_def)
qed

text \<open>A simulation whose history is in order is left as it is.\<close>

lemma with_current_spec_id:
  "simulation_ok inst db s \<Longrightarrow> with_current_spec inst s = s"
  by (simp add: simulation_ok_def with_current_spec_def Let_def)

lemma ensure_ok_history:
  assumes "histories_ok env db" and "select_simulation db i c = Some s"
  shows "ensure_simulation_dual_write_state env i c db = (Inr s, db)"
proof -
  have s: "s \<in> set (db_simulations db)" "sn_id s = i" using select_simulation_SomeD [OF assms(2)] by auto
  then have ok: "simulation_ok (ve_install env) db s" and frame: "simulation_rows env db"
    using assms(1) by (auto simp: histories_ok_def)
  from ok obtain r where r: "runs_of db i = [r]" "mirrors_simulation s r" and sp: "sn_spec_json s = simulation_spec_json s"
    and p: "sn_active_run_id s = (if active_status (sn_status s) then Some (sr_id r) else None)"
      "sn_latest_successful_run_id s = (if sn_status s = ''complete'' then Some (sr_id r) else None)"
    using s(2) by (auto simp: simulation_ok_def)
  have mir: "mirrored_simulation_run s r = r"
    using r(2) sp by (simp add: mirrors_simulation_def mirrored_simulation_run_def fun_upd_idem)
  have "r \<in> set (db_simulation_runs db)" using filter_singleD [OF r(1) [unfolded runs_of_def]] by simp
  then have "put_row sr_id r (db_simulation_runs db) = db_simulation_runs db"
    using put_row_same frame by (auto simp: simulation_rows_def)
  then have sync: "sync_simulation_runs env s db = db"
    by (simp add: sync_simulation_runs_def simulation_runs_eq r s(2) mutable_simulation_run_def mir)
  have ptr: "with_run_pointers (simulation_runs db i) s = s"
    using p r(2) by (simp add: with_run_pointers_def simulation_runs_eq r latest_successful_run_id_def mirrors_simulation_def)
  have "put_row sn_id s (db_simulations db) = db_simulations db"
    using put_row_same s(1) frame by (auto simp: simulation_rows_def)
  then show ?thesis
    by (simp add: ensure_simulation_dual_write_state_def assms(2) with_current_spec_id [OF ok] sync ptr s(2) Let_def)
qed

lemma ensure_ok_simulation:
  assumes "simulations_ok env db" and "select_simulation db i c = Some s"
  shows "ensure_simulation_dual_write_state env i c db = (Inr s, db)"
  using ensure_ok_history [OF _ assms(2)] assms(1) by (simp add: simulations_ok_histories)

definition requested_key :: "string \<Rightarrow> string \<Rightarrow> string \<Rightarrow> int \<Rightarrow> string \<times> string \<times> string \<times> int" where
  "requested_key country_id population_id population_type policy_id =
     (country_id, population_identity country_id population_id population_type, population_type, policy_id)"

definition matching_simulations :: "v1_db \<Rightarrow> string \<Rightarrow> string \<Rightarrow> string \<Rightarrow> int \<Rightarrow> simulation list" where
  "matching_simulations db c p t pol =
     filter (\<lambda>s. sn_country_id s = c \<and> population_id_matches (sn_population_id s) c p t
         \<and> sn_population_type s = t \<and> sn_policy_id s = pol) (db_simulations db)"

lemma set_matching_simulations:
  "set (matching_simulations db c p t pol)
     = {s \<in> set (db_simulations db). simulation_key s = requested_key c p t pol}"
  by (auto simp: matching_simulations_def simulation_key_def requested_key_def matches_iff_identity)

lemma lock_existing_eq:
  "lock_existing_simulation db c p t pol =
     (case sorted_desc (simulation_rank p) (matching_simulations db c p t pol) of [] \<Rightarrow> None | s # ss \<Rightarrow> Some s)"
  by (simp add: lock_existing_simulation_def matching_simulations_def)

lemma lock_existing_None:
  "lock_existing_simulation db c p t pol = None \<longleftrightarrow> matching_simulations db c p t pol = []"
  using set_sorted_desc [of "simulation_rank p" "matching_simulations db c p t pol"]
  by (simp add: lock_existing_eq split: list.split) (metis list.set_intros(1) set_empty equals0D)

lemma lock_existing_SomeD:
  assumes "lock_existing_simulation db c p t pol = Some s"
  shows "s \<in> set (db_simulations db) \<and> simulation_key s = requested_key c p t pol \<and> sn_country_id s = c"
proof -
  have "s \<in> set (sorted_desc (simulation_rank p) (matching_simulations db c p t pol))"
    using assms by (auto simp: lock_existing_eq split: list.splits)
  then show ?thesis by (auto simp: set_sorted_desc set_matching_simulations simulation_key_def requested_key_def)
qed

lemma lock_existing_NoneD:
  assumes "lock_existing_simulation db c p t pol = None" and "s \<in> set (db_simulations db)"
  shows "simulation_key s \<noteq> requested_key c p t pol"
  using assms set_matching_simulations [of db c p t pol] by (auto simp: lock_existing_None)

lemma lock_existing_unique:
  assumes "simulation_frame env db" and "s \<in> set (db_simulations db)" and "simulation_key s = requested_key c p t pol"
  shows "lock_existing_simulation db c p t pol = Some s"
proof -
  obtain s' where s': "lock_existing_simulation db c p t pol = Some s'"
    using lock_existing_NoneD [OF _ assms(2), of c p t pol] assms(3) by (cases "lock_existing_simulation db c p t pol") auto
  from lock_existing_SomeD [OF this] assms have "s' = s"
    unfolding simulation_frame_def by (metis inj_onD)
  with s' show ?thesis by simp
qed

lemma create_simulation_rows:
  assumes "histories_ok env db" and "inj (ve_uuid env)"
    and "lock_existing_simulation db c p t pol = None" and "rt_country (ve_versions env) c = Some version"
  shows "\<exists>s db'. create_simulation env c (population_identity c p t) t pol db = (Inr s, db')
     \<and> histories_ok env db' \<and> set (db_simulations db') = insert s (set (db_simulations db))
     \<and> simulation_key s = requested_key c p t pol
     \<and> sn_country_id s = c \<and> sn_id s = db_next_simulation db
     \<and> db_next_simulation db \<le> db_next_simulation db' \<and> db_draws db \<le> db_draws db'"
proof -
  define s where "s = new_simulation (db_next_simulation db) version c (population_identity c p t) t pol"
  define db1 where "db1 = db\<lparr>db_simulations := db_simulations db @ [s], db_next_simulation := db_next_simulation db + 1\<rparr>"
  have s: "sn_id s = db_next_simulation db" "sn_country_id s = c" "simulation_key s = requested_key c p t pol"
    by (simp_all add: s_def new_simulation_def simulation_key_def requested_key_def)
  have rows: "simulation_rows env db" using assms(1) by (simp add: histories_ok_def)
  have runs: "runs_of db1 i = runs_of db i" for i by (simp add: runs_of_def db1_def)
  have none: "runs_of db1 (sn_id s) = []"
    using rows by (auto simp: db1_def s runs_of_def simulation_rows_def filter_empty_conv)
  have rows1: "simulation_rows env db1"
    using rows s unfolding simulation_rows_def by (fastforce simp: db1_def)
  have others: "\<forall>t\<in>set (db_simulations db1). sn_id t \<noteq> sn_id s \<longrightarrow> simulation_ok (ve_install env) db1 t"
    using assms(1) by (auto simp: histories_ok_def db1_def simulation_ok_def runs_of_def)
  have sel: "select_simulation db1 (sn_id s) (Some c) = Some s"
    by (rule select_simulation_Some) (use rows1 s in \<open>auto simp: simulation_rows_def db1_def\<close>)
  obtain s' db' where run: "ensure_simulation_dual_write_state env (sn_id s) (Some c) db1 = (Inr s', db')"
    and out: "histories_ok env db'"
      "set (db_simulations db') = insert s' {x \<in> set (db_simulations db1). sn_id x \<noteq> sn_id s}"
      "sn_id s' = sn_id s" "sn_country_id s' = sn_country_id s"
      "simulation_key s' = simulation_key s" "db_next_simulation db' = db_next_simulation db1" "db_draws db1 \<le> db_draws db'"
    by (rule ensure_simulation_rows [OF rows1 assms(2) others disjI1 [OF none] sel], rule that, assumption+)
  have "{x \<in> set (db_simulations db1). sn_id x \<noteq> sn_id s} = set (db_simulations db)"
    using rows s by (auto simp: db1_def simulation_rows_def)
  moreover have "create_simulation env c (population_identity c p t) t pol db
      = ensure_simulation_dual_write_state env (sn_id s) (Some c) db1"
    by (simp add: create_simulation_def assms(4) Let_def s_def db1_def)
  ultimately show ?thesis using s run out by (auto simp: db1_def)
qed

lemma create_simulation_ok:
  assumes "simulations_ok env db" and "inj (ve_uuid env)"
    and "lock_existing_simulation db c p t pol = None" and "rt_country (ve_versions env) c = Some version"
  shows "\<exists>s db'. create_simulation env c (population_identity c p t) t pol db = (Inr s, db')
     \<and> simulations_ok env db' \<and> s \<in> set (db_simulations db') \<and> simulation_key s = requested_key c p t pol
     \<and> sn_country_id s = c \<and> sn_id s = db_next_simulation db
     \<and> db_next_simulation db \<le> db_next_simulation db' \<and> db_draws db \<le> db_draws db'"
proof -
  have ok: "histories_ok env db" and inj: "inj_on simulation_key (set (db_simulations db))"
    using assms(1) by (simp_all add: simulations_ok_histories)
  obtain s db' where run: "create_simulation env c (population_identity c p t) t pol db = (Inr s, db')"
    and out: "histories_ok env db'" "set (db_simulations db') = insert s (set (db_simulations db))"
      "simulation_key s = requested_key c p t pol" "sn_country_id s = c" "sn_id s = db_next_simulation db"
      "db_next_simulation db \<le> db_next_simulation db'" "db_draws db \<le> db_draws db'"
    using create_simulation_rows [OF ok assms(2-4)] by blast
  have "inj_on simulation_key (set (db_simulations db'))"
    unfolding out(2) using inj lock_existing_NoneD [OF assms(3)] out(3) by (fastforce simp: inj_on_def)
  with out(1) have "simulations_ok env db'" by (simp add: simulations_ok_histories)
  moreover have "s \<in> set (db_simulations db')" by (simp add: out(2))
  ultimately show ?thesis using run out(3-) by blast
qed

lemma requested_simulation_outcome:
  assumes "simulations_ok env db" and "inj (ve_uuid env)"
    and "get_or_create_simulation env c p t pol db = (r, db')"
  shows "simulations_ok env db'"
    and "r = Inr (s, created) \<Longrightarrow> s \<in> set (db_simulations db') \<and> simulation_key s = requested_key c p t pol
      \<and> (created \<longleftrightarrow> lock_existing_simulation db c p t pol = None) \<and> (\<not> created \<longrightarrow> db' = db)"
    and "r = Inl e \<Longrightarrow> e = IntegrityErr ''simulations.api_version'' \<and> rt_country (ve_versions env) c = None"
proof -
  have "simulations_ok env db'
     \<and> (case r of Inr (s, created) \<Rightarrow> s \<in> set (db_simulations db') \<and> simulation_key s = requested_key c p t pol
          \<and> (created \<longleftrightarrow> lock_existing_simulation db c p t pol = None) \<and> (\<not> created \<longrightarrow> db' = db)
        | Inl e \<Rightarrow> e = IntegrityErr ''simulations.api_version'' \<and> rt_country (ve_versions env) c = None)"
  proof (cases "lock_existing_simulation db c p t pol")
    case (Some s)
    note s = lock_existing_SomeD [OF Some]
    have "select_simulation db (sn_id s) (Some c) = Some s"
      by (rule select_simulation_Some) (use assms(1) s in \<open>auto simp: simulations_ok_def simulation_frame_def\<close>)
    from ensure_ok_simulation [OF assms(1) this] assms(1,3) Some s show ?thesis
      by (auto simp: get_or_create_simulation_def transaction_def bindA_def retA_def)
  next
    case None
    show ?thesis
    proof (cases "rt_country (ve_versions env) c")
      case None': None
      with None assms(1,3) simulations_ok_counters [OF assms(1)] show ?thesis
        by (auto simp: get_or_create_simulation_def transaction_def bindA_def create_simulation_def)
    next
      case (Some version)
      from create_simulation_ok [OF assms(1,2) None Some] None assms(3) show ?thesis
        by (auto simp: get_or_create_simulation_def transaction_def bindA_def retA_def)
    qed
  qed
  then show "simulations_ok env db'"
    "r = Inr (s, created) \<Longrightarrow> s \<in> set (db_simulations db') \<and> simulation_key s = requested_key c p t pol
      \<and> (created \<longleftrightarrow> lock_existing_simulation db c p t pol = None) \<and> (\<not> created \<longrightarrow> db' = db)"
    "r = Inl e \<Longrightarrow> e = IntegrityErr ''simulations.api_version'' \<and> rt_country (ve_versions env) c = None"
    by auto
qed

lemma with_values_simps [simp]:
  "sn_id (with_simulation_values a b c s) = sn_id s"
  "sn_country_id (with_simulation_values a b c s) = sn_country_id s"
  "simulation_key (with_simulation_values a b c s) = simulation_key s"
  "simulation_key (s\<lparr>sn_api_version := v\<rparr>) = simulation_key s"
  by (simp_all add: with_simulation_values_def simulation_key_def)

lemma rewritten_simulation:
  assumes "simulations_ok env db" and "s \<in> set (db_simulations db)" and "sn_id s1 = sn_id s"
    and "simulation_key s1 = simulation_key s"
    and "db1 = db\<lparr>db_simulations := put_row sn_id s1 (db_simulations db)\<rparr>"
  shows "simulation_being_written env db1 (sn_id s)" and "s1 \<in> set (db_simulations db1)"
    and "sn_id ` set (db_simulations db1) = sn_id ` set (db_simulations db)"
proof -
  have frame: "simulation_frame env db" using assms(1) by (simp add: simulations_ok_def)
  have sims: "set (db_simulations db1) = insert s1 {x \<in> set (db_simulations db). sn_id x \<noteq> sn_id s}"
    using set_put_row [of sn_id s1 "db_simulations db"] assms(2,3) by (auto simp: assms(5))
  have "inj_on simulation_key (set (db_simulations db1))"
    unfolding sims inj_on_def using frame assms(2,3,4)
    unfolding simulation_frame_def inj_on_def by (metis (mono_tags, lifting) insert_iff mem_Collect_eq)
  then have frame1: "simulation_frame env db1"
    using frame assms(2,3) unfolding simulation_frame_def sims by (auto simp: assms(5))
  obtain r where "runs_of db (sn_id s) = [r]" "sr_run_sequence r = 1"
    using assms(1,2) by (auto simp: simulations_ok_def simulation_ok_def mirrors_simulation_def)
  then have "\<exists>r. runs_of db1 (sn_id s) = [r] \<and> sr_run_sequence r = 1" by (simp add: assms(5))
  moreover have "simulation_ok (ve_install env) db1 t"
    if "t \<in> set (db_simulations db1)" "sn_id t \<noteq> sn_id s" for t
    using that assms(1,3) sims by (auto simp: simulations_ok_def assms(5) intro: simulation_ok_cong [THEN iffD2])
  ultimately show "simulation_being_written env db1 (sn_id s)"
    using frame1 by (simp add: simulation_being_written_def)
  show "s1 \<in> set (db_simulations db1)" using sims by simp
  show "sn_id ` set (db_simulations db1) = sn_id ` set (db_simulations db)"
    unfolding sims using assms(2,3) by auto
qed

lemma store_values_outcome:
  assumes "simulations_ok env db" and "inj (ve_uuid env)"
    and "store_simulation_values env c i status output err db = (r, db')"
  shows "(\<exists>e. r = Inl e \<and> db' = db \<and> (e = LookupErr (''Simulation #'' @ show_int i @ '' not found'')
            \<or> e = IntegrityErr ''simulations.api_version''))
     \<or> (\<exists>s. r = Inr s \<and> simulations_ok env db' \<and> s \<in> set (db_simulations db') \<and> sn_id s = i
          \<and> sn_id ` set (db_simulations db') = sn_id ` set (db_simulations db)
          \<and> db_next_simulation db' = db_next_simulation db \<and> db_draws db \<le> db_draws db')"
proof (cases "select_simulation db i (Some c)")
  case None
  with assms(3) show ?thesis by (auto simp: store_simulation_values_def)
next
  case sel: (Some s)
  note s = select_simulation_SomeD [OF sel]
  show ?thesis
  proof (cases "rt_country (ve_versions env) c")
    case None
    with sel assms(3) show ?thesis by (auto simp: store_simulation_values_def)
  next
    case (Some version)
    define s1 where "s1 = (with_simulation_values status output err s)\<lparr>sn_api_version := version\<rparr>"
    define db1 where "db1 = db\<lparr>db_simulations := put_row sn_id s1 (db_simulations db)\<rparr>"
    have k: "sn_id s1 = sn_id s" "simulation_key s1 = simulation_key s" "sn_country_id s1 = c"
      using s by (simp_all add: s1_def)
    note rw = rewritten_simulation [OF assms(1) conjunct1 [OF s] k(1,2) db1_def]
    have "select_simulation db1 (sn_id s1) (Some c) = Some s1"
      by (rule select_simulation_Some) (use rw k in \<open>auto simp: simulation_being_written_def simulation_frame_def\<close>)
    then obtain s' db2 where "ensure_simulation_dual_write_state env i (Some c) db1 = (Inr s', db2)"
      "simulations_ok env db2" "s' \<in> set (db_simulations db2)" "sn_id s' = i"
      "sn_id ` set (db_simulations db2) = sn_id ` set (db_simulations db1)"
      "db_next_simulation db2 = db_next_simulation db1" "db_draws db1 \<le> db_draws db2"
      using ensure_simulation [OF rw(1) assms(2)] k(1) s by metis
    with assms(3) sel Some rw(3) show ?thesis
      by (auto simp: store_simulation_values_def Let_def s1_def db1_def)
  qed
qed

lemma update_simulation_outcome:
  assumes "simulations_ok env db" and "inj (ve_uuid env)"
    and "update_simulation env c i status output err db = (r, db')"
  shows "simulations_ok env db'"
proof (cases "status = None \<and> output = None \<and> err = None")
  case True
  with assms show ?thesis by (simp add: update_simulation_def retA_def)
next
  case False
  show ?thesis
  proof (cases "res_bind (decoded_output output) (checked_simulation_output (ve_install env))")
    case (Inl e)
    with False assms(1,3) show ?thesis
      by (auto simp: update_simulation_def bindA_def liftA_def res_bind_Inl_iff split: sum.splits)
  next
    case (Inr checked)
    obtain r1 db1 where st: "store_simulation_values env c i status checked err db = (r1, db1)" by fastforce
    have "db' = snd (transaction (store_simulation_values env c i status checked err) db)"
      using False assms(3) Inr
      by (auto simp: update_simulation_def bindA_def liftA_def res_bind_Inr_iff retA_def split: prod.splits sum.splits)
    with st store_values_outcome [OF assms(1,2) st] simulations_ok_counters [OF assms(1)] assms(1) show ?thesis
      by (auto simp: transaction_def)
  qed
qed

text \<open>The simulations a request for a population under a policy names, under any spelling.\<close>

definition asked_for :: "string \<Rightarrow> string \<Rightarrow> string \<Rightarrow> int \<Rightarrow> simulation \<Rightarrow> bool" where
  "asked_for c p t pol s \<longleftrightarrow>
     sn_country_id s = c \<and> population_id_matches (sn_population_id s) c p t
     \<and> sn_population_type s = t \<and> sn_policy_id s = pol"

lemma asked_for_key: "asked_for c p t pol s \<longleftrightarrow> simulation_key s = requested_key c p t pol"
  by (auto simp: asked_for_def simulation_key_def requested_key_def matches_iff_identity)

lemma matching_asked_for: "matching_simulations db c p t pol = filter (asked_for c p t pol) (db_simulations db)"
  by (simp add: matching_simulations_def asked_for_def [abs_def])

lemma asked_for_spelling:
  "population_id_matches p' c p t \<Longrightarrow> asked_for c p' t pol = asked_for c p t pol"
  by (simp add: fun_eq_iff asked_for_key requested_key_def matches_iff_identity)

text \<open>A record spelled as the request spells it is taken before any other.\<close>

lemma lock_existing_exact:
  assumes "lock_existing_simulation db c p t pol = Some s" and "x \<in> set (db_simulations db)"
    and "asked_for c p t pol x" and "sn_population_id x = p"
  shows "sn_population_id s = p"
proof -
  obtain ss where "sorted_desc (simulation_rank p) (matching_simulations db c p t pol) = s # ss"
    using assms(1) by (auto simp: lock_existing_eq split: list.splits)
  from sorted_desc_first [OF this] assms(2-4) have "simulation_rank p x \<le> simulation_rank p s"
    by (auto simp: matching_asked_for)
  with assms(4) show ?thesis by (simp add: simulation_rank_def less_eq_prod_def)
qed

lemma request_found:
  assumes "histories_ok env db" and "lock_existing_simulation db c p t pol = Some s"
  shows "get_or_create_simulation env c p t pol db = (Inr (s, False), db)"
proof -
  note s = lock_existing_SomeD [OF assms(2)]
  have "select_simulation db (sn_id s) (Some c) = Some s"
    by (rule select_simulation_Some) (use assms(1) s in \<open>auto simp: histories_ok_def simulation_rows_def\<close>)
  from ensure_ok_history [OF assms(1) this] assms(2) show ?thesis
    by (simp add: get_or_create_simulation_def transaction_def bindA_def retA_def)
qed

lemma lock_existing_only:
  assumes "{x \<in> set (db_simulations db). asked_for c p t pol x} = {s}"
  shows "lock_existing_simulation db c p t pol = Some s"
proof -
  have "set (matching_simulations db c p t pol) = {s}" using assms by (simp add: matching_asked_for)
  then have "set (sorted_desc (simulation_rank p) (matching_simulations db c p t pol)) = {s}"
    by (simp add: set_sorted_desc)
  then obtain ss where "sorted_desc (simulation_rank p) (matching_simulations db c p t pol) = s # ss"
    by (cases "sorted_desc (simulation_rank p) (matching_simulations db c p t pol)") auto
  then show ?thesis by (simp add: lock_existing_eq)
qed

text \<open>
  C20. Asking again for the simulation of a population under a policy gives the same simulation,
  creates nothing and changes nothing in the database; the simulation is of that population
  and policy, it was created exactly when none was stored before under any spelling, and a
  stored one spelled as the request spells it is the one given. Another spelling of the
  population gives the same simulation too when it is the only one of them, which it is when
  it was just created and in every store without older rows of two spellings of a population.
\<close>

theorem simulation_identity:
  assumes "histories_ok env db" and "inj (ve_uuid env)"
    and "get_or_create_simulation env c p t pol db = (Inr (s, created), db')"
  shows "get_or_create_simulation env c p t pol db' = (Inr (s, False), db') \<and> asked_for c p t pol s
     \<and> (created \<longleftrightarrow> (\<forall>x\<in>set (db_simulations db). \<not> asked_for c p t pol x))
     \<and> ((\<exists>x\<in>set (db_simulations db). asked_for c p t pol x \<and> sn_population_id x = p) \<longrightarrow> sn_population_id s = p)
     \<and> (\<forall>p'. population_id_matches p' c p t \<and> {x \<in> set (db_simulations db'). asked_for c p t pol x} = {s} \<longrightarrow>
          get_or_create_simulation env c p' t pol db' = (Inr (s, False), db'))
     \<and> (created \<or> simulations_ok env db \<longrightarrow> {x \<in> set (db_simulations db'). asked_for c p t pol x} = {s})"
proof -
  have other: "get_or_create_simulation env c p' t pol db' = (Inr (s, False), db')"
    if "histories_ok env db'" "population_id_matches p' c p t"
      "{x \<in> set (db_simulations db'). asked_for c p t pol x} = {s}" for p'
    using request_found [OF that(1) lock_existing_only, of c p' t pol s] that(3)
    by (simp add: asked_for_spelling [OF that(2)])
  show ?thesis
  proof (cases "lock_existing_simulation db c p t pol")
    case (Some s0)
    from request_found [OF assms(1) Some] assms(3) have out: "s0 = s" "\<not> created" "db' = db" by auto
    note s = lock_existing_SomeD [OF Some]
    have "{x \<in> set (db_simulations db). asked_for c p t pol x} = {s}" if "simulations_ok env db"
    proof -
      have "inj_on simulation_key (set (db_simulations db))" using that by (simp add: simulations_ok_histories)
      with s out(1) show ?thesis by (auto simp: asked_for_key inj_on_def)
    qed
    with request_found [OF assms(1) Some] s out other assms(1) lock_existing_exact [OF Some] show ?thesis
      by (auto simp: asked_for_key)
  next
    case None
    have none: "\<forall>x\<in>set (db_simulations db). \<not> asked_for c p t pol x"
      using lock_existing_NoneD [OF None] by (simp add: asked_for_key)
    obtain version where "rt_country (ve_versions env) c = Some version"
      using assms(3) None
      by (auto simp: get_or_create_simulation_def transaction_def bindA_def create_simulation_def split: option.splits)
    from create_simulation_rows [OF assms(1,2) None this] assms(3) None
    have out: "created" "histories_ok env db'" "set (db_simulations db') = insert s (set (db_simulations db))"
      "asked_for c p t pol s"
      by (auto simp: get_or_create_simulation_def transaction_def bindA_def retA_def asked_for_key)
    then have only: "{x \<in> set (db_simulations db'). asked_for c p t pol x} = {s}" using none by auto
    with request_found [OF out(2) lock_existing_only] out none other show ?thesis by auto
  qed
qed

definition installed_versions_example :: runtime_versions_table where
  "installed_versions_example = \<lparr>rt_country = (\<lambda>c. Some ''2.1''), rt_policyengine = ''4.1'', rt_core = ''3.0'',
     rt_sha1 = (\<lambda>s. s)\<rparr>"

definition empty_db :: v1_db where
  "empty_db = \<lparr>db_simulations = [], db_simulation_runs = [], db_reports = [], db_report_runs = [],
     db_aliases = [], db_next_simulation = 1, db_next_report = 1, db_draws = 0\<rparr>"

definition example_env :: v1_env where
  "example_env = \<lparr>ve_versions = installed_versions_example, ve_install = iso_install,
     ve_uuid = (\<lambda>k. replicate k CHR ''a''), ve_now = (\<lambda>db. ((2026, 1, 1), 0, 0, 0, 0))\<rparr>"

lemma simulations_ok_empty: "simulations_ok env empty_db"
  by (simp add: simulations_ok_def simulation_frame_def empty_db_def)

lemma example_env_inj: "inj (ve_uuid example_env)"
  by (rule injI) (metis example_env_def length_replicate v1_env.select_convs(3))

theorem simulation_identity_witness:
  "\<exists>s db'. get_or_create_simulation example_env ''us'' ''007'' ''household'' 5 empty_db = (Inr (s, True), db')
     \<and> get_or_create_simulation example_env ''us'' ''7'' ''household'' 5 db' = (Inr (s, False), db')"
proof -
  have "lock_existing_simulation empty_db c p t pol = None" for c p t pol
    by (simp add: lock_existing_None matching_simulations_def empty_db_def)
  then obtain s db' where run: "get_or_create_simulation example_env ''us'' ''007'' ''household'' 5 empty_db
      = (Inr (s, True), db')"
    using create_simulation_ok [OF simulations_ok_empty example_env_inj, of "''us''" "''007''" "''household''" 5]
    by (auto simp: get_or_create_simulation_def transaction_def bindA_def retA_def example_env_def
        installed_versions_example_def)
  have "population_id_matches ''7'' ''us'' ''007'' ''household''" by code_simp
  moreover have "histories_ok example_env empty_db"
    using simulations_ok_empty by (simp add: simulations_ok_histories)
  ultimately show ?thesis using simulation_identity [OF _ example_env_inj run] run by blast
qed

end
