(* ===== verification/Report_Invariants.thy ===== *)
theory Report_Invariants
  imports Report_Outputs Simulation_Invariants
begin

text \<open>
  What the report service keeps, on top of the simulations: every report has one run, which
  mirrors its result and carries the timestamps its status asks for, its pointers name that
  run exactly when its status says so, and no two reports of one cache version are of the
  same simulations and year. Every sequence of requests keeps it.
\<close>

section \<open>The invariant\<close>

definition report_runs_of :: "v1_db \<Rightarrow> int \<Rightarrow> report_run list" where
  "report_runs_of db i = filter (\<lambda>r. rr_report_output_id r = i) (db_report_runs db)"

definition mirrors_report :: "report_output \<Rightarrow> report_run \<Rightarrow> bool" where
  "mirrors_report ro run \<longleftrightarrow>
     rr_run_sequence run = 1 \<and> matches_report_result run ro \<and> \<not> run_needs_timestamp_sync run (ro_status ro)"

definition report_ok :: "v1_db \<Rightarrow> report_output \<Rightarrow> bool" where
  "report_ok db ro \<longleftrightarrow>
     (\<exists>run. report_runs_of db (ro_id ro) = [run] \<and> mirrors_report ro run
        \<and> ro_active_run_id ro = (if active_status (ro_status ro) then Some (rr_id run) else None)
        \<and> ro_latest_successful_run_id ro = (if ro_status ro = ''complete'' then Some (rr_id run) else None))"

definition report_key :: "report_output \<Rightarrow> string \<times> int \<times> int option \<times> string option \<times> string" where
  "report_key ro =
     (ro_country_id ro, ro_simulation_1_id ro, ro_simulation_2_id ro, ro_year ro, ro_api_version ro)"

definition report_frame :: "v1_env \<Rightarrow> v1_db \<Rightarrow> bool" where
  "report_frame env db \<longleftrightarrow>
     distinct (map ro_id (db_reports db)) \<and> distinct (map rr_id (db_report_runs db))
     \<and> (\<forall>r\<in>set (db_reports db). ro_id r < db_next_report db)
     \<and> (\<forall>r\<in>set (db_report_runs db). \<exists>k<db_draws db. rr_id r = ve_uuid env k)
     \<and> (\<forall>r\<in>set (db_report_runs db). rr_report_output_id r < db_next_report db)
     \<and> inj_on report_key (set (db_reports db))"

definition v1_ok :: "v1_env \<Rightarrow> v1_db \<Rightarrow> bool" where
  "v1_ok env db \<longleftrightarrow>
     simulations_ok env db \<and> report_frame env db \<and> (\<forall>r\<in>set (db_reports db). report_ok db r)"

text \<open>
  A report the services are writing: all others are in order, it has at most one run, and it
  is not marked running over a run that ended.
\<close>

definition report_being_written :: "v1_env \<Rightarrow> v1_db \<Rightarrow> report_output \<Rightarrow> bool" where
  "report_being_written env db ro \<longleftrightarrow>
     simulations_ok env db \<and> report_frame env db \<and> ro \<in> set (db_reports db)
     \<and> (\<forall>r\<in>set (db_reports db). ro_id r \<noteq> ro_id ro \<longrightarrow> report_ok db r)
     \<and> (report_runs_of db (ro_id ro) = []
        \<or> (\<exists>run. report_runs_of db (ro_id ro) = [run] \<and> rr_run_sequence run = 1
             \<and> (ro_status ro = ''running'' \<longrightarrow> active_status (rr_status run))))"

section \<open>The run of a report\<close>

lemma list_runs_eq: "list_runs_descending db i = latest_first rr_run_sequence (report_runs_of db i)"
  by (simp add: list_runs_descending_def report_runs_of_def)

lemma stamp_or_None [simp]: "stamp_or a b = None \<longleftrightarrow> a = None \<and> b = None"
  by (simp add: stamp_or_def split: option.split)

lemma updated_run:
  assumes "run' = update_run_from_parent now ro spec manifest keep run"
  shows "matches_report_result run' ro" and "\<not> run_needs_timestamp_sync run' (ro_status ro)"
    and "rr_id run' = rr_id run" and "rr_report_output_id run' = rr_report_output_id run"
    and "rr_run_sequence run' = rr_run_sequence run"
  unfolding assms
  by (auto simp add: update_run_from_parent_def with_parent_timestamps_def matches_report_result_def
      run_needs_timestamp_sync_def terminal_status_def Let_def simp del: not_None_eq not_Some_eq)

lemma created_run:
  assumes "get_report db i \<noteq> None"
    and "create_report_output_run env i (Some (initial_report_run ro spec manifest)) db = (r, db')"
    and "report_runs_of db i = []"
  shows "\<exists>run. db' = db\<lparr>db_report_runs := db_report_runs db @ [run], db_draws := Suc (db_draws db)\<rparr>
     \<and> rr_id run = ve_uuid env (db_draws db) \<and> rr_report_output_id run = i \<and> rr_run_sequence run = 1
     \<and> matches_report_result run ro \<and> \<not> run_needs_timestamp_sync run (ro_status ro)"
  using assms
  by (intro exI [of _ "case r of Inr run \<Rightarrow> run"], simp add: create_report_output_run_def Let_def)
    (auto simp: initial_report_run_def run_id_or_new_def list_runs_eq next_sequence_def
      matches_report_result_def run_needs_timestamp_sync_def terminal_status_def
      simp del: not_None_eq not_Some_eq)

lemma mutable_of_single:
  assumes "ro_status ro = ''running'' \<longrightarrow> active_status (rr_status run)"
  shows "select_mutable_run ro [run] = Some run"
proof -
  have "run_named p [run] \<in> {None, Some run}" for p by (simp add: run_named_def split: option.split)
  moreover have "first_some [v, Some run] = Some run" if "v \<in> {None, Some run}" for v
    using that by auto
  ultimately show ?thesis
    using assms by (auto simp: select_mutable_run_def first_run_def split: option.split)
qed

lemma mirror_into_single:
  assumes "report_runs_of db (ro_id ro) = [run]" and "rr_run_sequence run = 1"
    and "ro_status ro = ''running'' \<longrightarrow> active_status (rr_status run)"
    and "distinct (map rr_id (db_report_runs db))"
  shows "\<exists>run'. mirror_into_run env ro spec manifest db
        = db\<lparr>db_report_runs := put_row rr_id run' (db_report_runs db)\<rparr>
     \<and> mirrors_report ro run' \<and> rr_id run' = rr_id run \<and> rr_report_output_id run' = rr_report_output_id run"
proof (cases "\<not> run_matches_parent run ro spec manifest \<or> run_needs_timestamp_sync run (ro_status ro)")
  case True
  let ?run = "update_run_from_parent (ve_now env db) ro spec manifest (matches_report_result run ro) run"
  from True have "mirror_into_run env ro spec manifest db
      = db\<lparr>db_report_runs := put_row rr_id ?run (db_report_runs db)\<rparr>"
    using mutable_of_single [OF assms(3)] by (simp add: mirror_into_run_def list_runs_eq assms(1))
  then show ?thesis
    using updated_run [OF refl] assms(2) by (intro exI [of _ ?run]) (simp add: mirrors_report_def)
next
  case False
  have "run \<in> set (db_report_runs db)" using filter_singleD [OF assms(1) [unfolded report_runs_of_def]] by simp
  with False assms(4) have "mirror_into_run env ro spec manifest db
      = db\<lparr>db_report_runs := put_row rr_id run (db_report_runs db)\<rparr>"
    using mutable_of_single [OF assms(3)]
    by (simp add: mirror_into_run_def list_runs_eq assms(1) put_row_same)
  then show ?thesis
    using False assms(2) by (intro exI [of _ run]) (simp add: mirrors_report_def run_matches_parent_def)
qed

section \<open>Keeping a report in step\<close>

lemma linked_simulations_quiet:
  assumes "simulations_ok env db"
  obtains s1 s2 where "linked_simulations env ro db = ((s1, s2), db)"
proof -
  have b: "bootstrapped_simulation env c i db = (select_simulation db i (Some c), db)" for c i
  proof (cases "select_simulation db i (Some c)")
    case None
    then show ?thesis by (simp add: bootstrapped_simulation_def ensure_simulation_dual_write_state_def)
  next
    case (Some s)
    with ensure_ok_simulation [OF assms Some] show ?thesis by (simp add: bootstrapped_simulation_def)
  qed
  have "\<exists>s1 s2. linked_simulations env ro db = ((s1, s2), db)"
    by (cases "select_simulation db (ro_simulation_1_id ro) (Some (ro_country_id ro))"; cases "ro_simulation_2_id ro")
      (auto simp: linked_simulations_def b split: option.split)
  with that show thesis by blast
qed

lemma upsert_simps:
  assumes "upsert_report_spec ro s1 s2 = (ro1, spec)"
  shows "ro_id ro1 = ro_id ro" and "report_key ro1 = report_key ro" and "ro_status ro1 = ro_status ro"
    and "ro_output ro1 = ro_output ro" and "ro_error_message ro1 = ro_error_message ro"
    and "ro_country_id ro1 = ro_country_id ro" and "ro_active_run_id ro1 = ro_active_run_id ro"
  using assms by (auto simp: upsert_report_spec_def report_key_def split: option.splits sum.splits)

lemma sync_pointers_simps [simp]:
  "ro_id (sync_parent_pointers runs ro) = ro_id ro"
  "report_key (sync_parent_pointers runs ro) = report_key ro"
  "ro_country_id (sync_parent_pointers runs ro) = ro_country_id ro"
  "ro_status (sync_parent_pointers runs ro) = ro_status ro"
  "ro_output (sync_parent_pointers runs ro) = ro_output ro"
  "ro_error_message (sync_parent_pointers runs ro) = ro_error_message ro"
  by (simp_all add: sync_parent_pointers_def report_key_def Let_def)

lemma select_report_SomeD:
  "select_report_output db i c = Some ro \<Longrightarrow>
     ro \<in> set (db_reports db) \<and> ro_id ro = i \<and> (\<forall>x. c = Some x \<longrightarrow> ro_country_id ro = x)"
  unfolding select_report_output_def by (drule find_mem) (auto split: option.splits)

lemma select_report_Some:
  assumes "distinct (map ro_id (db_reports db))" and "ro \<in> set (db_reports db)"
    and "\<forall>x. c = Some x \<longrightarrow> ro_country_id ro = x"
  shows "select_report_output db (ro_id ro) c = Some ro"
proof -
  have "List.find (\<lambda>r. ro_id r = ro_id ro \<and> (case c of None \<Rightarrow> True | Some c \<Rightarrow> ro_country_id r = c)) rows = Some ro"
    if "distinct (map ro_id rows)" "ro \<in> set rows" for rows
    using that assms(3) by (induction rows) (auto simp: image_iff split: option.split)
  then show ?thesis using assms by (simp add: select_report_output_def)
qed

text \<open>Whatever run the write is mirrored into, the report has one run afterwards, which mirrors it.\<close>

lemma report_run_synced:
  assumes "report_being_written env db ro" and "inj (ve_uuid env)"
    and "upsert_report_spec ro s1 s2 = (ro1, spec)"
    and "db' = (if list_runs_descending db (ro_id ro1) = []
               then snd (create_report_output_run env (ro_id ro1) (Some (initial_report_run ro1 spec manifest)) db)
               else mirror_into_run env ro1 spec manifest db)"
  shows "\<exists>run. report_runs_of db' (ro_id ro) = [run] \<and> mirrors_report ro1 run"
    and "\<And>j. j \<noteq> ro_id ro \<Longrightarrow> report_runs_of db' j = report_runs_of db j"
    and "report_frame env db'"
    and "\<exists>runs d. db' = db\<lparr>db_report_runs := runs, db_draws := d\<rparr> \<and> db_draws db \<le> d"
proof -
  note ro1 = upsert_simps [OF assms(3)]
  have frame: "report_frame env db" and mem: "ro \<in> set (db_reports db)"
    using assms(1) by (auto simp: report_being_written_def)
  have below: "ro_id ro < db_next_report db" using frame mem by (auto simp: report_frame_def)
  note cases = assms(1) [unfolded report_being_written_def, THEN conjunct2, THEN conjunct2, THEN conjunct2, THEN conjunct2]
  have "(\<exists>run. report_runs_of db' (ro_id ro) = [run] \<and> mirrors_report ro1 run)
     \<and> (\<forall>j. j \<noteq> ro_id ro \<longrightarrow> report_runs_of db' j = report_runs_of db j) \<and> report_frame env db'
     \<and> (\<exists>runs d. db' = db\<lparr>db_report_runs := runs, db_draws := d\<rparr> \<and> db_draws db \<le> d)"
    using cases
  proof
    assume e: "report_runs_of db (ro_id ro) = []"
    have there: "get_report db (ro_id ro) \<noteq> None"
      using mem by (auto simp: get_report_def find_None_iff)
    obtain r dbr where c: "create_report_output_run env (ro_id ro) (Some (initial_report_run ro1 spec manifest)) db = (r, dbr)"
      by fastforce
    obtain run where d: "dbr = db\<lparr>db_report_runs := db_report_runs db @ [run], db_draws := Suc (db_draws db)\<rparr>"
      and run: "rr_id run = ve_uuid env (db_draws db)" "rr_report_output_id run = ro_id ro"
        "rr_run_sequence run = 1" "matches_report_result run ro1" "\<not> run_needs_timestamp_sync run (ro_status ro1)"
      using created_run [OF there c e] by blast
    have db': "db' = dbr" using e c by (simp add: assms(4) ro1 list_runs_eq)
    have fresh: "ve_uuid env (db_draws db) \<notin> rr_id ` set (db_report_runs db)"
      using frame assms(2) unfolding report_frame_def inj_def by (metis (no_types, lifting) imageE less_irrefl)
    have "report_frame env db'"
      using frame fresh below run(1,2) unfolding db' d report_frame_def by (auto) (meson less_SucI)
    moreover have "\<exists>runs d. db' = db\<lparr>db_report_runs := runs, db_draws := d\<rparr> \<and> db_draws db \<le> d"
      by (intro exI [of _ "db_report_runs db @ [run]"] exI [of _ "Suc (db_draws db)"]) (simp add: db' d)
    ultimately show ?thesis
      using e run by (simp add: db' d report_runs_of_def mirrors_report_def)
  next
    assume "\<exists>run. report_runs_of db (ro_id ro) = [run] \<and> rr_run_sequence run = 1
        \<and> (ro_status ro = ''running'' \<longrightarrow> active_status (rr_status run))"
    then obtain run where run: "report_runs_of db (ro_id ro1) = [run]" "rr_run_sequence run = 1"
      "ro_status ro1 = ''running'' \<longrightarrow> active_status (rr_status run)" by (auto simp: ro1)
    have dist: "distinct (map rr_id (db_report_runs db))" using frame by (simp add: report_frame_def)
    obtain run' where m: "mirror_into_run env ro1 spec manifest db
          = db\<lparr>db_report_runs := put_row rr_id run' (db_report_runs db)\<rparr>"
      and run': "mirrors_report ro1 run'" "rr_id run' = rr_id run" "rr_report_output_id run' = rr_report_output_id run"
      using mirror_into_single [OF run dist] by blast
    have db': "db' = db\<lparr>db_report_runs := put_row rr_id run' (db_report_runs db)\<rparr>"
      using run(1) m by (simp add: assms(4) list_runs_eq)
    have mem_run: "run \<in> set (db_report_runs db)" "rr_report_output_id run = ro_id ro"
      using filter_singleD [OF run(1) [unfolded report_runs_of_def]] ro1 by auto
    have only: "x = run" if "x \<in> set (db_report_runs db)" "rr_id x = rr_id run" for x
      using dist that mem_run(1) by (metis distinct_map inj_onD)
    have "report_runs_of db' (ro_id ro) = put_row rr_id run' (report_runs_of db (ro_id ro))"
      unfolding report_runs_of_def db' by (simp, rule filter_put_row) (use only run' mem_run in auto)
    then have 1: "report_runs_of db' (ro_id ro) = [run']" using run(1) run'(2) by (simp add: ro1 put_row_def)
    have 2: "report_runs_of db' j = report_runs_of db j" if "j \<noteq> ro_id ro" for j
      unfolding report_runs_of_def db' by (simp, rule filter_put_other) (use only run' mem_run that in auto)
    have "set (db_report_runs db') = insert run' {x \<in> set (db_report_runs db). rr_id x \<noteq> rr_id run}"
      unfolding db' using set_put_row [of rr_id run' "db_report_runs db"] run'(2) mem_run by auto
    then have "report_frame env db'"
      using frame mem_run run' unfolding report_frame_def by (auto simp: db')
    moreover have "\<exists>runs d. db' = db\<lparr>db_report_runs := runs, db_draws := d\<rparr> \<and> db_draws db \<le> d"
      by (intro exI [of _ "put_row rr_id run' (db_report_runs db)"] exI [of _ "db_draws db"]) (simp add: db')
    ultimately show ?thesis using 1 2 run'(1) by blast
  qed
  then show "\<exists>run. report_runs_of db' (ro_id ro) = [run] \<and> mirrors_report ro1 run"
    "\<And>j. j \<noteq> ro_id ro \<Longrightarrow> report_runs_of db' j = report_runs_of db j" "report_frame env db'"
    "\<exists>runs d. db' = db\<lparr>db_report_runs := runs, db_draws := d\<rparr> \<and> db_draws db \<le> d"
    by blast+
qed

lemma simulations_ok_mono:
  assumes "simulations_ok env db" and "db_simulations db' = db_simulations db"
    and "db_simulation_runs db' = db_simulation_runs db" and "db_next_simulation db \<le> db_next_simulation db'"
    and "db_draws db \<le> db_draws db'"
  shows "simulations_ok env db'"
  using assms unfolding simulations_ok_def simulation_frame_def simulation_ok_def runs_of_def
  by (simp, meson le_less_trans less_le_trans)

text \<open>What a step leaves as it was: the simulations; every report but one.\<close>

definition rewrites_report :: "v1_db \<Rightarrow> report_output \<Rightarrow> v1_db \<Rightarrow> bool" where
  "rewrites_report db ro db' \<longleftrightarrow>
     set (db_reports db') = insert ro {x \<in> set (db_reports db). ro_id x \<noteq> ro_id ro}
     \<and> db_simulations db' = db_simulations db"

lemma ensure_report:
  assumes "report_being_written env db ro" and "inj (ve_uuid env)"
    and "select_report_output db i c = Some ro"
  obtains ro' db' where "ensure_report_output_dual_write_state env i c db = (Inr ro', db')"
    and "v1_ok env db'" and "rewrites_report db ro' db'"
    and "ro_id ro' = i" and "report_key ro' = report_key ro" and "ro_status ro' = ro_status ro"
    and "ro_output ro' = ro_output ro" and "ro_error_message ro' = ro_error_message ro"
proof -
  have sims: "simulations_ok env db" and mem: "ro \<in> set (db_reports db)"
    and others: "\<And>x. x \<in> set (db_reports db) \<Longrightarrow> ro_id x \<noteq> ro_id ro \<Longrightarrow> report_ok db x"
    using assms(1) by (auto simp: report_being_written_def)
  have i: "ro_id ro = i" using select_report_SomeD [OF assms(3)] by simp
  obtain s1 s2 where linked: "linked_simulations env ro db = ((s1, s2), db)"
    using linked_simulations_quiet [OF sims] by metis
  obtain ro1 spec where ro1: "upsert_report_spec ro s1 s2 = (ro1, spec)" by fastforce
  note keep = upsert_simps [OF ro1]
  define db2 where "db2 = (if list_runs_descending db (ro_id ro1) = []
      then snd (create_report_output_run env (ro_id ro1)
              (Some (initial_report_run ro1 spec (build_version_manifest ro1 spec s1 s2))) db)
      else mirror_into_run env ro1 spec (build_version_manifest ro1 spec s1 s2) db)"
  note sync = report_run_synced [OF assms(1,2) ro1 db2_def]
  obtain run where run: "report_runs_of db2 i = [run]" "mirrors_report ro1 run" using sync(1) i by auto
  obtain runs d where db2: "db2 = db\<lparr>db_report_runs := runs, db_draws := d\<rparr>" "db_draws db \<le> d"
    using sync(4) by blast
  define ro2 where "ro2 = sync_parent_pointers (list_runs_descending db2 i) ro1"
  define db3 where "db3 = db2\<lparr>db_reports := put_row ro_id ro2 (db_reports db2)\<rparr>"
  have key: "ro_id ro2 = i" "report_key ro2 = report_key ro" "ro_status ro2 = ro_status ro"
    "ro_output ro2 = ro_output ro" "ro_error_message ro2 = ro_error_message ro"
    by (simp_all add: ro2_def keep i)
  have reports: "set (db_reports db3) = insert ro2 {x \<in> set (db_reports db). ro_id x \<noteq> i}"
    using set_put_row [of ro_id ro2 "db_reports db"] mem i key by (auto simp: db3_def db2)
  have "inj_on report_key (set (db_reports db3))"
    unfolding reports inj_on_def using sync(3) mem i key db2
    unfolding report_frame_def inj_on_def by auto
  then have frame: "report_frame env db3"
    using sync(3) mem i key unfolding report_frame_def reports by (auto simp: db3_def db2)
  have ok2: "report_ok db3 ro2"
    using run key(1) by (auto simp: report_ok_def report_runs_of_def db3_def ro2_def mirrors_report_def
        list_runs_eq matches_report_result_def)
      (auto simp: sync_parent_pointers_def first_run_def Let_def)
  have oks: "report_ok db3 x" if "x \<in> set (db_reports db)" "ro_id x \<noteq> i" for x
    using others [of x] that sync(2) [of "ro_id x"] i by (simp add: report_ok_def db3_def report_runs_of_def)
  have "simulations_ok env db3"
    by (rule simulations_ok_mono [OF sims]) (simp_all add: db3_def db2)
  with frame ok2 oks have ok: "v1_ok env db3" by (auto simp: v1_ok_def reports)
  have result: "ensure_report_output_dual_write_state env i c db = (Inr ro2, db3)"
    unfolding ensure_report_output_dual_write_state_def
    by (simp only: assms(3) option.case linked Let_def prod.case ro1 flip: db2_def)
      (simp add: db3_def ro2_def keep i)
  have rw: "rewrites_report db ro2 db3"
    using reports key(1) by (simp add: rewrites_report_def db3_def db2)
  show thesis by (rule that [OF result ok rw key])
qed

section \<open>Counters only grow\<close>

definition counters_le :: "v1_db \<Rightarrow> v1_db \<Rightarrow> bool" where
  "counters_le a b \<longleftrightarrow>
     db_next_simulation a \<le> db_next_simulation b \<and> db_next_report a \<le> db_next_report b \<and> db_draws a \<le> db_draws b"

definition grows :: "(v1_db, 'a) act \<Rightarrow> bool" where
  "grows m \<longleftrightarrow> (\<forall>db. counters_le db (snd (m db)))"

lemma counters_le_refl [simp]: "counters_le a a"
  by (simp add: counters_le_def)

lemma counters_le_trans: "counters_le a b \<Longrightarrow> counters_le b c \<Longrightarrow> counters_le a c"
  by (auto simp: counters_le_def)

named_theorems grows_intros \<open>actions that never turn a counter back\<close>

lemma grows_retA [grows_intros]: "grows (retA x)" by (simp add: grows_def retA_def)

lemma grows_raiseA [grows_intros]: "grows (raiseA e)" by (simp add: grows_def raiseA_def)

lemma grows_liftA [grows_intros]: "grows (liftA r)" by (simp add: grows_def liftA_def)

lemma grows_bindA [grows_intros]:
  "grows m \<Longrightarrow> (\<And>x. grows (f x)) \<Longrightarrow> grows (bindA m f)"
  by (simp add: grows_def bindA_def split: prod.split sum.split) (metis counters_le_trans snd_conv)

lemma grows_option [grows_intros]:
  "grows m \<Longrightarrow> (\<And>x. grows (f x)) \<Longrightarrow> grows (case v of None \<Rightarrow> m | Some x \<Rightarrow> f x)"
  by (cases v) auto

lemma grows_if [grows_intros]: "grows m \<Longrightarrow> grows n \<Longrightarrow> grows (if b then m else n)"
  by simp

lemma grows_transaction [grows_intros]: "grows m \<Longrightarrow> grows (transaction m)"
  unfolding grows_def transaction_def counters_le_def
  by (auto split: prod.split sum.split) (metis snd_conv)+

lemma grows_at: "(\<And>db0. grows (\<lambda>db. m db0 db)) \<Longrightarrow> grows (\<lambda>db. m db db)"
  by (simp add: grows_def)

lemma counters_ensure_simulation:
  "counters_le db (snd (ensure_simulation_dual_write_state env i c db))"
  by (auto simp: ensure_simulation_dual_write_state_def sync_simulation_runs_def counters_le_def Let_def
      split: option.split)

lemma counters_linked: "counters_le db (snd (linked_simulations env ro db))"
proof -
  have b: "counters_le db (snd (bootstrapped_simulation env c i db))" for c i db
    using counters_ensure_simulation [of db env i "Some c"]
    by (auto simp: bootstrapped_simulation_def split: prod.splits sum.splits)
  obtain s1 db1 where 1: "bootstrapped_simulation env (ro_country_id ro) (ro_simulation_1_id ro) db = (s1, db1)" by fastforce
  have 2: "counters_le db db1" using b [of db "ro_country_id ro" "ro_simulation_1_id ro"] 1 by simp
  obtain s2 db2 where 3: "bootstrapped_simulation env (ro_country_id ro) (the (ro_simulation_2_id ro)) db1 = (s2, db2)"
    by fastforce
  have 4: "counters_le db1 db2" using b [of db1 "ro_country_id ro" "the (ro_simulation_2_id ro)"] 3 by simp
  show ?thesis
    using 1 2 3 counters_le_trans [OF 2 4]
    by (cases s1; cases "ro_simulation_2_id ro"; cases s2) (simp_all add: linked_simulations_def)
qed

lemma grows_ensure_report [grows_intros]: "grows (ensure_report_output_dual_write_state env i c)"
  unfolding grows_def
proof
  fix db
  show "counters_le db (snd (ensure_report_output_dual_write_state env i c db))"
  proof (cases "select_report_output db i c")
    case (Some ro)
    obtain s1 s2 db1 where l: "linked_simulations env ro db = ((s1, s2), db1)" by (metis prod.collapse)
    have 1: "counters_le db db1" using counters_linked [of db env ro] l by simp
    have 2: "counters_le db1 (snd (create_report_output_run env j (Some (initial_report_run ro1 spec m)) db1))"
      for j ro1 spec m
      by (auto simp: create_report_output_run_def run_id_or_new_def initial_report_run_def counters_le_def Let_def)
    have 3: "counters_le db1 (mirror_into_run env ro1 spec m db1)" for ro1 spec m
      by (simp add: mirror_into_run_def counters_le_def split: option.split)
    have put: "counters_le a (b\<lparr>db_reports := x\<rparr>) = counters_le a b" for a b x by (simp add: counters_le_def)
    show ?thesis
      unfolding ensure_report_output_dual_write_state_def
      by (simp add: Some l Let_def put counters_le_trans [OF 1 2] counters_le_trans [OF 1 3] split: prod.split)
  qed (simp add: ensure_report_output_dual_write_state_def)
qed

lemma counters_ensure_after:
  "counters_le db db1 \<Longrightarrow> counters_le db (snd (ensure_report_output_dual_write_state env i c db1))"
  by (metis counters_le_trans grows_def grows_ensure_report)

lemma grows_selections [grows_intros]:
  "grows (find_existing_report_output env c i j y)" "grows (require_simulation c i)"
  "grows (is_current_report_output env ro)" "grows (build_view ro k)"
  unfolding find_existing_report_output_def is_current_report_output_def
  by (auto simp: grows_def build_view_def require_simulation_def split: option.split intro!: grows_intros)
    (auto simp: grows_def bindA_def liftA_def retA_def split: sum.split)

lemma grows_create_report [grows_intros]: "grows (create_report_output env c i j y)"
proof -
  have insert: "grows (insert_report env v c i j y)" for v
    unfolding grows_def
  proof
    fix db
    have "counters_le db (db\<lparr>db_reports := x, db_next_report := db_next_report db + 1\<rparr>)" for x
      by (simp add: counters_le_def)
    then show "counters_le db (snd (insert_report env v c i j y db))"
      by (simp add: insert_report_def Let_def counters_ensure_after)
  qed
  show ?thesis unfolding create_report_output_def by (auto intro!: grows_intros insert)
qed

lemma grows_current [grows_intros]: "grows (get_or_create_current_report_output env ro)"
  unfolding get_or_create_current_report_output_def by (auto intro!: grows_intros)

lemma grows_write [grows_intros]: "grows (write_report_values env ro st out err)"
  unfolding grows_def
proof
  fix db
  have "counters_le db (db\<lparr>db_reports := x\<rparr>)" for x by (simp add: counters_le_def)
  then show "counters_le db (snd (write_report_values env ro st out err db))"
    by (simp add: write_report_values_def counters_ensure_after split: sum.split)
qed

lemma grows_update_selected: "grows (update_selected_report env c i st out err)"
  unfolding update_selected_report_def
  by (rule grows_at) (auto simp: grows_def split: option.split intro!: grows_intros [unfolded grows_def, rule_format])

end
