(* ===== verification/Report_Requests.thy ===== *)
theory Report_Requests
  imports Report_Invariants
begin

text \<open>
  The requests on v1 simulations and reports, one transaction each: every sequence of them
  from an empty database keeps the run histories, pointers and identities in order, and an
  update of a report is what the next request for it is served.
\<close>

section \<open>Operations that succeed\<close>

lemma ok_being_written:
  "v1_ok env db \<Longrightarrow> ro \<in> set (db_reports db) \<Longrightarrow> report_being_written env db ro"
  unfolding v1_ok_def report_being_written_def report_ok_def mirrors_report_def matches_report_result_def
    active_status_def by fastforce

text \<open>Every report is still there, under its identifier and for the same simulations and year.\<close>

definition extends :: "v1_db \<Rightarrow> v1_db \<Rightarrow> bool" where
  "extends db db' \<longleftrightarrow>
     (\<forall>x\<in>set (db_reports db). \<exists>x'\<in>set (db_reports db'). ro_id x' = ro_id x \<and> report_key x' = report_key x)"

lemma extends_refl [simp]: "extends db db"
  by (auto simp: extends_def)

lemma extends_trans: "extends a b \<Longrightarrow> extends b c \<Longrightarrow> extends a c"
  unfolding extends_def by metis

lemma rewrites_extends:
  assumes "rewrites_report db ro' db'" and "ro \<in> set (db_reports db)" and "ro_id ro' = ro_id ro"
    and "report_key ro' = report_key ro" and "distinct (map ro_id (db_reports db))"
  shows "extends db db'"
proof -
  have "x = ro" if "x \<in> set (db_reports db)" "ro_id x = ro_id ro" for x
    using assms(2,5) that by (metis distinct_map inj_onD)
  with assms show ?thesis unfolding extends_def rewrites_report_def by (metis (mono_tags, lifting) insertCI mem_Collect_eq)
qed

lemma frame_distinct: "v1_ok env db \<Longrightarrow> distinct (map ro_id (db_reports db))"
  by (simp add: v1_ok_def report_frame_def)

lemma ensure_ok_report:
  assumes "v1_ok env db" and "inj (ve_uuid env)" and "ro \<in> set (db_reports db)"
    and "\<forall>x. c = Some x \<longrightarrow> ro_country_id ro = x"
  obtains ro' db' where "ensure_report_output_dual_write_state env (ro_id ro) c db = (Inr ro', db')"
    and "v1_ok env db'" and "ro' \<in> set (db_reports db')" and "extends db db'" and "ro_id ro' = ro_id ro"
    and "report_key ro' = report_key ro" and "ro_status ro' = ro_status ro"
    and "ro_output ro' = ro_output ro" and "ro_error_message ro' = ro_error_message ro"
proof -
  have sel: "select_report_output db (ro_id ro) c = Some ro"
    by (rule select_report_Some [OF frame_distinct [OF assms(1)] assms(3,4)])
  obtain ro' db' where e: "ensure_report_output_dual_write_state env (ro_id ro) c db = (Inr ro', db')"
    "v1_ok env db'" "rewrites_report db ro' db'" "ro_id ro' = ro_id ro" "report_key ro' = report_key ro"
    "ro_status ro' = ro_status ro" "ro_output ro' = ro_output ro" "ro_error_message ro' = ro_error_message ro"
    using ensure_report [OF ok_being_written [OF assms(1,3)] assms(2) sel] by metis
  have "extends db db'" by (rule rewrites_extends [OF e(3) assms(3) e(4,5) frame_distinct [OF assms(1)]])
  moreover have "ro' \<in> set (db_reports db')" using e(3) by (simp add: rewrites_report_def)
  ultimately show thesis using that e by metis
qed

definition found_by_key :: "v1_db \<Rightarrow> string \<times> int \<times> int option \<times> string option \<times> string
    \<Rightarrow> report_output option \<Rightarrow> bool" where
  "found_by_key db k found \<longleftrightarrow>
     (case found of
        None \<Rightarrow> \<forall>r\<in>set (db_reports db). report_key r \<noteq> k
      | Some r \<Rightarrow> r \<in> set (db_reports db) \<and> report_key r = k)"

lemma latest_found:
  assumes "found = (case latest_first f (filter P xs) of [] \<Rightarrow> None | r # rs \<Rightarrow> Some r)"
  shows "case found of None \<Rightarrow> \<forall>r\<in>set xs. \<not> P r | Some r \<Rightarrow> r \<in> set xs \<and> P r"
proof (cases "latest_first f (filter P xs)")
  case Nil
  then have "filter P xs = []" by (simp only: latest_first_Nil)
  then have "\<forall>r\<in>set xs. \<not> P r" by (simp only: filter_empty_conv)
  moreover have "found = None" using assms unfolding Nil by simp
  ultimately show ?thesis by (simp only: option.case)
next
  case (Cons r rs)
  then have "r \<in> set (filter P xs)" by (metis list.set_intros(1) set_latest_first)
  with assms Cons show ?thesis by simp
qed

lemma find_existing_Inr:
  assumes "find_existing_report_output env c i j y db = (Inr found, db')"
  obtains v where "db' = db" and "cache_version env c = Inr v" and "found_by_key db (c, i, j, y, v) found"
proof -
  obtain v where v: "cache_version env c = Inr v" and db: "db' = db"
    and found: "found = (case latest_first ro_id (filter (\<lambda>r. ro_country_id r = c \<and> ro_simulation_1_id r = i
        \<and> ro_simulation_2_id r = j \<and> ro_year r = y \<and> ro_api_version r = v) (db_reports db)) of
          [] \<Rightarrow> None | r # rs \<Rightarrow> Some r)"
    using assms by (auto simp: find_existing_report_output_def bindA_def liftA_def split: sum.splits)
  have "found_by_key db (c, i, j, y, v) found"
    using latest_found [OF found] by (cases found) (simp_all add: found_by_key_def report_key_def)
  with that v db show thesis by blast
qed

lemma find_existing_unique:
  assumes "v1_ok env db" and "r \<in> set (db_reports db)" and "cache_version env c = Inr v"
    and "report_key r = (c, i, j, y, v)"
  shows "find_existing_report_output env c i j y db = (Inr (Some r), db)"
proof -
  obtain found where f: "find_existing_report_output env c i j y db = (Inr found, db)"
    using assms(3) by (auto simp: find_existing_report_output_def bindA_def liftA_def)
  have inj: "inj_on report_key (set (db_reports db))" using assms(1) by (simp add: v1_ok_def report_frame_def)
  show ?thesis
  proof (cases found)
    case None
    with f assms show ?thesis by (auto elim!: find_existing_Inr simp: found_by_key_def)
  next
    case (Some x)
    with f assms have "x \<in> set (db_reports db)" "report_key x = report_key r"
      by (auto elim!: find_existing_Inr simp: found_by_key_def)
    with inj assms(2) have "x = r" by (auto dest: inj_onD)
    with f Some show ?thesis by simp
  qed
qed

lemma insert_report_ok:
  assumes "v1_ok env db" and "inj (ve_uuid env)"
    and "\<forall>r\<in>set (db_reports db). report_key r \<noteq> (c, i, j, y, v)"
  obtains ro db' where "insert_report env v c i j y db = (Inr ro, db')" and "v1_ok env db'"
    and "ro \<in> set (db_reports db')" and "extends db db'" and "report_key ro = (c, i, j, y, v)"
    and "ro_id ro = db_next_report db" and "ro_status ro = ''pending''"
proof -
  define ro where "ro = new_report (db_next_report db) v c i j y"
  define db1 where "db1 = db\<lparr>db_reports := db_reports db @ [ro], db_next_report := db_next_report db + 1\<rparr>"
  have ro: "ro_id ro = db_next_report db" "report_key ro = (c, i, j, y, v)" "ro_country_id ro = c"
    "ro_status ro = ''pending''"
    by (simp_all add: ro_def new_report_def report_key_def)
  have frame: "report_frame env db" using assms(1) by (simp add: v1_ok_def)
  have runs: "report_runs_of db1 k = report_runs_of db k" for k by (simp add: report_runs_of_def db1_def)
  have none: "report_runs_of db (ro_id ro) = []"
    using frame ro by (auto simp: report_runs_of_def report_frame_def filter_empty_conv)
  have frame1: "report_frame env db1"
    using frame assms(3) ro unfolding report_frame_def by (fastforce simp: db1_def inj_on_def)
  have sims: "simulations_ok env db1"
    by (rule simulations_ok_mono [of env db]) (use assms(1) in \<open>auto simp: v1_ok_def db1_def\<close>)
  have same_ok: "report_ok db1 x = report_ok db x" for x by (simp add: report_ok_def runs)
  have oks: "\<forall>x\<in>set (db_reports db). report_ok db x" using assms(1) by (simp add: v1_ok_def)
  have rows: "set (db_reports db1) = insert ro (set (db_reports db))" by (simp add: db1_def)
  have "report_being_written env db1 ro"
    unfolding report_being_written_def rows same_ok runs none using frame1 sims oks by simp
  moreover have "select_report_output db1 (ro_id ro) (Some c) = Some ro"
    by (rule select_report_Some) (use frame1 ro in \<open>auto simp: report_frame_def db1_def\<close>)
  ultimately obtain ro' db' where e: "ensure_report_output_dual_write_state env (ro_id ro) (Some c) db1 = (Inr ro', db')"
    "v1_ok env db'" "rewrites_report db1 ro' db'" "ro_id ro' = ro_id ro" "report_key ro' = report_key ro"
    "ro_status ro' = ro_status ro"
    using ensure_report [OF _ assms(2)] by metis
  have "extends db1 db'"
    by (rule rewrites_extends [OF e(3) _ e(4,5)]) (use frame1 in \<open>auto simp: report_frame_def db1_def\<close>)
  then have "extends db db'" by (auto simp: extends_def db1_def)
  moreover have "insert_report env v c i j y db = (Inr ro', db')"
    using e(1) by (simp add: insert_report_def Let_def ro_def db1_def)
  moreover have "ro' \<in> set (db_reports db')" using e(3) by (simp add: rewrites_report_def)
  ultimately show thesis using that e ro by metis
qed

section \<open>What a request leaves\<close>

text \<open>
  An operation started in a well-formed database either raises, when its transaction rolls
  back, or leaves a well-formed one in which every report is still there.
\<close>

definition leaves :: "v1_env \<Rightarrow> (v1_db, 'a) act \<Rightarrow> v1_db \<Rightarrow> ('a \<Rightarrow> v1_db \<Rightarrow> bool) \<Rightarrow> bool" where
  "leaves env m db Q \<longleftrightarrow>
     (case m db of (Inl e, db') \<Rightarrow> True | (Inr x, db') \<Rightarrow> v1_ok env db' \<and> extends db db' \<and> Q x db')"

lemma leaves_bindA:
  assumes "leaves env m db Q"
    and "\<And>x db'. v1_ok env db' \<Longrightarrow> extends db db' \<Longrightarrow> Q x db' \<Longrightarrow> leaves env (f x) db' R"
  shows "leaves env (bindA m f) db R"
proof -
  obtain r db1 where m: "m db = (r, db1)" by fastforce
  show ?thesis
  proof (cases r)
    case (Inr x)
    with m assms(1) have 1: "v1_ok env db1" "extends db db1" "Q x db1" by (simp_all add: leaves_def)
    obtain r' db2 where f: "f x db1 = (r', db2)" by fastforce
    from assms(2) [OF 1] f m Inr extends_trans [OF 1(2)] show ?thesis
      by (cases r') (simp_all add: leaves_def bindA_def)
  qed (simp add: leaves_def bindA_def m)
qed

lemma leaves_mono: "leaves env m db Q \<Longrightarrow> (\<And>x db'. Q x db' \<Longrightarrow> R x db') \<Longrightarrow> leaves env m db R"
  unfolding leaves_def by (auto split: prod.splits sum.splits)

lemma leaves_retA: "v1_ok env db \<Longrightarrow> Q x db \<Longrightarrow> leaves env (retA x) db Q"
  by (simp add: leaves_def retA_def)

lemma leaves_liftA: "v1_ok env db \<Longrightarrow> (\<And>x. r = Inr x \<Longrightarrow> Q x db) \<Longrightarrow> leaves env (liftA r) db Q"
  by (simp add: leaves_def liftA_def split: sum.split)

lemma leaves_raiseA: "leaves env (raiseA e) db Q"
  by (simp add: leaves_def raiseA_def)

lemma leavesD: "leaves env m db Q \<Longrightarrow> m db = (Inr x, db') \<Longrightarrow> v1_ok env db' \<and> extends db db' \<and> Q x db'"
  by (simp add: leaves_def)

text \<open>The report found, created or rewritten has the identity that was asked for.\<close>

definition stored_as :: "string \<times> int \<times> int option \<times> string option \<times> string \<Rightarrow> report_output \<Rightarrow> v1_db \<Rightarrow> bool" where
  "stored_as k ro db \<longleftrightarrow> ro \<in> set (db_reports db) \<and> report_key ro = k"

lemma leaves_ensure:
  assumes "v1_ok env db" and "inj (ve_uuid env)" and "ro \<in> set (db_reports db)"
    and "\<forall>x. c = Some x \<longrightarrow> ro_country_id ro = x"
  shows "leaves env (ensure_report_output_dual_write_state env (ro_id ro) c) db
           (\<lambda>ro' db'. stored_as (report_key ro) ro' db' \<and> ro_id ro' = ro_id ro \<and> ro_status ro' = ro_status ro
              \<and> ro_output ro' = ro_output ro \<and> ro_error_message ro' = ro_error_message ro)"
  by (rule ensure_ok_report [OF assms]) (simp add: leaves_def stored_as_def)

lemma leaves_find:
  assumes "v1_ok env db"
  shows "leaves env (find_existing_report_output env c i j y) db
           (\<lambda>found db'. db' = db \<and> (\<exists>v. cache_version env c = Inr v \<and> found_by_key db (c, i, j, y, v) found))"
proof -
  obtain r db' where run: "find_existing_report_output env c i j y db = (r, db')" by fastforce
  show ?thesis
  proof (cases r)
    case (Inr found)
    from run [unfolded Inr] assms show ?thesis by (auto elim!: find_existing_Inr simp: leaves_def)
  qed (simp add: leaves_def run)
qed

lemma leaves_require:
  assumes "v1_ok env db"
  shows "leaves env (require_simulation c i) db (\<lambda>s db'. db' = db)"
  using assms by (simp add: leaves_def require_simulation_def split: option.split)

lemma leaves_insert:
  assumes "v1_ok env db" and "inj (ve_uuid env)"
    and "\<forall>r\<in>set (db_reports db). report_key r \<noteq> (c, i, j, y, v)"
  shows "leaves env (insert_report env v c i j y) db (\<lambda>ro db'. stored_as (c, i, j, y, v) ro db')"
  by (rule insert_report_ok [OF assms]) (simp add: leaves_def stored_as_def)

lemma key_country: "report_key ro = (c, i, j, y, v) \<Longrightarrow> ro_country_id ro = c"
  by (simp add: report_key_def)

lemma leaves_create:
  assumes "v1_ok env db" and "inj (ve_uuid env)"
  shows "leaves env (create_report_output env c i j y) db
           (\<lambda>ro db'. \<exists>v. cache_version env c = Inr v \<and> stored_as (c, i, j, y, v) ro db')"
  unfolding create_report_output_def
proof (rule leaves_bindA [OF leaves_find [OF assms(1)]], elim conjE exE)
  fix found db' v
  assume db': "db' = db" and v: "cache_version env c = Inr v" and found: "found_by_key db (c, i, j, y, v) found"
  show "leaves env (case found of
         Some ro \<Rightarrow> ensure_report_output_dual_write_state env (ro_id ro) (Some c)
       | None \<Rightarrow> bindA (require_simulation c i) (\<lambda>s1.
           bindA (case j of None \<Rightarrow> retA () | Some i \<Rightarrow> bindA (require_simulation c i) (\<lambda>s. retA ()))
             (\<lambda>u. bindA (liftA (cache_version env c)) (\<lambda>version. insert_report env version c i j y)))) db'
       (\<lambda>ro db'. \<exists>v. cache_version env c = Inr v \<and> stored_as (c, i, j, y, v) ro db')"
  proof (cases found)
    case None
    with found have new: "\<forall>r\<in>set (db_reports db). report_key r \<noteq> (c, i, j, y, v)" by (simp add: found_by_key_def)
    have second: "leaves env (case j of None \<Rightarrow> retA () | Some i \<Rightarrow> bindA (require_simulation c i) (\<lambda>s. retA ())) db
        (\<lambda>u db'. db' = db)"
      by (cases j) (auto intro!: leaves_retA leaves_bindA [OF leaves_require] simp: assms(1))
    have ins: "leaves env (bindA (liftA (cache_version env c)) (\<lambda>version. insert_report env version c i j y)) db
        (\<lambda>ro db'. \<exists>v. cache_version env c = Inr v \<and> stored_as (c, i, j, y, v) ro db')"
      using leaves_insert [OF assms new] v by (simp add: bindA_def liftA_def leaves_def)
    show ?thesis
      unfolding None option.case db'
      by (rule leaves_bindA [OF leaves_require [OF assms(1)]], hypsubst, rule leaves_bindA [OF second], hypsubst, rule ins)
  next
    case (Some ro)
    with found have "ro \<in> set (db_reports db)" "report_key ro = (c, i, j, y, v)" by (simp_all add: found_by_key_def)
    with leaves_ensure [OF assms this(1), of "Some c"] v show ?thesis
      unfolding Some option.case db' by (auto elim!: leaves_mono simp: key_country)
  qed
qed


lemma leaves_current:
  assumes "v1_ok env db" and "inj (ve_uuid env)"
  shows "leaves env (get_or_create_current_report_output env ro) db
           (\<lambda>ro' db'. \<exists>v. cache_version env (ro_country_id ro) = Inr v
              \<and> stored_as (ro_country_id ro, ro_simulation_1_id ro, ro_simulation_2_id ro, ro_year ro, v) ro' db')"
  unfolding get_or_create_current_report_output_def
proof (rule leaves_bindA [OF leaves_find [OF assms(1)]], elim conjE exE, hypsubst)
  fix found and v :: string
  let ?k = "(ro_country_id ro, ro_simulation_1_id ro, ro_simulation_2_id ro, ro_year ro, v)"
  assume v: "cache_version env (ro_country_id ro) = Inr v" and found: "found_by_key db ?k found"
  show "leaves env (case found of
         Some current \<Rightarrow> ensure_report_output_dual_write_state env (ro_id current) (Some (ro_country_id ro))
       | None \<Rightarrow> create_report_output env (ro_country_id ro) (ro_simulation_1_id ro) (ro_simulation_2_id ro) (ro_year ro)) db
     (\<lambda>ro' db'. \<exists>v. cache_version env (ro_country_id ro) = Inr v
              \<and> stored_as (ro_country_id ro, ro_simulation_1_id ro, ro_simulation_2_id ro, ro_year ro, v) ro' db')"
  proof (cases found)
    case (Some current)
    with found have "current \<in> set (db_reports db)" "report_key current = ?k" by (simp_all add: found_by_key_def)
    with leaves_ensure [OF assms this(1), of "Some (ro_country_id ro)"] v show ?thesis
      unfolding Some option.case by (auto elim!: leaves_mono simp: key_country)
  qed (simp add: leaves_create assms)
qed

section \<open>Writing the values of a report\<close>

text \<open>A report marked running again is one whose run still runs.\<close>

lemma running_run_active:
  assumes "report_ok db ro" and "report_runs_of db (ro_id ro) = [run]"
    and "status = Some ''running'' \<Longrightarrow> has_mutable_running_run ro (list_runs_descending db (ro_id ro))"
    and "ro_status (with_report_values status out err ro) = ''running''"
  shows "active_status (rr_status run)"
proof -
  have run: "mirrors_report ro run"
    and active: "ro_active_run_id ro = (if active_status (ro_status ro) then Some (rr_id run) else None)"
    using assms(1,2) by (auto simp: report_ok_def)
  show ?thesis
  proof (cases status)
    case None
    with assms(4) run show ?thesis
      by (simp add: with_report_values_def mirrors_report_def matches_report_result_def active_status_def)
  next
    case (Some v)
    with assms(4) have "has_mutable_running_run ro [run]"
      using assms(3) by (simp add: with_report_values_def list_runs_eq assms(2))
    with active show ?thesis
      by (auto simp: has_mutable_running_run_def run_named_def split: if_splits option.splits)
  qed
qed

lemma rewritten_report:
  assumes "v1_ok env db" and "ro \<in> set (db_reports db)" and "ro_id ro' = ro_id ro"
    and "report_key ro' = report_key ro"
    and "\<And>run. report_runs_of db (ro_id ro) = [run] \<Longrightarrow> ro_status ro' = ''running'' \<Longrightarrow> active_status (rr_status run)"
    and "db' = db\<lparr>db_reports := put_row ro_id ro' (db_reports db)\<rparr>"
  shows "report_being_written env db' ro'"
    and "extends db db'" and "ro_country_id ro' = ro_country_id ro"
proof -
  have frame: "report_frame env db" and sims: "simulations_ok env db"
    and oks: "\<And>x. x \<in> set (db_reports db) \<Longrightarrow> report_ok db x"
    using assms(1) by (auto simp: v1_ok_def)
  have rows: "set (db_reports db') = insert ro' {x \<in> set (db_reports db). ro_id x \<noteq> ro_id ro'}"
    using set_put_row [of ro_id ro' "db_reports db"] assms(2,3) by (simp add: assms(6))
  have runs: "report_runs_of db' k = report_runs_of db k" for k by (simp add: report_runs_of_def assms(6))
  have same_ok: "report_ok db' x = report_ok db x" for x by (simp add: report_ok_def runs)
  have "inj_on report_key (set (db_reports db'))"
    unfolding rows inj_on_def using frame assms(2-4) unfolding report_frame_def inj_on_def by auto
  then have "report_frame env db'"
    using frame assms(2,3) unfolding report_frame_def rows by (auto simp: assms(6))
  moreover have "simulations_ok env db'"
    by (rule simulations_ok_mono [OF sims]) (simp_all add: assms(6))
  moreover obtain run where "report_runs_of db (ro_id ro) = [run]" "rr_run_sequence run = 1"
    using oks [OF assms(2)] by (auto simp: report_ok_def mirrors_report_def)
  ultimately show "report_being_written env db' ro'"
    unfolding report_being_written_def same_ok runs using assms(3,5) oks by (auto simp: rows)
  have "rewrites_report db ro' db'" using rows by (simp add: rewrites_report_def assms(6))
  then show "extends db db'" by (rule rewrites_extends [OF _ assms(2-4) frame_distinct [OF assms(1)]])
  show "ro_country_id ro' = ro_country_id ro" using assms(4) by (simp add: report_key_def)
qed

lemma with_report_values_simps [simp]:
  "ro_id (with_report_values status out err ro) = ro_id ro"
  "report_key (with_report_values status out err ro) = report_key ro"
  "ro_country_id (with_report_values status out err ro) = ro_country_id ro"
  by (simp_all add: with_report_values_def report_key_def)

definition holds_values ::
  "spm_install \<Rightarrow> report_output \<Rightarrow> string option \<Rightarrow> json option \<Rightarrow> string option \<Rightarrow> report_output \<Rightarrow> bool" where
  "holds_values inst ro status output error_text ro' \<longleftrightarrow>
     ro_status ro' = (case status of None \<Rightarrow> ro_status ro | Some v \<Rightarrow> v)
     \<and> stored_output inst ro status output \<in> {Inr None, Inr (Some (ro_output ro'))}
     \<and> (stored_output inst ro status output = Inr None \<longrightarrow> ro_output ro' = ro_output ro)
     \<and> ro_error_message ro' = (case error_text of None \<Rightarrow> ro_error_message ro | Some v \<Rightarrow> Some v)"

lemma write_report_values_ok:
  assumes "v1_ok env db" and "inj (ve_uuid env)" and "ro \<in> set (db_reports db)"
    and "status = Some ''running'' \<Longrightarrow> has_mutable_running_run ro (list_runs_descending db (ro_id ro))"
    and "stored_output (ve_install env) ro status output = Inr stored"
  obtains ro' db' where "write_report_values env ro status output err db = (Inr ro', db')" and "v1_ok env db'"
    and "extends db db'" and "stored_as (report_key ro) ro' db'" and "ro_id ro' = ro_id ro"
    and "holds_values (ve_install env) ro status output err ro'"
proof -
  have ok: "report_ok db ro" using assms(1,3) by (simp add: v1_ok_def)
  define ro1 where "ro1 = with_report_values status stored err ro"
  define db1 where "db1 = db\<lparr>db_reports := put_row ro_id ro1 (db_reports db)\<rparr>"
  have keep: "ro_id ro1 = ro_id ro" "report_key ro1 = report_key ro" by (simp_all add: ro1_def)
  have active: "active_status (rr_status run)"
    if "report_runs_of db (ro_id ro) = [run]" "ro_status ro1 = ''running''" for run
    using running_run_active [OF ok that(1) assms(4)] that(2) by (simp add: ro1_def)
  note w = rewritten_report [OF assms(1,3) keep active db1_def]
  have "select_report_output db1 (ro_id ro) (Some (ro_country_id ro)) = Some ro1"
    unfolding keep(1) [symmetric]
    by (rule select_report_Some) (use w in \<open>auto simp: report_being_written_def report_frame_def\<close>)
  from ensure_report [OF w(1) assms(2) this] obtain ro' db'
    where e: "ensure_report_output_dual_write_state env (ro_id ro) (Some (ro_country_id ro)) db1 = (Inr ro', db')"
    "v1_ok env db'" "rewrites_report db1 ro' db'" "ro_id ro' = ro_id ro" "report_key ro' = report_key ro1"
    "ro_status ro' = ro_status ro1" "ro_output ro' = ro_output ro1" "ro_error_message ro' = ro_error_message ro1"
    by metis
  have "extends db1 db'"
    by (rule rewrites_extends [OF e(3), of ro1])
      (use w(1) e keep in \<open>auto simp: report_being_written_def report_frame_def\<close>)
  with w(2) have ext: "extends db db'" by (rule extends_trans)
  have held: "holds_values (ve_install env) ro status output err ro'"
    using e(6-8) assms(5) by (auto simp: holds_values_def ro1_def with_report_values_def split: option.splits)
  have "ro' \<in> set (db_reports db')" using e(3) by (simp add: rewrites_report_def)
  then have "stored_as (report_key ro) ro' db'" using e(5) keep by (simp add: stored_as_def)
  moreover have "\<not> (status = Some ''running'' \<and> \<not> has_mutable_running_run ro (list_runs_descending db (ro_id ro)))"
    using assms(4) by blast
  then have "write_report_values env ro status output err db = (Inr ro', db')"
    using assms(5) e(1) by (simp add: write_report_values_def ro1_def db1_def)
  ultimately show thesis using that e(2,4) ext held by blast
qed

lemma leaves_write:
  assumes "v1_ok env db" and "inj (ve_uuid env)" and "ro \<in> set (db_reports db)"
  shows "leaves env (write_report_values env ro status output err) db
           (\<lambda>ro' db'. stored_as (report_key ro) ro' db' \<and> ro_id ro' = ro_id ro
              \<and> holds_values (ve_install env) ro status output err ro')"
proof (cases "status = Some ''running'' \<and> \<not> has_mutable_running_run ro (list_runs_descending db (ro_id ro))")
  case False
  then have mutable: "status = Some ''running'' \<Longrightarrow> has_mutable_running_run ro (list_runs_descending db (ro_id ro))" by simp
  show ?thesis
  proof (cases "stored_output (ve_install env) ro status output")
    case (Inr stored)
    show ?thesis by (rule write_report_values_ok [OF assms mutable Inr, of err]) (simp_all add: leaves_def)
  qed (use False in \<open>simp add: write_report_values_def leaves_def\<close>)
qed (simp add: write_report_values_def leaves_def)

section \<open>Updating, resolving and creating\<close>

definition key_at :: "report_output \<Rightarrow> string \<Rightarrow> string \<times> int \<times> int option \<times> string option \<times> string" where
  "key_at ro v = (ro_country_id ro, ro_simulation_1_id ro, ro_simulation_2_id ro, ro_year ro, v)"

lemma key_at_version: "key_at ro (ro_api_version ro) = report_key ro"
  by (simp add: key_at_def report_key_def)

text \<open>
  What an operation on a report serves: the report of the current cache version \<open>v\<close>, under the
  identifier that was asked for.
\<close>

definition serves :: "v1_env \<Rightarrow> report_output \<Rightarrow> string \<Rightarrow> report_view \<Rightarrow> v1_db \<Rightarrow> bool" where
  "serves env requested v view db \<longleftrightarrow>
     cache_version env (ro_country_id requested) = Inr v
     \<and> stored_as (key_at requested v) (vw_report_output view) db
     \<and> vw_response_id view = (if ro_api_version requested = v then None else Some (ro_id requested))
     \<and> (ro_api_version requested = v \<longrightarrow> ro_id (vw_report_output view) = ro_id requested)
     \<and> vw_display_run view = select_display_run db (vw_report_output view)"

lemma leaves_build_view:
  "v1_ok env db \<Longrightarrow> leaves env (build_view ro i) db
     (\<lambda>view db'. db' = db \<and> view = \<lparr>vw_report_output = ro, vw_display_run = select_display_run db ro, vw_response_id = i\<rparr>)"
  by (simp add: leaves_def build_view_def)

lemma leaves_is_current:
  "v1_ok env db \<Longrightarrow> leaves env (is_current_report_output env ro) db
     (\<lambda>current db'. db' = db \<and> (\<exists>v. cache_version env (ro_country_id ro) = Inr v \<and> (current \<longleftrightarrow> ro_api_version ro = v)))"
  by (auto simp: leaves_def is_current_report_output_def bindA_def liftA_def retA_def split: sum.split)

text \<open>The report an update writes: the one requested where it is current, else the current one.\<close>

lemma leaves_target:
  assumes "v1_ok env db" and "inj (ve_uuid env)" and "ro \<in> set (db_reports db)"
    and "cache_version env (ro_country_id ro) = Inr v"
  shows "leaves env (if ro_api_version ro = v then retA ro else get_or_create_current_report_output env ro) db
           (\<lambda>target db'. stored_as (key_at ro v) target db' \<and> (ro_api_version ro = v \<longrightarrow> ro_id target = ro_id ro))"
proof (cases "ro_api_version ro = v")
  case True
  with assms(1,3) show ?thesis
    using key_at_version [of ro] by (simp add: leaves_retA stored_as_def)
next
  case False
  with leaves_current [OF assms(1,2), of ro] assms(4) show ?thesis
    by (auto elim!: leaves_mono simp: key_at_def)
qed

lemma leaves_update:
  assumes "v1_ok env db" and "inj (ve_uuid env)"
  shows "leaves env (update_selected_report env c i status output err) db
           (\<lambda>view db'. \<exists>requested v target. select_report_output db i (Some c) = Some requested
              \<and> serves env requested v view db' \<and> ro_country_id target = c
              \<and> holds_values (ve_install env) target status output err (vw_report_output view))"
proof (cases "select_report_output db i (Some c)")
  case None
  then show ?thesis by (simp add: update_selected_report_def leaves_def)
next
  case (Some ro)
  then have ro: "ro \<in> set (db_reports db)" "ro_country_id ro = c" by (auto dest: select_report_SomeD)
  define m where "m = bindA (is_current_report_output env ro) (\<lambda>current.
      bindA (if current then retA ro else get_or_create_current_report_output env ro) (\<lambda>target.
      bindA (write_report_values env target status output err) (\<lambda>updated.
        build_view updated (if current then None else Some (ro_id ro)))))"
  have "leaves env m db
           (\<lambda>view db'. \<exists>v target. serves env ro v view db' \<and> ro_country_id target = c
              \<and> holds_values (ve_install env) target status output err (vw_report_output view))"
    unfolding m_def
  proof (rule leaves_bindA [OF leaves_is_current [OF assms(1)]], elim conjE exE, hypsubst)
    fix v
    assume v: "cache_version env (ro_country_id ro) = Inr v"
    show "leaves env (bindA (if ro_api_version ro = v then retA ro else get_or_create_current_report_output env ro)
        (\<lambda>target. bindA (write_report_values env target status output err) (\<lambda>updated.
          build_view updated (if ro_api_version ro = v then None else Some (ro_id ro))))) db
       (\<lambda>view db'. \<exists>v target. serves env ro v view db' \<and> ro_country_id target = c
          \<and> holds_values (ve_install env) target status output err (vw_report_output view))"
    proof (rule leaves_bindA [OF leaves_target [OF assms ro(1) v]], elim conjE)
      fix target db1
      assume db1: "v1_ok env db1" "stored_as (key_at ro v) target db1"
        and same: "ro_api_version ro = v \<longrightarrow> ro_id target = ro_id ro"
      then have target: "target \<in> set (db_reports db1)" "report_key target = key_at ro v"
        by (simp_all add: stored_as_def)
      show "leaves env (bindA (write_report_values env target status output err) (\<lambda>updated.
          build_view updated (if ro_api_version ro = v then None else Some (ro_id ro)))) db1
         (\<lambda>view db'. \<exists>v target. serves env ro v view db' \<and> ro_country_id target = c
            \<and> holds_values (ve_install env) target status output err (vw_report_output view))"
      proof (rule leaves_bindA [OF leaves_write [OF db1(1) assms(2) target(1)]],
          rule leaves_mono [OF leaves_build_view], assumption, elim conjE, hypsubst)
        fix updated db2
        assume w: "stored_as (report_key target) updated db2" "ro_id updated = ro_id target"
          "holds_values (ve_install env) target status output err updated"
        then show "\<exists>v' target. serves env ro v' \<lparr>vw_report_output = updated,
              vw_display_run = select_display_run db2 updated,
              vw_response_id = if ro_api_version ro = v then None else Some (ro_id ro)\<rparr> db2
            \<and> ro_country_id target = c
            \<and> holds_values (ve_install env) target status output err
                (vw_report_output \<lparr>vw_report_output = updated, vw_display_run = select_display_run db2 updated,
                   vw_response_id = if ro_api_version ro = v then None else Some (ro_id ro)\<rparr>)"
          using v same target(2) ro(2)
          by (intro exI [of _ v] exI [of _ target]) (simp add: serves_def key_at_def report_key_def)
      qed
    qed
  qed
  moreover have "update_selected_report env c i status output err db = m db"
    by (simp add: update_selected_report_def Some m_def)
  ultimately show ?thesis by (simp add: leaves_def Some)
qed

text \<open>Resolving: what it serves is a report of the database, unchanged in its values.\<close>

lemma resolve_serves:
  assumes "v1_ok env db" and "inj (ve_uuid env)" and "0 \<le> i"
    and "select_report_output db i (Some c) = Some requested" and "cache_version env c = Inr v"
    and "ro \<in> set (db_reports db)" and "report_key ro = key_at requested v"
  obtains view db' where "resolve_report_output env c i db = (Inr (Some view), db')"
    and "v1_ok env db'" and "serves env requested v view db'" and "ro_id (vw_report_output view) = ro_id ro"
    and "ro_status (vw_report_output view) = ro_status ro" and "ro_output (vw_report_output view) = ro_output ro"
    and "ro_error_message (vw_report_output view) = ro_error_message ro"
proof -
  have requested: "requested \<in> set (db_reports db)" "ro_id requested = i" "ro_country_id requested = c"
    using select_report_SomeD [OF assms(4)] by auto
  have inj: "inj_on report_key (set (db_reports db))" using assms(1) by (simp add: v1_ok_def report_frame_def)
  have ro_c: "ro_country_id ro = c" using assms(7) requested by (simp add: key_at_def report_key_def)
  have "\<forall>x. Some c = Some x \<longrightarrow> ro_country_id ro = x" using ro_c by simp
  from ensure_ok_report [OF assms(1,2,6) this] obtain ro' db'
    where e: "ensure_report_output_dual_write_state env (ro_id ro) (Some c) db = (Inr ro', db')" "v1_ok env db'"
      "ro' \<in> set (db_reports db')" "ro_id ro' = ro_id ro" "report_key ro' = report_key ro"
      "ro_status ro' = ro_status ro" "ro_output ro' = ro_output ro" "ro_error_message ro' = ro_error_message ro"
    by metis
  let ?view = "\<lparr>vw_report_output = ro', vw_display_run = select_display_run db' ro',
    vw_response_id = (if ro_api_version requested = v then None else Some i)\<rparr>"
  have same: "ro = requested" if "ro_api_version requested = v"
    using inj assms(6,7) requested(1) key_at_version [of requested] that by (auto dest: inj_onD)
  have "resolve_report_output env c i db = (Inr (Some ?view), db')"
  proof (cases "ro_api_version requested = v")
    case True
    with same requested(2) e(1) assms(3-5) requested(3) show ?thesis
      by (simp add: resolve_report_output_def transaction_Inr is_current_report_output_def bindA_def liftA_def
          retA_def build_view_def)
  next
    case False
    have "find_existing_report_output env c (ro_simulation_1_id requested) (ro_simulation_2_id requested)
        (ro_year requested) db = (Inr (Some ro), db)"
      by (rule find_existing_unique [OF assms(1,6,5)]) (use assms(7) requested in \<open>simp add: key_at_def\<close>)
    with False e(1) assms(3-5) requested(3) show ?thesis
      by (simp add: resolve_report_output_def transaction_Inr is_current_report_output_def bindA_def liftA_def
          retA_def build_view_def get_or_create_current_report_output_def)
  qed
  moreover have "serves env requested v ?view db'"
    using e assms(5,7) requested same by (auto simp: serves_def stored_as_def)
  ultimately show thesis using that e by (metis report_view.select_convs(1))
qed


text \<open>The display run of a report in order is its only run, with its values.\<close>

lemma display_run_of_ok:
  assumes "v1_ok env db" and "ro \<in> set (db_reports db)"
  obtains run where "select_display_run db ro = Some run" and "report_runs_of db (ro_id ro) = [run]"
    and "mirrors_report ro run"
proof -
  obtain run where run: "report_runs_of db (ro_id ro) = [run]" "mirrors_report ro run"
    using assms by (auto simp: v1_ok_def report_ok_def)
  have named: "run_named p [run] = None \<or> run_named p [run] = Some run" for p
    by (simp add: run_named_def split: option.split)
  have "matches_report_result run ro" using run(2) by (simp add: mirrors_report_def)
  then have "select_display_run db ro = Some run"
    using run(1) named [of "ro_active_run_id ro"] named [of "ro_latest_successful_run_id ro"]
    by (auto simp: select_display_run_def list_runs_eq first_run_def Let_def)
  with that run show thesis by blast
qed

lemma update_report_outcome:
  assumes "v1_ok env db" and "inj (ve_uuid env)"
    and "update_report_output env c i status output err db = (Inr (Some view), db')"
  obtains decoded requested v target where "decoded_output output = Inr decoded"
    and "v1_ok env db'" and "select_report_output db i (Some c) = Some requested"
    and "select_report_output db' i (Some c) \<noteq> None"
    and "\<And>r. select_report_output db' i (Some c) = Some r \<Longrightarrow> report_key r = report_key requested"
    and "serves env requested v view db'" and "ro_country_id target = c"
    and "holds_values (ve_install env) target status decoded err (vw_report_output view)"
proof -
  obtain decoded where d: "decoded_output output = Inr decoded"
    and run: "update_selected_report env c i status decoded err db = (Inr view, db')"
    using assms(3)
    by (auto simp: update_report_output_def bindA_def liftA_def retA_def transaction_Inr
        split: if_splits sum.splits prod.splits)
  from leavesD [OF leaves_update [OF assms(1,2)] run] obtain requested v target
    where l: "v1_ok env db'" "extends db db'" "select_report_output db i (Some c) = Some requested"
      "serves env requested v view db'" "ro_country_id target = c"
      "holds_values (ve_install env) target status decoded err (vw_report_output view)" by blast
  have r: "requested \<in> set (db_reports db)" "ro_id requested = i" "ro_country_id requested = c"
    using select_report_SomeD [OF l(3)] by auto
  then obtain x where x: "x \<in> set (db_reports db')" "ro_id x = i" "report_key x = report_key requested"
    using l(2) by (auto simp: extends_def)
  have "\<forall>y. Some c = Some y \<longrightarrow> ro_country_id x = y" using x(3) r(3) by (simp add: report_key_def)
  from select_report_Some [OF frame_distinct [OF l(1)] x(1) this] x(2)
  have "select_report_output db' i (Some c) = Some x" by simp
  with that d l x(3) show thesis by simp
qed

text \<open>An update of a current report succeeds unless its values are refused.\<close>

lemma update_current_succeeds:
  assumes "v1_ok env db" and "inj (ve_uuid env)" and "select_report_output db i (Some c) = Some ro"
    and "cache_version env c = Inr (ro_api_version ro)" and "status = Some v" and "v \<noteq> ''running''"
    and "decoded_output output = Inr decoded" and "stored_output (ve_install env) ro status decoded = Inr stored"
  shows "\<exists>view db'. update_report_output env c i status output err db = (Inr (Some view), db')"
proof -
  have ro: "ro \<in> set (db_reports db)" "ro_country_id ro = c" using select_report_SomeD [OF assms(3)] by auto
  have "status = Some ''running'' \<Longrightarrow> has_mutable_running_run ro (list_runs_descending db (ro_id ro))"
    using assms(5,6) by simp
  from write_report_values_ok [OF assms(1,2) ro(1) this assms(8), of err] obtain ro' db'
    where "write_report_values env ro status decoded err db = (Inr ro', db')" by metis
  then show ?thesis
    using assms(3-7) ro(2)
    by (simp add: update_report_output_def bindA_def liftA_def retA_def transaction_def update_selected_report_def
        is_current_report_output_def build_view_def)
qed

text \<open>
  C14. An update of a report is what the next request for its identifier is served: the same
  report under the same response identifier, with the status and error text that were written
  (what was not given is kept), and a display run that carries them; also when the identifier
  is of a report stored under an outdated cache version, whose current report was updated.
\<close>

theorem report_update_is_served:
  assumes "v1_ok env db" and "inj (ve_uuid env)" and "0 \<le> i"
    and "update_report_output env c i status output err db = (Inr (Some view), db1)"
  shows "\<exists>view' db2 run. resolve_report_output env c i db1 = (Inr (Some view'), db2)
     \<and> v1_ok env db2
     \<and> vw_response_id view' = vw_response_id view \<and> vw_response_id view \<in> {None, Some i}
     \<and> ro_id (vw_report_output view') = ro_id (vw_report_output view)
     \<and> ro_output (vw_report_output view') = ro_output (vw_report_output view)
     \<and> status \<in> {None, Some (ro_status (vw_report_output view'))}
     \<and> err \<in> {None, ro_error_message (vw_report_output view')}
     \<and> (c \<noteq> ''us'' \<longrightarrow> decoded_output output \<in> {Inr None, Inr (Some (ro_output (vw_report_output view')))})
     \<and> vw_display_run view' = Some run \<and> rr_status run = ro_status (vw_report_output view')
     \<and> json_eq (rr_output run) (ro_output (vw_report_output view'))"
proof -
  obtain decoded requested v target where u: "decoded_output output = Inr decoded" "v1_ok env db1"
    "select_report_output db i (Some c) = Some requested" "select_report_output db1 i (Some c) \<noteq> None"
    "\<And>r. select_report_output db1 i (Some c) = Some r \<Longrightarrow> report_key r = report_key requested"
    "serves env requested v view db1" "ro_country_id target = c"
    "holds_values (ve_install env) target status decoded err (vw_report_output view)"
    using update_report_outcome [OF assms(1,2,4)] by metis
  then obtain r where r: "select_report_output db1 i (Some c) = Some r" "report_key r = report_key requested" by auto
  have c: "ro_id requested = i" "ro_country_id requested = c" "ro_id r = i"
    using select_report_SomeD [OF u(3)] select_report_SomeD [OF r(1)] by auto
  have key: "key_at r v = key_at requested v" "ro_api_version r = ro_api_version requested"
    using r(2) by (simp_all add: key_at_def report_key_def)
  have s: "cache_version env c = Inr v" "vw_report_output view \<in> set (db_reports db1)"
    "report_key (vw_report_output view) = key_at r v"
    using u(6) c key by (simp_all add: serves_def stored_as_def)
  obtain view' db2 where w: "resolve_report_output env c i db1 = (Inr (Some view'), db2)" "v1_ok env db2"
    "serves env r v view' db2" "ro_id (vw_report_output view') = ro_id (vw_report_output view)"
    "ro_status (vw_report_output view') = ro_status (vw_report_output view)"
    "ro_output (vw_report_output view') = ro_output (vw_report_output view)"
    "ro_error_message (vw_report_output view') = ro_error_message (vw_report_output view)"
    using resolve_serves [OF u(2) assms(2,3) r(1) s] by metis
  have id: "vw_response_id view' = vw_response_id view" "vw_response_id view \<in> {None, Some i}"
    using w(3) u(6) key c by (auto simp: serves_def)
  have "vw_report_output view' \<in> set (db_reports db2)" using w(3) by (simp add: serves_def stored_as_def)
  then obtain run where run: "select_display_run db2 (vw_report_output view') = Some run"
    "mirrors_report (vw_report_output view') run"
    using display_run_of_ok [OF w(2)] by metis
  have disp: "vw_display_run view' = Some run" "rr_status run = ro_status (vw_report_output view')"
    "json_eq (rr_output run) (ro_output (vw_report_output view'))"
    using run w(3) by (simp_all add: serves_def mirrors_report_def matches_report_result_def)
  have vals: "status \<in> {None, Some (ro_status (vw_report_output view'))}"
    "err \<in> {None, ro_error_message (vw_report_output view')}"
    using u(8) w(5,7) by (auto simp: holds_values_def split: option.splits)
  have out: "decoded_output output \<in> {Inr None, Inr (Some (ro_output (vw_report_output view')))}" if "c \<noteq> ''us''"
  proof -
    have "stored_output (ve_install env) target status decoded = Inr decoded"
      using that u(7) by (simp add: stored_output_def Let_def)
    then show ?thesis using u(1,8) w(6) by (simp add: holds_values_def)
  qed
  show ?thesis using w(1,2,4,6) id disp vals out by blast
qed

lemma leaves_create_or_reuse:
  assumes "v1_ok env db" and "inj (ve_uuid env)"
    and "create_or_reuse_report_output env c i j y db = (Inr (view, created), db')"
  shows "v1_ok env db'" and "vw_response_id view = None"
    and "\<exists>v. cache_version env c = Inr v \<and> stored_as (c, i, j, Some y, v) (vw_report_output view) db'
       \<and> (created \<longleftrightarrow> (\<forall>r\<in>set (db_reports db). report_key r \<noteq> (c, i, j, Some y, v)))"
proof -
  obtain found v where f: "find_existing_report_output env c i j (Some y) db = (Inr found, db)"
    "cache_version env c = Inr v" "found_by_key db (c, i, j, Some y, v) found"
    using assms(3)
    by (auto simp: create_or_reuse_report_output_def transaction_Inr bindA_def split: prod.splits sum.splits
        elim!: find_existing_Inr)
  have created: "found = None \<longleftrightarrow> (\<forall>r\<in>set (db_reports db). report_key r \<noteq> (c, i, j, Some y, v))"
    using f(3) by (auto simp: found_by_key_def split: option.splits)
  let ?m = "case found of None \<Rightarrow> create_report_output env c i j (Some y)
     | Some ro \<Rightarrow> ensure_report_output_dual_write_state env (ro_id ro) (Some c)"
  from assms(3) f(1) have run: "bindA ?m (\<lambda>ro. bindA (build_view ro None) (\<lambda>view. retA (view, found = None))) db
      = (Inr (view, created), db')"
    by (simp add: create_or_reuse_report_output_def transaction_Inr bindA_def)
  have m: "leaves env ?m db (\<lambda>ro db'. stored_as (c, i, j, Some y, v) ro db')"
  proof (cases found)
    case None
    with leaves_create [OF assms(1,2), of c i j "Some y"] f(2) show ?thesis by (auto elim!: leaves_mono)
  next
    case (Some ro)
    with f(3) have ro: "ro \<in> set (db_reports db)" "report_key ro = (c, i, j, Some y, v)"
      by (simp_all add: found_by_key_def)
    then have "\<forall>x. Some c = Some x \<longrightarrow> ro_country_id ro = x" by (simp add: report_key_def)
    from leaves_ensure [OF assms(1,2) ro(1) this] ro(2) Some show ?thesis by (auto elim!: leaves_mono)
  qed
  have "leaves env (bindA ?m (\<lambda>ro. bindA (build_view ro None) (\<lambda>view. retA (view, found = None)))) db
      (\<lambda>(view, created) db'. stored_as (c, i, j, Some y, v) (vw_report_output view) db'
          \<and> vw_response_id view = None \<and> created = (found = None))"
    by (rule leaves_bindA [OF m], rule leaves_bindA [OF leaves_build_view]) (auto intro!: leaves_retA)
  from leavesD [OF this run] f(2) created
  show "v1_ok env db'" "vw_response_id view = None"
    "\<exists>v. cache_version env c = Inr v \<and> stored_as (c, i, j, Some y, v) (vw_report_output view) db'
       \<and> (created \<longleftrightarrow> (\<forall>r\<in>set (db_reports db). report_key r \<noteq> (c, i, j, Some y, v)))"
    by auto
qed

text \<open>
  C19. Creating a report is idempotent: it reports a new one exactly when none of that cache
  version has the same simulations and year, and asking again is served the very same
  report, the only one of its identity.
\<close>

theorem report_creation_reuses:
  assumes "v1_ok env db" and "inj (ve_uuid env)"
    and "create_or_reuse_report_output env c i j y db = (Inr (view, created), db1)"
  shows "\<exists>v view' db2. cache_version env c = Inr v
     \<and> (created \<longleftrightarrow> (\<forall>r\<in>set (db_reports db). report_key r \<noteq> (c, i, j, Some y, v)))
     \<and> create_or_reuse_report_output env c i j y db1 = (Inr (view', False), db2)
     \<and> ro_id (vw_report_output view') = ro_id (vw_report_output view)
     \<and> {r \<in> set (db_reports db2). report_key r = (c, i, j, Some y, v)} = {vw_report_output view'}"
proof -
  note first = leaves_create_or_reuse [OF assms]
  obtain v where v: "cache_version env c = Inr v" "stored_as (c, i, j, Some y, v) (vw_report_output view) db1"
    "created \<longleftrightarrow> (\<forall>r\<in>set (db_reports db). report_key r \<noteq> (c, i, j, Some y, v))"
    using first(3) by blast
  let ?ro = "vw_report_output view"
  have ro: "?ro \<in> set (db_reports db1)" "report_key ?ro = (c, i, j, Some y, v)"
    using v(2) by (simp_all add: stored_as_def)
  have found: "find_existing_report_output env c i j (Some y) db1 = (Inr (Some ?ro), db1)"
    by (rule find_existing_unique [OF first(1) ro(1) v(1) ro(2)])
  have "\<forall>x. Some c = Some x \<longrightarrow> ro_country_id ?ro = x" using ro(2) by (simp add: report_key_def)
  from ensure_ok_report [OF first(1) assms(2) ro(1) this] obtain ro' db2
    where e: "ensure_report_output_dual_write_state env (ro_id ?ro) (Some c) db1 = (Inr ro', db2)" "v1_ok env db2"
      "ro' \<in> set (db_reports db2)" "ro_id ro' = ro_id ?ro" "report_key ro' = report_key ?ro" by metis
  let ?view = "\<lparr>vw_report_output = ro', vw_display_run = select_display_run db2 ro', vw_response_id = None\<rparr>"
  have "create_or_reuse_report_output env c i j y db1 = (Inr (?view, False), db2)"
    using found e(1) by (simp add: create_or_reuse_report_output_def transaction_Inr bindA_def build_view_def retA_def)
  moreover have "{r \<in> set (db_reports db2). report_key r = (c, i, j, Some y, v)} = {ro'}"
  proof -
    have "inj_on report_key (set (db_reports db2))" using e(2) by (simp add: v1_ok_def report_frame_def)
    from inj_onD [OF this] e(3,5) ro(2) show ?thesis by auto
  qed
  ultimately show ?thesis using v(1,3) e(4) by (intro exI [of _ v] exI [of _ ?view] exI [of _ db2]) simp
qed

end
