(* ===== verification/V1_Routes.thy ===== *)
theory V1_Routes
  imports Report_Requests "HOL-Library.Sublist"
begin

text \<open>
  The Flask views of \<open>policyengine_api/routes/simulation_routes.py\<close> and
  \<open>routes/report_output_routes.py\<close>, with \<open>validate_country\<close>, the response factory and the
  error handlers of \<open>routes/error_routes.py\<close>: what a request body must hold, the answer to each
  outcome of the services, and what any sequence of requests keeps of the database.

  A path's integer is a natural number, which is what its converter matches. An id or policy
  that is a JSON boolean is the int it equals. The text of werkzeug's exceptions, the reading
  the database driver makes of a value of another type than its column, and the year of the
  host's clock are parameters.
\<close>

section \<open>Answers\<close>

record web_env =
  wb_http_text :: "int \<Rightarrow> string \<Rightarrow> string"
  wb_text :: "json \<Rightarrow> string result"
  wb_key :: "json \<Rightarrow> int option result"
  wb_current_year :: string

text \<open>An environment for examples: the driver refuses every value of another type.\<close>

definition example_web :: web_env where
  "example_web = \<lparr>wb_http_text = (\<lambda>code s. s), wb_text = (\<lambda>v. Inl (TypeErr ''unsupported value'')),
     wb_key = (\<lambda>v. Inl (TypeErr ''unsupported value'')), wb_current_year = ''2026''\<rparr>"

text \<open>A view returns a response, raises an HTTP exception with its description, or another error.\<close>

datatype view_result = Answer int json | HttpError int string | Unhandled exn

type_synonym http_answer = "int \<times> json"

definition make_error_response :: "string \<Rightarrow> int \<Rightarrow> (string \<times> json) list \<Rightarrow> http_answer" where
  "make_error_response message status_code payload_fields =
     (status_code, JObj ([(''status'', JStr ''error''), (''message'', JStr message)] @ payload_fields))"

definition response_http_exception :: "web_env \<Rightarrow> int \<Rightarrow> string \<Rightarrow> http_answer" where
  "response_http_exception web code description =
     make_error_response (wb_http_text web code description) code [(''result'', JNull)]"

definition response_generic_error :: "exn \<Rightarrow> http_answer" where
  "response_generic_error e = make_error_response (error_message e) 500 [(''result'', JNull)]"

fun answered :: "web_env \<Rightarrow> view_result \<Rightarrow> http_answer" where
  "answered web (Answer code body) = (code, body)"
| "answered web (HttpError code description) = response_http_exception web code description"
| "answered web (Unhandled e) = response_generic_error e"

definition SUPPORTED_COUNTRY_IDS :: "string list" where
  "SUPPORTED_COUNTRY_IDS = [''us'', ''uk'']"

definition COUNTRIES :: "string list" where
  "COUNTRIES = [''uk'', ''us'']"

definition invalid_country_message :: "string \<Rightarrow> string" where
  "invalid_country_message country_id =
     ''Country '' @ country_id @ '' not found. Available countries are: '' @ join '', '' COUNTRIES"

definition validate_country ::
  "string \<Rightarrow> ('w \<Rightarrow> http_answer \<times> 'w) \<Rightarrow> 'w \<Rightarrow> http_answer \<times> 'w" where
  "validate_country country_id view w =
     (if country_id \<notin> set COUNTRIES then (make_error_response (invalid_country_message country_id) 400 [], w)
      else view w)"

definition ok_body :: "json \<Rightarrow> (string \<times> json) list \<Rightarrow> json" where
  "ok_body message result = JObj [(''status'', JStr ''ok''), (''message'', message), (''result'', JObj result)]"

section \<open>Payloads\<close>

fun type_name :: "json \<Rightarrow> string" where
  "type_name JNull = ''NoneType''"
| "type_name (JBool b) = ''bool''"
| "type_name (JInt i) = ''int''"
| "type_name (JFloat f) = ''float''"
| "type_name (JStr s) = ''str''"
| "type_name (JArr xs) = ''list''"
| "type_name (JObj d) = ''dict''"

text \<open>\<open>payload.get\<close>: only a JSON object has it.\<close>

definition payload_object :: "json \<Rightarrow> view_result + (string \<times> json) list" where
  "payload_object payload =
     (case payload of
        JObj d \<Rightarrow> Inr d
      | JNull \<Rightarrow> Inl (HttpError 400 ''Payload missing from request'')
      | v \<Rightarrow> Inl (Unhandled (OtherError (CHR 0x27 # type_name v @ CHR 0x27 # '' object has no attribute ''
                @ CHR 0x27 # ''get'' @ [CHR 0x27]))))"

fun int_instance :: "json \<Rightarrow> int option" where
  "int_instance (JInt i) = Some i"
| "int_instance (JBool b) = Some (if b then 1 else 0)"
| "int_instance v = None"

fun str_member :: "json \<Rightarrow> string list \<Rightarrow> bool" where
  "str_member (JStr s) names = (s \<in> set names)"
| "str_member v names = False"

definition optional :: "json \<Rightarrow> json option" where
  "optional v = (if v = JNull then None else Some v)"

text \<open>What an integer column, and a text column, make of a value bound to them.\<close>

definition key_of :: "web_env \<Rightarrow> json \<Rightarrow> int option result" where
  "key_of web v =
     (if v = JNull then Inr None
      else case int_instance v of Some i \<Rightarrow> Inr (Some i) | None \<Rightarrow> wb_key web v)"

fun text_of :: "web_env \<Rightarrow> json \<Rightarrow> string result" where
  "text_of web (JStr s) = Inr s"
| "text_of web v = wb_text web v"

fun is_lookup_error :: "exn \<Rightarrow> bool" where
  "is_lookup_error (LookupErr m) = True"
| "is_lookup_error (KeyErr m) = True"
| "is_lookup_error e = False"

text \<open>
  A write of a value its column refuses fails when the session flushes, after everything the
  service checks before; nothing of it is kept.
\<close>

definition refused_at_flush :: "exn \<Rightarrow> (v1_db, 'a) act \<Rightarrow> (v1_db, 'a) act" where
  "refused_at_flush e m = transaction (bindA m (\<lambda>x. raiseA e))"

definition writing_text :: "string option result \<Rightarrow> (string option \<Rightarrow> (v1_db, 'a) act) \<Rightarrow> (v1_db, 'a) act" where
  "writing_text r m = (case r of Inr v \<Rightarrow> m v | Inl e \<Rightarrow> refused_at_flush e (m (Some [])))"

definition optional_text :: "web_env \<Rightarrow> json \<Rightarrow> string option result" where
  "optional_text web v = (if v = JNull then Inr None else res_bind (text_of web v) (\<lambda>s. Inr (Some s)))"

section \<open>Reports\<close>

definition report_request ::
  "web_env \<Rightarrow> json \<Rightarrow> view_result + int \<times> int option \<times> string" where
  "report_request web payload =
     (case payload_object payload of
        Inl r \<Rightarrow> Inl r
      | Inr d \<Rightarrow>
          (let s1 = dict_get_none d ''simulation_1_id'';
               s2 = dict_get_none d ''simulation_2_id'';
               year = (case map_of d ''year'' of None \<Rightarrow> JStr (wb_current_year web) | Some y \<Rightarrow> y)
           in if s1 = JNull then Inl (HttpError 400 ''simulation_1_id is required'')
              else if int_instance s1 = None then Inl (HttpError 400 ''simulation_1_id must be an integer'')
              else if s2 \<noteq> JNull \<and> int_instance s2 = None
                then Inl (HttpError 400 ''simulation_2_id must be an integer or null'')
              else case year of
                JStr y \<Rightarrow> Inr (the (int_instance s1), int_instance s2, y)
              | _ \<Rightarrow> Inl (HttpError 400 ''year must be a string'')))"

definition create_report_output_view :: "v1_env \<Rightarrow> web_env \<Rightarrow> string \<Rightarrow> json \<Rightarrow> v1_db \<Rightarrow> view_result \<times> v1_db" where
  "create_report_output_view env web country_id payload db =
     (case report_request web payload of
        Inl r \<Rightarrow> (r, db)
      | Inr (s1, s2, year) \<Rightarrow>
          (case create_or_reuse_report_output env country_id s1 s2 year db of
             (Inr (view, created), db') \<Rightarrow>
               (Answer (if created then 201 else 200)
                  (ok_body (JStr (if created then ''Report output created successfully''
                                  else ''Report output already exists''))
                     (serialize_v1_report_output view)), db')
           | (Inl e, db') \<Rightarrow>
               (if is_value_error e then HttpError 400 (''Failed to create report output: '' @ error_message e)
                else Unhandled e, db')))"

definition get_report_output_view :: "v1_env \<Rightarrow> string \<Rightarrow> nat \<Rightarrow> v1_db \<Rightarrow> view_result \<times> v1_db" where
  "get_report_output_view env country_id report_id db =
     (case resolve_report_output env country_id (int report_id) db of
        (Inl e, db') \<Rightarrow> (Unhandled e, db')
      | (Inr None, db') \<Rightarrow> (HttpError 404 (''Report #'' @ show_nat report_id @ '' not found.''), db')
      | (Inr (Some view), db') \<Rightarrow> (Answer 200 (ok_body JNull (serialize_v1_report_output view)), db'))"

text \<open>The four fields an update may carry.\<close>

definition update_request ::
  "string list \<Rightarrow> string \<Rightarrow> (string \<times> json) list \<Rightarrow> view_result + string option \<times> json \<times> json option \<times> json" where
  "update_request statuses refusal d =
     (let status = dict_get_none d ''status'';
          output = dict_get_none d ''output''
      in if status \<noteq> JNull \<and> \<not> str_member status statuses then Inl (HttpError 400 refusal)
         else if status = JStr ''complete'' \<and> output = JNull
           then Inl (HttpError 400 (''output is required when status is '' @ CHR 0x27 # ''complete'' @ [CHR 0x27]))
         else Inr (case status of JStr s \<Rightarrow> Some s | _ \<Rightarrow> None, dict_get_none d ''id'', optional output,
                   dict_get_none d ''error_message''))"

definition report_status_refusal :: string where
  "report_status_refusal =
     ''status must be '' @ join '', '' (map (repr_string) [''pending'', ''running'', ''complete''])
       @ '', or '' @ repr_string ''error''"

text \<open>An identifier no row has, or that the driver refuses, ends an update once its output is decoded.\<close>

definition unselected_update ::
  "string option \<Rightarrow> json option \<Rightarrow> bool \<Rightarrow> (json option \<Rightarrow> json option result) \<Rightarrow> exn \<Rightarrow> (v1_db, 'a option) act" where
  "unselected_update status output has_error check e =
     (if status = None \<and> output = None \<and> \<not> has_error then retA None
      else bindA (liftA (decoded_output output)) (\<lambda>decoded. bindA (liftA (check decoded)) (\<lambda>c. raiseA e)))"

definition patch_report ::
  "v1_env \<Rightarrow> web_env \<Rightarrow> string \<Rightarrow> string option \<Rightarrow> json \<Rightarrow> json option \<Rightarrow> json \<Rightarrow> (v1_db, report_view option) act" where
  "patch_report env web country_id status report_id output error_value =
     (case key_of web report_id of
        Inr (Some i) \<Rightarrow>
          writing_text (optional_text web error_value) (update_report_output env country_id i status output)
      | Inr None \<Rightarrow>
          unselected_update status output (error_value \<noteq> JNull) Inr
            (LookupErr (''Report output #'' @ py_str report_id @ '' not found''))
      | Inl e \<Rightarrow> unselected_update status output (error_value \<noteq> JNull) Inr e)"

definition update_report_output_view :: "v1_env \<Rightarrow> web_env \<Rightarrow> string \<Rightarrow> json \<Rightarrow> v1_db \<Rightarrow> view_result \<times> v1_db" where
  "update_report_output_view env web country_id payload db =
     (case (case payload_object payload of
              Inl r \<Rightarrow> Inl r
            | Inr d \<Rightarrow> update_request [''pending'', ''running'', ''complete'', ''error''] report_status_refusal d) of
        Inl r \<Rightarrow> (r, db)
      | Inr (status, report_id, output, error_value) \<Rightarrow>
          (case patch_report env web country_id status report_id output error_value db of
             (Inr None, db') \<Rightarrow> (HttpError 400 ''No fields to update'', db')
           | (Inr (Some view), db') \<Rightarrow>
               (Answer 200 (ok_body (JStr ''Report output updated successfully'') (serialize_v1_report_output view)), db')
           | (Inl e, db') \<Rightarrow>
               (if is_lookup_error e then HttpError 404 (''Report #'' @ py_str report_id @ '' not found.'')
                else if is_value_error e then HttpError 400 (''Failed to update report output: '' @ error_message e)
                else Unhandled e, db')))"

section \<open>Simulations\<close>

definition spm_override_response :: view_result where
  "spm_override_response =
     (let message = ''Simulation records do not accept SPM overrides. Select SPM settings on the linked household before creating its simulation.''
      in (case make_error_response message 400
               [(''result'', JNull),
                (''errors'', JArr [JObj [(''code'', JStr ''SPM_SETTINGS_UNSUPPORTED''), (''message'', JStr message)]])] of
            (code, body) \<Rightarrow> Answer code body))"

text \<open>\<open>'spm' in payload\<close>: a key of an object, an item of a list, a part of a text.\<close>

definition simulation_payload :: "json \<Rightarrow> view_result + (string \<times> json) list" where
  "simulation_payload payload =
     (case payload of
        JNull \<Rightarrow> payload_object payload
      | JObj d \<Rightarrow> if map_of d ''spm'' \<noteq> None then Inl spm_override_response else payload_object payload
      | JArr xs \<Rightarrow> if JStr ''spm'' \<in> set xs then Inl spm_override_response else payload_object payload
      | JStr s \<Rightarrow> if sublist ''spm'' s then Inl spm_override_response else payload_object payload
      | v \<Rightarrow> Inl (Unhandled (TypeErr (''argument of type '' @ CHR 0x27 # type_name v @ CHR 0x27 # '' is not iterable''))))"

definition require_simulation_identity :: "json \<Rightarrow> json \<Rightarrow> json \<Rightarrow> view_result + string \<times> int" where
  "require_simulation_identity population_id population_type policy_id =
     (if \<not> truthy population_id then Inl (HttpError 400 ''population_id is required'')
      else if \<not> truthy population_type then Inl (HttpError 400 ''population_type is required'')
      else if \<not> str_member population_type [''household'', ''geography'']
        then Inl (HttpError 400 (''population_type must be '' @ repr_string ''household'' @ '' or ''
                                   @ repr_string ''geography''))
      else if policy_id = JNull then Inl (HttpError 400 ''policy_id is required'')
      else case int_instance policy_id of
        None \<Rightarrow> Inl (HttpError 400 ''policy_id must be an integer'')
      | Some i \<Rightarrow> Inr (py_str population_type, i))"

text \<open>A number is the text of a US household it names; else the driver reads it.\<close>

definition population_text :: "web_env \<Rightarrow> string \<Rightarrow> json \<Rightarrow> string \<Rightarrow> string result" where
  "population_text web country_id population_id population_type =
     (if canonical_numeric_household_id country_id (py_str population_id) population_type \<noteq> None
      then Inr (py_str population_id) else text_of web population_id)"

definition create_simulation_view :: "v1_env \<Rightarrow> web_env \<Rightarrow> string \<Rightarrow> json \<Rightarrow> v1_db \<Rightarrow> view_result \<times> v1_db" where
  "create_simulation_view env web country_id payload db =
     (case simulation_payload payload of
        Inl r \<Rightarrow> (r, db)
      | Inr d \<Rightarrow>
          (let population_id = dict_get_none d ''population_id''
           in case require_simulation_identity population_id (dict_get_none d ''population_type'')
                     (dict_get_none d ''policy_id'') of
                Inl r \<Rightarrow> (r, db)
              | Inr (population_type, policy_id) \<Rightarrow>
                  (case bindA (liftA (population_text web country_id population_id population_type)) (\<lambda>population.
                          get_or_create_simulation env country_id population population_type policy_id) db of
                     (Inr (s, created), db') \<Rightarrow>
                       (Answer (if created then 201 else 200)
                          (ok_body (JStr (if created then ''Simulation created successfully''
                                          else ''Simulation already exists'')) (serialize_v1_simulation s)), db')
                   | (Inl e, db') \<Rightarrow>
                       (if is_value_error e then HttpError 400 (''Failed to create simulation: '' @ error_message e)
                        else Unhandled e, db'))))"

definition get_simulation_view :: "string \<Rightarrow> nat \<Rightarrow> v1_db \<Rightarrow> view_result \<times> v1_db" where
  "get_simulation_view country_id simulation_id db =
     (if simulation_id = 0 then (HttpError 400 ''simulation_id must be a positive integer'', db)
      else case get_simulation country_id (int simulation_id) db of
        (Inl e, db') \<Rightarrow> (Unhandled e, db')
      | (Inr None, db') \<Rightarrow> (HttpError 404 (''Simulation #'' @ show_nat simulation_id @ '' not found.''), db')
      | (Inr (Some s), db') \<Rightarrow> (Answer 200 (ok_body JNull (serialize_v1_simulation s)), db'))"

definition simulation_status_refusal :: string where
  "simulation_status_refusal =
     ''status must be '' @ join '', '' (map (repr_string) [''pending'', ''complete'']) @ '', or '' @ repr_string ''error''"

definition patch_simulation ::
  "v1_env \<Rightarrow> web_env \<Rightarrow> string \<Rightarrow> string option \<Rightarrow> json \<Rightarrow> json option \<Rightarrow> json \<Rightarrow> (v1_db, simulation option) act" where
  "patch_simulation env web country_id status simulation_id output error_value =
     (case key_of web simulation_id of
        Inr (Some i) \<Rightarrow>
          writing_text (optional_text web error_value) (update_simulation env country_id i status output)
      | Inr None \<Rightarrow>
          unselected_update status output (error_value \<noteq> JNull) (checked_simulation_output (ve_install env))
            (LookupErr (''Simulation #'' @ py_str simulation_id @ '' not found''))
      | Inl e \<Rightarrow>
          unselected_update status output (error_value \<noteq> JNull) (checked_simulation_output (ve_install env)) e)"

definition update_simulation_view :: "v1_env \<Rightarrow> web_env \<Rightarrow> string \<Rightarrow> json \<Rightarrow> v1_db \<Rightarrow> view_result \<times> v1_db" where
  "update_simulation_view env web country_id payload db =
     (case (case simulation_payload payload of
              Inl r \<Rightarrow> Inl r
            | Inr d \<Rightarrow> update_request [''pending'', ''complete'', ''error''] simulation_status_refusal d) of
        Inl r \<Rightarrow> (r, db)
      | Inr (status, simulation_id, output, error_value) \<Rightarrow>
          (case patch_simulation env web country_id status simulation_id output error_value db of
             (Inr None, db') \<Rightarrow> (HttpError 400 ''No fields to update'', db')
           | (Inr (Some s), db') \<Rightarrow>
               (Answer 200 (ok_body (JStr ''Simulation updated successfully'') (serialize_v1_simulation s)), db')
           | (Inl e, db') \<Rightarrow>
               (if is_lookup_error e then HttpError 404 (''Simulation #'' @ py_str simulation_id @ '' not found.'')
                else if is_value_error e then HttpError 400 (''Failed to update simulation: '' @ error_message e)
                else Unhandled e, db')))"

section \<open>Requests\<close>

datatype v1_request =
    PostSimulation string json | GetSimulation string nat | PatchSimulation string json
  | PostReport string json | GetReport string nat | PatchReport string json

fun v1_view :: "v1_env \<Rightarrow> web_env \<Rightarrow> v1_request \<Rightarrow> v1_db \<Rightarrow> view_result \<times> v1_db" where
  "v1_view env web (PostSimulation c p) = create_simulation_view env web c p"
| "v1_view env web (GetSimulation c i) = get_simulation_view c i"
| "v1_view env web (PatchSimulation c p) = update_simulation_view env web c p"
| "v1_view env web (PostReport c p) = create_report_output_view env web c p"
| "v1_view env web (GetReport c i) = get_report_output_view env c i"
| "v1_view env web (PatchReport c p) = update_report_output_view env web c p"

fun v1_country :: "v1_request \<Rightarrow> string" where
  "v1_country (PostSimulation c p) = c"
| "v1_country (GetSimulation c i) = c"
| "v1_country (PatchSimulation c p) = c"
| "v1_country (PostReport c p) = c"
| "v1_country (GetReport c i) = c"
| "v1_country (PatchReport c p) = c"

definition v1_answer :: "v1_env \<Rightarrow> web_env \<Rightarrow> v1_request \<Rightarrow> v1_db \<Rightarrow> http_answer \<times> v1_db" where
  "v1_answer env web req =
     validate_country (v1_country req) (\<lambda>db. case v1_view env web req db of (r, db') \<Rightarrow> (answered web r, db'))"

end
