(* ===== verification/V1_Histories.thy ===== *)
theory V1_Histories
  imports V1_Routes
begin

text \<open>
  Histories of requests on the v1 routes: whatever is asked, in whatever order, the database
  stays well-formed, and an answer that refuses a request leaves every table as it was.
\<close>

section \<open>Transactions\<close>

definition rolled_back :: "v1_db \<Rightarrow> v1_db \<Rightarrow> bool" where
  "rolled_back db db' \<longleftrightarrow>
     db_simulations db' = db_simulations db \<and> db_simulation_runs db' = db_simulation_runs db
     \<and> db_reports db' = db_reports db \<and> db_report_runs db' = db_report_runs db \<and> db_aliases db' = db_aliases db
     \<and> counters_le db db'"

lemma rolled_back_refl [simp]: "rolled_back db db"
  by (simp add: rolled_back_def)

lemma v1_ok_rolled_back:
  assumes "v1_ok env db" and "rolled_back db db'"
  shows "v1_ok env db'"
proof -
  have "simulations_ok env db'"
    by (rule simulations_ok_mono [of env db]) (use assms in \<open>auto simp: v1_ok_def rolled_back_def counters_le_def\<close>)
  then show ?thesis
    using assms unfolding v1_ok_def report_frame_def report_ok_def report_runs_of_def rolled_back_def counters_le_def
    by (simp, meson le_less_trans less_le_trans)
qed

text \<open>An action that either raises and is rolled back, or leaves a well-formed database.\<close>

definition atomic :: "v1_env \<Rightarrow> (v1_db, 'a) act \<Rightarrow> bool" where
  "atomic env m \<longleftrightarrow>
     (\<forall>db. v1_ok env db \<longrightarrow> (case m db of (Inl e, db') \<Rightarrow> rolled_back db db' | (Inr x, db') \<Rightarrow> v1_ok env db'))"

named_theorems atomic_intros \<open>actions that are rolled back whole\<close>

lemma atomic_retA [atomic_intros]: "atomic env (retA x)"
  by (simp add: atomic_def retA_def)

lemma atomic_raiseA [atomic_intros]: "atomic env (raiseA e)"
  by (simp add: atomic_def raiseA_def)

lemma atomic_liftA [atomic_intros]:
  "(\<And>x. atomic env (f x)) \<Longrightarrow> atomic env (bindA (liftA r) f)"
  by (simp add: atomic_def bindA_def liftA_def split: sum.split)

lemma atomic_bind_retA [atomic_intros]: "atomic env m \<Longrightarrow> atomic env (bindA m (\<lambda>x. retA (g x)))"
  unfolding atomic_def bindA_def retA_def by (simp split: prod.splits sum.splits) blast

lemma atomic_if [atomic_intros]: "atomic env m \<Longrightarrow> atomic env n \<Longrightarrow> atomic env (if b then m else n)"
  by simp

lemma transaction_rolled_back:
  assumes "grows m" and "transaction m db = (Inl e, db')"
  shows "rolled_back db db'"
proof -
  obtain db1 where "m db = (Inl e, db1)" and "db' = db\<lparr>db_next_simulation := db_next_simulation db1,
       db_next_report := db_next_report db1, db_draws := db_draws db1\<rparr>"
    using transaction_Inl [OF assms(2)] by blast
  moreover from this(1) assms(1) have "counters_le db db1" unfolding grows_def by (metis snd_conv)
  ultimately show ?thesis by (simp add: rolled_back_def counters_le_def)
qed

lemma atomic_transaction:
  assumes "grows m" and "\<And>db. v1_ok env db \<Longrightarrow> leaves env m db (\<lambda>x db'. True)"
  shows "atomic env (transaction m)"
  unfolding atomic_def
proof (intro allI impI)
  fix db
  assume ok: "v1_ok env db"
  obtain r db' where t: "transaction m db = (r, db')" by fastforce
  show "case transaction m db of (Inl e, db') \<Rightarrow> rolled_back db db' | (Inr x, db') \<Rightarrow> v1_ok env db'"
  proof (cases r)
    case (Inl e)
    with t transaction_rolled_back [OF assms(1)] show ?thesis by simp
  next
    case (Inr x)
    with t have "m db = (Inr x, db')" by (simp add: transaction_Inr)
    from leavesD [OF assms(2) [OF ok] this] t Inr show ?thesis by simp
  qed
qed

lemma atomic_refused [atomic_intros]: "grows m \<Longrightarrow> atomic env (refused_at_flush e m)"
  unfolding refused_at_flush_def
  by (rule atomic_transaction) (auto intro!: grows_intros simp: leaves_def bindA_def raiseA_def split: prod.split sum.split)

lemma leaves_True: "leaves env m db Q \<Longrightarrow> leaves env m db (\<lambda>x db'. True)"
  by (rule leaves_mono) auto

section \<open>The services\<close>

definition reports_kept :: "v1_db \<Rightarrow> v1_db \<Rightarrow> bool" where
  "reports_kept db db' \<longleftrightarrow>
     db_reports db' = db_reports db \<and> db_report_runs db' = db_report_runs db
     \<and> db_next_report db' = db_next_report db \<and> db_draws db \<le> db_draws db'"

lemma v1_ok_simulations:
  assumes "v1_ok env db" and "reports_kept db db'" and "simulations_ok env db'"
  shows "v1_ok env db'" and "extends db db'"
proof -
  show "v1_ok env db'"
    using assms unfolding v1_ok_def report_frame_def report_ok_def report_runs_of_def reports_kept_def
    by (simp, meson less_le_trans)
  show "extends db db'" using assms(2) unfolding reports_kept_def extends_def by auto
qed

lemma reports_kept_ensure: "reports_kept db (snd (ensure_simulation_dual_write_state env i c db))"
  by (auto simp: ensure_simulation_dual_write_state_def sync_simulation_runs_def reports_kept_def Let_def
      split: option.split)

lemma reports_kept_trans: "reports_kept a b \<Longrightarrow> reports_kept b c \<Longrightarrow> reports_kept a c"
  by (auto simp: reports_kept_def)

lemma reports_kept_ensure_after:
  assumes "reports_kept db db1"
  shows "reports_kept db (snd (ensure_simulation_dual_write_state env i c db1))"
  by (rule reports_kept_trans [OF assms reports_kept_ensure])

lemma reports_kept_create: "reports_kept db (snd (create_simulation env c p t pol db))"
  by (auto simp: create_simulation_def Let_def reports_kept_def split: option.split
      intro!: reports_kept_ensure_after [unfolded reports_kept_def])

lemma reports_kept_store: "reports_kept db (snd (store_simulation_values env c i status output err db))"
  by (auto simp: store_simulation_values_def Let_def reports_kept_def split: option.split
      intro!: reports_kept_ensure_after [unfolded reports_kept_def])

lemma reports_kept_counters: "reports_kept db db' \<Longrightarrow> db_next_simulation db \<le> db_next_simulation db' \<Longrightarrow> counters_le db db'"
  by (simp add: reports_kept_def counters_le_def)

lemma grows_store_simulation [grows_intros]: "grows (store_simulation_values env c i status output err)"
proof -
  have "db_next_simulation db \<le> db_next_simulation (snd (store_simulation_values env c i status output err db))" for db
    by (auto simp: store_simulation_values_def Let_def ensure_simulation_dual_write_state_def sync_simulation_runs_def
        split: option.split)
  then show ?thesis by (simp add: grows_def reports_kept_counters reports_kept_store)
qed

lemma grows_create_simulation [grows_intros]: "grows (create_simulation env c p t pol)"
proof -
  have "db_next_simulation db \<le> db_next_simulation (snd (create_simulation env c p t pol db))" for db
    by (auto simp: create_simulation_def Let_def ensure_simulation_dual_write_state_def sync_simulation_runs_def
        split: option.split)
  then show ?thesis by (simp add: grows_def reports_kept_counters reports_kept_create)
qed

lemma grows_selected:
  assumes "grows m" and "\<And>x. grows (g x)"
  shows "grows (\<lambda>db. case f db of None \<Rightarrow> m db | Some x \<Rightarrow> g x db)"
  using assms by (simp add: grows_def split: option.split)

lemma grows_ensure_simulation [grows_intros]: "grows (ensure_simulation_dual_write_state env i c)"
  by (simp add: grows_def counters_ensure_simulation)

lemma atomic_get_or_create [atomic_intros]:
  assumes "inj (ve_uuid env)"
  shows "atomic env (get_or_create_simulation env c p t pol)"
proof -
  define m where "m = (\<lambda>db. case lock_existing_simulation db c p t pol of
      None \<Rightarrow> bindA (create_simulation env c (population_identity c p t) t pol) (\<lambda>s. retA (s, True)) db
    | Some s \<Rightarrow> bindA (ensure_simulation_dual_write_state env (sn_id s) (Some c)) (\<lambda>s'. retA (s', False)) db)"
  have grows: "grows m" unfolding m_def by (auto intro!: grows_selected grows_intros)
  have kept: "reports_kept db (snd (m db))" for db
    unfolding m_def
    using reports_kept_create [of db env c "population_identity c p t" t pol] reports_kept_ensure [of db env _ "Some c"]
    by (auto simp: bindA_def retA_def split: option.split prod.split sum.split) (metis snd_conv)+
  have run: "get_or_create_simulation env c p t pol = transaction m"
    by (simp add: get_or_create_simulation_def m_def)
  have "leaves env m db (\<lambda>x db'. True)" if ok: "v1_ok env db" for db
  proof -
    obtain r db' where r: "m db = (r, db')" by fastforce
    show ?thesis
    proof (cases r)
      case (Inr x)
      with r have "get_or_create_simulation env c p t pol db = (Inr x, db')" by (simp add: run transaction_Inr)
      from requested_simulation_outcome(1) [OF _ assms this] ok have "simulations_ok env db'" by (simp add: v1_ok_def)
      from v1_ok_simulations [OF ok _ this] kept [of db] r Inr show ?thesis by (simp add: leaves_def)
    qed (simp add: leaves_def r)
  qed
  with grows show ?thesis unfolding run by (rule atomic_transaction)
qed

lemma atomic_update_simulation [atomic_intros]:
  assumes "inj (ve_uuid env)"
  shows "atomic env (update_simulation env c i status output err)"
proof -
  have "leaves env (store_simulation_values env c i status v err) db (\<lambda>x db'. True)" if ok: "v1_ok env db" for v db
  proof -
    obtain r db' where run: "store_simulation_values env c i status v err db = (r, db')" by fastforce
    have sims: "simulations_ok env db" using ok by (simp add: v1_ok_def)
    have kept: "reports_kept db db'" using reports_kept_store [of db env c i status v err] run by simp
    show ?thesis
    proof (cases r)
      case (Inr s)
      with store_values_outcome [OF sims assms run] have "simulations_ok env db'" by auto
      from v1_ok_simulations [OF ok kept this] run Inr show ?thesis by (simp add: leaves_def)
    qed (simp add: leaves_def run)
  qed
  then show ?thesis
    unfolding update_simulation_def by (auto intro!: atomic_intros atomic_transaction grows_intros)
qed

lemma grows_update_simulation [grows_intros]: "grows (update_simulation env c i status output err)"
  unfolding update_simulation_def by (auto intro!: grows_intros)

lemma atomic_create_or_reuse [atomic_intros]:
  assumes "inj (ve_uuid env)"
  shows "atomic env (create_or_reuse_report_output env c i j y)"
proof -
  let ?m = "bindA (find_existing_report_output env c i j (Some y)) (\<lambda>existing.
        bindA (case existing of
                 None \<Rightarrow> create_report_output env c i j (Some y)
               | Some ro \<Rightarrow> ensure_report_output_dual_write_state env (ro_id ro) (Some c)) (\<lambda>ro.
        bindA (build_view ro None) (\<lambda>view. retA (view, existing = None))))"
  have "leaves env ?m db (\<lambda>x db'. True)" if ok: "v1_ok env db" for db
  proof (rule leaves_bindA [OF leaves_find [OF ok]], elim conjE exE, hypsubst)
    fix found and v :: string
    assume f: "found_by_key db (c, i, j, Some y, v) found"
    have "leaves env (case found of None \<Rightarrow> create_report_output env c i j (Some y)
        | Some ro \<Rightarrow> ensure_report_output_dual_write_state env (ro_id ro) (Some c)) db (\<lambda>x db'. True)"
    proof (cases found)
      case None
      with leaves_True [OF leaves_create [OF ok assms]] show ?thesis by simp
    next
      case (Some ro)
      with f have "ro \<in> set (db_reports db)" "\<forall>x. Some c = Some x \<longrightarrow> ro_country_id ro = x"
        by (auto simp: found_by_key_def report_key_def)
      from leaves_True [OF leaves_ensure [OF ok assms this]] Some show ?thesis by simp
    qed
    then show "leaves env (bindA (case found of None \<Rightarrow> create_report_output env c i j (Some y)
        | Some ro \<Rightarrow> ensure_report_output_dual_write_state env (ro_id ro) (Some c)) (\<lambda>ro.
        bindA (build_view ro None) (\<lambda>view. retA (view, found = None)))) db (\<lambda>x db'. True)"
      by (rule leaves_bindA, intro leaves_bindA [OF leaves_build_view] leaves_retA) auto
  qed
  then show ?thesis
    unfolding create_or_reuse_report_output_def
    by (intro atomic_transaction) (auto intro!: grows_intros)
qed

lemma atomic_update_report [atomic_intros]:
  assumes "inj (ve_uuid env)"
  shows "atomic env (update_report_output env c i status output err)"
  unfolding update_report_output_def
  by (auto intro!: atomic_intros atomic_transaction grows_update_selected leaves_True [OF leaves_update] assms)

lemma grows_update_report [grows_intros]: "grows (update_report_output env c i status output err)"
  unfolding update_report_output_def by (auto intro!: grows_intros grows_update_selected)

lemma atomic_resolve [atomic_intros]:
  assumes "inj (ve_uuid env)"
  shows "atomic env (resolve_report_output env c i)"
proof -
  let ?serve = "\<lambda>requested. bindA (is_current_report_output env requested) (\<lambda>current.
      if current
      then bindA (ensure_report_output_dual_write_state env i (Some c)) (\<lambda>ro.
           bindA (build_view ro None) (\<lambda>view. retA (Some view)))
      else bindA (get_or_create_current_report_output env requested) (\<lambda>ro.
           bindA (build_view ro (Some i)) (\<lambda>view. retA (Some view))))"
  let ?m = "\<lambda>db. case select_report_output db i (Some c) of
      None \<Rightarrow> (Inr None, db) | Some requested \<Rightarrow> ?serve requested db"
  have grows: "grows ?m"
    by (intro grows_selected) (auto intro!: grows_intros grows_retA [unfolded retA_def])
  have "leaves env ?m db (\<lambda>x db'. True)" if ok: "v1_ok env db" for db
  proof (cases "select_report_output db i (Some c)")
    case None
    with ok show ?thesis by (simp add: leaves_def)
  next
    case (Some ro)
    then have ro: "ro \<in> set (db_reports db)" "ro_id ro = i" "\<forall>x. Some c = Some x \<longrightarrow> ro_country_id ro = x"
      by (auto dest: select_report_SomeD)
    have built: "leaves env (bindA m (\<lambda>ro. bindA (build_view ro k) (\<lambda>view. retA (Some view)))) db (\<lambda>x db'. True)"
      if "leaves env m db (\<lambda>x db'. True)" for m k
      by (rule leaves_bindA [OF that], intro leaves_bindA [OF leaves_build_view] leaves_retA) auto
    have "leaves env (?serve ro) db (\<lambda>x db'. True)"
    proof (rule leaves_bindA [OF leaves_is_current [OF ok]], elim conjE exE, hypsubst)
      fix v
      show "leaves env (if ro_api_version ro = v
          then bindA (ensure_report_output_dual_write_state env i (Some c)) (\<lambda>ro.
               bindA (build_view ro None) (\<lambda>view. retA (Some view)))
          else bindA (get_or_create_current_report_output env ro) (\<lambda>ro.
               bindA (build_view ro (Some i)) (\<lambda>view. retA (Some view)))) db (\<lambda>x db'. True)"
        using built [OF leaves_True [OF leaves_ensure [OF ok assms ro(1,3)]]] ro(2)
          built [OF leaves_True [OF leaves_current [OF ok assms, of ro]]] by simp
    qed
    with Some show ?thesis by (simp add: leaves_def)
  qed
  with grows have "atomic env (transaction ?m)" by (rule atomic_transaction)
  then show ?thesis unfolding resolve_report_output_def by (intro atomic_intros)
qed


section \<open>The views\<close>

lemma atomicD:
  assumes "atomic env m" and "v1_ok env db" and "m db = (r, db')"
  shows "v1_ok env db'" and "r = Inl e \<Longrightarrow> rolled_back db db'"
proof -
  have out: "case r of Inl e \<Rightarrow> rolled_back db db' | Inr x \<Rightarrow> v1_ok env db'"
    using assms(1) [unfolded atomic_def, rule_format, OF assms(2)] by (simp only: assms(3) prod.case)
  then show "r = Inl e \<Longrightarrow> rolled_back db db'" by simp
  from out show "v1_ok env db'" by (cases r) (simp_all add: v1_ok_rolled_back [OF assms(2)])
qed

lemma atomic_writing [atomic_intros]:
  "(\<And>v. atomic env (m v)) \<Longrightarrow> (\<And>v. grows (m v)) \<Longrightarrow> atomic env (writing_text r m)"
  by (auto simp: writing_text_def intro!: atomic_intros split: sum.split)

lemma atomic_unselected [atomic_intros]: "atomic env (unselected_update status output h check e)"
  unfolding unselected_update_def by (auto intro!: atomic_intros)

lemma atomic_patch:
  assumes "inj (ve_uuid env)"
  shows "atomic env (patch_report env web c status i output v)"
    and "atomic env (patch_simulation env web c status i output v)"
  unfolding patch_report_def patch_simulation_def
  by (auto intro!: atomic_intros grows_intros assms split: sum.split option.split)

text \<open>A view that has nothing to write leaves the database alone.\<close>

lemma update_report_None: "update_report_output env c i status output err db = (Inr None, db') \<Longrightarrow> db' = db"
  by (auto simp: update_report_output_def bindA_def liftA_def retA_def split: if_splits prod.splits sum.splits)

lemma update_simulation_None: "update_simulation env c i status output err db = (Inr None, db') \<Longrightarrow> db' = db"
  by (auto simp: update_simulation_def bindA_def liftA_def retA_def split: if_splits prod.splits sum.splits)

lemma writing_None:
  assumes "writing_text r m db = (Inr None, db')" and "\<And>v db'. m v db = (Inr None, db') \<Longrightarrow> db' = db"
  shows "db' = db"
  using assms
  by (auto simp: writing_text_def refused_at_flush_def transaction_Inr bindA_def raiseA_def
      split: sum.splits prod.splits)

lemma unselected_None: "unselected_update status output h check e db = (Inr None, db') \<Longrightarrow> db' = db"
  by (auto simp: unselected_update_def bindA_def liftA_def retA_def raiseA_def split: if_splits sum.splits)

lemma patch_report_None: "patch_report env web c status i output v db = (Inr None, db') \<Longrightarrow> db' = db"
  unfolding patch_report_def
  by (auto split: sum.splits option.splits dest: unselected_None elim!: writing_None dest: update_report_None)

lemma patch_simulation_None: "patch_simulation env web c status i output v db = (Inr None, db') \<Longrightarrow> db' = db"
  unfolding patch_simulation_def
  by (auto split: sum.splits option.splits dest: unselected_None elim!: writing_None dest: update_simulation_None)

lemma resolve_None: "resolve_report_output env c i db = (Inr None, db') \<Longrightarrow> db' = db"
  by (auto simp: resolve_report_output_def raiseA_def transaction_Inr bindA_def retA_def
      split: if_splits option.splits prod.splits sum.splits)

text \<open>What a view leaves: a well-formed database, the same one unless it answered with success.\<close>

fun succeeded :: "view_result \<Rightarrow> bool" where
  "succeeded (Answer code body) = (code \<in> {200, 201})"
| "succeeded r = False"

definition view_keeps :: "v1_env \<Rightarrow> (v1_db \<Rightarrow> view_result \<times> v1_db) \<Rightarrow> bool" where
  "view_keeps env view \<longleftrightarrow>
     (\<forall>db r db'. v1_ok env db \<longrightarrow> view db = (r, db') \<longrightarrow> v1_ok env db' \<and> (succeeded r \<or> rolled_back db db'))"

lemma view_keeps_create_report:
  assumes "inj (ve_uuid env)"
  shows "view_keeps env (create_report_output_view env web c p)"
  unfolding view_keeps_def create_report_output_view_def
  using atomicD [OF atomic_create_or_reuse [OF assms]]
  by (auto split: sum.splits prod.splits)

lemma view_keeps_get_report:
  assumes "inj (ve_uuid env)"
  shows "view_keeps env (get_report_output_view env c i)"
  unfolding view_keeps_def get_report_output_view_def
  using atomicD [OF atomic_resolve [OF assms]]
  by (auto split: sum.splits prod.splits option.splits dest: resolve_None)

lemma view_keeps_update_report:
  assumes "inj (ve_uuid env)"
  shows "view_keeps env (update_report_output_view env web c p)"
  unfolding view_keeps_def update_report_output_view_def
  using atomicD [OF atomic_patch(1) [OF assms]]
  by (auto split: sum.splits prod.splits option.splits dest: patch_report_None)

lemma view_keeps_create_simulation:
  assumes "inj (ve_uuid env)"
  shows "view_keeps env (create_simulation_view env web c p)"
proof -
  have "atomic env (bindA (liftA r) (\<lambda>x. get_or_create_simulation env c x t pol))" for r t pol
    by (intro atomic_intros assms)
  from atomicD [OF this] show ?thesis
    unfolding view_keeps_def create_simulation_view_def Let_def
    by (auto split: sum.splits prod.splits)
qed

lemma view_keeps_get_simulation: "view_keeps env (get_simulation_view c i)"
  by (auto simp: view_keeps_def get_simulation_view_def get_simulation_def split: option.splits)

lemma view_keeps_update_simulation:
  assumes "inj (ve_uuid env)"
  shows "view_keeps env (update_simulation_view env web c p)"
  unfolding view_keeps_def update_simulation_view_def
  using atomicD [OF atomic_patch(2) [OF assms]]
  by (auto split: sum.splits prod.splits option.splits dest: patch_simulation_None)

lemma view_keeps_request: "inj (ve_uuid env) \<Longrightarrow> view_keeps env (v1_view env web req)"
  by (cases req) (simp_all add: view_keeps_create_report view_keeps_get_report view_keeps_update_report
      view_keeps_create_simulation view_keeps_get_simulation view_keeps_update_simulation)


section \<open>Histories\<close>

text \<open>
  Between two requests the service may be deployed again, with other package versions, which
  makes stored reports outdated, and the clock moves on; the SPM bundle stays.
\<close>

inductive v1_reachable :: "(nat \<Rightarrow> string) \<Rightarrow> spm_install \<Rightarrow> v1_db \<Rightarrow> bool" for uuid inst where
  start: "v1_reachable uuid inst empty_db"
| request: "v1_reachable uuid inst db \<Longrightarrow> ve_uuid env = uuid \<Longrightarrow> ve_install env = inst
    \<Longrightarrow> v1_answer env web req db = (answer, db') \<Longrightarrow> v1_reachable uuid inst db'"

lemma v1_ok_env: "ve_uuid e1 = ve_uuid e2 \<Longrightarrow> ve_install e1 = ve_install e2 \<Longrightarrow> v1_ok e1 db = v1_ok e2 db"
  by (simp add: v1_ok_def simulations_ok_def simulation_frame_def report_frame_def)

lemma v1_ok_empty: "v1_ok env empty_db"
  unfolding v1_ok_def report_frame_def using simulations_ok_empty [of env] by (simp add: empty_db_def)

lemma v1_answer_outcome:
  assumes "v1_ok env db" and "inj (ve_uuid env)" and "v1_answer env web req db = ((code, body), db')"
  shows "v1_ok env db'" and "code \<notin> {200, 201} \<Longrightarrow> rolled_back db db'"
proof -
  have "v1_ok env db' \<and> (code \<notin> {200, 201} \<longrightarrow> rolled_back db db')"
  proof (cases "v1_country req \<in> set COUNTRIES")
    case True
    obtain r db1 where r: "v1_view env web req db = (r, db1)" by fastforce
    with True assms(3) have a: "answered web r = (code, body)" "db1 = db'"
      by (auto simp: v1_answer_def validate_country_def)
    have "v1_ok env db' \<and> (succeeded r \<or> rolled_back db db')"
      using view_keeps_request [OF assms(2)] assms(1) r a(2) unfolding view_keeps_def by blast
    with a(1) show ?thesis by (cases r) auto
  next
    case False
    with assms(1,3) show ?thesis by (auto simp: v1_answer_def validate_country_def)
  qed
  then show "v1_ok env db'" "code \<notin> {200, 201} \<Longrightarrow> rolled_back db db'" by simp_all
qed

lemma reachable_ok:
  assumes "v1_reachable uuid inst db" and "inj uuid" and "ve_uuid env = uuid" and "ve_install env = inst"
  shows "v1_ok env db"
  using assms(1,3,4)
proof (induction rule: v1_reachable.induct)
  case start
  show ?case by (rule v1_ok_empty)
next
  case (request db env' web req answer db')
  then have "v1_ok env' db" "inj (ve_uuid env')"
    using assms(2) v1_ok_env [of env env' db] by simp_all
  from v1_answer_outcome(1) [OF this] request.hyps have "v1_ok env' db'" by (cases answer) blast
  with request show ?case using v1_ok_env [of env env' db'] by simp
qed

text \<open>
  C3. After any sequence of requests on the v1 routes, across deployments, every simulation
  and every report has exactly one run, which carries its status and output; the pointers of
  each name that run exactly when its status says so; identifiers are unique, no two
  simulations share an identity and no two reports of a cache version the same simulations
  and year.
\<close>

theorem v1_histories_well_formed:
  assumes "v1_reachable uuid inst db" and "inj uuid"
  shows "(\<forall>s\<in>set (db_simulations db). \<exists>run.
        filter (\<lambda>r. sr_simulation_id r = sn_id s) (db_simulation_runs db) = [run]
        \<and> sr_status run = sn_status s \<and> sr_output run = sn_output s
        \<and> sn_active_run_id s = (if active_status (sn_status s) then Some (sr_id run) else None)
        \<and> sn_latest_successful_run_id s = (if sn_status s = ''complete'' then Some (sr_id run) else None))
     \<and> (\<forall>ro\<in>set (db_reports db). \<exists>run.
        filter (\<lambda>r. rr_report_output_id r = ro_id ro) (db_report_runs db) = [run]
        \<and> rr_status run = ro_status ro \<and> json_eq (rr_output run) (ro_output ro)
        \<and> ro_active_run_id ro = (if active_status (ro_status ro) then Some (rr_id run) else None)
        \<and> ro_latest_successful_run_id ro = (if ro_status ro = ''complete'' then Some (rr_id run) else None))
     \<and> distinct (map sn_id (db_simulations db)) \<and> distinct (map ro_id (db_reports db))
     \<and> inj_on simulation_key (set (db_simulations db)) \<and> inj_on report_key (set (db_reports db))"
    (is "?sims \<and> ?reports \<and> ?rest")
proof -
  define env where "env = example_env\<lparr>ve_uuid := uuid, ve_install := inst\<rparr>"
  have ok: "v1_ok env db" by (rule reachable_ok [OF assms]) (simp_all add: env_def)
  have ?sims using ok unfolding v1_ok_def simulations_ok_def simulation_ok_def runs_of_def mirrors_simulation_def by blast
  moreover have ?reports
    using ok unfolding v1_ok_def report_ok_def report_runs_of_def mirrors_report_def matches_report_result_def by blast
  moreover have ?rest
    using ok by (simp add: v1_ok_def simulations_ok_def simulation_frame_def report_frame_def)
  ultimately show ?thesis by blast
qed

text \<open>
  C18. A request that is not answered with success, whatever its body holds and wherever it
  failed, leaves the rows of every table as they were.
\<close>

theorem v1_refusal_changes_nothing:
  assumes "v1_reachable uuid inst db" and "inj uuid" and "ve_uuid env = uuid" and "ve_install env = inst"
    and "v1_answer env web req db = ((code, body), db')" and "code \<notin> {200, 201}"
  shows "db_simulations db' = db_simulations db \<and> db_simulation_runs db' = db_simulation_runs db
     \<and> db_reports db' = db_reports db \<and> db_report_runs db' = db_report_runs db \<and> db_aliases db' = db_aliases db"
proof -
  have "inj (ve_uuid env)" using assms(2,3) by simp
  from v1_answer_outcome(2) [OF reachable_ok [OF assms(1-4)] this assms(5,6)] show ?thesis
    by (simp add: rolled_back_def)
qed

section \<open>A history\<close>

definition simulated_db :: v1_db where
  "simulated_db = snd (get_or_create_simulation example_env ''uk'' ''uk'' ''geography'' 3 empty_db)"

definition reported_db :: v1_db where
  "reported_db = snd (create_or_reuse_report_output example_env ''uk'' 1 None ''2026'' simulated_db)"

lemma simulated: "\<exists>s. get_or_create_simulation example_env ''uk'' ''uk'' ''geography'' 3 empty_db = (Inr (s, True), simulated_db)"
proof -
  have "case get_or_create_simulation example_env ''uk'' ''uk'' ''geography'' 3 empty_db of
      (Inr (s, b), db) \<Rightarrow> b | _ \<Rightarrow> False" by code_simp
  then show ?thesis by (auto simp: simulated_db_def split: prod.splits sum.splits)
qed

lemma reported: "\<exists>view. create_or_reuse_report_output example_env ''uk'' 1 None ''2026'' simulated_db = (Inr (view, True), reported_db)"
proof -
  have "case create_or_reuse_report_output example_env ''uk'' 1 None ''2026'' simulated_db of
      (Inr (s, b), db) \<Rightarrow> b | _ \<Rightarrow> False" by code_simp
  then show ?thesis by (auto simp: reported_db_def split: prod.splits sum.splits)
qed

lemma posted_simulation:
  "\<exists>body. v1_answer example_env example_web (PostSimulation ''uk'' (JObj [(''population_id'', JStr ''uk''),
     (''population_type'', JStr ''geography''), (''policy_id'', JInt 3)])) empty_db = ((201, body), simulated_db)"
proof -
  obtain s where "get_or_create_simulation example_env ''uk'' ''uk'' ''geography'' 3 empty_db = (Inr (s, True), simulated_db)"
    using simulated by blast
  moreover have "canonical_numeric_household_id ''uk'' (py_str (JStr ''uk'')) ''geography'' = None" by code_simp
  ultimately show ?thesis
    by (simp add: v1_answer_def validate_country_def COUNTRIES_def create_simulation_view_def simulation_payload_def
        payload_object_def require_simulation_identity_def dict_get_none_def population_text_def bindA_def liftA_def
        py_str_def del: serialize_v1_simulation_def)
qed

lemma posted_report:
  "\<exists>body. v1_answer example_env example_web (PostReport ''uk'' (JObj [(''simulation_1_id'', JInt 1),
     (''year'', JStr ''2026'')])) simulated_db = ((201, body), reported_db)"
proof -
  obtain view where "create_or_reuse_report_output example_env ''uk'' 1 None ''2026'' simulated_db = (Inr (view, True), reported_db)"
    using reported by blast
  then show ?thesis
    by (simp add: v1_answer_def validate_country_def COUNTRIES_def create_report_output_view_def report_request_def
        payload_object_def dict_get_none_def)
qed

lemma reached_simulation: "v1_reachable (ve_uuid example_env) (ve_install example_env) simulated_db"
  using posted_simulation by (elim exE) (rule v1_reachable.request [OF v1_reachable.start refl refl])

lemma reached_report: "v1_reachable (ve_uuid example_env) (ve_install example_env) reported_db"
  using posted_report by (elim exE) (rule v1_reachable.request [OF reached_simulation refl refl])

lemmas example_ok = reachable_ok [OF reached_simulation example_env_inj refl refl]
  reachable_ok [OF reached_report example_env_inj refl refl]

lemma reported_row: "select_report_output reported_db 1 (Some ''uk'') = Some (hd (db_reports reported_db))
   \<and> cache_version example_env ''uk'' = Inr (ro_api_version (hd (db_reports reported_db)))"
  by code_simp

theorem report_update_is_served_witness:
  "\<exists>view db1 view' db2. update_report_output example_env ''uk'' 1 (Some ''complete'') (Some (JObj [])) None reported_db
       = (Inr (Some view), db1)
     \<and> resolve_report_output example_env ''uk'' 1 db1 = (Inr (Some view'), db2)
     \<and> ro_status (vw_report_output view') = ''complete'' \<and> ro_output (vw_report_output view') = JObj []"
proof -
  have "decoded_output (Some (JObj [])) = Inr (Some (JObj []))" by (simp add: decoded_output_def)
  moreover have "stored_output (ve_install example_env) (hd (db_reports reported_db)) (Some ''complete'') (Some (JObj []))
      = Inr (Some (JObj []))"
    using select_report_SomeD [OF reported_row [THEN conjunct1]] by (simp add: stored_output_def)
  ultimately obtain view db1 where run: "update_report_output example_env ''uk'' 1 (Some ''complete'') (Some (JObj [])) None
      reported_db = (Inr (Some view), db1)"
    using update_current_succeeds [OF example_ok(2) example_env_inj reported_row [THEN conjunct1]
        reported_row [THEN conjunct2] refl] by fastforce
  from report_update_is_served [OF example_ok(2) example_env_inj _ run] run show ?thesis
    by (auto simp: decoded_output_def)
qed

theorem report_creation_reuses_witness:
  "\<exists>view view' db2. create_or_reuse_report_output example_env ''uk'' 1 None ''2026'' simulated_db
       = (Inr (view, True), reported_db)
     \<and> create_or_reuse_report_output example_env ''uk'' 1 None ''2026'' reported_db = (Inr (view', False), db2)
     \<and> ro_id (vw_report_output view') = ro_id (vw_report_output view)"
proof -
  obtain view where run: "create_or_reuse_report_output example_env ''uk'' 1 None ''2026'' simulated_db
      = (Inr (view, True), reported_db)" using reported by blast
  from report_creation_reuses [OF example_ok(1) example_env_inj run] run show ?thesis by blast
qed

theorem v1_histories_well_formed_witness:
  "\<exists>ro run. db_reports reported_db = [ro]
     \<and> filter (\<lambda>r. rr_report_output_id r = ro_id ro) (db_report_runs reported_db) = [run]
     \<and> rr_status run = ro_status ro"
proof -
  have "length (db_reports reported_db) = 1" by code_simp
  then obtain ro where ro: "db_reports reported_db = [ro]" by (auto simp: length_Suc_conv)
  with v1_histories_well_formed [OF reached_report example_env_inj] show ?thesis by auto
qed

theorem v1_refusal_changes_nothing_witness:
  "\<exists>body db'. v1_answer example_env example_web (PatchReport ''uk'' (JObj [(''id'', JInt 7), (''status'', JStr ''error'')]))
       reported_db = ((404, body), db')
     \<and> db_reports db' = db_reports reported_db \<and> db_report_runs db' = db_report_runs reported_db"
proof -
  have "select_report_output reported_db 7 (Some ''uk'') = None" by code_simp
  then obtain body db' where run: "v1_answer example_env example_web (PatchReport ''uk'' (JObj [(''id'', JInt 7),
      (''status'', JStr ''error'')])) reported_db = ((404, body), db')"
    by (simp add: v1_answer_def validate_country_def COUNTRIES_def update_report_output_view_def update_request_def
        payload_object_def dict_get_none_def optional_def patch_report_def key_of_def writing_text_def
        optional_text_def update_report_output_def decoded_output_def bindA_def liftA_def transaction_def
        update_selected_report_def response_http_exception_def make_error_response_def)
  from v1_refusal_changes_nothing [OF reached_report example_env_inj refl refl run] run show ?thesis by simp
qed

end
