(* ===== verification/Policy_Data_Validation.thy ===== *)
theory Policy_Data_Validation
  imports Calendar
begin

text \<open>
  \<open>policyengine_api/utils/policy_data_validation.py\<close>: which period keys and values of
  a policy's data simulations cannot read.
\<close>

section \<open>Reported entries\<close>

record invalid_policy_entry =
  entry_input_type :: string
  entry_parameter_path :: string
  entry_path :: string
  entry_period_key :: "string option"
  entry_received :: "string option"

definition PERIOD_KEY_REQUIREMENT :: string where
  "PERIOD_KEY_REQUIREMENT =
     ''a date (YYYY-MM-DD) or an inclusive date range (YYYY-MM-DD.YYYY-MM-DD) of '' @
     ''real calendar dates whose start is no later than its end''"

definition VALUE_REQUIREMENT :: string where
  "VALUE_REQUIREMENT =
     ''a finite number, a boolean, null, a list, or the string \"Infinity\" or \"-Infinity\"''"

definition PERIOD_OBJECT_REQUIREMENT :: string where
  "PERIOD_OBJECT_REQUIREMENT =
     ''an object of period keys and values, such as {\"2026-01-01.2026-12-31\": 1}''"

definition backquoted :: "string \<Rightarrow> string" where
  "backquoted s = [CHR 0x60] @ s @ [CHR 0x60]"

text \<open>An f-string writes None as \<open>None\<close>.\<close>

definition fmt_opt :: "string option \<Rightarrow> string" where
  "fmt_opt v = (case v of None \<Rightarrow> ''None'' | Some s \<Rightarrow> s)"

definition entry_message :: "invalid_policy_entry \<Rightarrow> string" where
  "entry_message e =
     (if entry_input_type e = ''policy_value'' then
        ''Value at '' @ backquoted (entry_path e) @ '' must be '' @ VALUE_REQUIREMENT
          @ '', but it is '' @ fmt_opt (entry_received e) @ ''.''
      else (case entry_period_key e of
        None \<Rightarrow> backquoted (entry_path e) @ '' must be '' @ PERIOD_OBJECT_REQUIREMENT
                  @ '', but it is '' @ fmt_opt (entry_received e) @ ''.''
      | Some key \<Rightarrow> ''Period key '' @ backquoted key @ '' at '' @ backquoted (entry_path e)
                  @ '' must be '' @ PERIOD_KEY_REQUIREMENT @ ''.''))"

definition entry_to_dict :: "invalid_policy_entry \<Rightarrow> json" where
  "entry_to_dict e =
     JObj [(''type'', JStr (entry_input_type e)), (''name'', JStr (entry_parameter_path e)),
           (''path'', JStr (entry_path e)), (''message'', JStr (entry_message e))]"

section \<open>The checks\<close>

definition is_readable_period_key :: "string \<Rightarrow> bool" where
  "is_readable_period_key period_key =
     (let date_texts = split_on CHR ''.'' period_key
      in if length date_texts > 2 then False
         else if \<not> (\<forall>t\<in>set date_texts. zero_padded_date t) then False
         else if \<exists>t\<in>set date_texts. fromisoformat t = None then False
         else date_le (the (fromisoformat (hd date_texts))) (the (fromisoformat (last date_texts))))"

fun is_readable_value :: "json \<Rightarrow> bool" where
  "is_readable_value JNull = True"
| "is_readable_value (JBool b) = True"
| "is_readable_value (JInt i) = True"
| "is_readable_value (JArr xs) = True"
| "is_readable_value (JFloat f) = (case f of FFin _ _ _ \<Rightarrow> True | _ \<Rightarrow> False)"
| "is_readable_value (JStr s) = (s = ''Infinity'' \<or> s = ''-Infinity'')"
| "is_readable_value (JObj kvs) = False"

definition describe_value :: "json \<Rightarrow> string" where
  "describe_value value =
     (let written_value = dumps_default value
      in if length written_value \<le> 40 then written_value
         else (case value of JObj _ \<Rightarrow> ''an object'' | JArr _ \<Rightarrow> ''a list''
               | JStr _ \<Rightarrow> ''a string'' | _ \<Rightarrow> ''a number''))"

definition invalid_period_entries ::
  "string \<Rightarrow> string \<Rightarrow> string \<times> json \<Rightarrow> invalid_policy_entry list" where
  "invalid_period_entries parameter_path parameter_data_path item =
     (let (period_key, value) = item; path = parameter_data_path @ ''.'' @ period_key
      in (if \<not> is_readable_period_key period_key
          then [\<lparr>entry_input_type = ''policy_period'', entry_parameter_path = parameter_path,
                 entry_path = path, entry_period_key = Some period_key, entry_received = None\<rparr>]
          else [])
         @ (if \<not> is_readable_value value
            then [\<lparr>entry_input_type = ''policy_value'', entry_parameter_path = parameter_path,
                   entry_path = path, entry_period_key = Some period_key,
                   entry_received = Some (describe_value value)\<rparr>]
            else []))"

definition invalid_entries_for_parameter ::
  "string \<Rightarrow> json \<Rightarrow> invalid_policy_entry list" where
  "invalid_entries_for_parameter parameter_path period_values =
     (let parameter_data_path = ''data.'' @ parameter_path
      in case period_values of
           JObj items \<Rightarrow>
             concat (map (invalid_period_entries parameter_path parameter_data_path) items)
         | _ \<Rightarrow> [\<lparr>entry_input_type = ''policy_period'', entry_parameter_path = parameter_path,
                  entry_path = parameter_data_path, entry_period_key = None,
                  entry_received = Some (describe_value period_values)\<rparr>])"

definition find_invalid_periods_and_values ::
  "(string \<times> json) list \<Rightarrow> invalid_policy_entry list" where
  "find_invalid_periods_and_values policy_data =
     concat (map (\<lambda>parameter_path.
         invalid_entries_for_parameter parameter_path (dict_get_none policy_data parameter_path))
       (sort (map fst policy_data)))"

section \<open>Period keys\<close>

text \<open>
  A period key is accepted exactly when it is the zero-padded text of one calendar
  date, or of two joined by a dot with the first no later than the second.
\<close>

theorem readable_period_key_iff:
  "is_readable_period_key key \<longleftrightarrow>
     (\<exists>d. calendar_date d \<and> key = isoformat d)
     \<or> (\<exists>d d'. calendar_date d \<and> calendar_date d' \<and> date_le d d'
          \<and> key = isoformat d @ ''.'' @ isoformat d')"
proof -
  have acc: "zero_padded_date t \<and> fromisoformat t \<noteq> None \<longleftrightarrow> (\<exists>d. calendar_date d \<and> t = isoformat d)" for t
    using accepted_date_iff by blast
  have iso: "fromisoformat (isoformat d) = Some d" if "calendar_date d" for d
    using accepted_date_iff that by blast
  have "is_readable_period_key key \<longleftrightarrow>
      length (split_on CHR ''.'' key) \<le> 2
      \<and> (\<forall>t\<in>set (split_on CHR ''.'' key). \<exists>d. calendar_date d \<and> t = isoformat d)
      \<and> date_le (the (fromisoformat (hd (split_on CHR ''.'' key))))
               (the (fromisoformat (last (split_on CHR ''.'' key))))"
    unfolding is_readable_period_key_def Let_def acc [symmetric] by (auto; fastforce)
  also have "\<dots> \<longleftrightarrow> (\<exists>d. calendar_date d \<and> split_on CHR ''.'' key = [isoformat d])
      \<or> (\<exists>d d'. calendar_date d \<and> calendar_date d' \<and> date_le d d'
           \<and> split_on CHR ''.'' key = [isoformat d, isoformat d'])"
    (is "?L \<longleftrightarrow> ?R")
  proof -
    consider (one) a where "split_on CHR ''.'' key = [a]"
      | (two) a b where "split_on CHR ''.'' key = [a, b]"
      | (more) a b c cs where "split_on CHR ''.'' key = a # b # c # cs"
      by (metis list.exhaust split_on_not_Nil)
    then show ?thesis
    proof cases
      case one
      then show ?thesis by (auto simp: iso)
    next
      case two
      then show ?thesis by (auto simp: iso simp del: split_paired_Ex split_paired_All; blast)
    next
      case more
      then show ?thesis by auto
    qed
  qed
  also have "\<dots> \<longleftrightarrow> (\<exists>d. calendar_date d \<and> key = isoformat d)
     \<or> (\<exists>d d'. calendar_date d \<and> calendar_date d' \<and> date_le d d'
          \<and> key = isoformat d @ ''.'' @ isoformat d')"
  proof -
    have one: "split_on CHR ''.'' key = [isoformat d] \<longleftrightarrow> key = isoformat d" if "calendar_date d" for d
      using isoformat_no_dot [OF that] join_split_on [of "CHR ''.''" key]
      by (auto simp: split_on_single)
    have two: "split_on CHR ''.'' key = [isoformat d, isoformat d'] \<longleftrightarrow>
        key = isoformat d @ ''.'' @ isoformat d'" if "calendar_date d" "calendar_date d'" for d d'
      using isoformat_no_dot [OF that(1)] isoformat_no_dot [OF that(2)]
        join_split_on [of "CHR ''.''" key]
      by (auto simp: split_on_single split_on_append)
    from one two show ?thesis by (simp cong: conj_cong)
  qed
  finally show ?thesis .
qed

section \<open>The whole policy\<close>

text \<open>What simulations can read: every parameter holds readable period keys and values.\<close>

definition readable_parameter :: "json \<Rightarrow> bool" where
  "readable_parameter v \<longleftrightarrow>
     (\<exists>items. v = JObj items
        \<and> (\<forall>(key, value)\<in>set items. is_readable_period_key key \<and> is_readable_value value))"

lemma invalid_period_entries_Nil_iff:
  "invalid_period_entries p dp (key, value) = [] \<longleftrightarrow>
     is_readable_period_key key \<and> is_readable_value value"
  by (simp add: invalid_period_entries_def Let_def)

lemma invalid_entries_for_parameter_Nil_iff:
  "invalid_entries_for_parameter p v = [] \<longleftrightarrow> readable_parameter v"
  by (cases v) (auto simp: invalid_entries_for_parameter_def readable_parameter_def
      invalid_period_entries_Nil_iff)

lemma entry_parameter_path_for_parameter:
  "e \<in> set (invalid_entries_for_parameter p v) \<Longrightarrow> entry_parameter_path e = p"
  by (cases v) (auto simp: invalid_entries_for_parameter_def invalid_period_entries_def Let_def
      split: if_splits)

lemma sorted_concat_map_const:
  fixes key :: "'b \<Rightarrow> 'k::linorder"
  assumes "sorted ks" and "\<And>k e. e \<in> set (f k) \<Longrightarrow> key e = k"
  shows "sorted (map key (concat (map f ks)))"
  using assms(1)
proof (induction ks)
  case (Cons k ks)
  have "map key (f k) = replicate (length (f k)) k"
    using assms(2) by (induction "f k") (auto simp: map_eq_conv intro!: nth_equalityI)
  with Cons assms(2) show ?case
    by (auto simp: sorted_append)
qed simp

text \<open>
  The policy check reports nothing exactly when every parameter of the policy is an
  object whose period keys and values simulations read; and what it reports is ordered
  by parameter path.
\<close>

theorem find_invalid_periods_and_values_correct:
  "(find_invalid_periods_and_values policy_data = [] \<longleftrightarrow>
      (\<forall>p\<in>fst ` set policy_data. readable_parameter (dict_get_none policy_data p)))
   \<and> sorted (map entry_parameter_path (find_invalid_periods_and_values policy_data))"
proof
  show "find_invalid_periods_and_values policy_data = [] \<longleftrightarrow>
      (\<forall>p\<in>fst ` set policy_data. readable_parameter (dict_get_none policy_data p))"
    by (auto simp: find_invalid_periods_and_values_def invalid_entries_for_parameter_Nil_iff)
  show "sorted (map entry_parameter_path (find_invalid_periods_and_values policy_data))"
    unfolding find_invalid_periods_and_values_def
    by (rule sorted_concat_map_const) (simp_all add: entry_parameter_path_for_parameter)
qed

theorem find_invalid_periods_and_values_correct_witness:
  "find_invalid_periods_and_values [(''gov.x.rate'', JObj [(''2026-01-01.2026-12-31'', JInt 5)])] = []"
proof -
  have "readable_parameter (JObj [(''2026-01-01.2026-12-31'', JInt 5)])"
    unfolding readable_parameter_def by (rule exI, rule conjI, rule refl) code_simp
  then show ?thesis
    using find_invalid_periods_and_values_correct
      [of "[(''gov.x.rate'', JObj [(''2026-01-01.2026-12-31'', JInt 5)])]"]
    by (simp add: dict_get_none_def)
qed

end
