(* ===== verification/Axis_Validation.thy ===== *)
theory Axis_Validation
  imports Json_Codec
begin

text \<open>
  \<open>policyengine_api/utils/axis_validation.py\<close>: which parts of a household's \<open>axes\<close>
  policyengine-core cannot expand. The values come from the request's JSON; a field
  the request leaves out is \<open>None\<close> here (\<open>_MISSING\<close> in the source).

  policyengine-core's \<open>periods.period\<close> is not under src/: the parameter
  \<open>core_period\<close> says whether \<open>periods.period(str(value))\<close> returns.

  \<open>math.isfinite\<close> raises OverflowError for an int too large for a float, which the
  source does not catch; the checks are therefore results, and
  \<open>find_invalid_axes_overflow\<close> shows a payload on which they raise.
\<close>

section \<open>Reported problems\<close>

record invalid_axis =
  axis_path :: string
  axis_requirement :: string
  axis_received :: string
  axis_field :: "string option"
  axis_variable_name :: "string option"

definition quoted :: "string \<Rightarrow> string" where
  "quoted s = [CHR 0x60] @ s @ [CHR 0x60]"

definition axis_message :: "invalid_axis \<Rightarrow> string" where
  "axis_message e =
     (case axis_field e of
        None \<Rightarrow> quoted (axis_path e) @ '' must be '' @ axis_requirement e
                  @ '', but it is '' @ axis_received e @ ''.''
      | Some field \<Rightarrow>
          (let variable = (case axis_variable_name e of None \<Rightarrow> ''''
                           | Some v \<Rightarrow> '' ('' @ quoted v @ '')'')
           in ''Household axis '' @ quoted (axis_path e) @ variable @ '' needs '' @ quoted field
                @ '' to be '' @ axis_requirement e @ '', but it is '' @ axis_received e @ ''.''))"

definition axis_to_dict :: "invalid_axis \<Rightarrow> json" where
  "axis_to_dict e =
     JObj [(''type'', JStr ''household_axis''),
           (''name'', JStr (case axis_field e of None \<Rightarrow> ''axes''
                            | Some f \<Rightarrow> (if f = [] then ''axes'' else f))),
           (''path'', JStr (case axis_field e of None \<Rightarrow> axis_path e
                            | Some f \<Rightarrow> axis_path e @ ''.'' @ f)),
           (''message'', JStr (axis_message e))]"

section \<open>Field checks\<close>

definition MAX_QUOTED_STRING_LENGTH :: nat where
  "MAX_QUOTED_STRING_LENGTH = 40"

fun describe :: "json option \<Rightarrow> string" where
  "describe None = ''missing''"
| "describe (Some (JArr xs)) = (if xs \<noteq> [] then ''a list'' else ''an empty list'')"
| "describe (Some (JObj kvs)) = ''an object''"
| "describe (Some (JStr s)) =
     (if length s > MAX_QUOTED_STRING_LENGTH then ''a string'' else dumps_default (JStr s))"
| "describe (Some v) = dumps_default v"

text \<open>
  The ints a float can hold: \<open>float(i)\<close> rounds to the nearest double, and overflows
  from the midpoint between the largest double and \<open>2^1024\<close> on.
\<close>

definition float_range :: "int \<Rightarrow> bool" where
  "float_range i \<longleftrightarrow> \<bar>i\<bar> < 2 ^ 1024 - 2 ^ 970"

fun is_finite_number :: "json option \<Rightarrow> bool result" where
  "is_finite_number (Some (JBool b)) = Inr True"
| "is_finite_number (Some (JInt i)) =
     (if float_range i then Inr True else Inl (OverflowErr ''int too large to convert to float''))"
| "is_finite_number (Some (JFloat f)) = Inr (case f of FFin _ _ _ \<Rightarrow> True | _ \<Rightarrow> False)"
| "is_finite_number v = Inr False"

definition is_period :: "(json \<Rightarrow> bool) \<Rightarrow> json \<Rightarrow> bool \<Rightarrow> bool" where
  "is_period core_period value is_grid =
     (if is_grid \<and> \<not> truthy value then True else core_period value)"

definition count_requirement :: string where
  "count_requirement = ''an integer of at least 1, written without a decimal point''"

definition index_requirement :: string where
  "index_requirement = ''an integer written without a decimal point, or null''"

definition is_str :: "json option \<Rightarrow> bool" where
  "is_str v = (case v of Some (JStr _) \<Rightarrow> True | _ \<Rightarrow> False)"

definition is_count :: "json option \<Rightarrow> bool" where
  "is_count v = (case v of None \<Rightarrow> False
     | Some w \<Rightarrow> (case as_int w of None \<Rightarrow> False | Some i \<Rightarrow> 1 \<le> i))"

definition is_index :: "json \<Rightarrow> bool" where
  "is_index v \<longleftrightarrow> v = JNull \<or> as_int v \<noteq> None"

text \<open>The entries of \<open>checked_fields\<close>: a field, whether its value is usable, the requirement.\<close>

type_synonym checked_field = "string \<times> bool \<times> string"

definition measured_fields :: "bool \<Rightarrow> string list" where
  "measured_fields reads_max = (if reads_max then [''min'', ''max''] else [''min''])"

definition checked_fields ::
  "(json \<Rightarrow> bool) \<Rightarrow> (string \<times> json) list \<Rightarrow> bool \<Rightarrow> bool \<Rightarrow> bool \<Rightarrow> checked_field list result" where
  "checked_fields core_period axis reads_count reads_max is_grid =
     res_bind
       (res_concat_map
          (\<lambda>field. res_bind (is_finite_number (dict_get axis field))
                     (\<lambda>ok. Inr [(field, ok, ''a finite number'')]))
          (measured_fields reads_max))
       (\<lambda>measured. Inr
          ([(''name'', is_str (dict_get axis ''name''), ''a variable name'')]
           @ (if reads_count
              then [(''count'', is_count (dict_get axis ''count''), count_requirement)] else [])
           @ measured
           @ (case dict_get axis ''period'' of None \<Rightarrow> []
              | Some p \<Rightarrow> [(''period'', is_period core_period p is_grid,
                             ''a period such as 2026 or 2026-01'')])
           @ (case dict_get axis ''index'' of None \<Rightarrow> []
              | Some i \<Rightarrow> [(''index'', is_index i, index_requirement)])))"

definition find_invalid_axis_fields ::
  "(json \<Rightarrow> bool) \<Rightarrow> (string \<times> json) list \<Rightarrow> string \<Rightarrow> bool \<Rightarrow> bool \<Rightarrow> bool
     \<Rightarrow> invalid_axis list result" where
  "find_invalid_axis_fields core_period axis path reads_count reads_max is_grid =
     res_bind (checked_fields core_period axis reads_count reads_max is_grid)
       (\<lambda>checked. Inr
          (map (\<lambda>(field, is_usable, requirement).
                  \<lparr>axis_path = path, axis_requirement = requirement,
                   axis_received = describe (dict_get axis field), axis_field = Some field,
                   axis_variable_name =
                     (case dict_get axis ''name'' of Some (JStr s) \<Rightarrow> Some s | _ \<Rightarrow> None)\<rparr>)
             (filter (\<lambda>(field, is_usable, requirement). \<not> is_usable) checked)))"

section \<open>Axis groups\<close>

definition indexed_path :: "string \<Rightarrow> nat \<Rightarrow> string" where
  "indexed_path p i = p @ ''['' @ show_nat i @ '']''"

definition structure_error :: "string \<Rightarrow> string \<Rightarrow> json \<Rightarrow> invalid_axis" where
  "structure_error path requirement received =
     \<lparr>axis_path = path, axis_requirement = requirement, axis_received = describe (Some received),
      axis_field = None, axis_variable_name = None\<rparr>"

text \<open>In a grid, a group whose first axis has the count 1 does not have its max read.\<close>

definition group_reads_max :: "json list \<Rightarrow> bool \<Rightarrow> bool" where
  "group_reads_max axis_group is_grid =
     (\<not> (is_grid \<and>
        (case axis_group of JObj kvs # _ \<Rightarrow>
           (case dict_get kvs ''count'' of None \<Rightarrow> False | Some c \<Rightarrow> eq_int c 1)
         | _ \<Rightarrow> False)))"

definition find_invalid_axis_group ::
  "(json \<Rightarrow> bool) \<Rightarrow> json list \<Rightarrow> string \<Rightarrow> bool \<Rightarrow> invalid_axis list result" where
  "find_invalid_axis_group core_period axis_group group_path is_grid =
     res_concat_map
       (\<lambda>(axis_index, axis).
          (case axis of
             JObj kvs \<Rightarrow>
               find_invalid_axis_fields core_period kvs (indexed_path group_path axis_index)
                 (axis_index = 0) (group_reads_max axis_group is_grid) is_grid
           | _ \<Rightarrow> Inr [structure_error (indexed_path group_path axis_index) ''an axis object'' axis]))
       (List.enumerate 0 axis_group)"

definition find_invalid_axes :: "(json \<Rightarrow> bool) \<Rightarrow> json \<Rightarrow> invalid_axis list result" where
  "find_invalid_axes core_period axes =
     (if \<not> truthy axes then Inr []
      else (case axes of
        JArr groups \<Rightarrow>
          res_concat_map
            (\<lambda>(group_index, axis_group).
               (case axis_group of
                  JArr (a # as) \<Rightarrow>
                    find_invalid_axis_group core_period (a # as)
                      (indexed_path ''household.axes'' group_index) (1 < length groups)
                | _ \<Rightarrow> Inr [structure_error (indexed_path ''household.axes'' group_index)
                              ''a non-empty list of axes'' axis_group]))
            (List.enumerate 0 groups)
      | _ \<Rightarrow> Inr [structure_error ''household.axes'' ''a list of axis groups'' axes]))"

section \<open>What policyengine-core expands\<close>

text \<open>
  The specification, from the module's description of \<open>SimulationBuilder.expand_axes\<close>:
  the fields that are read, under the conditions they are read, have a usable value.
\<close>

definition finite_number :: "json option \<Rightarrow> bool" where
  "finite_number v \<longleftrightarrow>
     (\<exists>b. v = Some (JBool b)) \<or> (\<exists>i. v = Some (JInt i) \<and> float_range i)
       \<or> (\<exists>n m e. v = Some (JFloat (FFin n m e)))"

definition expandable_axis ::
  "(json \<Rightarrow> bool) \<Rightarrow> bool \<Rightarrow> bool \<Rightarrow> bool \<Rightarrow> (string \<times> json) list \<Rightarrow> bool" where
  "expandable_axis core_period is_grid first reads_max axis \<longleftrightarrow>
     (\<exists>s. dict_get axis ''name'' = Some (JStr s))
     \<and> (first \<longrightarrow> (\<exists>v i. dict_get axis ''count'' = Some v \<and> as_int v = Some i \<and> 1 \<le> i))
     \<and> finite_number (dict_get axis ''min'')
     \<and> (reads_max \<longrightarrow> finite_number (dict_get axis ''max''))
     \<and> (\<forall>p. dict_get axis ''period'' = Some p \<longrightarrow> (is_grid \<and> \<not> truthy p) \<or> core_period p)
     \<and> (\<forall>v. dict_get axis ''index'' = Some v \<longrightarrow> v = JNull \<or> (\<exists>i. as_int v = Some i))"

text \<open>A grid does not read the maximum of a group whose first axis takes a single value.\<close>

definition max_is_read :: "bool \<Rightarrow> json list \<Rightarrow> bool" where
  "max_is_read is_grid axes \<longleftrightarrow>
     \<not> is_grid \<or> (\<forall>kvs rest c. axes = JObj kvs # rest \<and> dict_get kvs ''count'' = Some c \<longrightarrow> \<not> eq_int c 1)"

definition expandable_group :: "(json \<Rightarrow> bool) \<Rightarrow> bool \<Rightarrow> json \<Rightarrow> bool" where
  "expandable_group core_period is_grid axis_group \<longleftrightarrow>
     (\<exists>axes. axis_group = JArr axes \<and> axes \<noteq> []
        \<and> (\<forall>j<length axes. \<exists>kvs. axes ! j = JObj kvs
             \<and> expandable_axis core_period is_grid (j = 0) (max_is_read is_grid axes) kvs))"

definition expandable :: "(json \<Rightarrow> bool) \<Rightarrow> json \<Rightarrow> bool" where
  "expandable core_period axes \<longleftrightarrow>
     \<not> truthy axes
     \<or> (\<exists>groups. axes = JArr groups
          \<and> (\<forall>g\<in>set groups. expandable_group core_period (1 < length groups) g))"

section \<open>The checks decide the specification\<close>

lemma is_finite_number_True_iff: "is_finite_number v = Inr True \<longleftrightarrow> finite_number v"
  by (cases v rule: is_finite_number.cases)
    (auto simp: finite_number_def split: pyfloat.splits)

lemma is_str_iff: "is_str v \<longleftrightarrow> (\<exists>s. v = Some (JStr s))"
  by (auto simp: is_str_def split: option.splits json.splits)

lemma is_count_iff: "is_count v \<longleftrightarrow> (\<exists>w i. v = Some w \<and> as_int w = Some i \<and> 1 \<le> i)"
  by (auto simp: is_count_def split: option.splits)

lemma is_period_iff: "is_period core_period p is_grid \<longleftrightarrow> is_grid \<and> \<not> truthy p \<or> core_period p"
  by (auto simp: is_period_def)

lemma is_index_iff: "is_index v \<longleftrightarrow> v = JNull \<or> (\<exists>i. as_int v = Some i)"
  by (auto simp: is_index_def)

lemma group_reads_max_iff: "group_reads_max axes is_grid \<longleftrightarrow> max_is_read is_grid axes"
  by (cases axes rule: list.exhaust; cases "hd axes")
    (auto simp: group_reads_max_def max_is_read_def split: option.split)

abbreviation all_usable :: "checked_field list \<Rightarrow> bool" where
  "all_usable checked \<equiv> list_all (\<lambda>c. fst (snd c)) checked"

lemma all_usable_option:
  "all_usable (case v of None \<Rightarrow> [] | Some w \<Rightarrow> [(field, P w, req)]) \<longleftrightarrow> (\<forall>w. v = Some w \<longrightarrow> P w)"
  by (cases v) auto

lemma measured_usable_iff:
  "(\<exists>measured. res_concat_map
       (\<lambda>field. res_bind (is_finite_number (dict_get axis field))
                  (\<lambda>ok. Inr [(field, ok, ''a finite number'')])) (measured_fields reads_max)
     = Inr measured \<and> all_usable measured) \<longleftrightarrow>
   finite_number (dict_get axis ''min'')
     \<and> (reads_max \<longrightarrow> finite_number (dict_get axis ''max''))"
proof -
  have one: "(\<exists>ms. res_bind r (\<lambda>ok. Inr [(f, ok, q)]) = Inr ms \<and> all_usable ms) \<longleftrightarrow> r = Inr True"
    for r :: "bool result" and f q
    by (cases r) auto
  have two: "(\<exists>ms. res_bind r (\<lambda>ok. res_bind r' (\<lambda>ok'. Inr [(f, ok, q), (f', ok', q)])) = Inr ms
      \<and> all_usable ms) \<longleftrightarrow> r = Inr True \<and> r' = Inr True" for r r' :: "bool result" and f f' q
    by (cases r; cases r') auto
  have flat: "res_concat_map (\<lambda>f. res_bind (g f) (\<lambda>ok. Inr [(f, ok, q)])) [a, b] =
      res_bind (g a) (\<lambda>ok. res_bind (g b) (\<lambda>ok'. Inr [(a, ok, q), (b, ok', q)]))"
    for g :: "string \<Rightarrow> bool result" and a b :: string and q :: string
    by (cases "g a"; cases "g b") auto
  have flat1: "res_concat_map (\<lambda>f. res_bind (g f) (\<lambda>ok. Inr [(f, ok, q)])) [a] =
      res_bind (g a) (\<lambda>ok. Inr [(a, ok, q)])"
    for g :: "string \<Rightarrow> bool result" and a :: string and q :: string
    by (cases "g a") auto
  show ?thesis
    by (cases reads_max)
      (simp_all add: measured_fields_def flat flat1 one two del: res_concat_map.simps
        flip: is_finite_number_True_iff)
qed

lemma ex_res_bind_pure:
  "(\<exists>c. res_bind m (\<lambda>x. Inr (F x)) = Inr c \<and> P c) \<longleftrightarrow> (\<exists>x. m = Inr x \<and> P (F x))"
  by (cases m) auto

lemma unusable_Nil_iff:
  "filter (\<lambda>(field, is_usable, requirement). \<not> is_usable) checked = [] \<longleftrightarrow> all_usable checked"
  by (induction checked) auto

lemma checked_fields_usable_iff:
  "(\<exists>checked. checked_fields core_period axis first reads_max is_grid = Inr checked
      \<and> all_usable checked) \<longleftrightarrow>
   expandable_axis core_period is_grid first reads_max axis"
proof -
  have "(\<exists>checked. checked_fields core_period axis first reads_max is_grid = Inr checked
      \<and> all_usable checked) \<longleftrightarrow>
    (\<exists>s. dict_get axis ''name'' = Some (JStr s))
    \<and> (first \<longrightarrow> is_count (dict_get axis ''count''))
    \<and> (\<exists>measured. res_concat_map
       (\<lambda>field. res_bind (is_finite_number (dict_get axis field))
                  (\<lambda>ok. Inr [(field, ok, ''a finite number'')])) (measured_fields reads_max)
     = Inr measured \<and> all_usable measured)
    \<and> (\<forall>p. dict_get axis ''period'' = Some p \<longrightarrow> is_period core_period p is_grid)
    \<and> (\<forall>i. dict_get axis ''index'' = Some i \<longrightarrow> is_index i)"
    unfolding checked_fields_def ex_res_bind_pure
    by (simp add: all_usable_option is_str_iff) blast
  then show ?thesis
    unfolding measured_usable_iff is_count_iff is_index_iff is_period_iff expandable_axis_def
    by (simp only: conj_assoc)
qed

lemma find_invalid_axis_fields_Nil_iff:
  "find_invalid_axis_fields core_period axis path first reads_max is_grid = Inr [] \<longleftrightarrow>
     expandable_axis core_period is_grid first reads_max axis"
  unfolding checked_fields_usable_iff [symmetric]
  by (simp add: find_invalid_axis_fields_def res_bind_Inr_iff unusable_Nil_iff)

lemma res_concat_map_enumerate_Nil_iff:
  "res_concat_map f (List.enumerate 0 xs) = Inr [] \<longleftrightarrow> (\<forall>j<length xs. f (j, xs ! j) = Inr [])"
  by (auto simp: res_concat_map_Nil_iff in_set_enumerate_eq)

lemma case_JObj_Nil_iff:
  "(case v of JObj kvs \<Rightarrow> F kvs | _ \<Rightarrow> Inr [e]) = Inr [] \<longleftrightarrow> (\<exists>kvs. v = JObj kvs \<and> F kvs = Inr [])"
  by (cases v) auto

lemma find_invalid_axis_group_Nil_iff:
  assumes "axes \<noteq> []"
  shows "find_invalid_axis_group core_period axes path is_grid = Inr [] \<longleftrightarrow>
           expandable_group core_period is_grid (JArr axes)"
  using assms
  by (simp add: find_invalid_axis_group_def expandable_group_def case_JObj_Nil_iff
      res_concat_map_enumerate_Nil_iff find_invalid_axis_fields_Nil_iff group_reads_max_iff)

lemma find_invalid_axes_group_Nil_iff:
  "(case g of JArr (a # as) \<Rightarrow> find_invalid_axis_group core_period (a # as) path is_grid
    | _ \<Rightarrow> Inr [structure_error path' req g]) = Inr [] \<longleftrightarrow> expandable_group core_period is_grid g"
proof (cases "\<exists>a as. g = JArr (a # as)")
  case True
  then show ?thesis by (auto simp: find_invalid_axis_group_Nil_iff)
next
  case False
  then have "\<not> expandable_group core_period is_grid g"
    by (auto simp: expandable_group_def neq_Nil_conv)
  with False show ?thesis by (auto split: json.splits list.splits)
qed

lemma find_invalid_axes_Nil_iff:
  "find_invalid_axes core_period axes = Inr [] \<longleftrightarrow> expandable core_period axes"
proof (cases "truthy axes \<and> (\<exists>groups. axes = JArr groups)")
  case True
  then obtain groups where "axes = JArr groups" by blast
  with True show ?thesis
    by (simp add: find_invalid_axes_def expandable_def all_set_conv_all_nth
        res_concat_map_enumerate_Nil_iff find_invalid_axes_group_Nil_iff)
next
  case False
  then show ?thesis
    by (auto simp: find_invalid_axes_def expandable_def split: json.splits)
qed

text \<open>
  C31. The axis check reports nothing exactly when the axes are missing, null or empty,
  or every part of them that policyengine-core reads is usable: every shape it
  expands passes, and every shape it cannot expand is reported (or the check raises).
\<close>

theorem find_invalid_axes_correct:
  "find_invalid_axes core_period axes = Inr [] \<longleftrightarrow> expandable core_period axes"
  by (rule find_invalid_axes_Nil_iff)

text \<open>
  An axis minimum that is an integer beyond the range of a float makes the check
  raise OverflowError instead of reporting an input error, whatever the other fields
  hold, as long as no earlier part of the axes stops it.
\<close>

theorem find_invalid_axes_overflow:
  assumes "dict_get axis ''min'' = Some (JInt i)" and "\<not> float_range i"
  shows "find_invalid_axes core_period (JArr [JArr [JObj axis]]) =
           Inl (OverflowErr ''int too large to convert to float'')"
  using assms
  by (simp add: find_invalid_axes_def find_invalid_axis_group_def find_invalid_axis_fields_def
      checked_fields_def measured_fields_def group_reads_max_def)

theorem find_invalid_axes_overflow_witness:
  "find_invalid_axes (\<lambda>_. True)
     (JArr [JArr [JObj [(''name'', JStr ''age''), (''count'', JInt 2), (''min'', JInt (10 ^ 309)),
                        (''max'', JInt 1)]]]) =
   Inl (OverflowErr ''int too large to convert to float'')"
  by (rule find_invalid_axes_overflow [where i = "10 ^ 309"])
    (simp_all add: dict_get_def float_range_def)

end
