(* ===== verification/Input_Validation.thy ===== *)
theory Input_Validation
  imports Axis_Validation
begin

text \<open>
  \<open>policyengine_api/utils/input_validation.py\<close>: the names of a calculate payload that
  the country package cannot resolve, reported with the axes that
  policyengine-core cannot expand.

  The country metadata is the part of the metadata dict these functions read:
  \<open>variables\<close> (a name and its \<open>entity\<close> key), \<open>entities\<close> (a key with the entity's
  \<open>plural\<close>, where it has one, and the plurals of its roles) and \<open>parameters\<close> (a name
  and its metadata entry).
\<close>

record meta_entity =
  plural :: "string option"
  role_plurals :: "(string \<times> string option) list"

record country_metadata =
  meta_variables :: "(string \<times> string) list"
  meta_entities :: "(string \<times> meta_entity) list"
  meta_parameters :: "(string \<times> json) list"

section \<open>Reported names\<close>

record unrecognized_input =
  input_type :: string
  input_name :: string
  input_path :: string
  expected_entity_plural :: "string option"
  actual_entity_plural :: "string option"

definition opt_text :: "string option \<Rightarrow> string" where
  "opt_text v = (case v of None \<Rightarrow> ''None'' | Some s \<Rightarrow> s)"

definition input_message :: "unrecognized_input \<Rightarrow> string" where
  "input_message e =
     (if input_type e = ''household_entity'' then
        ''Unrecognized household entity group '' @ quoted (input_name e) @ '' at ''
          @ quoted (input_path e) @ ''.''
      else if input_type e = ''household_variable_wrong_entity'' then
        ''Household variable '' @ quoted (input_name e) @ '' belongs on ''
          @ quoted (opt_text (expected_entity_plural e)) @ '', not ''
          @ quoted (opt_text (actual_entity_plural e)) @ '', at '' @ quoted (input_path e) @ ''.''
      else if input_type e = ''household_axis_variable'' then
        ''Unrecognized household axis variable '' @ quoted (input_name e) @ '' at ''
          @ quoted (input_path e) @ ''.''
      else if input_type e = ''policy_parameter'' then
        ''Unrecognized policy parameter '' @ quoted (input_name e) @ '' at ''
          @ quoted (input_path e) @ ''.''
      else ''Unrecognized household variable '' @ quoted (input_name e) @ '' at ''
          @ quoted (input_path e) @ ''.'')"

definition input_to_dict :: "unrecognized_input \<Rightarrow> json" where
  "input_to_dict e =
     JObj ([(''type'', JStr (input_type e)), (''name'', JStr (input_name e)),
            (''path'', JStr (input_path e)), (''message'', JStr (input_message e))]
           @ (case expected_entity_plural e of None \<Rightarrow> []
              | Some p \<Rightarrow> [(''expected_entity_plural'', JStr p)])
           @ (case actual_entity_plural e of None \<Rightarrow> []
              | Some p \<Rightarrow> [(''actual_entity_plural'', JStr p)]))"

definition plain_input :: "string \<Rightarrow> string \<Rightarrow> string \<Rightarrow> unrecognized_input" where
  "plain_input ty name path =
     \<lparr>input_type = ty, input_name = name, input_path = path,
      expected_entity_plural = None, actual_entity_plural = None\<rparr>"

section \<open>Household names\<close>

definition unrecognized_variable ::
  "country_metadata \<Rightarrow> string \<Rightarrow> string \<Rightarrow> string \<Rightarrow> unrecognized_input option" where
  "unrecognized_variable metadata variable_name path entity_plural =
     (case map_of (meta_variables metadata) variable_name of
        None \<Rightarrow> Some (plain_input ''household_variable'' variable_name path)
      | Some entity_key \<Rightarrow>
          (case Option.bind (map_of (meta_entities metadata) entity_key) plural of
             None \<Rightarrow> None
           | Some expected \<Rightarrow>
               if expected \<noteq> entity_plural
               then Some \<lparr>input_type = ''household_variable_wrong_entity'',
                          input_name = variable_name, input_path = path,
                          expected_entity_plural = Some expected,
                          actual_entity_plural = Some entity_plural\<rparr>
               else None))"

definition relationship_keys :: "meta_entity \<Rightarrow> string list" where
  "relationship_keys entity = List.map_filter snd (role_plurals entity)"

definition member_path :: "string \<Rightarrow> string \<Rightarrow> string \<Rightarrow> string" where
  "member_path entity_plural entity_id variable_name =
     ''household.'' @ entity_plural @ ''.'' @ entity_id @ ''.'' @ variable_name"

definition find_unrecognized_entity_inputs ::
  "country_metadata \<Rightarrow> string \<Rightarrow> (string \<times> json) list \<Rightarrow> meta_entity \<Rightarrow> unrecognized_input list" where
  "find_unrecognized_entity_inputs metadata entity_plural entity_group entity =
     concat (map (\<lambda>(entity_id, entity_inputs).
         (case entity_inputs of
            JObj inputs \<Rightarrow>
              List.map_filter (\<lambda>(variable_name, value).
                  if variable_name \<in> set (relationship_keys entity) then None
                  else unrecognized_variable metadata variable_name
                         (member_path entity_plural entity_id variable_name) entity_plural) inputs
          | _ \<Rightarrow> []))
       entity_group)"

definition find_unrecognized_axis ::
  "country_metadata \<Rightarrow> json \<Rightarrow> string \<Rightarrow> unrecognized_input list" where
  "find_unrecognized_axis metadata axis path =
     (case axis of
        JObj kvs \<Rightarrow>
          (case dict_get_none kvs ''name'' of
             JStr variable_name \<Rightarrow>
               if map_of (meta_variables metadata) variable_name \<noteq> None then []
               else [plain_input ''household_axis_variable'' variable_name path]
           | _ \<Rightarrow> [])
      | _ \<Rightarrow> [])"

definition find_unrecognized_axes :: "country_metadata \<Rightarrow> json \<Rightarrow> unrecognized_input list" where
  "find_unrecognized_axes metadata axes =
     (case axes of
        JArr entries \<Rightarrow>
          concat (map (\<lambda>(entry_index, entry).
              (case entry of
                 JArr axis_group \<Rightarrow>
                   concat (map (\<lambda>(axis_index, axis).
                       find_unrecognized_axis metadata axis
                         (indexed_path (indexed_path ''household.axes'' entry_index) axis_index
                            @ ''.name''))
                     (List.enumerate 0 axis_group))
               | _ \<Rightarrow> find_unrecognized_axis metadata entry
                        (indexed_path ''household.axes'' entry_index @ ''.name'')))
            (List.enumerate 0 entries))
      | _ \<Rightarrow> [])"

text \<open>The dict of entities by plural: a later entity with the same plural replaces an earlier.\<close>

definition entity_by_plural :: "country_metadata \<Rightarrow> string \<Rightarrow> meta_entity option" where
  "entity_by_plural metadata entity_plural =
     map_of (rev (List.map_filter (\<lambda>(key, entity).
         (case plural entity of None \<Rightarrow> None | Some p \<Rightarrow> Some (p, entity))) (meta_entities metadata)))
       entity_plural"

definition find_unrecognized_household_inputs ::
  "json \<Rightarrow> country_metadata \<Rightarrow> unrecognized_input list" where
  "find_unrecognized_household_inputs household metadata =
     (case household of
        JObj groups \<Rightarrow>
          concat (map (\<lambda>(entity_plural, entity_group).
              if entity_plural = ''axes'' then find_unrecognized_axes metadata entity_group
              else (case entity_by_plural metadata entity_plural of
                      None \<Rightarrow> [plain_input ''household_entity'' entity_plural
                                 (''household.'' @ entity_plural)]
                    | Some entity \<Rightarrow>
                        (case entity_group of
                           JObj members \<Rightarrow>
                             find_unrecognized_entity_inputs metadata entity_plural members entity
                         | _ \<Rightarrow> [])))
            groups)
      | _ \<Rightarrow> [])"

section \<open>Policy names\<close>

definition is_settable_parameter :: "json \<Rightarrow> bool" where
  "is_settable_parameter parameter_metadata =
     (case parameter_metadata of
        JObj kvs \<Rightarrow> dict_get_none kvs ''type'' = JStr ''parameter'' | _ \<Rightarrow> False)"

definition find_unrecognized_policy_inputs ::
  "json \<Rightarrow> country_metadata \<Rightarrow> unrecognized_input list" where
  "find_unrecognized_policy_inputs policy metadata =
     (case policy of
        JObj items \<Rightarrow>
          map (\<lambda>(parameter_name, value). plain_input ''policy_parameter'' parameter_name
                 (''policy.'' @ parameter_name))
            (filter (\<lambda>(parameter_name, value).
                \<not> is_settable_parameter (dict_get_none (meta_parameters metadata) parameter_name))
               items)
      | _ \<Rightarrow> [])"

section \<open>The whole payload\<close>

definition find_unrecognized_inputs ::
  "json \<Rightarrow> json \<Rightarrow> country_metadata \<Rightarrow> unrecognized_input list" where
  "find_unrecognized_inputs household policy metadata =
     find_unrecognized_household_inputs household metadata
     @ find_unrecognized_policy_inputs policy metadata"

datatype invalid_input = AxisInput invalid_axis | NameInput unrecognized_input

definition find_invalid_inputs ::
  "(json \<Rightarrow> bool) \<Rightarrow> json \<Rightarrow> json \<Rightarrow> country_metadata \<Rightarrow> invalid_input list result" where
  "find_invalid_inputs core_period household policy metadata =
     res_bind
       (find_invalid_axes core_period
          (case household of JObj kvs \<Rightarrow> dict_get_none kvs ''axes'' | _ \<Rightarrow> JNull))
       (\<lambda>invalid_axes. Inr (map AxisInput invalid_axes
          @ map NameInput (find_unrecognized_inputs household policy metadata)))"

definition format_invalid_inputs_message :: "invalid_input list \<Rightarrow> string" where
  "format_invalid_inputs_message errors =
     (if \<forall>e\<in>set errors. (case e of NameInput _ \<Rightarrow> True | AxisInput _ \<Rightarrow> False)
      then ''Unrecognized calculate input(s): '' else ''Invalid calculate input(s): '')
     @ join ''; '' (map (\<lambda>e. case e of AxisInput a \<Rightarrow> axis_message a
                                | NameInput n \<Rightarrow> input_message n) errors)"

section \<open>What the country package resolves\<close>

text \<open>
  A variable placed on an entity resolves when the model has it and its own entity,
  where that has a plural, is the one it is placed on.
\<close>

definition variable_resolves :: "country_metadata \<Rightarrow> string \<Rightarrow> string \<Rightarrow> bool" where
  "variable_resolves metadata entity_plural variable_name \<longleftrightarrow>
     (\<exists>entity_key. map_of (meta_variables metadata) variable_name = Some entity_key
        \<and> (\<forall>entity p. map_of (meta_entities metadata) entity_key = Some entity
             \<longrightarrow> plural entity = Some p \<longrightarrow> p = entity_plural))"

definition axis_name_resolves :: "country_metadata \<Rightarrow> json \<Rightarrow> bool" where
  "axis_name_resolves metadata axis \<longleftrightarrow>
     (\<forall>kvs name. axis = JObj kvs \<longrightarrow> map_of kvs ''name'' = Some (JStr name)
        \<longrightarrow> name \<in> fst ` set (meta_variables metadata))"

definition section_resolves :: "country_metadata \<Rightarrow> string \<Rightarrow> json \<Rightarrow> bool" where
  "section_resolves metadata name content \<longleftrightarrow>
     (if name = ''axes''
      then \<forall>entries. content = JArr entries \<longrightarrow>
             (\<forall>entry\<in>set entries. case entry of JArr axis_group \<Rightarrow> \<forall>a\<in>set axis_group. axis_name_resolves metadata a
                | _ \<Rightarrow> axis_name_resolves metadata entry)
      else \<exists>entity. entity_by_plural metadata name = Some entity
             \<and> (\<forall>members entity_id inputs variable_name.
                  content = JObj members \<longrightarrow> (entity_id, JObj inputs) \<in> set members \<longrightarrow>
                  variable_name \<in> fst ` set inputs \<longrightarrow>
                  Some variable_name \<in> snd ` set (role_plurals entity)
                  \<or> variable_resolves metadata name variable_name))"

definition payload_resolves :: "json \<Rightarrow> json \<Rightarrow> country_metadata \<Rightarrow> bool" where
  "payload_resolves household policy metadata \<longleftrightarrow>
     (\<forall>sections name content. household = JObj sections \<longrightarrow> (name, content) \<in> set sections
        \<longrightarrow> section_resolves metadata name content)
     \<and> (\<forall>items name. policy = JObj items \<longrightarrow> name \<in> fst ` set items
        \<longrightarrow> is_settable_parameter (dict_get_none (meta_parameters metadata) name))"

lemma map_filter_Nil_iff: "List.map_filter f xs = [] \<longleftrightarrow> (\<forall>x\<in>set xs. f x = None)"
  by (induction xs) (auto simp: map_filter_simps split: option.splits)

lemma map_filter_names_Nil_iff:
  "List.map_filter (\<lambda>(name, value). if P name then None else f name) inputs = [] \<longleftrightarrow>
     (\<forall>name. name \<in> fst ` set inputs \<longrightarrow> P name \<or> f name = None)"
  unfolding map_filter_Nil_iff by (auto split: if_splits)

lemma relationship_keys_iff:
  "name \<in> set (relationship_keys entity) \<longleftrightarrow> Some name \<in> snd ` set (role_plurals entity)"
  by (force simp: relationship_keys_def List.map_filter_def image_iff)

lemma unrecognized_variable_None_iff:
  "unrecognized_variable metadata variable_name path entity_plural = None \<longleftrightarrow>
     variable_resolves metadata entity_plural variable_name"
  by (auto simp: unrecognized_variable_def variable_resolves_def split: option.splits bind_splits)

lemma find_unrecognized_entity_inputs_Nil_iff:
  "find_unrecognized_entity_inputs metadata entity_plural members entity = [] \<longleftrightarrow>
     (\<forall>entity_id inputs variable_name. (entity_id, JObj inputs) \<in> set members \<longrightarrow>
        variable_name \<in> fst ` set inputs \<longrightarrow>
        Some variable_name \<in> snd ` set (role_plurals entity)
        \<or> variable_resolves metadata entity_plural variable_name)"
proof -
  have member: "(case v of JObj inputs \<Rightarrow>
          List.map_filter (\<lambda>(variable_name, value).
              if variable_name \<in> set (relationship_keys entity) then None
              else unrecognized_variable metadata variable_name
                     (member_path entity_plural entity_id variable_name) entity_plural) inputs
        | _ \<Rightarrow> []) = [] \<longleftrightarrow>
      (\<forall>inputs variable_name. v = JObj inputs \<longrightarrow> variable_name \<in> fst ` set inputs \<longrightarrow>
        Some variable_name \<in> snd ` set (role_plurals entity)
        \<or> variable_resolves metadata entity_plural variable_name)" for v entity_id
    by (cases v)
      (simp_all add: map_filter_names_Nil_iff relationship_keys_iff unrecognized_variable_None_iff)
  show ?thesis
    unfolding find_unrecognized_entity_inputs_def concat_eq_Nil_conv set_map ball_simps
      split_paired_Ball_Sigma
    by (simp add: Ball_def split_paired_All member del: json.case cong del: json.case_cong) blast
qed

lemma find_unrecognized_axis_Nil_iff:
  "find_unrecognized_axis metadata axis path = [] \<longleftrightarrow> axis_name_resolves metadata axis"
  by (auto simp: find_unrecognized_axis_def axis_name_resolves_def dict_get_none_def
      simp flip: dom_map_of_conv_image_fst split: json.splits option.splits)

lemma find_unrecognized_axes_Nil_iff:
  "find_unrecognized_axes metadata axes = [] \<longleftrightarrow>
     (\<forall>entries. axes = JArr entries \<longrightarrow>
        (\<forall>entry\<in>set entries. case entry of JArr axis_group \<Rightarrow> \<forall>a\<in>set axis_group. axis_name_resolves metadata a
           | _ \<Rightarrow> axis_name_resolves metadata entry))"
proof -
  have entry: "(case entry of JArr axis_group \<Rightarrow>
        concat (map (\<lambda>(j, axis). find_unrecognized_axis metadata axis (p j)) (List.enumerate 0 axis_group))
      | _ \<Rightarrow> find_unrecognized_axis metadata entry q) = [] \<longleftrightarrow>
      (case entry of JArr axis_group \<Rightarrow> \<forall>a\<in>set axis_group. axis_name_resolves metadata a
         | _ \<Rightarrow> axis_name_resolves metadata entry)" for entry p q
    by (cases entry) (simp_all add: nth_enumerate_eq find_unrecognized_axis_Nil_iff
        all_set_conv_all_nth)
  show ?thesis
    by (cases axes) (simp_all add: find_unrecognized_axes_def nth_enumerate_eq entry
        all_set_conv_all_nth)
qed

lemma section_Nil_iff:
  "(if name = ''axes'' then find_unrecognized_axes metadata content
    else (case entity_by_plural metadata name of
            None \<Rightarrow> [plain_input ''household_entity'' name (''household.'' @ name)]
          | Some entity \<Rightarrow>
              (case content of JObj members \<Rightarrow>
                 find_unrecognized_entity_inputs metadata name members entity | _ \<Rightarrow> []))) = [] \<longleftrightarrow>
   section_resolves metadata name content"
  by (cases content; cases "entity_by_plural metadata name")
    (auto simp: section_resolves_def find_unrecognized_axes_Nil_iff
      find_unrecognized_entity_inputs_Nil_iff)

lemma find_unrecognized_household_inputs_Nil_iff:
  "find_unrecognized_household_inputs household metadata = [] \<longleftrightarrow>
     (\<forall>sections name content. household = JObj sections \<longrightarrow> (name, content) \<in> set sections
        \<longrightarrow> section_resolves metadata name content)"
  unfolding find_unrecognized_household_inputs_def
  by (cases household) (auto simp: section_Nil_iff simp del: if_split split: prod.splits)

lemma find_unrecognized_policy_inputs_Nil_iff:
  "find_unrecognized_policy_inputs policy metadata = [] \<longleftrightarrow>
     (\<forall>items name. policy = JObj items \<longrightarrow> name \<in> fst ` set items
        \<longrightarrow> is_settable_parameter (dict_get_none (meta_parameters metadata) name))"
  by (cases policy) (auto simp: find_unrecognized_policy_inputs_def filter_empty_conv)

text \<open>
  C37. A calculate payload passes the check exactly when its axes can be expanded and
  every name in it resolves: known entity groups, variables the model has placed on
  their own entity (role membership keys aside), known axis variables, and policy keys
  that are parameters.
\<close>

theorem find_invalid_inputs_correct:
  "find_invalid_inputs core_period household policy metadata = Inr [] \<longleftrightarrow>
     expandable core_period (case household of JObj kvs \<Rightarrow> dict_get_none kvs ''axes'' | _ \<Rightarrow> JNull)
     \<and> payload_resolves household policy metadata"
proof -
  have axes: "find_invalid_axes core_period axes = Inr [] \<longleftrightarrow> expandable core_period axes" for axes
    by (rule find_invalid_axes_Nil_iff)
  show ?thesis
    by (simp add: find_invalid_inputs_def find_unrecognized_inputs_def res_bind_Inr_iff axes
        payload_resolves_def find_unrecognized_household_inputs_Nil_iff
        find_unrecognized_policy_inputs_Nil_iff)
qed

end
