(* ===== verification/Content_Hash.thy ===== *)
theory Content_Hash
  imports Json_Codec
begin

text \<open>
  \<open>policyengine_api/utils/json.py\<close>: the content hash of policies and households, which keys
  their deduplication and cached calculations, and the JSON-safe form of metadata values.
  \<open>digest\<close> is the base64 text of \<open>hashlib.sha256\<close>, a parameter. JSON holds no sets.
\<close>

section \<open>Hashes\<close>

datatype hashable = HAtom json | HTuple "hashable list"

fun make_hashable :: "json \<Rightarrow> hashable"
  and make_hashable_list :: "json list \<Rightarrow> hashable list"
  and make_hashable_items :: "(string \<times> json) list \<Rightarrow> (string \<times> hashable) list" where
  "make_hashable (JArr xs) = HTuple (make_hashable_list xs)"
| "make_hashable (JObj kvs) =
     HTuple (map (\<lambda>(k, h). HTuple [HAtom (JStr k), h]) (sort_key fst (make_hashable_items kvs)))"
| "make_hashable v = HAtom v"
| "make_hashable_list [] = []"
| "make_hashable_list (x # xs) = make_hashable x # make_hashable_list xs"
| "make_hashable_items [] = []"
| "make_hashable_items ((k, v) # kvs) = (k, make_hashable v) # make_hashable_items kvs"

text \<open>Python's \<open>repr\<close> of nested tuples; a tuple of one item ends with a comma.\<close>

fun hashable_repr :: "hashable \<Rightarrow> string"
  and hashable_reprs :: "hashable list \<Rightarrow> string list" where
  "hashable_repr (HAtom v) = py_repr v"
| "hashable_repr (HTuple xs) =
     (case hashable_reprs xs of
        [s] \<Rightarrow> ''('' @ s @ '',)''
      | ss \<Rightarrow> ''('' @ join '', '' ss @ '')'')"
| "hashable_reprs [] = []"
| "hashable_reprs (x # xs) = hashable_repr x # hashable_reprs xs"

definition hash_object :: "(string \<Rightarrow> string) \<Rightarrow> json \<Rightarrow> string" where
  "hash_object digest v = digest (hashable_repr (make_hashable v))"

lemma make_hashable_list_eq: "make_hashable_list xs = map make_hashable xs"
  by (induction xs) auto

lemma make_hashable_items_eq: "make_hashable_items kvs = map (\<lambda>(k, v). (k, make_hashable v)) kvs"
  by (induction kvs) auto

lemma sort_keys_items_eq: "sort_keys_items kvs = map (\<lambda>(k, v). (k, sort_keys v)) kvs"
  by (induction kvs) auto

lemma sort_keys_list_eq: "sort_keys_list xs = map sort_keys xs"
  by (induction xs) auto

text \<open>Sorting by key commutes with a change of the values.\<close>

lemma sort_key_map_values: "sort_key fst (map (\<lambda>(k, v). (k, f v)) kvs) = map (\<lambda>(k, v). (k, f v)) (sort_key fst kvs)"
proof (induction kvs)
  case (Cons kv kvs)
  have ins: "insort_key fst (k, f v) (map (\<lambda>(k, v). (k, f v)) xs) = map (\<lambda>(k, v). (k, f v)) (insort_key fst (k, v) xs)"
    for k v xs
    by (induction xs) auto
  from Cons show ?case by (cases kv) (simp add: ins)
qed simp

text \<open>
  Two values that differ only in the order of their keys, at any depth, have the same hash;
  the order of a list counts.
\<close>

lemma make_hashable_sort_keys: "make_hashable (sort_keys v) = make_hashable v"
proof (induction v)
  case (JArr xs)
  then show ?case by (simp add: make_hashable_list_eq sort_keys_list_eq)
next
  case (JObj kvs)
  let ?f = "\<lambda>(k, v). (k, make_hashable v)" and ?g = "\<lambda>(k, v). (k, sort_keys v)"
  have same: "map ?f (map ?g kvs) = map ?f kvs"
    using JObj by (auto simp: fsts.simps snds.simps)
  have twice: "sort_key fst (sort_key fst xs) = sort_key fst xs" for xs :: "(string \<times> json) list"
    by (rule sort_key_id_if_sorted) simp
  have "sort_key fst (map ?f (sort_key fst (map ?g kvs))) = sort_key fst (map ?f (map ?g kvs))"
    unfolding sort_key_map_values [of make_hashable] twice ..
  then show ?case by (simp only: sort_keys.simps make_hashable.simps make_hashable_items_eq sort_keys_items_eq same)
qed simp_all

lemma hash_ignores_key_order:
  "sort_keys v = sort_keys w \<Longrightarrow> hash_object digest v = hash_object digest w"
  by (metis hash_object_def make_hashable_sort_keys)

text \<open>An object hashes like the list of its pairs in key order.\<close>

lemma hash_of_pairs:
  assumes "sorted (map fst kvs)"
  shows "make_hashable (JArr (map (\<lambda>(k, v). JArr [JStr k, v]) kvs)) = make_hashable (JObj kvs)"
proof -
  have "sort_key fst (map (\<lambda>(k, v). (k, make_hashable v)) kvs) = map (\<lambda>(k, v). (k, make_hashable v)) kvs"
    using assms by (simp add: sort_key_map_values sort_key_id_if_sorted)
  then show ?thesis by (simp add: make_hashable_items_eq make_hashable_list_eq comp_def case_prod_unfold)
qed

section \<open>Metadata values\<close>

fun get_safe_json :: "json \<Rightarrow> json"
  and get_safe_list :: "json list \<Rightarrow> json list"
  and get_safe_items :: "(string \<times> json) list \<Rightarrow> (string \<times> json) list" where
  "get_safe_json (JFloat (FInf negative)) = JStr (if negative then ''-Infinity'' else ''Infinity'')"
| "get_safe_json (JArr xs) = JArr (get_safe_list xs)"
| "get_safe_json (JObj kvs) = JObj (get_safe_items kvs)"
| "get_safe_json v = v"
| "get_safe_list [] = []"
| "get_safe_list (x # xs) = get_safe_json x # get_safe_list xs"
| "get_safe_items [] = []"
| "get_safe_items ((k, v) # kvs) = (k, get_safe_json v) # get_safe_items kvs"

end
