(* ===== verification/Strict_Json.thy ===== *)
theory Strict_Json
  imports Calendar
begin

text \<open>
  The JSON values API v2 accepts, \<open>require_json_value\<close> of
  \<open>policyengine_api/services/v2/policies/validators.py\<close> and
  \<open>services/v2/households/validators.py\<close>, and the canonical JSON text of
  \<open>services/v2/households/transformations.py\<close>, over which households are hashed.
\<close>

section \<open>Strict JSON\<close>

definition MAXIMUM_JSON_NESTING :: nat where
  "MAXIMUM_JSON_NESTING = 100"

fun is_finite_json :: "json \<Rightarrow> bool" where
  "is_finite_json (JFloat (FInf negative)) = False"
| "is_finite_json (JFloat FNan) = False"
| "is_finite_json v = True"

text \<open>A decoded JSON value has no reference cycles and only text keys.\<close>

fun require_json_value :: "nat \<Rightarrow> json \<Rightarrow> bool"
  and require_json_items :: "nat \<Rightarrow> json list \<Rightarrow> bool"
  and require_json_members :: "nat \<Rightarrow> (string \<times> json) list \<Rightarrow> bool" where
  "require_json_value depth (JArr xs) = (depth \<le> MAXIMUM_JSON_NESTING \<and> require_json_items (depth + 1) xs)"
| "require_json_value depth (JObj kvs) = (depth \<le> MAXIMUM_JSON_NESTING \<and> require_json_members (depth + 1) kvs)"
| "require_json_value depth v = (depth \<le> MAXIMUM_JSON_NESTING \<and> is_finite_json v)"
| "require_json_items depth [] = True"
| "require_json_items depth (x # xs) = (require_json_value depth x \<and> require_json_items depth xs)"
| "require_json_members depth [] = True"
| "require_json_members depth ((k, v) # kvs) = (require_json_value depth v \<and> require_json_members depth kvs)"

fun is_object :: "json \<Rightarrow> bool" where
  "is_object (JObj kvs) = True"
| "is_object v = False"

section \<open>Canonical text\<close>

text \<open>
  A float is written from its shortest decimal digits, without an exponent: an integral one like
  the int it equals, any other without trailing zeros. Infinities and NaN, which the strict
  check refuses first, are written as \<open>Decimal\<close> writes them.
\<close>

definition drop_trailing_zeros :: "string \<Rightarrow> string" where
  "drop_trailing_zeros s = rev (dropWhile (\<lambda>c. c = CHR ''0'') (rev s))"

definition fraction_text :: "nat \<Rightarrow> nat \<Rightarrow> string" where
  "fraction_text m places =
     (let whole = show_nat (m div 10 ^ places);
          digits = drop_trailing_zeros (pad_left places (show_nat (m mod 10 ^ places)))
      in if digits = [] then whole else whole @ ''.'' @ digits)"

fun canonical_number :: "json \<Rightarrow> string" where
  "canonical_number (JInt i) = show_int i"
| "canonical_number (JFloat (FFin neg m e)) =
     (if m = 0 then ''0''
      else (if neg then ''-'' else [])
        @ (if 0 \<le> e then show_nat (m * 10 ^ nat e) else fraction_text m (nat (- e))))"
| "canonical_number (JFloat (FInf neg)) = (if neg then ''-Infinity'' else ''Infinity'')"
| "canonical_number v = ''NaN''"

fun canonical_json :: "json \<Rightarrow> string"
  and canonical_items :: "json list \<Rightarrow> string list"
  and canonical_members :: "(string \<times> json) list \<Rightarrow> (string \<times> string) list" where
  "canonical_json JNull = ''null''"
| "canonical_json (JBool b) = (if b then ''true'' else ''false'')"
| "canonical_json (JInt i) = canonical_number (JInt i)"
| "canonical_json (JFloat f) = canonical_number (JFloat f)"
| "canonical_json (JStr s) = string_text s"
| "canonical_json (JArr xs) = ''['' @ join '','' (canonical_items xs) @ '']''"
| "canonical_json (JObj kvs) =
     ''{'' @ join '','' (map (\<lambda>(k, t). string_text k @ '':'' @ t) (sort_key fst (canonical_members kvs))) @ ''}''"
| "canonical_items [] = []"
| "canonical_items (x # xs) = canonical_json x # canonical_items xs"
| "canonical_members [] = []"
| "canonical_members ((k, v) # kvs) = (k, canonical_json v) # canonical_members kvs"

end
