(* ===== verification/Policy_Service.thy ===== *)
theory Policy_Service
  imports V1_Routes Policy_Data_Validation Input_Validation Content_Hash Strict_Json
begin

text \<open>
  \<open>policyengine_api/services/policy_service.py\<close>, \<open>policy_parameter_service.py\<close> and
  \<open>routes/policy_routes.py\<close>: lookup and deduplicated creation of v1 policies, the check of
  their data against the country model, and the copies handed to API v2.

  A request is one transaction. The collation of the text columns and the log records are not
  modelled; what the mirror does with a copy, which never changes an answer, is the list of
  the copies handed to it.
\<close>

section \<open>Policies\<close>

record policy =
  pol_id :: int
  pol_country_id :: string
  pol_label :: "string option"
  pol_api_version :: string
  pol_json :: json
  pol_hash :: string

record policy_snapshot =
  ps_country_id :: string
  ps_legacy_policy_id :: int
  ps_label :: "string option"
  ps_api_version :: string
  ps_policy_json :: json
  ps_source_policy_hash :: string

record policy_db =
  pd_policies :: "policy list"
  pd_next_policy :: int
  pd_mirrored :: "policy_snapshot list"

text \<open>
  The installed versions, the leaf parameters of the loaded models, the digest of the content
  hash, the environment variables and the texts of pydantic's and werkzeug's errors.
\<close>

record policy_env =
  pe_versions :: runtime_versions_table
  pe_model_parameters :: "string \<Rightarrow> string list option"
  pe_digest :: "string \<Rightarrow> string"
  pe_variables :: "string \<Rightarrow> string option"
  pe_snapshot_report :: "policy \<Rightarrow> string"
  pe_web :: web_env

section \<open>Snapshots\<close>

definition legacy_policy_snapshot :: "policy_env \<Rightarrow> policy \<Rightarrow> policy_snapshot result" where
  "legacy_policy_snapshot env p =
     (if pol_country_id p \<in> set SUPPORTED_COUNTRY_IDS \<and> 0 \<le> pol_id p
         \<and> (case pol_label p of None \<Rightarrow> True | Some l \<Rightarrow> length l \<le> 255)
         \<and> pol_api_version p \<noteq> [] \<and> length (pol_api_version p) \<le> 255
         \<and> require_json_value 0 (pol_json p) \<and> is_object (pol_json p)
         \<and> pol_hash p \<noteq> [] \<and> length (pol_hash p) \<le> 255
      then Inr \<lparr>ps_country_id = pol_country_id p, ps_legacy_policy_id = pol_id p, ps_label = pol_label p,
                ps_api_version = pol_api_version p, ps_policy_json = pol_json p,
                ps_source_policy_hash = pol_hash p\<rparr>
      else Inl (ValueError (pe_snapshot_report env p)))"

section \<open>The data of a new policy\<close>

definition parameters_missing_from_model :: "string list \<Rightarrow> string list \<Rightarrow> string list" where
  "parameters_missing_from_model policy_parameter_names model_parameter_names =
     sort (remdups (filter (\<lambda>name. name \<notin> set model_parameter_names) policy_parameter_names))"

datatype policy_error = InvalidPolicyDataError string "string list" "invalid_policy_entry list" | OtherPolicyError exn

definition package_name :: "string \<Rightarrow> string" where
  "package_name country_id = ''policyengine-'' @ country_id"

definition invalid_policy_data_message ::
  "policy_env \<Rightarrow> string \<Rightarrow> string list \<Rightarrow> invalid_policy_entry list \<Rightarrow> string" where
  "invalid_policy_data_message env country_id parameter_paths invalid_entries =
     join ''. ''
       ((if parameter_paths = [] then []
         else [''Policy data contains keys that are not parameters in '' @ package_name country_id @ '' ''
                 @ installed_version (pe_versions env) country_id @ '': '' @ join '', '' (sort parameter_paths)])
        @ (if invalid_entries = [] then []
           else [''Policy data contains invalid period keys or values: ''
                   @ join '' '' (map entry_message invalid_entries)]))"

definition error_entries :: "string list \<Rightarrow> invalid_policy_entry list \<Rightarrow> json list" where
  "error_entries parameter_paths invalid_entries =
     map (\<lambda>path. input_to_dict (plain_input ''policy_parameter'' path (''data.'' @ path))) (sort parameter_paths)
     @ map entry_to_dict invalid_entries"

definition check_policy_data ::
  "policy_env \<Rightarrow> bool \<Rightarrow> string \<Rightarrow> (string \<times> json) list \<Rightarrow> policy_error + unit" where
  "check_policy_data env checked country_id policy_json =
     (if \<not> checked \<or> policy_json = [] then Inr ()
      else (let names = (case pe_model_parameters env country_id of None \<Rightarrow> [] | Some ns \<Rightarrow> ns);
                unsettable = parameters_missing_from_model (map fst policy_json) names;
                invalid = find_invalid_periods_and_values policy_json
            in if unsettable = [] \<and> invalid = [] then Inr ()
               else Inl (InvalidPolicyDataError country_id unsettable invalid)))"

section \<open>Looking up and storing policies\<close>

definition get_policy :: "policy_db \<Rightarrow> string \<Rightarrow> int \<Rightarrow> policy option result" where
  "get_policy db country_id policy_id =
     (if policy_id < 0
      then Inl (InvalidIdErr (''Invalid policy ID: '' @ show_int policy_id @ ''. Must be a positive integer.''))
      else if country_id = [] then Inl (ValueError ''country_id cannot be empty or None'')
      else Inr (List.find (\<lambda>p. pol_country_id p = country_id \<and> pol_id p = policy_id) (pd_policies db)))"

definition get_policy_json :: "policy_db \<Rightarrow> string \<Rightarrow> int \<Rightarrow> json result" where
  "get_policy_json db country_id policy_id =
     res_bind (get_policy db country_id policy_id)
       (\<lambda>p. Inr (case p of None \<Rightarrow> JNull | Some p \<Rightarrow> pol_json p))"

definition get_policy_snapshot :: "policy_env \<Rightarrow> policy_db \<Rightarrow> string \<Rightarrow> int \<Rightarrow> policy_snapshot option result" where
  "get_policy_snapshot env db country_id policy_id =
     res_bind (get_policy db country_id policy_id)
       (\<lambda>p. case p of None \<Rightarrow> Inr None | Some p \<Rightarrow> res_bind (legacy_policy_snapshot env p) (\<lambda>s. Inr (Some s)))"

definition get_unique_policy_with_label ::
  "policy_db \<Rightarrow> string \<Rightarrow> string \<Rightarrow> string option \<Rightarrow> policy option" where
  "get_unique_policy_with_label db country_id policy_hash label =
     List.find (\<lambda>p. pol_country_id p = country_id \<and> pol_hash p = policy_hash \<and> pol_label p = label) (pd_policies db)"

definition text_or_none :: "string option \<Rightarrow> string option" where
  "text_or_none label = (if label = Some [] then None else label)"

definition new_policy ::
  "policy_env \<Rightarrow> int \<Rightarrow> string \<Rightarrow> string option \<Rightarrow> (string \<times> json) list \<Rightarrow> string \<Rightarrow> policy" where
  "new_policy env i version label policy_json country_id =
     \<lparr>pol_id = i, pol_country_id = country_id, pol_label = label, pol_api_version = version,
      pol_json = JObj policy_json, pol_hash = hash_object (pe_digest env) (JObj policy_json)\<rparr>"

record policy_set_result =
  psr_policy :: policy
  psr_message :: string
  psr_existing :: bool
  psr_snapshot :: "policy_snapshot option"

text \<open>The lookup takes an empty label for none; the row keeps the label it was given.\<close>

definition store_policy ::
  "policy_env \<Rightarrow> bool \<Rightarrow> string \<Rightarrow> string option \<Rightarrow> (string \<times> json) list \<Rightarrow> policy_db
     \<Rightarrow> (policy_error + policy \<times> string \<times> bool) \<times> policy_db" where
  "store_policy env checked country_id label policy_json db =
     (case get_unique_policy_with_label db country_id (hash_object (pe_digest env) (JObj policy_json))
             (text_or_none label) of
        Some existing \<Rightarrow> (Inr (existing, ''Policy already exists'', True), db)
      | None \<Rightarrow>
          (case check_policy_data env checked country_id policy_json of
             Inl e \<Rightarrow> (Inl e, db)
           | Inr u \<Rightarrow>
               (let p = new_policy env (pd_next_policy db) (installed_version (pe_versions env) country_id) label
                          policy_json country_id
                in (Inr (p, ''Policy created'', False),
                    db\<lparr>pd_policies := pd_policies db @ [p], pd_next_policy := pd_next_policy db + 1\<rparr>))))"

definition set_policy ::
  "policy_env \<Rightarrow> bool \<Rightarrow> string \<Rightarrow> string option \<Rightarrow> (string \<times> json) list \<Rightarrow> bool \<Rightarrow> policy_db
     \<Rightarrow> (policy_error + policy_set_result) \<times> policy_db" where
  "set_policy env checked country_id label policy_json prepare_for_mirroring db =
     (let country = py_lower country_id
      in if rt_country (pe_versions env) country = None
         then (Inl (OtherPolicyError (ValueError (''Invalid country_id: '' @ country))), db)
         else case store_policy env checked country label policy_json db of
           (Inl e, db') \<Rightarrow> (Inl e, db)
         | (Inr (p, message, existing), db') \<Rightarrow>
             (let done = \<lparr>psr_policy = p, psr_message = message, psr_existing = existing, psr_snapshot = None\<rparr>
              in if \<not> prepare_for_mirroring then (Inr done, db')
                 else case legacy_policy_snapshot env p of
                   Inl e \<Rightarrow> (Inl (OtherPolicyError e), db\<lparr>pd_next_policy := pd_next_policy db'\<rparr>)
                 | Inr s \<Rightarrow> (Inr (done\<lparr>psr_snapshot := Some s\<rparr>), db')))"

section \<open>Missing parameters\<close>

definition missing_parameters :: "policy_env \<Rightarrow> string \<Rightarrow> json \<Rightarrow> string list option" where
  "missing_parameters env country_id policy_json =
     (case policy_json of
        JObj d \<Rightarrow>
          if d = [] then Some []
          else (case pe_model_parameters env country_id of
                  None \<Rightarrow> None | Some names \<Rightarrow> Some (parameters_missing_from_model (map fst d) names))
      | _ \<Rightarrow> None)"

section \<open>Configuration\<close>

definition read_choice :: "(string \<Rightarrow> string option) \<Rightarrow> string \<Rightarrow> string \<Rightarrow> string list \<Rightarrow> string result" where
  "read_choice variables env_name default_value valid_values =
     (let v = (case variables env_name of None \<Rightarrow> default_value | Some x \<Rightarrow> x)
      in if v \<in> set valid_values then Inr v
         else Inl (ValueError (env_name @ ''='' @ repr_string v @ '' is invalid; expected one of: ''
                     @ join '', '' (sort valid_values))))"

definition DEFAULT_DB_SOURCE :: string where
  "DEFAULT_DB_SOURCE = ''cloud_sql''"

definition get_v1_policy_write_source :: "(string \<Rightarrow> string option) \<Rightarrow> string result" where
  "get_v1_policy_write_source variables =
     read_choice variables ''DB_WRITE_POLICY'' DEFAULT_DB_SOURCE [''cloud_sql'', ''dual_write'']"

definition get_v1_policy_read_source :: "(string \<Rightarrow> string option) \<Rightarrow> string result" where
  "get_v1_policy_read_source variables =
     read_choice variables ''DB_READ_POLICY'' DEFAULT_DB_SOURCE [''cloud_sql'']"

section \<open>Payloads\<close>

text \<open>\<open>key in payload\<close> of any JSON value.\<close>

definition payload_has :: "json \<Rightarrow> string \<Rightarrow> bool result" where
  "payload_has payload key =
     (case payload of
        JObj d \<Rightarrow> Inr (map_of d key \<noteq> None)
      | JArr xs \<Rightarrow> Inr (JStr key \<in> set xs)
      | JStr s \<Rightarrow> Inr (sublist key s)
      | v \<Rightarrow> Inl (TypeErr (''argument of type '' @ CHR 0x27 # type_name v @ CHR 0x27 # '' is not iterable'')))"

definition payload_item :: "json \<Rightarrow> string \<Rightarrow> json result" where
  "payload_item payload key =
     (case payload of
        JObj d \<Rightarrow> (case map_of d key of None \<Rightarrow> Inl (KeyErr key) | Some v \<Rightarrow> Inr v)
      | JArr xs \<Rightarrow> Inl (TypeErr ''list indices must be integers or slices, not str'')
      | v \<Rightarrow> Inl (TypeErr (''string indices must be integers, not '' @ repr_string ''str'')))"

definition is_optional_text :: "json \<Rightarrow> bool" where
  "is_optional_text v = (case v of JNull \<Rightarrow> True | JStr s \<Rightarrow> True | _ \<Rightarrow> False)"

text \<open>The shared checks of a policy and a household body: None for a valid one, else what is wrong.\<close>

definition validate_labelled_payload :: "string \<Rightarrow> json \<Rightarrow> string option result" where
  "validate_labelled_payload not_a_dict payload =
     res_bind (payload_has payload ''data'') (\<lambda>has_data.
       if \<not> has_data then Inr (Some (''Missing required keys: ['' @ repr_string ''data'' @ '']''))
       else res_bind (payload_has payload ''label'') (\<lambda>has_label.
         res_bind (if has_label then payload_item payload ''label'' else Inr JNull) (\<lambda>label.
           if \<not> is_optional_text label then Inr (Some ''Label must be a string or None'')
           else res_bind (payload_item payload ''data'') (\<lambda>data.
             Inr (if is_object data then None else Some not_a_dict)))))"

definition validate_set_policy_payload :: "json \<Rightarrow> string option result" where
  "validate_set_policy_payload payload = validate_labelled_payload ''Data must be a dictionary'' payload"

section \<open>The views\<close>

definition error_answer :: "http_answer \<Rightarrow> view_result" where
  "error_answer a = (case a of (code, body) \<Rightarrow> Answer code body)"

definition policy_configuration_unavailable :: view_result where
  "policy_configuration_unavailable =
     error_answer (make_error_response ''Policy persistence configuration is unavailable.'' 503 [])"

definition serialize_policy :: "policy \<Rightarrow> (string \<times> json) list" where
  "serialize_policy p =
     [(''id'', JInt (pol_id p)), (''country_id'', JStr (pol_country_id p)), (''label'', opt_str (pol_label p)),
      (''api_version'', JStr (pol_api_version p)), (''policy_json'', pol_json p), (''policy_hash'', JStr (pol_hash p))]"

definition get_policy_view :: "policy_env \<Rightarrow> string \<Rightarrow> nat \<Rightarrow> policy_db \<Rightarrow> view_result" where
  "get_policy_view env country_id policy_id db =
     (case get_v1_policy_read_source (pe_variables env) of
        Inl e \<Rightarrow> policy_configuration_unavailable
      | Inr source \<Rightarrow>
          (case get_policy db country_id (int policy_id) of
             Inl e \<Rightarrow> Unhandled e
           | Inr None \<Rightarrow> HttpError 404 (''Policy #'' @ show_nat policy_id @ '' not found.'')
           | Inr (Some p) \<Rightarrow>
               Answer 200 (ok_body JNull (serialize_policy p
                 @ [(''missing_parameters'',
                     case missing_parameters env country_id (pol_json p) of
                       None \<Rightarrow> JNull | Some names \<Rightarrow> JArr (map JStr names))]))))"

definition should_mirror_to_v2 :: "string \<Rightarrow> string \<Rightarrow> bool" where
  "should_mirror_to_v2 country_id write_source \<longleftrightarrow>
     write_source = ''dual_write'' \<and> country_id \<in> set SUPPORTED_COUNTRY_IDS"

text \<open>A copy that was prepared is handed to the mirror, whose failure is logged and dropped.\<close>

definition copy_policy_to_v2 :: "policy_snapshot option \<Rightarrow> policy_db \<Rightarrow> policy_db" where
  "copy_policy_to_v2 snapshot db =
     (case snapshot of None \<Rightarrow> db | Some s \<Rightarrow> db\<lparr>pd_mirrored := pd_mirrored db @ [s]\<rparr>)"

definition payload_label :: "json \<Rightarrow> string option" where
  "payload_label payload =
     (case payload of JObj d \<Rightarrow> (case map_of d ''label'' of Some (JStr s) \<Rightarrow> Some s | _ \<Rightarrow> None) | _ \<Rightarrow> None)"

definition payload_data :: "json \<Rightarrow> (string \<times> json) list" where
  "payload_data payload =
     (case payload of JObj d \<Rightarrow> (case map_of d ''data'' of Some (JObj kvs) \<Rightarrow> kvs | _ \<Rightarrow> []) | _ \<Rightarrow> [])"

definition set_policy_view :: "policy_env \<Rightarrow> string \<Rightarrow> json \<Rightarrow> policy_db \<Rightarrow> view_result \<times> policy_db" where
  "set_policy_view env country_id payload db =
     (case validate_set_policy_payload payload of
        Inl e \<Rightarrow> (Unhandled e, db)
      | Inr (Some message) \<Rightarrow> (HttpError 400 (''Invalid JSON data; details: '' @ message), db)
      | Inr None \<Rightarrow>
          (case get_v1_policy_write_source (pe_variables env) of
             Inl e \<Rightarrow> (policy_configuration_unavailable, db)
           | Inr write_source \<Rightarrow>
               (let mirror = should_mirror_to_v2 country_id write_source
                in case set_policy env True country_id (payload_label payload) (payload_data payload) mirror db of
                     (Inl (InvalidPolicyDataError c paths entries), db') \<Rightarrow>
                       (error_answer (make_error_response (invalid_policy_data_message env c paths entries) 400
                          [(''result'', JNull), (''errors'', JArr (error_entries paths entries))]), db')
                   | (Inl (OtherPolicyError e), db') \<Rightarrow> (Unhandled e, db')
                   | (Inr creation, db') \<Rightarrow>
                       (Answer (if psr_existing creation then 200 else 201)
                          (ok_body (JStr (psr_message creation))
                             [(''policy_id'', JInt (pol_id (psr_policy creation)))]),
                        if mirror then copy_policy_to_v2 (psr_snapshot creation) db' else db'))))"


section \<open>Deduplication\<close>

lemma store_policy_cases:
  assumes "store_policy env checked c label d db = (r, db')"
  obtains (found) p where "get_unique_policy_with_label db c (hash_object (pe_digest env) (JObj d)) (text_or_none label) = Some p"
      and "r = Inr (p, ''Policy already exists'', True)" and "db' = db"
    | (refused) e where "r = Inl e" and "db' = db"
    | (created) p where "get_unique_policy_with_label db c (hash_object (pe_digest env) (JObj d)) (text_or_none label) = None"
      and "check_policy_data env checked c d = Inr ()"
      and "p = new_policy env (pd_next_policy db) (installed_version (pe_versions env) c) label d c"
      and "r = Inr (p, ''Policy created'', False)"
      and "db' = db\<lparr>pd_policies := pd_policies db @ [p], pd_next_policy := pd_next_policy db + 1\<rparr>"
  using assms by (auto simp: store_policy_def Let_def split: option.splits sum.splits)

text \<open>What a successful call stored, and that storing the same again finds it.\<close>

lemma set_policy_Inr:
  assumes "set_policy env checked c label d mirror db = (Inr r, db')"
  shows "store_policy env checked (py_lower c) label d db = (Inr (psr_policy r, psr_message r, psr_existing r), db')"
    and "rt_country (pe_versions env) (py_lower c) \<noteq> None"
    and "mirror \<Longrightarrow> legacy_policy_snapshot env (psr_policy r) \<noteq> Inl e"
  using assms by (auto simp: set_policy_def Let_def split: if_splits prod.splits sum.splits)

lemma store_policy_finds:
  assumes "store_policy env checked c label d db = (Inr (p, message, existing), db')" and "label \<noteq> Some []"
    and "hash_object (pe_digest env) (JObj d') = hash_object (pe_digest env) (JObj d)"
  shows "store_policy env checked' c label d' db' = (Inr (p, ''Policy already exists'', True), db')"
    and "pd_policies db' = (if existing then pd_policies db else pd_policies db @ [p])"
proof -
  have label: "text_or_none label = label" using assms(2) by (simp add: text_or_none_def)
  have "get_unique_policy_with_label db' c (hash_object (pe_digest env) (JObj d)) label = Some p
     \<and> pd_policies db' = (if existing then pd_policies db else pd_policies db @ [p])"
    using assms(1)
  proof (cases rule: store_policy_cases)
    case (found q)
    with label show ?thesis by simp
  next
    case (created q)
    then have "\<forall>x\<in>set (pd_policies db). \<not> (pol_country_id x = c
        \<and> pol_hash x = hash_object (pe_digest env) (JObj d) \<and> pol_label x = label)"
      using label by (auto simp: get_unique_policy_with_label_def find_None_iff)
    with created show ?thesis
      by (auto simp: get_unique_policy_with_label_def find_Some_iff new_policy_def nth_append
          intro!: exI [of _ "length (pd_policies db)"])
  qed simp
  with label assms(3) show "store_policy env checked' c label d' db' = (Inr (p, ''Policy already exists'', True), db')"
    "pd_policies db' = (if existing then pd_policies db else pd_policies db @ [p])"
    by (simp_all add: store_policy_def)
qed

text \<open>
  C25. Saving a policy again, under the same label and with its data in any key order, returns
  the policy that was saved first and stores nothing, whatever the first call found; and a
  call stores one row exactly when it reports a new policy. The label must not be the empty
  text.
\<close>

theorem policy_creation_reuses:
  assumes "set_policy env checked c label d mirror db = (Inr r, db1)" and "label \<noteq> Some []"
    and "sort_keys (JObj d') = sort_keys (JObj d)"
  shows "\<exists>r'. set_policy env checked c label d' mirror db1 = (Inr r', db1)
     \<and> psr_policy r' = psr_policy r \<and> psr_existing r' \<and> psr_message r' = ''Policy already exists''
     \<and> psr_snapshot r' = psr_snapshot r
     \<and> pd_policies db1 = (if psr_existing r then pd_policies db else pd_policies db @ [psr_policy r])"
proof -
  note first = set_policy_Inr [OF assms(1)]
  have hash: "hash_object (pe_digest env) (JObj d') = hash_object (pe_digest env) (JObj d)"
    by (rule hash_ignores_key_order [OF assms(3)])
  note again = store_policy_finds [OF first(1) assms(2) hash]
  let ?r = "\<lparr>psr_policy = psr_policy r, psr_message = ''Policy already exists'', psr_existing = True,
    psr_snapshot = psr_snapshot r\<rparr>"
  have "set_policy env checked c label d' mirror db1 = (Inr ?r, db1)"
    using assms(1) first(2) again(1) first(1)
    by (cases r) (auto simp: set_policy_def Let_def split: if_splits sum.splits)
  with again(2) show ?thesis by (intro exI [of _ ?r]) simp
qed

text \<open>
  C39. A policy saved with an empty label is stored with that label but looked up without one,
  so saving it again stores another policy, as often as it is saved.
\<close>

theorem empty_label_never_reused:
  assumes "set_policy env checked c (Some []) d False db = (Inr r, db1)" and "\<not> psr_existing r"
  shows "\<exists>r' db2. set_policy env checked c (Some []) d False db1 = (Inr r', db2)
     \<and> \<not> psr_existing r' \<and> pol_id (psr_policy r') \<noteq> pol_id (psr_policy r)
     \<and> pd_policies db2 = pd_policies db @ [psr_policy r, psr_policy r']"
proof -
  note first = set_policy_Inr [OF assms(1)]
  show ?thesis
    using first(1)
  proof (cases rule: store_policy_cases)
    case (created p)
    have none: "get_unique_policy_with_label db1 (py_lower c) (hash_object (pe_digest env) (JObj d)) None = None"
      using created by (auto simp: get_unique_policy_with_label_def find_None_iff text_or_none_def new_policy_def)
    define q where "q = new_policy env (pd_next_policy db1) (installed_version (pe_versions env) (py_lower c))
      (Some []) d (py_lower c)"
    let ?r = "\<lparr>psr_policy = q, psr_message = ''Policy created'', psr_existing = False, psr_snapshot = None\<rparr>"
    have "set_policy env checked c (Some []) d False db1
        = (Inr ?r, db1\<lparr>pd_policies := pd_policies db1 @ [q], pd_next_policy := pd_next_policy db1 + 1\<rparr>)"
      using first(2) none created(2) by (simp add: set_policy_def store_policy_def text_or_none_def q_def Let_def)
    then show ?thesis using created by (auto simp: q_def new_policy_def)
  qed (use assms(2) in auto)
qed

section \<open>The data of stored policies\<close>

lemma parameters_missing_Nil: "parameters_missing_from_model ns ms = [] \<longleftrightarrow> set ns \<subseteq> set ms"
proof -
  have "set (parameters_missing_from_model ns ms) = set ns - set ms"
    by (auto simp: parameters_missing_from_model_def)
  then show ?thesis by (metis Diff_eq_empty_iff set_empty)
qed

text \<open>
  C29. A policy request answered as created stored one policy, whose every parameter is one of
  the country model's and whose every period key and value can be read; any other answer
  stored none.
\<close>

theorem created_policy_is_usable:
  assumes "set_policy_view env c payload db = (view, db')"
  shows "if \<exists>body. view = Answer 201 body
     then \<exists>p d. pd_policies db' = pd_policies db @ [p] \<and> pol_json p = JObj d
        \<and> (\<forall>x\<in>fst ` set d. (\<exists>names. pe_model_parameters env (py_lower c) = Some names \<and> x \<in> set names)
             \<and> readable_parameter (dict_get_none d x))
     else pd_policies db' = pd_policies db"
proof -
  let ?d = "payload_data payload" and ?l = "payload_label payload"
  have stored: "pd_policies db1 = pd_policies db"
    if "set_policy env True c ?l ?d m db = (Inl e, db1)" for m e db1
    using that by (auto simp: set_policy_def Let_def split: if_splits prod.splits sum.splits elim: store_policy_cases)
  have found: "pd_policies db1 = pd_policies db"
    if "set_policy env True c ?l ?d m db = (Inr r, db1)" "psr_existing r" for m r db1
    using set_policy_Inr(1) [OF that(1)] that(2) by (auto elim: store_policy_cases)
  have new: "\<exists>p. pd_policies db1 = pd_policies db @ [p] \<and> pol_json p = JObj ?d
      \<and> (\<forall>x\<in>fst ` set ?d. (\<exists>names. pe_model_parameters env (py_lower c) = Some names \<and> x \<in> set names)
           \<and> readable_parameter (dict_get_none ?d x))"
    if s: "set_policy env True c ?l ?d m db = (Inr r, db1)" "\<not> psr_existing r" for m r db1
    using set_policy_Inr(1) [OF s(1)]
  proof (cases rule: store_policy_cases)
    case (created p)
    have "set (map fst ?d) \<subseteq> set (case pe_model_parameters env (py_lower c) of None \<Rightarrow> [] | Some ns \<Rightarrow> ns)
        \<and> find_invalid_periods_and_values ?d = []"
      using created(2) parameters_missing_Nil
      by (auto simp: check_policy_data_def Let_def find_invalid_periods_and_values_def split: if_splits)
    then have "\<forall>x\<in>fst ` set ?d. (\<exists>names. pe_model_parameters env (py_lower c) = Some names \<and> x \<in> set names)"
      "\<forall>x\<in>fst ` set ?d. readable_parameter (dict_get_none ?d x)"
      by (cases "pe_model_parameters env (py_lower c)";
          force simp: find_invalid_periods_and_values_def invalid_entries_for_parameter_Nil_iff)+
    with created show ?thesis by (auto simp: new_policy_def)
  qed (use s(2) in auto)
  have kept: "pd_policies (copy_policy_to_v2 snap db1) = pd_policies db1" for snap db1
    by (simp add: copy_policy_to_v2_def split: option.split)
  show ?thesis
  proof (cases "validate_set_policy_payload payload = Inr None \<and> (\<exists>src. get_v1_policy_write_source (pe_variables env) = Inr src)")
    case True
    then obtain src where src: "get_v1_policy_write_source (pe_variables env) = Inr src" by blast
    define m where "m = should_mirror_to_v2 c src"
    obtain r db1 where run: "set_policy env True c ?l ?d m db = (r, db1)" by fastforce
    show ?thesis
    proof (cases r)
      case (Inl e)
      have "(view, db') = ((case e of InvalidPolicyDataError c paths entries \<Rightarrow>
              error_answer (make_error_response (invalid_policy_data_message env c paths entries) 400
                [(''result'', JNull), (''errors'', JArr (error_entries paths entries))])
            | OtherPolicyError e \<Rightarrow> Unhandled e), db1)"
        using True
        by (simp add: assms [symmetric] set_policy_view_def src m_def [symmetric] run [unfolded Inl] split: policy_error.split)
      moreover have "\<not> (\<exists>body. (case e of InvalidPolicyDataError c paths entries \<Rightarrow>
              error_answer (make_error_response (invalid_policy_data_message env c paths entries) 400
                [(''result'', JNull), (''errors'', JArr (error_entries paths entries))])
            | OtherPolicyError e \<Rightarrow> Unhandled e) = Answer 201 body)"
        by (cases e) (simp_all add: error_answer_def make_error_response_def)
      ultimately show ?thesis using stored [OF run [unfolded Inl]] by (simp only: prod.inject) simp
    next
      case (Inr creation)
      have view: "view = Answer (if psr_existing creation then 200 else 201)
            (ok_body (JStr (psr_message creation)) [(''policy_id'', JInt (pol_id (psr_policy creation)))])"
        "pd_policies db' = pd_policies db1"
        using run assms True src Inr by (auto simp: set_policy_view_def m_def [symmetric] kept)
      show ?thesis
      proof (cases "psr_existing creation")
        case True
        with view found [OF run [unfolded Inr]] show ?thesis by auto
      next
        case False
        from new [OF run [unfolded Inr] False] view False show ?thesis by auto
      qed
    qed
  next
    case False
    with assms show ?thesis
      by (auto simp: set_policy_view_def policy_configuration_unavailable_def error_answer_def make_error_response_def
          split: sum.splits option.splits)
  qed
qed


text \<open>
  The content hash does not tell an object from the list of its pairs: once a policy is
  saved, the same periods written as a list are answered with that policy, although the check
  of new policies reports them.
\<close>

theorem pairs_found_as_object:
  assumes "set_policy env checked c label [(p, JObj items)] mirror db = (Inr r, db1)" and "label \<noteq> Some []"
    and "sorted (map fst items)"
  shows "\<exists>r'. set_policy env True c label [(p, JArr (map (\<lambda>(k, v). JArr [JStr k, v]) items))] mirror db1 = (Inr r', db1)
     \<and> psr_policy r' = psr_policy r \<and> psr_existing r'
     \<and> find_invalid_periods_and_values [(p, JArr (map (\<lambda>(k, v). JArr [JStr k, v]) items))] \<noteq> []"
proof -
  let ?d' = "[(p, JArr (map (\<lambda>(k, v). JArr [JStr k, v]) items))]"
  note first = set_policy_Inr [OF assms(1)]
  have hash: "hash_object (pe_digest env) (JObj ?d') = hash_object (pe_digest env) (JObj [(p, JObj items)])"
    using hash_of_pairs [OF assms(3)] by (simp add: hash_object_def del: make_hashable.simps(1)) 
  note again = store_policy_finds [OF first(1) assms(2) hash]
  let ?r = "\<lparr>psr_policy = psr_policy r, psr_message = ''Policy already exists'', psr_existing = True,
    psr_snapshot = psr_snapshot r\<rparr>"
  have "set_policy env True c label ?d' mirror db1 = (Inr ?r, db1)"
    using assms(1) first(2) again(1) first(1)
    by (cases r) (auto simp: set_policy_def Let_def split: if_splits sum.splits)
  moreover have "find_invalid_periods_and_values ?d' \<noteq> []"
    by (simp add: find_invalid_periods_and_values_def dict_get_none_def invalid_entries_for_parameter_Nil_iff readable_parameter_def)
  ultimately show ?thesis by (intro exI [of _ ?r]) simp
qed

section \<open>Examples\<close>

definition example_policy_env :: policy_env where
  "example_policy_env =
     \<lparr>pe_versions = \<lparr>rt_country = (\<lambda>c. Some ''2.1''), rt_policyengine = ''4.1'', rt_core = ''3.0'', rt_sha1 = (\<lambda>s. s)\<rparr>,
      pe_model_parameters = (\<lambda>c. Some [''gov.rate'']), pe_digest = (\<lambda>s. s), pe_variables = (\<lambda>v. None),
      pe_snapshot_report = (\<lambda>p. ''invalid snapshot''), pe_web = example_web\<rparr>"

definition empty_policy_db :: policy_db where
  "empty_policy_db = \<lparr>pd_policies = [], pd_next_policy = 1, pd_mirrored = []\<rparr>"

definition example_policy :: "(string \<times> json) list" where
  "example_policy = [(''gov.rate'', JObj [(''2026-01-01'', JInt 5), (''2027-01-01'', JInt 6)])]"

lemma example_policy_checked: "check_policy_data example_policy_env True c example_policy = Inr ()"
proof -
  have "find_invalid_periods_and_values example_policy = []" by code_simp
  moreover have "parameters_missing_from_model (map fst example_policy) [''gov.rate''] = []" by code_simp
  ultimately show ?thesis by (simp add: check_policy_data_def example_policy_env_def)
qed

lemma example_saved:
  "\<exists>r db1. set_policy example_policy_env True ''us'' label example_policy False empty_policy_db = (Inr r, db1) \<and> \<not> psr_existing r"
proof -
  have "rt_country (pe_versions example_policy_env) (py_lower ''us'') \<noteq> None" by (simp add: example_policy_env_def)
  then show ?thesis
    by (simp add: set_policy_def Let_def store_policy_def get_unique_policy_with_label_def example_policy_checked
        empty_policy_db_def)
qed

theorem policy_creation_reuses_witness:
  "\<exists>r db1 r'. set_policy example_policy_env True ''us'' None example_policy False empty_policy_db = (Inr r, db1)
     \<and> set_policy example_policy_env True ''us'' None example_policy False db1 = (Inr r', db1)
     \<and> psr_existing r' \<and> pd_policies db1 = [psr_policy r']"
proof -
  obtain r db1 where run: "set_policy example_policy_env True ''us'' None example_policy False empty_policy_db = (Inr r, db1)"
    "\<not> psr_existing r"
    using example_saved by blast
  from policy_creation_reuses [OF run(1) _ refl] run show ?thesis by (auto simp: empty_policy_db_def)
qed

theorem empty_label_never_reused_witness:
  "\<exists>r db1 r' db2. set_policy example_policy_env True ''us'' (Some []) example_policy False empty_policy_db = (Inr r, db1)
     \<and> set_policy example_policy_env True ''us'' (Some []) example_policy False db1 = (Inr r', db2)
     \<and> pd_policies db2 = [psr_policy r, psr_policy r']"
proof -
  obtain r db1 where run: "set_policy example_policy_env True ''us'' (Some []) example_policy False empty_policy_db = (Inr r, db1)"
    "\<not> psr_existing r"
    using example_saved by blast
  from empty_label_never_reused [OF run] run show ?thesis by (auto simp: empty_policy_db_def)
qed

theorem pairs_found_as_object_witness:
  "\<exists>r db1 r'. set_policy example_policy_env True ''us'' None example_policy False empty_policy_db = (Inr r, db1)
     \<and> set_policy example_policy_env True ''us'' None [(''gov.rate'', JArr [JArr [JStr ''2026-01-01'', JInt 5],
            JArr [JStr ''2027-01-01'', JInt 6]])] False db1 = (Inr r', db1)
     \<and> psr_policy r' = psr_policy r"
proof -
  obtain r db1 where run: "set_policy example_policy_env True ''us'' None example_policy False empty_policy_db = (Inr r, db1)"
    using example_saved by blast
  have "sorted (map fst [(''2026-01-01'', JInt 5), (''2027-01-01'', JInt 6)])" by code_simp
  from pairs_found_as_object [OF run [unfolded example_policy_def] _ this] run show ?thesis by (auto simp: example_policy_def)
qed

theorem created_policy_is_usable_witness:
  "\<exists>view db' p d. set_policy_view example_policy_env ''us'' (JObj [(''data'', JObj example_policy)]) empty_policy_db = (view, db')
     \<and> pd_policies db' = [p] \<and> pol_json p = JObj d"
proof -
  obtain view db' where run: "set_policy_view example_policy_env ''us'' (JObj [(''data'', JObj example_policy)]) empty_policy_db
      = (view, db')" by fastforce
  obtain r db1 where saved: "set_policy example_policy_env True ''us'' None example_policy False empty_policy_db = (Inr r, db1)"
    "\<not> psr_existing r" using example_saved by blast
  have payload: "payload_label (JObj [(''data'', JObj example_policy)]) = None"
    "payload_data (JObj [(''data'', JObj example_policy)]) = example_policy"
    "validate_set_policy_payload (JObj [(''data'', JObj example_policy)]) = Inr None"
    by (simp_all add: payload_label_def payload_data_def validate_set_policy_payload_def validate_labelled_payload_def
        payload_has_def payload_item_def is_optional_text_def)
  have "get_v1_policy_write_source (pe_variables example_policy_env) = Inr ''cloud_sql''" by code_simp
  with run saved payload have "view = Answer 201 (ok_body (JStr (psr_message r)) [(''policy_id'', JInt (pol_id (psr_policy r)))])"
    by (simp add: set_policy_view_def should_mirror_to_v2_def)
  then have "\<exists>body. view = Answer 201 body" by blast
  with created_policy_is_usable [OF run] run show ?thesis by (auto simp: empty_policy_db_def)
qed

end
