(* ===== verification/Household_Service.thy ===== *)
theory Household_Service
  imports Policy_Service
begin

text \<open>
  \<open>policyengine_api/services/household_service.py\<close>, \<open>household_mirroring.py\<close> and the storage
  views of \<open>routes/household_routes.py\<close>: households, which are immutable once created, and the
  retained events that copy each of them into API v2 once.

  The copy itself, \<open>mirror_legacy_household\<close>, is a parameter: an action on the state of API v2.
  The failures of the database are parameters as well: that of a creation, and those of the
  session that processes an event, before its processor runs and after it. Metric records are not modelled, and a JSON column
  gives back the value it was given.
\<close>

section \<open>Rows\<close>

record household =
  hh_id :: int
  hh_country_id :: string
  hh_label :: "string option"
  hh_api_version :: string
  hh_json :: "(string \<times> json) list"
  hh_hash :: string

record household_event =
  he_id :: int
  he_country_id :: string
  he_household_id :: int
  he_schema_version :: int
  he_payload :: json
  he_fingerprint :: string
  he_processed :: bool

record household_db =
  hd_households :: "household list"
  hd_events :: "household_event list"
  hd_next_household :: int
  hd_next_event :: int

record household_snapshot =
  hs_country_id :: string
  hs_household_id :: int
  hs_label :: "string option"
  hs_api_version :: string
  hs_household_json :: "(string \<times> json) list"
  hs_household_hash :: string

datatype db_exception = PoolTimeout | OperationalFailure | IntegrityFailure | OtherSQLFailure | NotSQL exn

text \<open>
  The installed versions and SPM bundle, the digests of content hashes (base64) and of
  fingerprints (hexadecimal), the environment variables, the failure a write of the
  database meets, if any, and the one the session of an event meets: when it reads the event
  (\<open>False\<close>) or when it marks and commits it, the processor done (\<open>True\<close>).
\<close>

record household_env =
  hv_versions :: runtime_versions_table
  hv_install :: spm_install
  hv_digest :: "string \<Rightarrow> string"
  hv_sha256 :: "string \<Rightarrow> string"
  hv_variables :: "string \<Rightarrow> string option"
  hv_fault :: "household_db \<Rightarrow> db_exception option"
  hv_event_fault :: "bool \<Rightarrow> household_db \<Rightarrow> exn option"
  hv_snapshot_report :: "json \<Rightarrow> string"

section \<open>Stored documents\<close>

definition household_storage_json ::
  "spm_install \<Rightarrow> string \<Rightarrow> (string \<times> json) list \<Rightarrow> json \<Rightarrow> (string \<times> json) list result" where
  "household_storage_json inst country_id household_json spm =
     (if map_of household_json ''spm'' \<noteq> None
      then Inl (SPMValidationError ''SPM_SETTINGS_INVALID'' ''Supply spm beside data, not inside household data.'')
      else res_bind (normalize_spm_selection inst country_id spm False) (\<lambda>selected.
             Inr (if spm \<noteq> JNull \<and> selected \<noteq> JNull then household_json @ [(''spm'', selected)]
                  else household_json)))"

section \<open>Failures\<close>

datatype failure_category = TimeoutFailure | Unavailable | IntegrityCategory | DatabaseCategory | Unexpected

fun failure_of :: "db_exception \<Rightarrow> failure_category" where
  "failure_of PoolTimeout = TimeoutFailure"
| "failure_of OperationalFailure = Unavailable"
| "failure_of IntegrityFailure = IntegrityCategory"
| "failure_of OtherSQLFailure = DatabaseCategory"
| "failure_of (NotSQL e) = Unexpected"

definition retryable :: "failure_category \<Rightarrow> bool" where
  "retryable category \<longleftrightarrow> category = TimeoutFailure \<or> category = Unavailable"

datatype household_error = PersistenceError failure_category | OtherHouseholdError exn

section \<open>Snapshots\<close>

definition snapshot_dump :: "household_snapshot \<Rightarrow> json" where
  "snapshot_dump s =
     JObj [(''country_id'', JStr (hs_country_id s)), (''legacy_household_id'', JInt (hs_household_id s)),
           (''label'', opt_str (hs_label s)), (''api_version'', JStr (hs_api_version s)),
           (''household_json'', JObj (hs_household_json s)), (''source_household_hash'', JStr (hs_household_hash s))]"

definition snapshot_ok :: "household_snapshot \<Rightarrow> bool" where
  "snapshot_ok s \<longleftrightarrow>
     hs_country_id s \<in> set SUPPORTED_COUNTRY_IDS \<and> 0 \<le> hs_household_id s
     \<and> (case hs_label s of None \<Rightarrow> True | Some l \<Rightarrow> length l \<le> 255)
     \<and> hs_api_version s \<noteq> [] \<and> length (hs_api_version s) \<le> 255
     \<and> require_json_value 0 (JObj (hs_household_json s))
     \<and> hs_household_hash s \<noteq> [] \<and> length (hs_household_hash s) \<le> 255"

definition snapshot_of_household :: "household \<Rightarrow> household_snapshot" where
  "snapshot_of_household h =
     \<lparr>hs_country_id = hh_country_id h, hs_household_id = hh_id h, hs_label = hh_label h,
      hs_api_version = hh_api_version h, hs_household_json = hh_json h, hs_household_hash = hh_hash h\<rparr>"

definition checked_snapshot :: "household_env \<Rightarrow> household_snapshot \<Rightarrow> household_snapshot result" where
  "checked_snapshot env s =
     (if snapshot_ok s then Inr s else Inl (ValueError (hv_snapshot_report env (snapshot_dump s))))"

definition LEGACY_HOUSEHOLD_FINGERPRINT_VERSION :: int where
  "LEGACY_HOUSEHOLD_FINGERPRINT_VERSION = 1"

definition legacy_household_fingerprint :: "household_env \<Rightarrow> household_snapshot \<Rightarrow> string" where
  "legacy_household_fingerprint env s =
     hv_sha256 env (canonical_json
       (JObj ((''fingerprint_version'', JInt LEGACY_HOUSEHOLD_FINGERPRINT_VERSION)
              # (case snapshot_dump s of JObj d \<Rightarrow> d | _ \<Rightarrow> []))))"

text \<open>
  Reading a snapshot back: the model forbids other fields; the ids and texts are read in
  pydantic's lax mode, which is modelled for the types \<open>model_dump\<close> writes.
\<close>

definition SNAPSHOT_FIELDS :: "string list" where
  "SNAPSHOT_FIELDS = [''country_id'', ''legacy_household_id'', ''label'', ''api_version'', ''household_json'',
     ''source_household_hash'']"

definition snapshot_read :: "json \<Rightarrow> household_snapshot option" where
  "snapshot_read v =
     (case v of
        JObj d \<Rightarrow>
          if \<not> (\<forall>k\<in>set (map fst d). k \<in> set SNAPSHOT_FIELDS) then None
          else (case (map_of d ''country_id'', map_of d ''legacy_household_id'', dict_get_none d ''label'',
                      map_of d ''api_version'', map_of d ''household_json'', map_of d ''source_household_hash'') of
                  (Some (JStr c), Some (JInt i), l, Some (JStr v), Some (JObj h), Some (JStr s)) \<Rightarrow>
                    (let label = (case l of JNull \<Rightarrow> Some None | JStr t \<Rightarrow> Some (Some t) | _ \<Rightarrow> None)
                     in case label of None \<Rightarrow> None
                        | Some t \<Rightarrow>
                            (let snapshot = \<lparr>hs_country_id = c, hs_household_id = i, hs_label = t, hs_api_version = v,
                                             hs_household_json = h, hs_household_hash = s\<rparr>
                             in if snapshot_ok snapshot then Some snapshot else None))
                | _ \<Rightarrow> None)
      | _ \<Rightarrow> None)"

section \<open>Creating households\<close>

definition HOUSEHOLD_MIRROR_PAYLOAD_SCHEMA_VERSION :: int where
  "HOUSEHOLD_MIRROR_PAYLOAD_SCHEMA_VERSION = 1"

definition get_household :: "household_db \<Rightarrow> string \<Rightarrow> int \<Rightarrow> household option result" where
  "get_household db country_id household_id =
     (if household_id < 0
      then Inl (InvalidIdErr (''Invalid household ID: '' @ show_int household_id @ ''. Must be a positive integer.''))
      else Inr (List.find (\<lambda>h. hh_country_id h = country_id \<and> hh_id h = household_id) (hd_households db)))"

definition new_household ::
  "household_env \<Rightarrow> int \<Rightarrow> string \<Rightarrow> string \<Rightarrow> (string \<times> json) list \<Rightarrow> string option \<Rightarrow> household" where
  "new_household env i version country_id household_json label =
     \<lparr>hh_id = i, hh_country_id = country_id, hh_label = label, hh_api_version = version,
      hh_json = household_json, hh_hash = hash_object (hv_digest env) (JObj household_json)\<rparr>"

definition mirror_event :: "household_env \<Rightarrow> int \<Rightarrow> household_snapshot \<Rightarrow> household_event" where
  "mirror_event env i s =
     \<lparr>he_id = i, he_country_id = hs_country_id s, he_household_id = hs_household_id s,
      he_schema_version = HOUSEHOLD_MIRROR_PAYLOAD_SCHEMA_VERSION, he_payload = JObj [(''snapshot'', snapshot_dump s)],
      he_fingerprint = legacy_household_fingerprint env s, he_processed = False\<rparr>"

record household_create_result =
  hc_household :: household
  hc_snapshot :: "household_snapshot option"
  hc_event_id :: "int option"

text \<open>The rows of one creation, or the exception its session met.\<close>

definition stored_household ::
  "household_env \<Rightarrow> string \<Rightarrow> (string \<times> json) list \<Rightarrow> string option \<Rightarrow> bool \<Rightarrow> household_db
     \<Rightarrow> db_exception + household_create_result \<times> household_db" where
  "stored_household env country_id household_json label record_mirror_event db =
     (case hv_fault env db of
        Some e \<Rightarrow> Inl e
      | None \<Rightarrow>
          (case rt_country (hv_versions env) country_id of
             None \<Rightarrow> Inl IntegrityFailure
           | Some version \<Rightarrow>
               (let h = new_household env (hd_next_household db) version country_id household_json label;
                    db1 = db\<lparr>hd_households := hd_households db @ [h], hd_next_household := hd_next_household db + 1\<rparr>
                in if \<not> record_mirror_event
                   then Inr (\<lparr>hc_household = h, hc_snapshot = None, hc_event_id = None\<rparr>, db1)
                   else case checked_snapshot env (snapshot_of_household h) of
                     Inl e \<Rightarrow> Inl (NotSQL e)
                   | Inr s \<Rightarrow>
                       Inr (\<lparr>hc_household = h, hc_snapshot = Some s, hc_event_id = Some (hd_next_event db)\<rparr>,
                            db1\<lparr>hd_events := hd_events db1 @ [mirror_event env (hd_next_event db) s],
                                hd_next_event := hd_next_event db + 1\<rparr>))))"

definition create_household ::
  "household_env \<Rightarrow> string \<Rightarrow> (string \<times> json) list \<Rightarrow> string option \<Rightarrow> bool \<Rightarrow> json \<Rightarrow> household_db
     \<Rightarrow> (household_error + household_create_result) \<times> household_db" where
  "create_household env country_id household_json label record_mirror_event spm db =
     (case household_storage_json (hv_install env) country_id household_json spm of
        Inl e \<Rightarrow> (Inl (OtherHouseholdError e), db)
      | Inr stored \<Rightarrow>
          (case stored_household env country_id stored label record_mirror_event db of
             Inl e \<Rightarrow> (Inl (PersistenceError (failure_of e)), db)
           | Inr (created, db') \<Rightarrow> (Inr created, db')))"

section \<open>Processing an event\<close>

record pending_event =
  pe_event_id :: int
  pe_snapshot :: household_snapshot
  pe_fingerprint :: string
  pe_was_processed :: bool

definition event_integrity :: "string \<Rightarrow> exn" where
  "event_integrity m = RuntimeErr m"

definition decode_mirror_event :: "household_env \<Rightarrow> household_event \<Rightarrow> pending_event result" where
  "decode_mirror_event env e =
     (if he_schema_version e \<noteq> HOUSEHOLD_MIRROR_PAYLOAD_SCHEMA_VERSION
      then Inl (event_integrity ''household mirror event payload version is unsupported'')
      else case he_payload e of
        JObj d \<Rightarrow>
          if set (map fst d) \<noteq> {''snapshot''} then Inl (event_integrity ''household mirror event payload has an invalid shape'')
          else (case snapshot_read (dict_get_none d ''snapshot'') of
                  None \<Rightarrow> Inl (event_integrity ''household mirror event snapshot is invalid'')
                | Some s \<Rightarrow>
                    if hs_country_id s \<noteq> he_country_id e \<or> hs_household_id s \<noteq> he_household_id e
                    then Inl (event_integrity ''household mirror event identity conflicts with its payload'')
                    else if legacy_household_fingerprint env s \<noteq> he_fingerprint e
                    then Inl (event_integrity ''household mirror event fingerprint conflicts with its payload'')
                    else Inr \<lparr>pe_event_id = he_id e, pe_snapshot = s,
                              pe_fingerprint = legacy_household_fingerprint env s, pe_was_processed = he_processed e\<rparr>)
      | _ \<Rightarrow> Inl (event_integrity ''household mirror event payload has an invalid shape''))"

text \<open>
  The state of both stores; a processor acts on that of API v2, which keeps what it did, also
  when the session then cannot commit the event as processed.
\<close>

definition process_mirror_event ::
  "household_env \<Rightarrow> string \<Rightarrow> int \<Rightarrow> (pending_event \<Rightarrow> ('v, 'r) act) \<Rightarrow> bool
     \<Rightarrow> (household_db \<times> 'v, 'r) act" where
  "process_mirror_event env country_id household_id processor require_pending w =
     (case w of (db, v) \<Rightarrow>
        case hv_event_fault env False db of
          Some x \<Rightarrow> (Inl x, w)
        | None \<Rightarrow>
        (case List.find (\<lambda>e. he_country_id e = country_id \<and> he_household_id e = household_id) (hd_events db) of
          None \<Rightarrow> (Inl (event_integrity ''household mirror request has no retained event''), w)
        | Some e \<Rightarrow>
            (case decode_mirror_event env e of
               Inl x \<Rightarrow> (Inl x, w)
             | Inr pending \<Rightarrow>
                 if require_pending \<and> pe_was_processed pending
                 then (Inl (event_integrity ''household mirror event is already processed''), w)
                 else (case processor pending v of
                         (Inl x, v') \<Rightarrow> (Inl x, (db, v'))
                       | (Inr r, v') \<Rightarrow>
                           (case hv_event_fault env True db of
                              Some x \<Rightarrow> (Inl x, (db, v'))
                            | None \<Rightarrow>
                                (Inr r, (db\<lparr>hd_events := put_row he_id (e\<lparr>he_processed := True\<rparr>) (hd_events db)\<rparr>,
                                         v')))))))"

definition HouseholdMirrorUnavailable :: exn where
  "HouseholdMirrorUnavailable = RuntimeErr ''The committed v1 household event could not be copied to v2''"

definition process_household_event_after_commit ::
  "household_env \<Rightarrow> (household_snapshot \<Rightarrow> ('v, 'r) act) \<Rightarrow> string \<Rightarrow> int \<Rightarrow> bool \<Rightarrow> (household_db \<times> 'v, 'r) act" where
  "process_household_event_after_commit env mirror country_id household_id require_pending =
     catchA (process_mirror_event env country_id household_id (\<lambda>pending. mirror (pe_snapshot pending)) require_pending)
       (\<lambda>e. raiseA HouseholdMirrorUnavailable)"

section \<open>The views\<close>

definition get_v1_household_write_source :: "(string \<Rightarrow> string option) \<Rightarrow> string result" where
  "get_v1_household_write_source variables =
     read_choice variables ''DB_WRITE_HOUSEHOLD'' DEFAULT_DB_SOURCE [''cloud_sql'', ''dual_write'']"

definition get_v1_household_read_source :: "(string \<Rightarrow> string option) \<Rightarrow> string result" where
  "get_v1_household_read_source variables =
     read_choice variables ''DB_READ_HOUSEHOLD'' DEFAULT_DB_SOURCE [''cloud_sql'']"

definition household_configuration_unavailable :: view_result where
  "household_configuration_unavailable =
     error_answer (make_error_response ''Household persistence configuration is unavailable.'' 503 [])"

definition household_persistence_failure :: "failure_category \<Rightarrow> view_result" where
  "household_persistence_failure category =
     (if retryable category
      then error_answer (make_error_response
             ''Household database is temporarily unavailable; please try again later.'' 503 [])
      else error_answer (make_error_response ''Internal database error; please try again later.'' 500 []))"

definition serialize_household :: "household \<Rightarrow> (string \<times> json) list" where
  "serialize_household h =
     [(''id'', JInt (hh_id h)), (''country_id'', JStr (hh_country_id h)), (''label'', opt_str (hh_label h)),
      (''api_version'', JStr (hh_api_version h)), (''household_json'', JObj (AList.delete ''spm'' (hh_json h))),
      (''household_hash'', JStr (hh_hash h))]
     @ (case dict_get_none (hh_json h) ''spm'' of JNull \<Rightarrow> [] | spm \<Rightarrow> [(''spm'', spm)])"

definition spm_error_response :: "exn \<Rightarrow> view_result option" where
  "spm_error_response e =
     (case e of
        SPMValidationError code message \<Rightarrow>
          Some (error_answer (make_error_response message 400
            [(''result'', JNull), (''errors'', JArr [JObj [(''code'', JStr code), (''message'', JStr message)]])]))
      | _ \<Rightarrow> None)"

definition requested_spm :: "string \<Rightarrow> (string \<times> json) list \<Rightarrow> json result" where
  "requested_spm country_id payload =
     (case map_of payload ''spm'' of
        None \<Rightarrow> Inr JNull
      | Some selection \<Rightarrow>
          if country_id \<noteq> ''us''
          then Inl (SPMValidationError ''SPM_SETTINGS_UNSUPPORTED'' ''SPM settings are only available for the US'')
          else if selection = JNull
          then Inl (SPMValidationError ''SPM_SETTINGS_INVALID''
                      ''spm must be an object; omit it to inherit the certified defaults.'')
          else Inr selection)"

definition validate_household_payload :: "json \<Rightarrow> string option result" where
  "validate_household_payload payload = validate_labelled_payload ''Unable to parse household JSON data'' payload"

definition get_household_view :: "household_env \<Rightarrow> string \<Rightarrow> nat \<Rightarrow> household_db \<Rightarrow> view_result" where
  "get_household_view env country_id household_id db =
     (case get_v1_household_read_source (hv_variables env) of
        Inl e \<Rightarrow> household_configuration_unavailable
      | Inr source \<Rightarrow>
          (case get_household db country_id (int household_id) of
             Inl e \<Rightarrow> Unhandled e
           | Inr None \<Rightarrow> HttpError 404 (''Household #'' @ show_nat household_id @ '' not found.'')
           | Inr (Some h) \<Rightarrow> Answer 200 (ok_body JNull (serialize_household h))))"

definition copy_household_to_v2 ::
  "household_env \<Rightarrow> (household_snapshot \<Rightarrow> ('v, 'r) act) \<Rightarrow> string \<Rightarrow> household_create_result
     \<Rightarrow> household_db \<times> 'v \<Rightarrow> household_db \<times> 'v" where
  "copy_household_to_v2 env mirror country_id creation w =
     (if hc_event_id creation = None \<or> hc_snapshot creation = None then w
      else snd (process_household_event_after_commit env mirror country_id (hh_id (hc_household creation)) False w))"

definition object_of :: "json \<Rightarrow> (string \<times> json) list" where
  "object_of payload = (case payload of JObj d \<Rightarrow> d | _ \<Rightarrow> [])"

definition post_household_view ::
  "household_env \<Rightarrow> (household_snapshot \<Rightarrow> ('v, 'r) act) \<Rightarrow> string \<Rightarrow> json \<Rightarrow> household_db \<times> 'v
     \<Rightarrow> view_result \<times> household_db \<times> 'v" where
  "post_household_view env mirror country_id payload w =
     (case validate_household_payload payload of
        Inl e \<Rightarrow> (Unhandled e, w)
      | Inr (Some message) \<Rightarrow> (HttpError 400 (''Unable to create new household; details: '' @ message), w)
      | Inr None \<Rightarrow>
          (case (get_v1_household_write_source (hv_variables env), get_v1_household_read_source (hv_variables env)) of
             (Inr write_source, Inr read_source) \<Rightarrow>
               (let copied = should_mirror_to_v2 country_id write_source
                in case requested_spm country_id (object_of payload) of
                     Inl e \<Rightarrow> (case spm_error_response e of Some r \<Rightarrow> (r, w) | None \<Rightarrow> (Unhandled e, w))
                   | Inr selection \<Rightarrow>
                       (case create_household env country_id (payload_data payload) (payload_label payload) copied
                               selection (fst w) of
                          (Inl (PersistenceError category), db') \<Rightarrow>
                            (household_persistence_failure category, (db', snd w))
                        | (Inl (OtherHouseholdError e), db') \<Rightarrow>
                            (case spm_error_response e of Some r \<Rightarrow> r | None \<Rightarrow> Unhandled e, (db', snd w))
                        | (Inr creation, db') \<Rightarrow>
                            (Answer 201 (ok_body JNull [(''household_id'', JInt (hh_id (hc_household creation)))]),
                             if copied then copy_household_to_v2 env mirror country_id creation (db', snd w)
                             else (db', snd w))))
           | _ \<Rightarrow> (household_configuration_unavailable, w)))"

end
