(* ===== verification/Household_Histories.thy ===== *)
theory Household_Histories
  imports Household_Service
begin

text \<open>
  Histories of households: what requests and retries make of both stores. Stored households
  never change, a retained event holds the household it was recorded with, and a copy that
  failed is completed by a later retry.
\<close>
section \<open>Snapshots read back\<close>

lemma snapshot_reads_back: "snapshot_ok s \<Longrightarrow> snapshot_read (snapshot_dump s) = Some s"
  by (cases s; cases "hs_label s")
    (auto simp: snapshot_read_def snapshot_dump_def SNAPSHOT_FIELDS_def dict_get_none_def)

lemma decode_mirror_event_of_snapshot:
  assumes "snapshot_ok s"
  shows "decode_mirror_event env (mirror_event env i s\<lparr>he_processed := b\<rparr>)
     = Inr \<lparr>pe_event_id = i, pe_snapshot = s, pe_fingerprint = legacy_household_fingerprint env s, pe_was_processed = b\<rparr>"
  using snapshot_reads_back [OF assms]
  by (simp add: decode_mirror_event_def mirror_event_def dict_get_none_def)

lemma fingerprint_same_digest: "hv_sha256 env = hv_sha256 env' \<Longrightarrow> legacy_household_fingerprint env = legacy_household_fingerprint env'"
  by (simp add: fun_eq_iff legacy_household_fingerprint_def)

lemma mirror_event_same_digest: "hv_sha256 env = hv_sha256 env' \<Longrightarrow> mirror_event env = mirror_event env'"
  by (simp add: fun_eq_iff mirror_event_def fingerprint_same_digest [of env env'])

section \<open>Well-formed stores\<close>

text \<open>
  Every retained event is the one recorded with its household, whose snapshot it holds; ids and
  keys are never reused.
\<close>

definition event_matches :: "household_env \<Rightarrow> household list \<Rightarrow> household_event \<Rightarrow> bool" where
  "event_matches env households e \<longleftrightarrow>
     (\<exists>h\<in>set households. snapshot_ok (snapshot_of_household h)
        \<and> e = mirror_event env (he_id e) (snapshot_of_household h)\<lparr>he_processed := he_processed e\<rparr>)"

definition household_db_ok :: "household_env \<Rightarrow> household_db \<Rightarrow> bool" where
  "household_db_ok env db \<longleftrightarrow>
     0 \<le> hd_next_household db
     \<and> (\<forall>h\<in>set (hd_households db). 0 \<le> hh_id h \<and> hh_id h < hd_next_household db)
     \<and> (\<forall>e\<in>set (hd_events db). he_id e < hd_next_event db)
     \<and> distinct (map hh_id (hd_households db)) \<and> distinct (map he_id (hd_events db))
     \<and> distinct (map he_household_id (hd_events db))
     \<and> (\<forall>e\<in>set (hd_events db). event_matches env (hd_households db) e)"

lemma household_db_okD:
  assumes "household_db_ok env db"
  shows "0 \<le> hd_next_household db"
    and "h \<in> set (hd_households db) \<Longrightarrow> 0 \<le> hh_id h"
    and "h \<in> set (hd_households db) \<Longrightarrow> hh_id h < hd_next_household db"
    and "e \<in> set (hd_events db) \<Longrightarrow> he_id e < hd_next_event db"
    and "distinct (map hh_id (hd_households db))" and "distinct (map he_id (hd_events db))"
    and "distinct (map he_household_id (hd_events db))"
    and "e \<in> set (hd_events db) \<Longrightarrow> event_matches env (hd_households db) e"
  using assms by (simp_all add: household_db_ok_def)

lemma household_db_ok_same_digest: "hv_sha256 env = hv_sha256 env' \<Longrightarrow> household_db_ok env = household_db_ok env'"
  by (simp add: fun_eq_iff household_db_ok_def event_matches_def mirror_event_same_digest [of env env'])

lemma event_matches_key:
  assumes "event_matches env hs e"
  obtains h where "h \<in> set hs" and "snapshot_ok (snapshot_of_household h)" and "he_household_id e = hh_id h"
    and "he_country_id e = hh_country_id h"
    and "e = mirror_event env (he_id e) (snapshot_of_household h)\<lparr>he_processed := he_processed e\<rparr>"
proof -
  from assms obtain h where h: "h \<in> set hs" "snapshot_ok (snapshot_of_household h)"
    and e: "e = mirror_event env (he_id e) (snapshot_of_household h)\<lparr>he_processed := he_processed e\<rparr>"
    by (auto simp: event_matches_def)
  moreover from e have "he_household_id e = hh_id h" "he_country_id e = hh_country_id h"
    by (metis mirror_event_def snapshot_of_household_def household_event.select_convs(2,3) household_event.update_convs(7)
        household_snapshot.select_convs(1,2))+
  ultimately show thesis using that by blast
qed

lemma event_matches_mono: "event_matches env hs e \<Longrightarrow> set hs \<subseteq> set hs' \<Longrightarrow> event_matches env hs' e"
  by (auto simp: event_matches_def)

text \<open>Households are kept as they are, and an event only ever becomes processed.\<close>

definition household_grows :: "household_db \<Rightarrow> household_db \<Rightarrow> bool" where
  "household_grows db db' \<longleftrightarrow>
     set (hd_households db) \<subseteq> set (hd_households db')
     \<and> (\<forall>e\<in>set (hd_events db). e \<in> set (hd_events db') \<or> e\<lparr>he_processed := True\<rparr> \<in> set (hd_events db'))"

lemma household_grows_refl [simp]: "household_grows db db"
  by (simp add: household_grows_def)

lemma household_grows_trans: "household_grows a b \<Longrightarrow> household_grows b c \<Longrightarrow> household_grows a c"
  unfolding household_grows_def by (metis (no_types, lifting) household_event.update_convs(7) household_event.surjective subset_trans)

section \<open>Creating\<close>

lemma stored_household_cases:
  assumes "stored_household env c d label m db = Inr (r, db')"
  obtains (unrecorded) version h where "\<not> m" and "rt_country (hv_versions env) c = Some version"
      and "h = new_household env (hd_next_household db) version c d label"
      and "r = \<lparr>hc_household = h, hc_snapshot = None, hc_event_id = None\<rparr>"
      and "db' = db\<lparr>hd_households := hd_households db @ [h], hd_next_household := hd_next_household db + 1\<rparr>"
    | (recorded) version h s where "m" and "rt_country (hv_versions env) c = Some version"
      and "h = new_household env (hd_next_household db) version c d label"
      and "s = snapshot_of_household h" and "snapshot_ok s"
      and "r = \<lparr>hc_household = h, hc_snapshot = Some s, hc_event_id = Some (hd_next_event db)\<rparr>"
      and "db' = db\<lparr>hd_households := hd_households db @ [h], hd_next_household := hd_next_household db + 1,
             hd_events := hd_events db @ [mirror_event env (hd_next_event db) s], hd_next_event := hd_next_event db + 1\<rparr>"
  using assms
  by (auto simp: stored_household_def Let_def checked_snapshot_def split: option.splits if_splits)

lemma stored_household_ok:
  assumes "household_db_ok env db" and "stored_household env c d label m db = Inr (r, db')"
  shows "household_db_ok env db'" and "household_grows db db'" and "hc_household r \<in> set (hd_households db')"
proof -
  note ok = household_db_okD [OF assms(1)]
  have fresh: "hd_next_household db \<notin> he_household_id ` set (hd_events db)"
    using ok(3,8) by (fastforce elim: event_matches_key)
  have old: "hd_next_household db \<notin> hh_id ` set (hd_households db)" "hd_next_event db \<notin> he_id ` set (hd_events db)"
    using ok(3,4) by (metis imageE less_irrefl)+
  from assms(2) show "household_db_ok env db'"
  proof (cases rule: stored_household_cases)
    case (unrecorded version h)
    then show ?thesis
      using ok old by (fastforce simp: household_db_ok_def new_household_def intro: event_matches_mono)
  next
    case (recorded version h s)
    let ?e = "mirror_event env (hd_next_event db) s"
    have "event_matches env (hd_households db') ?e"
      using recorded(4,5,7) by (simp add: event_matches_def mirror_event_def)
    moreover have "he_household_id ?e = hd_next_household db" "he_id ?e = hd_next_event db"
      by (simp_all add: recorded(3,4) mirror_event_def snapshot_of_household_def new_household_def)
    moreover have "hh_id h = hd_next_household db" by (simp add: recorded(3) new_household_def)
    ultimately show ?thesis
      using ok old fresh recorded(7) by (fastforce simp: household_db_ok_def intro: event_matches_mono)
  qed
  from assms(2) show "household_grows db db'" "hc_household r \<in> set (hd_households db')"
    by (cases rule: stored_household_cases; auto simp: household_grows_def)+
qed

section \<open>Processing\<close>

lemma find_event:
  assumes "household_db_ok env db" and "e \<in> set (hd_events db)"
  shows "List.find (\<lambda>x. he_country_id x = he_country_id e \<and> he_household_id x = he_household_id e) (hd_events db) = Some e"
proof -
  have "List.find (\<lambda>x. he_country_id x = he_country_id e \<and> he_household_id x = he_household_id e) rows = Some e"
    if "distinct (map he_household_id rows)" "e \<in> set rows" for rows
    using that by (induction rows) (auto simp: image_iff)
  with assms household_db_okD(7) show ?thesis by blast
qed

definition processed_event :: "household_event \<Rightarrow> household_db \<Rightarrow> household_db" where
  "processed_event e db = db\<lparr>hd_events := put_row he_id (e\<lparr>he_processed := True\<rparr>) (hd_events db)\<rparr>"

lemma processed_event_ok:
  assumes "household_db_ok env db" and "e \<in> set (hd_events db)"
  shows "household_db_ok env (processed_event e db)" and "household_grows db (processed_event e db)"
    and "e\<lparr>he_processed := True\<rparr> \<in> set (hd_events (processed_event e db))"
proof -
  note ok = household_db_okD [OF assms(1)]
  let ?e = "e\<lparr>he_processed := True\<rparr>"
  have rows: "set (put_row he_id ?e (hd_events db)) = insert ?e {x \<in> set (hd_events db). he_id x \<noteq> he_id e}"
    by (subst set_put_row) (use assms(2) in auto)
  have "map he_household_id (put_row he_id ?e (hd_events db)) = map he_household_id (hd_events db)"
    unfolding put_row_def using ok(6) assms(2) by (auto simp: distinct_map dest: inj_onD)
  moreover have "event_matches env (hd_households db) ?e"
    using ok(8) [OF assms(2)] unfolding event_matches_def by (metis household_event.update_convs(7) household_event.surjective
        household_event.select_convs(1))
  ultimately show "household_db_ok env (processed_event e db)"
    using ok assms(2) by (auto simp: household_db_ok_def processed_event_def rows)
  show "?e \<in> set (hd_events (processed_event e db))" by (simp add: processed_event_def rows)
  have "x = e" if "x \<in> set (hd_events db)" "he_id x = he_id e" for x
    using that ok(6) assms(2) by (auto simp: distinct_map dest: inj_onD)
  then show "household_grows db (processed_event e db)"
    by (auto simp: household_grows_def processed_event_def rows)
qed

text \<open>What processing a retained event comes to: the copy, and its completion or its failure.\<close>

lemma process_retained_event:
  assumes "household_db_ok env db" and "e \<in> set (hd_events db)" and "h \<in> set (hd_households db)"
    and "he_household_id e = hh_id h"
  shows "process_mirror_event env (hh_country_id h) (hh_id h) processor pending (db, v) =
     (case hv_event_fault env False db of
        Some x \<Rightarrow> (Inl x, (db, v))
      | None \<Rightarrow>
          if pending \<and> he_processed e
          then (Inl (event_integrity ''household mirror event is already processed''), (db, v))
          else case processor \<lparr>pe_event_id = he_id e, pe_snapshot = snapshot_of_household h,
                               pe_fingerprint = legacy_household_fingerprint env (snapshot_of_household h),
                               pe_was_processed = he_processed e\<rparr> v of
                 (Inl x, v') \<Rightarrow> (Inl x, (db, v'))
               | (Inr r, v') \<Rightarrow>
                   (case hv_event_fault env True db of
                      Some x \<Rightarrow> (Inl x, (db, v'))
                    | None \<Rightarrow> (Inr r, (processed_event e db, v'))))"
proof -
  note ok = household_db_okD [OF assms(1)]
  obtain h' where h': "h' \<in> set (hd_households db)" "snapshot_ok (snapshot_of_household h')" "he_household_id e = hh_id h'"
    "he_country_id e = hh_country_id h'"
    "e = mirror_event env (he_id e) (snapshot_of_household h')\<lparr>he_processed := he_processed e\<rparr>"
    by (rule event_matches_key [OF ok(8) [OF assms(2)]])
  have "h' = h" using h'(1,3) assms(3,4) ok(5) by (auto simp: distinct_map dest: inj_onD)
  with h' have find: "List.find (\<lambda>x. he_country_id x = hh_country_id h \<and> he_household_id x = hh_id h) (hd_events db) = Some e"
    using find_event [OF assms(1,2)] assms(4) by simp
  have "decode_mirror_event env e = Inr \<lparr>pe_event_id = he_id e, pe_snapshot = snapshot_of_household h,
      pe_fingerprint = legacy_household_fingerprint env (snapshot_of_household h), pe_was_processed = he_processed e\<rparr>"
    using decode_mirror_event_of_snapshot [where s = "snapshot_of_household h" and env = env and i = "he_id e" and b = "he_processed e"] h'(2,5) \<open>h' = h\<close>
    by simp
  then show ?thesis unfolding processed_event_def
    by (simp add: process_mirror_event_def find split: option.split cong: sum.case_cong)
qed

lemma process_mirror_event_ok:
  assumes "household_db_ok env db" and "process_mirror_event env c i processor pending (db, v) = (r, (db', v'))"
  shows "household_db_ok env db' \<and> household_grows db db'"
proof -
  have "db' = db \<or> (\<exists>e\<in>set (hd_events db). db' = processed_event e db)"
    using assms(2)
    by (auto simp: process_mirror_event_def processed_event_def split: option.splits sum.splits if_splits prod.splits
        dest: find_mem)
  with assms(1) processed_event_ok [OF assms(1)] show ?thesis by auto
qed

lemma process_after_commit_ok:
  assumes "household_db_ok env (fst w)" and "process_household_event_after_commit env mirror c i pending w = (r, w')"
  shows "household_db_ok env (fst w') \<and> household_grows (fst w) (fst w')"
proof -
  obtain r1 w1 where run: "process_mirror_event env c i (\<lambda>p. mirror (pe_snapshot p)) pending w = (r1, w1)"
    by (cases "process_mirror_event env c i (\<lambda>p. mirror (pe_snapshot p)) pending w")
  with assms(2) have "w' = w1"
    by (auto simp: process_household_event_after_commit_def catchA_def raiseA_def split: sum.splits)
  with process_mirror_event_ok [of env "fst w" c i "\<lambda>p. mirror (pe_snapshot p)" pending "snd w"] assms(1) run
  show ?thesis by (cases w; cases w1) auto
qed

section \<open>Requests\<close>

lemma create_household_cases:
  assumes "create_household env c d label m spm db = (r, db')"
  obtains (refused) e where "r = Inl e" and "db' = db"
    | (created) d' r' where "r = Inr r'" and "stored_household env c d' label m db = Inr (r', db')"
  using assms by (auto simp: create_household_def split: sum.splits)

lemma post_household_cases:
  assumes "post_household_view env mirror c payload w = (view, w')"
  obtains (refused) "\<nexists>body. view = Answer 201 body" and "w' = w"
    | (created) source d r db1 where "get_v1_household_write_source (hv_variables env) = Inr source"
      and "view = Answer 201 (ok_body JNull [(''household_id'', JInt (hh_id (hc_household r)))])"
      and "stored_household env c d (payload_label payload) (should_mirror_to_v2 c source) (fst w) = Inr (r, db1)"
      and "w' = (if should_mirror_to_v2 c source then copy_household_to_v2 env mirror c r (db1, snd w) else (db1, snd w))"
proof -
  show thesis
  proof (cases "validate_household_payload payload = Inr None \<and> (\<exists>x. get_v1_household_read_source (hv_variables env) = Inr x)
      \<and> (\<exists>x. get_v1_household_write_source (hv_variables env) = Inr x) \<and> (\<exists>x. requested_spm c (object_of payload) = Inr x)")
    case False
    with assms have "(\<nexists>body. view = Answer 201 body) \<and> w' = w"
      by (auto simp: post_household_view_def Let_def error_answer_def make_error_response_def
        household_configuration_unavailable_def spm_error_response_def
        split: sum.splits option.splits exn.splits if_splits)
    then show thesis using that(1) by blast
  next
    case True
    then obtain rs src sel where src: "get_v1_household_read_source (hv_variables env) = Inr rs"
      "get_v1_household_write_source (hv_variables env) = Inr src" "requested_spm c (object_of payload) = Inr sel"
      "validate_household_payload payload = Inr None" by blast
    define m where "m = should_mirror_to_v2 c src"
    obtain r db' where run: "create_household env c (payload_data payload) (payload_label payload) m sel (fst w) = (r, db')"
      by fastforce
    then show thesis
    proof (cases rule: create_household_cases)
      case (refused e)
      with assms run src have "(\<nexists>body. view = Answer 201 body) \<and> w' = w"
        by (auto simp: post_household_view_def m_def [symmetric] error_answer_def make_error_response_def
          household_persistence_failure_def spm_error_response_def
          split: option.splits exn.splits household_error.splits if_splits)
      then show thesis using that(1) by blast
    next
      case (created d' r')
      with assms run src show thesis
        by (intro that(2) [of src r' d' db']) (auto simp: post_household_view_def m_def [symmetric])
    qed
  qed
qed


section \<open>Histories\<close>

text \<open>
  What may happen to both stores: requests for new households and retries of retained events,
  with whatever installation, configuration and database failures each of them meets. The
  digest of fingerprints is the same throughout.
\<close>

inductive household_history ::
  "household_env \<Rightarrow> (household_snapshot \<Rightarrow> ('v, 'r) act) \<Rightarrow> household_db \<times> 'v \<Rightarrow> household_db \<times> 'v \<Rightarrow> bool"
  for env0 mirror w0 where
  start: "household_history env0 mirror w0 w0"
| posted: "household_history env0 mirror w0 w \<Longrightarrow> hv_sha256 env = hv_sha256 env0 \<Longrightarrow>
     post_household_view env mirror c payload w = (view, w') \<Longrightarrow> household_history env0 mirror w0 w'"
| retried: "household_history env0 mirror w0 w \<Longrightarrow> hv_sha256 env = hv_sha256 env0 \<Longrightarrow>
     process_household_event_after_commit env mirror c i pending w = (r, w') \<Longrightarrow> household_history env0 mirror w0 w'"

lemma post_household_ok:
  assumes "household_db_ok env (fst w)" and "post_household_view env mirror c payload w = (view, w')"
  shows "household_db_ok env (fst w') \<and> household_grows (fst w) (fst w')"
  using assms(2)
proof (cases rule: post_household_cases)
  case (created source d r db1)
  note stored = stored_household_ok [OF assms(1) created(3)]
  obtain res w1 where run: "process_household_event_after_commit env mirror c (hh_id (hc_household r)) False (db1, snd w) = (res, w1)"
    by (cases "process_household_event_after_commit env mirror c (hh_id (hc_household r)) False (db1, snd w)")
  from process_after_commit_ok [OF _ run] stored(1) have "household_db_ok env (fst w1)" "household_grows db1 (fst w1)" by auto
  with stored created(4) run household_grows_trans [OF stored(2)] show ?thesis
    by (auto simp: copy_household_to_v2_def)
qed (use assms(1) in auto)

lemma household_history_ok:
  assumes "household_history env mirror w0 w" and "household_db_ok env (fst w0)"
  shows "household_db_ok env (fst w) \<and> household_grows (fst w0) (fst w)"
  using assms
proof (induction rule: household_history.induct)
  case (posted w env1 c payload view w')
  with post_household_ok [OF _ posted(3)] household_db_ok_same_digest [OF posted(2)] show ?case
    by (auto intro: household_grows_trans)
next
  case (retried w env1 c i pending r w')
  with process_after_commit_ok [OF _ retried(3)] household_db_ok_same_digest [OF retried(2)] show ?case
    by (auto intro: household_grows_trans)
qed auto

lemma get_stored_household:
  assumes "household_db_ok env db" and "h \<in> set (hd_households db)"
  shows "get_household db (hh_country_id h) (hh_id h) = Inr (Some h)"
proof -
  have "List.find (\<lambda>x. hh_country_id x = hh_country_id h \<and> hh_id x = hh_id h) rows = Some h"
    if "distinct (map hh_id rows)" "h \<in> set rows" for rows
    using that by (induction rows) (auto simp: image_iff)
  with assms(2) household_db_okD(2,5) [OF assms(1)] show ?thesis by (fastforce simp: get_household_def)
qed

text \<open>
  C21. Whatever requests and retries are made of a well-formed store, each stored household is
  still returned as it was created, and every retained event still decodes to the snapshot of
  the household it was recorded with, and to nothing else.
\<close>

theorem households_are_immutable:
  assumes "household_history env mirror w0 w" and "household_db_ok env (fst w0)"
  shows "household_db_ok env (fst w)
     \<and> (\<forall>h. h \<in> set (hd_households (fst w0)) \<longrightarrow>
          get_household (fst w) (hh_country_id h) (hh_id h) = Inr (Some h))
     \<and> (\<forall>e. e \<in> set (hd_events (fst w)) \<longrightarrow>
          (\<exists>h p. get_household (fst w) (he_country_id e) (he_household_id e) = Inr (Some h)
             \<and> decode_mirror_event env e = Inr p \<and> pe_snapshot p = snapshot_of_household h
             \<and> pe_was_processed p = he_processed e))"
proof -
  have ok: "household_db_ok env (fst w)" and grows: "household_grows (fst w0) (fst w)"
    using household_history_ok [OF assms] by auto
  note okD = household_db_okD [OF ok]
  note get = get_stored_household [OF ok]
  have event: "\<exists>h p. get_household (fst w) (he_country_id e) (he_household_id e) = Inr (Some h)
      \<and> decode_mirror_event env e = Inr p \<and> pe_snapshot p = snapshot_of_household h
      \<and> pe_was_processed p = he_processed e" if "e \<in> set (hd_events (fst w))" for e
  proof -
    note mem = that
    obtain h where h: "h \<in> set (hd_households (fst w))" "snapshot_ok (snapshot_of_household h)"
      "he_household_id e = hh_id h" "he_country_id e = hh_country_id h"
      "e = mirror_event env (he_id e) (snapshot_of_household h)\<lparr>he_processed := he_processed e\<rparr>"
      by (rule event_matches_key [OF okD(8) [OF mem]])
    with get [OF h(1)] decode_mirror_event_of_snapshot [OF h(2), where env = env and i = "he_id e" and b = "he_processed e"]
    show ?thesis by auto
  qed
  with ok get grows show ?thesis by (auto simp: household_grows_def)
qed

text \<open>The rows a request that stored a household adds, whatever became of its copy.\<close>

lemma stored_household_rows:
  assumes "household_db_ok env db" and "stored_household env c d label m db = Inr (r, db1)"
    and "w' = (if m then copy_household_to_v2 env mirror c r (db1, v) else (db1, v))"
  shows "hd_households (fst w') = hd_households db @ [hc_household r] \<and> hh_country_id (hc_household r) = c
     \<and> map he_household_id (hd_events (fst w')) = map he_household_id (hd_events db)
          @ (if m then [hh_id (hc_household r)] else [])"
proof -
  have rows: "hd_households db1 = hd_households db @ [hc_household r] \<and> hh_country_id (hc_household r) = c
     \<and> map he_household_id (hd_events db1) = map he_household_id (hd_events db)
         @ (if m then [hh_id (hc_household r)] else [])"
    using assms(2)
    by (cases rule: stored_household_cases) (auto simp: new_household_def mirror_event_def snapshot_of_household_def)
  have kept: "hd_households (processed_event e db1) = hd_households db1
      \<and> map he_household_id (hd_events (processed_event e db1)) = map he_household_id (hd_events db1)"
    if "e \<in> set (hd_events db1)" for e
    using that household_db_okD(6) [OF stored_household_ok(1) [OF assms(1,2)]]
    by (auto simp: processed_event_def put_row_def distinct_map dest: inj_onD)
  obtain res w1 where run: "process_mirror_event env c i (\<lambda>p. mirror (pe_snapshot p)) False (db1, v) = (res, w1)"
    if "i = hh_id (hc_household r)" for i
    by (metis surj_pair)
  have "fst w1 = db1 \<or> (\<exists>e\<in>set (hd_events db1). fst w1 = processed_event e db1)"
    using run [OF refl]
    by (auto simp: process_mirror_event_def processed_event_def split: option.splits sum.splits if_splits prod.splits
        dest: find_mem)
  moreover have "fst w' = db1 \<or> fst w' = fst w1"
    using assms(3) run [OF refl]
    by (auto simp: copy_household_to_v2_def process_household_event_after_commit_def catchA_def raiseA_def split: sum.splits)
  ultimately have "hd_households (fst w') = hd_households db1
      \<and> map he_household_id (hd_events (fst w')) = map he_household_id (hd_events db1)"
    using kept by metis
  with rows show ?thesis by simp
qed

text \<open>
  C30. A household request either answers 201 and stores exactly one household, whose id it
  gives, with its retained event exactly when the copy is configured, or it answers something
  else and changes nothing in either store.
\<close>

theorem household_request_is_atomic:
  assumes "post_household_view env mirror c payload w = (view, w')" and "household_db_ok env (fst w)"
  shows "if \<exists>body. view = Answer 201 body
     then \<exists>h source. view = Answer 201 (ok_body JNull [(''household_id'', JInt (hh_id h))])
        \<and> get_v1_household_write_source (hv_variables env) = Inr source
        \<and> hd_households (fst w') = hd_households (fst w) @ [h] \<and> hh_country_id h = c
        \<and> map he_household_id (hd_events (fst w')) = map he_household_id (hd_events (fst w))
             @ (if should_mirror_to_v2 c source then [hh_id h] else [])
     else w' = w"
  using assms(1)
proof (cases rule: post_household_cases)
  case (created source d r db1)
  from stored_household_rows [OF assms(2) created(3,4)] created(1,2) show ?thesis
    by (auto intro!: exI [of _ "hc_household r"])
qed auto

lemma after_commit_retained:
  assumes "household_db_ok env db" and "e \<in> set (hd_events db)" and "h \<in> set (hd_households db)"
    and "he_household_id e = hh_id h"
  shows "hv_event_fault env False db = None \<Longrightarrow> mirror (snapshot_of_household h) v = (Inr r, v') \<Longrightarrow>
      process_household_event_after_commit env mirror (hh_country_id h) (hh_id h) False (db, v)
        = (case hv_event_fault env True db of
             Some x \<Rightarrow> (Inl HouseholdMirrorUnavailable, (db, v'))
           | None \<Rightarrow> (Inr r, (processed_event e db, v')))"
    and "he_processed e \<Longrightarrow> process_household_event_after_commit env mirror (hh_country_id h) (hh_id h) True (db, v)
        = (Inl HouseholdMirrorUnavailable, (db, v))"
  using process_retained_event [OF assms, of "\<lambda>p. mirror (pe_snapshot p)"]
  by (auto simp: process_household_event_after_commit_def catchA_def raiseA_def split: option.split)

text \<open>
  C4. A household created while copies are configured keeps its retained event, however many
  copies of it have failed since, and a run of the event whose session reads it and whose
  mirror completes ends in one of two ways: the session commits, the copy is recorded, and
  no later run that asks for a pending event runs the mirror again; or the session fails
  then, API v2 keeps the copy, the run raises, and v1 is unchanged, so that the event is
  run again.
\<close>

theorem retained_household_is_copied:
  assumes "post_household_view env mirror c payload w = (Answer 201 (ok_body JNull [(''household_id'', JInt i)]), w1)"
    and "household_db_ok env (fst w)"
    and "get_v1_household_write_source (hv_variables env) = Inr ''dual_write''" and "c \<in> set SUPPORTED_COUNTRY_IDS"
    and "household_history env mirror w1 (db2, v2)"
  shows "\<exists>h. get_household db2 c i = Inr (Some h)
     \<and> (\<exists>e. e \<in> set (hd_events db2) \<and> he_household_id e = i)
     \<and> (\<forall>env2 r v3. hv_sha256 env2 = hv_sha256 env \<and> hv_event_fault env2 False db2 = None
          \<and> mirror (snapshot_of_household h) v2 = (Inr r, v3) \<longrightarrow>
          (case hv_event_fault env2 True db2 of
             Some x \<Rightarrow> process_household_event_after_commit env2 mirror c i False (db2, v2)
                         = (Inl HouseholdMirrorUnavailable, (db2, v3))
           | None \<Rightarrow>
               (\<exists>db3. process_household_event_after_commit env2 mirror c i False (db2, v2) = (Inr r, (db3, v3))
                  \<and> (\<exists>e. e \<in> set (hd_events db3) \<and> he_household_id e = i \<and> he_processed e)
                  \<and> (\<forall>env3 v4. hv_sha256 env3 = hv_sha256 env \<longrightarrow>
                       process_household_event_after_commit env3 mirror c i True (db3, v4)
                         = (Inl HouseholdMirrorUnavailable, (db3, v4))))))"
proof -
  from assms(1) obtain r :: household_create_result where stored: "hd_households (fst w1) = hd_households (fst w) @ [hc_household r]"
      "hh_country_id (hc_household r) = c" "hh_id (hc_household r) = i"
      "map he_household_id (hd_events (fst w1)) = map he_household_id (hd_events (fst w)) @ [i]"
  proof (cases rule: post_household_cases)
    case (created source d r db1)
    with assms(3,4) have "should_mirror_to_v2 c source" by (simp add: should_mirror_to_v2_def)
    with created(2) stored_household_rows [OF assms(2) created(3,4)] show thesis
      by (intro that [of r]) (auto simp: ok_body_def)
  qed auto
  define h where "h = hc_household r"
  from stored(4) have "i \<in> set (map he_household_id (hd_events (fst w1)))" by simp
  then obtain e where e: "e \<in> set (hd_events (fst w1))" "he_household_id e = i" by auto
  have "household_db_ok env (fst w1)" using post_household_ok [OF assms(2,1)] by simp
  from household_history_ok [OF assms(5) this] have ok: "household_db_ok env db2" and grows: "household_grows (fst w1) db2" by auto
  have h: "h \<in> set (hd_households db2)" "hh_country_id h = c" "hh_id h = i"
    using grows stored by (auto simp: household_grows_def h_def)
  obtain e' where e': "e' \<in> set (hd_events db2)" "he_household_id e' = i"
  proof -
    have "e \<in> set (hd_events db2) \<or> e\<lparr>he_processed := True\<rparr> \<in> set (hd_events db2)"
      using grows e(1) by (auto simp: household_grows_def)
    with e(2) that show thesis by force
  qed
  note processed = processed_event_ok [OF ok e'(1)]
  have same: "household_db_ok env2 db = household_db_ok env db" if "hv_sha256 env2 = hv_sha256 env" for env2 db
    using household_db_ok_same_digest [OF that] by simp
  have first: "process_household_event_after_commit env2 mirror c i False (db2, v2)
      = (case hv_event_fault env2 True db2 of
           Some x \<Rightarrow> (Inl HouseholdMirrorUnavailable, (db2, v3))
         | None \<Rightarrow> (Inr r, (processed_event e' db2, v3)))"
    if "hv_sha256 env2 = hv_sha256 env" "hv_event_fault env2 False db2 = None"
      "mirror (snapshot_of_household h) v2 = (Inr r, v3)" for env2 r v3
    using after_commit_retained(1) [of env2 db2 e' h mirror v2 r v3] same [OF that(1)] ok e' h that(2,3) by simp
  have again: "process_household_event_after_commit env3 mirror c i True (processed_event e' db2, v4)
      = (Inl HouseholdMirrorUnavailable, (processed_event e' db2, v4))" if "hv_sha256 env3 = hv_sha256 env" for env3 v4
    using after_commit_retained(2) [of env3 "processed_event e' db2" "e'\<lparr>he_processed := True\<rparr>" h mirror v4]
      same [OF that] processed(1,3) e'(2) h by (simp add: processed_event_def)
  from processed(3) have recorded: "\<exists>e. e \<in> set (hd_events (processed_event e' db2)) \<and> he_household_id e = i \<and> he_processed e"
    using e'(2) by (intro exI [of _ "e'\<lparr>he_processed := True\<rparr>"]) simp
  show ?thesis
  proof (intro exI [of _ h] conjI allI impI)
    show "get_household db2 c i = Inr (Some h)" using get_stored_household [OF ok h(1)] h(2,3) by simp
    show "\<exists>e. e \<in> set (hd_events db2) \<and> he_household_id e = i" using e' by blast
  qed (use first again recorded in \<open>auto split: option.split\<close>)
qed


section \<open>Examples\<close>

text \<open>A mirror that fails as often as its state says, and a request for an empty household.\<close>

definition failing_mirror :: "household_snapshot \<Rightarrow> (nat, unit) act" where
  "failing_mirror s n = (if n = 0 then (Inr (), 0) else (Inl (RuntimeErr ''unreachable''), n - 1))"

definition example_household_env :: household_env where
  "example_household_env =
     \<lparr>hv_versions = pe_versions example_policy_env, hv_install = iso_install, hv_digest = (\<lambda>s. ''digest''),
      hv_sha256 = (\<lambda>s. ''fingerprint''), hv_variables = (\<lambda>v. if v = ''DB_WRITE_HOUSEHOLD'' then Some ''dual_write'' else None),
      hv_fault = (\<lambda>db. None), hv_event_fault = (\<lambda>late db. None),
      hv_snapshot_report = (\<lambda>v. ''invalid snapshot'')\<rparr>"

definition empty_household_db :: household_db where
  "empty_household_db = \<lparr>hd_households = [], hd_events = [], hd_next_household = 1, hd_next_event = 1\<rparr>"

definition empty_household_request :: json where
  "empty_household_request = JObj [(''data'', JObj [])]"

lemma empty_household_db_ok: "household_db_ok env empty_household_db"
  by (simp add: household_db_ok_def empty_household_db_def)

definition empty_household :: household where
  "empty_household = new_household example_household_env 1 ''2.1'' ''uk'' [] None"

lemma empty_household_snapshot: "snapshot_ok (snapshot_of_household empty_household)"
  by code_simp

definition one_household_db :: household_db where
  "one_household_db =
     \<lparr>hd_households = [empty_household],
      hd_events = [mirror_event example_household_env 1 (snapshot_of_household empty_household)],
      hd_next_household = 2, hd_next_event = 2\<rparr>"

lemma empty_household_stored:
  "stored_household example_household_env ''uk'' [] None True empty_household_db
     = Inr (\<lparr>hc_household = empty_household, hc_snapshot = Some (snapshot_of_household empty_household),
              hc_event_id = Some 1\<rparr>, one_household_db)"
  using empty_household_snapshot
  by (simp add: stored_household_def checked_snapshot_def empty_household_def [symmetric] empty_household_db_def
      example_household_env_def [THEN arg_cong [of _ _ hv_versions]] example_household_env_def [THEN arg_cong [of _ _ hv_fault]]
      example_policy_env_def Let_def one_household_db_def)

lemma no_event_fault: "hv_event_fault example_household_env b db = None"
  by (simp add: example_household_env_def)

lemma empty_household_copy_fails:
  "process_household_event_after_commit example_household_env failing_mirror ''uk'' 1 False (one_household_db, 1)
     = (Inl HouseholdMirrorUnavailable, (one_household_db, 0))"
proof -
  have "household_db_ok example_household_env one_household_db"
    by (rule stored_household_ok(1) [OF empty_household_db_ok empty_household_stored])
  from process_retained_event [OF this, of "hd (hd_events one_household_db)" empty_household
      "\<lambda>p. failing_mirror (pe_snapshot p)" False 1]
  show ?thesis
    by (simp add: process_household_event_after_commit_def catchA_def raiseA_def failing_mirror_def one_household_db_def
        mirror_event_def snapshot_of_household_def empty_household_def new_household_def no_event_fault)
qed

lemma empty_household_posted:
  "post_household_view example_household_env failing_mirror ''uk'' empty_household_request (empty_household_db, 1)
     = (Answer 201 (ok_body JNull [(''household_id'', JInt 1)]), (one_household_db, 0))"
proof -
  have config: "get_v1_household_write_source (hv_variables example_household_env) = Inr ''dual_write''"
    "get_v1_household_read_source (hv_variables example_household_env) = Inr ''cloud_sql''" by code_simp+
  have payload: "payload_label empty_household_request = None" "payload_data empty_household_request = []"
    "validate_household_payload empty_household_request = Inr None"
    "requested_spm ''uk'' (object_of empty_household_request) = Inr JNull"
    by (simp_all add: empty_household_request_def payload_label_def payload_data_def validate_household_payload_def
        validate_labelled_payload_def payload_has_def payload_item_def is_optional_text_def requested_spm_def object_of_def)
  have copied: "should_mirror_to_v2 ''uk'' ''dual_write''" by code_simp
  have "create_household example_household_env ''uk'' [] None True JNull empty_household_db
      = (Inr (fst (projr (stored_household example_household_env ''uk'' [] None True empty_household_db))),
         snd (projr (stored_household example_household_env ''uk'' [] None True empty_household_db)))"
    by (simp add: create_household_def household_storage_json_def normalize_spm_selection_def empty_household_stored)
  moreover have "hh_id empty_household = 1" by (simp add: empty_household_def new_household_def)
  ultimately show ?thesis
    by (simp add: post_household_view_def config payload copied Let_def empty_household_stored copy_household_to_v2_def
        empty_household_copy_fails [unfolded One_nat_def])
qed

definition uncommitted_env :: household_env where
  "uncommitted_env = example_household_env
     \<lparr>hv_event_fault := \<lambda>late db. if late then Some (RuntimeErr ''commit'') else None\<rparr>"

theorem retained_household_is_copied_witness:
  "\<exists>h db3. get_household one_household_db ''uk'' 1 = Inr (Some h)
     \<and> process_household_event_after_commit uncommitted_env failing_mirror ''uk'' 1 False (one_household_db, 0)
         = (Inl HouseholdMirrorUnavailable, (one_household_db, 0))
     \<and> process_household_event_after_commit example_household_env failing_mirror ''uk'' 1 False (one_household_db, 0)
         = (Inr (), (db3, 0))
     \<and> process_household_event_after_commit example_household_env failing_mirror ''uk'' 1 True (db3, 0)
         = (Inl HouseholdMirrorUnavailable, (db3, 0))"
proof -
  have "get_v1_household_write_source (hv_variables example_household_env) = Inr ''dual_write''"
    "''uk'' \<in> set SUPPORTED_COUNTRY_IDS" by code_simp+
  from retained_household_is_copied [OF empty_household_posted _ this household_history.start] empty_household_db_ok
  obtain h where
    h: "get_household one_household_db ''uk'' 1 = Inr (Some h)"
    and runs: "\<And>env2 r v3. hv_sha256 env2 = hv_sha256 example_household_env \<Longrightarrow>
          hv_event_fault env2 False one_household_db = None \<Longrightarrow>
          failing_mirror (snapshot_of_household h) 0 = (Inr r, v3) \<Longrightarrow>
          (case hv_event_fault env2 True one_household_db of
             Some x \<Rightarrow> process_household_event_after_commit env2 failing_mirror ''uk'' 1 False (one_household_db, 0)
                         = (Inl HouseholdMirrorUnavailable, (one_household_db, v3))
           | None \<Rightarrow> \<exists>db3. process_household_event_after_commit env2 failing_mirror ''uk'' 1 False (one_household_db, 0)
                  = (Inr r, (db3, v3))
               \<and> (\<forall>env3 v4. hv_sha256 env3 = hv_sha256 example_household_env \<longrightarrow>
                    process_household_event_after_commit env3 failing_mirror ''uk'' 1 True (db3, v4)
                      = (Inl HouseholdMirrorUnavailable, (db3, v4))))"
    by (fastforce split: option.split)
  have mirror: "failing_mirror (snapshot_of_household h) 0 = (Inr (), 0)" by (simp add: failing_mirror_def)
  from runs [of uncommitted_env, OF _ _ mirror] runs [of example_household_env, OF _ _ mirror] h show ?thesis
    by (auto simp: uncommitted_env_def no_event_fault)
qed

theorem households_are_immutable_witness:
  "get_household one_household_db ''uk'' 1 = Inr (Some empty_household)
     \<and> household_db_ok example_household_env one_household_db"
proof -
  have history: "household_history example_household_env failing_mirror (one_household_db, 1) (one_household_db, 0)"
    by (rule household_history.retried [OF household_history.start refl empty_household_copy_fails])
  have "household_db_ok example_household_env one_household_db"
    by (rule stored_household_ok(1) [OF empty_household_db_ok empty_household_stored])
  from households_are_immutable [OF history] this show ?thesis
    by (simp add: one_household_db_def empty_household_def new_household_def)
qed

theorem household_request_is_atomic_witness:
  "\<exists>h. hd_households one_household_db = [h] \<and> hh_country_id h = ''uk''
     \<and> map he_household_id (hd_events one_household_db) = [hh_id h]"
proof -
  have "get_v1_household_write_source (hv_variables example_household_env) = Inr ''dual_write''"
    "should_mirror_to_v2 ''uk'' ''dual_write''" by code_simp+
  with household_request_is_atomic [OF empty_household_posted] empty_household_db_ok show ?thesis
    by (auto simp: empty_household_db_def)
qed

end
