(* ===== verification/Deprecated_Inputs.thy ===== *)
theory Deprecated_Inputs
  imports Json_Codec
begin

text \<open>
  \<open>policyengine_api/utils/deprecated_inputs.py\<close>: inputs that older clients still send for
  removed model variables are dropped from a household, each with a warning.
\<close>

section \<open>Deprecated variables\<close>

definition DEPRECATED_VARIABLES :: "(string \<times> string) list" where
  "DEPRECATED_VARIABLES =
     [(''medical_out_of_pocket_expenses'',
       ''Removed in policyengine-us 1.673.0. Migrate non-premium spending to `other_medical_expenses` and premium spending to `health_insurance_premiums`.''),
      (''uc_has_limited_capability_for_work'',
       ''Removed in policyengine-uk 2.129.0. Set `uc_limited_capability_for_work` instead.'')]"

record deprecated_warning =
  dw_variable :: string
  dw_entity_plural :: string
  dw_entity_id :: string
  dw_hint :: string

definition warning_location :: "deprecated_warning \<Rightarrow> string" where
  "warning_location w =
     (if dw_entity_plural w = ''axes'' then ''`axes['' @ dw_entity_id w @ ''].name`''
      else ''`'' @ dw_entity_plural w @ ''/'' @ dw_entity_id w @ ''`'')"

definition warning_message :: "deprecated_warning \<Rightarrow> string" where
  "warning_message w =
     ''Input `'' @ dw_variable w @ ''` on '' @ warning_location w
       @ '' is deprecated and was ignored for this calculation. '' @ dw_hint w"

definition deprecated_warning_of :: "string \<Rightarrow> string \<Rightarrow> string \<Rightarrow> deprecated_warning option" where
  "deprecated_warning_of entity_plural entity_id variable_name =
     map_option (\<lambda>hint. \<lparr>dw_variable = variable_name, dw_entity_plural = entity_plural,
                         dw_entity_id = entity_id, dw_hint = hint\<rparr>)
       (map_of DEPRECATED_VARIABLES variable_name)"

definition is_deprecated :: "string \<Rightarrow> bool" where
  "is_deprecated name \<longleftrightarrow> map_of DEPRECATED_VARIABLES name \<noteq> None"

section \<open>Entities\<close>

definition drop_entity_inputs :: "string \<Rightarrow> string \<times> json \<Rightarrow> (string \<times> json) \<times> deprecated_warning list" where
  "drop_entity_inputs entity_plural entity =
     (case entity of (entity_id, variables) \<Rightarrow>
        case variables of
          JObj kvs \<Rightarrow>
            ((entity_id, JObj (filter (\<lambda>(k, v). \<not> is_deprecated k) kvs)),
             List.map_filter (\<lambda>(k, v). deprecated_warning_of entity_plural entity_id k) kvs)
        | _ \<Rightarrow> (entity, []))"

definition drop_group_inputs :: "string \<times> json \<Rightarrow> (string \<times> json) \<times> deprecated_warning list" where
  "drop_group_inputs grp =
     (case grp of (entity_plural, entities) \<Rightarrow>
        if entity_plural = ''axes'' then (grp, [])
        else case entities of
          JObj es \<Rightarrow>
            (let dropped = map (drop_entity_inputs entity_plural) es
             in ((entity_plural, JObj (map fst dropped)), concat (map snd dropped)))
        | _ \<Rightarrow> (grp, []))"

section \<open>Axes\<close>

definition deprecated_axis :: "string \<Rightarrow> json \<Rightarrow> deprecated_warning option" where
  "deprecated_axis location axis =
     (case axis of
        JObj kvs \<Rightarrow>
          (case map_of kvs ''name'' of Some (JStr name) \<Rightarrow> deprecated_warning_of ''axes'' location name | _ \<Rightarrow> None)
      | _ \<Rightarrow> None)"

text \<open>An entry of the axes: what is retained of it, and its warnings. A group left empty goes.\<close>

definition axis_location :: "nat \<Rightarrow> nat \<Rightarrow> string" where
  "axis_location entry_index axis_index = show_nat entry_index @ '']['' @ show_nat axis_index"

definition drop_axis_entry :: "nat \<times> json \<Rightarrow> json list \<times> deprecated_warning list" where
  "drop_axis_entry indexed =
     (case indexed of (entry_index, entry) \<Rightarrow>
        case entry of
          JArr axes \<Rightarrow>
            (let checked = map (\<lambda>(axis_index, axis). (axis, deprecated_axis (axis_location entry_index axis_index) axis))
                             (List.enumerate 0 axes);
                 retained = map fst (filter (\<lambda>(axis, w). w = None) checked)
             in (if retained = [] then [] else [JArr retained], List.map_filter snd checked))
        | _ \<Rightarrow>
            (case deprecated_axis (show_nat entry_index) entry of
               None \<Rightarrow> ([entry], []) | Some w \<Rightarrow> ([], [w])))"

definition drop_deprecated_axes :: "(string \<times> json) list \<Rightarrow> (string \<times> json) list \<times> deprecated_warning list" where
  "drop_deprecated_axes household =
     (case map_of household ''axes'' of
        Some (JArr axes) \<Rightarrow>
          (let dropped = map drop_axis_entry (List.enumerate 0 axes);
               warnings = concat (map snd dropped);
               retained = concat (map fst dropped)
           in if warnings = [] then (household, [])
              else (if retained = [] then AList.delete ''axes'' household
                    else AList.update ''axes'' (JArr retained) household, warnings))
      | _ \<Rightarrow> (household, []))"

section \<open>Households\<close>

definition drop_deprecated_inputs :: "json \<Rightarrow> json \<times> deprecated_warning list" where
  "drop_deprecated_inputs household =
     (case household of
        JObj groups \<Rightarrow>
          (let dropped = map drop_group_inputs groups;
               (cleaned, axis_warnings) = drop_deprecated_axes (map fst dropped)
           in (JObj cleaned, concat (map snd dropped) @ axis_warnings))
      | _ \<Rightarrow> (household, []))"

section \<open>What is left\<close>

lemma map_filter_is_Nil: "List.map_filter f xs = [] \<longleftrightarrow> (\<forall>x\<in>set xs. f x = None)"
  by (induction xs) (auto simp: map_filter_simps split: option.split)

lemma warning_None [simp]: "deprecated_warning_of p i k = None \<longleftrightarrow> \<not> is_deprecated k"
  by (simp add: deprecated_warning_of_def is_deprecated_def)

text \<open>An entity, a group and an axis without deprecated names.\<close>

fun clean_entity :: "json \<Rightarrow> bool" where
  "clean_entity (JObj kvs) = (\<forall>k\<in>fst ` set kvs. \<not> is_deprecated k)"
| "clean_entity v = True"

fun clean_axis :: "json \<Rightarrow> bool" where
  "clean_axis (JObj kvs) = (\<forall>name. map_of kvs ''name'' = Some (JStr name) \<longrightarrow> \<not> is_deprecated name)"
| "clean_axis v = True"

fun clean_axis_entry :: "json \<Rightarrow> bool" where
  "clean_axis_entry (JArr axes) = (\<forall>a\<in>set axes. clean_axis a)"
| "clean_axis_entry v = clean_axis v"

fun clean_group :: "string \<times> json \<Rightarrow> bool" where
  "clean_group (p, JObj es) = (p = ''axes'' \<or> (\<forall>e\<in>snd ` set es. clean_entity e))"
| "clean_group (p, v) = True"

fun clean_household :: "json \<Rightarrow> bool" where
  "clean_household (JObj groups) =
     ((\<forall>g\<in>set groups. clean_group g)
      \<and> (\<forall>axes. map_of groups ''axes'' = Some (JArr axes) \<longrightarrow> (\<forall>e\<in>set axes. clean_axis_entry e)))"
| "clean_household v = True"

lemma deprecated_axis_None: "deprecated_axis l a = None \<longleftrightarrow> clean_axis a"
  by (cases a) (auto simp: deprecated_axis_def split: option.split json.split)

lemma None_deprecated_axis: "None = deprecated_axis l a \<longleftrightarrow> clean_axis a"
  using deprecated_axis_None [of l a] by auto

lemma drop_entity_clean:
  "clean_entity (snd (fst (drop_entity_inputs p e)))" "fst (fst (drop_entity_inputs p e)) = fst e"
  by (cases e; cases "snd e"; auto simp: drop_entity_inputs_def)+

lemma drop_entity_id: "snd (drop_entity_inputs p e) = [] \<longleftrightarrow> clean_entity (snd e)"
  "clean_entity (snd e) \<Longrightarrow> drop_entity_inputs p e = (e, [])"
proof -
  have f: "filter (\<lambda>(k, v). \<not> is_deprecated k) kvs = kvs" if "\<forall>k\<in>fst ` set kvs. \<not> is_deprecated k"
    for kvs :: "(string \<times> json) list"
    using that by (auto simp: filter_id_conv)
  show "snd (drop_entity_inputs p e) = [] \<longleftrightarrow> clean_entity (snd e)"
    by (cases e; cases "snd e") (auto simp: drop_entity_inputs_def map_filter_is_Nil)
  show "clean_entity (snd e) \<Longrightarrow> drop_entity_inputs p e = (e, [])"
    by (cases e; cases "snd e") (auto simp: drop_entity_inputs_def map_filter_is_Nil f)
qed

lemma drop_group_clean: "clean_group (fst (drop_group_inputs g))" "fst (fst (drop_group_inputs g)) = fst g"
  by (cases g; cases "snd g"; auto simp: drop_group_inputs_def Let_def drop_entity_clean)+

lemma drop_group_id: "snd (drop_group_inputs g) = [] \<longleftrightarrow> clean_group g"
  "clean_group g \<Longrightarrow> drop_group_inputs g = (g, [])"
proof -
  show "snd (drop_group_inputs g) = [] \<longleftrightarrow> clean_group g"
    by (cases g; cases "snd g") (auto simp: drop_group_inputs_def Let_def drop_entity_id(1))
  have "map fst (map (drop_entity_inputs p) es) = es" if "\<forall>e\<in>snd ` set es. clean_entity e" for p es
    using that by (induction es) (auto simp: drop_entity_id(2))
  moreover have "concat (map snd (map (drop_entity_inputs p) es)) = []" if "\<forall>e\<in>snd ` set es. clean_entity e" for p es
    using that by (induction es) (auto simp: drop_entity_id(2))
  ultimately show "clean_group g \<Longrightarrow> drop_group_inputs g = (g, [])"
    by (cases g; cases "snd g") (auto simp: drop_group_inputs_def Let_def)
qed


lemma enumerate_fst_snd: "map fst (map (\<lambda>(i, a). (a, f i a)) (List.enumerate n xs)) = xs"
  by (induction xs arbitrary: n) auto

lemma set_enumerate_snd: "snd ` set (List.enumerate n xs) = set xs"
  by (metis list.set_map map_snd_enumerate)

lemma drop_entry_clean: "e \<in> set (fst (drop_axis_entry ie)) \<Longrightarrow> clean_axis_entry e"
proof (cases ie)
  case (Pair i e0)
  assume e: "e \<in> set (fst (drop_axis_entry ie))"
  show ?thesis
  proof (cases "\<exists>axes. e0 = JArr axes")
    case True
    then obtain axes where "e0 = JArr axes" by blast
    with e Pair show ?thesis
      by (auto simp: drop_axis_entry_def Let_def deprecated_axis_None None_deprecated_axis split: if_splits)
  next
    case False
    then have "drop_axis_entry ie = (case deprecated_axis (show_nat i) e0 of None \<Rightarrow> ([e0], []) | Some w \<Rightarrow> ([], [w]))"
      "clean_axis_entry e0 = clean_axis e0"
      using Pair by (cases e0; auto simp: drop_axis_entry_def)+
    with e show ?thesis by (auto simp: deprecated_axis_None split: option.splits)
  qed
qed

lemma drop_entry_warned: "snd (drop_axis_entry ie) = [] \<longleftrightarrow> clean_axis_entry (snd ie)"
proof (cases ie)
  case (Pair i e0)
  show ?thesis
  proof (cases "\<exists>axes. e0 = JArr axes")
    case True
    then obtain axes where axes: "e0 = JArr axes" by blast
    have "(\<forall>x\<in>set (List.enumerate 0 axes). clean_axis (snd x)) \<longleftrightarrow> (\<forall>a\<in>set axes. clean_axis a)"
      using set_enumerate_snd [of 0 axes] by (metis (no_types, lifting) imageE image_eqI)
    then show ?thesis
      using Pair axes by (auto simp: drop_axis_entry_def Let_def map_filter_is_Nil deprecated_axis_None)
  next
    case False
    then have "drop_axis_entry ie = (case deprecated_axis (show_nat i) e0 of None \<Rightarrow> ([e0], []) | Some w \<Rightarrow> ([], [w]))"
      "clean_axis_entry e0 = clean_axis e0"
      using Pair by (cases e0; auto simp: drop_axis_entry_def)+
    then show ?thesis
      using Pair deprecated_axis_None [of "show_nat i" e0] by (cases "deprecated_axis (show_nat i) e0") simp_all
  qed
qed

definition clean_axes :: "(string \<times> json) list \<Rightarrow> bool" where
  "clean_axes household \<longleftrightarrow>
     (\<forall>axes. map_of household ''axes'' = Some (JArr axes) \<longrightarrow> (\<forall>e\<in>set axes. clean_axis_entry e))"

lemma drop_axes_clean:
  "clean_axes (fst (drop_deprecated_axes h))" "snd (drop_deprecated_axes h) = [] \<longleftrightarrow> clean_axes h"
  "clean_axes h \<Longrightarrow> drop_deprecated_axes h = (h, [])"
proof -
  have warned: "concat (map snd (map drop_axis_entry (List.enumerate 0 axes))) = [] \<longleftrightarrow> (\<forall>e\<in>set axes. clean_axis_entry e)"
    for axes
  proof -
    have "concat (map snd (map drop_axis_entry (List.enumerate 0 axes))) = []
        \<longleftrightarrow> (\<forall>x\<in>set (List.enumerate 0 axes). clean_axis_entry (snd x))"
      by (auto simp: drop_entry_warned)
    then show ?thesis using set_enumerate_snd [of 0 axes] by (metis (no_types, lifting) imageE image_eqI)
  qed
  show ww: "snd (drop_deprecated_axes h) = [] \<longleftrightarrow> clean_axes h"
    unfolding drop_deprecated_axes_def clean_axes_def Let_def
    by (auto split: option.split json.split simp del: map_map concat_eq_Nil_conv simp: warned)
  show "clean_axes h \<Longrightarrow> drop_deprecated_axes h = (h, [])"
    unfolding drop_deprecated_axes_def clean_axes_def Let_def
    by (auto split: option.split json.split simp del: map_map concat_eq_Nil_conv simp: warned)
  show "clean_axes (fst (drop_deprecated_axes h))"
  proof (cases "clean_axes h")
    case True
    then show ?thesis
      using ww unfolding drop_deprecated_axes_def clean_axes_def Let_def
      by (auto split: option.split json.split simp del: map_map concat_eq_Nil_conv simp: warned)
  next
    case False
    then obtain axes where axes: "map_of h ''axes'' = Some (JArr axes)" "\<not> (\<forall>e\<in>set axes. clean_axis_entry e)"
      by (auto simp: clean_axes_def)
    let ?r = "concat (map fst (map drop_axis_entry (List.enumerate 0 axes)))"
    have "fst (drop_deprecated_axes h) = (if ?r = [] then AList.delete ''axes'' h else AList.update ''axes'' (JArr ?r) h)"
    proof -
      have "concat (map snd (map drop_axis_entry (List.enumerate 0 axes))) \<noteq> []" using axes(2) warned by blast
      then show ?thesis
        by (simp only: drop_deprecated_axes_def Let_def axes(1) option.case json.case if_False fst_conv)
    qed
    moreover have "\<forall>e\<in>set ?r. clean_axis_entry e" using drop_entry_clean by auto
    ultimately show ?thesis
      by (auto simp: clean_axes_def delete_conv' update_conv' simp del: map_map)
  qed
qed

lemma axes_of_dropped: "map_of (map (\<lambda>g. fst (drop_group_inputs g)) groups) ''axes'' = map_of groups ''axes''"
proof (induction groups)
  case (Cons g groups)
  obtain p v where g: "g = (p, v)" by fastforce
  have "fst (fst (drop_group_inputs g)) = p" using drop_group_clean(2) [of g] g by simp
  moreover have "p = ''axes'' \<Longrightarrow> fst (drop_group_inputs g) = g" using g by (simp add: drop_group_inputs_def)
  ultimately show ?case using Cons g by (cases "fst (drop_group_inputs g)") auto
qed simp

lemma clean_household_iff:
  "clean_household (JObj groups) \<longleftrightarrow> (\<forall>g\<in>set groups. clean_group g) \<and> clean_axes groups"
  by (simp add: clean_axes_def)

lemma drop_axes_groups:
  assumes "\<forall>g\<in>set h. clean_group g" shows "\<forall>g\<in>set (fst (drop_deprecated_axes h)). clean_group g"
proof -
  have ax: "clean_group (''axes'', v)" for v by (cases v) auto
  have upd: "set (AList.update k v h) \<subseteq> insert (k, v) (set h)" for k and v :: json by (induction h) auto
  have del: "set (AList.delete k h) \<subseteq> set h" for k by (auto simp: AList.delete_eq)
  have "\<exists>w. fst (drop_deprecated_axes h) \<in> {h, AList.delete ''axes'' h, AList.update ''axes'' w h}"
  proof (cases "\<exists>axes. map_of h ''axes'' = Some (JArr axes)")
    case True
    then obtain axes where "map_of h ''axes'' = Some (JArr axes)" by blast
    then show ?thesis
      by (intro exI [of _ "JArr (concat (map fst (map drop_axis_entry (List.enumerate 0 axes))))"])
        (simp add: drop_deprecated_axes_def Let_def del: map_map concat_eq_Nil_conv)
  next
    case False
    then have "fst (drop_deprecated_axes h) = h"
      by (auto simp: drop_deprecated_axes_def split: option.split json.split)
    then show ?thesis by simp
  qed
  then obtain w where "fst (drop_deprecated_axes h) \<in> {h, AList.delete ''axes'' h, AList.update ''axes'' w h}" by blast
  then show ?thesis using assms ax upd [of "''axes''" w] del [of "''axes''"] by auto
qed

text \<open>
  What is left of a household holds no deprecated input, as a variable of an entity or the
  name of an axis, and dropping again changes nothing; a warning is raised exactly when the
  household held one, and a household without any is returned as it is.
\<close>

theorem drop_deprecated_inputs_correct:
  "clean_household (fst (drop_deprecated_inputs h))
   \<and> drop_deprecated_inputs (fst (drop_deprecated_inputs h)) = (fst (drop_deprecated_inputs h), [])
   \<and> (snd (drop_deprecated_inputs h) = [] \<longleftrightarrow> clean_household h)
   \<and> (clean_household h \<longleftrightarrow> clean_household h \<and> fst (drop_deprecated_inputs h) = h)"
proof -
  have id: "drop_deprecated_inputs h = (h, [])" if "clean_household h" for h
  proof (cases "\<exists>groups. h = JObj groups")
    case True
    then obtain groups where groups: "h = JObj groups" by blast
    with that have clean: "\<forall>g\<in>set groups. clean_group g" "clean_axes groups" by (simp_all add: clean_axes_def)
    have "map fst (map drop_group_inputs groups) = groups" "concat (map snd (map drop_group_inputs groups)) = []"
      using clean(1) by (induction groups) (auto simp: drop_group_id(2))
    with drop_axes_clean(3) [OF clean(2)] groups show ?thesis
      by (simp add: drop_deprecated_inputs_def Let_def del: map_map)
  next
    case False
    then show ?thesis by (cases h) (auto simp: drop_deprecated_inputs_def)
  qed
  have obj: "clean_household (fst (drop_deprecated_inputs h)) \<and> (snd (drop_deprecated_inputs h) = [] \<longleftrightarrow> clean_household h)"
  proof (cases "\<exists>groups. h = JObj groups")
    case True
    then obtain groups where groups: "h = JObj groups" by blast
    let ?d = "map (\<lambda>g. fst (drop_group_inputs g)) groups"
    have drop: "drop_deprecated_inputs h = (JObj (fst (drop_deprecated_axes ?d)),
        concat (map (\<lambda>g. snd (drop_group_inputs g)) groups) @ snd (drop_deprecated_axes ?d))"
      by (simp add: groups drop_deprecated_inputs_def Let_def comp_def split: prod.split)
    have "\<forall>g\<in>set ?d. clean_group g" using drop_group_clean(1) by auto
    then have "clean_household (fst (drop_deprecated_inputs h))"
      unfolding drop fst_conv clean_household_iff using drop_axes_groups [of ?d] drop_axes_clean(1) [of ?d] by blast
    moreover have "clean_axes ?d \<longleftrightarrow> clean_axes groups" by (simp add: clean_axes_def axes_of_dropped)
    then have "concat (map (\<lambda>g. snd (drop_group_inputs g)) groups) @ snd (drop_deprecated_axes ?d) = []
        \<longleftrightarrow> clean_household (JObj groups)"
      unfolding clean_household_iff using drop_axes_clean(2) [of ?d] by (auto simp: drop_group_id(1))
    then have "snd (drop_deprecated_inputs h) = [] \<longleftrightarrow> clean_household h"
      using arg_cong [OF drop, of snd] groups by simp
    ultimately show ?thesis by blast
  next
    case False
    then show ?thesis by (cases h) (auto simp: drop_deprecated_inputs_def)
  qed
  with id show ?thesis by auto
qed

end
