(* ===== verification/Household_Calculations.thy ===== *)
theory Household_Calculations
  imports Household_Service Deprecated_Inputs
begin

text \<open>
  \<open>policyengine_api/runtime_cache/household_calculations.py\<close>,
  \<open>services/household_calculation_service.py\<close> and the calculation views of
  \<open>routes/household_routes.py\<close>: a stored or a posted household is completed, checked and
  calculated by the country model, and the result of a stored one is cached.

  The country model (\<open>country.py\<close> around the country packages) is a parameter: its metadata and
  the functions that parse and calculate a situation. Spans, observability ids and metric
  records are not modelled. A year that keys an added variable is the text it is written as.
\<close>

section \<open>The cache of calculated households\<close>

definition HOUSEHOLD_CALCULATION_SCHEMA_VERSION :: int where
  "HOUSEHOLD_CALCULATION_SCHEMA_VERSION = 4"

definition HOUSEHOLD_CALCULATION_TTL_SECONDS :: int where
  "HOUSEHOLD_CALCULATION_TTL_SECONDS = 86400"

text \<open>\<open>spm\<close> is JNull when the request selected none.\<close>

record household_identity =
  hi_country_id :: string
  hi_household_id :: int
  hi_policy_id :: int
  hi_household_hash :: string
  hi_policy_hash :: string
  hi_country_package_version :: string
  hi_policyengine_version :: string
  hi_spm :: json

record cached_calculation =
  cc_household :: "(string \<times> json) list"
  cc_warnings :: "string list"
  cc_spm_provenance :: json

definition household_cache :: json_cache where
  "household_cache =
     \<lparr>jc_family = ''household-calculation'', jc_schema_version = HOUSEHOLD_CALCULATION_SCHEMA_VERSION,
      jc_ttl_seconds = HOUSEHOLD_CALCULATION_TTL_SECONDS\<rparr>"

definition identity_inputs :: "household_identity \<Rightarrow> (string \<times> json) list" where
  "identity_inputs i =
     [(''country_id'', JStr (hi_country_id i)), (''household_id'', JInt (hi_household_id i)),
      (''policy_id'', JInt (hi_policy_id i)), (''household_hash'', JStr (hi_household_hash i)),
      (''policy_hash'', JStr (hi_policy_hash i)),
      (''country_package_version'', JStr (hi_country_package_version i)),
      (''policyengine_version'', JStr (hi_policyengine_version i)), (''spm'', hi_spm i)]"

definition calculation_payload :: "cached_calculation \<Rightarrow> json" where
  "calculation_payload v =
     JObj [(''household'', JObj (cc_household v)), (''warnings'', JArr (map JStr (cc_warnings v))),
           (''spm_provenance'', cc_spm_provenance v)]"

definition is_text :: "json \<Rightarrow> bool" where
  "is_text v = (case v of JStr s \<Rightarrow> True | _ \<Rightarrow> False)"

definition text_of :: "json \<Rightarrow> string" where
  "text_of v = (case v of JStr s \<Rightarrow> s | _ \<Rightarrow> [])"

definition is_well_formed_entry :: "json \<Rightarrow> bool" where
  "is_well_formed_entry payload =
     (case payload of
        JObj d \<Rightarrow>
          (case (dict_get_none d ''household'', dict_get_none d ''warnings'') of
             (JObj h, JArr ws) \<Rightarrow>
               list_all is_text ws \<and> map_of d ''spm_config'' = None
               \<and> (dict_get_none d ''spm_provenance'' = JNull \<or> is_object (dict_get_none d ''spm_provenance''))
           | _ \<Rightarrow> False)
      | _ \<Rightarrow> False)"

definition validate_spm_calculation_provenance :: "spm_install \<Rightarrow> json \<Rightarrow> provenance result" where
  "validate_spm_calculation_provenance inst v =
     (case provenance_of inst v of
        None \<Rightarrow> Inl (ValueError (si_report inst ''SPMProvenance'' v)) | Some p \<Rightarrow> Inr p)"

text \<open>The receipt in canonical form, when it certifies the selection; only its validation is guarded.\<close>

definition certified_receipt :: "spm_install \<Rightarrow> json \<Rightarrow> json \<Rightarrow> json option result" where
  "certified_receipt inst spm_provenance expected_spm =
     (case validate_spm_calculation_provenance inst spm_provenance of
        Inl e \<Rightarrow> Inr None
      | Inr receipt \<Rightarrow>
          res_bind (resolved_spm_configuration inst receipt) (\<lambda>c.
            Inr (if same_dict (configuration_dump c) expected_spm then Some (provenance_dump receipt) else None)))"

definition entry_of :: "(string \<times> json) list \<Rightarrow> json \<Rightarrow> cached_calculation" where
  "entry_of d receipt =
     \<lparr>cc_household = object_of (dict_get_none d ''household''),
      cc_warnings = (case dict_get_none d ''warnings'' of JArr ws \<Rightarrow> map text_of ws | _ \<Rightarrow> []),
      cc_spm_provenance = receipt\<rparr>"

definition cached_entry :: "spm_install \<Rightarrow> household_identity \<Rightarrow> json \<Rightarrow> cached_calculation option result" where
  "cached_entry inst identity payload =
     (if \<not> is_well_formed_entry payload then Inr None
      else let d = object_of payload; spm_provenance = dict_get_none d ''spm_provenance''
           in if hi_spm identity = JNull
              then Inr (if spm_provenance \<noteq> JNull then None else Some (entry_of d JNull))
              else res_bind (certified_receipt inst spm_provenance (hi_spm identity)) (\<lambda>receipt.
                     Inr (map_option (entry_of d) receipt)))"

record household_cache_context =
  hx_sha :: "string \<Rightarrow> string"
  hx_draw :: "int \<Rightarrow> int \<Rightarrow> int"
  hx_namespace :: namespace
  hx_install :: spm_install

definition cached_calculation_get ::
  "household_cache_context \<Rightarrow> 'w cache_client \<Rightarrow> household_identity \<Rightarrow> ('w, cached_calculation option) act" where
  "cached_calculation_get x client identity =
     bindA (json_cache_get (hx_sha x) client (hx_namespace x) household_cache (identity_inputs identity))
       (\<lambda>payload. liftA (cached_entry (hx_install x) identity payload))"

definition cached_calculation_set ::
  "household_cache_context \<Rightarrow> 'w cache_client \<Rightarrow> household_identity \<Rightarrow> cached_calculation \<Rightarrow> ('w, bool) act" where
  "cached_calculation_set x client identity v =
     (let store = (\<lambda>v. json_cache_set (hx_sha x) (hx_draw x) client (hx_namespace x) household_cache
                         (identity_inputs identity) (calculation_payload v))
      in if hi_spm identity = JNull
         then (if cc_spm_provenance v \<noteq> JNull then retA False else store v)
         else bindA (liftA (certified_receipt (hx_install x) (cc_spm_provenance v) (hi_spm identity)))
                (\<lambda>receipt. case receipt of
                    None \<Rightarrow> retA False
                  | Some r \<Rightarrow> store (v\<lparr>cc_spm_provenance := r\<rparr>)))"

section \<open>The country model\<close>

record model_variable =
  mv_entity :: string
  mv_definition_period :: string
  mv_default_value :: json
  mv_is_input :: bool

datatype country_error = SituationParsing string | CountryRaised exn

text \<open>What a country model returns: a result with its warnings and receipt, or a plain dict.\<close>

datatype raw_calculation =
    CountryResult (raw_household: "(string \<times> json) list") (raw_warnings: "string list") (raw_provenance: json)
  | PlainHousehold "(string \<times> json) list"

record country_model =
  cm_variables :: "(string \<times> model_variable) list"
  cm_entities :: "(string \<times> meta_entity) list"
  cm_parameters :: "(string \<times> json) list"
  cm_prepare :: "json \<Rightarrow> json \<Rightarrow> (json \<times> bool) option \<Rightarrow> country_error + unit"
  cm_calculate :: "json \<Rightarrow> json \<Rightarrow> (json \<times> bool) option \<Rightarrow> country_error + raw_calculation"

definition model_metadata :: "country_model \<Rightarrow> country_metadata" where
  "model_metadata country =
     \<lparr>meta_variables = map (\<lambda>(name, v). (name, mv_entity v)) (cm_variables country),
      meta_entities = cm_entities country, meta_parameters = cm_parameters country\<rparr>"

record calculation_env =
  ca_context :: household_cache_context
  ca_versions :: runtime_versions_table
  ca_core_period :: "json \<Rightarrow> bool"
  ca_country :: "string \<Rightarrow> country_model"
  ca_year :: int
  ca_variables :: "string \<Rightarrow> string option"
  ca_digest :: "string \<Rightarrow> string"

section \<open>Missing variables\<close>

definition attribute_error :: "json \<Rightarrow> string \<Rightarrow> exn" where
  "attribute_error v name =
     OtherError (CHR 0x27 # type_name v @ CHR 0x27 # '' object has no attribute '' @ repr_string name)"

text \<open>\<open>v.get(key, {})\<close> of a JSON value.\<close>

definition get_or_empty :: "json \<Rightarrow> string \<Rightarrow> json result" where
  "get_or_empty v key =
     (case v of
        JObj d \<Rightarrow> Inr (case map_of d key of None \<Rightarrow> JObj [] | Some x \<Rightarrow> x)
      | v \<Rightarrow> Inl (attribute_error v ''get''))"

definition get_household_year :: "calculation_env \<Rightarrow> json \<Rightarrow> string result" where
  "get_household_year env household =
     res_bind (get_or_empty household ''people'') (\<lambda>people.
     res_bind (get_or_empty people ''you'') (\<lambda>you.
     res_bind (get_or_empty you ''age'') (\<lambda>age.
       case age of
         JObj ages \<Rightarrow> Inr (case ages of [] \<Rightarrow> show_int (ca_year env) | (year, v) # rest \<Rightarrow> year)
       | v \<Rightarrow> Inl (attribute_error v ''keys''))))"

definition added_value :: "string \<Rightarrow> model_variable \<Rightarrow> json" where
  "added_value year v = JObj [(year, if mv_is_input v then mv_default_value v else JNull)]"

text \<open>\<open>name not in entity\<close>, then \<open>entity[name] = ...\<close>, of any JSON value.\<close>

definition add_to_entity :: "string \<Rightarrow> string \<Rightarrow> model_variable \<Rightarrow> json \<Rightarrow> json result" where
  "add_to_entity year name v entity =
     (case entity of
        JObj d \<Rightarrow> Inr (if map_of d name = None then JObj (d @ [(name, added_value year v)]) else entity)
      | JArr xs \<Rightarrow> if JStr name \<in> set xs then Inr entity
                   else Inl (TypeErr ''list indices must be integers or slices, not str'')
      | JStr s \<Rightarrow> if sublist name s then Inr entity
                  else Inl (TypeErr (CHR 0x27 # ''str'' @ CHR 0x27 # '' object does not support item assignment''))
      | x \<Rightarrow> Inl (TypeErr (''argument of type '' @ CHR 0x27 # type_name x @ CHR 0x27 # '' is not iterable'')))"

fun add_to_entities :: "string \<Rightarrow> string \<Rightarrow> model_variable \<Rightarrow> (string \<times> json) list \<Rightarrow> (string \<times> json) list result" where
  "add_to_entities year name v [] = Inr []"
| "add_to_entities year name v ((entity_id, entity) # rest) =
     res_bind (add_to_entity year name v entity) (\<lambda>entity'.
     res_bind (add_to_entities year name v rest) (\<lambda>rest'. Inr ((entity_id, entity') # rest')))"

definition YEARLY_PERIODS :: "string list" where
  "YEARLY_PERIODS = [''year'', ''month'', ''eternity'']"

definition plural_of :: "country_model \<Rightarrow> string \<Rightarrow> string result" where
  "plural_of country entity_key =
     (case map_of (cm_entities country) entity_key of
        None \<Rightarrow> Inl (KeyErr entity_key)
      | Some entity \<Rightarrow> (case plural entity of None \<Rightarrow> Inl (KeyErr ''plural'') | Some p \<Rightarrow> Inr p))"

definition add_variable ::
  "country_model \<Rightarrow> string \<Rightarrow> string \<times> model_variable \<Rightarrow> (string \<times> json) list \<Rightarrow> (string \<times> json) list result" where
  "add_variable country year variable household =
     (case variable of (name, v) \<Rightarrow>
        if mv_definition_period v \<notin> set YEARLY_PERIODS then Inr household
        else res_bind (plural_of country (mv_entity v)) (\<lambda>entity_plural.
          case map_of household entity_plural of
            None \<Rightarrow> Inr household
          | Some (JObj entities) \<Rightarrow>
              res_bind (add_to_entities year name v entities)
                (\<lambda>entities'. Inr (AList.update entity_plural (JObj entities') household))
          | Some x \<Rightarrow> Inl (attribute_error x ''values'')))"

fun add_variables ::
  "country_model \<Rightarrow> string \<Rightarrow> (string \<times> model_variable) list \<Rightarrow> (string \<times> json) list
     \<Rightarrow> (string \<times> json) list result" where
  "add_variables country year [] household = Inr household"
| "add_variables country year (v # vs) household =
     res_bind (add_variable country year v household) (add_variables country year vs)"

definition add_yearly_variables :: "calculation_env \<Rightarrow> country_model \<Rightarrow> json \<Rightarrow> json result" where
  "add_yearly_variables env country household =
     res_bind (get_household_year env household) (\<lambda>year.
       map_sum id JObj (add_variables country year (cm_variables country) (object_of household)))"

section \<open>Calculating\<close>

datatype calculation_error =
    HouseholdNotFoundError int
  | PolicyNotFound int
  | InvalidHouseholdInputsError "invalid_input list"
  | CountryFailure country_error
  | CalculationRaised exn

record household_calculation_result =
  hr_household :: "(string \<times> json) list"
  hr_warnings :: "string list"
  hr_cached :: bool
  hr_spm_provenance :: json

definition raised :: "'a result \<Rightarrow> calculation_error + 'a" where
  "raised r = map_sum CalculationRaised id r"

fun calc_bind :: "calculation_error + 'a \<Rightarrow> ('a \<Rightarrow> calculation_error + 'b) \<Rightarrow> calculation_error + 'b" where
  "calc_bind (Inl e) f = Inl e"
| "calc_bind (Inr x) f = f x"

definition validated_spm_provenance :: "spm_install \<Rightarrow> json \<Rightarrow> json \<Rightarrow> json result" where
  "validated_spm_provenance inst spm_provenance expected_selection =
     (if expected_selection = JNull
      then (if spm_provenance = JNull then Inr JNull
            else Inl (ValueError ''Unexpected SPM provenance for a calculation without SPM''))
      else res_bind (validate_spm_calculation_provenance inst spm_provenance) (\<lambda>receipt.
             res_bind (resolved_spm_configuration inst receipt) (\<lambda>c.
               if same_dict (configuration_dump c) expected_selection then Inr (provenance_dump receipt)
               else Inl (ValueError ''SPM calculation configuration differs from the request''))))"

definition spm_arguments :: "json \<Rightarrow> bool \<Rightarrow> (json \<times> bool) option" where
  "spm_arguments spm spm_requested = (if spm = JNull then None else Some (spm, spm_requested))"

fun raw_parts :: "raw_calculation \<Rightarrow> (string \<times> json) list \<times> string list \<times> json" where
  "raw_parts (CountryResult h ws p) = (h, ws, p)"
| "raw_parts (PlainHousehold h) = (h, [], JNull)"

text \<open>The household without deprecated inputs, once the country model can use it.\<close>

definition checked_inputs ::
  "calculation_env \<Rightarrow> country_model \<Rightarrow> json \<Rightarrow> json \<Rightarrow> calculation_error + json \<times> string list" where
  "checked_inputs env country household_json policy_json =
     (case drop_deprecated_inputs household_json of (household, warnings) \<Rightarrow>
        calc_bind (raised (find_invalid_inputs (ca_core_period env) household policy_json (model_metadata country)))
          (\<lambda>invalid. if invalid \<noteq> [] then Inl (InvalidHouseholdInputsError invalid)
                      else Inr (household, map warning_message warnings)))"

definition calculation_result ::
  "calculation_env \<Rightarrow> json \<Rightarrow> string list \<Rightarrow> raw_calculation \<Rightarrow> calculation_error + household_calculation_result" where
  "calculation_result env spm warnings raw =
     (case raw_parts raw of (household, calculation_warnings, provenance) \<Rightarrow>
        calc_bind (raised (validated_spm_provenance (hx_install (ca_context env)) provenance spm)) (\<lambda>receipt.
          Inr \<lparr>hr_household = household, hr_warnings = warnings @ calculation_warnings, hr_cached = False,
               hr_spm_provenance = receipt\<rparr>))"

section \<open>Stored households\<close>

definition cache_identity ::
  "calculation_env \<Rightarrow> string \<Rightarrow> household \<Rightarrow> policy \<Rightarrow> string \<Rightarrow> json \<Rightarrow> household_identity" where
  "cache_identity env country_id h p api_version spm =
     \<lparr>hi_country_id = country_id, hi_household_id = hh_id h, hi_policy_id = pol_id p,
      hi_household_hash = hh_hash h, hi_policy_hash = pol_hash p, hi_country_package_version = api_version,
      hi_policyengine_version = rt_policyengine (ca_versions env), hi_spm = spm\<rparr>"

record stored_inputs =
  si_household :: household
  si_policy :: policy
  si_saved_spm :: json
  si_spm :: json

definition get_inputs ::
  "calculation_env \<Rightarrow> household_db \<Rightarrow> policy_db \<Rightarrow> string \<Rightarrow> int \<Rightarrow> int \<Rightarrow> calculation_error + stored_inputs" where
  "get_inputs env hdb pdb country_id household_id policy_id =
     (case (List.find (\<lambda>h. hh_country_id h = country_id \<and> hh_id h = household_id) (hd_households hdb),
            List.find (\<lambda>p. pol_country_id p = country_id \<and> pol_id p = policy_id) (pd_policies pdb)) of
        (None, p) \<Rightarrow> Inl (HouseholdNotFoundError household_id)
      | (Some h, None) \<Rightarrow> Inl (PolicyNotFound policy_id)
      | (Some h, Some p) \<Rightarrow>
          (let saved = dict_get_none (hh_json h) ''spm''
           in calc_bind (raised (normalize_spm_selection (hx_install (ca_context env)) country_id saved True)) (\<lambda>spm.
                Inr \<lparr>si_household = h, si_policy = p, si_saved_spm = saved, si_spm = spm\<rparr>)))"

text \<open>What a cache miss calculates.\<close>

definition compute_stored :: "calculation_env \<Rightarrow> string \<Rightarrow> stored_inputs \<Rightarrow> calculation_error + household_calculation_result" where
  "compute_stored env country_id inputs =
     (let country = ca_country env country_id; policy_json = pol_json (si_policy inputs)
      in calc_bind (raised (add_yearly_variables env country (JObj (AList.delete ''spm'' (hh_json (si_household inputs))))))
           (\<lambda>completed. calc_bind (checked_inputs env country completed policy_json) (\<lambda>(household, warnings).
              calc_bind (map_sum CountryFailure id (cm_calculate country household policy_json
                           (spm_arguments (si_spm inputs) (si_saved_spm inputs \<noteq> JNull))))
                (calculation_result env (si_spm inputs) warnings))))"

definition result_of_entry :: "cached_calculation \<Rightarrow> household_calculation_result" where
  "result_of_entry c =
     \<lparr>hr_household = cc_household c, hr_warnings = cc_warnings c, hr_cached = True,
      hr_spm_provenance = cc_spm_provenance c\<rparr>"

definition entry_of_result :: "household_calculation_result \<Rightarrow> cached_calculation" where
  "entry_of_result r =
     \<lparr>cc_household = hr_household r, cc_warnings = hr_warnings r, cc_spm_provenance = hr_spm_provenance r\<rparr>"

definition calculate_stored_household ::
  "calculation_env \<Rightarrow> 'w cache_client \<Rightarrow> household_db \<Rightarrow> policy_db \<Rightarrow> string \<Rightarrow> int \<Rightarrow> int \<Rightarrow> 'w
     \<Rightarrow> (calculation_error + household_calculation_result) \<times> 'w" where
  "calculate_stored_household env client hdb pdb country_id household_id policy_id w =
     (case rt_country (ca_versions env) country_id of
        None \<Rightarrow> (Inl (CalculationRaised (KeyErr country_id)), w)
      | Some api_version \<Rightarrow>
          (case get_inputs env hdb pdb country_id household_id policy_id of
             Inl e \<Rightarrow> (Inl e, w)
           | Inr inputs \<Rightarrow>
               (let identity = cache_identity env country_id (si_household inputs) (si_policy inputs) api_version
                                 (si_spm inputs)
                in case cached_calculation_get (ca_context env) client identity w of
                     (Inl e, w1) \<Rightarrow> (Inl (CalculationRaised e), w1)
                   | (Inr (Some c), w1) \<Rightarrow> (Inr (result_of_entry c), w1)
                   | (Inr None, w1) \<Rightarrow>
                       (case compute_stored env country_id inputs of
                          Inl e \<Rightarrow> (Inl e, w1)
                        | Inr r \<Rightarrow>
                            (case cached_calculation_set (ca_context env) client identity (entry_of_result r) w1 of
                               (Inl e, w2) \<Rightarrow> (Inl (CalculationRaised e), w2)
                             | (Inr b, w2) \<Rightarrow> (Inr r, w2))))))"

section \<open>Posted households\<close>

record prepared_calculation =
  pc_country :: country_model
  pc_household_json :: json
  pc_policy_json :: json
  pc_spm :: json
  pc_spm_requested :: bool
  pc_warnings :: "string list"

definition prepare_household_calculation ::
  "calculation_env \<Rightarrow> string \<Rightarrow> json \<Rightarrow> json \<Rightarrow> bool \<Rightarrow> json \<Rightarrow> bool \<Rightarrow> calculation_error + prepared_calculation" where
  "prepare_household_calculation env country_id household_json policy_json add_missing spm spm_requested =
     (let country = ca_country env country_id
      in calc_bind (raised (normalize_spm_selection (hx_install (ca_context env)) country_id spm False)) (\<lambda>selected.
         calc_bind (if add_missing then raised (add_yearly_variables env country household_json) else Inr household_json)
           (\<lambda>completed. calc_bind (checked_inputs env country completed policy_json) (\<lambda>(household, warnings).
              Inr \<lparr>pc_country = country, pc_household_json = household, pc_policy_json = policy_json,
                   pc_spm = selected, pc_spm_requested = spm_requested, pc_warnings = warnings\<rparr>))))"

text \<open>What the country model parses beforehand is handed back to it with the situation.\<close>

definition parse_prepared_household :: "prepared_calculation \<Rightarrow> country_error + unit" where
  "parse_prepared_household prepared =
     cm_prepare (pc_country prepared) (pc_household_json prepared) (pc_policy_json prepared)
       (spm_arguments (pc_spm prepared) (pc_spm_requested prepared))"

definition calculate_prepared_household ::
  "calculation_env \<Rightarrow> prepared_calculation \<Rightarrow> calculation_error + household_calculation_result" where
  "calculate_prepared_household env prepared =
     calc_bind (map_sum CountryFailure id (cm_calculate (pc_country prepared) (pc_household_json prepared)
                  (pc_policy_json prepared) (spm_arguments (pc_spm prepared) (pc_spm_requested prepared))))
       (calculation_result env (pc_spm prepared) (pc_warnings prepared))"

definition calculate_household ::
  "calculation_env \<Rightarrow> string \<Rightarrow> json \<Rightarrow> json \<Rightarrow> bool \<Rightarrow> json \<Rightarrow> bool
     \<Rightarrow> calculation_error + household_calculation_result" where
  "calculate_household env country_id household_json policy_json add_missing spm spm_requested =
     calc_bind (prepare_household_calculation env country_id household_json policy_json add_missing spm spm_requested)
       (calculate_prepared_household env)"

section \<open>The views\<close>

definition invalid_household_inputs_response :: "invalid_input list \<Rightarrow> view_result" where
  "invalid_household_inputs_response invalid =
     error_answer (make_error_response (format_invalid_inputs_message invalid) 400
       [(''result'', JNull),
        (''errors'', JArr (map (\<lambda>e. case e of AxisInput a \<Rightarrow> axis_to_dict a | NameInput n \<Rightarrow> input_to_dict n) invalid))])"

definition calculation_response :: "household_calculation_result \<Rightarrow> view_result" where
  "calculation_response r =
     Answer 200 (JObj ([(''status'', JStr ''ok''), (''message'', JNull), (''result'', JObj (hr_household r))]
       @ (if hr_warnings r = [] then [] else [(''warnings'', JArr (map JStr (hr_warnings r)))])
       @ (if hr_spm_provenance r = JNull then [] else [(''spm_provenance'', hr_spm_provenance r)])))"

definition failed_calculation :: "string \<Rightarrow> exn \<Rightarrow> view_result" where
  "failed_calculation what e =
     (case spm_error_response e of
        Some r \<Rightarrow> r | None \<Rightarrow> error_answer (make_error_response (what @ '': '' @ error_message e) 500 []))"

definition stored_calculation_error_response :: "string \<Rightarrow> string \<Rightarrow> calculation_error \<Rightarrow> view_result" where
  "stored_calculation_error_response household_id policy_id e =
     (let what = ''Error calculating household #'' @ household_id @ '' under policy #'' @ policy_id
      in case e of
           HouseholdNotFoundError i \<Rightarrow>
             error_answer (make_error_response (''Household #'' @ household_id @ '' not found.'') 404 [])
         | PolicyNotFound i \<Rightarrow> error_answer (make_error_response (''Policy #'' @ policy_id @ '' not found.'') 404 [])
         | InvalidHouseholdInputsError invalid \<Rightarrow> invalid_household_inputs_response invalid
         | CountryFailure (SituationParsing m) \<Rightarrow> error_answer (make_error_response (what @ '': '' @ m) 500 [])
         | CountryFailure (CountryRaised x) \<Rightarrow> failed_calculation what x
         | CalculationRaised x \<Rightarrow> failed_calculation what x)"

definition get_household_under_policy ::
  "calculation_env \<Rightarrow> 'w cache_client \<Rightarrow> household_db \<Rightarrow> policy_db \<Rightarrow> string \<Rightarrow> string \<Rightarrow> string \<Rightarrow> 'w
     \<Rightarrow> view_result \<times> 'w" where
  "get_household_under_policy env client hdb pdb country_id household_id policy_id w =
     (case get_v1_household_read_source (ca_variables env) of
        Inl e \<Rightarrow> (household_configuration_unavailable, w)
      | Inr source \<Rightarrow>
          (case res_bind (py_int household_id) (\<lambda>h. res_bind (py_int policy_id) (\<lambda>p. Inr (h, p))) of
             Inl e \<Rightarrow> (stored_calculation_error_response household_id policy_id (CalculationRaised e), w)
           | Inr (h, p) \<Rightarrow>
               (case calculate_stored_household env client hdb pdb country_id h p w of
                  (Inl e, w') \<Rightarrow> (stored_calculation_error_response household_id policy_id e, w')
                | (Inr r, w') \<Rightarrow> (calculation_response r, w'))))"

definition calculation_error_response :: "calculation_error \<Rightarrow> view_result" where
  "calculation_error_response e =
     (case e of
        InvalidHouseholdInputsError invalid \<Rightarrow> invalid_household_inputs_response invalid
      | CountryFailure (SituationParsing m) \<Rightarrow>
          error_answer (make_error_response (''Invalid household payload: '' @ m) 400 [(''result'', JNull)])
      | CountryFailure (CountryRaised x) \<Rightarrow> failed_calculation ''Error calculating household under policy'' x
      | CalculationRaised x \<Rightarrow> failed_calculation ''Error calculating household under policy'' x
      | HouseholdNotFoundError i \<Rightarrow> failed_calculation ''Error calculating household under policy'' (LookupErr (show_int i))
      | PolicyNotFound i \<Rightarrow> failed_calculation ''Error calculating household under policy'' (PolicyNotFoundError [i]))"

definition calculate_view :: "calculation_env \<Rightarrow> prepared_calculation \<Rightarrow> view_result" where
  "calculate_view env prepared =
     (case parse_prepared_household prepared of
        Inl e \<Rightarrow> calculation_error_response (CountryFailure e)
      | Inr u \<Rightarrow>
          (case calculate_prepared_household env prepared of
             Inl e \<Rightarrow> calculation_error_response e
           | Inr r \<Rightarrow> calculation_response r))"

text \<open>The body of a request, validated before the HTTP cache may answer it.\<close>

definition validate_calculation_request ::
  "calculation_env \<Rightarrow> bool \<Rightarrow> string \<Rightarrow> json \<Rightarrow> view_result + json \<times> prepared_calculation" where
  "validate_calculation_request env add_missing country_id payload =
     (case payload of
        JObj d \<Rightarrow>
          (let refused = (\<lambda>e. case e of
                  InvalidHouseholdInputsError invalid \<Rightarrow> invalid_household_inputs_response invalid
                | CalculationRaised x \<Rightarrow>
                    (if is_value_error x then (case spm_error_response x of Some r \<Rightarrow> r | None \<Rightarrow> Unhandled x)
                     else Unhandled x)
                | _ \<Rightarrow> calculation_error_response e);
               member = (\<lambda>key. case map_of d key of None \<Rightarrow> JObj [] | Some v \<Rightarrow> v)
           in case res_bind (requested_spm country_id d) (\<lambda>selection.
                     res_bind (normalize_spm_selection (hx_install (ca_context env)) country_id selection False)
                       (\<lambda>spm. Inr (selection, spm))) of
                Inl x \<Rightarrow> Inl (refused (CalculationRaised x))
              | Inr (selection, spm) \<Rightarrow>
                  (case prepare_household_calculation env country_id (member ''household'') (member ''policy'')
                          add_missing spm (spm \<noteq> JNull \<and> selection \<noteq> JNull) of
                     Inl e \<Rightarrow> Inl (refused e) | Inr prepared \<Rightarrow> Inr (spm, prepared)))
      | _ \<Rightarrow> Inl (HttpError 400 ''Calculation payload must be a JSON object.''))"

definition calculation_cache_key :: "calculation_env \<Rightarrow> string \<Rightarrow> string \<Rightarrow> json \<Rightarrow> json \<Rightarrow> string result" where
  "calculation_cache_key env country_id full_path payload spm =
     (case rt_country (ca_versions env) country_id of
        None \<Rightarrow> Inl (KeyErr country_id)
      | Some version \<Rightarrow>
          Inr (hash_object (ca_digest env) (JObj
            [(''schema'', JInt 3), (''path'', JStr full_path), (''payload'', payload), (''spm'', spm),
             (''country_version'', JStr version),
             (''policyengine_version'', JStr (rt_policyengine (ca_versions env)))])))"

text \<open>
  The HTTP cache is a parameter: what it holds for a key, and how it takes an answer. A failing
  key makes the view run uncached.
\<close>

record 'h http_cache =
  ht_get :: "string \<Rightarrow> 'h \<Rightarrow> view_result option \<times> 'h"
  ht_set :: "string \<Rightarrow> view_result \<Rightarrow> 'h \<Rightarrow> 'h"

definition calculate_route ::
  "calculation_env \<Rightarrow> 'h http_cache \<Rightarrow> bool \<Rightarrow> string \<Rightarrow> string \<Rightarrow> json \<Rightarrow> 'h \<Rightarrow> view_result \<times> 'h" where
  "calculate_route env http add_missing country_id full_path payload h =
     (case validate_calculation_request env add_missing country_id payload of
        Inl view \<Rightarrow> (view, h)
      | Inr (spm, prepared) \<Rightarrow>
          (case calculation_cache_key env country_id full_path payload spm of
             Inl e \<Rightarrow> (calculate_view env prepared, h)
           | Inr key \<Rightarrow>
               (case ht_get http key h of
                  (Some view, h') \<Rightarrow> (view, h')
                | (None, h') \<Rightarrow> (let view = calculate_view env prepared in (view, ht_set http key view h')))))"

end
