(* ===== verification/Calculation_Replay.thy ===== *)
theory Calculation_Replay
  imports Household_Calculations
begin

text \<open>
  What the cache of calculated households promises: every answer for a stored household carries
  the receipt of the selection it was asked for, and a calculated answer is replayed until it
  expires without asking the country model again.
\<close>

section \<open>Receipts read back from the cache\<close>

lemma req_field_Some: "req_field P v = Some s \<Longrightarrow> P s"
  by (induction P v rule: req_field.induct) (auto split: if_splits)

lemma opt_field_given: "opt_field P v = Some (Some s) \<Longrightarrow> P s"
  by (induction P v rule: opt_field.induct) (auto split: if_splits)

definition reads_calendar_dates :: "spm_install \<Rightarrow> bool" where
  "reads_calendar_dates inst \<longleftrightarrow> (\<forall>v d. si_date inst v = Some d \<longrightarrow> calendar_date d)"

lemma date_field_calendar:
  "reads_calendar_dates inst \<Longrightarrow> date_field (si_date inst) v = Some x \<Longrightarrow> opt_ok calendar_date x"
proof -
  assume dates: "reads_calendar_dates inst" and x: "date_field (si_date inst) v = Some x"
  have "x = None \<or> (\<exists>u. si_date inst u = x)"
    using x by (cases "(si_date inst, v)" rule: date_field.cases) (auto split: option.splits)
  with dates show ?thesis by (cases x) (auto simp: reads_calendar_dates_def simp del: calendar_date.simps)
qed

lemma versions_of_ok: "versions_of v = Some r \<Longrightarrow> versions_ok r"
  by (auto simp: versions_of_def version_field_def versions_ok_def dest: req_field_Some
      split: json.splits if_splits option.splits)

lemma provenance_of_ok:
  assumes "provenance_of inst v = Some p" and "reads_calendar_dates inst"
  shows "provenance_ok p"
  using assms
  by (auto simp: provenance_of_def provenance_fields_of_def provenance_ok_def nullable_field_def
      dest: req_field_Some opt_field_given versions_of_ok date_field_calendar
      split: json.splits if_splits option.splits)

lemma only_keys_sorted [simp]: "only_keys names (sort_key fst d) \<longleftrightarrow> only_keys names d"
  by (simp add: only_keys_def)

lemma versions_of_sorted: "versions_ok v \<Longrightarrow> versions_of (sort_keys (versions_dump v)) = Some v"
proof -
  assume ok: "versions_ok v"
  define d where "d = (case versions_dump v of JObj d \<Rightarrow> d | _ \<Rightarrow> [])"
  have dump: "versions_dump v = JObj d" and sorted: "sort_keys_items d = d"
    by (simp_all add: d_def versions_dump_def)
  have "distinct (map fst d)" by (simp add: d_def versions_dump_def)
  from map_of_sort_key_fst [OF this] have "versions_of (JObj (sort_key fst d)) = versions_of (JObj d)"
    by (simp only: versions_of_def version_field_def json.case only_keys_sorted)
  with versions_of_dump [OF ok] show ?thesis by (simp add: dump sorted)
qed

lemma sort_keys_texts: "sort_keys_list (map JStr xs) = map JStr xs"
  by (induction xs) simp_all

lemma provenance_of_sorted:
  assumes "provenance_ok p" and "reads_iso_dates inst"
  shows "provenance_of inst (sort_keys (provenance_dump p)) = Some p"
proof -
  define d where "d = (case provenance_dump p of JObj d \<Rightarrow> d | _ \<Rightarrow> [])"
  have dump: "provenance_dump p = JObj d" by (simp add: d_def provenance_dump_def)
  define d' where "d' = sort_keys_items d"
  have distinct: "distinct (map fst d')" by (simp add: d'_def) (simp add: d_def provenance_dump_def)
  have get: "map_of d' k = (if k = ''runtime_versions'' then Some (sort_keys (versions_dump (pv_runtime_versions p)))
      else map_of d k)" for k
    by (simp add: d'_def d_def provenance_dump_def sort_keys_texts)
  have run: "map_of d ''runtime_versions'' = Some (versions_dump (pv_runtime_versions p))"
    by (simp add: d_def provenance_dump_def)
  have "only_keys PROVENANCE_FIELDS d'" "only_keys PROVENANCE_FIELDS d"
    by (simp_all add: d'_def d_def provenance_dump_def only_keys_def PROVENANCE_FIELDS_def)
  moreover have "provenance_fields_of inst (sort_key fst d') = provenance_fields_of inst d"
    using assms(1) versions_of_sorted versions_of_dump
    by (simp add: provenance_fields_of_def map_of_sort_key_fst [OF distinct] get run provenance_ok_def)
  ultimately have "provenance_of inst (JObj (sort_key fst d')) = provenance_of inst (JObj d)"
    by (simp add: provenance_of_def)
  with provenance_of_dump [OF assms] show ?thesis by (simp add: dump d'_def)
qed


section \<open>Certified answers\<close>

definition certifies :: "spm_install \<Rightarrow> json \<Rightarrow> json \<Rightarrow> bool" where
  "certifies inst spm receipt \<longleftrightarrow>
     (if spm = JNull then receipt = JNull
      else \<exists>p c. receipt = provenance_dump p \<and> resolved_spm_configuration inst p = Inr c
             \<and> same_dict (configuration_dump c) spm)"

lemma certified_receipt_certifies:
  "certified_receipt inst v spm = Inr (Some receipt) \<Longrightarrow> spm \<noteq> JNull \<Longrightarrow> certifies inst spm receipt"
  by (auto simp: certified_receipt_def certifies_def res_bind_Inr_iff split: sum.splits if_splits)

lemma validated_provenance_certifies:
  assumes "validated_spm_provenance inst v spm = Inr receipt"
  shows "certifies inst spm receipt"
    and "reads_calendar_dates inst \<Longrightarrow> reads_iso_dates inst \<Longrightarrow> spm \<noteq> JNull \<Longrightarrow>
      \<exists>p. receipt = provenance_dump p \<and> provenance_of inst (sort_keys receipt) = Some p
        \<and> certified_receipt inst receipt spm = Inr (Some receipt)
        \<and> certified_receipt inst (sort_keys receipt) spm = Inr (Some receipt)"
proof -
  show "certifies inst spm receipt"
    using assms by (auto simp: validated_spm_provenance_def certifies_def res_bind_Inr_iff split: if_splits)
  assume dates: "reads_calendar_dates inst" "reads_iso_dates inst" and spm: "spm \<noteq> JNull"
  from assms spm obtain p c where p: "provenance_of inst v = Some p" "receipt = provenance_dump p"
    "resolved_spm_configuration inst p = Inr c" "same_dict (configuration_dump c) spm"
    by (auto simp: validated_spm_provenance_def validate_spm_calculation_provenance_def res_bind_Inr_iff
        split: if_splits option.splits)
  note ok = provenance_of_ok [OF p(1) dates(1)]
  from provenance_of_dump [OF ok dates(2)] provenance_of_sorted [OF ok dates(2)] p
  show "\<exists>p. receipt = provenance_dump p \<and> provenance_of inst (sort_keys receipt) = Some p
        \<and> certified_receipt inst receipt spm = Inr (Some receipt)
        \<and> certified_receipt inst (sort_keys receipt) spm = Inr (Some receipt)"
    by (intro exI [of _ p]) (simp add: certified_receipt_def validate_spm_calculation_provenance_def)
qed

lemma cached_entry_certifies:
  "cached_entry inst identity payload = Inr (Some c) \<Longrightarrow> certifies inst (hi_spm identity) (cc_spm_provenance c)"
  by (auto simp: cached_entry_def Let_def entry_of_def certifies_def res_bind_Inr_iff
      dest: certified_receipt_certifies split: if_splits)

lemma calculation_result_certifies:
  assumes "calculation_result env spm warnings raw = Inr r"
  shows "\<exists>v. validated_spm_provenance (hx_install (ca_context env)) v spm = Inr (hr_spm_provenance r)"
    and "\<not> hr_cached r"
proof -
  obtain h ws v where raw: "raw_parts raw = (h, ws, v)" by (cases "raw_parts raw")
  have "validated_spm_provenance (hx_install (ca_context env)) v spm = Inr (hr_spm_provenance r) \<and> \<not> hr_cached r"
    using assms
    by (cases "validated_spm_provenance (hx_install (ca_context env)) v spm")
      (auto simp: calculation_result_def raw raised_def)
  then show "\<exists>v. validated_spm_provenance (hx_install (ca_context env)) v spm = Inr (hr_spm_provenance r)" "\<not> hr_cached r"
    by auto
qed

lemma calc_bind_Inr: "calc_bind m f = Inr y \<longleftrightarrow> (\<exists>x. m = Inr x \<and> f x = Inr y)"
  by (cases m) auto

lemma compute_stored_certifies:
  assumes "compute_stored env c inputs = Inr r"
  shows "\<exists>v. validated_spm_provenance (hx_install (ca_context env)) v (si_spm inputs) = Inr (hr_spm_provenance r)"
    and "\<not> hr_cached r"
  using assms calculation_result_certifies
  by (auto simp: compute_stored_def Let_def calc_bind_Inr split: prod.splits)

text \<open>The ways an answer for a stored household comes about.\<close>

lemma calculate_stored_cases:
  assumes "calculate_stored_household env client hdb pdb country_id i j w = (Inr r, w')"
  obtains (hit) version inputs c where "rt_country (ca_versions env) country_id = Some version"
      and "get_inputs env hdb pdb country_id i j = Inr inputs"
      and "cached_calculation_get (ca_context env) client
             (cache_identity env country_id (si_household inputs) (si_policy inputs) version (si_spm inputs)) w = (Inr (Some c), w')"
      and "r = result_of_entry c"
    | (miss) version inputs w1 b where "rt_country (ca_versions env) country_id = Some version"
      and "get_inputs env hdb pdb country_id i j = Inr inputs"
      and "cached_calculation_get (ca_context env) client
             (cache_identity env country_id (si_household inputs) (si_policy inputs) version (si_spm inputs)) w = (Inr None, w1)"
      and "compute_stored env country_id inputs = Inr r"
      and "cached_calculation_set (ca_context env) client
             (cache_identity env country_id (si_household inputs) (si_policy inputs) version (si_spm inputs))
             (entry_of_result r) w1 = (Inr b, w')"
  using assms
  by (auto simp: calculate_stored_household_def Let_def split: option.splits sum.splits prod.splits)

text \<open>
  C13. Whatever its cache holds or the country model returns, an answer for a stored household
  carries no receipt when its saved selection resolves to none, and otherwise a valid receipt
  whose configuration is the resolved selection.
\<close>

theorem stored_answers_certified:
  assumes "calculate_stored_household env client hdb pdb country_id i j w = (Inr r, w')"
  shows "\<exists>inputs. get_inputs env hdb pdb country_id i j = Inr inputs
     \<and> certifies (hx_install (ca_context env)) (si_spm inputs) (hr_spm_provenance r)"
  using assms
proof (cases rule: calculate_stored_cases)
  case (hit version inputs c)
  then have "\<exists>payload. cached_entry (hx_install (ca_context env))
      (cache_identity env country_id (si_household inputs) (si_policy inputs) version (si_spm inputs)) payload = Inr (Some c)"
    by (auto simp: cached_calculation_get_def bindA_def liftA_def split: prod.splits sum.splits)
  with hit(2,4) cached_entry_certifies show ?thesis by (fastforce simp: cache_identity_def result_of_entry_def)
next
  case (miss version inputs w1 b)
  with compute_stored_certifies(1) [OF miss(4)] validated_provenance_certifies(1) show ?thesis by blast
qed

section \<open>Replayed answers\<close>

definition replayed :: "cached_calculation \<Rightarrow> cached_calculation" where
  "replayed v = v\<lparr>cc_household := object_of (sort_keys (JObj (cc_household v)))\<rparr>"

definition sorted_payload :: "cached_calculation \<Rightarrow> (string \<times> json) list" where
  "sorted_payload v =
     [(''household'', sort_keys (JObj (cc_household v))), (''warnings'', JArr (map JStr (cc_warnings v))),
      (''spm_provenance'', sort_keys (cc_spm_provenance v))]"

lemma sort_calculation_payload: "sort_keys (calculation_payload v) = JObj (sort_key fst (sorted_payload v))"
  by (simp add: calculation_payload_def sorted_payload_def sort_keys_texts)

lemma sorted_payload_get:
  "dict_get_none (sort_key fst (sorted_payload v)) ''household'' = sort_keys (JObj (cc_household v))"
  "dict_get_none (sort_key fst (sorted_payload v)) ''warnings'' = JArr (map JStr (cc_warnings v))"
  "dict_get_none (sort_key fst (sorted_payload v)) ''spm_provenance'' = sort_keys (cc_spm_provenance v)"
  "map_of (sort_key fst (sorted_payload v)) ''spm_config'' = None"
proof -
  have "distinct (map fst (sorted_payload v))" by (simp add: sorted_payload_def)
  note get = map_of_sort_key_fst [OF this]
  show "dict_get_none (sort_key fst (sorted_payload v)) ''household'' = sort_keys (JObj (cc_household v))"
    "dict_get_none (sort_key fst (sorted_payload v)) ''warnings'' = JArr (map JStr (cc_warnings v))"
    "dict_get_none (sort_key fst (sorted_payload v)) ''spm_provenance'' = sort_keys (cc_spm_provenance v)"
    "map_of (sort_key fst (sorted_payload v)) ''spm_config'' = None"
    unfolding dict_get_none_def get by (simp_all add: sorted_payload_def)
qed

text \<open>A value the cache may hold for an identity: its receipt is the one a read checks.\<close>

definition cacheable :: "spm_install \<Rightarrow> json \<Rightarrow> cached_calculation \<Rightarrow> bool" where
  "cacheable inst spm v \<longleftrightarrow>
     (if spm = JNull then cc_spm_provenance v = JNull
      else is_object (cc_spm_provenance v)
        \<and> certified_receipt inst (cc_spm_provenance v) spm = Inr (Some (cc_spm_provenance v))
        \<and> certified_receipt inst (sort_keys (cc_spm_provenance v)) spm = Inr (Some (cc_spm_provenance v)))"

lemma cached_entry_of_payload:
  assumes "cacheable inst (hi_spm identity) v"
  shows "cached_entry inst identity (sort_keys (calculation_payload v)) = Inr (Some (replayed v))"
proof -
  let ?d = "sort_key fst (sorted_payload v)"
  have texts: "list_all is_text (map JStr ws)" "map text_of (map JStr ws) = ws" for ws
    by (induction ws) (simp_all add: is_text_def text_of_def)
  have receipt: "sort_keys (cc_spm_provenance v) = JNull \<or> is_object (sort_keys (cc_spm_provenance v))"
    using assms by (cases "cc_spm_provenance v") (auto simp: cacheable_def split: if_splits)
  have "is_well_formed_entry (JObj ?d)"
    using receipt by (simp add: is_well_formed_entry_def sorted_payload_get texts(1))
  moreover have "entry_of ?d r = (replayed v)\<lparr>cc_spm_provenance := r\<rparr>" for r
    by (cases v) (simp add: entry_of_def sorted_payload_get replayed_def text_of_def comp_def)
  ultimately show ?thesis
    using assms
    by (cases "hi_spm identity = JNull")
      (simp_all add: sort_calculation_payload cached_entry_def object_of_def sorted_payload_get cacheable_def replayed_def)
qed

context cache_store
begin

lemma calculation_get_after_set:
  assumes "default_jittered_ttl (hx_draw x) HOUSEHOLD_CALCULATION_TTL_SECONDS = Inr ttl"
    and "wf_json (calculation_payload v)" and "cacheable (hx_install x) (hi_spm identity) v"
    and "cached_calculation_set x client identity v w = (r, w')"
  shows "fst (cached_calculation_get x client identity w') = Inr (Some (replayed v))"
proof -
  have "json_cache_set (hx_sha x) (hx_draw x) client (hx_namespace x) household_cache (identity_inputs identity)
      (calculation_payload v) w = (r, w')"
    using assms(3,4)
    by (cases "hi_spm identity = JNull")
      (simp_all add: cached_calculation_set_def cacheable_def bindA_def liftA_def)
  from json_cache_get_after_set [OF _ assms(2) this, of ttl] assms(1)
  have "fst (json_cache_get (hx_sha x) client (hx_namespace x) household_cache (identity_inputs identity) w')
      = Inr (sort_keys (calculation_payload v))"
    by (simp add: household_cache_def)
  then show ?thesis
    using cached_entry_of_payload [OF assms(3)]
    by (cases "json_cache_get (hx_sha x) client (hx_namespace x) household_cache (identity_inputs identity) w'")
      (simp add: cached_calculation_get_def bindA_def liftA_def)
qed

end

definition replayed_result :: "household_calculation_result \<Rightarrow> household_calculation_result" where
  "replayed_result r =
     r\<lparr>hr_household := object_of (sort_keys (JObj (hr_household r))), hr_cached := True\<rparr>"

text \<open>
  C26. On the in-memory cache, a calculated answer for a stored household is given again to the
  next request, with the same warnings and receipt and the keys of the household sorted,
  whatever the country model or the date have become.
\<close>

theorem stored_calculation_replays:
  assumes "calculate_stored_household env mem_client hdb pdb country_id i j m = (Inr r, m')" and "\<not> hr_cached r"
    and "wf_json (calculation_payload (entry_of_result r))"
    and "reads_iso_dates (hx_install (ca_context env))" and "reads_calendar_dates (hx_install (ca_context env))"
    and "default_jittered_ttl (hx_draw (ca_context env)) HOUSEHOLD_CALCULATION_TTL_SECONDS = Inr ttl"
  shows "fst (calculate_stored_household (env\<lparr>ca_country := country', ca_year := year'\<rparr>) mem_client hdb pdb
              country_id i j m') = Inr (replayed_result r)"
  using assms(1)
proof (cases rule: calculate_stored_cases)
  case (hit version inputs c)
  with assms(2) show ?thesis by (simp add: result_of_entry_def)
next
  case (miss version inputs w1 b)
  let ?x = "ca_context env"
  let ?identity = "cache_identity env country_id (si_household inputs) (si_policy inputs) version (si_spm inputs)"
  obtain v where v: "validated_spm_provenance (hx_install ?x) v (si_spm inputs) = Inr (hr_spm_provenance r)"
    using compute_stored_certifies(1) [OF miss(4)] by blast
  have "cacheable (hx_install ?x) (hi_spm ?identity) (entry_of_result r)"
  proof (cases "si_spm inputs = JNull")
    case True
    with v show ?thesis
      by (simp add: cacheable_def cache_identity_def entry_of_result_def validated_spm_provenance_def split: if_splits)
  next
    case False
    with validated_provenance_certifies(2) [OF v assms(5,4)] show ?thesis
      by (auto simp: cacheable_def cache_identity_def entry_of_result_def provenance_dump_def)
  qed
  from memory.calculation_get_after_set [OF assms(6,3) this miss(5)] obtain m2 where
    get: "cached_calculation_get ?x mem_client ?identity m' = (Inr (Some (replayed (entry_of_result r))), m2)"
    by (metis prod.collapse)
  have "get_inputs (env\<lparr>ca_country := country', ca_year := year'\<rparr>) hdb pdb country_id i j = Inr inputs"
    using miss(2) by (simp add: get_inputs_def cong: option.case_cong)
  moreover have "cache_identity (env\<lparr>ca_country := country', ca_year := year'\<rparr>) country_id (si_household inputs)
      (si_policy inputs) version (si_spm inputs) = ?identity"
    by (simp add: cache_identity_def)
  moreover have "result_of_entry (replayed (entry_of_result r)) = replayed_result r"
    by (cases r) (simp add: result_of_entry_def replayed_def entry_of_result_def replayed_result_def)
  ultimately show ?thesis
    using miss(1) get by (simp add: calculate_stored_household_def)
qed

section \<open>Examples\<close>

text \<open>A US household with a saved selection, and a country model that certifies it.\<close>

definition selected_receipt :: provenance where
  "selected_receipt = example_receipt\<lparr>pv_as_of := None\<rparr>"

definition certifying_country :: country_model where
  "certifying_country =
     \<lparr>cm_variables = [], cm_entities = [], cm_parameters = [], cm_prepare = (\<lambda>h p s. Inr ()),
      cm_calculate = (\<lambda>h p s. Inr (CountryResult [(''people'', JObj [])] [''a warning''] (provenance_dump selected_receipt)))\<rparr>"

definition example_calculation_env :: calculation_env where
  "example_calculation_env =
     \<lparr>ca_context = \<lparr>hx_sha = (\<lambda>s. s), hx_draw = (\<lambda>a b. a),
                    hx_namespace = \<lparr>environment = ''prod'', service = ''api''\<rparr>, hx_install = iso_install\<rparr>,
      ca_versions = pe_versions example_policy_env, ca_core_period = (\<lambda>v. True), ca_country = (\<lambda>c. certifying_country),
      ca_year = 2026, ca_variables = (\<lambda>v. None), ca_digest = (\<lambda>s. s)\<rparr>"

definition saved_households :: household_db where
  "saved_households =
     \<lparr>hd_households = [\<lparr>hh_id = 1, hh_country_id = ''us'', hh_label = None, hh_api_version = ''2.1'',
                        hh_json = [(''spm'', example_resolved)], hh_hash = ''h''\<rparr>],
      hd_events = [], hd_next_household = 2, hd_next_event = 1\<rparr>"

definition saved_policies :: policy_db where
  "saved_policies =
     \<lparr>pd_policies = [\<lparr>pol_id = 1, pol_country_id = ''us'', pol_label = None, pol_api_version = ''2.1'',
                      pol_json = JObj [], pol_hash = ''p''\<rparr>], pd_next_policy = 2, pd_mirrored = []\<rparr>"

definition calculated_result :: household_calculation_result where
  "calculated_result =
     \<lparr>hr_household = [(''people'', JObj [])], hr_warnings = [''a warning''], hr_cached = False,
      hr_spm_provenance = provenance_dump selected_receipt\<rparr>"

lemma iso_install_calendar: "reads_calendar_dates iso_install"
proof -
  have "iso_date_of v = Some d \<Longrightarrow> calendar_date d" for v d
    by (cases v) (auto simp: exact_iso_date_def simp del: calendar_date.simps split: if_splits)
  then show ?thesis by (simp add: reads_calendar_dates_def iso_install_def del: split_paired_All calendar_date.simps)
qed

lemma selected_receipt_certifies:
  "validated_spm_provenance iso_install (provenance_dump selected_receipt) example_resolved
     = Inr (provenance_dump selected_receipt)"
proof -
  have ok: "provenance_ok selected_receipt" by code_simp
  have conf: "case resolved_spm_configuration iso_install selected_receipt of
      Inr c \<Rightarrow> same_dict (configuration_dump c) example_resolved | Inl e \<Rightarrow> False" by code_simp
  have "example_resolved \<noteq> JNull" by (simp add: example_resolved_def)
  with provenance_of_dump [OF ok iso_install_reads] conf show ?thesis
    by (auto simp: validated_spm_provenance_def validate_spm_calculation_provenance_def split: sum.splits)
qed

lemma saved_inputs:
  "\<exists>inputs. get_inputs example_calculation_env saved_households saved_policies ''us'' 1 1 = Inr inputs
     \<and> si_spm inputs = example_resolved \<and> hh_json (si_household inputs) = [(''spm'', example_resolved)]
     \<and> pol_json (si_policy inputs) = JObj []"
proof -
  have "normalize_spm_selection iso_install ''us'' example_resolved True = Inr example_resolved" by code_simp
  then show ?thesis
    by (simp add: get_inputs_def saved_households_def saved_policies_def dict_get_none_def example_calculation_env_def
        raised_def)
qed

lemma saved_computed:
  assumes "get_inputs example_calculation_env saved_households saved_policies ''us'' 1 1 = Inr inputs"
  shows "compute_stored example_calculation_env ''us'' inputs = Inr calculated_result"
proof -
  from saved_inputs assms have inputs: "si_spm inputs = example_resolved" "pol_json (si_policy inputs) = JObj []"
    "hh_json (si_household inputs) = [(''spm'', example_resolved)]" by auto
  have country: "ca_country example_calculation_env c = certifying_country" for c
    by (simp add: example_calculation_env_def)
  have "add_yearly_variables example_calculation_env certifying_country (JObj []) = Inr (JObj [])"
    by (simp add: add_yearly_variables_def get_household_year_def get_or_empty_def certifying_country_def object_of_def)
  moreover have "checked_inputs example_calculation_env certifying_country (JObj []) (JObj []) = Inr (JObj [], [])"
  proof -
    have "find_invalid_inputs (ca_core_period example_calculation_env) (JObj []) (JObj []) (model_metadata certifying_country)
        = Inr []" by code_simp
    then show ?thesis by (simp add: checked_inputs_def drop_deprecated_inputs_def drop_deprecated_axes_def raised_def)
  qed
  ultimately show ?thesis
    using selected_receipt_certifies
    by (simp add: compute_stored_def country inputs raised_def Let_def certifying_country_def calculation_result_def
        calculated_result_def example_calculation_env_def)
qed

lemma saved_calculated:
  "\<exists>m. calculate_stored_household example_calculation_env mem_client saved_households saved_policies ''us'' 1 1 empty_mem
     = (Inr calculated_result, m)"
proof -
  let ?x = "ca_context example_calculation_env"
  obtain inputs where inputs: "get_inputs example_calculation_env saved_households saved_policies ''us'' 1 1 = Inr inputs"
    and spm: "si_spm inputs = example_resolved" using saved_inputs by blast
  define identity where "identity = cache_identity example_calculation_env ''us'' (si_household inputs) (si_policy inputs)
    ''2.1'' (si_spm inputs)"
  obtain w1 where "json_cache_get (hx_sha ?x) mem_client (hx_namespace ?x) household_cache (identity_inputs identity) empty_mem
      = (Inr JNull, w1)"
    using memory.json_cache_get_law [of "hx_sha ?x" "hx_namespace ?x" household_cache "identity_inputs identity" empty_mem]
    by (auto simp: decode_envelope_def mem_live_def empty_mem_def)
  then have get: "cached_calculation_get ?x mem_client identity empty_mem = (Inr None, w1)"
    by (simp add: cached_calculation_get_def bindA_def liftA_def cached_entry_def is_well_formed_entry_def)
  have "certified_receipt iso_install (provenance_dump selected_receipt) example_resolved
      = Inr (Some (provenance_dump selected_receipt))"
    using selected_receipt_certifies
    by (auto simp: validated_spm_provenance_def certified_receipt_def example_resolved_def res_bind_Inr_iff split: if_splits)
  moreover have "hx_install ?x = iso_install" "hi_spm identity = example_resolved" "example_resolved \<noteq> JNull"
    "cc_spm_provenance (entry_of_result calculated_result) = provenance_dump selected_receipt"
    "(entry_of_result calculated_result)\<lparr>cc_spm_provenance := provenance_dump selected_receipt\<rparr>
      = entry_of_result calculated_result"
    using spm by (simp_all add: example_calculation_env_def identity_def cache_identity_def entry_of_result_def
      calculated_result_def example_resolved_def)
  ultimately obtain w2 where "cached_calculation_set ?x mem_client identity (entry_of_result calculated_result) w1 = (Inr True, w2)"
    using memory.json_cache_set_law [of "hx_draw ?x" household_cache _ "hx_sha ?x" "hx_namespace ?x" "identity_inputs identity"
        "calculation_payload (entry_of_result calculated_result)" w1]
    by (auto simp: cached_calculation_set_def bindA_def liftA_def example_calculation_env_def household_cache_def
        default_jittered_ttl_def jittered_ttl_def COMPLETED_RESULT_TTL_JITTER_FRACTION_def HOUSEHOLD_CALCULATION_TTL_SECONDS_def Let_def)
  moreover have "rt_country (ca_versions example_calculation_env) ''us'' = Some ''2.1''"
    by (simp add: example_calculation_env_def example_policy_env_def)
  ultimately show ?thesis
    using get saved_computed [OF inputs] inputs
    by (simp add: calculate_stored_household_def identity_def Let_def)
qed

theorem stored_answers_certified_witness:
  "\<exists>p. hr_spm_provenance calculated_result = provenance_dump p
     \<and> (\<exists>c. resolved_spm_configuration iso_install p = Inr c \<and> same_dict (configuration_dump c) example_resolved)"
proof -
  obtain m where run: "calculate_stored_household example_calculation_env mem_client saved_households saved_policies
      ''us'' 1 1 empty_mem = (Inr calculated_result, m)" using saved_calculated by blast
  from stored_answers_certified [OF run] saved_inputs
  have "certifies (hx_install (ca_context example_calculation_env)) example_resolved (hr_spm_provenance calculated_result)"
    by auto
  then show ?thesis by (auto simp: certifies_def example_resolved_def example_calculation_env_def)
qed

theorem stored_calculation_replays_witness:
  "\<exists>m m'. calculate_stored_household example_calculation_env mem_client saved_households saved_policies ''us'' 1 1 empty_mem
       = (Inr calculated_result, m)
     \<and> calculate_stored_household (example_calculation_env\<lparr>ca_country := undefined, ca_year := 2030\<rparr>) mem_client
         saved_households saved_policies ''us'' 1 1 m = (Inr (calculated_result\<lparr>hr_cached := True\<rparr>), m')"
proof -
  obtain m where run: "calculate_stored_household example_calculation_env mem_client saved_households saved_policies
      ''us'' 1 1 empty_mem = (Inr calculated_result, m)" using saved_calculated by blast
  have wf: "wf_json (calculation_payload (entry_of_result calculated_result))" by code_simp
  have reads: "reads_iso_dates (hx_install (ca_context example_calculation_env))"
    "reads_calendar_dates (hx_install (ca_context example_calculation_env))"
    using iso_install_reads iso_install_calendar by (simp_all add: example_calculation_env_def)
  have ttl: "\<exists>ttl. default_jittered_ttl (hx_draw (ca_context example_calculation_env)) HOUSEHOLD_CALCULATION_TTL_SECONDS = Inr ttl"
    by (simp add: example_calculation_env_def default_jittered_ttl_def jittered_ttl_def
        COMPLETED_RESULT_TTL_JITTER_FRACTION_def HOUSEHOLD_CALCULATION_TTL_SECONDS_def Let_def)
  then obtain ttl where ttl: "default_jittered_ttl (hx_draw (ca_context example_calculation_env)) HOUSEHOLD_CALCULATION_TTL_SECONDS
      = Inr ttl" by blast
  have "replayed_result calculated_result = calculated_result\<lparr>hr_cached := True\<rparr>"
    by (simp add: replayed_result_def calculated_result_def object_of_def)
  moreover have "\<not> hr_cached calculated_result" by (simp add: calculated_result_def)
  ultimately have "fst (calculate_stored_household (example_calculation_env\<lparr>ca_country := undefined, ca_year := 2030\<rparr>)
      mem_client saved_households saved_policies ''us'' 1 1 m) = Inr (calculated_result\<lparr>hr_cached := True\<rparr>)"
    using stored_calculation_replays [OF run _ wf reads ttl, where country' = undefined and year' = 2030] by simp
  with run show ?thesis by (metis prod.collapse)
qed

end
