(* ===== verification/Calculation_Inputs.thy ===== *)
theory Calculation_Inputs
  imports Household_Calculations
begin

text \<open>
  What completing a household comes to: the loop over the variables of the country model does
  what completing each entity on its own does, and a household it cannot walk makes the
  request fail before its inputs are checked.
\<close>

section \<open>Completing each entity on its own\<close>

text \<open>
  The specification: a yearly, monthly or eternal variable of the group's entity that is not
  entered, and the one value it gets.
\<close>

definition lacks :: "country_model \<Rightarrow> string \<Rightarrow> (string \<times> json) list \<Rightarrow> string \<times> model_variable \<Rightarrow> bool" where
  "lacks country entity_plural m variable \<longleftrightarrow>
     (mv_definition_period (snd variable) = ''year'' \<or> mv_definition_period (snd variable) = ''month''
       \<or> mv_definition_period (snd variable) = ''eternity'')
     \<and> (case map_of (cm_entities country) (mv_entity (snd variable)) of
          Some entity \<Rightarrow> plural entity = Some entity_plural | None \<Rightarrow> False)
     \<and> fst variable \<notin> fst ` set m"

definition completed_value :: "string \<Rightarrow> model_variable \<Rightarrow> json" where
  "completed_value year v =
     (if mv_is_input v then JObj [(year, mv_default_value v)] else JObj [(year, JNull)])"

definition complete_entity ::
  "country_model \<Rightarrow> string \<Rightarrow> (string \<times> model_variable) list \<Rightarrow> string \<Rightarrow> json \<Rightarrow> json" where
  "complete_entity country year variables entity_plural entity =
     (case entity of
        JObj m \<Rightarrow> JObj (m @ map (\<lambda>(name, v). (name, completed_value year v)) (filter (lacks country entity_plural m) variables))
      | x \<Rightarrow> x)"

definition complete_group ::
  "country_model \<Rightarrow> string \<Rightarrow> (string \<times> model_variable) list \<Rightarrow> string \<times> json \<Rightarrow> string \<times> json" where
  "complete_group country year variables grp =
     (case grp of
        (entity_plural, JObj entities) \<Rightarrow>
          (entity_plural, JObj (map (\<lambda>(i, e). (i, complete_entity country year variables entity_plural e)) entities))
      | x \<Rightarrow> x)"

text \<open>The households the loop can walk, and the variables whose entities have a plural.\<close>

definition yearly_plural :: "country_model \<Rightarrow> (string \<times> model_variable) list \<Rightarrow> string \<Rightarrow> bool" where
  "yearly_plural country variables entity_plural \<longleftrightarrow>
     (\<exists>v\<in>snd ` set variables. mv_definition_period v \<in> set YEARLY_PERIODS \<and> plural_of country (mv_entity v) = Inr entity_plural)"

definition walkable_group :: "json \<Rightarrow> bool" where
  "walkable_group g = (case g of JObj entities \<Rightarrow> list_all is_object (map snd entities) | x \<Rightarrow> False)"

definition plurals_known :: "country_model \<Rightarrow> (string \<times> model_variable) list \<Rightarrow> bool" where
  "plurals_known country variables \<longleftrightarrow>
     (\<forall>v\<in>snd ` set variables. mv_definition_period v \<in> set YEARLY_PERIODS \<longrightarrow> (\<exists>p. plural_of country (mv_entity v) = Inr p))"

lemma lacks_iff:
  "lacks country p m v \<longleftrightarrow> mv_definition_period (snd v) \<in> set YEARLY_PERIODS
     \<and> plural_of country (mv_entity (snd v)) = Inr p \<and> map_of m (fst v) = None"
  unfolding lacks_def map_of_eq_None_iff [of m]
  by (auto simp: YEARLY_PERIODS_def plural_of_def split: option.splits)

lemma added_value_completed: "added_value year v = completed_value year v"
  by (simp add: added_value_def completed_value_def)

lemma complete_entity_object [simp]: "is_object (complete_entity country year vs p e) \<longleftrightarrow> is_object e"
  by (cases e) (simp_all add: complete_entity_def)

lemma complete_entity_Nil [simp]: "complete_entity country year [] p e = e"
  by (cases e) (simp_all add: complete_entity_def)

lemma complete_entity_Cons:
  assumes "fst v \<notin> fst ` set vs"
  shows "complete_entity country year vs p (complete_entity country year [v] p e) = complete_entity country year (v # vs) p e"
proof (cases "\<exists>m. e = JObj m")
  case True
  then obtain m where m: "e = JObj m" by blast
  obtain name w where v: "v = (name, w)" by fastforce
  let ?m = "if lacks country p m v then m @ [(name, completed_value year w)] else m"
  have "filter (lacks country p ?m) vs = filter (lacks country p m) vs"
    by (rule filter_cong [OF refl]) (use assms v in \<open>auto simp: lacks_iff image_iff\<close>)
  then show ?thesis by (cases "lacks country p m v") (simp_all add: m complete_entity_def v)
qed (cases e; simp add: complete_entity_def)

lemma complete_group_Nil [simp]: "complete_group country year [] g = g"
  by (cases g; cases "snd g") (auto simp: complete_group_def)

lemma complete_group_fst [simp]: "fst (complete_group country year vs g) = fst g"
  by (cases g; cases "snd g") (auto simp: complete_group_def)

lemma complete_group_Cons:
  assumes "fst v \<notin> fst ` set vs"
  shows "complete_group country year vs (complete_group country year [v] g) = complete_group country year (v # vs) g"
  by (cases g; cases "snd g") (auto simp: complete_group_def complete_entity_Cons [OF assms])

lemma add_to_entities_complete:
  assumes "list_all is_object (map snd es)" and "mv_definition_period v \<in> set YEARLY_PERIODS"
    and "plural_of country (mv_entity v) = Inr p"
  shows "add_to_entities year name v es = Inr (map (\<lambda>(i, e). (i, complete_entity country year [(name, v)] p e)) es)"
  using assms(1)
proof (induction es)
  case (Cons x es)
  obtain i e where x: "x = (i, e)" by fastforce
  with Cons.prems obtain m where "e = JObj m" by (cases e) auto
  with x Cons assms(2,3) show ?case
    by (simp add: add_to_entity_def complete_entity_def lacks_iff added_value_completed)
qed simp

lemma complete_group_other:
  assumes "\<not> (mv_definition_period (snd v) \<in> set YEARLY_PERIODS \<and> plural_of country (mv_entity (snd v)) = Inr (fst g))"
  shows "complete_group country year [v] g = g"
proof -
  have "complete_entity country year [v] (fst g) e = e" for e
    using assms by (cases e) (auto simp: complete_entity_def lacks_iff)
  then show ?thesis by (cases g; cases "snd g") (auto simp: complete_group_def)
qed

lemma update_is_map:
  "distinct (map fst d) \<Longrightarrow> map_of d k = Some x \<Longrightarrow> AList.update k y d = map (\<lambda>g. if fst g = k then (k, y) else g) d"
proof (induction d)
  case (Cons g d)
  obtain k' x' where g: "g = (k', x')" by fastforce
  show ?case
  proof (cases "k' = k")
    case True
    with Cons.prems(1) g have "map (\<lambda>g. if fst g = k then (k, y) else g) d = d" by (intro map_idI) (auto simp: image_iff)
    with g True show ?thesis by simp
  qed (use Cons g in auto)
qed simp

lemma add_variable_complete:
  assumes "distinct (map fst d)" and "plurals_known country [v]"
    and "\<And>p x. yearly_plural country [v] p \<Longrightarrow> map_of d p = Some x \<Longrightarrow> walkable_group x"
  shows "add_variable country year v d = Inr (map (complete_group country year [v]) d)"
proof (cases "mv_definition_period (snd v) \<in> set YEARLY_PERIODS")
  case False
  then have "map (complete_group country year [v]) d = d" by (intro map_idI) (simp add: complete_group_other)
  with False show ?thesis by (cases v) (simp add: add_variable_def)
next
  case True
  then obtain p where p: "plural_of country (mv_entity (snd v)) = Inr p" using assms(2) by (auto simp: plurals_known_def)
  obtain name w where v: "v = (name, w)" by fastforce
  show ?thesis
  proof (cases "map_of d p")
    case None
    then have "map (complete_group country year [v]) d = d"
      using p by (intro map_idI complete_group_other) (auto simp: map_of_eq_None_iff)
    with True p None v show ?thesis by (simp add: add_variable_def)
  next
    case (Some x)
    have "walkable_group x" by (rule assms(3) [OF _ Some]) (use True p v in \<open>simp add: yearly_plural_def\<close>)
    then obtain es where es: "x = JObj es" "list_all is_object (map snd es)" by (cases x) (auto simp: walkable_group_def)
    let ?es = "map (\<lambda>(i, e). (i, complete_entity country year [v] p e)) es"
    have "add_variable country year v d = Inr (AList.update p (JObj ?es) d)"
      using True p Some es add_to_entities_complete [OF es(2), of w country p year name] v by (simp add: add_variable_def)
    also have "AList.update p (JObj ?es) d = map (complete_group country year [v]) d"
      unfolding update_is_map [OF assms(1) Some]
    proof (rule map_cong [OF refl])
      fix g assume g: "g \<in> set d"
      show "(if fst g = p then (p, JObj ?es) else g) = complete_group country year [v] g"
      proof (cases "fst g = p")
        case True
        with g have "map_of d p = Some (snd g)" using map_of_is_SomeI [OF assms(1), of p "snd g"] True by (cases g) auto
        with Some es(1) True have "g = (p, JObj es)" by (cases g) simp
        then show ?thesis by (simp add: complete_group_def)
      next
        case False
        with p complete_group_other [of v country g year] show ?thesis by simp
      qed
    qed
    finally show ?thesis .
  qed
qed

lemma add_variables_complete:
  assumes "distinct (map fst vs)" and "distinct (map fst d)" and "plurals_known country vs"
    and "\<And>p x. yearly_plural country vs p \<Longrightarrow> map_of d p = Some x \<Longrightarrow> walkable_group x"
  shows "add_variables country year vs d = Inr (map (complete_group country year vs) d)"
  using assms
proof (induction vs arbitrary: d)
  case (Cons v vs)
  let ?d = "map (complete_group country year [v]) d"
  have step: "add_variable country year v d = Inr ?d"
    by (rule add_variable_complete) (use Cons.prems in \<open>auto simp: plurals_known_def yearly_plural_def\<close>)
  have keys: "map fst ?d = map fst d" by (simp add: comp_def)
  have get: "map_of ?d p = map_option (\<lambda>x. snd (complete_group country year [v] (p, x))) (map_of d p)" for p
    by (induction d) (auto simp: comp_def prod_eq_iff)
  have walk: "walkable_group (snd (complete_group country year [v] (p, x))) \<longleftrightarrow> walkable_group x" for p x
    by (cases x) (simp_all add: complete_group_def walkable_group_def list_all_iff case_prod_beta)
  have "add_variables country year vs ?d = Inr (map (complete_group country year vs) ?d)"
  proof (rule Cons.IH)
    show "walkable_group x" if "yearly_plural country vs p" "map_of ?d p = Some x" for p x
      using that Cons.prems(4) walk by (auto simp: get yearly_plural_def)
    show "distinct (map fst ?d)" using Cons.prems(2) by (simp only: keys)
  qed (use Cons.prems in \<open>auto simp: plurals_known_def\<close>)
  moreover have "fst v \<notin> fst ` set vs" using Cons.prems(1) by simp
  ultimately show ?case by (simp add: step complete_group_Cons comp_def)
qed (auto intro!: map_idI [symmetric])

text \<open>
  C28. Completing a household walks its groups once per variable of the country model, and does
  what completing each entity on its own does: every group, entity and entered input stays as it
  is and in its place, and each entity of a variable's group gets, after them, exactly the yearly,
  monthly and eternal variables it lacks, with their default value for an input and null for a
  computed one, under the household's year. The groups of entities with such variables are
  objects of objects, every such entity of the model has a plural, and no name comes twice.
\<close>

theorem add_yearly_variables_completes:
  assumes "get_household_year env (JObj d) = Inr year" and "distinct (map fst (cm_variables country))"
    and "distinct (map fst d)" and "plurals_known country (cm_variables country)"
    and "\<forall>p x. yearly_plural country (cm_variables country) p \<longrightarrow> map_of d p = Some x \<longrightarrow> walkable_group x"
  shows "add_yearly_variables env country (JObj d)
     = Inr (JObj (map (complete_group country year (cm_variables country)) d))"
proof -
  have "add_variables country year (cm_variables country) d = Inr (map (complete_group country year (cm_variables country)) d)"
    by (rule add_variables_complete [OF assms(2-4)]) (use assms(5) in blast)
  then show ?thesis by (simp add: add_yearly_variables_def assms(1) object_of_def)
qed


section \<open>Households the loop cannot walk\<close>

lemma add_to_entities_Inl:
  "add_to_entities year name v es = Inl e \<Longrightarrow> \<exists>m. e = TypeErr m"
  by (induction es) (auto simp: res_bind_Inl_iff add_to_entity_def split: json.splits if_splits)

lemma add_variable_Inl: "add_variable country year v d = Inl e \<Longrightarrow> \<not> is_value_error e"
  by (auto simp: add_variable_def res_bind_Inl_iff plural_of_def attribute_error_def
      split: prod.splits if_splits option.splits json.splits dest: add_to_entities_Inl)

lemma add_variables_Inl: "add_variables country year vs d = Inl e \<Longrightarrow> \<not> is_value_error e"
  by (induction vs arbitrary: d) (auto simp: res_bind_Inl_iff dest: add_variable_Inl)

lemma get_household_year_Inl: "get_household_year env household = Inl e \<Longrightarrow> \<not> is_value_error e"
  by (auto simp: get_household_year_def res_bind_Inl_iff get_or_empty_def attribute_error_def split: json.splits)

lemma add_variable_cases:
  assumes "add_variable country year v d = Inr d'"
  obtains (skipped) "d' = d" and "mv_definition_period (snd v) \<notin> set YEARLY_PERIODS
        \<or> (\<exists>p. plural_of country (mv_entity (snd v)) = Inr p \<and> map_of d p = None)"
    | (walked) p es es' where "plural_of country (mv_entity (snd v)) = Inr p" and "map_of d p = Some (JObj es)"
      and "d' = AList.update p (JObj es') d"
proof (cases "mv_definition_period (snd v) \<in> set YEARLY_PERIODS")
  case True
  obtain name w where v: "v = (name, w)" by fastforce
  with assms True obtain p where p: "plural_of country (mv_entity w) = Inr p"
    by (auto simp: add_variable_def res_bind_Inr_iff)
  show thesis
  proof (cases "map_of d p")
    case None
    with assms True v p show thesis by (intro skipped) (auto simp: add_variable_def)
  next
    case (Some x)
    with assms True v p obtain es where "x = JObj es" by (cases x) (auto simp: add_variable_def)
    with assms True v p Some have "\<exists>es'. d' = AList.update p (JObj es') d"
      by (auto simp: add_variable_def res_bind_Inr_iff)
    with v p Some \<open>x = JObj es\<close> walked show thesis by auto
  qed
next
  case False
  with assms have "d' = d" by (cases v) (simp add: add_variable_def)
  with False show thesis by (intro skipped) simp_all
qed

lemma add_variable_keeps_malformed:
  assumes "add_variable country year v d = Inr d'" and "map_of d p = Some x" and "\<not> is_object x"
  shows "map_of d' p = Some x"
    and "\<not> (mv_definition_period (snd v) \<in> set YEARLY_PERIODS \<and> plural_of country (mv_entity (snd v)) = Inr p)"
  using assms by (cases rule: add_variable_cases; auto simp: update_conv')+

lemma add_variables_malformed:
  assumes "yearly_plural country vs p" and "map_of d p = Some x" and "\<not> is_object x"
  shows "\<exists>e. add_variables country year vs d = Inl e"
  using assms
proof (induction vs arbitrary: d)
  case (Cons v vs)
  show ?case
  proof (cases "add_variable country year v d")
    case (Inr d')
    note kept = add_variable_keeps_malformed [OF Inr Cons.prems(2,3)]
    then have "yearly_plural country vs p" using Cons.prems(1) by (auto simp: yearly_plural_def)
    from Cons.IH [OF this kept(1) Cons.prems(3)] Inr show ?thesis by simp
  qed simp
qed (simp add: yearly_plural_def)

text \<open>
  C38. A household group that is not an object, of an entity with a yearly variable, makes
  /calculate-full raise an exception that no handler takes, so the request is answered as an
  internal error; /calculate accepts the same payload when its names are known, and leaves the
  country model to report it.
\<close>

theorem malformed_group_breaks_calculate_full:
  assumes "map_of payload ''household'' = Some (JObj d)" and "map_of d p = Some x" and "\<not> is_object x"
    and "yearly_plural (ca_country env c) (cm_variables (ca_country env c)) p"
    and "requested_spm c payload = Inr selection"
    and "normalize_spm_selection (hx_install (ca_context env)) c selection False = Inr spm"
    and "normalize_spm_selection (hx_install (ca_context env)) c spm False = Inr spm'"
    and "checked_inputs env (ca_country env c) (JObj d) (case map_of payload ''policy'' of None \<Rightarrow> JObj [] | Some v \<Rightarrow> v)
           = Inr checked"
  shows "(\<exists>e. validate_calculation_request env True c (JObj payload) = Inl (Unhandled e))
     \<and> (\<exists>prepared. validate_calculation_request env False c (JObj payload) = Inr (spm, prepared)
          \<and> pc_household_json prepared = fst checked)"
proof -
  let ?country = "ca_country env c"
  obtain e where e: "add_yearly_variables env ?country (JObj d) = Inl e" "\<not> is_value_error e"
  proof (cases "get_household_year env (JObj d)")
    case (Inl e)
    with that get_household_year_Inl [OF Inl] show thesis by (simp add: add_yearly_variables_def)
  next
    case (Inr year)
    obtain e where "add_variables ?country year (cm_variables ?country) d = Inl e"
      using add_variables_malformed [OF assms(4,2,3)] by blast
    with Inr that add_variables_Inl [OF this] show thesis by (simp add: add_yearly_variables_def object_of_def)
  qed
  have "validate_calculation_request env True c (JObj payload) = Inl (Unhandled e)"
    using e assms(1,5-7)
    by (simp add: validate_calculation_request_def prepare_household_calculation_def raised_def Let_def)
  moreover have "\<exists>prepared. validate_calculation_request env False c (JObj payload) = Inr (spm, prepared)
      \<and> pc_household_json prepared = fst checked"
    using assms(1,5-8)
    by (cases checked) (simp add: validate_calculation_request_def prepare_household_calculation_def raised_def Let_def)
  ultimately show ?thesis by blast
qed

section \<open>Examples\<close>

text \<open>A model of persons, with an input and a computed variable.\<close>

definition person_country :: country_model where
  "person_country =
     \<lparr>cm_variables = [(''age'', \<lparr>mv_entity = ''person'', mv_definition_period = ''year'', mv_default_value = JInt 40, mv_is_input = True\<rparr>),
                      (''tax'', \<lparr>mv_entity = ''person'', mv_definition_period = ''year'', mv_default_value = JInt 0, mv_is_input = False\<rparr>)],
      cm_entities = [(''person'', \<lparr>plural = Some ''people'', role_plurals = []\<rparr>)], cm_parameters = [],
      cm_prepare = (\<lambda>h p s. Inr ()), cm_calculate = (\<lambda>h p s. Inl (SituationParsing ''malformed''))\<rparr>"

definition person_env :: calculation_env where
  "person_env =
     \<lparr>ca_context = \<lparr>hx_sha = (\<lambda>s. s), hx_draw = (\<lambda>a b. a),
                    hx_namespace = \<lparr>environment = ''prod'', service = ''api''\<rparr>, hx_install = iso_install\<rparr>,
      ca_versions = pe_versions example_policy_env, ca_core_period = (\<lambda>v. True), ca_country = (\<lambda>c. person_country),
      ca_year = 2026, ca_variables = (\<lambda>v. None), ca_digest = (\<lambda>s. s)\<rparr>"

lemma person_country_variables:
  "distinct (map fst (cm_variables person_country))" "plurals_known person_country (cm_variables person_country)"
  "yearly_plural person_country (cm_variables person_country) p \<longleftrightarrow> p = ''people''"
  by (auto simp: person_country_def plurals_known_def yearly_plural_def plural_of_def YEARLY_PERIODS_def)

theorem add_yearly_variables_completes_witness:
  "add_yearly_variables person_env person_country
       (JObj [(''people'', JObj [(''you'', JObj [(''age'', JObj [(''2025'', JInt 30)])]), (''kid'', JObj [])])])
     = Inr (JObj [(''people'', JObj
         [(''you'', JObj [(''age'', JObj [(''2025'', JInt 30)]), (''tax'', JObj [(''2025'', JNull)])]),
          (''kid'', JObj [(''age'', JObj [(''2025'', JInt 40)]), (''tax'', JObj [(''2025'', JNull)])])])])"
    (is "add_yearly_variables _ _ (JObj ?d) = _")
proof -
  have "get_household_year person_env (JObj ?d) = Inr ''2025''" by (simp add: get_household_year_def get_or_empty_def)
  moreover have "walkable_group (snd (hd ?d))" by (simp add: walkable_group_def)
  ultimately have "add_yearly_variables person_env person_country (JObj ?d)
      = Inr (JObj (map (complete_group person_country ''2025'' (cm_variables person_country)) ?d))"
    by (intro add_yearly_variables_completes) (simp_all add: person_country_variables)
  also have "map (complete_group person_country ''2025'' (cm_variables person_country)) ?d
      = [(''people'', JObj
         [(''you'', JObj [(''age'', JObj [(''2025'', JInt 30)]), (''tax'', JObj [(''2025'', JNull)])]),
          (''kid'', JObj [(''age'', JObj [(''2025'', JInt 40)]), (''tax'', JObj [(''2025'', JNull)])])])]"
    by (simp add: complete_group_def complete_entity_def lacks_def person_country_def completed_value_def)
  finally show ?thesis .
qed

theorem malformed_group_breaks_calculate_full_witness:
  "\<exists>e. validate_calculation_request person_env True ''uk'' (JObj [(''household'', JObj [(''people'', JArr [])])])
     = Inl (Unhandled e)"
proof -
  have country: "ca_country person_env ''uk'' = person_country" by (simp add: person_env_def)
  have "find_invalid_inputs (ca_core_period person_env) (JObj [(''people'', JArr [])]) (JObj []) (model_metadata person_country)
      = Inr []" by code_simp
  moreover have "drop_deprecated_inputs (JObj [(''people'', JArr [])]) = (JObj [(''people'', JArr [])], [])" by code_simp
  ultimately have "checked_inputs person_env (ca_country person_env ''uk'') (JObj [(''people'', JArr [])]) (JObj [])
      = Inr (JObj [(''people'', JArr [])], [])"
    by (simp add: country checked_inputs_def raised_def)
  then show ?thesis
    using malformed_group_breaks_calculate_full
      [of "[(''household'', JObj [(''people'', JArr [])])]" "[(''people'', JArr [])]" "''people''" "JArr []" person_env "''uk''"
        JNull JNull JNull "(JObj [(''people'', JArr [])], [])"]
    by (simp add: country person_country_variables requested_spm_def normalize_spm_selection_def)
qed

end
