(* ===== verification/V2_Household_Documents.thy ===== *)
theory V2_Household_Documents
  imports Household_Service
begin

text \<open>
  \<open>policyengine_api/services/v2/households/validators.py\<close> and \<open>transformations.py\<close>: the
  household documents of API v2, their validation and canonical text, and the translation of a
  v1 household into one.

  policyengine-core's reading of a period is a parameter, as is the text of pydantic's errors.
\<close>

section \<open>Limits and fields\<close>

definition MAXIMUM_HOUSEHOLD_ENTITIES :: nat where
  "MAXIMUM_HOUSEHOLD_ENTITIES = 1000"

definition MAXIMUM_HOUSEHOLD_RECORD_VALUES :: nat where
  "MAXIMUM_HOUSEHOLD_RECORD_VALUES = 500"

definition MAXIMUM_IDENTIFIER_LENGTH :: nat where
  "MAXIMUM_IDENTIFIER_LENGTH = 255"

definition SUPPORTED_ENTITY_COLLECTIONS :: "(string \<times> string list) list" where
  "SUPPORTED_ENTITY_COLLECTIONS =
     [(''us'', [''household'', ''family'', ''tax_unit'', ''spm_unit'', ''marital_unit'']),
      (''uk'', [''household'', ''benunit''])]"

definition PERSON_RECORD_FIELDS :: "string list" where
  "PERSON_RECORD_FIELDS = [''id'', ''source_name'', ''values'', ''memberships'']"

definition ENTITY_RECORD_FIELDS :: "string list" where
  "ENTITY_RECORD_FIELDS = [''id'', ''source_name'', ''values'']"

definition REQUIRED_RECORD_FIELDS :: "string list" where
  "REQUIRED_RECORD_FIELDS = [''id'', ''values'']"

definition texts_repr :: "string list \<Rightarrow> string" where
  "texts_repr xs = py_repr (JArr (map JStr xs))"

text \<open>\<open>sorted(set(a) - set(b))\<close>.\<close>

definition sorted_difference :: "string list \<Rightarrow> string list \<Rightarrow> string list" where
  "sorted_difference xs ys = sort (remdups (filter (\<lambda>x. x \<notin> set ys) xs))"

section \<open>What strict JSON refuses\<close>

fun first_some :: "'a option list \<Rightarrow> 'a option" where
  "first_some [] = None"
| "first_some (Some x # xs) = Some x"
| "first_some (None # xs) = first_some xs"

fun json_error :: "nat \<Rightarrow> json \<Rightarrow> string option"
  and json_errors :: "nat \<Rightarrow> json list \<Rightarrow> string option"
  and json_member_errors :: "nat \<Rightarrow> (string \<times> json) list \<Rightarrow> string option" where
  "json_error depth v =
     (if MAXIMUM_JSON_NESTING < depth then Some ''JSON values must not exceed 100 nested containers''
      else case v of
        JArr xs \<Rightarrow> json_errors (depth + 1) xs
      | JObj kvs \<Rightarrow> json_member_errors (depth + 1) kvs
      | x \<Rightarrow> if is_finite_json x then None else Some ''JSON numbers must be finite'')"
| "json_errors depth [] = None"
| "json_errors depth (x # xs) =
     (case json_error depth x of Some m \<Rightarrow> Some m | None \<Rightarrow> json_errors depth xs)"
| "json_member_errors depth [] = None"
| "json_member_errors depth ((k, v) # kvs) =
     (case json_error depth v of Some m \<Rightarrow> Some m | None \<Rightarrow> json_member_errors depth kvs)"

section \<open>Records\<close>

definition require_identifier :: "json \<Rightarrow> string \<Rightarrow> string result" where
  "require_identifier value field_name =
     (case value of
        JStr s \<Rightarrow>
          if py_strip s = [] \<or> MAXIMUM_IDENTIFIER_LENGTH < length s
          then Inl (ValueError (field_name @ '' must be a non-empty string of at most 255 characters'')) else Inr s
      | _ \<Rightarrow> Inl (ValueError (field_name @ '' must be a non-empty string of at most 255 characters'')))"

definition require_values :: "(string \<times> json) list \<Rightarrow> string \<Rightarrow> unit result" where
  "require_values record collection =
     (case dict_get_none record ''values'' of
        JObj values \<Rightarrow>
          if MAXIMUM_HOUSEHOLD_RECORD_VALUES < length values
          then Inl (ValueError (collection @ '' records must contain at most 500 variable values''))
          else (case json_error 0 (JObj values) of Some m \<Rightarrow> Inl (ValueError m) | None \<Rightarrow> Inr ())
      | _ \<Rightarrow> Inl (ValueError (collection @ '' record values must be an object'')))"

definition require_source_name :: "(string \<times> json) list \<Rightarrow> string \<Rightarrow> unit result" where
  "require_source_name record collection =
     (case dict_get_none record ''source_name'' of
        JNull \<Rightarrow> Inr ()
      | source_name \<Rightarrow> res_bind (require_identifier source_name (collection @ '' source_name'')) (\<lambda>s. Inr ()))"

definition require_record_identity :: "json \<Rightarrow> string \<Rightarrow> string result" where
  "require_record_identity record collection =
     (case record of
        JObj d \<Rightarrow>
          (let unknown = sorted_difference (map fst d)
                 (if collection = ''people'' then PERSON_RECORD_FIELDS else ENTITY_RECORD_FIELDS);
               missing = sorted_difference REQUIRED_RECORD_FIELDS (map fst d)
           in if unknown \<noteq> [] \<or> missing \<noteq> []
              then Inl (ValueError (collection @ '' record fields are invalid: missing='' @ texts_repr missing
                          @ '', unsupported='' @ texts_repr unknown))
              else require_identifier (dict_get_none d ''id'') (collection @ '' id''))
      | _ \<Rightarrow> Inl (ValueError (collection @ '' records must be objects'')))"

definition require_record_contents :: "(string \<times> json) list \<Rightarrow> string \<Rightarrow> unit result" where
  "require_record_contents record collection =
     res_bind (require_source_name record collection) (\<lambda>u.
     res_bind (require_values record collection) (\<lambda>u.
       if collection = ''people'' \<and> \<not> is_object (dict_get_none record ''memberships'')
       then Inl (ValueError ''people record memberships must be an object'') else Inr ()))"

text \<open>The records of a collection in their order, with the ids that came before.\<close>

fun check_records :: "string \<Rightarrow> string list \<Rightarrow> json list \<Rightarrow> string list result" where
  "check_records collection ids [] = Inr ids"
| "check_records collection ids (record # records) =
     res_bind (require_record_identity record collection) (\<lambda>record_id.
       if record_id \<in> set ids
       then Inl (ValueError (collection @ '' contains duplicate id '' @ repr_string record_id))
       else res_bind (require_record_contents (object_of record) collection) (\<lambda>u.
              check_records collection (ids @ [record_id]) records))"

definition normalized_collection :: "string \<Rightarrow> json \<Rightarrow> (json list \<times> string list) result" where
  "normalized_collection collection records =
     (case records of
        JArr rs \<Rightarrow>
          if MAXIMUM_HOUSEHOLD_ENTITIES < length rs
          then Inl (ValueError (collection @ '' must contain at most 1000 records''))
          else res_bind (check_records collection [] rs) (\<lambda>ids. Inr (rs, ids))
      | _ \<Rightarrow> Inl (ValueError (collection @ '' must be a list'')))"

section \<open>Documents\<close>

definition require_supported_collections :: "string \<Rightarrow> json \<Rightarrow> string list result" where
  "require_supported_collections country_id doc =
     (case map_of SUPPORTED_ENTITY_COLLECTIONS country_id of
        None \<Rightarrow> Inl (ValueError (''unsupported country_id '' @ repr_string country_id))
      | Some collections \<Rightarrow>
          (case doc of
             JObj d \<Rightarrow>
               (let unsupported = sorted_difference (map fst d)
                      (''people'' # collections @ (if country_id = ''us'' then [''spm''] else []))
                in if unsupported \<noteq> []
                   then Inl (ValueError (''household_data contains unsupported collections: '' @ texts_repr unsupported))
                   else if map_of d ''people'' = None
                   then Inl (ValueError ''household_data must contain people'') else Inr collections)
           | _ \<Rightarrow> Inl (ValueError ''household_data must be an object'')))"

definition normalized_spm_selection :: "json \<Rightarrow> json result" where
  "normalized_spm_selection selection =
     (case selection of
        JObj d \<Rightarrow> (if selection_of selection = None then Inl (ValueError ''spm selection is invalid'') else Inr selection)
      | _ \<Rightarrow> Inl (ValueError ''spm must be an object''))"

text \<open>Collections in the order they are read, each with its records and their ids.\<close>

fun normalized_collections ::
  "(string \<times> json) list \<Rightarrow> string list \<Rightarrow> (string \<times> json list \<times> string list) list result" where
  "normalized_collections d [] = Inr []"
| "normalized_collections d (collection # collections) =
     res_bind (normalized_collection collection (case map_of d collection of None \<Rightarrow> JArr [] | Some v \<Rightarrow> v)) (\<lambda>r.
     res_bind (normalized_collections d collections) (\<lambda>rs. Inr ((collection, r) # rs)))"

definition ids_of :: "(string \<times> json list \<times> string list) list \<Rightarrow> string \<Rightarrow> string list" where
  "ids_of rs collection = (case map_of rs collection of None \<Rightarrow> [] | Some r \<Rightarrow> snd r)"

fun check_memberships ::
  "(string \<times> json list \<times> string list) list \<Rightarrow> (string \<times> json) list \<Rightarrow> unit result" where
  "check_memberships rs [] = Inr ()"
| "check_memberships rs ((collection, entity_id) # memberships) =
     res_bind (require_identifier entity_id (''person '' @ collection @ '' membership'')) (\<lambda>linked_id.
       if linked_id \<notin> set (ids_of rs collection)
       then Inl (ValueError (''person membership references absent '' @ collection @ '' id '' @ repr_string linked_id))
       else check_memberships rs memberships)"

fun require_complete_memberships ::
  "string list \<Rightarrow> (string \<times> json list \<times> string list) list \<Rightarrow> json list \<Rightarrow> unit result" where
  "require_complete_memberships collections rs [] = Inr ()"
| "require_complete_memberships collections rs (person # people) =
     (let memberships = object_of (dict_get_none (object_of person) ''memberships'')
      in if set (map fst memberships) \<noteq> set collections
         then Inl (ValueError ''people record memberships must identify every country-supported entity collection'')
         else res_bind (check_memberships rs memberships) (\<lambda>u. require_complete_memberships collections rs people))"

definition normalize_household_document :: "string \<Rightarrow> json \<Rightarrow> (string \<times> json) list result" where
  "normalize_household_document country_id doc =
     res_bind (require_supported_collections country_id doc) (\<lambda>collections.
       let d = object_of doc
       in res_bind (case map_of d ''spm'' of
                      None \<Rightarrow> Inr []
                    | Some selection \<Rightarrow> res_bind (normalized_spm_selection selection) (\<lambda>s. Inr [(''spm'', s)])) (\<lambda>spm.
          res_bind (normalized_collections d (''people'' # collections)) (\<lambda>rs.
          res_bind (require_complete_memberships collections rs (fst (snd (hd rs)))) (\<lambda>u.
            Inr (spm @ map (\<lambda>(collection, records, ids). (collection, JArr records)) rs)))))"

section \<open>Canonical content\<close>

record v2_input =
  vi_country_id :: string
  vi_default_year :: "int option"
  vi_data :: "(string \<times> json) list"

definition HOUSEHOLD_CANONICALIZATION_VERSION :: int where
  "HOUSEHOLD_CANONICALIZATION_VERSION = 1"

definition record_id :: "json \<Rightarrow> string" where
  "record_id record = (case dict_get_none (object_of record) ''id'' of JStr s \<Rightarrow> s | _ \<Rightarrow> [])"

definition sorted_records :: "string list \<Rightarrow> string \<times> json \<Rightarrow> string \<times> json" where
  "sorted_records collections member =
     (case member of
        (collection, JArr records) \<Rightarrow>
          (collection, JArr (if collection \<in> set (''people'' # collections) then sort_key record_id records else records))
      | x \<Rightarrow> x)"

definition country_collections :: "string \<Rightarrow> string list" where
  "country_collections country_id =
     (case map_of SUPPORTED_ENTITY_COLLECTIONS country_id of None \<Rightarrow> [] | Some cs \<Rightarrow> cs)"

definition canonical_household_document :: "v2_input \<Rightarrow> string" where
  "canonical_household_document i =
     canonical_json (JObj
       [(''canonicalization_version'', JInt HOUSEHOLD_CANONICALIZATION_VERSION),
        (''country_id'', JStr (vi_country_id i)), (''default_year'', opt_int (vi_default_year i)),
        (''household_data'', JObj (map (sorted_records (country_collections (vi_country_id i))) (vi_data i)))])"

section \<open>Inputs\<close>

text \<open>
  policyengine-core's first and last year of a period text, pydantic's report on a refused
  input, the digest of content (hexadecimal), and the id drawn for the n-th new row.
\<close>

record v2_env =
  v2_period :: "string \<Rightarrow> (int \<times> int) option"
  v2_report :: "v2_input \<Rightarrow> string"
  v2_sha256 :: "string \<Rightarrow> string"
  v2_uuid :: "nat \<Rightarrow> string"

definition input_ok :: "v2_input \<Rightarrow> bool" where
  "input_ok i \<longleftrightarrow>
     vi_country_id i \<in> set SUPPORTED_COUNTRY_IDS
     \<and> (case vi_default_year i of None \<Rightarrow> True | Some y \<Rightarrow> 1900 \<le> y \<and> y \<le> 2200)
     \<and> require_json_value 0 (JObj (vi_data i))"

definition creation_input :: "v2_env \<Rightarrow> v2_input \<Rightarrow> v2_input result" where
  "creation_input env i = (if input_ok i then Inr i else Inl (ValueError (v2_report env i)))"

definition normalize_creation_input :: "v2_env \<Rightarrow> v2_input \<Rightarrow> v2_input result" where
  "normalize_creation_input env i =
     res_bind (normalize_household_document (vi_country_id i) (JObj (vi_data i)))
       (\<lambda>d. creation_input env (i\<lparr>vi_data := d\<rparr>))"

section \<open>The default year\<close>

definition period_years :: "v2_env \<Rightarrow> json \<Rightarrow> int list option" where
  "period_years env v =
     (case v of
        JObj periods \<Rightarrow>
          (let years = map (\<lambda>k. if py_upper k = ''ETERNITY'' then Some []
                                  else map_option (\<lambda>(first, last). [first, last]) (v2_period env k)) (map fst periods)
           in if periods = [] \<or> None \<in> set years then None else Some (concat (map the years)))
      | _ \<Rightarrow> None)"

definition derive_default_year :: "v2_env \<Rightarrow> json list \<Rightarrow> int option result" where
  "derive_default_year env all_values =
     (let explicit = map (period_years env) all_values;
          years = remdups (concat (map (\<lambda>e. case e of None \<Rightarrow> [] | Some ys \<Rightarrow> ys) explicit))
      in if length years = 1 then Inr (Some (hd years))
         else if None \<notin> set explicit then Inr None
         else Inl (ValueError ''legacy household has values without explicit periods and no unambiguous default year''))"

section \<open>Translating a v1 household\<close>

definition LEGACY_COLLECTION_NAMES :: "(string \<times> string) list" where
  "LEGACY_COLLECTION_NAMES =
     [(''household'', ''households''), (''family'', ''families''), (''tax_unit'', ''tax_units''),
      (''spm_unit'', ''spm_units''), (''marital_unit'', ''marital_units''), (''benunit'', ''benunits'')]"

definition legacy_name :: "string \<Rightarrow> string" where
  "legacy_name collection = (case map_of LEGACY_COLLECTION_NAMES collection of None \<Rightarrow> [] | Some n \<Rightarrow> n)"

definition stable_ids :: "string \<Rightarrow> string list \<Rightarrow> (string \<times> string) list" where
  "stable_ids kind names =
     map (\<lambda>(i, name). (name, kind @ ''-'' @ show_nat (i + 1))) (List.enumerate 0 (sort names))"

definition id_of :: "string \<Rightarrow> string list \<Rightarrow> string \<Rightarrow> string" where
  "id_of kind names name = (case map_of (stable_ids kind names) name of None \<Rightarrow> [] | Some i \<Rightarrow> i)"

text \<open>What a translation builds up: the memberships of each person, and every value read.\<close>

record translation =
  tr_people :: "string list"
  tr_memberships :: "(string \<times> (string \<times> string) list) list"
  tr_values :: "json list"

definition memberships_of :: "translation \<Rightarrow> string \<Rightarrow> (string \<times> string) list" where
  "memberships_of t person = (case map_of (tr_memberships t) person of None \<Rightarrow> [] | Some ms \<Rightarrow> ms)"

fun record_members :: "string \<Rightarrow> string \<Rightarrow> string list \<Rightarrow> translation \<Rightarrow> translation result" where
  "record_members collection group_id [] t = Inr t"
| "record_members collection group_id (person # people) t =
     (let memberships = memberships_of t person
      in if map_of memberships collection \<notin> {None, Some group_id}
         then Inl (ValueError (''legacy person '' @ repr_string person @ '' belongs to multiple ''
                     @ legacy_name collection @ '' records''))
         else record_members collection group_id people
                (t\<lparr>tr_memberships := AList.update person (AList.update collection group_id memberships) (tr_memberships t)\<rparr>))"

definition text_items :: "json \<Rightarrow> string list option" where
  "text_items v =
     (case v of
        JArr xs \<Rightarrow> if list_all (\<lambda>x. case x of JStr s \<Rightarrow> True | _ \<Rightarrow> False) xs
                   then Some (map (\<lambda>x. case x of JStr s \<Rightarrow> s | _ \<Rightarrow> []) xs) else None
      | _ \<Rightarrow> None)"

definition record_legacy_memberships :: "json \<Rightarrow> string \<Rightarrow> string \<Rightarrow> translation \<Rightarrow> translation result" where
  "record_legacy_memberships members collection group_id t =
     (case text_items members of
        Some names \<Rightarrow>
          if set names \<subseteq> set (tr_people t) then record_members collection group_id names t
          else Inl (ValueError (''legacy '' @ legacy_name collection @ '' members must reference named people''))
      | None \<Rightarrow> Inl (ValueError (''legacy '' @ legacy_name collection @ '' members must reference named people'')))"

fun translate_legacy_group ::
  "(string \<times> json) list \<Rightarrow> string \<Rightarrow> string \<Rightarrow> translation \<Rightarrow> ((string \<times> json) list \<times> translation) result" where
  "translate_legacy_group [] collection group_id t = Inr ([], t)"
| "translate_legacy_group ((name, value) # fs) collection group_id t =
     (if name \<noteq> ''members''
      then res_bind (translate_legacy_group fs collection group_id (t\<lparr>tr_values := tr_values t @ [value]\<rparr>))
             (\<lambda>(values, t'). Inr ((name, value) # values, t'))
      else res_bind (record_legacy_memberships value collection group_id t)
             (translate_legacy_group fs collection group_id))"

text \<open>The groups of a collection, in the order of their names.\<close>

fun translate_groups ::
  "(string \<times> json) list \<Rightarrow> string \<Rightarrow> (string \<Rightarrow> string) \<Rightarrow> string list \<Rightarrow> translation
     \<Rightarrow> (json list \<times> translation) result" where
  "translate_groups groups collection ids [] t = Inr ([], t)"
| "translate_groups groups collection ids (name # names) t =
     (case dict_get_none groups name of
        JObj fs \<Rightarrow>
          res_bind (translate_legacy_group fs collection (ids name) t) (\<lambda>(values, t1).
          res_bind (translate_groups groups collection ids names t1) (\<lambda>(records, t2).
            Inr (JObj [(''id'', JStr (ids name)), (''source_name'', JStr name), (''values'', JObj values)] # records, t2)))
      | _ \<Rightarrow> Inl (ValueError (''legacy '' @ legacy_name collection @ '' records must be objects'')))"

definition translate_legacy_groups ::
  "(string \<times> json) list \<Rightarrow> string \<Rightarrow> translation \<Rightarrow> (json list \<times> translation) result" where
  "translate_legacy_groups source collection t =
     (case (case map_of source (legacy_name collection) of None \<Rightarrow> JObj [] | Some v \<Rightarrow> v) of
        JObj groups \<Rightarrow>
          translate_groups groups collection (id_of collection (map fst groups)) (sort (map fst groups)) t
      | _ \<Rightarrow> Inl (ValueError (''legacy '' @ legacy_name collection @ '' must be an object'')))"

fun translate_collections ::
  "(string \<times> json) list \<Rightarrow> string list \<Rightarrow> translation \<Rightarrow> ((string \<times> json) list \<times> translation) result" where
  "translate_collections source [] t = Inr ([], t)"
| "translate_collections source (collection # collections) t =
     res_bind (translate_legacy_groups source collection t) (\<lambda>(records, t1).
     res_bind (translate_collections source collections t1) (\<lambda>(rest, t2).
       Inr ((collection, JArr records) # rest, t2)))"

definition person_record :: "(string \<times> json) list \<Rightarrow> translation \<Rightarrow> string \<Rightarrow> json" where
  "person_record people t name =
     JObj [(''id'', JStr (id_of ''person'' (map fst people) name)), (''source_name'', JStr name),
           (''values'', dict_get_none people name),
           (''memberships'', JObj (map (\<lambda>(c, i). (c, JStr i)) (memberships_of t name)))]"

definition translate_legacy_people ::
  "(string \<times> json) list \<Rightarrow> translation \<Rightarrow> (json list \<times> json list) result" where
  "translate_legacy_people people t =
     (let names = sort (map fst people)
      in if list_all (\<lambda>name. is_object (dict_get_none people name)) names
         then Inr (map (person_record people t) names,
                   tr_values t @ concat (map (\<lambda>name. map snd (object_of (dict_get_none people name))) names))
         else Inl (ValueError ''legacy person records must be objects''))"

definition require_supported_legacy_collections ::
  "string \<Rightarrow> (string \<times> json) list \<Rightarrow> string list \<Rightarrow> unit result" where
  "require_supported_legacy_collections country_id source collections =
     (let unsupported = sorted_difference (map fst source)
            (''people'' # map legacy_name collections @ (if country_id = ''us'' then [''spm''] else []))
      in if unsupported \<noteq> []
         then Inl (ValueError (''legacy household contains unsupported collections: '' @ texts_repr unsupported))
         else Inr ())"

definition translate_legacy_household :: "v2_env \<Rightarrow> household_snapshot \<Rightarrow> v2_input result" where
  "translate_legacy_household env s =
     (let source = hs_household_json s; country_id = hs_country_id s; collections = country_collections country_id
      in res_bind (require_supported_legacy_collections country_id source collections) (\<lambda>u.
         case (case map_of source ''people'' of None \<Rightarrow> JObj [] | Some v \<Rightarrow> v) of
           JObj people \<Rightarrow>
             res_bind (translate_collections source collections
                         \<lparr>tr_people = map fst people, tr_memberships = map (\<lambda>name. (name, [])) (map fst people),
                          tr_values = []\<rparr>) (\<lambda>(groups, t).
             res_bind (translate_legacy_people people t) (\<lambda>(records, all_values).
             res_bind (normalize_household_document country_id
                         (JObj ((''people'', JArr records) # groups
                                @ (case map_of source ''spm'' of None \<Rightarrow> [] | Some v \<Rightarrow> [(''spm'', v)])))) (\<lambda>normalized.
             res_bind (derive_default_year env all_values) (\<lambda>year.
               creation_input env \<lparr>vi_country_id = country_id, vi_default_year = year, vi_data = normalized\<rparr>))))
         | _ \<Rightarrow> Inl (ValueError ''legacy people must be an object'')))"

end
