(* ===== verification/V2_Households.thy ===== *)
theory V2_Households
  imports V2_Household_Documents "HOL-Library.Product_Lexorder"
begin

text \<open>
  \<open>policyengine_api/services/v2/households/services.py\<close> with its \<open>database_connectors\<close>: API v2's
  immutable households, stored once per content, and the mappings of v1 ids to them.

  A request is one transaction. What other sessions commit between the first read of a copy and
  its writes is a parameter; a conflict of an insert is decided by the rows then stored.
\<close>

section \<open>Rows\<close>

record v2_household =
  vh_id :: string
  vh_country_id :: string
  vh_default_year :: "int option"
  vh_household_data :: "(string \<times> json) list"
  vh_canonicalization_version :: int
  vh_content_hash :: string
  vh_created_at :: int

record v2_mapping =
  vm_country_id :: string
  vm_legacy_household_id :: int
  vm_household_id :: string
  vm_source_api_version :: string
  vm_fingerprint_version :: int
  vm_fingerprint_sha256 :: string

record v2_db =
  v2_households :: "v2_household list"
  v2_mappings :: "v2_mapping list"
  v2_draws :: nat
  v2_clock :: int

definition input_of_row :: "v2_household \<Rightarrow> v2_input" where
  "input_of_row r =
     \<lparr>vi_country_id = vh_country_id r, vi_default_year = vh_default_year r, vi_data = vh_household_data r\<rparr>"

section \<open>Reads\<close>

definition read_household_by_content_identity :: "v2_db \<Rightarrow> int \<Rightarrow> string \<Rightarrow> v2_household option" where
  "read_household_by_content_identity db version content_hash =
     List.find (\<lambda>r. vh_canonicalization_version r = version \<and> vh_content_hash r = content_hash) (v2_households db)"

definition read_household_row :: "v2_db \<Rightarrow> string \<Rightarrow> string \<Rightarrow> v2_household option" where
  "read_household_row db country_id household_id =
     List.find (\<lambda>r. vh_id r = household_id \<and> vh_country_id r = country_id) (v2_households db)"

definition matching_rows :: "v2_db \<Rightarrow> string \<Rightarrow> int option \<Rightarrow> v2_household list" where
  "matching_rows db country_id default_year =
     sort_key (\<lambda>r. (vh_created_at r, vh_id r))
       (filter (\<lambda>r. vh_country_id r = country_id \<and> (default_year = None \<or> vh_default_year r = default_year))
         (v2_households db))"

definition read_household_rows :: "v2_db \<Rightarrow> string \<Rightarrow> int option \<Rightarrow> nat \<Rightarrow> nat \<Rightarrow> v2_household list" where
  "read_household_rows db country_id default_year offset limit =
     take (limit + 1) (drop offset (matching_rows db country_id default_year))"

definition read_legacy_household_mapping :: "v2_db \<Rightarrow> string \<Rightarrow> int \<Rightarrow> v2_mapping option" where
  "read_legacy_household_mapping db country_id legacy_id =
     List.find (\<lambda>m. vm_country_id m = country_id \<and> vm_legacy_household_id m = legacy_id) (v2_mappings db)"

section \<open>Inserts\<close>

definition insert_household :: "v2_env \<Rightarrow> v2_input \<Rightarrow> int \<Rightarrow> string \<Rightarrow> v2_db \<Rightarrow> string option \<times> v2_db" where
  "insert_household env i version content_hash db =
     (let new_id = v2_uuid env (v2_draws db); db' = db\<lparr>v2_draws := v2_draws db + 1\<rparr>
      in if read_household_by_content_identity db version content_hash \<noteq> None then (None, db')
         else (Some new_id, db'\<lparr>v2_households := v2_households db @
                 [\<lparr>vh_id = new_id, vh_country_id = vi_country_id i, vh_default_year = vi_default_year i,
                   vh_household_data = vi_data i, vh_canonicalization_version = version,
                   vh_content_hash = content_hash, vh_created_at = v2_clock db\<rparr>]\<rparr>))"

definition create_legacy_household_mapping ::
  "household_snapshot \<Rightarrow> string \<Rightarrow> int \<Rightarrow> string \<Rightarrow> v2_db \<Rightarrow> bool \<times> v2_db" where
  "create_legacy_household_mapping s household_id fingerprint_version fingerprint db =
     (if read_legacy_household_mapping db (hs_country_id s) (hs_household_id s) \<noteq> None then (False, db)
      else (True, db\<lparr>v2_mappings := v2_mappings db @
              [\<lparr>vm_country_id = hs_country_id s, vm_legacy_household_id = hs_household_id s,
                vm_household_id = household_id, vm_source_api_version = hs_api_version s,
                vm_fingerprint_version = fingerprint_version, vm_fingerprint_sha256 = fingerprint\<rparr>]\<rparr>))"

section \<open>Creating and reading\<close>

definition content_hash_of :: "v2_env \<Rightarrow> v2_input \<Rightarrow> string" where
  "content_hash_of env i = v2_sha256 env (canonical_household_document i)"

text \<open>The id of the stored household, and whether it is new.\<close>

definition create_normalized_household :: "v2_env \<Rightarrow> v2_input \<Rightarrow> (v2_db, string \<times> bool) act" where
  "create_normalized_household env i db =
     (case insert_household env i HOUSEHOLD_CANONICALIZATION_VERSION (content_hash_of env i) db of
        (Some new_id, db') \<Rightarrow> (Inr (new_id, True), db')
      | (None, db') \<Rightarrow>
          (case read_household_by_content_identity db' HOUSEHOLD_CANONICALIZATION_VERSION (content_hash_of env i) of
             None \<Rightarrow> (Inl (RuntimeErr ''household hash conflict did not resolve to a stored household''), db')
           | Some existing \<Rightarrow>
               (case creation_input env (input_of_row existing) of
                  Inl e \<Rightarrow> (Inl e, db')
                | Inr stored \<Rightarrow>
                    if canonical_household_document stored \<noteq> canonical_household_document i
                    then (Inl (RuntimeErr ''stored household content differs for the same canonical version and hash''), db')
                    else (Inr (vh_id existing, False), db'))))"

definition read_complete_household :: "v2_db \<Rightarrow> string \<Rightarrow> string \<Rightarrow> v2_household result" where
  "read_complete_household db country_id household_id =
     (case read_household_row db country_id household_id of
        None \<Rightarrow> Inl (LookupErr (''household '' @ household_id @ '' was not found'')) | Some r \<Rightarrow> Inr r)"

record household_page =
  hp_items :: "v2_household list"
  hp_offset :: nat
  hp_limit :: nat
  hp_has_more :: bool

definition read_household_page :: "v2_db \<Rightarrow> string \<Rightarrow> int option \<Rightarrow> nat \<Rightarrow> nat \<Rightarrow> household_page" where
  "read_household_page db country_id default_year offset limit =
     (let rows = read_household_rows db country_id default_year offset limit
      in \<lparr>hp_items = take limit rows, hp_offset = offset, hp_limit = limit, hp_has_more = limit < length rows\<rparr>)"

text \<open>A transaction leaves nothing of a request that raises but the ids it drew.\<close>

definition v2_transaction :: "(v2_db, 'a) act \<Rightarrow> (v2_db, 'a) act" where
  "v2_transaction m db =
     (case m db of (Inr x, db') \<Rightarrow> (Inr x, db') | (Inl e, db') \<Rightarrow> (Inl e, db\<lparr>v2_draws := v2_draws db'\<rparr>))"

definition create_v2_household :: "v2_env \<Rightarrow> v2_input \<Rightarrow> (v2_db, v2_household \<times> bool) act" where
  "create_v2_household env i =
     bindA (liftA (res_bind (creation_input env i) (normalize_creation_input env))) (\<lambda>normalized.
       v2_transaction (bindA (create_normalized_household env normalized) (\<lambda>(household_id, created).
         \<lambda>db. bindA (liftA (read_complete_household db (vi_country_id normalized) household_id))
                 (\<lambda>item. retA (item, created)) db)))"

section \<open>Copying a v1 household\<close>

record mirror_result =
  mr_household_id :: string
  mr_household_created :: bool
  mr_mapping_created :: bool

definition snapshot_fingerprint :: "v2_env \<Rightarrow> household_snapshot \<Rightarrow> string" where
  "snapshot_fingerprint env s =
     v2_sha256 env (canonical_json
       (JObj ((''fingerprint_version'', JInt LEGACY_HOUSEHOLD_FINGERPRINT_VERSION) # object_of (snapshot_dump s))))"

definition verify_legacy_household_mapping :: "v2_mapping \<Rightarrow> int \<Rightarrow> string \<Rightarrow> string option \<Rightarrow> unit result" where
  "verify_legacy_household_mapping m fingerprint_version fingerprint expected =
     (if vm_fingerprint_version m \<noteq> fingerprint_version \<or> vm_fingerprint_sha256 m \<noteq> fingerprint
      then Inl (RuntimeErr ''legacy household identity was presented with different source content'')
      else if expected \<noteq> None \<and> expected \<noteq> Some (vm_household_id m)
      then Inl (RuntimeErr ''legacy household mapping does not match translated immutable content'')
      else Inr ())"

definition found_mapping :: "v2_env \<Rightarrow> household_snapshot \<Rightarrow> v2_mapping \<Rightarrow> string option \<Rightarrow> unit result" where
  "found_mapping env s m expected =
     verify_legacy_household_mapping m LEGACY_HOUSEHOLD_FINGERPRINT_VERSION (snapshot_fingerprint env s) expected"

definition existing_result :: "v2_mapping \<Rightarrow> mirror_result" where
  "existing_result m = \<lparr>mr_household_id = vm_household_id m, mr_household_created = False, mr_mapping_created = False\<rparr>"

text \<open>The mapping of a stored household to the v1 id, which a concurrent copy may have written first.\<close>

definition map_legacy_household ::
  "v2_env \<Rightarrow> household_snapshot \<Rightarrow> string \<times> bool \<Rightarrow> (v2_db, mirror_result) act" where
  "map_legacy_household env s stored db =
     (case stored of (household_id, created) \<Rightarrow>
        case create_legacy_household_mapping s household_id LEGACY_HOUSEHOLD_FINGERPRINT_VERSION
               (snapshot_fingerprint env s) db of
          (True, db') \<Rightarrow>
            (Inr \<lparr>mr_household_id = household_id, mr_household_created = created, mr_mapping_created = True\<rparr>, db')
        | (False, db') \<Rightarrow>
            (case read_legacy_household_mapping db' (hs_country_id s) (hs_household_id s) of
               None \<Rightarrow> (Inl (RuntimeErr ''legacy household mapping conflict did not resolve to a stored row''), db')
             | Some concurrent \<Rightarrow>
                 bindA (liftA (found_mapping env s concurrent (Some household_id)))
                   (\<lambda>u. retA (existing_result concurrent)) db'))"

definition mirror_legacy_household_in_session ::
  "v2_env \<Rightarrow> (v2_db \<Rightarrow> v2_db) \<Rightarrow> household_snapshot \<Rightarrow> (v2_db, mirror_result) act" where
  "mirror_legacy_household_in_session env others s db =
     (let existing = read_legacy_household_mapping db (hs_country_id s) (hs_household_id s)
      in bindA (liftA (case existing of None \<Rightarrow> Inr () | Some m \<Rightarrow> found_mapping env s m None)) (\<lambda>u.
         bindA (liftA (res_bind (translate_legacy_household env s) (normalize_creation_input env))) (\<lambda>normalized.
         bindA (create_normalized_household env normalized) (\<lambda>stored.
           case existing of
             Some m \<Rightarrow> bindA (liftA (found_mapping env s m (Some (fst stored)))) (\<lambda>u. retA (existing_result m))
           | None \<Rightarrow> map_legacy_household env s stored))) (others db))"

text \<open>What other sessions committed stays, whatever becomes of the copy.\<close>

definition mirror_legacy_household ::
  "v2_env \<Rightarrow> (v2_db \<Rightarrow> v2_db) \<Rightarrow> household_snapshot \<Rightarrow> (v2_db, mirror_result) act" where
  "mirror_legacy_household env others s db =
     (case mirror_legacy_household_in_session env others s db of
        (Inr r, db') \<Rightarrow> (Inr r, db')
      | (Inl e, db') \<Rightarrow> (Inl e, (others db)\<lparr>v2_draws := v2_draws db'\<rparr>))"

end
