(* ===== verification/V2_Copies.thy ===== *)
theory V2_Copies
  imports V2_Households Household_Histories
begin

text \<open>
  Copies of v1 households in API v2: the store keeps one row per content and one mapping per
  v1 household whatever is copied, and the retained events of API v1 composed with it: an event
  is recorded as processed only when API v2 holds its household.
\<close>

section \<open>Well-formed stores\<close>

definition row_ok :: "v2_env \<Rightarrow> v2_household \<Rightarrow> bool" where
  "row_ok env r \<longleftrightarrow>
     input_ok (input_of_row r) \<and> vh_canonicalization_version r = HOUSEHOLD_CANONICALIZATION_VERSION
     \<and> vh_content_hash r = content_hash_of env (input_of_row r)"

definition v2_ok :: "v2_env \<Rightarrow> v2_db \<Rightarrow> bool" where
  "v2_ok env db \<longleftrightarrow>
     (\<forall>r\<in>set (v2_households db). row_ok env r \<and> vh_id r \<in> v2_uuid env ` {..<v2_draws db})
     \<and> distinct (map vh_id (v2_households db)) \<and> distinct (map vh_content_hash (v2_households db))
     \<and> distinct (map (\<lambda>m. (vm_country_id m, vm_legacy_household_id m)) (v2_mappings db))
     \<and> (\<forall>m\<in>set (v2_mappings db). \<exists>r\<in>set (v2_households db).
          vh_id r = vm_household_id m \<and> vh_country_id r = vm_country_id m)"

definition v2_grows :: "v2_db \<Rightarrow> v2_db \<Rightarrow> bool" where
  "v2_grows db db' \<longleftrightarrow>
     set (v2_households db) \<subseteq> set (v2_households db') \<and> set (v2_mappings db) \<subseteq> set (v2_mappings db')
     \<and> v2_draws db \<le> v2_draws db'"

lemma v2_grows_refl [simp]: "v2_grows db db"
  by (simp add: v2_grows_def)

lemma v2_grows_trans: "v2_grows a b \<Longrightarrow> v2_grows b c \<Longrightarrow> v2_grows a c"
  by (auto simp: v2_grows_def)

lemma v2_ok_more_draws: "v2_ok env db \<Longrightarrow> v2_draws db \<le> n \<Longrightarrow> v2_ok env (db\<lparr>v2_draws := n\<rparr>)"
  by (fastforce simp: v2_ok_def)

text \<open>The copy of a snapshot: its mapping, to a row with the content it translates to.\<close>

definition copied :: "v2_env \<Rightarrow> v2_db \<Rightarrow> household_snapshot \<Rightarrow> string \<Rightarrow> bool" where
  "copied env db s household_id \<longleftrightarrow>
     (\<exists>m\<in>set (v2_mappings db). \<exists>r\<in>set (v2_households db). \<exists>i.
        vm_country_id m = hs_country_id s \<and> vm_legacy_household_id m = hs_household_id s
        \<and> vm_fingerprint_sha256 m = snapshot_fingerprint env s
        \<and> vm_household_id m = household_id \<and> vh_id r = household_id
        \<and> res_bind (translate_legacy_household env s) (normalize_creation_input env) = Inr i
        \<and> canonical_household_document (input_of_row r) = canonical_household_document i)"

lemma copied_mono: "copied env db s i \<Longrightarrow> v2_grows db db' \<Longrightarrow> copied env db' s i"
  unfolding copied_def v2_grows_def by blast

section \<open>Inserts\<close>

lemma canonical_household_document_text:
  "\<exists>rest. canonical_household_document i =
     ''{'' @ string_text ''canonicalization_version'' @ '':1,'' @ string_text ''country_id'' @ '':''
       @ string_text (vi_country_id i) @ rest"
proof -
  have "sorted [''canonicalization_version'', ''country_id'', ''default_year'', ''household_data'']" by code_simp
  then have order: "sort_key fst [(''canonicalization_version'', a), (''country_id'', b), (''default_year'', c), (''household_data'', d)]
      = [(''canonicalization_version'', a), (''country_id'', b), (''default_year'', c), (''household_data'', d)]"
    for a b c d :: string
    by (intro sort_key_id_if_sorted) (simp del: sorted_simps)
  have one: "show_int 1 = ''1''" by code_simp
  show ?thesis
    by (simp add: canonical_household_document_def order HOUSEHOLD_CANONICALIZATION_VERSION_def one del: string_text_def)
qed

lemma canonical_country:
  assumes "canonical_household_document i = canonical_household_document j"
    and "vi_country_id i \<in> set SUPPORTED_COUNTRY_IDS" and "vi_country_id j \<in> set SUPPORTED_COUNTRY_IDS"
  shows "vi_country_id i = vi_country_id j"
proof -
  obtain p q where "string_text (vi_country_id i) @ p = string_text (vi_country_id j) @ q"
    using canonical_household_document_text [of i] canonical_household_document_text [of j] assms(1) by (auto simp: eq_commute)
  moreover have "string_text ''us'' = [CHR 0x22, CHR ''u'', CHR ''s'', CHR 0x22]"
    "string_text ''uk'' = [CHR 0x22, CHR ''u'', CHR ''k'', CHR 0x22]" by code_simp+
  ultimately show ?thesis using assms(2,3) by (auto simp: SUPPORTED_COUNTRY_IDS_def)
qed

lemma normalized_input_ok:
  "normalize_creation_input env i = Inr j \<Longrightarrow> input_ok j \<and> vi_country_id j = vi_country_id i"
  by (auto simp: normalize_creation_input_def creation_input_def res_bind_Inr_iff split: if_splits)

lemma create_normalized_household_ok:
  assumes "v2_ok env db" and "inj (v2_uuid env)" and "input_ok i"
    and "create_normalized_household env i db = (res, db')"
  shows "v2_ok env db'" and "v2_grows db db'"
    and "res = Inr (household_id, created) \<Longrightarrow> \<exists>r\<in>set (v2_households db'). vh_id r = household_id
      \<and> vh_country_id r = vi_country_id i
      \<and> canonical_household_document (input_of_row r) = canonical_household_document i"
proof -
  let ?h = "content_hash_of env i"
  let ?r = "\<lparr>vh_id = v2_uuid env (v2_draws db), vh_country_id = vi_country_id i, vh_default_year = vi_default_year i,
    vh_household_data = vi_data i, vh_canonicalization_version = HOUSEHOLD_CANONICALIZATION_VERSION,
    vh_content_hash = ?h, vh_created_at = v2_clock db\<rparr>"
  let ?found = "read_household_by_content_identity db HOUSEHOLD_CANONICALIZATION_VERSION ?h"
  have row: "input_of_row ?r = i" by (cases i) (simp add: input_of_row_def)
  have "v2_ok env db' \<and> v2_grows db db' \<and> (res = Inr (household_id, created) \<longrightarrow>
    (\<exists>r\<in>set (v2_households db'). vh_id r = household_id \<and> vh_country_id r = vi_country_id i
      \<and> canonical_household_document (input_of_row r) = canonical_household_document i))"
  proof (cases ?found)
    case None
    have eq: "res = Inr (v2_uuid env (v2_draws db), True)"
      "db' = db\<lparr>v2_draws := v2_draws db + 1, v2_households := v2_households db @ [?r]\<rparr>"
      using assms(4) None by (auto simp: create_normalized_household_def insert_household_def Let_def)
    have "?h \<notin> vh_content_hash ` set (v2_households db)"
      using None assms(1) by (auto simp: read_household_by_content_identity_def find_None_iff v2_ok_def row_ok_def)
    moreover have "v2_uuid env (v2_draws db) \<notin> vh_id ` set (v2_households db)"
      using assms(1,2) by (fastforce simp: v2_ok_def inj_def)
    moreover have "row_ok env ?r" using assms(3) row by (simp add: row_ok_def)
    ultimately have "v2_ok env db'" using assms(1) unfolding eq(2) by (fastforce simp: v2_ok_def)
    with eq row show ?thesis by (auto simp: v2_grows_def)
  next
    case (Some r)
    then have r: "r \<in> set (v2_households db)" by (auto simp: read_household_by_content_identity_def dest: find_mem)
    then have ok: "input_ok (input_of_row r)" using assms(1) by (auto simp: v2_ok_def row_ok_def)
    have same: "read_household_by_content_identity (db\<lparr>v2_draws := v2_draws db + 1\<rparr>) HOUSEHOLD_CANONICALIZATION_VERSION ?h = Some r"
      using Some by (simp add: read_household_by_content_identity_def)
    have eq: "db' = db\<lparr>v2_draws := v2_draws db + 1\<rparr>" "res = Inr (household_id, created) \<Longrightarrow>
        vh_id r = household_id \<and> canonical_household_document (input_of_row r) = canonical_household_document i"
      using assms(4) Some same ok
      by (auto simp: create_normalized_household_def insert_household_def creation_input_def Let_def split: if_splits)
    have "v2_ok env db'" unfolding eq(1) by (rule v2_ok_more_draws [OF assms(1)]) simp
    moreover have "vh_country_id r = vi_country_id i" if "res = Inr (household_id, created)"
      using canonical_country [of "input_of_row r" i] eq(2) [OF that] ok assms(3) by (simp add: input_ok_def input_of_row_def)
    ultimately show ?thesis using r eq by (auto simp: v2_grows_def)
  qed
  then show "v2_ok env db'" "v2_grows db db'"
    "res = Inr (household_id, created) \<Longrightarrow> \<exists>r\<in>set (v2_households db'). vh_id r = household_id
      \<and> vh_country_id r = vi_country_id i
      \<and> canonical_household_document (input_of_row r) = canonical_household_document i" by auto
qed


section \<open>Copies\<close>

text \<open>What other sessions may commit meanwhile.\<close>

definition others_ok :: "v2_env \<Rightarrow> (v2_db \<Rightarrow> v2_db) \<Rightarrow> bool" where
  "others_ok env others \<longleftrightarrow> (\<forall>db. v2_ok env db \<longrightarrow> v2_ok env (others db) \<and> v2_grows db (others db))"

lemma map_legacy_household_ok:
  assumes "v2_ok env db" and "map_legacy_household env s (household_id, created) db = (Inr res, db')"
    and "r \<in> set (v2_households db)" and "vh_id r = household_id" and "vh_country_id r = hs_country_id s"
  shows "v2_ok env db' \<and> v2_grows db db' \<and> mr_household_id res = household_id
     \<and> (\<exists>m\<in>set (v2_mappings db'). vm_country_id m = hs_country_id s \<and> vm_legacy_household_id m = hs_household_id s
          \<and> vm_fingerprint_sha256 m = snapshot_fingerprint env s \<and> vm_household_id m = household_id)"
proof (cases "read_legacy_household_mapping db (hs_country_id s) (hs_household_id s)")
  case None
  let ?m = "\<lparr>vm_country_id = hs_country_id s, vm_legacy_household_id = hs_household_id s,
    vm_household_id = household_id, vm_source_api_version = hs_api_version s,
    vm_fingerprint_version = LEGACY_HOUSEHOLD_FINGERPRINT_VERSION, vm_fingerprint_sha256 = snapshot_fingerprint env s\<rparr>"
  have eq: "db' = db\<lparr>v2_mappings := v2_mappings db @ [?m]\<rparr>" "mr_household_id res = household_id"
    using assms(2) None by (auto simp: map_legacy_household_def create_legacy_household_mapping_def)
  have "(hs_country_id s, hs_household_id s) \<notin> (\<lambda>m. (vm_country_id m, vm_legacy_household_id m)) ` set (v2_mappings db)"
    using None by (auto simp: read_legacy_household_mapping_def find_None_iff)
  then have "v2_ok env db'" using assms(1,3-5) unfolding eq(1) by (auto simp: v2_ok_def)
  with eq show ?thesis by (auto simp: v2_grows_def)
next
  case (Some m)
  then have m: "m \<in> set (v2_mappings db)" "vm_country_id m = hs_country_id s" "vm_legacy_household_id m = hs_household_id s"
    by (auto simp: read_legacy_household_mapping_def dest: find_mem)
  have "db' = db \<and> mr_household_id res = vm_household_id m \<and> vm_household_id m = household_id
      \<and> vm_fingerprint_sha256 m = snapshot_fingerprint env s"
    using assms(2) Some
    by (auto simp: map_legacy_household_def create_legacy_household_mapping_def existing_result_def found_mapping_def
        verify_legacy_household_mapping_def bindA_def liftA_def retA_def split: if_splits)
  with m assms(1) show ?thesis by auto
qed

lemma translated_country:
  "translate_legacy_household env s = Inr i \<Longrightarrow> vi_country_id i = hs_country_id s"
  by (auto simp: translate_legacy_household_def Let_def res_bind_Inr_iff creation_input_def
      split: json.splits option.splits prod.splits if_splits)

lemma mirror_in_session_ok:
  assumes "v2_ok env db" and "inj (v2_uuid env)" and "others_ok env others"
    and "mirror_legacy_household_in_session env others s db = (Inr res, db')"
  shows "v2_ok env db' \<and> v2_grows db db' \<and> copied env db' s (mr_household_id res)"
proof -
  let ?existing = "read_legacy_household_mapping db (hs_country_id s) (hs_household_id s)"
  have others: "v2_ok env (others db)" "v2_grows db (others db)" using assms(1,3) by (auto simp: others_ok_def)
  have first: "(case ?existing of None \<Rightarrow> Inr () | Some m \<Rightarrow> found_mapping env s m None) = Inr ()"
    using assms(4)
    by (cases "case ?existing of None \<Rightarrow> Inr () | Some m \<Rightarrow> found_mapping env s m None")
      (simp_all add: mirror_legacy_household_in_session_def bindA_def liftA_def Let_def)
  obtain i where i: "res_bind (translate_legacy_household env s) (normalize_creation_input env) = Inr i"
    using assms(4) first
    by (cases "res_bind (translate_legacy_household env s) (normalize_creation_input env)")
      (simp_all add: mirror_legacy_household_in_session_def bindA_def liftA_def Let_def)
  then have input: "input_ok i" "vi_country_id i = hs_country_id s"
    using normalized_input_ok translated_country by (auto simp: res_bind_Inr_iff)
  obtain stored db1 where create: "create_normalized_household env i (others db) = (stored, db1)" by fastforce
  obtain household_id created where "stored = Inr (household_id, created)"
    using assms(4) first i create
    by (cases stored) (auto simp: mirror_legacy_household_in_session_def bindA_def liftA_def Let_def)
  note create = create [unfolded this]
  note stored = create_normalized_household_ok [OF others(1) assms(2) input(1) create]
  obtain r where r: "r \<in> set (v2_households db1)" "vh_id r = household_id" "vh_country_id r = hs_country_id s"
    "canonical_household_document (input_of_row r) = canonical_household_document i"
    using stored(3) [OF refl] input(2) by auto
  have grows: "v2_grows db db1" by (rule v2_grows_trans [OF others(2) stored(2)])
  have "v2_ok env db' \<and> v2_grows db1 db' \<and> mr_household_id res = household_id
     \<and> (\<exists>m\<in>set (v2_mappings db'). vm_country_id m = hs_country_id s \<and> vm_legacy_household_id m = hs_household_id s
          \<and> vm_fingerprint_sha256 m = snapshot_fingerprint env s \<and> vm_household_id m = household_id)"
  proof (cases ?existing)
    case None
    have "map_legacy_household env s (household_id, created) db1 = (Inr res, db')"
      using assms(4) i create None by (simp add: mirror_legacy_household_in_session_def bindA_def liftA_def)
    from map_legacy_household_ok [OF stored(1) this r(1-3)] show ?thesis .
  next
    case (Some m)
    then have m: "m \<in> set (v2_mappings db1)" "vm_country_id m = hs_country_id s" "vm_legacy_household_id m = hs_household_id s"
      using grows by (auto simp: read_legacy_household_mapping_def v2_grows_def dest: find_mem)
    have "db' = db1 \<and> mr_household_id res = vm_household_id m \<and> vm_household_id m = household_id
        \<and> vm_fingerprint_sha256 m = snapshot_fingerprint env s"
      using assms(4) first i create Some
      by (auto simp: mirror_legacy_household_in_session_def bindA_def liftA_def retA_def existing_result_def found_mapping_def
          verify_legacy_household_mapping_def split: if_splits)
    with m stored(1) show ?thesis by auto
  qed
  then obtain m where m: "v2_ok env db'" "v2_grows db1 db'" "mr_household_id res = household_id"
    "m \<in> set (v2_mappings db')" "vm_country_id m = hs_country_id s" "vm_legacy_household_id m = hs_household_id s"
    "vm_fingerprint_sha256 m = snapshot_fingerprint env s" "vm_household_id m = household_id" by blast
  from r(1) m(2) have "r \<in> set (v2_households db')" by (auto simp: v2_grows_def)
  with m r i have "copied env db' s (mr_household_id res)"
    unfolding copied_def by blast
  with m(1) v2_grows_trans [OF grows m(2)] show ?thesis by simp
qed

lemma create_normalized_draws: "v2_draws db \<le> v2_draws (snd (create_normalized_household env i db))"
  by (auto simp: create_normalized_household_def insert_household_def Let_def split: option.splits sum.splits)

lemma map_legacy_draws: "v2_draws (snd (map_legacy_household env s stored db)) = v2_draws db"
  by (auto simp: map_legacy_household_def create_legacy_household_mapping_def bindA_def liftA_def retA_def
      split: prod.splits option.splits sum.splits)

lemma mirror_session_draws: "v2_draws (others db) \<le> v2_draws (snd (mirror_legacy_household_in_session env others s db))"
proof -
  let ?existing = "read_legacy_household_mapping db (hs_country_id s) (hs_household_id s)"
  have copy: "v2_draws (others db) \<le> v2_draws (snd (bindA (create_normalized_household env i) f (others db)))"
    if "\<And>stored db1. v2_draws (snd (f stored db1)) = v2_draws db1" for i f
    using create_normalized_draws [of "others db" env i] that
    by (cases "create_normalized_household env i (others db)") (auto simp: bindA_def split: sum.splits)
  show ?thesis
    unfolding mirror_legacy_household_in_session_def Let_def
    by (cases "case ?existing of None \<Rightarrow> Inr () | Some m \<Rightarrow> found_mapping env s m None";
        cases "res_bind (translate_legacy_household env s) (normalize_creation_input env)")
      (auto simp: bindA_def [of "liftA _"] liftA_def intro!: copy split: option.splits,
       auto simp: bindA_def liftA_def retA_def map_legacy_draws split: sum.splits prod.splits)
qed

lemma mirror_legacy_household_ok:
  assumes "v2_ok env db" and "inj (v2_uuid env)" and "others_ok env others"
    and "mirror_legacy_household env others s db = (res, db')"
  shows "v2_ok env db'" and "v2_grows db db'" and "res = Inr x \<Longrightarrow> copied env db' s (mr_household_id x)"
proof -
  obtain res1 db1 where run: "mirror_legacy_household_in_session env others s db = (res1, db1)" by fastforce
  have others: "v2_ok env (others db)" "v2_grows db (others db)" using assms(1,3) by (auto simp: others_ok_def)
  have "v2_ok env db' \<and> v2_grows db db' \<and> (res = Inr x \<longrightarrow> copied env db' s (mr_household_id x))"
  proof (cases res1)
    case (Inl e)
    with assms(4) run have eq: "res = Inl e" "db' = (others db)\<lparr>v2_draws := v2_draws db1\<rparr>"
      by (auto simp: mirror_legacy_household_def)
    have "v2_draws (others db) \<le> v2_draws db1" using mirror_session_draws [of others db env s] run by simp
    with v2_ok_more_draws [OF others(1) this] others(2) eq show ?thesis by (auto simp: v2_grows_def)
  next
    case (Inr y)
    with assms(4) run have "res = Inr y" "db' = db1" by (auto simp: mirror_legacy_household_def)
    with mirror_in_session_ok [OF assms(1-3) run [unfolded Inr]] show ?thesis by auto
  qed
  then show "v2_ok env db'" "v2_grows db db'" "res = Inr x \<Longrightarrow> copied env db' s (mr_household_id x)" by auto
qed


section \<open>Histories of both stores\<close>

text \<open>
  API v1 posts households and retries their events, each with its own configuration and failures
  and with its own sessions committing meanwhile in API v2, which also changes on its own.
\<close>

inductive copy_history :: "household_env \<Rightarrow> v2_env \<Rightarrow> household_db \<times> v2_db \<Rightarrow> household_db \<times> v2_db \<Rightarrow> bool"
  for env0 venv w0 where
  start: "copy_history env0 venv w0 w0"
| posted: "copy_history env0 venv w0 w \<Longrightarrow> hv_sha256 env = hv_sha256 env0 \<Longrightarrow> others_ok venv others \<Longrightarrow>
     post_household_view env (mirror_legacy_household venv others) c payload w = (view, w') \<Longrightarrow>
     copy_history env0 venv w0 w'"
| retried: "copy_history env0 venv w0 w \<Longrightarrow> hv_sha256 env = hv_sha256 env0 \<Longrightarrow> others_ok venv others \<Longrightarrow>
     process_household_event_after_commit env (mirror_legacy_household venv others) c i pending w = (r, w') \<Longrightarrow>
     copy_history env0 venv w0 w'"
| elsewhere: "copy_history env0 venv w0 (db, v) \<Longrightarrow> others_ok venv others \<Longrightarrow> copy_history env0 venv w0 (db, others v)"

definition household_copied :: "v2_env \<Rightarrow> household list \<Rightarrow> v2_db \<Rightarrow> int \<Rightarrow> bool" where
  "household_copied venv households v household_id \<longleftrightarrow>
     (\<exists>h\<in>set households. hh_id h = household_id \<and> (\<exists>i. copied venv v (snapshot_of_household h) i))"

lemma household_copied_mono:
  "household_copied venv hs v i \<Longrightarrow> set hs \<subseteq> set hs' \<Longrightarrow> v2_grows v v' \<Longrightarrow> household_copied venv hs' v' i"
  unfolding household_copied_def by (blast intro: copied_mono)

definition copies_ok :: "household_env \<Rightarrow> v2_env \<Rightarrow> household_db \<times> v2_db \<Rightarrow> bool" where
  "copies_ok env venv w \<longleftrightarrow>
     household_db_ok env (fst w) \<and> v2_ok venv (snd w)
     \<and> (\<forall>e\<in>set (hd_events (fst w)). he_processed e \<longrightarrow>
          household_copied venv (hd_households (fst w)) (snd w) (he_household_id e))"

lemma copies_ok_grow:
  assumes "copies_ok env venv (db, v)" and "v2_ok venv v'" and "v2_grows v v'"
  shows "copies_ok env venv (db, v')"
  using assms household_copied_mono [OF _ subset_refl assms(3)] by (auto simp: copies_ok_def)

lemma copies_ok_processed:
  assumes "copies_ok env venv (db, v)" and "e \<in> set (hd_events db)"
    and "household_copied venv (hd_households db) v (he_household_id e)"
  shows "copies_ok env venv (processed_event e db, v)"
proof -
  have ok: "household_db_ok env db" using assms(1) by (simp add: copies_ok_def)
  have "set (hd_events (processed_event e db)) \<subseteq> insert (e\<lparr>he_processed := True\<rparr>) (set (hd_events db))"
    unfolding processed_event_def by (auto simp: put_row_def split: if_splits)
  with processed_event_ok(1) [OF ok assms(2)] assms(1,3) show ?thesis
    by (auto simp: copies_ok_def processed_event_def)
qed

lemma process_mirror_event_copies:
  assumes "copies_ok env venv w" and "inj (v2_uuid venv)" and "others_ok venv others"
    and "process_mirror_event env c i (\<lambda>p. mirror_legacy_household venv others (pe_snapshot p)) pending w = (r, w')"
  shows "copies_ok env venv w'"
proof -
  obtain db v where w: "w = (db, v)" by fastforce
  have ok: "household_db_ok env db" "v2_ok venv v" using assms(1) by (simp_all add: copies_ok_def w)
  show ?thesis
  proof (cases "List.find (\<lambda>e. he_country_id e = c \<and> he_household_id e = i) (hd_events db)")
    case None
    with assms(1,4) show ?thesis by (auto simp: w process_mirror_event_def split: option.splits)
  next
    case (Some e)
    then have e: "e \<in> set (hd_events db)" "he_country_id e = c" "he_household_id e = i" by (auto dest: find_mem)
    obtain h where h: "h \<in> set (hd_households db)" "he_household_id e = hh_id h" "he_country_id e = hh_country_id h"
      by (rule event_matches_key [OF household_db_okD(8) [OF ok(1) e(1)]])
    obtain res v' where run: "mirror_legacy_household venv others (snapshot_of_household h) v = (res, v')" by fastforce
    note mirror = mirror_legacy_household_ok [OF ok(2) assms(2,3) run]
    note kept = copies_ok_grow [OF assms(1) [unfolded w] mirror(1,2)]
    have "w' = w \<or> w' = (db, v') \<or> (\<exists>x. res = Inr x) \<and> w' = (processed_event e db, v')"
      using process_retained_event [OF ok(1) e(1) h(1,2), of "\<lambda>p. mirror_legacy_household venv others (pe_snapshot p)" pending v]
        assms(4) h e run
      by (auto simp: w split: sum.splits if_splits option.splits)
    moreover have "copies_ok env venv (processed_event e db, v')" if "res = Inr x" for x
      using copies_ok_processed [OF kept e(1)] mirror(3) [OF that] h by (auto simp: household_copied_def)
    ultimately show ?thesis using kept assms(1) by blast
  qed
qed

lemma process_after_commit_copies:
  assumes "copies_ok env venv w" and "inj (v2_uuid venv)" and "others_ok venv others"
    and "process_household_event_after_commit env (mirror_legacy_household venv others) c i pending w = (r, w')"
  shows "copies_ok env venv w'"
proof -
  obtain r1 w1 where run: "process_mirror_event env c i (\<lambda>p. mirror_legacy_household venv others (pe_snapshot p)) pending w = (r1, w1)"
    by (cases "process_mirror_event env c i (\<lambda>p. mirror_legacy_household venv others (pe_snapshot p)) pending w")
  with assms(4) have "w' = w1"
    by (auto simp: process_household_event_after_commit_def catchA_def raiseA_def split: sum.splits)
  with process_mirror_event_copies [OF assms(1-3) run] show ?thesis by simp
qed

lemma stored_household_copies:
  assumes "copies_ok env venv (db, v)" and "stored_household env c d label m db = Inr (r, db')"
  shows "copies_ok env venv (db', v)"
proof -
  have ok: "household_db_ok env db" using assms(1) by (simp add: copies_ok_def)
  note stored = stored_household_ok [OF ok assms(2)]
  have "e \<in> set (hd_events db)" if "e \<in> set (hd_events db')" "he_processed e" for e
    using assms(2) that by (cases rule: stored_household_cases) (auto simp: mirror_event_def)
  moreover have "set (hd_households db) \<subseteq> set (hd_households db')" using stored(2) by (simp add: household_grows_def)
  ultimately show ?thesis
    using assms(1) stored(1) household_copied_mono [OF _ _ v2_grows_refl] unfolding copies_ok_def by (metis fst_conv snd_conv)
qed

lemma post_household_copies:
  assumes "copies_ok env venv w" and "inj (v2_uuid venv)" and "others_ok venv others"
    and "post_household_view env (mirror_legacy_household venv others) c payload w = (view, w')"
  shows "copies_ok env venv w'"
  using assms(4)
proof (cases rule: post_household_cases)
  case (created source d r db1)
  have "copies_ok env venv (db1, snd w)" by (rule stored_household_copies [OF _ created(3)]) (simp add: assms(1))
  moreover from process_after_commit_copies [OF this assms(2,3) surjective_pairing]
  have "copies_ok env venv (snd (process_household_event_after_commit env (mirror_legacy_household venv others) c i p (db1, snd w)))" for i p .
  ultimately have "copies_ok env venv (copy_household_to_v2 env (mirror_legacy_household venv others) c r (db1, snd w))"
    unfolding copy_household_to_v2_def by simp
  with created(4) \<open>copies_ok env venv (db1, snd w)\<close> show ?thesis by simp
qed (use assms(1) in auto)


lemma copy_history_ok:
  assumes "copy_history env0 venv w0 w" and "copies_ok env0 venv w0" and "inj (v2_uuid venv)"
  shows "copies_ok env0 venv w"
  using assms(1)
proof (induction rule: copy_history.induct)
  case (posted w env others c payload view w')
  then have "copies_ok env venv w" by (simp add: copies_ok_def household_db_ok_same_digest [of env env0])
  from post_household_copies [OF this assms(3) posted(3,4)] posted(2) show ?case
    by (simp add: copies_ok_def household_db_ok_same_digest [of env env0])
next
  case (retried w env others c i pending r w')
  then have "copies_ok env venv w" by (simp add: copies_ok_def household_db_ok_same_digest [of env env0])
  from process_after_commit_copies [OF this assms(3) retried(3,4)] retried(2) show ?case
    by (simp add: copies_ok_def household_db_ok_same_digest [of env env0])
next
  case (elsewhere db v others)
  have "v2_ok venv v" using elsewhere.IH by (simp add: copies_ok_def)
  with elsewhere.hyps(2) have "v2_ok venv (others v)" "v2_grows v (others v)" by (auto simp: others_ok_def)
  from copies_ok_grow [OF elsewhere.IH this] show ?case .
qed (rule assms(2))

lemma mapping_of_key:
  assumes "v2_ok venv v" and "m \<in> set (v2_mappings v)"
  shows "read_legacy_household_mapping v (vm_country_id m) (vm_legacy_household_id m) = Some m"
proof -
  have "List.find (\<lambda>x. vm_country_id x = vm_country_id m \<and> vm_legacy_household_id x = vm_legacy_household_id m) ms = Some m"
    if "distinct (map (\<lambda>m. (vm_country_id m, vm_legacy_household_id m)) ms)" "m \<in> set ms" for ms
    using that by (induction ms) (auto simp: image_iff)
  with assms show ?thesis by (simp add: v2_ok_def read_legacy_household_mapping_def)
qed

lemma row_of_id:
  assumes "v2_ok venv v" and "r \<in> set (v2_households v)"
  shows "read_complete_household v (vh_country_id r) (vh_id r) = Inr r"
proof -
  have "List.find (\<lambda>x. vh_id x = vh_id r \<and> vh_country_id x = vh_country_id r) rows = Some r"
    if "distinct (map vh_id rows)" "r \<in> set rows" for rows
    using that by (induction rows) (auto simp: image_iff)
  with assms show ?thesis by (simp add: v2_ok_def read_complete_household_def read_household_row_def)
qed

text \<open>
  C5. Whatever requests, failed copies, retries and other sessions happen, an event of API v1
  that is recorded as processed has its household in API v2: the mapping of its id leads to a
  row that reads back with the content its snapshot translates to.
\<close>

theorem processed_household_is_in_v2:
  assumes "copy_history env0 venv (db0, v0) (db, v)" and "inj (v2_uuid venv)"
    and "household_db_ok env0 db0" and "v2_ok venv v0" and "\<forall>e\<in>set (hd_events db0). \<not> he_processed e"
    and "e \<in> set (hd_events db)" and "he_processed e"
  shows "\<exists>h m r i. get_household db (hh_country_id h) (he_household_id e) = Inr (Some h)
     \<and> read_legacy_household_mapping v (hh_country_id h) (he_household_id e) = Some m
     \<and> vm_fingerprint_sha256 m = snapshot_fingerprint venv (snapshot_of_household h)
     \<and> read_complete_household v (hh_country_id h) (vm_household_id m) = Inr r
     \<and> res_bind (translate_legacy_household venv (snapshot_of_household h)) (normalize_creation_input venv) = Inr i
     \<and> canonical_household_document (input_of_row r) = canonical_household_document i"
proof -
  have "copies_ok env0 venv (db0, v0)" using assms(3-5) by (simp add: copies_ok_def)
  from copy_history_ok [OF assms(1) this assms(2)] have ok: "household_db_ok env0 db" "v2_ok venv v"
    and copied: "household_copied venv (hd_households db) v (he_household_id e)"
    using assms(6,7) by (auto simp: copies_ok_def)
  from copied obtain h k where h: "h \<in> set (hd_households db)" "hh_id h = he_household_id e"
    and "copied venv v (snapshot_of_household h) k" by (auto simp: household_copied_def)
  then obtain m r i where mr: "m \<in> set (v2_mappings v)" "r \<in> set (v2_households v)"
      "vm_country_id m = hs_country_id (snapshot_of_household h)" "vm_legacy_household_id m = hs_household_id (snapshot_of_household h)"
      "vm_fingerprint_sha256 m = snapshot_fingerprint venv (snapshot_of_household h)"
      "vm_household_id m = k" "vh_id r = k"
      "res_bind (translate_legacy_household venv (snapshot_of_household h)) (normalize_creation_input venv) = Inr i"
      "canonical_household_document (input_of_row r) = canonical_household_document i"
    unfolding copied_def by blast
  have keys: "vm_country_id m = hh_country_id h" "vm_legacy_household_id m = he_household_id e"
    using mr(3,4) h(2) by (simp_all add: snapshot_of_household_def)
  obtain r' where "r' \<in> set (v2_households v)" "vh_id r' = vm_household_id m" "vh_country_id r' = vm_country_id m"
    using ok(2) mr(1) by (auto simp: v2_ok_def)
  moreover from this have "r' = r"
    using ok(2) mr(2,6,7) by (auto simp: v2_ok_def distinct_map dest: inj_onD)
  ultimately have "vh_country_id r = hh_country_id h" using keys(1) by simp
  with row_of_id [OF ok(2) mr(2)] mr(6,7) have "read_complete_household v (hh_country_id h) (vm_household_id m) = Inr r" by simp
  with get_stored_household [OF ok(1) h(1)] h(2) mapping_of_key [OF ok(2) mr(1)] keys mr(5,8,9) show ?thesis
    by metis
qed

section \<open>Creating\<close>

lemma creation_again:
  assumes "v2_ok env db" and "r \<in> set (v2_households db)"
    and "canonical_household_document (input_of_row r) = canonical_household_document i"
  shows "create_normalized_household env i db = (Inr (vh_id r, False), db\<lparr>v2_draws := v2_draws db + 1\<rparr>)"
proof -
  have row: "input_ok (input_of_row r)" "vh_canonicalization_version r = HOUSEHOLD_CANONICALIZATION_VERSION"
    "vh_content_hash r = content_hash_of env i"
    using assms by (auto simp: v2_ok_def row_ok_def content_hash_of_def)
  have "List.find (\<lambda>x. vh_canonicalization_version x = vh_canonicalization_version r \<and> vh_content_hash x = vh_content_hash r) rows = Some r"
    if "distinct (map vh_content_hash rows)" "r \<in> set rows" for rows
    using that by (induction rows) (auto simp: image_iff)
  then have "read_household_by_content_identity db HOUSEHOLD_CANONICALIZATION_VERSION (content_hash_of env i) = Some r"
    using assms(1,2) row(2,3) by (simp add: v2_ok_def read_household_by_content_identity_def)
  then show ?thesis
    using row(1) assms(3)
    by (simp add: create_normalized_household_def insert_household_def creation_input_def Let_def
        read_household_by_content_identity_def)
qed

lemma create_v2_household_ok:
  assumes "v2_ok env db" and "inj (v2_uuid env)" and "create_v2_household env i db = (Inr (r, created), db')"
    and "res_bind (creation_input env i) (normalize_creation_input env) = Inr n"
  shows "v2_ok env db'" and "v2_grows db db'" and "r \<in> set (v2_households db')" and "vh_country_id r = vi_country_id n"
    and "canonical_household_document (input_of_row r) = canonical_household_document n"
proof -
  have n: "input_ok n" using assms(4) normalized_input_ok by (auto simp: res_bind_Inr_iff)
  obtain res db1 where run: "create_normalized_household env n db = (res, db1)" by fastforce
  obtain k c where res: "res = Inr (k, c)"
    using assms(3,4) run by (cases res) (auto simp: create_v2_household_def bindA_def liftA_def v2_transaction_def)
  note stored = create_normalized_household_ok [OF assms(1,2) n run]
  from stored(3) [OF res] obtain x where x: "x \<in> set (v2_households db1)" "vh_id x = k" "vh_country_id x = vi_country_id n"
    "canonical_household_document (input_of_row x) = canonical_household_document n" by blast
  have "db' = db1 \<and> r = x"
    using assms(3,4) run res row_of_id [OF stored(1) x(1)] x(2,3)
    by (auto simp: create_v2_household_def bindA_def liftA_def retA_def v2_transaction_def)
  with stored(1,2) x show "v2_ok env db'" "v2_grows db db'" "r \<in> set (v2_households db')" "vh_country_id r = vi_country_id n"
    "canonical_household_document (input_of_row r) = canonical_household_document n" by auto
qed

text \<open>
  C22. A household created in API v2 is stored once: however the store has grown since, a
  request whose normalized content is the same answers with the same row, not as new, and
  stores nothing.
\<close>

theorem equal_households_are_stored_once:
  assumes "v2_ok env db" and "inj (v2_uuid env)" and "create_v2_household env i db = (Inr (r, created), db')"
    and "v2_ok env db2" and "v2_grows db' db2"
    and "res_bind (creation_input env i) (normalize_creation_input env) = Inr n"
    and "res_bind (creation_input env j) (normalize_creation_input env) = Inr n'"
    and "canonical_household_document n' = canonical_household_document n"
  shows "create_v2_household env j db2 = (Inr (r, False), db2\<lparr>v2_draws := v2_draws db2 + 1\<rparr>)"
proof -
  note stored = create_v2_household_ok [OF assms(1-3,6)]
  have r: "r \<in> set (v2_households db2)" using stored(3) assms(5) by (auto simp: v2_grows_def)
  have "input_ok n" "input_ok n'" using assms(6,7) normalized_input_ok by (auto simp: res_bind_Inr_iff)
  with canonical_country [OF assms(8)] have country: "vh_country_id r = vi_country_id n'"
    using stored(4) by (simp add: input_ok_def)
  have again: "create_normalized_household env n' db2 = (Inr (vh_id r, False), db2\<lparr>v2_draws := v2_draws db2 + 1\<rparr>)"
    by (rule creation_again [OF assms(4) r]) (simp add: stored(5) assms(8))
  have "read_complete_household (db2\<lparr>v2_draws := v2_draws db2 + 1\<rparr>) (vi_country_id n') (vh_id r) = Inr r"
    using row_of_id [OF assms(4) r] country by (simp add: read_complete_household_def read_household_row_def)
  with again assms(7) show ?thesis
    by (simp add: create_v2_household_def bindA_def liftA_def retA_def v2_transaction_def)
qed

section \<open>Examples\<close>

definition example_v2_env :: v2_env where
  "example_v2_env =
     \<lparr>v2_period = (\<lambda>s. None), v2_report = (\<lambda>i. ''invalid household''), v2_sha256 = (\<lambda>s. ''digest''),
      v2_uuid = (\<lambda>n. replicate n CHR ''a'')\<rparr>"

definition empty_v2_db :: v2_db where
  "empty_v2_db = \<lparr>v2_households = [], v2_mappings = [], v2_draws = 0, v2_clock = 0\<rparr>"

lemma empty_v2_db_ok: "v2_ok env empty_v2_db"
  by (simp add: v2_ok_def empty_v2_db_def)

lemma example_uuid_inj: "inj (v2_uuid example_v2_env)"
  by (auto simp: example_v2_env_def inj_def dest: arg_cong [of _ _ length])

lemma no_others_ok: "others_ok env (\<lambda>db. db)"
  by (simp add: others_ok_def)

lemma empty_household_mirrored:
  "\<exists>v. mirror_legacy_household example_v2_env (\<lambda>db. db) (snapshot_of_household empty_household) empty_v2_db
     = (Inr \<lparr>mr_household_id = [], mr_household_created = True, mr_mapping_created = True\<rparr>, v)"
  by (rule exI [of _ "snd (mirror_legacy_household example_v2_env (\<lambda>db. db) (snapshot_of_household empty_household) empty_v2_db)"]) code_simp

theorem processed_household_is_in_v2_witness:
  "\<exists>db v m r. process_household_event_after_commit example_household_env (mirror_legacy_household example_v2_env (\<lambda>db. db))
       ''uk'' 1 False (one_household_db, empty_v2_db)
       = (Inr \<lparr>mr_household_id = [], mr_household_created = True, mr_mapping_created = True\<rparr>, (db, v))
     \<and> read_legacy_household_mapping v ''uk'' 1 = Some m
     \<and> read_complete_household v ''uk'' (vm_household_id m) = Inr r"
proof -
  have ok: "household_db_ok example_household_env one_household_db"
    by (rule stored_household_ok(1) [OF empty_household_db_ok empty_household_stored])
  obtain v where v: "mirror_legacy_household example_v2_env (\<lambda>db. db) (snapshot_of_household empty_household) empty_v2_db
     = (Inr \<lparr>mr_household_id = [], mr_household_created = True, mr_mapping_created = True\<rparr>, v)"
    using empty_household_mirrored by blast
  let ?e = "hd (hd_events one_household_db)"
  have mem: "?e \<in> set (hd_events one_household_db)" "empty_household \<in> set (hd_households one_household_db)"
    "he_household_id ?e = hh_id empty_household" "hh_country_id empty_household = ''uk''" "hh_id empty_household = 1"
    "he_household_id ?e = 1" "\<not> he_processed ?e"
    by (simp_all add: one_household_db_def mirror_event_def snapshot_of_household_def empty_household_def new_household_def)
  have run: "process_household_event_after_commit example_household_env (mirror_legacy_household example_v2_env (\<lambda>db. db))
       ''uk'' 1 False (one_household_db, empty_v2_db)
       = (Inr \<lparr>mr_household_id = [], mr_household_created = True, mr_mapping_created = True\<rparr>, (processed_event ?e one_household_db, v))"
    using after_commit_retained(1) [OF ok mem(1,2,3), where mirror = "mirror_legacy_household example_v2_env (\<lambda>db. db)", OF no_event_fault v] mem(4-6)
    by (simp add: no_event_fault)
  have fresh: "\<forall>e\<in>set (hd_events one_household_db). \<not> he_processed e" by (simp add: one_household_db_def mirror_event_def)
  note history = copy_history.retried [OF copy_history.start refl no_others_ok run]
  from processed_event_ok(3) [OF ok mem(1)] processed_household_is_in_v2
      [OF history example_uuid_inj ok empty_v2_db_ok fresh, of "?e\<lparr>he_processed := True\<rparr>"]
  obtain h m r where hmr: "get_household (processed_event ?e one_household_db) (hh_country_id h) 1 = Inr (Some h)"
      "read_legacy_household_mapping v (hh_country_id h) 1 = Some m"
      "read_complete_household v (hh_country_id h) (vm_household_id m) = Inr r"
    using mem(6) by auto
  have uk: "hh_country_id h = ''uk''"
    using hmr(1) by (auto simp: get_household_def processed_event_def one_household_db_def empty_household_def new_household_def
        split: if_splits option.splits)
  show ?thesis by (intro exI conjI) (rule run, rule hmr(2) [unfolded uk], rule hmr(3) [unfolded uk])
qed

definition nobody :: v2_input where
  "nobody = \<lparr>vi_country_id = ''uk'', vi_default_year = None, vi_data = [(''people'', JArr [])]\<rparr>"

lemma nobody_normalized:
  "res_bind (creation_input example_v2_env nobody) (normalize_creation_input example_v2_env)
     = Inr (nobody\<lparr>vi_data := [(''people'', JArr []), (''household'', JArr []), (''benunit'', JArr [])]\<rparr>)"
  by code_simp

definition nobody_row :: v2_household where
  "nobody_row =
     \<lparr>vh_id = [], vh_country_id = ''uk'', vh_default_year = None,
      vh_household_data = [(''people'', JArr []), (''household'', JArr []), (''benunit'', JArr [])],
      vh_canonicalization_version = 1, vh_content_hash = ''digest'', vh_created_at = 0\<rparr>"

lemma nobody_created:
  "create_v2_household example_v2_env nobody empty_v2_db
     = (Inr (nobody_row, True), empty_v2_db\<lparr>v2_draws := 1, v2_households := [nobody_row]\<rparr>)"
  by code_simp

theorem equal_households_are_stored_once_witness:
  "create_v2_household example_v2_env nobody (empty_v2_db\<lparr>v2_draws := 1, v2_households := [nobody_row]\<rparr>)
     = (Inr (nobody_row, False), empty_v2_db\<lparr>v2_draws := 2, v2_households := [nobody_row]\<rparr>)"
  using equal_households_are_stored_once [OF empty_v2_db_ok example_uuid_inj nobody_created
      create_v2_household_ok(1) [OF empty_v2_db_ok example_uuid_inj nobody_created nobody_normalized] v2_grows_refl
      nobody_normalized nobody_normalized refl]
  by simp

end
