(* ===== verification/V2_Policy_Documents.thy ===== *)
theory V2_Policy_Documents
  imports Policy_Service "HOL-Library.Product_Lexorder"
begin

text \<open>
  \<open>policyengine_api/services/v2/policies/types.py\<close>, \<open>validators.py\<close> and \<open>transformations.py\<close>: the
  policies of API v2, their validation and canonical text, and the translation of a v1 policy
  into one. A time is in UTC.

  policyengine-core's reading of a period (the texts of its first and last day), the canonical
  text \<open>packaging\<close> gives a version, and the text of pydantic's errors are parameters.
\<close>

section \<open>Errors\<close>

datatype translation_reason =
    MissingParameters | InvalidParameterValues | EmptyParameterValues | InvalidPeriod
  | ConflictingValues | TooManyValues

datatype v2_error =
    InvalidContent string
  | ContentTypeError string
  | UnsupportedPreviewCountryError string
  | InvalidPolicyEngineVersionError string
  | MetadataCatalogVersionNotFoundError string
  | MetadataCatalogNotPublishedError string
  | MetadataCatalogUnavailableError string
  | PolicyCatalogValidationError string
  | StoredPolicyNotFoundError string
  | PolicyCreationIntegrityError string
  | PolicyContentHashCollisionError string
  | LegacyPolicyMappingIntegrityError string
  | LegacyPolicyTranslationError string translation_reason
  | V2ConfigurationError string
  | SQLAlchemyError string
  | OtherV2Error string

type_synonym 'a v2_result = "v2_error + 'a"

fun v2_bind :: "'a v2_result \<Rightarrow> ('a \<Rightarrow> 'b v2_result) \<Rightarrow> 'b v2_result" where
  "v2_bind (Inl e) f = Inl e"
| "v2_bind (Inr x) f = f x"

lemma v2_bind_Inr_iff: "v2_bind m f = Inr y \<longleftrightarrow> (\<exists>x. m = Inr x \<and> f x = Inr y)"
  by (cases m) auto

fun v2_map :: "('a \<Rightarrow> 'b v2_result) \<Rightarrow> 'a list \<Rightarrow> 'b list v2_result" where
  "v2_map f [] = Inr []"
| "v2_map f (x # xs) = v2_bind (f x) (\<lambda>y. v2_bind (v2_map f xs) (\<lambda>ys. Inr (y # ys)))"

section \<open>Dates in ISO formats\<close>

text \<open>
  \<open>date.fromisoformat\<close> on any text: a date with or without separators, or a week of a year and
  optionally its day. A text of ten characters without separators is read by its first eight, as
  the interpreter does.
\<close>

definition date_of_ordinal :: "nat \<Rightarrow> int \<Rightarrow> date option" where
  "date_of_ordinal y n =
     List.find (\<lambda>d. calendar_date d \<and> toordinal d = n)
       (concat (map (\<lambda>y. concat (map (\<lambda>m. map (\<lambda>d. (y, m, d)) [1..<32]) [1..<13])) [y - 1, y, y + 1]))"

definition week1_monday :: "nat \<Rightarrow> int" where
  "week1_monday y =
     (let firstday = toordinal (y, 1, 1); firstweekday = (firstday + 6) mod 7
      in firstday - firstweekday + (if firstweekday > 3 then 7 else 0))"

definition has_53_weeks :: "nat \<Rightarrow> bool" where
  "has_53_weeks y \<longleftrightarrow>
     (let first = toordinal (y, 1, 1) mod 7 in first = 4 \<or> first = 3 \<and> is_leap y)"

definition iso_to_date :: "nat \<Rightarrow> nat \<Rightarrow> nat \<Rightarrow> date option" where
  "iso_to_date y week day =
     (if y < 1 \<or> \<not> (1 \<le> week \<and> week \<le> 52 \<or> week = 53 \<and> has_53_weeks y) \<or> \<not> (1 \<le> day \<and> day \<le> 7) then None
      else date_of_ordinal y (week1_monday y + int (week - 1) * 7 + int (day - 1)))"

definition digits_at :: "nat \<Rightarrow> nat \<Rightarrow> string \<Rightarrow> nat option" where
  "digits_at k n s =
     (let t = take n (drop k s) in if length t = n \<and> list_all is_digit t then Some (digits_val 0 t) else None)"

definition char_at :: "nat \<Rightarrow> string \<Rightarrow> char option" where
  "char_at k s = (if k < length s then Some (s ! k) else None)"

definition date_fromisoformat :: "string \<Rightarrow> date option" where
  "date_fromisoformat s =
     (if length s \<notin> {7, 8, 10} then None
      else let separated = (char_at 4 s = Some (CHR ''-'')); k = (if separated then 5 else 4)
           in case digits_at 0 4 s of
                None \<Rightarrow> None
              | Some y \<Rightarrow>
                  if char_at k s = Some (CHR ''W'')
                  then (case digits_at (k + 1) 2 s of
                          None \<Rightarrow> None
                        | Some week \<Rightarrow>
                            if length s \<le> k + 3 then iso_to_date y week 1
                            else if separated \<and> char_at (k + 3) s \<noteq> Some (CHR ''-'') then None
                            else (case digits_at (if separated then k + 4 else k + 3) 1 s of
                                    None \<Rightarrow> None | Some day \<Rightarrow> iso_to_date y week day))
                  else (case digits_at k 2 s of
                          None \<Rightarrow> None
                        | Some m \<Rightarrow>
                            if separated \<and> char_at (k + 2) s \<noteq> Some (CHR ''-'') then None
                            else (case digits_at (if separated then k + 3 else k + 2) 2 s of
                                    None \<Rightarrow> None
                                  | Some d \<Rightarrow> if calendar_date (y, m, d) then Some (y, m, d) else None)))"

definition midnight :: "date \<Rightarrow> datetime" where
  "midnight d = (d, 0, 0, 0, 0)"

definition utc_midnight :: "string \<Rightarrow> datetime v2_result" where
  "utc_midnight value =
     (case date_fromisoformat value of
        None \<Rightarrow> Inl (LegacyPolicyTranslationError (''legacy period '' @ repr_string value @ '' is invalid'') InvalidPeriod)
      | Some d \<Rightarrow> Inr (midnight d))"

section \<open>Policies\<close>

record policy_value_input =
  pvi_parameter_id :: string
  pvi_value :: json
  pvi_start :: datetime
  pvi_end :: "datetime option"

record policy_content =
  pcn_country_id :: string
  pcn_model_id :: string
  pcn_values :: "policy_value_input list"

record resolved_policy =
  rsp_country_id :: string
  rsp_model_id :: string
  rsp_version_id :: string
  rsp_policyengine_version :: string
  rsp_values :: "policy_value_input list"

record v2_policy_env =
  vpe_period :: "string \<Rightarrow> (string \<times> string) option"
  vpe_version :: "string \<Rightarrow> string option"
  vpe_report :: "policy_content \<Rightarrow> string"
  vpe_sha256 :: "string \<Rightarrow> string"
  vpe_uuid :: "nat \<Rightarrow> string"
  vpe_running :: string

definition MAXIMUM_POLICY_PARAMETER_VALUES :: nat where
  "MAXIMUM_POLICY_PARAMETER_VALUES = 1000"

definition MAXIMUM_POLICYENGINE_VERSION_LENGTH :: nat where
  "MAXIMUM_POLICYENGINE_VERSION_LENGTH = 128"

definition validate_policyengine_version :: "v2_policy_env \<Rightarrow> string \<Rightarrow> string v2_result" where
  "validate_policyengine_version env version =
     (if version = [] \<or> version \<noteq> py_strip version
      then Inl (InvalidPolicyEngineVersionError ''policyengine_version must be a non-empty canonical version'')
      else if length version > MAXIMUM_POLICYENGINE_VERSION_LENGTH
      then Inl (InvalidPolicyEngineVersionError ''policyengine_version must be at most 128 characters'')
      else case vpe_version env version of
        None \<Rightarrow> Inl (InvalidPolicyEngineVersionError ''policyengine_version must be a canonical PEP 440 version'')
      | Some canonical \<Rightarrow>
          if canonical \<noteq> version \<or> Some canonical = vpe_version env ''0.0.0''
          then Inl (InvalidPolicyEngineVersionError
                 ''policyengine_version must be a canonical non-placeholder version'')
          else Inr version)"

definition value_ok :: "policy_value_input \<Rightarrow> bool" where
  "value_ok v \<longleftrightarrow>
     require_json_value 0 (pvi_value v)
     \<and> (case pvi_end v of None \<Rightarrow> True | Some e \<Rightarrow> timestamp (pvi_start v) \<le> timestamp e)"

definition content_ok :: "policy_content \<Rightarrow> bool" where
  "content_ok c \<longleftrightarrow>
     pcn_country_id c \<in> set SUPPORTED_COUNTRY_IDS \<and> list_all value_ok (pcn_values c)
     \<and> length (pcn_values c) \<le> MAXIMUM_POLICY_PARAMETER_VALUES
     \<and> distinct (map (\<lambda>v. (pvi_parameter_id v, pvi_start v)) (pcn_values c))"

definition policy_content_input :: "v2_policy_env \<Rightarrow> policy_content \<Rightarrow> policy_content v2_result" where
  "policy_content_input env c = (if content_ok c then Inr c else Inl (InvalidContent (vpe_report env c)))"

definition content_of :: "resolved_policy \<Rightarrow> policy_content" where
  "content_of r = \<lparr>pcn_country_id = rsp_country_id r, pcn_model_id = rsp_model_id r, pcn_values = rsp_values r\<rparr>"

definition resolved_input :: "v2_policy_env \<Rightarrow> resolved_policy \<Rightarrow> resolved_policy v2_result" where
  "resolved_input env r =
     v2_bind (policy_content_input env (content_of r)) (\<lambda>u.
     case validate_policyengine_version env (rsp_policyengine_version r) of
       Inl e \<Rightarrow> Inl (InvalidContent (vpe_report env (content_of r))) | Inr version \<Rightarrow> Inr r)"

section \<open>The catalog\<close>

record catalog_model =
  tm_id :: string
  tm_name :: string

record catalog_version =
  tv_id :: string
  tv_model_id :: string
  tv_version :: string

record catalog_parameter =
  ct_id :: string
  ct_version_id :: string
  ct_name :: string

record selected_catalog =
  sc_country_id :: string
  sc_policyengine_version :: string
  sc_model :: catalog_model
  sc_model_version :: catalog_version

text \<open>An id set is a list without repetitions.\<close>

definition validate_policy_catalog ::
  "v2_policy_env \<Rightarrow> policy_content \<Rightarrow> selected_catalog \<Rightarrow> string list \<Rightarrow> resolved_policy v2_result" where
  "validate_policy_catalog env c selected resolved_parameter_ids =
     (if pcn_model_id c \<noteq> tm_id (sc_model selected)
      then Inl (PolicyCatalogValidationError ''tax_benefit_model_id does not match the selected country catalog'')
      else if set resolved_parameter_ids \<noteq> set (map pvi_parameter_id (pcn_values c))
      then Inl (PolicyCatalogValidationError ''every parameter_id must belong to the selected model version'')
      else resolved_input env
             \<lparr>rsp_country_id = pcn_country_id c, rsp_model_id = tm_id (sc_model selected),
               rsp_version_id = tv_id (sc_model_version selected),
               rsp_policyengine_version = sc_policyengine_version selected, rsp_values = pcn_values c\<rparr>)"

section \<open>Canonical content\<close>

definition POLICY_CANONICALIZATION_VERSION :: int where
  "POLICY_CANONICALIZATION_VERSION = 1"

fun canonical_utc_datetime :: "datetime \<Rightarrow> string" where
  "canonical_utc_datetime (d, h, mi, s, us) =
     isoformat d @ ''T'' @ pad_left 2 (show_nat h) @ '':'' @ pad_left 2 (show_nat mi) @ '':''
       @ pad_left 2 (show_nat s) @ ''.'' @ pad_left 6 (show_nat us) @ ''Z''"

definition canonical_end :: "datetime option \<Rightarrow> json" where
  "canonical_end e = opt_str (map_option canonical_utc_datetime e)"

definition value_key :: "policy_value_input \<Rightarrow> string \<times> string \<times> string" where
  "value_key v =
     (pvi_parameter_id v, canonical_utc_datetime (pvi_start v),
      case pvi_end v of None \<Rightarrow> [] | Some e \<Rightarrow> canonical_utc_datetime e)"

definition canonical_value :: "policy_value_input \<Rightarrow> json" where
  "canonical_value v =
     JObj [(''parameter_id'', JStr (pvi_parameter_id v)), (''value'', pvi_value v),
           (''start_date'', JStr (canonical_utc_datetime (pvi_start v))), (''end_date'', canonical_end (pvi_end v))]"

definition canonical_policy_document :: "resolved_policy \<Rightarrow> string" where
  "canonical_policy_document r =
     canonical_json (JObj
       [(''canonicalization_version'', JInt POLICY_CANONICALIZATION_VERSION),
        (''country_id'', JStr (rsp_country_id r)), (''tax_benefit_model_id'', JStr (rsp_model_id r)),
        (''tax_benefit_model_version_id'', JStr (rsp_version_id r)),
        (''parameter_values'', JArr (map canonical_value (sort_key value_key (rsp_values r))))])"

definition policy_content_hash :: "v2_policy_env \<Rightarrow> resolved_policy \<Rightarrow> string" where
  "policy_content_hash env r = vpe_sha256 env (canonical_policy_document r)"


section \<open>Translating a v1 policy\<close>

definition period_error :: "string \<Rightarrow> 'a v2_result" where
  "period_error message = Inl (LegacyPolicyTranslationError message InvalidPeriod)"

text \<open>A failed reading of either end of a core period is reported as the whole period's.\<close>

definition parse_legacy_period :: "v2_policy_env \<Rightarrow> string \<Rightarrow> (datetime \<times> datetime) v2_result" where
  "parse_legacy_period env value =
     (if value = [] \<or> value \<noteq> py_strip value then period_error ''legacy period must be non-empty''
      else let parts = split_on CHR ''.'' value;
               invalid = ''legacy period '' @ repr_string value @ '' is invalid'';
               ends =
                 (if CHR ''.'' \<in> set value
                  then if length parts \<noteq> 2
                       then period_error (''legacy period '' @ repr_string value @ '' must contain one date range'')
                       else v2_bind (utc_midnight (parts ! 0)) (\<lambda>s. v2_bind (utc_midnight (parts ! 1)) (\<lambda>e. Inr (s, e)))
                  else case vpe_period env value of
                    None \<Rightarrow> period_error invalid
                  | Some (first_day, last_day) \<Rightarrow>
                      (case (utc_midnight first_day, utc_midnight last_day) of
                         (Inr s, Inr e) \<Rightarrow> Inr (s, e) | _ \<Rightarrow> period_error invalid))
           in v2_bind ends (\<lambda>(s, e).
                if timestamp e < timestamp s
                then period_error (''legacy period '' @ repr_string value @ '' ends before it starts'')
                else Inr (s, e)))"

text \<open>The values of one parameter, in the order of their periods.\<close>

fun translate_periods ::
  "v2_policy_env \<Rightarrow> policy_content \<Rightarrow> string \<Rightarrow> (string \<times> json) list \<Rightarrow> policy_value_input list v2_result" where
  "translate_periods env c parameter_id [] = Inr []"
| "translate_periods env c parameter_id ((period, v) # periods) =
     v2_bind (parse_legacy_period env period) (\<lambda>(s, e).
       if \<not> require_json_value 0 v then Inl (InvalidContent (vpe_report env c))
       else v2_bind (translate_periods env c parameter_id periods) (\<lambda>vs.
         Inr (\<lparr>pvi_parameter_id = parameter_id, pvi_value = v, pvi_start = s, pvi_end = Some e\<rparr> # vs)))"

definition parameter_id_of :: "(string \<times> catalog_parameter) list \<Rightarrow> string \<Rightarrow> string" where
  "parameter_id_of parameters name = (case map_of parameters name of None \<Rightarrow> [] | Some p \<Rightarrow> ct_id p)"

fun translate_parameters ::
  "v2_policy_env \<Rightarrow> policy_content \<Rightarrow> (string \<times> catalog_parameter) list \<Rightarrow> (string \<times> json) list
     \<Rightarrow> policy_value_input list v2_result" where
  "translate_parameters env c parameters [] = Inr []"
| "translate_parameters env c parameters ((name, v) # rest) =
     (case v of
        JObj periods \<Rightarrow>
          if periods = []
          then Inl (LegacyPolicyTranslationError (''legacy parameter '' @ repr_string name @ '' sets no values'') EmptyParameterValues)
          else v2_bind (translate_periods env c (parameter_id_of parameters name) (sort_key fst periods)) (\<lambda>vs.
               v2_bind (translate_parameters env c parameters rest) (\<lambda>rest'. Inr (vs @ rest')))
      | _ \<Rightarrow> Inl (LegacyPolicyTranslationError
                   (''legacy parameter '' @ repr_string name @ '' must contain period/value entries'') InvalidParameterValues))"

definition translate_legacy_policy ::
  "v2_policy_env \<Rightarrow> policy_snapshot \<Rightarrow> selected_catalog \<Rightarrow> (string \<times> catalog_parameter) list \<Rightarrow> resolved_policy v2_result" where
  "translate_legacy_policy env s selected parameters =
     (let content = \<lambda>vs. \<lparr>pcn_country_id = ps_country_id s, pcn_model_id = tm_id (sc_model selected), pcn_values = vs\<rparr>
      in case ps_policy_json s of
           JObj policy_json \<Rightarrow>
             if parameters_missing_from_model (map fst policy_json) (map fst parameters) \<noteq> []
             then Inl (LegacyPolicyTranslationError
                    ''every legacy parameter path must exist in the running catalog'' MissingParameters)
             else v2_bind (translate_parameters env (content []) parameters (sort_key fst policy_json)) (\<lambda>vs.
               if length vs > MAXIMUM_POLICY_PARAMETER_VALUES
               then Inl (LegacyPolicyTranslationError
                      ''legacy policy has more values than a v2 policy may hold'' TooManyValues)
               else case policy_content_input env (content vs) of
                 Inl e \<Rightarrow> Inl (LegacyPolicyTranslationError ''legacy parameter periods or values conflict'' ConflictingValues)
               | Inr c \<Rightarrow> validate_policy_catalog env c selected (map (ct_id \<circ> snd) parameters))
         | _ \<Rightarrow> Inl (ContentTypeError ''legacy policy_json must be an object''))"

section \<open>Failures of a copy\<close>

datatype copy_failure_category =
    ConfigurationFailure | CatalogOrTranslation | IntegrityOfCopy | DatabaseOfCopy | UnexpectedFailure
  | MissingMirrorSnapshotFailure | MissingMirrorRevisionFailure

datatype copy_failure_reason =
    ConfigurationReason | CatalogQueryFailed | CatalogAbsent | CatalogVersionNotFound | CatalogMismatch
  | MappingConflict | ContentHashCollision | StoredPolicyIntegrity | SavedPolicyIntegrity
  | MissingReformPolicy | MissingMirrorSnapshot | MissingMirrorRevision | DatabaseReason | UnexpectedReason
  | TranslationReason translation_reason

fun classify_policy_copy_failure :: "v2_error \<Rightarrow> copy_failure_category \<times> copy_failure_reason" where
  "classify_policy_copy_failure (LegacyPolicyTranslationError m r) = (CatalogOrTranslation, TranslationReason r)"
| "classify_policy_copy_failure (MetadataCatalogNotPublishedError m) = (CatalogOrTranslation, CatalogAbsent)"
| "classify_policy_copy_failure (MetadataCatalogUnavailableError m) = (CatalogOrTranslation, CatalogQueryFailed)"
| "classify_policy_copy_failure (V2ConfigurationError m) = (ConfigurationFailure, ConfigurationReason)"
| "classify_policy_copy_failure (MetadataCatalogVersionNotFoundError m) = (CatalogOrTranslation, CatalogVersionNotFound)"
| "classify_policy_copy_failure (PolicyCatalogValidationError m) = (CatalogOrTranslation, CatalogMismatch)"
| "classify_policy_copy_failure (LegacyPolicyMappingIntegrityError m) = (IntegrityOfCopy, MappingConflict)"
| "classify_policy_copy_failure (PolicyContentHashCollisionError m) = (IntegrityOfCopy, ContentHashCollision)"
| "classify_policy_copy_failure (PolicyCreationIntegrityError m) = (IntegrityOfCopy, StoredPolicyIntegrity)"
| "classify_policy_copy_failure (SQLAlchemyError m) = (DatabaseOfCopy, DatabaseReason)"
| "classify_policy_copy_failure e = (UnexpectedFailure, UnexpectedReason)"

end
