(* ===== verification/V2_Policies.thy ===== *)
theory V2_Policies
  imports V2_Policy_Documents "HOL-Library.AList"
begin

text \<open>
  \<open>policyengine_api/services/v2/policies/services.py\<close> with its connectors, and the selection of a
  catalog, \<open>data/v2/catalog/catalog_selection_reads.py\<close>: API v2's immutable policies, stored once
  per content and bound to a published catalog version, and the mappings of v1 ids to them.

  A request is one transaction. What other sessions commit between the first read of a copy and
  its writes is a parameter; a conflict of an insert is decided by the rows then stored. Queries
  do not fail.
\<close>

section \<open>Rows\<close>

record v2_policy =
  vp_id :: string
  vp_country_id :: string
  vp_model_id :: string
  vp_version_id :: string
  vp_canonicalization_version :: int
  vp_content_hash :: string
  vp_created_at :: int

record v2_policy_value =
  vv_id :: string
  vv_policy_id :: string
  vv_input :: policy_value_input

record v2_policy_mapping =
  vpm_country_id :: string
  vpm_legacy_policy_id :: int
  vpm_policy_id :: string
  vpm_source_policy_hash :: string

record v2_policy_db =
  vpd_models :: "catalog_model list"
  vpd_versions :: "catalog_version list"
  vpd_parameters :: "catalog_parameter list"
  vpd_policies :: "v2_policy list"
  vpd_values :: "v2_policy_value list"
  vpd_mappings :: "v2_policy_mapping list"
  vpd_draws :: nat
  vpd_clock :: int

type_synonym 'a policy_act = "v2_policy_db \<Rightarrow> 'a v2_result \<times> v2_policy_db"

section \<open>The selected catalog\<close>

definition catalog_rows :: "v2_policy_db \<Rightarrow> string \<Rightarrow> string \<Rightarrow> (catalog_model \<times> catalog_version) list" where
  "catalog_rows db country_id version =
     concat (map (\<lambda>m. map (Pair m) (filter (\<lambda>v. tv_model_id v = tm_id m \<and> tv_version v = version) (vpd_versions db)))
       (filter (\<lambda>m. tm_name m = ''policyengine-'' @ country_id) (vpd_models db)))"

definition select_catalog ::
  "v2_policy_env \<Rightarrow> v2_policy_db \<Rightarrow> string \<Rightarrow> string option \<Rightarrow> selected_catalog v2_result" where
  "select_catalog env db country_id policyengine_version =
     (if country_id \<notin> set SUPPORTED_COUNTRY_IDS then Inl (UnsupportedPreviewCountryError country_id)
      else v2_bind (case policyengine_version of
          Some version \<Rightarrow> validate_policyengine_version env version | None \<Rightarrow> Inr (vpe_running env)) (\<lambda>selected_version.
        case catalog_rows db country_id selected_version of
          [] \<Rightarrow>
            Inl (if policyengine_version \<noteq> None
                 then MetadataCatalogVersionNotFoundError
                        (''PolicyEngine.py '' @ selected_version @ '' is not published for '' @ country_id)
                 else MetadataCatalogNotPublishedError
                        (''the running PolicyEngine.py '' @ selected_version @ '' catalog is absent for '' @ country_id))
        | [(m, v)] \<Rightarrow>
            Inr \<lparr>sc_country_id = country_id, sc_policyengine_version = selected_version, sc_model = m, sc_model_version = v\<rparr>
        | _ \<Rightarrow> Inl (MetadataCatalogUnavailableError ''the v2 metadata catalog cannot be queried'')))"

section \<open>Reads\<close>

definition PARAMETER_NAME_BATCH_SIZE :: nat where
  "PARAMETER_NAME_BATCH_SIZE = 1000"

definition in_batches :: "nat \<Rightarrow> 'a list \<Rightarrow> 'a list list" where
  "in_batches n xs = map (\<lambda>i. take n (drop (i * n) xs)) [0..<(length xs + n - 1) div n]"

definition read_version_parameter_ids :: "v2_policy_db \<Rightarrow> string \<Rightarrow> string list \<Rightarrow> string list" where
  "read_version_parameter_ids db model_version_id requested_ids =
     (if requested_ids = [] then []
      else remdups (map ct_id (filter (\<lambda>p. ct_version_id p = model_version_id \<and> ct_id p \<in> set requested_ids)
             (vpd_parameters db))))"

definition read_parameters_by_name :: "v2_policy_db \<Rightarrow> string \<Rightarrow> string list \<Rightarrow> (string \<times> catalog_parameter) list" where
  "read_parameters_by_name db model_version_id names =
     fold (\<lambda>batch found.
         fold (\<lambda>p. AList.update (ct_name p) p)
           (filter (\<lambda>p. ct_version_id p = model_version_id \<and> ct_name p \<in> set batch) (vpd_parameters db)) found)
       (in_batches PARAMETER_NAME_BATCH_SIZE (sort (remdups names))) []"

definition read_policy_by_content_identity :: "v2_policy_db \<Rightarrow> int \<Rightarrow> string \<Rightarrow> v2_policy option" where
  "read_policy_by_content_identity db version content_hash =
     List.find (\<lambda>p. vp_canonicalization_version p = version \<and> vp_content_hash p = content_hash) (vpd_policies db)"

definition read_model_version :: "v2_policy_db \<Rightarrow> string \<Rightarrow> catalog_version option" where
  "read_model_version db model_version_id = List.find (\<lambda>v. tv_id v = model_version_id) (vpd_versions db)"

definition read_parameter_values :: "v2_policy_db \<Rightarrow> string \<Rightarrow> v2_policy_value list" where
  "read_parameter_values db policy_id = filter (\<lambda>v. vv_policy_id v = policy_id) (vpd_values db)"

definition read_legacy_policy_mapping :: "v2_policy_db \<Rightarrow> string \<Rightarrow> int \<Rightarrow> v2_policy_mapping option" where
  "read_legacy_policy_mapping db country_id legacy_policy_id =
     List.find (\<lambda>m. vpm_country_id m = country_id \<and> vpm_legacy_policy_id m = legacy_policy_id) (vpd_mappings db)"

definition read_policy_row :: "v2_policy_db \<Rightarrow> string \<Rightarrow> string \<Rightarrow> v2_policy option" where
  "read_policy_row db country_id policy_id =
     List.find (\<lambda>p. vp_id p = policy_id \<and> vp_country_id p = country_id) (vpd_policies db)"

definition read_policy_rows :: "v2_policy_db \<Rightarrow> string \<Rightarrow> string option \<Rightarrow> nat \<Rightarrow> nat \<Rightarrow> v2_policy list" where
  "read_policy_rows db country_id model_id offset limit =
     take (limit + 1) (drop offset (sort_key (\<lambda>p. (vp_created_at p, vp_id p))
       (filter (\<lambda>p. vp_country_id p = country_id \<and> (model_id = None \<or> Some (vp_model_id p) = model_id))
         (vpd_policies db))))"

text \<open>The values with the names of their parameters, by name, start and id.\<close>

definition read_parameter_values_with_names :: "v2_policy_db \<Rightarrow> string list \<Rightarrow> (v2_policy_value \<times> string) list" where
  "read_parameter_values_with_names db policy_ids =
     sort_key (\<lambda>(v, name). (name, timestamp (pvi_start (vv_input v)), vv_id v))
       (concat (map (\<lambda>v. map (\<lambda>p. (v, ct_name p)) (filter (\<lambda>p. ct_id p = pvi_parameter_id (vv_input v)) (vpd_parameters db)))
         (filter (\<lambda>v. vv_policy_id v \<in> set policy_ids) (vpd_values db))))"

section \<open>Creating\<close>

definition resolve_policy_creation_input ::
  "v2_policy_env \<Rightarrow> v2_policy_db \<Rightarrow> policy_content \<Rightarrow> string option \<Rightarrow> resolved_policy v2_result" where
  "resolve_policy_creation_input env db c policyengine_version =
     v2_bind (select_catalog env db (pcn_country_id c) policyengine_version) (\<lambda>selected.
       validate_policy_catalog env c selected
         (read_version_parameter_ids db (tv_id (sc_model_version selected)) (remdups (map pvi_parameter_id (pcn_values c)))))"

definition insert_policy :: "v2_policy_env \<Rightarrow> resolved_policy \<Rightarrow> int \<Rightarrow> string \<Rightarrow> v2_policy_db \<Rightarrow> string option \<times> v2_policy_db" where
  "insert_policy env r version content_hash db =
     (let policy_id = vpe_uuid env (vpd_draws db); db' = db\<lparr>vpd_draws := vpd_draws db + 1\<rparr>
      in if read_policy_by_content_identity db version content_hash \<noteq> None then (None, db')
         else (Some policy_id, db'\<lparr>vpd_policies := vpd_policies db @
                [\<lparr>vp_id = policy_id, vp_country_id = rsp_country_id r, vp_model_id = rsp_model_id r,
                  vp_version_id = rsp_version_id r, vp_canonicalization_version = version,
                  vp_content_hash = content_hash, vp_created_at = vpd_clock db\<rparr>]\<rparr>))"

definition create_parameter_values :: "v2_policy_env \<Rightarrow> string \<Rightarrow> resolved_policy \<Rightarrow> v2_policy_db \<Rightarrow> v2_policy_db" where
  "create_parameter_values env policy_id r db =
     db\<lparr>vpd_values := vpd_values db @
          map (\<lambda>(i, v). \<lparr>vv_id = vpe_uuid env (vpd_draws db + i), vv_policy_id = policy_id, vv_input = v\<rparr>)
            (List.enumerate 0 (rsp_values r)),
        vpd_draws := vpd_draws db + length (rsp_values r)\<rparr>"

definition create_legacy_policy_mapping :: "policy_snapshot \<Rightarrow> string \<Rightarrow> v2_policy_db \<Rightarrow> bool \<times> v2_policy_db" where
  "create_legacy_policy_mapping s policy_id db =
     (if read_legacy_policy_mapping db (ps_country_id s) (ps_legacy_policy_id s) \<noteq> None then (False, db)
      else (True, db\<lparr>vpd_mappings := vpd_mappings db @
              [\<lparr>vpm_country_id = ps_country_id s, vpm_legacy_policy_id = ps_legacy_policy_id s,
                vpm_policy_id = policy_id, vpm_source_policy_hash = ps_source_policy_hash s\<rparr>]\<rparr>))"

definition stored_policy :: "v2_policy \<Rightarrow> catalog_version \<Rightarrow> policy_value_input list \<Rightarrow> resolved_policy" where
  "stored_policy p version vs =
     \<lparr>rsp_country_id = vp_country_id p, rsp_model_id = vp_model_id p, rsp_version_id = vp_version_id p,
       rsp_policyengine_version = tv_version version, rsp_values = vs\<rparr>"

definition stored_policy_creation_input :: "v2_policy_env \<Rightarrow> v2_policy_db \<Rightarrow> v2_policy \<Rightarrow> resolved_policy v2_result" where
  "stored_policy_creation_input env db p =
     (case read_model_version db (vp_version_id p) of
        None \<Rightarrow> Inl (PolicyCreationIntegrityError ''stored policy references an absent model version'')
      | Some version \<Rightarrow> resolved_input env (stored_policy p version (map vv_input (read_parameter_values db (vp_id p)))))"

definition create_resolved_policy :: "v2_policy_env \<Rightarrow> resolved_policy \<Rightarrow> (string \<times> bool) policy_act" where
  "create_resolved_policy env r db =
     (let content_hash = policy_content_hash env r
      in case insert_policy env r POLICY_CANONICALIZATION_VERSION content_hash db of
           (Some policy_id, db') \<Rightarrow> (Inr (policy_id, True), create_parameter_values env policy_id r db')
         | (None, db') \<Rightarrow>
             (case read_policy_by_content_identity db' POLICY_CANONICALIZATION_VERSION content_hash of
                None \<Rightarrow> (Inl (PolicyCreationIntegrityError ''policy hash conflict did not resolve to a stored policy''), db')
              | Some existing \<Rightarrow>
                  (v2_bind (stored_policy_creation_input env db' existing) (\<lambda>stored.
                     if canonical_policy_document stored \<noteq> canonical_policy_document r
                     then Inl (PolicyContentHashCollisionError
                            ''stored policy content differs for the same canonical version and hash'')
                     else Inr (vp_id existing, False)), db')))"

section \<open>Reading\<close>

record policy_read =
  pr_row :: v2_policy
  pr_values :: "(v2_policy_value \<times> string) list"

text \<open>The values of each policy, in the order they were read.\<close>

definition policy_read_of :: "(v2_policy_value \<times> string) list \<Rightarrow> v2_policy \<Rightarrow> policy_read" where
  "policy_read_of rows p = \<lparr>pr_row = p, pr_values = filter (\<lambda>(v, name). vv_policy_id v = vp_id p) rows\<rparr>"

definition read_complete_policy :: "v2_policy_db \<Rightarrow> string \<Rightarrow> string \<Rightarrow> policy_read v2_result" where
  "read_complete_policy db country_id policy_id =
     (case read_policy_row db country_id policy_id of
        None \<Rightarrow> Inl (StoredPolicyNotFoundError (''policy '' @ policy_id @ '' was not found''))
      | Some p \<Rightarrow> Inr (policy_read_of (read_parameter_values_with_names db [vp_id p]) p))"

record policy_page =
  ppg_items :: "policy_read list"
  ppg_offset :: nat
  ppg_limit :: nat
  ppg_has_more :: bool

definition read_policy_page :: "v2_policy_db \<Rightarrow> string \<Rightarrow> string option \<Rightarrow> nat \<Rightarrow> nat \<Rightarrow> policy_page" where
  "read_policy_page db country_id model_id offset limit =
     (let rows = read_policy_rows db country_id model_id offset limit; shown = take limit rows;
          named = read_parameter_values_with_names db (map vp_id shown)
      in \<lparr>ppg_items = map (policy_read_of named) shown, ppg_offset = offset, ppg_limit = limit,
          ppg_has_more = limit < length rows\<rparr>)"

definition policy_missing_parameters :: "policy_read \<Rightarrow> string \<Rightarrow> string list \<Rightarrow> string list" where
  "policy_missing_parameters p running_model_version_id running_parameter_names =
     (if vp_version_id (pr_row p) = running_model_version_id then []
      else parameters_missing_from_model (map snd (pr_values p)) running_parameter_names)"

text \<open>A policy with the parameters the running catalog lacks, None when no catalog is published.\<close>

definition with_missing_parameters ::
  "v2_policy_env \<Rightarrow> v2_policy_db \<Rightarrow> string \<Rightarrow> policy_read list \<Rightarrow> (policy_read \<times> string list option) list v2_result" where
  "with_missing_parameters env db country_id policies =
     (case select_catalog env db country_id None of
        Inl (MetadataCatalogNotPublishedError m) \<Rightarrow> Inr (map (\<lambda>p. (p, None)) policies)
      | Inl e \<Rightarrow> Inl e
      | Inr selected \<Rightarrow>
          (let running = tv_id (sc_model_version selected);
               names = concat (map (\<lambda>p. if vp_version_id (pr_row p) \<noteq> running then map snd (pr_values p) else []) policies);
               parameters = read_parameters_by_name db running (remdups names)
           in Inr (map (\<lambda>p. (p, Some (policy_missing_parameters p running (map fst parameters)))) policies)))"

section \<open>Copying a v1 policy\<close>

record policy_mirror_result =
  pmr_policy_id :: string
  pmr_policy_created :: bool
  pmr_mapping_created :: bool

definition verify_legacy_policy_mapping :: "v2_policy_mapping \<Rightarrow> policy_snapshot \<Rightarrow> policy_mirror_result v2_result" where
  "verify_legacy_policy_mapping m s =
     (if vpm_source_policy_hash m \<noteq> ps_source_policy_hash s
      then Inl (LegacyPolicyMappingIntegrityError ''legacy policy identity was presented with a different source hash'')
      else Inr \<lparr>pmr_policy_id = vpm_policy_id m, pmr_policy_created = False, pmr_mapping_created = False\<rparr>)"

definition translated_policy :: "v2_policy_env \<Rightarrow> v2_policy_db \<Rightarrow> policy_snapshot \<Rightarrow> resolved_policy v2_result" where
  "translated_policy env db s =
     v2_bind (select_catalog env db (ps_country_id s) None) (\<lambda>selected.
       case ps_policy_json s of
         JObj policy_json \<Rightarrow>
           translate_legacy_policy env s selected
             (read_parameters_by_name db (tv_id (sc_model_version selected)) (map fst policy_json))
       | _ \<Rightarrow> Inl (ContentTypeError ''legacy policy_json must be an object''))"

definition map_stored_policy :: "policy_snapshot \<Rightarrow> string \<times> bool \<Rightarrow> policy_mirror_result policy_act" where
  "map_stored_policy s stored db =
     (case create_legacy_policy_mapping s (fst stored) db of
        (True, db') \<Rightarrow>
          (Inr \<lparr>pmr_policy_id = fst stored, pmr_policy_created = snd stored, pmr_mapping_created = True\<rparr>, db')
      | (False, db') \<Rightarrow>
          (case read_legacy_policy_mapping db' (ps_country_id s) (ps_legacy_policy_id s) of
             None \<Rightarrow> (Inl (LegacyPolicyMappingIntegrityError
                        ''legacy policy mapping conflict did not resolve to a stored row''), db')
           | Some concurrent \<Rightarrow> (verify_legacy_policy_mapping concurrent s, db')))"

definition mirror_legacy_policy_in_session ::
  "v2_policy_env \<Rightarrow> (v2_policy_db \<Rightarrow> v2_policy_db) \<Rightarrow> policy_snapshot \<Rightarrow> policy_mirror_result policy_act" where
  "mirror_legacy_policy_in_session env others s db =
     (case read_legacy_policy_mapping db (ps_country_id s) (ps_legacy_policy_id s) of
        Some m \<Rightarrow> (verify_legacy_policy_mapping m s, others db)
      | None \<Rightarrow>
          (case translated_policy env (others db) s of
             Inl e \<Rightarrow> (Inl e, others db)
           | Inr r \<Rightarrow>
               (case create_resolved_policy env r (others db) of
                  (Inl e, db') \<Rightarrow> (Inl e, db')
                | (Inr stored, db') \<Rightarrow> map_stored_policy s stored db')))"

section \<open>The service\<close>

text \<open>A transaction that raises leaves nothing of a request but the ids it drew.\<close>

definition policy_transaction :: "(v2_policy_db \<Rightarrow> v2_policy_db) \<Rightarrow> 'a policy_act \<Rightarrow> 'a policy_act" where
  "policy_transaction others m db =
     (case m db of (Inr x, db') \<Rightarrow> (Inr x, db') | (Inl e, db') \<Rightarrow> (Inl e, (others db)\<lparr>vpd_draws := vpd_draws db'\<rparr>))"

definition mirror_legacy_policy ::
  "v2_policy_env \<Rightarrow> (v2_policy_db \<Rightarrow> v2_policy_db) \<Rightarrow> policy_snapshot \<Rightarrow> policy_mirror_result policy_act" where
  "mirror_legacy_policy env others s = policy_transaction others (mirror_legacy_policy_in_session env others s)"

text \<open>
  After a v1 policy is committed: a failed copy is logged under its category and reason, and raises.
\<close>

definition mirror_policy_after_commit ::
  "v2_policy_env \<Rightarrow> (v2_policy_db \<Rightarrow> v2_policy_db) \<Rightarrow> policy_snapshot \<Rightarrow> v2_policy_db
     \<Rightarrow> ((copy_failure_category \<times> copy_failure_reason) + policy_mirror_result) \<times> v2_policy_db" where
  "mirror_policy_after_commit env others s db =
     (case mirror_legacy_policy env others s db of
        (Inl e, db') \<Rightarrow> (Inl (classify_policy_copy_failure e), db')
      | (Inr r, db') \<Rightarrow> (Inr r, db'))"

definition get_v2_policy :: "v2_policy_env \<Rightarrow> v2_policy_db \<Rightarrow> string \<Rightarrow> string \<Rightarrow> (policy_read \<times> string list option) v2_result" where
  "get_v2_policy env db country_id policy_id =
     v2_bind (read_complete_policy db country_id policy_id) (\<lambda>item.
     v2_bind (with_missing_parameters env db country_id [item]) (\<lambda>checked. Inr (hd checked)))"

definition list_v2_policies ::
  "v2_policy_env \<Rightarrow> v2_policy_db \<Rightarrow> string \<Rightarrow> string option \<Rightarrow> nat \<Rightarrow> nat
     \<Rightarrow> ((policy_read \<times> string list option) list \<times> bool) v2_result" where
  "list_v2_policies env db country_id model_id offset limit =
     (let page = read_policy_page db country_id model_id offset limit
      in v2_bind (with_missing_parameters env db country_id (ppg_items page)) (\<lambda>items. Inr (items, ppg_has_more page)))"

definition create_v2_policy ::
  "v2_policy_env \<Rightarrow> policy_content \<Rightarrow> string option \<Rightarrow> ((policy_read \<times> string list option) \<times> bool) policy_act" where
  "create_v2_policy env c policyengine_version =
     policy_transaction (\<lambda>db. db) (\<lambda>db.
       case v2_bind (policy_content_input env c) (\<lambda>c. resolve_policy_creation_input env db c policyengine_version) of
         Inl e \<Rightarrow> (Inl e, db)
       | Inr r \<Rightarrow>
           (case create_resolved_policy env r db of
              (Inl e, db') \<Rightarrow> (Inl e, db')
            | (Inr (policy_id, created), db') \<Rightarrow>
                (v2_bind (get_v2_policy env db' (pcn_country_id c) policy_id) (\<lambda>checked. Inr (checked, created)), db')))"

end
