(* ===== verification/V2_Accounts.thy ===== *)
theory V2_Accounts
  imports V2_Policies
begin

text \<open>
  \<open>policyengine_api/services/v2/identity/\<close>: the users of API v2, the sign-in identities that name
  them, and the conversion of a signed-out browser's user into an account, with the rows of
  \<open>data/v2/models/users.py\<close> and the associations users own.

  What other sessions commit between a read of a request and its insert is a parameter, and a
  uniqueness conflict is decided by the rows then stored. Times are microseconds in UTC. The
  columns these operations never write, and log records, are left out.
\<close>

section \<open>Errors\<close>

datatype account_error =
    PolicyFailure v2_error
  | IdentityProvisioningError string
  | StandardUserRequiresSignInError string
  | UserPolicyNotFoundError string
  | AssociationPolicyNotFoundError string
  | AssociationCountryConflictError string
  | AssociationReferenceConflictError string
  | MirrorOwnedAssociationError string
  | LegacyReferenceCheckUnavailableError string
  | LegacyReferenceNotFoundError string
  | LegacyUserPolicyIntegrityError string
  | AccountInputError string
  | ConstraintError string

section \<open>Rows\<close>

datatype user_type = UnauthenticatedUser | StandardUser

record v2_user =
  vu_id :: string
  vu_primary_country :: "string option"
  vu_type :: user_type

record user_identity =
  ui_user_id :: string
  ui_issuer :: string
  ui_subject :: string
  ui_email :: "string option"
  ui_last_seen_at :: int

record legacy_user_mapping =
  lum_legacy_user_id :: string
  lum_user_id :: string

record v2_user_policy =
  va_id :: string
  va_country_id :: string
  va_user_id :: string
  va_policy_id :: "string option"
  va_legacy_policy_id :: "int option"
  va_name :: "string option"
  va_description :: "string option"
  va_baseline :: "string option"
  va_provenance :: json
  va_created_at :: int
  va_updated_at :: int

record user_policy_mapping =
  upm_country_id :: string
  upm_legacy_user_policy_id :: int
  upm_user_policy_id :: string
  upm_last_applied_source_revision :: int
  upm_fingerprint_version :: int
  upm_fingerprint :: string

text \<open>The rows of the other three association tables, as far as their owner.\<close>

datatype association_table = HouseholdAssociations | SimulationAssociations | ReportAssociations

record other_association =
  oa_table :: association_table
  oa_id :: string
  oa_user_id :: string

record account_db =
  ad_policies :: v2_policy_db
  ad_users :: "v2_user list"
  ad_identities :: "user_identity list"
  ad_user_mappings :: "legacy_user_mapping list"
  ad_user_policies :: "v2_user_policy list"
  ad_mappings :: "user_policy_mapping list"
  ad_other_associations :: "other_association list"

type_synonym 'a account_act = "account_db \<Rightarrow> (account_error + 'a) \<times> account_db"

definition now_of :: "account_db \<Rightarrow> int" where
  "now_of db = vpd_clock (ad_policies db)"

definition drawn :: "account_db \<Rightarrow> nat" where
  "drawn db = vpd_draws (ad_policies db)"

definition set_drawn :: "nat \<Rightarrow> account_db \<Rightarrow> account_db" where
  "set_drawn n db = db\<lparr>ad_policies := (ad_policies db)\<lparr>vpd_draws := n\<rparr>\<rparr>"

text \<open>A transaction that raises leaves of a request nothing but the ids it drew.\<close>

definition account_transaction :: "(account_db \<Rightarrow> account_db) \<Rightarrow> 'a account_act \<Rightarrow> 'a account_act" where
  "account_transaction others m db =
     (case m db of (Inr x, db') \<Rightarrow> (Inr x, db') | (Inl e, db') \<Rightarrow> (Inl e, set_drawn (max (drawn db') (drawn (others db))) (others db)))"

text \<open>Deleting a user deletes its identities and associations, and these their mappings.\<close>

definition delete_user_row :: "string \<Rightarrow> account_db \<Rightarrow> account_db" where
  "delete_user_row user_id db =
     (let owned = map va_id (filter (\<lambda>a. va_user_id a = user_id) (ad_user_policies db))
      in db\<lparr>ad_users := filter (\<lambda>u. vu_id u \<noteq> user_id) (ad_users db),
            ad_identities := filter (\<lambda>i. ui_user_id i \<noteq> user_id) (ad_identities db),
            ad_user_policies := filter (\<lambda>a. va_user_id a \<noteq> user_id) (ad_user_policies db),
            ad_mappings := filter (\<lambda>m. upm_user_policy_id m \<notin> set owned) (ad_mappings db),
            ad_other_associations := filter (\<lambda>a. oa_user_id a \<noteq> user_id) (ad_other_associations db)\<rparr>)"

section \<open>Principals\<close>

record user_principal =
  pri_issuer :: string
  pri_subject :: string
  pri_email :: "string option"

datatype account_principal = SignedIn user_principal | SignedOut string

record resolved_user =
  ru_user_id :: string
  ru_email :: "string option"
  ru_type :: user_type

definition standard_resolved_user :: "string \<Rightarrow> string option \<Rightarrow> resolved_user" where
  "standard_resolved_user user_id email = \<lparr>ru_user_id = user_id, ru_email = email, ru_type = StandardUser\<rparr>"

definition unauthenticated_resolved_user :: "v2_user \<Rightarrow> resolved_user" where
  "unauthenticated_resolved_user u = \<lparr>ru_user_id = vu_id u, ru_email = None, ru_type = UnauthenticatedUser\<rparr>"

section \<open>Reads\<close>

definition read_user_identity :: "account_db \<Rightarrow> string \<Rightarrow> string \<Rightarrow> user_identity option" where
  "read_user_identity db issuer subject =
     List.find (\<lambda>i. ui_issuer i = issuer \<and> ui_subject i = subject) (ad_identities db)"

definition read_user :: "account_db \<Rightarrow> string \<Rightarrow> v2_user option" where
  "read_user db user_id = List.find (\<lambda>u. vu_id u = user_id) (ad_users db)"

definition read_unauthenticated_user :: "account_db \<Rightarrow> string \<Rightarrow> v2_user option" where
  "read_unauthenticated_user db user_id =
     List.find (\<lambda>u. vu_id u = user_id \<and> vu_type u = UnauthenticatedUser) (ad_users db)"

section \<open>Writes\<close>

definition create_provisioned_user :: "v2_policy_env \<Rightarrow> string \<Rightarrow> account_db \<Rightarrow> v2_user \<times> account_db" where
  "create_provisioned_user env primary_country db =
     (let u = \<lparr>vu_id = vpe_uuid env (drawn db), vu_primary_country = Some primary_country, vu_type = StandardUser\<rparr>
      in (u, set_drawn (drawn db + 1) (db\<lparr>ad_users := ad_users db @ [u]\<rparr>)))"

definition create_unauthenticated_user :: "string \<Rightarrow> account_db \<Rightarrow> bool \<times> account_db" where
  "create_unauthenticated_user user_id db =
     (if read_user db user_id \<noteq> None then (False, db)
      else (True, db\<lparr>ad_users := ad_users db @
              [\<lparr>vu_id = user_id, vu_primary_country = None, vu_type = UnauthenticatedUser\<rparr>]\<rparr>))"

definition create_user_identity :: "string \<Rightarrow> user_principal \<Rightarrow> int \<Rightarrow> account_db \<Rightarrow> string option \<times> account_db" where
  "create_user_identity user_id who seen_at db =
     (if read_user_identity db (pri_issuer who) (pri_subject who) \<noteq> None then (None, db)
      else (Some user_id, db\<lparr>ad_identities := ad_identities db @
              [\<lparr>ui_user_id = user_id, ui_issuer = pri_issuer who, ui_subject = pri_subject who,
                ui_email = pri_email who, ui_last_seen_at = seen_at\<rparr>]\<rparr>))"

text \<open>An identity is written back under its issuer and subject.\<close>

definition identity_key :: "user_identity \<Rightarrow> string \<times> string" where
  "identity_key i = (ui_issuer i, ui_subject i)"

definition update_user_identity_activity :: "user_identity \<Rightarrow> string option \<Rightarrow> int \<Rightarrow> account_db \<Rightarrow> account_db" where
  "update_user_identity_activity i email seen_at db =
     db\<lparr>ad_identities := put_row identity_key (i\<lparr>ui_email := email, ui_last_seen_at := seen_at\<rparr>) (ad_identities db)\<rparr>"

definition update_user_to_standard :: "v2_user \<Rightarrow> string \<Rightarrow> account_db \<Rightarrow> account_db" where
  "update_user_to_standard u primary_country db =
     db\<lparr>ad_users := put_row vu_id (u\<lparr>vu_type := StandardUser, vu_primary_country := Some primary_country\<rparr>) (ad_users db)\<rparr>"

definition reassign_user_associations :: "string \<Rightarrow> string \<Rightarrow> account_db \<Rightarrow> account_db" where
  "reassign_user_associations from_user_id to_user_id db =
     db\<lparr>ad_user_policies := map (\<lambda>a. if va_user_id a = from_user_id then a\<lparr>va_user_id := to_user_id\<rparr> else a) (ad_user_policies db),
        ad_other_associations :=
          map (\<lambda>a. if oa_user_id a = from_user_id then a\<lparr>oa_user_id := to_user_id\<rparr> else a) (ad_other_associations db)\<rparr>"

definition delete_unauthenticated_user :: "string \<Rightarrow> account_db \<Rightarrow> account_db" where
  "delete_unauthenticated_user user_id db =
     (if read_unauthenticated_user db user_id = None then db else delete_user_row user_id db)"

section \<open>Signed-in users\<close>

definition LAST_SEEN_REFRESH_INTERVAL :: int where
  "LAST_SEEN_REFRESH_INTERVAL = 60 * 60 * 1000000"

definition refreshed_identity_email :: "user_identity \<Rightarrow> string option \<Rightarrow> string option" where
  "refreshed_identity_email i email = (if email = None then ui_email i else email)"

definition identity_refresh_required :: "user_identity \<Rightarrow> string option \<Rightarrow> int \<Rightarrow> bool" where
  "identity_refresh_required i email seen_at \<longleftrightarrow>
     refreshed_identity_email i email \<noteq> ui_email i \<or> seen_at - ui_last_seen_at i \<ge> LAST_SEEN_REFRESH_INTERVAL"

definition find_standard :: "user_principal \<Rightarrow> account_db \<Rightarrow> resolved_user option" where
  "find_standard who db =
     map_option (\<lambda>i. standard_resolved_user (ui_user_id i) (ui_email i))
       (read_user_identity db (pri_issuer who) (pri_subject who))"

text \<open>The user of a lost race is rolled back to the savepoint; its id stays drawn.\<close>

definition resolve_standard ::
  "v2_policy_env \<Rightarrow> (account_db \<Rightarrow> account_db) \<Rightarrow> user_principal \<Rightarrow> string \<Rightarrow> int \<Rightarrow> resolved_user account_act" where
  "resolve_standard env others who country_id seen_at db =
     (case read_user_identity db (pri_issuer who) (pri_subject who) of
        Some i \<Rightarrow>
          (Inr (standard_resolved_user (ui_user_id i) (refreshed_identity_email i (pri_email who))),
           if identity_refresh_required i (pri_email who) seen_at
           then update_user_identity_activity i (refreshed_identity_email i (pri_email who)) seen_at db else db)
      | None \<Rightarrow>
          (case create_provisioned_user env country_id (others db) of
             (u, db1) \<Rightarrow>
               (case create_user_identity (vu_id u) who seen_at db1 of
                  (Some created_user_id, db2) \<Rightarrow> (Inr (standard_resolved_user created_user_id (pri_email who)), db2)
                | (None, db2) \<Rightarrow>
                    (let db3 = set_drawn (drawn db2) (others db)
                     in case read_user_identity db3 (pri_issuer who) (pri_subject who) of
                          None \<Rightarrow> (Inl (IdentityProvisioningError
                            ''user identity provisioning conflict did not resolve to a stored row''), db3)
                        | Some i \<Rightarrow> (Inr (standard_resolved_user (ui_user_id i) (ui_email i)), db3)))))"

section \<open>Signed-out browsers\<close>

definition require_unauthenticated_user :: "v2_user option \<Rightarrow> account_error + v2_user option" where
  "require_unauthenticated_user u =
     (case u of
        Some u' \<Rightarrow>
          if vu_type u' \<noteq> UnauthenticatedUser
          then Inl (StandardUserRequiresSignInError
                 ''This browser's saved work now belongs to a signed-in account; sign in to continue'')
          else Inr u
      | None \<Rightarrow> Inr u)"

definition find_signed_out :: "string \<Rightarrow> account_db \<Rightarrow> account_error + resolved_user option" where
  "find_signed_out user_id db =
     (case require_unauthenticated_user (read_user db user_id) of
        Inl e \<Rightarrow> Inl e | Inr u \<Rightarrow> Inr (map_option unauthenticated_resolved_user u))"

definition UNAUTHENTICATED_PROVISIONING_ATTEMPTS :: nat where
  "UNAUTHENTICATED_PROVISIONING_ATTEMPTS = 2"

text \<open>One attempt after another; other sessions act between an insert and its re-read.\<close>

fun provision_signed_out :: "(account_db \<Rightarrow> account_db) list \<Rightarrow> string \<Rightarrow> v2_user option account_act" where
  "provision_signed_out [] user_id db = (Inr None, db)"
| "provision_signed_out (others # rest) user_id db =
     (let db' = others (snd (create_unauthenticated_user user_id db))
      in case require_unauthenticated_user (read_user db' user_id) of
           Inl e \<Rightarrow> (Inl e, db')
         | Inr (Some u) \<Rightarrow> (Inr (Some u), db')
         | Inr None \<Rightarrow> provision_signed_out rest user_id db')"

definition resolve_signed_out :: "(account_db \<Rightarrow> account_db) \<Rightarrow> string \<Rightarrow> resolved_user account_act" where
  "resolve_signed_out others user_id db =
     (case provision_signed_out (replicate UNAUTHENTICATED_PROVISIONING_ATTEMPTS others) user_id db of
        (Inl e, db') \<Rightarrow> (Inl e, db')
      | (Inr None, db') \<Rightarrow>
          (Inl (IdentityProvisioningError
             ''unauthenticated user provisioning did not resolve to a stored row''), db')
      | (Inr (Some u), db') \<Rightarrow> (Inr (unauthenticated_resolved_user u), db'))"

section \<open>Any who\<close>

fun find_principal_user :: "account_principal \<Rightarrow> account_db \<Rightarrow> account_error + resolved_user option" where
  "find_principal_user (SignedIn who) db = Inr (find_standard who db)"
| "find_principal_user (SignedOut user_id) db = find_signed_out user_id db"

fun resolve_principal_user ::
  "v2_policy_env \<Rightarrow> (account_db \<Rightarrow> account_db) \<Rightarrow> account_principal \<Rightarrow> string \<Rightarrow> resolved_user account_act" where
  "resolve_principal_user env others (SignedIn who) country_id db =
     resolve_standard env others who country_id (now_of db) db"
| "resolve_principal_user env others (SignedOut user_id) country_id db = resolve_signed_out others user_id db"

fun resolve_principal_user_for_read ::
  "v2_policy_env \<Rightarrow> (account_db \<Rightarrow> account_db) \<Rightarrow> account_principal \<Rightarrow> string \<Rightarrow> resolved_user option account_act" where
  "resolve_principal_user_for_read env others (SignedIn who) country_id db =
     (case resolve_standard env others who country_id (now_of db) db of
        (Inl e, db') \<Rightarrow> (Inl e, db') | (Inr u, db') \<Rightarrow> (Inr (Some u), db'))"
| "resolve_principal_user_for_read env others (SignedOut user_id) country_id db = (find_signed_out user_id db, db)"

section \<open>Conversion at sign-in\<close>

datatype conversion_outcome = Converted | Merged | NoConversion

definition converted_primary_country :: "v2_user \<Rightarrow> string \<Rightarrow> string" where
  "converted_primary_country u country_id =
     (case vu_primary_country u of None \<Rightarrow> country_id | Some c \<Rightarrow> if c = [] then country_id else c)"

text \<open>
  The browser's row is locked first, so other sessions do not change that user. They act between
  the look for the identity and its insert, and again before a merge resolves the identity's user.
\<close>

definition convert_unauthenticated_user ::
  "v2_policy_env \<Rightarrow> (account_db \<Rightarrow> account_db) \<Rightarrow> (account_db \<Rightarrow> account_db) \<Rightarrow> string \<Rightarrow> user_principal \<Rightarrow> string
     \<Rightarrow> (resolved_user \<times> conversion_outcome) account_act" where
  "convert_unauthenticated_user env others others' unauthenticated_user_id who country_id db =
     (let seen_at = now_of db;
          outcome_of = \<lambda>outcome (res, db'). (case res of Inl e \<Rightarrow> (Inl e, db') | Inr owner \<Rightarrow> (Inr (owner, outcome), db'))
      in case read_unauthenticated_user db unauthenticated_user_id of
           None \<Rightarrow> outcome_of NoConversion (resolve_standard env others who country_id seen_at db)
         | Some u \<Rightarrow>
             (case (if find_standard who db = None
                    then create_user_identity (vu_id u) who seen_at (others db) else (None, others db)) of
                (Some created_user_id, db1) \<Rightarrow>
                  (Inr (standard_resolved_user (vu_id u) (pri_email who), Converted),
                   update_user_to_standard u (converted_primary_country u country_id) db1)
              | (None, db1) \<Rightarrow>
                  (case resolve_standard env others' who country_id seen_at db1 of
                     (Inl e, db2) \<Rightarrow> (Inl e, db2)
                   | (Inr owner, db2) \<Rightarrow>
                       (Inr (owner, Merged),
                        delete_unauthenticated_user (vu_id u)
                          (reassign_user_associations (vu_id u) (ru_user_id owner) db2)))))"

end
