(* ===== verification/User_Policies.thy ===== *)
theory User_Policies
  imports Household_Service
begin

text \<open>
  \<open>policyengine_api/services/user_policy_service.py\<close>: the policies users of API v1 have saved, whose
  every change is a revision, and the retained events that copy each revision into API v2 in order.

  The values of a creation and of an update have the types of their columns. A failed write or
  commit and what other sessions do between the transactions of a request are parameters.
  Collations are not modelled.
\<close>

section \<open>Rows\<close>

record user_policy =
  upo_id :: int
  upo_country_id :: string
  upo_reform_id :: int
  upo_reform_label :: "string option"
  upo_baseline_id :: int
  upo_baseline_label :: "string option"
  upo_user_id :: string
  upo_year :: string
  upo_geography :: string
  upo_dataset :: "string option"
  upo_number_of_provisions :: int
  upo_api_version :: string
  upo_added_date :: int
  upo_updated_date :: int
  upo_budgetary_impact :: "string option"
  upo_type :: "string option"
  upo_mirror_revision :: int

record user_policy_event =
  ue_id :: int
  ue_country_id :: string
  ue_user_policy_id :: int
  ue_source_revision :: int
  ue_event_type :: string
  ue_schema_version :: int
  ue_payload :: json
  ue_fingerprint :: string
  ue_processed :: bool

record user_policy_db =
  ud_rows :: "user_policy list"
  ud_events :: "user_policy_event list"
  ud_next_row :: int
  ud_next_event :: int

text \<open>The digest of fingerprints, the failure a write meets, if any, and the text of a pydantic error.\<close>

record user_policy_env =
  upe_sha256 :: "string \<Rightarrow> string"
  upe_fault :: "user_policy_db \<Rightarrow> db_exception option"
  upe_report :: "user_policy \<Rightarrow> string"

section \<open>Fields\<close>

datatype user_policy_change =
    SetCountryId string | SetReformId int | SetReformLabel "string option" | SetBaselineId int
  | SetBaselineLabel "string option" | SetUserId string | SetYear string | SetGeography string
  | SetDataset "string option" | SetNumberOfProvisions int | SetApiVersion string | SetAddedDate int
  | SetUpdatedDate int | SetBudgetaryImpact "string option" | SetType "string option"

fun changed_field :: "user_policy_change \<Rightarrow> string" where
  "changed_field (SetCountryId x) = ''country_id''"
| "changed_field (SetReformId x) = ''reform_id''"
| "changed_field (SetReformLabel x) = ''reform_label''"
| "changed_field (SetBaselineId x) = ''baseline_id''"
| "changed_field (SetBaselineLabel x) = ''baseline_label''"
| "changed_field (SetUserId x) = ''user_id''"
| "changed_field (SetYear x) = ''year''"
| "changed_field (SetGeography x) = ''geography''"
| "changed_field (SetDataset x) = ''dataset''"
| "changed_field (SetNumberOfProvisions x) = ''number_of_provisions''"
| "changed_field (SetApiVersion x) = ''api_version''"
| "changed_field (SetAddedDate x) = ''added_date''"
| "changed_field (SetUpdatedDate x) = ''updated_date''"
| "changed_field (SetBudgetaryImpact x) = ''budgetary_impact''"
| "changed_field (SetType x) = ''type''"

fun set_field :: "user_policy_change \<Rightarrow> user_policy \<Rightarrow> user_policy" where
  "set_field (SetCountryId x) p = p\<lparr>upo_country_id := x\<rparr>"
| "set_field (SetReformId x) p = p\<lparr>upo_reform_id := x\<rparr>"
| "set_field (SetReformLabel x) p = p\<lparr>upo_reform_label := x\<rparr>"
| "set_field (SetBaselineId x) p = p\<lparr>upo_baseline_id := x\<rparr>"
| "set_field (SetBaselineLabel x) p = p\<lparr>upo_baseline_label := x\<rparr>"
| "set_field (SetUserId x) p = p\<lparr>upo_user_id := x\<rparr>"
| "set_field (SetYear x) p = p\<lparr>upo_year := x\<rparr>"
| "set_field (SetGeography x) p = p\<lparr>upo_geography := x\<rparr>"
| "set_field (SetDataset x) p = p\<lparr>upo_dataset := x\<rparr>"
| "set_field (SetNumberOfProvisions x) p = p\<lparr>upo_number_of_provisions := x\<rparr>"
| "set_field (SetApiVersion x) p = p\<lparr>upo_api_version := x\<rparr>"
| "set_field (SetAddedDate x) p = p\<lparr>upo_added_date := x\<rparr>"
| "set_field (SetUpdatedDate x) p = p\<lparr>upo_updated_date := x\<rparr>"
| "set_field (SetBudgetaryImpact x) p = p\<lparr>upo_budgetary_impact := x\<rparr>"
| "set_field (SetType x) p = p\<lparr>upo_type := x\<rparr>"

definition USER_POLICY_MUTABLE_FIELDS :: "string list" where
  "USER_POLICY_MUTABLE_FIELDS =
     [''reform_label'', ''baseline_label'', ''year'', ''geography'', ''dataset'', ''number_of_provisions'',
      ''api_version'', ''added_date'', ''updated_date'', ''budgetary_impact'', ''type'']"

text \<open>The fields of \<open>USER_POLICY_IDENTITY_FIELDS\<close>; NULL equals NULL, as \<open>IS NULL\<close> is compared.\<close>

definition same_user_policy :: "user_policy \<Rightarrow> user_policy \<Rightarrow> bool" where
  "same_user_policy p q \<longleftrightarrow>
     upo_country_id p = upo_country_id q \<and> upo_reform_id p = upo_reform_id q
     \<and> upo_baseline_id p = upo_baseline_id q \<and> upo_user_id p = upo_user_id q \<and> upo_year p = upo_year q
     \<and> upo_geography p = upo_geography q \<and> upo_reform_label p = upo_reform_label q
     \<and> upo_baseline_label p = upo_baseline_label q \<and> upo_dataset p = upo_dataset q"

section \<open>Snapshots\<close>

record user_policy_snapshot =
  us_country_id :: string
  us_user_policy_id :: int
  us_reform_id :: int
  us_reform_label :: "string option"
  us_baseline_id :: int
  us_baseline_label :: "string option"
  us_user_id :: string
  us_year :: string
  us_geography :: string
  us_dataset :: "string option"
  us_number_of_provisions :: int
  us_api_version :: string
  us_added_date :: int
  us_updated_date :: int
  us_budgetary_impact :: "string option"
  us_type :: "string option"

definition short_text :: "string option \<Rightarrow> bool" where
  "short_text t \<longleftrightarrow> (case t of None \<Rightarrow> True | Some s \<Rightarrow> length s \<le> 255)"

definition user_snapshot_ok :: "user_policy_snapshot \<Rightarrow> bool" where
  "user_snapshot_ok s \<longleftrightarrow>
     us_country_id s \<in> set SUPPORTED_COUNTRY_IDS \<and> 0 \<le> us_user_policy_id s
     \<and> 0 \<le> us_reform_id s \<and> short_text (us_reform_label s)
     \<and> 0 \<le> us_baseline_id s \<and> short_text (us_baseline_label s)
     \<and> us_user_id s \<noteq> [] \<and> length (us_user_id s) \<le> 255 \<and> py_strip (us_user_id s) \<noteq> []
     \<and> length (us_year s) \<le> 32 \<and> length (us_geography s) \<le> 255 \<and> short_text (us_dataset s)
     \<and> 0 \<le> us_number_of_provisions s \<and> length (us_api_version s) \<le> 32
     \<and> short_text (us_budgetary_impact s) \<and> short_text (us_type s)"

text \<open>A country id is read in lower case.\<close>

definition user_policy_snapshot_of :: "user_policy \<Rightarrow> user_policy_snapshot" where
  "user_policy_snapshot_of p =
     \<lparr>us_country_id = py_lower (upo_country_id p), us_user_policy_id = upo_id p,
      us_reform_id = upo_reform_id p, us_reform_label = upo_reform_label p,
      us_baseline_id = upo_baseline_id p, us_baseline_label = upo_baseline_label p,
      us_user_id = upo_user_id p, us_year = upo_year p, us_geography = upo_geography p,
      us_dataset = upo_dataset p, us_number_of_provisions = upo_number_of_provisions p,
      us_api_version = upo_api_version p, us_added_date = upo_added_date p,
      us_updated_date = upo_updated_date p, us_budgetary_impact = upo_budgetary_impact p,
      us_type = upo_type p\<rparr>"

definition user_snapshot_fields :: "user_policy_snapshot \<Rightarrow> (string \<times> json) list" where
  "user_snapshot_fields s =
     [(''country_id'', JStr (us_country_id s)), (''legacy_user_policy_id'', JInt (us_user_policy_id s)),
      (''reform_id'', JInt (us_reform_id s)), (''reform_label'', opt_str (us_reform_label s)),
      (''baseline_id'', JInt (us_baseline_id s)), (''baseline_label'', opt_str (us_baseline_label s)),
      (''user_id'', JStr (us_user_id s)), (''year'', JStr (us_year s)), (''geography'', JStr (us_geography s)),
      (''dataset'', opt_str (us_dataset s)), (''number_of_provisions'', JInt (us_number_of_provisions s)),
      (''api_version'', JStr (us_api_version s)), (''added_date'', JInt (us_added_date s)),
      (''updated_date'', JInt (us_updated_date s)), (''budgetary_impact'', opt_str (us_budgetary_impact s)),
      (''type'', opt_str (us_type s))]"

definition USER_POLICY_FINGERPRINT_VERSION :: int where
  "USER_POLICY_FINGERPRINT_VERSION = 1"

definition fingerprint_legacy_user_policy :: "user_policy_env \<Rightarrow> user_policy_snapshot \<Rightarrow> string" where
  "fingerprint_legacy_user_policy env s =
     upe_sha256 env (dumps '','' '':'' (sort_keys
       (JObj ((''fingerprint_version'', JInt USER_POLICY_FINGERPRINT_VERSION) # user_snapshot_fields s))))"

text \<open>
  Reading a snapshot back, of the types \<open>model_dump\<close> writes: fields left out that may be null are
  null, and no other field is allowed.
\<close>

definition read_text :: "json option \<Rightarrow> string option" where
  "read_text v = (case v of Some (JStr s) \<Rightarrow> Some s | _ \<Rightarrow> None)"

definition read_int :: "json option \<Rightarrow> int option" where
  "read_int v = (case v of Some (JInt i) \<Rightarrow> Some i | _ \<Rightarrow> None)"

definition read_optional_text :: "json option \<Rightarrow> string option option" where
  "read_optional_text v =
     (case v of None \<Rightarrow> Some None | Some JNull \<Rightarrow> Some None | Some (JStr s) \<Rightarrow> Some (Some s) | _ \<Rightarrow> None)"

fun all_some :: "'a option list \<Rightarrow> 'a list option" where
  "all_some [] = Some []"
| "all_some (x # xs) =
     (case (x, all_some xs) of (Some y, Some ys) \<Rightarrow> Some (y # ys) | _ \<Rightarrow> None)"

definition USER_SNAPSHOT_FIELDS :: "string list" where
  "USER_SNAPSHOT_FIELDS =
     [''country_id'', ''legacy_user_policy_id'', ''reform_id'', ''reform_label'', ''baseline_id'',
      ''baseline_label'', ''user_id'', ''year'', ''geography'', ''dataset'', ''number_of_provisions'',
      ''api_version'', ''added_date'', ''updated_date'', ''budgetary_impact'', ''type'']"

definition user_snapshot_read :: "json \<Rightarrow> user_policy_snapshot option" where
  "user_snapshot_read v =
     (case v of
        JObj d \<Rightarrow>
          if \<not> set (map fst d) \<subseteq> set USER_SNAPSHOT_FIELDS then None
          else (case (all_some (map (\<lambda>k. read_text (map_of d k)) [''country_id'', ''user_id'', ''year'', ''geography'', ''api_version'']),
                      all_some (map (\<lambda>k. read_int (map_of d k)) [''legacy_user_policy_id'', ''reform_id'', ''baseline_id'',
                        ''number_of_provisions'', ''added_date'', ''updated_date'']),
                      all_some (map (\<lambda>k. read_optional_text (map_of d k)) [''reform_label'', ''baseline_label'', ''dataset'',
                        ''budgetary_impact'', ''type''])) of
                  (Some [country, user, year, geography, version], Some [i, reform, baseline, provisions, added, updated],
                   Some [reform_label, baseline_label, dataset, impact, kind]) \<Rightarrow>
                    (let s = \<lparr>us_country_id = py_lower country, us_user_policy_id = i, us_reform_id = reform,
                              us_reform_label = reform_label, us_baseline_id = baseline, us_baseline_label = baseline_label,
                              us_user_id = user, us_year = year, us_geography = geography, us_dataset = dataset,
                              us_number_of_provisions = provisions, us_api_version = version, us_added_date = added,
                              us_updated_date = updated, us_budgetary_impact = impact, us_type = kind\<rparr>
                     in if user_snapshot_ok s then Some s else None)
                | _ \<Rightarrow> None)
      | _ \<Rightarrow> None)"

section \<open>Recording revisions\<close>

definition USER_POLICY_MIRROR_PAYLOAD_SCHEMA_VERSION :: int where
  "USER_POLICY_MIRROR_PAYLOAD_SCHEMA_VERSION = 1"

definition checked_user_snapshot :: "user_policy_env \<Rightarrow> user_policy \<Rightarrow> user_policy_snapshot result" where
  "checked_user_snapshot env p =
     (if user_snapshot_ok (user_policy_snapshot_of p) then Inr (user_policy_snapshot_of p)
      else Inl (ValueError (upe_report env p)))"

text \<open>The event of a revision. Two events of one revision violate a constraint of the table.\<close>

definition record_user_policy_event ::
  "user_policy_env \<Rightarrow> user_policy \<Rightarrow> string \<Rightarrow> string list \<Rightarrow> user_policy_db
     \<Rightarrow> db_exception + (int \<times> user_policy_snapshot) \<times> user_policy_db" where
  "record_user_policy_event env p event_type changed_fields db =
     (let revision = upo_mirror_revision p + 1; p' = p\<lparr>upo_mirror_revision := revision\<rparr>
      in case checked_user_snapshot env p' of
           Inl e \<Rightarrow> Inl (NotSQL e)
         | Inr s \<Rightarrow>
             if revision \<le> 0 \<or> (\<exists>e\<in>set (ud_events db). ue_country_id e = upo_country_id p \<and> ue_user_policy_id e = upo_id p
                     \<and> ue_source_revision e = revision)
             then Inl IntegrityFailure
             else Inr ((revision, s),
               db\<lparr>ud_rows := put_row upo_id p' (ud_rows db),
                  ud_events := ud_events db @
                    [\<lparr>ue_id = ud_next_event db, ue_country_id = upo_country_id p, ue_user_policy_id = upo_id p,
                      ue_source_revision = revision, ue_event_type = event_type,
                      ue_schema_version = USER_POLICY_MIRROR_PAYLOAD_SCHEMA_VERSION,
                      ue_payload = JObj [(''snapshot'', JObj (user_snapshot_fields s)),
                                         (''changed_fields'', JArr (map JStr (sort changed_fields)))],
                      ue_fingerprint = fingerprint_legacy_user_policy env s, ue_processed = False\<rparr>],
                  ud_next_event := ud_next_event db + 1\<rparr>))"

record user_policy_result =
  upr_row :: user_policy
  upr_created :: bool
  upr_snapshot :: "user_policy_snapshot option"
  upr_changed_fields :: "string list"
  upr_mirror_revision :: "int option"

text \<open>The end of a write: the event of its revision when events are recorded.\<close>

definition recorded_result ::
  "user_policy_env \<Rightarrow> bool \<Rightarrow> user_policy \<Rightarrow> bool \<Rightarrow> string \<Rightarrow> string list \<Rightarrow> user_policy_db
     \<Rightarrow> db_exception + user_policy_result \<times> user_policy_db" where
  "recorded_result env record_mirror_event p created event_type changed_fields db =
     (if \<not> record_mirror_event
      then Inr (\<lparr>upr_row = p, upr_created = created, upr_snapshot = None, upr_changed_fields = changed_fields,
                 upr_mirror_revision = None\<rparr>, db)
      else case record_user_policy_event env p event_type changed_fields db of
             Inl e \<Rightarrow> Inl e
           | Inr ((revision, s), db') \<Rightarrow>
               Inr (\<lparr>upr_row = p\<lparr>upo_mirror_revision := revision\<rparr>, upr_created = created, upr_snapshot = Some s,
                      upr_changed_fields = changed_fields, upr_mirror_revision = Some revision\<rparr>, db'))"

text \<open>A write is one transaction: a failure is reported by its category and leaves the rows alone.\<close>

definition user_policy_write ::
  "(db_exception + 'a \<times> user_policy_db) \<Rightarrow> user_policy_db \<Rightarrow> (failure_category + 'a) \<times> user_policy_db" where
  "user_policy_write written db =
     (case written of Inl e \<Rightarrow> (Inl (failure_of e), db) | Inr (x, db') \<Rightarrow> (Inr x, db'))"

definition find_matching_user_policy :: "user_policy_db \<Rightarrow> user_policy \<Rightarrow> user_policy option" where
  "find_matching_user_policy db values = List.find (same_user_policy values) (ud_rows db)"

definition create_or_get_user_policy ::
  "user_policy_env \<Rightarrow> user_policy \<Rightarrow> bool \<Rightarrow> user_policy_db \<Rightarrow> (failure_category + user_policy_result) \<times> user_policy_db" where
  "create_or_get_user_policy env values record_mirror_event db =
     user_policy_write
       (case upe_fault env db of
          Some e \<Rightarrow> Inl e
        | None \<Rightarrow>
            (case find_matching_user_policy db values of
               Some p \<Rightarrow> recorded_result env record_mirror_event p False ''create'' [] db
             | None \<Rightarrow>
                 (let p = values\<lparr>upo_id := ud_next_row db, upo_mirror_revision := 0\<rparr>
                  in recorded_result env record_mirror_event p True ''create'' []
                       (db\<lparr>ud_rows := ud_rows db @ [p], ud_next_row := ud_next_row db + 1\<rparr>)))) db"

definition list_user_policies :: "user_policy_db \<Rightarrow> string \<Rightarrow> string \<Rightarrow> user_policy list" where
  "list_user_policies db country_id user_id =
     filter (\<lambda>p. upo_country_id p = country_id \<and> upo_user_id p = user_id) (ud_rows db)"

text \<open>None for a saved policy that is not in the country. The fields of an update are distinct.\<close>

definition update_user_policy ::
  "user_policy_env \<Rightarrow> string \<Rightarrow> int \<Rightarrow> user_policy_change list \<Rightarrow> bool \<Rightarrow> user_policy_db
     \<Rightarrow> (failure_category + user_policy_result option) \<times> user_policy_db" where
  "update_user_policy env country_id user_policy_id values record_mirror_event db =
     user_policy_write
       (case upe_fault env db of
          Some e \<Rightarrow> Inl e
        | None \<Rightarrow>
            (case List.find (\<lambda>p. upo_id p = user_policy_id \<and> upo_country_id p = country_id) (ud_rows db) of
               None \<Rightarrow> Inr (None, db)
             | Some p \<Rightarrow>
                 (let p' = fold set_field values p
                  in case recorded_result env record_mirror_event p' False ''update'' (map changed_field values)
                            (db\<lparr>ud_rows := put_row upo_id p' (ud_rows db)\<rparr>) of
                       Inl e \<Rightarrow> Inl e | Inr (x, db') \<Rightarrow> Inr (Some x, db')))) db"

section \<open>Reading an event\<close>

record pending_revision =
  pr_event_id :: int
  pr_source_revision :: int
  pr_event_type :: string
  pr_snapshot :: user_policy_snapshot
  pr_changed_fields :: "string list"
  pr_fingerprint :: string

fun field_text :: "json \<Rightarrow> string option" where
  "field_text (JStr s) = Some s"
| "field_text v = None"

definition decoded_changed_fields :: "json \<Rightarrow> string + string list" where
  "decoded_changed_fields v =
     (case (case v of JArr xs \<Rightarrow> all_some (map field_text xs) | _ \<Rightarrow> None) of
        None \<Rightarrow> Inl ''saved-policy mirror event changed fields are invalid''
      | Some names \<Rightarrow>
          if names \<noteq> sort (remdups names) \<or> \<not> set names \<subseteq> set USER_POLICY_MUTABLE_FIELDS
          then Inl ''saved-policy mirror event changed fields are unsupported''
          else Inr names)"

definition event_type_error :: "string \<Rightarrow> string list \<Rightarrow> string option" where
  "event_type_error event_type changed_fields =
     (if event_type \<notin> {''create'', ''update''} then Some ''saved-policy mirror event type is unsupported''
      else if event_type = ''create'' \<and> changed_fields \<noteq> []
      then Some ''saved-policy create mirror event contains changed fields''
      else if event_type = ''update'' \<and> changed_fields = []
      then Some ''saved-policy update mirror event has no changed fields''
      else None)"

definition decode_user_policy_event :: "user_policy_env \<Rightarrow> user_policy_event \<Rightarrow> string + pending_revision" where
  "decode_user_policy_event env e =
     (if ue_schema_version e \<noteq> USER_POLICY_MIRROR_PAYLOAD_SCHEMA_VERSION
      then Inl ''saved-policy mirror event payload version is unsupported''
      else case ue_payload e of
        JObj d \<Rightarrow>
          if set (map fst d) \<noteq> {''snapshot'', ''changed_fields''}
          then Inl ''saved-policy mirror event payload has an invalid shape''
          else (case decoded_changed_fields (dict_get_none d ''changed_fields'') of
                  Inl m \<Rightarrow> Inl m
                | Inr changed_fields \<Rightarrow>
                    (case user_snapshot_read (dict_get_none d ''snapshot'') of
                       None \<Rightarrow> Inl ''saved-policy mirror event snapshot is invalid''
                     | Some s \<Rightarrow>
                         if us_country_id s \<noteq> ue_country_id e \<or> us_user_policy_id s \<noteq> ue_user_policy_id e
                         then Inl ''saved-policy mirror event source identity conflicts with its payload''
                         else if fingerprint_legacy_user_policy env s \<noteq> ue_fingerprint e
                         then Inl ''saved-policy mirror event fingerprint conflicts with its payload''
                         else (case event_type_error (ue_event_type e) changed_fields of
                                 Some m \<Rightarrow> Inl m
                               | None \<Rightarrow>
                                   Inr \<lparr>pr_event_id = ue_id e, pr_source_revision = ue_source_revision e,
                                        pr_event_type = ue_event_type e, pr_snapshot = s,
                                        pr_changed_fields = changed_fields,
                                        pr_fingerprint = fingerprint_legacy_user_policy env s\<rparr>)))
      | _ \<Rightarrow> Inl ''saved-policy mirror event payload has an invalid shape'')"

section \<open>Processing events\<close>

text \<open>What stops a request: a bad event, what its processor raised, or a commit that failed.\<close>

datatype 'e processing_error = EventIntegrity string | ProcessorError 'e | CommitFailed db_exception

type_synonym ('v, 'e, 'r) processing = "('e processing_error + 'r) \<times> user_policy_db \<times> 'v"

definition events_of :: "user_policy_db \<Rightarrow> string \<Rightarrow> int \<Rightarrow> user_policy_event list" where
  "events_of db country_id user_policy_id =
     filter (\<lambda>e. ue_country_id e = country_id \<and> ue_user_policy_id e = user_policy_id) (ud_events db)"

definition next_pending_event :: "user_policy_db \<Rightarrow> string \<Rightarrow> int \<Rightarrow> int \<Rightarrow> user_policy_event option" where
  "next_pending_event db country_id user_policy_id through_revision =
     (case sort_key ue_source_revision
             (filter (\<lambda>e. ue_source_revision e \<le> through_revision \<and> \<not> ue_processed e)
               (events_of db country_id user_policy_id)) of
        [] \<Rightarrow> None | e # es \<Rightarrow> Some e)"

definition processed_revision :: "user_policy_event \<Rightarrow> user_policy_db \<Rightarrow> user_policy_db" where
  "processed_revision e db = db\<lparr>ud_events := put_row ue_id (e\<lparr>ue_processed := True\<rparr>) (ud_events db)\<rparr>"

text \<open>
  The transaction of one event. What the processor did to API v2 stays when the commit of the
  processed event fails.
\<close>

definition process_revision ::
  "user_policy_env \<Rightarrow> (pending_revision \<Rightarrow> 'v \<Rightarrow> ('e + 'r) \<times> 'v) \<Rightarrow> db_exception option \<Rightarrow> bool \<Rightarrow> user_policy_event
     \<Rightarrow> user_policy_db \<times> 'v \<Rightarrow> ('v, 'e, int \<times> 'r) processing" where
  "process_revision env processor fault mark e w =
     (case decode_user_policy_event env e of
        Inl m \<Rightarrow> (Inl (EventIntegrity m), w)
      | Inr pending \<Rightarrow>
          (case processor pending (snd w) of
             (Inl x, v) \<Rightarrow> (Inl (ProcessorError x), fst w, v)
           | (Inr r, v) \<Rightarrow>
               (case fault of
                  Some x \<Rightarrow> (Inl (CommitFailed x), fst w, v)
                | None \<Rightarrow> (Inr (pr_source_revision pending, r), if mark then processed_revision e (fst w) else fst w, v))))"

text \<open>
  The pending events through a revision, lowest first; the result is that of the last one, if any.
  Before the \<open>k\<close>th transaction other sessions act, and its commit may fail.
\<close>

partial_function (option) process_pending ::
  "user_policy_env \<Rightarrow> (pending_revision \<Rightarrow> 'v \<Rightarrow> ('e + 'r) \<times> 'v) \<Rightarrow> (nat \<Rightarrow> user_policy_db \<times> 'v \<Rightarrow> user_policy_db \<times> 'v)
     \<Rightarrow> (nat \<Rightarrow> db_exception option) \<Rightarrow> string \<Rightarrow> int \<Rightarrow> int \<Rightarrow> nat \<Rightarrow> 'r option \<Rightarrow> user_policy_db \<times> 'v
     \<Rightarrow> ('v, 'e, 'r option) processing option" where
  "process_pending env processor others faults country_id user_policy_id through_revision k latest w =
     (let w' = others k w
      in case next_pending_event (fst w') country_id user_policy_id through_revision of
           None \<Rightarrow> Some (Inr latest, w')
         | Some e \<Rightarrow>
             (case process_revision env processor (faults k) True e w' of
                (Inl x, w'') \<Rightarrow> Some (Inl x, w'')
              | (Inr (revision, r), w'') \<Rightarrow>
                  if revision = through_revision then Some (Inr (Some r), w'')
                  else process_pending env processor others faults country_id user_policy_id through_revision
                         (Suc k) (Some r) w''))"

definition replay_processed ::
  "user_policy_env \<Rightarrow> (pending_revision \<Rightarrow> 'v \<Rightarrow> ('e + 'r) \<times> 'v) \<Rightarrow> db_exception option \<Rightarrow> string \<Rightarrow> int \<Rightarrow> int
     \<Rightarrow> user_policy_db \<times> 'v \<Rightarrow> ('v, 'e, 'r) processing" where
  "replay_processed env processor fault country_id user_policy_id through_revision w =
     (case List.find (\<lambda>e. ue_source_revision e = through_revision \<and> ue_processed e)
             (events_of (fst w) country_id user_policy_id) of
        None \<Rightarrow> (Inl (EventIntegrity ''saved-policy mirror request has no retained event''), w)
      | Some e \<Rightarrow>
          (case process_revision env processor fault False e w of
             (Inl x, w') \<Rightarrow> (Inl x, w') | (Inr (revision, r), w') \<Rightarrow> (Inr r, w')))"

definition process_pending_mirror_events ::
  "user_policy_env \<Rightarrow> (pending_revision \<Rightarrow> 'v \<Rightarrow> ('e + 'r) \<times> 'v) \<Rightarrow> (nat \<Rightarrow> user_policy_db \<times> 'v \<Rightarrow> user_policy_db \<times> 'v)
     \<Rightarrow> (nat \<Rightarrow> db_exception option) \<Rightarrow> db_exception option \<Rightarrow> string \<Rightarrow> int \<Rightarrow> int \<Rightarrow> user_policy_db \<times> 'v
     \<Rightarrow> ('v, 'e, 'r) processing option" where
  "process_pending_mirror_events env processor others faults last_fault country_id user_policy_id through_revision w =
     map_option (\<lambda>(res, w').
         case res of
           Inl x \<Rightarrow> (Inl x, w')
         | Inr (Some r) \<Rightarrow> (Inr r, w')
         | Inr None \<Rightarrow> replay_processed env processor last_fault country_id user_policy_id through_revision w')
       (process_pending env processor others faults country_id user_policy_id through_revision 0 None w)"

end
