(* ===== verification/V2_User_Policies.thy ===== *)
theory V2_User_Policies
  imports V2_Accounts User_Policies
begin

text \<open>
  \<open>policyengine_api/services/v2/user_policies/\<close> with its connectors, the shared validators of
  \<open>services/v2/associations/\<close> and the checks of \<open>services/v2/legacy_refs/\<close>: the policies users of
  API v2 have saved, and the copies of the saved policies of API v1, which only their mirror changes.

  A request is one transaction. Other sessions act between a read and the insert that depends on
  it; the v1 policies a reference may name are a parameter. Field types are pydantic's; of its
  checks the lengths, the bounds and the rules of the models are written out.
\<close>

section \<open>Inputs\<close>

record user_policy_fields =
  upf_country_id :: string
  upf_policy_id :: "string option"
  upf_legacy_policy_id :: "int option"
  upf_name :: "string option"
  upf_description :: "string option"
  upf_baseline :: "string option"
  upf_provenance :: json

definition ASSOCIATION_DESCRIPTION_MAX_LENGTH :: nat where
  "ASSOCIATION_DESCRIPTION_MAX_LENGTH = 10000"

definition MAXIMUM_LEGACY_RECORD_ID :: int where
  "MAXIMUM_LEGACY_RECORD_ID = 2 ^ 63 - 1"

definition policy_provenance_ok :: "json \<Rightarrow> bool" where
  "policy_provenance_ok v \<longleftrightarrow>
     (case v of
        JNull \<Rightarrow> True
      | JObj d \<Rightarrow>
          set (map fst d) \<subseteq> {''source'', ''ref'', ''confidence''}
          \<and> dict_get_none d ''source'' \<in> {JStr ''manual'', JStr ''chat'', JStr ''bill'', JStr ''tool''}
          \<and> (case dict_get_none d ''ref'' of JNull \<Rightarrow> True | JStr s \<Rightarrow> length s \<le> 2048 | _ \<Rightarrow> False)
          \<and> dict_get_none d ''confidence'' \<in> {JNull, JStr ''exact'', JStr ''approximated'', JStr ''partial''}
      | _ \<Rightarrow> False)"

definition baseline_ok :: "string option \<Rightarrow> bool" where
  "baseline_ok b \<longleftrightarrow> b \<in> {None, Some ''current-law'', Some ''current-policy''}"

definition legacy_id_ok :: "int option \<Rightarrow> bool" where
  "legacy_id_ok i \<longleftrightarrow> (case i of None \<Rightarrow> True | Some n \<Rightarrow> 1 \<le> n \<and> n \<le> MAXIMUM_LEGACY_RECORD_ID)"

definition short_description :: "string option \<Rightarrow> bool" where
  "short_description t \<longleftrightarrow> (case t of None \<Rightarrow> True | Some s \<Rightarrow> length s \<le> ASSOCIATION_DESCRIPTION_MAX_LENGTH)"

definition create_fields_ok :: "user_policy_fields \<Rightarrow> bool" where
  "create_fields_ok f \<longleftrightarrow>
     upf_country_id f \<in> set SUPPORTED_COUNTRY_IDS \<and> legacy_id_ok (upf_legacy_policy_id f)
     \<and> short_text (upf_name f) \<and> short_description (upf_description f) \<and> baseline_ok (upf_baseline f)
     \<and> policy_provenance_ok (upf_provenance f) \<and> (upf_policy_id f \<noteq> None \<or> upf_legacy_policy_id f \<noteq> None)"

text \<open>A provenance is stored with all its fields.\<close>

definition stored_provenance :: "json \<Rightarrow> json" where
  "stored_provenance v =
     (case v of
        JObj d \<Rightarrow> JObj (map (\<lambda>k. (k, dict_get_none d k)) [''source'', ''ref'', ''confidence''])
      | _ \<Rightarrow> v)"

text \<open>A complete association with its owner; any v1 id that is not negative may be mirrored.\<close>

record user_policy_input =
  upi_fields :: user_policy_fields
  upi_user_id :: string

definition creation_fields_ok :: "user_policy_fields \<Rightarrow> bool" where
  "creation_fields_ok f \<longleftrightarrow>
     upf_country_id f \<in> set SUPPORTED_COUNTRY_IDS
     \<and> (case upf_legacy_policy_id f of None \<Rightarrow> True | Some n \<Rightarrow> 0 \<le> n)
     \<and> short_text (upf_name f) \<and> baseline_ok (upf_baseline f) \<and> policy_provenance_ok (upf_provenance f)
     \<and> (upf_policy_id f \<noteq> None \<or> upf_legacy_policy_id f \<noteq> None)"

definition creation_input_of :: "user_policy_fields \<Rightarrow> string \<Rightarrow> account_error + user_policy_input" where
  "creation_input_of f user_id =
     (if creation_fields_ok f then Inr \<lparr>upi_fields = f, upi_user_id = user_id\<rparr>
      else Inl (AccountInputError ''user-policy association is invalid''))"

text \<open>An update: None for a field that is not supplied. A reference supplied as null is refused.\<close>

record user_policy_update =
  uu_policy_id :: "string option option"
  uu_legacy_policy_id :: "int option option"
  uu_name :: "string option option"
  uu_description :: "string option option"
  uu_baseline :: "string option option"
  uu_provenance :: "json option"

definition for_supplied :: "('a \<Rightarrow> bool) \<Rightarrow> 'a option \<Rightarrow> bool" where
  "for_supplied allowed x \<longleftrightarrow> (case x of None \<Rightarrow> True | Some v \<Rightarrow> allowed v)"

definition update_ok :: "user_policy_update \<Rightarrow> bool" where
  "update_ok u \<longleftrightarrow>
     (uu_policy_id u \<noteq> None \<or> uu_legacy_policy_id u \<noteq> None \<or> uu_name u \<noteq> None \<or> uu_description u \<noteq> None
      \<or> uu_baseline u \<noteq> None \<or> uu_provenance u \<noteq> None)
     \<and> uu_policy_id u \<noteq> Some None \<and> uu_legacy_policy_id u \<noteq> Some None
     \<and> for_supplied legacy_id_ok (uu_legacy_policy_id u) \<and> for_supplied short_text (uu_name u)
     \<and> for_supplied short_description (uu_description u) \<and> for_supplied baseline_ok (uu_baseline u)
     \<and> for_supplied policy_provenance_ok (uu_provenance u)"

definition repoints :: "user_policy_update \<Rightarrow> bool" where
  "repoints u \<longleftrightarrow> uu_policy_id u \<noteq> None \<or> uu_legacy_policy_id u \<noteq> None"

section \<open>Reads\<close>

definition read_policy_for_association :: "account_db \<Rightarrow> string \<Rightarrow> v2_policy option" where
  "read_policy_for_association db policy_id = List.find (\<lambda>p. vp_id p = policy_id) (vpd_policies (ad_policies db))"

definition read_legacy_user_mapping :: "account_db \<Rightarrow> string \<Rightarrow> legacy_user_mapping option" where
  "read_legacy_user_mapping db legacy_user_id = List.find (\<lambda>m. lum_legacy_user_id m = legacy_user_id) (ad_user_mappings db)"

definition read_legacy_user_policy_mapping :: "account_db \<Rightarrow> string \<Rightarrow> int \<Rightarrow> user_policy_mapping option" where
  "read_legacy_user_policy_mapping db country_id legacy_user_policy_id =
     List.find (\<lambda>m. upm_country_id m = country_id \<and> upm_legacy_user_policy_id m = legacy_user_policy_id) (ad_mappings db)"

definition read_mapped_user_policy :: "account_db \<Rightarrow> user_policy_mapping \<Rightarrow> v2_user_policy option" where
  "read_mapped_user_policy db m =
     List.find (\<lambda>a. va_id a = upm_user_policy_id m \<and> va_country_id a = upm_country_id m) (ad_user_policies db)"

definition read_owned_user_policy_row :: "account_db \<Rightarrow> string \<Rightarrow> string \<Rightarrow> string \<Rightarrow> v2_user_policy option" where
  "read_owned_user_policy_row db user_id country_id association_id =
     List.find (\<lambda>a. va_id a = association_id \<and> va_country_id a = country_id \<and> va_user_id a = user_id) (ad_user_policies db)"

record user_policy_listing =
  upl_country_id :: string
  upl_user_id :: string
  upl_policy_id :: "string option"
  upl_legacy_policy_id :: "int option"
  upl_offset :: nat
  upl_limit :: nat

definition read_user_policy_rows :: "account_db \<Rightarrow> user_policy_listing \<Rightarrow> v2_user_policy list" where
  "read_user_policy_rows db l =
     take (upl_limit l + 1) (drop (upl_offset l) (sort_key (\<lambda>a. (va_created_at a, va_id a))
       (filter (\<lambda>a. va_country_id a = upl_country_id l \<and> va_user_id a = upl_user_id l
           \<and> (upl_policy_id l = None \<or> va_policy_id a = upl_policy_id l)
           \<and> (upl_legacy_policy_id l = None \<or> va_legacy_policy_id a = upl_legacy_policy_id l)) (ad_user_policies db))))"

definition read_all_user_policy_rows :: "account_db \<Rightarrow> string \<Rightarrow> v2_user_policy list" where
  "read_all_user_policy_rows db user_id =
     sort_key (\<lambda>a. (va_created_at a, va_id a)) (filter (\<lambda>a. va_user_id a = user_id) (ad_user_policies db))"

definition read_user_policy_mirror_exists :: "account_db \<Rightarrow> string \<Rightarrow> bool" where
  "read_user_policy_mirror_exists db association_id \<longleftrightarrow>
     List.find (\<lambda>m. upm_user_policy_id m = association_id) (ad_mappings db) \<noteq> None"

definition read_mirrored_policy_ids :: "account_db \<Rightarrow> string \<Rightarrow> int list \<Rightarrow> (int \<times> string) list" where
  "read_mirrored_policy_ids db country_id legacy_policy_ids =
     map (\<lambda>m. (vpm_legacy_policy_id m, vpm_policy_id m))
       (filter (\<lambda>m. vpm_country_id m = country_id \<and> vpm_legacy_policy_id m \<in> set legacy_policy_ids)
         (vpd_mappings (ad_policies db)))"

section \<open>Writes\<close>

text \<open>The owner must exist, and the policy in the association's country.\<close>

definition create_user_policy :: "v2_policy_env \<Rightarrow> user_policy_input \<Rightarrow> v2_user_policy account_act" where
  "create_user_policy env i db =
     (let f = upi_fields i; db' = set_drawn (drawn db + 1) db
      in if read_user db (upi_user_id i) = None
            \<or> (\<exists>policy_id\<in>set_option (upf_policy_id f). \<forall>p\<in>set (vpd_policies (ad_policies db)).
                 vp_id p \<noteq> policy_id \<or> vp_country_id p \<noteq> upf_country_id f)
         then (Inl (ConstraintError ''user_policies''), db')
         else let a = \<lparr>va_id = vpe_uuid env (drawn db), va_country_id = upf_country_id f, va_user_id = upi_user_id i,
                       va_policy_id = upf_policy_id f, va_legacy_policy_id = upf_legacy_policy_id f,
                       va_name = upf_name f, va_description = upf_description f, va_baseline = upf_baseline f,
                       va_provenance = stored_provenance (upf_provenance f), va_created_at = now_of db, va_updated_at = now_of db\<rparr>
              in (Inr a, db'\<lparr>ad_user_policies := ad_user_policies db @ [a]\<rparr>))"

definition create_legacy_user_mapping :: "string \<Rightarrow> string \<Rightarrow> account_db \<Rightarrow> string option \<times> account_db" where
  "create_legacy_user_mapping legacy_user_id user_id db =
     (if read_legacy_user_mapping db legacy_user_id \<noteq> None then (None, db)
      else (Some user_id, db\<lparr>ad_user_mappings := ad_user_mappings db @
              [\<lparr>lum_legacy_user_id = legacy_user_id, lum_user_id = user_id\<rparr>]\<rparr>))"

text \<open>A revision of a v1 saved policy.\<close>

record user_policy_revision =
  rev_country_id :: string
  rev_user_policy_id :: int
  rev_reform_label :: "string option"
  rev_fingerprint :: string
  rev_source_revision :: int
  rev_changed_fields :: "string list"

definition create_legacy_user_policy_mapping :: "user_policy_revision \<Rightarrow> string \<Rightarrow> account_db \<Rightarrow> bool \<times> account_db" where
  "create_legacy_user_policy_mapping r user_policy_id db =
     (if read_legacy_user_policy_mapping db (rev_country_id r) (rev_user_policy_id r) \<noteq> None then (False, db)
      else (True, db\<lparr>ad_mappings := ad_mappings db @
              [\<lparr>upm_country_id = rev_country_id r, upm_legacy_user_policy_id = rev_user_policy_id r,
                upm_user_policy_id = user_policy_id, upm_last_applied_source_revision = rev_source_revision r,
                upm_fingerprint_version = USER_POLICY_FINGERPRINT_VERSION, upm_fingerprint = rev_fingerprint r\<rparr>]\<rparr>))"

definition delete_user_policy_row :: "string \<Rightarrow> account_db \<Rightarrow> account_db" where
  "delete_user_policy_row association_id db =
     db\<lparr>ad_user_policies := filter (\<lambda>a. va_id a \<noteq> association_id) (ad_user_policies db),
        ad_mappings := filter (\<lambda>m. upm_user_policy_id m \<noteq> association_id) (ad_mappings db)\<rparr>"

definition supplied_or :: "'a option \<Rightarrow> 'a \<Rightarrow> 'a" where
  "supplied_or x old = (case x of None \<Rightarrow> old | Some v \<Rightarrow> v)"

definition update_user_policy_row ::
  "v2_user_policy \<Rightarrow> user_policy_update \<Rightarrow> (string option \<times> int option) option \<Rightarrow> account_db \<Rightarrow> v2_user_policy \<times> account_db" where
  "update_user_policy_row a u references db =
     (let a1 = a\<lparr>va_name := supplied_or (uu_name u) (va_name a),
                 va_description := supplied_or (uu_description u) (va_description a),
                 va_baseline := supplied_or (uu_baseline u) (va_baseline a),
                 va_provenance := supplied_or (uu_provenance u) (va_provenance a)\<rparr>;
          a2 = (case references of
                  None \<Rightarrow> a1 | Some (policy_id, legacy_id) \<Rightarrow> a1\<lparr>va_policy_id := policy_id, va_legacy_policy_id := legacy_id\<rparr>);
          a3 = a2\<lparr>va_updated_at := now_of db\<rparr>
      in (a3, db\<lparr>ad_user_policies := put_row va_id a3 (ad_user_policies db)\<rparr>))"

text \<open>A mapping is written back under its country and v1 id.\<close>

definition mapping_key :: "user_policy_mapping \<Rightarrow> string \<times> int" where
  "mapping_key m = (upm_country_id m, upm_legacy_user_policy_id m)"

definition update_legacy_user_policy_state ::
  "v2_user_policy \<Rightarrow> user_policy_mapping \<Rightarrow> user_policy_revision \<Rightarrow> bool \<Rightarrow> account_db \<Rightarrow> account_db" where
  "update_legacy_user_policy_state a m r update_name db =
     db\<lparr>ad_user_policies :=
          (if update_name
           then put_row va_id (a\<lparr>va_name := rev_reform_label r, va_updated_at := now_of db\<rparr>) (ad_user_policies db)
           else ad_user_policies db),
        ad_mappings :=
          put_row mapping_key (m\<lparr>upm_fingerprint := rev_fingerprint r,
              upm_last_applied_source_revision := rev_source_revision r\<rparr>) (ad_mappings db)\<rparr>"

section \<open>References\<close>

definition require_user_policy :: "v2_user_policy option \<Rightarrow> string \<Rightarrow> account_error + v2_user_policy" where
  "require_user_policy a association_id =
     (case a of
        None \<Rightarrow> Inl (UserPolicyNotFoundError (''user-policy association '' @ association_id @ '' was not found''))
      | Some x \<Rightarrow> Inr x)"

definition read_owned_user_policy :: "account_db \<Rightarrow> string option \<Rightarrow> string \<Rightarrow> string \<Rightarrow> account_error + v2_user_policy" where
  "read_owned_user_policy db user_id country_id association_id =
     require_user_policy
       (case user_id of None \<Rightarrow> None | Some u \<Rightarrow> read_owned_user_policy_row db u country_id association_id) association_id"

definition require_not_mirror_owned :: "bool \<Rightarrow> string \<Rightarrow> account_error + unit" where
  "require_not_mirror_owned mirror_owned association_id =
     (if mirror_owned
      then Inl (MirrorOwnedAssociationError (''association '' @ association_id
             @ '' is maintained from v1 saved policies and cannot be changed here''))
      else Inr ())"

definition validate_association_policy :: "string \<Rightarrow> string \<Rightarrow> v2_policy option \<Rightarrow> account_error + unit" where
  "validate_association_policy country_id policy_id p =
     (case p of
        None \<Rightarrow> Inl (AssociationPolicyNotFoundError (''policy '' @ policy_id @ '' was not found''))
      | Some x \<Rightarrow>
          if vp_country_id x \<noteq> country_id
          then Inl (AssociationCountryConflictError ''Association country_id must match the referenced policy'')
          else Inr ())"

definition resolve_association_policy_id :: "string option \<Rightarrow> string option \<Rightarrow> account_error + string option" where
  "resolve_association_policy_id requested mapped =
     (if requested \<noteq> None \<and> mapped \<noteq> None \<and> requested \<noteq> mapped
      then Inl (AssociationReferenceConflictError ''policy_id does not match the policy mirrored from legacy_policy_id'')
      else Inr (if requested \<noteq> None then requested else mapped))"

fun account_bind :: "account_error + 'a \<Rightarrow> ('a \<Rightarrow> account_error + 'b) \<Rightarrow> account_error + 'b" where
  "account_bind (Inl e) f = Inl e"
| "account_bind (Inr x) f = f x"

lemma account_bind_Inr_iff: "account_bind m f = Inr y \<longleftrightarrow> (\<exists>x. m = Inr x \<and> f x = Inr y)"
  by (cases m) auto

definition resolve_user_policy_reference ::
  "account_db \<Rightarrow> string \<Rightarrow> string option \<Rightarrow> int option \<Rightarrow> account_error + string option" where
  "resolve_user_policy_reference db country_id policy_id legacy_policy_id =
     account_bind
       (case policy_id of
          None \<Rightarrow> Inr () | Some p \<Rightarrow> validate_association_policy country_id p (read_policy_for_association db p))
       (\<lambda>u. resolve_association_policy_id policy_id
          (case legacy_policy_id of
             None \<Rightarrow> None | Some i \<Rightarrow> map_of (read_mirrored_policy_ids db country_id [i]) i))"

text \<open>The v1 references a request names exist, when a checker of them is configured.\<close>

definition require_legacy_policy :: "(string \<Rightarrow> int \<Rightarrow> bool) option \<Rightarrow> string \<Rightarrow> int \<Rightarrow> account_error + unit" where
  "require_legacy_policy checker country_id legacy_policy_id =
     (case checker of
        None \<Rightarrow> Inl (LegacyReferenceCheckUnavailableError ''v1 reference checks are not configured'')
      | Some existing \<Rightarrow>
          if existing country_id legacy_policy_id then Inr ()
          else Inl (LegacyReferenceNotFoundError
            (''v1 policy '' @ show_int legacy_policy_id @ '' was not found for country '' @ country_id)))"

section \<open>The service\<close>

record user_policy_page =
  upp_items :: "v2_user_policy list"
  upp_offset :: nat
  upp_limit :: nat
  upp_has_more :: bool

definition user_policy_page_of :: "v2_user_policy list \<Rightarrow> nat \<Rightarrow> nat \<Rightarrow> user_policy_page" where
  "user_policy_page_of rows offset limit =
     \<lparr>upp_items = take limit rows, upp_offset = offset, upp_limit = limit, upp_has_more = limit < length rows\<rparr>"

text \<open>A request acts as its principal's user; an action that returns an error raises it.\<close>

definition account_then :: "'a account_act \<Rightarrow> ('a \<Rightarrow> 'b account_act) \<Rightarrow> 'b account_act" where
  "account_then m f db = (case m db of (Inl e, db') \<Rightarrow> (Inl e, db') | (Inr x, db') \<Rightarrow> f x db')"

definition create_user_policy_for ::
  "v2_policy_env \<Rightarrow> (account_db \<Rightarrow> account_db) \<Rightarrow> (string \<Rightarrow> int \<Rightarrow> bool) option \<Rightarrow> account_principal
     \<Rightarrow> user_policy_fields \<Rightarrow> v2_user_policy account_act" where
  "create_user_policy_for env others checker who f db =
     (case (if \<not> create_fields_ok f then Inl (AccountInputError ''user-policy association is invalid'')
            else case upf_legacy_policy_id f of
              None \<Rightarrow> Inr () | Some i \<Rightarrow> require_legacy_policy checker (upf_country_id f) i) of
        Inl e \<Rightarrow> (Inl e, db)
      | Inr u \<Rightarrow>
          account_transaction others
            (account_then (resolve_principal_user env others who (upf_country_id f)) (\<lambda>owner db'.
               case account_bind (resolve_user_policy_reference db' (upf_country_id f) (upf_policy_id f) (upf_legacy_policy_id f))
                      (\<lambda>policy_id. creation_input_of (f\<lparr>upf_policy_id := policy_id\<rparr>) (ru_user_id owner)) of
                 Inl e \<Rightarrow> (Inl e, db')
               | Inr i \<Rightarrow> create_user_policy env i db')) db)"

definition get_user_policy ::
  "v2_policy_env \<Rightarrow> (account_db \<Rightarrow> account_db) \<Rightarrow> account_principal \<Rightarrow> string \<Rightarrow> string \<Rightarrow> v2_user_policy account_act" where
  "get_user_policy env others who country_id association_id =
     account_transaction others
       (account_then (resolve_principal_user_for_read env others who country_id) (\<lambda>owner db.
          (read_owned_user_policy db (map_option ru_user_id owner) country_id association_id, db)))"

definition list_owned_user_policies ::
  "v2_policy_env \<Rightarrow> (account_db \<Rightarrow> account_db) \<Rightarrow> account_principal \<Rightarrow> string \<Rightarrow> string option \<Rightarrow> int option
     \<Rightarrow> nat \<Rightarrow> nat \<Rightarrow> user_policy_page account_act" where
  "list_owned_user_policies env others who country_id policy_id legacy_policy_id offset limit =
     account_transaction others
       (account_then (resolve_principal_user_for_read env others who country_id) (\<lambda>owner db.
          (Inr (case owner of
                  None \<Rightarrow> user_policy_page_of [] offset limit
                | Some u \<Rightarrow>
                    user_policy_page_of (read_user_policy_rows db
                      \<lparr>upl_country_id = country_id, upl_user_id = ru_user_id u, upl_policy_id = policy_id,
                        upl_legacy_policy_id = legacy_policy_id, upl_offset = offset, upl_limit = limit\<rparr>) offset limit), db)))"

text \<open>The principal's association in the country, unless the mirror of v1 maintains it.\<close>

definition changeable_user_policy :: "account_db \<Rightarrow> string \<Rightarrow> string \<Rightarrow> string \<Rightarrow> account_error + v2_user_policy" where
  "changeable_user_policy db user_id country_id association_id =
     account_bind (read_owned_user_policy db (Some user_id) country_id association_id) (\<lambda>a.
     account_bind (require_not_mirror_owned (read_user_policy_mirror_exists db (va_id a)) (va_id a)) (\<lambda>u. Inr a))"

definition patch_user_policy ::
  "v2_policy_env \<Rightarrow> (account_db \<Rightarrow> account_db) \<Rightarrow> (string \<Rightarrow> int \<Rightarrow> bool) option \<Rightarrow> account_principal \<Rightarrow> string
     \<Rightarrow> string \<Rightarrow> user_policy_update \<Rightarrow> v2_user_policy account_act" where
  "patch_user_policy env others checker who country_id association_id u db =
     (case (if \<not> update_ok u then Inl (AccountInputError ''user-policy update is invalid'')
            else case uu_legacy_policy_id u of
              None \<Rightarrow> Inr ()
            | Some None \<Rightarrow> Inl (AccountInputError ''legacy_policy_id must not be null'')
            | Some (Some i) \<Rightarrow> require_legacy_policy checker country_id i) of
        Inl e \<Rightarrow> (Inl e, db)
      | Inr x \<Rightarrow>
          account_transaction others
            (account_then (resolve_principal_user env others who country_id) (\<lambda>owner db'.
               case account_bind (changeable_user_policy db' (ru_user_id owner) country_id association_id) (\<lambda>a.
                      if repoints u
                      then account_bind (resolve_user_policy_reference db' country_id
                               (supplied_or (uu_policy_id u) None) (supplied_or (uu_legacy_policy_id u) None))
                             (\<lambda>policy_id. Inr (a, Some (policy_id, supplied_or (uu_legacy_policy_id u) None)))
                      else Inr (a, None)) of
                 Inl e \<Rightarrow> (Inl e, db')
               | Inr (a, references) \<Rightarrow>
                   (case update_user_policy_row a u references db' of (a', db'') \<Rightarrow> (Inr a', db'')))) db)"

definition delete_user_policy ::
  "v2_policy_env \<Rightarrow> (account_db \<Rightarrow> account_db) \<Rightarrow> account_principal \<Rightarrow> string \<Rightarrow> string \<Rightarrow> unit account_act" where
  "delete_user_policy env others who country_id association_id =
     account_transaction others
       (account_then (resolve_principal_user env others who country_id) (\<lambda>owner db.
          case changeable_user_policy db (ru_user_id owner) country_id association_id of
            Inl e \<Rightarrow> (Inl e, db)
          | Inr a \<Rightarrow> (Inr (), delete_user_policy_row (va_id a) db)))"

section \<open>Copying a v1 saved policy\<close>

record user_policy_copy =
  upc_association_id :: string
  upc_policy_id :: string
  upc_association_created :: bool
  upc_association_updated :: bool
  upc_mapping_created :: bool

datatype mapping_action = StaleRevision | ReplayedRevision | NextRevision

definition project_legacy_user_policy :: "user_policy_snapshot \<Rightarrow> string \<Rightarrow> string \<Rightarrow> account_error + user_policy_input" where
  "project_legacy_user_policy s user_id policy_id =
     creation_input_of
       \<lparr>upf_country_id = us_country_id s, upf_policy_id = Some policy_id, upf_legacy_policy_id = Some (us_reform_id s),
         upf_name = us_reform_label s, upf_description = None, upf_baseline = None, upf_provenance = JNull\<rparr> user_id"

definition legacy_name_requires_update :: "v2_user_policy \<Rightarrow> string option \<Rightarrow> string list \<Rightarrow> bool" where
  "legacy_name_requires_update a reform_label changed_fields \<longleftrightarrow>
     ''reform_label'' \<in> set changed_fields \<and> va_name a \<noteq> reform_label"

definition validate_legacy_user_policy_input ::
  "user_policy_snapshot \<Rightarrow> policy_snapshot \<Rightarrow> int \<Rightarrow> account_error + unit" where
  "validate_legacy_user_policy_input s reform source_revision =
     (if source_revision \<le> 0
      then Inl (LegacyUserPolicyIntegrityError ''legacy user-policy source revision must be positive'')
      else if us_country_id s \<noteq> ps_country_id reform \<or> us_reform_id s \<noteq> ps_legacy_policy_id reform
      then Inl (LegacyUserPolicyIntegrityError ''saved policy does not reference the supplied reform snapshot'')
      else Inr ())"

definition require_mirrored_policy_id :: "user_policy_input \<Rightarrow> account_error + string" where
  "require_mirrored_policy_id i =
     (case upf_policy_id (upi_fields i) of
        None \<Rightarrow> Inl (LegacyUserPolicyIntegrityError ''mirrored saved policy has no v2 policy reference'')
      | Some p \<Rightarrow> Inr p)"

definition validate_existing_mapping ::
  "user_policy_mapping \<Rightarrow> v2_user_policy option \<Rightarrow> user_policy_revision \<Rightarrow> user_policy_input
     \<Rightarrow> account_error + mapping_action \<times> v2_user_policy" where
  "validate_existing_mapping m association r i =
     (case association of
        None \<Rightarrow> Inl (LegacyUserPolicyIntegrityError ''legacy user-policy mapping has no association'')
      | Some a \<Rightarrow>
          if va_policy_id a \<noteq> upf_policy_id (upi_fields i) \<or> va_country_id a \<noteq> rev_country_id r
             \<or> va_user_id a \<noteq> upi_user_id i
          then Inl (LegacyUserPolicyIntegrityError
                 ''legacy user-policy mapping conflicts with immutable association fields'')
          else if upm_fingerprint_version m \<noteq> USER_POLICY_FINGERPRINT_VERSION
          then Inl (LegacyUserPolicyIntegrityError ''legacy user-policy fingerprint version is unsupported'')
          else if rev_source_revision r < upm_last_applied_source_revision m then Inr (StaleRevision, a)
          else if rev_source_revision r = upm_last_applied_source_revision m
          then (if upm_fingerprint m \<noteq> rev_fingerprint r
                then Inl (LegacyUserPolicyIntegrityError
                       ''legacy user-policy revision conflicts with its stored fingerprint'')
                else Inr (ReplayedRevision, a))
          else if rev_source_revision r \<noteq> upm_last_applied_source_revision m + 1
          then Inl (LegacyUserPolicyIntegrityError ''legacy user-policy revision has an unapplied predecessor'')
          else Inr (NextRevision, a))"

definition apply_existing_mapping ::
  "user_policy_mapping \<Rightarrow> user_policy_revision \<Rightarrow> user_policy_input \<Rightarrow> user_policy_copy account_act" where
  "apply_existing_mapping m r i db =
     (case account_bind (require_mirrored_policy_id i) (\<lambda>policy_id.
             account_bind (validate_existing_mapping m (read_mapped_user_policy db m) r i) (\<lambda>(action, a). Inr (policy_id, action, a))) of
        Inl e \<Rightarrow> (Inl e, db)
      | Inr (policy_id, action, a) \<Rightarrow>
          (let updated = legacy_name_requires_update a (rev_reform_label r) (rev_changed_fields r);
               copied = \<lambda>updated. Inr \<lparr>upc_association_id = va_id a, upc_policy_id = policy_id,
                 upc_association_created = False, upc_association_updated = updated, upc_mapping_created = False\<rparr>
           in if action \<noteq> NextRevision then (copied False, db)
              else (copied updated, update_legacy_user_policy_state a m r updated db)))"

text \<open>A transition user stands in for a v1 user; that of a lost race is deleted again.\<close>

definition resolve_legacy_user_id ::
  "v2_policy_env \<Rightarrow> (account_db \<Rightarrow> account_db) \<Rightarrow> string \<Rightarrow> string \<Rightarrow> string account_act" where
  "resolve_legacy_user_id env others legacy_user_id primary_country db =
     (case read_legacy_user_mapping db legacy_user_id of
        Some m \<Rightarrow>
          (if read_user db (lum_user_id m) = None
           then Inl (LegacyUserPolicyIntegrityError ''legacy user mapping has no referenced v2 user'')
           else Inr (lum_user_id m), db)
      | None \<Rightarrow>
          (case create_provisioned_user env primary_country (others db) of
             (u, db1) \<Rightarrow>
               (case create_legacy_user_mapping legacy_user_id (vu_id u) db1 of
                  (Some created_user_id, db2) \<Rightarrow> (Inr created_user_id, db2)
                | (None, db2) \<Rightarrow>
                    (let db3 = delete_user_row (vu_id u) db2
                     in case read_legacy_user_mapping db3 legacy_user_id of
                          Some m \<Rightarrow>
                            (if read_user db3 (lum_user_id m) = None
                             then Inl (LegacyUserPolicyIntegrityError
                                    ''legacy user mapping conflict did not resolve to a v2 user'')
                             else Inr (lum_user_id m), db3)
                        | None \<Rightarrow>
                            (Inl (LegacyUserPolicyIntegrityError
                               ''legacy user mapping conflict did not resolve to a v2 user''), db3)))))"

definition persist_legacy_user_policy_mapping ::
  "v2_policy_env \<Rightarrow> (account_db \<Rightarrow> account_db) \<Rightarrow> user_policy_revision \<Rightarrow> user_policy_input \<Rightarrow> user_policy_copy account_act" where
  "persist_legacy_user_policy_mapping env others r i db =
     (case require_mirrored_policy_id i of
        Inl e \<Rightarrow> (Inl e, db)
      | Inr policy_id \<Rightarrow>
          (case read_legacy_user_policy_mapping db (rev_country_id r) (rev_user_policy_id r) of
             Some m \<Rightarrow> apply_existing_mapping m r i db
           | None \<Rightarrow>
               account_then (create_user_policy env i) (\<lambda>a db1.
                 case create_legacy_user_policy_mapping r (va_id a) db1 of
                   (True, db2) \<Rightarrow>
                     (Inr \<lparr>upc_association_id = va_id a, upc_policy_id = policy_id, upc_association_created = True,
                           upc_association_updated = False, upc_mapping_created = True\<rparr>, db2)
                 | (False, db2) \<Rightarrow>
                     (let db3 = delete_user_policy_row (va_id a) db2
                      in case read_legacy_user_policy_mapping db3 (rev_country_id r) (rev_user_policy_id r) of
                           None \<Rightarrow> (Inl (LegacyUserPolicyIntegrityError
                             ''legacy user-policy mapping conflict did not resolve to a stored row''), db3)
                         | Some m \<Rightarrow> apply_existing_mapping m r i db3)) (others db)))"

text \<open>
  What other sessions commit during a copy: to the policies while the reform is copied, and
  before the user and the association are inserted.
\<close>

record copy_others =
  co_policies :: "v2_policy_db \<Rightarrow> v2_policy_db"
  co_users :: "account_db \<Rightarrow> account_db"
  co_associations :: "account_db \<Rightarrow> account_db"

definition mirror_reform_policy ::
  "v2_policy_env \<Rightarrow> (v2_policy_db \<Rightarrow> v2_policy_db) \<Rightarrow> policy_snapshot \<Rightarrow> policy_mirror_result account_act" where
  "mirror_reform_policy env others s db =
     (case mirror_legacy_policy_in_session env others s (ad_policies db) of
        (Inl e, p) \<Rightarrow> (Inl (PolicyFailure e), db\<lparr>ad_policies := p\<rparr>)
      | (Inr r, p) \<Rightarrow> (Inr r, db\<lparr>ad_policies := p\<rparr>))"

definition revision_of :: "user_policy_env \<Rightarrow> user_policy_snapshot \<Rightarrow> int \<Rightarrow> string list \<Rightarrow> user_policy_revision" where
  "revision_of env s source_revision changed_fields =
     \<lparr>rev_country_id = us_country_id s, rev_user_policy_id = us_user_policy_id s, rev_reform_label = us_reform_label s,
      rev_fingerprint = fingerprint_legacy_user_policy env s, rev_source_revision = source_revision,
      rev_changed_fields = changed_fields\<rparr>"

definition mirror_legacy_user_policy_in_session ::
  "v2_policy_env \<Rightarrow> user_policy_env \<Rightarrow> copy_others \<Rightarrow> user_policy_snapshot \<Rightarrow> policy_snapshot \<Rightarrow> int \<Rightarrow> string list
     \<Rightarrow> user_policy_copy account_act" where
  "mirror_legacy_user_policy_in_session env uenv others s reform source_revision changed_fields db =
     (case validate_legacy_user_policy_input s reform source_revision of
        Inl e \<Rightarrow> (Inl e, db)
      | Inr u \<Rightarrow>
          account_then (mirror_reform_policy env (co_policies others) reform) (\<lambda>policy.
          account_then (resolve_legacy_user_id env (co_users others) (us_user_id s) (us_country_id s)) (\<lambda>user_id db'.
            case project_legacy_user_policy s user_id (pmr_policy_id policy) of
              Inl e \<Rightarrow> (Inl e, db')
            | Inr i \<Rightarrow> persist_legacy_user_policy_mapping env (co_associations others)
                         (revision_of uenv s source_revision changed_fields) i db')) db)"

text \<open>What the other sessions commit in all, which stays when the copy fails.\<close>

definition others_of_copy :: "copy_others \<Rightarrow> account_db \<Rightarrow> account_db" where
  "others_of_copy others db =
     co_associations others (co_users others (db\<lparr>ad_policies := co_policies others (ad_policies db)\<rparr>))"

definition mirror_legacy_user_policy ::
  "v2_policy_env \<Rightarrow> user_policy_env \<Rightarrow> copy_others \<Rightarrow> user_policy_snapshot \<Rightarrow> policy_snapshot \<Rightarrow> int \<Rightarrow> string list
     \<Rightarrow> user_policy_copy account_act" where
  "mirror_legacy_user_policy env uenv others s reform source_revision changed_fields =
     account_transaction (others_of_copy others)
       (mirror_legacy_user_policy_in_session env uenv others s reform source_revision changed_fields)"

end
