(* ===== verification/V2_Policy_Copies.thy ===== *)
theory V2_Policy_Copies
  imports V2_Policies
begin

text \<open>
  Copies of v1 policies in API v2: a copied policy reads back as exactly the values of the v1
  policy, its mapping answers every later copy whatever catalog is then running, and equal
  content is stored once.
\<close>

section \<open>Well-formed stores\<close>

definition v2p_ok :: "v2_policy_env \<Rightarrow> v2_policy_db \<Rightarrow> bool" where
  "v2p_ok env db \<longleftrightarrow>
     distinct (map ct_id (vpd_parameters db)) \<and> distinct (map vp_id (vpd_policies db))
     \<and> vp_id ` set (vpd_policies db) \<subseteq> vpe_uuid env ` {..<vpd_draws db}
     \<and> vv_policy_id ` set (vpd_values db) \<subseteq> vpe_uuid env ` {..<vpd_draws db}
     \<and> distinct (map (\<lambda>m. (vpm_country_id m, vpm_legacy_policy_id m)) (vpd_mappings db))"

definition v2p_grows :: "v2_policy_db \<Rightarrow> v2_policy_db \<Rightarrow> bool" where
  "v2p_grows db db' \<longleftrightarrow>
     set (vpd_policies db) \<subseteq> set (vpd_policies db') \<and> set (vpd_mappings db) \<subseteq> set (vpd_mappings db')
     \<and> vpd_draws db \<le> vpd_draws db'"

definition policy_others_ok :: "v2_policy_env \<Rightarrow> (v2_policy_db \<Rightarrow> v2_policy_db) \<Rightarrow> bool" where
  "policy_others_ok env others \<longleftrightarrow> (\<forall>db. v2p_ok env db \<longrightarrow> v2p_ok env (others db) \<and> v2p_grows db (others db))"

lemma v2p_grows_refl [simp]: "v2p_grows db db"
  by (simp add: v2p_grows_def)

lemma v2p_grows_trans: "v2p_grows a b \<Longrightarrow> v2p_grows b c \<Longrightarrow> v2p_grows a c"
  by (auto simp: v2p_grows_def)

lemma v2p_more_draws:
  assumes "v2p_ok env db" and "vpd_draws db \<le> n"
  shows "v2p_ok env (db\<lparr>vpd_draws := n\<rparr>)" and "v2p_grows db (db\<lparr>vpd_draws := n\<rparr>)"
proof -
  have "vpe_uuid env ` {..<vpd_draws db} \<subseteq> vpe_uuid env ` {..<n}" using assms(2) by (intro image_mono) auto
  with assms(1) show "v2p_ok env (db\<lparr>vpd_draws := n\<rparr>)"
    unfolding v2p_ok_def by (simp del: image_subset_iff) (meson subset_trans)
  show "v2p_grows db (db\<lparr>vpd_draws := n\<rparr>)" using assms(2) by (simp add: v2p_grows_def)
qed

lemma fresh_uuid: "inj (vpe_uuid env) \<Longrightarrow> vpe_uuid env n \<notin> vpe_uuid env ` {..<n}"
  by (auto simp: inj_def)

lemma policy_mapping_of_key:
  assumes "v2p_ok env db" and "m \<in> set (vpd_mappings db)"
  shows "read_legacy_policy_mapping db (vpm_country_id m) (vpm_legacy_policy_id m) = Some m"
proof -
  have "List.find (\<lambda>x. vpm_country_id x = vpm_country_id m \<and> vpm_legacy_policy_id x = vpm_legacy_policy_id m) ms = Some m"
    if "distinct (map (\<lambda>m. (vpm_country_id m, vpm_legacy_policy_id m)) ms)" "m \<in> set ms" for ms
    using that by (induction ms) (auto simp: image_iff)
  with assms show ?thesis by (simp add: v2p_ok_def read_legacy_policy_mapping_def)
qed

section \<open>Storing\<close>

lemma create_resolved_cases:
  assumes "create_resolved_policy env r db = (res, db')"
  obtains (stored) policy_id where "policy_id = vpe_uuid env (vpd_draws db)" and "res = Inr (policy_id, True)"
      and "read_policy_by_content_identity db POLICY_CANONICALIZATION_VERSION (policy_content_hash env r) = None"
      and "db' = db\<lparr>vpd_policies := vpd_policies db @
             [\<lparr>vp_id = policy_id, vp_country_id = rsp_country_id r, vp_model_id = rsp_model_id r,
               vp_version_id = rsp_version_id r, vp_canonicalization_version = POLICY_CANONICALIZATION_VERSION,
               vp_content_hash = policy_content_hash env r, vp_created_at = vpd_clock db\<rparr>],
             vpd_values := vpd_values db @
               map (\<lambda>(i, v). \<lparr>vv_id = vpe_uuid env (vpd_draws db + 1 + i), vv_policy_id = policy_id, vv_input = v\<rparr>)
                 (List.enumerate 0 (rsp_values r)),
             vpd_draws := vpd_draws db + 1 + length (rsp_values r)\<rparr>"
    | (found) "db' = db\<lparr>vpd_draws := vpd_draws db + 1\<rparr>" and "\<And>i c. res = Inr (i, c) \<Longrightarrow> \<not> c"
proof (cases "read_policy_by_content_identity db POLICY_CANONICALIZATION_VERSION (policy_content_hash env r)")
  case None
  with assms show thesis
    by (intro stored [OF refl]) (auto simp: create_resolved_policy_def insert_policy_def create_parameter_values_def Let_def)
next
  case (Some p)
  have "db' = db\<lparr>vpd_draws := vpd_draws db + 1\<rparr>"
    using assms Some by (auto simp: create_resolved_policy_def insert_policy_def Let_def split: option.splits)
  moreover have "\<not> c" if "res = Inr (i, c)" for i c
    using assms Some that
    by (auto simp: create_resolved_policy_def insert_policy_def Let_def v2_bind_Inr_iff split: option.splits if_splits)
  ultimately show thesis by (rule found)
qed

lemma create_resolved_ok:
  assumes "v2p_ok env db" and "inj (vpe_uuid env)" and "create_resolved_policy env r db = (res, db')"
  shows "v2p_ok env db'" and "v2p_grows db db'"
proof -
  have "v2p_ok env db' \<and> v2p_grows db db'"
    using assms(3)
  proof (cases rule: create_resolved_cases)
    case (stored policy_id)
    have more: "vpe_uuid env ` {..<vpd_draws db} \<subseteq> vpe_uuid env ` {..<vpd_draws db + 1 + length (rsp_values r)}"
      "policy_id \<in> vpe_uuid env ` {..<vpd_draws db + 1 + length (rsp_values r)}"
      using stored(1) by (auto intro!: image_mono)
    have "policy_id \<notin> vp_id ` set (vpd_policies db)" 
      using assms(1) fresh_uuid [OF assms(2)] unfolding stored(1) v2p_ok_def by blast
    moreover have "vp_id ` set (vpd_policies db) \<subseteq> vpe_uuid env ` {..<vpd_draws db + 1 + length (rsp_values r)}"
      "vv_policy_id ` set (vpd_values db) \<subseteq> vpe_uuid env ` {..<vpd_draws db + 1 + length (rsp_values r)}"
      using assms(1) more(1) unfolding v2p_ok_def by (blast intro: subset_trans)+
    ultimately show ?thesis
      using assms(1) more(2) unfolding stored(4) v2p_ok_def v2p_grows_def
      by (simp add: image_Un image_image case_prod_unfold del: image_subset_iff) blast
  next
    case found
    then show ?thesis using v2p_more_draws [OF assms(1)] by simp
  qed
  then show "v2p_ok env db'" "v2p_grows db db'" by auto
qed

lemma map_stored_policy_ok:
  assumes "v2p_ok env db" and "map_stored_policy s stored db = (res, db')"
  shows "v2p_ok env db'" and "v2p_grows db db'"
proof -
  have "db' = db \<or> (\<exists>m. db' = db\<lparr>vpd_mappings := vpd_mappings db @ [m]\<rparr>
      \<and> (vpm_country_id m, vpm_legacy_policy_id m) \<notin> (\<lambda>m. (vpm_country_id m, vpm_legacy_policy_id m)) ` set (vpd_mappings db))"
    using assms(2)
    by (fastforce simp: map_stored_policy_def create_legacy_policy_mapping_def
        read_legacy_policy_mapping_def find_None_iff split: if_splits option.splits)
  with assms(1) have "v2p_ok env db' \<and> v2p_grows db db'" unfolding v2p_ok_def v2p_grows_def by (elim disjE exE) (simp_all add: subset_insertI)
  then show "v2p_ok env db'" "v2p_grows db db'" by auto
qed

lemma mirror_policy_ok:
  assumes "v2p_ok env db" and "inj (vpe_uuid env)" and "policy_others_ok env others"
    and "mirror_legacy_policy env others s db = (res, db')"
  shows "v2p_ok env db'" and "v2p_grows db db'"
proof -
  have ok: "v2p_ok env (others db)" "v2p_grows db (others db)" using assms(1,3) by (auto simp: policy_others_ok_def)
  obtain res1 db1 where run: "mirror_legacy_policy_in_session env others s db = (res1, db1)" by fastforce
  have "v2p_ok env db1 \<and> v2p_grows (others db) db1"
  proof (cases "read_legacy_policy_mapping db (ps_country_id s) (ps_legacy_policy_id s)")
    case (Some m)
    with run ok show ?thesis by (auto simp: mirror_legacy_policy_in_session_def)
  next
    case None
    show ?thesis
    proof (cases "translated_policy env (others db) s")
      case (Inl e)
      with run None ok show ?thesis by (auto simp: mirror_legacy_policy_in_session_def)
    next
      case (Inr r)
      obtain res2 db2 where create: "create_resolved_policy env r (others db) = (res2, db2)" by fastforce
      note created = create_resolved_ok [OF ok(1) assms(2) create]
      show ?thesis
      proof (cases res2)
        case (Inl e)
        with run None \<open>translated_policy env (others db) s = Inr r\<close> create created show ?thesis
          by (auto simp: mirror_legacy_policy_in_session_def)
      next
        case (Inr stored)
        with run None \<open>translated_policy env (others db) s = Inr r\<close> create
        have "map_stored_policy s stored db2 = (res1, db1)" by (auto simp: mirror_legacy_policy_in_session_def)
        from map_stored_policy_ok [OF created(1) this] created(2) show ?thesis by (auto intro: v2p_grows_trans)
      qed
    qed
  qed
  moreover have "vpd_draws (others db) \<le> vpd_draws db1" using calculation by (simp add: v2p_grows_def)
  ultimately have "v2p_ok env db' \<and> v2p_grows (others db) db'"
    using assms(4) run v2p_more_draws [OF ok(1)]
    by (auto simp: mirror_legacy_policy_def policy_transaction_def split: sum.splits)
  with ok(2) show "v2p_ok env db'" "v2p_grows db db'" by (auto intro: v2p_grows_trans)
qed

lemma mirrored_mapping:
  assumes "v2p_ok env db" and "inj (vpe_uuid env)" and "policy_others_ok env others"
    and "mirror_legacy_policy env others s db = (Inr r, db')"
  shows "\<exists>m\<in>set (vpd_mappings db'). vpm_country_id m = ps_country_id s \<and> vpm_legacy_policy_id m = ps_legacy_policy_id s
     \<and> vpm_policy_id m = pmr_policy_id r \<and> vpm_source_policy_hash m = ps_source_policy_hash s"
proof -
  have run: "mirror_legacy_policy_in_session env others s db = (Inr r, db')"
    using assms(4) by (auto simp: mirror_legacy_policy_def policy_transaction_def split: prod.splits sum.splits)
  have grows: "v2p_grows db (others db)" using assms(1,3) by (auto simp: policy_others_ok_def)
  show ?thesis
  proof (cases "read_legacy_policy_mapping db (ps_country_id s) (ps_legacy_policy_id s)")
    case (Some m)
    then have "m \<in> set (vpd_mappings db)" "vpm_country_id m = ps_country_id s" "vpm_legacy_policy_id m = ps_legacy_policy_id s"
      by (auto simp: read_legacy_policy_mapping_def dest: find_mem)
    with run Some grows show ?thesis
      by (intro bexI [of _ m]) (auto simp: mirror_legacy_policy_in_session_def verify_legacy_policy_mapping_def v2p_grows_def split: if_splits)
  next
    case None
    with run obtain stored db2 where "map_stored_policy s stored db2 = (Inr r, db')"
      by (auto simp: mirror_legacy_policy_in_session_def split: sum.splits prod.splits)
    then show ?thesis
      by (auto simp: map_stored_policy_def create_legacy_policy_mapping_def verify_legacy_policy_mapping_def
          read_legacy_policy_mapping_def split: if_splits option.splits dest: find_mem)
  qed
qed

text \<open>
  C8. A mirrored policy stays its copy: however API v2 and its catalogs have changed since,
  mirroring the v1 policy again, from any installation, answers with the same policy and writes
  nothing, and content with another hash under its id is refused.
\<close>

theorem mirrored_policy_is_stable:
  assumes "mirror_legacy_policy env others s db = (Inr r, db1)"
    and "v2p_ok env db" and "inj (vpe_uuid env)" and "policy_others_ok env others"
    and "v2p_grows db1 db2" and "v2p_ok env db2"
    and "ps_country_id s' = ps_country_id s" and "ps_legacy_policy_id s' = ps_legacy_policy_id s"
  shows "mirror_legacy_policy env' others' s' db2 =
    (if ps_source_policy_hash s' = ps_source_policy_hash s
     then Inr \<lparr>pmr_policy_id = pmr_policy_id r, pmr_policy_created = False, pmr_mapping_created = False\<rparr>
     else Inl (LegacyPolicyMappingIntegrityError ''legacy policy identity was presented with a different source hash''),
     others' db2)"
proof -
  obtain m where m: "m \<in> set (vpd_mappings db1)" "vpm_country_id m = ps_country_id s" "vpm_legacy_policy_id m = ps_legacy_policy_id s"
    "vpm_policy_id m = pmr_policy_id r" "vpm_source_policy_hash m = ps_source_policy_hash s"
    using mirrored_mapping [OF assms(2-4,1)] by blast
  have "m \<in> set (vpd_mappings db2)" using m(1) assms(5) by (auto simp: v2p_grows_def)
  from policy_mapping_of_key [OF assms(6) this]
  have "read_legacy_policy_mapping db2 (ps_country_id s') (ps_legacy_policy_id s') = Some m" using m(2,3) assms(7,8) by simp
  with m(4,5) show ?thesis
    by (simp add: mirror_legacy_policy_def policy_transaction_def mirror_legacy_policy_in_session_def verify_legacy_policy_mapping_def)
qed


section \<open>What a copy holds\<close>

text \<open>The values a v1 policy names: parameter, first and last day, and value.\<close>

definition period_days :: "v2_policy_env \<Rightarrow> string \<Rightarrow> datetime \<times> datetime" where
  "period_days env k =
     (case parse_legacy_period env k of Inr days \<Rightarrow> days | Inl e \<Rightarrow> (midnight (1, 1, 1), midnight (1, 1, 1)))"

definition periods_of :: "json \<Rightarrow> (string \<times> json) list" where
  "periods_of v = (case v of JObj periods \<Rightarrow> periods | _ \<Rightarrow> [])"

definition legacy_values :: "v2_policy_env \<Rightarrow> (string \<times> json) list \<Rightarrow> (string \<times> datetime \<times> datetime option \<times> json) list" where
  "legacy_values env policy_json =
     concat (map (\<lambda>(name, v). map (\<lambda>(k, x). (name, fst (period_days env k), Some (snd (period_days env k)), x)) (periods_of v))
       policy_json)"

lemma legacy_values_name: "(name, x) \<in> set (legacy_values env policy_json) \<Longrightarrow> name \<in> set (map fst policy_json)"
  by (force simp: legacy_values_def)

text \<open>Every parameter has periods, and each can be read.\<close>

definition complete_policy_json :: "v2_policy_env \<Rightarrow> (string \<times> json) list \<Rightarrow> bool" where
  "complete_policy_json env policy_json \<longleftrightarrow>
     (\<forall>(name, v)\<in>set policy_json. periods_of v \<noteq> [] \<and> (\<forall>(k, x)\<in>set (periods_of v). \<not> isl (parse_legacy_period env k)))"

lemma translate_periods_values:
  assumes "translate_periods env c i periods = Inr vs"
  shows "vs = map (\<lambda>(k, x). \<lparr>pvi_parameter_id = i, pvi_value = x, pvi_start = fst (period_days env k),
           pvi_end = Some (snd (period_days env k))\<rparr>) periods"
    and "\<forall>(k, x)\<in>set periods. \<not> isl (parse_legacy_period env k)"
proof -
  have "vs = map (\<lambda>(k, x). \<lparr>pvi_parameter_id = i, pvi_value = x, pvi_start = fst (period_days env k),
           pvi_end = Some (snd (period_days env k))\<rparr>) periods
     \<and> (\<forall>(k, x)\<in>set periods. \<not> isl (parse_legacy_period env k))"
    using assms
  proof (induction periods arbitrary: vs)
    case (Cons p periods)
    obtain k x where p: "p = (k, x)" by (cases p)
    obtain days where days: "parse_legacy_period env k = Inr days"
      using Cons.prems p by (cases "parse_legacy_period env k") auto
    obtain s e where "days = (s, e)" by (cases days)
    with Cons.prems p days obtain vs' where "translate_periods env c i periods = Inr vs'"
      "vs = \<lparr>pvi_parameter_id = i, pvi_value = x, pvi_start = s, pvi_end = Some e\<rparr> # vs'"
      by (auto simp: v2_bind_Inr_iff split: if_splits)
    with Cons.IH [OF this(1)] p days \<open>days = (s, e)\<close> show ?case by (simp add: period_days_def)
  qed auto
  then show "vs = map (\<lambda>(k, x). \<lparr>pvi_parameter_id = i, pvi_value = x, pvi_start = fst (period_days env k),
           pvi_end = Some (snd (period_days env k))\<rparr>) periods"
    "\<forall>(k, x)\<in>set periods. \<not> isl (parse_legacy_period env k)" by auto
qed

definition value_for :: "(string \<times> catalog_parameter) list \<Rightarrow> string \<times> datetime \<times> datetime option \<times> json \<Rightarrow> policy_value_input" where
  "value_for parameters =
     (\<lambda>(name, s, e, x). \<lparr>pvi_parameter_id = parameter_id_of parameters name, pvi_value = x, pvi_start = s, pvi_end = e\<rparr>)"

lemma translate_parameters_values:
  assumes "translate_parameters env c parameters json = Inr vs"
  shows "set vs = value_for parameters ` set (legacy_values env json)" and "complete_policy_json env json"
proof -
  have "set vs = value_for parameters ` set (legacy_values env json) \<and> complete_policy_json env json"
    using assms
  proof (induction json arbitrary: vs)
    case (Cons p rest)
    obtain name v where p: "p = (name, v)" by (cases p)
    with Cons.prems obtain periods us vs' where v: "v = JObj periods" "periods \<noteq> []"
        "translate_periods env c (parameter_id_of parameters name) (sort_key fst periods) = Inr us"
        "translate_parameters env c parameters rest = Inr vs'" "vs = us @ vs'"
      by (auto simp: v2_bind_Inr_iff split: json.splits if_splits)
    note periods = translate_periods_values [OF v(3), unfolded set_sort]
    have "set us = value_for parameters ` set (map (\<lambda>(k, x). (name, fst (period_days env k), Some (snd (period_days env k)), x)) periods)"
      unfolding periods(1) by (simp add: value_for_def image_image case_prod_unfold)
    with Cons.IH [OF v(4)] have "set vs = value_for parameters ` set (legacy_values env (p # rest))"
      by (simp add: legacy_values_def p v(1,5) periods_of_def image_Un)
    moreover have "complete_policy_json env (p # rest)"
      using periods(2) v(2) Cons.IH [OF v(4)] by (auto simp: complete_policy_json_def p v(1) periods_of_def)
    ultimately show ?case by blast
  qed (simp add: legacy_values_def complete_policy_json_def)
  then show "set vs = value_for parameters ` set (legacy_values env json)" "complete_policy_json env json" by auto
qed

lemma update_fold_members:
  assumes "\<forall>(n, p)\<in>set found. P n p" and "\<forall>p\<in>set ps. P (ct_name p) p"
  shows "\<forall>(n, p)\<in>set (fold (\<lambda>p. AList.update (ct_name p) p) ps found). P n p"
  using assms
proof (induction ps arbitrary: found)
  case (Cons q ps)
  have "set (AList.update (ct_name q) q found) \<subseteq> insert (ct_name q, q) (set found)"
    by (induction found) auto
  with Cons.prems have "\<forall>(n, p)\<in>set (AList.update (ct_name q) q found). P n p" by auto
  with Cons.IH Cons.prems(2) show ?case by simp
qed simp

lemma read_parameters_sound:
  assumes "(name, p) \<in> set (read_parameters_by_name db version names)"
  shows "p \<in> set (vpd_parameters db) \<and> ct_name p = name \<and> ct_version_id p = version"
proof -
  let ?P = "\<lambda>n p. p \<in> set (vpd_parameters db) \<and> ct_name p = n \<and> ct_version_id p = version"
  have "\<forall>(n, p)\<in>set (fold (\<lambda>batch found. fold (\<lambda>p. AList.update (ct_name p) p)
      (filter (\<lambda>p. ct_version_id p = version \<and> ct_name p \<in> set batch) (vpd_parameters db)) found) batches found). ?P n p"
    if "\<forall>(n, p)\<in>set found. ?P n p" for batches found
    using that
  proof (induction batches arbitrary: found)
    case (Cons batch batches)
    have "\<forall>(n, p)\<in>set (fold (\<lambda>p. AList.update (ct_name p) p)
        (filter (\<lambda>p. ct_version_id p = version \<and> ct_name p \<in> set batch) (vpd_parameters db)) found). ?P n p"
      by (rule update_fold_members [OF Cons.prems]) auto
    from Cons.IH [OF this] show ?case by simp
  qed simp
  from this [of "[]"] assms show ?thesis unfolding read_parameters_by_name_def by fastforce
qed


lemma translated_values:
  assumes "translated_policy env db s = Inr t" and "ps_policy_json s = JObj policy_json"
  obtains parameters where "set (rsp_values t) = value_for parameters ` set (legacy_values env policy_json)"
    and "complete_policy_json env policy_json" and "rsp_country_id t = ps_country_id s"
    and "\<And>name. name \<in> set (map fst policy_json) \<Longrightarrow>
      \<exists>q\<in>set (vpd_parameters db). parameter_id_of parameters name = ct_id q \<and> ct_name q = name"
proof -
  obtain selected where translated: "translate_legacy_policy env s selected
      (read_parameters_by_name db (tv_id (sc_model_version selected)) (map fst policy_json)) = Inr t"
    using assms by (auto simp: translated_policy_def v2_bind_Inr_iff)
  let ?ps = "read_parameters_by_name db (tv_id (sc_model_version selected)) (map fst policy_json)"
  from translated have present: "parameters_missing_from_model (map fst policy_json) (map fst ?ps) = []"
    using assms(2) by (auto simp: translate_legacy_policy_def Let_def split: if_splits)
  with translated assms(2) obtain vs where
    "translate_parameters env \<lparr>pcn_country_id = ps_country_id s, pcn_model_id = tm_id (sc_model selected), pcn_values = []\<rparr>
       ?ps (sort_key fst policy_json) = Inr vs"
    "rsp_values t = vs" "rsp_country_id t = ps_country_id s"
    by (auto simp: translate_legacy_policy_def Let_def v2_bind_Inr_iff policy_content_input_def validate_policy_catalog_def
        resolved_input_def split: if_splits sum.splits)
  note vs = translate_parameters_values [OF this(1)] this(2,3)
  have "set (legacy_values env (sort_key fst policy_json)) = set (legacy_values env policy_json)"
    by (simp add: legacy_values_def)
  moreover have "complete_policy_json env policy_json" using vs(2) by (simp add: complete_policy_json_def)
  moreover have "\<exists>q\<in>set (vpd_parameters db). parameter_id_of ?ps name = ct_id q \<and> ct_name q = name"
    if "name \<in> set (map fst policy_json)" for name
  proof -
    have "set (parameters_missing_from_model (map fst policy_json) (map fst ?ps)) = {}" using present by simp
    with that have "name \<in> set (map fst ?ps)" by (auto simp: parameters_missing_from_model_def)
    then obtain q where q: "map_of ?ps name = Some q" by (metis map_of_eq_None_iff not_None_eq set_map)
    from read_parameters_sound [OF map_of_SomeD [OF q]] q show ?thesis by (auto simp: parameter_id_of_def)
  qed
  ultimately show thesis using that [of ?ps] vs by simp
qed

definition shown_values :: "policy_read \<Rightarrow> (string \<times> datetime \<times> datetime option \<times> json) list" where
  "shown_values p =
     map (\<lambda>(v, name). (name, pvi_start (vv_input v), pvi_end (vv_input v), pvi_value (vv_input v))) (pr_values p)"

lemma new_values:
  "map vv_input (map (\<lambda>(k, v). \<lparr>vv_id = g k, vv_policy_id = i, vv_input = v\<rparr>) (List.enumerate n vs)) = vs"
  "filter (\<lambda>v. vv_policy_id v = i) (map (\<lambda>(k, v). \<lparr>vv_id = g k, vv_policy_id = i, vv_input = v\<rparr>) (List.enumerate n vs))
     = map (\<lambda>(k, v). \<lparr>vv_id = g k, vv_policy_id = i, vv_input = v\<rparr>) (List.enumerate n vs)"
  by (induction vs arbitrary: n) simp_all

lemma image_of_joined:
  "(\<lambda>(v, n). f (g v) n) ` {(v, h q) | v q. v \<in> A \<and> q \<in> B \<and> Q q (g v)} = {f w (h q) | w q. w \<in> g ` A \<and> q \<in> B \<and> Q q w}"
  by (auto simp: image_iff) blast

lemma shown_of_policy:
  assumes "read_complete_policy db c policy_id = Inr p"
  shows "set (shown_values p) = {(ct_name q, pvi_start w, pvi_end w, pvi_value w) | w q.
     w \<in> vv_input ` set (filter (\<lambda>v. vv_policy_id v = policy_id) (vpd_values db)) \<and> q \<in> set (vpd_parameters db)
     \<and> ct_id q = pvi_parameter_id w}"
proof -
  obtain row where row: "vp_id row = policy_id" "p = policy_read_of (read_parameter_values_with_names db [vp_id row]) row"
    using assms by (auto simp: read_complete_policy_def read_policy_row_def split: option.splits dest: find_mem)
  let ?vs = "set (filter (\<lambda>v. vv_policy_id v = policy_id) (vpd_values db))"
  have "set (pr_values p) = {(v, ct_name q) | v q. v \<in> ?vs \<and> q \<in> set (vpd_parameters db) \<and> ct_id q = pvi_parameter_id (vv_input v)}"
    unfolding row(2) policy_read_of_def read_parameter_values_with_names_def row(1) by auto
  moreover have "set (shown_values p)
      = (\<lambda>(v, name). (\<lambda>w n. (n, pvi_start w, pvi_end w, pvi_value w)) (vv_input v) name) ` set (pr_values p)"
    by (simp add: shown_values_def)
  ultimately show ?thesis using image_of_joined
      [of "\<lambda>w n. (n, pvi_start w, pvi_end w, pvi_value w)" vv_input ct_name ?vs "set (vpd_parameters db)"
        "\<lambda>q w. ct_id q = pvi_parameter_id w"] by (simp only:)
qed

text \<open>
  C7. A v1 policy copied as a new policy of API v2 reads back there as exactly the values it
  has in v1, each under its parameter's name with the first and last day of its period, all of
  which could be read.
\<close>

theorem copied_policy_reads_back:
  assumes "mirror_legacy_policy env others s db = (Inr r, db')" and "pmr_policy_created r"
    and "v2p_ok env db" and "inj (vpe_uuid env)" and "policy_others_ok env others"
    and "ps_policy_json s = JObj policy_json"
  shows "complete_policy_json env policy_json
    \<and> (\<exists>p. read_complete_policy db' (ps_country_id s) (pmr_policy_id r) = Inr p
         \<and> set (shown_values p) = set (legacy_values env policy_json))"
proof -
  let ?db = "others db"
  have ok: "v2p_ok env ?db" using assms(3,5) by (simp add: policy_others_ok_def)
  have run: "mirror_legacy_policy_in_session env others s db = (Inr r, db')"
    using assms(1) by (auto simp: mirror_legacy_policy_def policy_transaction_def split: prod.splits sum.splits)
  then have unmapped: "read_legacy_policy_mapping db (ps_country_id s) (ps_legacy_policy_id s) = None"
    using assms(2) by (auto simp: mirror_legacy_policy_in_session_def verify_legacy_policy_mapping_def split: option.splits if_splits)
  obtain t where t: "translated_policy env ?db s = Inr t"
    using run unmapped by (cases "translated_policy env ?db s") (auto simp: mirror_legacy_policy_in_session_def)
  obtain res db2 where create: "create_resolved_policy env t ?db = (res, db2)" by fastforce
  obtain pair where pair: "res = Inr pair"
    using run unmapped t create by (cases res) (auto simp: mirror_legacy_policy_in_session_def)
  have map: "map_stored_policy s pair db2 = (Inr r, db')"
    using run unmapped t create pair by (simp add: mirror_legacy_policy_in_session_def)
  then have new: "snd pair" "pmr_policy_id r = fst pair" "vpd_policies db' = vpd_policies db2" "vpd_values db' = vpd_values db2"
      "vpd_parameters db' = vpd_parameters db2"
    using assms(2)
    by (auto simp: map_stored_policy_def create_legacy_policy_mapping_def verify_legacy_policy_mapping_def
        split: if_splits option.splits)
  obtain parameters where held: "set (rsp_values t) = value_for parameters ` set (legacy_values env policy_json)"
    "complete_policy_json env policy_json" "rsp_country_id t = ps_country_id s"
    "\<And>name. name \<in> set (map fst policy_json) \<Longrightarrow>
      \<exists>q\<in>set (vpd_parameters ?db). parameter_id_of parameters name = ct_id q \<and> ct_name q = name"
    by (rule translated_values [OF t assms(6)]) blast
  show ?thesis using create
  proof (cases rule: create_resolved_cases)
    case found
    with new(1) pair show ?thesis by (cases pair) auto
  next
    case (stored policy_id)
    have id: "pmr_policy_id r = policy_id" using stored(2) pair new(2) by simp
    have fresh: "policy_id \<notin> vp_id ` set (vpd_policies ?db)" "policy_id \<notin> vv_policy_id ` set (vpd_values ?db)"
      using ok fresh_uuid [OF assms(4)] unfolding stored(1) v2p_ok_def by blast+
    have params: "vpd_parameters db' = vpd_parameters ?db" using new(5) stored(4) by simp
    have "\<exists>row\<in>set (vpd_policies db'). vp_id row = policy_id \<and> vp_country_id row = ps_country_id s"
      using held(3) by (simp add: new(3) stored(4))
    then have "read_policy_row db' (ps_country_id s) policy_id \<noteq> None"
      by (auto simp: read_policy_row_def find_None_iff)
    then obtain p where p: "read_complete_policy db' (ps_country_id s) policy_id = Inr p"
      by (auto simp: read_complete_policy_def)
    have "filter (\<lambda>v. vv_policy_id v = policy_id) (vpd_values ?db) = []" using fresh(2) by (auto simp: filter_empty_conv)
    moreover have "vpd_values db' = vpd_values ?db @ map (\<lambda>(k, v). \<lparr>vv_id = vpe_uuid env (vpd_draws ?db + 1 + k),
        vv_policy_id = policy_id, vv_input = v\<rparr>) (List.enumerate 0 (rsp_values t))"
      using new(4) stored(4) by simp
    ultimately have "map vv_input (filter (\<lambda>v. vv_policy_id v = policy_id) (vpd_values db')) = rsp_values t"
      by (simp only: filter_append append_Nil new_values)
    then have "vv_input ` set (filter (\<lambda>v. vv_policy_id v = policy_id) (vpd_values db')) = set (rsp_values t)"
      by (metis list.set_map)
    note shown = shown_of_policy [OF p, unfolded this params held(1)]
    have ids: "q = q'" if "q \<in> set (vpd_parameters ?db)" "q' \<in> set (vpd_parameters ?db)" "ct_id q = ct_id q'" for q q'
      using that ok by (auto simp: v2p_ok_def distinct_map dest: inj_onD)
    have "set (shown_values p) = set (legacy_values env policy_json)"
    proof (intro set_eqI iffI)
      fix x assume "x \<in> set (shown_values p)"
      then obtain name s' e v q where x: "(name, s', e, v) \<in> set (legacy_values env policy_json)" "q \<in> set (vpd_parameters ?db)"
        "ct_id q = parameter_id_of parameters name" "x = (ct_name q, s', e, v)"
        unfolding shown by (auto simp: value_for_def)
      from held(4) [OF legacy_values_name [OF x(1)]] x ids show "x \<in> set (legacy_values env policy_json)" by metis
    next
      fix x assume x: "x \<in> set (legacy_values env policy_json)"
      obtain name s' e v where parts: "x = (name, s', e, v)" by (cases x)
      note held(4) [OF legacy_values_name [OF x [unfolded parts]]]
      then obtain q where "q \<in> set (vpd_parameters ?db)" "parameter_id_of parameters name = ct_id q" "ct_name q = name"
        by blast
      with x parts show "x \<in> set (shown_values p)"
        unfolding shown
        by (intro CollectI exI [of _ "value_for parameters x"] exI [of _ q]) (auto simp: value_for_def intro: image_eqI [OF _ x])
    qed
    with held(2) p id show ?thesis by blast
  qed
qed

section \<open>A copied reform\<close>

definition example_v2_policy_env :: v2_policy_env where
  "example_v2_policy_env =
     \<lparr>vpe_period = (\<lambda>p. None), vpe_version = (\<lambda>v. Some v), vpe_report = (\<lambda>c. ''invalid''),
       vpe_sha256 = (\<lambda>d. ''digest''), vpe_uuid = (\<lambda>n. replicate n CHR ''a''), vpe_running = ''4.18.9''\<rparr>"

definition example_catalog :: v2_policy_db where
  "example_catalog =
     \<lparr>vpd_models = [\<lparr>tm_id = ''m'', tm_name = ''policyengine-us''\<rparr>],
       vpd_versions = [\<lparr>tv_id = ''v'', tv_model_id = ''m'', tv_version = ''4.18.9''\<rparr>],
       vpd_parameters = [\<lparr>ct_id = ''p'', ct_version_id = ''v'', ct_name = ''gov.x''\<rparr>],
       vpd_policies = [], vpd_values = [], vpd_mappings = [], vpd_draws = 0, vpd_clock = 0\<rparr>"

definition example_snapshot :: policy_snapshot where
  "example_snapshot =
     \<lparr>ps_country_id = ''us'', ps_legacy_policy_id = 7, ps_label = None, ps_api_version = ''1'',
       ps_policy_json = JObj [(''gov.x'', JObj [(''2024-01-01.2024-12-31'', JInt 5)])],
       ps_source_policy_hash = ''h''\<rparr>"

definition example_result :: policy_mirror_result where
  "example_result = \<lparr>pmr_policy_id = [], pmr_policy_created = True, pmr_mapping_created = True\<rparr>"

definition mirrored_catalog :: v2_policy_db where
  "mirrored_catalog =
     example_catalog\<lparr>
       vpd_policies := [\<lparr>vp_id = [], vp_country_id = ''us'', vp_model_id = ''m'', vp_version_id = ''v'',
         vp_canonicalization_version = 1, vp_content_hash = ''digest'', vp_created_at = 0\<rparr>],
       vpd_values := [\<lparr>vv_id = ''a'', vv_policy_id = [], vv_input =
         \<lparr>pvi_parameter_id = ''p'', pvi_value = JInt 5, pvi_start = midnight (2024, 1, 1),
          pvi_end = Some (midnight (2024, 12, 31))\<rparr>\<rparr>],
       vpd_mappings := [\<lparr>vpm_country_id = ''us'', vpm_legacy_policy_id = 7, vpm_policy_id = [],
         vpm_source_policy_hash = ''h''\<rparr>],
       vpd_draws := 2\<rparr>"

lemma example_translated:
  "translated_policy example_v2_policy_env example_catalog example_snapshot
     = Inr \<lparr>rsp_country_id = ''us'', rsp_model_id = ''m'', rsp_version_id = ''v'', rsp_policyengine_version = ''4.18.9'',
         rsp_values = [\<lparr>pvi_parameter_id = ''p'', pvi_value = JInt 5, pvi_start = midnight (2024, 1, 1),
           pvi_end = Some (midnight (2024, 12, 31))\<rparr>]\<rparr>"
  by code_simp

lemma example_mirrored:
  "mirror_legacy_policy example_v2_policy_env (\<lambda>db. db) example_snapshot example_catalog = (Inr example_result, mirrored_catalog)"
  using example_translated
  by (simp add: mirror_legacy_policy_def policy_transaction_def mirror_legacy_policy_in_session_def policy_content_hash_def
      read_legacy_policy_mapping_def create_resolved_policy_def insert_policy_def create_parameter_values_def
      read_policy_by_content_identity_def map_stored_policy_def create_legacy_policy_mapping_def Let_def
      POLICY_CANONICALIZATION_VERSION_def example_catalog_def example_snapshot_def example_result_def
      mirrored_catalog_def example_v2_policy_env_def)

lemma no_policy_others_ok: "policy_others_ok env (\<lambda>db. db)"
  by (simp add: policy_others_ok_def)

lemma example_catalog_ok: "v2p_ok example_v2_policy_env example_catalog"
  by (simp add: v2p_ok_def example_catalog_def)

lemma example_policy_uuid_inj: "inj (vpe_uuid example_v2_policy_env)"
  by (simp add: inj_def example_v2_policy_env_def)

theorem mirrored_policy_is_stable_witness:
  "mirror_legacy_policy (example_v2_policy_env\<lparr>vpe_running := ''5.0.0''\<rparr>) (\<lambda>db. db) example_snapshot mirrored_catalog
     = (Inr \<lparr>pmr_policy_id = [], pmr_policy_created = False, pmr_mapping_created = False\<rparr>, mirrored_catalog)"
  using mirrored_policy_is_stable [OF example_mirrored example_catalog_ok example_policy_uuid_inj no_policy_others_ok
      v2p_grows_refl mirror_policy_ok(1) [OF example_catalog_ok example_policy_uuid_inj no_policy_others_ok example_mirrored],
      of example_snapshot "example_v2_policy_env\<lparr>vpe_running := ''5.0.0''\<rparr>" "\<lambda>db. db"]
  by (simp add: example_result_def)

theorem copied_policy_reads_back_witness:
  "\<exists>p. read_complete_policy mirrored_catalog ''us'' [] = Inr p
     \<and> set (shown_values p) = {(''gov.x'', midnight (2024, 1, 1), Some (midnight (2024, 12, 31)), JInt 5)}"
proof -
  have "legacy_values example_v2_policy_env [(''gov.x'', JObj [(''2024-01-01.2024-12-31'', JInt 5)])]
      = [(''gov.x'', midnight (2024, 1, 1), Some (midnight (2024, 12, 31)), JInt 5)]"
    by code_simp
  with copied_policy_reads_back [OF example_mirrored _ example_catalog_ok example_policy_uuid_inj no_policy_others_ok,
      of "[(''gov.x'', JObj [(''2024-01-01.2024-12-31'', JInt 5)])]"]
  show ?thesis by (simp add: example_result_def example_snapshot_def)
qed

end
