(* ===== verification/User_Policy_Copies.thy ===== *)
theory User_Policy_Copies
  imports V2_User_Policies V2_Policy_Copies
begin

text \<open>
  \<open>policyengine_api/services/user_policy_mirroring.py\<close>: the revisions of a v1 saved policy copied into
  API v2 in order. A recorded event reads back as the revision that was written, and a copied
  revision leaves API v2 with the association it projects to.

  The loader of reform policies is a parameter, as are the commits that fail; metric records are
  not modelled.
\<close>

section \<open>Copying after a commit\<close>

datatype copy_error = LoaderFailed exn | ReformPolicyUnavailable | CopyFailed account_error

fun classify_account_error :: "account_error \<Rightarrow> copy_failure_category \<times> copy_failure_reason" where
  "classify_account_error (LegacyUserPolicyIntegrityError m) = (IntegrityOfCopy, SavedPolicyIntegrity)"
| "classify_account_error (PolicyFailure e) = classify_policy_copy_failure e"
| "classify_account_error (ConstraintError m) = classify_policy_copy_failure (SQLAlchemyError m)"
| "classify_account_error e = (UnexpectedFailure, UnexpectedReason)"

fun classify_copy_error :: "copy_error processing_error \<Rightarrow> copy_failure_category \<times> copy_failure_reason" where
  "classify_copy_error (ProcessorError (CopyFailed e)) = classify_account_error e"
| "classify_copy_error (ProcessorError ReformPolicyUnavailable) = (UnexpectedFailure, MissingReformPolicy)"
| "classify_copy_error (ProcessorError (LoaderFailed e)) = (UnexpectedFailure, UnexpectedReason)"
| "classify_copy_error (CommitFailed (NotSQL e)) = (UnexpectedFailure, UnexpectedReason)"
| "classify_copy_error (CommitFailed e) = (DatabaseOfCopy, DatabaseReason)"
| "classify_copy_error (EventIntegrity m) = (UnexpectedFailure, UnexpectedReason)"

definition mirror_user_policy_after_commit ::
  "v2_policy_env \<Rightarrow> user_policy_env \<Rightarrow> copy_others \<Rightarrow> user_policy_snapshot \<Rightarrow> policy_snapshot \<Rightarrow> int \<Rightarrow> string list
     \<Rightarrow> account_db \<Rightarrow> ((copy_failure_category \<times> copy_failure_reason) + user_policy_copy) \<times> account_db" where
  "mirror_user_policy_after_commit env uenv others s reform source_revision changed_fields db =
     (case mirror_legacy_user_policy env uenv others s reform source_revision changed_fields db of
        (Inl e, db') \<Rightarrow> (Inl (classify_account_error e), db') | (Inr r, db') \<Rightarrow> (Inr r, db'))"

type_synonym reform_loader = "string \<Rightarrow> int \<Rightarrow> policy_snapshot option result"

text \<open>The copy of one event; other sessions may act differently during each.\<close>

definition copy_revision ::
  "v2_policy_env \<Rightarrow> user_policy_env \<Rightarrow> reform_loader \<Rightarrow> (pending_revision \<Rightarrow> copy_others) \<Rightarrow> pending_revision \<Rightarrow> account_db
     \<Rightarrow> (copy_error + user_policy_copy) \<times> account_db" where
  "copy_revision env uenv loader others event db =
     (case loader (us_country_id (pr_snapshot event)) (us_reform_id (pr_snapshot event)) of
        Inl e \<Rightarrow> (Inl (LoaderFailed e), db)
      | Inr None \<Rightarrow> (Inl ReformPolicyUnavailable, db)
      | Inr (Some reform) \<Rightarrow>
          (case mirror_legacy_user_policy env uenv (others event) (pr_snapshot event) reform
                  (pr_source_revision event) (pr_changed_fields event) db of
             (Inl e, db') \<Rightarrow> (Inl (CopyFailed e), db') | (Inr r, db') \<Rightarrow> (Inr r, db')))"

text \<open>A request logs why it failed and raises.\<close>

definition mirror_pending_user_policy_events ::
  "v2_policy_env \<Rightarrow> user_policy_env \<Rightarrow> reform_loader \<Rightarrow> (pending_revision \<Rightarrow> copy_others)
     \<Rightarrow> (nat \<Rightarrow> user_policy_db \<times> account_db \<Rightarrow> user_policy_db \<times> account_db) \<Rightarrow> (nat \<Rightarrow> db_exception option)
     \<Rightarrow> db_exception option \<Rightarrow> string \<Rightarrow> int \<Rightarrow> int \<Rightarrow> user_policy_db \<times> account_db
     \<Rightarrow> (((copy_failure_category \<times> copy_failure_reason) + user_policy_copy) \<times> user_policy_db \<times> account_db) option" where
  "mirror_pending_user_policy_events env uenv loader copy_others others faults last_fault country_id user_policy_id
     through_revision w =
     map_option (\<lambda>(res, w'). (case res of Inl e \<Rightarrow> Inl (classify_copy_error e) | Inr r \<Rightarrow> Inr r, w'))
       (process_pending_mirror_events uenv (copy_revision env uenv loader copy_others) others faults last_fault
          country_id user_policy_id through_revision w)"

section \<open>The v1 rows of one saved policy\<close>

definition saved_row :: "user_policy_db \<Rightarrow> string \<Rightarrow> int \<Rightarrow> user_policy option" where
  "saved_row db c i = List.find (\<lambda>p. upo_id p = i \<and> upo_country_id p = c) (ud_rows db)"

definition rows_ok :: "user_policy_db \<Rightarrow> bool" where
  "rows_ok db \<longleftrightarrow>
     distinct (map upo_id (ud_rows db)) \<and> (\<forall>p\<in>set (ud_rows db). upo_id p < ud_next_row db)
     \<and> distinct (map ue_id (ud_events db)) \<and> (\<forall>e\<in>set (ud_events db). ue_id e < ud_next_event db)
     \<and> (\<forall>e\<in>set (ud_events db). ue_user_policy_id e < ud_next_row db)"

text \<open>The revisions of a saved policy in order: a changed label is always named as changed.\<close>

definition chained :: "user_policy_env \<Rightarrow> string \<Rightarrow> int \<Rightarrow> int \<Rightarrow> string \<Rightarrow> pending_revision list \<Rightarrow> bool" where
  "chained uenv c i reform user ps \<longleftrightarrow>
     map pr_source_revision ps = [1..int (length ps)]
     \<and> (\<forall>p\<in>set ps. us_country_id (pr_snapshot p) = c \<and> us_user_policy_id (pr_snapshot p) = i
           \<and> us_reform_id (pr_snapshot p) = reform \<and> us_user_id (pr_snapshot p) = user
           \<and> pr_fingerprint p = fingerprint_legacy_user_policy uenv (pr_snapshot p))
     \<and> successively (\<lambda>p q. us_reform_label (pr_snapshot q) \<noteq> us_reform_label (pr_snapshot p)
           \<longrightarrow> ''reform_label'' \<in> set (pr_changed_fields q)) ps"

definition retained :: "user_policy_env \<Rightarrow> string \<Rightarrow> int \<Rightarrow> user_policy_db \<Rightarrow> user_policy \<Rightarrow> pending_revision list \<Rightarrow> bool" where
  "retained uenv c i db p ps \<longleftrightarrow>
     map (decode_user_policy_event uenv) (events_of db c i) = map Inr ps
     \<and> chained uenv c i (upo_reform_id p) (upo_user_id p) ps \<and> upo_mirror_revision p = int (length ps)
     \<and> (ps \<noteq> [] \<longrightarrow> pr_snapshot (last ps) = user_policy_snapshot_of p)"

section \<open>Recorded events are read back\<close>

lemma supported_lower: "c \<in> set SUPPORTED_COUNTRY_IDS \<Longrightarrow> py_lower c = c"
proof -
  have "list_all (\<lambda>c. py_lower c = c) SUPPORTED_COUNTRY_IDS" by code_simp
  then show "c \<in> set SUPPORTED_COUNTRY_IDS \<Longrightarrow> py_lower c = c" by (simp add: list_all_iff)
qed

lemma read_null_text [simp]: "read_optional_text (Some (opt_str t)) = Some t"
  by (cases t) (simp_all add: read_optional_text_def)

lemma user_snapshot_roundtrip:
  assumes "user_snapshot_ok s"
  shows "user_snapshot_read (JObj (user_snapshot_fields s)) = Some s"
proof -
  have "py_lower (us_country_id s) = us_country_id s" using assms supported_lower by (simp add: user_snapshot_ok_def)
  with assms show ?thesis
    by (cases s) (simp add: user_snapshot_read_def user_snapshot_fields_def USER_SNAPSHOT_FIELDS_def read_text_def read_int_def Let_def)
qed

lemma all_some_texts [simp]: "all_some (map (field_text \<circ> JStr) names) = Some names"
  by (induction names) auto

lemma decoded_names:
  assumes "distinct names" and "set names \<subseteq> set USER_POLICY_MUTABLE_FIELDS"
  shows "decoded_changed_fields (JArr (map JStr (sort names))) = Inr (sort names)"
proof -
  have "all_some (map field_text (map JStr (sort names))) = Some (sort names)" using all_some_texts [of "sort names"] by simp
  moreover have "sort (remdups (sort names)) = sort names" using assms(1) by (simp add: distinct_remdups_id sorted_sort_id)
  ultimately show ?thesis using assms(2) by (simp add: decoded_changed_fields_def)
qed

lemma decode_recorded:
  assumes "user_snapshot_ok s" and "us_country_id s = c" and "us_user_policy_id s = i"
    and "distinct names" and "set names \<subseteq> set USER_POLICY_MUTABLE_FIELDS" and "event_type_error kind (sort names) = None"
  shows "decode_user_policy_event uenv
     \<lparr>ue_id = k, ue_country_id = c, ue_user_policy_id = i, ue_source_revision = n, ue_event_type = kind,
      ue_schema_version = USER_POLICY_MIRROR_PAYLOAD_SCHEMA_VERSION,
      ue_payload = JObj [(''snapshot'', JObj (user_snapshot_fields s)), (''changed_fields'', JArr (map JStr (sort names)))],
      ue_fingerprint = fingerprint_legacy_user_policy uenv s, ue_processed = processed\<rparr>
   = Inr \<lparr>pr_event_id = k, pr_source_revision = n, pr_event_type = kind, pr_snapshot = s, pr_changed_fields = sort names,
          pr_fingerprint = fingerprint_legacy_user_policy uenv s\<rparr>"
  using assms
  by (auto simp: decode_user_policy_event_def dict_get_none_def decoded_names user_snapshot_roundtrip)

text \<open>Processing an event does not change what it says.\<close>

lemma decode_processed [simp]: "decode_user_policy_event uenv (e\<lparr>ue_processed := b\<rparr>) = decode_user_policy_event uenv e"
  by (cases e) (simp only: decode_user_policy_event_def user_policy_event.simps)

lemma decoded_revision: "decode_user_policy_event uenv e = Inr p \<Longrightarrow> pr_source_revision p = ue_source_revision e"
  unfolding decode_user_policy_event_def
  by (simp split: if_split_asm json.split_asm sum.split_asm option.split_asm) (metis pending_revision.select_convs(2))+

section \<open>Updates of a row\<close>

lemma set_field_keeps:
  assumes "changed_field x \<in> set USER_POLICY_MUTABLE_FIELDS"
  shows "upo_id (set_field x p) = upo_id p" and "upo_country_id (set_field x p) = upo_country_id p"
    and "upo_reform_id (set_field x p) = upo_reform_id p" and "upo_user_id (set_field x p) = upo_user_id p"
    and "upo_mirror_revision (set_field x p) = upo_mirror_revision p"
    and "changed_field x \<noteq> ''reform_label'' \<Longrightarrow> upo_reform_label (set_field x p) = upo_reform_label p"
  using assms by (cases x; simp add: USER_POLICY_MUTABLE_FIELDS_def)+

lemma set_fields_keep:
  assumes "set (map changed_field values) \<subseteq> set USER_POLICY_MUTABLE_FIELDS"
  shows "upo_id (fold set_field values p) = upo_id p \<and> upo_country_id (fold set_field values p) = upo_country_id p
    \<and> upo_reform_id (fold set_field values p) = upo_reform_id p \<and> upo_user_id (fold set_field values p) = upo_user_id p
    \<and> upo_mirror_revision (fold set_field values p) = upo_mirror_revision p
    \<and> (''reform_label'' \<notin> set (map changed_field values) \<longrightarrow> upo_reform_label (fold set_field values p) = upo_reform_label p)"
  using assms
proof (induction "values" arbitrary: p)
  case (Cons x xs)
  then have "changed_field x \<in> set USER_POLICY_MUTABLE_FIELDS" by simp
  note keeps = set_field_keeps [OF this]
  from Cons.IH [of "set_field x p"] Cons.prems keeps show ?case by auto
qed simp

section \<open>Writes of API v1\<close>

definition recorded_event ::
  "user_policy_env \<Rightarrow> user_policy \<Rightarrow> string \<Rightarrow> string list \<Rightarrow> int \<Rightarrow> user_policy_event" where
  "recorded_event uenv q kind names k =
     (let s = user_policy_snapshot_of q
      in \<lparr>ue_id = k, ue_country_id = upo_country_id q, ue_user_policy_id = upo_id q,
          ue_source_revision = upo_mirror_revision q, ue_event_type = kind,
          ue_schema_version = USER_POLICY_MIRROR_PAYLOAD_SCHEMA_VERSION,
          ue_payload = JObj [(''snapshot'', JObj (user_snapshot_fields s)), (''changed_fields'', JArr (map JStr (sort names)))],
          ue_fingerprint = fingerprint_legacy_user_policy uenv s, ue_processed = False\<rparr>)"

lemma recorded_cases:
  assumes "recorded_result uenv True q created kind names db = Inr (x, db')"
  obtains q' where "q' = q\<lparr>upo_mirror_revision := upo_mirror_revision q + 1\<rparr>" and "user_snapshot_ok (user_policy_snapshot_of q')"
    and "db' = db\<lparr>ud_rows := put_row upo_id q' (ud_rows db),
           ud_events := ud_events db @ [recorded_event uenv q' kind names (ud_next_event db)],
           ud_next_event := ud_next_event db + 1\<rparr>"
    and "upr_row x = q'"
proof -
  let ?q = "q\<lparr>upo_mirror_revision := upo_mirror_revision q + 1\<rparr>"
  have "user_snapshot_ok (user_policy_snapshot_of ?q)"
    using assms by (auto simp: recorded_result_def record_user_policy_event_def checked_user_snapshot_def Let_def split: if_splits)
  moreover from this have "upr_row x = ?q \<and> db' = db\<lparr>ud_rows := put_row upo_id ?q (ud_rows db),
           ud_events := ud_events db @ [recorded_event uenv ?q kind names (ud_next_event db)],
           ud_next_event := ud_next_event db + 1\<rparr>"
    using assms by (auto simp: recorded_result_def record_user_policy_event_def checked_user_snapshot_def Let_def
        recorded_event_def split: if_splits)
  ultimately show thesis using that by blast
qed

lemma find_map_same:
  "(\<And>p. p \<in> set rows \<Longrightarrow> P (f p) = P p \<and> (P p \<longrightarrow> f p = p)) \<Longrightarrow> List.find P (map f rows) = List.find P rows"
  by (induction rows) auto

lemma find_put_row_other:
  assumes "upo_id q = i \<Longrightarrow> upo_country_id q \<noteq> c" and "\<And>p. p \<in> set rows \<Longrightarrow> upo_id p = upo_id q \<Longrightarrow> upo_country_id p = upo_country_id q"
  shows "List.find (\<lambda>p. upo_id p = i \<and> upo_country_id p = c) (put_row upo_id q rows)
       = List.find (\<lambda>p. upo_id p = i \<and> upo_country_id p = c) rows"
  unfolding put_row_def using assms(1) by (intro find_map_same) (auto dest: assms(2))

lemma find_put_row_same:
  assumes "upo_id q \<in> upo_id ` set rows"
  shows "List.find (\<lambda>p. upo_id p = upo_id q \<and> upo_country_id p = upo_country_id q) (put_row upo_id q rows) = Some q"
  using assms by (induction rows) (auto simp: put_row_def)

lemma recorded_rows_ok:
  assumes "recorded_result uenv True q created kind names db = Inr (x, db')" and "rows_ok db" and "upo_id q \<in> upo_id ` set (ud_rows db)"
  shows "rows_ok db'"
proof -
  obtain q' where q': "q' = q\<lparr>upo_mirror_revision := upo_mirror_revision q + 1\<rparr>" and db': "db' = db\<lparr>ud_rows := put_row upo_id q' (ud_rows db),
           ud_events := ud_events db @ [recorded_event uenv q' kind names (ud_next_event db)], ud_next_event := ud_next_event db + 1\<rparr>"
    using recorded_cases [OF assms(1)] by metis
  have less: "upo_id q < ud_next_row db" using assms(2,3) by (auto simp: rows_ok_def)
  have "set (put_row upo_id q' (ud_rows db)) \<subseteq> insert q' (set (ud_rows db))" by (auto simp: put_row_def)
  then show ?thesis
    using assms(2) less unfolding rows_ok_def db'
    by (auto simp: recorded_event_def Let_def q' dest: bspec)
qed

lemma events_of_append:
  "events_of (db\<lparr>ud_events := ud_events db @ [e]\<rparr>) c i
     = events_of db c i @ (if ue_country_id e = c \<and> ue_user_policy_id e = i then [e] else [])"
  by (simp add: events_of_def)

lemma recorded_elsewhere:
  assumes "recorded_result uenv True q created kind names db = Inr (x, db')" and "rows_ok db"
    and "\<not> (upo_id q = i \<and> upo_country_id q = c)"
    and "\<exists>p\<in>set (ud_rows db). upo_id p = upo_id q \<and> upo_country_id p = upo_country_id q"
  shows "events_of db' c i = events_of db c i" and "saved_row db' c i = saved_row db c i"
proof -
  obtain q' where q': "q' = q\<lparr>upo_mirror_revision := upo_mirror_revision q + 1\<rparr>" and db': "db' = db\<lparr>ud_rows := put_row upo_id q' (ud_rows db),
           ud_events := ud_events db @ [recorded_event uenv q' kind names (ud_next_event db)], ud_next_event := ud_next_event db + 1\<rparr>"
    using recorded_cases [OF assms(1)] by metis
  show "events_of db' c i = events_of db c i"
    using assms(3) by (auto simp: db' events_of_def recorded_event_def Let_def q')
  have "upo_country_id p = upo_country_id q" if "p \<in> set (ud_rows db)" "upo_id p = upo_id q" for p
    using that assms(2,4) unfolding rows_ok_def distinct_map by (metis inj_onD)
  then show "saved_row db' c i = saved_row db c i"
    using assms(3) find_put_row_other [of q' i c "ud_rows db"] by (auto simp: saved_row_def db' q')
qed

text \<open>A recorded write of the saved policy extends its revisions by the row as written.\<close>

lemma recorded_here:
  assumes "recorded_result uenv True q created kind names db = Inr (x, db')"
    and "retained uenv c i db p ps" and "c \<in> set SUPPORTED_COUNTRY_IDS"
    and "upo_id q = i" and "upo_country_id q = c" and "upo_id q \<in> upo_id ` set (ud_rows db)"
    and "upo_reform_id q = upo_reform_id p" and "upo_user_id q = upo_user_id p" and "upo_mirror_revision q = upo_mirror_revision p"
    and "upo_reform_label q \<noteq> upo_reform_label p \<longrightarrow> ''reform_label'' \<in> set names"
    and "distinct names" and "set names \<subseteq> set USER_POLICY_MUTABLE_FIELDS" and "event_type_error kind (sort names) = None"
  shows "\<exists>e r. saved_row db' c i = Some (upr_row x) \<and> retained uenv c i db' (upr_row x) (ps @ [r])
     \<and> events_of db' c i = events_of db c i @ [e] \<and> \<not> ue_processed e
     \<and> upo_reform_id (upr_row x) = upo_reform_id p \<and> upo_user_id (upr_row x) = upo_user_id p"
proof -
  obtain q' where q': "q' = q\<lparr>upo_mirror_revision := upo_mirror_revision q + 1\<rparr>" and ok: "user_snapshot_ok (user_policy_snapshot_of q')"
    and db': "db' = db\<lparr>ud_rows := put_row upo_id q' (ud_rows db),
           ud_events := ud_events db @ [recorded_event uenv q' kind names (ud_next_event db)], ud_next_event := ud_next_event db + 1\<rparr>"
    and x: "upr_row x = q'"
    using recorded_cases [OF assms(1)] by metis
  let ?e = "recorded_event uenv q' kind names (ud_next_event db)"
  let ?s = "user_policy_snapshot_of q'"
  let ?r = "\<lparr>pr_event_id = ud_next_event db, pr_source_revision = upo_mirror_revision q', pr_event_type = kind, pr_snapshot = ?s,
      pr_changed_fields = sort names, pr_fingerprint = fingerprint_legacy_user_policy uenv ?s\<rparr>"
  have lower: "us_country_id ?s = c" using supported_lower [OF assms(3)] assms(5) by (simp add: user_policy_snapshot_of_def q')
  have key: "us_user_policy_id ?s = i" "us_reform_id ?s = upo_reform_id p" "us_user_id ?s = upo_user_id p"
    "us_reform_label ?s = upo_reform_label q"
    using assms(4,7,8) by (simp_all add: user_policy_snapshot_of_def q')
  have decoded: "decode_user_policy_event uenv ?e = Inr ?r"
    using decode_recorded [OF ok lower key(1) assms(11-13)] assms(4,5) by (simp add: recorded_event_def Let_def q')
  have events: "events_of db' c i = events_of db c i @ [?e]"
    using assms(4,5) by (simp add: db' events_of_def recorded_event_def Let_def q')
  have old: "chained uenv c i (upo_reform_id p) (upo_user_id p) ps" "upo_mirror_revision p = int (length ps)"
    "ps \<noteq> [] \<Longrightarrow> pr_snapshot (last ps) = user_policy_snapshot_of p"
    using assms(2) by (auto simp: retained_def)
  have "[1..int (length ps) + 1] = [1..int (length ps)] @ [int (length ps) + 1]" by (simp add: upto_rec2)
  moreover have "us_reform_label ?s \<noteq> us_reform_label (pr_snapshot (last ps)) \<longrightarrow> ''reform_label'' \<in> set (sort names)" if "ps \<noteq> []"
    using old(3) [OF that] key(4) assms(10) by (simp add: user_policy_snapshot_of_def)
  ultimately have "chained uenv c i (upo_reform_id p) (upo_user_id p) (ps @ [?r])"
    using old(1,2) lower key assms(9)
    by (auto simp: chained_def successively_append_iff q' add.commute)
  then have "retained uenv c i db' q' (ps @ [?r])"
    using assms(2,7-9) old(2) decoded by (simp add: retained_def events q')
  moreover have "saved_row db' c i = Some q'"
    using find_put_row_same [of q' "ud_rows db"] assms(4-6) by (simp add: saved_row_def db' q')
  ultimately show ?thesis using events x assms(7,8) by (intro exI conjI) (auto simp: recorded_event_def Let_def q')
qed

section \<open>The v2 copy of one saved policy\<close>

definition undrawn :: "v2_policy_env \<Rightarrow> account_db \<Rightarrow> bool" where
  "undrawn env v \<longleftrightarrow>
     (\<forall>n\<ge>drawn v. vpe_uuid env n \<notin> vu_id ` set (ad_users v) \<and> vpe_uuid env n \<notin> va_user_id ` set (ad_user_policies v)
        \<and> vpe_uuid env n \<notin> va_id ` set (ad_user_policies v) \<and> vpe_uuid env n \<notin> upm_user_policy_id ` set (ad_mappings v))"

definition account_ok :: "v2_policy_env \<Rightarrow> account_db \<Rightarrow> bool" where
  "account_ok env v \<longleftrightarrow>
     v2p_ok env (ad_policies v) \<and> distinct (map mapping_key (ad_mappings v)) \<and> distinct (map va_id (ad_user_policies v))
     \<and> distinct (map lum_legacy_user_id (ad_user_mappings v)) \<and> undrawn env v"

text \<open>A change of API v2 that leaves the copy of a saved policy alone.\<close>

definition copy_kept :: "v2_policy_env \<Rightarrow> string \<Rightarrow> int \<Rightarrow> account_db \<Rightarrow> account_db \<Rightarrow> bool" where
  "copy_kept env c i v v' \<longleftrightarrow>
     account_ok env v' \<and> v2p_grows (ad_policies v) (ad_policies v')
     \<and> set (ad_user_mappings v) \<subseteq> set (ad_user_mappings v')
     \<and> read_legacy_user_policy_mapping v' c i = read_legacy_user_policy_mapping v c i
     \<and> (\<forall>m. read_legacy_user_policy_mapping v c i = Some m \<longrightarrow> read_mapped_user_policy v' m = read_mapped_user_policy v m)"

definition keeps_copy :: "v2_policy_env \<Rightarrow> string \<Rightarrow> int \<Rightarrow> (account_db \<Rightarrow> account_db) \<Rightarrow> bool" where
  "keeps_copy env c i others \<longleftrightarrow> (\<forall>v. account_ok env v \<longrightarrow> copy_kept env c i v (others v))"

definition keep_copy :: "v2_policy_env \<Rightarrow> string \<Rightarrow> int \<Rightarrow> copy_others \<Rightarrow> bool" where
  "keep_copy env c i others \<longleftrightarrow>
     policy_others_ok env (co_policies others) \<and> keeps_copy env c i (co_users others) \<and> keeps_copy env c i (co_associations others)"

lemma copy_kept_refl: "account_ok env v \<Longrightarrow> copy_kept env c i v v"
  by (simp add: copy_kept_def)

lemma copy_kept_trans: "copy_kept env c i u v \<Longrightarrow> copy_kept env c i v w \<Longrightarrow> copy_kept env c i u w"
  unfolding copy_kept_def by (auto intro: v2p_grows_trans)

lemma copy_kept_ok: "copy_kept env c i v v' \<Longrightarrow> account_ok env v'"
  by (simp add: copy_kept_def)

lemma read_mapping_cong:
  "ad_mappings v' = ad_mappings v \<Longrightarrow> read_legacy_user_policy_mapping v' c i = read_legacy_user_policy_mapping v c i"
  by (simp add: read_legacy_user_policy_mapping_def)

lemma read_mapped_cong:
  "ad_user_policies v' = ad_user_policies v \<Longrightarrow> read_mapped_user_policy v' m = read_mapped_user_policy v m"
  by (simp add: read_mapped_user_policy_def)

text \<open>New policies, users and user mappings leave every copy alone.\<close>

lemma kept_by_additions:
  assumes "account_ok env v" and "v2p_ok env (ad_policies v')" and "v2p_grows (ad_policies v) (ad_policies v')"
    and "ad_mappings v' = ad_mappings v" and "ad_user_policies v' = ad_user_policies v"
    and "set (ad_user_mappings v) \<subseteq> set (ad_user_mappings v')" and "distinct (map lum_legacy_user_id (ad_user_mappings v'))"
    and "\<And>n. drawn v' \<le> n \<Longrightarrow> vpe_uuid env n \<notin> vu_id ` set (ad_users v')"
  shows "copy_kept env c i v v'"
proof -
  have "drawn v \<le> drawn v'" using assms(3) by (simp add: v2p_grows_def drawn_def)
  with assms show ?thesis
    unfolding copy_kept_def account_ok_def undrawn_def
    by (simp add: read_mapping_cong [OF assms(4)] read_mapped_cong [OF assms(5)])
qed

lemma drawn_simps [simp]:
  "drawn (set_drawn n v) = n" "ad_users (set_drawn n v) = ad_users v" "ad_identities (set_drawn n v) = ad_identities v"
  "ad_user_mappings (set_drawn n v) = ad_user_mappings v" "ad_user_policies (set_drawn n v) = ad_user_policies v"
  "ad_mappings (set_drawn n v) = ad_mappings v" "ad_other_associations (set_drawn n v) = ad_other_associations v"
  "ad_policies (set_drawn n v) = (ad_policies v)\<lparr>vpd_draws := n\<rparr>"
  by (simp_all add: drawn_def set_drawn_def)

lemma unused_id:
  assumes "account_ok env v" and "drawn v \<le> n"
  shows "vpe_uuid env n \<notin> vu_id ` set (ad_users v)" and "vpe_uuid env n \<notin> va_user_id ` set (ad_user_policies v)"
    and "vpe_uuid env n \<notin> va_id ` set (ad_user_policies v)" and "vpe_uuid env n \<notin> upm_user_policy_id ` set (ad_mappings v)"
  using assms by (auto simp: account_ok_def undrawn_def)

lemma set_drawn_kept:
  assumes "account_ok env v" and "drawn v \<le> n"
  shows "copy_kept env c i v (set_drawn n v)"
proof (rule kept_by_additions [OF assms(1)])
  have v2: "v2p_ok env (ad_policies v)" "vpd_draws (ad_policies v) \<le> n" using assms by (auto simp: account_ok_def drawn_def)
  show "v2p_ok env (ad_policies (set_drawn n v))" "v2p_grows (ad_policies v) (ad_policies (set_drawn n v))"
    using v2p_more_draws [OF v2] by simp_all
  show "distinct (map lum_legacy_user_id (ad_user_mappings (set_drawn n v)))" using assms(1) by (simp add: account_ok_def)
  show "\<And>k. drawn (set_drawn n v) \<le> k \<Longrightarrow> vpe_uuid env k \<notin> vu_id ` set (ad_users (set_drawn n v))"
    using assms by (simp add: account_ok_def undrawn_def)
qed simp_all

lemma mirrored_reform:
  assumes "mirror_reform_policy env others s v = (Inr r, v')" and "account_ok env v" and "inj (vpe_uuid env)"
    and "policy_others_ok env others"
  shows "copy_kept env c i v v'" and "\<exists>m\<in>set (vpd_mappings (ad_policies v')). vpm_country_id m = ps_country_id s
      \<and> vpm_legacy_policy_id m = ps_legacy_policy_id s \<and> vpm_policy_id m = pmr_policy_id r"
proof -
  obtain p where p: "mirror_legacy_policy_in_session env others s (ad_policies v) = (Inr r, p)" "v' = v\<lparr>ad_policies := p\<rparr>"
    using assms(1) by (auto simp: mirror_reform_policy_def split: prod.splits sum.splits)
  have run: "mirror_legacy_policy env others s (ad_policies v) = (Inr r, p)"
    using p(1) by (simp add: mirror_legacy_policy_def policy_transaction_def)
  have ok: "v2p_ok env (ad_policies v)" using assms(2) by (simp add: account_ok_def)
  note new = mirror_policy_ok [OF ok assms(3,4) run]
  have "drawn v \<le> drawn v'" using new(2) p(2) by (simp add: v2p_grows_def drawn_def)
  with assms(2) show "copy_kept env c i v v'"
    by (intro kept_by_additions) (use new p(2) in \<open>auto simp: account_ok_def undrawn_def\<close>)
  show "\<exists>m\<in>set (vpd_mappings (ad_policies v')). vpm_country_id m = ps_country_id s
      \<and> vpm_legacy_policy_id m = ps_legacy_policy_id s \<and> vpm_policy_id m = pmr_policy_id r"
    using mirrored_mapping [OF ok assms(3,4) run] p(2) by auto
qed

lemma provisioned_kept:
  assumes "account_ok env v" and "inj (vpe_uuid env)" and "create_provisioned_user env country v = (u, v')"
  shows "copy_kept env c i v v'" and "vu_id u = vpe_uuid env (drawn v)" and "u \<in> set (ad_users v')"
    and "ad_user_mappings v' = ad_user_mappings v"
proof -
  have v': "u = \<lparr>vu_id = vpe_uuid env (drawn v), vu_primary_country = Some country, vu_type = StandardUser\<rparr>"
    "v' = set_drawn (drawn v + 1) (v\<lparr>ad_users := ad_users v @ [u]\<rparr>)"
    using assms(3) by (auto simp: create_provisioned_user_def Let_def)
  have v2: "v2p_ok env (ad_policies v)" using assms(1) by (simp add: account_ok_def)
  have "vpe_uuid env n \<noteq> vpe_uuid env (drawn v)" if "drawn v + 1 \<le> n" for n
    using that injD [OF assms(2), of n "drawn v"] by auto
  then show "copy_kept env c i v v'"
    using assms(1) v2p_more_draws [OF v2, of "drawn v + 1"]
    by (intro kept_by_additions) (auto simp: v' account_ok_def undrawn_def drawn_def image_iff)
  show "vu_id u = vpe_uuid env (drawn v)" "u \<in> set (ad_users v')" "ad_user_mappings v' = ad_user_mappings v" by (simp_all add: v')
qed

lemma delete_unowned:
  assumes "user_id \<notin> va_user_id ` set (ad_user_policies v)"
  shows "ad_mappings (delete_user_row user_id v) = ad_mappings v"
    and "ad_user_policies (delete_user_row user_id v) = ad_user_policies v"
    and "ad_policies (delete_user_row user_id v) = ad_policies v"
    and "ad_user_mappings (delete_user_row user_id v) = ad_user_mappings v"
    and "set (ad_users (delete_user_row user_id v)) \<subseteq> set (ad_users v)"
proof -
  have none: "filter (\<lambda>a. va_user_id a = user_id) (ad_user_policies v) = []" using assms by (auto simp: filter_empty_conv)
  show "ad_mappings (delete_user_row user_id v) = ad_mappings v" by (simp add: delete_user_row_def Let_def none)
  have "filter (\<lambda>a. va_user_id a \<noteq> user_id) (ad_user_policies v) = ad_user_policies v" using assms by (auto simp: filter_id_conv)
  then show "ad_user_policies (delete_user_row user_id v) = ad_user_policies v" by (simp add: delete_user_row_def Let_def)
qed (auto simp: delete_user_row_def Let_def)

lemma read_user_mapping_row:
  "read_legacy_user_mapping v u = Some m \<Longrightarrow> m \<in> set (ad_user_mappings v) \<and> lum_legacy_user_id m = u"
  by (auto simp: read_legacy_user_mapping_def dest: find_mem)

lemma resolved_legacy_user:
  assumes "resolve_legacy_user_id env others user country v = (Inr uid, v')" and "account_ok env v" and "inj (vpe_uuid env)"
    and "keeps_copy env c i others"
  shows "copy_kept env c i v v' \<and> (\<exists>m\<in>set (ad_user_mappings v'). lum_legacy_user_id m = user \<and> lum_user_id m = uid)"
proof (cases "read_legacy_user_mapping v user")
  case (Some m)
  with assms(1) have "v' = v" "lum_user_id m = uid" by (auto simp: resolve_legacy_user_id_def split: if_splits)
  with read_user_mapping_row [OF Some] copy_kept_refl [OF assms(2)] show ?thesis by blast
next
  case None
  let ?w = "others v"
  have w: "copy_kept env c i v ?w" using assms(2,4) by (simp add: keeps_copy_def)
  obtain u w1 where made: "create_provisioned_user env country ?w = (u, w1)" by fastforce
  note new = provisioned_kept [OF copy_kept_ok [OF w] assms(3) made]
  have w1: "copy_kept env c i v w1" using copy_kept_trans [OF w new(1)] .
  show ?thesis
  proof (cases "read_legacy_user_mapping w1 user")
    case free: None
    let ?m = "\<lparr>lum_legacy_user_id = user, lum_user_id = vu_id u\<rparr>"
    have run: "uid = vu_id u" "v' = w1\<lparr>ad_user_mappings := ad_user_mappings w1 @ [?m]\<rparr>"
      using assms(1) None made free by (auto simp: resolve_legacy_user_id_def create_legacy_user_mapping_def)
    have ok: "account_ok env w1" using copy_kept_ok [OF w1] .
    have "copy_kept env c i w1 v'"
    proof (rule kept_by_additions [OF ok])
      show "distinct (map lum_legacy_user_id (ad_user_mappings v'))"
        using ok free run(2) by (auto simp: account_ok_def read_legacy_user_mapping_def find_None_iff)
    qed (use ok run in \<open>auto simp: account_ok_def undrawn_def drawn_def\<close>)
    with w1 run show ?thesis by (auto intro: copy_kept_trans)
  next
    case (Some m)
    let ?d = "delete_user_row (vu_id u) w1"
    have fresh: "vu_id u \<notin> va_user_id ` set (ad_user_policies w1)"
    proof -
      have "ad_user_policies w1 = ad_user_policies ?w" using made by (auto simp: create_provisioned_user_def Let_def)
      then show ?thesis using unused_id(2) [OF copy_kept_ok [OF w] order_refl] new(2) by simp
    qed
    note same = delete_unowned [OF fresh]
    have ok: "account_ok env w1" using copy_kept_ok [OF w1] .
    have "copy_kept env c i w1 ?d"
    proof (rule kept_by_additions [OF ok])
      show "\<And>n. drawn ?d \<le> n \<Longrightarrow> vpe_uuid env n \<notin> vu_id ` set (ad_users ?d)"
        using unused_id(1) [OF ok] same(3,5) by (fastforce simp: drawn_def)
    qed (use ok in \<open>auto simp: account_ok_def same\<close>)
    with w1 have kept: "copy_kept env c i v ?d" by (rule copy_kept_trans)
    have found: "read_legacy_user_mapping ?d user = Some m" using Some same(4) by (simp add: read_legacy_user_mapping_def)
    with assms(1) None made Some have "v' = ?d" "lum_user_id m = uid"
      by (auto simp: resolve_legacy_user_id_def create_legacy_user_mapping_def Let_def split: if_splits)
    with kept read_user_mapping_row [OF found] show ?thesis by blast
  qed
qed

section \<open>What a copied revision leaves\<close>

definition shows_revision :: "account_db \<Rightarrow> string \<Rightarrow> int \<Rightarrow> pending_revision \<Rightarrow> user_policy_mapping \<Rightarrow> v2_user_policy \<Rightarrow> bool" where
  "shows_revision v c i p m a \<longleftrightarrow>
     read_legacy_user_policy_mapping v c i = Some m \<and> read_mapped_user_policy v m = Some a
     \<and> upm_last_applied_source_revision m = pr_source_revision p \<and> upm_fingerprint m = pr_fingerprint p
     \<and> upm_fingerprint_version m = USER_POLICY_FINGERPRINT_VERSION
     \<and> va_name a = us_reform_label (pr_snapshot p) \<and> va_legacy_policy_id a = Some (us_reform_id (pr_snapshot p))
     \<and> (\<exists>n\<in>set (ad_user_mappings v). lum_legacy_user_id n = us_user_id (pr_snapshot p) \<and> lum_user_id n = va_user_id a)
     \<and> (\<exists>n\<in>set (vpd_mappings (ad_policies v)). vpm_country_id n = c
           \<and> vpm_legacy_policy_id n = us_reform_id (pr_snapshot p) \<and> va_policy_id a = Some (vpm_policy_id n))"

lemma shows_kept:
  assumes "shows_revision v c i p m a" and "copy_kept env c i v v'"
  shows "shows_revision v' c i p m a"
  using assms by (auto simp: shows_revision_def copy_kept_def v2p_grows_def)

lemma mapping_read: "read_legacy_user_policy_mapping v c i = Some m \<Longrightarrow> m \<in> set (ad_mappings v) \<and> mapping_key m = (c, i)"
  by (auto simp: read_legacy_user_policy_mapping_def mapping_key_def dest: find_mem)

lemma mapped_read:
  "read_mapped_user_policy v m = Some a \<Longrightarrow> a \<in> set (ad_user_policies v) \<and> va_id a = upm_user_policy_id m \<and> va_country_id a = upm_country_id m"
  by (auto simp: read_mapped_user_policy_def dest: find_mem)

lemma updated_mapping_read:
  assumes "read_legacy_user_policy_mapping v c i = Some m"
  shows "read_legacy_user_policy_mapping (update_legacy_user_policy_state a m r name v) c i
    = Some (m\<lparr>upm_fingerprint := rev_fingerprint r, upm_last_applied_source_revision := rev_source_revision r\<rparr>)"
proof -
  let ?m = "m\<lparr>upm_fingerprint := rev_fingerprint r, upm_last_applied_source_revision := rev_source_revision r\<rparr>"
  have "List.find (\<lambda>m. upm_country_id m = c \<and> upm_legacy_user_policy_id m = i) (put_row mapping_key ?m rows) = Some ?m"
    if "m \<in> set rows" "mapping_key m = (c, i)" for rows
    using that by (induction rows) (auto simp: put_row_def mapping_key_def)
  with mapping_read [OF assms] show ?thesis
    by (simp add: read_legacy_user_policy_mapping_def update_legacy_user_policy_state_def)
qed

lemma updated_association_read:
  assumes "read_mapped_user_policy v m = Some a" and "upm_user_policy_id m' = upm_user_policy_id m" and "upm_country_id m' = upm_country_id m"
    and "distinct (map va_id (ad_user_policies v))"
  shows "read_mapped_user_policy (update_legacy_user_policy_state a m r name v) m'
    = Some (if name then a\<lparr>va_name := rev_reform_label r, va_updated_at := now_of v\<rparr> else a)"
proof (cases name)
  case False
  with assms(1-3) show ?thesis by (simp add: read_mapped_user_policy_def update_legacy_user_policy_state_def)
next
  case True
  let ?a = "a\<lparr>va_name := rev_reform_label r, va_updated_at := now_of v\<rparr>"
  have "List.find (\<lambda>x. va_id x = va_id a \<and> va_country_id x = va_country_id a) (put_row va_id ?a rows) = Some ?a"
    if "a \<in> set rows" for rows
    using that by (induction rows) (auto simp: put_row_def)
  with True assms(1-3) mapped_read [OF assms(1)] show ?thesis
    by (simp add: read_mapped_user_policy_def update_legacy_user_policy_state_def)
qed

lemma updated_state_ok:
  assumes "account_ok env v" and "m \<in> set (ad_mappings v)" and "a \<in> set (ad_user_policies v)"
  shows "account_ok env (update_legacy_user_policy_state a m r name v)"
proof -
  let ?v = "update_legacy_user_policy_state a m r name v"
  have "va_id ` set (ad_user_policies ?v) = va_id ` set (ad_user_policies v)"
    using keys_put_row [of va_id _ "ad_user_policies v"] by (simp add: update_legacy_user_policy_state_def flip: set_map)
  moreover have "va_user_id ` set (ad_user_policies ?v) \<subseteq> va_user_id ` set (ad_user_policies v)"
    using assms(3) by (auto simp: update_legacy_user_policy_state_def put_row_def)
  moreover have "upm_user_policy_id ` set (ad_mappings ?v) \<subseteq> upm_user_policy_id ` set (ad_mappings v)"
    using assms(2) by (auto simp: update_legacy_user_policy_state_def put_row_def)
  moreover have "ad_policies ?v = ad_policies v" "ad_users ?v = ad_users v" "ad_user_mappings ?v = ad_user_mappings v" "drawn ?v = drawn v"
    by (simp_all add: update_legacy_user_policy_state_def drawn_def)
  moreover have "map mapping_key (ad_mappings ?v) = map mapping_key (ad_mappings v)" "map va_id (ad_user_policies ?v) = map va_id (ad_user_policies v)"
    by (simp_all add: update_legacy_user_policy_state_def)
  ultimately show ?thesis using assms(1) unfolding account_ok_def undrawn_def by (auto 0 3 simp: subset_eq)
qed

section \<open>Copying one revision\<close>

lemma others_of_copy_kept:
  assumes "keep_copy env c i others" and "account_ok env v"
  shows "copy_kept env c i v (others_of_copy others v)"
proof -
  let ?w = "v\<lparr>ad_policies := co_policies others (ad_policies v)\<rparr>"
  have p: "v2p_ok env (ad_policies ?w)" "v2p_grows (ad_policies v) (ad_policies ?w)"
    using assms by (auto simp: keep_copy_def policy_others_ok_def account_ok_def)
  have w: "copy_kept env c i v ?w"
  proof (rule kept_by_additions [OF assms(2) p])
    show "\<And>n. drawn ?w \<le> n \<Longrightarrow> vpe_uuid env n \<notin> vu_id ` set (ad_users ?w)"
      using assms(2) p(2) by (auto simp: account_ok_def undrawn_def v2p_grows_def drawn_def)
  qed (use assms(2) in \<open>auto simp: account_ok_def\<close>)
  have u: "copy_kept env c i ?w (co_users others ?w)" using assms(1) copy_kept_ok [OF w] by (simp add: keep_copy_def keeps_copy_def)
  have "copy_kept env c i (co_users others ?w) (co_associations others (co_users others ?w))"
    using assms(1) copy_kept_ok [OF u] by (simp add: keep_copy_def keeps_copy_def)
  with copy_kept_trans [OF w u] show ?thesis unfolding others_of_copy_def by (rule copy_kept_trans)
qed

lemma failed_copy_kept:
  assumes "mirror_legacy_user_policy env uenv others s reform n names v = (Inl e, v')"
    and "keep_copy env c i others" and "account_ok env v"
  shows "copy_kept env c i v v'"
proof -
  note kept = others_of_copy_kept [OF assms(2,3)]
  have "\<exists>k\<ge>drawn (others_of_copy others v). v' = set_drawn k (others_of_copy others v)"
    using assms(1) by (auto simp: mirror_legacy_user_policy_def account_transaction_def split: prod.splits sum.splits intro: max.cobounded2)
  with set_drawn_kept [OF copy_kept_ok [OF kept]] copy_kept_trans [OF kept] show ?thesis by blast
qed

lemma created_association:
  assumes "create_user_policy env inp v = (Inr a, v')" and "account_ok env v" and "inj (vpe_uuid env)"
  shows "copy_kept env c i v v'" and "va_id a = vpe_uuid env (drawn v)" and "a \<in> set (ad_user_policies v')"
    and "va_country_id a = upf_country_id (upi_fields inp)" and "va_user_id a = upi_user_id inp"
    and "va_policy_id a = upf_policy_id (upi_fields inp)" and "va_legacy_policy_id a = upf_legacy_policy_id (upi_fields inp)"
    and "va_name a = upf_name (upi_fields inp)" and "drawn v' = drawn v + 1"
proof -
  have user: "read_user v (upi_user_id inp) \<noteq> None"
    and v': "v' = (set_drawn (drawn v + 1) v)\<lparr>ad_user_policies := ad_user_policies v @ [a]\<rparr>"
    and a: "va_id a = vpe_uuid env (drawn v)" "va_country_id a = upf_country_id (upi_fields inp)" "va_user_id a = upi_user_id inp"
      "va_policy_id a = upf_policy_id (upi_fields inp)" "va_legacy_policy_id a = upf_legacy_policy_id (upi_fields inp)"
      "va_name a = upf_name (upi_fields inp)"
    using assms(1) by (auto simp: create_user_policy_def Let_def split: if_splits)
  have draws: "drawn v' = drawn v + 1" unfolding v' by (simp add: drawn_def)
  from user obtain u where u: "u \<in> set (ad_users v)" "vu_id u = va_user_id a"
    unfolding a(3) by (auto simp: read_user_def dest: find_mem)
  have v2: "v2p_ok env (ad_policies v)" using assms(2) by (simp add: account_ok_def)
  have distinct_ids: "vpe_uuid env n \<noteq> vpe_uuid env (drawn v)" if "drawn v + 1 \<le> n" for n
    using that injD [OF assms(3), of n "drawn v"] by auto
  have fresh: "va_id a \<notin> va_id ` set (ad_user_policies v)" "va_id a \<notin> upm_user_policy_id ` set (ad_mappings v)"
    unfolding a(1) using unused_id [OF assms(2) order_refl] by auto
  have "undrawn env v'"
    unfolding undrawn_def draws
  proof (intro allI impI)
    fix n assume n: "drawn v + 1 \<le> n"
    then have "drawn v \<le> n" by simp
    note old = unused_id [OF assms(2) this]
    have "vpe_uuid env n \<noteq> va_user_id a" using old(1) u by (auto simp: image_iff)
    with old distinct_ids [OF n] a(1)
    show "vpe_uuid env n \<notin> vu_id ` set (ad_users v') \<and> vpe_uuid env n \<notin> va_user_id ` set (ad_user_policies v')
        \<and> vpe_uuid env n \<notin> va_id ` set (ad_user_policies v') \<and> vpe_uuid env n \<notin> upm_user_policy_id ` set (ad_mappings v')"
      by (simp add: v')
  qed
  moreover have "List.find P (rows @ [a]) = List.find P rows" if "\<not> P a" for P rows
    using that by (induction rows) auto
  moreover have "va_id a \<noteq> upm_user_policy_id m" if "read_legacy_user_policy_mapping v c i = Some m" for m
    using mapping_read [OF that] fresh(2) by auto
  ultimately show "copy_kept env c i v v'"
    using assms(2) fresh(1) v2p_more_draws [OF v2, of "drawn v + 1"]
    by (simp add: copy_kept_def account_ok_def v' drawn_def read_legacy_user_policy_mapping_def read_mapped_user_policy_def)
  show "va_id a = vpe_uuid env (drawn v)" "a \<in> set (ad_user_policies v')" "va_country_id a = upf_country_id (upi_fields inp)"
    "va_user_id a = upi_user_id inp" "va_policy_id a = upf_policy_id (upi_fields inp)"
    "va_legacy_policy_id a = upf_legacy_policy_id (upi_fields inp)" "va_name a = upf_name (upi_fields inp)" "drawn v' = drawn v + 1"
    using a draws by (simp_all add: v')
qed

lemma find_by_id:
  assumes "a \<in> set rows" and "distinct (map va_id rows)" and "va_id a = k" and "va_country_id a = c"
  shows "List.find (\<lambda>x. va_id x = k \<and> va_country_id x = c) rows = Some a"
  using assms by (induction rows) auto

lemma persisted_new:
  assumes "persist_legacy_user_policy_mapping env others r inp v = (Inr copy, v')"
    and "account_ok env v" and "inj (vpe_uuid env)" and "keeps_copy env (rev_country_id r) (rev_user_policy_id r) others"
    and "read_legacy_user_policy_mapping v (rev_country_id r) (rev_user_policy_id r) = None"
    and "upf_country_id (upi_fields inp) = rev_country_id r"
  shows "account_ok env v' \<and> v2p_grows (ad_policies v) (ad_policies v') \<and> set (ad_user_mappings v) \<subseteq> set (ad_user_mappings v')
    \<and> (\<exists>m a. read_legacy_user_policy_mapping v' (rev_country_id r) (rev_user_policy_id r) = Some m \<and> read_mapped_user_policy v' m = Some a
         \<and> upm_last_applied_source_revision m = rev_source_revision r \<and> upm_fingerprint m = rev_fingerprint r
         \<and> upm_fingerprint_version m = USER_POLICY_FINGERPRINT_VERSION
         \<and> va_name a = upf_name (upi_fields inp) \<and> va_legacy_policy_id a = upf_legacy_policy_id (upi_fields inp)
         \<and> va_policy_id a = upf_policy_id (upi_fields inp) \<and> va_user_id a = upi_user_id inp)"
proof -
  let ?c = "rev_country_id r" and ?i = "rev_user_policy_id r"
  have w: "copy_kept env ?c ?i v (others v)" using assms(2,4) by (simp add: keeps_copy_def)
  obtain a v1 where made: "create_user_policy env inp (others v) = (Inr a, v1)"
    using assms(1,5) by (auto simp: persist_legacy_user_policy_mapping_def account_then_def split: sum.splits prod.splits)
  note new = created_association [OF made copy_kept_ok [OF w] assms(3)]
  have v1: "copy_kept env ?c ?i v v1" using copy_kept_trans [OF w new(1)] .
  have free: "read_legacy_user_policy_mapping v1 ?c ?i = None" using v1 assms(5) by (simp add: copy_kept_def)
  let ?m = "\<lparr>upm_country_id = ?c, upm_legacy_user_policy_id = ?i, upm_user_policy_id = va_id a,
      upm_last_applied_source_revision = rev_source_revision r, upm_fingerprint_version = USER_POLICY_FINGERPRINT_VERSION,
      upm_fingerprint = rev_fingerprint r\<rparr>"
  have v': "v' = v1\<lparr>ad_mappings := ad_mappings v1 @ [?m]\<rparr>"
    using assms(1,5) made free
    by (auto simp: persist_legacy_user_policy_mapping_def account_then_def create_legacy_user_policy_mapping_def split: sum.splits)
  have ok: "account_ok env v1" using copy_kept_ok [OF v1] .
  have nokey: "(?c, ?i) \<notin> mapping_key ` set (ad_mappings v1)"
    using free by (auto simp: read_legacy_user_policy_mapping_def find_None_iff mapping_key_def)
  have "vpe_uuid env n \<noteq> va_id a" if "drawn v1 \<le> n" for n using unused_id(3) [OF ok that] new(3) by auto
  then have "account_ok env v'"
    using ok nokey by (auto simp: account_ok_def undrawn_def v' mapping_key_def drawn_def)
  moreover have "read_legacy_user_policy_mapping v' ?c ?i = Some ?m"
  proof -
    have "List.find P (rows @ [x]) = Some x" if "List.find P rows = None" "P x" for P rows and x :: user_policy_mapping
      using that by (induction rows) (auto split: if_splits)
    with free show ?thesis by (simp add: read_legacy_user_policy_mapping_def v')
  qed
  moreover have "read_mapped_user_policy v' ?m = Some a"
    using find_by_id [OF new(3) _ refl new(4)] ok assms(6) by (simp add: read_mapped_user_policy_def v' account_ok_def)
  moreover have "v2p_grows (ad_policies v) (ad_policies v')" "set (ad_user_mappings v) \<subseteq> set (ad_user_mappings v')"
    using v1 by (simp_all add: copy_kept_def v')
  ultimately show ?thesis using new(5-8) by (intro conjI exI [of _ ?m] exI [of _ a]) simp_all
qed

lemma applied_revision:
  assumes "apply_existing_mapping m r inp v = (Inr copy, v')" and "read_mapped_user_policy v m = Some a"
  shows "(rev_source_revision r \<le> upm_last_applied_source_revision m \<and> v' = v)
     \<or> (rev_source_revision r = upm_last_applied_source_revision m + 1
        \<and> v' = update_legacy_user_policy_state a m r (legacy_name_requires_update a (rev_reform_label r) (rev_changed_fields r)) v)"
  using assms
  by (auto simp: apply_existing_mapping_def validate_existing_mapping_def account_bind_Inr_iff Let_def
      split: sum.splits prod.splits if_splits)

lemma next_revision_shown:
  assumes "shows_revision v c i q m a" and "account_ok env v" and "pr_fingerprint p = rev_fingerprint r"
    and "rev_reform_label r = us_reform_label (pr_snapshot p)" and "rev_source_revision r = pr_source_revision p"
    and "rev_changed_fields r = pr_changed_fields p"
    and "us_reform_id (pr_snapshot p) = us_reform_id (pr_snapshot q)" and "us_user_id (pr_snapshot p) = us_user_id (pr_snapshot q)"
    and "us_reform_label (pr_snapshot p) \<noteq> us_reform_label (pr_snapshot q) \<longrightarrow> ''reform_label'' \<in> set (pr_changed_fields p)"
  shows "\<exists>m' a'. shows_revision (update_legacy_user_policy_state a m r
      (legacy_name_requires_update a (rev_reform_label r) (rev_changed_fields r)) v) c i p m' a'"
proof -
  let ?name = "legacy_name_requires_update a (rev_reform_label r) (rev_changed_fields r)"
  let ?v = "update_legacy_user_policy_state a m r ?name v"
  let ?m = "m\<lparr>upm_fingerprint := rev_fingerprint r, upm_last_applied_source_revision := rev_source_revision r\<rparr>"
  let ?a = "if ?name then a\<lparr>va_name := rev_reform_label r, va_updated_at := now_of v\<rparr> else a"
  have reads: "read_legacy_user_policy_mapping v c i = Some m" "read_mapped_user_policy v m = Some a"
    using assms(1) by (simp_all add: shows_revision_def)
  have "distinct (map va_id (ad_user_policies v))" using assms(2) by (simp add: account_ok_def)
  then have "read_mapped_user_policy ?v ?m = Some ?a" by (intro updated_association_read [OF reads(2)]) simp_all
  moreover have "va_name ?a = us_reform_label (pr_snapshot p)"
    using assms(1,4,6,9) by (auto simp: shows_revision_def legacy_name_requires_update_def)
  moreover have "ad_policies ?v = ad_policies v" "ad_user_mappings ?v = ad_user_mappings v"
    by (simp_all add: update_legacy_user_policy_state_def)
  ultimately have "shows_revision ?v c i p ?m ?a"
    using assms(1) updated_mapping_read [OF reads(1)] assms(3,5,7,8) by (auto simp: shows_revision_def)
  then show ?thesis by blast
qed

text \<open>What the v2 copy is before a revision is copied: absent, or at some revision of the same policy.\<close>

definition before_revision :: "account_db \<Rightarrow> string \<Rightarrow> int \<Rightarrow> pending_revision \<Rightarrow> pending_revision option \<Rightarrow> bool" where
  "before_revision v c i p applied \<longleftrightarrow>
     (case applied of
        None \<Rightarrow> read_legacy_user_policy_mapping v c i = None
      | Some q \<Rightarrow>
          (\<exists>m a. shows_revision v c i q m a) \<and> us_reform_id (pr_snapshot p) = us_reform_id (pr_snapshot q)
          \<and> us_user_id (pr_snapshot p) = us_user_id (pr_snapshot q)
          \<and> (pr_source_revision p = pr_source_revision q + 1
             \<longrightarrow> us_reform_label (pr_snapshot p) \<noteq> us_reform_label (pr_snapshot q)
             \<longrightarrow> ''reform_label'' \<in> set (pr_changed_fields p)))"

definition after_revision :: "pending_revision \<Rightarrow> pending_revision option \<Rightarrow> pending_revision" where
  "after_revision p applied =
     (case applied of None \<Rightarrow> p | Some q \<Rightarrow> if pr_source_revision p \<le> pr_source_revision q then q else p)"

lemma copied_revision:
  assumes "mirror_legacy_user_policy env uenv others (pr_snapshot p) reform (pr_source_revision p) (pr_changed_fields p) v
      = (Inr copy, v')"
    and "account_ok env v" and "inj (vpe_uuid env)" and "keep_copy env c i others"
    and "us_country_id (pr_snapshot p) = c" and "us_user_policy_id (pr_snapshot p) = i"
    and "pr_fingerprint p = fingerprint_legacy_user_policy uenv (pr_snapshot p)" and "before_revision v c i p applied"
  shows "account_ok env v' \<and> (\<exists>m a. shows_revision v' c i (after_revision p applied) m a)"
proof -
  let ?r = "revision_of uenv (pr_snapshot p) (pr_source_revision p) (pr_changed_fields p)"
  have r: "rev_country_id ?r = c" "rev_user_policy_id ?r = i" "rev_fingerprint ?r = pr_fingerprint p"
    "rev_reform_label ?r = us_reform_label (pr_snapshot p)" "rev_source_revision ?r = pr_source_revision p"
    "rev_changed_fields ?r = pr_changed_fields p"
    using assms(5-7) by (simp_all add: revision_of_def)
  have "mirror_legacy_user_policy_in_session env uenv others (pr_snapshot p) reform (pr_source_revision p) (pr_changed_fields p) v
      = (Inr copy, v')"
    using assms(1) by (auto simp: mirror_legacy_user_policy_def account_transaction_def split: prod.splits sum.splits)
  then obtain policy v1 uid v2 inp where valid: "validate_legacy_user_policy_input (pr_snapshot p) reform (pr_source_revision p) = Inr ()"
    and policy: "mirror_reform_policy env (co_policies others) reform v = (Inr policy, v1)"
    and user: "resolve_legacy_user_id env (co_users others) (us_user_id (pr_snapshot p)) (us_country_id (pr_snapshot p)) v1 = (Inr uid, v2)"
    and project: "project_legacy_user_policy (pr_snapshot p) uid (pmr_policy_id policy) = Inr inp"
    and persist: "persist_legacy_user_policy_mapping env (co_associations others) ?r inp v2 = (Inr copy, v')"
    by (auto simp: mirror_legacy_user_policy_in_session_def account_then_def split: sum.splits prod.splits)
  have parts: "policy_others_ok env (co_policies others)" "keeps_copy env c i (co_users others)" "keeps_copy env c i (co_associations others)"
    using assms(4) by (simp_all add: keep_copy_def)
  note v1 = mirrored_reform(1) [OF policy assms(2,3) parts(1), of c i] mirrored_reform(2) [OF policy assms(2,3) parts(1)]
  have v2: "copy_kept env c i v1 v2" "\<exists>m\<in>set (ad_user_mappings v2). lum_legacy_user_id m = us_user_id (pr_snapshot p) \<and> lum_user_id m = uid"
    using resolved_legacy_user [OF user copy_kept_ok [OF v1(1)] assms(3) parts(2)] by auto
  have kept: "copy_kept env c i v v2" using copy_kept_trans [OF v1(1) v2(1)] .
  have ok: "account_ok env v2" using copy_kept_ok [OF kept] .
  have reform: "ps_country_id reform = c" "ps_legacy_policy_id reform = us_reform_id (pr_snapshot p)"
    using valid assms(5) by (auto simp: validate_legacy_user_policy_input_def split: if_splits)
  have mapped: "\<exists>n\<in>set (vpd_mappings (ad_policies v2)). vpm_country_id n = c
      \<and> vpm_legacy_policy_id n = us_reform_id (pr_snapshot p) \<and> pmr_policy_id policy = vpm_policy_id n"
    using v1(2) v2(1) reform unfolding copy_kept_def v2p_grows_def by (metis subsetD)
  have inp: "upi_user_id inp = uid" "upf_country_id (upi_fields inp) = c" "upf_name (upi_fields inp) = us_reform_label (pr_snapshot p)"
    "upf_policy_id (upi_fields inp) = Some (pmr_policy_id policy)" "upf_legacy_policy_id (upi_fields inp) = Some (us_reform_id (pr_snapshot p))"
    using project assms(5) by (auto simp: project_legacy_user_policy_def creation_input_of_def split: if_splits)
  show ?thesis
  proof (cases applied)
    case None
    then have "read_legacy_user_policy_mapping v2 (rev_country_id ?r) (rev_user_policy_id ?r) = None"
      using assms(8) kept r(1,2) by (simp add: before_revision_def copy_kept_def)
    from persisted_new [OF persist ok assms(3) _ this] parts(3) r inp mapped v2(2)
    show ?thesis by (fastforce simp: None after_revision_def shows_revision_def v2p_grows_def)
  next
    case (Some q)
    then obtain m a where old: "shows_revision v c i q m a" using assms(8) by (auto simp: before_revision_def)
    have "shows_revision v2 c i q m a" using shows_kept [OF old kept] .
    note shown = this
    then have reads: "read_legacy_user_policy_mapping v2 c i = Some m" "read_mapped_user_policy v2 m = Some a"
      "upm_last_applied_source_revision m = pr_source_revision q" by (simp_all add: shows_revision_def)
    have "apply_existing_mapping m ?r inp v2 = (Inr copy, v')"
      using persist reads(1) r(1,2) by (auto simp: persist_legacy_user_policy_mapping_def split: sum.splits)
    from applied_revision [OF this reads(2)] show ?thesis
    proof
      assume "rev_source_revision ?r \<le> upm_last_applied_source_revision m \<and> v' = v2"
      with shown ok reads(3) r(5) show ?thesis by (auto simp: Some after_revision_def)
    next
      assume step: "rev_source_revision ?r = upm_last_applied_source_revision m + 1
        \<and> v' = update_legacy_user_policy_state a m ?r (legacy_name_requires_update a (rev_reform_label ?r) (rev_changed_fields ?r)) v2"
      then have n: "pr_source_revision p = pr_source_revision q + 1" using reads(3) r(5) by simp
      have "account_ok env v'" using step updated_state_ok [OF ok] mapping_read [OF reads(1)] mapped_read [OF reads(2)] by simp
      moreover have "\<exists>m a. shows_revision v' c i p m a"
        using step next_revision_shown [OF shown ok _ r(4-6)] r(3) assms(8) n by (simp add: Some before_revision_def)
      ultimately show ?thesis using n by (simp add: Some after_revision_def)
    qed
  qed
qed

end
