(* ===== verification/User_Policy_Steps.thy ===== *)
theory User_Policy_Steps
  imports User_Policy_Copies
begin

text \<open>
  The saved policies of both APIs together: what can happen to one saved policy, from before its
  creation, with other sessions between any two transactions, and the invariant every such history
  keeps. The retained events are the revisions of the row, and the copy in API v2 shows one of
  them, none of whose successors is marked as processed.
\<close>

section \<open>Both APIs in step\<close>

definition linked :: "account_db \<Rightarrow> string \<Rightarrow> int \<Rightarrow> user_policy_event list \<Rightarrow> pending_revision list \<Rightarrow> bool" where
  "linked v c i es ps \<longleftrightarrow>
     read_legacy_user_policy_mapping v c i = None \<and> (\<forall>e\<in>set es. \<not> ue_processed e)
     \<or> (\<exists>q\<in>set ps. (\<exists>m a. shows_revision v c i q m a)
          \<and> (\<forall>e\<in>set es. ue_processed e \<longrightarrow> ue_source_revision e \<le> pr_source_revision q))"

definition in_step :: "v2_policy_env \<Rightarrow> user_policy_env \<Rightarrow> string \<Rightarrow> int \<Rightarrow> user_policy_db \<times> account_db \<Rightarrow> bool" where
  "in_step env uenv c i w \<longleftrightarrow>
     rows_ok (fst w) \<and> account_ok env (snd w)
     \<and> (case saved_row (fst w) c i of
          None \<Rightarrow> events_of (fst w) c i = [] \<and> read_legacy_user_policy_mapping (snd w) c i = None
        | Some p \<Rightarrow> \<exists>ps. retained uenv c i (fst w) p ps \<and> linked (snd w) c i (events_of (fst w) c i) ps)"

text \<open>What happens elsewhere: the rows of the saved policy and its copy stay as they are.\<close>

definition elsewhere ::
  "v2_policy_env \<Rightarrow> string \<Rightarrow> int \<Rightarrow> user_policy_db \<times> account_db \<Rightarrow> user_policy_db \<times> account_db \<Rightarrow> bool" where
  "elsewhere env c i w w' \<longleftrightarrow>
     rows_ok (fst w') \<and> events_of (fst w') c i = events_of (fst w) c i \<and> saved_row (fst w') c i = saved_row (fst w) c i
     \<and> copy_kept env c i (snd w) (snd w')"

lemma linked_kept:
  assumes "linked v c i es ps" and "copy_kept env c i v v'"
  shows "linked v' c i es ps"
proof (cases "read_legacy_user_policy_mapping v c i = None \<and> (\<forall>e\<in>set es. \<not> ue_processed e)")
  case True
  with assms(2) show ?thesis by (simp add: linked_def copy_kept_def)
next
  case False
  with assms(1) obtain q where "q \<in> set ps" "\<exists>m a. shows_revision v c i q m a"
    "\<forall>e\<in>set es. ue_processed e \<longrightarrow> ue_source_revision e \<le> pr_source_revision q"
    unfolding linked_def by blast
  with shows_kept [OF _ assms(2)] show ?thesis unfolding linked_def by blast
qed

lemma in_step_elsewhere:
  assumes "in_step env uenv c i w" and "elsewhere env c i w w'"
  shows "in_step env uenv c i w'"
proof -
  have kept: "copy_kept env c i (snd w) (snd w')" and same: "events_of (fst w') c i = events_of (fst w) c i"
    "saved_row (fst w') c i = saved_row (fst w) c i" "rows_ok (fst w')"
    using assms(2) by (auto simp: elsewhere_def)
  have "retained uenv c i (fst w') p ps = retained uenv c i (fst w) p ps" for p ps by (simp add: retained_def same)
  note retained_same = this
  show ?thesis
  proof (cases "saved_row (fst w) c i")
    case None
    with assms(1) same copy_kept_ok [OF kept] kept show ?thesis by (simp add: in_step_def copy_kept_def)
  next
    case (Some p)
    then obtain ps where "retained uenv c i (fst w) p ps" "linked (snd w) c i (events_of (fst w) c i) ps"
      using assms(1) by (auto simp: in_step_def)
    with linked_kept [OF this(2) kept] Some same copy_kept_ok [OF kept] retained_same show ?thesis
      by (auto simp: in_step_def)
  qed
qed

text \<open>A write of API v1 keeps both in step.\<close>

lemma linked_more:
  assumes "linked v c i es ps" and "\<not> ue_processed e"
  shows "linked v c i (es @ [e]) (ps @ [r])"
  using assms by (auto simp: linked_def)

lemma recorded_in_step:
  assumes "recorded_result uenv True q created kind names db = Inr (x, db')" and "in_step env uenv c i (db0, v)"
    and "c \<in> set SUPPORTED_COUNTRY_IDS" and "rows_ok db" and "\<exists>p\<in>set (ud_rows db). upo_id p = upo_id q \<and> upo_country_id p = upo_country_id q"
    and other: "\<not> (upo_id q = i \<and> upo_country_id q = c) \<Longrightarrow> events_of db c i = events_of db0 c i \<and> saved_row db c i = saved_row db0 c i"
    and here: "upo_id q = i \<and> upo_country_id q = c \<Longrightarrow> \<exists>p ps. retained uenv c i db p ps \<and> linked v c i (events_of db c i) ps
       \<and> upo_reform_id q = upo_reform_id p \<and> upo_user_id q = upo_user_id p \<and> upo_mirror_revision q = upo_mirror_revision p
       \<and> (upo_reform_label q \<noteq> upo_reform_label p \<longrightarrow> ''reform_label'' \<in> set names)"
    and "distinct names" and "set names \<subseteq> set USER_POLICY_MUTABLE_FIELDS" and "event_type_error kind (sort names) = None"
  shows "in_step env uenv c i (db', v)"
proof -
  have id: "upo_id q \<in> upo_id ` set (ud_rows db)" using assms(5) by (metis image_eqI)
  have rows: "rows_ok db'" using recorded_rows_ok [OF assms(1,4) id] .
  have ok: "account_ok env v" using assms(2) by (simp add: in_step_def)
  show ?thesis
  proof (cases "upo_id q = i \<and> upo_country_id q = c")
    case False
    from recorded_elsewhere [OF assms(1,4) False assms(5)] other [OF False]
    have "elsewhere env c i (db0, v) (db', v)" using rows copy_kept_refl [OF ok] by (simp add: elsewhere_def)
    with assms(2) show ?thesis by (rule in_step_elsewhere)
  next
    case True
    obtain p ps where p: "retained uenv c i db p ps" "linked v c i (events_of db c i) ps"
       "upo_reform_id q = upo_reform_id p" "upo_user_id q = upo_user_id p" "upo_mirror_revision q = upo_mirror_revision p"
       "upo_reform_label q \<noteq> upo_reform_label p \<longrightarrow> ''reform_label'' \<in> set names"
      using here [OF True] by blast
    from recorded_here [OF assms(1) p(1) assms(3) _ _ id p(3-6) assms(8-10)] True
    obtain e r where "saved_row db' c i = Some (upr_row x)" "retained uenv c i db' (upr_row x) (ps @ [r])"
      "events_of db' c i = events_of db c i @ [e]" "\<not> ue_processed e" by auto
    with rows ok linked_more [OF p(2)] show ?thesis by (auto simp: in_step_def)
  qed
qed

lemma created_in_step:
  assumes "create_or_get_user_policy uenv values True db = (res, db')" and "in_step env uenv c i (db, v)"
    and "c \<in> set SUPPORTED_COUNTRY_IDS"
  shows "in_step env uenv c i (db', v)"
proof (cases "find_matching_user_policy db values")
  case (Some q)
  have q: "q \<in> set (ud_rows db)" using Some by (auto simp: find_matching_user_policy_def dest: find_mem)
  have rows: "rows_ok db" using assms(2) by (simp add: in_step_def)
  consider "db' = db" | x where "recorded_result uenv True q False ''create'' [] db = Inr (x, db')"
    using assms(1) Some by (auto simp: create_or_get_user_policy_def user_policy_write_def split: option.splits sum.splits)
  then show ?thesis
  proof cases
    case 1
    with assms(2) show ?thesis by simp
  next
    case (2 x)
    have here: "\<exists>p ps. retained uenv c i db p ps \<and> linked v c i (events_of db c i) ps
       \<and> upo_reform_id q = upo_reform_id p \<and> upo_user_id q = upo_user_id p \<and> upo_mirror_revision q = upo_mirror_revision p
       \<and> (upo_reform_label q \<noteq> upo_reform_label p \<longrightarrow> ''reform_label'' \<in> set [])"
      if "upo_id q = i \<and> upo_country_id q = c"
    proof -
      have "List.find (\<lambda>p. upo_id p = upo_id q \<and> upo_country_id p = upo_country_id q) rows = Some q"
        if "q \<in> set rows" "distinct (map upo_id rows)" for rows
        using that by (induction rows) auto
      then have "saved_row db c i = Some q" using q rows that by (simp add: saved_row_def rows_ok_def)
      with assms(2) show ?thesis by (auto simp: in_step_def)
    qed
    show ?thesis
      by (rule recorded_in_step [OF 2 assms(2,3) rows _ _ here]) (use q in \<open>auto simp: event_type_error_def\<close>)
  qed
next
  case None
  let ?p = "values\<lparr>upo_id := ud_next_row db, upo_mirror_revision := 0\<rparr>"
  let ?db = "db\<lparr>ud_rows := ud_rows db @ [?p], ud_next_row := ud_next_row db + 1\<rparr>"
  have old: "rows_ok db" using assms(2) by (simp add: in_step_def)
  then have rows: "rows_ok ?db" by (fastforce simp: rows_ok_def)
  consider "db' = db" | x where "recorded_result uenv True ?p True ''create'' [] ?db = Inr (x, db')"
    using assms(1) None by (auto simp: create_or_get_user_policy_def user_policy_write_def Let_def split: option.splits sum.splits)
  then show ?thesis
  proof cases
    case 1
    with assms(2) show ?thesis by simp
  next
    case (2 x)
    have events: "events_of ?db c i = events_of db c i" by (simp add: events_of_def)
    have find: "List.find P (rows @ [y]) = List.find P rows" if "\<not> P y" for P rows and y :: user_policy
      using that by (induction rows) auto
    have here: "\<exists>p ps. retained uenv c i ?db p ps \<and> linked v c i (events_of ?db c i) ps
       \<and> upo_reform_id ?p = upo_reform_id p \<and> upo_user_id ?p = upo_user_id p \<and> upo_mirror_revision ?p = upo_mirror_revision p
       \<and> (upo_reform_label ?p \<noteq> upo_reform_label p \<longrightarrow> ''reform_label'' \<in> set [])"
      if "upo_id ?p = i \<and> upo_country_id ?p = c"
    proof -
      have "saved_row db c i = None" using old that by (auto simp: saved_row_def find_None_iff rows_ok_def)
      then have "events_of db c i = []" "read_legacy_user_policy_mapping v c i = None" using assms(2) by (auto simp: in_step_def)
      then show ?thesis
        by (intro exI [of _ ?p] exI [of _ "[]"]) (simp add: retained_def chained_def linked_def events)
    qed
    show ?thesis
      by (rule recorded_in_step [OF 2 assms(2,3) rows _ _ here])
        (auto simp: event_type_error_def events saved_row_def intro!: find)
  qed
qed

text \<open>An update that names what it changes.\<close>

definition proper_update :: "user_policy_change list \<Rightarrow> bool" where
  "proper_update values \<longleftrightarrow>
     values \<noteq> [] \<and> distinct (map changed_field values)
     \<and> set (map changed_field values) \<subseteq> set USER_POLICY_MUTABLE_FIELDS"

lemma updated_in_step:
  assumes "update_user_policy uenv c i values True db = (res, db')" and "in_step env uenv c i (db, v)"
    and "c \<in> set SUPPORTED_COUNTRY_IDS" and "proper_update values"
  shows "in_step env uenv c i (db', v)"
proof -
  have rows: "rows_ok db" using assms(2) by (simp add: in_step_def)
  have names: "distinct (map changed_field values)" "set (map changed_field values) \<subseteq> set USER_POLICY_MUTABLE_FIELDS" "values \<noteq> []"
    using assms(4) by (simp_all add: proper_update_def)
  show ?thesis
  proof (cases "saved_row db c i")
    case None
    with assms(1,2) show ?thesis
      by (auto simp: update_user_policy_def user_policy_write_def saved_row_def split: option.splits)
  next
    case (Some p)
    let ?q = "fold set_field values p"
    let ?db = "db\<lparr>ud_rows := put_row upo_id ?q (ud_rows db)\<rparr>"
    have p: "p \<in> set (ud_rows db)" "upo_id p = i" "upo_country_id p = c" using Some by (auto simp: saved_row_def dest: find_mem)
    have q: "upo_id ?q = i" "upo_country_id ?q = c" "upo_reform_id ?q = upo_reform_id p" "upo_user_id ?q = upo_user_id p"
      "upo_mirror_revision ?q = upo_mirror_revision p"
      "upo_reform_label ?q \<noteq> upo_reform_label p \<longrightarrow> ''reform_label'' \<in> set (map changed_field values)"
      using set_fields_keep [OF names(2), of p] p by auto
    have sub: "set (put_row upo_id ?q (ud_rows db)) \<subseteq> insert ?q (set (ud_rows db))" by (auto simp: put_row_def)
    have less: "i < ud_next_row db" using rows p by (auto simp: rows_ok_def)
    have rows': "rows_ok ?db" using rows sub less q(1) unfolding rows_ok_def by (auto dest: bspec)
    have there: "?q \<in> set (put_row upo_id ?q (ud_rows db))" using p(1,2) q(1) by (force simp: put_row_def)
    have events: "events_of ?db c i = events_of db c i" by (simp add: events_of_def)
    consider "db' = db" | x where "recorded_result uenv True ?q False ''update'' (map changed_field values) ?db = Inr (x, db')"
      using assms(1) Some
      by (auto simp: update_user_policy_def user_policy_write_def saved_row_def Let_def split: option.splits sum.splits)
    then show ?thesis
    proof cases
      case 1
      with assms(2) show ?thesis by simp
    next
      case (2 x)
      obtain ps where ps: "retained uenv c i db p ps" "linked v c i (events_of db c i) ps"
        using assms(2) Some by (auto simp: in_step_def)
      have here: "\<exists>p ps. retained uenv c i ?db p ps \<and> linked v c i (events_of ?db c i) ps
         \<and> upo_reform_id ?q = upo_reform_id p \<and> upo_user_id ?q = upo_user_id p \<and> upo_mirror_revision ?q = upo_mirror_revision p
         \<and> (upo_reform_label ?q \<noteq> upo_reform_label p \<longrightarrow> ''reform_label'' \<in> set (map changed_field values))"
        using ps q by (intro exI [of _ p] exI [of _ ps]) (simp add: retained_def events)
      have "event_type_error ''update'' (sort (map changed_field values)) = None"
        using names(3) by (cases "sort (map changed_field values)") (auto simp: event_type_error_def dest: arg_cong [of _ _ set])
      then show ?thesis
        by (intro recorded_in_step [OF 2 assms(2,3) rows' _ _ here names(1,2)]) (use there q(1,2) in auto)
    qed
  qed
qed

section \<open>Processing keeps both in step\<close>

text \<open>The v2 copy shows the revision or a later one.\<close>

definition reached :: "string \<Rightarrow> int \<Rightarrow> int \<Rightarrow> user_policy_db \<times> account_db \<Rightarrow> bool" where
  "reached c i n w \<longleftrightarrow>
     (\<exists>m. read_legacy_user_policy_mapping (snd w) c i = Some m \<and> n \<le> upm_last_applied_source_revision m)"

lemma chained_index:
  assumes "chained uenv c i r u ps" and "k < length ps"
  shows "pr_source_revision (ps ! k) = int k + 1"
proof -
  have "map pr_source_revision ps ! k = [1..int (length ps)] ! k" using assms(1) by (simp add: chained_def)
  with assms(2) show ?thesis by simp
qed

lemma chained_next:
  assumes "chained uenv c i r u ps" and "p \<in> set ps" and "q \<in> set ps" and "pr_source_revision p = pr_source_revision q + 1"
  shows "us_reform_label (pr_snapshot p) \<noteq> us_reform_label (pr_snapshot q) \<longrightarrow> ''reform_label'' \<in> set (pr_changed_fields p)"
proof -
  obtain j k where jk: "j < length ps" "p = ps ! j" "k < length ps" "q = ps ! k" using assms(2,3) by (auto simp: in_set_conv_nth)
  then have "j = Suc k" using assms(4) chained_index [OF assms(1)] by simp
  with jk assms(1) show ?thesis by (auto simp: chained_def successively_conv_nth)
qed

lemma chained_same:
  assumes "chained uenv c i r u ps" and "p \<in> set ps" and "q \<in> set ps" and "pr_source_revision p = pr_source_revision q"
  shows "p = q"
  using assms chained_index [OF assms(1)] by (auto simp: in_set_conv_nth)

lemma processed_rows:
  assumes "rows_ok db" and "e \<in> set (events_of db c i)"
  shows "events_of (processed_revision e db) c i
      = map (\<lambda>x. if x = e then e\<lparr>ue_processed := True\<rparr> else x) (events_of db c i)"
    and "saved_row (processed_revision e db) c i = saved_row db c i" and "rows_ok (processed_revision e db)"
proof -
  have e: "e \<in> set (ud_events db)" "ue_country_id e = c" "ue_user_policy_id e = i" using assms(2) by (auto simp: events_of_def)
  have same: "(ue_id x = ue_id e) = (x = e)" if "x \<in> set (ud_events db)" for x
    using that e(1) assms(1) by (auto simp: rows_ok_def distinct_map dest: inj_onD)
  have "filter (\<lambda>x. ue_country_id x = c \<and> ue_user_policy_id x = i) (map (\<lambda>x. if ue_id x = ue_id e then e\<lparr>ue_processed := True\<rparr> else x) es)
      = map (\<lambda>x. if x = e then e\<lparr>ue_processed := True\<rparr> else x) (filter (\<lambda>x. ue_country_id x = c \<and> ue_user_policy_id x = i) es)"
    if "set es \<subseteq> set (ud_events db)" for es
    using that e(2,3) by (induction es) (auto simp: same)
  then show "events_of (processed_revision e db) c i
      = map (\<lambda>x. if x = e then e\<lparr>ue_processed := True\<rparr> else x) (events_of db c i)"
    by (simp add: events_of_def processed_revision_def put_row_def)
  show "saved_row (processed_revision e db) c i = saved_row db c i" by (simp add: saved_row_def processed_revision_def)
  have "set (ud_events (processed_revision e db)) \<subseteq> insert (e\<lparr>ue_processed := True\<rparr>) (set (ud_events db))"
    by (auto simp: processed_revision_def put_row_def)
  with assms(1) e(1) show "rows_ok (processed_revision e db)"
    unfolding rows_ok_def by (auto simp: processed_revision_def dest: bspec)
qed

lemma retained_processed:
  assumes "retained uenv c i db p ps" and "rows_ok db" and "e \<in> set (events_of db c i)"
  shows "retained uenv c i (processed_revision e db) p ps"
proof -
  have "decode_user_policy_event uenv \<circ> (\<lambda>x. if x = e then e\<lparr>ue_processed := True\<rparr> else x) = decode_user_policy_event uenv"
    by (rule ext) simp
  with assms(1) processed_rows(1) [OF assms(2,3)] show ?thesis by (simp add: retained_def)
qed


text \<open>
  One transaction of a request. It needs no order of the events: a revision that comes too early
  fails, and one that comes late changes nothing.
\<close>

lemma copied_in_step:
  assumes "process_revision uenv (copy_revision env uenv loader copy_others) fault mark e w = (res, w')"
    and "in_step env uenv c i w" and "e \<in> set (events_of (fst w) c i)" and "inj (vpe_uuid env)"
    and "\<And>p. keep_copy env c i (copy_others p)"
  shows "in_step env uenv c i w' \<and> (\<forall>n r. res = Inr (n, r) \<longrightarrow> n = ue_source_revision e \<and> 1 \<le> n \<and> reached c i n w')"
proof -
  obtain db v where w: "w = (db, v)" by (cases w)
  have rows: "rows_ok db" and ok: "account_ok env v" using assms(2) by (simp_all add: in_step_def w)
  have e: "e \<in> set (events_of db c i)" using assms(3) by (simp add: w)
  then obtain p ps where row: "saved_row db c i = Some p" and ps: "retained uenv c i db p ps" "linked v c i (events_of db c i) ps"
    using assms(2) by (cases "saved_row db c i") (auto simp: in_step_def w)
  have "decode_user_policy_event uenv e \<in> Inr ` set ps" using ps(1) e unfolding retained_def by (metis image_eqI list.set_map)
  then obtain x where x: "decode_user_policy_event uenv e = Inr x" "x \<in> set ps" by auto
  have chain: "chained uenv c i (upo_reform_id p) (upo_user_id p) ps" using ps(1) by (simp add: retained_def)
  have n: "pr_source_revision x = ue_source_revision e" using decoded_revision [OF x(1)] .
  have pos: "1 \<le> pr_source_revision x" using x(2) chained_index [OF chain] by (auto simp: in_set_conv_nth)
  have key: "us_country_id (pr_snapshot y) = c" "us_user_policy_id (pr_snapshot y) = i"
    "us_reform_id (pr_snapshot y) = upo_reform_id p" "us_user_id (pr_snapshot y) = upo_user_id p"
    "pr_fingerprint y = fingerprint_legacy_user_policy uenv (pr_snapshot y)" if "y \<in> set ps" for y
    using that chain by (auto simp: chained_def)
  obtain cres v' where copied: "copy_revision env uenv loader copy_others x v = (cres, v')" by fastforce
  show ?thesis
  proof (cases cres)
    case (Inl err)
    then have w': "w' = (db, v')" "\<And>n r. res \<noteq> Inr (n, r)" using assms(1) x(1) copied by (auto simp: process_revision_def w)
    have "copy_kept env c i v v'"
      using copied Inl failed_copy_kept [OF _ assms(5) ok] copy_kept_refl [OF ok]
      by (auto simp: copy_revision_def split: sum.splits option.splits prod.splits)
    then have "elsewhere env c i w w'" using rows by (simp add: elsewhere_def w w'(1))
    with in_step_elsewhere [OF assms(2)] w'(2) show ?thesis by blast
  next
    case (Inr copy)
    have mirrored: "\<exists>reform. mirror_legacy_user_policy env uenv (copy_others x) (pr_snapshot x) reform (pr_source_revision x)
        (pr_changed_fields x) v = (Inr copy, v')"
      using copied Inr by (auto simp: copy_revision_def split: sum.splits option.splits prod.splits)
    have after: "\<exists>q. q \<in> set ps \<and> account_ok env v' \<and> (\<exists>m a. shows_revision v' c i q m a) \<and> pr_source_revision x \<le> pr_source_revision q
        \<and> (\<forall>e\<in>set (events_of db c i). ue_processed e \<longrightarrow> ue_source_revision e \<le> pr_source_revision q)"
    proof (cases "read_legacy_user_policy_mapping v c i")
      case None
      then have "before_revision v c i x None" by (simp add: before_revision_def)
      moreover have "\<forall>e\<in>set (events_of db c i). \<not> ue_processed e" using ps(2) None by (auto simp: linked_def shows_revision_def)
      ultimately show ?thesis
        using mirrored copied_revision [OF _ ok assms(4,5) key(1,2,5) [OF x(2)]] x(2) unfolding after_revision_def by fastforce
    next
      case (Some m0)
      then obtain q where q: "q \<in> set ps" "\<exists>m a. shows_revision v c i q m a"
        "\<forall>e\<in>set (events_of db c i). ue_processed e \<longrightarrow> ue_source_revision e \<le> pr_source_revision q"
        using ps(2) by (auto simp: linked_def)
      have "before_revision v c i x (Some q)"
        using q(1,2) key(3,4) [OF x(2)] key(3,4) [OF q(1)] chained_next [OF chain x(2) q(1)] by (simp add: before_revision_def)
      then have new: "account_ok env v'" "\<exists>m a. shows_revision v' c i (after_revision x (Some q)) m a"
        using mirrored copied_revision [OF _ ok assms(4,5) key(1,2,5) [OF x(2)]] by blast+
      show ?thesis
        by (rule exI [of _ "after_revision x (Some q)"])
          (use new q(1,3) x(2) in \<open>auto simp: after_revision_def\<close>)
    qed
    then obtain q where q: "q \<in> set ps" "account_ok env v'" "\<exists>m a. shows_revision v' c i q m a"
      "pr_source_revision x \<le> pr_source_revision q"
      "\<forall>e\<in>set (events_of db c i). ue_processed e \<longrightarrow> ue_source_revision e \<le> pr_source_revision q" by blast
    have reached: "reached c i (pr_source_revision x) (db', v')" for db'
      using q(3,4) by (auto simp: reached_def shows_revision_def)
    have unmarked: "in_step env uenv c i (db, v')"
      using rows q row ps(1) by (auto simp: in_step_def linked_def)
    have marked: "in_step env uenv c i (processed_revision e db, v')"
    proof -
      note new = processed_rows [OF rows e]
      have "linked v' c i (events_of (processed_revision e db) c i) ps"
      proof -
        have "\<forall>y\<in>set (events_of (processed_revision e db) c i). ue_processed y \<longrightarrow> ue_source_revision y \<le> pr_source_revision q"
          using q(4,5) n unfolding new(1) by auto
        with q(1,3) show ?thesis unfolding linked_def by blast
      qed
      with new q(2) row retained_processed [OF ps(1) rows e] show ?thesis by (auto simp: in_step_def)
    qed
    show ?thesis
      using assms(1) x(1) copied Inr marked unmarked reached n pos
      by (cases fault) (auto simp: process_revision_def w)
  qed
qed

lemma next_pending_mem:
  assumes "next_pending_event db c i n = Some e"
  shows "e \<in> set (events_of db c i)" and "ue_source_revision e \<le> n" and "\<not> ue_processed e"
proof -
  obtain es where "sort_key ue_source_revision (filter (\<lambda>e. ue_source_revision e \<le> n \<and> \<not> ue_processed e) (events_of db c i)) = e # es"
    using assms by (auto simp: next_pending_event_def split: list.splits)
  from arg_cong [OF this, of set]
  have "e \<in> set (filter (\<lambda>e. ue_source_revision e \<le> n \<and> \<not> ue_processed e) (events_of db c i))" by simp
  then show "e \<in> set (events_of db c i)" "ue_source_revision e \<le> n" "\<not> ue_processed e" by auto
qed

lemma none_pending:
  assumes "next_pending_event db c i n = None" and "e \<in> set (events_of db c i)" and "ue_source_revision e \<le> n"
  shows "ue_processed e"
proof -
  have "sort_key ue_source_revision (filter (\<lambda>e. ue_source_revision e \<le> n \<and> \<not> ue_processed e) (events_of db c i)) = []"
    using assms(1) by (auto simp: next_pending_event_def split: list.splits)
  from arg_cong [OF this, of set] assms(2,3) show ?thesis by auto
qed

definition all_processed :: "string \<Rightarrow> int \<Rightarrow> int \<Rightarrow> user_policy_db \<Rightarrow> bool" where
  "all_processed c i n db \<longleftrightarrow> (\<forall>e\<in>set (events_of db c i). ue_source_revision e \<le> n \<longrightarrow> ue_processed e)"

lemmas pending_induct = process_pending.raw_induct [rotated, consumes 1, case_names step]

definition pending_post :: "v2_policy_env \<Rightarrow> user_policy_env \<Rightarrow> string \<Rightarrow> int \<Rightarrow> int \<Rightarrow> user_policy_copy option
    \<Rightarrow> (copy_error processing_error + user_policy_copy option) \<times> user_policy_db \<times> account_db \<Rightarrow> bool" where
  "pending_post env uenv c i n latest y \<longleftrightarrow>
     in_step env uenv c i (snd y)
     \<and> (\<forall>r. fst y = Inr r \<longrightarrow> all_processed c i n (fst (snd y)) \<or> reached c i n (snd y))
     \<and> (\<forall>r. fst y = Inr (Some r) \<longrightarrow> latest \<noteq> None \<or> 1 \<le> n)"

lemma pending_in_step:
  assumes "process_pending uenv (copy_revision env uenv loader copy_others) others faults c i n k latest w = Some y"
    and "in_step env uenv c i w" and "inj (vpe_uuid env)" and "\<And>p. keep_copy env c i (copy_others p)"
    and "\<And>k u. in_step env uenv c i u \<Longrightarrow> in_step env uenv c i (others k u)"
  shows "pending_post env uenv c i n latest y"
  using assms
proof (induction uenv "copy_revision env uenv loader copy_others" others faults c i n k latest w y rule: pending_induct)
  case (step loop uenv others faults c i n k latest w y)
  have u: "in_step env uenv c i (others k w)" using step.prems(1,4) by simp
  show ?case
  proof (cases "next_pending_event (fst (others k w)) c i n")
    case None
    then have "y = (Inr latest, others k w)" using step.hyps(2) by (simp add: Let_def)
    with u none_pending [OF None] show ?thesis by (auto simp: pending_post_def all_processed_def)
  next
    case (Some e)
    obtain res w2 where run: "process_revision uenv (copy_revision env uenv loader copy_others) (faults k) True e (others k w) = (res, w2)"
      by (metis surj_pair)
    note one = copied_in_step [OF run u next_pending_mem(1) [OF Some] step.prems(2,3)]
    show ?thesis
    proof (cases res)
      case (Inl x)
      then have "y = (Inl x, w2)" using step.hyps(2) Some run by (simp add: Let_def)
      with one show ?thesis by (simp add: pending_post_def)
    next
      case (Inr nr)
      then obtain n' r where nr: "res = Inr (n', r)" by (cases nr) auto
      with one have new: "n' = ue_source_revision e" "1 \<le> n'" "reached c i n' w2" "in_step env uenv c i w2" by auto
      then have pos: "1 \<le> n" using next_pending_mem(2) [OF Some] by simp
      show ?thesis
      proof (cases "n' = n")
        case True
        then have "y = (Inr (Some r), w2)" using step.hyps(2) Some run nr by (simp add: Let_def)
        with new True pos show ?thesis by (auto simp: pending_post_def)
      next
        case False
        then have "loop uenv (copy_revision env uenv loader copy_others) others faults c i n (Suc k) (Some r) w2 = Some y"
          using step.hyps(2) Some run nr by (simp add: Let_def)
        from step.hyps(1) [OF this new(4) step.prems(2-4)] pos show ?thesis by (auto simp: pending_post_def)
      qed
    qed
  qed
qed

lemma request_in_step:
  assumes "process_pending_mirror_events uenv (copy_revision env uenv loader copy_others) others faults last_fault c i n w
      = Some (res, w')"
    and "in_step env uenv c i w" and "inj (vpe_uuid env)" and "\<And>p. keep_copy env c i (copy_others p)"
    and "\<And>k u. in_step env uenv c i u \<Longrightarrow> in_step env uenv c i (others k u)"
  shows "in_step env uenv c i w' \<and> (\<forall>r. res = Inr r \<longrightarrow> reached c i n w' \<or> 1 \<le> n \<and> all_processed c i n (fst w'))"
proof -
  obtain res1 w1 where loop: "process_pending uenv (copy_revision env uenv loader copy_others) others faults c i n 0 None w = Some (res1, w1)"
    and rest: "(case res1 of Inl x \<Rightarrow> (Inl x, w1) | Inr (Some r) \<Rightarrow> (Inr r, w1)
      | Inr None \<Rightarrow> replay_processed uenv (copy_revision env uenv loader copy_others) last_fault c i n w1) = (res, w')"
    using assms(1) by (auto simp: process_pending_mirror_events_def split: prod.splits)
  have post: "pending_post env uenv c i n None (res1, w1)"
    by (rule pending_in_step [OF loop assms(2,3)]) (rule assms(4), rule assms(5))
  then have w1: "in_step env uenv c i w1" by (simp add: pending_post_def)
  consider (stopped) x where "res1 = Inl x" | (ended) r where "res1 = Inr (Some r)" | (replayed) "res1 = Inr None"
    by (cases res1) auto
  then show ?thesis
  proof cases
    case stopped
    with rest w1 show ?thesis by auto
  next
    case ended
    with rest post show ?thesis by (auto simp: pending_post_def)
  next
    case replayed
    show ?thesis
    proof (cases "List.find (\<lambda>e. ue_source_revision e = n \<and> ue_processed e) (events_of (fst w1) c i)")
      case None
      with replayed rest w1 show ?thesis by (auto simp: replay_processed_def)
    next
      case (Some e)
      then have e: "e \<in> set (events_of (fst w1) c i)" "ue_source_revision e = n" by (auto dest: find_mem)
      obtain res2 w2 where run: "process_revision uenv (copy_revision env uenv loader copy_others) last_fault False e w1 = (res2, w2)"
        by (metis surj_pair)
      from copied_in_step [OF run w1 e(1) assms(3,4)] e(2) rest replayed Some run show ?thesis
        by (cases res2) (auto simp: replay_processed_def)
    qed
  qed
qed

section \<open>Histories of a saved policy\<close>

text \<open>
  Steps of both APIs around the saved policy \<open>i\<close> of the country \<open>c\<close>: recorded creations and updates of
  API v1, requests that copy its revisions, with other steps between their transactions, and
  anything that leaves its rows and its copy alone.
\<close>

inductive saved_policy_steps ::
  "v2_policy_env \<Rightarrow> user_policy_env \<Rightarrow> string \<Rightarrow> int \<Rightarrow> user_policy_db \<times> account_db \<Rightarrow> user_policy_db \<times> account_db \<Rightarrow> bool"
  for env uenv c i where
  none: "saved_policy_steps env uenv c i w w"
| created: "saved_policy_steps env uenv c i w (db, v) \<Longrightarrow> create_or_get_user_policy uenv values True db = (res, db')
    \<Longrightarrow> saved_policy_steps env uenv c i w (db', v)"
| updated: "saved_policy_steps env uenv c i w (db, v) \<Longrightarrow> update_user_policy uenv c i values True db = (res, db')
    \<Longrightarrow> proper_update values \<Longrightarrow> saved_policy_steps env uenv c i w (db', v)"
| other: "saved_policy_steps env uenv c i w w1 \<Longrightarrow> elsewhere env c i w1 w2 \<Longrightarrow> saved_policy_steps env uenv c i w w2"
| requested: "saved_policy_steps env uenv c i w w1
    \<Longrightarrow> mirror_pending_user_policy_events env uenv loader copy_others others faults last_fault c i n w1 = Some (answer, w2)
    \<Longrightarrow> (\<And>p. keep_copy env c i (copy_others p)) \<Longrightarrow> (\<And>k u. saved_policy_steps env uenv c i u (others k u))
    \<Longrightarrow> saved_policy_steps env uenv c i w w2"

text \<open>Before the saved policy is created.\<close>

definition not_yet_saved :: "v2_policy_env \<Rightarrow> string \<Rightarrow> int \<Rightarrow> user_policy_db \<times> account_db \<Rightarrow> bool" where
  "not_yet_saved env c i w \<longleftrightarrow>
     rows_ok (fst w) \<and> account_ok env (snd w) \<and> saved_row (fst w) c i = None \<and> events_of (fst w) c i = []
     \<and> read_legacy_user_policy_mapping (snd w) c i = None"

lemma mirror_request:
  assumes "mirror_pending_user_policy_events env uenv loader copy_others others faults last_fault c i n w = Some (answer, w')"
  obtains res where "process_pending_mirror_events uenv (copy_revision env uenv loader copy_others) others faults last_fault c i n w
      = Some (res, w')" and "\<And>r. answer = Inr r \<Longrightarrow> res = Inr r"
proof -
  obtain res where res: "process_pending_mirror_events uenv (copy_revision env uenv loader copy_others) others faults last_fault c i n w
      = Some (res, w')" "answer = (case res of Inl e \<Rightarrow> Inl (classify_copy_error e) | Inr r \<Rightarrow> Inr r)"
    using assms by (auto simp: mirror_pending_user_policy_events_def)
  from that [OF res(1)] res(2) show thesis by (cases res) auto
qed

lemma steps_in_step:
  assumes "saved_policy_steps env uenv c i w w'" and "inj (vpe_uuid env)" and "c \<in> set SUPPORTED_COUNTRY_IDS"
    and "in_step env uenv c i w"
  shows "in_step env uenv c i w'"
  using assms(1,4)
proof (induction rule: saved_policy_steps.induct)
  case (created w db v "values" res db')
  then show ?case using created_in_step [OF created.hyps(2) _ assms(3)] by blast
next
  case (updated w db v "values" res db')
  then show ?case using updated_in_step [OF updated.hyps(2) _ assms(3) updated.hyps(3)] by blast
next
  case (other w w1 w2)
  then show ?case using in_step_elsewhere by blast
next
  case (requested w w1 loader copy_others others faults last_fault n answer w2)
  obtain res where run: "process_pending_mirror_events uenv (copy_revision env uenv loader copy_others) others faults last_fault c i n w1
      = Some (res, w2)"
    using mirror_request [OF requested.hyps(2)] by blast
  from request_in_step [OF run requested.IH(1) [OF requested.prems] assms(2) requested.hyps(3)] requested.IH(2) show ?case by blast
qed

end
