(* ===== verification/User_Policy_Requests.thy ===== *)
theory User_Policy_Requests
  imports User_Policy_Steps
begin

text \<open>
  Requests that copy a v1 saved policy: each ends, because the events still pending through its
  revision get fewer, and one that answers leaves API v2 with the association the saved policy
  then projects to. The last section saves one policy, changes it and copies it.
\<close>

section \<open>Requests end\<close>

text \<open>Events are only added, and a processed event stays processed.\<close>

definition progress :: "string \<Rightarrow> int \<Rightarrow> user_policy_db \<Rightarrow> user_policy_db \<Rightarrow> bool" where
  "progress c i db db' \<longleftrightarrow>
     (\<exists>f es. events_of db' c i = map f (events_of db c i) @ es
        \<and> (\<forall>e. ue_source_revision (f e) = ue_source_revision e \<and> (ue_processed e \<longrightarrow> ue_processed (f e))))"

lemma progress_same: "events_of db' c i = events_of db c i @ es \<Longrightarrow> progress c i db db'"
  unfolding progress_def by (rule exI [of _ id]) simp

lemma progress_refl: "progress c i db db"
  using progress_same [of db c i db "[]"] by simp

lemma progress_trans:
  assumes "progress c i db1 db2" and "progress c i db2 db3"
  shows "progress c i db1 db3"
proof -
  obtain f es where f: "events_of db2 c i = map f (events_of db1 c i) @ es"
    "\<forall>e. ue_source_revision (f e) = ue_source_revision e \<and> (ue_processed e \<longrightarrow> ue_processed (f e))"
    using assms(1) unfolding progress_def by blast
  obtain g fs where g: "events_of db3 c i = map g (events_of db2 c i) @ fs"
    "\<forall>e. ue_source_revision (g e) = ue_source_revision e \<and> (ue_processed e \<longrightarrow> ue_processed (g e))"
    using assms(2) unfolding progress_def by blast
  have "events_of db3 c i = map (g \<circ> f) (events_of db1 c i) @ (map g es @ fs)" using f(1) g(1) by simp
  with f(2) g(2) show ?thesis unfolding progress_def by (metis comp_apply)
qed

lemma progress_length: "progress c i db db' \<Longrightarrow> length (events_of db c i) \<le> length (events_of db' c i)"
  unfolding progress_def by auto

lemma recorded_progress:
  assumes "recorded_result uenv True q created kind names db = Inr (x, db')"
  shows "progress c i db db'"
proof -
  obtain e where e: "ud_events db' = ud_events db @ [e]" by (rule recorded_cases [OF assms]) simp
  have "events_of db' c i = events_of db c i @ events_of (db\<lparr>ud_events := [e]\<rparr>) c i" by (simp add: events_of_def e)
  then show ?thesis by (rule progress_same)
qed

lemma events_of_cong: "ud_events db' = ud_events db \<Longrightarrow> events_of db' c i = events_of db c i"
  by (simp add: events_of_def)

lemma progress_cong:
  assumes "ud_events db1 = ud_events db" and "progress c i db1 db'"
  shows "progress c i db db'"
  using assms(2) unfolding progress_def events_of_cong [OF assms(1)] .

lemma created_progress:
  assumes "create_or_get_user_policy uenv values True db = (res, db')"
  shows "progress c i db db'"
proof (cases "find_matching_user_policy db values")
  case (Some q)
  with assms consider "db' = db" | x where "recorded_result uenv True q False ''create'' [] db = Inr (x, db')"
    by (auto simp: create_or_get_user_policy_def user_policy_write_def split: option.splits sum.splits)
  then show ?thesis by cases (simp_all add: progress_refl recorded_progress)
next
  case None
  let ?p = "values\<lparr>upo_id := ud_next_row db, upo_mirror_revision := 0\<rparr>"
  let ?db = "db\<lparr>ud_rows := ud_rows db @ [?p], ud_next_row := ud_next_row db + 1\<rparr>"
  from None assms consider "db' = db" | x where "recorded_result uenv True ?p True ''create'' [] ?db = Inr (x, db')"
    by (auto simp: create_or_get_user_policy_def user_policy_write_def Let_def split: option.splits sum.splits)
  then show ?thesis
  proof cases
    case (2 x)
    show ?thesis by (rule progress_cong [OF _ recorded_progress [OF 2]]) simp
  qed (simp add: progress_refl)
qed

lemma updated_progress:
  assumes "update_user_policy uenv c i values True db = (res, db')"
  shows "progress c i db db'"
proof (cases "saved_row db c i")
  case None
  with assms show ?thesis
    by (auto simp: update_user_policy_def user_policy_write_def saved_row_def progress_refl split: option.splits)
next
  case (Some p)
  let ?db = "db\<lparr>ud_rows := put_row upo_id (fold set_field values p) (ud_rows db)\<rparr>"
  from Some assms consider "db' = db"
    | x where "recorded_result uenv True (fold set_field values p) False ''update'' (map changed_field values) ?db = Inr (x, db')"
    by (auto simp: update_user_policy_def user_policy_write_def saved_row_def Let_def split: option.splits sum.splits)
  then show ?thesis
  proof cases
    case (2 x)
    show ?thesis by (rule progress_cong [OF _ recorded_progress [OF 2]]) simp
  qed (simp add: progress_refl)
qed

lemma processed_progress:
  assumes "rows_ok db" and "e \<in> set (events_of db c i)"
  shows "progress c i db (processed_revision e db)"
  unfolding progress_def processed_rows(1) [OF assms]
  by (rule exI [of _ "\<lambda>x. if x = e then e\<lparr>ue_processed := True\<rparr> else x"]) auto

lemma process_revision_db:
  assumes "process_revision uenv processor fault mark e w = (res, w')"
  shows "fst w' = fst w \<or> mark \<and> fst w' = processed_revision e (fst w)"
    and "res = Inr nr \<Longrightarrow> mark \<Longrightarrow> fst w' = processed_revision e (fst w)"
  using assms by (auto simp: process_revision_def split: sum.splits prod.splits option.splits if_splits)

lemma pending_progress:
  assumes "process_pending uenv (copy_revision env uenv loader copy_others) others faults c i n k latest w = Some y"
    and "in_step env uenv c i w" and "inj (vpe_uuid env)" and "\<And>p. keep_copy env c i (copy_others p)"
    and "\<And>k u. in_step env uenv c i u \<Longrightarrow> in_step env uenv c i (others k u) \<and> progress c i (fst u) (fst (others k u))"
  shows "progress c i (fst w) (fst (snd y))"
  using assms
proof (induction uenv "copy_revision env uenv loader copy_others" others faults c i n k latest w y rule: pending_induct)
  case (step loop uenv others faults c i n k latest w y)
  have u: "in_step env uenv c i (others k w)" "progress c i (fst w) (fst (others k w))" using step.prems(1,4) by auto
  show ?case
  proof (cases "next_pending_event (fst (others k w)) c i n")
    case None
    then have "y = (Inr latest, others k w)" using step.hyps(2) by (simp add: Let_def)
    with u show ?thesis by simp
  next
    case (Some e)
    obtain res w2 where run: "process_revision uenv (copy_revision env uenv loader copy_others) (faults k) True e (others k w) = (res, w2)"
      by (metis surj_pair)
    have e: "e \<in> set (events_of (fst (others k w)) c i)" using next_pending_mem(1) [OF Some] .
    have "rows_ok (fst (others k w))" using u(1) by (simp add: in_step_def)
    then have "progress c i (fst (others k w)) (fst w2)"
      using process_revision_db(1) [OF run] processed_progress [OF _ e] progress_refl by auto
    then have w2: "progress c i (fst w) (fst w2)" using u(2) progress_trans by blast
    have "in_step env uenv c i w2" using copied_in_step [OF run u(1) e step.prems(2,3)] by blast
    then have more: "progress c i (fst w2) (fst (snd y))"
      if "loop uenv (copy_revision env uenv loader copy_others) others faults c i n (Suc k) (Some r) w2 = Some y" for r
      using step.hyps(1) [OF that _ step.prems(2-4)] by blast
    show ?thesis
    proof (cases res)
      case (Inl x)
      then have "y = (Inl x, w2)" using step.hyps(2) Some run by (simp add: Let_def)
      with w2 show ?thesis by simp
    next
      case (Inr nr)
      obtain n' r where nr: "nr = (n', r)" by (cases nr)
      show ?thesis
      proof (cases "n' = n")
        case True
        then have "y = (Inr (Some r), w2)" using step.hyps(2) Some run Inr nr by (simp add: Let_def)
        with w2 show ?thesis by simp
      next
        case False
        then have "loop uenv (copy_revision env uenv loader copy_others) others faults c i n (Suc k) (Some r) w2 = Some y"
          using step.hyps(2) Some run Inr nr by (simp add: Let_def)
        from progress_trans [OF w2 more [OF this]] show ?thesis .
      qed
    qed
  qed
qed

lemma request_progress:
  assumes "process_pending_mirror_events uenv (copy_revision env uenv loader copy_others) others faults last_fault c i n w
      = Some (res, w')"
    and "in_step env uenv c i w" and "inj (vpe_uuid env)" and "\<And>p. keep_copy env c i (copy_others p)"
    and "\<And>k u. in_step env uenv c i u \<Longrightarrow> in_step env uenv c i (others k u) \<and> progress c i (fst u) (fst (others k u))"
  shows "progress c i (fst w) (fst w')"
proof -
  obtain res1 w1 where loop: "process_pending uenv (copy_revision env uenv loader copy_others) others faults c i n 0 None w = Some (res1, w1)"
    and rest: "(case res1 of Inl x \<Rightarrow> (Inl x, w1) | Inr (Some r) \<Rightarrow> (Inr r, w1)
      | Inr None \<Rightarrow> replay_processed uenv (copy_revision env uenv loader copy_others) last_fault c i n w1) = (res, w')"
    using assms(1) by (auto simp: process_pending_mirror_events_def split: prod.splits)
  have "fst w' = fst w1"
  proof (cases "res1 = Inr None")
    case True
    show ?thesis
    proof (cases "List.find (\<lambda>e. ue_source_revision e = n \<and> ue_processed e) (events_of (fst w1) c i)")
      case None
      with True rest show ?thesis by (auto simp: replay_processed_def)
    next
      case (Some e)
      obtain res2 w2 where run: "process_revision uenv (copy_revision env uenv loader copy_others) last_fault False e w1 = (res2, w2)"
        by (metis surj_pair)
      from process_revision_db(1) [OF run] rest True Some run show ?thesis by (cases res2) (auto simp: replay_processed_def)
    qed
  next
    case False
    with rest show ?thesis by (auto split: sum.splits option.splits)
  qed
  moreover have "progress c i (fst w) (fst (snd (res1, w1)))"
    by (rule pending_progress [OF loop assms(2,3)]) (rule assms(4), rule assms(5))
  ultimately show ?thesis by simp
qed

lemma steps_progress:
  assumes "saved_policy_steps env uenv c i w w'" and "inj (vpe_uuid env)" and "c \<in> set SUPPORTED_COUNTRY_IDS"
    and "in_step env uenv c i w"
  shows "in_step env uenv c i w' \<and> progress c i (fst w) (fst w')"
  using assms(1,4)
proof (induction rule: saved_policy_steps.induct)
  case (none w)
  then show ?case using progress_refl by blast
next
  case (created w db v "values" res db')
  then show ?case
    using created_in_step [OF created.hyps(2) _ assms(3)] created_progress [OF created.hyps(2)] progress_trans by auto
next
  case (updated w db v "values" res db')
  then show ?case
    using updated_in_step [OF updated.hyps(2) _ assms(3) updated.hyps(3)] updated_progress [OF updated.hyps(2)] progress_trans by auto
next
  case (other w w1 w2)
  have "progress c i (fst w1) (fst w2)" using other.hyps(2) progress_same [of _ c i _ "[]"] by (simp add: elsewhere_def)
  with other in_step_elsewhere show ?case using progress_trans by blast
next
  case (requested w w1 loader copy_others others faults last_fault n answer w2)
  obtain res where run: "process_pending_mirror_events uenv (copy_revision env uenv loader copy_others) others faults last_fault c i n w1
      = Some (res, w2)"
    using mirror_request [OF requested.hyps(2)] by blast
  have w1: "in_step env uenv c i w1" "progress c i (fst w) (fst w1)" using requested.IH(1) [OF requested.prems] by auto
  have "in_step env uenv c i w2"
    using request_in_step [OF run w1(1) assms(2) requested.hyps(3)] requested.IH(2) by blast
  moreover have "progress c i (fst w1) (fst w2)"
    using request_progress [OF run w1(1) assms(2) requested.hyps(3)] requested.IH(2) by blast
  ultimately show ?case using w1(2) progress_trans by blast
qed

definition pending_count :: "string \<Rightarrow> int \<Rightarrow> int \<Rightarrow> user_policy_db \<Rightarrow> nat" where
  "pending_count c i n db = length (filter (\<lambda>e. ue_source_revision e \<le> n \<and> \<not> ue_processed e) (events_of db c i))"

lemma in_step_revisions:
  assumes "in_step env uenv c i (db, v)"
  shows "map ue_source_revision (events_of db c i) = [1..int (length (events_of db c i))]"
proof (cases "saved_row db c i")
  case None
  with assms show ?thesis by (simp add: in_step_def)
next
  case (Some p)
  then obtain ps where ps: "retained uenv c i db p ps" using assms by (auto simp: in_step_def)
  then have decoded: "map (decode_user_policy_event uenv) (events_of db c i) = map Inr ps"
    and sources: "map pr_source_revision ps = [1..int (length ps)]" by (auto simp: retained_def chained_def)
  have len: "length (events_of db c i) = length ps" using arg_cong [OF decoded, of length] by simp
  have "map ue_source_revision (events_of db c i) = map pr_source_revision ps"
  proof (rule nth_equalityI)
    fix k assume "k < length (map ue_source_revision (events_of db c i))"
    then have k: "k < length (events_of db c i)" by simp
    then have "decode_user_policy_event uenv (events_of db c i ! k) = Inr (ps ! k)"
      using decoded len by (metis nth_map)
    then show "map ue_source_revision (events_of db c i) ! k = map pr_source_revision ps ! k"
      using decoded_revision k len by simp
  qed (simp add: len)
  with sources len show ?thesis by simp
qed

lemma in_step_nth:
  assumes "in_step env uenv c i (db, v)" and "k < length (events_of db c i)"
  shows "ue_source_revision (events_of db c i ! k) = int k + 1"
proof -
  have "map ue_source_revision (events_of db c i) ! k = [1..int (length (events_of db c i))] ! k"
    using arg_cong [OF in_step_revisions [OF assms(1)], of "\<lambda>xs. xs ! k"] .
  with assms(2) show ?thesis by simp
qed

lemma progress_count:
  assumes "progress c i db db'" and "in_step env uenv c i (db', v)" and "n \<le> int (length (events_of db c i))"
  shows "pending_count c i n db' \<le> pending_count c i n db"
proof -
  obtain f es where f: "events_of db' c i = map f (events_of db c i) @ es"
    "\<forall>e. ue_source_revision (f e) = ue_source_revision e \<and> (ue_processed e \<longrightarrow> ue_processed (f e))"
    using assms(1) unfolding progress_def by blast
  let ?k = "length (events_of db c i)"
  have beyond: "n < ue_source_revision e" if e: "e \<in> set es" for e
  proof -
    obtain j where j: "j < length es" "es ! j = e" using e unfolding in_set_conv_nth by blast
    have "?k + j < length (events_of db' c i)" using j(1) f(1) by simp
    note in_step_nth [OF assms(2) this]
    moreover have "events_of db' c i ! (?k + j) = e" unfolding f(1) by (simp add: nth_append j(2))
    ultimately have "ue_source_revision e = int (?k + j) + 1" by simp
    with assms(3) show ?thesis by simp
  qed
  have "filter (\<lambda>e. ue_source_revision e \<le> n \<and> \<not> ue_processed e) es = []"
    by (auto simp: filter_empty_conv dest!: beyond)
  moreover have "length (filter (\<lambda>e. ue_source_revision e \<le> n \<and> \<not> ue_processed e) (map f xs))
      \<le> length (filter (\<lambda>e. ue_source_revision e \<le> n \<and> \<not> ue_processed e) xs)" for xs
    using f(2) by (induction xs) auto
  ultimately show ?thesis by (simp add: pending_count_def f(1))
qed

lemma processed_count:
  assumes "rows_ok db" and "e \<in> set (events_of db c i)" and "ue_source_revision e \<le> n" and "\<not> ue_processed e"
  shows "pending_count c i n (processed_revision e db) < pending_count c i n db"
proof -
  let ?P = "\<lambda>e. ue_source_revision e \<le> n \<and> \<not> ue_processed e" and ?f = "\<lambda>x. if x = e then e\<lparr>ue_processed := True\<rparr> else x"
  have le: "length (filter ?P (map ?f xs)) \<le> length (filter ?P xs)" for xs
    using assms(3,4) by (induction xs) auto
  have "length (filter ?P (map ?f xs)) < length (filter ?P xs)" if "e \<in> set xs" for xs
    using that
  proof (induction xs)
    case (Cons x xs)
    show ?case
    proof (cases "x = e")
      case True
      with le [of xs] assms(3,4) show ?thesis by simp
    next
      case False
      with Cons show ?thesis by auto
    qed
  qed simp
  with assms(2) show ?thesis by (simp add: pending_count_def processed_rows(1) [OF assms(1,2)])
qed

lemma pending_ends:
  assumes "in_step env uenv c i w" and "n \<le> int (length (events_of (fst w) c i))" and "inj (vpe_uuid env)"
    and "\<And>p. keep_copy env c i (copy_others p)"
    and "\<And>k u. in_step env uenv c i u \<Longrightarrow> in_step env uenv c i (others k u) \<and> progress c i (fst u) (fst (others k u))"
  shows "\<exists>y. process_pending uenv (copy_revision env uenv loader copy_others) others faults c i n k latest w = Some y"
  using assms(1,2)
proof (induction "pending_count c i n (fst w)" arbitrary: k latest w rule: less_induct)
  case less
  let ?u = "others k w"
  have u: "in_step env uenv c i ?u" "progress c i (fst w) (fst ?u)" using assms(5) less.prems(1) by auto
  have count: "pending_count c i n (fst ?u) \<le> pending_count c i n (fst w)"
    using progress_count [OF u(2) _ less.prems(2)] u(1) by (metis prod.collapse)
  have len: "n \<le> int (length (events_of (fst ?u) c i))" using progress_length [OF u(2)] less.prems(2) by simp
  show ?case
  proof (cases "next_pending_event (fst ?u) c i n")
    case None
    then show ?thesis by (subst process_pending.simps) (simp add: Let_def)
  next
    case (Some e)
    obtain res w2 where run: "process_revision uenv (copy_revision env uenv loader copy_others) (faults k) True e ?u = (res, w2)"
      by (metis surj_pair)
    note e = next_pending_mem [OF Some]
    have rows: "rows_ok (fst ?u)" using u(1) by (simp add: in_step_def)
    show ?thesis
    proof (cases res)
      case (Inl x)
      with Some run show ?thesis by (subst process_pending.simps) (simp add: Let_def)
    next
      case (Inr nr)
      obtain n' r where nr: "nr = (n', r)" by (cases nr)
      have db: "fst w2 = processed_revision e (fst ?u)" using process_revision_db(2) [OF run Inr] by simp
      have "pending_count c i n (fst w2) < pending_count c i n (fst w)"
        using processed_count [OF rows e] count db by simp
      moreover have "in_step env uenv c i w2" using copied_in_step [OF run u(1) e(1) assms(3,4)] by blast
      moreover have "n \<le> int (length (events_of (fst w2) c i))" using len db processed_rows(1) [OF rows e(1)] by simp
      ultimately have "\<exists>y. process_pending uenv (copy_revision env uenv loader copy_others) others faults c i n (Suc k) (Some r) w2 = Some y"
        by (rule less.hyps)
      with Some run Inr nr show ?thesis by (subst process_pending.simps) (auto simp: Let_def)
    qed
  qed
qed

text \<open>
  C10. A request to copy a v1 saved policy through one of its revisions ends, whatever other
  sessions do between its transactions.
\<close>

theorem saved_policy_request_ends:
  assumes "not_yet_saved env c i w0" and "saved_policy_steps env uenv c i w0 w"
    and "saved_row (fst w) c i = Some p" and "n \<le> upo_mirror_revision p"
    and "inj (vpe_uuid env)" and "c \<in> set SUPPORTED_COUNTRY_IDS"
    and "\<And>p. keep_copy env c i (copy_others p)" and "\<And>k u. saved_policy_steps env uenv c i u (others k u)"
  shows "\<exists>answer. mirror_pending_user_policy_events env uenv loader copy_others others faults last_fault c i n w = Some answer"
proof -
  have "in_step env uenv c i w0" using assms(1) by (simp add: not_yet_saved_def in_step_def)
  then have w: "in_step env uenv c i w" by (rule steps_in_step [OF assms(2,5,6)])
  then obtain ps where "retained uenv c i (fst w) p ps" using assms(3) by (auto simp: in_step_def)
  then have decoded: "map (decode_user_policy_event uenv) (events_of (fst w) c i) = map Inr ps"
    and count: "upo_mirror_revision p = int (length ps)" by (simp_all add: retained_def)
  have "n \<le> int (length (events_of (fst w) c i))" using arg_cong [OF decoded, of length] assms(4) count by simp
  then have "\<exists>y. process_pending uenv (copy_revision env uenv loader copy_others) others faults c i n 0 None w = Some y"
  proof (rule pending_ends [OF w _ assms(5)])
    show "\<And>p. keep_copy env c i (copy_others p)" by (rule assms(7))
    show "\<And>k u. in_step env uenv c i u \<Longrightarrow> in_step env uenv c i (others k u) \<and> progress c i (fst u) (fst (others k u))"
      by (rule steps_progress [OF assms(8,5,6)])
  qed
  then obtain y where y: "process_pending uenv (copy_revision env uenv loader copy_others) others faults c i n 0 None w = Some y" by blast
  show ?thesis
    unfolding mirror_pending_user_policy_events_def process_pending_mirror_events_def y option.map by (rule exI) (rule refl)
qed

text \<open>
  C6. Take a saved policy of API v1 whose creation and updates are all recorded, each update of
  at least one field and each field once. Whatever of these and of the requests that copy its
  revisions came before and come in between, wherever they fail, and whatever other sessions do
  that leaves its row, its events and its copy alone, a request that copies it through its
  current revision and answers leaves API v2 with its association: named by its reform label,
  for its reform in both APIs, and owned by the user who stands for its user. Updates that are
  not recorded, and changes made to the copy itself, are outside this property: a copy keeps the
  name it had through the former.
\<close>

theorem saved_policy_copy_is_current:
  assumes "not_yet_saved env c i w0" and "saved_policy_steps env uenv c i w0 w"
    and "mirror_pending_user_policy_events env uenv loader copy_others others faults last_fault c i n w = Some (Inr copy, db, v)"
    and "inj (vpe_uuid env)" and "c \<in> set SUPPORTED_COUNTRY_IDS"
    and "\<And>p. keep_copy env c i (copy_others p)" and "\<And>k u. saved_policy_steps env uenv c i u (others k u)"
    and "saved_row db c i = Some p" and "upo_mirror_revision p = n"
  shows "\<exists>m a. read_legacy_user_policy_mapping v c i = Some m \<and> upm_last_applied_source_revision m = n
     \<and> read_mapped_user_policy v m = Some a
     \<and> va_country_id a = c \<and> va_name a = upo_reform_label p \<and> va_legacy_policy_id a = Some (upo_reform_id p)
     \<and> (\<exists>r\<in>set (ad_user_mappings v). lum_legacy_user_id r = upo_user_id p \<and> lum_user_id r = va_user_id a)
     \<and> (\<exists>r\<in>set (vpd_mappings (ad_policies v)). vpm_country_id r = c \<and> vpm_legacy_policy_id r = upo_reform_id p
          \<and> va_policy_id a = Some (vpm_policy_id r))"
proof -
  have "in_step env uenv c i w0" using assms(1) by (simp add: not_yet_saved_def in_step_def)
  then have w: "in_step env uenv c i w" by (rule steps_in_step [OF assms(2,4,5)])
  obtain res where run: "process_pending_mirror_events uenv (copy_revision env uenv loader copy_others) others faults last_fault c i n w
      = Some (res, (db, v))" "res = Inr copy"
    using mirror_request [OF assms(3)] by (metis (no_types, lifting))
  have others: "in_step env uenv c i (others k u)" if "in_step env uenv c i u" for k u
    using steps_in_step [OF assms(7,4,5) that] .
  have fin: "in_step env uenv c i (db, v)" "reached c i n (db, v) \<or> 1 \<le> n \<and> all_processed c i n db"
    using request_in_step [OF run(1) w assms(4,6) others] run(2) by auto
  obtain ps where ps: "retained uenv c i db p ps" "linked v c i (events_of db c i) ps"
    using fin(1) assms(8) by (auto simp: in_step_def)
  have chain: "chained uenv c i (upo_reform_id p) (upo_user_id p) ps" and len: "n = int (length ps)"
    using ps(1) assms(9) by (simp_all add: retained_def)
  have newest: "pr_source_revision (last ps) = n" if "ps \<noteq> []"
  proof -
    have "0 < length ps" using that by simp
    with chained_index [OF chain, of "length ps - 1"] len that show ?thesis by (simp add: last_conv_nth)
  qed
  have le: "pr_source_revision q \<le> n" if "q \<in> set ps" for q
    using that chained_index [OF chain] len by (auto simp: in_set_conv_nth)
  have "\<exists>q\<in>set ps. n \<le> pr_source_revision q \<and> (\<exists>m a. shows_revision v c i q m a)"
    using fin(2)
  proof
    assume "reached c i n (db, v)"
    then obtain m where m: "read_legacy_user_policy_mapping v c i = Some m" "n \<le> upm_last_applied_source_revision m"
      by (auto simp: reached_def)
    with ps(2) obtain q m' a where q: "q \<in> set ps" "shows_revision v c i q m' a" by (auto simp: linked_def)
    then have "n \<le> pr_source_revision q" using m by (simp add: shows_revision_def)
    with q show ?thesis by blast
  next
    assume all: "1 \<le> n \<and> all_processed c i n db"
    then have "ps \<noteq> []" using len by auto
    then have "Inr (last ps) \<in> set (map (decode_user_policy_event uenv) (events_of db c i))"
      using ps(1) by (simp add: retained_def)
    then obtain e where e: "e \<in> set (events_of db c i)" "decode_user_policy_event uenv e = Inr (last ps)" by auto
    have "ue_source_revision e = n" using decoded_revision [OF e(2)] newest [OF \<open>ps \<noteq> []\<close>] by simp
    with all e(1) have "ue_processed e" by (simp add: all_processed_def)
    with ps(2) e(1) \<open>ue_source_revision e = n\<close> show ?thesis by (auto simp: linked_def)
  qed
  then obtain q m a where q: "q \<in> set ps" "n \<le> pr_source_revision q" "shows_revision v c i q m a" by blast
  then have "ps \<noteq> []" by auto
  then have "q = last ps"
    using q(1,2) le [OF q(1)] newest by (intro chained_same [OF chain]) auto
  then have "pr_snapshot q = user_policy_snapshot_of p" using ps(1) \<open>ps \<noteq> []\<close> by (simp add: retained_def)
  moreover have "pr_source_revision q = n" using q(2) le [OF q(1)] by simp
  moreover have "va_country_id a = c" using q(3) mapped_read mapping_read by (fastforce simp: shows_revision_def mapping_key_def)
  ultimately show ?thesis
    using q(3) by (intro exI [of _ m] exI [of _ a]) (simp add: shows_revision_def user_policy_snapshot_of_def)
qed

section \<open>Updates of nothing\<close>

text \<open>
  An update of no field is recorded as a revision that names no changed field, which cannot be
  read back.
\<close>

lemma empty_update_is_not_copied:
  assumes "update_user_policy uenv c i [] True db = (Inr (Some x), db')" and "c \<in> set SUPPORTED_COUNTRY_IDS"
  shows "decode_user_policy_event uenv (last (ud_events db'))
    = Inl ''saved-policy update mirror event has no changed fields''"
proof -
  obtain p where p: "List.find (\<lambda>p. upo_id p = i \<and> upo_country_id p = c) (ud_rows db) = Some p"
    and run: "recorded_result uenv True p False ''update'' [] (db\<lparr>ud_rows := put_row upo_id p (ud_rows db)\<rparr>) = Inr (x, db')"
    using assms(1) by (auto simp: update_user_policy_def user_policy_write_def Let_def split: option.splits sum.splits)
  have c: "upo_country_id p = c" using find_mem [OF p] by simp
  show ?thesis
  proof (rule recorded_cases [OF run])
    fix q assume q: "q = p\<lparr>upo_mirror_revision := upo_mirror_revision p + 1\<rparr>" "user_snapshot_ok (user_policy_snapshot_of q)"
      "db' = (db\<lparr>ud_rows := put_row upo_id p (ud_rows db)\<rparr>)
        \<lparr>ud_rows := put_row upo_id q (ud_rows (db\<lparr>ud_rows := put_row upo_id p (ud_rows db)\<rparr>)),
         ud_events := ud_events (db\<lparr>ud_rows := put_row upo_id p (ud_rows db)\<rparr>)
           @ [recorded_event uenv q ''update'' [] (ud_next_event (db\<lparr>ud_rows := put_row upo_id p (ud_rows db)\<rparr>))],
         ud_next_event := ud_next_event (db\<lparr>ud_rows := put_row upo_id p (ud_rows db)\<rparr>) + 1\<rparr>"
    have "us_country_id (user_policy_snapshot_of q) = c" "upo_country_id q = c" "us_user_policy_id (user_policy_snapshot_of q) = upo_id q"
      using c supported_lower [OF assms(2)] by (simp_all add: user_policy_snapshot_of_def q(1))
    with q(2) user_snapshot_roundtrip [OF q(2)] decoded_names [of "[]"] show ?thesis
      by (simp add: q(3) recorded_event_def Let_def decode_user_policy_event_def dict_get_none_def event_type_error_def)
  qed
qed

section \<open>A saved policy, renamed and copied\<close>

definition example_user_policy_env :: user_policy_env where
  "example_user_policy_env =
     \<lparr>upe_sha256 = (\<lambda>d. ''digest''), upe_fault = (\<lambda>db. None), upe_report = (\<lambda>p. ''invalid'')\<rparr>"

definition example_saved_policy :: user_policy where
  "example_saved_policy =
     \<lparr>upo_id = 1, upo_country_id = ''us'', upo_reform_id = 7, upo_reform_label = Some ''Credit'', upo_baseline_id = 2,
       upo_baseline_label = None, upo_user_id = ''user'', upo_year = ''2025'', upo_geography = ''us'', upo_dataset = None,
       upo_number_of_provisions = 1, upo_api_version = ''1'', upo_added_date = 0, upo_updated_date = 0,
       upo_budgetary_impact = None, upo_type = None, upo_mirror_revision = 0\<rparr>"

definition example_renamed_policy :: user_policy where
  "example_renamed_policy = example_saved_policy\<lparr>upo_reform_label := Some ''Bigger credit'', upo_mirror_revision := 2\<rparr>"

definition no_user_policies :: user_policy_db where
  "no_user_policies = \<lparr>ud_rows = [], ud_events = [], ud_next_row = 1, ud_next_event = 1\<rparr>"

definition example_accounts :: account_db where
  "example_accounts =
     \<lparr>ad_policies = example_catalog, ad_users = [], ad_identities = [], ad_user_mappings = [], ad_user_policies = [],
       ad_mappings = [], ad_other_associations = []\<rparr>"

definition example_events :: "user_policy_event list" where
  "example_events =
     [recorded_event example_user_policy_env (example_saved_policy\<lparr>upo_mirror_revision := 1\<rparr>) ''create'' [] 1,
      recorded_event example_user_policy_env example_renamed_policy ''update'' [''reform_label''] 2]"

definition saved_once :: user_policy_db where
  "saved_once = \<lparr>ud_rows = [example_saved_policy\<lparr>upo_mirror_revision := 1\<rparr>], ud_events = [hd example_events],
     ud_next_row = 2, ud_next_event = 2\<rparr>"

definition renamed_once :: user_policy_db where
  "renamed_once = \<lparr>ud_rows = [example_renamed_policy], ud_events = example_events, ud_next_row = 2, ud_next_event = 3\<rparr>"

lemma example_texts_ok [simp]:
  "''us'' \<in> set SUPPORTED_COUNTRY_IDS" "py_lower ''us'' = ''us''" "py_strip ''user'' = ''user''"
  by code_simp+

lemma example_created:
  "\<exists>x. create_or_get_user_policy example_user_policy_env example_saved_policy True no_user_policies = (Inr x, saved_once)"
  by (simp add: create_or_get_user_policy_def user_policy_write_def recorded_result_def record_user_policy_event_def
      checked_user_snapshot_def user_snapshot_ok_def user_policy_snapshot_of_def short_text_def find_matching_user_policy_def
      put_row_def Let_def recorded_event_def example_user_policy_env_def example_saved_policy_def no_user_policies_def
      saved_once_def example_events_def)

lemma example_updated:
  "\<exists>x. update_user_policy example_user_policy_env ''us'' 1 [SetReformLabel (Some ''Bigger credit'')] True saved_once
     = (Inr x, renamed_once)"
  by (simp add: update_user_policy_def user_policy_write_def recorded_result_def record_user_policy_event_def
      checked_user_snapshot_def user_snapshot_ok_def user_policy_snapshot_of_def short_text_def
      put_row_def Let_def recorded_event_def example_user_policy_env_def example_saved_policy_def example_renamed_policy_def
      saved_once_def renamed_once_def example_events_def)

lemma example_steps:
  "saved_policy_steps example_v2_policy_env example_user_policy_env ''us'' 1
     (no_user_policies, example_accounts) (renamed_once, example_accounts)"
proof -
  obtain x y where run: "create_or_get_user_policy example_user_policy_env example_saved_policy True no_user_policies = (Inr x, saved_once)"
    "update_user_policy example_user_policy_env ''us'' 1 [SetReformLabel (Some ''Bigger credit'')] True saved_once
       = (Inr y, renamed_once)"
    using example_created example_updated by blast
  have "proper_update [SetReformLabel (Some ''Bigger credit'')]" by (simp add: proper_update_def USER_POLICY_MUTABLE_FIELDS_def)
  with saved_policy_steps.created [OF saved_policy_steps.none run(1)] run(2) show ?thesis
    by (blast intro: saved_policy_steps.updated)
qed

lemma example_start: "not_yet_saved example_v2_policy_env ''us'' 1 (no_user_policies, example_accounts)"
  by (simp add: not_yet_saved_def rows_ok_def account_ok_def undrawn_def example_catalog_ok saved_row_def events_of_def
      read_legacy_user_policy_mapping_def no_user_policies_def example_accounts_def)

definition example_loader :: reform_loader where
  "example_loader country_id policy_id = Inr (Some example_snapshot)"

definition quiet_copy :: "pending_revision \<Rightarrow> copy_others" where
  "quiet_copy event = \<lparr>co_policies = (\<lambda>db. db), co_users = (\<lambda>db. db), co_associations = (\<lambda>db. db)\<rparr>"

lemma quiet_copy_keeps: "keep_copy env c i (quiet_copy event)"
  by (simp add: keep_copy_def quiet_copy_def no_policy_others_ok keeps_copy_def copy_kept_refl)

theorem saved_policy_request_ends_witness:
  "\<exists>answer. mirror_pending_user_policy_events example_v2_policy_env example_user_policy_env example_loader quiet_copy
     (\<lambda>k w. w) (\<lambda>k. None) None ''us'' 1 2 (renamed_once, example_accounts) = Some answer"
  by (rule saved_policy_request_ends [OF example_start example_steps _ _ example_policy_uuid_inj _ quiet_copy_keeps saved_policy_steps.none,
      of example_renamed_policy])
    (simp_all add: saved_row_def renamed_once_def example_renamed_policy_def example_saved_policy_def)

definition example_revisions :: "pending_revision list" where
  "example_revisions =
     [\<lparr>pr_event_id = 1, pr_source_revision = 1, pr_event_type = ''create'',
       pr_snapshot = user_policy_snapshot_of (example_saved_policy\<lparr>upo_mirror_revision := 1\<rparr>), pr_changed_fields = [],
       pr_fingerprint = ''digest''\<rparr>,
      \<lparr>pr_event_id = 2, pr_source_revision = 2, pr_event_type = ''update'',
       pr_snapshot = user_policy_snapshot_of example_renamed_policy, pr_changed_fields = [''reform_label''],
       pr_fingerprint = ''digest''\<rparr>]"

definition copied_association :: v2_user_policy where
  "copied_association =
     \<lparr>va_id = ''aaa'', va_country_id = ''us'', va_user_id = ''aa'', va_policy_id = Some [], va_legacy_policy_id = Some 7,
       va_name = Some ''Credit'', va_description = None, va_baseline = None, va_provenance = JNull, va_created_at = 0,
       va_updated_at = 0\<rparr>"

definition copied_mapping :: user_policy_mapping where
  "copied_mapping =
     \<lparr>upm_country_id = ''us'', upm_legacy_user_policy_id = 1, upm_user_policy_id = ''aaa'',
       upm_last_applied_source_revision = 1, upm_fingerprint_version = 1, upm_fingerprint = ''digest''\<rparr>"

definition copied_accounts :: account_db where
  "copied_accounts =
     example_accounts\<lparr>ad_policies := mirrored_catalog\<lparr>vpd_draws := 4\<rparr>,
       ad_users := [\<lparr>vu_id = ''aa'', vu_primary_country = Some ''us'', vu_type = StandardUser\<rparr>],
       ad_user_mappings := [\<lparr>lum_legacy_user_id = ''user'', lum_user_id = ''aa''\<rparr>],
       ad_user_policies := [copied_association], ad_mappings := [copied_mapping]\<rparr>"

definition renamed_accounts :: account_db where
  "renamed_accounts =
     copied_accounts\<lparr>ad_user_policies := [copied_association\<lparr>va_name := Some ''Bigger credit''\<rparr>],
       ad_mappings := [copied_mapping\<lparr>upm_last_applied_source_revision := 2\<rparr>]\<rparr>"

definition example_copy :: "bool \<Rightarrow> user_policy_copy" where
  "example_copy created =
     \<lparr>upc_association_id = ''aaa'', upc_policy_id = [], upc_association_created = created,
       upc_association_updated = \<not> created, upc_mapping_created = created\<rparr>"

lemma example_snapshots_ok:
  "user_snapshot_ok (user_policy_snapshot_of (example_saved_policy\<lparr>upo_mirror_revision := 1\<rparr>))"
  "user_snapshot_ok (user_policy_snapshot_of example_renamed_policy)"
  by (simp_all add: user_snapshot_ok_def user_policy_snapshot_of_def short_text_def example_renamed_policy_def
      example_saved_policy_def)

lemma example_snapshot_identity:
  "us_country_id (user_policy_snapshot_of (example_saved_policy\<lparr>upo_mirror_revision := 1\<rparr>)) = ''us''"
  "us_user_policy_id (user_policy_snapshot_of (example_saved_policy\<lparr>upo_mirror_revision := 1\<rparr>)) = 1"
  "us_reform_id (user_policy_snapshot_of (example_saved_policy\<lparr>upo_mirror_revision := 1\<rparr>)) = 7"
  "us_country_id (user_policy_snapshot_of example_renamed_policy) = ''us''"
  "us_user_policy_id (user_policy_snapshot_of example_renamed_policy) = 1"
  "us_reform_id (user_policy_snapshot_of example_renamed_policy) = 7"
  by (simp_all add: user_policy_snapshot_of_def example_renamed_policy_def example_saved_policy_def)

lemma example_fingerprint: "fingerprint_legacy_user_policy example_user_policy_env s = ''digest''"
  by (simp add: fingerprint_legacy_user_policy_def example_user_policy_env_def)

lemma example_decoded:
  "decode_user_policy_event example_user_policy_env (example_events ! 0) = Inr (example_revisions ! 0)"
  "decode_user_policy_event example_user_policy_env (example_events ! 1) = Inr (example_revisions ! 1)"
proof -
  have row: "upo_country_id example_saved_policy = ''us''" "upo_id example_saved_policy = 1"
    "upo_country_id example_renamed_policy = ''us''" "upo_id example_renamed_policy = 1"
    "upo_mirror_revision example_renamed_policy = 2"
    by (simp_all add: example_renamed_policy_def example_saved_policy_def)
  show "decode_user_policy_event example_user_policy_env (example_events ! 0) = Inr (example_revisions ! 0)"
    using decode_recorded [OF example_snapshots_ok(1) example_snapshot_identity(1,2), of "[]" "''create''" example_user_policy_env 1 1 False]
    by (simp add: example_events_def example_revisions_def recorded_event_def Let_def event_type_error_def example_fingerprint row)
  show "decode_user_policy_event example_user_policy_env (example_events ! 1) = Inr (example_revisions ! 1)"
    using decode_recorded [OF example_snapshots_ok(2) example_snapshot_identity(4,5), of "[''reform_label'']" "''update''"
        example_user_policy_env 2 2 False]
    by (simp add: example_events_def example_revisions_def recorded_event_def Let_def event_type_error_def example_fingerprint row
        USER_POLICY_MUTABLE_FIELDS_def)
qed

lemma example_reform_copied:
  "mirror_reform_policy example_v2_policy_env (\<lambda>db. db) example_snapshot example_accounts
     = (Inr example_result, example_accounts\<lparr>ad_policies := mirrored_catalog\<rparr>)"
  using example_mirrored
  by (auto simp: mirror_legacy_policy_def policy_transaction_def mirror_reform_policy_def example_accounts_def
      split: prod.splits sum.splits)

lemma example_reform_kept:
  "mirror_legacy_policy_in_session example_v2_policy_env (\<lambda>db. db) example_snapshot (mirrored_catalog\<lparr>vpd_draws := 4\<rparr>)
     = (Inr (example_result\<lparr>pmr_policy_created := False, pmr_mapping_created := False\<rparr>), mirrored_catalog\<lparr>vpd_draws := 4\<rparr>)"
  by (simp add: mirror_legacy_policy_in_session_def read_legacy_policy_mapping_def verify_legacy_policy_mapping_def mirrored_catalog_def example_snapshot_def
      example_result_def example_catalog_def)

definition user_accounts :: account_db where
  "user_accounts =
     example_accounts\<lparr>ad_policies := mirrored_catalog\<lparr>vpd_draws := 3\<rparr>,
       ad_users := [\<lparr>vu_id = ''aa'', vu_primary_country = Some ''us'', vu_type = StandardUser\<rparr>],
       ad_user_mappings := [\<lparr>lum_legacy_user_id = ''user'', lum_user_id = ''aa''\<rparr>]\<rparr>"

lemmas example_account_simps =
  example_v2_policy_env_def example_catalog_def mirrored_catalog_def example_accounts_def user_accounts_def
  copied_accounts_def copied_association_def copied_mapping_def renamed_accounts_def example_copy_def example_result_def

lemma example_user_resolved:
  "resolve_legacy_user_id example_v2_policy_env (\<lambda>db. db) ''user'' ''us'' (example_accounts\<lparr>ad_policies := mirrored_catalog\<rparr>)
     = (Inr ''aa'', user_accounts)"
  "resolve_legacy_user_id example_v2_policy_env (\<lambda>db. db) ''user'' ''us'' copied_accounts = (Inr ''aa'', copied_accounts)"
  by (simp_all add: resolve_legacy_user_id_def read_legacy_user_mapping_def create_provisioned_user_def Let_def drawn_def
      create_legacy_user_mapping_def set_drawn_def read_user_def example_account_simps numeral_2_eq_2)

definition example_input :: "string \<Rightarrow> user_policy_input" where
  "example_input name =
     \<lparr>upi_fields = \<lparr>upf_country_id = ''us'', upf_policy_id = Some [], upf_legacy_policy_id = Some 7, upf_name = Some name,
        upf_description = None, upf_baseline = None, upf_provenance = JNull\<rparr>, upi_user_id = ''aa''\<rparr>"

lemma example_projected:
  "project_legacy_user_policy (pr_snapshot (example_revisions ! 0)) ''aa'' [] = Inr (example_input ''Credit'')"
  "project_legacy_user_policy (pr_snapshot (example_revisions ! 1)) ''aa'' [] = Inr (example_input ''Bigger credit'')"
  by (simp_all add: project_legacy_user_policy_def creation_input_of_def creation_fields_ok_def short_text_def baseline_ok_def
      policy_provenance_ok_def example_input_def example_revisions_def example_renamed_policy_def example_saved_policy_def
      user_policy_snapshot_of_def)

lemma example_persisted:
  "persist_legacy_user_policy_mapping example_v2_policy_env (\<lambda>db. db)
     (revision_of example_user_policy_env (pr_snapshot (example_revisions ! 0)) 1 []) (example_input ''Credit'') user_accounts
   = (Inr (example_copy True), copied_accounts)"
  by (simp add: persist_legacy_user_policy_mapping_def require_mirrored_policy_id_def read_legacy_user_policy_mapping_def
      account_then_def create_user_policy_def read_user_def create_legacy_user_policy_mapping_def revision_of_def Let_def
      drawn_def set_drawn_def now_of_def stored_provenance_def USER_POLICY_FINGERPRINT_VERSION_def example_fingerprint
      example_revisions_def example_snapshot_identity example_input_def example_account_simps numeral_3_eq_3)

lemma example_persisted_again:
  "persist_legacy_user_policy_mapping example_v2_policy_env (\<lambda>db. db)
     (revision_of example_user_policy_env (pr_snapshot (example_revisions ! 1)) 2 [''reform_label''])
     (example_input ''Bigger credit'') copied_accounts
   = (Inr (example_copy False), renamed_accounts)"
proof -
  have label: "us_reform_label (user_policy_snapshot_of example_renamed_policy) = Some ''Bigger credit''"
    by (simp add: user_policy_snapshot_of_def example_renamed_policy_def)
  show ?thesis
    by (simp add: persist_legacy_user_policy_mapping_def require_mirrored_policy_id_def read_legacy_user_policy_mapping_def
        apply_existing_mapping_def validate_existing_mapping_def read_mapped_user_policy_def legacy_name_requires_update_def
        update_legacy_user_policy_state_def put_row_def mapping_key_def revision_of_def Let_def label
        now_of_def USER_POLICY_FINGERPRINT_VERSION_def example_fingerprint
        example_revisions_def example_snapshot_identity example_input_def example_account_simps)
qed

lemma example_validated:
  "validate_legacy_user_policy_input (pr_snapshot (example_revisions ! 0)) example_snapshot 1 = Inr ()"
  "validate_legacy_user_policy_input (pr_snapshot (example_revisions ! 1)) example_snapshot 2 = Inr ()"
  by (simp_all add: validate_legacy_user_policy_input_def example_revisions_def example_snapshot_identity example_snapshot_def)

lemma example_snapshot_users:
  "us_user_id (pr_snapshot (example_revisions ! 0)) = ''user''" "us_country_id (pr_snapshot (example_revisions ! 0)) = ''us''"
  "us_user_id (pr_snapshot (example_revisions ! 1)) = ''user''" "us_country_id (pr_snapshot (example_revisions ! 1)) = ''us''"
  by (simp_all add: example_revisions_def user_policy_snapshot_of_def example_renamed_policy_def example_saved_policy_def)

lemma example_revision_fields:
  "pr_source_revision (example_revisions ! 0) = 1" "pr_changed_fields (example_revisions ! 0) = []"
  "pr_source_revision (example_revisions ! 1) = 2" "pr_changed_fields (example_revisions ! 1) = [''reform_label'']"
  by (simp_all add: example_revisions_def)

lemma quiet_simps:
  "co_policies (quiet_copy e) = (\<lambda>db. db)" "co_users (quiet_copy e) = (\<lambda>db. db)" "co_associations (quiet_copy e) = (\<lambda>db. db)"
  by (simp_all add: quiet_copy_def)

lemma example_first_copied:
  "copy_revision example_v2_policy_env example_user_policy_env example_loader quiet_copy (example_revisions ! 0) example_accounts
     = (Inr (example_copy True), copied_accounts)"
proof -
  have "pmr_policy_id example_result = []" by (simp add: example_result_def)
  then show ?thesis
    by (simp only: copy_revision_def example_loader_def mirror_legacy_user_policy_def account_transaction_def
        mirror_legacy_user_policy_in_session_def account_then_def example_validated example_reform_copied example_snapshot_users
        example_revision_fields example_user_resolved example_projected example_persisted quiet_simps sum.case option.case prod.case)
qed

lemma example_second_copied:
  "copy_revision example_v2_policy_env example_user_policy_env example_loader quiet_copy (example_revisions ! 1) copied_accounts
     = (Inr (example_copy False), renamed_accounts)"
proof -
  have "ad_policies copied_accounts = mirrored_catalog\<lparr>vpd_draws := 4\<rparr>" by (simp add: copied_accounts_def)
  then have reform: "mirror_reform_policy example_v2_policy_env (\<lambda>db. db) example_snapshot copied_accounts
      = (Inr (example_result\<lparr>pmr_policy_created := False, pmr_mapping_created := False\<rparr>), copied_accounts)"
    using example_reform_kept by (simp add: mirror_reform_policy_def copied_accounts_def)
  have "pmr_policy_id (example_result\<lparr>pmr_policy_created := False, pmr_mapping_created := False\<rparr>) = []"
    by (simp add: example_result_def)
  then show ?thesis
    by (simp only: copy_revision_def example_loader_def mirror_legacy_user_policy_def account_transaction_def
        mirror_legacy_user_policy_in_session_def account_then_def example_validated reform example_snapshot_users
        example_revision_fields example_user_resolved example_projected example_persisted_again quiet_simps
        sum.case option.case prod.case)
qed

definition copied_once :: user_policy_db where
  "copied_once = processed_revision (hd example_events) renamed_once"

definition copied_twice :: user_policy_db where
  "copied_twice = processed_revision (example_events ! 1) copied_once"

lemma example_requested:
  "mirror_pending_user_policy_events example_v2_policy_env example_user_policy_env example_loader quiet_copy
     (\<lambda>k w. w) (\<lambda>k. None) None ''us'' 1 2 (renamed_once, example_accounts)
   = Some (Inr (example_copy False), copied_twice, renamed_accounts)"
proof -
  have pending: "next_pending_event renamed_once ''us'' 1 2 = Some (example_events ! 0)"
    "next_pending_event copied_once ''us'' 1 2 = Some (example_events ! 1)"
    by (simp_all add: next_pending_event_def events_of_def processed_revision_def put_row_def copied_once_def renamed_once_def
        example_events_def recorded_event_def Let_def example_renamed_policy_def example_saved_policy_def)
  have first: "process_revision example_user_policy_env
      (copy_revision example_v2_policy_env example_user_policy_env example_loader quiet_copy) None True (example_events ! 0)
      (renamed_once, example_accounts) = (Inr (1, example_copy True), copied_once, copied_accounts)"
    using example_first_copied
    by (simp add: process_revision_def example_decoded copied_once_def) (simp add: example_revisions_def example_events_def)
  have second: "process_revision example_user_policy_env
      (copy_revision example_v2_policy_env example_user_policy_env example_loader quiet_copy) None True (example_events ! 1)
      (copied_once, copied_accounts) = (Inr (2, example_copy False), copied_twice, renamed_accounts)"
    using example_second_copied
    by (simp add: process_revision_def example_decoded [simplified] copied_twice_def) (simp add: example_revisions_def)
  show ?thesis
    unfolding mirror_pending_user_policy_events_def process_pending_mirror_events_def
    by (subst process_pending.simps, simp add: pending first Let_def)
      (subst process_pending.simps, simp add: pending [simplified] second [simplified] Let_def)
qed

theorem saved_policy_copy_is_current_witness:
  "\<exists>m a. read_legacy_user_policy_mapping renamed_accounts ''us'' 1 = Some m \<and> upm_last_applied_source_revision m = 2
     \<and> read_mapped_user_policy renamed_accounts m = Some a \<and> va_name a = Some ''Bigger credit''
     \<and> va_legacy_policy_id a = Some 7"
proof -
  have row: "saved_row copied_twice ''us'' 1 = Some example_renamed_policy"
    by (simp add: saved_row_def copied_twice_def copied_once_def processed_revision_def renamed_once_def
        example_renamed_policy_def example_saved_policy_def)
  have "upo_mirror_revision example_renamed_policy = 2" "upo_reform_label example_renamed_policy = Some ''Bigger credit''"
    "upo_reform_id example_renamed_policy = 7"
    by (simp_all add: example_renamed_policy_def example_saved_policy_def)
  with saved_policy_copy_is_current [OF example_start example_steps example_requested example_policy_uuid_inj
      example_texts_ok(1) quiet_copy_keeps saved_policy_steps.none row]
  show ?thesis by auto
qed

end
