(* ===== verification/V2_User_Requests.thy ===== *)
theory V2_User_Requests
  imports User_Policy_Requests
begin

text \<open>
  Requests of the users of API v2 beside the mirror: whoever creates, changes or deletes saved
  policies, the copies of the saved policies of API v1 stay as their mirror left them.
\<close>

section \<open>Resolving the user of a request\<close>

lemma identities_kept:
  assumes "account_ok env v"
  shows "copy_kept env c i v (v\<lparr>ad_identities := rows\<rparr>)"
  by (rule kept_by_additions [OF assms]) (use assms in \<open>auto simp: account_ok_def undrawn_def drawn_def\<close>)

lemma resolve_standard_kept:
  assumes "resolve_standard env others who country seen v = (res, v')" and "account_ok env v" and "inj (vpe_uuid env)"
    and "keeps_copy env c i others"
  shows "copy_kept env c i v v'"
proof (cases "read_user_identity v (pri_issuer who) (pri_subject who)")
  case (Some r)
  with assms(1) have "v' = v \<or> (\<exists>rows. v' = v\<lparr>ad_identities := rows\<rparr>)"
    by (auto simp: resolve_standard_def update_user_identity_activity_def split: if_splits)
  with copy_kept_refl [OF assms(2)] identities_kept [OF assms(2)] show ?thesis by blast
next
  case None
  let ?w = "others v"
  have w: "copy_kept env c i v ?w" using assms(2,4) by (simp add: keeps_copy_def)
  obtain u v1 where made: "create_provisioned_user env country ?w = (u, v1)" by fastforce
  note new = provisioned_kept [OF copy_kept_ok [OF w] assms(3) made]
  have v1: "copy_kept env c i v v1" using copy_kept_trans [OF w new(1)] .
  have drawn: "drawn v1 = drawn ?w + 1" using made by (auto simp: create_provisioned_user_def Let_def drawn_def)
  show ?thesis
  proof (cases "read_user_identity v1 (pri_issuer who) (pri_subject who)")
    case free: None
    with assms(1) None made have "\<exists>rows. v' = v1\<lparr>ad_identities := rows\<rparr>"
      by (auto simp: resolve_standard_def create_user_identity_def)
    with identities_kept [OF copy_kept_ok [OF v1]] copy_kept_trans [OF v1] show ?thesis by blast
  next
    case (Some r)
    with assms(1) None made have "v' = set_drawn (drawn v1) ?w"
      by (auto simp: resolve_standard_def create_user_identity_def Let_def split: option.splits)
    with set_drawn_kept [OF copy_kept_ok [OF w]] drawn copy_kept_trans [OF w] show ?thesis by simp
  qed
qed

text \<open>A signed-out browser names itself by an id API v2 will not draw.\<close>

definition own_id :: "v2_policy_env \<Rightarrow> account_principal \<Rightarrow> bool" where
  "own_id env who \<longleftrightarrow> (case who of SignedIn p \<Rightarrow> True | SignedOut user_id \<Rightarrow> user_id \<notin> range (vpe_uuid env))"

lemma unauthenticated_kept:
  assumes "account_ok env v" and "user_id \<notin> range (vpe_uuid env)"
  shows "copy_kept env c i v (snd (create_unauthenticated_user user_id v))"
proof (cases "read_user v user_id")
  case None
  have "vpe_uuid env n \<noteq> user_id" for n using assms(2) by auto
  then show ?thesis
    by (intro kept_by_additions [OF assms(1)])
      (use assms(1) None in \<open>auto simp: create_unauthenticated_user_def account_ok_def undrawn_def drawn_def\<close>)
qed (simp add: create_unauthenticated_user_def copy_kept_refl [OF assms(1)])

lemma provision_kept:
  assumes "\<And>f. f \<in> set fs \<Longrightarrow> keeps_copy env c i f" and "user_id \<notin> range (vpe_uuid env)" and "account_ok env v"
  shows "copy_kept env c i v (snd (provision_signed_out fs user_id v))"
  using assms(1,3)
proof (induction fs arbitrary: v)
  case (Cons f fs)
  let ?w = "snd (create_unauthenticated_user user_id v)"
  have w: "copy_kept env c i v ?w" using unauthenticated_kept [OF Cons.prems(2) assms(2)] .
  have "copy_kept env c i ?w (f ?w)" using Cons.prems(1) [of f] copy_kept_ok [OF w] by (simp add: keeps_copy_def)
  with w have f: "copy_kept env c i v (f ?w)" by (rule copy_kept_trans)
  have "copy_kept env c i (f ?w) (snd (provision_signed_out fs user_id (f ?w)))"
    using Cons.IH Cons.prems(1) copy_kept_ok [OF f] by simp
  with f show ?case by (auto simp: Let_def split: sum.split option.split intro: copy_kept_trans)
qed (simp add: copy_kept_refl)

lemma principal_kept:
  assumes "resolve_principal_user env others who country v = (res, v')" and "account_ok env v" and "inj (vpe_uuid env)"
    and "keeps_copy env c i others" and "own_id env who"
  shows "copy_kept env c i v v'"
proof (cases who)
  case (SignedIn p)
  with assms show ?thesis by (auto intro: resolve_standard_kept)
next
  case (SignedOut user_id)
  have "copy_kept env c i v (snd (provision_signed_out (replicate UNAUTHENTICATED_PROVISIONING_ATTEMPTS others) user_id v))"
    using assms(2,4,5) SignedOut by (intro provision_kept) (auto simp: own_id_def)
  with assms(1) SignedOut show ?thesis by (auto simp: resolve_signed_out_def split: prod.splits sum.splits option.splits)
qed

section \<open>Changing and deleting\<close>

lemma changeable_row:
  assumes "changeable_user_policy v user_id country k = Inr a"
  shows "a \<in> set (ad_user_policies v)" and "\<And>m. m \<in> set (ad_mappings v) \<Longrightarrow> upm_user_policy_id m \<noteq> va_id a"
  using assms
  by (auto simp: changeable_user_policy_def account_bind_Inr_iff read_owned_user_policy_def require_user_policy_def
      read_owned_user_policy_row_def require_not_mirror_owned_def read_user_policy_mirror_exists_def find_None_iff
      split: option.splits if_splits dest: find_mem)

lemma find_put_unmatched: "(\<And>y. key y = key x \<Longrightarrow> \<not> P y) \<Longrightarrow> List.find P (put_row key x rows) = List.find P rows"
  by (induction rows) (auto simp: put_row_def)

lemma row_update_kept:
  assumes "changeable_user_policy v user_id country k = Inr a" and "update_user_policy_row a u references v = (b, v')"
    and "account_ok env v"
  shows "copy_kept env c i v v'"
proof -
  note a = changeable_row [OF assms(1)]
  have b: "va_id b = va_id a" "va_user_id b = va_user_id a" "v' = v\<lparr>ad_user_policies := put_row va_id b (ad_user_policies v)\<rparr>"
    using assms(2) by (auto simp: update_user_policy_row_def Let_def split: option.splits prod.splits)
  have ids: "map va_id (put_row va_id b rows) = map va_id rows" for rows by (induction rows) (simp_all add: put_row_def)
  then have id_set: "va_id ` set (put_row va_id b rows) = va_id ` set rows" for rows by (metis list.set_map)
  have owners: "va_user_id ` set (put_row va_id b (ad_user_policies v)) \<subseteq> va_user_id ` set (ad_user_policies v)"
    using a(1) b(2) by (auto simp: put_row_def)
  have "undrawn env v'"
    using assms(3) owners unfolding account_ok_def undrawn_def b(3)
    by (simp add: id_set drawn_def) blast
  moreover have "read_mapped_user_policy v' m = read_mapped_user_policy v m" if "read_legacy_user_policy_mapping v c i = Some m" for m
    unfolding read_mapped_user_policy_def b(3)
    using a(2) [of m] mapping_read [OF that] b(1) by (auto intro!: find_put_unmatched)
  ultimately show ?thesis
    using assms(3) b(3) by (simp add: copy_kept_def account_ok_def ids read_legacy_user_policy_mapping_def)
qed

lemma find_filtered: "(\<And>x. P x \<Longrightarrow> Q x) \<Longrightarrow> List.find P (filter Q xs) = List.find P xs"
  by (induction xs) auto

lemma row_deletion_kept:
  assumes "account_ok env v" and "\<And>m. m \<in> set (ad_mappings v) \<Longrightarrow> upm_user_policy_id m \<noteq> k"
  shows "copy_kept env c i v (delete_user_policy_row k v)"
proof -
  have rows: "filter (\<lambda>m. upm_user_policy_id m \<noteq> k) (ad_mappings v) = ad_mappings v" using assms(2) by (simp add: filter_id_conv)
  have "undrawn env (delete_user_policy_row k v)"
    using assms(1) unfolding account_ok_def undrawn_def by (auto simp: delete_user_policy_row_def drawn_def)
  moreover have "read_mapped_user_policy (delete_user_policy_row k v) m = read_mapped_user_policy v m"
    if "read_legacy_user_policy_mapping v c i = Some m" for m
    unfolding read_mapped_user_policy_def delete_user_policy_row_def
    using assms(2) [of m] mapping_read [OF that] by (auto intro!: find_filtered)
  ultimately show ?thesis
    using assms(1)
    by (simp add: copy_kept_def account_ok_def delete_user_policy_row_def rows read_legacy_user_policy_mapping_def distinct_map_filter)
qed

section \<open>Requests\<close>

lemma user_transaction_kept:
  assumes "keeps_copy env c i others" and "account_ok env v" and "\<And>x v'. m v = (Inr x, v') \<Longrightarrow> copy_kept env c i v v'"
  shows "copy_kept env c i v (snd (account_transaction others m v))"
proof (cases "m v")
  case (Pair r w)
  have o: "copy_kept env c i v (others v)" using assms(1,2) by (simp add: keeps_copy_def)
  have "copy_kept env c i v (set_drawn (max (drawn w) (drawn (others v))) (others v))"
    using copy_kept_trans [OF o set_drawn_kept [OF copy_kept_ok [OF o]]] by simp
  with Pair assms(3) show ?thesis by (cases r) (auto simp: account_transaction_def)
qed

lemma request_kept:
  assumes "keeps_copy env c i others" and "account_ok env v" and "inj (vpe_uuid env)" and "own_id env who"
    and "\<And>owner w x w'. account_ok env w \<Longrightarrow> f owner w = (Inr x, w') \<Longrightarrow> copy_kept env c i w w'"
  shows "copy_kept env c i v (snd (account_transaction others (account_then (resolve_principal_user env others who country) f) v))"
proof (rule user_transaction_kept [OF assms(1,2)])
  fix x v' assume run: "account_then (resolve_principal_user env others who country) f v = (Inr x, v')"
  then obtain owner w where step: "resolve_principal_user env others who country v = (Inr owner, w)" "f owner w = (Inr x, v')"
    by (auto simp: account_then_def split: prod.splits sum.splits)
  have w: "copy_kept env c i v w" using principal_kept [OF step(1) assms(2,3,1,4)] .
  from copy_kept_trans [OF w assms(5) [OF copy_kept_ok [OF w] step(2)]] show "copy_kept env c i v v'" .
qed

text \<open>
  C11. Requests of users of API v2 that create, change or delete saved policies leave the copy of
  every v1 saved policy as it is: its mapping, and the association this names.
\<close>

theorem user_requests_keep_copies:
  assumes "keeps_copy env c i others" and "account_ok env v" and "inj (vpe_uuid env)" and "own_id env who"
  shows "copy_kept env c i v (snd (create_user_policy_for env others checker who f v))
    \<and> copy_kept env c i v (snd (patch_user_policy env others checker who country k u v))
    \<and> copy_kept env c i v (snd (delete_user_policy env others who country k v))"
proof (intro conjI)
  show "copy_kept env c i v (snd (create_user_policy_for env others checker who f v))"
    unfolding create_user_policy_for_def
    by (auto split: sum.split simp: copy_kept_refl [OF assms(2)]
        intro!: request_kept [OF assms] dest: created_association(1) [OF _ _ assms(3)] split: sum.split_asm)
  show "copy_kept env c i v (snd (patch_user_policy env others checker who country k u v))"
    unfolding patch_user_policy_def
    by (auto split: sum.split simp: copy_kept_refl [OF assms(2)] account_bind_Inr_iff
        intro!: request_kept [OF assms] intro: row_update_kept
        split: sum.split_asm prod.split_asm if_split_asm)
  show "copy_kept env c i v (snd (delete_user_policy env others who country k v))"
    unfolding delete_user_policy_def
    by (auto intro!: request_kept [OF assms] row_deletion_kept dest: changeable_row(2) split: sum.split_asm)
qed

section \<open>The owner of a copy\<close>

definition example_person :: user_principal where
  "example_person = \<lparr>pri_issuer = ''issuer'', pri_subject = ''subject'', pri_email = None\<rparr>"

definition owned_copy :: account_db where
  "owned_copy =
     renamed_accounts\<lparr>ad_identities := [\<lparr>ui_user_id = ''aa'', ui_issuer = ''issuer'', ui_subject = ''subject'', ui_email = None,
       ui_last_seen_at = 0\<rparr>]\<rparr>"

definition example_rename :: user_policy_update where
  "example_rename =
     \<lparr>uu_policy_id = None, uu_legacy_policy_id = None, uu_name = Some (Some ''Mine''), uu_description = None, uu_baseline = None,
       uu_provenance = None\<rparr>"

lemma owned_copy_ok: "account_ok example_v2_policy_env owned_copy"
proof -
  have long: "replicate n CHR ''a'' \<noteq> ''aa'' \<and> replicate n CHR ''a'' \<noteq> ''aaa''" if "4 \<le> n" for n
    using that by (auto dest: arg_cong [of _ _ length])
  have "v2p_ok example_v2_policy_env (mirrored_catalog\<lparr>vpd_draws := 4\<rparr>)"
    by (auto simp: v2p_ok_def mirrored_catalog_def example_catalog_def example_v2_policy_env_def intro!: image_eqI [of _ _ 0])
  moreover have "undrawn example_v2_policy_env owned_copy"
    using long
    by (simp add: undrawn_def drawn_def owned_copy_def renamed_accounts_def copied_accounts_def copied_association_def
        copied_mapping_def example_v2_policy_env_def)
  ultimately show ?thesis
    by (simp add: account_ok_def owned_copy_def renamed_accounts_def copied_accounts_def copied_association_def copied_mapping_def)
qed

lemma quiet_keeps_copy: "keeps_copy env c i (\<lambda>db. db)"
  by (simp add: keeps_copy_def copy_kept_refl)

theorem user_requests_keep_copies_witness:
  "read_mapped_user_policy (snd (delete_user_policy example_v2_policy_env (\<lambda>db. db) (SignedIn example_person) ''us'' ''aaa'' owned_copy))
       (copied_mapping\<lparr>upm_last_applied_source_revision := 2\<rparr>)
     = Some (copied_association\<lparr>va_name := Some ''Bigger credit''\<rparr>)"
proof -
  let ?m = "copied_mapping\<lparr>upm_last_applied_source_revision := 2\<rparr>"
  have rows: "read_legacy_user_policy_mapping owned_copy ''us'' 1 = Some ?m"
    "read_mapped_user_policy owned_copy ?m = Some (copied_association\<lparr>va_name := Some ''Bigger credit''\<rparr>)"
    by (simp_all add: read_legacy_user_policy_mapping_def read_mapped_user_policy_def owned_copy_def renamed_accounts_def
        copied_accounts_def copied_association_def copied_mapping_def)
  from user_requests_keep_copies [OF quiet_keeps_copy owned_copy_ok example_policy_uuid_inj, of "SignedIn example_person" "''us''" 1
      None _ "''us''" "''aaa''" example_rename] rows
  show ?thesis by (simp add: own_id_def copy_kept_def)
qed

end
