(* ===== verification/V2_Conversions.thy ===== *)
theory V2_Conversions
  imports V2_User_Requests
begin

text \<open>
  Signing in on a browser that worked signed out: \<open>convert_unauthenticated_user\<close> of
  \<open>policyengine_api/services/v2/identity/services.py\<close> loses none of the browser's saved work, also
  when other sessions sign the same person in meanwhile.
\<close>

section \<open>Identities and their users\<close>

text \<open>Every identity names a user that is not signed out, and ids still to draw name none.\<close>

definition names_account :: "account_db \<Rightarrow> string \<Rightarrow> bool" where
  "names_account v user_id \<longleftrightarrow>
     user_id \<in> vu_id ` set (ad_users v) \<and> (\<forall>u\<in>set (ad_users v). vu_id u = user_id \<longrightarrow> vu_type u = StandardUser)"

definition identities_ok :: "v2_policy_env \<Rightarrow> account_db \<Rightarrow> bool" where
  "identities_ok env v \<longleftrightarrow>
     (\<forall>r\<in>set (ad_identities v). names_account v (ui_user_id r)) \<and> (\<forall>n\<ge>drawn v. vpe_uuid env n \<notin> vu_id ` set (ad_users v))"

text \<open>The associations of a user, of every kind.\<close>

definition owned_rows :: "account_db \<Rightarrow> string \<Rightarrow> v2_user_policy set \<times> other_association set" where
  "owned_rows v user_id =
     ({a \<in> set (ad_user_policies v). va_user_id a = user_id}, {a \<in> set (ad_other_associations v). oa_user_id a = user_id})"

text \<open>
  Other sessions while the browser's row is locked: they leave that user and its associations, and
  keep identities to users that exist and are not signed out.
\<close>

definition leaves_user :: "v2_policy_env \<Rightarrow> string \<Rightarrow> (account_db \<Rightarrow> account_db) \<Rightarrow> bool" where
  "leaves_user env user_id others \<longleftrightarrow>
     (\<forall>v. identities_ok env v \<longrightarrow> identities_ok env (others v) \<and> owned_rows (others v) user_id = owned_rows v user_id
        \<and> read_unauthenticated_user (others v) user_id = read_unauthenticated_user v user_id)"

lemma find_appended: "List.find P xs = Some x \<Longrightarrow> List.find P (xs @ ys) = Some x"
  by (induction xs) (auto split: if_splits)

lemma identity_of:
  assumes "read_user_identity v issuer subject = Some r"
  shows "r \<in> set (ad_identities v)"
  using find_mem [of _ _ r] assms unfolding read_user_identity_def by blast

lemma signed_out_row:
  assumes "read_unauthenticated_user v user_id = Some u"
  shows "u \<in> set (ad_users v)" and "vu_id u = user_id" and "vu_type u = UnauthenticatedUser"
  using find_mem [OF assms [unfolded read_unauthenticated_user_def]] by auto

lemma identity_elsewhere:
  assumes "identities_ok env v" and "read_unauthenticated_user v user_id = Some u" and "r \<in> set (ad_identities v)"
  shows "ui_user_id r \<noteq> user_id"
  using assms(1,3) signed_out_row [OF assms(2)] unfolding identities_ok_def names_account_def by fastforce

lemma identities_ok_cong:
  assumes "identities_ok env v" and "ui_user_id ` set (ad_identities v') \<subseteq> ui_user_id ` set (ad_identities v)"
    and "ad_users v' = ad_users v" and "drawn v' = drawn v"
  shows "identities_ok env v'"
proof -
  have "\<forall>k\<in>ui_user_id ` set (ad_identities v). names_account v k" using assms(1) by (simp add: identities_ok_def)
  then have "\<forall>k\<in>ui_user_id ` set (ad_identities v'). names_account v k" using assms(2) by blast
  moreover have "names_account v' = names_account v" by (rule ext) (simp add: names_account_def assms(3))
  ultimately show ?thesis using assms(1,3,4) by (simp add: identities_ok_def)
qed

text \<open>Signing in resolves to another user and touches nothing of the browser's.\<close>

lemma signed_in_elsewhere:
  assumes "resolve_standard env others who country seen v = (Inr owner, v')" and "identities_ok env v"
    and "inj (vpe_uuid env)" and "leaves_user env user_id others" and "read_unauthenticated_user v user_id = Some u"
    and "user_id \<notin> range (vpe_uuid env)"
  shows "ru_user_id owner \<noteq> user_id" and "identities_ok env v'" and "owned_rows v' user_id = owned_rows v user_id"
    and "read_unauthenticated_user v' user_id = Some u"
proof -
  let ?w = "others v"
  have w: "identities_ok env ?w" "owned_rows ?w user_id = owned_rows v user_id" "read_unauthenticated_user ?w user_id = Some u"
    using assms(2,4,5) by (auto simp: leaves_user_def)
  let ?who = "\<lambda>v. read_user_identity v (pri_issuer who) (pri_subject who)"
  let ?goal = "ru_user_id owner \<noteq> user_id \<and> identities_ok env v' \<and> owned_rows v' user_id = owned_rows v user_id
    \<and> read_unauthenticated_user v' user_id = Some u"
  have ?goal
  proof (cases "?who v")
    case (Some r)
    have owner: "ru_user_id owner = ui_user_id r"
      and v': "v' = v \<or> (\<exists>e. v' = update_user_identity_activity r e seen v)"
      using assms(1) Some
      by (cases "identity_refresh_required r (pri_email who) seen"; auto simp: resolve_standard_def standard_resolved_user_def)+
    have "ui_user_id ` set (ad_identities (update_user_identity_activity r e seen v)) \<subseteq> ui_user_id ` set (ad_identities v)" for e
      using identity_of [OF Some] by (auto simp: update_user_identity_activity_def put_row_def)
    then have "identities_ok env (update_user_identity_activity r e seen v)" for e
      by (rule identities_ok_cong [OF assms(2)]) (simp_all add: update_user_identity_activity_def drawn_def)
    moreover have "owned_rows (update_user_identity_activity r e seen v) user_id = owned_rows v user_id"
      "read_unauthenticated_user (update_user_identity_activity r e seen v) user_id = Some u" for e
      using assms(5) by (simp_all add: owned_rows_def update_user_identity_activity_def read_unauthenticated_user_def)
    ultimately show ?thesis
      using v' owner assms(2,5) identity_elsewhere [OF assms(2,5) identity_of [OF Some]] by auto
  next
    case None
    let ?u = "\<lparr>vu_id = vpe_uuid env (drawn ?w), vu_primary_country = Some country, vu_type = StandardUser\<rparr>"
    let ?v1 = "set_drawn (drawn ?w + 1) (?w\<lparr>ad_users := ad_users ?w @ [?u]\<rparr>)"
    have made: "create_provisioned_user env country ?w = (?u, ?v1)" by (simp add: create_provisioned_user_def Let_def)
    have fresh: "vpe_uuid env n \<noteq> vpe_uuid env (drawn ?w)" if "drawn ?w + 1 \<le> n" for n
      using that injD [OF assms(3), of n "drawn ?w"] by auto
    have new: "vpe_uuid env (drawn ?w) \<notin> vu_id ` set (ad_users ?w)" using w(1) by (simp add: identities_ok_def names_account_def)
    show ?thesis
    proof (cases "?who ?w")
      case free: None
      define rows where "rows = ad_identities ?w @ [\<lparr>ui_user_id = vpe_uuid env (drawn ?w), ui_issuer = pri_issuer who,
        ui_subject = pri_subject who, ui_email = pri_email who, ui_last_seen_at = seen\<rparr>]"
      have v': "ru_user_id owner = vpe_uuid env (drawn ?w)" "v' = ?v1\<lparr>ad_identities := rows\<rparr>"
        using assms(1) None free made
        by (auto simp: resolve_standard_def create_user_identity_def standard_resolved_user_def read_user_identity_def rows_def)
      have "identities_ok env v'"
        unfolding identities_ok_def
      proof (intro conjI ballI allI impI)
        fix r assume "r \<in> set (ad_identities v')"
        then have "r \<in> set (ad_identities ?w) \<or> ui_user_id r = vu_id ?u" by (auto simp: v'(2) rows_def)
        moreover have "vu_id y \<noteq> vpe_uuid env (drawn ?w)" if "y \<in> set (ad_users ?w)" for y
          using new imageI [OF that, of vu_id] by auto
        ultimately show "names_account v' (ui_user_id r)"
          using w(1) unfolding v'(2) by (auto simp: identities_ok_def names_account_def)
      next
        fix n assume "drawn v' \<le> n"
        then have "drawn ?w + 1 \<le> n" by (simp add: v'(2) drawn_def)
        with fresh [OF this] w(1) show "vpe_uuid env n \<notin> vu_id ` set (ad_users v')" by (simp add: identities_ok_def v'(2))
      qed
      moreover have "owned_rows v' user_id = owned_rows ?w user_id" by (simp add: v'(2) owned_rows_def)
      moreover have "read_unauthenticated_user v' user_id = Some u"
        using w(3) by (simp add: v'(2) read_unauthenticated_user_def find_appended)
      ultimately show ?thesis using v'(1) w(2) assms(6) by auto
    next
      case (Some r)
      have v': "ru_user_id owner = ui_user_id r" "v' = set_drawn (drawn ?w + 1) ?w"
        using assms(1) None Some made
        by (auto simp: resolve_standard_def create_user_identity_def standard_resolved_user_def read_user_identity_def Let_def)
      have "identities_ok env v'" using w(1) unfolding identities_ok_def names_account_def v'(2) by simp
      moreover have "owned_rows v' user_id = owned_rows ?w user_id" by (simp add: v'(2) owned_rows_def)
      moreover have "read_unauthenticated_user v' user_id = Some u" using w(3) by (simp add: v'(2) read_unauthenticated_user_def)
      ultimately show ?thesis using v'(1) w(2) identity_elsewhere [OF w(1,3) identity_of [OF Some]] by auto
    qed
  qed
  then show "ru_user_id owner \<noteq> user_id" "identities_ok env v'" "owned_rows v' user_id = owned_rows v user_id"
    "read_unauthenticated_user v' user_id = Some u" by auto
qed

section \<open>Conversion\<close>

lemma find_none: "(\<And>x. x \<in> set xs \<Longrightarrow> \<not> P x) \<Longrightarrow> List.find P xs = None"
  by (induction xs) auto

lemma reassigned_and_deleted:
  fixes v :: account_db
  assumes "identities_ok env v" and "owner \<noteq> user_id" and "read_unauthenticated_user v user_id = Some u"
    and "v' = delete_unauthenticated_user user_id (reassign_user_associations user_id owner v)"
  shows "identities_ok env v'" and "read_unauthenticated_user v' user_id = None"
    and "a \<in> fst (owned_rows v user_id) \<Longrightarrow> a\<lparr>va_user_id := owner\<rparr> \<in> set (ad_user_policies v')"
    and "b \<in> snd (owned_rows v user_id) \<Longrightarrow> b\<lparr>oa_user_id := owner\<rparr> \<in> set (ad_other_associations v')"
proof -
  have "read_unauthenticated_user (reassign_user_associations user_id owner v) user_id = Some u"
    using assms(3) by (simp add: read_unauthenticated_user_def reassign_user_associations_def)
  then have v': "v' = delete_user_row user_id (reassign_user_associations user_id owner v)"
    by (simp add: assms(4) delete_unauthenticated_user_def)
  show "identities_ok env v'"
    using assms(1) unfolding identities_ok_def names_account_def v'
    by (auto simp: delete_user_row_def reassign_user_associations_def Let_def drawn_def image_iff)
  show "read_unauthenticated_user v' user_id = None"
    unfolding v' by (auto simp: read_unauthenticated_user_def delete_user_row_def Let_def find_None_iff)
  show "a \<in> fst (owned_rows v user_id) \<Longrightarrow> a\<lparr>va_user_id := owner\<rparr> \<in> set (ad_user_policies v')"
    using assms(2) by (auto simp: v' owned_rows_def delete_user_row_def reassign_user_associations_def Let_def image_iff)
  show "b \<in> snd (owned_rows v user_id) \<Longrightarrow> b\<lparr>oa_user_id := owner\<rparr> \<in> set (ad_other_associations v')"
    using assms(2) by (auto simp: v' owned_rows_def delete_user_row_def reassign_user_associations_def Let_def image_iff)
qed

text \<open>
  C9. A browser's signed-out user that signs in keeps its saved work, whether its user becomes the
  account or is merged into one: every association it owned is the account's afterwards, no
  signed-out user is left under its id, and identities still name accounts.
\<close>

theorem conversion_keeps_saved_work:
  assumes "convert_unauthenticated_user env others others' user_id who country v = (Inr (owner, outcome), v')"
    and "read_unauthenticated_user v user_id = Some u" and "identities_ok env v" and "inj (vpe_uuid env)"
    and "leaves_user env user_id others" and "leaves_user env user_id others'" and "user_id \<notin> range (vpe_uuid env)"
  shows "(\<forall>a\<in>set (ad_user_policies v). va_user_id a = user_id \<longrightarrow> a\<lparr>va_user_id := ru_user_id owner\<rparr> \<in> set (ad_user_policies v'))
     \<and> (\<forall>a\<in>set (ad_other_associations v). oa_user_id a = user_id
          \<longrightarrow> a\<lparr>oa_user_id := ru_user_id owner\<rparr> \<in> set (ad_other_associations v'))
     \<and> read_unauthenticated_user v' user_id = None \<and> identities_ok env v'"
proof -
  let ?w = "others v"
  have id: "vu_id u = user_id" using signed_out_row [OF assms(2)] by simp
  have w: "identities_ok env ?w" "owned_rows ?w user_id = owned_rows v user_id" "read_unauthenticated_user ?w user_id = Some u"
    using assms(2,3,5) by (auto simp: leaves_user_def)
  have kept: "fst (owned_rows v user_id) = {a \<in> set (ad_user_policies v). va_user_id a = user_id}"
    "snd (owned_rows v user_id) = {a \<in> set (ad_other_associations v). oa_user_id a = user_id}" by (simp_all add: owned_rows_def)
  show ?thesis
  proof (cases "find_standard who v = None \<and> read_user_identity ?w (pri_issuer who) (pri_subject who) = None")
    case True
    define rows where "rows = ad_identities ?w @ [\<lparr>ui_user_id = user_id, ui_issuer = pri_issuer who,
      ui_subject = pri_subject who, ui_email = pri_email who, ui_last_seen_at = now_of v\<rparr>]"
    define x where "x = u\<lparr>vu_type := StandardUser, vu_primary_country := Some (converted_primary_country u country)\<rparr>"
    have v': "ru_user_id owner = user_id" "v' = ?w\<lparr>ad_identities := rows, ad_users := put_row vu_id x (ad_users ?w)\<rparr>"
      using assms(1,2) True id
      by (auto simp: convert_unauthenticated_user_def Let_def create_user_identity_def update_user_to_standard_def
          standard_resolved_user_def rows_def x_def)
    have x: "vu_id x = user_id" "vu_type x = StandardUser" by (simp_all add: x_def id)
    have users: "vu_id ` set (ad_users v') = vu_id ` set (ad_users ?w)"
      "\<And>y. y \<in> set (ad_users v') \<Longrightarrow> y \<in> set (ad_users ?w) \<and> vu_id y \<noteq> user_id \<or> y = x"
      using x signed_out_row [OF w(3)] by (auto simp: v'(2) put_row_def image_iff) (metis x(1))+
    have "identities_ok env v'"
      unfolding identities_ok_def
    proof (intro conjI ballI allI impI)
      fix r assume "r \<in> set (ad_identities v')"
      then have r: "r \<in> set (ad_identities ?w) \<or> ui_user_id r = user_id" by (auto simp: v'(2) rows_def)
      then have "ui_user_id r \<in> vu_id ` set (ad_users v')"
        unfolding users(1) using w(1) signed_out_row [OF w(3)] by (auto simp: identities_ok_def names_account_def)
      moreover have "vu_type y = StandardUser" if y: "y \<in> set (ad_users v')" "vu_id y = ui_user_id r" for y
        using r users(2) [OF y(1)] y(2) w(1) x(2) by (auto simp: identities_ok_def names_account_def)
      ultimately show "names_account v' (ui_user_id r)" by (simp add: names_account_def)
    next
      fix n assume "drawn v' \<le> n"
      then show "vpe_uuid env n \<notin> vu_id ` set (ad_users v')"
        unfolding users(1) using w(1) by (simp add: identities_ok_def names_account_def v'(2) drawn_def)
    qed
    moreover have "read_unauthenticated_user v' user_id = None"
      unfolding read_unauthenticated_user_def using users(2) x by (intro find_none) fastforce
    moreover have "owned_rows v' user_id = owned_rows v user_id" using w(2) by (simp add: owned_rows_def v'(2))
    moreover have "a\<lparr>va_user_id := user_id\<rparr> = a" if "va_user_id a = user_id" for a using that by (cases a) simp
    moreover have "b\<lparr>oa_user_id := user_id\<rparr> = b" if "oa_user_id b = user_id" for b using that by (cases b) simp
    ultimately show ?thesis unfolding v'(1) owned_rows_def by auto
  next
    case False
    then obtain v2 where run: "resolve_standard env others' who country (now_of v) ?w = (Inr owner, v2)"
      "v' = delete_unauthenticated_user user_id (reassign_user_associations user_id (ru_user_id owner) v2)"
      using assms(1,2) id
      by (auto simp: convert_unauthenticated_user_def Let_def create_user_identity_def split: if_splits prod.splits sum.splits)
    note elsewhere = signed_in_elsewhere [OF run(1) w(1) assms(4,6) w(3) assms(7)]
    note moved = reassigned_and_deleted [OF elsewhere(2,1,4) run(2)]
    show ?thesis using moved(1,2) moved(3,4) [unfolded elsewhere(3) w(2) kept] by blast
  qed
qed

section \<open>A browser's saved policy\<close>

definition example_browser :: account_db where
  "example_browser =
     example_accounts\<lparr>ad_users := [\<lparr>vu_id = ''browser'', vu_primary_country = None, vu_type = UnauthenticatedUser\<rparr>],
       ad_user_policies := [copied_association\<lparr>va_user_id := ''browser''\<rparr>]\<rparr>"

lemma browser_not_drawn: "''browser'' \<notin> range (vpe_uuid example_v2_policy_env)"
proof
  assume "''browser'' \<in> range (vpe_uuid example_v2_policy_env)"
  then obtain n where "''browser'' = replicate n CHR ''a''" by (auto simp: example_v2_policy_env_def)
  then have "CHR ''b'' \<in> set (replicate n CHR ''a'')" by (metis list.set_intros(1))
  then show False by simp
qed

lemma example_browser_ok: "identities_ok example_v2_policy_env example_browser"
  using browser_not_drawn by (auto simp: identities_ok_def example_browser_def example_accounts_def dest: range_eqI [OF sym])

lemma quiet_leaves_user: "leaves_user env user_id (\<lambda>db. db)"
  by (simp add: leaves_user_def)

theorem conversion_keeps_saved_work_witness:
  "(case convert_unauthenticated_user example_v2_policy_env (\<lambda>db. db) (\<lambda>db. db) ''browser'' example_person ''us'' example_browser of
      (Inr (owner, outcome), v') \<Rightarrow>
        outcome = Converted \<and> copied_association\<lparr>va_user_id := ru_user_id owner\<rparr> \<in> set (ad_user_policies v')
        \<and> read_unauthenticated_user v' ''browser'' = None
    | _ \<Rightarrow> False)"
proof -
  let ?u = "\<lparr>vu_id = ''browser'', vu_primary_country = None, vu_type = UnauthenticatedUser\<rparr>"
  have row: "read_unauthenticated_user example_browser ''browser'' = Some ?u"
    by (simp add: read_unauthenticated_user_def example_browser_def)
  have nobody: "read_user_identity example_browser issuer subject = None" for issuer subject
    by (simp add: read_user_identity_def example_browser_def example_accounts_def)
  obtain owner v' where run: "convert_unauthenticated_user example_v2_policy_env (\<lambda>db. db) (\<lambda>db. db) ''browser'' example_person ''us''
      example_browser = (Inr (owner, Converted), v')"
    by (simp add: convert_unauthenticated_user_def Let_def row find_standard_def nobody create_user_identity_def)
  have saved: "copied_association\<lparr>va_user_id := ''browser''\<rparr> \<in> set (ad_user_policies example_browser)"
    by (simp add: example_browser_def)
  from conversion_keeps_saved_work [OF run row example_browser_ok example_policy_uuid_inj quiet_leaves_user quiet_leaves_user
      browser_not_drawn] saved
  have "copied_association\<lparr>va_user_id := ''browser''\<rparr>\<lparr>va_user_id := ru_user_id owner\<rparr> \<in> set (ad_user_policies v')"
    "read_unauthenticated_user v' ''browser'' = None" by auto
  with run show ?thesis by simp
qed

end
