(* ===== verification/Comparison_Runs.thy ===== *)
theory Comparison_Runs
  imports V1_Routes
begin

text \<open>
  \<open>policyengine_api/services/v2/comparison_runs\<close> with its connectors: reports and simulations of
  a copied calculation, their contracts, the moves of their statuses, and the service.

  The fields a contract lists by name are read by name, as the source does with \<open>getattr\<close>; the
  three statuses and the role are enumerations. A time is its UTC microsecond and whether it
  carries a timezone; a column stores it with one, sessions being in UTC. One operation is one
  transaction that locks the row it writes, and each writes last.
\<close>

section \<open>Field values\<close>

datatype field_value =
    NoneV
  | TextV string
  | IntV int
  | TimeV bool int
  | TextsV "string list"

definition supplied :: "field_value \<Rightarrow> bool" where
  "supplied v = (v \<noteq> NoneV)"

definition any_supplied :: "field_value list \<Rightarrow> bool" where
  "any_supplied vs = list_ex supplied vs"

definition all_supplied :: "field_value list \<Rightarrow> bool" where
  "all_supplied vs = list_all supplied vs"

datatype field_type =
    ContractText | Sha256Digest | StorageUri | DatasetUri | ErrorCode | ErrorSummary | Uuid
  | CountryId | ContractVersion | Positive | Natural | Moment | ContractTexts | Optional field_type

definition has_length :: "nat \<Rightarrow> nat \<Rightarrow> string \<Rightarrow> bool" where
  "has_length low high s \<longleftrightarrow> low \<le> length s \<and> length s \<le> high"

definition is_storage_uri :: "string \<Rightarrow> bool" where
  "is_storage_uri s \<longleftrightarrow>
     has_length 6 2048 s \<and> take 5 s = ''gs://''
     \<and> (let rest = drop 5 s; bucket = takeWhile (\<lambda>c. c \<noteq> CHR ''/'') rest; path = drop (length bucket + 1) rest
        in bucket \<noteq> [] \<and> path \<noteq> [] \<and> CHR 0x0A \<notin> set path)"

definition is_digest :: "string \<Rightarrow> bool" where
  "is_digest s \<longleftrightarrow> length s = 64 \<and> list_all (\<lambda>c. c \<in> set ''0123456789abcdef'') s"

fun field_ok :: "field_type \<Rightarrow> field_value \<Rightarrow> bool" where
  "field_ok ContractText v = (case v of TextV s \<Rightarrow> has_length 1 255 s | _ \<Rightarrow> False)"
| "field_ok Sha256Digest v = (case v of TextV s \<Rightarrow> is_digest s | _ \<Rightarrow> False)"
| "field_ok StorageUri v = (case v of TextV s \<Rightarrow> is_storage_uri s | _ \<Rightarrow> False)"
| "field_ok DatasetUri v = (case v of TextV s \<Rightarrow> has_length 1 2048 s | _ \<Rightarrow> False)"
| "field_ok ErrorCode v = (case v of TextV s \<Rightarrow> has_length 1 64 s | _ \<Rightarrow> False)"
| "field_ok ErrorSummary v = (case v of TextV s \<Rightarrow> has_length 1 512 s | _ \<Rightarrow> False)"
| "field_ok Uuid v = (case v of TextV s \<Rightarrow> length s = 36 | _ \<Rightarrow> False)"
| "field_ok CountryId v = (case v of TextV s \<Rightarrow> s \<in> set SUPPORTED_COUNTRY_IDS | _ \<Rightarrow> False)"
| "field_ok ContractVersion v = (v = IntV 1)"
| "field_ok Positive v = (case v of IntV i \<Rightarrow> 1 \<le> i | _ \<Rightarrow> False)"
| "field_ok Natural v = (case v of IntV i \<Rightarrow> 0 \<le> i | _ \<Rightarrow> False)"
| "field_ok Moment v = (case v of TimeV z t \<Rightarrow> True | _ \<Rightarrow> False)"
| "field_ok ContractTexts v = (case v of TextsV ss \<Rightarrow> list_all (has_length 1 255) ss | _ \<Rightarrow> False)"
| "field_ok (Optional t) v = (v = NoneV \<or> field_ok t v)"

definition fields_ok :: "(string \<times> field_type) list \<Rightarrow> (string \<Rightarrow> field_value) \<Rightarrow> bool" where
  "fields_ok types get = list_all (\<lambda>(f, t). field_ok t (get f)) types"

section \<open>Statuses\<close>

datatype run_status =
    PendingRun | RunningRun | SucceededRun | FailedRun | IncompleteRun | SkippedRun

datatype aggregation_status =
    NotStartedAggregation | RunningAggregation | SucceededAggregation | FailedAggregation

datatype comparison_status =
    NotRequestedComparison | PendingComparison | RunningComparison | MatchedComparison
  | DifferentComparison | FailedComparison

datatype simulation_role = BaselineRole | ReformRole | StandaloneRole

fun run_status_value :: "run_status \<Rightarrow> string" where
  "run_status_value PendingRun = ''pending''"
| "run_status_value RunningRun = ''running''"
| "run_status_value SucceededRun = ''succeeded''"
| "run_status_value FailedRun = ''failed''"
| "run_status_value IncompleteRun = ''incomplete''"
| "run_status_value SkippedRun = ''skipped''"

fun aggregation_status_value :: "aggregation_status \<Rightarrow> string" where
  "aggregation_status_value NotStartedAggregation = ''not_started''"
| "aggregation_status_value RunningAggregation = ''running''"
| "aggregation_status_value SucceededAggregation = ''succeeded''"
| "aggregation_status_value FailedAggregation = ''failed''"

fun comparison_status_value :: "comparison_status \<Rightarrow> string" where
  "comparison_status_value NotRequestedComparison = ''not_requested''"
| "comparison_status_value PendingComparison = ''pending''"
| "comparison_status_value RunningComparison = ''running''"
| "comparison_status_value MatchedComparison = ''matched''"
| "comparison_status_value DifferentComparison = ''different''"
| "comparison_status_value FailedComparison = ''failed''"

fun role_value :: "simulation_role \<Rightarrow> string" where
  "role_value BaselineRole = ''baseline''"
| "role_value ReformRole = ''reform''"
| "role_value StandaloneRole = ''standalone''"

fun ALLOWED_TRANSITIONS :: "run_status \<Rightarrow> run_status list" where
  "ALLOWED_TRANSITIONS PendingRun = [PendingRun, RunningRun, FailedRun, SkippedRun]"
| "ALLOWED_TRANSITIONS RunningRun = [RunningRun, SucceededRun, FailedRun, IncompleteRun]"
| "ALLOWED_TRANSITIONS IncompleteRun = [IncompleteRun, RunningRun, FailedRun]"
| "ALLOWED_TRANSITIONS SucceededRun = [SucceededRun]"
| "ALLOWED_TRANSITIONS FailedRun = [FailedRun, RunningRun]"
| "ALLOWED_TRANSITIONS SkippedRun = [SkippedRun]"

fun ALLOWED_AGGREGATION_TRANSITIONS :: "aggregation_status \<Rightarrow> aggregation_status list" where
  "ALLOWED_AGGREGATION_TRANSITIONS NotStartedAggregation =
     [NotStartedAggregation, RunningAggregation, FailedAggregation]"
| "ALLOWED_AGGREGATION_TRANSITIONS RunningAggregation =
     [RunningAggregation, SucceededAggregation, FailedAggregation]"
| "ALLOWED_AGGREGATION_TRANSITIONS SucceededAggregation = [SucceededAggregation]"
| "ALLOWED_AGGREGATION_TRANSITIONS FailedAggregation = [FailedAggregation, RunningAggregation]"

fun ALLOWED_RESULT_COMPARISON_TRANSITIONS :: "comparison_status \<Rightarrow> comparison_status list" where
  "ALLOWED_RESULT_COMPARISON_TRANSITIONS NotRequestedComparison = [NotRequestedComparison]"
| "ALLOWED_RESULT_COMPARISON_TRANSITIONS PendingComparison =
     [PendingComparison, RunningComparison, MatchedComparison, DifferentComparison, FailedComparison]"
| "ALLOWED_RESULT_COMPARISON_TRANSITIONS RunningComparison =
     [RunningComparison, MatchedComparison, DifferentComparison, FailedComparison]"
| "ALLOWED_RESULT_COMPARISON_TRANSITIONS MatchedComparison = [MatchedComparison]"
| "ALLOWED_RESULT_COMPARISON_TRANSITIONS DifferentComparison = [DifferentComparison]"
| "ALLOWED_RESULT_COMPARISON_TRANSITIONS FailedComparison = [FailedComparison]"

definition require_lifecycle_transition :: "run_status \<Rightarrow> run_status \<Rightarrow> unit result" where
  "require_lifecycle_transition current candidate =
     (if candidate \<notin> set (ALLOWED_TRANSITIONS current)
      then Inl (ValueError (''comparison-run lifecycle cannot move from '' @ run_status_value current
             @ '' to '' @ run_status_value candidate)) else Inr ())"

definition require_aggregation_transition :: "aggregation_status \<Rightarrow> aggregation_status \<Rightarrow> unit result" where
  "require_aggregation_transition current candidate =
     (if candidate \<notin> set (ALLOWED_AGGREGATION_TRANSITIONS current)
      then Inl (ValueError (''comparison-run aggregation cannot move from '' @ aggregation_status_value current
             @ '' to '' @ aggregation_status_value candidate)) else Inr ())"

definition require_result_comparison_transition :: "comparison_status \<Rightarrow> comparison_status \<Rightarrow> unit result" where
  "require_result_comparison_transition current candidate =
     (if candidate \<notin> set (ALLOWED_RESULT_COMPARISON_TRANSITIONS current)
      then Inl (ValueError (''result comparison cannot move from '' @ comparison_status_value current
             @ '' to '' @ comparison_status_value candidate)) else Inr ())"


section \<open>Reports\<close>

record comparison_report =
  cr_status :: run_status
  cr_aggregation_status :: aggregation_status
  cr_comparison_status :: comparison_status
  cr_value :: "string \<Rightarrow> field_value"

definition report_field :: "comparison_report \<Rightarrow> string \<Rightarrow> field_value" where
  "report_field r f =
     (if f = ''status'' then TextV (run_status_value (cr_status r))
      else if f = ''aggregation_status'' then TextV (aggregation_status_value (cr_aggregation_status r))
      else if f = ''comparison_status'' then TextV (comparison_status_value (cr_comparison_status r))
      else cr_value r f)"

definition REPORT_FIELD_TYPES :: "(string \<times> field_type) list" where
  "REPORT_FIELD_TYPES =
     [(''contract_version'', ContractVersion), (''evaluation_id'', Uuid), (''environment'', ContractText),
      (''calculation_flow'', ContractText), (''originating_request_id'', ContractText),
      (''production_identity'', ContractText), (''incumbent_execution_id'', Optional ContractText),
      (''worker_version'', ContractText), (''modal_application'', ContractText),
      (''report_coordinator_callable'', ContractText), (''version_manifest_sha256'', Sha256Digest),
      (''policyengine_version'', ContractText), (''country_package_name'', ContractText),
      (''country_package_version'', ContractText), (''country'', CountryId), (''dataset_identity'', ContractText),
      (''dataset_uri'', DatasetUri), (''data_package_name'', ContractText), (''data_package_version'', ContractText),
      (''data_artifact_revision'', ContractText), (''coordinator_invocation_id'', Optional ContractText),
      (''error_code'', Optional ErrorCode), (''error_summary'', Optional ErrorSummary),
      (''aggregate_output_uri'', Optional StorageUri), (''aggregate_output_sha256'', Optional Sha256Digest),
      (''aggregate_schema_version'', Optional Positive), (''comparison_output_uri'', Optional StorageUri),
      (''comparison_output_sha256'', Optional Sha256Digest), (''comparison_schema_version'', Optional Positive),
      (''comparison_completed_at'', Optional Moment), (''comparison_error_code'', Optional ErrorCode),
      (''comparison_error_summary'', Optional ErrorSummary), (''created_at'', Moment), (''updated_at'', Moment),
      (''started_at'', Optional Moment), (''completed_at'', Optional Moment), (''retention_expires_at'', Moment)]"

definition REPORT_FIELDS :: "string list" where
  "REPORT_FIELDS = [''status'', ''aggregation_status'', ''comparison_status''] @ map fst REPORT_FIELD_TYPES"

definition check :: "bool \<Rightarrow> string \<Rightarrow> unit result" where
  "check wrong message = (if wrong then Inl (ValueError message) else Inr ())"

text \<open>Thirty days of microseconds.\<close>

definition MAX_COMPARISON_RUN_ARTIFACT_RETENTION :: int where
  "MAX_COMPARISON_RUN_ARTIFACT_RETENTION = 30 * 24 * 3600 * 1000000"

definition has_timezone :: "field_value \<Rightarrow> bool" where
  "has_timezone v = (case v of TimeV zone t \<Rightarrow> zone | _ \<Rightarrow> False)"

definition instant :: "field_value \<Rightarrow> int" where
  "instant v = (case v of TimeV zone t \<Rightarrow> t | _ \<Rightarrow> 0)"

definition validate_retention :: "field_value \<Rightarrow> field_value \<Rightarrow> unit result" where
  "validate_retention created_at retention_expires_at =
     res_bind (check (\<not> has_timezone created_at \<or> \<not> has_timezone retention_expires_at)
       ''comparison retention timestamps must include a timezone'') (\<lambda>u.
     res_bind (check (instant retention_expires_at - instant created_at \<le> 0)
       ''comparison retention must be greater than zero'') (\<lambda>u.
     check (instant retention_expires_at - instant created_at > MAX_COMPARISON_RUN_ARTIFACT_RETENTION)
       ''comparison retention must not exceed 30 days''))"

definition aggregate_output :: "comparison_report \<Rightarrow> field_value list" where
  "aggregate_output r =
     map (cr_value r) [''aggregate_output_uri'', ''aggregate_output_sha256'', ''aggregate_schema_version'']"

definition comparison_output :: "comparison_report \<Rightarrow> field_value list" where
  "comparison_output r =
     map (cr_value r) [''comparison_output_uri'', ''comparison_output_sha256'', ''comparison_schema_version'']"

definition validate_successful_report :: "comparison_report \<Rightarrow> unit result" where
  "validate_successful_report r =
     res_bind (check (cr_aggregation_status r \<noteq> SucceededAggregation)
       ''a successful report requires successful aggregation'') (\<lambda>u.
     res_bind (check (\<not> all_supplied (aggregate_output r))
       ''a successful report requires an aggregate output'') (\<lambda>u.
     check (cr_value r ''completed_at'' = NoneV) ''a successful report requires completed_at''))"

definition validate_report_lifecycle :: "comparison_report \<Rightarrow> unit result" where
  "validate_report_lifecycle r =
     res_bind (check (any_supplied (aggregate_output r) \<and> \<not> all_supplied (aggregate_output r))
       ''aggregate output fields must be supplied together'') (\<lambda>u.
     res_bind (if cr_status r = SucceededRun then validate_successful_report r else Inr ()) (\<lambda>u.
     check (cr_status r \<in> {FailedRun, SkippedRun} \<and> cr_value r ''error_code'' = NoneV)
       ''a failed or skipped report requires an error_code''))"

definition validate_incomplete_comparison :: "comparison_report \<Rightarrow> unit result" where
  "validate_incomplete_comparison r =
     res_bind (check (any_supplied (comparison_output r))
       ''an incomplete comparison cannot reference an output artifact'') (\<lambda>u.
     res_bind (check (supplied (cr_value r ''comparison_completed_at''))
       ''an incomplete comparison cannot have completed_at'') (\<lambda>u.
     res_bind (check (supplied (cr_value r ''comparison_error_code''))
       ''an incomplete comparison cannot have an error_code'') (\<lambda>u.
     check (supplied (cr_value r ''comparison_error_summary''))
       ''an incomplete comparison cannot have an error_summary'')))"

definition validate_completed_comparison :: "comparison_report \<Rightarrow> unit result" where
  "validate_completed_comparison r =
     res_bind (check (\<not> all_supplied (comparison_output r))
       ''a completed comparison requires an output artifact'') (\<lambda>u.
     res_bind (check (cr_value r ''comparison_completed_at'' = NoneV)
       ''a completed comparison requires completed_at'') (\<lambda>u.
     res_bind (check (supplied (cr_value r ''comparison_error_code''))
       ''a completed comparison cannot have an error_code'') (\<lambda>u.
     check (supplied (cr_value r ''comparison_error_summary''))
       ''a completed comparison cannot have an error_summary'')))"

definition validate_failed_comparison :: "comparison_report \<Rightarrow> unit result" where
  "validate_failed_comparison r =
     res_bind (check (any_supplied (comparison_output r))
       ''a failed comparison cannot reference an output artifact'') (\<lambda>u.
     res_bind (check (cr_value r ''comparison_completed_at'' = NoneV)
       ''a failed comparison requires completed_at'') (\<lambda>u.
     check (cr_value r ''comparison_error_code'' = NoneV) ''a failed comparison requires an error_code''))"

definition validate_comparison_state :: "comparison_report \<Rightarrow> unit result" where
  "validate_comparison_state r =
     (if cr_comparison_status r \<in> {NotRequestedComparison, PendingComparison, RunningComparison}
      then validate_incomplete_comparison r
      else if cr_comparison_status r \<in> {MatchedComparison, DifferentComparison}
      then validate_completed_comparison r
      else validate_failed_comparison r)"

text \<open>A validated contract; the message is the one pydantic's own report names.\<close>

definition validated_report :: "comparison_report \<Rightarrow> comparison_report result" where
  "validated_report r =
     res_bind (check (\<not> fields_ok REPORT_FIELD_TYPES (cr_value r)) ''a field is not of its type'') (\<lambda>u.
     res_bind (validate_retention (cr_value r ''created_at'') (cr_value r ''retention_expires_at'')) (\<lambda>u.
     res_bind (validate_report_lifecycle r) (\<lambda>u.
     res_bind (validate_comparison_state r) (\<lambda>u. Inr r))))"

section \<open>Simulations\<close>

record comparison_simulation =
  cs_status :: run_status
  cs_role :: simulation_role
  cs_value :: "string \<Rightarrow> field_value"

definition simulation_field :: "comparison_simulation \<Rightarrow> string \<Rightarrow> field_value" where
  "simulation_field s f =
     (if f = ''status'' then TextV (run_status_value (cs_status s))
      else if f = ''role'' then TextV (role_value (cs_role s)) else cs_value s f)"

definition SIMULATION_FIELD_TYPES :: "(string \<times> field_type) list" where
  "SIMULATION_FIELD_TYPES =
     [(''contract_version'', ContractVersion), (''simulation_execution_id'', Uuid), (''evaluation_id'', Uuid),
      (''input_sha256'', Sha256Digest), (''worker_version'', ContractText), (''modal_application'', ContractText),
      (''simulation_callable'', ContractText), (''version_manifest_sha256'', Sha256Digest),
      (''modal_invocation_id'', Optional ContractText), (''error_code'', Optional ErrorCode),
      (''error_summary'', Optional ErrorSummary), (''output_uri'', Optional StorageUri),
      (''output_sha256'', Optional Sha256Digest), (''output_schema_version'', Optional Positive),
      (''row_identity_columns'', Optional ContractTexts), (''row_count'', Optional Natural),
      (''row_identity_sha256'', Optional Sha256Digest), (''created_at'', Moment), (''updated_at'', Moment),
      (''started_at'', Optional Moment), (''completed_at'', Optional Moment), (''retention_expires_at'', Moment)]"

definition SIMULATION_FIELDS :: "string list" where
  "SIMULATION_FIELDS = [''status'', ''role''] @ map fst SIMULATION_FIELD_TYPES"

definition simulation_output :: "comparison_simulation \<Rightarrow> field_value list" where
  "simulation_output s =
     map (cs_value s) [''output_uri'', ''output_sha256'', ''output_schema_version'', ''row_identity_columns'',
                       ''row_count'', ''row_identity_sha256'']"

definition validate_simulation_state :: "comparison_simulation \<Rightarrow> unit result" where
  "validate_simulation_state s =
     res_bind (check (any_supplied (simulation_output s) \<and> \<not> all_supplied (simulation_output s))
       ''simulation output fields must be supplied together'') (\<lambda>u.
     res_bind (case cs_value s ''row_identity_columns'' of
         TextsV columns \<Rightarrow>
           res_bind (check (columns = []) ''row_identity_columns must not be empty'') (\<lambda>u.
           check (length columns \<noteq> card (set columns)) ''row_identity_columns must be unique'')
       | _ \<Rightarrow> Inr ()) (\<lambda>u.
     res_bind (if cs_status s = SucceededRun
         then res_bind (check (\<not> all_supplied (simulation_output s)) ''a successful simulation requires an output'') (\<lambda>u.
              check (cs_value s ''completed_at'' = NoneV) ''a successful simulation requires completed_at'')
         else Inr ()) (\<lambda>u.
     check (cs_status s \<in> {FailedRun, SkippedRun} \<and> cs_value s ''error_code'' = NoneV)
       ''a failed or skipped simulation requires an error_code'')))"

definition validated_simulation :: "comparison_simulation \<Rightarrow> comparison_simulation result" where
  "validated_simulation s =
     res_bind (check (\<not> fields_ok SIMULATION_FIELD_TYPES (cs_value s)) ''a field is not of its type'') (\<lambda>u.
     res_bind (validate_retention (cs_value s ''created_at'') (cs_value s ''retention_expires_at'')) (\<lambda>u.
     res_bind (validate_simulation_state s) (\<lambda>u. Inr s)))"

section \<open>What an identity fixes\<close>

fun require_equal_fields :: "(string \<Rightarrow> field_value) \<Rightarrow> (string \<Rightarrow> field_value) \<Rightarrow> string list \<Rightarrow> unit result" where
  "require_equal_fields existing candidate [] = Inr ()"
| "require_equal_fields existing candidate (f # fs) =
     (if existing f \<noteq> candidate f
      then Inl (ValueError (''comparison-run field '' @ f @ '' is immutable for an existing identity''))
      else require_equal_fields existing candidate fs)"

definition REPORT_CONFLICT_FIELDS :: "string list" where
  "REPORT_CONFLICT_FIELDS =
     [''contract_version'', ''environment'', ''calculation_flow'', ''production_identity'', ''worker_version'',
      ''modal_application'', ''report_coordinator_callable'', ''version_manifest_sha256'', ''policyengine_version'',
      ''country_package_name'', ''country_package_version'', ''country'', ''dataset_identity'', ''dataset_uri'',
      ''data_package_name'', ''data_package_version'', ''data_artifact_revision'']"

definition REPORT_IMMUTABLE_FIELDS :: "string list" where
  "REPORT_IMMUTABLE_FIELDS =
     [''evaluation_id'', ''contract_version'', ''environment'', ''calculation_flow'', ''originating_request_id'',
      ''production_identity'', ''incumbent_execution_id'', ''worker_version'', ''modal_application'',
      ''report_coordinator_callable'', ''version_manifest_sha256'', ''policyengine_version'',
      ''country_package_name'', ''country_package_version'', ''country'', ''dataset_identity'', ''dataset_uri'',
      ''data_package_name'', ''data_package_version'', ''data_artifact_revision'', ''created_at'',
      ''retention_expires_at'']"

definition SIMULATION_IMMUTABLE_FIELDS :: "string list" where
  "SIMULATION_IMMUTABLE_FIELDS =
     [''simulation_execution_id'', ''evaluation_id'', ''contract_version'', ''role'', ''input_sha256'',
      ''worker_version'', ''modal_application'', ''simulation_callable'', ''version_manifest_sha256'',
      ''created_at'', ''retention_expires_at'']"

definition SIMULATION_CONFLICT_FIELDS :: "string list" where
  "SIMULATION_CONFLICT_FIELDS =
     [''evaluation_id'', ''contract_version'', ''role'', ''input_sha256'', ''worker_version'',
      ''modal_application'', ''simulation_callable'', ''version_manifest_sha256'']"

definition REPORT_RESULT_COMPARISON_FIELDS :: "string list" where
  "REPORT_RESULT_COMPARISON_FIELDS =
     [''comparison_status'', ''comparison_output_uri'', ''comparison_output_sha256'', ''comparison_schema_version'',
      ''comparison_completed_at'', ''comparison_error_code'', ''comparison_error_summary'']"

definition REPORT_SUCCEEDED_REPLAY_FIELDS :: "string list" where
  "REPORT_SUCCEEDED_REPLAY_FIELDS =
     filter (\<lambda>f. f \<noteq> ''updated_at'' \<and> f \<notin> set REPORT_RESULT_COMPARISON_FIELDS) REPORT_FIELDS"

definition SIMULATION_SUCCEEDED_REPLAY_FIELDS :: "string list" where
  "SIMULATION_SUCCEEDED_REPLAY_FIELDS = filter (\<lambda>f. f \<noteq> ''updated_at'') SIMULATION_FIELDS"

definition require_report_fields :: "string list \<Rightarrow> comparison_report \<Rightarrow> comparison_report \<Rightarrow> unit result" where
  "require_report_fields fs existing candidate = require_equal_fields (report_field existing) (report_field candidate) fs"

definition require_simulation_fields ::
  "string list \<Rightarrow> comparison_simulation \<Rightarrow> comparison_simulation \<Rightarrow> unit result" where
  "require_simulation_fields fs existing candidate =
     require_equal_fields (simulation_field existing) (simulation_field candidate) fs"

definition PARENT_FIELDS :: "string list" where
  "PARENT_FIELDS =
     [''contract_version'', ''worker_version'', ''modal_application'', ''version_manifest_sha256'', ''created_at'',
      ''retention_expires_at'']"

definition require_simulation_parent_matches :: "comparison_report \<Rightarrow> comparison_simulation \<Rightarrow> unit result" where
  "require_simulation_parent_matches parent child =
     (if simulation_field child ''evaluation_id'' \<noteq> report_field parent ''evaluation_id''
      then Inl (ValueError ''comparison child names a different parent evaluation_id'')
      else case List.find (\<lambda>f. simulation_field child f \<noteq> report_field parent f) PARENT_FIELDS of
        Some f \<Rightarrow> Inl (ValueError (''comparison child '' @ f @ '' does not match its parent''))
      | None \<Rightarrow> Inr ())"


section \<open>The store\<close>

record comparison_db =
  cd_reports :: "comparison_report list"
  cd_simulations :: "comparison_simulation list"
  cd_clock :: int

fun stored_value :: "field_value \<Rightarrow> field_value" where
  "stored_value (TimeV zone t) = TimeV True t"
| "stored_value v = v"

definition report_insert_values :: "comparison_report \<Rightarrow> comparison_report" where
  "report_insert_values r = r\<lparr>cr_value := \<lambda>f. stored_value (cr_value r f)\<rparr>"

definition simulation_insert_values :: "comparison_simulation \<Rightarrow> comparison_simulation" where
  "simulation_insert_values s = s\<lparr>cs_value := \<lambda>f. stored_value (cs_value s f)\<rparr>"

definition REPORT_IDENTITY :: "string list" where
  "REPORT_IDENTITY =
     [''environment'', ''calculation_flow'', ''production_identity'', ''worker_version'', ''version_manifest_sha256'']"

definition SIMULATION_IDENTITY :: "string list" where
  "SIMULATION_IDENTITY =
     [''evaluation_id'', ''role'', ''input_sha256'', ''worker_version'', ''version_manifest_sha256'']"

definition read_comparison_report :: "comparison_db \<Rightarrow> field_value \<Rightarrow> comparison_report option" where
  "read_comparison_report db evaluation_id =
     List.find (\<lambda>r. report_field r ''evaluation_id'' = evaluation_id) (cd_reports db)"

definition read_comparison_report_by_identity :: "comparison_db \<Rightarrow> comparison_report \<Rightarrow> comparison_report option" where
  "read_comparison_report_by_identity db record =
     List.find (\<lambda>r. map (report_field r) REPORT_IDENTITY = map (report_field record) REPORT_IDENTITY) (cd_reports db)"

definition read_comparison_simulation :: "comparison_db \<Rightarrow> field_value \<Rightarrow> comparison_simulation option" where
  "read_comparison_simulation db execution_id =
     List.find (\<lambda>s. simulation_field s ''simulation_execution_id'' = execution_id) (cd_simulations db)"

definition read_comparison_simulation_by_identity ::
  "comparison_db \<Rightarrow> comparison_simulation \<Rightarrow> comparison_simulation option" where
  "read_comparison_simulation_by_identity db record =
     List.find (\<lambda>s. map (simulation_field s) SIMULATION_IDENTITY = map (simulation_field record) SIMULATION_IDENTITY)
       (cd_simulations db)"

text \<open>
  An insert yields to a row with the identity; a primary key that is taken raises.
\<close>

definition create_comparison_report :: "comparison_report \<Rightarrow> (comparison_db, field_value option) act" where
  "create_comparison_report record db =
     (if read_comparison_report_by_identity db record \<noteq> None then (Inr None, db)
      else if read_comparison_report db (report_field record ''evaluation_id'') \<noteq> None
      then (Inl (IntegrityErr ''stage12_evaluation_reports_pkey''), db)
      else (Inr (Some (report_field record ''evaluation_id'')),
            db\<lparr>cd_reports := cd_reports db @ [report_insert_values record]\<rparr>))"

definition create_comparison_simulation :: "comparison_simulation \<Rightarrow> (comparison_db, field_value option) act" where
  "create_comparison_simulation record db =
     (if read_comparison_simulation_by_identity db record \<noteq> None then (Inr None, db)
      else if read_comparison_simulation db (simulation_field record ''simulation_execution_id'') \<noteq> None
      then (Inl (IntegrityErr ''stage12_evaluation_simulations_pkey''), db)
      else (Inr (Some (simulation_field record ''simulation_execution_id'')),
            db\<lparr>cd_simulations := cd_simulations db @ [simulation_insert_values record]\<rparr>))"

definition REPORT_MUTABLE_FIELDS :: "string list" where
  "REPORT_MUTABLE_FIELDS =
     [''coordinator_invocation_id'', ''error_code'', ''error_summary'', ''aggregate_output_uri'',
      ''aggregate_output_sha256'', ''aggregate_schema_version'', ''updated_at'', ''started_at'', ''completed_at'']"

definition SIMULATION_MUTABLE_FIELDS :: "string list" where
  "SIMULATION_MUTABLE_FIELDS =
     [''modal_invocation_id'', ''error_code'', ''error_summary'', ''output_uri'', ''output_sha256'',
      ''output_schema_version'', ''row_count'', ''row_identity_sha256'', ''updated_at'', ''started_at'', ''completed_at'']"

definition REPORT_COMPARISON_FIELDS :: "string list" where
  "REPORT_COMPARISON_FIELDS =
     [''comparison_output_uri'', ''comparison_output_sha256'', ''comparison_schema_version'',
      ''comparison_completed_at'', ''comparison_error_code'', ''comparison_error_summary'', ''updated_at'']"

text \<open>
  The columns after a flush: those assigned, and the time of the flush where a row changed and
  its \<open>updated_at\<close> was assigned the value it had.
\<close>

definition assigned_fields ::
  "int \<Rightarrow> string list \<Rightarrow> bool \<Rightarrow> (string \<Rightarrow> field_value) \<Rightarrow> (string \<Rightarrow> field_value) \<Rightarrow> string \<Rightarrow> field_value" where
  "assigned_fields now names status_changed row record f =
     (if f = ''updated_at'' \<and> record f = row f \<and> (status_changed \<or> list_ex (\<lambda>g. record g \<noteq> row g) names)
      then TimeV True now
      else if f \<in> set names then stored_value (record f) else row f)"

definition updated_comparison_report :: "int \<Rightarrow> comparison_report \<Rightarrow> comparison_report \<Rightarrow> comparison_report" where
  "updated_comparison_report now row record =
     row\<lparr>cr_status := cr_status record, cr_aggregation_status := cr_aggregation_status record,
         cr_value := assigned_fields now REPORT_MUTABLE_FIELDS
           (cr_status record \<noteq> cr_status row \<or> cr_aggregation_status record \<noteq> cr_aggregation_status row)
           (cr_value row) (cr_value record)\<rparr>"

definition updated_report_result_comparison ::
  "int \<Rightarrow> comparison_report \<Rightarrow> comparison_report \<Rightarrow> comparison_report" where
  "updated_report_result_comparison now row record =
     row\<lparr>cr_comparison_status := cr_comparison_status record,
         cr_value := assigned_fields now REPORT_COMPARISON_FIELDS
           (cr_comparison_status record \<noteq> cr_comparison_status row) (cr_value row) (cr_value record)\<rparr>"

definition updated_comparison_simulation ::
  "int \<Rightarrow> comparison_simulation \<Rightarrow> comparison_simulation \<Rightarrow> comparison_simulation" where
  "updated_comparison_simulation now row record =
     row\<lparr>cs_status := cs_status record,
         cs_value := assigned_fields now (''row_identity_columns'' # SIMULATION_MUTABLE_FIELDS)
           (cs_status record \<noteq> cs_status row) (cs_value row) (cs_value record)\<rparr>"

text \<open>The row of an id replaced.\<close>

definition put_report :: "comparison_report \<Rightarrow> comparison_db \<Rightarrow> comparison_db" where
  "put_report r db =
     db\<lparr>cd_reports := map (\<lambda>x. if cr_value x ''evaluation_id'' = cr_value r ''evaluation_id'' then r else x)
          (cd_reports db)\<rparr>"

definition put_simulation :: "comparison_simulation \<Rightarrow> comparison_db \<Rightarrow> comparison_db" where
  "put_simulation s db =
     db\<lparr>cd_simulations :=
          map (\<lambda>x. if cs_value x ''simulation_execution_id'' = cs_value s ''simulation_execution_id'' then s else x)
            (cd_simulations db)\<rparr>"

definition update_comparison_report :: "comparison_report \<Rightarrow> comparison_report \<Rightarrow> (comparison_db, comparison_report) act" where
  "update_comparison_report row record db =
     (let r = updated_comparison_report (cd_clock db) row record in (Inr r, put_report r db))"

definition update_report_result_comparison ::
  "comparison_report \<Rightarrow> comparison_report \<Rightarrow> (comparison_db, comparison_report) act" where
  "update_report_result_comparison row record db =
     (let r = updated_report_result_comparison (cd_clock db) row record in (Inr r, put_report r db))"

definition update_comparison_simulation ::
  "comparison_simulation \<Rightarrow> comparison_simulation \<Rightarrow> (comparison_db, comparison_simulation) act" where
  "update_comparison_simulation row record db =
     (let s = updated_comparison_simulation (cd_clock db) row record in (Inr s, put_simulation s db))"

section \<open>The service\<close>

definition comparison_not_found :: "string \<Rightarrow> field_value \<Rightarrow> exn" where
  "comparison_not_found kind key =
     LookupErr (''comparison '' @ kind @ '' '' @ (case key of TextV s \<Rightarrow> s | _ \<Rightarrow> []) @ '' does not exist'')"

definition stored_report :: "comparison_db \<Rightarrow> field_value \<Rightarrow> comparison_report result" where
  "stored_report db evaluation_id =
     (case read_comparison_report db evaluation_id of
        None \<Rightarrow> Inl (comparison_not_found ''report'' evaluation_id) | Some row \<Rightarrow> Inr row)"

definition resolved_row :: "'a option \<Rightarrow> string \<Rightarrow> 'a result" where
  "resolved_row found message = (case found of None \<Rightarrow> Inl (ValueError message) | Some row \<Rightarrow> Inr row)"

definition create_or_resolve_report :: "comparison_report \<Rightarrow> (comparison_db, comparison_report \<times> bool) act" where
  "create_or_resolve_report record =
     bindA (create_comparison_report record) (\<lambda>created_id db.
       (case created_id of
          Some evaluation_id \<Rightarrow>
            res_bind (resolved_row (read_comparison_report db evaluation_id)
              ''created comparison report could not be reloaded'') (\<lambda>row.
            res_bind (validated_report row) (\<lambda>r. Inr (r, True)))
        | None \<Rightarrow>
            res_bind (resolved_row (read_comparison_report_by_identity db record)
              ''comparison report conflict did not resolve to an existing identity'') (\<lambda>row.
            res_bind (validated_report row) (\<lambda>existing.
            res_bind (require_report_fields REPORT_CONFLICT_FIELDS existing record) (\<lambda>u. Inr (existing, False)))), db))"

definition create_or_resolve_simulation ::
  "comparison_simulation \<Rightarrow> (comparison_db, comparison_simulation \<times> bool) act" where
  "create_or_resolve_simulation record db =
     bindA (liftA (res_bind (stored_report db (simulation_field record ''evaluation_id'')) (\<lambda>row.
              res_bind (validated_report row) (\<lambda>parent. require_simulation_parent_matches parent record)))) (\<lambda>u.
     bindA (create_comparison_simulation record) (\<lambda>created_id db.
       (case created_id of
          Some execution_id \<Rightarrow>
            res_bind (resolved_row (read_comparison_simulation db execution_id)
              ''created comparison simulation could not be reloaded'') (\<lambda>row.
            res_bind (validated_simulation row) (\<lambda>s. Inr (s, True)))
        | None \<Rightarrow>
            res_bind (resolved_row (read_comparison_simulation_by_identity db record)
              ''comparison simulation conflict did not resolve to an existing identity'') (\<lambda>row.
            res_bind (validated_simulation row) (\<lambda>existing.
            res_bind (require_simulation_fields SIMULATION_CONFLICT_FIELDS existing record)
              (\<lambda>u. Inr (existing, False)))), db))) db"

text \<open>The checks of a move, and whether it is the replay of a receipt.\<close>

definition checked_report_lifecycle :: "comparison_report \<Rightarrow> comparison_report \<Rightarrow> bool result" where
  "checked_report_lifecycle existing record =
     res_bind (require_report_fields REPORT_IMMUTABLE_FIELDS existing record) (\<lambda>u.
     res_bind (require_report_fields REPORT_RESULT_COMPARISON_FIELDS existing record) (\<lambda>u.
     res_bind (require_lifecycle_transition (cr_status existing) (cr_status record)) (\<lambda>u.
     res_bind (require_aggregation_transition (cr_aggregation_status existing) (cr_aggregation_status record)) (\<lambda>u.
       if cr_status existing = SucceededRun
       then res_bind (require_report_fields REPORT_SUCCEEDED_REPLAY_FIELDS existing record) (\<lambda>u. Inr True)
       else Inr False))))"

definition replace_report_lifecycle :: "comparison_report \<Rightarrow> (comparison_db, comparison_report) act" where
  "replace_report_lifecycle record db =
     bindA (liftA (stored_report db (report_field record ''evaluation_id''))) (\<lambda>row.
     bindA (liftA (validated_report row)) (\<lambda>existing.
     bindA (liftA (checked_report_lifecycle existing record)) (\<lambda>replayed.
       if replayed then retA existing
       else bindA (update_comparison_report row record) (\<lambda>r. liftA (validated_report r))))) db"

definition checked_result_comparison :: "comparison_report \<Rightarrow> comparison_report \<Rightarrow> bool result" where
  "checked_result_comparison existing record =
     res_bind (require_report_fields REPORT_SUCCEEDED_REPLAY_FIELDS existing record) (\<lambda>u.
     res_bind (require_result_comparison_transition (cr_comparison_status existing) (cr_comparison_status record)) (\<lambda>u.
       if cr_comparison_status existing \<in> {MatchedComparison, DifferentComparison}
       then res_bind (require_report_fields REPORT_RESULT_COMPARISON_FIELDS existing record) (\<lambda>u. Inr True)
       else Inr False))"

definition replace_report_result_comparison :: "comparison_report \<Rightarrow> (comparison_db, comparison_report) act" where
  "replace_report_result_comparison record db =
     bindA (liftA (stored_report db (report_field record ''evaluation_id''))) (\<lambda>row.
     bindA (liftA (validated_report row)) (\<lambda>existing.
     bindA (liftA (checked_result_comparison existing record)) (\<lambda>replayed.
       if replayed then retA existing
       else bindA (update_report_result_comparison row record) (\<lambda>r. liftA (validated_report r))))) db"

definition checked_simulation_lifecycle :: "comparison_simulation \<Rightarrow> comparison_simulation \<Rightarrow> bool result" where
  "checked_simulation_lifecycle existing record =
     res_bind (require_simulation_fields SIMULATION_IMMUTABLE_FIELDS existing record) (\<lambda>u.
     res_bind (require_lifecycle_transition (cs_status existing) (cs_status record)) (\<lambda>u.
       if cs_status existing = SucceededRun
       then res_bind (require_simulation_fields SIMULATION_SUCCEEDED_REPLAY_FIELDS existing record) (\<lambda>u. Inr True)
       else Inr False))"

definition replace_simulation_lifecycle :: "comparison_simulation \<Rightarrow> (comparison_db, comparison_simulation) act" where
  "replace_simulation_lifecycle record db =
     bindA (liftA (case read_comparison_simulation db (simulation_field record ''simulation_execution_id'') of
         None \<Rightarrow> Inl (comparison_not_found ''simulation'' (simulation_field record ''simulation_execution_id''))
       | Some row \<Rightarrow> Inr row)) (\<lambda>row.
     bindA (liftA (validated_simulation row)) (\<lambda>existing.
     bindA (liftA (checked_simulation_lifecycle existing record)) (\<lambda>replayed.
       if replayed then retA existing
       else bindA (update_comparison_simulation row record) (\<lambda>s. liftA (validated_simulation s))))) db"

definition get_comparison_report :: "comparison_db \<Rightarrow> field_value \<Rightarrow> comparison_report result" where
  "get_comparison_report db evaluation_id = res_bind (stored_report db evaluation_id) validated_report"

text \<open>A transaction that raises leaves the store as it was.\<close>

definition comparison_transaction :: "(comparison_db, 'a) act \<Rightarrow> (comparison_db, 'a) act" where
  "comparison_transaction m db =
     (case m db of (Inr x, db') \<Rightarrow> (Inr x, db') | (Inl e, db') \<Rightarrow> (Inl e, db))"

end
