(* ===== verification/Comparison_Contracts.thy ===== *)
theory Comparison_Contracts
  imports Comparison_Runs
begin

text \<open>
  The contracts of comparison runs: validity rests on values as they are stored, a valid contract
  fits its table's checks, and a checked move leads from a valid row to a valid row.
\<close>

section \<open>Contracts\<close>

definition valid_report :: "comparison_report \<Rightarrow> bool" where
  "valid_report r \<longleftrightarrow> validated_report r = Inr r"

definition valid_simulation :: "comparison_simulation \<Rightarrow> bool" where
  "valid_simulation s \<longleftrightarrow> validated_simulation s = Inr s"

lemma check_Inr [simp]: "check wrong message = Inr u \<longleftrightarrow> \<not> wrong"
  by (simp add: check_def)

lemma validated_report_valid: "validated_report r = Inr r' \<longleftrightarrow> r' = r \<and> valid_report r"
  by (auto simp: valid_report_def validated_report_def res_bind_Inr_iff)

lemma validated_simulation_valid: "validated_simulation s = Inr s' \<longleftrightarrow> s' = s \<and> valid_simulation s"
  by (auto simp: valid_simulation_def validated_simulation_def res_bind_Inr_iff)

lemma require_equal_fields_iff [simp]: "require_equal_fields e c fs = Inr u \<longleftrightarrow> (\<forall>f\<in>set fs. e f = c f)"
  by (induction fs) auto

lemma stored_value_idem [simp]: "stored_value (stored_value v) = stored_value v"
  by (cases v) auto

lemma stored_value_None [simp]: "stored_value v = NoneV \<longleftrightarrow> v = NoneV" "supplied (stored_value v) = supplied v"
  by (cases v; simp add: supplied_def)+

lemma stored_text [simp]: "stored_value v = TextV s \<longleftrightarrow> v = TextV s" "stored_value v = IntV i \<longleftrightarrow> v = IntV i"
  "stored_value v = TextsV ss \<longleftrightarrow> v = TextsV ss"
  by (cases v; simp)+

lemma stored_field_ok [simp]: "field_ok t (stored_value v) = field_ok t v"
  by (induction t; cases v) auto

lemma field_ok_same: "stored_value v = stored_value w \<Longrightarrow> field_ok t v = field_ok t w"
  by (metis stored_field_ok)

lemma supplied_same: "stored_value v = stored_value w \<Longrightarrow> supplied v = supplied w \<and> (v = NoneV \<longleftrightarrow> w = NoneV)"
  by (metis stored_value_None)

lemma retention_same:
  assumes "stored_value v = stored_value v'" and "stored_value w = stored_value w'"
    and "validate_retention v' w' = Inr u" and "has_timezone v" and "has_timezone w"
  shows "validate_retention v w = Inr u"
proof -
  from assms(3) have "has_timezone v'" "has_timezone w'" by (auto simp: validate_retention_def res_bind_Inr_iff)
  with assms(4,5) obtain t t' x x' where "v = TimeV True t" "v' = TimeV True t'" "w = TimeV True x" "w' = TimeV True x'"
    by (auto simp: has_timezone_def split: field_value.splits)
  with assms(1-3) show ?thesis by simp
qed

text \<open>Validity of a contract rests on its values as they are stored.\<close>

lemma valid_report_same:
  assumes "valid_report r'" and "cr_status r = cr_status r'" and "cr_aggregation_status r = cr_aggregation_status r'"
    and "cr_comparison_status r = cr_comparison_status r'"
    and "\<And>f. f \<in> set (map fst REPORT_FIELD_TYPES) \<Longrightarrow> f \<noteq> ''updated_at'' \<Longrightarrow> stored_value (cr_value r f) = stored_value (cr_value r' f)"
    and "field_ok Moment (cr_value r ''updated_at'')"
    and "has_timezone (cr_value r ''created_at'')" and "has_timezone (cr_value r ''retention_expires_at'')"
  shows "valid_report r"
proof -
  have moment: "(''updated_at'', t) \<in> set REPORT_FIELD_TYPES \<Longrightarrow> t = Moment" for t
    by (auto simp: REPORT_FIELD_TYPES_def)
  have fields: "fields_ok REPORT_FIELD_TYPES (cr_value r') \<Longrightarrow> fields_ok REPORT_FIELD_TYPES (cr_value r)"
    unfolding fields_ok_def list_all_iff
  proof safe
    fix f t assume ok: "\<forall>x\<in>set REPORT_FIELD_TYPES. case x of (f, t) \<Rightarrow> field_ok t (cr_value r' f)" and mem: "(f, t) \<in> set REPORT_FIELD_TYPES"
    show "field_ok t (cr_value r f)"
    proof (cases "f = ''updated_at''")
      case True
      with mem moment assms(6) show ?thesis by blast
    next
      case False
      from mem have "f \<in> set (map fst REPORT_FIELD_TYPES)" by force
      from field_ok_same [OF assms(5) [OF this False]] ok mem show ?thesis by blast
    qed
  qed
  have same: "stored_value (cr_value r f) = stored_value (cr_value r' f)"
    if "f \<in> {''created_at'', ''retention_expires_at'', ''aggregate_output_uri'', ''aggregate_output_sha256'',
      ''aggregate_schema_version'', ''comparison_output_uri'', ''comparison_output_sha256'', ''comparison_schema_version'',
      ''completed_at'', ''error_code'', ''comparison_completed_at'', ''comparison_error_code'', ''comparison_error_summary''}" for f
    by (rule assms(5)) (use that in \<open>auto simp: REPORT_FIELD_TYPES_def\<close>)
  note present = supplied_same [OF same]
  have "all_supplied (aggregate_output r) = all_supplied (aggregate_output r')"
    "any_supplied (aggregate_output r) = any_supplied (aggregate_output r')"
    "all_supplied (comparison_output r) = all_supplied (comparison_output r')"
    "any_supplied (comparison_output r) = any_supplied (comparison_output r')"
    by (simp_all add: all_supplied_def any_supplied_def aggregate_output_def comparison_output_def present)
  then have "validate_report_lifecycle r = validate_report_lifecycle r'"
    "validate_comparison_state r = validate_comparison_state r'"
    by (simp_all add: validate_report_lifecycle_def validate_successful_report_def validate_comparison_state_def
        validate_incomplete_comparison_def validate_completed_comparison_def validate_failed_comparison_def present assms(2-4)
        del: list.map)
  moreover have "validate_retention (cr_value r ''created_at'') (cr_value r ''retention_expires_at'') = Inr u"
    if "validate_retention (cr_value r' ''created_at'') (cr_value r' ''retention_expires_at'') = Inr u" for u
    by (rule retention_same [OF same same that assms(7,8)]) simp_all
  moreover note fields
  ultimately show ?thesis
    using assms(1) by (simp add: valid_report_def validated_report_def res_bind_Inr_iff)
qed


lemma valid_simulation_same:
  assumes "valid_simulation s'" and "cs_status s = cs_status s'"
    and "\<And>f. f \<in> set (map fst SIMULATION_FIELD_TYPES) \<Longrightarrow> f \<noteq> ''updated_at'' \<Longrightarrow> stored_value (cs_value s f) = stored_value (cs_value s' f)"
    and "field_ok Moment (cs_value s ''updated_at'')"
    and "has_timezone (cs_value s ''created_at'')" and "has_timezone (cs_value s ''retention_expires_at'')"
  shows "valid_simulation s"
proof -
  have moment: "(''updated_at'', t) \<in> set SIMULATION_FIELD_TYPES \<Longrightarrow> t = Moment" for t
    by (auto simp: SIMULATION_FIELD_TYPES_def)
  have fields: "fields_ok SIMULATION_FIELD_TYPES (cs_value s') \<Longrightarrow> fields_ok SIMULATION_FIELD_TYPES (cs_value s)"
    unfolding fields_ok_def list_all_iff
  proof safe
    fix f t assume ok: "\<forall>x\<in>set SIMULATION_FIELD_TYPES. case x of (f, t) \<Rightarrow> field_ok t (cs_value s' f)"
      and mem: "(f, t) \<in> set SIMULATION_FIELD_TYPES"
    show "field_ok t (cs_value s f)"
    proof (cases "f = ''updated_at''")
      case True
      with mem moment assms(4) show ?thesis by blast
    next
      case False
      from mem have "f \<in> set (map fst SIMULATION_FIELD_TYPES)" by force
      from field_ok_same [OF assms(3) [OF this False]] ok mem show ?thesis by blast
    qed
  qed
  have same: "stored_value (cs_value s f) = stored_value (cs_value s' f)"
    if "f \<in> {''created_at'', ''retention_expires_at'', ''output_uri'', ''output_sha256'', ''output_schema_version'',
      ''row_identity_columns'', ''row_count'', ''row_identity_sha256'', ''completed_at'', ''error_code''}" for f
    by (rule assms(3)) (use that in \<open>auto simp: SIMULATION_FIELD_TYPES_def\<close>)
  note present = supplied_same [OF same]
  have outputs: "all_supplied (simulation_output s) = all_supplied (simulation_output s')"
    "any_supplied (simulation_output s) = any_supplied (simulation_output s')"
    by (simp_all add: all_supplied_def any_supplied_def simulation_output_def present)
  have "(case cs_value s ''row_identity_columns'' of TextsV columns \<Rightarrow> g columns | _ \<Rightarrow> y)
      = (case cs_value s' ''row_identity_columns'' of TextsV columns \<Rightarrow> g columns | _ \<Rightarrow> y)" for g and y :: "unit result"
    using same [of "''row_identity_columns''"]
    by (cases "cs_value s ''row_identity_columns''"; cases "cs_value s' ''row_identity_columns''") simp_all
  with outputs have "validate_simulation_state s = validate_simulation_state s'"
    by (simp add: validate_simulation_state_def present assms(2) del: list.map)
  moreover have "validate_retention (cs_value s ''created_at'') (cs_value s ''retention_expires_at'') = Inr u"
    if "validate_retention (cs_value s' ''created_at'') (cs_value s' ''retention_expires_at'') = Inr u" for u
    by (rule retention_same [OF same same that assms(5,6)]) simp_all
  moreover note fields
  ultimately show ?thesis
    using assms(1) by (simp add: valid_simulation_def validated_simulation_def res_bind_Inr_iff)
qed

lemma valid_report_facts:
  assumes "valid_report r"
  shows "has_timezone (cr_value r ''created_at'')" and "has_timezone (cr_value r ''retention_expires_at'')"
    and "field_ok Moment (cr_value r ''updated_at'')" and "f \<in> set REPORT_CONFLICT_FIELDS \<Longrightarrow> stored_value (cr_value r f) = cr_value r f"
    and "stored_value (cr_value r ''evaluation_id'') = cr_value r ''evaluation_id''"
proof -
  from assms have types: "fields_ok REPORT_FIELD_TYPES (cr_value r)"
    and retention: "validate_retention (cr_value r ''created_at'') (cr_value r ''retention_expires_at'') = Inr ()"
    by (auto simp: valid_report_def validated_report_def res_bind_Inr_iff)
  from retention show "has_timezone (cr_value r ''created_at'')" "has_timezone (cr_value r ''retention_expires_at'')"
    by (auto simp: validate_retention_def res_bind_Inr_iff)
  from types show "field_ok Moment (cr_value r ''updated_at'')"
    unfolding fields_ok_def REPORT_FIELD_TYPES_def by simp
  have timeless: "stored_value (cr_value r f) = cr_value r f"
    if "(f, t) \<in> set REPORT_FIELD_TYPES" "t \<in> {ContractText, Sha256Digest, DatasetUri, Uuid, CountryId, ContractVersion}" for f t
    using types that unfolding fields_ok_def list_all_iff by (cases "cr_value r f") fastforce+
  show "stored_value (cr_value r ''evaluation_id'') = cr_value r ''evaluation_id''"
    by (rule timeless [of _ Uuid]) (simp_all add: REPORT_FIELD_TYPES_def)
  have "\<forall>f\<in>set REPORT_CONFLICT_FIELDS. \<exists>t. (f, t) \<in> set REPORT_FIELD_TYPES
      \<and> t \<in> {ContractText, Sha256Digest, DatasetUri, Uuid, CountryId, ContractVersion}"
    by (simp add: REPORT_CONFLICT_FIELDS_def REPORT_FIELD_TYPES_def)
  with timeless show "f \<in> set REPORT_CONFLICT_FIELDS \<Longrightarrow> stored_value (cr_value r f) = cr_value r f" by blast
qed

lemma valid_simulation_facts:
  assumes "valid_simulation s"
  shows "has_timezone (cs_value s ''created_at'')" and "has_timezone (cs_value s ''retention_expires_at'')"
    and "field_ok Moment (cs_value s ''updated_at'')"
    and "f \<in> set SIMULATION_CONFLICT_FIELDS \<Longrightarrow> f \<noteq> ''role'' \<Longrightarrow> stored_value (cs_value s f) = cs_value s f"
    and "stored_value (cs_value s ''simulation_execution_id'') = cs_value s ''simulation_execution_id''"
proof -
  from assms have types: "fields_ok SIMULATION_FIELD_TYPES (cs_value s)"
    and retention: "validate_retention (cs_value s ''created_at'') (cs_value s ''retention_expires_at'') = Inr ()"
    by (auto simp: valid_simulation_def validated_simulation_def res_bind_Inr_iff)
  from retention show "has_timezone (cs_value s ''created_at'')" "has_timezone (cs_value s ''retention_expires_at'')"
    by (auto simp: validate_retention_def res_bind_Inr_iff)
  from types show "field_ok Moment (cs_value s ''updated_at'')"
    unfolding fields_ok_def SIMULATION_FIELD_TYPES_def by simp
  have timeless: "stored_value (cs_value s f) = cs_value s f"
    if "(f, t) \<in> set SIMULATION_FIELD_TYPES" "t \<in> {ContractText, Sha256Digest, Uuid, ContractVersion}" for f t
    using types that unfolding fields_ok_def list_all_iff by (cases "cs_value s f") fastforce+
  show "stored_value (cs_value s ''simulation_execution_id'') = cs_value s ''simulation_execution_id''"
    by (rule timeless [of _ Uuid]) (simp_all add: SIMULATION_FIELD_TYPES_def)
  have "\<forall>f\<in>set SIMULATION_CONFLICT_FIELDS. f = ''role'' \<or> (\<exists>t. (f, t) \<in> set SIMULATION_FIELD_TYPES
      \<and> t \<in> {ContractText, Sha256Digest, Uuid, ContractVersion})"
    by (simp add: SIMULATION_CONFLICT_FIELDS_def SIMULATION_FIELD_TYPES_def)
  with timeless show "f \<in> set SIMULATION_CONFLICT_FIELDS \<Longrightarrow> f \<noteq> ''role'' \<Longrightarrow> stored_value (cs_value s f) = cs_value s f" by blast
qed


section \<open>Tables\<close>

text \<open>The checks of the two tables, which no valid contract fails.\<close>

definition report_table_ok :: "comparison_report \<Rightarrow> bool" where
  "report_table_ok r \<longleftrightarrow>
     cr_value r ''contract_version'' = IntV 1
     \<and> instant (cr_value r ''created_at'') < instant (cr_value r ''retention_expires_at'')
     \<and> (\<not> any_supplied (aggregate_output r) \<or> all_supplied (aggregate_output r))
     \<and> (cr_status r = SucceededRun \<longrightarrow>
          cr_aggregation_status r = SucceededAggregation \<and> supplied (cr_value r ''completed_at'')
          \<and> supplied (cr_value r ''aggregate_output_uri''))
     \<and> (cr_status r \<in> {FailedRun, SkippedRun} \<longrightarrow> supplied (cr_value r ''error_code''))"

definition simulation_table_ok :: "comparison_simulation \<Rightarrow> bool" where
  "simulation_table_ok s \<longleftrightarrow>
     cs_value s ''contract_version'' = IntV 1
     \<and> instant (cs_value s ''created_at'') < instant (cs_value s ''retention_expires_at'')
     \<and> (\<not> any_supplied (simulation_output s) \<or> all_supplied (simulation_output s))
     \<and> (cs_status s = SucceededRun \<longrightarrow> supplied (cs_value s ''completed_at'') \<and> supplied (cs_value s ''output_uri''))
     \<and> (cs_status s \<in> {FailedRun, SkippedRun} \<longrightarrow> supplied (cs_value s ''error_code''))"

lemma retention_positive: "validate_retention v w = Inr u \<Longrightarrow> instant v < instant w"
  by (simp add: validate_retention_def res_bind_Inr_iff)

lemma valid_report_fits_table:
  assumes "valid_report r"
  shows "report_table_ok r"
proof -
  from assms have valid: "fields_ok REPORT_FIELD_TYPES (cr_value r)"
      "validate_retention (cr_value r ''created_at'') (cr_value r ''retention_expires_at'') = Inr ()"
      "validate_report_lifecycle r = Inr ()"
    by (auto simp: valid_report_def validated_report_def res_bind_Inr_iff)
  have "(''contract_version'', ContractVersion) \<in> set REPORT_FIELD_TYPES" by (simp add: REPORT_FIELD_TYPES_def)
  with valid(1) have "cr_value r ''contract_version'' = IntV 1" unfolding fields_ok_def list_all_iff by fastforce
  moreover have "supplied (cr_value r ''aggregate_output_uri'')" if "all_supplied (aggregate_output r)"
    using that by (simp add: all_supplied_def aggregate_output_def)
  ultimately show ?thesis
    using valid(3) retention_positive [OF valid(2)]
    by (auto simp: report_table_ok_def validate_report_lifecycle_def validate_successful_report_def res_bind_Inr_iff supplied_def
        split: if_splits)
qed

lemma valid_simulation_fits_table:
  assumes "valid_simulation s"
  shows "simulation_table_ok s"
proof -
  from assms have valid: "fields_ok SIMULATION_FIELD_TYPES (cs_value s)"
      "validate_retention (cs_value s ''created_at'') (cs_value s ''retention_expires_at'') = Inr ()"
      "validate_simulation_state s = Inr ()"
    by (auto simp: valid_simulation_def validated_simulation_def res_bind_Inr_iff)
  have "(''contract_version'', ContractVersion) \<in> set SIMULATION_FIELD_TYPES" by (simp add: SIMULATION_FIELD_TYPES_def)
  with valid(1) have "cs_value s ''contract_version'' = IntV 1" unfolding fields_ok_def list_all_iff by fastforce
  moreover have "supplied (cs_value s ''output_uri'')" if "all_supplied (simulation_output s)"
    using that by (simp add: all_supplied_def simulation_output_def)
  ultimately show ?thesis
    using valid(3) retention_positive [OF valid(2)]
    by (auto simp: simulation_table_ok_def validate_simulation_state_def res_bind_Inr_iff supplied_def split: if_splits)
qed

section \<open>Moves\<close>

lemma status_values_inj:
  "run_status_value a = run_status_value b \<longleftrightarrow> a = b"
  "aggregation_status_value c = aggregation_status_value d \<longleftrightarrow> c = d"
  "comparison_status_value e = comparison_status_value f \<longleftrightarrow> e = f" "role_value g = role_value h \<longleftrightarrow> g = h"
proof -
  show "run_status_value a = run_status_value b \<longleftrightarrow> a = b" by (cases a; cases b; simp)
  show "aggregation_status_value c = aggregation_status_value d \<longleftrightarrow> c = d" by (cases c; cases d; simp)
  show "comparison_status_value e = comparison_status_value f \<longleftrightarrow> e = f" by (cases e; cases f; simp)
  show "role_value g = role_value h \<longleftrightarrow> g = h" by (cases g; cases h; simp)
qed

lemma report_field_value [simp]:
  "f \<notin> {''status'', ''aggregation_status'', ''comparison_status''} \<Longrightarrow> report_field r f = cr_value r f"
  by (simp add: report_field_def)

lemma report_status_fields [simp]:
  "report_field r ''status'' = report_field r' ''status'' \<longleftrightarrow> cr_status r = cr_status r'"
  "report_field r ''aggregation_status'' = report_field r' ''aggregation_status'' \<longleftrightarrow> cr_aggregation_status r = cr_aggregation_status r'"
  "report_field r ''comparison_status'' = report_field r' ''comparison_status'' \<longleftrightarrow> cr_comparison_status r = cr_comparison_status r'"
  by (simp_all add: report_field_def status_values_inj)

lemma simulation_field_value [simp]: "f \<notin> {''status'', ''role''} \<Longrightarrow> simulation_field s f = cs_value s f"
  by (simp add: simulation_field_def)

lemma simulation_status_fields [simp]:
  "simulation_field s ''status'' = simulation_field s' ''status'' \<longleftrightarrow> cs_status s = cs_status s'"
  "simulation_field s ''role'' = simulation_field s' ''role'' \<longleftrightarrow> cs_role s = cs_role s'"
  by (simp_all add: simulation_field_def status_values_inj)

lemma report_field_names:
  "f \<in> set REPORT_IMMUTABLE_FIELDS \<Longrightarrow> f \<notin> {''status'', ''aggregation_status'', ''comparison_status''}"
  "f \<in> set REPORT_IMMUTABLE_FIELDS \<Longrightarrow> f \<notin> set REPORT_MUTABLE_FIELDS \<and> f \<notin> set REPORT_COMPARISON_FIELDS \<and> f \<noteq> ''updated_at''"
  "f \<in> set REPORT_RESULT_COMPARISON_FIELDS \<Longrightarrow> f \<notin> set REPORT_MUTABLE_FIELDS \<and> f \<noteq> ''updated_at''"
  "f \<in> set REPORT_SUCCEEDED_REPLAY_FIELDS \<Longrightarrow> f \<notin> set REPORT_COMPARISON_FIELDS \<and> f \<noteq> ''updated_at''"
  "f \<in> set (map fst REPORT_FIELD_TYPES) \<Longrightarrow> f \<noteq> ''updated_at'' \<Longrightarrow>
     f \<in> set REPORT_MUTABLE_FIELDS \<or> f \<in> set REPORT_IMMUTABLE_FIELDS \<or> f \<in> set REPORT_RESULT_COMPARISON_FIELDS"
  "f \<in> set (map fst REPORT_FIELD_TYPES) \<Longrightarrow> f \<noteq> ''updated_at'' \<Longrightarrow>
     f \<in> set REPORT_COMPARISON_FIELDS \<or> f \<in> set REPORT_SUCCEEDED_REPLAY_FIELDS"
  "f \<in> set (map fst REPORT_FIELD_TYPES) \<Longrightarrow> f \<notin> {''status'', ''aggregation_status'', ''comparison_status''}"
  "''comparison_status'' \<in> set REPORT_RESULT_COMPARISON_FIELDS"
  "set REPORT_IMMUTABLE_FIELDS \<union> {''status'', ''aggregation_status''} \<subseteq> set REPORT_SUCCEEDED_REPLAY_FIELDS"
proof -
  have "list_all (\<lambda>f. f \<notin> {''status'', ''aggregation_status'', ''comparison_status''} \<and> f \<notin> set REPORT_MUTABLE_FIELDS
      \<and> f \<notin> set REPORT_COMPARISON_FIELDS \<and> f \<noteq> ''updated_at'' \<and> f \<in> set REPORT_SUCCEEDED_REPLAY_FIELDS) REPORT_IMMUTABLE_FIELDS"
    "list_all (\<lambda>f. f \<notin> set REPORT_MUTABLE_FIELDS \<and> f \<noteq> ''updated_at'') REPORT_RESULT_COMPARISON_FIELDS"
    "list_all (\<lambda>f. f \<notin> set REPORT_COMPARISON_FIELDS \<and> f \<noteq> ''updated_at'') REPORT_SUCCEEDED_REPLAY_FIELDS"
    "list_all (\<lambda>f. f = ''updated_at'' \<or> f \<in> set REPORT_MUTABLE_FIELDS \<or> f \<in> set REPORT_IMMUTABLE_FIELDS \<or> f \<in> set REPORT_RESULT_COMPARISON_FIELDS)
       (map fst REPORT_FIELD_TYPES)"
    "list_all (\<lambda>f. f = ''updated_at'' \<or> f \<in> set REPORT_COMPARISON_FIELDS \<or> f \<in> set REPORT_SUCCEEDED_REPLAY_FIELDS)
       (map fst REPORT_FIELD_TYPES)"
    "list_all (\<lambda>f. f \<notin> {''status'', ''aggregation_status'', ''comparison_status''}) (map fst REPORT_FIELD_TYPES)"
    "''comparison_status'' \<in> set REPORT_RESULT_COMPARISON_FIELDS"
    "''status'' \<in> set REPORT_SUCCEEDED_REPLAY_FIELDS" "''aggregation_status'' \<in> set REPORT_SUCCEEDED_REPLAY_FIELDS"
    by code_simp+
  note facts = this [unfolded list_all_iff]
  show "f \<in> set REPORT_IMMUTABLE_FIELDS \<Longrightarrow> f \<notin> {''status'', ''aggregation_status'', ''comparison_status''}"
    using facts(1) by fast
  show "f \<in> set REPORT_IMMUTABLE_FIELDS \<Longrightarrow> f \<notin> set REPORT_MUTABLE_FIELDS \<and> f \<notin> set REPORT_COMPARISON_FIELDS \<and> f \<noteq> ''updated_at''"
    using facts(1) by fast
  show "f \<in> set REPORT_RESULT_COMPARISON_FIELDS \<Longrightarrow> f \<notin> set REPORT_MUTABLE_FIELDS \<and> f \<noteq> ''updated_at''"
    using facts(2) by fast
  show "f \<in> set REPORT_SUCCEEDED_REPLAY_FIELDS \<Longrightarrow> f \<notin> set REPORT_COMPARISON_FIELDS \<and> f \<noteq> ''updated_at''"
    using facts(3) by fast
  show "f \<in> set (map fst REPORT_FIELD_TYPES) \<Longrightarrow> f \<noteq> ''updated_at'' \<Longrightarrow>
     f \<in> set REPORT_MUTABLE_FIELDS \<or> f \<in> set REPORT_IMMUTABLE_FIELDS \<or> f \<in> set REPORT_RESULT_COMPARISON_FIELDS"
    using facts(4) by fast
  show "f \<in> set (map fst REPORT_FIELD_TYPES) \<Longrightarrow> f \<noteq> ''updated_at'' \<Longrightarrow>
     f \<in> set REPORT_COMPARISON_FIELDS \<or> f \<in> set REPORT_SUCCEEDED_REPLAY_FIELDS"
    using facts(5) by fast
  show "f \<in> set (map fst REPORT_FIELD_TYPES) \<Longrightarrow> f \<notin> {''status'', ''aggregation_status'', ''comparison_status''}"
    using facts(6) by fast
  show "''comparison_status'' \<in> set REPORT_RESULT_COMPARISON_FIELDS"
    using facts(7) by fast
  show "set REPORT_IMMUTABLE_FIELDS \<union> {''status'', ''aggregation_status''} \<subseteq> set REPORT_SUCCEEDED_REPLAY_FIELDS"
    using facts(1,8,9) by fast
qed

text \<open>How a report may differ from what it was.\<close>

definition report_evolves :: "comparison_report \<Rightarrow> comparison_report \<Rightarrow> bool" where
  "report_evolves r r' \<longleftrightarrow>
     (\<forall>f\<in>set REPORT_IMMUTABLE_FIELDS. report_field r f = report_field r' f)
     \<and> (\<lambda>a b. b \<in> set (ALLOWED_TRANSITIONS a))\<^sup>*\<^sup>* (cr_status r) (cr_status r')
     \<and> (cr_status r = SucceededRun \<longrightarrow> (\<forall>f\<in>set REPORT_SUCCEEDED_REPLAY_FIELDS. report_field r f = report_field r' f))
     \<and> (cr_comparison_status r \<in> {MatchedComparison, DifferentComparison} \<longrightarrow>
          (\<forall>f\<in>set REPORT_RESULT_COMPARISON_FIELDS. report_field r f = report_field r' f))"

lemma report_evolves_refl [simp]: "report_evolves r r"
  by (simp add: report_evolves_def)

lemma report_evolves_trans: "report_evolves r r' \<Longrightarrow> report_evolves r' r'' \<Longrightarrow> report_evolves r r''"
proof -
  assume evolves: "report_evolves r r'" "report_evolves r' r''"
  have "cr_status r' = SucceededRun" if "cr_status r = SucceededRun"
    using that evolves(1) report_field_names(9) report_status_fields(1) [of r r'] unfolding report_evolves_def by auto
  moreover have "cr_comparison_status r' = cr_comparison_status r"
    if "cr_comparison_status r \<in> {MatchedComparison, DifferentComparison}"
    using that evolves(1) report_field_names(8) report_status_fields(3) [of r r'] unfolding report_evolves_def by auto
  moreover have "(\<lambda>a b. b \<in> set (ALLOWED_TRANSITIONS a))\<^sup>*\<^sup>* (cr_status r) (cr_status r'')"
    using evolves by (auto simp: report_evolves_def)
  ultimately show ?thesis using evolves unfolding report_evolves_def by auto
qed

lemma updated_report:
  assumes "valid_report row" and "valid_report record" and "checked_report_lifecycle row record = Inr False"
  shows "valid_report (updated_comparison_report now row record)"
    and "report_evolves row (updated_comparison_report now row record)"
proof -
  let ?r = "updated_comparison_report now row record"
  from assms(3) have checks: "\<forall>f\<in>set REPORT_IMMUTABLE_FIELDS. report_field row f = report_field record f"
      "\<forall>f\<in>set REPORT_RESULT_COMPARISON_FIELDS. report_field row f = report_field record f"
      "cr_status record \<in> set (ALLOWED_TRANSITIONS (cr_status row))" "cr_status row \<noteq> SucceededRun"
    by (auto simp: checked_report_lifecycle_def res_bind_Inr_iff require_report_fields_def
        require_lifecycle_transition_def require_aggregation_transition_def split: if_splits)
  have vals: "cr_value ?r f = (if f \<in> set REPORT_MUTABLE_FIELDS then stored_value (cr_value record f) else cr_value row f)"
    if "f \<noteq> ''updated_at''" for f
    using that by (simp add: updated_comparison_report_def assigned_fields_def)
  have comparison: "cr_comparison_status row = cr_comparison_status record"
    using checks(2) report_field_names(8) report_status_fields(3) [of row "record"] by blast
  have statuses: "cr_status ?r = cr_status record" "cr_aggregation_status ?r = cr_aggregation_status record"
    "cr_comparison_status ?r = cr_comparison_status row"
    by (simp_all add: updated_comparison_report_def)
  have fixed: "cr_value ?r f = cr_value row f" if "f \<in> set REPORT_IMMUTABLE_FIELDS" for f
    using vals [of f] report_field_names(2) [OF that] by simp
  have zones: "''created_at'' \<in> set REPORT_IMMUTABLE_FIELDS" "''retention_expires_at'' \<in> set REPORT_IMMUTABLE_FIELDS" by code_simp+
  show "valid_report ?r"
  proof (rule valid_report_same [OF assms(2)])
    fix f assume f: "f \<in> set (map fst REPORT_FIELD_TYPES)" "f \<noteq> ''updated_at''"
    have "cr_value row f = cr_value record f" if "f \<notin> set REPORT_MUTABLE_FIELDS"
      using report_field_names(5) [OF f] that checks(1,2) report_field_value [OF report_field_names(7) [OF f(1)]] by metis
    then show "stored_value (cr_value ?r f) = stored_value (cr_value record f)" using vals [OF f(2)] by simp
  next
    have "''updated_at'' \<in> set REPORT_MUTABLE_FIELDS" by code_simp
    moreover have "field_ok Moment (TimeV True now)" by simp
    ultimately show "field_ok Moment (cr_value ?r ''updated_at'')"
      using valid_report_facts(3) [OF assms(2)] stored_field_ok [of Moment "cr_value record ''updated_at''"]
      by (simp add: updated_comparison_report_def assigned_fields_def del: field_ok.simps)
  qed (use valid_report_facts(1,2) [OF assms(1)] fixed zones statuses comparison in simp_all)
  have "report_field ?r f = report_field row f" if "f \<in> set REPORT_RESULT_COMPARISON_FIELDS" for f
    using that vals [of f] report_field_names(3) [OF that] statuses
    by (cases "f \<in> {''status'', ''aggregation_status'', ''comparison_status''}")
      (auto simp: report_field_def REPORT_RESULT_COMPARISON_FIELDS_def)
  then show "report_evolves row ?r"
    using checks(3,4) fixed statuses report_field_value [OF report_field_names(1)]
    by (auto simp: report_evolves_def)
qed


lemma updated_result_comparison:
  assumes "valid_report row" and "valid_report record" and "checked_result_comparison row record = Inr False"
  shows "valid_report (updated_report_result_comparison now row record)"
    and "report_evolves row (updated_report_result_comparison now row record)"
proof -
  let ?r = "updated_report_result_comparison now row record"
  from assms(3) have checks: "\<forall>f\<in>set REPORT_SUCCEEDED_REPLAY_FIELDS. report_field row f = report_field record f"
      "cr_comparison_status row \<notin> {MatchedComparison, DifferentComparison}"
    by (auto simp: checked_result_comparison_def res_bind_Inr_iff require_report_fields_def split: if_splits)
  have vals: "cr_value ?r f = (if f \<in> set REPORT_COMPARISON_FIELDS then stored_value (cr_value record f) else cr_value row f)"
    if "f \<noteq> ''updated_at''" for f
    using that by (simp add: updated_report_result_comparison_def assigned_fields_def)
  have statuses: "cr_status ?r = cr_status row" "cr_aggregation_status ?r = cr_aggregation_status row"
    "cr_comparison_status ?r = cr_comparison_status record"
    by (simp_all add: updated_report_result_comparison_def)
  have same: "cr_status row = cr_status record" "cr_aggregation_status row = cr_aggregation_status record"
    using checks(1) report_field_names(9) report_status_fields(1,2) [of row "record"] by blast+
  have fixed: "cr_value ?r f = cr_value row f" if "f \<in> set REPORT_IMMUTABLE_FIELDS" for f
    using vals [of f] report_field_names(2) [OF that] by simp
  have zones: "''created_at'' \<in> set REPORT_IMMUTABLE_FIELDS" "''retention_expires_at'' \<in> set REPORT_IMMUTABLE_FIELDS" by code_simp+
  show "valid_report ?r"
  proof (rule valid_report_same [OF assms(2)])
    fix f assume f: "f \<in> set (map fst REPORT_FIELD_TYPES)" "f \<noteq> ''updated_at''"
    have "cr_value row f = cr_value record f" if "f \<notin> set REPORT_COMPARISON_FIELDS"
      using report_field_names(6) [OF f] that checks(1) report_field_value [OF report_field_names(7) [OF f(1)]] by metis
    then show "stored_value (cr_value ?r f) = stored_value (cr_value record f)" using vals [OF f(2)] by simp
  next
    have "''updated_at'' \<in> set REPORT_COMPARISON_FIELDS" by code_simp
    moreover have "field_ok Moment (TimeV True now)" by simp
    ultimately show "field_ok Moment (cr_value ?r ''updated_at'')"
      using valid_report_facts(3) [OF assms(2)] stored_field_ok [of Moment "cr_value record ''updated_at''"]
      by (simp add: updated_report_result_comparison_def assigned_fields_def del: field_ok.simps)
  qed (use valid_report_facts(1,2) [OF assms(1)] fixed zones statuses same in simp_all)
  have "report_field ?r f = report_field row f" if f: "f \<in> set REPORT_SUCCEEDED_REPLAY_FIELDS" for f
    using vals [of f] report_field_names(4) [OF f] statuses f
    by (cases "f = ''comparison_status''")
      (auto simp: report_field_def REPORT_SUCCEEDED_REPLAY_FIELDS_def REPORT_RESULT_COMPARISON_FIELDS_def)
  then show "report_evolves row ?r"
    using checks(2) fixed statuses report_field_value [OF report_field_names(1)]
    by (auto simp: report_evolves_def)
qed

definition simulation_evolves :: "comparison_simulation \<Rightarrow> comparison_simulation \<Rightarrow> bool" where
  "simulation_evolves s s' \<longleftrightarrow>
     (\<forall>f\<in>set SIMULATION_IMMUTABLE_FIELDS. simulation_field s f = simulation_field s' f)
     \<and> (cs_status s = SucceededRun \<longrightarrow>
          (\<forall>f\<in>set SIMULATION_SUCCEEDED_REPLAY_FIELDS. simulation_field s f = simulation_field s' f))"

lemma simulation_evolves_refl [simp]: "simulation_evolves s s"
  by (simp add: simulation_evolves_def)

lemma simulation_field_names:
  "''status'' \<in> set SIMULATION_SUCCEEDED_REPLAY_FIELDS" "''role'' \<in> set SIMULATION_IMMUTABLE_FIELDS"
  "f \<in> set SIMULATION_IMMUTABLE_FIELDS \<Longrightarrow> f \<noteq> ''status''"
  "f \<in> set SIMULATION_IMMUTABLE_FIELDS \<Longrightarrow>
     f \<notin> set (''row_identity_columns'' # SIMULATION_MUTABLE_FIELDS) \<and> f \<noteq> ''updated_at''"
  "f \<in> set (map fst SIMULATION_FIELD_TYPES) \<Longrightarrow> f \<notin> {''status'', ''role''}"
  "f \<in> set (map fst SIMULATION_FIELD_TYPES) \<Longrightarrow>
     f \<in> set (''row_identity_columns'' # SIMULATION_MUTABLE_FIELDS) \<or> f \<in> set SIMULATION_IMMUTABLE_FIELDS"
proof -
  have "list_all (\<lambda>f. f \<noteq> ''status'') SIMULATION_IMMUTABLE_FIELDS"
    "list_all (\<lambda>f. f \<notin> set (''row_identity_columns'' # SIMULATION_MUTABLE_FIELDS) \<and> f \<noteq> ''updated_at'') SIMULATION_IMMUTABLE_FIELDS"
    "list_all (\<lambda>f. f \<notin> {''status'', ''role''}) (map fst SIMULATION_FIELD_TYPES)"
    "list_all (\<lambda>f. f \<in> set (''row_identity_columns'' # SIMULATION_MUTABLE_FIELDS) \<or> f \<in> set SIMULATION_IMMUTABLE_FIELDS)
       (map fst SIMULATION_FIELD_TYPES)" by code_simp+
  note facts = this [unfolded list_all_iff]
  show "''status'' \<in> set SIMULATION_SUCCEEDED_REPLAY_FIELDS" "''role'' \<in> set SIMULATION_IMMUTABLE_FIELDS" by code_simp+
  show "f \<in> set SIMULATION_IMMUTABLE_FIELDS \<Longrightarrow> f \<noteq> ''status''" using facts(1) by fast
  show "f \<in> set SIMULATION_IMMUTABLE_FIELDS \<Longrightarrow>
     f \<notin> set (''row_identity_columns'' # SIMULATION_MUTABLE_FIELDS) \<and> f \<noteq> ''updated_at''" using facts(2) by fast
  show "f \<in> set (map fst SIMULATION_FIELD_TYPES) \<Longrightarrow> f \<notin> {''status'', ''role''}" using facts(3) by fast
  show "f \<in> set (map fst SIMULATION_FIELD_TYPES) \<Longrightarrow>
     f \<in> set (''row_identity_columns'' # SIMULATION_MUTABLE_FIELDS) \<or> f \<in> set SIMULATION_IMMUTABLE_FIELDS" using facts(4) by fast
qed

lemma simulation_evolves_trans: "simulation_evolves s s' \<Longrightarrow> simulation_evolves s' s'' \<Longrightarrow> simulation_evolves s s''"
proof -
  assume evolves: "simulation_evolves s s'" "simulation_evolves s' s''"
  have "cs_status s' = SucceededRun" if "cs_status s = SucceededRun"
    using that evolves(1) simulation_field_names(1) simulation_status_fields(1) [of s s'] unfolding simulation_evolves_def by auto
  then show ?thesis using evolves unfolding simulation_evolves_def by auto
qed

lemma updated_simulation:
  assumes "valid_simulation row" and "valid_simulation record" and "checked_simulation_lifecycle row record = Inr False"
  shows "valid_simulation (updated_comparison_simulation now row record)"
    and "simulation_evolves row (updated_comparison_simulation now row record)"
proof -
  let ?s = "updated_comparison_simulation now row record"
  let ?names = "''row_identity_columns'' # SIMULATION_MUTABLE_FIELDS"
  from assms(3) have checks: "\<forall>f\<in>set SIMULATION_IMMUTABLE_FIELDS. simulation_field row f = simulation_field record f"
      "cs_status row \<noteq> SucceededRun"
    by (auto simp: checked_simulation_lifecycle_def res_bind_Inr_iff require_simulation_fields_def split: if_splits)
  have vals: "cs_value ?s f = (if f \<in> set ?names then stored_value (cs_value record f) else cs_value row f)"
    if "f \<noteq> ''updated_at''" for f
    using that by (simp add: updated_comparison_simulation_def assigned_fields_def)
  have statuses: "cs_status ?s = cs_status record" "cs_role ?s = cs_role row"
    by (simp_all add: updated_comparison_simulation_def)
  have fixed: "cs_value ?s f = cs_value row f" if "f \<in> set SIMULATION_IMMUTABLE_FIELDS" for f
    using vals [of f] simulation_field_names(4) [OF that] by (simp del: list.set)
  have zones: "''created_at'' \<in> set SIMULATION_IMMUTABLE_FIELDS" "''retention_expires_at'' \<in> set SIMULATION_IMMUTABLE_FIELDS" by code_simp+
  show "valid_simulation ?s"
  proof (rule valid_simulation_same [OF assms(2)])
    fix f assume f: "f \<in> set (map fst SIMULATION_FIELD_TYPES)" "f \<noteq> ''updated_at''"
    have "cs_value row f = cs_value record f" if "f \<notin> set ?names"
      using simulation_field_names(6) [OF f(1)] that checks(1) simulation_field_value [OF simulation_field_names(5) [OF f(1)]] by metis
    then show "stored_value (cs_value ?s f) = stored_value (cs_value record f)" using vals [OF f(2)] by (simp del: list.set)
  next
    have "''updated_at'' \<in> set ?names" by code_simp
    moreover have "field_ok Moment (TimeV True now)" by simp
    ultimately show "field_ok Moment (cs_value ?s ''updated_at'')"
      using valid_simulation_facts(3) [OF assms(2)] stored_field_ok [of Moment "cs_value record ''updated_at''"]
      by (simp add: updated_comparison_simulation_def assigned_fields_def del: field_ok.simps list.set)
  qed (use valid_simulation_facts(1,2) [OF assms(1)] fixed zones statuses in simp_all)
  show "simulation_evolves row ?s"
    using checks(2) fixed statuses simulation_field_names(3)
    by (auto simp: simulation_evolves_def simulation_field_def)
qed

end
