(* ===== verification/Comparison_Histories.thy ===== *)
theory Comparison_Histories
  imports Comparison_Contracts
begin

text \<open>
  Histories of comparison runs: the store stays well formed, a retry resolves to the row of its
  identity, and receipts never change.
\<close>

section \<open>Well-formed stores\<close>

definition child_of :: "comparison_simulation \<Rightarrow> comparison_report \<Rightarrow> bool" where
  "child_of s r \<longleftrightarrow>
     cs_value s ''evaluation_id'' = cr_value r ''evaluation_id''
     \<and> (\<forall>f\<in>set PARENT_FIELDS. cs_value s f = cr_value r f)"

definition report_identity :: "comparison_report \<Rightarrow> field_value list" where
  "report_identity r = map (report_field r) REPORT_IDENTITY"

definition simulation_identity_of :: "comparison_simulation \<Rightarrow> field_value list" where
  "simulation_identity_of s = map (simulation_field s) SIMULATION_IDENTITY"

definition comparison_db_ok :: "comparison_db \<Rightarrow> bool" where
  "comparison_db_ok db \<longleftrightarrow>
     (\<forall>r\<in>set (cd_reports db). valid_report r) \<and> (\<forall>s\<in>set (cd_simulations db). valid_simulation s)
     \<and> distinct (map (\<lambda>r. cr_value r ''evaluation_id'') (cd_reports db))
     \<and> distinct (map report_identity (cd_reports db))
     \<and> distinct (map (\<lambda>s. cs_value s ''simulation_execution_id'') (cd_simulations db))
     \<and> distinct (map simulation_identity_of (cd_simulations db))
     \<and> (\<forall>s\<in>set (cd_simulations db). \<exists>r\<in>set (cd_reports db). child_of s r)"

text \<open>What an operation does to the store, if anything.\<close>

inductive comparison_change :: "comparison_db \<Rightarrow> comparison_db \<Rightarrow> bool" where
  unchanged: "comparison_change db db"
| report_added: "valid_report r \<Longrightarrow> read_comparison_report_by_identity db r = None \<Longrightarrow>
     read_comparison_report db (report_field r ''evaluation_id'') = None \<Longrightarrow>
     comparison_change db (db\<lparr>cd_reports := cd_reports db @ [report_insert_values r]\<rparr>)"
| report_moved: "row \<in> set (cd_reports db) \<Longrightarrow> valid_report r \<Longrightarrow> report_evolves row r \<Longrightarrow>
     comparison_change db (put_report r db)"
| simulation_added: "valid_simulation s \<Longrightarrow> read_comparison_simulation_by_identity db s = None \<Longrightarrow>
     read_comparison_simulation db (simulation_field s ''simulation_execution_id'') = None \<Longrightarrow>
     parent \<in> set (cd_reports db) \<Longrightarrow> require_simulation_parent_matches parent s = Inr () \<Longrightarrow>
     comparison_change db (db\<lparr>cd_simulations := cd_simulations db @ [simulation_insert_values s]\<rparr>)"
| simulation_moved: "row \<in> set (cd_simulations db) \<Longrightarrow> valid_simulation s \<Longrightarrow> simulation_evolves row s \<Longrightarrow>
     comparison_change db (put_simulation s db)"

lemma comparison_identity_names:
  "set REPORT_IDENTITY \<subseteq> set REPORT_IMMUTABLE_FIELDS" "set SIMULATION_IDENTITY \<subseteq> set SIMULATION_IMMUTABLE_FIELDS"
  "''evaluation_id'' \<in> set REPORT_IMMUTABLE_FIELDS" "''simulation_execution_id'' \<in> set SIMULATION_IMMUTABLE_FIELDS"
  "set PARENT_FIELDS \<subseteq> set REPORT_IMMUTABLE_FIELDS" "set PARENT_FIELDS \<subseteq> set SIMULATION_IMMUTABLE_FIELDS"
  "''evaluation_id'' \<in> set SIMULATION_IMMUTABLE_FIELDS" "set REPORT_IDENTITY \<subseteq> set REPORT_CONFLICT_FIELDS"
  "set SIMULATION_IDENTITY \<subseteq> set SIMULATION_CONFLICT_FIELDS"
  "set REPORT_CONFLICT_FIELDS \<subseteq> set REPORT_IMMUTABLE_FIELDS"
  "set PARENT_FIELDS - {''created_at'', ''retention_expires_at''} \<subseteq> set SIMULATION_CONFLICT_FIELDS"
  "''evaluation_id'' \<in> set SIMULATION_CONFLICT_FIELDS" "''role'' \<notin> set PARENT_FIELDS"
  by code_simp+

lemma report_evolves_values:
  "report_evolves r r' \<Longrightarrow> f \<in> set REPORT_IMMUTABLE_FIELDS \<Longrightarrow> cr_value r' f = cr_value r f \<and> report_field r' f = report_field r f"
  using report_field_value [OF report_field_names(1)] unfolding report_evolves_def by metis

lemma simulation_evolves_values:
  "simulation_evolves s s' \<Longrightarrow> f \<in> set SIMULATION_IMMUTABLE_FIELDS \<Longrightarrow> simulation_field s' f = simulation_field s f"
  by (simp add: simulation_evolves_def)

lemma simulation_evolves_cs_values:
  "simulation_evolves s s' \<Longrightarrow> f \<in> set SIMULATION_IMMUTABLE_FIELDS \<Longrightarrow> f \<noteq> ''role'' \<Longrightarrow> cs_value s' f = cs_value s f"
  using simulation_evolves_values [of s s' f] simulation_field_names(3) [of f] by (simp add: simulation_field_def)

lemma stored_zone: "has_timezone v \<Longrightarrow> stored_value v = v"
  by (cases v) (auto simp: has_timezone_def)

lemma inserted_report:
  assumes "valid_report r"
  shows "valid_report (report_insert_values r)"
    and "f \<in> set REPORT_CONFLICT_FIELDS \<Longrightarrow> report_field (report_insert_values r) f = report_field r f"
    and "cr_value (report_insert_values r) ''evaluation_id'' = cr_value r ''evaluation_id''"
proof -
  note facts = valid_report_facts [OF assms]
  show "valid_report (report_insert_values r)"
    by (rule valid_report_same [OF assms])
      (use facts(1-3) stored_zone in \<open>simp_all add: report_insert_values_def del: field_ok.simps\<close>)
  show "f \<in> set REPORT_CONFLICT_FIELDS \<Longrightarrow> report_field (report_insert_values r) f = report_field r f"
    using facts(4) [of f] by (simp add: report_field_def report_insert_values_def)
  show "cr_value (report_insert_values r) ''evaluation_id'' = cr_value r ''evaluation_id''"
    using facts(5) by (simp add: report_insert_values_def)
qed

lemma inserted_simulation:
  assumes "valid_simulation s"
  shows "valid_simulation (simulation_insert_values s)"
    and "f \<in> set SIMULATION_CONFLICT_FIELDS \<union> set PARENT_FIELDS \<Longrightarrow> simulation_field (simulation_insert_values s) f = simulation_field s f"
    and "cs_value (simulation_insert_values s) ''simulation_execution_id'' = cs_value s ''simulation_execution_id''"
proof -
  note facts = valid_simulation_facts [OF assms]
  show "valid_simulation (simulation_insert_values s)"
    by (rule valid_simulation_same [OF assms])
      (use facts(1-3) stored_zone in \<open>simp_all add: simulation_insert_values_def del: field_ok.simps\<close>)
  show "f \<in> set SIMULATION_CONFLICT_FIELDS \<union> set PARENT_FIELDS \<Longrightarrow> simulation_field (simulation_insert_values s) f = simulation_field s f"
    using facts(1,2) facts(4) [of f] stored_zone comparison_identity_names(11)
    by (cases "f \<in> {''created_at'', ''retention_expires_at''}") (auto simp: simulation_field_def simulation_insert_values_def)
  show "cs_value (simulation_insert_values s) ''simulation_execution_id'' = cs_value s ''simulation_execution_id''"
    using facts(5) by (simp add: simulation_insert_values_def)
qed


lemma replaced_rows:
  assumes "distinct (map key xs)" and "row \<in> set xs" and "key r = key row"
  shows "k r = k row \<Longrightarrow> map k (map (\<lambda>x. if key x = key r then r else x) xs) = map k xs"
    and "set (map (\<lambda>x. if key x = key r then r else x) xs) = insert r (set xs - {row})"
proof -
  have same: "x = row" if "x \<in> set xs" "key x = key row" for x
    using that assms(1,2) by (auto simp: distinct_map dest: inj_onD)
  then show "k r = k row \<Longrightarrow> map k (map (\<lambda>x. if key x = key r then r else x) xs) = map k xs"
    using assms(3) by auto
  show "set (map (\<lambda>x. if key x = key r then r else x) xs) = insert r (set xs - {row})"
    using same assms(2,3) by auto
qed

lemma child_of_moved:
  assumes "child_of s row" and "report_evolves row r"
  shows "child_of s r"
proof -
  have "cr_value r f = cr_value row f" if "f \<in> insert ''evaluation_id'' (set PARENT_FIELDS)" for f
    using report_evolves_values [OF assms(2), of f] that comparison_identity_names(3,5) by blast
  with assms(1) show ?thesis unfolding child_of_def by (metis insertCI)
qed

lemma moved_child:
  assumes "child_of row r" and "simulation_evolves row s"
  shows "child_of s r"
proof -
  have "''evaluation_id'' \<noteq> ''role''" by simp
  then have "cs_value s f = cs_value row f" if "f \<in> insert ''evaluation_id'' (set PARENT_FIELDS)" for f
    using simulation_evolves_cs_values [OF assms(2), of f] that comparison_identity_names(6,7,13) by blast
  with assms(1) show ?thesis unfolding child_of_def by (metis insertCI)
qed

lemma comparison_change_ok:
  assumes "comparison_change db db'" and "comparison_db_ok db"
  shows "comparison_db_ok db'"
  using assms(1)
proof cases
  case unchanged
  with assms(2) show ?thesis by simp
next
  case (report_added r)
  note inserted = inserted_report [OF report_added(2)]
  have "report_identity (report_insert_values r) = report_identity r"
    using inserted(2) comparison_identity_names(8) by (auto simp: report_identity_def)
  moreover have "report_identity r \<notin> report_identity ` set (cd_reports db)"
    using report_added(3) by (auto simp: read_comparison_report_by_identity_def find_None_iff report_identity_def)
  moreover have "cr_value r ''evaluation_id'' \<notin> (\<lambda>x. cr_value x ''evaluation_id'') ` set (cd_reports db)"
    using report_added(4) by (auto simp: read_comparison_report_def find_None_iff)
  ultimately show ?thesis
    using assms(2) inserted(1,3) by (auto simp: comparison_db_ok_def report_added(1))
next
  case (report_moved row r)
  have ids: "distinct (map (\<lambda>r. cr_value r ''evaluation_id'') (cd_reports db))" using assms(2) by (simp add: comparison_db_ok_def)
  have key: "cr_value r ''evaluation_id'' = cr_value row ''evaluation_id''"
    using report_evolves_values [OF report_moved(4) comparison_identity_names(3)] by simp
  have identity: "report_identity r = report_identity row"
    using report_evolves_values [OF report_moved(4)] comparison_identity_names(1) by (auto simp: report_identity_def)
  note rows = replaced_rows [OF ids report_moved(2), of r, OF key]
  have "child_of s x \<Longrightarrow> x \<in> set (cd_reports db) \<Longrightarrow> \<exists>y\<in>insert r (set (cd_reports db) - {row}). child_of s y" for s x
    using child_of_moved [OF _ report_moved(4)] by (cases "x = row") auto
  note children = this
  have new: "map (\<lambda>r. cr_value r ''evaluation_id'') (cd_reports db') = map (\<lambda>r. cr_value r ''evaluation_id'') (cd_reports db)"
    "map report_identity (cd_reports db') = map report_identity (cd_reports db)"
    "set (cd_reports db') = insert r (set (cd_reports db) - {row})" "cd_simulations db' = cd_simulations db"
    using rows(1) [OF key] rows(1) [OF identity] rows(2) by (simp_all add: report_moved(1) put_report_def del: map_map list.set_map)
  show ?thesis
    using assms(2) report_moved(3) children unfolding comparison_db_ok_def new by blast
next
  case (simulation_added s parent)
  note inserted = inserted_simulation [OF simulation_added(2)]
  have "simulation_identity_of (simulation_insert_values s) = simulation_identity_of s"
    using inserted(2) comparison_identity_names(9) by (auto simp: simulation_identity_of_def)
  moreover have "simulation_identity_of s \<notin> simulation_identity_of ` set (cd_simulations db)"
    using simulation_added(3) by (auto simp: read_comparison_simulation_by_identity_def find_None_iff simulation_identity_of_def)
  moreover have "cs_value s ''simulation_execution_id'' \<notin> (\<lambda>x. cs_value x ''simulation_execution_id'') ` set (cd_simulations db)"
    using simulation_added(4) by (auto simp: read_comparison_simulation_def find_None_iff)
  moreover have "child_of (simulation_insert_values s) parent"
  proof -
    have "simulation_field s ''evaluation_id'' = report_field parent ''evaluation_id''"
      "\<forall>f\<in>set PARENT_FIELDS. simulation_field s f = report_field parent f"
      using simulation_added(6) by (auto simp: require_simulation_parent_matches_def find_None_iff split: if_splits option.splits)
    then have parent: "simulation_field s f = report_field parent f" if "f \<in> insert ''evaluation_id'' (set PARENT_FIELDS)" for f
      using that by blast
    have "cs_value (simulation_insert_values s) f = cr_value parent f" if f: "f \<in> insert ''evaluation_id'' (set PARENT_FIELDS)" for f
    proof -
      have "f \<in> set REPORT_IMMUTABLE_FIELDS" using f comparison_identity_names(3,5) by blast
      moreover have "f \<in> set SIMULATION_IMMUTABLE_FIELDS" using f comparison_identity_names(6,7) by blast
      moreover have "f \<noteq> ''role''" using f comparison_identity_names(13) by auto
      moreover have "simulation_field (simulation_insert_values s) f = simulation_field s f"
        using f comparison_identity_names(12) by (intro inserted(2)) blast
      ultimately show ?thesis
        using parent [OF f] report_field_value [OF report_field_names(1)] simulation_field_names(3) simulation_field_value [of f]
        by (metis empty_iff insert_iff)
    qed
    then show ?thesis by (simp add: child_of_def)
  qed
  ultimately show ?thesis
    using assms(2) inserted(1,3) simulation_added(5) by (auto simp: comparison_db_ok_def simulation_added(1))
next
  case (simulation_moved row s)
  have ids: "distinct (map (\<lambda>s. cs_value s ''simulation_execution_id'') (cd_simulations db))" using assms(2) by (simp add: comparison_db_ok_def)
  have key: "cs_value s ''simulation_execution_id'' = cs_value row ''simulation_execution_id''"
    using simulation_evolves_cs_values [OF simulation_moved(4) comparison_identity_names(4)] by simp
  have identity: "simulation_identity_of s = simulation_identity_of row"
    using simulation_evolves_values [OF simulation_moved(4)] comparison_identity_names(2) by (auto simp: simulation_identity_of_def)
  note rows = replaced_rows [OF ids simulation_moved(2), of s, OF key]
  have "child_of row r \<Longrightarrow> child_of s r" for r by (rule moved_child [OF _ simulation_moved(4)])
  note children = this
  have new: "map (\<lambda>s. cs_value s ''simulation_execution_id'') (cd_simulations db') = map (\<lambda>s. cs_value s ''simulation_execution_id'') (cd_simulations db)"
    "map simulation_identity_of (cd_simulations db') = map simulation_identity_of (cd_simulations db)"
    "set (cd_simulations db') = insert s (set (cd_simulations db) - {row})" "cd_reports db' = cd_reports db"
    using rows(1) [OF key] rows(1) [OF identity] rows(2) by (simp_all add: simulation_moved(1) put_simulation_def del: map_map list.set_map)
  show ?thesis
    using assms(2) simulation_moved(2,3) children unfolding comparison_db_ok_def new by blast
qed


lemma comparison_change_keeps:
  assumes "comparison_change db db'" and "comparison_db_ok db"
  shows "r \<in> set (cd_reports db) \<Longrightarrow> \<exists>r'\<in>set (cd_reports db'). report_evolves r r'"
    and "s \<in> set (cd_simulations db) \<Longrightarrow> \<exists>s'\<in>set (cd_simulations db'). simulation_evolves s s'"
proof -
  have "(\<forall>r\<in>set (cd_reports db). \<exists>r'\<in>set (cd_reports db'). report_evolves r r')
      \<and> (\<forall>s\<in>set (cd_simulations db). \<exists>s'\<in>set (cd_simulations db'). simulation_evolves s s')"
    using assms(1)
  proof cases
    case (report_moved row r)
    have ids: "distinct (map (\<lambda>r. cr_value r ''evaluation_id'') (cd_reports db))" using assms(2) by (simp add: comparison_db_ok_def)
    have key: "cr_value r ''evaluation_id'' = cr_value row ''evaluation_id''"
      using report_evolves_values [OF report_moved(4) comparison_identity_names(3)] by simp
    have "set (cd_reports db') = insert r (set (cd_reports db) - {row})" "cd_simulations db' = cd_simulations db"
      using replaced_rows(2) [OF ids report_moved(2), of r, OF key] by (simp_all add: report_moved(1) put_report_def del: list.set_map)
    with report_moved(4) show ?thesis by (metis Diff_iff insert_iff empty_iff report_evolves_refl simulation_evolves_refl)
  next
    case (simulation_moved row s)
    have ids: "distinct (map (\<lambda>s. cs_value s ''simulation_execution_id'') (cd_simulations db))" using assms(2) by (simp add: comparison_db_ok_def)
    have key: "cs_value s ''simulation_execution_id'' = cs_value row ''simulation_execution_id''"
      using simulation_evolves_cs_values [OF simulation_moved(4) comparison_identity_names(4)] by simp
    have "set (cd_simulations db') = insert s (set (cd_simulations db) - {row})" "cd_reports db' = cd_reports db"
      using replaced_rows(2) [OF ids simulation_moved(2), of s, OF key] by (simp_all add: simulation_moved(1) put_simulation_def del: list.set_map)
    with simulation_moved(4) show ?thesis by (metis Diff_iff insert_iff empty_iff report_evolves_refl simulation_evolves_refl)
  qed (auto intro: report_evolves_refl simulation_evolves_refl)
  then show "r \<in> set (cd_reports db) \<Longrightarrow> \<exists>r'\<in>set (cd_reports db'). report_evolves r r'"
    "s \<in> set (cd_simulations db) \<Longrightarrow> \<exists>s'\<in>set (cd_simulations db'). simulation_evolves s s'" by blast+
qed

section \<open>Operations\<close>

lemma transaction_kept: "comparison_transaction m db = (Inl e, db') \<Longrightarrow> db' = db"
  by (auto simp: comparison_transaction_def split: prod.splits sum.splits)

lemma create_report_change:
  assumes "comparison_transaction (create_or_resolve_report r) db = (res, db')" and "valid_report r"
  shows "comparison_change db db'"
proof -
  have "db' = db \<or> read_comparison_report_by_identity db r = None \<and> read_comparison_report db (report_field r ''evaluation_id'') = None
      \<and> db' = db\<lparr>cd_reports := cd_reports db @ [report_insert_values r]\<rparr>"
    using assms(1)
    by (cases "read_comparison_report_by_identity db r"; cases "read_comparison_report db (report_field r ''evaluation_id'')")
      (auto simp: comparison_transaction_def create_or_resolve_report_def create_comparison_report_def bindA_def
        split: prod.splits sum.splits)
  then show ?thesis using assms(2) by (auto intro: comparison_change.intros)
qed

lemma create_simulation_change:
  assumes "comparison_transaction (create_or_resolve_simulation s) db = (res, db')" and "valid_simulation s"
  shows "comparison_change db db'"
proof -
  let ?checked = "res_bind (stored_report db (simulation_field s ''evaluation_id'')) (\<lambda>row.
              res_bind (validated_report row) (\<lambda>parent. require_simulation_parent_matches parent s))"
  show ?thesis
  proof (cases ?checked)
    case (Inl e)
    with assms(1) have "db' = db"
      by (auto simp: comparison_transaction_def create_or_resolve_simulation_def bindA_def liftA_def split: sum.splits)
    then show ?thesis by (simp add: comparison_change.unchanged)
  next
    case (Inr u)
    then obtain parent where parent: "parent \<in> set (cd_reports db)" "require_simulation_parent_matches parent s = Inr ()"
      by (auto simp: res_bind_Inr_iff stored_report_def read_comparison_report_def validated_report_valid
          split: option.splits dest: find_mem)
    have "db' = db \<or> read_comparison_simulation_by_identity db s = None
        \<and> read_comparison_simulation db (simulation_field s ''simulation_execution_id'') = None
        \<and> db' = db\<lparr>cd_simulations := cd_simulations db @ [simulation_insert_values s]\<rparr>"
      using assms(1) Inr
      by (cases "read_comparison_simulation_by_identity db s";
          cases "read_comparison_simulation db (simulation_field s ''simulation_execution_id'')")
        (auto simp: comparison_transaction_def create_or_resolve_simulation_def create_comparison_simulation_def bindA_def liftA_def
          split: prod.splits sum.splits)
    then show ?thesis using assms(2) parent by (auto intro: comparison_change.intros)
  qed
qed

lemma replace_report_change:
  assumes "comparison_transaction (replace_report_lifecycle r) db = (res, db')" and "valid_report r"
  shows "comparison_change db db'"
proof (cases "db' = db")
  case True
  then show ?thesis by (simp add: comparison_change.unchanged)
next
  case False
  obtain row where row: "row \<in> set (cd_reports db)" "valid_report row" "checked_report_lifecycle row r = Inr False"
    "db' = put_report (updated_comparison_report (cd_clock db) row r) db"
  proof (cases "stored_report db (report_field r ''evaluation_id'')")
    case (Inl e)
    with assms(1) False show thesis
      by (auto simp: comparison_transaction_def replace_report_lifecycle_def bindA_def liftA_def)
  next
    case (Inr row)
    then have mem: "row \<in> set (cd_reports db)"
      by (auto simp: stored_report_def read_comparison_report_def split: option.splits dest: find_mem)
    obtain x where valid: "validated_report row = Inr x"
      using assms(1) False Inr
      by (cases "validated_report row") (auto simp: comparison_transaction_def replace_report_lifecycle_def bindA_def liftA_def)
    then have "x = row" "valid_report row" by (simp_all add: validated_report_valid)
    moreover from this valid have "checked_report_lifecycle row r = Inr False
        \<and> db' = put_report (updated_comparison_report (cd_clock db) row r) db"
      using assms(1) False Inr
      by (cases "checked_report_lifecycle row r")
        (auto simp: comparison_transaction_def replace_report_lifecycle_def bindA_def liftA_def retA_def
          update_comparison_report_def Let_def split: if_splits sum.splits prod.splits)
    ultimately show thesis using that mem by blast
  qed
  note updated = updated_report [OF row(2) assms(2) row(3)]
  show ?thesis unfolding row(4) by (rule comparison_change.report_moved [OF row(1) updated])
qed

lemma replace_comparison_change:
  assumes "comparison_transaction (replace_report_result_comparison r) db = (res, db')" and "valid_report r"
  shows "comparison_change db db'"
proof (cases "db' = db")
  case True
  then show ?thesis by (simp add: comparison_change.unchanged)
next
  case False
  obtain row where row: "row \<in> set (cd_reports db)" "valid_report row" "checked_result_comparison row r = Inr False"
    "db' = put_report (updated_report_result_comparison (cd_clock db) row r) db"
  proof (cases "stored_report db (report_field r ''evaluation_id'')")
    case (Inl e)
    with assms(1) False show thesis
      by (auto simp: comparison_transaction_def replace_report_result_comparison_def bindA_def liftA_def)
  next
    case (Inr row)
    then have mem: "row \<in> set (cd_reports db)"
      by (auto simp: stored_report_def read_comparison_report_def split: option.splits dest: find_mem)
    obtain x where valid: "validated_report row = Inr x"
      using assms(1) False Inr
      by (cases "validated_report row") (auto simp: comparison_transaction_def replace_report_result_comparison_def bindA_def liftA_def)
    then have "x = row" "valid_report row" by (simp_all add: validated_report_valid)
    moreover from this valid have "checked_result_comparison row r = Inr False
        \<and> db' = put_report (updated_report_result_comparison (cd_clock db) row r) db"
      using assms(1) False Inr
      by (cases "checked_result_comparison row r")
        (auto simp: comparison_transaction_def replace_report_result_comparison_def bindA_def liftA_def retA_def
          update_report_result_comparison_def Let_def split: if_splits sum.splits prod.splits)
    ultimately show thesis using that mem by blast
  qed
  note updated = updated_result_comparison [OF row(2) assms(2) row(3)]
  show ?thesis unfolding row(4) by (rule comparison_change.report_moved [OF row(1) updated])
qed

lemma replace_simulation_change:
  assumes "comparison_transaction (replace_simulation_lifecycle s) db = (res, db')" and "valid_simulation s"
  shows "comparison_change db db'"
proof (cases "db' = db")
  case True
  then show ?thesis by (simp add: comparison_change.unchanged)
next
  case False
  obtain row where row: "row \<in> set (cd_simulations db)" "valid_simulation row" "checked_simulation_lifecycle row s = Inr False"
    "db' = put_simulation (updated_comparison_simulation (cd_clock db) row s) db"
  proof (cases "read_comparison_simulation db (simulation_field s ''simulation_execution_id'')")
    case None
    with assms(1) False show thesis
      by (auto simp: comparison_transaction_def replace_simulation_lifecycle_def bindA_def liftA_def)
  next
    case (Some row)
    then have mem: "row \<in> set (cd_simulations db)" by (auto simp: read_comparison_simulation_def dest: find_mem)
    obtain x where valid: "validated_simulation row = Inr x"
      using assms(1) False Some
      by (cases "validated_simulation row") (auto simp: comparison_transaction_def replace_simulation_lifecycle_def bindA_def liftA_def)
    then have "x = row" "valid_simulation row" by (simp_all add: validated_simulation_valid)
    moreover from this valid have "checked_simulation_lifecycle row s = Inr False
        \<and> db' = put_simulation (updated_comparison_simulation (cd_clock db) row s) db"
      using assms(1) False Some
      by (cases "checked_simulation_lifecycle row s")
        (auto simp: comparison_transaction_def replace_simulation_lifecycle_def bindA_def liftA_def retA_def
          update_comparison_simulation_def Let_def split: if_splits sum.splits prod.splits)
    ultimately show thesis using that mem by blast
  qed
  note updated = updated_simulation [OF row(2) assms(2) row(3)]
  show ?thesis unfolding row(4) by (rule comparison_change.simulation_moved [OF row(1) updated])
qed


section \<open>Histories\<close>

text \<open>Any sequence of operations with valid contracts, whatever each answers, and time passing.\<close>

inductive comparison_history :: "comparison_db \<Rightarrow> comparison_db \<Rightarrow> bool" for db0 where
  start: "comparison_history db0 db0"
| report_created: "comparison_history db0 db \<Longrightarrow> valid_report r \<Longrightarrow>
     comparison_transaction (create_or_resolve_report r) db = (res, db') \<Longrightarrow> comparison_history db0 db'"
| simulation_created: "comparison_history db0 db \<Longrightarrow> valid_simulation s \<Longrightarrow>
     comparison_transaction (create_or_resolve_simulation s) db = (res', db') \<Longrightarrow> comparison_history db0 db'"
| report_replaced: "comparison_history db0 db \<Longrightarrow> valid_report r \<Longrightarrow>
     comparison_transaction (replace_report_lifecycle r) db = (res'', db') \<Longrightarrow> comparison_history db0 db'"
| comparison_replaced: "comparison_history db0 db \<Longrightarrow> valid_report r \<Longrightarrow>
     comparison_transaction (replace_report_result_comparison r) db = (res'', db') \<Longrightarrow> comparison_history db0 db'"
| simulation_replaced: "comparison_history db0 db \<Longrightarrow> valid_simulation s \<Longrightarrow>
     comparison_transaction (replace_simulation_lifecycle s) db = (res''', db') \<Longrightarrow> comparison_history db0 db'"
| later: "comparison_history db0 db \<Longrightarrow> comparison_history db0 (db\<lparr>cd_clock := t\<rparr>)"

lemma comparison_history_changes:
  assumes "comparison_history db0 db" and "comparison_db_ok db0"
  shows "comparison_db_ok db \<and> (\<forall>r\<in>set (cd_reports db0). \<exists>r'\<in>set (cd_reports db). report_evolves r r')
    \<and> (\<forall>s\<in>set (cd_simulations db0). \<exists>s'\<in>set (cd_simulations db). simulation_evolves s s')"
    (is "?kept db")
proof -
  have step: "?kept db'" if "?kept db" "comparison_change db db'" for db db'
  proof -
    have ok: "comparison_db_ok db" using that(1) by blast
    have "\<exists>r'\<in>set (cd_reports db'). report_evolves r r'" if "r \<in> set (cd_reports db0)" for r
      using that \<open>?kept db\<close> comparison_change_keeps(1) [OF \<open>comparison_change db db'\<close> ok] report_evolves_trans by metis
    moreover have "\<exists>s'\<in>set (cd_simulations db'). simulation_evolves s s'" if "s \<in> set (cd_simulations db0)" for s
      using that \<open>?kept db\<close> comparison_change_keeps(2) [OF \<open>comparison_change db db'\<close> ok] simulation_evolves_trans by metis
    ultimately show ?thesis using comparison_change_ok [OF \<open>comparison_change db db'\<close> ok] by blast
  qed
  from assms(1) show ?thesis
  proof induction
    case start
    from assms(2) show ?case by (auto intro: report_evolves_refl simulation_evolves_refl)
  next
    case (report_created db r res db')
    from step [OF report_created.IH create_report_change [OF report_created.hyps(3,2)]] show ?case .
  next
    case (simulation_created db s res db')
    from step [OF simulation_created.IH create_simulation_change [OF simulation_created.hyps(3,2)]] show ?case .
  next
    case (report_replaced db r res db')
    from step [OF report_replaced.IH replace_report_change [OF report_replaced.hyps(3,2)]] show ?case .
  next
    case (comparison_replaced db r res db')
    from step [OF comparison_replaced.IH replace_comparison_change [OF comparison_replaced.hyps(3,2)]] show ?case .
  next
    case (simulation_replaced db s res db')
    from step [OF simulation_replaced.IH replace_simulation_change [OF simulation_replaced.hyps(3,2)]] show ?case .
  next
    case (later db t)
    then show ?case by (simp add: comparison_db_ok_def)
  qed
qed

lemma find_unique: "distinct (map k xs) \<Longrightarrow> x \<in> set xs \<Longrightarrow> List.find (\<lambda>y. k y = k x) xs = Some x"
  by (induction xs) (auto simp: image_iff)

lemma get_report_iff:
  assumes "comparison_db_ok db"
  shows "get_comparison_report db key = Inr r \<longleftrightarrow> r \<in> set (cd_reports db) \<and> cr_value r ''evaluation_id'' = key"
proof -
  have ids: "distinct (map (\<lambda>r. cr_value r ''evaluation_id'') (cd_reports db))" "\<forall>r\<in>set (cd_reports db). valid_report r"
    using assms by (auto simp: comparison_db_ok_def)
  have "get_comparison_report db key = Inr r"
    if "r \<in> set (cd_reports db)" "cr_value r ''evaluation_id'' = key"
    using find_unique [OF ids(1) that(1)] that ids(2)
    by (auto simp: get_comparison_report_def stored_report_def read_comparison_report_def validated_report_valid)
  moreover have "r \<in> set (cd_reports db) \<and> cr_value r ''evaluation_id'' = key" if "get_comparison_report db key = Inr r"
    using that by (auto simp: get_comparison_report_def stored_report_def read_comparison_report_def validated_report_valid
        res_bind_Inr_iff split: option.splits dest: find_mem)
  ultimately show ?thesis by blast
qed

text \<open>
  C12. Whatever operations follow, a report stays readable by its id with its identity as
  created, its lifecycle having moved as allowed; once it succeeded its receipt is as it was,
  and so is the outcome of its comparison once that matched or differed.
\<close>

theorem comparison_receipts_are_final:
  assumes "comparison_history db0 db" and "comparison_db_ok db0" and "get_comparison_report db0 key = Inr r"
  shows "\<exists>r'. get_comparison_report db key = Inr r'
     \<and> (\<forall>f\<in>set REPORT_IMMUTABLE_FIELDS. report_field r' f = report_field r f)
     \<and> (\<lambda>a b. b \<in> set (ALLOWED_TRANSITIONS a))\<^sup>*\<^sup>* (cr_status r) (cr_status r')
     \<and> (cr_status r = SucceededRun \<longrightarrow> (\<forall>f\<in>set REPORT_SUCCEEDED_REPLAY_FIELDS. report_field r' f = report_field r f))
     \<and> (cr_comparison_status r \<in> {MatchedComparison, DifferentComparison} \<longrightarrow>
          (\<forall>f\<in>set REPORT_RESULT_COMPARISON_FIELDS. report_field r' f = report_field r f))"
proof -
  note kept = comparison_history_changes [OF assms(1,2)]
  have r: "r \<in> set (cd_reports db0)" "cr_value r ''evaluation_id'' = key" using assms(3) get_report_iff [OF assms(2)] by auto
  with kept obtain r' where r': "r' \<in> set (cd_reports db)" "report_evolves r r'" by blast
  have "cr_value r' ''evaluation_id'' = key"
    using report_evolves_values [OF r'(2) comparison_identity_names(3)] r(2) by simp
  with r'(1) kept have "get_comparison_report db key = Inr r'" using get_report_iff by blast
  with r'(2) show ?thesis unfolding report_evolves_def by (metis (no_types, lifting))
qed

text \<open>
  C24. A simulation's retry never misleads: in every history each stored simulation has the
  report it names, which still agrees with it on release and retention.
\<close>

theorem comparison_children_match:
  assumes "comparison_history db0 db" and "comparison_db_ok db0" and "s \<in> set (cd_simulations db)"
  shows "\<exists>r. get_comparison_report db (simulation_field s ''evaluation_id'') = Inr r
     \<and> require_simulation_parent_matches r s = Inr ()"
proof -
  have ok: "comparison_db_ok db" using comparison_history_changes [OF assms(1,2)] by blast
  with assms(3) obtain r where r: "r \<in> set (cd_reports db)" "child_of s r" by (auto simp: comparison_db_ok_def)
  have "simulation_field s f = report_field r f" if f: "f \<in> insert ''evaluation_id'' (set PARENT_FIELDS)" for f
  proof -
    have "f \<in> set REPORT_IMMUTABLE_FIELDS" using f comparison_identity_names(3,5) by blast
    moreover have "f \<in> set SIMULATION_IMMUTABLE_FIELDS" using f comparison_identity_names(6,7) by blast
    moreover have "f \<noteq> ''role''" using f comparison_identity_names(13) by auto
    moreover have "cs_value s f = cr_value r f" using r(2) f by (auto simp: child_of_def)
    ultimately show ?thesis
      using report_field_value [OF report_field_names(1)] simulation_field_names(3) simulation_field_value [of f]
      by (metis empty_iff insert_iff)
  qed
  note same = this
  have "cr_value r ''evaluation_id'' = simulation_field s ''evaluation_id''" using same [of "''evaluation_id''"] by simp
  moreover have "List.find (\<lambda>f. simulation_field s f \<noteq> report_field r f) PARENT_FIELDS = None"
    using same by (simp only: find_None_iff) blast
  ultimately have "require_simulation_parent_matches r s = Inr ()"
    using same [of "''evaluation_id''"] by (simp add: require_simulation_parent_matches_def)
  moreover note \<open>cr_value r ''evaluation_id'' = simulation_field s ''evaluation_id''\<close>
  ultimately have "require_simulation_parent_matches r s = Inr ()" "cr_value r ''evaluation_id'' = simulation_field s ''evaluation_id''"
    by blast+
  with r(1) get_report_iff [OF ok] show ?thesis by blast
qed

lemma find_append: "List.find P (xs @ ys) = (case List.find P xs of None \<Rightarrow> List.find P ys | Some x \<Rightarrow> Some x)"
  by (induction xs) auto

text \<open>
  C23. A retried creation resolves: after any further operations, creating the report again
  stores nothing and answers with the stored report of the same identity.
\<close>

theorem report_retry_resolves:
  assumes "comparison_transaction (create_or_resolve_report r) db0 = (Inr (stored, created), db1)" and "valid_report r"
    and "comparison_db_ok db0" and "comparison_history db1 db"
  shows "\<exists>stored'. comparison_transaction (create_or_resolve_report r) db = (Inr (stored', False), db)
     \<and> get_comparison_report db (report_field stored ''evaluation_id'') = Inr stored'"
proof -
  have ok1: "comparison_db_ok db1"
    by (rule comparison_change_ok [OF create_report_change [OF assms(1,2)] assms(3)])
  have first: "stored \<in> set (cd_reports db1) \<and> (\<forall>f\<in>set REPORT_CONFLICT_FIELDS. report_field stored f = report_field r f)"
  proof (cases "read_comparison_report_by_identity db0 r")
    case None
    with assms(1) have "read_comparison_report db0 (report_field r ''evaluation_id'') = None"
      by (auto simp: comparison_transaction_def create_or_resolve_report_def create_comparison_report_def bindA_def split: if_splits)
    moreover have "report_field (report_insert_values r) ''evaluation_id'' = report_field r ''evaluation_id''"
      using inserted_report(3) [OF assms(2)] by simp
    ultimately have "stored = report_insert_values r" "db1 = db0\<lparr>cd_reports := cd_reports db0 @ [report_insert_values r]\<rparr>"
      using assms(1) None
      by (auto simp: comparison_transaction_def create_or_resolve_report_def create_comparison_report_def bindA_def
          resolved_row_def validated_report_valid res_bind_Inr_iff read_comparison_report_def find_append
          split: prod.splits sum.splits option.splits dest: find_mem)
    with inserted_report(2) [OF assms(2)] show ?thesis by simp
  next
    case (Some row)
    then have "row \<in> set (cd_reports db0)" by (auto simp: read_comparison_report_by_identity_def dest: find_mem)
    with assms(1) Some show ?thesis
      by (auto simp: comparison_transaction_def create_or_resolve_report_def create_comparison_report_def bindA_def
          resolved_row_def validated_report_valid res_bind_Inr_iff require_report_fields_def split: prod.splits sum.splits)
  qed
  note kept = comparison_history_changes [OF assms(4) ok1]
  with first obtain stored' where stored': "stored' \<in> set (cd_reports db)" "report_evolves stored stored'" by blast
  have conflict: "report_field stored' f = report_field r f" if "f \<in> set REPORT_CONFLICT_FIELDS" for f
    using report_evolves_values [OF stored'(2), of f] first that comparison_identity_names(10) by auto
  have "report_identity stored' = report_identity r"
    using conflict comparison_identity_names(8) by (auto simp: report_identity_def)
  moreover have "distinct (map report_identity (cd_reports db))" using kept by (simp add: comparison_db_ok_def)
  ultimately have "read_comparison_report_by_identity db r = Some stored'"
    using find_unique [of report_identity "cd_reports db" stored'] stored'(1)
    by (simp add: read_comparison_report_by_identity_def report_identity_def)
  moreover have "valid_report stored'" using kept stored'(1) by (auto simp: comparison_db_ok_def)
  ultimately have "comparison_transaction (create_or_resolve_report r) db = (Inr (stored', False), db)"
    using require_equal_fields_iff [of "report_field stored'" "report_field r" REPORT_CONFLICT_FIELDS "()", THEN iffD2] conflict
    by (simp add: comparison_transaction_def create_or_resolve_report_def create_comparison_report_def bindA_def
        resolved_row_def validated_report_valid [THEN iffD2] require_report_fields_def del: require_equal_fields_iff)
  moreover have "get_comparison_report db (report_field stored ''evaluation_id'') = Inr stored'"
    using get_report_iff [of db] kept stored'(1) report_evolves_values [OF stored'(2) comparison_identity_names(3)] by simp
  ultimately show ?thesis by blast
qed


section \<open>Examples\<close>

definition example_value :: "(string \<times> field_type) list \<Rightarrow> (string \<times> field_value) list \<Rightarrow> string \<Rightarrow> field_value" where
  "example_value types given f =
     (case map_of given f of
        Some v \<Rightarrow> v
      | None \<Rightarrow>
          (case map_of types f of
             Some Uuid \<Rightarrow> TextV (replicate 36 CHR ''a'')
           | Some Sha256Digest \<Rightarrow> TextV (replicate 64 CHR ''0'')
           | Some CountryId \<Rightarrow> TextV ''us''
           | Some ContractVersion \<Rightarrow> IntV 1
           | Some Moment \<Rightarrow> TimeV True 0
           | Some (Optional t) \<Rightarrow> NoneV
           | Some t \<Rightarrow> TextV f
           | None \<Rightarrow> NoneV))"

definition succeeded_report :: comparison_report where
  "succeeded_report =
     \<lparr>cr_status = SucceededRun, cr_aggregation_status = SucceededAggregation, cr_comparison_status = PendingComparison,
      cr_value = example_value REPORT_FIELD_TYPES
        [(''aggregate_output_uri'', TextV ''gs://results/1''), (''aggregate_output_sha256'', TextV (replicate 64 CHR ''0'')),
         (''aggregate_schema_version'', IntV 1), (''completed_at'', TimeV True 5), (''retention_expires_at'', TimeV True 9)]\<rparr>"

definition pending_report :: comparison_report where
  "pending_report =
     \<lparr>cr_status = PendingRun, cr_aggregation_status = NotStartedAggregation, cr_comparison_status = PendingComparison,
      cr_value = example_value REPORT_FIELD_TYPES [(''retention_expires_at'', TimeV True 9)]\<rparr>"

definition pending_simulation :: comparison_simulation where
  "pending_simulation =
     \<lparr>cs_status = PendingRun, cs_role = BaselineRole,
      cs_value = example_value SIMULATION_FIELD_TYPES [(''retention_expires_at'', TimeV True 9)]\<rparr>"

definition empty_comparison_db :: comparison_db where
  "empty_comparison_db = \<lparr>cd_reports = [], cd_simulations = [], cd_clock = 0\<rparr>"

lemma empty_comparison_db_ok: "comparison_db_ok empty_comparison_db"
  by (simp add: comparison_db_ok_def empty_comparison_db_def)

lemma valid_examples: "valid_report succeeded_report" "valid_report pending_report" "valid_simulation pending_simulation"
proof -
  have "\<not> isl (validated_report succeeded_report)" "\<not> isl (validated_report pending_report)"
    "\<not> isl (validated_simulation pending_simulation)" by code_simp+
  then show "valid_report succeeded_report" "valid_report pending_report" "valid_simulation pending_simulation"
    using validated_report_valid validated_simulation_valid by (metis isl_def sum.exhaust_sel)+
qed

definition succeeded_db :: comparison_db where
  "succeeded_db = empty_comparison_db\<lparr>cd_reports := [succeeded_report]\<rparr>"

lemma succeeded_db_ok: "comparison_db_ok succeeded_db"
  using valid_examples(1) by (simp add: comparison_db_ok_def succeeded_db_def empty_comparison_db_def)

theorem comparison_receipts_are_final_witness:
  "\<exists>r'. get_comparison_report (snd (comparison_transaction (replace_report_lifecycle pending_report) succeeded_db))
       (TextV (replicate 36 CHR ''a'')) = Inr r'
     \<and> (\<forall>f\<in>set REPORT_SUCCEEDED_REPLAY_FIELDS. report_field r' f = report_field succeeded_report f)"
proof -
  have "cr_value succeeded_report ''evaluation_id'' = TextV (replicate 36 CHR ''a'')" by code_simp
  then have "get_comparison_report succeeded_db (TextV (replicate 36 CHR ''a'')) = Inr succeeded_report"
    using get_report_iff [OF succeeded_db_ok] by (simp add: succeeded_db_def)
  moreover have "cr_status succeeded_report = SucceededRun" by code_simp
  ultimately show ?thesis
    using comparison_receipts_are_final [OF comparison_history.report_replaced
        [OF comparison_history.start valid_examples(2) surjective_pairing] succeeded_db_ok]
    by blast
qed

theorem comparison_children_match_witness:
  "\<exists>s r. cd_simulations (snd (comparison_transaction (create_or_resolve_simulation pending_simulation) succeeded_db)) = [s]
     \<and> get_comparison_report (snd (comparison_transaction (create_or_resolve_simulation pending_simulation) succeeded_db))
         (simulation_field s ''evaluation_id'') = Inr r"
proof -
  let ?db = "snd (comparison_transaction (create_or_resolve_simulation pending_simulation) succeeded_db)"
  have "length (cd_simulations ?db) = 1" by code_simp
  then obtain s where s: "cd_simulations ?db = [s]" by (auto simp: length_Suc_conv)
  with comparison_children_match [OF comparison_history.simulation_created
      [OF comparison_history.start valid_examples(3) surjective_pairing] succeeded_db_ok, of s]
  show ?thesis by auto
qed

theorem report_retry_resolves_witness:
  "\<exists>stored db. comparison_transaction (create_or_resolve_report pending_report) empty_comparison_db = (Inr (stored, True), db)
     \<and> (\<exists>stored'. comparison_transaction (create_or_resolve_report pending_report) db = (Inr (stored', False), db))"
proof -
  have "map_sum (\<lambda>e. ()) snd (fst (comparison_transaction (create_or_resolve_report pending_report) empty_comparison_db)) = Inr True"
    by code_simp
  then obtain stored db where
    run: "comparison_transaction (create_or_resolve_report pending_report) empty_comparison_db = (Inr (stored, True), db)"
    by (cases "comparison_transaction (create_or_resolve_report pending_report) empty_comparison_db";
        cases "fst (comparison_transaction (create_or_resolve_report pending_report) empty_comparison_db)") auto
  from report_retry_resolves [OF run valid_examples(2) empty_comparison_db_ok comparison_history.start] run show ?thesis by blast
qed

end
