(* ===== verification/Spec2Isabelle.thy ===== *)
theory Spec2Isabelle
  imports Failure_Deletion Budget_Window_Answers Budget_Window_Reports V1_Histories
    Household_Histories Calculation_Replay Calculation_Inputs V2_Copies V2_Conversions Comparison_Histories
begin

text \<open>
  A verification development of the PolicyEngine API (\<open>policyengine_api/\<close>).

  The API answers three kinds of question over country models that are installed packages: what a
  household pays and receives (\<open>/calculate\<close> and the stored households of a policy), what a reform
  does to an economy in one year (\<open>/economy\<close>) or over a window of years (\<open>/economy/.../budget-window\<close>),
  and which stored simulations and reports answer a request. Economy results are computed by a
  remote simulation service; the API claims a submission in a shared cache so that one request
  submits each job, follows the job, stores its result, and answers from it. Everything a client
  stores (policies, households, simulations, reports) is deduplicated by content and kept in the
  v1 database; households and saved policies are also copied to API v2 through retained events.

  A reading order: \<open>Prelude\<close>, then one of the groups below, whose theories are listed in the
  order they import one another. Operations have the names they have under \<open>src/\<close>; a name that
  clashes has a suffix or a prefix. A fallible pure function returns \<open>exn + 'a\<close>, and one that also
  acts on a state is an \<open>act\<close>, which returns the state also when it raises.

  Shared foundations
    \<^item> \<open>Prelude\<close>: exceptions as values, results and actions, Python's string operations.
    \<^item> \<open>Json\<close>, \<open>Json_Codec\<close>, \<open>Json_Reader\<close>: JSON values, \<open>json.dumps\<close> and \<open>json.loads\<close>, that one reads back
      what the other wrote, and that what is read is well formed. The parser takes fuel: twice the
      length of the text and one more decides every text (\<open>loads_fuel_enough\<close>).
    \<^item> \<open>Calendar\<close>: \<open>datetime.date\<close> and naive \<open>datetime.datetime\<close>.
    \<^item> \<open>Act_Logic\<close>: what every answer of an action satisfies (\<open>yields\<close>), and what part of the state it
      leaves (\<open>stays\<close>), with their introduction rules collected for \<open>intro\<close>.

  The runtime cache (\<open>runtime_cache/\<close>, \<open>services/budget_window_cache.py\<close>)
    \<^item> \<open>Cache_Backend\<close>: the Redis subset as a record of operations, and the in-memory backend of
      \<open>fake.py\<close>. The interface is also a locale, interpreted on that backend.
    \<^item> \<open>Cache_Core\<close>: namespaces, envelopes, jittered lifetimes and claims; a claim excludes every
      other owner until it expires (\<open>claim_mutual_exclusion\<close>).
    \<^item> \<open>Reform_Impact_Cache\<close>, \<open>Budget_Window_Cache\<close>, \<open>Reform_Impacts_Service\<close>: the records of annual jobs
      with their expiring indexes, the state of a budget-window report, and the claims of both. An
      update never brings back a record that is gone, whatever other workers do between its read and
      its write (\<open>interrupted\<close>), and an index keeps the newest.

  The economy routes (\<open>services/economy_*.py\<close>, \<open>libs/simulation_entrypoint.py\<close>, \<open>spm.py\<close>, \<open>worker_spm.py\<close>)
    \<^item> \<open>Budget_Window\<close>, \<open>Economy_Types\<close>, \<open>Regions\<close>, \<open>Observability_Ids\<close>: the data of a request.
    \<^item> \<open>Spm\<close>, \<open>Spm_Receipts\<close>, \<open>Worker_SPM\<close>: SPM settings, and the receipts that certify which settings a
      result was computed with.
    \<^item> \<open>Simulation_Entrypoint\<close>, \<open>Simulation_Requests\<close>, \<open>Stored_Impacts\<close>, \<open>Impact_Execution\<close>,
      \<open>Economy_Service\<close>: the annual route, whole: every answer with a result carries receipts that certify
      it for the request (\<open>annual_answer_certified\<close>).
    \<^item> \<open>Economy_Claims\<close>, \<open>Failure_Deletion\<close>: what one request does to the claims, its own and those of
      others, and that only failures older than the lockout are ever deleted.
    \<^item> \<open>Budget_Window_Service\<close>, \<open>Budget_Window_Answers\<close>, \<open>Budget_Window_Reports\<close>: the budget-window route,
      its answers, and the abstract machine of a report's state, which a request advances by at most
      one step (\<open>request_takes_report_step\<close>, a refinement).

  The v1 database (\<open>services/simulation_*.py\<close>, \<open>services/report_*.py\<close>, their routes)
    \<^item> \<open>V1_Store\<close>, \<open>Population_Identity\<close>, \<open>Simulation_History\<close>, \<open>Simulation_Invariants\<close>, \<open>Report_Specs\<close>,
      \<open>Report_History\<close>, \<open>Report_Outputs\<close>, \<open>Report_Invariants\<close>, \<open>Report_Requests\<close>: the tables, the services, their
      invariants, and requests as transactions.
    \<^item> \<open>V1_Routes\<close>, \<open>V1_Histories\<close>: the views, and that any history of requests keeps the database well
      formed while a refusal changes nothing (\<open>v1_histories_well_formed\<close>, \<open>v1_refusal_changes_nothing\<close>).

  Policies and households of API v1 (\<open>services/policy_service.py\<close>, \<open>services/household_*.py\<close>, \<open>utils/\<close>)
    \<^item> \<open>Axis_Validation\<close>, \<open>Policy_Data_Validation\<close>, \<open>Input_Validation\<close>, \<open>Deprecated_Inputs\<close>: the checks of a
      payload, each with its meaning as a separate definition it is shown equal to.
    \<^item> \<open>Content_Hash\<close>, \<open>Strict_Json\<close>: hashed and canonical forms of JSON values.
    \<^item> \<open>Policy_Service\<close>: deduplicated policies; what is answered as created can be used.
    \<^item> \<open>Household_Service\<close>, \<open>Household_Histories\<close>: immutable households with retained events; a request
      is atomic, and a run of a retained event whose mirror completes either records the copy or, when
      the v1 session fails then, keeps the event to be run again (\<open>retained_household_is_copied\<close>).
    \<^item> \<open>Household_Calculations\<close>, \<open>Calculation_Replay\<close>, \<open>Calculation_Inputs\<close>: calculated households and
      their cache; a cached answer carries the receipt of the selection it is asked for.

  API v2 (\<open>services/v2/\<close>)
    \<^item> \<open>V2_Household_Documents\<close>, \<open>V2_Households\<close>, \<open>V2_Copies\<close>: households stored once per canonical content,
      the translation of v1 households, and both APIs composed: an event recorded as processed has its
      household in API v2 (\<open>processed_household_is_in_v2\<close>, which composes the requests and retries
      of API v1 with the transactions of API v2 and of others).
    \<^item> \<open>Comparison_Runs\<close>, \<open>Comparison_Contracts\<close>, \<open>Comparison_Histories\<close>: the reports and simulations of
      copied calculations, the moves of their statuses, and that receipts are final.
    \<^item> \<open>V2_Policy_Documents\<close>, \<open>V2_Policies\<close>, \<open>V2_Policy_Copies\<close>: policies bound to a published catalog
      and the copies of v1 policies, which read back as the values they have in v1
      (\<open>copied_policy_reads_back\<close>) and stay their copies (\<open>mirrored_policy_is_stable\<close>).
    \<^item> \<open>User_Policies\<close>, \<open>V2_Accounts\<close>, \<open>V2_User_Policies\<close>: the policies users save in API v1 with their
      retained revisions, the users and sign-in identities of API v2, and the policies users save
      there. \<open>User_Policy_Copies\<close>, \<open>User_Policy_Steps\<close>, \<open>User_Policy_Requests\<close>: the revisions copied in
      order. The histories of one saved policy, whose updates are all recorded, are the step
      relation \<open>saved_policy_steps\<close>, with an invariant over both databases (\<open>in_step\<close>); a request that copies ends and leaves API v2 with
      what the saved policy then projects to (\<open>saved_policy_copy_is_current\<close>).
    \<^item> \<open>V2_User_Requests\<close>, \<open>V2_Conversions\<close>: requests of other users leave those copies as they are,
      and a browser that signs in keeps its saved work.

  Bounds and fuel. A cached document is parsed with fuel twice its length and one more.
  Progress shares are computed in binary64 for counts below 2 to the 40. Characters are the code points 0 to 255; an escape of a higher code point in a JSON text is read as its
  UTF-8 bytes. The interpreter's own limits are left out: the depth at which \<open>json.loads\<close> raises
  RecursionError, and the 4,300 digits beyond which it refuses an int. The default year of a household,
  an int key in the source, is held as its text: it is the only key of the object it is a key of.
  A clock is in microseconds.

  What is a parameter. Digests, sources of identifiers and of random numbers, the clock, the text of a
  pydantic report, the installed packages (country metadata, the parse and calculate functions of a
  country model, period readings, bundle manifests), the HTTP exchange with the simulation service,
  database failures (of a household's event session also after its mirror ran), and what other sessions commit during a copy. A hypothesis on one of them says
  what it does: identifiers are not drawn twice (\<open>inj (v2_uuid env)\<close>), other sessions leave API v2's
  store well formed and remove nothing (\<open>others_ok\<close>, \<open>policy_others_ok\<close>), or leave
  one saved policy, its copy or one browser's user alone (\<open>elsewhere\<close>, \<open>keep_copy\<close>, \<open>leaves_user\<close>), the collaborators of the economy service do not
  write to its cache (\<open>isolated\<close>); each theorem that has one is followed by a closed instance.

  Not modelled. The FastAPI and Flask applications themselves (routing, middleware, startup,
  readiness), telemetry, logging and metrics, authentication, the ORM's engine and pool, the reads
  and the publication of API v2's metadata catalog (its selection is modelled), the other associations and resources of API v2, the wrapper around the
  country packages (\<open>country.py\<close>, whose result is a parameter), migrations, and the scripts that
  build, deploy and check the repository: they hold no rule of the components above, or are input and
  output only. Threads are not modelled: a cache operation is one step, a database request one
  transaction, and interleavings are histories of those steps.
\<close>

end
